(* ===== verification/Prelude.thy ===== *)
theory Prelude
  imports Main "HOL-Library.Char_ord" "HOL-Library.List_Lexorder" "HOL-Library.Sublist"
    "HOL-Library.AList"
begin

text \<open>
  What every component shares. Python's exceptions are values: a computation that may raise has
  type \<open>'e + 'a\<close>, with \<open>Inl\<close> for the exception, and a computation that also
  changes state has type \<open>'s \<Rightarrow> ('e + 'a) \<times> 's\<close>: the state that comes back with
  \<open>Inl\<close> keeps the effects made before the exception, as in Python. Two interfaces are stated
  as locales: a transition system with an invariant, and the dictionary operations.
\<close>

named_theorems monad_simps \<open>unfolding of the exception and state monads\<close>
named_theorems py_simps \<open>evaluation of the Python primitives\<close>

section \<open>Computations that may raise\<close>

definition bindE :: "'e + 'a \<Rightarrow> ('a \<Rightarrow> 'e + 'b) \<Rightarrow> 'e + 'b" where
  "bindE m f = (case m of Inl e \<Rightarrow> Inl e | Inr x \<Rightarrow> f x)"

text \<open>\<open>if not b: raise e\<close>\<close>

definition require :: "bool \<Rightarrow> 'e \<Rightarrow> 'e + unit" where
  "require b e = (if b then Inr () else Inl e)"

text \<open>\<open>try: m; except \<dots>: raise g from e\<close>, the handler applied to every exception.\<close>

definition map_exn :: "('e \<Rightarrow> 'f) \<Rightarrow> 'e + 'a \<Rightarrow> 'f + 'a" where
  "map_exn g m = (case m of Inl e \<Rightarrow> Inl (g e) | Inr x \<Rightarrow> Inr x)"

text \<open>A comprehension or a loop whose body may raise: the first exception ends it.\<close>

fun mapE :: "('a \<Rightarrow> 'e + 'b) \<Rightarrow> 'a list \<Rightarrow> 'e + 'b list" where
  "mapE f [] = Inr []"
| "mapE f (x # xs) = bindE (f x) (\<lambda>y. bindE (mapE f xs) (\<lambda>ys. Inr (y # ys)))"

fun foldE :: "('s \<Rightarrow> 'a \<Rightarrow> 'e + 's) \<Rightarrow> 's \<Rightarrow> 'a list \<Rightarrow> 'e + 's" where
  "foldE f s [] = Inr s"
| "foldE f s (x # xs) = bindE (f s x) (\<lambda>s'. foldE f s' xs)"

lemma bindE_simps [simp]:
  "bindE (Inl e) f = Inl e" "bindE (Inr x) f = f x"
  by (simp_all add: bindE_def)

lemma bindE_eq_Inr [monad_simps]:
  "bindE m f = Inr y \<longleftrightarrow> (\<exists>x. m = Inr x \<and> f x = Inr y)"
  by (cases m) auto

lemma bindE_eq_Inl [monad_simps]:
  "bindE m f = Inl e \<longleftrightarrow> m = Inl e \<or> (\<exists>x. m = Inr x \<and> f x = Inl e)"
  by (cases m) auto

lemma bindE_assoc: "bindE (bindE m f) g = bindE m (\<lambda>x. bindE (f x) g)"
  by (cases m) auto

lemma require_simps [simp]:
  "require True e = Inr ()" "require False e = Inl e"
  by (simp_all add: require_def)

lemma require_eq_Inr [simp]: "require b e = Inr u \<longleftrightarrow> b"
  by (simp add: require_def)

lemma require_eq_Inl [simp]: "require b e = Inl e' \<longleftrightarrow> \<not> b \<and> e = e'"
  by (auto simp: require_def)

lemma map_exn_simps [simp]:
  "map_exn g (Inl e) = Inl (g e)" "map_exn g (Inr x) = Inr x"
  by (simp_all add: map_exn_def)

lemma map_exn_eq_Inr [simp]: "map_exn g m = Inr x \<longleftrightarrow> m = Inr x"
  by (cases m) auto

lemma map_exn_eq_Inl [monad_simps]: "map_exn g m = Inl e \<longleftrightarrow> (\<exists>e'. m = Inl e' \<and> e = g e')"
  by (cases m) auto

lemma mapE_eq_Inr_length: "mapE f xs = Inr ys \<Longrightarrow> length ys = length xs"
  by (induction xs arbitrary: ys) (auto simp: monad_simps)

lemma mapE_eq_Inr_iff: "mapE f xs = Inr ys \<longleftrightarrow> list_all2 (\<lambda>x y. f x = Inr y) xs ys"
  by (induction xs arbitrary: ys) (auto simp: monad_simps list_all2_Cons1)

lemma mapE_Inr_fun: "(\<And>x. x \<in> set xs \<Longrightarrow> f x = Inr (g x)) \<Longrightarrow> mapE f xs = Inr (map g xs)"
  by (induction xs) auto

lemma mapE_eq_InlD: "mapE f xs = Inl e \<Longrightarrow> \<exists>x \<in> set xs. f x = Inl e"
  by (induction xs) (auto simp: monad_simps)

lemma foldE_append: "foldE f s (xs @ ys) = bindE (foldE f s xs) (\<lambda>s'. foldE f s' ys)"
  by (induction xs arbitrary: s) (auto simp: bindE_assoc)

lemma foldE_invariant:
  assumes "foldE f s xs = Inr s'" and "P s"
    and "\<And>s x s'. P s \<Longrightarrow> x \<in> set xs \<Longrightarrow> f s x = Inr s' \<Longrightarrow> P s'"
  shows "P s'"
  using assms
proof (induction xs arbitrary: s)
  case Nil
  then show ?case by simp
next
  case (Cons x xs)
  from Cons.prems(1) obtain s1 where s1: "f s x = Inr s1" "foldE f s1 xs = Inr s'"
    by (auto simp: bindE_eq_Inr)
  have "P s1"
    using Cons.prems(2) s1(1) by (meson Cons.prems(3) list.set_intros(1))
  with s1(2) show ?case
    by (rule Cons.IH) (meson Cons.prems(3) list.set_intros(2))
qed

text \<open>Reading a computation's outcome, for evaluation on concrete inputs.\<close>

definition result_of :: "'e + 'a \<Rightarrow> 'a" where
  "result_of r = (case r of Inr x \<Rightarrow> x | Inl _ \<Rightarrow> undefined)"

definition is_result :: "'e + 'a \<Rightarrow> bool" where
  "is_result r = (case r of Inr _ \<Rightarrow> True | Inl _ \<Rightarrow> False)"

lemma is_result_Inr: "is_result r \<Longrightarrow> r = Inr (result_of r)"
  by (cases r) (simp_all add: is_result_def result_of_def)

lemma not_is_result: "\<not> is_result r \<Longrightarrow> \<exists>e. r = Inl e"
  by (cases r) (simp_all add: is_result_def)

section \<open>Computations that change state and may raise\<close>

type_synonym ('s, 'e, 'a) sem = "'s \<Rightarrow> ('e + 'a) \<times> 's"

definition returnS :: "'a \<Rightarrow> ('s, 'e, 'a) sem" where
  "returnS x = (\<lambda>s. (Inr x, s))"

definition raiseS :: "'e \<Rightarrow> ('s, 'e, 'a) sem" where
  "raiseS e = (\<lambda>s. (Inl e, s))"

definition bindS :: "('s, 'e, 'a) sem \<Rightarrow> ('a \<Rightarrow> ('s, 'e, 'b) sem) \<Rightarrow> ('s, 'e, 'b) sem" where
  "bindS m f = (\<lambda>s. case m s of (Inl e, s') \<Rightarrow> (Inl e, s') | (Inr x, s') \<Rightarrow> f x s')"

definition seqS :: "('s, 'e, 'a) sem \<Rightarrow> ('s, 'e, 'b) sem \<Rightarrow> ('s, 'e, 'b) sem" where
  "seqS m n = bindS m (\<lambda>_. n)"

definition getS :: "('s, 'e, 's) sem" where
  "getS = (\<lambda>s. (Inr s, s))"

definition modifyS :: "('s \<Rightarrow> 's) \<Rightarrow> ('s, 'e, unit) sem" where
  "modifyS f = (\<lambda>s. (Inr (), f s))"

text \<open>A pure computation that may raise, inside one that has state.\<close>

definition liftS :: "'e + 'a \<Rightarrow> ('s, 'e, 'a) sem" where
  "liftS m = (\<lambda>s. (m, s))"

text \<open>\<open>try: m; except e: h e\<close>: the handler runs in the state the body left.\<close>

definition catchS :: "('s, 'e, 'a) sem \<Rightarrow> ('e \<Rightarrow> ('s, 'e, 'a) sem) \<Rightarrow> ('s, 'e, 'a) sem" where
  "catchS m h = (\<lambda>s. case m s of (Inl e, s') \<Rightarrow> h e s' | (Inr x, s') \<Rightarrow> (Inr x, s'))"

fun forS :: "('a \<Rightarrow> ('s, 'e, unit) sem) \<Rightarrow> 'a list \<Rightarrow> ('s, 'e, unit) sem" where
  "forS f [] = returnS ()"
| "forS f (x # xs) = seqS (f x) (forS f xs)"

lemma sem_simps [monad_simps]:
  "returnS x s = (Inr x, s)" "raiseS e s = (Inl e, s)" "getS s = (Inr s, s)"
  "modifyS f s = (Inr (), f s)" "liftS r s = (r, s)"
  by (simp_all add: returnS_def raiseS_def getS_def modifyS_def liftS_def)

lemma bindS_apply [monad_simps]:
  "bindS m f s = (case m s of (Inl e, s') \<Rightarrow> (Inl e, s') | (Inr x, s') \<Rightarrow> f x s')"
  by (simp add: bindS_def)

lemma seqS_apply [monad_simps]:
  "seqS m n s = (case m s of (Inl e, s') \<Rightarrow> (Inl e, s') | (Inr x, s') \<Rightarrow> n s')"
  by (simp add: seqS_def bindS_def)

lemma catchS_apply [monad_simps]:
  "catchS m h s = (case m s of (Inl e, s') \<Rightarrow> h e s' | (Inr x, s') \<Rightarrow> (Inr x, s'))"
  by (simp add: catchS_def)

text \<open>
  \<open>preserves I m\<close>: whatever the outcome, the operation keeps the invariant. The rules below
  carry it through the monad, so that an operation's preservation is one proof over its steps.
\<close>

definition preserves :: "('s \<Rightarrow> bool) \<Rightarrow> ('s, 'e, 'a) sem \<Rightarrow> bool" where
  "preserves I m \<longleftrightarrow> (\<forall>s. I s \<longrightarrow> I (snd (m s)))"

lemma preservesI: "(\<And>s. I s \<Longrightarrow> I (snd (m s))) \<Longrightarrow> preserves I m"
  by (simp add: preserves_def)

lemma preservesD: "preserves I m \<Longrightarrow> I s \<Longrightarrow> I (snd (m s))"
  by (simp add: preserves_def)

lemma preserves_return [intro!, simp]: "preserves I (returnS x)"
  by (simp add: preserves_def returnS_def)

lemma preserves_raise [intro!, simp]: "preserves I (raiseS e)"
  by (simp add: preserves_def raiseS_def)

lemma preserves_get [intro!, simp]: "preserves I getS"
  by (simp add: preserves_def getS_def)

lemma preserves_lift [intro!, simp]: "preserves I (liftS m)"
  by (simp add: preserves_def liftS_def)

lemma preserves_modify: "(\<And>s. I s \<Longrightarrow> I (f s)) \<Longrightarrow> preserves I (modifyS f)"
  by (simp add: preserves_def modifyS_def)

lemma preserves_bind [intro]:
  "preserves I m \<Longrightarrow> (\<And>x. preserves I (f x)) \<Longrightarrow> preserves I (bindS m f)"
  by (fastforce simp: preserves_def bindS_def split: prod.splits sum.splits)

lemma preserves_seq [intro]: "preserves I m \<Longrightarrow> preserves I n \<Longrightarrow> preserves I (seqS m n)"
  by (simp add: seqS_def preserves_bind)

lemma preserves_catch [intro]:
  "preserves I m \<Longrightarrow> (\<And>e. preserves I (h e)) \<Longrightarrow> preserves I (catchS m h)"
  by (fastforce simp: preserves_def catchS_def split: prod.splits sum.splits)

lemma preserves_if [intro]:
  "(b \<Longrightarrow> preserves I m) \<Longrightarrow> (\<not> b \<Longrightarrow> preserves I n) \<Longrightarrow> preserves I (if b then m else n)"
  by simp

lemma preserves_for: "(\<And>x. x \<in> set xs \<Longrightarrow> preserves I (f x)) \<Longrightarrow> preserves I (forS f xs)"
  by (induction xs) auto

lemma preserves_option: "(x = None \<Longrightarrow> preserves I m) \<Longrightarrow> (\<And>y. x = Some y \<Longrightarrow> preserves I (f y)) \<Longrightarrow>
    preserves I (case x of None \<Rightarrow> m | Some y \<Rightarrow> f y)"
  by (cases x) auto

lemma preserves_pair: "(\<And>a b. x = (a, b) \<Longrightarrow> preserves I (f a b)) \<Longrightarrow> preserves I (case x of (a, b) \<Rightarrow> f a b)"
  by (cases x) auto

text \<open>
  \<open>triple P m Q E\<close>: from a state of \<open>P\<close>, a result satisfies \<open>Q\<close> and an exception satisfies
  \<open>E\<close>. The rules follow the monad.
\<close>

definition triple :: "('s \<Rightarrow> bool) \<Rightarrow> ('s, 'e, 'a) sem \<Rightarrow> ('a \<Rightarrow> 's \<Rightarrow> bool) \<Rightarrow> ('e \<Rightarrow> 's \<Rightarrow> bool) \<Rightarrow> bool" where
  "triple P m Q E \<longleftrightarrow> (\<forall>s. P s \<longrightarrow>
     (case m s of (Inr x, s') \<Rightarrow> Q x s' | (Inl e, s') \<Rightarrow> E e s'))"

lemma tripleI: "(\<And>s r s'. P s \<Longrightarrow> m s = (r, s') \<Longrightarrow>
    (case r of Inr x \<Rightarrow> Q x s' | Inl e \<Rightarrow> E e s')) \<Longrightarrow> triple P m Q E"
  by (fastforce simp: triple_def split: prod.splits sum.splits)

lemma tripleD: "triple P m Q E \<Longrightarrow> P s \<Longrightarrow> m s = (Inr x, s') \<Longrightarrow> Q x s'"
  and tripleD_exn: "triple P m Q E \<Longrightarrow> P s \<Longrightarrow> m s = (Inl e, s') \<Longrightarrow> E e s'"
  by (auto simp: triple_def)

lemma triple_return: "(\<And>s. P s \<Longrightarrow> Q x s) \<Longrightarrow> triple P (returnS x) Q E"
  by (simp add: triple_def returnS_def)

lemma triple_raise: "(\<And>s. P s \<Longrightarrow> E e s) \<Longrightarrow> triple P (raiseS e) Q E"
  by (simp add: triple_def raiseS_def)

lemma triple_lift: "(\<And>s x. P s \<Longrightarrow> m = Inr x \<Longrightarrow> Q x s) \<Longrightarrow> (\<And>s e. P s \<Longrightarrow> m = Inl e \<Longrightarrow> E e s) \<Longrightarrow>
    triple P (liftS m) Q E"
  by (cases m) (simp_all add: triple_def liftS_def)

lemma triple_bind: "triple P m R E \<Longrightarrow> (\<And>x. triple (R x) (f x) Q E) \<Longrightarrow> triple P (bindS m f) Q E"
  unfolding triple_def bindS_def by (fastforce split: prod.splits sum.splits)

lemma triple_seq: "triple P m (\<lambda>_. R) E \<Longrightarrow> triple R n Q E \<Longrightarrow> triple P (seqS m n) Q E"
  unfolding seqS_def by (rule triple_bind)

lemma triple_catch: "triple P m Q F \<Longrightarrow> (\<And>e. triple (F e) (h e) Q E) \<Longrightarrow> triple P (catchS m h) Q E"
  unfolding triple_def catchS_def by (fastforce split: prod.splits sum.splits)

lemma triple_if: "(b \<Longrightarrow> triple P m Q E) \<Longrightarrow> (\<not> b \<Longrightarrow> triple P n Q E) \<Longrightarrow> triple P (if b then m else n) Q E"
  by simp

lemma triple_weaken: "triple P' m Q' E' \<Longrightarrow> (\<And>s. P s \<Longrightarrow> P' s) \<Longrightarrow> (\<And>x s. Q' x s \<Longrightarrow> Q x s) \<Longrightarrow>
    (\<And>e s. E' e s \<Longrightarrow> E e s) \<Longrightarrow> triple P m Q E"
  by (fastforce simp: triple_def split: prod.splits sum.splits)

lemma triple_preserves: "triple I m (\<lambda>_. I) (\<lambda>_. I) \<longleftrightarrow> preserves I m"
proof -
  have "(case m s of (Inr x, s') \<Rightarrow> I s' | (Inl e, s') \<Rightarrow> I s') = I (snd (m s))" for s
    by (cases "m s", cases "fst (m s)") auto
  then show ?thesis by (simp add: triple_def preserves_def)
qed

lemma triple_pure: "(b \<Longrightarrow> triple P m Q E) \<Longrightarrow> triple (\<lambda>s. b \<and> P s) m Q E"
  by (auto simp: triple_def)

text \<open>The outcome of a computation that is known to succeed.\<close>

lemma run_result: "is_result (fst (m s)) \<Longrightarrow> m s = (Inr (result_of (fst (m s))), snd (m s))"
  by (metis is_result_Inr prod.collapse)

section \<open>Transition systems\<close>

text \<open>
  A component with state is a start predicate and a step relation. An inductive invariant holds
  in every reachable state; each component with state interprets this locale on its own steps.
\<close>

inductive reachable_from :: "('s \<Rightarrow> bool) \<Rightarrow> ('s \<Rightarrow> 's \<Rightarrow> bool) \<Rightarrow> 's \<Rightarrow> bool"
  for start step where
  start: "start s \<Longrightarrow> reachable_from start step s"
| step: "reachable_from start step s \<Longrightarrow> step s t \<Longrightarrow> reachable_from start step t"

locale transition_system =
  fixes start :: "'s \<Rightarrow> bool" and step :: "'s \<Rightarrow> 's \<Rightarrow> bool" and inv :: "'s \<Rightarrow> bool"
  assumes inv_start: "start s \<Longrightarrow> inv s"
    and inv_step: "inv s \<Longrightarrow> step s t \<Longrightarrow> inv t"
begin

lemma reachable_inv: "reachable_from start step s \<Longrightarrow> inv s"
  by (induction rule: reachable_from.induct) (auto intro: inv_start inv_step)

lemma steps_inv: "step\<^sup>*\<^sup>* s t \<Longrightarrow> inv s \<Longrightarrow> inv t"
  by (induction rule: rtranclp_induct) (auto intro: inv_step)

end

section \<open>Dictionaries\<close>

text \<open>
  A Python dictionary keeps its insertion order, so it is an association list with distinct keys;
  assignment replaces in place or appends (\<open>AList.update\<close>). The interface is what the
  components rely on: lookup after assignment, and the keys staying distinct.
\<close>

locale dictionary =
  fixes lookup :: "'d \<Rightarrow> 'k \<Rightarrow> 'v option" and assign :: "'k \<Rightarrow> 'v \<Rightarrow> 'd \<Rightarrow> 'd"
    and wf :: "'d \<Rightarrow> bool"
  assumes lookup_assign: "lookup (assign k v d) k' = (if k' = k then Some v else lookup d k')"
    and wf_assign: "wf d \<Longrightarrow> wf (assign k v d)"
begin

text \<open>A dictionary built by assigning in a loop: the last assignment to a key wins.\<close>

lemma lookup_fold:
  "lookup (fold (\<lambda>(k, v). assign k v) kvs d) k =
     (case map_of (rev kvs) k of Some v \<Rightarrow> Some v | None \<Rightarrow> lookup d k)"
proof (induction kvs arbitrary: d)
  case Nil
  then show ?case by simp
next
  case (Cons kv kvs)
  obtain a b where "kv = (a, b)" by (cases kv)
  then show ?case
    by (simp add: Cons.IH lookup_assign map_add_def split: option.splits)
qed

lemma wf_fold: "wf d \<Longrightarrow> wf (fold (\<lambda>(k, v). assign k v) kvs d)"
  by (induction kvs arbitrary: d) (auto simp: wf_assign)

end

definition dict_wf :: "('k \<times> 'v) list \<Rightarrow> bool" where
  "dict_wf d \<longleftrightarrow> distinct (map fst d)"

interpretation pydict: dictionary map_of AList.update dict_wf
  by unfold_locales (auto simp: update_conv' dict_wf_def distinct_update)

lemma map_of_update [simp]: "map_of (AList.update k v d) k' = (if k' = k then Some v else map_of d k')"
  by (rule pydict.lookup_assign)

definition dict_of :: "('k \<times> 'v) list \<Rightarrow> ('k \<times> 'v) list" where
  "dict_of kvs = fold (\<lambda>(k, v). AList.update k v) kvs []"

lemma map_of_dict_of: "map_of (dict_of kvs) k = map_of (rev kvs) k"
  by (simp add: dict_of_def pydict.lookup_fold split: option.split)

lemma dict_wf_dict_of [simp]: "dict_wf (dict_of kvs)"
  unfolding dict_of_def by (rule pydict.wf_fold) (simp add: dict_wf_def)

lemma map_of_distinct_rev: "distinct (map fst kvs) \<Longrightarrow> map_of (rev kvs) = map_of kvs"
  by (rule map_of_inject_set [THEN iffD2]) (auto simp: rev_map [symmetric])

lemma set_update_subset: "set (AList.update k v d) \<subseteq> insert (k, v) (set d)"
  by (induction d) auto

text \<open>The entries of a dictionary comprehension that filters or maps keep their lookups.\<close>

lemma map_of_filter_key:
  "map_of (filter (\<lambda>(k, v). P k) d) k = (if P k then map_of d k else None)"
  by (induction d) auto

section \<open>Lists\<close>

fun enumerate_from :: "nat \<Rightarrow> 'a list \<Rightarrow> (nat \<times> 'a) list" where
  "enumerate_from n [] = []"
| "enumerate_from n (x # xs) = (n, x) # enumerate_from (Suc n) xs"

lemma length_enumerate_from [simp]: "length (enumerate_from n xs) = length xs"
  by (induction xs arbitrary: n) auto

lemma map_snd_enumerate_from [simp]: "map snd (enumerate_from n xs) = xs"
  by (induction xs arbitrary: n) auto

lemma nth_enumerate_from: "i < length xs \<Longrightarrow> enumerate_from n xs ! i = (n + i, xs ! i)"
  by (induction xs arbitrary: n i) (auto simp: nth_Cons split: nat.splits)

lemma sort_eq_Nil_iff [simp]: "sort xs = [] \<longleftrightarrow> xs = []"
  by (metis length_0_conv length_sort)

lemma foldE_unit_iff: "foldE (\<lambda>_ x. f x) () xs = Inr () \<longleftrightarrow> (\<forall>x \<in> set xs. f x = Inr ())"
  by (induction xs) (auto simp: bindE_eq_Inr)

lemma find_eq_Some_first:
  "List.find P xs = Some x \<Longrightarrow> x \<in> set xs \<and> P x"
  by (auto simp: find_Some_iff)

end
