(* ===== verification/PyText.thy ===== *)
theory PyText
  imports Prelude
begin

text \<open>
  Python's \<open>str\<close> for the operations the program uses. A string is a list of characters read
  as the code points 0 to 255 (the Latin-1 block of Unicode); characters beyond it are not
  modelled. \<open>strip\<close>, \<open>split\<close>, \<open>lower\<close>, \<open>in\<close>,
  \<open>startswith\<close>, \<open>replace\<close> and the decimal format follow the Python library on that
  range.
\<close>

abbreviation code :: "char \<Rightarrow> nat" where
  "code c \<equiv> of_char c"

text \<open>\<open>str.isspace\<close> on one character.\<close>

definition is_space :: "char \<Rightarrow> bool" where
  "is_space c = (let n = code c in (9 \<le> n \<and> n \<le> 13) \<or> (28 \<le> n \<and> n \<le> 32) \<or> n = 133 \<or> n = 160)"

definition lower_char :: "char \<Rightarrow> char" where
  "lower_char c = (let n = code c in
     if (65 \<le> n \<and> n \<le> 90) \<or> (192 \<le> n \<and> n \<le> 222 \<and> n \<noteq> 215) then char_of (n + 32) else c)"

definition lower :: "string \<Rightarrow> string" where
  "lower s = map lower_char s"

definition strip_by :: "(char \<Rightarrow> bool) \<Rightarrow> string \<Rightarrow> string" where
  "strip_by p s = rev (dropWhile p (rev (dropWhile p s)))"

definition strip :: "string \<Rightarrow> string" where
  "strip s = strip_by is_space s"

fun split_pred :: "('a \<Rightarrow> bool) \<Rightarrow> 'a list \<Rightarrow> 'a list list" where
  "split_pred p [] = [[]]"
| "split_pred p (c # cs) =
     (if p c then [] # split_pred p cs
      else case split_pred p cs of [] \<Rightarrow> [[c]] | w # ws \<Rightarrow> (c # w) # ws)"

text \<open>\<open>s.split()\<close> and \<open>s.split(c)\<close> for one character \<open>c\<close>.\<close>

definition split_ws :: "string \<Rightarrow> string list" where
  "split_ws s = filter (\<lambda>w. w \<noteq> []) (split_pred is_space s)"

definition split_char :: "char \<Rightarrow> string \<Rightarrow> string list" where
  "split_char c s = split_pred (\<lambda>d. d = c) s"

text \<open>\<open>s.split(sep, 1)\<close> at the first occurrence; \<open>None\<close> when \<open>sep\<close> does not occur.\<close>

fun split_once :: "string \<Rightarrow> string \<Rightarrow> (string \<times> string) option" where
  "split_once sep [] = (if sep = [] then Some ([], []) else None)"
| "split_once sep (c # cs) =
     (if prefix sep (c # cs) then Some ([], drop (length sep) (c # cs))
      else map_option (\<lambda>(a, b). (c # a, b)) (split_once sep cs))"

text \<open>\<open>sub in s\<close>\<close>

definition contains :: "string \<Rightarrow> string \<Rightarrow> bool" where
  "contains sub s = (split_once sub s \<noteq> None)"

text \<open>\<open>s.replace(a, b)\<close> for single characters.\<close>

definition replace_char :: "char \<Rightarrow> char \<Rightarrow> string \<Rightarrow> string" where
  "replace_char a b s = map (\<lambda>c. if c = a then b else c) s"

definition join :: "string \<Rightarrow> string list \<Rightarrow> string" where
  "join sep ws = (case ws of [] \<Rightarrow> [] | w # ws' \<Rightarrow> w @ concat (map (\<lambda>v. sep @ v) ws'))"

definition digit :: "nat \<Rightarrow> char" where
  "digit d = char_of (48 + d)"

fun str_nat :: "nat \<Rightarrow> string" where
  "str_nat n = (if n < 10 then [digit n] else str_nat (n div 10) @ [digit (n mod 10)])"

declare str_nat.simps [simp del]

definition str_int :: "int \<Rightarrow> string" where
  "str_int i = (if i < 0 then ''-'' @ str_nat (nat (- i)) else str_nat (nat i))"

text \<open>\<open>f"{n:0wd}"\<close>: zero padding to the width, after the sign.\<close>

definition pad_int :: "nat \<Rightarrow> int \<Rightarrow> string" where
  "pad_int w i =
     (let sign = (if i < 0 then ''-'' else ''''); ds = str_nat (nat \<bar>i\<bar>)
      in sign @ replicate (w - length sign - length ds) (CHR ''0'') @ ds)"

section \<open>Facts\<close>

lemma split_pred_not_Nil [simp]: "split_pred p s \<noteq> []"
  by (cases s) (auto split: list.splits)

lemma split_pred_concat:
  "w \<in> set (split_pred p s) \<Longrightarrow> c \<in> set w \<Longrightarrow> c \<in> set s \<and> \<not> p c"
proof (induction s arbitrary: w c)
  case Nil
  then show ?case by simp
next
  case (Cons a s)
  obtain v vs where v: "split_pred p s = v # vs"
    using split_pred_not_Nil by (cases "split_pred p s") blast+
  show ?case
  proof (cases "p a")
    case True
    with Cons.prems have "w \<in> set (split_pred p s)" by auto
    with Cons.IH Cons.prems(2) show ?thesis by auto
  next
    case False
    with Cons.prems v have "w = a # v \<or> w \<in> set (split_pred p s)" by auto
    with Cons.IH [of v c] Cons.IH [of w c] Cons.prems(2) v False show ?thesis by auto
  qed
qed

lemma split_pred_None: "(\<And>c. c \<in> set s \<Longrightarrow> \<not> p c) \<Longrightarrow> split_pred p s = [s]"
  by (induction s) auto

lemma dropWhile_Nil_iff: "dropWhile p s = [] \<longleftrightarrow> (\<forall>c \<in> set s. p c)"
  by (rule dropWhile_eq_Nil_conv)

lemma strip_by_Nil_iff: "strip_by p s = [] \<longleftrightarrow> (\<forall>c \<in> set s. p c)"
proof
  assume "strip_by p s = []"
  then have all: "\<forall>c \<in> set (dropWhile p s). p c"
    by (auto simp: strip_by_def dropWhile_Nil_iff dest: set_dropWhileD)
  show "\<forall>c \<in> set s. p c"
  proof (cases "dropWhile p s")
    case Nil
    then show ?thesis by simp
  next
    case (Cons c cs)
    then have "\<not> p c" by (metis hd_dropWhile list.distinct(1) list.sel(1))
    with all Cons show ?thesis by simp
  qed
next
  assume "\<forall>c \<in> set s. p c"
  then show "strip_by p s = []" by (auto simp: strip_by_def dest: set_dropWhileD)
qed

text \<open>\<open>not s.strip()\<close> says that \<open>s\<close> is blank.\<close>

definition blank :: "string \<Rightarrow> bool" where
  "blank s = list_all is_space s"

lemma strip_Nil_iff [simp]: "strip s = [] \<longleftrightarrow> blank s"
  by (simp add: strip_def strip_by_Nil_iff blank_def list_all_iff)

lemma set_strip_by: "set (strip_by p s) \<subseteq> set s"
  unfolding strip_by_def by (auto dest!: set_dropWhileD)

lemma dropWhile_idem': "dropWhile p (dropWhile p s) = dropWhile p s"
  by (induction s) auto

lemma strip_by_hd: "strip_by p s \<noteq> [] \<Longrightarrow> \<not> p (hd (strip_by p s))"
proof -
  assume ne: "strip_by p s \<noteq> []"
  let ?t = "dropWhile p s"
  have "prefix (strip_by p s) ?t"
    unfolding strip_by_def
    by (metis rev_rev_ident suffix_dropWhile suffix_to_prefix)
  then obtain zs where "?t = strip_by p s @ zs" by (auto simp: prefix_def)
  with ne have "hd (strip_by p s) = hd ?t" and "?t \<noteq> []" by simp_all
  then show ?thesis using hd_dropWhile [of p s] by metis
qed

lemma strip_by_last: "strip_by p s \<noteq> [] \<Longrightarrow> \<not> p (last (strip_by p s))"
  unfolding strip_by_def by (simp add: last_rev hd_dropWhile)

lemma strip_by_idem: "strip_by p (strip_by p s) = strip_by p s"
proof (cases "strip_by p s = []")
  case True
  show ?thesis unfolding True by (simp add: strip_by_def)
next
  case False
  then obtain c cs where "strip_by p s = c # cs" by (cases "strip_by p s") auto
  with False strip_by_hd [of p s] have "dropWhile p (strip_by p s) = strip_by p s" by auto
  moreover have "dropWhile p (rev (strip_by p s)) = rev (strip_by p s)"
    using False strip_by_last [of p s]
    by (cases "rev (strip_by p s)") (auto simp: last_rev hd_rev)
  ultimately show ?thesis by (subst strip_by_def) simp
qed

lemma strip_idem [simp]: "strip (strip s) = strip s"
  by (simp add: strip_def strip_by_idem)

subsection \<open>Splitting at a separator\<close>

lemma split_once_SomeD: "split_once sep s = Some (a, b) \<Longrightarrow> s = a @ sep @ b"
proof (induction s arbitrary: a)
  case Nil
  then show ?case by (simp split: if_splits)
next
  case (Cons c cs)
  show ?case
  proof (cases "prefix sep (c # cs)")
    case True
    with Cons.prems show ?thesis by (auto simp: prefix_def)
  next
    case False
    with Cons.prems obtain a' where "a = c # a'" "split_once sep cs = Some (a', b)"
      by auto
    with Cons.IH show ?thesis by simp
  qed
qed

text \<open>No earlier occurrence: the part before the separator does not contain it.\<close>

lemma split_once_first:
  "split_once sep s = Some (a, b) \<Longrightarrow> sep \<noteq> [] \<Longrightarrow> \<not> contains sep a"
proof (induction s arbitrary: a)
  case Nil
  then show ?case by simp
next
  case (Cons c cs)
  show ?case
  proof (cases "prefix sep (c # cs)")
    case True
    with Cons.prems show ?thesis by (simp add: contains_def)
  next
    case False
    with Cons.prems obtain a' where a': "a = c # a'" "split_once sep cs = Some (a', b)"
      by auto
    have "\<not> contains sep a'" using Cons.IH a'(2) Cons.prems(2) by blast
    moreover have "\<not> prefix sep (c # a')"
      using False split_once_SomeD [OF a'(2)] by (metis append_Cons prefix_append)
    ultimately show ?thesis using a' by (simp add: contains_def)
  qed
qed

lemma contains_iff: "contains sep s \<longleftrightarrow> sublist sep s"
proof (induction s)
  case Nil
  then show ?case by (simp add: contains_def)
next
  case (Cons c cs)
  then show ?case by (auto simp: contains_def sublist_Cons_right)
qed

lemma split_once_append_char:
  "c \<notin> set a \<Longrightarrow> split_once [c] (a @ c # b) = Some (a, b)"
  by (induction a) auto

text \<open>A prefix that shares no character with the separator's first one splits off whole.\<close>

lemma split_once_append:
  "hd sep \<notin> set a \<Longrightarrow> sep \<noteq> [] \<Longrightarrow> split_once sep (a @ sep @ b) = Some (a, b)"
proof (induction a)
  case Nil
  then show ?case by (cases sep) auto
next
  case (Cons c cs)
  then have "\<not> prefix sep (c # cs @ sep @ b)" by (cases sep) auto
  with Cons show ?case by auto
qed

subsection \<open>Decimal numbers\<close>

lemma digit_inj: "a < 10 \<Longrightarrow> b < 10 \<Longrightarrow> digit a = digit b \<Longrightarrow> a = b"
proof -
  assume "a < 10" "b < 10" "digit a = digit b"
  then have "code (digit a) = code (digit b)" by simp
  with \<open>a < 10\<close> \<open>b < 10\<close> show ?thesis
    by (simp add: digit_def)
qed

lemma str_nat_not_Nil [simp]: "str_nat n \<noteq> []"
  by (subst str_nat.simps) simp

lemma length_str_nat_ge2: "\<not> n < 10 \<Longrightarrow> length (str_nat n) \<noteq> 1"
  by (subst str_nat.simps) simp

lemma str_nat_inj: "str_nat m = str_nat n \<Longrightarrow> m = n"
proof (induction m arbitrary: n rule: str_nat.induct)
  case (1 m)
  show ?case
  proof (cases "m < 10")
    case True
    then have sm: "str_nat m = [digit m]" by (subst str_nat.simps) simp
    then have "n < 10" using "1.prems" length_str_nat_ge2 [of n] by (metis length_Cons list.size(3) One_nat_def)
    then have "str_nat n = [digit n]" by (subst str_nat.simps) simp
    with sm "1.prems" True \<open>n < 10\<close> show ?thesis by (auto dest: digit_inj)
  next
    case False
    then have sm: "str_nat m = str_nat (m div 10) @ [digit (m mod 10)]"
      by (subst str_nat.simps) simp
    have "\<not> n < 10"
    proof
      assume "n < 10"
      then have "str_nat n = [digit n]" by (subst str_nat.simps) simp
      with "1.prems" have "length (str_nat m) = 1" by simp
      with False length_str_nat_ge2 show False by blast
    qed
    then have sn: "str_nat n = str_nat (n div 10) @ [digit (n mod 10)]"
      by (subst str_nat.simps) simp
    have "str_nat (m div 10) = str_nat (n div 10)" and d: "digit (m mod 10) = digit (n mod 10)"
      using sm sn "1.prems" by auto
    then have "m div 10 = n div 10" using "1.IH" False by blast
    moreover have "m mod 10 = n mod 10" using d by (rule digit_inj [rotated 2]) simp_all
    ultimately show ?thesis by (metis div_mod_decomp)
  qed
qed

lemma str_nat_digits: "c \<in> set (str_nat n) \<Longrightarrow> 48 \<le> code c \<and> code c \<le> 57"
proof (induction n rule: str_nat.induct)
  case (1 n)
  have dig: "48 \<le> code (digit d) \<and> code (digit d) \<le> 57" if "d < 10" for d
    using that by (simp add: digit_def)
  show ?case
  proof (cases "n < 10")
    case True
    then have "str_nat n = [digit n]" by (subst str_nat.simps) simp
    with "1.prems" dig True show ?thesis by simp
  next
    case False
    then have "str_nat n = str_nat (n div 10) @ [digit (n mod 10)]" by (subst str_nat.simps) simp
    with "1.prems" "1.IH" False dig [of "n mod 10"] show ?thesis by auto
  qed
qed

lemma str_nat_hd_not: "code c < 48 \<or> 57 < code c \<Longrightarrow> c \<notin> set (str_nat n)"
  using str_nat_digits [of c n] by auto

text \<open>\<open>s.replace(old, new)\<close> for a non-empty \<open>old\<close>.\<close>

function replace_sub :: "string \<Rightarrow> string \<Rightarrow> string \<Rightarrow> string" where
  "replace_sub old new s =
     (if old = [] then s
      else case split_once old s of None \<Rightarrow> s | Some (a, b) \<Rightarrow> a @ new @ replace_sub old new b)"
  by pat_completeness auto
termination
  by (relation "measure (\<lambda>(old, new, s). length s)") (auto dest: split_once_SomeD)

declare replace_sub.simps [simp del]

lemma str_int_chars: "c \<in> set (str_int i) \<Longrightarrow> c = CHR ''-'' \<or> (48 \<le> code c \<and> code c \<le> 57)"
  by (auto simp: str_int_def dest: str_nat_digits split: if_splits)

lemma strip_no_space: "(\<And>c. c \<in> set s \<Longrightarrow> \<not> is_space c) \<Longrightarrow> strip s = s"
proof -
  assume no: "\<And>c. c \<in> set s \<Longrightarrow> \<not> is_space c"
  have "dropWhile is_space t = t" if "set t \<subseteq> set s" for t
    using that no by (cases t) auto
  then have "dropWhile is_space s = s" "dropWhile is_space (rev s) = rev s" by simp_all
  then show ?thesis by (simp add: strip_def strip_by_def)
qed

end
