(* ===== verification/PyValue.thy ===== *)
theory PyValue
  imports PyText Complex_Main
begin

text \<open>
  The values the program passes around (decoded JSON and YAML) and its exceptions. A dictionary
  is an association list in insertion order whose keys are strings, as in JSON. A float carries
  its exact rational value and the text \<open>repr\<close> gives for it, since the model does not
  redo IEEE rounding; infinities and NaN are left out.
\<close>

datatype pyval =
  PNone
| PBool bool
| PInt int
| PFloat rat string
| PStr string
| PList "pyval list"
| PDict "(string \<times> pyval) list"

type_synonym pydict = "(string \<times> pyval) list"

section \<open>Exceptions\<close>

datatype exn_class =
  ValueError | TypeError | KeyError | AttributeError | IndexError | AssertionError
| JSONDecodeError | RuntimeError | TimeoutError | TimeoutExpired | OSError | FileNotFoundError
| ProcessLookupError | PermissionError
| SharedRuntimePolicyError | SessionAffinityError | QuotaPolicyError | SharedWorkerError
| DistributedStateError | DistributedStateConflict
| GovernanceAssignmentError | GovernanceRolloutControllerError | GovernanceApprovalError
| BreakGlassError | DeploymentError | BootstrapTransactionError | BundleValidationError
| ConfigLayerError | ConfigValidationError | GovernancePublishError | GovernancePullError
| GovernanceReferenceControlPlaneError | RuntimeArtifactError | BrokerDaemonError
| BrokerRequestTooLarge | ElicitationRelayError
| UpstreamCallTimeout | UpstreamCallCrashed | UpstreamToolNotFound
| StdioUpstreamError | StdioUpstreamTimeout | HttpUpstreamError | HttpUpstreamTimeout
| RuntimeInstallError | RuntimeLauncherError | ServiceTemplateError | FleetCollectionError
| RemoteApiContractError | DiscoveryParityError | FacadeSmokeError | ClientShimError

text \<open>\<open>BrokerToolError\<close> carries a code and the names of the upstream and the tool.\<close>

datatype exn =
  Exn exn_class string
| BrokerToolError (err_code: string) (err_message: string)
    (err_upstream: "string option") (err_tool: "string option")

text \<open>\<open>str(e)\<close>\<close>

fun exn_str :: "exn \<Rightarrow> string" where
  "exn_str (Exn c m) = m"
| "exn_str (BrokerToolError c m u t) = m"

text \<open>The classes an \<open>except ValueError\<close> clause catches.\<close>

fun is_value_error :: "exn \<Rightarrow> bool" where
  "is_value_error (BrokerToolError c m u t) = False"
| "is_value_error (Exn c m) = (c \<in> {ValueError, JSONDecodeError, SharedRuntimePolicyError,
     SessionAffinityError, QuotaPolicyError, SharedWorkerError, DistributedStateError,
     DistributedStateConflict, GovernanceAssignmentError, GovernanceRolloutControllerError,
     GovernanceApprovalError, BreakGlassError, DeploymentError, BootstrapTransactionError,
     BundleValidationError, ConfigLayerError, ConfigValidationError, GovernancePublishError,
     GovernancePullError, GovernanceReferenceControlPlaneError, RuntimeArtifactError,
     RuntimeInstallError, RuntimeLauncherError, ServiceTemplateError, FleetCollectionError,
     RemoteApiContractError})"

fun is_class :: "exn_class \<Rightarrow> exn \<Rightarrow> bool" where
  "is_class c (Exn c' m) = (c' = c)"
| "is_class c (BrokerToolError c' m u t) = False"

type_synonym 'a res = "exn + 'a"

abbreviation value_error :: "string \<Rightarrow> 'a res" where
  "value_error m \<equiv> Inl (Exn ValueError m)"

section \<open>Dictionaries, truth and identity\<close>

text \<open>\<open>d.get(k, default)\<close>, \<open>d.get(k)\<close> and \<open>d[k]\<close>.\<close>

definition dget_or :: "pydict \<Rightarrow> string \<Rightarrow> pyval \<Rightarrow> pyval" where
  "dget_or d k v = (case map_of d k of None \<Rightarrow> v | Some x \<Rightarrow> x)"

definition dget :: "pydict \<Rightarrow> string \<Rightarrow> pyval" where
  "dget d k = dget_or d k PNone"

definition dindex :: "pydict \<Rightarrow> string \<Rightarrow> pyval res" where
  "dindex d k = (case map_of d k of None \<Rightarrow> Inl (Exn KeyError k) | Some x \<Rightarrow> Inr x)"

definition dhas :: "pydict \<Rightarrow> string \<Rightarrow> bool" where
  "dhas d k = (map_of d k \<noteq> None)"

fun truthy :: "pyval \<Rightarrow> bool" where
  "truthy PNone = False"
| "truthy (PBool b) = b"
| "truthy (PInt i) = (i \<noteq> 0)"
| "truthy (PFloat r t) = (r \<noteq> 0)"
| "truthy (PStr s) = (s \<noteq> [])"
| "truthy (PList xs) = (xs \<noteq> [])"
| "truthy (PDict d) = (d \<noteq> [])"

fun is_str :: "pyval \<Rightarrow> bool" where
  "is_str (PStr s) = True" | "is_str v = False"

fun is_list :: "pyval \<Rightarrow> bool" where
  "is_list (PList xs) = True" | "is_list v = False"

fun is_dict :: "pyval \<Rightarrow> bool" where
  "is_dict (PDict d) = True" | "is_dict v = False"

text \<open>\<open>isinstance(v, int)\<close>: a bool is an int.\<close>

fun as_int :: "pyval \<Rightarrow> int option" where
  "as_int (PInt i) = Some i"
| "as_int (PBool b) = Some (if b then 1 else 0)"
| "as_int v = None"

text \<open>The number a value stands for in a comparison.\<close>

fun as_num :: "pyval \<Rightarrow> rat option" where
  "as_num (PInt i) = Some (of_int i)"
| "as_num (PBool b) = Some (if b then 1 else 0)"
| "as_num (PFloat r t) = Some r"
| "as_num v = None"

lemma size_snd_mem_dict: "(k, x) \<in> set d \<Longrightarrow> size x < size (PDict d)"
  by (induction d) auto

lemma size_mem_list: "x \<in> set xs \<Longrightarrow> size x < size (PList xs)"
  by (induction xs) auto

text \<open>\<open>v == w\<close>: numbers by value, lists in order, dictionaries without order.\<close>

function py_eq :: "pyval \<Rightarrow> pyval \<Rightarrow> bool" where
  "py_eq v w = (case (v, w) of
     (PNone, PNone) \<Rightarrow> True
   | (PStr s, PStr t) \<Rightarrow> s = t
   | (PList xs, PList ys) \<Rightarrow> length xs = length ys \<and> list_all (\<lambda>(x, y). py_eq x y) (zip xs ys)
   | (PDict d, PDict e) \<Rightarrow> length d = length e \<and>
       list_all (\<lambda>(k, x). case map_of e k of None \<Rightarrow> False | Some y \<Rightarrow> py_eq x y) d
   | _ \<Rightarrow> (case (as_num v, as_num w) of (Some a, Some b) \<Rightarrow> a = b | _ \<Rightarrow> False))"
  by pat_completeness auto

termination
proof (relation "measure (\<lambda>(v, w). size v)", goal_cases)
  case 1
  show ?case by simp
next
  case (2 v w xs ys x a b)
  then show ?case by (auto dest!: set_zip_leftD size_mem_list)
next
  case (3 v w d e x k y)
  then show ?case by (auto dest!: size_snd_mem_dict)
qed

declare py_eq.simps [simp del]

abbreviation eq_str :: "pyval \<Rightarrow> string \<Rightarrow> bool" where
  "eq_str v s \<equiv> v = PStr s"

text \<open>\<open>v == n\<close> for an integer constant \<open>n\<close>: \<open>True == 1\<close> and \<open>1.0 == 1\<close> hold.\<close>

definition eq_int :: "pyval \<Rightarrow> int \<Rightarrow> bool" where
  "eq_int v n = (as_num v = Some (of_int n))"

section \<open>Text of values\<close>

definition hex_digit :: "nat \<Rightarrow> char" where
  "hex_digit d = (if d < 10 then char_of (48 + d) else char_of (87 + d))"

text \<open>\<open>repr\<close> of a string: single quotes unless the text holds one and no double quote.\<close>

definition repr_char :: "char \<Rightarrow> char \<Rightarrow> string" where
  "repr_char q c = (let n = code c in
     if c = q \<or> n = 92 then [CHR 0x5C, c]
     else if n = 9 then [CHR 0x5C, CHR ''t'']
     else if n = 10 then [CHR 0x5C, CHR ''n'']
     else if n = 13 then [CHR 0x5C, CHR ''r'']
     else if n < 32 \<or> (127 \<le> n \<and> n \<le> 160) \<or> n = 173
       then [CHR 0x5C, CHR ''x'', hex_digit (n div 16), hex_digit (n mod 16)]
     else [c])"

definition repr_str :: "string \<Rightarrow> string" where
  "repr_str s = (let q = (if CHR 0x27 \<in> set s \<and> CHR 0x22 \<notin> set s then CHR 0x22 else CHR 0x27)
     in q # concat (map (repr_char q) s) @ [q])"

fun py_repr :: "pyval \<Rightarrow> string" where
  "py_repr PNone = ''None''"
| "py_repr (PBool b) = (if b then ''True'' else ''False'')"
| "py_repr (PInt i) = str_int i"
| "py_repr (PFloat r t) = t"
| "py_repr (PStr s) = repr_str s"
| "py_repr (PList xs) = ''['' @ join '', '' (map py_repr xs) @ '']''"
| "py_repr (PDict d) =
     ''{'' @ join '', '' (map (\<lambda>(k, v). repr_str k @ '': '' @ py_repr v) d) @ ''}''"

text \<open>\<open>str(v)\<close>\<close>

fun py_str :: "pyval \<Rightarrow> string" where
  "py_str (PStr s) = s"
| "py_str v = py_repr v"

fun type_name :: "pyval \<Rightarrow> string" where
  "type_name PNone = ''NoneType''"
| "type_name (PBool b) = ''bool''"
| "type_name (PInt i) = ''int''"
| "type_name (PFloat r t) = ''float''"
| "type_name (PStr s) = ''str''"
| "type_name (PList xs) = ''list''"
| "type_name (PDict d) = ''dict''"

text \<open>\<open>int(text)\<close>: surrounding blanks, one sign, digits with single underscores between.\<close>

definition is_digit :: "char \<Rightarrow> bool" where
  "is_digit c = (48 \<le> code c \<and> code c \<le> 57)"

definition parse_nat :: "string \<Rightarrow> nat option" where
  "parse_nat s = (let parts = split_char (CHR ''_'') s in
     if list_all (\<lambda>p. p \<noteq> [] \<and> list_all is_digit p) parts
     then Some (foldl (\<lambda>n c. 10 * n + (code c - 48)) 0 (concat parts)) else None)"

definition parse_int :: "string \<Rightarrow> int option" where
  "parse_int s = (case strip s of
     [] \<Rightarrow> None
   | c # cs \<Rightarrow> (if c = CHR ''-'' then map_option (\<lambda>n. - int n) (parse_nat cs)
                else if c = CHR ''+'' then map_option int (parse_nat cs)
                else map_option int (parse_nat (c # cs))))"

fun py_int :: "pyval \<Rightarrow> int res" where
  "py_int (PInt i) = Inr i"
| "py_int (PBool b) = Inr (if b then 1 else 0)"
| "py_int (PFloat r t) = Inr (if r < 0 then \<lceil>r\<rceil> else \<lfloor>r\<rfloor>)"
| "py_int (PStr s) = (case parse_int s of Some i \<Rightarrow> Inr i
     | None \<Rightarrow> value_error (''invalid literal for int() with base 10: '' @ repr_str s))"
| "py_int v = Inl (Exn TypeError
     (''int() argument must be a string, a bytes-like object or a real number, not '' @
      CHR 0x27 # type_name v @ [CHR 0x27]))"

section \<open>JSON text\<close>

definition json_char :: "char \<Rightarrow> string" where
  "json_char c = (let n = code c in
     if n = 34 \<or> n = 92 then [CHR 0x5C, c]
     else if n = 8 then [CHR 0x5C, CHR ''b''] else if n = 9 then [CHR 0x5C, CHR ''t'']
     else if n = 10 then [CHR 0x5C, CHR ''n''] else if n = 12 then [CHR 0x5C, CHR ''f'']
     else if n = 13 then [CHR 0x5C, CHR ''r'']
     else if n < 32 \<or> 126 < n
       then [CHR 0x5C, CHR ''u'', CHR ''0'', CHR ''0'', hex_digit (n div 16), hex_digit (n mod 16)]
     else [c])"

definition json_str :: "string \<Rightarrow> string" where
  "json_str s = CHR 0x22 # concat (map json_char s) @ [CHR 0x22]"

text \<open>
  \<open>json.dumps(v, sort_keys=True, separators=(item, key))\<close>; the default separators are a
  comma and a colon, each followed by a blank.
\<close>

fun json_dumps :: "string \<Rightarrow> string \<Rightarrow> pyval \<Rightarrow> string" where
  "json_dumps isep ksep PNone = ''null''"
| "json_dumps isep ksep (PBool b) = (if b then ''true'' else ''false'')"
| "json_dumps isep ksep (PInt i) = str_int i"
| "json_dumps isep ksep (PFloat r t) = t"
| "json_dumps isep ksep (PStr s) = json_str s"
| "json_dumps isep ksep (PList xs) = ''['' @ join isep (map (json_dumps isep ksep) xs) @ '']''"
| "json_dumps isep ksep (PDict d) =
     ''{'' @ join isep (map (\<lambda>(k, t). json_str k @ ksep @ t)
        (sort_key fst (map (\<lambda>(k, v). (k, json_dumps isep ksep v)) d))) @ ''}''"

abbreviation dumps :: "pyval \<Rightarrow> string" where
  "dumps \<equiv> json_dumps '', '' '': ''"

abbreviation dumps_compact :: "pyval \<Rightarrow> string" where
  "dumps_compact \<equiv> json_dumps '','' '':''"

section \<open>Well-formed values\<close>

text \<open>Every dictionary inside the value has distinct keys: what JSON decoding yields.\<close>

fun wf_val :: "pyval \<Rightarrow> bool" where
  "wf_val (PList xs) = list_all wf_val xs"
| "wf_val (PDict d) = (dict_wf d \<and> list_all (\<lambda>(k, v). wf_val v) d)"
| "wf_val v = True"

section \<open>Facts\<close>

lemma dget_or_simps [simp]:
  "dget_or [] k v = v"
  "dget_or ((k', x) # d) k v = (if k = k' then x else dget_or d k v)"
  by (simp_all add: dget_or_def)

lemma dget_simps [simp]:
  "dget [] k = PNone"
  "dget ((k', x) # d) k = (if k = k' then x else dget d k)"
  by (simp_all add: dget_def)

lemma dhas_simps [simp]:
  "dhas [] k = False"
  "dhas ((k', x) # d) k = (k = k' \<or> dhas d k)"
  by (auto simp: dhas_def)

lemma dindex_simps [simp]:
  "dindex [] k = Inl (Exn KeyError k)"
  "dindex ((k', x) # d) k = (if k = k' then Inr x else dindex d k)"
  by (simp_all add: dindex_def)

lemma dget_eq_Some: "dget d k \<noteq> PNone \<Longrightarrow> map_of d k = Some (dget d k)"
  by (simp add: dget_def dget_or_def split: option.splits)

lemma dget_update [simp]: "dget (AList.update k v d) k' = (if k' = k then v else dget d k')"
  by (simp add: dget_def dget_or_def)

lemma dget_append: "dget (d @ e) k = (if dhas d k then dget d k else dget e k)"
  by (induction d) auto

lemma is_str_iff: "is_str v \<longleftrightarrow> (\<exists>s. v = PStr s)"
  by (cases v) auto

lemma is_list_iff: "is_list v \<longleftrightarrow> (\<exists>xs. v = PList xs)"
  by (cases v) auto

lemma is_dict_iff: "is_dict v \<longleftrightarrow> (\<exists>d. v = PDict d)"
  by (cases v) auto

lemma eq_int_PInt [simp]: "eq_int (PInt i) n \<longleftrightarrow> i = n"
  by (simp add: eq_int_def)

lemma eq_int_other [simp]:
  "\<not> eq_int PNone n" "\<not> eq_int (PStr s) n" "\<not> eq_int (PList xs) n" "\<not> eq_int (PDict d) n"
  by (simp_all add: eq_int_def)

lemma py_eq_PStr [simp]:
  "py_eq (PStr s) v \<longleftrightarrow> v = PStr s" "py_eq v (PStr s) \<longleftrightarrow> v = PStr s"
  by (cases v; subst py_eq.simps; auto)+

lemma py_str_PStr_iff [simp]: "py_str (PStr s) = s"
  by simp

lemma as_int_not_None [simp]: "as_int v \<noteq> None \<longleftrightarrow> (\<exists>i. v = PInt i) \<or> (\<exists>b. v = PBool b)"
  by (cases v) auto

text \<open>\<open>int(str(i)) == i\<close>\<close>

lemma foldl_str_nat: "foldl (\<lambda>n c. 10 * n + (code c - 48)) 0 (str_nat n) = n"
proof (induction n rule: str_nat.induct)
  case (1 n)
  have dig: "code (digit d) - 48 = d" if "d < 10" for d using that by (simp add: digit_def)
  show ?case
  proof (cases "n < 10")
    case True
    then have "str_nat n = [digit n]" by (subst str_nat.simps) simp
    with dig True show ?thesis by simp
  next
    case False
    then have "str_nat n = str_nat (n div 10) @ [digit (n mod 10)]" by (subst str_nat.simps) simp
    with "1.IH" False dig [of "n mod 10"] show ?thesis by simp
  qed
qed

lemma is_digit_str_nat: "c \<in> set (str_nat n) \<Longrightarrow> is_digit c"
  using str_nat_digits by (simp add: is_digit_def)

lemma parse_nat_str_nat: "parse_nat (str_nat n) = Some n"
proof -
  have "split_char CHR ''_'' (str_nat n) = [str_nat n]"
    unfolding split_char_def by (rule split_pred_None) (auto dest: is_digit_str_nat simp: is_digit_def)
  then show ?thesis
    using is_digit_str_nat [of _ n] by (simp add: parse_nat_def Let_def list_all_iff foldl_str_nat)
qed

lemma parse_int_str_int: "parse_int (str_int i) = Some i"
proof -
  have strip: "strip (str_int i) = str_int i"
  proof (rule strip_no_space)
    fix c assume "c \<in> set (str_int i)"
    then show "\<not> is_space c" using str_int_chars [of c i] by (auto simp: is_space_def Let_def)
  qed
  show ?thesis
  proof (cases "i < 0")
    case True
    then have "str_int i = CHR ''-'' # str_nat (nat (- i))" by (simp add: str_int_def)
    with strip True show ?thesis by (simp add: parse_int_def parse_nat_str_nat)
  next
    case False
    then have s: "str_int i = str_nat (nat i)" by (simp add: str_int_def)
    obtain c cs where c: "str_nat (nat i) = c # cs" by (cases "str_nat (nat i)") auto
    then have "is_digit c" using is_digit_str_nat [of c "nat i"] by simp
    then have "c \<noteq> CHR ''-''" "c \<noteq> CHR ''+''" by (auto simp: is_digit_def)
    with strip s c False show ?thesis
      using parse_nat_str_nat [of "nat i"] by (simp add: parse_int_def)
  qed
qed

lemma py_int_str_int: "py_int (PStr (str_int i)) = Inr i"
  by (simp add: parse_int_str_int)

end
