(* ===== verification/PyPath.thy ===== *)
theory PyPath
  imports PyValue
begin

text \<open>
  \<open>pathlib.PurePosixPath\<close> as far as the program uses it: a root (empty, one slash, or exactly
  two) and the list of parts, without empty parts and single dots. What the file system decides
  (\<open>resolve\<close>, \<open>exists\<close>) is a parameter where it is used.
\<close>

datatype path = Path (path_root: string) (path_parts: "string list")

definition slash :: char where
  "slash = CHR ''/''"

definition path_of :: "string \<Rightarrow> path" where
  "path_of s =
     (let root = (case s of
            a # b # c # _ \<Rightarrow> if a = slash then (if b = slash \<and> c \<noteq> slash then ''//'' else ''/'') else ''''
          | [a, b] \<Rightarrow> if a = slash then (if b = slash then ''//'' else ''/'') else ''''
          | [a] \<Rightarrow> if a = slash then ''/'' else ''''
          | [] \<Rightarrow> '''')
      in Path root (filter (\<lambda>p. p \<noteq> [] \<and> p \<noteq> ''.'') (split_char slash s)))"

definition path_str :: "path \<Rightarrow> string" where
  "path_str p =
     (if path_root p = [] \<and> path_parts p = [] then ''.''
      else path_root p @ join ''/'' (path_parts p))"

definition is_absolute :: "path \<Rightarrow> bool" where
  "is_absolute p \<longleftrightarrow> path_root p \<noteq> []"

definition path_parent :: "path \<Rightarrow> path" where
  "path_parent p = Path (path_root p) (butlast (path_parts p))"

definition path_name :: "path \<Rightarrow> string" where
  "path_name p = (case path_parts p of [] \<Rightarrow> '''' | ps \<Rightarrow> last ps)"

text \<open>\<open>p / q\<close>: an absolute right operand replaces the left one.\<close>

definition path_join :: "path \<Rightarrow> string \<Rightarrow> path" where
  "path_join p s = (let q = path_of s in
     if is_absolute q then q else Path (path_root p) (path_parts p @ path_parts q))"

text \<open>\<open>(p, *p.parents)\<close>: the path and its ancestors, nearest first.\<close>

function path_and_parents :: "path \<Rightarrow> path list" where
  "path_and_parents p = (if path_parts p = [] then [p] else p # path_and_parents (path_parent p))"
  by pat_completeness auto
termination
  by (relation "measure (\<lambda>p. length (path_parts p))") (auto simp: path_parent_def)

declare path_and_parents.simps [simp del]

lemma path_parent_sel [simp]:
  "path_root (path_parent p) = path_root p"
  "path_parts (path_parent p) = butlast (path_parts p)"
  by (simp_all add: path_parent_def)

lemma path_name_snoc [simp]: "path_name (Path r (ps @ [c])) = c"
  by (cases ps) (simp_all add: path_name_def)

lemma path_parent_fixed: "path_parent p = p \<longleftrightarrow> path_parts p = []"
proof
  assume "path_parent p = p"
  then have "length (butlast (path_parts p)) = length (path_parts p)"
    by (metis path_parent_sel(2))
  then have "length (path_parts p) - 1 = length (path_parts p)" by (simp only: length_butlast)
  then have "length (path_parts p) = 0" by arith
  then show "path_parts p = []" by simp
next
  assume "path_parts p = []"
  then show "path_parent p = p" by (cases p) (simp add: path_parent_def)
qed

lemma set_path_and_parents:
  "set (path_and_parents p) = {Path (path_root p) (take n (path_parts p)) | n. n \<le> length (path_parts p)}"
proof (induction p rule: path_and_parents.induct)
  case (1 p)
  show ?case
  proof (cases "path_parts p = []")
    case True
    then have "path_and_parents p = [p]" by (simp add: path_and_parents.simps [of p])
    with True show ?thesis by (cases p) auto
  next
    case False
    have "set (path_and_parents p) = insert p (set (path_and_parents (path_parent p)))"
      using False by (simp add: path_and_parents.simps [of p])
    also have "\<dots> = insert p {Path (path_root p) (take n (path_parts p)) | n.
        n \<le> length (path_parts p) - 1}"
      using "1.IH" [OF False] by (auto simp: take_butlast butlast_conv_take min_def)
    also have "\<dots> = {Path (path_root p) (take n (path_parts p)) | n. n \<le> length (path_parts p)}"
    proof (intro set_eqI iffI)
      fix q
      assume "q \<in> insert p {Path (path_root p) (take n (path_parts p)) | n.
        n \<le> length (path_parts p) - 1}"
      then show "q \<in> {Path (path_root p) (take n (path_parts p)) | n. n \<le> length (path_parts p)}"
        by (cases p) (auto intro: exI [of _ "length (path_parts p)"])
    next
      fix q
      assume "q \<in> {Path (path_root p) (take n (path_parts p)) | n. n \<le> length (path_parts p)}"
      then obtain n where n: "q = Path (path_root p) (take n (path_parts p))" "n \<le> length (path_parts p)"
        by blast
      show "q \<in> insert p {Path (path_root p) (take n (path_parts p)) | n.
        n \<le> length (path_parts p) - 1}"
      proof (cases "n = length (path_parts p)")
        case True
        with n show ?thesis by (cases p) simp
      next
        case False
        with n show ?thesis by auto
      qed
    qed
    finally show ?thesis .
  qed
qed

lemma is_absolute_path_of: "is_absolute (path_of s) \<longleftrightarrow> (\<exists>t. s = slash # t)"
  by (auto simp: is_absolute_def path_of_def Let_def slash_def split: list.splits)

lemma path_of_parts: "x \<in> set (path_parts (path_of s)) \<Longrightarrow> x \<noteq> [] \<and> x \<noteq> ''.'' \<and> slash \<notin> set x"
  by (auto simp: path_of_def Let_def split_char_def dest: split_pred_concat)

end
