(* ===== verification/PyTime.thy ===== *)
theory PyTime
  imports PyValue
begin

text \<open>
  \<open>datetime\<close> values as microseconds since an epoch: aware values in UTC, naive values without
  a zone. The calendar text is a parameter, the record below: \<open>isoformat()\<close> of an aware UTC value,
  \<open>fromisoformat\<close>, and \<open>astimezone\<close> of a naive value in the zone of the host. What the
  program relies on is \<open>iso_clock_ok\<close>: the text of an instant parses back to it.
\<close>

datatype datetime = Aware int | Naive int

record iso_clock =
  ck_isoformat :: "int \<Rightarrow> string"
  ck_fromisoformat :: "string \<Rightarrow> datetime option"
  ck_local :: "int \<Rightarrow> int"

text \<open>\<open>value.isoformat().replace("+00:00", "Z")\<close> on an aware UTC value.\<close>

definition iso_z :: "iso_clock \<Rightarrow> int \<Rightarrow> string" where
  "iso_z ck t = replace_sub ''+00:00'' ''Z'' (ck_isoformat ck t)"

definition to_utc :: "iso_clock \<Rightarrow> datetime \<Rightarrow> int" where
  "to_utc ck d = (case d of Aware t \<Rightarrow> t | Naive t \<Rightarrow> ck_local ck t)"

definition fromisoformat :: "iso_clock \<Rightarrow> string \<Rightarrow> datetime res" where
  "fromisoformat ck s = (case ck_fromisoformat ck s of
     None \<Rightarrow> value_error (''Invalid isoformat string: '' @ repr_str s) | Some d \<Rightarrow> Inr d)"

definition iso_clock_ok :: "iso_clock \<Rightarrow> bool" where
  "iso_clock_ok ck \<longleftrightarrow> (\<forall>t. ck_fromisoformat ck (iso_z ck t) = Some (Aware t))"

lemma iso_clock_okD: "iso_clock_ok ck \<Longrightarrow> fromisoformat ck (iso_z ck t) = Inr (Aware t)"
  by (simp add: iso_clock_ok_def fromisoformat_def)

text \<open>A clock that satisfies the law: decimal microseconds with the zone suffix.\<close>

definition decimal_clock :: iso_clock where
  "decimal_clock = \<lparr>ck_isoformat = (\<lambda>t. str_int t @ ''+00:00''),
     ck_fromisoformat = (\<lambda>s. case split_once ''Z'' s of
        None \<Rightarrow> map_option Naive (parse_int s) | Some (a, b) \<Rightarrow> map_option Aware (parse_int a)),
     ck_local = (\<lambda>t. t)\<rparr>"

lemma decimal_clock_ok: "iso_clock_ok decimal_clock"
proof -
  have "replace_sub ''+00:00'' ''Z'' (str_int t @ ''+00:00'') = str_int t @ ''Z''" for t
  proof -
    have "CHR ''+'' \<notin> set (str_int t)" using str_int_chars [of "CHR ''+''" t] by auto
    then have "split_once ''+00:00'' (str_int t @ ''+00:00'' @ []) = Some (str_int t, [])"
      by (intro split_once_append) simp_all
    then show ?thesis
      by (subst replace_sub.simps) (simp, subst replace_sub.simps, simp)
  qed
  moreover have "split_once ''Z'' (str_int t @ CHR ''Z'' # []) = Some (str_int t, [])" for t
    using str_int_chars [of "CHR ''Z''" t] by (intro split_once_append_char) auto
  ultimately show ?thesis
    by (simp add: iso_clock_ok_def iso_z_def decimal_clock_def parse_int_str_int)
qed

end
