(* ===== verification/Shared_Policy.thy ===== *)
theory Shared_Policy
  imports PyValue
begin

text \<open>
  Tenant and isolation policy of the shared runtime (\<^verbatim>\<open>shared_runtime_policy.py\<close>) and the
  session affinity built on it (\<^verbatim>\<open>session_affinity.py\<close>): which upstream class may leave the
  local edge, and the scope its state is bound to. The check of an identifier, repeated with its
  own exception class in four modules, is the interface \<open>identifier_check\<close>.
\<close>

section \<open>Identifiers\<close>

definition safe_identifier :: "string \<Rightarrow> bool" where
  "safe_identifier s \<longleftrightarrow> \<not> blank s \<and> CHR ''/'' \<notin> set s \<and> CHR 0x5C \<notin> set s"

locale identifier_check =
  fixes check :: "pyval \<Rightarrow> string \<Rightarrow> string res" and mk :: "string \<Rightarrow> exn"
  assumes check_Inr: "check v field = Inr s \<longleftrightarrow> v = PStr s \<and> safe_identifier s"
    and check_Inl: "check v field = Inl e \<Longrightarrow> \<exists>m. e = mk m"
begin

lemma check_safe: "safe_identifier s \<Longrightarrow> check (PStr s) field = Inr s"
  by (simp add: check_Inr)

lemma check_rejects:
  "(\<nexists>s. v = PStr s \<and> safe_identifier s) \<Longrightarrow> \<exists>m. check v field = Inl (mk m)"
  using check_Inr [of v field] check_Inl [of v field] by (cases "check v field") auto

lemma check_PStr: "check (PStr s) field = Inr t \<longleftrightarrow> t = s \<and> safe_identifier s"
  by (auto simp: check_Inr)

end

section \<open>shared\_runtime\_policy.py\<close>

definition LOCAL_EDGE_BOUNDARY :: string where
  "LOCAL_EDGE_BOUNDARY = ''local_edge''"

definition SHARED_WORKER_BOUNDARY :: string where
  "SHARED_WORKER_BOUNDARY = ''shared_worker''"

definition REQUIRED_ISOLATION_DOMAINS :: "string list" where
  "REQUIRED_ISOLATION_DOMAINS =
     [''tenant'', ''workspace'', ''user'', ''upstream'', ''token'', ''log'', ''runtime_state'',
      ''audit'']"

definition LOCAL_ONLY_UPSTREAM_CLASSES :: "string list" where
  "LOCAL_ONLY_UPSTREAM_CLASSES =
     [''browser'', ''file_access'', ''local_secret'', ''oauth'', ''stateful'']"

definition build_shared_runtime_policy :: pydict where
  "build_shared_runtime_policy =
     [(''schema_version'', PInt 1),
      (''hosted_execution_supported'', PBool False),
      (''default_execution_boundary'', PStr LOCAL_EDGE_BOUNDARY),
      (''isolation_domains'', PList (map PStr REQUIRED_ISOLATION_DOMAINS)),
      (''tenant_context_required'',
         PList [PStr ''tenant_id'', PStr ''workspace_id'', PStr ''user_id'']),
      (''upstream_defaults'',
         PDict [(''unknown'', PStr LOCAL_EDGE_BOUNDARY),
                (''stateful'', PStr LOCAL_EDGE_BOUNDARY),
                (''stateless'', PStr LOCAL_EDGE_BOUNDARY)])]"

text \<open>
  \<open>tuple(domains or ())\<close>: a falsy value is the empty tuple, a list its items, a string its
  characters, a dictionary its keys; a number or \<open>True\<close> raises \<open>TypeError\<close>.
\<close>

fun tuple_or_empty :: "pyval \<Rightarrow> pyval list res" where
  "tuple_or_empty (PList xs) = Inr xs"
| "tuple_or_empty (PDict d) = Inr (map (\<lambda>(k, v). PStr k) d)"
| "tuple_or_empty (PStr s) = Inr (map (\<lambda>c. PStr [c]) s)"
| "tuple_or_empty v =
     (if truthy v
      then Inl (Exn TypeError (CHR 0x27 # type_name v @ CHR 0x27 # '' object is not iterable''))
      else Inr [])"

definition validate_shared_runtime_policy :: "pydict \<Rightarrow> pydict res" where
  "validate_shared_runtime_policy policy =
     bindE (require (eq_int (dget policy ''schema_version'') 1)
       (Exn SharedRuntimePolicyError ''shared runtime policy schema_version is invalid'')) (\<lambda>_.
     bindE (require (dget policy ''hosted_execution_supported'' = PBool False)
       (Exn SharedRuntimePolicyError ''hosted execution must remain unsupported'')) (\<lambda>_.
     bindE (require (dget policy ''default_execution_boundary'' = PStr LOCAL_EDGE_BOUNDARY)
       (Exn SharedRuntimePolicyError ''default execution boundary must be local_edge'')) (\<lambda>_.
     bindE (tuple_or_empty (dget policy ''isolation_domains'')) (\<lambda>domains.
     bindE (require (domains = map PStr REQUIRED_ISOLATION_DOMAINS)
       (Exn SharedRuntimePolicyError ''shared runtime isolation domains are incomplete'')) (\<lambda>_.
     Inr policy)))))"

definition policy_required_identifier :: "pydict \<Rightarrow> string \<Rightarrow> string res" where
  "policy_required_identifier context field =
     (case dget context field of
        PStr s \<Rightarrow>
          (if blank s then Inl (Exn SharedRuntimePolicyError (field @ '' is required''))
           else if CHR ''/'' \<in> set s \<or> CHR 0x5C \<in> set s
             then Inl (Exn SharedRuntimePolicyError (field @ '' must not contain path separators''))
           else Inr s)
      | _ \<Rightarrow> Inl (Exn SharedRuntimePolicyError (field @ '' is required'')))"

definition validate_tenant_context :: "pydict \<Rightarrow> pydict res" where
  "validate_tenant_context context =
     bindE (policy_required_identifier context ''tenant_id'') (\<lambda>tenant_id.
     bindE (policy_required_identifier context ''workspace_id'') (\<lambda>workspace_id.
     bindE (policy_required_identifier context ''user_id'') (\<lambda>user_id.
     Inr [(''tenant_id'', PStr tenant_id), (''workspace_id'', PStr workspace_id),
          (''user_id'', PStr user_id)])))"

definition decide_upstream_placement :: "string \<Rightarrow> bool \<Rightarrow> bool \<Rightarrow> pydict" where
  "decide_upstream_placement upstream_class allowlisted requires_local_state =
     (let normalized_class = lower (strip upstream_class) in
      if normalized_class = ''stateless'' \<and> allowlisted \<and> \<not> requires_local_state
      then [(''execution_boundary'', PStr SHARED_WORKER_BOUNDARY),
            (''shared_worker_eligible'', PBool True),
            (''reason'', PStr ''allowlisted_stateless_upstream'')]
      else [(''execution_boundary'', PStr LOCAL_EDGE_BOUNDARY),
            (''shared_worker_eligible'', PBool False),
            (''reason'', PStr ''local_state_or_unapproved_upstream_class'')])"

section \<open>session\_affinity.py\<close>

definition FORBIDDEN_UPSTREAM_CLASSES :: "string list" where
  "FORBIDDEN_UPSTREAM_CLASSES = [''private_inventory'']"

definition build_session_affinity_policy :: pydict where
  "build_session_affinity_policy =
     [(''schema_version'', PInt 1),
      (''default_execution_boundary'', PStr LOCAL_EDGE_BOUNDARY),
      (''local_only_upstream_classes'',
         PList [PStr ''browser'', PStr ''file_access'', PStr ''local_secret'', PStr ''oauth'',
                PStr ''stateful'', PStr ''unknown'']),
      (''shared_eligible_upstream_classes'', PList [PStr ''stateless'']),
      (''forbidden_upstream_classes'', PList [PStr ''private_inventory''])]"

definition normalize_upstream_class :: "string \<Rightarrow> string" where
  "normalize_upstream_class upstream_class =
     (let normalized = lower (strip upstream_class) in
      if normalized = [] then ''unknown''
      else if normalized \<in> set LOCAL_ONLY_UPSTREAM_CLASSES then normalized
      else if normalized = ''stateless'' then normalized
      else if normalized \<in> set FORBIDDEN_UPSTREAM_CLASSES then normalized
      else ''unknown'')"

definition affinity_required_identifier :: "pyval \<Rightarrow> string \<Rightarrow> string res" where
  "affinity_required_identifier v field =
     (case v of
        PStr s \<Rightarrow>
          (if blank s then Inl (Exn SessionAffinityError (field @ '' is required''))
           else if CHR ''/'' \<in> set s \<or> CHR 0x5C \<in> set s
             then Inl (Exn SessionAffinityError (field @ '' must not contain path separators''))
           else Inr s)
      | _ \<Rightarrow> Inl (Exn SessionAffinityError (field @ '' is required'')))"

text \<open>\<open>except SharedRuntimePolicyError\<close>: the only class the validation raises.\<close>

definition affinity_tenant_context :: "pydict \<Rightarrow> pydict res" where
  "affinity_tenant_context context =
     map_exn (\<lambda>e. if is_class SharedRuntimePolicyError e
       then Exn SessionAffinityError (exn_str e) else e) (validate_tenant_context context)"

definition decide_session_affinity ::
    "string \<Rightarrow> string \<Rightarrow> bool \<Rightarrow> bool \<Rightarrow> pydict \<Rightarrow> pydict res" where
  "decide_session_affinity upstream_class upstream_id allowlisted requires_local_state tenant_context =
     (let normalized_class = normalize_upstream_class upstream_class in
      bindE (require (normalized_class \<notin> set FORBIDDEN_UPSTREAM_CLASSES)
        (Exn SessionAffinityError ''upstream class is forbidden'')) (\<lambda>_.
      let placement = decide_upstream_placement normalized_class allowlisted requires_local_state in
      bindE (affinity_required_identifier (PStr upstream_id) ''upstream_id'') (\<lambda>safe_upstream_id.
      if dget placement ''execution_boundary'' = PStr SHARED_WORKER_BOUNDARY
      then bindE (affinity_tenant_context tenant_context) (\<lambda>context.
        Inr [(''upstream_class'', PStr normalized_class),
             (''execution_boundary'', PStr SHARED_WORKER_BOUNDARY),
             (''session_affinity'', PStr ''tenant_workspace_user''),
             (''state_binding'', PStr ''shared_worker_scope''),
             (''shared_worker_eligible'', PBool True),
             (''reason'', dget placement ''reason''),
             (''state_scope'', PDict
                [(''tenant_id'', dget context ''tenant_id''),
                 (''workspace_id'', dget context ''workspace_id''),
                 (''user_id'', dget context ''user_id''),
                 (''upstream_id'', PStr safe_upstream_id)])])
      else
        Inr [(''upstream_class'', PStr normalized_class),
             (''execution_boundary'', PStr LOCAL_EDGE_BOUNDARY),
             (''session_affinity'', PStr ''local_client_session''),
             (''state_binding'', PStr ''local_edge_session''),
             (''shared_worker_eligible'', PBool False),
             (''reason'', dget placement ''reason''),
             (''state_scope'', PDict
                [(''session'', PStr ''local_client_session''),
                 (''upstream_id'', PStr safe_upstream_id)])])))"

section \<open>Correctness\<close>

interpretation affinity_id: identifier_check affinity_required_identifier "Exn SessionAffinityError"
  by unfold_locales
     (auto simp: affinity_required_identifier_def safe_identifier_def split: pyval.splits if_splits)

lemma policy_required_identifier_Inr [simp]:
  "policy_required_identifier context field = Inr s \<longleftrightarrow>
     dget context field = PStr s \<and> safe_identifier s"
  by (auto simp: policy_required_identifier_def safe_identifier_def split: pyval.splits)

lemma policy_required_identifier_Inl:
  "policy_required_identifier context field = Inl e \<Longrightarrow> \<exists>m. e = Exn SharedRuntimePolicyError m"
  by (auto simp: policy_required_identifier_def split: pyval.splits if_splits)

text \<open>A tenant context is a complete, safe scope and nothing else.\<close>

definition tenant_scope :: "pydict \<Rightarrow> string \<Rightarrow> string \<Rightarrow> string \<Rightarrow> bool" where
  "tenant_scope context t w u \<longleftrightarrow>
     dget context ''tenant_id'' = PStr t \<and> dget context ''workspace_id'' = PStr w \<and>
     dget context ''user_id'' = PStr u \<and>
     safe_identifier t \<and> safe_identifier w \<and> safe_identifier u"

lemma validate_tenant_context_Inr:
  "validate_tenant_context context = Inr d \<longleftrightarrow>
     (\<exists>t w u. tenant_scope context t w u \<and>
        d = [(''tenant_id'', PStr t), (''workspace_id'', PStr w), (''user_id'', PStr u)])"
  by (auto simp: validate_tenant_context_def tenant_scope_def bindE_eq_Inr)

lemma validate_tenant_context_scope:
  "tenant_scope context t w u \<Longrightarrow> validate_tenant_context context =
     Inr [(''tenant_id'', PStr t), (''workspace_id'', PStr w), (''user_id'', PStr u)]"
  by (auto simp: validate_tenant_context_Inr)

lemma validate_tenant_context_idem:
  "validate_tenant_context context = Inr d \<Longrightarrow> validate_tenant_context d = Inr d"
  by (auto simp: validate_tenant_context_Inr tenant_scope_def)

lemma validate_tenant_context_Inl:
  "validate_tenant_context context = Inl e \<Longrightarrow> \<exists>m. e = Exn SharedRuntimePolicyError m"
  by (auto simp: validate_tenant_context_def bindE_eq_Inl dest: policy_required_identifier_Inl)

lemma decide_upstream_placement_shared:
  "dget (decide_upstream_placement c a r) ''execution_boundary'' = PStr SHARED_WORKER_BOUNDARY \<longleftrightarrow>
     lower (strip c) = ''stateless'' \<and> a \<and> \<not> r"
  by (auto simp: decide_upstream_placement_def LOCAL_EDGE_BOUNDARY_def SHARED_WORKER_BOUNDARY_def)

lemma normalize_upstream_class_stateless:
  "normalize_upstream_class c = ''stateless'' \<longleftrightarrow> lower (strip c) = ''stateless''"
  by (auto simp: normalize_upstream_class_def Let_def LOCAL_ONLY_UPSTREAM_CLASSES_def
      FORBIDDEN_UPSTREAM_CLASSES_def)

lemma normalize_upstream_class_range:
  "normalize_upstream_class c \<in> {''unknown'', ''stateless'', ''private_inventory''} \<union>
     set LOCAL_ONLY_UPSTREAM_CLASSES"
  by (auto simp: normalize_upstream_class_def Let_def FORBIDDEN_UPSTREAM_CLASSES_def)

text \<open>The names the normalisation yields are fixed points of stripping and lowering.\<close>

lemma normalized_class_lower:
  "lower (strip (normalize_upstream_class c)) = normalize_upstream_class c"
proof -
  have "\<forall>d \<in> set [''unknown'', ''stateless'', ''private_inventory'', ''browser'', ''file_access'',
      ''local_secret'', ''oauth'', ''stateful'']. lower (strip d) = d"
    by code_simp
  with normalize_upstream_class_range [of c] show ?thesis
    unfolding LOCAL_ONLY_UPSTREAM_CLASSES_def by auto
qed

lemma boundaries_distinct [simp]:
  "SHARED_WORKER_BOUNDARY \<noteq> LOCAL_EDGE_BOUNDARY" "LOCAL_EDGE_BOUNDARY \<noteq> SHARED_WORKER_BOUNDARY"
  by (simp_all add: SHARED_WORKER_BOUNDARY_def LOCAL_EDGE_BOUNDARY_def)

definition shared_eligible :: "string \<Rightarrow> bool \<Rightarrow> bool \<Rightarrow> bool" where
  "shared_eligible c allow local \<longleftrightarrow> lower (strip c) = ''stateless'' \<and> allow \<and> \<not> local"

lemma placement_normalized:
  "dget (decide_upstream_placement (normalize_upstream_class c) allow local) ''execution_boundary'' =
     PStr SHARED_WORKER_BOUNDARY \<longleftrightarrow> shared_eligible c allow local"
  by (simp add: decide_upstream_placement_shared normalized_class_lower
      normalize_upstream_class_stateless shared_eligible_def)

lemma affinity_tenant_context_Inr [simp]:
  "affinity_tenant_context ctx = Inr d \<longleftrightarrow> validate_tenant_context ctx = Inr d"
  by (simp add: affinity_tenant_context_def)

lemma affinity_tenant_context_Inl:
  "affinity_tenant_context ctx = Inl e \<Longrightarrow> \<exists>m. e = Exn SessionAffinityError m"
  by (auto simp: affinity_tenant_context_def map_exn_eq_Inl dest: validate_tenant_context_Inl)

lemma decide_session_affinity_local:
  "\<not> shared_eligible c allow local \<Longrightarrow>
   decide_session_affinity c up allow local ctx = Inr d \<Longrightarrow>
     dget d ''execution_boundary'' = PStr LOCAL_EDGE_BOUNDARY \<and>
     dget d ''state_scope'' =
       PDict [(''session'', PStr ''local_client_session''), (''upstream_id'', PStr up)]"
  by (auto simp: decide_session_affinity_def Let_def bindE_eq_Inr placement_normalized
      affinity_id.check_PStr)

lemma decide_session_affinity_shared:
  "shared_eligible c allow local \<Longrightarrow>
   decide_session_affinity c up allow local ctx = Inr d \<Longrightarrow>
     dget d ''execution_boundary'' = PStr SHARED_WORKER_BOUNDARY \<and>
     (\<exists>t w u. tenant_scope ctx t w u \<and> dget d ''state_scope'' =
       PDict [(''tenant_id'', PStr t), (''workspace_id'', PStr w), (''user_id'', PStr u),
              (''upstream_id'', PStr up)])"
  by (auto simp: decide_session_affinity_def Let_def bindE_eq_Inr placement_normalized
      affinity_id.check_PStr validate_tenant_context_Inr)

lemma decide_session_affinity_Inl:
  "decide_session_affinity c up allow local ctx = Inl e \<Longrightarrow> \<exists>m. e = Exn SessionAffinityError m"
  by (auto simp: decide_session_affinity_def Let_def bindE_eq_Inl
      dest: affinity_id.check_Inl affinity_tenant_context_Inl split: if_splits)

text \<open>A decision leaves the local edge exactly for an allowlisted stateless upstream without
  local state, and then the state is bound to the caller's whole, safe tenant scope; every other
  decision keeps the state in the local client session.\<close>

theorem session_affinity_scope:
  assumes "decide_session_affinity c up allow local ctx = Inr d"
  shows "if shared_eligible c allow local
    then dget d ''execution_boundary'' = PStr SHARED_WORKER_BOUNDARY \<and>
      (\<exists>t w u. tenant_scope ctx t w u \<and> dget d ''state_scope'' =
         PDict [(''tenant_id'', PStr t), (''workspace_id'', PStr w), (''user_id'', PStr u),
                (''upstream_id'', PStr up)])
    else dget d ''execution_boundary'' = PStr LOCAL_EDGE_BOUNDARY \<and>
      dget d ''state_scope'' =
         PDict [(''session'', PStr ''local_client_session''), (''upstream_id'', PStr up)]"
  using assms decide_session_affinity_local decide_session_affinity_shared by simp

definition tenant_example :: pydict where
  "tenant_example =
     [(''tenant_id'', PStr ''t1''), (''workspace_id'', PStr ''w1''), (''user_id'', PStr ''u1'')]"

theorem session_affinity_scope_witness:
  "\<exists>d. decide_session_affinity '' Stateless '' ''search'' True False tenant_example = Inr d \<and>
     shared_eligible '' Stateless '' True False \<and>
     dget d ''execution_boundary'' = PStr SHARED_WORKER_BOUNDARY"
proof -
  have e: "shared_eligible '' Stateless '' True False" by code_simp
  have "\<not> isl (decide_session_affinity '' Stateless '' ''search'' True False tenant_example)"
    by code_simp
  then obtain d where
    d: "decide_session_affinity '' Stateless '' ''search'' True False tenant_example = Inr d"
    by (cases "decide_session_affinity '' Stateless '' ''search'' True False tenant_example") auto
  from session_affinity_scope [OF d] e d show ?thesis by auto
qed

end
