(* ===== verification/Quota_Policy.thy ===== *)
theory Quota_Policy
  imports Shared_Policy
begin

text \<open>
  Quota decisions of the shared runtime (\<^verbatim>\<open>quota_policy.py\<close>). The snapshot of switches
  and counters comes from outside, so every field is read with its type test; the abstract
  specification \<open>quota_permits\<close> says when a request may pass, and the decision refines it.
\<close>

definition QUOTA_SCOPES :: "string list" where
  "QUOTA_SCOPES = [''global'', ''team'', ''user'', ''upstream'', ''tool'']"

definition build_quota_policy :: pydict where
  "build_quota_policy =
     [(''schema_version'', PInt 1),
      (''default_decision'', PStr ''deny''),
      (''external_metering_supported'', PBool False),
      (''enforced_scopes'', PList (map PStr QUOTA_SCOPES)),
      (''denial_audit_required'', PBool True)]"

definition quota_required_identifier :: "pyval \<Rightarrow> string \<Rightarrow> string res" where
  "quota_required_identifier v field =
     (case v of
        PStr s \<Rightarrow>
          (if blank s then Inl (Exn QuotaPolicyError (field @ '' is required''))
           else if CHR ''/'' \<in> set s \<or> CHR 0x5C \<in> set s
             then Inl (Exn QuotaPolicyError (field @ '' must not contain path separators''))
           else Inr s)
      | _ \<Rightarrow> Inl (Exn QuotaPolicyError (field @ '' is required'')))"

definition quota_tenant_context :: "pydict \<Rightarrow> pydict res" where
  "quota_tenant_context context =
     map_exn (\<lambda>e. if is_class SharedRuntimePolicyError e
       then Exn QuotaPolicyError (exn_str e) else e) (validate_tenant_context context)"

definition quota_audit_event :: "pydict \<Rightarrow> string \<Rightarrow> string option \<Rightarrow> pydict" where
  "quota_audit_event request_scope result denial_reason =
     [(''event_type'', PStr ''quota_decision''),
      (''tenant_id'', dget request_scope ''tenant_id''),
      (''workspace_id'', dget request_scope ''workspace_id''),
      (''user_id'', dget request_scope ''user_id''),
      (''team_id'', dget request_scope ''team_id''),
      (''upstream_id'', dget request_scope ''upstream_id''),
      (''tool_name'', dget request_scope ''tool_name''),
      (''result'', PStr result)] @
     (case denial_reason of None \<Rightarrow> [] | Some r \<Rightarrow> [(''denial_reason'', PStr r)])"

section \<open>Counters\<close>

definition limit_count :: "pydict \<Rightarrow> int" where
  "limit_count rec = (case as_int (dget rec ''limit'') of None \<Rightarrow> 0 | Some i \<Rightarrow> max 0 i)"

definition used_count :: "pydict \<Rightarrow> int" where
  "used_count rec = (case as_int (dget rec ''used'') of None \<Rightarrow> 0 | Some i \<Rightarrow> max 0 i)"

definition limit_record :: "pydict \<Rightarrow> string \<Rightarrow> pydict option" where
  "limit_record limits field = (case dget limits field of PDict rec \<Rightarrow> Some rec | _ \<Rightarrow> None)"

definition scoped_limit_record :: "pydict \<Rightarrow> string \<Rightarrow> string \<Rightarrow> pydict option" where
  "scoped_limit_record limits field identifier =
     (case dget limits field of
        PDict scoped_limits \<Rightarrow>
          (case dget scoped_limits identifier of PDict rec \<Rightarrow> Some rec | _ \<Rightarrow> None)
      | _ \<Rightarrow> None)"

section \<open>Denials\<close>

text \<open>The denials name the scope and the reason; the loops return at the first one.\<close>

fun first_switch :: "pydict \<Rightarrow> (string \<times> string \<times> string) list \<Rightarrow> (string \<times> string) option" where
  "first_switch kill_switches [] = None"
| "first_switch kill_switches ((scope, field, identifier) # rest) =
     (case dget kill_switches field of
        PList values \<Rightarrow>
          (if PStr identifier \<in> set values then Some (scope, scope @ ''_kill_switch'')
           else first_switch kill_switches rest)
      | _ \<Rightarrow> Some (scope, scope @ ''_kill_switch_missing''))"

definition kill_switch_denial :: "pydict \<Rightarrow> string \<Rightarrow> string \<Rightarrow> string \<Rightarrow> string \<Rightarrow>
    (string \<times> string) option" where
  "kill_switch_denial quota_snapshot team_id user_id upstream_id tool_name =
     (case dget quota_snapshot ''kill_switches'' of
        PDict kill_switches \<Rightarrow>
          (if dget kill_switches ''global'' = PBool True then Some (''global'', ''global_kill_switch'')
           else first_switch kill_switches
             [(''team'', ''teams'', team_id), (''user'', ''users'', user_id),
              (''upstream'', ''upstreams'', upstream_id), (''tool'', ''tools'', tool_name)])
      | _ \<Rightarrow> Some (''global'', ''global_kill_switch_missing''))"

fun first_limit :: "(string \<times> pydict option) list \<Rightarrow> (string \<times> string) option" where
  "first_limit [] = None"
| "first_limit ((scope, rec) # rest) =
     (case rec of
        None \<Rightarrow> Some (scope, scope @ ''_quota_missing'')
      | Some r \<Rightarrow>
          (if limit_count r \<le> used_count r then Some (scope, scope @ ''_quota_exceeded'')
           else first_limit rest))"

definition limit_denial :: "pydict \<Rightarrow> string \<Rightarrow> string \<Rightarrow> string \<Rightarrow> string \<Rightarrow>
    (string \<times> string) option" where
  "limit_denial quota_snapshot team_id user_id upstream_id tool_name =
     (case dget quota_snapshot ''limits'' of
        PDict limits \<Rightarrow> first_limit
          [(''global'', limit_record limits ''global''),
           (''team'', scoped_limit_record limits ''teams'' team_id),
           (''user'', scoped_limit_record limits ''users'' user_id),
           (''upstream'', scoped_limit_record limits ''upstreams'' upstream_id),
           (''tool'', scoped_limit_record limits ''tools'' tool_name)]
      | _ \<Rightarrow> Some (''global'', ''global_quota_missing''))"

definition first_denial :: "pydict \<Rightarrow> string \<Rightarrow> string \<Rightarrow> string \<Rightarrow> string \<Rightarrow>
    (string \<times> string) option" where
  "first_denial quota_snapshot team_id user_id upstream_id tool_name =
     (case kill_switch_denial quota_snapshot team_id user_id upstream_id tool_name of
        Some d \<Rightarrow> Some d
      | None \<Rightarrow> limit_denial quota_snapshot team_id user_id upstream_id tool_name)"

text \<open>The user the request counts against, from a validated context.\<close>

fun str_of :: "pyval \<Rightarrow> string" where
  "str_of (PStr s) = s"
| "str_of v = ''''"

definition decide_quota :: "pydict \<Rightarrow> string \<Rightarrow> string \<Rightarrow> string \<Rightarrow> pydict \<Rightarrow> pydict res" where
  "decide_quota tenant_context team_id upstream_id tool_name quota_snapshot =
     bindE (quota_tenant_context tenant_context) (\<lambda>context.
     bindE (quota_required_identifier (PStr team_id) ''team_id'') (\<lambda>safe_team_id.
     bindE (quota_required_identifier (PStr upstream_id) ''upstream_id'') (\<lambda>safe_upstream_id.
     bindE (quota_required_identifier (PStr tool_name) ''tool_name'') (\<lambda>safe_tool_name.
     let request_scope =
           [(''tenant_id'', dget context ''tenant_id''),
            (''workspace_id'', dget context ''workspace_id''),
            (''user_id'', dget context ''user_id''),
            (''team_id'', PStr safe_team_id),
            (''upstream_id'', PStr safe_upstream_id),
            (''tool_name'', PStr safe_tool_name)]
     in case first_denial quota_snapshot safe_team_id (str_of (dget context ''user_id''))
               safe_upstream_id safe_tool_name of
          Some (blocked_scope, reason) \<Rightarrow>
            Inr [(''allowed'', PBool False),
                 (''reason'', PStr reason),
                 (''blocked_scope'', PStr blocked_scope),
                 (''checked_scopes'', PList (map PStr QUOTA_SCOPES)),
                 (''audit_event'', PDict (quota_audit_event request_scope ''denied'' (Some reason)))]
        | None \<Rightarrow>
            Inr [(''allowed'', PBool True),
                 (''reason'', PStr ''quota_allowed''),
                 (''checked_scopes'', PList (map PStr QUOTA_SCOPES)),
                 (''audit_event'', PDict (quota_audit_event request_scope ''allowed'' None))]))))"

section \<open>Specification\<close>

text \<open>A counter has room: the record is there and its non-negative use is below its limit.\<close>

definition has_room :: "pydict option \<Rightarrow> bool" where
  "has_room rec \<longleftrightarrow> (\<exists>r. rec = Some r \<and> used_count r < limit_count r)"

definition switch_open :: "pydict \<Rightarrow> string \<Rightarrow> string \<Rightarrow> bool" where
  "switch_open ks field identifier \<longleftrightarrow>
     (\<exists>values. dget ks field = PList values \<and> PStr identifier \<notin> set values)"

definition quota_permits :: "pydict \<Rightarrow> string \<Rightarrow> string \<Rightarrow> string \<Rightarrow> string \<Rightarrow> bool" where
  "quota_permits snap team user up tool \<longleftrightarrow>
     (\<exists>ks limits. dget snap ''kill_switches'' = PDict ks \<and> dget snap ''limits'' = PDict limits \<and>
        dget ks ''global'' \<noteq> PBool True \<and>
        switch_open ks ''teams'' team \<and> switch_open ks ''users'' user \<and>
        switch_open ks ''upstreams'' up \<and> switch_open ks ''tools'' tool \<and>
        has_room (limit_record limits ''global'') \<and>
        has_room (scoped_limit_record limits ''teams'' team) \<and>
        has_room (scoped_limit_record limits ''users'' user) \<and>
        has_room (scoped_limit_record limits ''upstreams'' up) \<and>
        has_room (scoped_limit_record limits ''tools'' tool))"

lemma first_switch_None:
  "first_switch ks ss = None \<longleftrightarrow> list_all (\<lambda>(scope, field, identifier). switch_open ks field identifier) ss"
  by (induction ks ss rule: first_switch.induct) (auto simp: switch_open_def split: pyval.split)

lemma first_limit_None: "first_limit rs = None \<longleftrightarrow> list_all (\<lambda>(scope, rec). has_room rec) rs"
  by (induction rs rule: first_limit.induct) (auto simp: has_room_def split: option.split)

lemma kill_switch_denial_None:
  "kill_switch_denial snap team user up tool = None \<longleftrightarrow>
     (\<exists>ks. dget snap ''kill_switches'' = PDict ks \<and> dget ks ''global'' \<noteq> PBool True \<and>
        switch_open ks ''teams'' team \<and> switch_open ks ''users'' user \<and>
        switch_open ks ''upstreams'' up \<and> switch_open ks ''tools'' tool)"
  unfolding kill_switch_denial_def
  by (cases "dget snap ''kill_switches''") (simp_all add: first_switch_None del: first_switch.simps)

lemma limit_denial_None:
  "limit_denial snap team user up tool = None \<longleftrightarrow>
     (\<exists>limits. dget snap ''limits'' = PDict limits \<and>
        has_room (limit_record limits ''global'') \<and>
        has_room (scoped_limit_record limits ''teams'' team) \<and>
        has_room (scoped_limit_record limits ''users'' user) \<and>
        has_room (scoped_limit_record limits ''upstreams'' up) \<and>
        has_room (scoped_limit_record limits ''tools'' tool))"
  unfolding limit_denial_def
  by (cases "dget snap ''limits''") (simp_all add: first_limit_None del: first_limit.simps)

lemma first_denial_None:
  "first_denial snap team user up tool = None \<longleftrightarrow> quota_permits snap team user up tool"
proof -
  have "first_denial snap team user up tool = None \<longleftrightarrow>
      kill_switch_denial snap team user up tool = None \<and> limit_denial snap team user up tool = None"
    by (simp add: first_denial_def split: option.split)
  then show ?thesis
    unfolding kill_switch_denial_None limit_denial_None quota_permits_def by blast
qed

text \<open>Which denial is reported: the scopes are tried in the order of \<open>QUOTA_SCOPES\<close>.\<close>

lemma first_limit_Some:
  "first_limit rs = Some (scope, reason) \<Longrightarrow>
     \<exists>i < length rs. fst (rs ! i) = scope \<and> \<not> has_room (snd (rs ! i)) \<and>
       (\<forall>j < i. has_room (snd (rs ! j)))"
proof (induction rs rule: first_limit.induct)
  case 1
  then show ?case by simp
next
  case (2 scope' rec rest)
  show ?case
  proof (cases "has_room rec")
    case True
    then obtain r where r: "rec = Some r" "used_count r < limit_count r"
      by (auto simp: has_room_def)
    with 2 obtain i where "i < length rest" "fst (rest ! i) = scope" "\<not> has_room (snd (rest ! i))"
      "\<forall>j < i. has_room (snd (rest ! j))"
      by auto
    with True show ?thesis
      by (intro exI [of _ "Suc i"]) (auto simp: nth_Cons split: nat.split)
  next
    case False
    with "2.prems" show ?thesis
      by (intro exI [of _ 0]) (auto simp: has_room_def split: option.splits if_splits)
  qed
qed

interpretation quota_id: identifier_check quota_required_identifier "Exn QuotaPolicyError"
  by unfold_locales
     (auto simp: quota_required_identifier_def safe_identifier_def split: pyval.splits if_splits)

lemma quota_tenant_context_Inr [simp]:
  "quota_tenant_context ctx = Inr d \<longleftrightarrow> validate_tenant_context ctx = Inr d"
  by (simp add: quota_tenant_context_def)

lemma quota_tenant_context_Inl:
  "quota_tenant_context ctx = Inl e \<Longrightarrow> \<exists>m. e = Exn QuotaPolicyError m"
  by (auto simp: quota_tenant_context_def map_exn_eq_Inl dest: validate_tenant_context_Inl)

text \<open>The only exception of a decision is \<open>QuotaPolicyError\<close>.\<close>

lemma decide_quota_Inl:
  "decide_quota ctx team up tool snap = Inl e \<Longrightarrow> \<exists>m. e = Exn QuotaPolicyError m"
  by (auto simp: decide_quota_def Let_def bindE_eq_Inl
      dest: quota_id.check_Inl quota_tenant_context_Inl split: option.splits)

text \<open>The request passes the identifier checks.\<close>

definition quota_request_ok :: "pydict \<Rightarrow> string \<Rightarrow> string \<Rightarrow> string \<Rightarrow> string \<Rightarrow> bool" where
  "quota_request_ok ctx user team up tool \<longleftrightarrow>
     (\<exists>t w. tenant_scope ctx t w user) \<and> safe_identifier team \<and> safe_identifier up \<and>
     safe_identifier tool"

lemma decide_quota_cases:
  assumes "quota_request_ok ctx user team up tool"
  shows "\<exists>d ev. decide_quota ctx team up tool snap = Inr d \<and>
     dget d ''allowed'' = PBool (quota_permits snap team user up tool) \<and>
     dget d ''audit_event'' = PDict ev \<and> dget ev ''user_id'' = PStr user \<and>
     dget ev ''team_id'' = PStr team \<and> dget ev ''upstream_id'' = PStr up \<and>
     dget ev ''tool_name'' = PStr tool \<and>
     dget ev ''result'' =
       PStr (if quota_permits snap team user up tool then ''allowed'' else ''denied'')"
proof -
  from assms obtain t w where sc: "tenant_scope ctx t w user"
    and ids: "safe_identifier team" "safe_identifier up" "safe_identifier tool"
    by (auto simp: quota_request_ok_def)
  have q: "quota_tenant_context ctx =
      Inr [(''tenant_id'', PStr t), (''workspace_id'', PStr w), (''user_id'', PStr user)]"
    using sc by (simp add: validate_tenant_context_scope)
  show ?thesis
  proof (cases "first_denial snap team user up tool")
    case None
    then have "quota_permits snap team user up tool" by (simp add: first_denial_None)
    with None show ?thesis
      by (simp add: decide_quota_def q quota_id.check_safe ids Let_def quota_audit_event_def)
  next
    case (Some sr)
    then have "\<not> quota_permits snap team user up tool"
      using first_denial_None [of snap team user up tool] by auto
    with Some show ?thesis
      by (cases sr)
         (simp add: decide_quota_def q quota_id.check_safe ids Let_def quota_audit_event_def)
  qed
qed

text \<open>C39. A request with a safe tenant scope and safe identifiers always gets a decision, allowed
  exactly when every switch is open and every one of the five counters has room, with an audit
  event for the same user, team, upstream and tool that says the same; a missing or mistyped
  switch list or counter denies.\<close>

theorem quota_decision_refines_spec:
  assumes "quota_request_ok ctx user team up tool"
  shows "\<exists>d ev. decide_quota ctx team up tool snap = Inr d \<and>
     dget d ''allowed'' = PBool (quota_permits snap team user up tool) \<and>
     dget d ''audit_event'' = PDict ev \<and> dget ev ''user_id'' = PStr user \<and>
     dget ev ''team_id'' = PStr team \<and> dget ev ''upstream_id'' = PStr up \<and>
     dget ev ''tool_name'' = PStr tool \<and>
     dget ev ''result'' =
       PStr (if quota_permits snap team user up tool then ''allowed'' else ''denied'')"
  using assms by (rule decide_quota_cases)

definition quota_snapshot_example :: pydict where
  "quota_snapshot_example =
     [(''kill_switches'', PDict
         [(''global'', PBool False), (''teams'', PList []), (''users'', PList [PStr ''mallory'']),
          (''upstreams'', PList []), (''tools'', PList [])]),
      (''limits'', PDict
         [(''global'', PDict [(''limit'', PInt 10), (''used'', PInt 9)]),
          (''teams'', PDict [(''core'', PDict [(''limit'', PInt 5), (''used'', PInt 0)])]),
          (''users'', PDict [(''u1'', PDict [(''limit'', PInt 2), (''used'', PInt 1)])]),
          (''upstreams'', PDict [(''search'', PDict [(''limit'', PInt 2)])]),
          (''tools'', PDict [(''search.query'', PDict [(''limit'', PInt 1), (''used'', PInt 0)])])])]"

theorem quota_decision_refines_spec_witness:
  "(\<exists>d. decide_quota tenant_example ''core'' ''search'' ''search.query'' quota_snapshot_example = Inr d \<and>
      dget d ''allowed'' = PBool True) \<and>
   (\<exists>d. decide_quota tenant_example ''core'' ''search'' ''search.query'' [] = Inr d \<and>
      dget d ''allowed'' = PBool False)"
proof -
  have "tenant_scope tenant_example ''t1'' ''w1'' ''u1''"
    unfolding tenant_scope_def by code_simp
  moreover have "safe_identifier ''core'' \<and> safe_identifier ''search'' \<and> safe_identifier ''search.query''"
    by code_simp
  ultimately have ok: "quota_request_ok tenant_example ''u1'' ''core'' ''search'' ''search.query''"
    unfolding quota_request_ok_def by blast
  have "first_denial quota_snapshot_example ''core'' ''u1'' ''search'' ''search.query'' = None"
    by code_simp
  then have p: "quota_permits quota_snapshot_example ''core'' ''u1'' ''search'' ''search.query''"
    by (simp add: first_denial_None)
  have n: "\<not> quota_permits [] ''core'' ''u1'' ''search'' ''search.query''"
    by (simp add: quota_permits_def)
  from quota_decision_refines_spec [OF ok, of quota_snapshot_example]
    quota_decision_refines_spec [OF ok, of "[]"] p n
  show ?thesis by auto
qed

text \<open>When every switch lets the request through, the reported scope is the first of the five
  without room, in the order global, team, user, upstream, tool.\<close>

theorem quota_first_exceeded_scope:
  assumes "kill_switch_denial snap team user up tool = None"
    and "first_denial snap team user up tool = Some (scope, reason)"
    and "dget snap ''limits'' = PDict limits"
  shows "\<exists>i < 5. scope = QUOTA_SCOPES ! i \<and>
    (let recs = [limit_record limits ''global'', scoped_limit_record limits ''teams'' team,
                 scoped_limit_record limits ''users'' user,
                 scoped_limit_record limits ''upstreams'' up,
                 scoped_limit_record limits ''tools'' tool]
     in \<not> has_room (recs ! i) \<and> (\<forall>j < i. has_room (recs ! j)))"
proof -
  let ?rs = "[(''global'', limit_record limits ''global''),
     (''team'', scoped_limit_record limits ''teams'' team),
     (''user'', scoped_limit_record limits ''users'' user),
     (''upstream'', scoped_limit_record limits ''upstreams'' up),
     (''tool'', scoped_limit_record limits ''tools'' tool)]"
  have "first_limit ?rs = Some (scope, reason)"
    using assms by (simp add: first_denial_def limit_denial_def)
  then obtain i where i: "i < length ?rs" "fst (?rs ! i) = scope" "\<not> has_room (snd (?rs ! i))"
    "\<forall>j < i. has_room (snd (?rs ! j))"
    by (blast dest: first_limit_Some)
  have fsts: "fst (?rs ! k) = QUOTA_SCOPES ! k \<and> snd (?rs ! k) = map snd ?rs ! k" if "k < 5" for k
    using that by (auto simp: QUOTA_SCOPES_def numeral_eq_Suc less_Suc_eq)
  have "\<forall>j < i. has_room (map snd ?rs ! j)" using i fsts by fastforce
  with i fsts [of i] show ?thesis by (intro exI [of _ i]) auto
qed

theorem quota_first_exceeded_scope_witness:
  "\<exists>i < 5. ''user'' = QUOTA_SCOPES ! i"
proof -
  let ?s = "[(''kill_switches'', PDict [(''teams'', PList []), (''users'', PList []),
        (''upstreams'', PList []), (''tools'', PList [])]),
      (''limits'', PDict [(''global'', PDict [(''limit'', PInt 1)]),
        (''teams'', PDict [(''core'', PDict [(''limit'', PInt 1)])])])]"
  have "kill_switch_denial ?s ''core'' ''u1'' ''search'' ''q.q'' = None" by code_simp
  moreover have "first_denial ?s ''core'' ''u1'' ''search'' ''q.q'' = Some (''user'', ''user_quota_missing'')"
    by code_simp
  moreover have "dget ?s ''limits'' = PDict [(''global'', PDict [(''limit'', PInt 1)]),
        (''teams'', PDict [(''core'', PDict [(''limit'', PInt 1)])])]"
    by simp
  ultimately show ?thesis by (blast dest: quota_first_exceeded_scope)
qed

end
