(* ===== verification/Shared_Worker.thy ===== *)
theory Shared_Worker
  imports Quota_Policy
begin

text \<open>
  The in-process shared worker (\<^verbatim>\<open>shared_worker.py\<close>): its table of tools, the sandbox
  it runs them in, and the decision of one call, which always carries an audit event.
\<close>

section \<open>Tools and sandbox\<close>

record shared_worker_tool =
  wt_upstream_id :: string
  wt_name :: string
  wt_behavior :: string

definition SUPPORTED_TOOL_BEHAVIORS :: "string list" where
  "SUPPORTED_TOOL_BEHAVIORS = [''echo'', ''inspect_sandbox'']"

record worker_sandbox =
  sb_environment :: "(string \<times> string) list"
  sb_secret_names :: "string list"
  sb_file_roots :: "string list"
  sb_network_allowed :: bool
  sb_local_state_allowed :: bool

definition default_deny :: worker_sandbox where
  "default_deny = \<lparr>sb_environment = [], sb_secret_names = [], sb_file_roots = [],
     sb_network_allowed = False, sb_local_state_allowed = False\<rparr>"

definition describe_sandbox :: "worker_sandbox \<Rightarrow> pydict" where
  "describe_sandbox s =
     [(''environment'', PDict (map (\<lambda>(k, v). (k, PStr v)) (sb_environment s))),
      (''secret_names'', PList (map PStr (sb_secret_names s))),
      (''file_roots'', PList (map PStr (sb_file_roots s))),
      (''network_allowed'', PBool (sb_network_allowed s)),
      (''local_state_allowed'', PBool (sb_local_state_allowed s))]"

definition worker_required_identifier :: "pyval \<Rightarrow> string \<Rightarrow> string res" where
  "worker_required_identifier v field =
     (case v of
        PStr s \<Rightarrow>
          (if blank s then Inl (Exn SharedWorkerError (field @ '' is required''))
           else if CHR ''/'' \<in> set s \<or> CHR 0x5C \<in> set s
             then Inl (Exn SharedWorkerError (field @ '' must not contain path separators''))
           else Inr s)
      | _ \<Rightarrow> Inl (Exn SharedWorkerError (field @ '' is required'')))"

definition required_tool_name :: "pyval \<Rightarrow> string res" where
  "required_tool_name v =
     bindE (worker_required_identifier v ''tool_name'') (\<lambda>s.
     bindE (require (CHR ''.'' \<in> set s)
       (Exn SharedWorkerError ''tool_name must include upstream prefix'')) (\<lambda>_. Inr s))"

definition validate_tool :: "shared_worker_tool \<Rightarrow> shared_worker_tool res" where
  "validate_tool tool =
     bindE (worker_required_identifier (PStr (wt_upstream_id tool)) ''upstream_id'') (\<lambda>_.
     bindE (required_tool_name (PStr (wt_name tool))) (\<lambda>_.
     bindE (require (wt_behavior tool \<in> set SUPPORTED_TOOL_BEHAVIORS)
       (Exn SharedWorkerError ''unsupported shared worker tool behavior'')) (\<lambda>_. Inr tool)))"

definition tool_key :: "string \<Rightarrow> string \<Rightarrow> string \<times> string" where
  "tool_key upstream_id tool_name = (upstream_id, tool_name)"

type_synonym worker_tools = "((string \<times> string) \<times> shared_worker_tool) list"

text \<open>\<open>SharedWorkerRuntime.__init__\<close>: a later tool of the same key replaces an earlier one.\<close>

definition worker_init :: "shared_worker_tool list \<Rightarrow> worker_tools res" where
  "worker_init tools = foldE (\<lambda>table tool.
     bindE (validate_tool tool) (\<lambda>t.
       Inr (AList.update (tool_key (wt_upstream_id tool) (wt_name tool)) t table))) [] tools"

section \<open>One call\<close>

definition execute_fake_tool ::
    "shared_worker_tool \<Rightarrow> pydict \<Rightarrow> worker_sandbox \<Rightarrow> pydict res" where
  "execute_fake_tool tool arguments sandbox =
     (if wt_behavior tool = ''echo'' then
        (let message = (case dget arguments ''message'' of PStr s \<Rightarrow> s | _ \<Rightarrow> '''') in
         Inr [(''content'', PList [PDict [(''type'', PStr ''text''), (''text'', PStr message)]]),
              (''structuredContent'', PDict [(''message'', PStr message)])])
      else if wt_behavior tool = ''inspect_sandbox'' then
        Inr [(''content'', PList [PDict [(''type'', PStr ''text''), (''text'', PStr ''sandbox'')]]),
             (''structuredContent'', PDict (describe_sandbox sandbox))]
      else Inl (Exn SharedWorkerError ''unsupported shared worker tool behavior''))"

definition placement_denial ::
    "string \<Rightarrow> string \<Rightarrow> bool \<Rightarrow> bool \<Rightarrow> pydict \<Rightarrow> string option res" where
  "placement_denial upstream_class upstream_id allowlisted requires_local_state tenant_context =
     bindE (map_exn (\<lambda>e. if is_class SessionAffinityError e
         then Exn SharedWorkerError (exn_str e) else e)
       (decide_session_affinity upstream_class upstream_id allowlisted requires_local_state
         tenant_context)) (\<lambda>placement.
     Inr (if dget placement ''execution_boundary'' \<noteq> PStr SHARED_WORKER_BOUNDARY
          then Some ''shared_worker_placement_denied'' else None))"

definition quota_denial :: "pydict \<Rightarrow> string option" where
  "quota_denial quota_decision =
     (if dget quota_decision ''allowed'' = PBool True then None
      else case dget quota_decision ''reason'' of
        PStr reason \<Rightarrow> (if reason \<noteq> [] then Some reason else Some ''quota_denied'')
      | _ \<Rightarrow> Some ''quota_denied'')"

definition worker_audit_event :: "pydict \<Rightarrow> string \<Rightarrow> string \<Rightarrow> string option \<Rightarrow> pydict" where
  "worker_audit_event worker_scope tool_name result denial_reason =
     [(''event_type'', PStr ''shared_worker_call''),
      (''tenant_id'', dget worker_scope ''tenant_id''),
      (''workspace_id'', dget worker_scope ''workspace_id''),
      (''user_id'', dget worker_scope ''user_id''),
      (''upstream_id'', dget worker_scope ''upstream_id''),
      (''tool_name'', PStr tool_name),
      (''result'', PStr result)] @
     (case denial_reason of None \<Rightarrow> [] | Some r \<Rightarrow> [(''denial_reason'', PStr r)])"

text \<open>\<open>audit_reason or reason\<close>: a missing or empty audit reason falls back.\<close>

definition denied_decision :: "pydict \<Rightarrow> string \<Rightarrow> string \<Rightarrow> string option \<Rightarrow> pydict" where
  "denied_decision worker_scope tool_name reason audit_reason =
     [(''allowed'', PBool False),
      (''reason'', PStr reason),
      (''worker_scope'', PDict worker_scope),
      (''result'', PNone),
      (''audit_event'', PDict (worker_audit_event worker_scope tool_name ''denied''
         (Some (case audit_reason of Some (c # cs) \<Rightarrow> c # cs | _ \<Rightarrow> reason))))]"

definition worker_tenant_context :: "pydict \<Rightarrow> pydict res" where
  "worker_tenant_context context =
     map_exn (\<lambda>e. if is_class SharedRuntimePolicyError e
       then Exn SharedWorkerError (exn_str e) else e) (validate_tenant_context context)"

definition worker_call_tool ::
    "worker_tools \<Rightarrow> pydict \<Rightarrow> string \<Rightarrow> string \<Rightarrow> bool \<Rightarrow> bool \<Rightarrow> string \<Rightarrow> pydict \<Rightarrow> pydict \<Rightarrow>
     pydict res" where
  "worker_call_tool tools tenant_context upstream_id upstream_class allowlisted
       requires_local_state tool_name arguments quota_decision =
     bindE (worker_tenant_context tenant_context) (\<lambda>context.
     bindE (worker_required_identifier (PStr upstream_id) ''upstream_id'') (\<lambda>safe_upstream_id.
     bindE (required_tool_name (PStr tool_name)) (\<lambda>safe_tool_name.
     let worker_scope =
           [(''tenant_id'', dget context ''tenant_id''),
            (''workspace_id'', dget context ''workspace_id''),
            (''user_id'', dget context ''user_id''),
            (''upstream_id'', PStr safe_upstream_id)]
     in
     bindE (placement_denial upstream_class safe_upstream_id allowlisted requires_local_state
              context) (\<lambda>denial.
     case denial of
       Some r \<Rightarrow> Inr (denied_decision worker_scope safe_tool_name r None)
     | None \<Rightarrow>
     (case quota_denial quota_decision of
       Some r \<Rightarrow> Inr (denied_decision worker_scope safe_tool_name ''quota_denied'' (Some r))
     | None \<Rightarrow>
     (case map_of tools (tool_key safe_upstream_id safe_tool_name) of
       None \<Rightarrow> Inr (denied_decision worker_scope safe_tool_name ''unsupported_tool'' None)
     | Some tool \<Rightarrow>
         bindE (execute_fake_tool tool arguments default_deny) (\<lambda>result.
         Inr [(''allowed'', PBool True),
              (''reason'', PStr ''worker_call_allowed''),
              (''worker_scope'', PDict worker_scope),
              (''result'', PDict result),
              (''audit_event'',
                 PDict (worker_audit_event worker_scope safe_tool_name ''allowed'' None))])))))))"

definition worker_state_snapshot :: "worker_tools \<Rightarrow> pydict" where
  "worker_state_snapshot tools = []"

definition build_shared_worker_policy :: pydict where
  "build_shared_worker_policy =
     [(''schema_version'', PInt 1),
      (''runtime_kind'', PStr ''in_process_fake_worker''),
      (''real_upstream_routing_supported'', PBool False),
      (''eligible_upstream_classes'', PList [PStr ''stateless'']),
      (''required_placement'', PStr SHARED_WORKER_BOUNDARY),
      (''default_capabilities'', PDict
         [(''network'', PStr ''deny''), (''file_access'', PStr ''deny''), (''secrets'', PStr ''deny''),
          (''local_state'', PStr ''deny''), (''inherited_environment'', PStr ''deny'')]),
      (''denial_audit_required'', PBool True)]"

section \<open>The tool table\<close>

interpretation worker_id: identifier_check worker_required_identifier "Exn SharedWorkerError"
  by unfold_locales
     (auto simp: worker_required_identifier_def safe_identifier_def split: pyval.splits if_splits)

lemma required_tool_name_Inr:
  "required_tool_name v = Inr s \<longleftrightarrow> v = PStr s \<and> safe_identifier s \<and> CHR ''.'' \<in> set s"
  by (auto simp: required_tool_name_def bindE_eq_Inr worker_id.check_Inr)

lemma required_tool_name_Inl:
  "required_tool_name v = Inl e \<Longrightarrow> \<exists>m. e = Exn SharedWorkerError m"
  by (auto simp: required_tool_name_def bindE_eq_Inl dest: worker_id.check_Inl)

lemma validate_tool_Inr:
  "validate_tool tool = Inr t \<longleftrightarrow> t = tool \<and> safe_identifier (wt_upstream_id tool) \<and>
     safe_identifier (wt_name tool) \<and> CHR ''.'' \<in> set (wt_name tool) \<and>
     wt_behavior tool \<in> {''echo'', ''inspect_sandbox''}"
  by (auto simp: validate_tool_def bindE_eq_Inr required_tool_name_Inr worker_id.check_Inr
      SUPPORTED_TOOL_BEHAVIORS_def)

text \<open>The table's invariant: every entry sits under its own key and runs a supported behaviour.\<close>

definition worker_tools_ok :: "worker_tools \<Rightarrow> bool" where
  "worker_tools_ok table \<longleftrightarrow>
     (\<forall>k t. map_of table k = Some t \<longrightarrow>
        k = tool_key (wt_upstream_id t) (wt_name t) \<and> validate_tool t = Inr t)"

lemma worker_init_ok: "worker_init tools = Inr table \<Longrightarrow> worker_tools_ok table"
  unfolding worker_init_def
proof (erule foldE_invariant [where P = worker_tools_ok])
  show "worker_tools_ok []" by (simp add: worker_tools_ok_def)
next
  fix s x s'
  assume "worker_tools_ok s"
    and "bindE (validate_tool x) (\<lambda>t.
      Inr (AList.update (tool_key (wt_upstream_id x) (wt_name x)) t s)) = Inr s'"
  then have "validate_tool x = Inr x"
    and "s' = AList.update (tool_key (wt_upstream_id x) (wt_name x)) x s"
    by (auto simp: bindE_eq_Inr validate_tool_Inr)
  with \<open>worker_tools_ok s\<close> show "worker_tools_ok s'"
    unfolding worker_tools_ok_def by simp
qed

lemma execute_fake_tool_ok:
  "validate_tool t = Inr t \<Longrightarrow> \<exists>r. execute_fake_tool t arguments sandbox = Inr r \<and>
     is_list (dget r ''content'')"
  by (auto simp: validate_tool_Inr execute_fake_tool_def Let_def)

section \<open>Decisions\<close>

lemma worker_tenant_context_Inr:
  "worker_tenant_context ctx = Inr d \<longleftrightarrow> validate_tenant_context ctx = Inr d"
  by (simp add: worker_tenant_context_def)

lemma worker_tenant_context_Inl:
  "worker_tenant_context ctx = Inl e \<Longrightarrow> \<exists>m. e = Exn SharedWorkerError m"
  by (auto simp: worker_tenant_context_def map_exn_eq_Inl dest: validate_tenant_context_Inl)

lemma quota_denial_None: "quota_denial q = None \<longleftrightarrow> dget q ''allowed'' = PBool True"
  by (auto simp: quota_denial_def split: pyval.split if_split)

lemma placement_denial_Inr:
  "placement_denial c up allow local ctx = Inr denial \<Longrightarrow>
     denial = (if shared_eligible c allow local then None else Some ''shared_worker_placement_denied'')"
  by (auto simp: placement_denial_def bindE_eq_Inr dest: decide_session_affinity_local
      decide_session_affinity_shared)

lemma placement_denial_Inl:
  "placement_denial c up allow local ctx = Inl e \<Longrightarrow> \<exists>m. e = Exn SharedWorkerError m"
  by (auto simp: placement_denial_def bindE_eq_Inl map_exn_eq_Inl dest: decide_session_affinity_Inl)

text \<open>
  The outcome of a call whose scope and identifiers pass: the four branches of the method. The
  success branch is a definition of its own for the statements below.
\<close>

definition worker_scope_of :: "string \<Rightarrow> string \<Rightarrow> string \<Rightarrow> string \<Rightarrow> pydict" where
  "worker_scope_of t w u up =
     [(''tenant_id'', PStr t), (''workspace_id'', PStr w), (''user_id'', PStr u),
      (''upstream_id'', PStr up)]"

definition allowed_decision :: "pydict \<Rightarrow> string \<Rightarrow> pydict \<Rightarrow> pydict" where
  "allowed_decision scope tool result =
     [(''allowed'', PBool True),
      (''reason'', PStr ''worker_call_allowed''),
      (''worker_scope'', PDict scope),
      (''result'', PDict result),
      (''audit_event'', PDict (worker_audit_event scope tool ''allowed'' None))]"

lemma worker_call_tool_scoped:
  assumes "tenant_scope ctx t w u" "safe_identifier up" "safe_identifier tool" "CHR ''.'' \<in> set tool"
  shows "worker_call_tool tools ctx up c allow local tool args quota =
    bindE (placement_denial c up allow local
        [(''tenant_id'', PStr t), (''workspace_id'', PStr w), (''user_id'', PStr u)]) (\<lambda>denial.
     case denial of
       Some r \<Rightarrow> Inr (denied_decision (worker_scope_of t w u up) tool r None)
     | None \<Rightarrow>
     (case quota_denial quota of
       Some r \<Rightarrow> Inr (denied_decision (worker_scope_of t w u up) tool ''quota_denied'' (Some r))
     | None \<Rightarrow>
     (case map_of tools (up, tool) of
       None \<Rightarrow> Inr (denied_decision (worker_scope_of t w u up) tool ''unsupported_tool'' None)
     | Some tt \<Rightarrow> bindE (execute_fake_tool tt args default_deny) (\<lambda>result.
         Inr (allowed_decision (worker_scope_of t w u up) tool result)))))"
proof -
  have tc: "worker_tenant_context ctx =
      Inr [(''tenant_id'', PStr t), (''workspace_id'', PStr w), (''user_id'', PStr u)]"
    using assms(1) by (simp add: worker_tenant_context_Inr validate_tenant_context_scope)
  have tn: "required_tool_name (PStr tool) = Inr tool"
    using assms by (simp add: required_tool_name_Inr)
  show ?thesis
    by (simp add: worker_call_tool_def tc tn worker_id.check_safe assms(2) worker_scope_of_def
        allowed_decision_def tool_key_def Let_def cong: option.case_cong)
qed

lemma worker_call_tool_Inr_ids:
  assumes "worker_call_tool tools ctx up c allow local tool args quota = Inr d"
  shows "\<exists>t w u. tenant_scope ctx t w u \<and> safe_identifier up \<and> safe_identifier tool \<and>
    CHR ''.'' \<in> set tool"
proof -
  from assms obtain cx s n where "worker_tenant_context ctx = Inr cx"
    and "worker_required_identifier (PStr up) ''upstream_id'' = Inr s"
    and "required_tool_name (PStr tool) = Inr n"
    by (simp only: worker_call_tool_def bindE_eq_Inr) blast
  then show ?thesis
    by (auto simp: required_tool_name_Inr worker_id.check_PStr worker_tenant_context_Inr
        validate_tenant_context_Inr)
qed

lemma worker_call_tool_Inl_ids:
  assumes "worker_call_tool tools ctx up c allow local tool args quota = Inl e"
    and "\<not> (\<exists>t w u. tenant_scope ctx t w u \<and> safe_identifier up \<and> safe_identifier tool \<and>
      CHR ''.'' \<in> set tool)"
  shows "\<exists>m. e = Exn SharedWorkerError m"
proof (cases "worker_tenant_context ctx")
  case (Inl e')
  with assms(1) show ?thesis
    by (auto simp: worker_call_tool_def dest: worker_tenant_context_Inl)
next
  case (Inr cx)
  then have "\<not> (safe_identifier up \<and> safe_identifier tool \<and> CHR ''.'' \<in> set tool)"
    using assms(2) by (auto simp: worker_tenant_context_Inr validate_tenant_context_Inr)
  then consider "\<nexists>s. worker_required_identifier (PStr up) ''upstream_id'' = Inr s"
    | "worker_required_identifier (PStr up) ''upstream_id'' = Inr up"
      "\<nexists>s. required_tool_name (PStr tool) = Inr s"
    by (auto simp: worker_id.check_PStr required_tool_name_Inr)
  then show ?thesis
  proof cases
    case 1
    then obtain e' where "worker_required_identifier (PStr up) ''upstream_id'' = Inl e'"
      by (meson sumE)
    with Inr assms(1) show ?thesis
      by (auto simp: worker_call_tool_def dest: worker_id.check_Inl)
  next
    case 2
    then obtain e' where "required_tool_name (PStr tool) = Inl e'" by (meson sumE)
    with Inr 2 assms(1) show ?thesis
      by (auto simp: worker_call_tool_def dest: required_tool_name_Inl)
  qed
qed

lemma worker_call_tool_cases:
  assumes "worker_call_tool tools ctx up c allow local tool args quota = Inr d"
  obtains (denied) t w u r a where "tenant_scope ctx t w u"
      "d = denied_decision (worker_scope_of t w u up) tool r a"
  | (allowed) t w u tt r where "tenant_scope ctx t w u" "shared_eligible c allow local"
      "dget quota ''allowed'' = PBool True" "map_of tools (up, tool) = Some tt"
      "execute_fake_tool tt args default_deny = Inr r"
      "d = allowed_decision (worker_scope_of t w u up) tool r"
proof -
  from worker_call_tool_Inr_ids [OF assms] obtain t w u where sc: "tenant_scope ctx t w u"
    and ids: "safe_identifier up" "safe_identifier tool" "CHR ''.'' \<in> set tool"
    by blast
  note eq = assms [unfolded worker_call_tool_scoped [OF sc ids]]
  from eq obtain denial where pd: "placement_denial c up allow local
      [(''tenant_id'', PStr t), (''workspace_id'', PStr w), (''user_id'', PStr u)] = Inr denial"
    by (auto simp: bindE_eq_Inr)
  show thesis
  proof (cases denial)
    case (Some r)
    with eq pd show thesis by (auto intro: denied [OF sc])
  next
    case None
    then have el: "shared_eligible c allow local"
      using placement_denial_Inr [OF pd] by (simp split: if_splits)
    show thesis
    proof (cases "quota_denial quota")
      case (Some r)
      with eq pd None show thesis by (auto intro: denied [OF sc])
    next
      case q: None
      show thesis
      proof (cases "map_of tools (up, tool)")
        case m: None
        with eq pd None q show thesis by (auto intro: denied [OF sc])
      next
        case (Some tt)
        with eq pd None q obtain r where "execute_fake_tool tt args default_deny = Inr r"
          and "d = allowed_decision (worker_scope_of t w u up) tool r"
          by (auto simp: bindE_eq_Inr)
        with Some q el show thesis by (auto simp: quota_denial_None intro: allowed [OF sc])
      qed
    qed
  qed
qed

lemma denied_decision_fields:
  "dget (denied_decision scope tool r a) ''allowed'' = PBool False"
  "dget (denied_decision scope tool r a) ''worker_scope'' = PDict scope"
  "\<exists>m. dget (denied_decision scope tool r a) ''audit_event'' =
     PDict (worker_audit_event scope tool ''denied'' (Some m))"
  by (auto simp: denied_decision_def)

lemma allowed_decision_fields:
  "dget (allowed_decision scope tool r) ''allowed'' = PBool True"
  "dget (allowed_decision scope tool r) ''worker_scope'' = PDict scope"
  "dget (allowed_decision scope tool r) ''result'' = PDict r"
  "dget (allowed_decision scope tool r) ''audit_event'' =
     PDict (worker_audit_event scope tool ''allowed'' None)"
  by (simp_all add: allowed_decision_def)

lemma worker_audit_event_fields:
  "dget (worker_audit_event scope tool result m) ''tool_name'' = PStr tool"
  "dget (worker_audit_event scope tool result m) ''result'' = PStr result"
  "k \<in> {''tenant_id'', ''workspace_id'', ''user_id'', ''upstream_id''} \<Longrightarrow>
     dget (worker_audit_event scope tool result m) k = dget scope k"
  by (auto simp: worker_audit_event_def)

text \<open>A shared-worker call is allowed only for an allowlisted stateless upstream without local
  state, whose quota decision said exactly \<open>True\<close>, and for a tool of the table, which ran in
  the sandbox that denies everything.\<close>

theorem worker_call_allowed_only_if:
  assumes "worker_call_tool tools ctx up c allow local tool args quota = Inr d"
    and "dget d ''allowed'' = PBool True"
  shows "shared_eligible c allow local \<and> dget quota ''allowed'' = PBool True \<and>
    (\<exists>t r. map_of tools (up, tool) = Some t \<and> execute_fake_tool t args default_deny = Inr r \<and>
       dget d ''result'' = PDict r)"
  using assms(1)
proof (cases rule: worker_call_tool_cases)
  case denied
  with assms(2) show ?thesis by (simp add: denied_decision_fields)
next
  case allowed
  then show ?thesis by (simp add: allowed_decision_fields)
qed

definition echo_tool :: shared_worker_tool where
  "echo_tool = \<lparr>wt_upstream_id = ''search'', wt_name = ''search.query'', wt_behavior = ''echo''\<rparr>"

theorem worker_call_allowed_only_if_witness:
  "shared_eligible ''stateless'' True False \<and>
   (\<exists>d. worker_call_tool [((''search'', ''search.query''), echo_tool)] tenant_example ''search''
      ''stateless'' True False ''search.query'' [] [(''allowed'', PBool True)] = Inr d \<and>
      dget d ''allowed'' = PBool True)"
proof -
  let ?r = "worker_call_tool [((''search'', ''search.query''), echo_tool)] tenant_example ''search''
      ''stateless'' True False ''search.query'' [] [(''allowed'', PBool True)]"
  have "(case ?r of Inl _ \<Rightarrow> False | Inr d \<Rightarrow> dget d ''allowed'' = PBool True)" by code_simp
  then obtain d where d: "?r = Inr d" "dget d ''allowed'' = PBool True"
    by (cases ?r) auto
  from worker_call_allowed_only_if [OF d] d show ?thesis by blast
qed

text \<open>On a table that \<open>__init__\<close> built, a call never fails in the tool: it raises only
  \<open>SharedWorkerError\<close>, and only when the tenant scope, the identifiers or the placement are
  refused.\<close>

theorem worker_call_error:
  assumes "worker_init specs = Inr tools"
    and "worker_call_tool tools ctx up c allow local tool args quota = Inl e"
  shows "(\<exists>m. e = Exn SharedWorkerError m) \<and>
    ((\<nexists>t w u. tenant_scope ctx t w u) \<or> \<not> safe_identifier up \<or> \<not> safe_identifier tool \<or>
     CHR ''.'' \<notin> set tool \<or> normalize_upstream_class c \<in> set FORBIDDEN_UPSTREAM_CLASSES)"
proof -
  have run: "execute_fake_tool t args default_deny \<noteq> Inl e" if "map_of tools k = Some t" for k t
    using execute_fake_tool_ok [of t args default_deny] worker_init_ok [OF assms(1)] that
    unfolding worker_tools_ok_def by fastforce
  show ?thesis
  proof (cases "\<exists>t w u. tenant_scope ctx t w u \<and> safe_identifier up \<and> safe_identifier tool \<and>
      CHR ''.'' \<in> set tool")
    case False
    then show ?thesis using worker_call_tool_Inl_ids [OF assms(2)] by blast
  next
    case True
    then obtain t w u where sc: "tenant_scope ctx t w u"
      and ids: "safe_identifier up" "safe_identifier tool" "CHR ''.'' \<in> set tool"
      by blast
    let ?ctx = "[(''tenant_id'', PStr t), (''workspace_id'', PStr w), (''user_id'', PStr u)]"
    have pd: "placement_denial c up allow local ?ctx = Inl e"
      using assms(2) run unfolding worker_call_tool_scoped [OF sc ids]
      by (auto simp: bindE_eq_Inl split: option.splits)
    then obtain e' where e': "decide_session_affinity c up allow local ?ctx = Inl e'"
      by (auto simp: placement_denial_def bindE_eq_Inl map_exn_eq_Inl)
    have tc: "affinity_tenant_context ?ctx = Inr ?ctx"
      using sc by (simp add: validate_tenant_context_Inr tenant_scope_def)
    have "normalize_upstream_class c \<in> set FORBIDDEN_UPSTREAM_CLASSES"
      using e'
      by (simp add: decide_session_affinity_def Let_def bindE_eq_Inl affinity_id.check_safe ids(1) tc
          split: if_splits)
    with placement_denial_Inl [OF pd] show ?thesis by blast
  qed
qed

theorem worker_call_error_witness:
  "normalize_upstream_class ''Private_Inventory'' \<in> set FORBIDDEN_UPSTREAM_CLASSES"
proof -
  have i: "worker_init [echo_tool] = Inr [((''search'', ''search.query''), echo_tool)]"
    by code_simp
  have "isl (worker_call_tool [((''search'', ''search.query''), echo_tool)] tenant_example ''search''
      ''Private_Inventory'' True False ''search.query'' [] [])"
    by code_simp
  then obtain e where e: "worker_call_tool [((''search'', ''search.query''), echo_tool)]
      tenant_example ''search'' ''Private_Inventory'' True False ''search.query'' [] [] = Inl e"
    by (auto simp: isl_def)
  have ts: "tenant_scope tenant_example ''t1'' ''w1'' ''u1''"
    unfolding tenant_scope_def by code_simp
  have "safe_identifier ''search'' \<and> safe_identifier ''search.query'' \<and>
      CHR ''.'' \<in> set ''search.query''"
    by code_simp
  with worker_call_error [OF i e] ts show ?thesis by blast
qed

text \<open>Every decision, allowed or denied, carries an audit event for the same tenant,
  workspace, user and upstream as its scope, and the event's result agrees with it.\<close>

theorem worker_decision_audited:
  assumes "worker_call_tool tools ctx up c allow local tool args quota = Inr d"
  shows "\<exists>scope ev. dget d ''worker_scope'' = PDict scope \<and> dget d ''audit_event'' = PDict ev \<and>
    (\<exists>t w u. tenant_scope ctx t w u \<and>
       scope = [(''tenant_id'', PStr t), (''workspace_id'', PStr w), (''user_id'', PStr u),
                (''upstream_id'', PStr up)]) \<and>
    (\<forall>(k, v) \<in> set scope. dget ev k = v) \<and> dget ev ''tool_name'' = PStr tool \<and>
    dget ev ''result'' = PStr (if dget d ''allowed'' = PBool True then ''allowed'' else ''denied'')"
  using assms
proof (cases rule: worker_call_tool_cases)
  case (denied t w u r a)
  then show ?thesis
    using denied_decision_fields [of "worker_scope_of t w u up" tool r a]
    by (auto simp: worker_audit_event_fields worker_scope_of_def)
next
  case (allowed t w u tt r)
  then show ?thesis
    using allowed_decision_fields [of "worker_scope_of t w u up" tool r]
    by (auto simp: worker_audit_event_fields worker_scope_of_def)
qed

theorem worker_decision_audited_witness:
  "\<exists>d. worker_call_tool [] tenant_example ''search'' ''stateless'' True False ''search.query'' []
     [(''allowed'', PBool True)] = Inr d \<and> (\<exists>ev. dget d ''audit_event'' = PDict ev)"
proof -
  let ?r = "worker_call_tool [] tenant_example ''search'' ''stateless'' True False ''search.query'' []
     [(''allowed'', PBool True)]"
  have "\<not> isl ?r" by code_simp
  then obtain d where d: "?r = Inr d" by (cases ?r) auto
  from worker_decision_audited [OF d] d show ?thesis by blast
qed

end
