(* ===== verification/Profiles.thy ===== *)
theory Profiles
  imports PyPath
begin

text \<open>
  Client profiles for tool exposure (\<^verbatim>\<open>profiles.py\<close>): the profile record with its
  validation, the aliases of the broker's own tools, and the routing of a session to a profile by
  its working directory. The environment's expansions and the resolution of symbolic links are
  parameters: \<open>os_expandvars\<close>, \<open>os_expanduser\<close> and \<open>resolve\<close>, which may raise.
\<close>

record os_text =
  os_expandvars :: "string \<Rightarrow> string"
  os_expanduser :: "string \<Rightarrow> string"

type_synonym resolver = "path \<Rightarrow> path res"

definition BROKER_TOOL_NAME_STYLES :: "string list" where
  "BROKER_TOOL_NAME_STYLES = [''dotted'', ''snake'']"

definition MAX_RESULT_SIZE_CHARS :: int where
  "MAX_RESULT_SIZE_CHARS = 500000"

definition BROKER_TOOL_NAMES :: "string list" where
  "BROKER_TOOL_NAMES = [''broker.search_tools'', ''broker.describe_tool'', ''broker.call_tool'',
     ''broker.status'', ''broker.close_session'']"

definition snake :: "string \<Rightarrow> string" where
  "snake name = replace_char (CHR ''.'') (CHR ''_'') name"

definition BROKER_TOOL_SNAKE_ALIASES :: "(string \<times> string) list" where
  "BROKER_TOOL_SNAKE_ALIASES = map (\<lambda>name. (snake name, name)) BROKER_TOOL_NAMES"

section \<open>Root match\<close>

record client_root_match =
  crm_parent :: path
  crm_name_prefix :: string

definition client_root_match_init :: "path \<Rightarrow> string \<Rightarrow> client_root_match res" where
  "client_root_match_init parent name_prefix =
     bindE (require (name_prefix \<noteq> []) (Exn ValueError ''client_root_match.name_prefix cannot be empty'')) (\<lambda>_.
     bindE (require (is_absolute parent)
       (Exn ValueError ''client_root_match.parent must be an absolute path'')) (\<lambda>_.
     Inr \<lparr>crm_parent = parent, crm_name_prefix = name_prefix\<rparr>))"

text \<open>\<open>except (OSError, ValueError, RuntimeError)\<close> around the resolution of the session's cwd.\<close>

definition resolve_error_caught :: "exn \<Rightarrow> bool" where
  "resolve_error_caught e \<longleftrightarrow>
     is_value_error e \<or> is_class OSError e \<or> is_class FileNotFoundError e \<or> is_class PermissionError e \<or>
     is_class ProcessLookupError e \<or> is_class TimeoutError e \<or> is_class RuntimeError e"

definition root_matches :: "resolver \<Rightarrow> client_root_match \<Rightarrow> string option \<Rightarrow> bool res" where
  "root_matches resolve m client_cwd =
     (case client_cwd of
        None \<Rightarrow> Inr False
      | Some cwd \<Rightarrow>
          if cwd = [] then Inr False
          else case resolve (path_of cwd) of
            Inl e \<Rightarrow> (if resolve_error_caught e then Inr False else Inl e)
          | Inr resolved \<Rightarrow>
              bindE (resolve (crm_parent m)) (\<lambda>parent.
              Inr (list_ex (\<lambda>candidate. path_parent candidate = parent \<and>
                     prefix (crm_name_prefix m) (path_name candidate))
                   (path_and_parents resolved))))"

definition client_root_match_from_mapping ::
    "os_text \<Rightarrow> string \<Rightarrow> pyval \<Rightarrow> client_root_match res" where
  "client_root_match_from_mapping os profile_name data =
     (case data of
        PDict d \<Rightarrow>
          (case dget d ''parent'' of
             PStr parent_raw \<Rightarrow>
               if parent_raw = [] then value_error
                 (''profiles.'' @ profile_name @ ''.client_root_match.parent is required'')
               else (case dget d ''name_prefix'' of
                 PStr name_prefix \<Rightarrow>
                   if name_prefix = [] then value_error
                     (''profiles.'' @ profile_name @ ''.client_root_match.name_prefix is required'')
                   else client_root_match_init
                     (path_of (os_expanduser os (os_expandvars os parent_raw))) name_prefix
               | _ \<Rightarrow> value_error
                   (''profiles.'' @ profile_name @ ''.client_root_match.name_prefix is required''))
           | _ \<Rightarrow> value_error
               (''profiles.'' @ profile_name @ ''.client_root_match.parent is required''))
      | _ \<Rightarrow> value_error (''profiles.'' @ profile_name @ ''.client_root_match must be a mapping''))"

section \<open>Profiles\<close>

record tool_exposure_profile =
  pf_name :: string
  pf_max_tools :: int
  pf_compact_tools_enabled :: bool
  pf_broker_tool_name_style :: string
  pf_allow_mutating_upstreams :: "string list"
  pf_client_root_match :: "client_root_match option"
  pf_result_size_chars :: "int option"
  pf_result_budget_chars :: "int option"

text \<open>A bool is refused although it is an int; the value itself is kept.\<close>

definition validate_optional_positive_int ::
    "string \<Rightarrow> pyval \<Rightarrow> int option \<Rightarrow> int option res" where
  "validate_optional_positive_int p v maximum =
     (case v of
        PNone \<Rightarrow> Inr None
      | PInt i \<Rightarrow>
          if i \<le> 0 then value_error (p @ '' must be a positive integer'')
          else (case maximum of
             None \<Rightarrow> Inr (Some i)
           | Some m \<Rightarrow> if m < i then value_error (p @ '' must be at most '' @ str_int m)
                       else Inr (Some i))
      | _ \<Rightarrow> value_error (p @ '' must be a positive integer''))"

definition parse_allow_mutating_upstreams :: "string \<Rightarrow> pydict \<Rightarrow> string list res" where
  "parse_allow_mutating_upstreams name data =
     (case dget_or data ''allow_mutating_upstreams'' (PList []) of
        PList raw \<Rightarrow> mapE (\<lambda>v. case v of
            PStr s \<Rightarrow> if s = [] then value_error
                (''profiles.'' @ name @ ''.allow_mutating_upstreams must contain upstream names'')
              else Inr s
          | _ \<Rightarrow> value_error
              (''profiles.'' @ name @ ''.allow_mutating_upstreams must contain upstream names'')) raw
      | _ \<Rightarrow> value_error (''profiles.'' @ name @ ''.allow_mutating_upstreams must be a list''))"

text \<open>The dataclass's \<open>__post_init__\<close>, on the values \<open>from_mapping\<close> passes.\<close>

definition profile_post_init ::
    "string \<Rightarrow> int \<Rightarrow> bool \<Rightarrow> pyval \<Rightarrow> string list \<Rightarrow> client_root_match option \<Rightarrow> pyval \<Rightarrow> pyval \<Rightarrow>
     tool_exposure_profile res" where
  "profile_post_init name max_tools cpt style allow rootm size_chars budget_chars =
     bindE (require (name \<noteq> []) (Exn ValueError ''profile name cannot be empty'')) (\<lambda>_.
     bindE (require (0 < max_tools) (Exn ValueError ''profile max_tools must be greater than 0'')) (\<lambda>_.
     case style of
       PStr st \<Rightarrow>
         bindE (require (st \<in> set BROKER_TOOL_NAME_STYLES)
           (Exn ValueError (''profile broker_tool_name_style must be one of: '' @
              join '', '' (sort BROKER_TOOL_NAME_STYLES)))) (\<lambda>_.
         bindE (require (list_all (\<lambda>u. u \<noteq> []) allow)
           (Exn ValueError ''profile allow_mutating_upstreams cannot include empty values'')) (\<lambda>_.
         bindE (validate_optional_positive_int (''profiles.'' @ name @ ''.result_size_chars'')
             size_chars (Some MAX_RESULT_SIZE_CHARS)) (\<lambda>size.
         bindE (validate_optional_positive_int (''profiles.'' @ name @ ''.result_budget_chars'')
             budget_chars None) (\<lambda>budget.
         Inr \<lparr>pf_name = name, pf_max_tools = max_tools, pf_compact_tools_enabled = cpt,
              pf_broker_tool_name_style = st, pf_allow_mutating_upstreams = allow,
              pf_client_root_match = rootm, pf_result_size_chars = size,
              pf_result_budget_chars = budget\<rparr>))))
     | _ \<Rightarrow> value_error ''profile broker_tool_name_style must be a string''))"

definition profile_from_mapping :: "os_text \<Rightarrow> string \<Rightarrow> pydict \<Rightarrow> tool_exposure_profile res" where
  "profile_from_mapping os name data =
     bindE (require (dhas data ''max_tools'')
       (Exn ValueError (''profiles.'' @ name @ ''.max_tools is required''))) (\<lambda>_.
     bindE (parse_allow_mutating_upstreams name data) (\<lambda>allow.
     bindE (if dget data ''client_root_match'' \<noteq> PNone
            then map_sum id Some (client_root_match_from_mapping os name (dget data ''client_root_match''))
            else Inr None) (\<lambda>rootm.
     bindE (py_int (dget data ''max_tools'')) (\<lambda>max_tools.
     profile_post_init name max_tools
       (truthy (dget_or data ''compact_tools_enabled'' (PBool False)))
       (dget_or data ''broker_tool_name_style'' (PStr ''dotted''))
       allow rootm (dget data ''result_size_chars'') (dget data ''result_budget_chars'')))))"

definition allows_mutating_upstream :: "tool_exposure_profile \<Rightarrow> string \<Rightarrow> bool" where
  "allows_mutating_upstream p upstream_name = (upstream_name \<in> set (pf_allow_mutating_upstreams p))"

definition exposed_broker_tool_name :: "tool_exposure_profile \<Rightarrow> string \<Rightarrow> string" where
  "exposed_broker_tool_name p canonical_name =
     (if pf_broker_tool_name_style p = ''snake'' then snake canonical_name else canonical_name)"

definition canonical_broker_tool_name :: "tool_exposure_profile \<Rightarrow> string \<Rightarrow> string" where
  "canonical_broker_tool_name p name =
     (if name \<in> set BROKER_TOOL_NAMES then name
      else if pf_broker_tool_name_style p = ''snake''
        then (case map_of BROKER_TOOL_SNAKE_ALIASES name of None \<Rightarrow> name | Some n \<Rightarrow> n)
      else name)"

text \<open>\<open>for name in sorted(profiles)\<close>: the first profile whose root claims the directory.\<close>

fun first_root_match ::
    "resolver \<Rightarrow> string \<Rightarrow> tool_exposure_profile list \<Rightarrow> tool_exposure_profile option res" where
  "first_root_match resolve cwd [] = Inr None"
| "first_root_match resolve cwd (p # ps) =
     (case pf_client_root_match p of
        None \<Rightarrow> first_root_match resolve cwd ps
      | Some m \<Rightarrow> bindE (root_matches resolve m (Some cwd)) (\<lambda>b.
          if b then Inr (Some p) else first_root_match resolve cwd ps))"

definition select_profile_for_cwd ::
    "resolver \<Rightarrow> (string \<times> tool_exposure_profile) list \<Rightarrow> tool_exposure_profile option \<Rightarrow>
     string option \<Rightarrow> tool_exposure_profile option res" where
  "select_profile_for_cwd resolve profiles requested client_cwd =
     (case client_cwd of
        None \<Rightarrow> Inr requested
      | Some cwd \<Rightarrow>
          if cwd = [] then Inr requested
          else bindE (first_root_match resolve cwd (map snd (sort_key fst profiles))) (\<lambda>found.
            case found of None \<Rightarrow> Inr requested | Some p \<Rightarrow> Inr (Some p)))"

section \<open>Correctness\<close>

definition profile_valid :: "tool_exposure_profile \<Rightarrow> bool" where
  "profile_valid p \<longleftrightarrow>
     pf_name p \<noteq> [] \<and> 0 < pf_max_tools p \<and> pf_broker_tool_name_style p \<in> {''dotted'', ''snake''} \<and>
     (\<forall>u \<in> set (pf_allow_mutating_upstreams p). u \<noteq> []) \<and>
     (\<forall>n. pf_result_size_chars p = Some n \<longrightarrow> 0 < n \<and> n \<le> 500000) \<and>
     (\<forall>n. pf_result_budget_chars p = Some n \<longrightarrow> 0 < n)"

lemma validate_optional_positive_int_Inr:
  "validate_optional_positive_int p v m = Inr (Some n) \<Longrightarrow>
     0 < n \<and> (\<forall>k. m = Some k \<longrightarrow> n \<le> k)"
  by (auto simp: validate_optional_positive_int_def split: pyval.splits if_splits option.splits)

lemma profile_post_init_valid:
  assumes "profile_post_init name mx cpt style allow rootm size_chars budget_chars = Inr p"
  shows "profile_valid p \<and> pf_name p = name"
proof -
  from assms obtain st where st: "style = PStr st"
    by (cases style) (auto simp: profile_post_init_def bindE_eq_Inr)
  with assms obtain sz bd where
    p: "p = \<lparr>pf_name = name, pf_max_tools = mx, pf_compact_tools_enabled = cpt,
       pf_broker_tool_name_style = st, pf_allow_mutating_upstreams = allow,
       pf_client_root_match = rootm, pf_result_size_chars = sz, pf_result_budget_chars = bd\<rparr>"
    and ok: "name \<noteq> []" "0 < mx" "st \<in> set BROKER_TOOL_NAME_STYLES" "list_all (\<lambda>u. u \<noteq> []) allow"
    and v: "validate_optional_positive_int (''profiles.'' @ name @ ''.result_size_chars'')
        size_chars (Some MAX_RESULT_SIZE_CHARS) = Inr sz"
      "validate_optional_positive_int (''profiles.'' @ name @ ''.result_budget_chars'')
        budget_chars None = Inr bd"
    by (auto simp: profile_post_init_def bindE_eq_Inr)
  have "\<forall>n. sz = Some n \<longrightarrow> 0 < n \<and> n \<le> 500000" "\<forall>n. bd = Some n \<longrightarrow> 0 < n"
    using v validate_optional_positive_int_Inr by (fastforce simp: MAX_RESULT_SIZE_CHARS_def)+
  with ok show ?thesis
    by (simp add: p profile_valid_def list_all_iff BROKER_TOOL_NAME_STYLES_def)
qed

lemma profile_from_mapping_post_init:
  "profile_from_mapping os name data = Inr p \<Longrightarrow>
   \<exists>mx cpt style allow rootm chars budget.
     profile_post_init name mx cpt style allow rootm chars budget = Inr p"
  unfolding profile_from_mapping_def bindE_eq_Inr by blast

text \<open>C40. Every profile that parses satisfies the profile invariant: a name, a positive tool budget,
  a known name style, no empty allowlist entry, and result limits within their bounds.\<close>

theorem parsed_profile_valid:
  assumes "profile_from_mapping os name data = Inr p"
  shows "profile_valid p \<and> pf_name p = name"
  using profile_from_mapping_post_init [OF assms] by (blast dest: profile_post_init_valid)

definition os_plain :: os_text where
  "os_plain = \<lparr>os_expandvars = id, os_expanduser = id\<rparr>"

theorem parsed_profile_valid_witness:
  "\<exists>p. profile_from_mapping os_plain ''dev'' [(''max_tools'', PInt 5),
     (''broker_tool_name_style'', PStr ''snake''), (''result_size_chars'', PInt 500000)] = Inr p \<and>
     profile_valid p \<and> pf_name p = ''dev''"
proof -
  let ?r = "profile_from_mapping os_plain ''dev'' [(''max_tools'', PInt 5),
     (''broker_tool_name_style'', PStr ''snake''), (''result_size_chars'', PInt 500000)]"
  have "\<not> isl ?r" by code_simp
  then obtain p where p: "?r = Inr p" by (cases ?r) auto
  from parsed_profile_valid [OF p] p show ?thesis by blast
qed

lemma snake_aliases_lookup:
  "name \<in> set BROKER_TOOL_NAMES \<Longrightarrow> map_of BROKER_TOOL_SNAKE_ALIASES (snake name) = Some name"
proof -
  have "list_all (\<lambda>name. map_of BROKER_TOOL_SNAKE_ALIASES (snake name) = Some name) BROKER_TOOL_NAMES"
    by code_simp
  then show "name \<in> set BROKER_TOOL_NAMES \<Longrightarrow> ?thesis" by (simp add: list_all_iff)
qed

lemma snake_not_canonical: "name \<in> set BROKER_TOOL_NAMES \<Longrightarrow> snake name \<notin> set BROKER_TOOL_NAMES"
proof -
  have "list_all (\<lambda>name. snake name \<notin> set BROKER_TOOL_NAMES) BROKER_TOOL_NAMES" by code_simp
  then show "name \<in> set BROKER_TOOL_NAMES \<Longrightarrow> ?thesis" by (simp add: list_all_iff)
qed

text \<open>The name under which a profile exposes a broker tool resolves back to that tool, in both
  name styles.\<close>

theorem broker_tool_name_roundtrip:
  assumes "name \<in> set BROKER_TOOL_NAMES"
  shows "canonical_broker_tool_name p (exposed_broker_tool_name p name) = name"
  using assms snake_aliases_lookup snake_not_canonical
  by (simp add: canonical_broker_tool_name_def exposed_broker_tool_name_def)

definition profile_example :: tool_exposure_profile where
  "profile_example = \<lparr>pf_name = ''dev'', pf_max_tools = 2, pf_compact_tools_enabled = True,
     pf_broker_tool_name_style = ''snake'', pf_allow_mutating_upstreams = [''notes''],
     pf_client_root_match = Some \<lparr>crm_parent = path_of ''/home/u'', crm_name_prefix = ''genai''\<rparr>,
     pf_result_size_chars = None, pf_result_budget_chars = Some 1000\<rparr>"

theorem broker_tool_name_roundtrip_witness:
  "canonical_broker_tool_name profile_example
     (exposed_broker_tool_name profile_example ''broker.call_tool'') = ''broker.call_tool''"
  by (rule broker_tool_name_roundtrip) (simp add: BROKER_TOOL_NAMES_def)

text \<open>A root claims exactly the directories below a child of its parent with the name prefix.\<close>

lemma root_matches_iff:
  assumes "resolve (path_of cwd) = Inr r" "resolve (crm_parent m) = Inr q" "cwd \<noteq> []"
    "crm_name_prefix m \<noteq> []"
  shows "root_matches resolve m (Some cwd) = Inr (path_root r = path_root q \<and>
    (\<exists>child rest. path_parts r = path_parts q @ child # rest \<and> prefix (crm_name_prefix m) child))"
proof -
  have "(\<exists>c \<in> set (path_and_parents r). path_parent c = q \<and> prefix (crm_name_prefix m) (path_name c)) \<longleftrightarrow>
    path_root r = path_root q \<and>
    (\<exists>child rest. path_parts r = path_parts q @ child # rest \<and> prefix (crm_name_prefix m) child)"
    (is "?L \<longleftrightarrow> ?R")
  proof
    assume ?L
    then obtain n where n: "n \<le> length (path_parts r)"
      and q: "path_parent (Path (path_root r) (take n (path_parts r))) = q"
      and pre: "prefix (crm_name_prefix m) (path_name (Path (path_root r) (take n (path_parts r))))"
      by (auto simp: set_path_and_parents)
    have ne: "take n (path_parts r) \<noteq> []"
    proof
      assume "take n (path_parts r) = []"
      with pre have "crm_name_prefix m = []" by (simp add: path_name_def)
      with assms(4) show False ..
    qed
    then obtain ps child where ps: "take n (path_parts r) = ps @ [child]"
      by (metis append_butlast_last_id)
    then have "path_parts r = ps @ child # drop n (path_parts r)"
      by (metis append.assoc append_Cons append_Nil append_take_drop_id)
    moreover have "path_name (Path (path_root r) (take n (path_parts r))) = child"
      by (simp add: ps)
    then have "prefix (crm_name_prefix m) child" using pre by simp
    moreover have "path_root q = path_root r" and "path_parts q = ps"
      using q ps by (auto simp: path_parent_def)
    ultimately show ?R by metis
  next
    assume ?R
    then obtain child rest where parts: "path_parts r = path_parts q @ child # rest"
      and rootm: "path_root r = path_root q" and pre: "prefix (crm_name_prefix m) child"
      by blast
    let ?c = "Path (path_root r) (take (Suc (length (path_parts q))) (path_parts r))"
    have "?c \<in> set (path_and_parents r)"
      unfolding set_path_and_parents using parts
      by (intro CollectI exI [of _ "Suc (length (path_parts q))"]) simp
    moreover have "path_parent ?c = q"
      using parts rootm by (cases q) (simp add: path_parent_def)
    moreover have "path_name ?c = child"
      using parts by simp
    ultimately show ?L using pre by metis
  qed
  then show ?thesis
    using assms by (simp add: root_matches_def list_ex_iff)
qed

lemma first_root_match_Some:
  "first_root_match resolve cwd ps = Inr (Some p) \<Longrightarrow>
     p \<in> set ps \<and> (\<exists>m. pf_client_root_match p = Some m \<and> root_matches resolve m (Some cwd) = Inr True)"
  by (induction ps) (auto simp: bindE_eq_Inr split: option.splits if_splits)

text \<open>The profile a session gets is the requested one, or a configured profile whose root claims
  the session's directory: a child of the configured parent with the configured prefix.\<close>

theorem profile_for_cwd_sound:
  assumes "select_profile_for_cwd resolve profiles requested cwd = Inr (Some p)"
  shows "requested = Some p \<or>
    (\<exists>name m c. (name, p) \<in> set profiles \<and> cwd = Some c \<and> pf_client_root_match p = Some m \<and>
       root_matches resolve m (Some c) = Inr True)"
  using assms
  by (fastforce simp: select_profile_for_cwd_def bindE_eq_Inr dest: first_root_match_Some
      split: option.splits if_splits)

theorem profile_for_cwd_sound_witness:
  "\<exists>name. (name, profile_example) \<in> set [(''dev'', profile_example)] \<and>
     (root_matches Inr \<lparr>crm_parent = path_of ''/home/u'', crm_name_prefix = ''genai''\<rparr>
        (Some ''/home/u/genai-quiz/src'') = Inr True)"
proof -
  have "select_profile_for_cwd Inr [(''dev'', profile_example)] None (Some ''/home/u/genai-quiz/src'') =
      Inr (Some profile_example)"
    by code_simp
  from profile_for_cwd_sound [OF this] show ?thesis
    by (auto simp: profile_example_def)
qed

end
