(* ===== verification/Config_Schema.thy ===== *)
theory Config_Schema
  imports PyValue
begin

text \<open>
  The configuration schema primitives (\<^verbatim>\<open>schema.py\<close>): the policy records of an upstream,
  their parsers with every check in the source's order, and the cross-field checks of the lifecycle
  mode (\<^verbatim>\<open>config_modes.py\<close>). A parser that returns a policy returns one within its bounds.
\<close>

definition ALLOWED_UPSTREAM_MODES :: "string list" where
  "ALLOWED_UPSTREAM_MODES = [''shared'', ''per_session'', ''per_call'', ''disabled'']"

definition ALLOWED_UPSTREAM_TRANSPORTS :: "string list" where
  "ALLOWED_UPSTREAM_TRANSPORTS = [''stdio'', ''http'', ''sse'']"

definition ALLOWED_AUTH_PROBE_TYPES :: "string list" where
  "ALLOWED_AUTH_PROBE_TYPES = [''oauth_token_file'']"

section \<open>Numbers, mappings and keys\<close>

definition mapping_or_empty :: "string \<Rightarrow> pyval \<Rightarrow> pydict res" where
  "mapping_or_empty p data =
     (case data of
        PNone \<Rightarrow> Inr []
      | PDict d \<Rightarrow> Inr d
      | _ \<Rightarrow> value_error (p @ '' must be a mapping''))"

definition schema_validate_keys :: "string \<Rightarrow> pydict \<Rightarrow> string list \<Rightarrow> unit res" where
  "schema_validate_keys p data allowed_keys =
     (case List.find (\<lambda>k. k \<notin> set allowed_keys) (map fst data) of
        None \<Rightarrow> Inr ()
      | Some k \<Rightarrow> value_error (''unknown config key: '' @ p @ ''.'' @ k))"

definition positive_int :: "string \<Rightarrow> pyval \<Rightarrow> int res" where
  "positive_int p v = bindE (py_int v) (\<lambda>parsed.
     if parsed \<le> 0 then value_error (p @ '' must be greater than 0'') else Inr parsed)"

definition optional_positive_int :: "string \<Rightarrow> pyval \<Rightarrow> int option res" where
  "optional_positive_int p v =
     (if v = PNone then Inr None else bindE (positive_int p v) (\<lambda>i. Inr (Some i)))"

definition non_negative_int :: "string \<Rightarrow> pyval \<Rightarrow> int res" where
  "non_negative_int p v = bindE (py_int v) (\<lambda>parsed.
     if parsed < 0 then value_error (p @ '' must be 0 or greater'') else Inr parsed)"

definition bounded_int :: "string \<Rightarrow> pyval \<Rightarrow> int \<Rightarrow> int \<Rightarrow> int res" where
  "bounded_int p v minimum maximum = bindE (py_int v) (\<lambda>parsed.
     if parsed < minimum \<or> maximum < parsed
     then value_error (p @ '' must be between '' @ str_int minimum @ '' and '' @ str_int maximum)
     else Inr parsed)"

text \<open>\<open>type(value) is not int\<close> refuses a bool and a numeric text as well.\<close>

definition strict_bounded_int :: "string \<Rightarrow> pyval \<Rightarrow> int \<Rightarrow> int \<Rightarrow> int res" where
  "strict_bounded_int p v minimum maximum =
     (case v of
        PInt i \<Rightarrow> bounded_int p v minimum maximum
      | _ \<Rightarrow> value_error (p @ '' must be between '' @ str_int minimum @ '' and '' @ str_int maximum))"

text \<open>\<open>except (TypeError, ValueError)\<close>: the two exceptions of \<open>int(value)\<close>.\<close>

definition parse_positive_int :: "string \<Rightarrow> pyval \<Rightarrow> int res" where
  "parse_positive_int p v =
     (case v of
        PBool b \<Rightarrow> value_error (p @ '' must be greater than 0'')
      | _ \<Rightarrow> (case py_int v of
          Inl e \<Rightarrow> value_error (p @ '' must be greater than 0'')
        | Inr parsed \<Rightarrow>
            if parsed \<le> 0 then value_error (p @ '' must be greater than 0'') else Inr parsed))"

section \<open>Policies\<close>

record restart_policy =
  max_attempts :: int
  backoff_seconds :: int

definition restart_policy_from_mapping :: "string \<Rightarrow> pyval \<Rightarrow> restart_policy res" where
  "restart_policy_from_mapping p data =
     bindE (mapping_or_empty p data) (\<lambda>raw.
     bindE (schema_validate_keys p raw [''max_attempts'', ''backoff_seconds'']) (\<lambda>_.
     bindE (non_negative_int (p @ ''.max_attempts'') (dget_or raw ''max_attempts'' (PInt 3))) (\<lambda>m.
     bindE (positive_int (p @ ''.backoff_seconds'') (dget_or raw ''backoff_seconds'' (PInt 2))) (\<lambda>b.
     Inr \<lparr>max_attempts = m, backoff_seconds = b\<rparr>))))"

record health_policy =
  ready_timeout_seconds :: int
  call_timeout_seconds :: int
  http_retry_attempts :: int
  http_retry_backoff_seconds :: int

definition MAX_CALL_TIMEOUT_SECONDS :: int where
  "MAX_CALL_TIMEOUT_SECONDS = 300"

definition health_policy_from_mapping :: "string \<Rightarrow> pyval \<Rightarrow> health_policy res" where
  "health_policy_from_mapping p data =
     bindE (mapping_or_empty p data) (\<lambda>raw.
     bindE (schema_validate_keys p raw [''ready_timeout_seconds'', ''call_timeout_seconds'',
       ''http_retry_attempts'', ''http_retry_backoff_seconds'']) (\<lambda>_.
     bindE (positive_int (p @ ''.ready_timeout_seconds'')
       (dget_or raw ''ready_timeout_seconds'' (PInt 10))) (\<lambda>r.
     bindE (strict_bounded_int (p @ ''.call_timeout_seconds'')
       (dget_or raw ''call_timeout_seconds'' (PInt 60)) 1 MAX_CALL_TIMEOUT_SECONDS) (\<lambda>c.
     bindE (non_negative_int (p @ ''.http_retry_attempts'')
       (dget_or raw ''http_retry_attempts'' (PInt 0))) (\<lambda>a.
     bindE (non_negative_int (p @ ''.http_retry_backoff_seconds'')
       (dget_or raw ''http_retry_backoff_seconds'' (PInt 0))) (\<lambda>b.
     Inr \<lparr>ready_timeout_seconds = r, call_timeout_seconds = c, http_retry_attempts = a,
          http_retry_backoff_seconds = b\<rparr>))))))"

record resource_policy =
  idle_timeout_seconds :: int
  cpu_watchdog_percent :: int
  cpu_watchdog_seconds :: int
  memory_ceiling_mb :: "int option"

definition resource_policy_from_mapping :: "string \<Rightarrow> pyval \<Rightarrow> resource_policy res" where
  "resource_policy_from_mapping p data =
     bindE (mapping_or_empty p data) (\<lambda>raw.
     bindE (schema_validate_keys p raw [''idle_timeout_seconds'', ''cpu_watchdog_percent'',
       ''cpu_watchdog_seconds'', ''memory_ceiling_mb'']) (\<lambda>_.
     bindE (positive_int (p @ ''.idle_timeout_seconds'')
       (dget_or raw ''idle_timeout_seconds'' (PInt 900))) (\<lambda>i.
     bindE (bounded_int (p @ ''.cpu_watchdog_percent'')
       (dget_or raw ''cpu_watchdog_percent'' (PInt 80)) 1 100) (\<lambda>c.
     bindE (positive_int (p @ ''.cpu_watchdog_seconds'')
       (dget_or raw ''cpu_watchdog_seconds'' (PInt 10))) (\<lambda>s.
     bindE (optional_positive_int (p @ ''.memory_ceiling_mb'') (dget raw ''memory_ceiling_mb'')) (\<lambda>m.
     Inr \<lparr>idle_timeout_seconds = i, cpu_watchdog_percent = c, cpu_watchdog_seconds = s,
          memory_ceiling_mb = m\<rparr>))))))"

record auth_repair_policy =
  repair_tool :: string
  repair_arguments :: pydict
  trigger_errors :: "string list"
  retry_original :: bool
  repair_timeout_seconds :: int

definition auth_repair_from_mapping :: "string \<Rightarrow> pyval \<Rightarrow> auth_repair_policy option res" where
  "auth_repair_from_mapping p data =
     (if data = PNone then Inr None else
     bindE (mapping_or_empty p data) (\<lambda>raw.
     bindE (schema_validate_keys p raw [''tool'', ''arguments'', ''trigger_errors'',
       ''retry_original'', ''timeout_seconds'']) (\<lambda>_.
     case dget raw ''tool'' of
       PStr tool \<Rightarrow>
         bindE (require (tool \<noteq> []) (Exn ValueError (p @ ''.tool must be a non-empty string''))) (\<lambda>_.
         case dget_or raw ''arguments'' (PDict []) of
           PDict arguments \<Rightarrow>
             (case dget_or raw ''trigger_errors'' (PList []) of
               PList triggers \<Rightarrow>
                 bindE (require (triggers \<noteq> [])
                   (Exn ValueError (p @ ''.trigger_errors must be a non-empty list''))) (\<lambda>_.
                 bindE (require (list_all is_str triggers)
                   (Exn ValueError (p @ ''.trigger_errors must contain strings''))) (\<lambda>_.
                 bindE (require (list_all truthy triggers)
                   (Exn ValueError (p @ ''.trigger_errors cannot contain empty values''))) (\<lambda>_.
                 case dget_or raw ''retry_original'' (PBool True) of
                   PBool retry \<Rightarrow>
                     bindE (positive_int (p @ ''.timeout_seconds'')
                       (dget_or raw ''timeout_seconds'' (PInt 300))) (\<lambda>timeout.
                     Inr (Some \<lparr>repair_tool = tool, repair_arguments = arguments,
                       trigger_errors = map py_str triggers, retry_original = retry,
                       repair_timeout_seconds = timeout\<rparr>))
                 | _ \<Rightarrow> value_error (p @ ''.retry_original must be a boolean''))))
             | _ \<Rightarrow> value_error (p @ ''.trigger_errors must be a non-empty list''))
         | _ \<Rightarrow> value_error (p @ ''.arguments must be a mapping''))
     | _ \<Rightarrow> value_error (p @ ''.tool must be a non-empty string''))))"

record auth_probe_policy =
  probe_type :: string
  token_file :: string
  required_fields :: "string list"
  refresh_token_expiry_field :: "string option"

definition auth_probe_from_mapping :: "string \<Rightarrow> pyval \<Rightarrow> auth_probe_policy option res" where
  "auth_probe_from_mapping p data =
     (if data = PNone then Inr None else
     bindE (mapping_or_empty p data) (\<lambda>raw.
     bindE (schema_validate_keys p raw [''type'', ''token_file'', ''required_fields'',
       ''refresh_token_expiry_field'']) (\<lambda>_.
     bindE (require (\<exists>t \<in> set ALLOWED_AUTH_PROBE_TYPES. dget raw ''type'' = PStr t)
       (Exn ValueError (p @ ''.type must be one of: '' @ join '', '' (sort ALLOWED_AUTH_PROBE_TYPES)))) (\<lambda>_.
     bindE (require (is_str (dget raw ''token_file'') \<and> truthy (dget raw ''token_file''))
       (Exn ValueError (p @ ''.token_file must be a non-empty string''))) (\<lambda>_.
     case dget_or raw ''required_fields'' (PList []) of
       PList flds \<Rightarrow>
         bindE (require (list_all is_str flds)
           (Exn ValueError (p @ ''.required_fields must contain strings''))) (\<lambda>_.
         bindE (require (list_all truthy flds)
           (Exn ValueError (p @ ''.required_fields cannot contain empty values''))) (\<lambda>_.
         let expiry = dget raw ''refresh_token_expiry_field'' in
         bindE (require (expiry = PNone \<or> is_str expiry \<and> truthy expiry)
           (Exn ValueError (p @ ''.refresh_token_expiry_field must be a non-empty string''))) (\<lambda>_.
         Inr (Some \<lparr>probe_type = py_str (dget raw ''type''),
           token_file = py_str (dget raw ''token_file''),
           required_fields = map py_str flds,
           refresh_token_expiry_field = (case expiry of PStr e \<Rightarrow> Some e | _ \<Rightarrow> None)\<rparr>))))
     | _ \<Rightarrow> value_error (p @ ''.required_fields must be a list''))))))"

record smoke_probe =
  smoke_query :: string
  smoke_tool :: string
  smoke_arguments :: pydict
  smoke_call :: bool

definition smoke_probe_from_mapping :: "string \<Rightarrow> pyval \<Rightarrow> smoke_probe option res" where
  "smoke_probe_from_mapping p data =
     (if data = PNone then Inr None else
     bindE (mapping_or_empty p data) (\<lambda>raw.
     bindE (schema_validate_keys p raw [''query'', ''tool'', ''arguments'', ''call'']) (\<lambda>_.
     bindE (require (is_str (dget raw ''query'') \<and> truthy (dget raw ''query''))
       (Exn ValueError (p @ ''.query must be a non-empty string''))) (\<lambda>_.
     bindE (require (is_str (dget raw ''tool'') \<and> truthy (dget raw ''tool''))
       (Exn ValueError (p @ ''.tool must be a non-empty string''))) (\<lambda>_.
     case dget_or raw ''arguments'' (PDict []) of
       PDict arguments \<Rightarrow>
         (case dget_or raw ''call'' (PBool True) of
           PBool call \<Rightarrow>
             Inr (Some \<lparr>smoke_query = py_str (dget raw ''query''),
               smoke_tool = py_str (dget raw ''tool''), smoke_arguments = arguments,
               smoke_call = call\<rparr>)
         | _ \<Rightarrow> value_error (p @ ''.call must be a boolean''))
     | _ \<Rightarrow> value_error (p @ ''.arguments must be a mapping''))))))"

section \<open>Enumerations and lists\<close>

definition parse_profiles :: "string \<Rightarrow> pyval \<Rightarrow> string list res" where
  "parse_profiles p data =
     (case data of
        PNone \<Rightarrow> Inr [''manual-test'']
      | PList xs \<Rightarrow>
          if xs = [] then value_error (p @ '' must be a non-empty list'')
          else (let profiles = map py_str xs in
            if list_ex (\<lambda>s. s = []) profiles then value_error (p @ '' cannot contain empty values'')
            else Inr profiles)
      | _ \<Rightarrow> value_error (p @ '' must be a non-empty list''))"

definition parse_transport :: "string \<Rightarrow> pyval \<Rightarrow> string res" where
  "parse_transport p v =
     (let transport = (if v = PNone then ''stdio'' else py_str v) in
      if transport \<notin> set ALLOWED_UPSTREAM_TRANSPORTS
      then value_error (p @ '' must be one of: '' @ join '', '' (sort ALLOWED_UPSTREAM_TRANSPORTS))
      else Inr transport)"

definition parse_mode :: "string \<Rightarrow> pyval \<Rightarrow> string res" where
  "parse_mode p v =
     (let mode = (if v = PNone then ''shared'' else py_str v) in
      if mode \<notin> set ALLOWED_UPSTREAM_MODES
      then value_error (p @ '' must be one of: '' @ join '', '' (sort ALLOWED_UPSTREAM_MODES))
      else Inr mode)"

definition parse_startup_timeout :: "string \<Rightarrow> pyval \<Rightarrow> int res" where
  "parse_startup_timeout p v = positive_int p (if v = PNone then PInt 60 else v)"

definition parse_tool_timeouts :: "string \<Rightarrow> pyval \<Rightarrow> (string \<times> int) list res" where
  "parse_tool_timeouts p v =
     (case v of
        PDict d \<Rightarrow> foldE (\<lambda>parsed (tool_name, timeout_seconds).
          if tool_name = [] then value_error (p @ '' keys must be non-empty tool names'')
          else bindE (parse_positive_int (p @ ''.'' @ tool_name) timeout_seconds) (\<lambda>t.
            Inr (AList.update tool_name t parsed))) [] d
      | _ \<Rightarrow> value_error (p @ '' must be a mapping''))"

section \<open>Lifecycle modes: config\_modes.py\<close>

definition validate_upstream_transport_mode :: "string \<Rightarrow> string \<Rightarrow> string \<Rightarrow> unit res" where
  "validate_upstream_transport_mode name mode transport =
     require (\<not> (mode = ''per_call'' \<and> transport \<noteq> ''stdio''))
       (Exn ValueError (''upstreams.'' @ name @ ''.mode per_call requires transport: stdio''))"

definition validate_upstream_session_mode :: "string \<Rightarrow> string \<Rightarrow> (string \<times> string) list \<Rightarrow> unit res" where
  "validate_upstream_session_mode name mode session_env =
     require (\<not> (session_env \<noteq> [] \<and> mode \<notin> {''per_session'', ''per_call''}))
       (Exn ValueError (''upstreams.'' @ name @
         ''.session_env requires mode: per_session or per_call''))"

definition parse_relay_elicitation :: "string \<Rightarrow> string \<Rightarrow> string \<Rightarrow> pyval \<Rightarrow> bool res" where
  "parse_relay_elicitation name mode transport v =
     (case v of
        PBool b \<Rightarrow>
          if b \<and> (transport \<noteq> ''stdio'' \<or> mode \<notin> {''per_session'', ''per_call''})
          then value_error (''upstreams.'' @ name @ ''.relay_elicitation requires isolated stdio mode'')
          else Inr b
      | _ \<Rightarrow> value_error (''upstreams.'' @ name @ ''.relay_elicitation must be a boolean''))"

section \<open>Bounds of what parses\<close>

named_theorems parser_bounds

lemma positive_int_bounds [parser_bounds]: "positive_int p v = Inr i \<Longrightarrow> 0 < i"
  by (auto simp: positive_int_def bindE_eq_Inr split: if_splits)

lemma non_negative_int_bounds [parser_bounds]: "non_negative_int p v = Inr i \<Longrightarrow> 0 \<le> i"
  by (auto simp: non_negative_int_def bindE_eq_Inr split: if_splits)

lemma bounded_int_bounds [parser_bounds]: "bounded_int p v a b = Inr i \<Longrightarrow> a \<le> i \<and> i \<le> b"
  by (auto simp: bounded_int_def bindE_eq_Inr split: if_splits)

lemma strict_bounded_int_bounds [parser_bounds]:
  "strict_bounded_int p v a b = Inr i \<Longrightarrow> v = PInt i \<and> a \<le> i \<and> i \<le> b"
  by (cases v) (auto simp: strict_bounded_int_def bounded_int_def split: if_splits)

lemma optional_positive_int_bounds [parser_bounds]:
  "optional_positive_int p v = Inr (Some i) \<Longrightarrow> 0 < i"
  by (auto simp: optional_positive_int_def bindE_eq_Inr split: if_splits dest: positive_int_bounds)

lemma parse_positive_int_bounds [parser_bounds]: "parse_positive_int p v = Inr i \<Longrightarrow> 0 < i"
  by (auto simp: parse_positive_int_def split: pyval.splits sum.splits if_splits)

definition restart_policy_ok :: "restart_policy \<Rightarrow> bool" where
  "restart_policy_ok r \<longleftrightarrow> 0 \<le> max_attempts r \<and> 0 < backoff_seconds r"

definition health_policy_ok :: "health_policy \<Rightarrow> bool" where
  "health_policy_ok h \<longleftrightarrow> 0 < ready_timeout_seconds h \<and>
     1 \<le> call_timeout_seconds h \<and> call_timeout_seconds h \<le> 300 \<and>
     0 \<le> http_retry_attempts h \<and> 0 \<le> http_retry_backoff_seconds h"

definition resource_policy_ok :: "resource_policy \<Rightarrow> bool" where
  "resource_policy_ok r \<longleftrightarrow> 0 < idle_timeout_seconds r \<and>
     1 \<le> cpu_watchdog_percent r \<and> cpu_watchdog_percent r \<le> 100 \<and> 0 < cpu_watchdog_seconds r \<and>
     (\<forall>m. memory_ceiling_mb r = Some m \<longrightarrow> 0 < m)"

lemma restart_policy_parsed_ok [parser_bounds]:
  "restart_policy_from_mapping p v = Inr r \<Longrightarrow> restart_policy_ok r"
  by (auto simp: restart_policy_from_mapping_def bindE_eq_Inr restart_policy_ok_def dest: parser_bounds)

lemma health_policy_parsed_ok [parser_bounds]:
  "health_policy_from_mapping p v = Inr h \<Longrightarrow> health_policy_ok h"
  by (auto simp: health_policy_from_mapping_def bindE_eq_Inr health_policy_ok_def
      MAX_CALL_TIMEOUT_SECONDS_def dest: parser_bounds)

lemma resource_policy_parsed_ok [parser_bounds]:
  "resource_policy_from_mapping p v = Inr r \<Longrightarrow> resource_policy_ok r"
  by (auto simp: resource_policy_from_mapping_def bindE_eq_Inr resource_policy_ok_def
      dest: parser_bounds)

lemma parse_mode_Inr [parser_bounds]: "parse_mode p v = Inr m \<Longrightarrow> m \<in> set ALLOWED_UPSTREAM_MODES"
  by (auto simp: parse_mode_def Let_def split: if_splits)

lemma parse_transport_Inr [parser_bounds]:
  "parse_transport p v = Inr t \<Longrightarrow> t \<in> set ALLOWED_UPSTREAM_TRANSPORTS"
  by (auto simp: parse_transport_def Let_def split: if_splits)

lemma parse_tool_timeouts_pos:
  assumes "parse_tool_timeouts p v = Inr ts"
  shows "\<forall>k t. map_of ts k = Some t \<longrightarrow> k \<noteq> [] \<and> 0 < t"
proof -
  from assms obtain d where "v = PDict d" by (cases v) (auto simp: parse_tool_timeouts_def)
  with assms have "foldE (\<lambda>parsed (tool_name, timeout_seconds).
      if tool_name = [] then value_error (p @ '' keys must be non-empty tool names'')
      else bindE (parse_positive_int (p @ ''.'' @ tool_name) timeout_seconds) (\<lambda>t.
        Inr (AList.update tool_name t parsed))) [] d = Inr ts"
    by (simp add: parse_tool_timeouts_def)
  then show ?thesis
  proof (rule foldE_invariant)
    show "\<forall>k t. map_of [] k = Some t \<longrightarrow> k \<noteq> [] \<and> (0::int) < t" by simp
  next
    fix s :: "(string \<times> int) list" and kv s'
    assume ih: "\<forall>k t. map_of s k = Some t \<longrightarrow> k \<noteq> [] \<and> 0 < t"
      and step: "(case kv of (tool_name, timeout_seconds) \<Rightarrow>
        if tool_name = [] then value_error (p @ '' keys must be non-empty tool names'')
        else bindE (parse_positive_int (p @ ''.'' @ tool_name) timeout_seconds) (\<lambda>t.
          Inr (AList.update tool_name t s))) = Inr s'"
    obtain a b where "kv = (a, b)" by (cases kv)
    with step obtain t where "a \<noteq> []" "parse_positive_int (p @ ''.'' @ a) b = Inr t"
      and s': "s' = AList.update a t s"
      by (auto simp: bindE_eq_Inr split: if_splits)
    then have "a \<noteq> [] \<and> 0 < t" by (blast dest: parse_positive_int_bounds)
    with ih s' show "\<forall>k t. map_of s' k = Some t \<longrightarrow> k \<noteq> [] \<and> 0 < t" by simp
  qed
qed

end
