(* ===== verification/Config_Model.thy ===== *)
theory Config_Model
  imports Config_Schema Profiles
begin

text \<open>
  The configuration model (\<^verbatim>\<open>config.py\<close>, \<^verbatim>\<open>config_identity.py\<close>, the key inventories of
  \<^verbatim>\<open>config_keys.py\<close> and the metadata mapping of \<^verbatim>\<open>request_metadata.py\<close>): runtime paths,
  broker settings, one upstream, and the checks across upstreams and profiles. The parser of the
  client section and the YAML loader are not here; a parsed mapping is the input.
\<close>

section \<open>Names and keys\<close>

definition is_letter :: "char \<Rightarrow> bool" where
  "is_letter c = (let n = code c in (65 \<le> n \<and> n \<le> 90) \<or> (97 \<le> n \<and> n \<le> 122))"

text \<open>
  \<open>ENV_NAME_PATTERN.match\<close>: the pattern ends in \<open>$\<close>, which \<open>match\<close> also lets stand
  before a final newline. \<open>META_NAME_PATTERN\<close> is used with \<open>fullmatch\<close>, which does not.
\<close>

definition env_name_chars :: "string \<Rightarrow> bool" where
  "env_name_chars s = (case s of [] \<Rightarrow> False
     | c # cs \<Rightarrow> (is_letter c \<or> c = CHR ''_'') \<and>
         list_all (\<lambda>d. is_letter d \<or> is_digit d \<or> d = CHR ''_'') cs)"

definition env_name_match :: "string \<Rightarrow> bool" where
  "env_name_match s = (env_name_chars s \<or>
     (s \<noteq> [] \<and> last s = CHR 0x0A \<and> env_name_chars (butlast s)))"

definition meta_name_fullmatch :: "string \<Rightarrow> bool" where
  "meta_name_fullmatch s = (case s of [] \<Rightarrow> False
     | c # cs \<Rightarrow> (is_letter c \<or> is_digit c) \<and>
         list_all (\<lambda>d. is_letter d \<or> is_digit d \<or> d \<in> set ''_.:/-'') cs)"

definition SESSION_ENV_SOURCES :: "string list" where
  "SESSION_ENV_SOURCES = [''client_cwd'']"

definition RUNTIME_KEYS :: "string list" where
  "RUNTIME_KEYS = [''root'', ''socket_path'', ''log_dir'', ''state_dir'', ''secrets_dir'']"

definition BROKER_KEYS :: "string list" where
  "BROKER_KEYS = [''identity'', ''tool_namespace_separator'', ''idle_timeout_seconds'',
     ''socket_read_timeout_seconds'', ''socket_max_request_bytes'', ''cpu_watchdog_percent'',
     ''cpu_watchdog_seconds'', ''remote_auth'']"

definition BROKER_IDENTITY_KEYS :: "string list" where
  "BROKER_IDENTITY_KEYS = [''broker_id'', ''environment'', ''bundle_version'']"

definition REMOTE_AUTH_KEYS :: "string list" where
  "REMOTE_AUTH_KEYS = [''enabled'', ''required'', ''token_env'', ''token_file'']"

definition PROFILE_KEYS :: "string list" where
  "PROFILE_KEYS = [''max_tools'', ''compact_tools_enabled'', ''broker_tool_name_style'',
     ''allow_mutating_upstreams'', ''client_root_match'', ''result_size_chars'',
     ''result_budget_chars'']"

definition UPSTREAM_KEYS :: "string list" where
  "UPSTREAM_KEYS = [''enabled'', ''mode'', ''transport'', ''purpose'', ''tags'', ''tool_prefix'',
     ''command'', ''args'', ''working_dir'', ''state_dir'', ''profiles'', ''env'', ''env_files'',
     ''session_env'', ''request_meta'', ''forward_request_meta'', ''relay_elicitation'',
     ''mutating'', ''serialize_calls'', ''strict_initialization'', ''inject_cwd_project'',
     ''inject_cwd_project_exclude'', ''startup_timeout_seconds'', ''tool_timeouts'', ''restart'',
     ''health'', ''resources'', ''auth_repair'', ''auth_probe'', ''smoke'']"

definition config_validate_keys :: "string \<Rightarrow> pydict \<Rightarrow> string list \<Rightarrow> unit res" where
  "config_validate_keys p data allowed_keys =
     (case List.find (\<lambda>k. k \<notin> set allowed_keys) (map fst data) of
        None \<Rightarrow> Inr ()
      | Some k \<Rightarrow> value_error (''unknown config key: '' @ (if p \<noteq> [] then p @ ''.'' @ k else k)))"

section \<open>Texts and paths\<close>

text \<open>\<open>for _ in range(5)\<close>: at most five rounds of variable expansion.\<close>

fun expand_rounds :: "(string \<Rightarrow> string) \<Rightarrow> nat \<Rightarrow> string \<Rightarrow> string" where
  "expand_rounds ev 0 s = s"
| "expand_rounds ev (Suc n) s = (let t = ev s in if t = s then s else expand_rounds ev n t)"

definition expand_text :: "os_text \<Rightarrow> string \<Rightarrow> string" where
  "expand_text os v = os_expanduser os (expand_rounds (os_expandvars os) 5 v)"

record runtime_config =
  rt_root :: path
  rt_socket_path :: path
  rt_log_dir :: path
  rt_state_dir :: path
  rt_secrets_dir :: path

text \<open>
  \<open>Path(text).expanduser()\<close> is the parameter \<open>eu\<close> below; it raises \<open>RuntimeError\<close>
  when the home directory of a named user is unknown.
\<close>

type_synonym path_expander = "path \<Rightarrow> path res"

definition expand_path :: "os_text \<Rightarrow> path_expander \<Rightarrow> string \<Rightarrow> path res" where
  "expand_path os eu v = eu (path_of (expand_text os v))"

definition parse_path :: "os_text \<Rightarrow> path_expander \<Rightarrow> string \<Rightarrow> pyval \<Rightarrow> path res" where
  "parse_path os eu p v =
     (case v of
        PStr s \<Rightarrow> if s = [] then value_error (p @ '' must be a path string'') else expand_path os eu s
      | _ \<Rightarrow> value_error (p @ '' must be a path string''))"

text \<open>\<open>data.get(key, default)\<close> where the default is a path.\<close>

definition parse_path_or :: "os_text \<Rightarrow> path_expander \<Rightarrow> string \<Rightarrow> pydict \<Rightarrow> string \<Rightarrow> path \<Rightarrow> path res" where
  "parse_path_or os eu p data key dflt =
     parse_path os eu p (dget_or data key (PStr (path_str dflt)))"

definition runtime_from_mapping :: "os_text \<Rightarrow> path_expander \<Rightarrow> pydict \<Rightarrow> runtime_config res" where
  "runtime_from_mapping os eu data =
     bindE (config_validate_keys ''runtime'' data RUNTIME_KEYS) (\<lambda>_.
     bindE (require (dhas data ''root'')
       (Exn ValueError ''missing required config key: runtime.root'')) (\<lambda>_.
     bindE (parse_path os eu ''runtime.root'' (dget data ''root'')) (\<lambda>r.
     bindE (parse_path_or os eu ''runtime.socket_path'' data ''socket_path''
       (path_join (path_join r ''sockets'') ''broker.sock'')) (\<lambda>socket_path.
     bindE (parse_path_or os eu ''runtime.log_dir'' data ''log_dir'' (path_join r ''logs'')) (\<lambda>log_dir.
     bindE (parse_path_or os eu ''runtime.state_dir'' data ''state_dir'' (path_join r ''state'')) (\<lambda>state_dir.
     bindE (parse_path_or os eu ''runtime.secrets_dir'' data ''secrets_dir''
       (path_join r ''secrets'')) (\<lambda>secrets_dir.
     Inr \<lparr>rt_root = r, rt_socket_path = socket_path, rt_log_dir = log_dir, rt_state_dir = state_dir,
          rt_secrets_dir = secrets_dir\<rparr>)))))))"

definition expand_config_text :: "os_text \<Rightarrow> runtime_config \<Rightarrow> string \<Rightarrow> string" where
  "expand_config_text os rt v =
     fold (\<lambda>(token, replacement) s. replace_sub token (path_str replacement) s)
       [(''{runtime.root}'', rt_root rt), (''{runtime.socket_path}'', rt_socket_path rt),
        (''{runtime.log_dir}'', rt_log_dir rt), (''{runtime.state_dir}'', rt_state_dir rt),
        (''{runtime.secrets_dir}'', rt_secrets_dir rt)]
       (expand_text os v)"

definition parse_config_path ::
    "os_text \<Rightarrow> path_expander \<Rightarrow> runtime_config \<Rightarrow> string \<Rightarrow> pyval \<Rightarrow> path res" where
  "parse_config_path os eu rt p v =
     (case v of
        PStr s \<Rightarrow> if s = [] then value_error (p @ '' must be a path string'')
                  else eu (path_of (expand_config_text os rt s))
      | _ \<Rightarrow> value_error (p @ '' must be a path string''))"

definition parse_optional_config_path ::
    "os_text \<Rightarrow> path_expander \<Rightarrow> runtime_config \<Rightarrow> string \<Rightarrow> pyval \<Rightarrow> path option res" where
  "parse_optional_config_path os eu rt p v =
     (if v = PNone then Inr None else bindE (parse_config_path os eu rt p v) (\<lambda>q. Inr (Some q)))"

section \<open>Broker settings\<close>

definition parse_bool :: "string \<Rightarrow> pyval \<Rightarrow> bool res" where
  "parse_bool p v = (case v of PBool b \<Rightarrow> Inr b | _ \<Rightarrow> value_error (p @ '' must be a boolean''))"

definition parse_optional_env_name :: "string \<Rightarrow> pyval \<Rightarrow> string option res" where
  "parse_optional_env_name p v =
     (case v of
        PNone \<Rightarrow> Inr None
      | PStr s \<Rightarrow> if env_name_match s then Inr (Some s)
                  else value_error (p @ '' must name a host environment variable'')
      | _ \<Rightarrow> value_error (p @ '' must name a host environment variable''))"

record identity_config =
  id_broker_id :: string
  id_environment :: string
  id_bundle_version :: string

definition parse_non_empty_string :: "string \<Rightarrow> pyval \<Rightarrow> string res" where
  "parse_non_empty_string p v =
     (case v of PStr s \<Rightarrow> if s = [] then value_error (p @ '' must be a non-empty string'') else Inr s
      | _ \<Rightarrow> value_error (p @ '' must be a non-empty string''))"

definition identity_from_mapping :: "pyval \<Rightarrow> identity_config res" where
  "identity_from_mapping data =
     bindE (case data of PNone \<Rightarrow> Inr [] | PDict d \<Rightarrow> Inr d
            | _ \<Rightarrow> value_error ''broker.identity must be a mapping'') (\<lambda>raw.
     bindE (config_validate_keys ''broker.identity'' raw BROKER_IDENTITY_KEYS) (\<lambda>_.
     bindE (parse_non_empty_string ''broker.identity.broker_id''
       (dget_or raw ''broker_id'' (PStr ''mcp-broker-local''))) (\<lambda>b.
     bindE (parse_non_empty_string ''broker.identity.environment''
       (dget_or raw ''environment'' (PStr ''local''))) (\<lambda>e.
     bindE (parse_non_empty_string ''broker.identity.bundle_version''
       (dget_or raw ''bundle_version'' (PStr ''unbundled''))) (\<lambda>v.
     Inr \<lparr>id_broker_id = b, id_environment = e, id_bundle_version = v\<rparr>)))))"

definition identity_status_payload :: "identity_config \<Rightarrow> pyval \<Rightarrow> string list \<Rightarrow> pydict" where
  "identity_status_payload i active_profile active_profiles =
     [(''active_profile'', active_profile),
      (''active_profiles'', PList (map PStr active_profiles)),
      (''broker_id'', PStr (id_broker_id i)),
      (''bundle_version'', PStr (id_bundle_version i)),
      (''environment'', PStr (id_environment i)),
      (''schema_version'', PInt 1)]"

record remote_auth_config =
  ra_enabled :: bool
  ra_required :: bool
  ra_token_env :: "string option"
  ra_token_file :: "path option"

definition remote_auth_from_mapping ::
    "os_text \<Rightarrow> path_expander \<Rightarrow> runtime_config \<Rightarrow> pyval \<Rightarrow> remote_auth_config res" where
  "remote_auth_from_mapping os eu rt data =
     bindE (case data of PNone \<Rightarrow> Inr [] | PDict d \<Rightarrow> Inr d
            | _ \<Rightarrow> value_error ''broker.remote_auth must be a mapping'') (\<lambda>raw.
     bindE (config_validate_keys ''broker.remote_auth'' raw REMOTE_AUTH_KEYS) (\<lambda>_.
     bindE (parse_bool ''broker.remote_auth.enabled'' (dget_or raw ''enabled'' (PBool False))) (\<lambda>enabled.
     bindE (parse_bool ''broker.remote_auth.required'' (dget_or raw ''required'' (PBool True))) (\<lambda>required.
     bindE (require required (Exn ValueError ''broker.remote_auth.required must be true'')) (\<lambda>_.
     bindE (parse_optional_env_name ''broker.remote_auth.token_env'' (dget raw ''token_env'')) (\<lambda>token_env.
     bindE (parse_optional_config_path os eu rt ''broker.remote_auth.token_file''
       (dget raw ''token_file'')) (\<lambda>token_file.
     bindE (require (\<not> (enabled \<and> token_env = None \<and> token_file = None))
       (Exn ValueError ''broker.remote_auth requires token_env or token_file when enabled'')) (\<lambda>_.
     Inr \<lparr>ra_enabled = enabled, ra_required = required, ra_token_env = token_env,
          ra_token_file = token_file\<rparr>))))))))"

record broker_settings =
  bs_identity :: identity_config
  bs_tool_namespace_separator :: string
  bs_idle_timeout_seconds :: int
  bs_socket_read_timeout_seconds :: int
  bs_socket_max_request_bytes :: int
  bs_cpu_watchdog_percent :: int
  bs_cpu_watchdog_seconds :: int
  bs_remote_auth :: remote_auth_config

text \<open>\<open>__post_init__\<close> parses the two socket limits again, so a directly built value is checked too.\<close>

definition broker_settings_from_mapping ::
    "os_text \<Rightarrow> path_expander \<Rightarrow> runtime_config \<Rightarrow> pydict \<Rightarrow> broker_settings res" where
  "broker_settings_from_mapping os eu rt data =
     bindE (config_validate_keys ''broker'' data BROKER_KEYS) (\<lambda>_.
     bindE (identity_from_mapping (dget data ''identity'')) (\<lambda>ident.
     bindE (py_int (dget_or data ''idle_timeout_seconds'' (PInt 900))) (\<lambda>idle.
     bindE (parse_positive_int ''broker.socket_read_timeout_seconds''
       (dget_or data ''socket_read_timeout_seconds'' (PInt 30))) (\<lambda>rd.
     bindE (parse_positive_int ''broker.socket_max_request_bytes''
       (dget_or data ''socket_max_request_bytes'' (PInt 16777216))) (\<lambda>mx.
     bindE (py_int (dget_or data ''cpu_watchdog_percent'' (PInt 80))) (\<lambda>cp.
     bindE (py_int (dget_or data ''cpu_watchdog_seconds'' (PInt 10))) (\<lambda>cs.
     bindE (remote_auth_from_mapping os eu rt (dget data ''remote_auth'')) (\<lambda>ra.
     bindE (parse_positive_int ''broker.socket_read_timeout_seconds'' (PInt rd)) (\<lambda>rd'.
     bindE (parse_positive_int ''broker.socket_max_request_bytes'' (PInt mx)) (\<lambda>mx'.
     Inr \<lparr>bs_identity = ident,
          bs_tool_namespace_separator = py_str (dget_or data ''tool_namespace_separator'' (PStr ''.'')),
          bs_idle_timeout_seconds = idle, bs_socket_read_timeout_seconds = rd',
          bs_socket_max_request_bytes = mx', bs_cpu_watchdog_percent = cp,
          bs_cpu_watchdog_seconds = cs, bs_remote_auth = ra\<rparr>))))))))))"

section \<open>Upstreams\<close>

record upstream_config =
  up_name :: string
  up_command :: string
  up_args :: "string list"
  up_mode :: string
  up_transport :: string
  up_enabled :: bool
  up_working_dir :: "path option"
  up_state_dir :: pyval
  up_tool_prefix :: "string option"
  up_env :: "(string \<times> string) list"
  up_env_files :: "(string \<times> path) list"
  up_session_env :: "(string \<times> string) list"
  up_request_meta :: "(string \<times> string) list"
  up_forward_request_meta :: "string list"
  up_relay_elicitation :: bool
  up_purpose :: string
  up_tags :: "string list"
  up_profiles :: "string list"
  up_mutating :: bool
  up_serialize_calls :: bool
  up_strict_initialization :: bool
  up_inject_cwd_project :: bool
  up_inject_cwd_project_exclude :: "string list"
  up_startup_timeout_seconds :: int
  up_restart :: restart_policy
  up_health :: health_policy
  up_tool_timeouts :: "(string \<times> int) list"
  up_resources :: resource_policy
  up_auth_repair :: "auth_repair_policy option"
  up_auth_probe :: "auth_probe_policy option"
  up_smoke :: "smoke_probe option"

definition parse_env_names :: "string \<Rightarrow> pyval \<Rightarrow> (string \<times> string) list res" where
  "parse_env_names p v =
     (case v of
        PDict d \<Rightarrow> foldE (\<lambda>parsed (target_name, source_name).
          bindE (require (env_name_match target_name)
            (Exn ValueError (p @ '' keys must be environment variable names''))) (\<lambda>_.
          case source_name of
            PStr s \<Rightarrow> if env_name_match s then Inr (AList.update target_name s parsed)
                      else value_error (p @ ''.'' @ target_name @ '' must name a host environment variable'')
          | _ \<Rightarrow> value_error (p @ ''.'' @ target_name @ '' must name a host environment variable''))) [] d
      | _ \<Rightarrow> value_error (p @ '' must be a mapping''))"

definition parse_session_env :: "string \<Rightarrow> pyval \<Rightarrow> (string \<times> string) list res" where
  "parse_session_env p v =
     (case v of
        PDict d \<Rightarrow> foldE (\<lambda>parsed (target_name, source_name).
          bindE (require (env_name_match target_name)
            (Exn ValueError (p @ '' keys must be environment variable names''))) (\<lambda>_.
          case source_name of
            PStr s \<Rightarrow> if s \<in> set SESSION_ENV_SOURCES then Inr (AList.update target_name s parsed)
                      else value_error (p @ ''.'' @ target_name @ '' must be one of: '' @
                        join '', '' (sort SESSION_ENV_SOURCES))
          | _ \<Rightarrow> value_error (p @ ''.'' @ target_name @ '' must be one of: '' @
                        join '', '' (sort SESSION_ENV_SOURCES)))) [] d
      | _ \<Rightarrow> value_error (p @ '' must be a mapping''))"

definition parse_env_files ::
    "os_text \<Rightarrow> path_expander \<Rightarrow> runtime_config \<Rightarrow> string \<Rightarrow> pyval \<Rightarrow> (string \<times> path) list res" where
  "parse_env_files os eu rt p v =
     (case v of
        PDict d \<Rightarrow> foldE (\<lambda>parsed (target_name, source_path).
          bindE (require (env_name_match target_name)
            (Exn ValueError (p @ '' keys must be environment variable names''))) (\<lambda>_.
          bindE (parse_config_path os eu rt (p @ ''.'' @ target_name) source_path) (\<lambda>q.
            Inr (AList.update target_name q parsed)))) [] d
      | _ \<Rightarrow> value_error (p @ '' must be a mapping''))"

definition parse_upstream_environment ::
    "os_text \<Rightarrow> path_expander \<Rightarrow> runtime_config \<Rightarrow> string \<Rightarrow> pydict \<Rightarrow>
     ((string \<times> string) list \<times> (string \<times> path) list) res" where
  "parse_upstream_environment os eu rt name data =
     bindE (parse_env_names (''upstreams.'' @ name @ ''.env'') (dget_or data ''env'' (PDict []))) (\<lambda>env.
     bindE (parse_env_files os eu rt (''upstreams.'' @ name @ ''.env_files'')
       (dget_or data ''env_files'' (PDict []))) (\<lambda>env_files.
     let duplicates = sort (filter (\<lambda>k. k \<in> set (map fst env_files)) (map fst env)) in
     bindE (require (duplicates = [])
       (Exn ValueError (''duplicate env source for upstream '' @ name @ '': '' @ join '', '' duplicates))) (\<lambda>_.
     Inr (env, env_files))))"

definition parse_upstream_args :: "os_text \<Rightarrow> runtime_config \<Rightarrow> string \<Rightarrow> pydict \<Rightarrow> string list res" where
  "parse_upstream_args os rt name data =
     (case dget_or data ''args'' (PList []) of
        PList xs \<Rightarrow> Inr (map (\<lambda>a. expand_config_text os rt (py_str a)) xs)
      | _ \<Rightarrow> value_error (''upstreams.'' @ name @ ''.args must be a list''))"

definition parse_string_tuple :: "string \<Rightarrow> pyval \<Rightarrow> string list res" where
  "parse_string_tuple p v =
     (case v of
        PList xs \<Rightarrow> (let parsed = map py_str xs in
          if list_ex (\<lambda>s. s = []) parsed then value_error (p @ '' must contain non-empty strings'')
          else Inr parsed)
      | _ \<Rightarrow> value_error (p @ '' must be a list''))"

definition parse_request_meta ::
    "string \<Rightarrow> pyval \<Rightarrow> string list \<Rightarrow> (string \<times> string) list res" where
  "parse_request_meta p v configured_env_names =
     (case v of
        PDict d \<Rightarrow> foldE (\<lambda>parsed (meta_name, source_name).
          bindE (require (meta_name_fullmatch meta_name)
            (Exn ValueError (p @ '' keys must be request metadata names''))) (\<lambda>_.
          case source_name of
            PStr s \<Rightarrow>
              if \<not> env_name_match s
              then value_error (p @ ''.'' @ meta_name @ '' must name a configured environment variable'')
              else if s \<notin> set configured_env_names
              then value_error (p @ ''.'' @ meta_name @ '' must reference env or env_files'')
              else Inr (AList.update meta_name s parsed)
          | _ \<Rightarrow> value_error (p @ ''.'' @ meta_name @ '' must name a configured environment variable''))) [] d
      | _ \<Rightarrow> value_error (p @ '' must be a mapping''))"

definition parse_forward_request_meta :: "string \<Rightarrow> string \<Rightarrow> pydict \<Rightarrow> string list res" where
  "parse_forward_request_meta name transport data =
     (case dget_or data ''forward_request_meta'' (PList []) of
        PList xs \<Rightarrow>
          if \<not> list_all (\<lambda>k. case k of PStr s \<Rightarrow> meta_name_fullmatch s | _ \<Rightarrow> False) xs
          then value_error (''upstreams.'' @ name @ ''.forward_request_meta must contain metadata names'')
          else if xs \<noteq> [] \<and> transport \<noteq> ''stdio''
          then value_error (''upstreams.'' @ name @ ''.forward_request_meta requires transport: stdio'')
          else Inr (map py_str xs)
      | _ \<Rightarrow> value_error (''upstreams.'' @ name @ ''.forward_request_meta must contain metadata names''))"

definition parse_auth_probe ::
    "os_text \<Rightarrow> path_expander \<Rightarrow> runtime_config \<Rightarrow> string \<Rightarrow> pyval \<Rightarrow> auth_probe_policy option res" where
  "parse_auth_probe os eu rt p v =
     bindE (auth_probe_from_mapping p v) (\<lambda>policy.
     case policy of
       None \<Rightarrow> Inr None
     | Some ap \<Rightarrow> bindE (eu (path_of (expand_config_text os rt (token_file ap)))) (\<lambda>q.
         Inr (Some (ap\<lparr>token_file := path_str q\<rparr>))))"

definition upstream_from_mapping ::
    "os_text \<Rightarrow> path_expander \<Rightarrow> runtime_config \<Rightarrow> string \<Rightarrow> pydict \<Rightarrow> upstream_config res" where
  "upstream_from_mapping os eu rt name data =
     (let key = (\<lambda>k. ''upstreams.'' @ name @ ''.'' @ k) in
     bindE (config_validate_keys (''upstreams.'' @ name) data UPSTREAM_KEYS) (\<lambda>_.
     bindE (require (dhas data ''command'')
       (Exn ValueError (''missing required config key: upstreams.'' @ name @ ''.command''))) (\<lambda>_.
     bindE (parse_upstream_environment os eu rt name data) (\<lambda>(env, env_files).
     bindE (parse_mode (key ''mode'') (dget_or data ''mode'' (PStr ''shared''))) (\<lambda>mode.
     bindE (parse_transport (key ''transport'') (dget_or data ''transport'' (PStr ''stdio''))) (\<lambda>transport.
     bindE (validate_upstream_transport_mode name mode transport) (\<lambda>_.
     bindE (parse_session_env (key ''session_env'') (dget_or data ''session_env'' (PDict []))) (\<lambda>session_env.
     bindE (validate_upstream_session_mode name mode session_env) (\<lambda>_.
     bindE (parse_forward_request_meta name transport data) (\<lambda>forward.
     bindE (parse_upstream_args os rt name data) (\<lambda>args.
     bindE (parse_optional_config_path os eu rt (key ''working_dir'') (dget data ''working_dir'')) (\<lambda>wd.
     bindE (parse_relay_elicitation name mode transport
       (dget_or data ''relay_elicitation'' (PBool False))) (\<lambda>relay.
     bindE (parse_request_meta (key ''request_meta'') (dget_or data ''request_meta'' (PDict []))
       (map fst env @ map fst env_files)) (\<lambda>request_meta.
     bindE (parse_string_tuple (key ''tags'') (dget_or data ''tags'' (PList []))) (\<lambda>tags.
     bindE (parse_profiles (key ''profiles'') (dget data ''profiles'')) (\<lambda>profiles.
     bindE (parse_bool (key ''mutating'') (dget_or data ''mutating'' (PBool False))) (\<lambda>mutating.
     bindE (parse_bool (key ''serialize_calls'') (dget_or data ''serialize_calls'' (PBool False))) (\<lambda>serialize.
     bindE (parse_bool (key ''strict_initialization'')
       (dget_or data ''strict_initialization'' (PBool False))) (\<lambda>strict.
     bindE (parse_bool (key ''inject_cwd_project'')
       (dget_or data ''inject_cwd_project'' (PBool False))) (\<lambda>inject.
     bindE (parse_string_tuple (key ''inject_cwd_project_exclude'')
       (dget_or data ''inject_cwd_project_exclude'' (PList []))) (\<lambda>exclude.
     bindE (parse_startup_timeout (key ''startup_timeout_seconds'')
       (dget data ''startup_timeout_seconds'')) (\<lambda>startup.
     bindE (restart_policy_from_mapping (key ''restart'') (dget data ''restart'')) (\<lambda>restart.
     bindE (health_policy_from_mapping (key ''health'') (dget data ''health'')) (\<lambda>health.
     bindE (parse_tool_timeouts (key ''tool_timeouts'') (dget_or data ''tool_timeouts'' (PDict []))) (\<lambda>timeouts.
     bindE (resource_policy_from_mapping (key ''resources'') (dget data ''resources'')) (\<lambda>resources.
     bindE (auth_repair_from_mapping (key ''auth_repair'') (dget data ''auth_repair'')) (\<lambda>repair.
     bindE (parse_auth_probe os eu rt (key ''auth_probe'') (dget data ''auth_probe'')) (\<lambda>probe.
     bindE (smoke_probe_from_mapping (key ''smoke'') (dget data ''smoke'')) (\<lambda>smoke.
     Inr \<lparr>up_name = name, up_command = expand_config_text os rt (py_str (dget data ''command'')),
       up_args = args, up_mode = mode, up_transport = transport,
       up_enabled = truthy (dget_or data ''enabled'' (PBool True)), up_working_dir = wd,
       up_state_dir = dget data ''state_dir'',
       up_tool_prefix = Some (py_str (dget_or data ''tool_prefix'' (PStr name))),
       up_env = env, up_env_files = env_files, up_session_env = session_env,
       up_request_meta = request_meta, up_forward_request_meta = forward,
       up_relay_elicitation = relay, up_purpose = py_str (dget_or data ''purpose'' (PStr '''')),
       up_tags = tags, up_profiles = profiles, up_mutating = mutating,
       up_serialize_calls = serialize, up_strict_initialization = strict,
       up_inject_cwd_project = inject, up_inject_cwd_project_exclude = exclude,
       up_startup_timeout_seconds = startup, up_restart = restart, up_health = health,
       up_tool_timeouts = timeouts, up_resources = resources, up_auth_repair = repair,
       up_auth_probe = probe, up_smoke = smoke\<rparr>)))))))))))))))))))))))))))))"

definition call_timeout_for_tool :: "upstream_config \<Rightarrow> string \<Rightarrow> int" where
  "call_timeout_for_tool u tool_name =
     (case map_of (up_tool_timeouts u) tool_name of
        None \<Rightarrow> call_timeout_seconds (up_health u) | Some t \<Rightarrow> t)"

text \<open>
  \<open>resolve_environment\<close>: the environment is a map, and \<open>read_secret\<close> gives the text of
  a secret file, or nothing when it does not exist. \<open>rstrip("\r\n")\<close> drops the newlines at the end.
\<close>

definition rstrip_newlines :: "string \<Rightarrow> string" where
  "rstrip_newlines s = rev (dropWhile (\<lambda>c. c = CHR 0x0A \<or> c = CHR 0x0D) (rev s))"

definition resolve_environment ::
    "upstream_config \<Rightarrow> (string \<Rightarrow> string option) \<Rightarrow> (path \<Rightarrow> string option) \<Rightarrow>
     (string \<times> string) list res" where
  "resolve_environment u environ read_secret =
     (let missing_env = filter (\<lambda>s. environ s = None) (map snd (up_env u));
          from_env = fold (\<lambda>(t, s) r. case environ s of None \<Rightarrow> r | Some v \<Rightarrow> AList.update t v r)
            (up_env u) [];
          secret = (\<lambda>q. case read_secret q of None \<Rightarrow> '''' | Some raw \<Rightarrow> rstrip_newlines raw);
          missing_files = map path_str (filter (\<lambda>q. secret q = []) (map snd (up_env_files u)));
          resolved = fold (\<lambda>(t, q) r. if secret q = [] then r else AList.update t (secret q) r)
            (up_env_files u) from_env
      in
      bindE (require (missing_env = []) (Exn ValueError (''missing environment variable for upstream '' @
        up_name u @ '': '' @ join '', '' missing_env))) (\<lambda>_.
      bindE (require (missing_files = []) (Exn ValueError (''missing secret file for upstream '' @
        up_name u @ '': '' @ join '', '' missing_files))) (\<lambda>_.
      Inr resolved)))"

definition resolve_session_environment ::
    "upstream_config \<Rightarrow> (string \<times> string) list \<Rightarrow> (string \<times> string) list res" where
  "resolve_session_environment u session_context =
     (let missing_sources =
            filter (\<lambda>s. map_of session_context s = None) (map snd (up_session_env u));
          resolved = fold (\<lambda>(t, s) r. case map_of session_context s of
              None \<Rightarrow> r | Some v \<Rightarrow> AList.update t v r) (up_session_env u) []
      in
      bindE (require (missing_sources = []) (Exn ValueError (''missing session context for upstream '' @
        up_name u @ '': '' @ join '', '' missing_sources))) (\<lambda>_.
      Inr resolved))"

definition resolve_request_meta ::
    "upstream_config \<Rightarrow> (string \<Rightarrow> string option) \<Rightarrow> (path \<Rightarrow> string option) \<Rightarrow>
     (string \<times> string) list res" where
  "resolve_request_meta u environ read_secret =
     (if up_request_meta u = [] then Inr []
      else bindE (resolve_environment u environ read_secret) (\<lambda>resolved_env.
        mapE (\<lambda>(meta_name, source_name). case map_of resolved_env source_name of
            None \<Rightarrow> Inl (Exn KeyError source_name) | Some v \<Rightarrow> Inr (meta_name, v))
          (up_request_meta u)))"

section \<open>Checks across upstreams and profiles\<close>

type_synonym upstreams = "(string \<times> upstream_config) list"
type_synonym profiles = "(string \<times> tool_exposure_profile) list"

definition upstream_disabled :: "upstream_config \<Rightarrow> bool" where
  "upstream_disabled u \<longleftrightarrow> \<not> up_enabled u \<or> up_mode u = ''disabled''"

text \<open>\<open>upstream.tool_prefix or upstream.name\<close>\<close>

definition upstream_prefix :: "upstream_config \<Rightarrow> string" where
  "upstream_prefix u = (case up_tool_prefix u of Some (c # cs) \<Rightarrow> c # cs | _ \<Rightarrow> up_name u)"

definition seen_prefixes_step ::
    "(string \<times> string) list \<Rightarrow> string \<times> upstream_config \<Rightarrow> (string \<times> string) list res" where
  "seen_prefixes_step seen nu =
     (case nu of (name, u) \<Rightarrow>
        if upstream_disabled u then Inr seen
        else foldE (\<lambda>seen profile.
          if (profile, upstream_prefix u) \<in> set seen
          then value_error (''duplicate tool prefix for profile '' @ profile @ '': '' @ upstream_prefix u)
          else Inr ((profile, upstream_prefix u) # seen)) seen (up_profiles u))"

definition validate_unique_profile_prefixes :: "upstreams \<Rightarrow> unit res" where
  "validate_unique_profile_prefixes upstreams =
     bindE (foldE seen_prefixes_step [] upstreams) (\<lambda>_. Inr ())"

definition validate_upstream_profile_references :: "upstreams \<Rightarrow> profiles \<Rightarrow> unit res" where
  "validate_upstream_profile_references upstreams profiles =
     (if profiles = [] then Inr ()
      else foldE (\<lambda>_ (name, u). foldE (\<lambda>_ profile_name.
        require (profile_name \<in> set (map fst profiles))
          (Exn ValueError (''upstreams.'' @ name @ ''.profiles references undefined profile: '' @
            profile_name))) () (up_profiles u)) () upstreams)"

definition validate_mutating_upstream_allowlists :: "upstreams \<Rightarrow> profiles \<Rightarrow> unit res" where
  "validate_mutating_upstream_allowlists upstreams profiles =
     (if profiles = [] then Inr ()
      else foldE (\<lambda>_ (name, u).
        if upstream_disabled u \<or> \<not> up_mutating u then Inr ()
        else foldE (\<lambda>_ profile_name.
          case map_of profiles profile_name of
            None \<Rightarrow> Inl (Exn KeyError profile_name)
          | Some p \<Rightarrow> require (allows_mutating_upstream p name)
              (Exn ValueError (''mutating upstream '' @ name @
                '' requires profile allowlist entry: '' @ profile_name))) () (up_profiles u)) () upstreams)"

record broker_config =
  bc_runtime :: runtime_config
  bc_broker :: broker_settings
  bc_upstreams :: upstreams
  bc_profiles :: profiles

definition broker_config_post_init :: "broker_config \<Rightarrow> broker_config res" where
  "broker_config_post_init cfg =
     bindE (validate_unique_profile_prefixes (bc_upstreams cfg)) (\<lambda>_.
     bindE (validate_upstream_profile_references (bc_upstreams cfg) (bc_profiles cfg)) (\<lambda>_.
     bindE (validate_mutating_upstream_allowlists (bc_upstreams cfg) (bc_profiles cfg)) (\<lambda>_.
     Inr cfg)))"

definition config_identity_status_payload :: "broker_config \<Rightarrow> pyval \<Rightarrow> pydict" where
  "config_identity_status_payload cfg active_profile =
     identity_status_payload (bs_identity (bc_broker cfg)) active_profile
       (sort (map fst (bc_profiles cfg)))"

end
