(* ===== verification/Config_Checks.thy ===== *)
theory Config_Checks
  imports Config_Model
begin

text \<open>
  What an accepted configuration promises. A parsed upstream satisfies the bounds and the lifecycle
  rules of \<^verbatim>\<open>config_modes.py\<close>, the secrets it forwards are sources it declares, and the
  checks across upstreams and profiles (\<^verbatim>\<open>config.py\<close>, \<open>BrokerConfig.__post_init__\<close>)
  accept exactly the consistent configurations.
\<close>

section \<open>Names\<close>

text \<open>
  The environment name pattern accepts a name followed by one newline, so a declared name need not
  be a name: the metadata pattern, which is matched in full, is not affected.
\<close>

lemma env_name_match_newline: "env_name_chars s \<Longrightarrow> env_name_match (s @ [CHR 0x0A])"
  by (simp add: env_name_match_def)

lemma env_name_match_iff:
  "env_name_match s \<longleftrightarrow> env_name_chars s \<or> (\<exists>t. s = t @ [CHR 0x0A] \<and> env_name_chars t)"
proof (cases s rule: rev_cases)
  case Nil
  then show ?thesis by (auto simp: env_name_match_def env_name_chars_def)
next
  case (snoc t c)
  then show ?thesis by (auto simp: env_name_match_def)
qed

section \<open>Dictionaries that are filled in a loop\<close>

lemma foldE_update_values:
  assumes "foldE f [] d = Inr r"
    and "\<And>s k v s'. f s (k, v) = Inr s' \<Longrightarrow> \<exists>w. s' = AList.update k w s \<and> P k w"
  shows "dict_wf r \<and> (\<forall>(k, w) \<in> set r. P k w)"
  using assms(1)
proof (rule foldE_invariant)
  show "dict_wf [] \<and> (\<forall>(k, w) \<in> set []. P k w)" by (simp add: dict_wf_def)
next
  fix s kv s'
  assume ih: "dict_wf s \<and> (\<forall>(k, w) \<in> set s. P k w)" and "f s kv = Inr s'"
  with assms(2) obtain k w where s': "s' = AList.update k w s" and "P k w"
    by (cases kv) blast
  have "set (AList.update k w s) \<subseteq> insert (k, w) (set s)"
    by (induction s) auto
  with ih s' \<open>P k w\<close> show "dict_wf s' \<and> (\<forall>(k, w) \<in> set s'. P k w)"
    using pydict.wf_assign [of s k w] by auto
qed

lemma parse_env_names_Inr:
  assumes "parse_env_names p v = Inr r"
  shows "dict_wf r \<and> (\<forall>(k, s) \<in> set r. env_name_match k \<and> env_name_match s)"
proof -
  from assms obtain d where d: "v = PDict d" by (cases v) (auto simp: parse_env_names_def)
  show ?thesis
    using assms unfolding parse_env_names_def d pyval.case
    by (rule foldE_update_values) (auto simp: bindE_eq_Inr split: pyval.splits if_splits)
qed

lemma parse_session_env_Inr:
  assumes "parse_session_env p v = Inr r"
  shows "dict_wf r \<and> (\<forall>(k, s) \<in> set r. env_name_match k \<and> s \<in> set SESSION_ENV_SOURCES)"
proof -
  from assms obtain d where d: "v = PDict d" by (cases v) (auto simp: parse_session_env_def)
  show ?thesis
    using assms unfolding parse_session_env_def d pyval.case
    by (rule foldE_update_values) (auto simp: bindE_eq_Inr split: pyval.splits if_splits)
qed

lemma parse_env_files_Inr:
  assumes "parse_env_files os eu rt p v = Inr r"
  shows "dict_wf r \<and> (\<forall>(k, q) \<in> set r. env_name_match k)"
proof -
  from assms obtain d where d: "v = PDict d" by (cases v) (auto simp: parse_env_files_def)
  show ?thesis
    using assms unfolding parse_env_files_def d pyval.case
    by (rule foldE_update_values) (auto simp: bindE_eq_Inr)
qed

lemma parse_request_meta_Inr:
  assumes "parse_request_meta p v names = Inr r"
  shows "dict_wf r \<and> (\<forall>(k, s) \<in> set r. meta_name_fullmatch k \<and> s \<in> set names)"
proof -
  from assms obtain d where d: "v = PDict d" by (cases v) (auto simp: parse_request_meta_def)
  show ?thesis
    using assms unfolding parse_request_meta_def d pyval.case
    by (rule foldE_update_values) (auto simp: bindE_eq_Inr split: pyval.splits if_splits)
qed

lemma parse_upstream_environment_Inr:
  assumes "parse_upstream_environment os eu rt name data = Inr (env, env_files)"
  shows "dict_wf env" "dict_wf env_files"
    "\<forall>(k, s) \<in> set env. env_name_match k \<and> env_name_match s"
    "set (map fst env) \<inter> set (map fst env_files) = {}"
  using assms
  by (auto simp: parse_upstream_environment_def bindE_eq_Inr Let_def filter_empty_conv
      dest!: parse_env_names_Inr parse_env_files_Inr)

lemma parse_forward_Inr:
  "parse_forward_request_meta name transport data = Inr xs \<Longrightarrow> xs \<noteq> [] \<Longrightarrow> transport = ''stdio''"
  by (auto simp: parse_forward_request_meta_def split: pyval.splits if_splits)

lemma parse_relay_Inr:
  "parse_relay_elicitation name mode transport v = Inr b \<Longrightarrow>
   b \<longrightarrow> transport = ''stdio'' \<and> mode \<in> {''per_session'', ''per_call''}"
  by (auto simp: parse_relay_elicitation_def split: pyval.splits if_splits)

section \<open>A parsed upstream\<close>

definition upstream_ok :: "upstream_config \<Rightarrow> bool" where
  "upstream_ok u \<longleftrightarrow>
     up_mode u \<in> set ALLOWED_UPSTREAM_MODES \<and> up_transport u \<in> set ALLOWED_UPSTREAM_TRANSPORTS \<and>
     (up_mode u = ''per_call'' \<longrightarrow> up_transport u = ''stdio'') \<and>
     (up_session_env u \<noteq> [] \<longrightarrow> up_mode u \<in> {''per_session'', ''per_call''}) \<and>
     (up_relay_elicitation u \<longrightarrow>
        up_transport u = ''stdio'' \<and> up_mode u \<in> {''per_session'', ''per_call''}) \<and>
     (up_forward_request_meta u \<noteq> [] \<longrightarrow> up_transport u = ''stdio'') \<and>
     set (map fst (up_env u)) \<inter> set (map fst (up_env_files u)) = {} \<and>
     (\<forall>(k, s) \<in> set (up_request_meta u). meta_name_fullmatch k \<and>
        s \<in> set (map fst (up_env u)) \<union> set (map fst (up_env_files u))) \<and>
     0 < up_startup_timeout_seconds u \<and> restart_policy_ok (up_restart u) \<and>
     health_policy_ok (up_health u) \<and> resource_policy_ok (up_resources u) \<and>
     (\<forall>t. 0 < call_timeout_for_tool u t)"

lemma startup_timeout_pos [parser_bounds]: "parse_startup_timeout p v = Inr i \<Longrightarrow> 0 < i"
  by (auto simp: parse_startup_timeout_def dest: parser_bounds split: if_splits)

lemma call_timeout_pos:
  assumes "parse_tool_timeouts p v = Inr (up_tool_timeouts u)" "health_policy_ok (up_health u)"
  shows "0 < call_timeout_for_tool u t"
  using parse_tool_timeouts_pos [OF assms(1)] assms(2)
  by (auto simp: call_timeout_for_tool_def health_policy_ok_def split: option.splits)

lemma upstream_from_mapping_steps:
  assumes "upstream_from_mapping os eu rt name data = Inr u"
  shows "up_name u = name"
    and "\<exists>p v. parse_upstream_environment os eu rt name data = Inr (up_env u, up_env_files u) \<and>
      parse_mode p v = Inr (up_mode u)"
    and "\<exists>p v. parse_transport p v = Inr (up_transport u)"
    and "validate_upstream_transport_mode name (up_mode u) (up_transport u) = Inr ()"
    and "validate_upstream_session_mode name (up_mode u) (up_session_env u) = Inr ()"
    and "parse_forward_request_meta name (up_transport u) data = Inr (up_forward_request_meta u)"
    and "\<exists>v. parse_relay_elicitation name (up_mode u) (up_transport u) v = Inr (up_relay_elicitation u)"
    and "\<exists>p v. parse_request_meta p v (map fst (up_env u) @ map fst (up_env_files u)) =
      Inr (up_request_meta u)"
    and "\<exists>p v. parse_startup_timeout p v = Inr (up_startup_timeout_seconds u)"
    and "\<exists>p v. restart_policy_from_mapping p v = Inr (up_restart u)"
    and "\<exists>p v. health_policy_from_mapping p v = Inr (up_health u)"
    and "\<exists>p v. resource_policy_from_mapping p v = Inr (up_resources u)"
    and "\<exists>p v. parse_tool_timeouts p v = Inr (up_tool_timeouts u)"
  using assms by (fastforce simp: upstream_from_mapping_def Let_def bindE_eq_Inr)+

text \<open>A mapping that is accepted as an upstream gives one whose mode and transport are allowed
  and fit together (per-call only over stdio, session variables only in an isolated mode, relayed
  elicitation only in an isolated stdio mode, forwarded metadata only over stdio), whose variables
  have one source each, whose request metadata only names variables the upstream declares, and
  whose timeouts and policies are within their bounds, for every tool.\<close>

theorem parsed_upstream_ok:
  assumes "upstream_from_mapping os eu rt name data = Inr u"
  shows "up_name u = name \<and> upstream_ok u"
proof -
  note st = upstream_from_mapping_steps [OF assms]
  have env: "parse_upstream_environment os eu rt name data = Inr (up_env u, up_env_files u)"
    using st(2) by blast
  have hp: "health_policy_ok (up_health u)" using st(11) by (auto dest: parser_bounds)
  then have "\<forall>t. 0 < call_timeout_for_tool u t"
    using st(13) by (auto intro: call_timeout_pos)
  moreover have "\<forall>(k, s) \<in> set (up_request_meta u). meta_name_fullmatch k \<and>
      s \<in> set (map fst (up_env u)) \<union> set (map fst (up_env_files u))"
    using st(8) by (fastforce dest: parse_request_meta_Inr)
  moreover have "up_mode u = ''per_call'' \<longrightarrow> up_transport u = ''stdio''"
    "up_session_env u \<noteq> [] \<longrightarrow> up_mode u \<in> {''per_session'', ''per_call''}"
    using st(4,5)
    by (auto simp: validate_upstream_transport_mode_def validate_upstream_session_mode_def
        split: if_splits)
  moreover have "up_mode u \<in> set ALLOWED_UPSTREAM_MODES" "up_transport u \<in> set ALLOWED_UPSTREAM_TRANSPORTS"
    "0 < up_startup_timeout_seconds u" "restart_policy_ok (up_restart u)"
    "resource_policy_ok (up_resources u)"
    using st by (blast dest: parser_bounds)+
  moreover have "up_relay_elicitation u \<longrightarrow>
      up_transport u = ''stdio'' \<and> up_mode u \<in> {''per_session'', ''per_call''}"
    using st(7) parse_relay_Inr by blast
  moreover have "up_forward_request_meta u \<noteq> [] \<longrightarrow> up_transport u = ''stdio''"
    using parse_forward_Inr [OF st(6)] by blast
  ultimately show ?thesis
    using st(1) hp parse_upstream_environment_Inr(4) [OF env] by (simp add: upstream_ok_def)
qed

text \<open>The witness: a stdio upstream with one variable from the host environment.\<close>

definition os_identity :: os_text where
  "os_identity = \<lparr>os_expandvars = (\<lambda>s. s), os_expanduser = (\<lambda>s. s)\<rparr>"

definition runtime_example :: runtime_config where
  "runtime_example = \<lparr>rt_root = path_of ''/r'', rt_socket_path = path_of ''/r/sockets/broker.sock'',
     rt_log_dir = path_of ''/r/logs'', rt_state_dir = path_of ''/r/state'',
     rt_secrets_dir = path_of ''/r/secrets''\<rparr>"

definition upstream_data_example :: pydict where
  "upstream_data_example = [(''command'', PStr ''srv''), (''mode'', PStr ''per_call''),
     (''env'', PDict [(''TOKEN'', PStr ''HOST_TOKEN'')]),
     (''request_meta'', PDict [(''auth/token'', PStr ''TOKEN'')]),
     (''tool_timeouts'', PDict [(''slow'', PInt 240)])]"

lemma upstream_example_parses:
  "is_result (upstream_from_mapping os_identity Inr runtime_example ''git'' upstream_data_example)"
  by code_simp

lemma parsed_upstream_ok_witness:
  "upstream_ok (result_of
     (upstream_from_mapping os_identity Inr runtime_example ''git'' upstream_data_example))"
  using parsed_upstream_ok [OF is_result_Inr [OF upstream_example_parses]] by simp

section \<open>Checks across upstreams and profiles\<close>

text \<open>The prefixes an upstream claims, one for each profile that exposes it.\<close>

definition claimed_prefixes :: "upstreams \<Rightarrow> (string \<times> string) list" where
  "claimed_prefixes upstreams = concat (map (\<lambda>(name, u).
     if upstream_disabled u then [] else map (\<lambda>p. (p, upstream_prefix u)) (up_profiles u)) upstreams)"

lemma seen_prefixes_profiles:
  "foldE (\<lambda>seen profile. if (profile, pre) \<in> set seen then value_error (msg profile)
      else Inr ((profile, pre) # seen)) seen ps = Inr seen' \<longleftrightarrow>
   seen' = rev (map (\<lambda>p. (p, pre)) ps) @ seen \<and> distinct ps \<and>
   (\<forall>p \<in> set ps. (p, pre) \<notin> set seen)"
  by (induction ps arbitrary: seen) auto

lemma seen_prefixes_step_Inr:
  "seen_prefixes_step seen (n, u) = Inr seen' \<longleftrightarrow>
   seen' = rev (claimed_prefixes [(n, u)]) @ seen \<and> distinct (claimed_prefixes [(n, u)]) \<and>
   set (claimed_prefixes [(n, u)]) \<inter> set seen = {}"
proof (cases "upstream_disabled u")
  case True
  then show ?thesis by (auto simp: seen_prefixes_step_def claimed_prefixes_def)
next
  case False
  have "inj_on (\<lambda>p. (p, upstream_prefix u)) (set (up_profiles u))" by (simp add: inj_on_def)
  with False show ?thesis
    unfolding seen_prefixes_step_def
    by (simp add: seen_prefixes_profiles [where msg = "\<lambda>p. ''duplicate tool prefix for profile '' @
          p @ '': '' @ upstream_prefix u", unfolded append_assoc] claimed_prefixes_def distinct_map)
      blast
qed

lemma claimed_prefixes_Cons:
  "claimed_prefixes (nu # ups) = claimed_prefixes [nu] @ claimed_prefixes ups"
  by (simp add: claimed_prefixes_def)

lemma seen_prefixes_Inr:
  "foldE seen_prefixes_step seen ups = Inr seen' \<longleftrightarrow>
   seen' = rev (claimed_prefixes ups) @ seen \<and> distinct (claimed_prefixes ups) \<and>
   set (claimed_prefixes ups) \<inter> set seen = {}"
proof (induction ups arbitrary: seen)
  case Nil
  then show ?case by (auto simp: claimed_prefixes_def)
next
  case (Cons nu ups)
  obtain n u where nu: "nu = (n, u)" by (cases nu)
  have c: "claimed_prefixes ((n, u) # ups) = claimed_prefixes [(n, u)] @ claimed_prefixes ups"
    by (rule claimed_prefixes_Cons)
  show ?case
    by (auto simp: nu c bindE_eq_Inr seen_prefixes_step_Inr Cons.IH)
qed

lemma unique_prefixes_iff:
  "validate_unique_profile_prefixes ups = Inr () \<longleftrightarrow> distinct (claimed_prefixes ups)"
  by (simp add: validate_unique_profile_prefixes_def bindE_eq_Inr seen_prefixes_Inr)

lemma profile_references_iff:
  "validate_upstream_profile_references ups ps = Inr () \<longleftrightarrow>
   ps = [] \<or> (\<forall>(name, u) \<in> set ups. set (up_profiles u) \<subseteq> set (map fst ps))"
  unfolding validate_upstream_profile_references_def
  by (auto simp: foldE_unit_iff case_prod_unfold split: if_splits)

lemma mutating_allowlists_iff:
  "validate_mutating_upstream_allowlists ups ps = Inr () \<longleftrightarrow>
   ps = [] \<or> (\<forall>(name, u) \<in> set ups. upstream_disabled u \<or> \<not> up_mutating u \<or>
     (\<forall>pn \<in> set (up_profiles u). \<exists>p. map_of ps pn = Some p \<and> allows_mutating_upstream p name))"
proof (cases "ps = []")
  case True
  then show ?thesis by (simp add: validate_mutating_upstream_allowlists_def)
next
  case False
  have "(case map_of ps pn of None \<Rightarrow> Inl (Exn KeyError pn)
      | Some p \<Rightarrow> require (allows_mutating_upstream p name) e) = Inr () \<longleftrightarrow>
    (\<exists>p. map_of ps pn = Some p \<and> allows_mutating_upstream p name)" for pn name e
    by (cases "map_of ps pn") auto
  with False show ?thesis
    by (fastforce simp: validate_mutating_upstream_allowlists_def foldE_unit_iff case_prod_unfold
        split: if_splits)
qed

text \<open>
  The consistent configurations: no active upstream lists a profile twice, and in one profile no two active
  upstreams share a tool prefix; and when the configuration defines profiles at all, the exposed profiles
  exist, and every profile that exposes an active mutating upstream allows it.
\<close>

definition config_consistent :: "upstreams \<Rightarrow> profiles \<Rightarrow> bool" where
  "config_consistent ups ps \<longleftrightarrow>
     (\<forall>(name, u) \<in> set ups. upstream_disabled u \<or> distinct (up_profiles u)) \<and>
     sorted_wrt (\<lambda>(n, u) (m, w). upstream_disabled u \<or> upstream_disabled w \<or> upstream_prefix u \<noteq> upstream_prefix w \<or>
        set (up_profiles u) \<inter> set (up_profiles w) = {}) ups \<and>
     (ps \<noteq> [] \<longrightarrow>
       (\<forall>(name, u) \<in> set ups. \<forall>pn \<in> set (up_profiles u). \<exists>p. map_of ps pn = Some p \<and>
          (up_mutating u \<and> \<not> upstream_disabled u \<longrightarrow> allows_mutating_upstream p name)))"

text \<open>The claimed prefixes are distinct when those of every upstream are, and no two upstreams have one in common.\<close>

lemma claimed_prefixes_one:
  "distinct (claimed_prefixes [(n, u)]) \<longleftrightarrow> upstream_disabled u \<or> distinct (up_profiles u)"
  "(pr, pre) \<in> set (claimed_prefixes [(n, u)]) \<longleftrightarrow> \<not> upstream_disabled u \<and> pre = upstream_prefix u \<and> pr \<in> set (up_profiles u)"
  by (auto simp: claimed_prefixes_def distinct_map inj_on_def)

lemma claimed_prefixes_mem:
  "(pr, pre) \<in> set (claimed_prefixes ups) \<longleftrightarrow>
     (\<exists>(m, w) \<in> set ups. \<not> upstream_disabled w \<and> pre = upstream_prefix w \<and> pr \<in> set (up_profiles w))"
  by (force simp: claimed_prefixes_def split: if_splits)

lemma claimed_prefixes_distinct:
  "distinct (claimed_prefixes ups) \<longleftrightarrow>
     (\<forall>(name, u) \<in> set ups. upstream_disabled u \<or> distinct (up_profiles u)) \<and>
     sorted_wrt (\<lambda>(n, u) (m, w). upstream_disabled u \<or> upstream_disabled w \<or> upstream_prefix u \<noteq> upstream_prefix w \<or>
        set (up_profiles u) \<inter> set (up_profiles w) = {}) ups"
proof (induction ups)
  case Nil
  show ?case by (simp add: claimed_prefixes_def)
next
  case (Cons nu ups)
  obtain n u where nu: "nu = (n, u)" by (cases nu)
  have "set (claimed_prefixes [(n, u)]) \<inter> set (claimed_prefixes ups) = {} \<longleftrightarrow>
      (\<forall>(m, w) \<in> set ups. upstream_disabled u \<or> upstream_disabled w \<or> upstream_prefix u \<noteq> upstream_prefix w \<or>
        set (up_profiles u) \<inter> set (up_profiles w) = {})"
    by (auto simp: disjoint_iff claimed_prefixes_one claimed_prefixes_mem)
  then show ?case
    unfolding nu claimed_prefixes_Cons [of "(n, u)" ups] distinct_append claimed_prefixes_one Cons.IH
    by (auto simp: case_prod_unfold)
qed

lemma map_of_eq_Some_dom: "k \<in> set (map fst d) \<longleftrightarrow> (\<exists>v. map_of d k = Some v)"
  by (metis map_of_eq_None_iff not_None_eq list.set_map)

lemma foldE_InlD:
  "foldE f s xs = Inl e \<Longrightarrow> \<exists>x \<in> set xs. \<exists>s. f s x = Inl e"
  by (induction xs arbitrary: s) (auto simp: bindE_eq_Inl)

lemma references_and_allowlists_iff:
  "validate_upstream_profile_references ups ps = Inr () \<and>
   validate_mutating_upstream_allowlists ups ps = Inr () \<longleftrightarrow>
   (ps \<noteq> [] \<longrightarrow>
     (\<forall>(name, u) \<in> set ups. \<forall>pn \<in> set (up_profiles u). \<exists>p. map_of ps pn = Some p \<and>
        (up_mutating u \<and> \<not> upstream_disabled u \<longrightarrow> allows_mutating_upstream p name)))"
proof -
  have "set (up_profiles u) \<subseteq> set (map fst ps) \<and> (upstream_disabled u \<or> \<not> up_mutating u \<or>
      (\<forall>pn \<in> set (up_profiles u). \<exists>p. map_of ps pn = Some p \<and> allows_mutating_upstream p name)) \<longleftrightarrow>
    (\<forall>pn \<in> set (up_profiles u). \<exists>p. map_of ps pn = Some p \<and>
        (up_mutating u \<and> \<not> upstream_disabled u \<longrightarrow> allows_mutating_upstream p name))" for name u
    unfolding subset_iff map_of_eq_Some_dom by blast
  then show ?thesis
    unfolding profile_references_iff mutating_allowlists_iff case_prod_unfold by blast
qed

lemma post_init_value_error:
  assumes "broker_config_post_init cfg = Inl e"
  shows "is_value_error e"
proof -
  let ?ups = "bc_upstreams cfg" and ?ps = "bc_profiles cfg"
  consider (prefix) "validate_unique_profile_prefixes ?ups = Inl e"
    | (references) "validate_upstream_profile_references ?ups ?ps = Inl e"
    | (allowlist) "validate_upstream_profile_references ?ups ?ps = Inr ()"
        "validate_mutating_upstream_allowlists ?ups ?ps = Inl e"
    using assms by (auto simp: broker_config_post_init_def bindE_eq_Inl)
  then show ?thesis
  proof cases
    case prefix
    then obtain s n u where "seen_prefixes_step s (n, u) = Inl e"
      by (auto simp: validate_unique_profile_prefixes_def bindE_eq_Inl dest!: foldE_InlD)
    then show ?thesis
      by (auto simp: seen_prefixes_step_def split: if_splits dest!: foldE_InlD)
  next
    case references
    then show ?thesis
      by (auto simp: validate_upstream_profile_references_def split: if_splits dest!: foldE_InlD)
  next
    case allowlist
    from allowlist(2) obtain name u pn where m: "(name, u) \<in> set ?ups" "pn \<in> set (up_profiles u)"
      and e: "(case map_of ?ps pn of None \<Rightarrow> Inl (Exn KeyError pn)
        | Some p \<Rightarrow> require (allows_mutating_upstream p name)
            (Exn ValueError (''mutating upstream '' @ name @
              '' requires profile allowlist entry: '' @ pn))) = Inl e" and "?ps \<noteq> []"
      by (auto simp: validate_mutating_upstream_allowlists_def split: if_splits dest!: foldE_InlD)
    with allowlist(1) have "pn \<in> set (map fst ?ps)"
      unfolding profile_references_iff by blast
    then obtain p where "map_of ?ps pn = Some p" unfolding map_of_eq_Some_dom by blast
    with e show ?thesis by auto
  qed
qed

text \<open>C38. A configuration is accepted exactly when it is consistent. Always: no active upstream lists a profile
  twice, and no two active upstreams of one profile claim the same tool prefix. When the configuration
  defines at least one profile: every profile that an upstream names is defined, and a mutating upstream
  that is active is on the allowlist of every profile that exposes it; without any profile neither is
  asked. Accepting leaves the configuration unchanged, and no other exception than a ValueError is raised.\<close>

theorem config_accepted_iff_consistent:
  "(broker_config_post_init cfg = Inr cfg' \<longleftrightarrow>
     cfg' = cfg \<and> config_consistent (bc_upstreams cfg) (bc_profiles cfg)) \<and>
   (broker_config_post_init cfg = Inl e \<longrightarrow> is_value_error e)"
proof -
  let ?ups = "bc_upstreams cfg" and ?ps = "bc_profiles cfg"
  have "broker_config_post_init cfg = Inr cfg' \<longleftrightarrow> cfg' = cfg \<and>
      distinct (claimed_prefixes ?ups) \<and> validate_upstream_profile_references ?ups ?ps = Inr () \<and>
      validate_mutating_upstream_allowlists ?ups ?ps = Inr ()"
    by (auto simp: broker_config_post_init_def bindE_eq_Inr unique_prefixes_iff)
  also have "\<dots> \<longleftrightarrow> cfg' = cfg \<and> config_consistent ?ups ?ps"
    unfolding config_consistent_def by (simp only: references_and_allowlists_iff claimed_prefixes_distinct conj_assoc)
  finally show ?thesis
    using post_init_value_error by blast
qed

text \<open>
  The witness: one mutating upstream on the allowlist of its profile is accepted, and a second
  upstream with the same prefix is not.
\<close>

definition config_example :: "(string \<times> pydict) list \<Rightarrow> broker_config" where
  "config_example ups = \<lparr>bc_runtime = runtime_example,
     bc_broker = result_of (broker_settings_from_mapping os_identity Inr runtime_example []),
     bc_upstreams = map (\<lambda>(n, d). (n, result_of
       (upstream_from_mapping os_identity Inr runtime_example n d))) ups,
     bc_profiles = [(''dev'', result_of (profile_from_mapping os_identity ''dev''
       [(''max_tools'', PInt 5), (''allow_mutating_upstreams'', PList [PStr ''git''])]))]\<rparr>"

definition git_data :: pydict where
  "git_data = [(''command'', PStr ''git-mcp''), (''profiles'', PList [PStr ''dev'']),
     (''mutating'', PBool True)]"

lemma config_accepted_iff_consistent_witness:
  "config_consistent (bc_upstreams (config_example [(''git'', git_data)]))
     (bc_profiles (config_example [(''git'', git_data)])) \<and>
   (\<exists>e. broker_config_post_init (config_example
      [(''git'', git_data), (''hub'', (''tool_prefix'', PStr ''git'') # git_data)]) = Inl e \<and>
      is_value_error e)"
proof -
  have "is_result (broker_config_post_init (config_example [(''git'', git_data)]))"
    by code_simp
  then have "config_consistent (bc_upstreams (config_example [(''git'', git_data)]))
     (bc_profiles (config_example [(''git'', git_data)]))"
    using config_accepted_iff_consistent is_result_Inr by blast
  moreover have "\<not> is_result (broker_config_post_init (config_example
      [(''git'', git_data), (''hub'', (''tool_prefix'', PStr ''git'') # git_data)]))"
    by code_simp
  then obtain e where "broker_config_post_init (config_example
      [(''git'', git_data), (''hub'', (''tool_prefix'', PStr ''git'') # git_data)]) = Inl e"
    using not_is_result by blast
  ultimately show ?thesis
    using config_accepted_iff_consistent by blast
qed

end
