(* ===== verification/Tool_Definitions.thy ===== *)
theory Tool_Definitions
  imports PyValue
begin

text \<open>
  The tools the broker offers in place of a long upstream catalog (\<^verbatim>\<open>tool_namespace.py\<close>,
  \<open>_COMPACT_BROKER_TOOL_DEFINITIONS\<close>): the literal data, descriptions included, because clients
  see it.
\<close>

definition CALL_TOOL_PROJECTION_SCHEMA :: pyval where
  "CALL_TOOL_PROJECTION_SCHEMA =
    PDict [(''type'', PStr ''object''),
     (''description'', PStr ''Optional server-side projection applied to the upstream response before it reaches the client, so a verbose result is trimmed to only the fields you need and large arrays are capped. This cuts context tokens and latency. Omit it to receive the full, unmodified upstream response.''),
     (''properties'', PDict [(''paths'', PDict [(''type'', PStr ''array''),
           (''items'', PDict [(''type'', PStr ''string'')]),
           (''description'', PStr ''Dotted field paths to keep, such as data.items.id. A path that reaches a list is applied to every element. Omit to keep all fields and only cap arrays with max_array_items.'')]),
        (''max_array_items'', PDict [(''type'', PStr ''integer''),
           (''minimum'', PInt 0),
           (''description'', PStr ''Truncate every array in the projected response to at most this many items, so a long list returns only its first entries.'')])]),
     (''additionalProperties'', PBool False)]"

definition COMPACT_BROKER_TOOL_DEFINITIONS :: "(string \<times> pyval) list" where
  "COMPACT_BROKER_TOOL_DEFINITIONS = [
    (''broker.search_tools'',
     PDict [(''description'', PStr ''Search the profile-visible upstream MCP tool catalog without advertising every upstream tool to the client. Use this first when the task mentions a capability, service, keyword, or upstream prefix and you need candidate broker-qualified tool names before describing or calling one of them.''),
      (''inputSchema'', PDict [(''type'', PStr ''object''),
         (''description'', PStr ''Search request for the broker catalog. The broker inspects only upstreams exposed to the active profile, applies mutating-upstream policy, and returns matching tool metadata plus skipped upstreams when discovery fails.''),
         (''properties'', PDict [(''query'', PDict [(''type'', PStr ''string''),
               (''description'', PStr ''Capability, upstream name, tool name fragment, or task keyword to match against broker-qualified tool names, upstream names, descriptions, and schemas.''),
               (''minLength'', PInt 1),
               (''examples'', PList [PStr ''github issue'', PStr ''file read'', PStr ''browser screenshot''])]),
            (''limit'', PDict [(''type'', PStr ''integer''),
               (''description'', PStr ''Maximum number of matching tools to return. Keep this small for exploration, then refine the query or call broker_describe_tool for exact schema details.''),
               (''minimum'', PInt 1),
               (''maximum'', PInt 50),
               (''default'', PInt 20)])]),
         (''required'', PList [PStr ''query'']),
         (''additionalProperties'', PBool False)])]),
    (''broker.describe_tool'',
     PDict [(''description'', PStr ''Describe one profile-visible upstream MCP tool by broker-qualified name. Use this after broker_search_tools and before broker_call_tool so the client can inspect the exact description, input schema, upstream owner, transport, and mutating metadata instead of guessing arguments.''),
      (''inputSchema'', PDict [(''type'', PStr ''object''),
         (''description'', PStr ''Describe request for one catalog entry. The name must be the full broker-qualified tool name returned by broker_search_tools or another catalog response, including the upstream prefix and namespace separator.''),
         (''properties'', PDict [(''name'', PDict [(''type'', PStr ''string''),
               (''description'', PStr ''Full broker-qualified tool name to inspect, such as an upstream prefix joined to the upstream tool name by the configured namespace separator.''),
               (''minLength'', PInt 1),
               (''examples'', PList [PStr ''github.get_me'', PStr ''filesystem.read_file''])])]),
         (''required'', PList [PStr ''name'']),
         (''additionalProperties'', PBool False)])]),
    (''broker.call_tool'',
     PDict [(''description'', PStr (''Call one profile-visible upstream MCP tool through the broker using its broker-qualified name and exact argument object. The broker'' @ [CHR 0x27] @ ''s mutating-tool policy remains gated by the active profile'' @ [CHR 0x27] @ ''s allowlist, so call broker_describe_tool first and pass only arguments accepted by the described upstream schema.'')),
      (''inputSchema'', PDict [(''type'', PStr ''object''),
         (''description'', PStr ''Invocation request for a broker-managed upstream tool. The broker resolves the namespaced name, enforces profile exposure and mutating-tool policy, serializes calls when configured, and returns the upstream tool result.''),
         (''properties'', PDict [(''name'', PDict [(''type'', PStr ''string''),
               (''description'', PStr ''Full broker-qualified tool name to invoke. Use a name returned by broker_search_tools or broker_describe_tool, not an unqualified upstream name.''),
               (''minLength'', PInt 1),
               (''examples'', PList [PStr ''github.get_file_contents'', PStr ''filesystem.read_file''])]),
            (''arguments'', PDict [(''type'', PStr ''object''),
               (''description'', PStr ''Exact JSON object accepted by the described upstream tool schema. Use an empty object only when broker_describe_tool shows that the upstream tool accepts no parameters.''),
               (''default'', PDict []),
               (''additionalProperties'', PBool True)]),
            (''projection'', CALL_TOOL_PROJECTION_SCHEMA)]),
         (''required'', PList [PStr ''name'', PStr ''arguments'']),
         (''additionalProperties'', PBool False)])]),
    (''broker.status'',
     PDict [(''description'', PStr ''Report broker and upstream status for the active profile without starting hidden or denied upstreams. Use this for health checks, support tickets, and client validation because it returns the profile name, broker socket path, aggregate status, upstream runtime state, auth state, transport, process id, restarts, and mutating exposure.''),
      (''inputSchema'', PDict [(''type'', PStr ''object''),
         (''description'', PStr ''Status request for the active broker profile. No user arguments are accepted; clients may pass transport-control fields that the broker ignores, but status filters them before validating the request.''),
         (''properties'', PDict []),
         (''additionalProperties'', PBool False)])]),
    (''broker.close_session'',
     PDict [(''description'', PStr (''Release the broker-owned per-session upstream processes for the current client session. Use this after shutting down a client session when its session-scoped MCP subprocesses must exit promptly. This never stops shared upstreams or another client'' @ [CHR 0x27] @ ''s session.'')),
      (''inputSchema'', PDict [(''type'', PStr ''object''),
         (''description'', PStr ''Close request for the calling broker session. The broker takes the session identity from client transport metadata; user arguments are not accepted.''),
         (''properties'', PDict []),
         (''additionalProperties'', PBool False)])])]"

lemma compact_tool_names:
  "map fst COMPACT_BROKER_TOOL_DEFINITIONS =
     [''broker.search_tools'', ''broker.describe_tool'', ''broker.call_tool'', ''broker.status'',
      ''broker.close_session'']"
  by (simp add: COMPACT_BROKER_TOOL_DEFINITIONS_def)

lemma compact_tool_fields:
  "list_all (\<lambda>(n, d). is_dict d \<and> is_str (dget (case d of PDict e \<Rightarrow> e | _ \<Rightarrow> []) ''description'') \<and>
     is_dict (dget (case d of PDict e \<Rightarrow> e | _ \<Rightarrow> []) ''inputSchema'')) COMPACT_BROKER_TOOL_DEFINITIONS"
  by code_simp

end
