(* ===== verification/Tool_Namespace.thy ===== *)
theory Tool_Namespace
  imports Tool_Definitions Config_Checks
begin

text \<open>
  The tool namespace of the configured upstreams (\<^verbatim>\<open>tool_namespace.py\<close>): the index from
  tool prefixes to upstreams, the names that are advertised, their budget, and the way back from an
  advertised name to an upstream and its tool.
\<close>

section \<open>Qualified names\<close>

text \<open>
  The interface of a name separator: joining a prefix and a tool name, and splitting at the first
  separator. It holds for the prefixes in which the separator does not begin before their end.
\<close>

locale namespacing =
  fixes qualify :: "string \<Rightarrow> string \<Rightarrow> string" and split_name :: "string \<Rightarrow> (string \<times> string) option"
    and good_prefix :: "string \<Rightarrow> bool"
  assumes split_qualify: "good_prefix p \<Longrightarrow> split_name (qualify p t) = Some (p, t)"
    and split_sound: "split_name n = Some (p, t) \<Longrightarrow> n = qualify p t"
begin

lemma qualify_inject:
  "good_prefix p \<Longrightarrow> good_prefix q \<Longrightarrow> qualify p t = qualify q u \<longleftrightarrow> p = q \<and> t = u"
  by (metis option.inject prod.inject split_qualify)

lemma split_unique: "good_prefix p \<Longrightarrow> split_name n = Some (p, t) \<longleftrightarrow> n = qualify p t"
  using split_qualify split_sound by blast

end

definition qualify :: "string \<Rightarrow> string \<Rightarrow> string \<Rightarrow> string" where
  "qualify sep p t = p @ sep @ t"

definition good_prefix :: "string \<Rightarrow> string \<Rightarrow> bool" where
  "good_prefix sep p \<longleftrightarrow> sep \<noteq> [] \<and> \<not> contains sep (p @ butlast sep)"

lemma split_once_good_prefix:
  "good_prefix sep p \<Longrightarrow> split_once sep (p @ sep @ t) = Some (p, t)"
proof (induction p)
  case Nil
  then obtain c cs where "sep = c # cs" by (cases sep) (auto simp: good_prefix_def)
  then show ?case by simp
next
  case (Cons c p)
  then have ne: "sep \<noteq> []" and nc: "\<not> sublist sep (c # p @ butlast sep)"
    by (auto simp: good_prefix_def contains_iff)
  have "\<not> prefix sep (c # p @ sep @ t)"
  proof
    assume "prefix sep (c # p @ sep @ t)"
    moreover have "prefix (c # p @ butlast sep) (c # p @ sep @ t)"
      using ne by (metis append_Cons append_assoc append_butlast_last_id prefixI)
    moreover have "length sep \<le> length (c # p @ butlast sep)" by simp
    ultimately have "prefix sep (c # p @ butlast sep)" by (rule prefix_length_prefix)
    with nc show False by (simp add: prefix_imp_sublist)
  qed
  moreover have "good_prefix sep p"
    using ne nc by (auto simp: good_prefix_def contains_iff sublist_Cons_right)
  ultimately show ?case using Cons.IH by simp
qed

interpretation ns: namespacing "qualify sep" "split_once sep" "good_prefix sep" for sep
  by unfold_locales (simp_all add: qualify_def split_once_good_prefix split_once_SomeD)

text \<open>With a single character as the separator, a prefix is good when the character is not in it.\<close>

lemma good_prefix_char: "good_prefix [c] p \<longleftrightarrow> c \<notin> set p"
proof -
  have "sublist [c] p \<longleftrightarrow> c \<in> set p"
    by (auto simp: sublist_def in_set_conv_decomp)
  then show ?thesis by (simp add: good_prefix_def contains_iff)
qed

section \<open>The router\<close>

definition RESULT_SIZE_META_NAME :: string where
  "RESULT_SIZE_META_NAME = ''anthropic/maxResultSizeChars''"

definition compact_broker_tool_name :: "string \<Rightarrow> string \<Rightarrow> string" where
  "compact_broker_tool_name canonical_name style =
     (if style = ''snake'' then replace_char CHR ''.'' CHR ''_'' canonical_name else canonical_name)"

definition broker_tool :: "string \<Rightarrow> pyval \<Rightarrow> pyval \<Rightarrow> pydict" where
  "broker_tool name descr input_schema =
     [(''name'', PStr name), (''description'', descr), (''inputSchema'', input_schema)]"

definition compact_broker_tool_definitions :: "string option \<Rightarrow> int option \<Rightarrow> pydict list res" where
  "compact_broker_tool_definitions name_style result_size_chars =
     (let style = (case name_style of None \<Rightarrow> ''dotted'' | Some s \<Rightarrow> s) in
      bindE (require (style \<in> set BROKER_TOOL_NAME_STYLES)
        (Exn ValueError (''broker_tool_name_style must be one of: '' @
           join '', '' (sort BROKER_TOOL_NAME_STYLES)))) (\<lambda>_.
      Inr (map (\<lambda>(canonical_name, d).
        let def = (case d of PDict e \<Rightarrow> e | _ \<Rightarrow> []);
            tool = broker_tool (compact_broker_tool_name canonical_name style)
              (dget def ''description'') (dget def ''inputSchema'')
        in case result_size_chars of
             Some n \<Rightarrow> if canonical_name = ''broker.call_tool''
               then AList.update ''_meta'' (PDict [(RESULT_SIZE_META_NAME, PInt n)]) tool else tool
           | None \<Rightarrow> tool) COMPACT_BROKER_TOOL_DEFINITIONS)))"

record tool_route =
  tr_upstream_name :: string
  tr_upstream_tool_name :: string

record router =
  nr_separator :: string
  nr_profile :: "tool_exposure_profile option"
  nr_upstreams :: upstreams
  nr_index :: "(string \<times> string) list"

definition exposed_to :: "tool_exposure_profile option \<Rightarrow> upstream_config \<Rightarrow> bool" where
  "exposed_to profile u = (case profile of None \<Rightarrow> True | Some p \<Rightarrow> pf_name p \<in> set (up_profiles u))"

definition build_prefix_index ::
    "upstreams \<Rightarrow> tool_exposure_profile option \<Rightarrow> (string \<times> string) list res" where
  "build_prefix_index upstreams profile =
     foldE (\<lambda>index (upstream_name, u).
       if upstream_disabled u \<or> \<not> exposed_to profile u then Inr index
       else if upstream_prefix u \<in> set (map fst index)
       then value_error (''duplicate tool prefix: '' @ upstream_prefix u)
       else Inr (AList.update (upstream_prefix u) upstream_name index)) [] upstreams"

definition router_init ::
    "broker_settings \<Rightarrow> upstreams \<Rightarrow> tool_exposure_profile option \<Rightarrow> router res" where
  "router_init broker upstreams profile =
     bindE (require (bs_tool_namespace_separator broker \<noteq> [])
       (Exn ValueError ''broker.tool_namespace_separator cannot be empty'')) (\<lambda>_.
     bindE (build_prefix_index upstreams profile) (\<lambda>index.
     Inr \<lparr>nr_separator = bs_tool_namespace_separator broker, nr_profile = profile,
          nr_upstreams = upstreams, nr_index = index\<rparr>))"

definition upstream_allowed :: "router \<Rightarrow> string \<Rightarrow> bool" where
  "upstream_allowed r upstream_name =
     (case map_of (nr_upstreams r) upstream_name of
        None \<Rightarrow> False
      | Some u \<Rightarrow> \<not> upstream_disabled u \<and> exposed_to (nr_profile r) u)"

definition enabled_upstream :: "router \<Rightarrow> string \<Rightarrow> upstream_config res" where
  "enabled_upstream r upstream_name =
     (case map_of (nr_upstreams r) upstream_name of
        None \<Rightarrow> value_error (''unknown upstream: '' @ upstream_name)
      | Some u \<Rightarrow>
          if upstream_disabled u then value_error (''upstream disabled: '' @ upstream_name)
          else if \<not> upstream_allowed r upstream_name
          then value_error (''upstream not exposed to profile: '' @ upstream_name)
          else Inr u)"

definition enforce_mutating_allowlist :: "router \<Rightarrow> upstream_config \<Rightarrow> unit res" where
  "enforce_mutating_allowlist r u =
     (case nr_profile r of
        None \<Rightarrow> Inr ()
      | Some p \<Rightarrow> require (\<not> up_mutating u \<or> allows_mutating_upstream p (up_name u))
          (Exn ValueError (''mutating upstream not allowed for profile: '' @ up_name u)))"

definition enforce_profile_budget :: "router \<Rightarrow> nat \<Rightarrow> unit res" where
  "enforce_profile_budget r tool_count =
     (case nr_profile r of
        None \<Rightarrow> Inr ()
      | Some p \<Rightarrow> require (int tool_count \<le> pf_max_tools p)
          (Exn ValueError (''profile '' @ pf_name p @ '' exceeds tool budget: '' @
             str_nat tool_count @ '' > '' @ str_int (pf_max_tools p))))"

text \<open>\<open>str(tool.get("name", ""))\<close>\<close>

definition tool_name_of :: "pydict \<Rightarrow> string" where
  "tool_name_of tool = py_str (dget_or tool ''name'' (PStr ''''))"

definition advertise_tools :: "router \<Rightarrow> string \<Rightarrow> pydict list \<Rightarrow> pydict list res" where
  "advertise_tools r upstream_name upstream_tools =
     bindE (enabled_upstream r upstream_name) (\<lambda>u.
     bindE (enforce_mutating_allowlist r u) (\<lambda>_.
     mapE (\<lambda>tool.
       if tool_name_of tool = [] then value_error (''upstream tool missing name: '' @ upstream_name)
       else Inr (AList.update ''name''
         (PStr (qualify (nr_separator r) (upstream_prefix u) (tool_name_of tool))) tool))
       upstream_tools))"

text \<open>The name under which a tool is advertised: \<open>str(tool["name"])\<close>.\<close>

definition advertised_name :: "pydict \<Rightarrow> string" where
  "advertised_name tool = py_str (dget tool ''name'')"

definition add_unique_tools :: "pydict list \<Rightarrow> pydict list \<Rightarrow> pydict list res" where
  "add_unique_tools advertised tools = foldE (\<lambda>acc tool.
     if advertised_name tool \<in> set (map advertised_name acc)
     then value_error (''duplicate advertised tool: '' @ advertised_name tool)
     else Inr (acc @ [tool])) advertised tools"

definition advertise_all_tools :: "router \<Rightarrow> (string \<times> pydict list) list \<Rightarrow> pydict list res" where
  "advertise_all_tools r upstream_tools =
     bindE (foldE (\<lambda>advertised (upstream_name, tools).
       if upstream_allowed r upstream_name
       then bindE (advertise_tools r upstream_name tools) (add_unique_tools advertised)
       else Inr advertised) [] upstream_tools) (\<lambda>advertised.
     bindE (enforce_profile_budget r (length advertised)) (\<lambda>_. Inr advertised))"

definition compact_broker_tools :: "router \<Rightarrow> pydict list res" where
  "compact_broker_tools r =
     (case nr_profile r of
        None \<Rightarrow> Inr []
      | Some p \<Rightarrow> if \<not> pf_compact_tools_enabled p then Inr []
          else compact_broker_tool_definitions (Some (pf_broker_tool_name_style p))
            (pf_result_size_chars p))"

definition resolve_tool_name :: "router \<Rightarrow> string \<Rightarrow> tool_route res" where
  "resolve_tool_name r name =
     (case split_once (nr_separator r) name of
        None \<Rightarrow> value_error (''missing namespace separator: '' @ name)
      | Some (pre, tool) \<Rightarrow>
          if tool = [] then value_error (''missing upstream tool name: '' @ name)
          else (case map_of (nr_index r) pre of
            None \<Rightarrow> value_error (''unknown tool prefix: '' @ pre)
          | Some upstream_name \<Rightarrow>
              Inr \<lparr>tr_upstream_name = upstream_name, tr_upstream_tool_name = tool\<rparr>))"

section \<open>The prefix index\<close>

lemma update_new: "k \<notin> set (map fst d) \<Longrightarrow> AList.update k v d = d @ [(k, v)]"
  by (induction d) auto

definition active_upstreams :: "upstreams \<Rightarrow> tool_exposure_profile option \<Rightarrow> upstreams" where
  "active_upstreams upstreams profile =
     filter (\<lambda>(n, u). \<not> upstream_disabled u \<and> exposed_to profile u) upstreams"

definition prefix_entries :: "upstreams \<Rightarrow> (string \<times> string) list" where
  "prefix_entries upstreams = map (\<lambda>(n, u). (upstream_prefix u, n)) upstreams"

lemma prefix_index_from:
  "foldE (\<lambda>index (upstream_name, u).
       if upstream_disabled u \<or> \<not> exposed_to profile u then Inr index
       else if upstream_prefix u \<in> set (map fst index)
       then value_error (''duplicate tool prefix: '' @ upstream_prefix u)
       else Inr (AList.update (upstream_prefix u) upstream_name index)) idx ups = Inr idx' \<longleftrightarrow>
   idx' = idx @ prefix_entries (active_upstreams ups profile) \<and>
   distinct (map fst (prefix_entries (active_upstreams ups profile))) \<and>
   set (map fst idx) \<inter> set (map fst (prefix_entries (active_upstreams ups profile))) = {}"
proof (induction ups arbitrary: idx)
  case Nil
  then show ?case by (auto simp: active_upstreams_def prefix_entries_def)
next
  case (Cons nu ups)
  obtain n u where nu: "nu = (n, u)" by (cases nu)
  let ?E = "prefix_entries (active_upstreams ups profile)"
  show ?case
  proof (cases "upstream_disabled u \<or> \<not> exposed_to profile u")
    case True
    then have "active_upstreams (nu # ups) profile = active_upstreams ups profile"
      by (auto simp: nu active_upstreams_def)
    with True show ?thesis by (simp add: nu Cons.IH)
  next
    case False
    then have e: "prefix_entries (active_upstreams (nu # ups) profile) = (upstream_prefix u, n) # ?E"
      by (auto simp: nu active_upstreams_def prefix_entries_def)
    show ?thesis
    proof (cases "upstream_prefix u \<in> set (map fst idx)")
      case True
      with False show ?thesis unfolding e by (auto simp: nu)
    next
      case False': False
      with False have "foldE (\<lambda>index (upstream_name, u).
         if upstream_disabled u \<or> \<not> exposed_to profile u then Inr index
         else if upstream_prefix u \<in> set (map fst index)
         then value_error (''duplicate tool prefix: '' @ upstream_prefix u)
         else Inr (AList.update (upstream_prefix u) upstream_name index)) idx (nu # ups) = Inr idx' \<longleftrightarrow>
        idx' = (idx @ [(upstream_prefix u, n)]) @ ?E \<and> distinct (map fst ?E) \<and>
        set (map fst (idx @ [(upstream_prefix u, n)])) \<inter> set (map fst ?E) = {}"
        by (simp only: foldE.simps nu prod.case if_False update_new not_False_eq_True bindE_simps Cons.IH)
      with False' show ?thesis unfolding e by auto
    qed
  qed
qed

lemma build_prefix_index_Inr:
  "build_prefix_index ups profile = Inr idx \<longleftrightarrow>
   idx = prefix_entries (active_upstreams ups profile) \<and> distinct (map fst idx)"
  unfolding build_prefix_index_def prefix_index_from by auto

lemma map_of_prefix_entries:
  assumes "distinct (map fst (prefix_entries ups))"
  shows "map_of (prefix_entries ups) p = Some n \<longleftrightarrow> (\<exists>u. (n, u) \<in> set ups \<and> upstream_prefix u = p)"
proof -
  have "map_of (prefix_entries ups) p = Some n \<longleftrightarrow> (p, n) \<in> set (prefix_entries ups)"
    using assms by simp
  then show ?thesis by (force simp: prefix_entries_def)
qed

lemma router_init_Inr:
  "router_init broker ups profile = Inr r \<longleftrightarrow>
     bs_tool_namespace_separator broker \<noteq> [] \<and>
     distinct (map fst (prefix_entries (active_upstreams ups profile))) \<and>
     r = \<lparr>nr_separator = bs_tool_namespace_separator broker, nr_profile = profile,
          nr_upstreams = ups, nr_index = prefix_entries (active_upstreams ups profile)\<rparr>"
  by (auto simp: router_init_def bindE_eq_Inr build_prefix_index_Inr)

text \<open>What a router returned by the constructor satisfies.\<close>

definition router_ok :: "router \<Rightarrow> bool" where
  "router_ok r \<longleftrightarrow> nr_separator r \<noteq> [] \<and>
     nr_index r = prefix_entries (active_upstreams (nr_upstreams r) (nr_profile r)) \<and>
     distinct (map fst (nr_index r))"

lemma router_init_ok: "router_init broker ups profile = Inr r \<Longrightarrow> router_ok r"
  by (simp add: router_init_Inr router_ok_def)

lemma router_index_iff:
  assumes "router_ok r"
  shows "map_of (nr_index r) p = Some n \<longleftrightarrow> (\<exists>u. (n, u) \<in> set (nr_upstreams r) \<and>
    \<not> upstream_disabled u \<and> exposed_to (nr_profile r) u \<and> upstream_prefix u = p)"
  using assms map_of_prefix_entries [of "active_upstreams (nr_upstreams r) (nr_profile r)" p n]
  unfolding router_ok_def by (auto simp: active_upstreams_def)

lemma resolve_tool_name_Inr:
  "resolve_tool_name r name = Inr rt \<longleftrightarrow>
     tr_upstream_tool_name rt \<noteq> [] \<and>
     (\<exists>p. split_once (nr_separator r) name = Some (p, tr_upstream_tool_name rt) \<and>
        map_of (nr_index r) p = Some (tr_upstream_name rt))"
  by (auto simp: resolve_tool_name_def split: option.splits if_splits)

lemma enabled_upstream_Inr:
  "enabled_upstream r n = Inr u \<longleftrightarrow> map_of (nr_upstreams r) n = Some u \<and>
     \<not> upstream_disabled u \<and> exposed_to (nr_profile r) u"
  by (auto simp: enabled_upstream_def upstream_allowed_def split: option.splits if_splits)

lemma enforce_mutating_allowlist_Inr:
  "enforce_mutating_allowlist r u = Inr () \<longleftrightarrow>
     (\<forall>p. nr_profile r = Some p \<and> up_mutating u \<longrightarrow> allows_mutating_upstream p (up_name u))"
  by (auto simp: enforce_mutating_allowlist_def split: option.splits)

section \<open>What is advertised\<close>

text \<open>
  Where an advertised tool comes from: an upstream that is active, exposed to the profile and, when
  it mutates, on the profile's allowlist; the tool is the upstream's tool under the qualified name.
\<close>

definition advertised_from ::
    "router \<Rightarrow> string \<Rightarrow> pydict list \<Rightarrow> pydict \<Rightarrow> bool" where
  "advertised_from r n tools t \<longleftrightarrow> (\<exists>u tool. tool \<in> set tools \<and> tool_name_of tool \<noteq> [] \<and>
     map_of (nr_upstreams r) n = Some u \<and> \<not> upstream_disabled u \<and> exposed_to (nr_profile r) u \<and>
     (\<forall>p. nr_profile r = Some p \<and> up_mutating u \<longrightarrow> allows_mutating_upstream p (up_name u)) \<and>
     t = AList.update ''name''
       (PStr (qualify (nr_separator r) (upstream_prefix u) (tool_name_of tool))) tool)"

lemma advertise_tools_from:
  assumes "advertise_tools r n tools = Inr adv" "t \<in> set adv"
  shows "advertised_from r n tools t"
proof -
  let ?f = "\<lambda>u tool. AList.update ''name''
    (PStr (qualify (nr_separator r) (upstream_prefix u) (tool_name_of tool))) tool"
  from assms(1) obtain u where u: "enabled_upstream r n = Inr u" "enforce_mutating_allowlist r u = Inr ()"
    and l: "list_all2 (\<lambda>tool t. (if tool_name_of tool = []
       then value_error (''upstream tool missing name: '' @ n) else Inr (?f u tool)) = Inr t) tools adv"
    by (auto simp: advertise_tools_def bindE_eq_Inr mapE_eq_Inr_iff)
  have m: "list_all2 (\<lambda>tool t. tool_name_of tool \<noteq> [] \<and> t = ?f u tool) tools adv"
    by (rule list_all2_mono [OF l]) (simp split: if_splits)
  from assms(2) obtain i where "i < length adv" "t = adv ! i"
    unfolding in_set_conv_nth by blast
  then have "i < length tools" "t = adv ! i" using list_all2_lengthD [OF m] by simp_all
  with m have "tools ! i \<in> set tools" "tool_name_of (tools ! i) \<noteq> []" "t = AList.update ''name''
       (PStr (qualify (nr_separator r) (upstream_prefix u) (tool_name_of (tools ! i)))) (tools ! i)"
    by (auto simp: list_all2_conv_all_nth)
  with u show ?thesis
    unfolding advertised_from_def enabled_upstream_Inr enforce_mutating_allowlist_Inr by blast
qed

lemma add_unique_tools_Inr:
  "add_unique_tools acc tools = Inr adv \<Longrightarrow> distinct (map advertised_name acc) \<Longrightarrow>
     adv = acc @ tools \<and> distinct (map advertised_name adv)"
  unfolding add_unique_tools_def
proof (induction tools arbitrary: acc)
  case Nil
  then show ?case by simp
next
  case (Cons t tools)
  from Cons.prems(1) have new: "advertised_name t \<notin> set (map advertised_name acc)"
    by (auto split: if_splits)
  with Cons.prems(2) have "distinct (map advertised_name (acc @ [t]))" by simp
  with Cons.IH [of "acc @ [t]"] Cons.prems(1) new show ?case
    by (simp only: foldE.simps if_False bindE_simps append_assoc append_Cons append_Nil)
qed

text \<open>The loop over the upstreams' tools, as a step on the tools advertised so far.\<close>

definition advertise_step :: "router \<Rightarrow> pydict list \<Rightarrow> string \<times> pydict list \<Rightarrow> pydict list res" where
  "advertise_step r advertised nt = (case nt of (upstream_name, tools) \<Rightarrow>
     if upstream_allowed r upstream_name
     then bindE (advertise_tools r upstream_name tools) (add_unique_tools advertised)
     else Inr advertised)"

lemma advertise_all_loop:
  "advertise_all_tools r upstream_tools = Inr adv \<longleftrightarrow>
     foldE (advertise_step r) [] upstream_tools = Inr adv \<and>
     enforce_profile_budget r (length adv) = Inr ()"
proof -
  have "(\<lambda>advertised (upstream_name, tools).
       if upstream_allowed r upstream_name
       then bindE (advertise_tools r upstream_name tools) (add_unique_tools advertised)
       else Inr advertised) = advertise_step r"
    by (auto simp: advertise_step_def fun_eq_iff)
  then show ?thesis
    by (auto simp: advertise_all_tools_def bindE_eq_Inr)
qed

lemma advertise_all_from:
  assumes "advertise_all_tools r upstream_tools = Inr adv"
  shows "distinct (map advertised_name adv) \<and>
    (\<forall>t \<in> set adv. \<exists>(n, tools) \<in> set upstream_tools. advertised_from r n tools t)"
    (is "?P adv")
proof -
  have loop: "foldE (advertise_step r) [] upstream_tools = Inr adv"
    using assms by (simp add: advertise_all_loop)
  then show ?thesis
  proof (rule foldE_invariant)
    show "?P []" by simp
  next
    fix acc nt acc'
    assume ih: "?P acc" and mem: "nt \<in> set upstream_tools" and step: "advertise_step r acc nt = Inr acc'"
    obtain n tools where nt: "nt = (n, tools)" by (cases nt)
    show "?P acc'"
    proof (cases "upstream_allowed r n")
      case False
      with step ih show ?thesis by (simp add: nt advertise_step_def)
    next
      case True
      with step obtain ts where ts: "advertise_tools r n tools = Inr ts"
        and add: "add_unique_tools acc ts = Inr acc'"
        by (auto simp: nt advertise_step_def bindE_eq_Inr)
      from add ih have "acc' = acc @ ts" "distinct (map advertised_name acc')"
        using add_unique_tools_Inr by blast+
      moreover have "\<exists>(n, tools) \<in> set upstream_tools. advertised_from r n tools t"
        if "t \<in> set ts" for t
        using advertise_tools_from [OF ts that] mem nt by blast
      ultimately show ?thesis using ih by auto
    qed
  qed
qed

text \<open>C31. When the tool list of a router is built, the advertised names are distinct, the number of
  tools is within the profile's budget, and every advertised name resolves back to the upstream
  that offered the tool and to the name it has there, provided the separator does not begin inside
  a tool prefix. The upstream is active, exposed to the profile and allowed when it mutates.\<close>

theorem advertised_tools_resolve:
  assumes "router_init broker ups profile = Inr r" and "advertise_all_tools r upstream_tools = Inr adv"
    and good: "\<forall>(n, u) \<in> set ups. good_prefix (bs_tool_namespace_separator broker) (upstream_prefix u)"
  shows "distinct (map advertised_name adv) \<and>
    (\<forall>p. profile = Some p \<longrightarrow> int (length adv) \<le> pf_max_tools p) \<and>
    (\<forall>t \<in> set adv. \<exists>n tools tool u. (n, tools) \<in> set upstream_tools \<and> tool \<in> set tools \<and>
       resolve_tool_name r (advertised_name t) =
         Inr \<lparr>tr_upstream_name = n, tr_upstream_tool_name = tool_name_of tool\<rparr> \<and>
       map_of ups n = Some u \<and> \<not> upstream_disabled u \<and> exposed_to profile u \<and>
       (\<forall>p. profile = Some p \<and> up_mutating u \<longrightarrow> allows_mutating_upstream p (up_name u)))"
proof -
  have ok: "router_ok r" using assms(1) by (rule router_init_ok)
  have r: "nr_upstreams r = ups" "nr_profile r = profile"
    "nr_separator r = bs_tool_namespace_separator broker"
    using assms(1) by (simp_all add: router_init_Inr)
  have resolves: "resolve_tool_name r (advertised_name t) =
      Inr \<lparr>tr_upstream_name = n, tr_upstream_tool_name = tool_name_of tool\<rparr>"
    if "map_of ups n = Some u" "\<not> upstream_disabled u" "exposed_to profile u" "tool_name_of tool \<noteq> []"
      and t: "t = AList.update ''name''
        (PStr (qualify (nr_separator r) (upstream_prefix u) (tool_name_of tool))) tool" for t n u tool
  proof -
    have mem: "(n, u) \<in> set ups" using that(1) by (rule map_of_SomeD)
    with good have "good_prefix (nr_separator r) (upstream_prefix u)" by (auto simp: r)
    moreover have "advertised_name t = qualify (nr_separator r) (upstream_prefix u) (tool_name_of tool)"
      by (simp add: t advertised_name_def dget_def dget_or_def)
    moreover have "map_of (nr_index r) (upstream_prefix u) = Some n"
      using mem that(2,3) router_index_iff [OF ok] by (auto simp: r)
    ultimately show ?thesis
      using that(4) by (simp add: resolve_tool_name_Inr ns.split_qualify)
  qed
  have budget: "int (length adv) \<le> pf_max_tools p" if "profile = Some p" for p
    using assms(2) that by (simp add: advertise_all_loop enforce_profile_budget_def r)
  have from_up: "distinct (map advertised_name adv) \<and>
      (\<forall>t \<in> set adv. \<exists>(n, tools) \<in> set upstream_tools. advertised_from r n tools t)"
    using assms(2) by (rule advertise_all_from)
  have "\<exists>n tools tool u. (n, tools) \<in> set upstream_tools \<and> tool \<in> set tools \<and>
       resolve_tool_name r (advertised_name t) =
         Inr \<lparr>tr_upstream_name = n, tr_upstream_tool_name = tool_name_of tool\<rparr> \<and>
       map_of ups n = Some u \<and> \<not> upstream_disabled u \<and> exposed_to profile u \<and>
       (\<forall>p. profile = Some p \<and> up_mutating u \<longrightarrow> allows_mutating_upstream p (up_name u))"
    if "t \<in> set adv" for t
  proof -
    from from_up that obtain n tools where "(n, tools) \<in> set upstream_tools" "advertised_from r n tools t"
      by blast
    then show ?thesis
      unfolding advertised_from_def using resolves [of n] by (fastforce simp: r(1,2))
  qed
  with from_up budget show ?thesis by blast
qed

text \<open>The witness: one mutating upstream with two tools, on the allowlist of the profile.\<close>

definition router_settings :: broker_settings where
  "router_settings = result_of (broker_settings_from_mapping os_identity Inr runtime_example [])"

definition dev_profile :: tool_exposure_profile where
  "dev_profile = result_of (profile_from_mapping os_identity ''dev''
     [(''max_tools'', PInt 5), (''allow_mutating_upstreams'', PList [PStr ''git'']),
      (''compact_tools_enabled'', PBool True), (''broker_tool_name_style'', PStr ''snake'')])"

definition git_upstreams :: upstreams where
  "git_upstreams = [(''git'', result_of
     (upstream_from_mapping os_identity Inr runtime_example ''git'' git_data))]"

definition git_router :: router where
  "git_router = result_of (router_init router_settings git_upstreams (Some dev_profile))"

definition git_tools :: "(string \<times> pydict list) list" where
  "git_tools = [(''git'', [[(''name'', PStr ''log'')], [(''name'', PStr ''a.b'')]])]"

lemma advertised_tools_resolve_witness:
  "list_all (\<lambda>t. \<exists>tool \<in> set [[(''name'', PStr ''log'')], [(''name'', PStr ''a.b'')]].
       resolve_tool_name git_router (advertised_name t) =
         Inr \<lparr>tr_upstream_name = ''git'', tr_upstream_tool_name = tool_name_of tool\<rparr>)
     (result_of (advertise_all_tools git_router git_tools))"
proof -
  have "is_result (router_init router_settings git_upstreams (Some dev_profile))" by code_simp
  then have r: "router_init router_settings git_upstreams (Some dev_profile) = Inr git_router"
    unfolding git_router_def by (rule is_result_Inr)
  have "is_result (advertise_all_tools git_router git_tools)" by code_simp
  then have adv: "advertise_all_tools git_router git_tools =
      Inr (result_of (advertise_all_tools git_router git_tools))" by (rule is_result_Inr)
  have "list_all (\<lambda>(n, u). good_prefix (bs_tool_namespace_separator router_settings)
      (upstream_prefix u)) git_upstreams" by code_simp
  then have "\<forall>(n, u) \<in> set git_upstreams. good_prefix (bs_tool_namespace_separator router_settings)
      (upstream_prefix u)" by (simp add: list_all_iff)
  from advertised_tools_resolve [OF r adv this] show ?thesis
    by (fastforce simp: git_tools_def list_all_iff)
qed

section \<open>The compact tools\<close>

lemma compact_definitions_names:
  assumes "compact_broker_tool_definitions style chars = Inr tools"
  shows "map advertised_name tools = map (\<lambda>n. compact_broker_tool_name n
    (case style of None \<Rightarrow> ''dotted'' | Some s \<Rightarrow> s)) (map fst COMPACT_BROKER_TOOL_DEFINITIONS)"
  using assms
  by (auto simp: compact_broker_tool_definitions_def bindE_eq_Inr Let_def broker_tool_def
      advertised_name_def dget_def dget_or_def case_prod_unfold split: option.split)

lemma compact_name_exposed:
  "compact_broker_tool_name n (pf_broker_tool_name_style p) = exposed_broker_tool_name p n"
  by (simp add: compact_broker_tool_name_def exposed_broker_tool_name_def snake_def)

lemma compact_tools_are_broker_tools: "map fst COMPACT_BROKER_TOOL_DEFINITIONS = BROKER_TOOL_NAMES"
  by (simp add: compact_tool_names BROKER_TOOL_NAMES_def)

lemma canonical_of_compact_names:
  "map (\<lambda>n. canonical_broker_tool_name p (exposed_broker_tool_name p n)) BROKER_TOOL_NAMES =
   BROKER_TOOL_NAMES"
  by (rule map_idI)
    (simp add: canonical_broker_tool_name_def exposed_broker_tool_name_def snake_aliases_lookup
      snake_not_canonical)

text \<open>A valid profile that has compact tools enabled is offered the broker's own five tools in
  their order, and the name under which each is offered is understood as that tool when the client
  calls it; a profile without compact tools is offered none.\<close>

theorem compact_tools_understood:
  assumes "nr_profile r = Some p" "profile_valid p"
  shows "\<exists>tools. compact_broker_tools r = Inr tools \<and>
    map (\<lambda>t. canonical_broker_tool_name p (advertised_name t)) tools =
      (if pf_compact_tools_enabled p then map fst COMPACT_BROKER_TOOL_DEFINITIONS else [])"
proof (cases "pf_compact_tools_enabled p")
  case False
  then show ?thesis by (simp add: compact_broker_tools_def assms)
next
  case True
  have style: "pf_broker_tool_name_style p \<in> {''dotted'', ''snake''}"
    using assms(2) by (simp add: profile_valid_def)
  then obtain tools where tools: "compact_broker_tool_definitions
      (Some (pf_broker_tool_name_style p)) (pf_result_size_chars p) = Inr tools"
    by (auto simp: compact_broker_tool_definitions_def BROKER_TOOL_NAME_STYLES_def)
  have "map (\<lambda>t. canonical_broker_tool_name p (advertised_name t)) tools =
      map (canonical_broker_tool_name p) (map advertised_name tools)" by simp
  also have "\<dots> = map fst COMPACT_BROKER_TOOL_DEFINITIONS"
    unfolding compact_definitions_names [OF tools] option.case compact_name_exposed
      compact_tools_are_broker_tools map_map comp_def
    by (rule canonical_of_compact_names)
  finally show ?thesis
    using True tools by (simp add: compact_broker_tools_def assms(1))
qed

lemma compact_tools_understood_witness:
  "\<exists>tools. compact_broker_tools git_router = Inr tools \<and>
    map (\<lambda>t. canonical_broker_tool_name dev_profile (advertised_name t)) tools =
      [''broker.search_tools'', ''broker.describe_tool'', ''broker.call_tool'', ''broker.status'',
       ''broker.close_session'']"
proof -
  have "is_result (router_init router_settings git_upstreams (Some dev_profile))" by code_simp
  then have p: "nr_profile git_router = Some dev_profile"
    using is_result_Inr [of "router_init router_settings git_upstreams (Some dev_profile)"]
    by (simp add: git_router_def router_init_Inr)
  have "is_result (profile_from_mapping os_identity ''dev''
     [(''max_tools'', PInt 5), (''allow_mutating_upstreams'', PList [PStr ''git'']),
      (''compact_tools_enabled'', PBool True), (''broker_tool_name_style'', PStr ''snake'')])"
    by code_simp
  then have "profile_from_mapping os_identity ''dev''
     [(''max_tools'', PInt 5), (''allow_mutating_upstreams'', PList [PStr ''git'']),
      (''compact_tools_enabled'', PBool True), (''broker_tool_name_style'', PStr ''snake'')] =
     Inr dev_profile"
    unfolding dev_profile_def by (rule is_result_Inr)
  from profile_from_mapping_post_init [OF this] have v: "profile_valid dev_profile"
    using profile_post_init_valid by blast
  have "pf_compact_tools_enabled dev_profile" by code_simp
  with compact_tools_understood [OF p v] show ?thesis by (simp add: compact_tool_names)
qed

end
