(* ===== verification/Broker_Core.thy ===== *)
theory Broker_Core
  imports Tool_Namespace
begin

text \<open>
  The broker's own behaviour (\<^verbatim>\<open>broker.py\<close>): the tool list with its compact form, the
  route of a call with its denials, the call itself with the errors of the upstream turned into
  tool errors, and the locks that serialise the calls of an upstream.
\<close>

record broker_core =
  bk_settings :: broker_settings
  bk_upstreams :: upstreams
  bk_profile :: "tool_exposure_profile option"

abbreviation bk_separator :: "broker_core \<Rightarrow> string" where
  "bk_separator core \<equiv> bs_tool_namespace_separator (bk_settings core)"

abbreviation tool_error :: "string \<Rightarrow> string \<Rightarrow> string option \<Rightarrow> string option \<Rightarrow> 'a res" where
  "tool_error c m u t \<equiv> Inl (BrokerToolError c m u t)"

section \<open>Listing\<close>

definition can_compact_after_budget_error :: "broker_core \<Rightarrow> string \<Rightarrow> bool" where
  "can_compact_after_budget_error core message =
     (case bk_profile core of
        None \<Rightarrow> False
      | Some p \<Rightarrow> pf_compact_tools_enabled p \<and> contains ''exceeds tool budget'' message)"

definition list_tools :: "broker_core \<Rightarrow> (string \<times> pydict list) list \<Rightarrow> pydict list res" where
  "list_tools core upstream_tools =
     bindE (router_init (bk_settings core) (bk_upstreams core) (bk_profile core)) (\<lambda>r.
     case advertise_all_tools r upstream_tools of
       Inr tools \<Rightarrow> Inr tools
     | Inl e \<Rightarrow> if is_value_error e \<and> can_compact_after_budget_error core (exn_str e)
               then compact_broker_tools r else Inl e)"

definition compact_tools :: "broker_core \<Rightarrow> pydict list res" where
  "compact_tools core =
     bindE (router_init (bk_settings core) (bk_upstreams core) (bk_profile core)) compact_broker_tools"

section \<open>The route of a call\<close>

definition allowed_call_route :: "broker_core \<Rightarrow> string \<Rightarrow> upstream_config \<Rightarrow> upstream_config res" where
  "allowed_call_route core pre u =
     (if upstream_disabled u
      then tool_error ''disabled_prefix'' (''tool prefix disabled: '' @ pre) (Some (up_name u)) None
      else case bk_profile core of
        None \<Rightarrow> Inr u
      | Some p \<Rightarrow>
          if pf_name p \<notin> set (up_profiles u)
          then tool_error ''profile_denied''
            (''tool prefix denied for profile '' @ pf_name p @ '': '' @ pre) (Some (up_name u)) None
          else if up_mutating u \<and> \<not> allows_mutating_upstream p (up_name u)
          then tool_error ''mutating_not_allowed''
            (''mutating upstream not allowed for profile '' @ pf_name p @ '': '' @ up_name u)
            (Some (up_name u)) None
          else Inr u)"

text \<open>\<open>s.split(sep, 1)\<close> raises \<open>ValueError\<close> for an empty separator.\<close>

definition resolve_call_route :: "broker_core \<Rightarrow> string \<Rightarrow> (upstream_config \<times> string) res" where
  "resolve_call_route core name =
     (if bk_separator core = [] then value_error ''empty separator''
      else case split_once (bk_separator core) name of
        None \<Rightarrow> tool_error ''invalid_tool_name'' (''missing namespace separator: '' @ name) None None
      | Some (pre, tool) \<Rightarrow>
          if tool = []
          then tool_error ''invalid_tool_name'' (''missing upstream tool name: '' @ name) None None
          else (case List.find (\<lambda>u. upstream_prefix u = pre) (map snd (bk_upstreams core)) of
              None \<Rightarrow> tool_error ''unknown_tool_prefix'' (''unknown tool prefix: '' @ pre) None None
            | Some u \<Rightarrow> bindE (allowed_call_route core pre u) (\<lambda>u. Inr (u, tool))))"

section \<open>The call\<close>

text \<open>
  \<open>ToolCaller\<close> is an argument of the code: it acts on a state of its own and returns a response or
  raises. \<open>call_locks\<close> is the set of upstream names whose lock is held.
\<close>

type_synonym 's tool_caller = "string \<Rightarrow> string \<Rightarrow> pydict \<Rightarrow> int \<Rightarrow> ('s, exn, pyval) sem"

definition validate_tool_response :: "string \<Rightarrow> pyval \<Rightarrow> unit res" where
  "validate_tool_response upstream_name response =
     require (case response of PDict d \<Rightarrow> is_list (dget d ''content'') | _ \<Rightarrow> False)
       (BrokerToolError ''invalid_upstream_response''
         (''invalid upstream tools/call response from '' @ upstream_name) (Some upstream_name) None)"

definition translate_call_error :: "upstream_config \<Rightarrow> string \<Rightarrow> exn \<Rightarrow> exn" where
  "translate_call_error u tool e =
     (if is_class UpstreamCallTimeout e
      then BrokerToolError ''upstream_timeout'' (''upstream timed out: '' @ up_name u)
             (Some (up_name u)) (Some tool)
      else if is_class UpstreamCallCrashed e
      then BrokerToolError ''upstream_crashed'' (''upstream crashed: '' @ up_name u)
             (Some (up_name u)) (Some tool)
      else if is_class UpstreamToolNotFound e
      then BrokerToolError ''unknown_upstream_tool''
             (''upstream tool not found: '' @ up_name u @ ''.'' @ tool) (Some (up_name u)) (Some tool)
      else e)"

definition call_resolved_tool ::
    "upstream_config \<Rightarrow> string \<Rightarrow> pydict \<Rightarrow> 's tool_caller \<Rightarrow> ('s, exn, pyval) sem" where
  "call_resolved_tool u tool arguments caller =
     bindS (catchS (caller (up_name u) tool arguments (call_timeout_for_tool u tool))
              (\<lambda>e. raiseS (translate_call_error u tool e))) (\<lambda>response.
     seqS (liftS (validate_tool_response (up_name u) response)) (returnS response))"

text \<open>\<open>with self.call_locks.setdefault(name, Lock())\<close>: the lock is released on every exit.\<close>

type_synonym 's locked = "string set \<times> 's"

definition lift_caller :: "('s, exn, 'a) sem \<Rightarrow> ('s locked, exn, 'a) sem" where
  "lift_caller m = (\<lambda>(held, s). case m s of (r, s') \<Rightarrow> (r, (held, s')))"

definition with_lock :: "string \<Rightarrow> ('s locked, exn, 'a) sem \<Rightarrow> ('s locked, exn, 'a) sem" where
  "with_lock n m = (\<lambda>(held, s). case m (insert n held, s) of
     (r, (held', s')) \<Rightarrow> (r, (held' - {n}, s')))"

definition call_tool :: "broker_core \<Rightarrow> string \<Rightarrow> pyval \<Rightarrow> 's tool_caller \<Rightarrow> ('s locked, exn, pyval) sem" where
  "call_tool core name arguments caller =
     (case arguments of
        PDict d \<Rightarrow> bindS (liftS (resolve_call_route core name)) (\<lambda>(u, tool).
          if up_serialize_calls u
          then with_lock (up_name u) (lift_caller (call_resolved_tool u tool d caller))
          else lift_caller (call_resolved_tool u tool d caller))
      | _ \<Rightarrow> raiseS (BrokerToolError ''invalid_arguments'' ''tools/call arguments must be an object''
               None None))"

section \<open>What a call does\<close>

definition call_permitted :: "broker_core \<Rightarrow> upstream_config \<Rightarrow> bool" where
  "call_permitted core u \<longleftrightarrow> \<not> upstream_disabled u \<and> exposed_to (bk_profile core) u \<and>
     (\<forall>p. bk_profile core = Some p \<and> up_mutating u \<longrightarrow> allows_mutating_upstream p (up_name u))"

lemma allowed_call_route_Inr:
  "allowed_call_route core pre u = Inr v \<longleftrightarrow> v = u \<and> call_permitted core u"
  by (auto simp: allowed_call_route_def call_permitted_def exposed_to_def split: option.splits)

definition route_codes :: "string set" where
  "route_codes = {''invalid_arguments'', ''invalid_tool_name'', ''unknown_tool_prefix'',
     ''disabled_prefix'', ''profile_denied'', ''mutating_not_allowed''}"

definition route_refusal :: "exn \<Rightarrow> bool" where
  "route_refusal e = (case e of BrokerToolError c m up t \<Rightarrow> c \<in> route_codes \<and> t = None | _ \<Rightarrow> False)"

lemma route_refusalI:
  "route_refusal (BrokerToolError ''invalid_arguments'' m up None)"
  "route_refusal (BrokerToolError ''invalid_tool_name'' m up None)"
  "route_refusal (BrokerToolError ''unknown_tool_prefix'' m up None)"
  "route_refusal (BrokerToolError ''disabled_prefix'' m up None)"
  "route_refusal (BrokerToolError ''profile_denied'' m up None)"
  "route_refusal (BrokerToolError ''mutating_not_allowed'' m up None)"
  by (simp_all add: route_refusal_def route_codes_def)

lemma allowed_call_route_Inl:
  assumes "allowed_call_route core pre u = Inl e"
  shows "route_refusal e"
proof (cases "bk_profile core")
  case None
  with assms show ?thesis
    by (cases "upstream_disabled u") (auto simp: allowed_call_route_def route_refusalI)
next
  case (Some p)
  with assms show ?thesis
    unfolding allowed_call_route_def
    by (simp split: if_splits) (auto simp only: route_refusalI)
qed

lemma resolve_call_route_Inr:
  "resolve_call_route core name = Inr (u, tool) \<longleftrightarrow>
     bk_separator core \<noteq> [] \<and> tool \<noteq> [] \<and> call_permitted core u \<and>
     split_once (bk_separator core) name = Some (upstream_prefix u, tool) \<and>
     List.find (\<lambda>v. upstream_prefix v = upstream_prefix u) (map snd (bk_upstreams core)) = Some u"
proof (cases "bk_separator core = [] \<or> split_once (bk_separator core) name = None")
  case True
  then show ?thesis by (auto simp: resolve_call_route_def)
next
  case False
  then obtain pre t where sp: "split_once (bk_separator core) name = Some (pre, t)" by auto
  show ?thesis
  proof (cases "List.find (\<lambda>u. upstream_prefix u = pre) (map snd (bk_upstreams core))")
    case None
    with False sp show ?thesis by (auto simp: resolve_call_route_def)
  next
    case (Some v)
    then have "upstream_prefix v = pre" using find_eq_Some_first by fastforce
    have eq: "resolve_call_route core name = Inr (u, tool) \<longleftrightarrow>
        t \<noteq> [] \<and> tool = t \<and> v = u \<and> call_permitted core v"
      using False sp Some by (auto simp add: resolve_call_route_def bindE_eq_Inr allowed_call_route_Inr)
    show ?thesis
      unfolding eq
    proof
      assume "t \<noteq> [] \<and> tool = t \<and> v = u \<and> call_permitted core v"
      with False sp Some \<open>upstream_prefix v = pre\<close>
      show "bk_separator core \<noteq> [] \<and> tool \<noteq> [] \<and> call_permitted core u \<and>
          split_once (bk_separator core) name = Some (upstream_prefix u, tool) \<and>
          List.find (\<lambda>v. upstream_prefix v = upstream_prefix u) (map snd (bk_upstreams core)) = Some u"
        by clarsimp
    next
      assume a: "bk_separator core \<noteq> [] \<and> tool \<noteq> [] \<and> call_permitted core u \<and>
          split_once (bk_separator core) name = Some (upstream_prefix u, tool) \<and>
          List.find (\<lambda>v. upstream_prefix v = upstream_prefix u) (map snd (bk_upstreams core)) = Some u"
      then have "upstream_prefix u = pre" "tool = t" using sp by simp_all
      with a Some show "t \<noteq> [] \<and> tool = t \<and> v = u \<and> call_permitted core v" by simp
    qed
  qed
qed

lemma resolve_call_route_Inl:
  assumes "resolve_call_route core name = Inl e" "bk_separator core \<noteq> []"
  shows "route_refusal e"
proof (cases "split_once (bk_separator core) name")
  case None
  with assms have "e = BrokerToolError ''invalid_tool_name''
      (''missing namespace separator: '' @ name) None None"
    by (simp add: resolve_call_route_def)
  then show ?thesis by (simp only: route_refusalI)
next
  case (Some pt)
  obtain pre t where pt: "pt = (pre, t)" by (cases pt)
  show ?thesis
  proof (cases "t = []")
    case True
    with assms Some have "e = BrokerToolError ''invalid_tool_name''
        (''missing upstream tool name: '' @ name) None None"
      by (simp add: resolve_call_route_def pt)
    then show ?thesis by (simp only: route_refusalI)
  next
    case False
    show ?thesis
    proof (cases "List.find (\<lambda>u. upstream_prefix u = pre) (map snd (bk_upstreams core))")
      case None
      with False assms Some have "e = BrokerToolError ''unknown_tool_prefix''
          (''unknown tool prefix: '' @ pre) None None"
        by (simp add: resolve_call_route_def pt)
      then show ?thesis by (simp only: route_refusalI)
    next
      case (Some u)
      with False assms \<open>split_once _ _ = Some pt\<close> have "allowed_call_route core pre u = Inl e"
        by (simp add: resolve_call_route_def pt bindE_eq_Inl)
      then show ?thesis by (rule allowed_call_route_Inl)
    qed
  qed
qed

lemma validate_tool_response_Inr:
  "validate_tool_response n v = Inr () \<longleftrightarrow> (\<exists>d xs. v = PDict d \<and> dget d ''content'' = PList xs)"
  by (cases v) (auto simp: validate_tool_response_def is_list_iff)

text \<open>The outcome of a call as a function of the caller's outcome.\<close>

definition call_outcome :: "upstream_config \<Rightarrow> string \<Rightarrow> pyval res \<Rightarrow> pyval res" where
  "call_outcome u tool r = (case r of
     Inl e \<Rightarrow> Inl (translate_call_error u tool e)
   | Inr v \<Rightarrow> bindE (validate_tool_response (up_name u) v) (\<lambda>_. Inr v))"

lemma call_resolved_tool_apply:
  "call_resolved_tool u tool d caller s =
     (case caller (up_name u) tool d (call_timeout_for_tool u tool) s of
        (r, s') \<Rightarrow> (call_outcome u tool r, s'))"
  by (auto simp: call_resolved_tool_def call_outcome_def monad_simps bindE_def
      split: prod.splits sum.splits)

definition upstream_call_failure :: "exn \<Rightarrow> bool" where
  "upstream_call_failure e \<longleftrightarrow> is_class UpstreamCallTimeout e \<or> is_class UpstreamCallCrashed e \<or>
     is_class UpstreamToolNotFound e"

lemma translate_not_failure: "\<not> upstream_call_failure (translate_call_error u tool e)"
  by (auto simp: upstream_call_failure_def translate_call_error_def)

lemma call_outcome_cases:
  "(\<forall>v. call_outcome u tool r = Inr v \<longrightarrow> r = Inr v \<and> (\<exists>d xs. v = PDict d \<and> dget d ''content'' = PList xs)) \<and>
   (\<forall>e. call_outcome u tool r = Inl e \<longrightarrow> \<not> upstream_call_failure e)"
proof (cases r)
  case (Inl e)
  then show ?thesis by (simp add: call_outcome_def translate_not_failure)
next
  case (Inr v)
  have "\<not> upstream_call_failure e" if "validate_tool_response (up_name u) v = Inl e" for e
    using that by (auto simp: validate_tool_response_def upstream_call_failure_def)
  with Inr show ?thesis
    by (auto simp: call_outcome_def bindE_eq_Inr bindE_eq_Inl validate_tool_response_Inr)
qed

lemma with_lock_apply:
  "with_lock n (lift_caller m) (held, s) = (case m s of (r, s') \<Rightarrow> (r, (insert n held - {n}, s')))"
  by (simp add: with_lock_def lift_caller_def split: prod.splits)

text \<open>C30. A tool call either is refused before the upstream is reached, with one of the broker's
  routing codes and no effect, or runs the caller exactly once, on an active upstream that the
  profile exposes and, when it mutates, allows, with the tool name behind the separator and that
  tool's timeout. A response that is returned has a content list, no timeout, crash or missing tool
  of the upstream escapes untranslated, and the lock of the upstream is free afterwards.\<close>

theorem call_tool_permitted:
  assumes "bk_separator core \<noteq> []" and "up_locks = {}"
    and "call_tool core name arguments caller (up_locks, s) = (r, (held, s'))"
  shows "held = {} \<and>
    ((s' = s \<and> (\<exists>e. r = Inl e \<and> route_refusal e)) \<or>
     (\<exists>n u tool d r0. arguments = PDict d \<and> (n, u) \<in> set (bk_upstreams core) \<and> call_permitted core u \<and>
        name = qualify (bk_separator core) (upstream_prefix u) tool \<and> tool \<noteq> [] \<and>
        caller (up_name u) tool d (call_timeout_for_tool u tool) s = (r0, s') \<and>
        (\<forall>v. r = Inr v \<longrightarrow> r0 = Inr v \<and> (\<exists>d xs. v = PDict d \<and> dget d ''content'' = PList xs)) \<and>
        (\<forall>e. r = Inl e \<longrightarrow> \<not> upstream_call_failure e)))"
proof (cases "\<exists>d. arguments = PDict d")
  case False
  then have "call_tool core name arguments caller (up_locks, s) =
      (tool_error ''invalid_arguments'' ''tools/call arguments must be an object'' None None, (up_locks, s))"
    by (cases arguments) (simp_all add: call_tool_def monad_simps)
  with assms have "r = tool_error ''invalid_arguments'' ''tools/call arguments must be an object''
      None None \<and> held = {} \<and> s' = s" by simp
  then show ?thesis using route_refusalI(1) by blast
next
  case True
  then obtain d where d: "arguments = PDict d" by blast
  show ?thesis
  proof (cases "resolve_call_route core name")
    case (Inl e)
    with assms(3) d have "r = Inl e \<and> held = up_locks \<and> s' = s"
      by (simp add: call_tool_def monad_simps)
    with resolve_call_route_Inl [OF Inl assms(1)] assms(2) show ?thesis by blast
  next
    case (Inr ut)
    obtain u tool where ut: "ut = (u, tool)" by (cases ut)
    have route: "tool \<noteq> []" "call_permitted core u"
      "split_once (bk_separator core) name = Some (upstream_prefix u, tool)"
      "List.find (\<lambda>v. upstream_prefix v = upstream_prefix u) (map snd (bk_upstreams core)) = Some u"
      using Inr by (simp_all add: ut resolve_call_route_Inr)
    obtain n where "(n, u) \<in> set (bk_upstreams core)"
      using find_eq_Some_first [OF route(4)] by auto
    moreover obtain r0 where r0: "caller (up_name u) tool d (call_timeout_for_tool u tool) s = (r0, s')"
      and out: "r = call_outcome u tool r0" "held = {}"
    proof (cases "up_serialize_calls u")
      case True
      with assms(2,3) d Inr that show ?thesis
        by (auto simp: call_tool_def monad_simps ut with_lock_apply call_resolved_tool_apply
            split: prod.splits)
    next
      case False
      with assms(2,3) d Inr that show ?thesis
        by (auto simp: call_tool_def monad_simps ut lift_caller_def call_resolved_tool_apply
            split: prod.splits)
    qed
    ultimately show ?thesis
      using route ns.split_sound [OF route(3)] call_outcome_cases [of u tool r0] d by blast
  qed
qed

text \<open>The witness: a caller that answers with a content list and counts its calls.\<close>

definition git_core :: broker_core where
  "git_core = \<lparr>bk_settings = router_settings, bk_upstreams = git_upstreams,
     bk_profile = Some dev_profile\<rparr>"

definition counting_caller :: "nat tool_caller" where
  "counting_caller n t d timeout = (\<lambda>k. (Inr (PDict [(''content'', PList [PStr t])]), Suc k))"

lemma call_tool_permitted_witness:
  "\<exists>r held s'. call_tool git_core ''git.log'' (PDict []) counting_caller ({}, 0) = (r, (held, s')) \<and>
     held = {} \<and> s' = 1 \<and> (\<exists>u. (''git'', u) \<in> set git_upstreams \<and> call_permitted git_core u)"
proof -
  obtain r held s' where c: "call_tool git_core ''git.log'' (PDict []) counting_caller ({}, 0) =
      (r, (held, s'))"
    by (metis prod.collapse)
  have "snd (snd (call_tool git_core ''git.log'' (PDict []) counting_caller ({}, 0))) = 1"
    by code_simp
  with c have s1: "s' = 1" by simp
  have sep: "bk_separator git_core \<noteq> []" by code_simp
  have "fst ` set (bk_upstreams git_core) = {''git''}" by (simp add: git_core_def git_upstreams_def)
  moreover from call_tool_permitted [OF sep refl c] s1 have "held = {}"
    "\<exists>n u. (n, u) \<in> set (bk_upstreams git_core) \<and> call_permitted git_core u" by auto
  ultimately show ?thesis using c s1 by (auto simp: git_core_def git_upstreams_def)
qed

section \<open>The list of tools\<close>

text \<open>The tool list a client gets never exceeds the budget of its profile, unless the profile
  enables compact tools and gets exactly the broker's own tools; every other failure to build the
  list is an error of the list.\<close>

theorem list_tools_bounded:
  assumes "list_tools core upstream_tools = Inr tools" and "bk_profile core = Some p"
  shows "(int (length tools) \<le> pf_max_tools p \<and> distinct (map advertised_name tools)) \<or>
    (pf_compact_tools_enabled p \<and> compact_tools core = Inr tools)"
proof -
  from assms(1) obtain r where r: "router_init (bk_settings core) (bk_upstreams core) (bk_profile core) = Inr r"
    by (auto simp: list_tools_def bindE_eq_Inr)
  then have prof: "nr_profile r = Some p" by (simp add: router_init_Inr assms(2))
  show ?thesis
  proof (cases "advertise_all_tools r upstream_tools")
    case (Inr ts)
    with assms(1) r have "advertise_all_tools r upstream_tools = Inr tools" by (simp add: list_tools_def)
    then show ?thesis
      using advertise_all_from [of r upstream_tools tools] prof
      by (simp add: advertise_all_loop enforce_profile_budget_def)
  next
    case (Inl e)
    with assms r have "can_compact_after_budget_error core (exn_str e)" "compact_broker_tools r = Inr tools"
      by (auto simp: list_tools_def split: if_splits)
    with r assms(2) show ?thesis
      by (auto simp: can_compact_after_budget_error_def compact_tools_def)
  qed
qed

definition many_tools :: "(string \<times> pydict list) list" where
  "many_tools = [(''git'', map (\<lambda>i. [(''name'', PInt i)]) [1, 2, 3, 4, 5, 6])]"

lemma list_tools_bounded_witness:
  "\<exists>tools. list_tools git_core many_tools = Inr tools \<and>
     (int (length tools) \<le> pf_max_tools dev_profile \<and> distinct (map advertised_name tools) \<or>
      pf_compact_tools_enabled dev_profile \<and> compact_tools git_core = Inr tools)"
proof -
  have "is_result (list_tools git_core many_tools)" by code_simp
  then have t: "list_tools git_core many_tools = Inr (result_of (list_tools git_core many_tools))"
    by (rule is_result_Inr)
  have p: "bk_profile git_core = Some dev_profile" by (simp add: git_core_def)
  show ?thesis using t list_tools_bounded [OF t p] by blast
qed

section \<open>Routes of advertised names\<close>

lemma find_unique:
  assumes "x \<in> set xs" "P x" "\<And>y. y \<in> set xs \<Longrightarrow> P y \<Longrightarrow> y = x"
  shows "List.find P xs = Some x"
proof (cases "List.find P xs")
  case None
  with assms(1,2) show ?thesis by (simp add: find_None_iff)
next
  case (Some y)
  then have "y \<in> set xs" "P y" using find_eq_Some_first by fastforce+
  with assms(3) Some show ?thesis by blast
qed

text \<open>C32. When the tool prefixes of all configured upstreams are different, the call of a name goes
  to the upstream to which the namespace router resolves it, and a resolved name is refused only
  because the upstream mutates and the profile does not allow it.\<close>

theorem call_route_agrees_with_router:
  assumes "router_init (bk_settings core) (bk_upstreams core) (bk_profile core) = Inr r"
    and "distinct (map (\<lambda>(n, u). upstream_prefix u) (bk_upstreams core))"
    and "resolve_tool_name r name = Inr rt"
  shows "\<exists>u. (tr_upstream_name rt, u) \<in> set (bk_upstreams core) \<and>
    (resolve_call_route core name = Inr (u, tr_upstream_tool_name rt) \<longleftrightarrow>
      (\<forall>p. bk_profile core = Some p \<and> up_mutating u \<longrightarrow> allows_mutating_upstream p (up_name u)))"
proof -
  have r: "nr_upstreams r = bk_upstreams core" "nr_profile r = bk_profile core"
    "nr_separator r = bk_separator core" and sep: "bk_separator core \<noteq> []" and ok: "router_ok r"
    using assms(1) router_init_ok by (auto simp: router_init_Inr)
  obtain p where sp: "split_once (bk_separator core) name = Some (p, tr_upstream_tool_name rt)"
    and ne: "tr_upstream_tool_name rt \<noteq> []" and "map_of (nr_index r) p = Some (tr_upstream_name rt)"
    using assms(3) by (auto simp: resolve_tool_name_Inr r)
  then obtain u where u: "(tr_upstream_name rt, u) \<in> set (bk_upstreams core)"
    "\<not> upstream_disabled u" "exposed_to (bk_profile core) u" "upstream_prefix u = p"
    using router_index_iff [OF ok] by (auto simp: r)
  have "List.find (\<lambda>v. upstream_prefix v = upstream_prefix u) (map snd (bk_upstreams core)) = Some u"
  proof (rule find_unique)
    show "u \<in> set (map snd (bk_upstreams core))" using u(1) by force
    fix v assume "v \<in> set (map snd (bk_upstreams core))" "upstream_prefix v = upstream_prefix u"
    then obtain m where "(m, v) \<in> set (bk_upstreams core)" by auto
    with u(1) assms(2) \<open>upstream_prefix v = upstream_prefix u\<close> show "v = u"
      by (auto simp: distinct_map inj_on_def)
  qed simp
  with sp ne sep u have "resolve_call_route core name = Inr (u, tr_upstream_tool_name rt) \<longleftrightarrow>
      call_permitted core u"
    by (simp add: resolve_call_route_Inr)
  with u show ?thesis by (auto simp: call_permitted_def)
qed

lemma call_route_agrees_with_router_witness:
  "\<exists>u. (''git'', u) \<in> set git_upstreams \<and> (resolve_call_route git_core ''git.log'' = Inr (u, ''log'') \<longleftrightarrow>
     (\<forall>p. bk_profile git_core = Some p \<and> up_mutating u \<longrightarrow> allows_mutating_upstream p (up_name u)))"
proof -
  have "is_result (router_init router_settings git_upstreams (Some dev_profile))" by code_simp
  then have r: "router_init (bk_settings git_core) (bk_upstreams git_core) (bk_profile git_core) = Inr git_router"
    unfolding git_router_def git_core_def broker_core.simps by (rule is_result_Inr)
  have d: "distinct (map (\<lambda>(n, u). upstream_prefix u) (bk_upstreams git_core))"
    by (simp add: git_core_def git_upstreams_def)
  have "resolve_tool_name git_router ''git.log'' =
      Inr \<lparr>tr_upstream_name = ''git'', tr_upstream_tool_name = ''log''\<rparr>" by code_simp
  from call_route_agrees_with_router [OF r d this] show ?thesis by (simp add: git_core_def)
qed

text \<open>
  A prefix may be used again in another profile: such a configuration is accepted and its tools are
  advertised, but a call takes the first upstream with the prefix, whatever its profile, and is
  refused there.
\<close>

definition shared_prefix_upstreams :: upstreams where
  "shared_prefix_upstreams = map (\<lambda>(n, d). (n, result_of
       (upstream_from_mapping os_identity Inr runtime_example n d)))
     [(''a'', [(''command'', PStr ''x''), (''tool_prefix'', PStr ''git''), (''profiles'', PList [PStr ''ops''])]),
      (''b'', [(''command'', PStr ''y''), (''tool_prefix'', PStr ''git''), (''profiles'', PList [PStr ''dev''])])]"

definition shared_prefix_core :: broker_core where
  "shared_prefix_core = \<lparr>bk_settings = router_settings, bk_upstreams = shared_prefix_upstreams,
     bk_profile = Some dev_profile\<rparr>"

lemma advertised_but_denied:
  "validate_unique_profile_prefixes shared_prefix_upstreams = Inr () \<and>
   map advertised_name (result_of (list_tools shared_prefix_core [(''b'', [[(''name'', PStr ''log'')]])])) =
     [''git.log''] \<and>
   resolve_call_route shared_prefix_core ''git.log'' =
     tool_error ''profile_denied'' ''tool prefix denied for profile dev: git'' (Some ''a'') None"
proof (intro conjI)
  show "validate_unique_profile_prefixes shared_prefix_upstreams = Inr ()" by code_simp
  show "map advertised_name (result_of (list_tools shared_prefix_core
      [(''b'', [[(''name'', PStr ''log'')]])])) = [''git.log'']" by code_simp
  show "resolve_call_route shared_prefix_core ''git.log'' =
     tool_error ''profile_denied'' ''tool prefix denied for profile dev: git'' (Some ''a'') None"
    by code_simp
qed

end
