(* ===== verification/Call_Locks.thy ===== *)
theory Call_Locks
  imports Broker_Core
begin

text \<open>
  Concurrent calls (\<^verbatim>\<open>broker.py\<close>, \<open>call_tool\<close>): every request has its thread, and
  an upstream with \<open>serialize_calls\<close> is called under the lock of its name, which the daemon
  shares between requests. The steps are the points where threads interleave: the route is found,
  the call starts (with the lock taken, when the upstream asks for it), the call ends by any outcome.
\<close>

datatype call_phase = Idle | Routed upstream_config | Running upstream_config

record call_state =
  cs_phase :: "nat \<Rightarrow> call_phase"
  cs_held :: "string \<Rightarrow> nat option"

definition calls_start :: "call_state \<Rightarrow> bool" where
  "calls_start s \<longleftrightarrow> (\<forall>t. cs_phase s t = Idle) \<and> (\<forall>n. cs_held s n = None)"

inductive call_step :: "broker_core \<Rightarrow> call_state \<Rightarrow> call_state \<Rightarrow> bool" for core where
  route: "cs_phase s t = Idle \<Longrightarrow> resolve_call_route core name = Inr (u, tool) \<Longrightarrow>
    call_step core s (s\<lparr>cs_phase := (cs_phase s)(t := Routed u)\<rparr>)"
| start_locked: "cs_phase s t = Routed u \<Longrightarrow> up_serialize_calls u \<Longrightarrow> cs_held s (up_name u) = None \<Longrightarrow>
    call_step core s (s\<lparr>cs_phase := (cs_phase s)(t := Running u),
      cs_held := (cs_held s)(up_name u := Some t)\<rparr>)"
| start_free: "cs_phase s t = Routed u \<Longrightarrow> \<not> up_serialize_calls u \<Longrightarrow>
    call_step core s (s\<lparr>cs_phase := (cs_phase s)(t := Running u)\<rparr>)"
| end_locked: "cs_phase s t = Running u \<Longrightarrow> up_serialize_calls u \<Longrightarrow>
    call_step core s (s\<lparr>cs_phase := (cs_phase s)(t := Idle),
      cs_held := (cs_held s)(up_name u := None)\<rparr>)"
| end_free: "cs_phase s t = Running u \<Longrightarrow> \<not> up_serialize_calls u \<Longrightarrow>
    call_step core s (s\<lparr>cs_phase := (cs_phase s)(t := Idle)\<rparr>)"

inductive_cases call_stepE: "call_step core s s'"

text \<open>The lock of a name is held exactly by the thread that runs a serialised call of that upstream.\<close>

definition lock_inv :: "call_state \<Rightarrow> bool" where
  "lock_inv s \<longleftrightarrow> (\<forall>n t. cs_held s n = Some t \<longleftrightarrow>
     (\<exists>u. cs_phase s t = Running u \<and> up_serialize_calls u \<and> up_name u = n))"

lemma lock_invD: "lock_inv s \<Longrightarrow> cs_phase s t = Running u \<Longrightarrow> up_serialize_calls u \<Longrightarrow>
    cs_held s (up_name u) = Some t"
  by (auto simp: lock_inv_def)

lemma lock_inv_step: "lock_inv s \<Longrightarrow> call_step core s s' \<Longrightarrow> lock_inv s'"
proof (erule call_stepE)
  fix t name u tool
  assume "lock_inv s" "s' = s\<lparr>cs_phase := (cs_phase s)(t := Routed u)\<rparr>" "cs_phase s t = Idle"
  then show "lock_inv s'" by (auto simp: lock_inv_def)
next
  fix t u
  assume inv: "lock_inv s" and s': "s' = s\<lparr>cs_phase := (cs_phase s)(t := Running u),
      cs_held := (cs_held s)(up_name u := Some t)\<rparr>"
    and *: "cs_phase s t = Routed u" "up_serialize_calls u" "cs_held s (up_name u) = None"
  show "lock_inv s'"
    unfolding lock_inv_def
  proof (intro allI)
    fix n t'
    show "cs_held s' n = Some t' \<longleftrightarrow>
        (\<exists>u. cs_phase s' t' = Running u \<and> up_serialize_calls u \<and> up_name u = n)"
      using * inv [unfolded lock_inv_def, rule_format, of n t'] by (cases "t' = t") (auto simp: s')
  qed
next
  fix t u
  assume "lock_inv s" "s' = s\<lparr>cs_phase := (cs_phase s)(t := Running u)\<rparr>"
    "cs_phase s t = Routed u" "\<not> up_serialize_calls u"
  then show "lock_inv s'" by (auto simp: lock_inv_def)
next
  fix t u
  assume inv: "lock_inv s" and s': "s' = s\<lparr>cs_phase := (cs_phase s)(t := Idle),
      cs_held := (cs_held s)(up_name u := None)\<rparr>"
    and *: "cs_phase s t = Running u" "up_serialize_calls u"
  have held: "cs_held s (up_name u) = Some t" using lock_invD [OF inv *] .
  show "lock_inv s'"
    unfolding lock_inv_def
  proof (intro allI)
    fix n t'
    show "cs_held s' n = Some t' \<longleftrightarrow>
        (\<exists>u. cs_phase s' t' = Running u \<and> up_serialize_calls u \<and> up_name u = n)"
      using * held inv [unfolded lock_inv_def, rule_format, of n t'] by (cases "t' = t") (auto simp: s')
  qed
next
  fix t u
  assume "lock_inv s" "s' = s\<lparr>cs_phase := (cs_phase s)(t := Idle)\<rparr>"
    "cs_phase s t = Running u" "\<not> up_serialize_calls u"
  then show "lock_inv s'" by (auto simp: lock_inv_def)
qed

interpretation calls: transition_system calls_start "call_step core" lock_inv for core
proof unfold_locales
  show "lock_inv s" if "calls_start s" for s using that by (simp add: calls_start_def lock_inv_def)
  show "lock_inv t" if "lock_inv s" "call_step core s t" for s t using that by (rule lock_inv_step)
qed

text \<open>C33. Two threads never run calls of the same serialised upstream at the same time.\<close>

theorem serialized_calls_exclusive:
  assumes "reachable_from calls_start (call_step core) s"
    and "cs_phase s t1 = Running u" "cs_phase s t2 = Running v"
    and "up_serialize_calls u" "up_serialize_calls v" "up_name u = up_name v"
  shows "t1 = t2"
  using calls.reachable_inv [OF assms(1)] assms(2-) by (metis lock_invD option.inject)

definition serial_upstream :: upstream_config where
  "serial_upstream = result_of (upstream_from_mapping os_identity Inr runtime_example ''git''
     [(''command'', PStr ''git-mcp''), (''serialize_calls'', PBool True)])"

definition serial_core :: broker_core where
  "serial_core = \<lparr>bk_settings = router_settings, bk_upstreams = [(''git'', serial_upstream)],
     bk_profile = None\<rparr>"

definition all_idle :: call_state where
  "all_idle = \<lparr>cs_phase = (\<lambda>_. Idle), cs_held = (\<lambda>_. None)\<rparr>"

lemma serial_serializes: "up_serialize_calls serial_upstream"
  by code_simp

lemma serial_route: "resolve_call_route serial_core ''git.log'' = Inr (serial_upstream, ''log'')"
proof -
  have "up_enabled serial_upstream \<and> up_mode serial_upstream \<noteq> ''disabled'' \<and>
      upstream_prefix serial_upstream = ''git''" by code_simp
  moreover have "bk_separator serial_core = ''.''" by code_simp
  ultimately show ?thesis
    by (simp add: resolve_call_route_Inr call_permitted_def upstream_disabled_def exposed_to_def)
      (simp add: serial_core_def)
qed

lemma serial_running:
  "reachable_from calls_start (call_step serial_core)
     (all_idle\<lparr>cs_phase := (\<lambda>_. Idle)(0 := Running serial_upstream),
               cs_held := (\<lambda>_. None)(up_name serial_upstream := Some 0)\<rparr>)"
proof -
  have "reachable_from calls_start (call_step serial_core) all_idle"
    by (rule reachable_from.start) (simp add: calls_start_def all_idle_def)
  then have "reachable_from calls_start (call_step serial_core)
      (all_idle\<lparr>cs_phase := (cs_phase all_idle)(0 := Routed serial_upstream)\<rparr>)"
    by (rule reachable_from.step) (rule call_step.route [OF _ serial_route], simp add: all_idle_def)
  from reachable_from.step [OF this call_step.start_locked [of _ 0 serial_upstream]]
  show ?thesis by (simp add: all_idle_def serial_serializes)
qed

lemma serialized_calls_exclusive_witness:
  "\<exists>s. reachable_from calls_start (call_step serial_core) s \<and> cs_phase s 0 = Running serial_upstream \<and>
     (\<forall>t. cs_phase s t = Running serial_upstream \<longrightarrow> t = 0)"
proof -
  let ?s = "all_idle\<lparr>cs_phase := (\<lambda>_. Idle)(0 := Running serial_upstream),
      cs_held := (\<lambda>_. None)(up_name serial_upstream := Some 0)\<rparr>"
  have p0: "cs_phase ?s 0 = Running serial_upstream" by simp
  have "t = 0" if "cs_phase ?s t = Running serial_upstream" for t
    using serialized_calls_exclusive
      [OF serial_running that p0 serial_serializes serial_serializes refl] .
  with p0 serial_running show ?thesis by blast
qed

lemma step_to_running:
  "call_step core s s' \<Longrightarrow> cs_phase s' t = Running u \<Longrightarrow>
   \<exists>s'. (call_step core)\<^sup>*\<^sup>* s s' \<and> cs_phase s' t = Running u"
  by blast

text \<open>C34. No deadlock: from every reachable state a thread that has its route can come to run its
  call, in at most two steps, since the holder of the lock it waits for is running and can end.\<close>

theorem routed_call_can_start:
  assumes "reachable_from calls_start (call_step core) s" and "cs_phase s t = Routed u"
  shows "\<exists>s'. (call_step core)\<^sup>*\<^sup>* s s' \<and> cs_phase s' t = Running u"
proof (cases "up_serialize_calls u")
  case False
  show ?thesis by (rule step_to_running [OF call_step.start_free [OF assms(2) False]]) simp
next
  case True
  show ?thesis
  proof (cases "cs_held s (up_name u)")
    case None
    show ?thesis by (rule step_to_running [OF call_step.start_locked [OF assms(2) True None]]) simp
  next
    case (Some t')
    with calls.reachable_inv [OF assms(1)] obtain v
      where v: "cs_phase s t' = Running v" "up_serialize_calls v" "up_name v = up_name u"
      by (auto simp: lock_inv_def)
    let ?s = "s\<lparr>cs_phase := (cs_phase s)(t' := Idle), cs_held := (cs_held s)(up_name v := None)\<rparr>"
    have s1: "call_step core s ?s" using v(1,2) by (rule call_step.end_locked)
    have "cs_phase ?s t = Routed u" "cs_held ?s (up_name u) = None"
      using assms(2) v by auto
    have "\<exists>s'. (call_step core)\<^sup>*\<^sup>* ?s s' \<and> cs_phase s' t = Running u"
      by (rule step_to_running [OF call_step.start_locked [OF \<open>cs_phase ?s t = Routed u\<close> True
          \<open>cs_held ?s (up_name u) = None\<close>], of t u]) simp
    with s1 show ?thesis by (blast intro: converse_rtranclp_into_rtranclp)
  qed
qed

lemma routed_call_can_start_witness:
  "\<exists>s s'. cs_phase s 0 = Routed serial_upstream \<and> (call_step serial_core)\<^sup>*\<^sup>* s s' \<and>
     cs_phase s' 0 = Running serial_upstream"
proof -
  let ?s = "all_idle\<lparr>cs_phase := (cs_phase all_idle)(0 := Routed serial_upstream)\<rparr>"
  have "reachable_from calls_start (call_step serial_core) all_idle"
    by (rule reachable_from.start) (simp add: calls_start_def all_idle_def)
  then have r: "reachable_from calls_start (call_step serial_core) ?s"
    by (rule reachable_from.step) (rule call_step.route [OF _ serial_route], simp add: all_idle_def)
  have "cs_phase ?s 0 = Routed serial_upstream" by simp
  from routed_call_can_start [OF r this] this show ?thesis by blast
qed

end
