(* ===== verification/Hybrid_Router.thy ===== *)
theory Hybrid_Router
  imports Broker_Core Shared_Worker
begin

text \<open>
  The hybrid router (\<^verbatim>\<open>hybrid_router.py\<close>): a call whose request carries a tenant scope
  goes to a shared worker when the upstream may run there, and to the local edge otherwise. The
  worker is an argument of the router, as in the code; the properties below also run it with the
  worker of \<^verbatim>\<open>shared_worker.py\<close>.
\<close>

definition STATELESS_TAG :: string where
  "STATELESS_TAG = ''stateless''"

definition SHARED_WORKER_TAGS :: "string list" where
  "SHARED_WORKER_TAGS = [''shared-worker'', ''shared_worker'']"

record hybrid_routing_context =
  hr_tenant_context :: "pydict option"
  hr_team_id :: "string option"
  hr_quota_snapshot :: "pydict option"

definition optional_mapping :: "pyval \<Rightarrow> pydict option" where
  "optional_mapping v = (case v of PDict d \<Rightarrow> Some d | _ \<Rightarrow> None)"

definition optional_string :: "pyval \<Rightarrow> string option" where
  "optional_string v = (case v of PStr s \<Rightarrow> Some s | _ \<Rightarrow> None)"

definition routing_context_from_params :: "pydict \<Rightarrow> hybrid_routing_context" where
  "routing_context_from_params params =
     \<lparr>hr_tenant_context = optional_mapping (dget params ''tenant_context''),
      hr_team_id = optional_string (dget params ''team_id''),
      hr_quota_snapshot = optional_mapping (dget params ''quota_snapshot'')\<rparr>"

definition requires_local_state :: "upstream_config \<Rightarrow> bool" where
  "requires_local_state u \<longleftrightarrow>
     truthy (up_state_dir u) \<or> up_env u \<noteq> [] \<or> up_env_files u \<noteq> [] \<or> up_session_env u \<noteq> [] \<or>
     up_request_meta u \<noteq> [] \<or> up_forward_request_meta u \<noteq> [] \<or> up_relay_elicitation u"

definition should_try_shared_worker :: "upstream_config \<Rightarrow> hybrid_routing_context \<Rightarrow> bool" where
  "should_try_shared_worker u ctx =
     (if hr_tenant_context ctx = None \<or> hr_team_id ctx = None \<or> hr_quota_snapshot ctx = None
      then False
      else STATELESS_TAG \<in> set (up_tags u) \<and> (\<exists>t \<in> set SHARED_WORKER_TAGS. t \<in> set (up_tags u)) \<and>
        up_mode u = ''shared'' \<and> \<not> up_mutating u \<and> \<not> requires_local_state u)"

definition hybrid_quota_decision :: "hybrid_routing_context \<Rightarrow> string \<Rightarrow> string \<Rightarrow> pydict res" where
  "hybrid_quota_decision ctx upstream_id tool_name =
     (case (hr_tenant_context ctx, hr_team_id ctx, hr_quota_snapshot ctx) of
        (Some tenant, Some team, Some snapshot) \<Rightarrow>
          (case decide_quota tenant team upstream_id tool_name snapshot of
             Inr d \<Rightarrow> Inr d
           | Inl e \<Rightarrow> if is_class QuotaPolicyError e
               then tool_error ''shared_routing_quota_invalid'' (exn_str e) (Some upstream_id) (Some tool_name)
               else Inl e)
      | _ \<Rightarrow> tool_error ''shared_routing_context_missing''
               ''shared routing requires tenant_context, team_id, and quota_snapshot''
               (Some upstream_id) (Some tool_name))"

text \<open>
  \<open>shared_worker.call_tool\<close> as a function of the tenant scope, the upstream, its class, whether it
  is allowlisted, whether it needs local state, the tool, the arguments and the quota decision.
\<close>

type_synonym shared_worker_caller =
  "pydict \<Rightarrow> string \<Rightarrow> string \<Rightarrow> bool \<Rightarrow> bool \<Rightarrow> string \<Rightarrow> pydict \<Rightarrow> pydict \<Rightarrow> pydict res"

definition worker_answer :: "upstream_config \<Rightarrow> string \<Rightarrow> pydict \<Rightarrow> pyval res" where
  "worker_answer u tool response =
     (if dget response ''allowed'' \<noteq> PBool True then Inr (PDict response)
      else case dget response ''result'' of
        PDict r \<Rightarrow> bindE (validate_tool_response (up_name u) (PDict r)) (\<lambda>_. Inr (PDict r))
      | _ \<Rightarrow> tool_error ''invalid_shared_worker_response''
               (''invalid shared worker tools/call response from '' @ up_name u)
               (Some (up_name u)) (Some tool))"

definition hybrid_call_tool ::
    "broker_core \<Rightarrow> shared_worker_caller \<Rightarrow> string \<Rightarrow> pydict \<Rightarrow> 's tool_caller \<Rightarrow>
     hybrid_routing_context \<Rightarrow> ('s locked, exn, pyval) sem" where
  "hybrid_call_tool core worker name arguments edge ctx =
     bindS (liftS (resolve_call_route core name)) (\<lambda>(u, tool).
       if \<not> should_try_shared_worker u ctx then call_tool core name (PDict arguments) edge
       else bindS (liftS (hybrid_quota_decision ctx (up_name u) name)) (\<lambda>quota.
         bindS (liftS (worker (case hr_tenant_context ctx of Some t \<Rightarrow> t | None \<Rightarrow> []) (up_name u)
             STATELESS_TAG True False name arguments quota)) (\<lambda>response.
         liftS (worker_answer u tool response))))"

definition build_hybrid_routing_policy :: pydict where
  "build_hybrid_routing_policy =
     [(''schema_version'', PInt 1),
      (''default_execution_boundary'', PStr LOCAL_EDGE_BOUNDARY),
      (''client_contract'', PStr ''unchanged_tools_call_shape''),
      (''shared_worker_boundary'', PStr SHARED_WORKER_BOUNDARY),
      (''shared_worker_requires'', PList (map PStr
         [''stateless_tag'', ''shared_mode'', ''allowlisted'', ''no_local_state'', ''quota_allowed''])),
      (''denial_audit_required'', PBool True)]"

section \<open>Correctness\<close>

text \<open>What an upstream must be for its calls to leave the local edge.\<close>

definition shared_worker_eligible :: "upstream_config \<Rightarrow> bool" where
  "shared_worker_eligible u \<longleftrightarrow> ''stateless'' \<in> set (up_tags u) \<and>
     (''shared-worker'' \<in> set (up_tags u) \<or> ''shared_worker'' \<in> set (up_tags u)) \<and> up_mode u = ''shared'' \<and>
     \<not> up_mutating u \<and> \<not> truthy (up_state_dir u) \<and> up_env u = [] \<and> up_env_files u = [] \<and> up_session_env u = [] \<and>
     up_request_meta u = [] \<and> up_forward_request_meta u = [] \<and> \<not> up_relay_elicitation u"

lemma should_try_eligible:
  "should_try_shared_worker u ctx \<longleftrightarrow> shared_worker_eligible u \<and> hr_tenant_context ctx \<noteq> None \<and>
     hr_team_id ctx \<noteq> None \<and> hr_quota_snapshot ctx \<noteq> None"
  by (auto simp: should_try_shared_worker_def shared_worker_eligible_def requires_local_state_def
      STATELESS_TAG_def SHARED_WORKER_TAGS_def)

lemma hybrid_call_edge:
  "resolve_call_route core name = Inr (u, tool) \<Longrightarrow> \<not> should_try_shared_worker u ctx \<Longrightarrow>
   hybrid_call_tool core worker name arguments edge ctx s = call_tool core name (PDict arguments) edge s"
  by (simp add: hybrid_call_tool_def monad_simps)

text \<open>A call whose request carries no tenant scope, team or quota snapshot behaves as the plain
  broker call, whatever the shared worker would do: the hybrid router changes nothing for it.\<close>

theorem hybrid_without_context_is_local:
  assumes "hr_tenant_context ctx = None \<or> hr_team_id ctx = None \<or> hr_quota_snapshot ctx = None"
  shows "hybrid_call_tool core worker name arguments edge ctx =
    call_tool core name (PDict arguments) edge"
proof
  fix s
  have "\<not> should_try_shared_worker u ctx" for u using assms by (simp add: should_try_shared_worker_def)
  then show "hybrid_call_tool core worker name arguments edge ctx s =
      call_tool core name (PDict arguments) edge s"
    by (cases "resolve_call_route core name")
      (auto simp: hybrid_call_edge hybrid_call_tool_def call_tool_def monad_simps)
qed

lemma hybrid_without_context_is_local_witness:
  "hybrid_call_tool git_core (worker_call_tool []) ''git.log'' [] counting_caller
     (routing_context_from_params [(''team_id'', PStr ''t'')]) =
   call_tool git_core ''git.log'' (PDict []) counting_caller"
  by (rule hybrid_without_context_is_local)
    (simp add: routing_context_from_params_def optional_mapping_def dget_def dget_or_def)

text \<open>What a call does that is sent to the shared worker of the repository.\<close>

lemma worker_route_answers:
  assumes "resolve_call_route core name = Inr (u, tool)" and "should_try_shared_worker u ctx"
    and "hr_tenant_context ctx = Some tenant" and "hr_team_id ctx = Some team" and "hr_quota_snapshot ctx = Some snapshot"
  shows "snd (hybrid_call_tool core (worker_call_tool tools) name arguments edge ctx s) = s \<and>
    (\<forall>v. fst (hybrid_call_tool core (worker_call_tool tools) name arguments edge ctx s) = Inr v \<longrightarrow>
      (\<exists>quota. decide_quota tenant team (up_name u) name snapshot = Inr quota \<and>
        ((\<exists>t d. map_of tools (up_name u, name) = Some t \<and> dget quota ''allowed'' = PBool True \<and>
            execute_fake_tool t arguments default_deny = Inr d \<and> v = PDict d) \<or>
         (\<exists>d scope m. v = PDict d \<and> dget d ''allowed'' = PBool False \<and>
            dget d ''audit_event'' = PDict (worker_audit_event scope name ''denied'' m)))))"
proof (intro conjI allI impI)
  show "snd (hybrid_call_tool core (worker_call_tool tools) name arguments edge ctx s) = s"
    using assms(1,2) by (simp add: hybrid_call_tool_def monad_simps split: sum.split)
  fix v
  assume "fst (hybrid_call_tool core (worker_call_tool tools) name arguments edge ctx s) = Inr v"
  then obtain quota response where quota: "hybrid_quota_decision ctx (up_name u) name = Inr quota"
    and w: "worker_call_tool tools tenant (up_name u) STATELESS_TAG True False name arguments quota = Inr response"
    and v: "worker_answer u tool response = Inr v"
    using assms(1-3) by (auto simp: hybrid_call_tool_def monad_simps split: sum.splits)
  from quota have decided: "decide_quota tenant team (up_name u) name snapshot = Inr quota"
    by (auto simp: hybrid_quota_decision_def assms(3-5) split: sum.splits if_splits)
  from w show "\<exists>quota. decide_quota tenant team (up_name u) name snapshot = Inr quota \<and>
      ((\<exists>t d. map_of tools (up_name u, name) = Some t \<and> dget quota ''allowed'' = PBool True \<and>
          execute_fake_tool t arguments default_deny = Inr d \<and> v = PDict d) \<or>
       (\<exists>d scope m. v = PDict d \<and> dget d ''allowed'' = PBool False \<and>
          dget d ''audit_event'' = PDict (worker_audit_event scope name ''denied'' m)))"
  proof (cases rule: worker_call_tool_cases)
    case (denied t w x r a)
    obtain m where "dget response ''audit_event'' =
        PDict (worker_audit_event (worker_scope_of t w x (up_name u)) name ''denied'' (Some m))"
      using denied_decision_fields(3) denied(2) by metis
    moreover have a: "dget response ''allowed'' = PBool False" by (simp add: denied(2) denied_decision_fields)
    moreover have "v = PDict response" using v a by (simp add: worker_answer_def)
    ultimately show ?thesis using decided by blast
  next
    case allowed
    then show ?thesis using decided v by (auto simp: worker_answer_def allowed_decision_fields bindE_eq_Inr)
  qed
qed

text \<open>C37. A call leaves the local edge only for an upstream that is stateless, tagged for the shared worker,
  shared, not mutating and without local state, and only with a tenant, a team and a quota snapshot;
  every other call is the plain call of the broker. A call that leaves does not touch the edge, is
  permitted by the profile, and with the shared worker of the repository what it returns is the result of
  a registered tool whose quota decision allowed it, or the worker's denial with its audit event. A name
  that does not resolve has no effect.\<close>

theorem hybrid_worker_call_safe:
  "case resolve_call_route core name of
     Inl e \<Rightarrow> hybrid_call_tool core (worker_call_tool tools) name arguments edge ctx s = (Inl e, s)
   | Inr (u, tool) \<Rightarrow>
       (case (shared_worker_eligible u, hr_tenant_context ctx, hr_team_id ctx, hr_quota_snapshot ctx) of
          (True, Some tenant, Some team, Some snapshot) \<Rightarrow>
            snd (hybrid_call_tool core (worker_call_tool tools) name arguments edge ctx s) = s \<and> call_permitted core u \<and>
            (case fst (hybrid_call_tool core (worker_call_tool tools) name arguments edge ctx s) of
               Inl e \<Rightarrow> True
             | Inr v \<Rightarrow> \<exists>quota. decide_quota tenant team (up_name u) name snapshot = Inr quota \<and>
                 ((\<exists>t d. map_of tools (up_name u, name) = Some t \<and> dget quota ''allowed'' = PBool True \<and>
                     execute_fake_tool t arguments default_deny = Inr d \<and> v = PDict d) \<or>
                  (\<exists>d scope m. v = PDict d \<and> dget d ''allowed'' = PBool False \<and>
                     dget d ''audit_event'' = PDict (worker_audit_event scope name ''denied'' m))))
        | _ \<Rightarrow> hybrid_call_tool core (worker_call_tool tools) name arguments edge ctx s =
            call_tool core name (PDict arguments) edge s)"
proof (cases "resolve_call_route core name")
  case (Inl e)
  then show ?thesis by (simp add: hybrid_call_tool_def monad_simps)
next
  case (Inr r)
  obtain u tool where route: "resolve_call_route core name = Inr (u, tool)" using Inr by (cases r) simp
  show ?thesis
  proof (cases "should_try_shared_worker u ctx")
    case False
    then show ?thesis
      by (auto simp: route hybrid_call_edge [OF route] should_try_eligible split: option.split bool.split)
  next
    case True
    then obtain tenant team snapshot where el: "shared_worker_eligible u"
      and scope: "hr_tenant_context ctx = Some tenant" "hr_team_id ctx = Some team" "hr_quota_snapshot ctx = Some snapshot"
      by (auto simp: should_try_eligible)
    have perm: "call_permitted core u" using route by (simp add: resolve_call_route_Inr)
    note answers = worker_route_answers [OF route True scope, where tools = tools and arguments = arguments and edge = edge and s = s]
    show ?thesis
    proof (cases "fst (hybrid_call_tool core (worker_call_tool tools) name arguments edge ctx s)")
      case (Inl e)
      with answers show ?thesis by (simp only: route el scope perm prod.case sum.case bool.case option.case simp_thms)
    next
      case (Inr v)
      with answers [THEN conjunct2, rule_format, OF Inr] answers [THEN conjunct1] show ?thesis by (simp only: route el scope perm prod.case sum.case bool.case option.case simp_thms)
    qed
  qed
qed

definition search_upstreams :: upstreams where
  "search_upstreams = [(''search'', result_of
     (upstream_from_mapping os_identity Inr runtime_example ''search''
       [(''command'', PStr ''s''), (''tags'', PList [PStr ''stateless'', PStr ''shared-worker''])]))]"

definition search_core :: broker_core where
  "search_core = \<lparr>bk_settings = router_settings, bk_upstreams = search_upstreams, bk_profile = None\<rparr>"

definition search_context :: "pydict \<Rightarrow> hybrid_routing_context" where
  "search_context snapshot = \<lparr>hr_tenant_context = Some tenant_example, hr_team_id = Some ''core'',
     hr_quota_snapshot = Some snapshot\<rparr>"

definition search_worker :: worker_tools where
  "search_worker = [((''search'', ''search.query''), echo_tool)]"

definition search_call :: "pydict \<Rightarrow> pyval res \<times> nat locked" where
  "search_call snapshot = hybrid_call_tool search_core (worker_call_tool search_worker) ''search.query''
     [(''q'', PInt 1)] counting_caller (search_context snapshot) ({}, 0)"

definition search_upstream :: upstream_config where
  "search_upstream = fst (result_of (resolve_call_route search_core ''search.query''))"

definition search_tool :: string where
  "search_tool = snd (result_of (resolve_call_route search_core ''search.query''))"

lemma search_routed: "resolve_call_route search_core ''search.query'' = Inr (search_upstream, search_tool)"
proof -
  have "is_result (resolve_call_route search_core ''search.query'')" by code_simp
  then show ?thesis unfolding search_upstream_def search_tool_def by (simp add: is_result_Inr [symmetric])
qed

text \<open>The quota of the snapshot allows a call of the worker, and a snapshot without limits denies it.\<close>

lemma search_calls:
  "(case fst (search_call quota_snapshot_example) of Inr (PDict d) \<Rightarrow> dget d ''allowed'' \<noteq> PBool False | _ \<Rightarrow> False)"
  "(case fst (search_call []) of Inr (PDict d) \<Rightarrow> dget d ''allowed'' = PBool False | _ \<Rightarrow> False)"
  "shared_worker_eligible search_upstream"
  by code_simp+

lemma hybrid_worker_call_safe_witness:
  "(\<exists>d. fst (search_call quota_snapshot_example) = Inr (PDict d) \<and> execute_fake_tool echo_tool [(''q'', PInt 1)] default_deny = Inr d)
   \<and> snd (search_call quota_snapshot_example) = ({}, 0) \<and> snd (search_call []) = ({}, 0)"
proof -
  obtain d where d: "fst (search_call quota_snapshot_example) = Inr (PDict d)" "dget d ''allowed'' \<noteq> PBool False"
    using search_calls(1) by (auto split: sum.splits pyval.splits)
  note safe = hybrid_worker_call_safe [where core = search_core and tools = search_worker and name = "''search.query''"
      and arguments = "[(''q'', PInt 1)]" and edge = counting_caller and s = "({}, 0)"
      and ctx = "search_context snapshot" for snapshot, folded search_call_def, unfolded search_routed prod.case sum.case]
  from safe [of quota_snapshot_example] safe [of "[]"] d show ?thesis
    by (auto simp: search_calls(3) search_context_def search_worker_def split: if_splits sum.splits)
qed

end
