(* ===== verification/Request_Meta.thy ===== *)
theory Request_Meta
  imports Config_Checks
begin

text \<open>
  What the broker adds to a call on behalf of its caller: the project slug derived from the caller's
  directory (\<^verbatim>\<open>project_slug.py\<close>) and the request metadata that is forwarded upstream
  (\<^verbatim>\<open>request_metadata.py\<close>), whose two context variables are the state of a scope.
\<close>

section \<open>The project slug\<close>

text \<open>
  \<open>git_at p\<close> answers \<open>(p / ".git").exists()\<close>; \<open>None\<close> is an \<open>OSError\<close>. The walk is bounded
  by \<open>_MAX_WALK\<close>; its result is the repository root, or nothing.
\<close>

definition MAX_WALK :: nat where
  "MAX_WALK = 64"

fun find_git_root :: "(path \<Rightarrow> bool option) \<Rightarrow> nat \<Rightarrow> path \<Rightarrow> path option" where
  "find_git_root git_at 0 cur = None"
| "find_git_root git_at (Suc n) cur =
     (case git_at cur of
        None \<Rightarrow> None
      | Some True \<Rightarrow> Some cur
      | Some False \<Rightarrow> if path_parent cur = cur then None else find_git_root git_at n (path_parent cur))"

definition slug_of_path :: "path \<Rightarrow> string" where
  "slug_of_path p = replace_char CHR ''/'' CHR ''-'' (dropWhile (\<lambda>c. c = CHR ''/'') (path_str p))"

definition derive_project_slug :: "(path \<Rightarrow> bool option) \<Rightarrow> string option \<Rightarrow> string option" where
  "derive_project_slug git_at client_cwd =
     (case client_cwd of
        None \<Rightarrow> None
      | Some cwd \<Rightarrow>
          if cwd = [] \<or> \<not> is_absolute (path_of cwd) then None
          else Some (slug_of_path (case find_git_root git_at MAX_WALK (path_of cwd) of
            None \<Rightarrow> path_of cwd | Some r \<Rightarrow> r)))"

definition inject_cwd_project ::
    "(path \<Rightarrow> bool option) \<Rightarrow> string \<Rightarrow> pydict \<Rightarrow> string option \<Rightarrow> string \<Rightarrow> string \<Rightarrow> string list \<Rightarrow> pydict" where
  "inject_cwd_project git_at name arguments client_cwd tool_prefix separator exclude =
     (let pre = tool_prefix @ separator in
      if \<not> prefix pre name then arguments
      else if drop (length pre) name \<in> set exclude then arguments
      else if (case dget arguments ''project'' of PStr s \<Rightarrow> strip s \<noteq> [] | _ \<Rightarrow> False) then arguments
      else case derive_project_slug git_at client_cwd of
        None \<Rightarrow> arguments
      | Some slug \<Rightarrow> if slug = [] then arguments else AList.update ''project'' (PStr slug) arguments)"

text \<open>The loop of \<open>_inject_cwd_project_arg\<close> over the configured upstreams.\<close>

definition inject_cwd_project_arg ::
    "(path \<Rightarrow> bool option) \<Rightarrow> broker_config \<Rightarrow> string option \<Rightarrow> string \<Rightarrow> pydict \<Rightarrow> pydict" where
  "inject_cwd_project_arg git_at cfg client_cwd name arguments =
     (if client_cwd = None \<or> client_cwd = Some [] then arguments
      else
        let sep = bs_tool_namespace_separator (bc_broker cfg);
            separator = (if sep = [] then ''.'' else sep)
        in fold (\<lambda>(n, u) args. if \<not> up_inject_cwd_project u then args
             else inject_cwd_project git_at name args client_cwd (upstream_prefix u) separator
                    (up_inject_cwd_project_exclude u)) (bc_upstreams cfg) arguments)"

lemma find_git_root_ancestor:
  "find_git_root git_at n p = Some r \<Longrightarrow> git_at r = Some True \<and>
     path_root r = path_root p \<and> prefix (path_parts r) (path_parts p)"
proof (induction n arbitrary: p)
  case 0
  then show ?case by simp
next
  case (Suc n)
  show ?case
  proof (cases "git_at p = Some False")
    case True
    with Suc.prems have "find_git_root git_at n (path_parent p) = Some r"
      by (simp split: if_splits)
    from Suc.IH [OF this] show ?thesis
      using prefix_order.trans prefixeq_butlast by auto
  next
    case False
    with Suc.prems show ?thesis by (auto split: option.splits bool.splits)
  qed
qed

text \<open>The nearest repository is found when it is at most 63 levels up and no lookup fails before it.\<close>

lemma find_git_root_nearest:
  assumes "git_at ((path_parent ^^ k) p) = Some True" "k < n"
    and "\<forall>j < k. git_at ((path_parent ^^ j) p) = Some False \<and>
      path_parts ((path_parent ^^ j) p) \<noteq> []"
  shows "find_git_root git_at n p = Some ((path_parent ^^ k) p)"
  using assms
proof (induction k arbitrary: p n)
  case 0
  then show ?case by (cases n) simp_all
next
  case (Suc k)
  then obtain m where n: "n = Suc m" by (cases n) auto
  have p0: "git_at p = Some False" "path_parts p \<noteq> []" using Suc.prems(3) by force+
  have ne: "path_parent p \<noteq> p"
  proof
    assume "path_parent p = p"
    then have "path_parts p = butlast (path_parts p)" by (metis path_parent_sel(2))
    then have "length (path_parts p) = length (path_parts p) - 1" by (metis length_butlast)
    with p0(2) show False by (cases "path_parts p") auto
  qed
  have "find_git_root git_at m (path_parent p) = Some ((path_parent ^^ k) (path_parent p))"
  proof (rule Suc.IH)
    show "git_at ((path_parent ^^ k) (path_parent p)) = Some True"
      using Suc.prems(1) by (simp add: funpow_swap1)
    show "k < m" using Suc.prems(2) n by simp
    show "\<forall>j<k. git_at ((path_parent ^^ j) (path_parent p)) = Some False \<and>
        path_parts ((path_parent ^^ j) (path_parent p)) \<noteq> []"
    proof (intro allI impI)
      fix j assume "j < k"
      then have "Suc j < Suc k" by simp
      with Suc.prems(3) have "git_at ((path_parent ^^ Suc j) p) = Some False \<and>
          path_parts ((path_parent ^^ Suc j) p) \<noteq> []" by blast
      then show "git_at ((path_parent ^^ j) (path_parent p)) = Some False \<and>
        path_parts ((path_parent ^^ j) (path_parent p)) \<noteq> []" by (simp add: funpow_swap1)
    qed
  qed
  with p0 ne n show ?case by (simp add: funpow_swap1)
qed

definition has_project :: "pydict \<Rightarrow> bool" where
  "has_project arguments \<longleftrightarrow> (\<exists>s. dget arguments ''project'' = PStr s \<and> \<not> blank s)"

lemma inject_has_project:
  "has_project arguments \<Longrightarrow> inject_cwd_project git_at name arguments cwd pre sep exclude = arguments"
  by (auto simp: inject_cwd_project_def has_project_def Let_def)

lemma inject_others:
  "k \<noteq> ''project'' \<Longrightarrow>
   map_of (inject_cwd_project git_at name arguments cwd pre sep exclude) k = map_of arguments k"
  by (simp add: inject_cwd_project_def Let_def split: option.split pyval.split)

lemma inject_result:
  "inject_cwd_project git_at name arguments cwd pre sep exclude = arguments \<or>
   (\<exists>slug. derive_project_slug git_at cwd = Some slug \<and> slug \<noteq> [] \<and>
      inject_cwd_project git_at name arguments cwd pre sep exclude =
        AList.update ''project'' (PStr slug) arguments)"
  by (auto simp: inject_cwd_project_def Let_def split: option.split)

text \<open>Injecting the project never touches another argument and never overrides a project the
  caller gave; when it adds one, the slug is that of the caller's own directory.\<close>

theorem inject_respects_caller:
  "(\<forall>k. k \<noteq> ''project'' \<longrightarrow>
      map_of (inject_cwd_project_arg git_at cfg cwd name arguments) k = map_of arguments k) \<and>
   (has_project arguments \<longrightarrow> inject_cwd_project_arg git_at cfg cwd name arguments = arguments) \<and>
   (dget (inject_cwd_project_arg git_at cfg cwd name arguments) ''project'' \<noteq> dget arguments ''project'' \<longrightarrow>
      (\<exists>slug. derive_project_slug git_at cwd = Some slug \<and>
         dget (inject_cwd_project_arg git_at cfg cwd name arguments) ''project'' = PStr slug))"
proof -
  let ?f = "\<lambda>sep (n :: string, u) args. if \<not> up_inject_cwd_project u then args
     else inject_cwd_project git_at name args cwd (upstream_prefix u) sep
            (up_inject_cwd_project_exclude u)"
  have others: "map_of (fold (?f sep) ups args) k = map_of args k" if "k \<noteq> ''project''" for sep ups args k
    using that by (induction ups arbitrary: args) (auto simp: inject_others)
  have kept: "fold (?f sep) ups args = args" if "has_project args" for sep ups args
    using that by (induction ups arbitrary: args) (auto simp: inject_has_project)
  have slug: "dget (fold (?f sep) ups args) ''project'' \<noteq> dget args ''project'' \<longrightarrow>
      (\<exists>slug. derive_project_slug git_at cwd = Some slug \<and>
        dget (fold (?f sep) ups args) ''project'' = PStr slug)" for sep ups args
  proof (induction ups arbitrary: args)
    case Nil
    then show ?case by simp
  next
    case (Cons nu ups)
    obtain n u where nu: "nu = (n, u)" by (cases nu)
    have "?f sep nu args = args \<or> (\<exists>slug. derive_project_slug git_at cwd = Some slug \<and>
        dget (?f sep nu args) ''project'' = PStr slug)"
      using inject_result [of git_at name args cwd "upstream_prefix u" sep
          "up_inject_cwd_project_exclude u"]
      by (auto simp: nu dget_def dget_or_def)
    with Cons.IH [of "?f sep nu args"] show ?case by auto
  qed
  show ?thesis
    using others kept slug by (auto simp: inject_cwd_project_arg_def Let_def)
qed

definition slug_config :: broker_config where
  "slug_config = config_example [(''cbm'', [(''command'', PStr ''cbm''), (''inject_cwd_project'', PBool True)])]"

lemma inject_respects_caller_witness:
  "dget (inject_cwd_project_arg (\<lambda>p. Some (p = path_of ''/home/u/r'')) slug_config
       (Some ''/home/u/r/sub'') ''cbm.search'' [(''q'', PInt 1)]) ''project'' = PStr ''home-u-r'' \<and>
   map_of (inject_cwd_project_arg (\<lambda>p. Some (p = path_of ''/home/u/r'')) slug_config
       (Some ''/home/u/r/sub'') ''cbm.search'' [(''q'', PInt 1)]) ''q'' = Some (PInt 1)"
proof -
  have "dget (inject_cwd_project_arg (\<lambda>p. Some (p = path_of ''/home/u/r'')) slug_config
       (Some ''/home/u/r/sub'') ''cbm.search'' [(''q'', PInt 1)]) ''project'' = PStr ''home-u-r''"
    by code_simp
  with inject_respects_caller [of "\<lambda>p. Some (p = path_of ''/home/u/r'')" slug_config
      "Some ''/home/u/r/sub''" "''cbm.search''" "[(''q'', PInt 1)]"]
  show ?thesis by simp
qed

section \<open>Request metadata\<close>

definition RESULT_BUDGET_META_KEY :: string where
  "RESULT_BUDGET_META_KEY = ''mcp-broker/result_budget_chars''"

record meta_context =
  mc_current :: pydict
  mc_broker :: pydict

type_synonym ('s, 'a) meta_sem = "(meta_context \<times> 's, exn, 'a) sem"

text \<open>The token of \<open>ContextVar.set\<close> restores the earlier value on every exit.\<close>

definition request_metadata_scope :: "pyval \<Rightarrow> ('s, 'a) meta_sem \<Rightarrow> ('s, 'a) meta_sem" where
  "request_metadata_scope params m =
     (let metadata = (case params of PDict d \<Rightarrow> dget_or d ''_meta'' (PDict []) | _ \<Rightarrow> PDict []) in
      case metadata of
        PDict d \<Rightarrow> (\<lambda>(c, s). case m (c\<lparr>mc_current := d\<rparr>, s) of
           (r, (c', s')) \<Rightarrow> (r, (c'\<lparr>mc_current := mc_current c\<rparr>, s')))
      | _ \<Rightarrow> raiseS (Exn ValueError ''tools/call _meta must be an object''))"

definition broker_request_metadata_scope :: "pydict \<Rightarrow> ('s, 'a) meta_sem \<Rightarrow> ('s, 'a) meta_sem" where
  "broker_request_metadata_scope metadata m =
     (\<lambda>(c, s). case m (c\<lparr>mc_broker := metadata\<rparr>, s) of
        (r, (c', s')) \<Rightarrow> (r, (c'\<lparr>mc_broker := mc_broker c\<rparr>, s')))"

definition forwarded_request_metadata :: "meta_context \<Rightarrow> string list \<Rightarrow> pydict" where
  "forwarded_request_metadata c names =
     dict_of (map (\<lambda>n. (n, dget (mc_current c) n)) (filter (dhas (mc_current c)) names))"

definition broker_request_metadata :: "meta_context \<Rightarrow> pydict" where
  "broker_request_metadata c = mc_broker c"

definition outbound_request_metadata :: "meta_context \<Rightarrow> string list \<Rightarrow> pydict" where
  "outbound_request_metadata c names =
     fold (\<lambda>(k, v). AList.update k v) (broker_request_metadata c) (forwarded_request_metadata c names)"

definition result_budget_metadata :: "tool_exposure_profile option \<Rightarrow> pydict" where
  "result_budget_metadata profile =
     (case profile of
        None \<Rightarrow> []
      | Some p \<Rightarrow> (case pf_result_budget_chars p of
          None \<Rightarrow> [] | Some b \<Rightarrow> [(RESULT_BUDGET_META_KEY, PInt b)]))"

lemma map_of_rev_same: "\<forall>(k, v) \<in> set kvs. v = f k \<Longrightarrow>
    map_of (rev kvs) k = (if k \<in> fst ` set kvs then Some (f k) else None)"
  by (induction kvs rule: rev_induct) auto

lemma map_of_forwarded:
  "map_of (forwarded_request_metadata c names) k =
     (if k \<in> set names then map_of (mc_current c) k else None)"
proof -
  let ?kvs = "map (\<lambda>n. (n, dget (mc_current c) n)) (filter (dhas (mc_current c)) names)"
  have "map_of (rev ?kvs) k = (if k \<in> fst ` set ?kvs then Some (dget (mc_current c) k) else None)"
    by (rule map_of_rev_same) auto
  moreover have "fst ` set ?kvs = {n \<in> set names. dhas (mc_current c) n}" by force
  ultimately have "map_of (forwarded_request_metadata c names) k =
      (if k \<in> set names \<and> dhas (mc_current c) k then Some (dget (mc_current c) k) else None)"
    by (simp only: forwarded_request_metadata_def map_of_dict_of) simp
  then show ?thesis by (auto simp: dhas_def dget_def dget_or_def)
qed

text \<open>A forwarded field is one that the administrator approved and the caller sent, or one the
  broker owns, and the broker's value wins: a caller can neither send an unapproved field nor
  override the broker's.\<close>

theorem outbound_metadata_lookup:
  assumes "dict_wf (mc_broker c)"
  shows "map_of (outbound_request_metadata c names) k =
    (case map_of (mc_broker c) k of
       Some v \<Rightarrow> Some v
     | None \<Rightarrow> if k \<in> set names then map_of (mc_current c) k else None)"
  using assms
  by (cases "map_of (mc_broker c) k")
    (simp_all add: outbound_request_metadata_def broker_request_metadata_def pydict.lookup_fold
      map_of_forwarded dict_wf_def map_of_distinct_rev)

lemma outbound_metadata_lookup_witness:
  "map_of (outbound_request_metadata \<lparr>mc_current = [(''a'', PInt 1), (RESULT_BUDGET_META_KEY, PInt 9)],
     mc_broker = [(RESULT_BUDGET_META_KEY, PInt 5)]\<rparr> [''a'', RESULT_BUDGET_META_KEY])
     RESULT_BUDGET_META_KEY = Some (PInt 5)"
  by (subst outbound_metadata_lookup) (simp_all add: dict_wf_def)

text \<open>The scopes leave the context variables as they found them, on every exit.\<close>

lemma request_metadata_scope_restores:
  assumes "\<And>c s. fst (snd (m (c, s))) = c"
  shows "fst (snd (request_metadata_scope params m (c, s))) = c"
  using assms [of "c\<lparr>mc_current := d\<rparr>" s for d]
  by (auto simp: request_metadata_scope_def Let_def raiseS_def split: pyval.split prod.splits)
    (metis fst_conv meta_context.surjective meta_context.update_convs(1) snd_conv)+

end
