(* ===== verification/Projection.thy ===== *)
theory Projection
  imports PyValue
begin

text \<open>
  The server-side projection of a tool result (\<^verbatim>\<open>catalog.py\<close>, \<open>project_value\<close> to
  \<open>_normalize_projection\<close>): pruning a value to dotted field paths and capping its arrays.
  \<open>json.loads\<close> is an argument (\<open>None\<close> when it raises), since its floats need IEEE rounding.
\<close>

section \<open>Path trees\<close>

text \<open>The nested dictionaries of \<open>_build_path_tree\<close>; no tree and the empty tree select the same.\<close>

datatype path_tree = Node (tree_kids: "(string \<times> path_tree) list")

fun insert_path :: "string list \<Rightarrow> path_tree \<Rightarrow> path_tree" where
  "insert_path [] t = t"
| "insert_path (p # ps) (Node kids) = Node (AList.update p
     (insert_path ps (case map_of kids p of None \<Rightarrow> Node [] | Some t \<Rightarrow> t)) kids)"

definition build_path_tree :: "string list \<Rightarrow> path_tree" where
  "build_path_tree paths = fold (\<lambda>path. insert_path (split_char CHR ''.'' path)) paths (Node [])"

text \<open>\<open>xs[:cap]\<close>\<close>

definition slice_to :: "'a list \<Rightarrow> int \<Rightarrow> 'a list" where
  "slice_to xs i = (if 0 \<le> i then take (nat i) xs else take (length xs - nat (- i)) xs)"

definition cap_list :: "int option \<Rightarrow> 'a list \<Rightarrow> 'a list" where
  "cap_list cap xs = (case cap of None \<Rightarrow> xs | Some i \<Rightarrow> slice_to xs i)"

lemma size_map_of: "map_of d k = Some x \<Longrightarrow> size x < size (PDict d)"
  by (rule size_snd_mem_dict) (rule map_of_SomeD)

function project :: "pyval \<Rightarrow> path_tree \<Rightarrow> int option \<Rightarrow> pyval" where
  "project (PList xs) t cap = PList (cap_list cap (map (\<lambda>x. project x t cap) xs))"
| "project (PDict d) t cap =
     (if tree_kids t = [] then PDict (map (\<lambda>(k, x). (k, project x (Node []) cap)) d)
      else PDict (List.map_filter (\<lambda>(k, s). case map_of d k of
             None \<Rightarrow> None | Some x \<Rightarrow> Some (k, project x s cap)) (tree_kids t)))"
| "project PNone t cap = PNone"
| "project (PBool b) t cap = PBool b"
| "project (PInt i) t cap = PInt i"
| "project (PFloat r s) t cap = PFloat r s"
| "project (PStr s) t cap = PStr s"
  by pat_completeness auto
termination
  by (relation "measure (\<lambda>(v, t, cap). size v)")
    (auto dest: size_mem_list size_snd_mem_dict size_map_of simp del: pyval.size)

definition project_value :: "pyval \<Rightarrow> string list \<Rightarrow> int option \<Rightarrow> pyval" where
  "project_value v paths cap = project v (if paths = [] then Node [] else build_path_tree paths) cap"

section \<open>Applying a projection\<close>

definition normalize_projection :: "pydict \<Rightarrow> (string list \<times> int option) res" where
  "normalize_projection projection =
     (let unknown = filter (\<lambda>k. k \<noteq> ''paths'' \<and> k \<noteq> ''max_array_items'') (map fst projection) in
      bindE (require (unknown = [])
        (Exn ValueError (''projection has unknown keys: '' @ py_repr (PList (map PStr (sort unknown)))))) (\<lambda>_.
      bindE (case dget projection ''paths'' of
          PNone \<Rightarrow> Inr []
        | PList xs \<Rightarrow> if list_all is_str xs then Inr (filter (\<lambda>p. p \<noteq> []) (map py_str xs))
            else value_error ''projection.paths must be a list of strings''
        | _ \<Rightarrow> value_error ''projection.paths must be a list of strings'') (\<lambda>paths.
      bindE (case dget projection ''max_array_items'' of
          PNone \<Rightarrow> Inr None
        | PInt i \<Rightarrow> if i < 0 then value_error ''projection.max_array_items must be a non-negative integer''
            else Inr (Some i)
        | _ \<Rightarrow> value_error ''projection.max_array_items must be a non-negative integer'') (\<lambda>cap.
      Inr (paths, cap)))))"

type_synonym json_loads = "string \<Rightarrow> pyval option"

definition project_text_block ::
    "json_loads \<Rightarrow> pyval \<Rightarrow> string list \<Rightarrow> int option \<Rightarrow> pyval option" where
  "project_text_block loads block paths cap =
     (case block of
        PDict d \<Rightarrow>
          if dget d ''type'' = PStr ''text'' then
            (case dget d ''text'' of
               PStr t \<Rightarrow> (case loads t of
                   None \<Rightarrow> None
                 | Some v \<Rightarrow> Some (PDict (AList.update ''text'' (PStr (dumps (project_value v paths cap))) d)))
             | _ \<Rightarrow> None)
          else None
      | _ \<Rightarrow> None)"

text \<open>
  \<open>setdefault("_meta", {})["projection"] = note\<close>: item assignment on a value that is not a
  mapping raises \<open>TypeError\<close>.
\<close>

definition note_projection :: "bool \<Rightarrow> string list \<Rightarrow> int option \<Rightarrow> pydict \<Rightarrow> pydict res" where
  "note_projection applied paths cap projected =
     (let note = PDict [(''applied'', PBool applied), (''paths'', PList (map PStr paths)),
            (''max_array_items'', case cap of None \<Rightarrow> PNone | Some i \<Rightarrow> PInt i)]
      in case dget_or projected ''_meta'' (PDict []) of
           PDict m \<Rightarrow> Inr (AList.update ''_meta'' (PDict (AList.update ''projection'' note m)) projected)
         | v \<Rightarrow> Inl (Exn TypeError (''object does not support item assignment: '' @ type_name v)))"

definition apply_projection :: "json_loads \<Rightarrow> pydict \<Rightarrow> pydict \<Rightarrow> pydict res" where
  "apply_projection loads response projection =
     bindE (normalize_projection projection) (\<lambda>(paths, cap).
     if paths = [] \<and> cap = None then Inr response
     else if is_dict (dget response ''structuredContent'') \<or> is_list (dget response ''structuredContent'')
     then (let pruned = project_value (dget response ''structuredContent'') paths cap in
       note_projection True paths cap (AList.update ''content''
         (PList [PDict [(''type'', PStr ''text''), (''text'', PStr (dumps pruned))]])
         (AList.update ''structuredContent'' pruned response)))
     else (let blocks = (case dget response ''content'' of PList xs \<Rightarrow> xs | _ \<Rightarrow> []);
               applied = list_ex (\<lambda>b. project_text_block loads b paths cap \<noteq> None) blocks;
               new_content = map (\<lambda>b. case project_text_block loads b paths cap of
                   None \<Rightarrow> b | Some p \<Rightarrow> p) blocks
           in note_projection applied paths cap (AList.update ''content'' (PList new_content) response)))"

section \<open>What a projection keeps\<close>

text \<open>
  The field paths of a value: keys into dictionaries, lists transparent. A tree allows a path when
  it reaches an end of the tree on it, or the path ends inside the tree.
\<close>

inductive has_path :: "pyval \<Rightarrow> string list \<Rightarrow> bool" where
  here: "has_path v []"
| elem: "x \<in> set xs \<Longrightarrow> has_path x ps \<Longrightarrow> has_path (PList xs) ps"
| key: "map_of d k = Some x \<Longrightarrow> has_path x ps \<Longrightarrow> has_path (PDict d) (k # ps)"

inductive_cases has_path_listE: "has_path (PList xs) ps"
inductive_cases has_path_dictE: "has_path (PDict d) ps"
inductive_simps has_path_leaf: "has_path PNone ps" "has_path (PBool b) ps" "has_path (PInt i) ps"
  "has_path (PFloat r s) ps" "has_path (PStr s) ps"

fun tree_allows :: "path_tree \<Rightarrow> string list \<Rightarrow> bool" where
  "tree_allows t [] = True"
| "tree_allows (Node kids) (p # ps) = (kids = [] \<or>
     (\<exists>t. map_of kids p = Some t \<and> tree_allows t ps))"

lemma tree_allows_empty [simp]: "tree_allows (Node []) ps"
  by (cases ps) auto

lemma map_of_map_filter:
  "map_of (List.map_filter (\<lambda>(k, s). case f k of None \<Rightarrow> None | Some x \<Rightarrow> Some (k, g x s)) kids) k =
     (case map_of kids k of None \<Rightarrow> None | Some s \<Rightarrow> (case f k of None \<Rightarrow> None | Some x \<Rightarrow> Some (g x s)))"
  if "distinct (map fst kids)"
  using that
proof (induction kids)
  case Nil
  then show ?case by (simp add: List.map_filter_simps)
next
  case (Cons ks kids)
  obtain k' s where ks: "ks = (k', s)" by (cases ks)
  show ?case
  proof (cases "f k'")
    case None
    with Cons show ?thesis
      by (auto simp: ks List.map_filter_simps map_of_eq_None_iff [symmetric] split: option.splits)
  next
    case (Some x)
    with Cons show ?thesis by (auto simp: ks List.map_filter_simps)
  qed
qed

fun wf_tree :: "path_tree \<Rightarrow> bool" where
  "wf_tree (Node kids) = (distinct (map fst kids) \<and> list_all (\<lambda>(k, t). wf_tree t) kids)"

lemma wf_tree_kid: "wf_tree (Node kids) \<Longrightarrow> map_of kids k = Some t \<Longrightarrow> wf_tree t"
  by (auto simp: list_all_iff dest: map_of_SomeD)

lemma wf_insert_path: "wf_tree t \<Longrightarrow> wf_tree (insert_path ps t)"
proof (induction ps t rule: insert_path.induct)
  case (1 t)
  then show ?case by simp
next
  case (2 p ps kids)
  let ?s = "insert_path ps (case map_of kids p of None \<Rightarrow> Node [] | Some t \<Rightarrow> t)"
  have "wf_tree ?s"
  proof (cases "map_of kids p")
    case None
    with 2(1) show ?thesis by simp
  next
    case (Some t)
    with 2(2) have "wf_tree t" by (rule wf_tree_kid)
    with 2(1) Some show ?thesis by simp
  qed
  then have "list_all (\<lambda>(k, t). wf_tree t) (AList.update p ?s kids)"
    using 2(2) set_update_subset [of p ?s kids] by (auto simp: list_all_iff)
  with 2(2) show ?case by (simp add: distinct_update)
qed

lemma wf_build_path_tree: "wf_tree (build_path_tree paths)"
proof -
  have "wf_tree t \<Longrightarrow> wf_tree (fold (\<lambda>path. insert_path (split_char CHR ''.'' path)) paths t)" for t
    by (induction paths arbitrary: t) (auto intro: wf_insert_path)
  then show ?thesis by (simp add: build_path_tree_def)
qed

lemma cap_list_subset: "set (cap_list cap xs) \<subseteq> set xs"
  by (auto simp: cap_list_def slice_to_def split: option.splits dest: in_set_takeD)

text \<open>The projection keeps only paths of the value that the tree allows.\<close>

lemma project_has_path:
  assumes "has_path w ps" "w = project v t cap" "wf_tree t"
  shows "has_path v ps \<and> tree_allows t ps"
  using assms
proof (induction arbitrary: v t rule: has_path.induct)
  case (here v)
  then show ?case by (auto intro: has_path.here)
next
  case (elem x xs ps)
  then obtain ys where v: "v = PList ys"
    by (cases v) (auto split: if_splits)
  with elem.prems(1) elem.hyps(1) have "x \<in> set (map (\<lambda>y. project y t cap) ys)"
    using cap_list_subset [of cap "map (\<lambda>y. project y t cap) ys"] by auto
  then obtain y where "y \<in> set ys" "x = project y t cap" by auto
  with elem.IH [of y t] elem.prems(2) show ?case by (auto simp: v intro: has_path.elem)
next
  case (key d k x ps)
  then obtain e where v: "v = PDict e"
    by (cases v) (auto split: if_splits)
  obtain kids where t: "t = Node kids" by (cases t)
  show ?case
  proof (cases "kids = []")
    case True
    with key.prems(1) have "d = map (\<lambda>(k, x). (k, project x (Node []) cap)) e" by (simp add: v t)
    with key.hyps(1) obtain y where "map_of e k = Some y" "x = project y (Node []) cap"
      by (auto simp: map_of_map)
    with key.IH [of y "Node []"] True show ?thesis by (auto simp: v t intro: has_path.key)
  next
    case False
    with key.prems(1) have "d = List.map_filter (\<lambda>(k, s). case map_of e k of
        None \<Rightarrow> None | Some x \<Rightarrow> Some (k, project x s cap)) kids" by (simp add: v t)
    with key.hyps(1) key.prems(2) obtain s y where s: "map_of kids k = Some s"
      and y: "map_of e k = Some y" "x = project y s cap"
      by (auto simp: t map_of_map_filter [where g = "\<lambda>x s. project x s cap"] split: option.splits)
    from key.IH [OF y(2)] wf_tree_kid key.prems(2) s have "has_path y ps \<and> tree_allows s ps"
      by (auto simp: t)
    with s y show ?thesis by (auto simp: v t intro: has_path.key)
  qed
qed

text \<open>What the tree of a list of paths allows: a path that goes on from, or ends inside, one of them.\<close>

lemma fresh_path_allows: "tree_allows (insert_path ps (Node [])) qs \<Longrightarrow> prefix ps qs \<or> prefix qs ps"
proof (induction ps arbitrary: qs)
  case Nil
  then show ?case by simp
next
  case (Cons p ps)
  then show ?case by (cases qs) (auto split: if_splits)
qed

lemma insert_path_allows:
  assumes "tree_allows (insert_path ps t) qs"
  shows "tree_allows t qs \<or> prefix ps qs \<or> prefix qs ps"
  using assms
proof (induction ps t arbitrary: qs rule: insert_path.induct)
  case (1 t)
  then show ?case by simp
next
  case (2 p ps kids)
  show ?case
  proof (cases qs)
    case Nil
    then show ?thesis by simp
  next
    case (Cons q qs')
    let ?sub = "case map_of kids p of None \<Rightarrow> Node [] | Some t \<Rightarrow> t"
    have ne: "AList.update p (insert_path ps ?sub) kids \<noteq> []" by (cases kids) auto
    show ?thesis
    proof (cases "q = p")
      case False
      with 2(2) ne show ?thesis by (auto simp: Cons)
    next
      case True
      with 2(2) ne have a: "tree_allows (insert_path ps ?sub) qs'" by (auto simp: Cons)
      show ?thesis
      proof (cases "map_of kids p")
        case None
        with a have "prefix ps qs' \<or> prefix qs' ps" using fresh_path_allows by simp
        with True show ?thesis by (auto simp: Cons)
      next
        case (Some t)
        with 2(1) [OF a] True show ?thesis by (auto simp: Cons)
      qed
    qed
  qed
qed

abbreviation dotted :: "string \<Rightarrow> string list" where
  "dotted p \<equiv> split_char CHR ''.'' p"

lemma build_path_tree_allows:
  assumes "tree_allows (build_path_tree paths) qs" "paths \<noteq> []"
  shows "\<exists>p \<in> set paths. prefix (dotted p) qs \<or> prefix qs (dotted p)"
proof -
  have step: "\<exists>p \<in> set ps. prefix (dotted p) qs \<or> prefix qs (dotted p)"
    if "tree_allows (fold (\<lambda>path. insert_path (dotted path)) ps t) qs" "\<not> tree_allows t qs" for ps t
    using that
  proof (induction ps arbitrary: t)
    case Nil
    then show ?case by simp
  next
    case (Cons p ps)
    then show ?case
      using insert_path_allows [of "dotted p" t qs]
      by (cases "tree_allows (insert_path (dotted p) t) qs") auto
  qed
  obtain p ps where paths: "paths = p # ps" using assms(2) by (cases paths) auto
  show ?thesis
  proof (cases "tree_allows (insert_path (dotted p) (Node [])) qs")
    case True
    then show ?thesis using fresh_path_allows by (auto simp: paths)
  next
    case False
    with assms(1) step [of ps "insert_path (dotted p) (Node [])"] show ?thesis
      by (auto simp: build_path_tree_def paths)
  qed
qed

text \<open>A projection invents nothing and leaks nothing: every field path of the projected value is a
  field path of the original, and when paths are requested it goes on from one of them or ends
  inside one of them.\<close>

theorem project_value_sound:
  assumes "has_path (project_value v paths cap) qs"
  shows "has_path v qs \<and>
    (paths = [] \<or> (\<exists>p \<in> set paths. prefix (dotted p) qs \<or> prefix qs (dotted p)))"
proof (cases "paths = []")
  case True
  then show ?thesis using project_has_path [OF assms] by (simp add: project_value_def)
next
  case False
  then show ?thesis
    using project_has_path [OF assms, of v "build_path_tree paths" cap] wf_build_path_tree
      build_path_tree_allows by (auto simp: project_value_def)
qed

definition items_example :: pyval where
  "items_example = PDict [(''items'', PList [PDict [(''id'', PInt 1), (''x'', PInt 2)],
     PDict [(''id'', PInt 3)]]), (''total'', PInt 2)]"

lemma project_value_sound_witness:
  "has_path items_example [''items'', ''id''] \<and>
   project_value items_example [''items.id''] (Some 1) =
     PDict [(''items'', PList [PDict [(''id'', PInt 1)]])]"
proof
  have e: "project_value items_example [''items.id''] (Some 1) =
     PDict [(''items'', PList [PDict [(''id'', PInt 1)]])]" by code_simp
  then show "project_value items_example [''items.id''] (Some 1) =
     PDict [(''items'', PList [PDict [(''id'', PInt 1)]])]" .
  have "has_path (project_value items_example [''items.id''] (Some 1)) [''items'', ''id'']"
    unfolding e
    by (rule has_path.key, simp, rule has_path.elem, rule list.set_intros(1), rule has_path.key, simp,
        rule has_path.here)
  from project_value_sound [OF this] show "has_path items_example [''items'', ''id'']" by blast
qed

section \<open>Caps and repetition\<close>

text \<open>Every list in the value is at most so long.\<close>

fun lists_capped :: "nat \<Rightarrow> pyval \<Rightarrow> bool" where
  "lists_capped n (PList xs) = (length xs \<le> n \<and> list_all (lists_capped n) xs)"
| "lists_capped n (PDict d) = list_all (\<lambda>(k, v). lists_capped n v) d"
| "lists_capped n v = True"

lemma set_map_filter:
  "y \<in> set (List.map_filter f xs) \<longleftrightarrow> (\<exists>x \<in> set xs. f x = Some y)"
  by (induction xs) (auto simp: List.map_filter_simps split: option.split)

lemma map_filter_cong:
  "xs = ys \<Longrightarrow> (\<And>x. x \<in> set ys \<Longrightarrow> f x = g x) \<Longrightarrow> List.map_filter f xs = List.map_filter g ys"
  by (induction xs arbitrary: ys) (auto simp: List.map_filter_simps split: option.split)

lemma project_capped: "lists_capped n (project v t (Some (int n)))"
proof (induction v t "Some (int n)" rule: project.induct)
  case (1 xs t)
  then show ?case
    by (auto simp: cap_list_def slice_to_def list_all_iff dest!: in_set_takeD)
next
  case (2 d t)
  then show ?case
    by (fastforce simp: list_all_iff set_map_filter dest: map_of_SomeD split: option.splits)
qed simp_all

lemma cap_list_map: "cap_list cap (map f xs) = map f (cap_list cap xs)"
  by (auto simp: cap_list_def slice_to_def take_map split: option.split)

lemma cap_list_idem: "(\<And>i. cap = Some i \<Longrightarrow> 0 \<le> i) \<Longrightarrow> cap_list cap (cap_list cap xs) = cap_list cap xs"
  by (auto simp: cap_list_def slice_to_def split: option.split)

lemma map_filter_cong_map:
  "distinct (map fst kids) \<Longrightarrow>
   List.map_filter (\<lambda>(k, s). case map_of (List.map_filter (\<lambda>(k, s). case f k of
       None \<Rightarrow> None | Some x \<Rightarrow> Some (k, g x s)) kids) k of
     None \<Rightarrow> None | Some x \<Rightarrow> Some (k, g x s)) kids =
   List.map_filter (\<lambda>(k, s). case f k of None \<Rightarrow> None | Some x \<Rightarrow> Some (k, g (g x s) s)) kids"
  by (rule map_filter_cong) (auto simp: map_of_map_filter split: option.split)

lemma project_idem:
  assumes "\<And>i. cap = Some i \<Longrightarrow> 0 \<le> i" "wf_tree t"
  shows "project (project v t cap) t cap = project v t cap"
  using assms
proof (induction v t cap rule: project.induct)
  case (1 xs t cap)
  have "map (\<lambda>x. project x t cap) (cap_list cap (map (\<lambda>x. project x t cap) xs)) =
      cap_list cap (map (\<lambda>x. project x t cap) xs)"
    unfolding cap_list_map map_map
    by (rule map_cong) (use 1 cap_list_subset [of cap xs] in auto)
  then show ?case using cap_list_idem [of cap] 1(2) by (simp add: cap_list_map [symmetric])
next
  case (2 d t cap)
  obtain kids where t: "t = Node kids" by (cases t)
  show ?case
  proof (cases "kids = []")
    case True
    with 2 show ?thesis by (auto simp: t)
  next
    case False
    have dk: "distinct (map fst kids)" using 2(4) by (simp add: t)
    have "List.map_filter (\<lambda>(k, s). case map_of d k of None \<Rightarrow> None
          | Some x \<Rightarrow> Some (k, project (project x s cap) s cap)) kids =
        List.map_filter (\<lambda>(k, s). case map_of d k of None \<Rightarrow> None
          | Some x \<Rightarrow> Some (k, project x s cap)) kids"
    proof (rule map_filter_cong [OF refl])
      fix ks assume m: "ks \<in> set kids"
      obtain k s where ks: "ks = (k, s)" by (cases ks)
      have "wf_tree s" using 2(4) m by (auto simp: t ks list_all_iff)
      then show "(case ks of (k, s) \<Rightarrow> case map_of d k of None \<Rightarrow> None
          | Some x \<Rightarrow> Some (k, project (project x s cap) s cap)) =
        (case ks of (k, s) \<Rightarrow> case map_of d k of None \<Rightarrow> None | Some x \<Rightarrow> Some (k, project x s cap))"
        using 2(2) [of k _ s] False 2(3) by (auto simp: ks t split: option.split)
    qed
    with False dk show ?thesis
      by (simp add: t map_filter_cong_map [where g = "\<lambda>x s. project x s cap"])
  qed
qed simp_all

text \<open>A projection with a cap leaves no array longer than the cap, at any depth, and projecting
  twice is projecting once.\<close>

theorem project_value_capped:
  "lists_capped n (project_value v paths (Some (int n))) \<and>
   project_value (project_value v paths (Some (int n))) paths (Some (int n)) =
     project_value v paths (Some (int n))"
proof -
  have "wf_tree (if paths = [] then Node [] else build_path_tree paths)"
    using wf_build_path_tree by simp
  then have "project (project v (if paths = [] then Node [] else build_path_tree paths) (Some (int n)))
      (if paths = [] then Node [] else build_path_tree paths) (Some (int n)) =
    project v (if paths = [] then Node [] else build_path_tree paths) (Some (int n))"
    by (intro project_idem) simp_all
  then show ?thesis unfolding project_value_def using project_capped by blast
qed

text \<open>
  Of two requested paths where one goes on from the other, only the longer one selects: the tree
  has no mark for a path that ends at an inner node, so the whole subtree is not kept.
\<close>

lemma nested_paths_narrow:
  "project_value (PDict [(''a'', PDict [(''b'', PInt 1), (''c'', PInt 2)])]) [''a'', ''a.b''] None =
     PDict [(''a'', PDict [(''b'', PInt 1)])]"
  by code_simp

end
