(* ===== verification/Catalog.thy ===== *)
theory Catalog
  imports Projection Request_Meta Broker_Core "HOL-Library.Product_Lexorder"
begin

text \<open>
  The broker's catalog facade (\<^verbatim>\<open>catalog.py\<close>): the tools \<open>broker.search_tools\<close>,
  \<open>broker.describe_tool\<close>, \<open>broker.call_tool\<close>, \<open>broker.status\<close> and
  \<open>broker.close_session\<close> over the upstreams that the profile makes visible. The callables the
  daemon passes in are fields of the facade; they act on the state \<open>'s\<close>.
\<close>

section \<open>Entries and scores\<close>

definition structured_tool_result :: "pydict \<Rightarrow> pydict" where
  "structured_tool_result c =
     [(''content'', PList [PDict [(''type'', PStr ''text''), (''text'', PStr (dumps (PDict c)))]]),
      (''structuredContent'', PDict c)]"

definition profile_allows_upstream :: "tool_exposure_profile option \<Rightarrow> upstream_config \<Rightarrow> bool" where
  "profile_allows_upstream profile u =
     (case profile of None \<Rightarrow> True | Some p \<Rightarrow> pf_name p \<in> set (up_profiles u))"

definition catalog_entry :: "upstream_config \<Rightarrow> string \<Rightarrow> pydict \<Rightarrow> pydict" where
  "catalog_entry u separator tool =
     [(''name'', PStr (qualify separator (upstream_prefix u) (tool_name_of tool))),
      (''upstream'', PStr (up_name u)),
      (''description'', PStr (py_str (dget_or tool ''description'' (PStr '''')))),
      (''inputSchema'', dget_or tool ''inputSchema'' (PDict [(''type'', PStr ''object'')])),
      (''purpose'', PStr (up_purpose u)),
      (''tags'', PList (map PStr (up_tags u))),
      (''mutating'', PBool (up_mutating u))]"

definition catalog_entries_for_upstream :: "upstream_config \<Rightarrow> pydict list \<Rightarrow> string \<Rightarrow> pydict list" where
  "catalog_entries_for_upstream u tools separator =
     map (catalog_entry u separator) (filter (\<lambda>t. tool_name_of t \<noteq> []) tools)"

definition slim_catalog_entry :: "pydict \<Rightarrow> pydict" where
  "slim_catalog_entry entry = filter (\<lambda>(k, v). k \<noteq> ''inputSchema'') entry"

definition catalog_unavailable_entry_for_upstream :: "upstream_config \<Rightarrow> string \<Rightarrow> pydict" where
  "catalog_unavailable_entry_for_upstream u error =
     [(''name'', PStr (up_name u)),
      (''upstream'', PStr (up_name u)),
      (''description'', PStr (''upstream unavailable: '' @ error)),
      (''purpose'', PStr (up_purpose u)),
      (''tags'', PList (map PStr (up_tags u))),
      (''mutating'', PBool (up_mutating u)),
      (''available'', PBool False)]"

definition SCORE_NAME :: int where "SCORE_NAME = 3"

definition SCORE_PURPOSE :: int where "SCORE_PURPOSE = 2"

definition SCORE_DESCRIPTION :: int where "SCORE_DESCRIPTION = 1"

definition token_score :: "string list \<Rightarrow> string \<Rightarrow> string \<Rightarrow> string \<Rightarrow> int" where
  "token_score name_fields purpose description token =
     (if list_ex (contains token) name_fields then SCORE_NAME
      else if contains token purpose then SCORE_PURPOSE
      else if contains token description then SCORE_DESCRIPTION else 0)"

definition catalog_entry_score :: "pydict \<Rightarrow> string \<Rightarrow> int" where
  "catalog_entry_score entry query =
     (let tokens = split_ws (lower query);
          text_of = (\<lambda>k. lower (py_str (dget_or entry k (PStr ''''))));
          tags = (case dget_or entry ''tags'' (PList []) of PList ts \<Rightarrow> ts | _ \<Rightarrow> []);
          name_fields = [text_of ''name'', text_of ''upstream''] @ map (\<lambda>t. lower (py_str t)) tags
      in if tokens = [] then SCORE_NAME
         else sum_list (map (token_score name_fields (text_of ''purpose'') (text_of ''description'')) tokens))"

definition catalog_entry_matches :: "pydict \<Rightarrow> string \<Rightarrow> bool" where
  "catalog_entry_matches entry query \<longleftrightarrow> 0 < catalog_entry_score entry query"

definition upstream_metadata_matches :: "upstream_config \<Rightarrow> string \<Rightarrow> bool" where
  "upstream_metadata_matches u query =
     (let sq = (case up_smoke u of None \<Rightarrow> '''' | Some s \<Rightarrow> smoke_query s);
          st = (case up_smoke u of None \<Rightarrow> '''' | Some s \<Rightarrow> smoke_tool s)
      in catalog_entry_matches
        [(''name'', PStr (up_name u @ '' '' @ upstream_prefix u @ '' '' @ st)),
         (''description'', PStr sq),
         (''purpose'', PStr (up_purpose u)),
         (''tags'', PList (map PStr (up_tags u)))] query)"

definition upstream_owns_tool_name :: "upstream_config \<Rightarrow> string \<Rightarrow> string \<Rightarrow> bool" where
  "upstream_owns_tool_name u tool_name separator = prefix (upstream_prefix u @ separator) tool_name"

definition specific_query_can_select_upstream :: "string \<Rightarrow> bool" where
  "specific_query_can_select_upstream query \<longleftrightarrow> 2 \<le> length (split_ws query)"

section \<open>Status snapshots\<close>

text \<open>\<open>isinstance(value, int)\<close> lets a bool through, and the value itself is returned.\<close>

fun snapshot_int :: "pydict \<Rightarrow> string list \<Rightarrow> pyval" where
  "snapshot_int snapshot [] = PInt 0"
| "snapshot_int snapshot (k # ks) =
     (case as_int (dget snapshot k) of Some i \<Rightarrow> dget snapshot k | None \<Rightarrow> snapshot_int snapshot ks)"

definition looks_like_auth_error :: "string \<Rightarrow> bool" where
  "looks_like_auth_error message = list_ex (\<lambda>m. contains m (lower message))
     [''auth'', ''credential'', ''forbidden'', ''token'', ''unauthorized'', ''401'', ''403'']"

definition auth_state :: "pydict \<Rightarrow> string" where
  "auth_state snapshot =
     (case dget snapshot ''auth_state'' of
        PStr s \<Rightarrow> if s \<in> {''authenticated'', ''unauthenticated'', ''unknown''} then s
                 else (case dget snapshot ''last_error'' of
                   PStr e \<Rightarrow> if looks_like_auth_error e then ''unauthenticated'' else ''unknown''
                 | _ \<Rightarrow> ''unknown'')
      | _ \<Rightarrow> (case dget snapshot ''last_error'' of
                   PStr e \<Rightarrow> if looks_like_auth_error e then ''unauthenticated'' else ''unknown''
                 | _ \<Rightarrow> ''unknown''))"

definition broker_status :: "(string \<times> pydict) list \<Rightarrow> string" where
  "broker_status upstreams =
     (if list_ex (\<lambda>(n, u). truthy (dget u ''last_error'') \<or>
          dget u ''state'' \<in> {PStr ''exited'', PStr ''failed'', PStr ''backoff''}) upstreams
      then ''degraded'' else ''ok'')"

section \<open>The facade\<close>

type_synonym 's tool_lister = "string \<Rightarrow> int \<Rightarrow> ('s, exn, pydict list) sem"

record 's catalog_facade =
  cf_config :: broker_config
  cf_profile :: "tool_exposure_profile option"
  cf_list_upstream :: "'s tool_lister"
  cf_call_upstream :: "'s tool_caller"
  cf_status_provider :: "string list \<Rightarrow> ('s, exn, (string \<times> pydict) list) sem"
  cf_client_cwd :: "string option"
  cf_session_id :: "string option"
  cf_session_stopper :: "(string \<Rightarrow> ('s, exn, pydict) sem) option"
  cf_git_at :: "path \<Rightarrow> bool option"
  cf_loads :: json_loads

definition CLIENT_CONTROL_ARGUMENTS :: "string list" where
  "CLIENT_CONTROL_ARGUMENTS = [''wait_for_previous'']"

abbreviation cf_separator :: "'s catalog_facade \<Rightarrow> string" where
  "cf_separator f \<equiv> bs_tool_namespace_separator (bc_broker (cf_config f))"

text \<open>The upstreams that the profile makes visible; \<open>allows_mutating_upstream\<close> gets the key.\<close>

definition status_exposes_upstream :: "'s catalog_facade \<Rightarrow> string \<Rightarrow> upstream_config \<Rightarrow> bool" where
  "status_exposes_upstream f upstream_name u =
     (if upstream_disabled u then False
      else if \<not> profile_allows_upstream (cf_profile f) u then False
      else \<not> (up_mutating u \<and> (case cf_profile f of None \<Rightarrow> False
             | Some p \<Rightarrow> \<not> allows_mutating_upstream p upstream_name)))"

definition catalog_upstreams :: "'s catalog_facade \<Rightarrow> string \<Rightarrow> string \<Rightarrow> upstreams" where
  "catalog_upstreams f query tool_name =
     (let visible = filter (\<lambda>(n, u). status_exposes_upstream f n u) (bc_upstreams (cf_config f));
          by_name = filter (\<lambda>(n, u). upstream_owns_tool_name u tool_name (cf_separator f)) visible;
          matched = filter (\<lambda>(n, u). upstream_metadata_matches u query) visible
      in if tool_name \<noteq> [] \<and> by_name \<noteq> [] then by_name
         else if \<not> specific_query_can_select_upstream query then visible
         else if matched \<noteq> [] then matched else visible)"

text \<open>One listing for each upstream; every exception is caught and turned into a stub entry.\<close>

fun collect_entries ::
    "'s catalog_facade \<Rightarrow> upstreams \<Rightarrow> ('s, exn, pydict list \<times> (string \<times> string) list) sem" where
  "collect_entries f [] = returnS ([], [])"
| "collect_entries f ((n, u) # ups) =
     bindS (catchS
        (bindS (cf_list_upstream f n (call_timeout_seconds (up_health u))) (\<lambda>tools.
           returnS (catalog_entries_for_upstream u tools (cf_separator f), [])))
        (\<lambda>e. returnS ([catalog_unavailable_entry_for_upstream u (exn_str e)], [(n, exn_str e)])))
      (\<lambda>(entries, skipped). bindS (collect_entries f ups) (\<lambda>(entries', skipped').
        returnS (entries @ entries', skipped @ skipped')))"

definition catalog_entries ::
    "'s catalog_facade \<Rightarrow> string \<Rightarrow> string \<Rightarrow> ('s, exn, pydict list \<times> (string \<times> string) list) sem" where
  "catalog_entries f query tool_name =
     (if query \<noteq> [] \<and> tool_name \<noteq> [] then raiseS (Exn ValueError ''use query or tool_name, not both'')
      else collect_entries f (catalog_upstreams f query tool_name))"

definition ranked_entries :: "string \<Rightarrow> pydict list \<Rightarrow> pydict list" where
  "ranked_entries query entries =
     map (\<lambda>(score, n, e). e) (filter (\<lambda>(score, n, e). 0 < score)
       (sort_key (\<lambda>(score, n, e). (- score, n))
         (map (\<lambda>e. (catalog_entry_score e query, py_str (dget e ''name''), e)) entries)))"

definition search_tools :: "'s catalog_facade \<Rightarrow> pydict \<Rightarrow> ('s, exn, pydict) sem" where
  "search_tools f arguments =
     (let query = strip (py_str (dget_or arguments ''query'' (PStr ''''))) in
      bindS (liftS (py_int (dget_or arguments ''limit'' (PInt 20)))) (\<lambda>limit.
      bindS (catalog_entries f query '''') (\<lambda>(entries, skipped).
      let matches = slice_to (map slim_catalog_entry (ranked_entries query entries)) limit in
      returnS (structured_tool_result
        ((''matches'', PList (map PDict matches)) #
         (if skipped = [] then []
          else [(''skipped_upstreams'', PDict (dict_of (map (\<lambda>(n, e). (n, PStr e)) skipped)))]))))))"

definition describe_tool :: "'s catalog_facade \<Rightarrow> pydict \<Rightarrow> ('s, exn, pydict) sem" where
  "describe_tool f arguments =
     (case dget arguments ''name'' of
        PStr tool_name \<Rightarrow> bindS (catalog_entries f '''' tool_name) (\<lambda>(entries, skipped).
          case List.find (\<lambda>e. dget e ''name'' = PStr tool_name) entries of
            Some e \<Rightarrow> returnS (structured_tool_result [(''tool'', PDict e)])
          | None \<Rightarrow> raiseS (Exn ValueError (''broker tool not found: '' @ tool_name)))
      | _ \<Rightarrow> raiseS (Exn ValueError ''broker.describe_tool requires string name''))"

definition facade_core :: "'s catalog_facade \<Rightarrow> broker_core" where
  "facade_core f = \<lparr>bk_settings = bc_broker (cf_config f), bk_upstreams = bc_upstreams (cf_config f),
     bk_profile = cf_profile f\<rparr>"

definition call_managed_tool :: "'s catalog_facade \<Rightarrow> pydict \<Rightarrow> ('s locked, exn, pyval) sem" where
  "call_managed_tool f arguments =
     (case (dget arguments ''name'', dget_or arguments ''arguments'' (PDict [])) of
        (PStr tool_name, PDict tool_arguments) \<Rightarrow>
          (case dget arguments ''projection'' of
             PNone \<Rightarrow> call_tool (facade_core f) tool_name (PDict (inject_cwd_project_arg (cf_git_at f)
                 (cf_config f) (cf_client_cwd f) tool_name tool_arguments)) (cf_call_upstream f)
           | PDict projection \<Rightarrow>
               bindS (call_tool (facade_core f) tool_name (PDict (inject_cwd_project_arg (cf_git_at f)
                 (cf_config f) (cf_client_cwd f) tool_name tool_arguments)) (cf_call_upstream f)) (\<lambda>r.
               case r of
                 PDict response \<Rightarrow> liftS (map_sum id PDict (apply_projection (cf_loads f) response projection))
               | _ \<Rightarrow> returnS r)
           | _ \<Rightarrow> raiseS (Exn ValueError ''broker.call_tool projection must be an object''))
      | _ \<Rightarrow> raiseS (Exn ValueError ''broker.call_tool requires name and object arguments''))"

definition status_upstream ::
    "'s catalog_facade \<Rightarrow> (string \<times> pydict) list \<Rightarrow> string \<Rightarrow> upstream_config \<Rightarrow> pydict" where
  "status_upstream f health n u =
     (let snapshot = (case map_of health n of None \<Rightarrow> [] | Some s \<Rightarrow> s) in
      [(''enabled'', PBool (up_enabled u)),
       (''auth_repair_attempts'', (snapshot_int snapshot [''auth_repair_attempts''])),
       (''auth_repair_failures'', (snapshot_int snapshot [''auth_repair_failures''])),
       (''auth_repair_successes'', (snapshot_int snapshot [''auth_repair_successes''])),
       (''auth_probe'', PStr (py_str (dget_or snapshot ''auth_probe'' (PStr ''none'')))),
       (''auth_state'', PStr (auth_state snapshot)),
       (''exposed'', PBool (status_exposes_upstream f n u)),
       (''last_error'', dget snapshot ''last_error''),
       (''mode'', PStr (up_mode u)),
       (''mutating'', PBool (up_mutating u)),
       (''pid'', dget snapshot ''pid''),
       (''restarts'', dget snapshot ''restarts''),
       (''session_count'', (snapshot_int snapshot [''session_count'', ''sessions''])),
       (''active_call_count'', (snapshot_int snapshot [''active_call_count''])),
       (''state'', dget_or snapshot ''state''
          (PStr (if upstream_disabled u then ''disabled'' else ''configured''))),
       (''transport'', PStr (up_transport u))])"

definition status_upstreams ::
    "'s catalog_facade \<Rightarrow> (string \<times> pydict) list \<Rightarrow> (string \<times> pydict) list" where
  "status_upstreams f health =
     map (\<lambda>(n, u). (n, status_upstream f health n u))
       (filter (\<lambda>(n, u). status_exposes_upstream f n u \<or> upstream_disabled u)
         (bc_upstreams (cf_config f)))"

definition user_arguments :: "pydict \<Rightarrow> pydict" where
  "user_arguments arguments = filter (\<lambda>(k, v). k \<notin> set CLIENT_CONTROL_ARGUMENTS) arguments"

definition facade_status :: "'s catalog_facade \<Rightarrow> pydict \<Rightarrow> ('s, exn, pydict) sem" where
  "facade_status f arguments =
     (if user_arguments arguments \<noteq> [] then raiseS (Exn ValueError ''broker.status does not accept arguments'')
      else
        let exposed = map fst (filter (\<lambda>(n, u). status_exposes_upstream f n u) (bc_upstreams (cf_config f)));
            active = (case cf_profile f of None \<Rightarrow> PNone | Some p \<Rightarrow> PStr (pf_name p))
        in bindS (cf_status_provider f exposed) (\<lambda>health.
           let upstreams = status_upstreams f health in
           returnS (structured_tool_result
             [(''identity'', PDict (config_identity_status_payload (cf_config f) active)),
              (''profile'', active),
              (''socket_path'', PStr (path_str (rt_socket_path (bc_runtime (cf_config f))))),
              (''status'', PStr (broker_status upstreams)),
              (''upstreams'', PDict (map (\<lambda>(n, u). (n, PDict u)) upstreams))])))"

definition close_session :: "'s catalog_facade \<Rightarrow> pydict \<Rightarrow> ('s, exn, pydict) sem" where
  "close_session f arguments =
     (if user_arguments arguments \<noteq> []
      then raiseS (Exn ValueError ''broker.close_session does not accept arguments'')
      else case (cf_session_id f, cf_session_stopper f) of
        (Some sid, Some stop) \<Rightarrow> bindS (stop sid) (\<lambda>d. returnS (structured_tool_result d))
      | _ \<Rightarrow> raiseS (Exn ValueError ''broker.close_session requires broker session metadata''))"

definition facade_canonical_name :: "'s catalog_facade \<Rightarrow> string \<Rightarrow> string" where
  "facade_canonical_name f name =
     (case cf_profile f of None \<Rightarrow> name | Some p \<Rightarrow> canonical_broker_tool_name p name)"

abbreviation as_value :: "('s, exn, pydict) sem \<Rightarrow> ('s locked, exn, pyval) sem" where
  "as_value m \<equiv> lift_caller (bindS m (\<lambda>d. returnS (PDict d)))"

definition facade_call_tool :: "'s catalog_facade \<Rightarrow> string \<Rightarrow> pydict \<Rightarrow> ('s locked, exn, pyval) sem" where
  "facade_call_tool f name arguments =
     (let canonical_name = facade_canonical_name f name in
      if canonical_name = ''broker.search_tools'' then as_value (search_tools f arguments)
      else if canonical_name = ''broker.describe_tool'' then as_value (describe_tool f arguments)
      else if canonical_name = ''broker.call_tool'' then call_managed_tool f arguments
      else if canonical_name = ''broker.status'' then as_value (facade_status f arguments)
      else if canonical_name = ''broker.close_session'' then as_value (close_session f arguments)
      else raiseS (BrokerToolError ''unknown_broker_tool'' (''unknown broker tool: '' @ name) None None))"

end
