(* ===== verification/Catalog_Facts.thy ===== *)
theory Catalog_Facts
  imports Catalog "HOL-Library.Multiset"
begin

text \<open>
  What the catalog facade of \<^verbatim>\<open>catalog.py\<close> promises: search and description stay within
  the upstreams the profile makes visible, search results are the best-ranked ones, a described
  tool can be called, and the status hides what the profile does not expose.
\<close>

section \<open>Where entries come from\<close>

definition entry_of :: "'s catalog_facade \<Rightarrow> upstream_config \<Rightarrow> pydict \<Rightarrow> bool" where
  "entry_of f u e \<longleftrightarrow> (\<exists>tool. tool_name_of tool \<noteq> [] \<and> e = catalog_entry u (cf_separator f) tool) \<or>
     (\<exists>m. e = catalog_unavailable_entry_for_upstream u m)"

definition visible_upstream :: "'s catalog_facade \<Rightarrow> string \<Rightarrow> upstream_config \<Rightarrow> bool" where
  "visible_upstream f n u \<longleftrightarrow> (n, u) \<in> set (bc_upstreams (cf_config f)) \<and> status_exposes_upstream f n u"

lemma entry_of_upstream: "entry_of f u e \<Longrightarrow> dget e ''upstream'' = PStr (up_name u)"
  by (auto simp: entry_of_def catalog_entry_def catalog_unavailable_entry_for_upstream_def)

lemma collect_entries_of:
  "collect_entries f ups s = (Inr (entries, skipped), s') \<Longrightarrow> e \<in> set entries \<Longrightarrow>
   \<exists>(n, u) \<in> set ups. entry_of f u e"
proof (induction ups arbitrary: s entries skipped s')
  case Nil
  then show ?case by (simp add: monad_simps)
next
  case (Cons nu ups)
  obtain n u where nu: "nu = (n, u)" by (cases nu)
  obtain r s1 where l: "cf_list_upstream f n (call_timeout_seconds (up_health u)) s = (r, s1)"
    by (cases "cf_list_upstream f n (call_timeout_seconds (up_health u)) s")
  let ?here = "case r of Inl x \<Rightarrow> [catalog_unavailable_entry_for_upstream u (exn_str x)]
    | Inr tools \<Rightarrow> catalog_entries_for_upstream u tools (cf_separator f)"
  obtain es sk where rest: "collect_entries f ups s1 = (Inr (es, sk), s')" and "entries = ?here @ es"
    using Cons.prems(1) l
    by (auto simp: nu monad_simps split: sum.splits prod.splits)
  moreover have "entry_of f u x" if "x \<in> set ?here" for x
    using that by (auto simp: entry_of_def catalog_entries_for_upstream_def split: sum.splits)
  ultimately show ?case
    using Cons.IH [OF rest] Cons.prems(2) by (auto simp: nu)
qed

lemma collect_entries_returns: "\<exists>entries skipped s'. collect_entries f ups s = (Inr (entries, skipped), s')"
proof (induction ups arbitrary: s)
  case Nil
  then show ?case by (simp add: monad_simps)
next
  case (Cons nu ups)
  obtain n u where nu: "nu = (n, u)" by (cases nu)
  obtain r s1 where l: "cf_list_upstream f n (call_timeout_seconds (up_health u)) s = (r, s1)"
    by (cases "cf_list_upstream f n (call_timeout_seconds (up_health u)) s")
  from Cons.IH [of s1] l show ?case
    by (cases r) (auto simp: nu monad_simps)
qed

lemma catalog_upstreams_visible:
  "(n, u) \<in> set (catalog_upstreams f query tool_name) \<Longrightarrow> visible_upstream f n u"
  by (auto simp: catalog_upstreams_def Let_def visible_upstream_def split: if_splits)

lemma catalog_entries_visible:
  assumes "catalog_entries f query tool_name s = (Inr (entries, skipped), s')" "e \<in> set entries"
  shows "\<exists>n u. visible_upstream f n u \<and> entry_of f u e"
proof -
  have "collect_entries f (catalog_upstreams f query tool_name) s = (Inr (entries, skipped), s')"
    using assms(1) by (simp add: catalog_entries_def monad_simps split: if_splits)
  from collect_entries_of [OF this assms(2)] show ?thesis
    using catalog_upstreams_visible by blast
qed

lemma catalog_entries_returns:
  "query = [] \<or> tool_name = [] \<Longrightarrow>
   \<exists>entries skipped s'. catalog_entries f query tool_name s = (Inr (entries, skipped), s')"
  unfolding catalog_entries_def by (auto simp: collect_entries_returns)

section \<open>Search\<close>

lemma ranked_entries_mset:
  "mset (ranked_entries query entries) = filter_mset (\<lambda>e. 0 < catalog_entry_score e query) (mset entries)"
proof -
  let ?key = "\<lambda>e. (catalog_entry_score e query, py_str (dget e ''name''), e)"
  have "mset (ranked_entries query entries) = image_mset (\<lambda>(score, n, e). e)
      (filter_mset (\<lambda>(score, n, e). 0 < score) (image_mset ?key (mset entries)))"
    by (simp add: ranked_entries_def mset_filter)
  also have "\<dots> = filter_mset (\<lambda>e. 0 < catalog_entry_score e query) (mset entries)"
    by (induction entries) auto
  finally show ?thesis .
qed

definition rank_key :: "string \<Rightarrow> pydict \<Rightarrow> int \<times> string" where
  "rank_key query e = (- catalog_entry_score e query, py_str (dget e ''name''))"

lemma ranked_entries_sorted: "sorted (map (rank_key query) (ranked_entries query entries))"
proof -
  let ?sk = "\<lambda>(score, n, e). (- score, n) :: int \<times> string"
  let ?xs = "sort_key ?sk (map (\<lambda>e. (catalog_entry_score e query, py_str (dget e ''name''), e)) entries)"
  let ?ys = "filter (\<lambda>(score, n, e). 0 < score) ?xs"
  have "sorted (map ?sk ?xs)" by (rule sorted_sort_key)
  then have s: "sorted (map ?sk ?ys)" by (rule sorted_filter)
  have "set ?ys \<subseteq> set (map (\<lambda>e. (catalog_entry_score e query, py_str (dget e ''name''), e)) entries)"
    by auto
  then have "map (rank_key query) (ranked_entries query entries) = map ?sk ?ys"
    unfolding ranked_entries_def map_map
    by (intro map_cong refl) (auto simp: rank_key_def)
  with s show ?thesis by simp
qed

text \<open>A search that succeeds returns, without schemas, the first entries of a ranking: the ranking
  contains exactly the entries that match the query, best score first and then by name, and every
  entry belongs to an upstream that is active, exposed to the profile and, when it mutates, allowed.
  With a limit that is not negative there are at most that many.\<close>

theorem search_tools_ranked:
  assumes "search_tools f arguments s = (Inr d, s')"
  shows "\<exists>limit entries ranked c. py_int (dget_or arguments ''limit'' (PInt 20)) = Inr limit \<and>
    (let query = strip (py_str (dget_or arguments ''query'' (PStr ''''))) in
      mset ranked = filter_mset (\<lambda>e. 0 < catalog_entry_score e query) (mset entries) \<and>
      sorted (map (rank_key query) ranked)) \<and>
    (\<forall>e \<in> set entries. \<exists>n u. visible_upstream f n u \<and> entry_of f u e) \<and>
    dget d ''structuredContent'' = PDict c \<and>
    dget c ''matches'' = PList (map PDict (slice_to (map slim_catalog_entry ranked) limit))"
proof -
  let ?q = "strip (py_str (dget_or arguments ''query'' (PStr '''')))"
  from assms obtain limit where limit: "py_int (dget_or arguments ''limit'' (PInt 20)) = Inr limit"
    by (auto simp: search_tools_def Let_def monad_simps split: sum.splits)
  obtain entries skipped s1 where e: "catalog_entries f ?q '''' s = (Inr (entries, skipped), s1)"
    using catalog_entries_returns [of ?q "[]" f s] by blast
  have "dget d ''structuredContent'' = PDict ((''matches'', PList (map PDict
      (slice_to (map slim_catalog_entry (ranked_entries ?q entries)) limit))) #
         (if skipped = [] then []
          else [(''skipped_upstreams'', PDict (dict_of (map (\<lambda>(n, e). (n, PStr e)) skipped)))]))"
    using assms e limit
    by (auto simp: search_tools_def Let_def monad_simps structured_tool_result_def)
  then obtain c where "dget d ''structuredContent'' = PDict c"
    and "dget c ''matches'' = PList (map PDict
      (slice_to (map slim_catalog_entry (ranked_entries ?q entries)) limit))" by auto
  moreover have "\<forall>e \<in> set entries. \<exists>n u. visible_upstream f n u \<and> entry_of f u e"
    using catalog_entries_visible [OF e] by blast
  ultimately show ?thesis
    using limit ranked_entries_mset [of ?q entries] ranked_entries_sorted [of ?q entries]
    unfolding Let_def by blast
qed

text \<open>The witness: one upstream with two tools and one that cannot be listed.\<close>

definition example_lister :: "nat tool_lister" where
  "example_lister n timeout = (\<lambda>k. if n = ''git''
     then (Inr [[(''name'', PStr ''log''), (''description'', PStr ''show commits'')],
                [(''name'', PStr ''push'')]], Suc k)
     else (Inl (Exn RuntimeError ''down''), Suc k))"

definition example_facade :: "nat catalog_facade" where
  "example_facade = \<lparr>cf_config = config_example [(''git'', git_data)], cf_profile = Some dev_profile,
     cf_list_upstream = example_lister, cf_call_upstream = counting_caller,
     cf_status_provider = (\<lambda>_. returnS []), cf_client_cwd = None, cf_session_id = None,
     cf_session_stopper = None, cf_git_at = (\<lambda>_. None), cf_loads = (\<lambda>_. None)\<rparr>"

lemma search_tools_ranked_witness:
  "\<exists>d c ranked entries. fst (search_tools example_facade [(''query'', PStr ''push'')] 0) = Inr d \<and>
     dget d ''structuredContent'' = PDict c \<and>
     dget c ''matches'' = PList (map PDict (slice_to (map slim_catalog_entry ranked) 20)) \<and>
     (\<forall>e \<in> set entries. \<exists>n u. visible_upstream example_facade n u \<and> entry_of example_facade u e)"
proof -
  have "is_result (fst (search_tools example_facade [(''query'', PStr ''push'')] 0))" by code_simp
  then obtain d s' where d: "search_tools example_facade [(''query'', PStr ''push'')] 0 = (Inr d, s')"
    using is_result_Inr by (metis prod.collapse)
  from search_tools_ranked [OF d] obtain limit entries ranked c where
    *: "py_int (dget_or [(''query'', PStr ''push'')] ''limit'' (PInt 20)) = Inr limit"
    "\<forall>e \<in> set entries. \<exists>n u. visible_upstream example_facade n u \<and> entry_of example_facade u e"
    "dget d ''structuredContent'' = PDict c"
    "dget c ''matches'' = PList (map PDict (slice_to (map slim_catalog_entry ranked) limit))" by blast
  have "py_int (PInt 20) = Inr 20" by code_simp
  with * d show ?thesis by auto
qed

section \<open>Describe, then call\<close>

lemma catalog_entry_name:
  "dget (catalog_entry u sep tool) ''name'' = PStr (qualify sep (upstream_prefix u) (tool_name_of tool))"
  by (simp add: catalog_entry_def)

lemma visible_call_permitted:
  "visible_upstream f n u \<Longrightarrow> up_name u = n \<Longrightarrow> call_permitted (facade_core f) u"
  by (auto simp: visible_upstream_def status_exposes_upstream_def call_permitted_def facade_core_def
      exposed_to_def profile_allows_upstream_def split: if_splits option.splits)

text \<open>A tool that \<open>broker.describe_tool\<close> shows with its schema can be called under the same name:
  the call reaches the upstream the description names, with the tool's own name, provided that the
  upstreams are filed under their names, no two share a prefix, and the separator does not begin
  inside a prefix.\<close>

theorem described_tool_callable:
  assumes "describe_tool f arguments s = (Inr d, s')" and "dget arguments ''name'' = PStr name"
    and "\<forall>(n, u) \<in> set (bc_upstreams (cf_config f)). up_name u = n \<and> good_prefix (cf_separator f) (upstream_prefix u)"
    and "distinct (map (\<lambda>(n, u). upstream_prefix u) (bc_upstreams (cf_config f)))"
    and "dget d ''structuredContent'' = PDict [(''tool'', PDict e)]" and "dhas e ''inputSchema''"
  shows "\<exists>n u tool. visible_upstream f n u \<and> resolve_call_route (facade_core f) name = Inr (u, tool) \<and>
    dget e ''upstream'' = PStr n \<and> name = qualify (cf_separator f) (upstream_prefix u) tool"
proof -
  obtain entries skipped s1 where es: "catalog_entries f '''' name s = (Inr (entries, skipped), s1)"
    using catalog_entries_returns [of "[]" name f s] by blast
  with assms(1,2) obtain e' where "List.find (\<lambda>e. dget e ''name'' = PStr name) entries = Some e'"
    and "d = structured_tool_result [(''tool'', PDict e')]"
    by (auto simp: describe_tool_def monad_simps split: option.splits)
  moreover have "e' = e" using assms(5) calculation(2) by (simp add: structured_tool_result_def)
  ultimately have e: "e \<in> set entries" "dget e ''name'' = PStr name"
    using find_eq_Some_first by fastforce+
  obtain n u where vis: "visible_upstream f n u" and "entry_of f u e"
    using catalog_entries_visible [OF es e(1)] by blast
  with assms(6) obtain tool where tool: "tool_name_of tool \<noteq> []" "e = catalog_entry u (cf_separator f) tool"
    by (auto simp: entry_of_def catalog_unavailable_entry_for_upstream_def)
  with e(2) have name: "name = qualify (cf_separator f) (upstream_prefix u) (tool_name_of tool)"
    by (simp add: catalog_entry_name)
  have mem: "(n, u) \<in> set (bc_upstreams (cf_config f))" using vis by (simp add: visible_upstream_def)
  with assms(3) have nu: "up_name u = n" "good_prefix (cf_separator f) (upstream_prefix u)" by auto
  have "List.find (\<lambda>v. upstream_prefix v = upstream_prefix u) (map snd (bc_upstreams (cf_config f))) = Some u"
  proof (rule find_unique)
    show "u \<in> set (map snd (bc_upstreams (cf_config f)))" using mem by force
    fix v assume "v \<in> set (map snd (bc_upstreams (cf_config f)))" "upstream_prefix v = upstream_prefix u"
    then obtain m where "(m, v) \<in> set (bc_upstreams (cf_config f))" by auto
    with mem assms(4) \<open>upstream_prefix v = upstream_prefix u\<close> show "v = u"
      by (auto simp: distinct_map inj_on_def)
  qed simp
  then have "resolve_call_route (facade_core f) name = Inr (u, tool_name_of tool)"
    using visible_call_permitted [OF vis nu(1)] nu(2) tool(1) ns.split_qualify [OF nu(2)]
    by (simp add: resolve_call_route_Inr name) (simp add: facade_core_def good_prefix_def)
  with vis name nu(1) tool(2) show ?thesis by (auto simp: catalog_entry_def)
qed

definition git_entry :: pydict where
  "git_entry = [(''name'', PStr ''git.log''), (''upstream'', PStr ''git''),
     (''description'', PStr ''show commits''), (''inputSchema'', PDict [(''type'', PStr ''object'')]),
     (''purpose'', PStr ''''), (''tags'', PList []), (''mutating'', PBool True)]"

lemma described_tool_callable_witness:
  "\<exists>n u tool. visible_upstream example_facade n u \<and>
     resolve_call_route (facade_core example_facade) ''git.log'' = Inr (u, tool) \<and>
     dget git_entry ''upstream'' = PStr n"
proof -
  have "describe_tool example_facade [(''name'', PStr ''git.log'')] 0 =
      (Inr (structured_tool_result [(''tool'', PDict git_entry)]), 1)" by code_simp
  moreover have "dget [(''name'', PStr ''git.log'')] ''name'' = PStr ''git.log''" by simp
  moreover have "list_all (\<lambda>(n, u). up_name u = n \<and>
      good_prefix (cf_separator example_facade) (upstream_prefix u)) (bc_upstreams (cf_config example_facade))"
    by code_simp
  then have "\<forall>(n, u) \<in> set (bc_upstreams (cf_config example_facade)). up_name u = n \<and>
      good_prefix (cf_separator example_facade) (upstream_prefix u)" by (simp add: list_all_iff)
  moreover have "distinct (map (\<lambda>(n, u). upstream_prefix u) (bc_upstreams (cf_config example_facade)))"
    by (simp add: example_facade_def config_example_def)
  moreover have "dget (structured_tool_result [(''tool'', PDict git_entry)]) ''structuredContent'' =
      PDict [(''tool'', PDict git_entry)]" by (simp add: structured_tool_result_def)
  moreover have "dhas git_entry ''inputSchema''" by code_simp
  ultimately show ?thesis
    using described_tool_callable [of example_facade] by blast
qed

section \<open>Status\<close>

text \<open>The status lists an upstream exactly when the profile exposes it or it is disabled for
  everyone, says which of the two it is, and asks the daemon only about exposed upstreams.\<close>

theorem status_shows_exposed:
  assumes "facade_status f arguments s = (Inr d, s')"
  shows "\<exists>c upstreams health.
    cf_status_provider f (map fst (filter (\<lambda>(n, u). status_exposes_upstream f n u)
      (bc_upstreams (cf_config f)))) s = (Inr health, s') \<and>
    dget d ''structuredContent'' = PDict c \<and> dget c ''upstreams'' = PDict upstreams \<and>
    (\<forall>n. n \<in> fst ` set upstreams \<longleftrightarrow> (\<exists>u. (n, u) \<in> set (bc_upstreams (cf_config f)) \<and>
       (status_exposes_upstream f n u \<or> upstream_disabled u))) \<and>
    (\<forall>(n, v) \<in> set upstreams. \<exists>u e. v = PDict e \<and> (n, u) \<in> set (bc_upstreams (cf_config f)) \<and>
       dget e ''exposed'' = PBool (status_exposes_upstream f n u))"
proof -
  from assms obtain health where h: "cf_status_provider f (map fst (filter
      (\<lambda>(n, u). status_exposes_upstream f n u) (bc_upstreams (cf_config f)))) s = (Inr health, s')"
    and d: "\<exists>a b c. d = structured_tool_result
             [(''identity'', a), (''profile'', b),
              (''socket_path'', PStr (path_str (rt_socket_path (bc_runtime (cf_config f))))),
              (''status'', c),
              (''upstreams'', PDict (map (\<lambda>(n, u). (n, PDict u)) (status_upstreams f health)))]"
    by (auto simp: facade_status_def Let_def monad_simps split: if_splits sum.splits prod.splits)
  let ?ups = "map (\<lambda>(n, u). (n, PDict u)) (status_upstreams f health)"
  have "n \<in> fst ` set ?ups \<longleftrightarrow> (\<exists>u. (n, u) \<in> set (bc_upstreams (cf_config f)) \<and>
       (status_exposes_upstream f n u \<or> upstream_disabled u))" for n
    by (force simp: status_upstreams_def)
  moreover have "\<forall>(n, v) \<in> set ?ups. \<exists>u e. v = PDict e \<and> (n, u) \<in> set (bc_upstreams (cf_config f)) \<and>
       dget e ''exposed'' = PBool (status_exposes_upstream f n u)"
    by (fastforce simp: status_upstreams_def status_upstream_def Let_def)
  ultimately show ?thesis
    using h d by (auto simp: structured_tool_result_def)
qed

lemma status_shows_exposed_witness:
  "\<exists>d c upstreams. facade_status example_facade [(''wait_for_previous'', PBool True)] 0 = (Inr d, 0) \<and>
     dget d ''structuredContent'' = PDict c \<and> dget c ''upstreams'' = PDict upstreams \<and>
     ''git'' \<in> fst ` set upstreams"
proof -
  let ?r = "facade_status example_facade [(''wait_for_previous'', PBool True)] 0"
  have "is_result (fst ?r)" "snd ?r = 0" by code_simp+
  then obtain d where d: "?r = (Inr d, 0)"
    using is_result_Inr by (metis prod.collapse)
  have "list_ex (\<lambda>(n, u). n = ''git'' \<and> status_exposes_upstream example_facade n u)
      (bc_upstreams (cf_config example_facade))" by code_simp
  then have ex: "\<exists>u. (''git'', u) \<in> set (bc_upstreams (cf_config example_facade)) \<and>
       (status_exposes_upstream example_facade ''git'' u \<or> upstream_disabled u)"
    by (auto simp: list_ex_iff)
  from status_shows_exposed [OF d] obtain c upstreams where
    "dget d ''structuredContent'' = PDict c" "dget c ''upstreams'' = PDict upstreams"
    and iff: "\<forall>n. n \<in> fst ` set upstreams \<longleftrightarrow>
      (\<exists>u. (n, u) \<in> set (bc_upstreams (cf_config example_facade)) \<and>
         (status_exposes_upstream example_facade n u \<or> upstream_disabled u))" by blast
  moreover have "''git'' \<in> fst ` set upstreams" using iff ex by blast
  ultimately show ?thesis using d by blast
qed

end
