(* ===== verification/Json_Files.thy ===== *)
theory Json_Files
  imports PyTime PyPath
begin

text \<open>
  Files that hold one JSON value, and the timestamps and policy paths that the stores of the program
  check in the same way. A file is absent, not decodable, or a value.
\<close>

datatype json_file = Absent | Corrupt | Content pyval

text \<open>\<open>datetime.fromisoformat\<close> to UTC, with the errors of the caller's class.\<close>

definition aware_timestamp :: "iso_clock \<Rightarrow> exn_class \<Rightarrow> string \<Rightarrow> string \<Rightarrow> int res" where
  "aware_timestamp ck c text value =
     (case ck_fromisoformat ck text of
        None \<Rightarrow> Inl (Exn c (''invalid timestamp: '' @ value))
      | Some (Naive t) \<Rightarrow> Inl (Exn c (''timestamp must include timezone: '' @ value))
      | Some (Aware t) \<Rightarrow> Inr t)"

text \<open>\<open>now or _utc_now()\<close>, with the instant of the host clock as an argument.\<close>

definition time_or :: "iso_clock \<Rightarrow> int \<Rightarrow> string option \<Rightarrow> string" where
  "time_or ck host now = (case now of None \<Rightarrow> iso_z ck host | Some s \<Rightarrow> if s = [] then iso_z ck host else s)"

definition is_letter :: "char \<Rightarrow> bool" where
  "is_letter c \<longleftrightarrow> (65 \<le> code c \<and> code c \<le> 90) \<or> (97 \<le> code c \<and> code c \<le> 122)"

text \<open>\<open>[A-Za-z0-9_.-]\<close>, a nonempty word over it, and such a word that starts with a letter.\<close>

definition is_safe_char :: "char \<Rightarrow> bool" where
  "is_safe_char c \<longleftrightarrow> is_letter c \<or> is_digit c \<or> c \<in> {CHR ''_'', CHR ''.'', CHR ''-''}"

definition safe_id_fullmatch :: "string \<Rightarrow> bool" where
  "safe_id_fullmatch s \<longleftrightarrow> s \<noteq> [] \<and> list_all is_safe_char s"

definition policy_path_fullmatch :: "string \<Rightarrow> bool" where
  "policy_path_fullmatch s \<longleftrightarrow> (case s of [] \<Rightarrow> False | c # cs \<Rightarrow> is_letter c \<and> list_all is_safe_char cs)"

definition stripped :: "string list \<Rightarrow> string list" where
  "stripped values = map strip (filter (\<lambda>v. strip v \<noteq> []) values)"

definition required_text :: "exn_class \<Rightarrow> string \<Rightarrow> string \<Rightarrow> string res" where
  "required_text c value label =
     bindE (require (strip value \<noteq> []) (Exn c (label @ '' is required''))) (\<lambda>_. Inr (strip value))"

definition checked_paths :: "exn_class \<Rightarrow> string \<Rightarrow> string list \<Rightarrow> string list res" where
  "checked_paths c what values =
     (let paths = stripped values in
      if paths = [] then Inl (Exn c (''at least one '' @ what @ '' is required''))
      else case filter (\<lambda>p. \<not> policy_path_fullmatch p) paths of
        bad # _ \<Rightarrow> Inl (Exn c (''invalid '' @ what @ '': '' @ bad))
      | [] \<Rightarrow> Inr paths)"

lemma required_text_Inr: "required_text c v l = Inr s \<longleftrightarrow> s = strip v \<and> s \<noteq> []"
  by (auto simp: required_text_def monad_simps)

lemma checked_paths_Inr: "checked_paths c w vs = Inr ps \<longleftrightarrow>
    ps = stripped vs \<and> ps \<noteq> [] \<and> list_all policy_path_fullmatch ps"
  by (auto simp: checked_paths_def Let_def list_all_iff filter_empty_conv split: list.splits)
    (metis list.set_intros(1) mem_Collect_eq set_filter)+

lemma required_text_Inl: "required_text c v l = Inl e \<Longrightarrow> is_class c e"
  by (auto simp: required_text_def monad_simps)

lemma checked_paths_Inl: "checked_paths c w vs = Inl e \<Longrightarrow> is_class c e"
  by (auto simp: checked_paths_def Let_def split: list.splits if_splits)

lemma aware_timestamp_Inl: "aware_timestamp ck c s v = Inl e \<Longrightarrow> is_class c e"
  by (auto simp: aware_timestamp_def split: option.splits datetime.splits)

text \<open>
  A path whose text parses back to it: its parts are names without a slash, not empty and not a single
  dot, and its root is one of the three roots.
\<close>

definition clean_path :: "path \<Rightarrow> bool" where
  "clean_path p \<longleftrightarrow> path_root p \<in> {[], ''/'', ''//''} \<and>
     list_all (\<lambda>q. q \<noteq> [] \<and> q \<noteq> ''.'' \<and> slash \<notin> set q) (path_parts p)"

lemma clean_path_of: "clean_path (path_of s)"
proof -
  have "path_root (path_of s) \<in> {[], ''/'', ''//''}"
    by (auto simp: path_of_def Let_def split: list.splits)
  with path_of_parts [of _ s] show ?thesis by (auto simp: clean_path_def list_all_iff)
qed

lemma clean_path_join: "clean_path p \<Longrightarrow> clean_path (path_join p s)"
  using clean_path_of [of s] by (auto simp: path_join_def Let_def clean_path_def)

lemma split_pred_append: "(\<And>c. c \<in> set w \<Longrightarrow> \<not> p c) \<Longrightarrow> p d \<Longrightarrow>
    split_pred p (w @ d # s) = w # split_pred p s"
  by (induction w) auto

lemma split_char_join:
  assumes "ws \<noteq> []" and "list_all (\<lambda>w. c \<notin> set w) ws"
  shows "split_char c (join [c] ws) = ws"
  using assms
proof (induction ws rule: induct_list012)
  case 1
  then show ?case by simp
next
  case (2 w)
  then show ?case
    by (auto simp: split_char_def join_def intro!: split_pred_None)
next
  case (3 w v ws)
  have "join [c] (w # v # ws) = w @ c # join [c] (v # ws)" by (simp add: join_def)
  moreover have "split_pred (\<lambda>d. d = c) (w @ c # join [c] (v # ws)) = w # split_pred (\<lambda>d. d = c) (join [c] (v # ws))"
    using 3 by (intro split_pred_append) auto
  ultimately show ?case
    using 3 by (simp add: split_char_def)
qed

lemma path_of_str:
  assumes "clean_path p"
  shows "path_of (path_str p) = p"
proof (cases p)
  case (Path r ps)
  have clean: "list_all (\<lambda>w. slash \<notin> set w) ps"
      "filter (\<lambda>q. q \<noteq> [] \<and> q \<noteq> ''.'') ps = ps" and r: "r = [] \<or> r = ''/'' \<or> r = ''//''"
    using assms Path by (auto simp: clean_path_def list_all_iff)
  note s = slash_def split_char_def
  show ?thesis
  proof (cases ps)
    case Nil
    with r Path show ?thesis
      by (auto simp: path_str_def path_of_def join_def s)
  next
    case (Cons w ws)
    obtain c cs where w: "w = c # cs" "c \<noteq> slash"
      using assms Path Cons by (cases w) (auto simp: clean_path_def)
    obtain t where t: "join [slash] ps = c # t" using Cons w by (simp add: join_def)
    have split: "split_char slash (c # t) = ps"
      using split_char_join [of ps slash] clean(1) Cons t by simp
    have str: "path_str p = r @ c # t"
      using t Path Cons by (simp add: path_str_def slash_def)
    have "path_parts (path_of (path_str p)) = ps"
      using r split clean(2) by (auto simp: str path_of_def Let_def s)
    moreover have "path_root (path_of (path_str p)) = r"
      using r w(2) by (auto simp: str path_of_def Let_def s split: list.splits)
    ultimately show ?thesis using Path by (metis path.collapse path.sel)
  qed
qed

end
