(* ===== verification/Distributed_State.thy ===== *)
theory Distributed_State
  imports Json_Files Shared_Policy
begin

text \<open>
  The deployment state store (\<^verbatim>\<open>distributed_state.py\<close>). The store is its files: the lock, the
  lock counter, the active and the previous state, the journal, the audit log and the partial files
  of interrupted writes. The journal is a list of
  lines. The order of the keys of a stored object is not modelled, since every reader looks up keys. A
  file that does not decode, by its bytes or its JSON, is \<open>Corrupt\<close>, and messages do not have the path.
\<close>

record ds_files =
  ds_lock :: json_file
  ds_lock_counter :: json_file
  ds_active :: json_file
  ds_previous :: json_file
  ds_journal :: "pyval option list"
  ds_audit :: "pydict list"
  ds_partials :: "string list"

type_synonym 'a ds_sem = "(ds_files, exn, 'a) sem"

abbreviation ds_error :: "string \<Rightarrow> exn" where
  "ds_error \<equiv> Exn DistributedStateError"

abbreviation ds_conflict :: "string \<Rightarrow> exn" where
  "ds_conflict \<equiv> Exn DistributedStateConflict"

section \<open>Reading\<close>

definition require_json :: "json_file \<Rightarrow> string \<Rightarrow> pydict res" where
  "require_json file message =
     (case file of
        Absent \<Rightarrow> Inl (ds_error message)
      | Corrupt \<Rightarrow> Inl (Exn JSONDecodeError ''Expecting value'')
      | Content (PDict d) \<Rightarrow> Inr d
      | Content _ \<Rightarrow> Inl (ds_error ''expected JSON object''))"

definition read_json_optional :: "json_file \<Rightarrow> pydict option res" where
  "read_json_optional file =
     (if file = Absent then Inr None
      else bindE (require_json file ''expected JSON object'') (\<lambda>d. Inr (Some d)))"

definition read_jsonl :: "pyval option list \<Rightarrow> pydict list res" where
  "read_jsonl lines = mapE (\<lambda>l. case l of
     None \<Rightarrow> Inl (Exn JSONDecodeError ''Expecting value'')
   | Some (PDict d) \<Rightarrow> Inr d
   | Some _ \<Rightarrow> Inl (ds_error ''expected JSON object'')) lines"

section \<open>Checks and events\<close>

definition ds_tenant_context :: "pydict \<Rightarrow> pydict res" where
  "ds_tenant_context context = map_exn (\<lambda>e. if is_class SharedRuntimePolicyError e
     then ds_error (exn_str e) else e) (validate_tenant_context context)"

definition ds_required_identifier :: "pyval \<Rightarrow> string \<Rightarrow> string res" where
  "ds_required_identifier v field =
     (case v of
        PStr s \<Rightarrow> if blank s then Inl (ds_error (field @ '' is required''))
          else if CHR ''/'' \<in> set s \<or> CHR 0x5C \<in> set s
          then Inl (ds_error (field @ '' must not contain path separators''))
          else Inr s
      | _ \<Rightarrow> Inl (ds_error (field @ '' is required'')))"

definition utc_datetime :: "datetime \<Rightarrow> int res" where
  "utc_datetime d = (case d of
     Aware t \<Rightarrow> Inr t | Naive t \<Rightarrow> Inl (ds_error ''now must be timezone-aware''))"

definition format_utc :: "iso_clock \<Rightarrow> int \<Rightarrow> string" where
  "format_utc ck t = iso_z ck t"

definition parse_utc :: "iso_clock \<Rightarrow> string \<Rightarrow> int res" where
  "parse_utc ck s = bindE (fromisoformat ck s) (\<lambda>d. Inr (to_utc ck d))"

definition revision_of :: "pydict \<Rightarrow> int res" where
  "revision_of rec = bindE (dindex rec ''revision'') py_int"

definition revision_optional :: "pydict option \<Rightarrow> int option res" where
  "revision_optional rec = (case rec of None \<Rightarrow> Inr None
     | Some r \<Rightarrow> bindE (revision_of r) (\<lambda>i. Inr (Some i)))"

definition lock_event ::
    "pydict \<Rightarrow> string \<Rightarrow> string \<Rightarrow> string option \<Rightarrow> string option \<Rightarrow> string option \<Rightarrow> pydict" where
  "lock_event context owner_id result denial_reason stale_owner_id stale_token =
     [(''event_type'', PStr ''distributed_state_lock''),
      (''tenant_id'', dget context ''tenant_id''), (''workspace_id'', dget context ''workspace_id''),
      (''user_id'', dget context ''user_id''), (''owner_id'', PStr owner_id), (''result'', PStr result)] @
     (case denial_reason of None \<Rightarrow> [] | Some r \<Rightarrow> [(''denial_reason'', PStr r)]) @
     (case stale_owner_id of None \<Rightarrow> [] | Some r \<Rightarrow> [(''stale_owner_id'', PStr r)]) @
     (case stale_token of None \<Rightarrow> [] | Some r \<Rightarrow> [(''stale_token'', PStr r)])"

definition mutation_event ::
    "string \<Rightarrow> pydict \<Rightarrow> string \<Rightarrow> int option \<Rightarrow> string option \<Rightarrow> pydict" where
  "mutation_event event_type lock result revision denial_reason =
     (let g = (\<lambda>k. dget_or lock k (PStr '''')) in
     [(''event_type'', PStr event_type), (''tenant_id'', g ''tenant_id''),
      (''workspace_id'', g ''workspace_id''), (''user_id'', g ''user_id''),
      (''owner_id'', g ''owner_id''), (''lock_token'', g ''token''), (''result'', PStr result)] @
     (case revision of None \<Rightarrow> [] | Some i \<Rightarrow> [(''revision'', PInt i)]) @
     (case denial_reason of None \<Rightarrow> [] | Some r \<Rightarrow> [(''denial_reason'', PStr r)]))"

section \<open>Writing\<close>

definition append_audit :: "pydict \<Rightarrow> unit ds_sem" where
  "append_audit entry = modifyS (\<lambda>s. s\<lparr>ds_audit := ds_audit s @ [entry]\<rparr>)"

definition append_journal :: "pydict \<Rightarrow> unit ds_sem" where
  "append_journal entry = modifyS (\<lambda>s. s\<lparr>ds_journal := ds_journal s @ [Some (PDict entry)]\<rparr>)"

definition write_lock :: "pydict \<Rightarrow> unit ds_sem" where
  "write_lock d = modifyS (\<lambda>s. s\<lparr>ds_lock := Content (PDict d)\<rparr>)"

definition write_lock_counter :: "pydict \<Rightarrow> unit ds_sem" where
  "write_lock_counter d = modifyS (\<lambda>s. s\<lparr>ds_lock_counter := Content (PDict d)\<rparr>)"

definition write_active :: "pydict \<Rightarrow> unit ds_sem" where
  "write_active d = modifyS (\<lambda>s. s\<lparr>ds_active := Content (PDict d)\<rparr>)"

definition write_previous :: "pydict \<Rightarrow> unit ds_sem" where
  "write_previous d = modifyS (\<lambda>s. s\<lparr>ds_previous := Content (PDict d)\<rparr>)"

definition readS :: "(ds_files \<Rightarrow> 'a res) \<Rightarrow> 'a ds_sem" where
  "readS f = bindS getS (\<lambda>s. liftS (f s))"

section \<open>The lock\<close>

definition next_lock_token :: "string ds_sem" where
  "next_lock_token =
     bindS (readS (\<lambda>s. read_json_optional (ds_lock_counter s))) (\<lambda>current.
     bindS (liftS (case current of None \<Rightarrow> Inr 1
        | Some d \<Rightarrow> bindE (bindE (dindex d ''value'') py_int) (\<lambda>i. Inr (i + 1)))) (\<lambda>next_value.
     seqS (write_lock_counter [(''value'', PInt next_value)])
     (returnS (pad_int 12 next_value))))"

definition lock_record :: "iso_clock \<Rightarrow> pydict \<Rightarrow> string \<Rightarrow> string \<Rightarrow> int \<Rightarrow> int \<Rightarrow> pydict" where
  "lock_record ck context owner_id token now ttl_seconds =
     [(''owner_id'', PStr owner_id), (''token'', PStr token),
      (''tenant_id'', dget context ''tenant_id''), (''workspace_id'', dget context ''workspace_id''),
      (''user_id'', dget context ''user_id''), (''acquired_at'', PStr (format_utc ck now)),
      (''expires_at'', PStr (format_utc ck (now + ttl_seconds * 1000000)))]"

definition acquire_lock ::
    "iso_clock \<Rightarrow> pyval \<Rightarrow> pydict \<Rightarrow> datetime \<Rightarrow> int \<Rightarrow> pydict ds_sem" where
  "acquire_lock ck owner_id tenant_context now ttl_seconds =
     bindS (liftS (ds_tenant_context tenant_context)) (\<lambda>context.
     bindS (liftS (ds_required_identifier owner_id ''owner_id'')) (\<lambda>owner.
     bindS (liftS (utc_datetime now)) (\<lambda>safe_now.
     if ttl_seconds \<le> 0 then raiseS (ds_error ''ttl_seconds must be positive'')
     else
     bindS (readS (\<lambda>s. read_json_optional (ds_lock s))) (\<lambda>existing.
     seqS (case existing of
         None \<Rightarrow> returnS ()
       | Some lock \<Rightarrow>
           bindS (liftS (bindE (dindex lock ''expires_at'') (\<lambda>v. parse_utc ck (py_str v)))) (\<lambda>expires_at.
           if safe_now < expires_at
           then seqS (append_audit (lock_event context owner ''denied'' (Some ''lock_conflict'') None None))
                  (raiseS (ds_conflict ''state lock is held''))
           else bindS (liftS (dindex lock ''owner_id'')) (\<lambda>stale_owner.
                bindS (liftS (dindex lock ''token'')) (\<lambda>stale_token.
                append_audit (lock_event context owner ''recovered'' None (Some (py_str stale_owner))
                  (Some (py_str stale_token)))))))
     (bindS next_lock_token (\<lambda>token.
      let lock = lock_record ck context owner token safe_now ttl_seconds in
      seqS (write_lock lock)
      (seqS (append_audit (lock_event context owner ''acquired'' None None None))
      (returnS lock))))))))"

definition require_matching_lock :: "pydict \<Rightarrow> unit ds_sem" where
  "require_matching_lock lock =
     bindS (readS (\<lambda>s. require_json (ds_lock s) ''shared-runtime state lock is missing'')) (\<lambda>current.
     if \<not> py_eq (dget current ''owner_id'') (dget lock ''owner_id'') \<or>
        \<not> py_eq (dget current ''token'') (dget lock ''token'')
     then seqS (append_audit (mutation_event ''distributed_state_mutation'' lock ''denied'' None
                  (Some ''lock_token_mismatch'')))
            (raiseS (ds_conflict ''state mutation requires matching lock token''))
     else returnS ())"

section \<open>Mutations\<close>

definition entry_revisions :: "pydict \<Rightarrow> int list res" where
  "entry_revisions entry = mapE (\<lambda>v. case v of PDict r \<Rightarrow> revision_of r | _ \<Rightarrow> Inr 0)
     (filter is_dict (map (dget entry) [''record'', ''active_record'', ''previous_record'']))"

definition next_revision :: "int option \<Rightarrow> int ds_sem" where
  "next_revision active_revision =
     (case active_revision of
        Some i \<Rightarrow> returnS (i + 1)
      | None \<Rightarrow> readS (\<lambda>s. bindE (read_jsonl (ds_journal s)) (\<lambda>entries.
          bindE (mapE entry_revisions entries) (\<lambda>revs.
          Inr (fold max (concat revs) 0 + 1)))))"

definition state_record :: "int \<Rightarrow> pydict \<Rightarrow> pydict" where
  "state_record revision state =
     [(''revision'', PInt revision), (''status'', PStr ''active''), (''state'', PDict (sort_key fst state))]"

definition apply_entry :: "pydict \<Rightarrow> pydict option \<Rightarrow> pydict" where
  "apply_entry rec active = [(''action'', PStr ''apply''), (''record'', PDict rec),
     (''previous'', case active of None \<Rightarrow> PNone | Some a \<Rightarrow> PDict a)]"

definition rollback_entry :: "pydict \<Rightarrow> pydict \<Rightarrow> pydict" where
  "rollback_entry previous active = [(''action'', PStr ''rollback''),
     (''active_record'', PDict previous), (''previous_record'', PDict active)]"

definition apply_state :: "pydict \<Rightarrow> pydict \<Rightarrow> int option \<Rightarrow> pydict ds_sem" where
  "apply_state lock state expected_active_revision =
     seqS (require_matching_lock lock)
     (bindS (readS (\<lambda>s. read_json_optional (ds_active s))) (\<lambda>active.
      bindS (liftS (revision_optional active)) (\<lambda>active_revision.
      if active_revision \<noteq> expected_active_revision
      then seqS (append_audit (mutation_event ''distributed_state_apply'' lock ''denied'' None
                   (Some ''revision_conflict'')))
             (raiseS (ds_conflict ''active revision conflict''))
      else
      bindS (next_revision active_revision) (\<lambda>revision.
      let rec = state_record revision state in
      seqS (case active of None \<Rightarrow> returnS () | Some a \<Rightarrow> write_previous a)
      (seqS (write_active rec)
      (seqS (append_journal (apply_entry rec active))
      (seqS (append_audit (mutation_event ''distributed_state_apply'' lock ''allowed'' (Some revision) None))
      (returnS rec))))))))"

definition rollback :: "pydict \<Rightarrow> (int \<times> int) ds_sem" where
  "rollback lock =
     seqS (require_matching_lock lock)
     (bindS (readS (\<lambda>s. require_json (ds_active s) ''active shared-runtime state is missing'')) (\<lambda>active.
      bindS (readS (\<lambda>s. require_json (ds_previous s) ''previous shared-runtime state is missing'')) (\<lambda>previous.
      seqS (write_active previous)
      (seqS (write_previous active)
      (seqS (append_journal (rollback_entry previous active))
      (bindS (liftS (revision_of previous)) (\<lambda>r.
      seqS (append_audit (mutation_event ''distributed_state_rollback'' lock ''allowed'' (Some r) None))
      (bindS (liftS (revision_of active)) (\<lambda>a. returnS (r, a))))))))))"

section \<open>Recovery\<close>

definition remove_partial_files :: "string list ds_sem" where
  "remove_partial_files = bindS getS (\<lambda>s.
     seqS (modifyS (\<lambda>s. s\<lparr>ds_partials := []\<rparr>)) (returnS (sort (ds_partials s))))"

definition replay_step ::
    "pydict option \<times> pydict option \<Rightarrow> pydict \<Rightarrow> (pydict option \<times> pydict option) res" where
  "replay_step st entry =
     (case st of (active, previous) \<Rightarrow>
        if dget entry ''action'' = PStr ''apply'' then
          (case dget entry ''record'' of
             PDict rec \<Rightarrow> Inr (Some rec, active)
           | _ \<Rightarrow> Inl (ds_error ''apply journal entry is missing record''))
        else if dget entry ''action'' = PStr ''rollback'' then
          (case (dget entry ''active_record'', dget entry ''previous_record'') of
             (PDict a, PDict p) \<Rightarrow> Inr (Some a, Some p)
           | _ \<Rightarrow> Inl (ds_error ''rollback journal entry is incomplete''))
        else Inr (active, previous))"

definition replay_journal :: "pyval option list \<Rightarrow> (pydict option \<times> pydict option) res" where
  "replay_journal lines = bindE (read_jsonl lines) (foldE replay_step (None, None))"

definition recovery_event :: "string \<Rightarrow> int \<Rightarrow> string list \<Rightarrow> pydict" where
  "recovery_event result revision removed =
     [(''event_type'', PStr ''distributed_state_recovery''), (''result'', PStr result),
      (''active_revision'', PInt revision), (''removed_partial_files'', PList (map PStr removed))]"

definition recover :: "(int \<times> bool \<times> string list) ds_sem" where
  "recover =
     bindS remove_partial_files (\<lambda>removed.
     bindS getS (\<lambda>s.
     if ds_active s \<noteq> Absent then
       bindS (liftS (require_json (ds_active s) ''active shared-runtime state is missing'')) (\<lambda>active.
       bindS (liftS (revision_of active)) (\<lambda>r.
       seqS (append_audit (recovery_event ''checked'' r removed))
       (returnS (r, False, removed))))
     else
       bindS (liftS (replay_journal (ds_journal s))) (\<lambda>(active, previous).
       case active of
         None \<Rightarrow> raiseS (ds_error ''no shared-runtime journal entries to recover'')
       | Some a \<Rightarrow>
           seqS (write_active a)
           (seqS (case previous of None \<Rightarrow> returnS () | Some p \<Rightarrow> write_previous p)
           (bindS (liftS (revision_of a)) (\<lambda>r.
           seqS (append_audit (recovery_event ''replayed'' r removed))
           (returnS (r, True, removed))))))))"

interpretation ds_id: identifier_check ds_required_identifier ds_error
proof unfold_locales
  show "ds_required_identifier v field = Inr s \<longleftrightarrow> v = PStr s \<and> safe_identifier s" for v field s
    by (cases v) (auto simp: ds_required_identifier_def safe_identifier_def)
  show "\<exists>m. e = ds_error m" if "ds_required_identifier v field = Inl e" for v field e
    using that by (cases v) (auto simp: ds_required_identifier_def split: if_splits)
qed

end
