(* ===== verification/Distributed_Facts.thy ===== *)
theory Distributed_Facts
  imports Distributed_State
begin

text \<open>
  What the deployment state store of \<^verbatim>\<open>distributed_state.py\<close> guarantees over every
  sequence of its operations: the lock token fences off an old holder, a lock excludes others until
  it expires, a mutation needs the expected revision, and the journal restores lost state.
\<close>

section \<open>Tokens\<close>

lemma foldl_zeros: "foldl (\<lambda>n c. 10 * n + (code c - 48)) 0 (replicate k (CHR ''0'') @ ds) =
    foldl (\<lambda>n c. 10 * n + (code c - 48)) 0 ds"
  by (induction k) simp_all

lemma parse_nat_padded: "parse_nat (replicate k (CHR ''0'') @ str_nat n) = Some n"
proof -
  let ?s = "replicate k (CHR ''0'') @ str_nat n"
  have dig: "is_digit c" if "c \<in> set ?s" for c
    using that is_digit_str_nat by (auto simp: is_digit_def)
  have "\<not> is_digit CHR ''_''" by (simp add: is_digit_def)
  then have "CHR ''_'' \<notin> set ?s" using dig by blast
  then have "split_char CHR ''_'' ?s = [?s]"
    unfolding split_char_def by (intro split_pred_None) blast
  moreover have "list_all is_digit ?s" "?s \<noteq> []" using dig by (auto simp: list_all_iff)
  moreover have "foldl (\<lambda>n c. 10 * n + (code c - 48)) 0 ?s = n"
    using foldl_zeros foldl_str_nat by simp
  ultimately show ?thesis by (simp add: parse_nat_def Let_def)
qed

lemma pad_int_inject: "0 \<le> i \<Longrightarrow> 0 \<le> j \<Longrightarrow> pad_int w i = pad_int w j \<longleftrightarrow> i = j"
proof
  assume nn: "0 \<le> i" "0 \<le> j" and e: "pad_int w i = pad_int w j"
  have p: "parse_nat (pad_int w i) = Some (nat i)" if "0 \<le> i" for i
    using that by (simp add: pad_int_def Let_def parse_nat_padded)
  from e p [OF nn(1)] p [OF nn(2)] nn show "i = j" by simp
qed simp

section \<open>The store's invariant\<close>

definition file_is :: "json_file \<Rightarrow> pydict option \<Rightarrow> bool" where
  "file_is f r \<longleftrightarrow> f = (case r of None \<Rightarrow> Absent | Some d \<Rightarrow> Content (PDict d))"

definition has_revision :: "pydict \<Rightarrow> bool" where
  "has_revision rec \<longleftrightarrow> (\<exists>i. revision_of rec = Inr i)"

text \<open>The lock's token is the counter; before the first lock both files are absent.\<close>

definition lock_ok :: "iso_clock \<Rightarrow> int \<Rightarrow> ds_files \<Rightarrow> bool" where
  "lock_ok ck n s \<longleftrightarrow>
     (n = 0 \<and> ds_lock_counter s = Absent \<and> ds_lock s = Absent) \<or>
     (0 < n \<and> ds_lock_counter s = Content (PDict [(''value'', PInt n)]) \<and>
      (\<exists>context owner now ttl.
         ds_lock s = Content (PDict (lock_record ck context owner (pad_int 12 n) now ttl))))"

text \<open>Replaying the journal gives the active and the previous record.\<close>

definition journal_ok :: "ds_files \<Rightarrow> bool" where
  "journal_ok s \<longleftrightarrow> (\<exists>a p. replay_journal (ds_journal s) = Inr (a, p) \<and>
     file_is (ds_active s) a \<and> file_is (ds_previous s) p \<and> (a = None \<longrightarrow> p = None) \<and>
     (\<forall>r. a = Some r \<or> p = Some r \<longrightarrow> has_revision r))"

definition store_ok :: "iso_clock \<Rightarrow> ds_files \<Rightarrow> bool" where
  "store_ok ck s \<longleftrightarrow> (\<exists>n. lock_ok ck n s) \<and> journal_ok s"

definition empty_store :: "ds_files \<Rightarrow> bool" where
  "empty_store s \<longleftrightarrow> ds_lock s = Absent \<and> ds_lock_counter s = Absent \<and> ds_active s = Absent \<and>
     ds_previous s = Absent \<and> ds_journal s = []"

text \<open>
  One operation of any client, whatever its outcome, or a write that was interrupted before the
  file was replaced and leaves its partial file.
\<close>

inductive ds_step :: "iso_clock \<Rightarrow> ds_files \<Rightarrow> ds_files \<Rightarrow> bool" for ck where
  acquire: "ds_step ck s (snd (acquire_lock ck owner context now ttl s))"
| mutate: "ds_step ck s (snd (apply_state lock state expected s))"
| rollback: "ds_step ck s (snd (rollback lock s))"
| recover: "ds_step ck s (snd (recover s))"
| partial: "ds_step ck s (s\<lparr>ds_partials := p # ds_partials s\<rparr>)"

inductive_cases ds_stepE: "ds_step ck s t"

lemma readS_apply [monad_simps]: "readS f s = (f s, s)"
  by (simp add: readS_def monad_simps)

lemmas ds_writes = append_audit_def append_journal_def write_lock_def write_lock_counter_def
  write_active_def write_previous_def

section \<open>Acquiring\<close>

text \<open>The files that an operation on the lock leaves alone.\<close>

definition same_state :: "ds_files \<Rightarrow> ds_files \<Rightarrow> bool" where
  "same_state s t \<longleftrightarrow> ds_active t = ds_active s \<and> ds_previous t = ds_previous s \<and>
     ds_journal t = ds_journal s"

definition same_lock :: "ds_files \<Rightarrow> ds_files \<Rightarrow> bool" where
  "same_lock s t \<longleftrightarrow> ds_lock t = ds_lock s \<and> ds_lock_counter t = ds_lock_counter s"

lemma same_refl [simp]: "same_state s s" "same_lock s s"
  by (simp_all add: same_state_def same_lock_def)

lemma same_lock_ok: "same_lock s t \<Longrightarrow> lock_ok ck n t \<longleftrightarrow> lock_ok ck n s"
  by (simp add: same_lock_def lock_ok_def)

lemma same_journal_ok: "same_state s t \<Longrightarrow> journal_ok t \<longleftrightarrow> journal_ok s"
  by (simp add: same_state_def journal_ok_def)

lemma next_lock_token_ok:
  assumes "lock_ok ck n s"
  shows "next_lock_token s = (Inr (pad_int 12 (n + 1)),
    s\<lparr>ds_lock_counter := Content (PDict [(''value'', PInt (n + 1))])\<rparr>)"
  using assms
  by (auto simp: next_lock_token_def lock_ok_def read_json_optional_def require_json_def monad_simps
      ds_writes)

text \<open>The part of \<open>acquire_lock\<close> that looks at an existing lock.\<close>

definition inspect_lock :: "iso_clock \<Rightarrow> pydict \<Rightarrow> string \<Rightarrow> int \<Rightarrow> pydict option \<Rightarrow> unit ds_sem" where
  "inspect_lock ck context owner safe_now existing = (case existing of
     None \<Rightarrow> returnS ()
   | Some lock \<Rightarrow>
       bindS (liftS (bindE (dindex lock ''expires_at'') (\<lambda>v. parse_utc ck (py_str v)))) (\<lambda>expires_at.
       if safe_now < expires_at
       then seqS (append_audit (lock_event context owner ''denied'' (Some ''lock_conflict'') None None))
              (raiseS (ds_conflict ''state lock is held''))
       else bindS (liftS (dindex lock ''owner_id'')) (\<lambda>stale_owner.
            bindS (liftS (dindex lock ''token'')) (\<lambda>stale_token.
            append_audit (lock_event context owner ''recovered'' None (Some (py_str stale_owner))
              (Some (py_str stale_token)))))))"

lemma inspect_lock_same:
  "same_state s (snd (inspect_lock ck context owner now ex s)) \<and>
   same_lock s (snd (inspect_lock ck context owner now ex s))"
  by (auto simp: inspect_lock_def monad_simps ds_writes same_state_def same_lock_def
      split: option.split sum.split)

lemma acquire_lock_cases:
  assumes "acquire_lock ck owner context now ttl s = (r, s')"
  obtains (refused) e where "r = Inl e" "same_state s s'" "same_lock s s'"
  | (granted) d o' t ex s1 where "ds_tenant_context context = Inr d" "owner = PStr o'" "now = Aware t"
      "0 < ttl" "read_json_optional (ds_lock s) = Inr ex" "inspect_lock ck d o' t ex s = (Inr (), s1)"
      "(r, s') = bindS next_lock_token (\<lambda>token.
         let lock = lock_record ck d o' token t ttl in
         seqS (write_lock lock)
         (seqS (append_audit (lock_event d o' ''acquired'' None None None))
         (returnS lock))) s1"
proof -
  consider (ctx) e where "ds_tenant_context context = Inl e"
    | (own) d e where "ds_tenant_context context = Inr d" "ds_required_identifier owner ''owner_id'' = Inl e"
    | (clock) d o' e where "ds_tenant_context context = Inr d"
        "ds_required_identifier owner ''owner_id'' = Inr o'" "utc_datetime now = Inl e"
    | (ok) d o' t where "ds_tenant_context context = Inr d"
        "ds_required_identifier owner ''owner_id'' = Inr o'" "utc_datetime now = Inr t"
    by (metis sum.exhaust)
  then show thesis
  proof cases
    case ok
    have o': "owner = PStr o'" using ok(2) by (simp add: ds_id.check_Inr)
    have t: "now = Aware t" using ok(3) by (cases now) (simp_all add: utc_datetime_def)
    show thesis
    proof (cases "ttl \<le> 0")
      case True
      with ok assms refused show thesis
        by (simp add: acquire_lock_def monad_simps) (metis same_refl)
    next
      case False
      show thesis
      proof (cases "read_json_optional (ds_lock s)")
        case (Inl e)
        with ok False assms refused show thesis
          by (simp add: acquire_lock_def monad_simps) (metis same_refl)
      next
        case (Inr ex)
        obtain r1 s1 where i: "inspect_lock ck d o' t ex s = (r1, s1)"
          by (cases "inspect_lock ck d o' t ex s")
        have acq: "(r, s') = (case (r1, s1) of (Inl e, s1) \<Rightarrow> (Inl e, s1)
          | (Inr u, s1) \<Rightarrow> bindS next_lock_token (\<lambda>token.
             let lock = lock_record ck d o' token t ttl in
             seqS (write_lock lock)
             (seqS (append_audit (lock_event d o' ''acquired'' None None None))
             (returnS lock))) s1)"
          using assms ok False Inr i
          unfolding acquire_lock_def inspect_lock_def
          by (simp add: bindS_apply seqS_apply sem_simps readS_apply)
        show thesis
        proof (cases r1)
          case (Inl e)
          with acq i inspect_lock_same [of s ck d o' t ex] show thesis
            by (intro refused) simp_all
        next
          case (Inr u)
          with acq i have "(r, s') = bindS next_lock_token (\<lambda>token.
             let lock = lock_record ck d o' token t ttl in
             seqS (write_lock lock)
             (seqS (append_audit (lock_event d o' ''acquired'' None None None))
             (returnS lock))) s1" by simp
          with ok o' t False \<open>read_json_optional (ds_lock s) = Inr ex\<close> i Inr show thesis
            by (intro granted) auto
        qed
      qed
    qed
  qed (use assms refused in \<open>simp add: acquire_lock_def monad_simps; metis same_refl\<close>)+
qed

lemma acquire_lock_ok:
  assumes "acquire_lock ck owner context now ttl s = (r, s')" and "lock_ok ck n s"
  shows "same_state s s' \<and>
    ((\<exists>e. r = Inl e \<and> same_lock s s') \<or>
     (\<exists>d o' t. now = Aware t \<and> 0 < ttl \<and> r = Inr (lock_record ck d o' (pad_int 12 (n + 1)) t ttl) \<and>
        ds_lock s' = Content (PDict (lock_record ck d o' (pad_int 12 (n + 1)) t ttl)) \<and>
        lock_ok ck (n + 1) s'))"
  using assms(1)
proof (cases rule: acquire_lock_cases)
  case (refused e)
  then show ?thesis by blast
next
  case (granted d o' t ex s1)
  have same: "same_state s s1" "same_lock s s1"
    using inspect_lock_same [of s ck d o' t ex] granted(6) by simp_all
  then have "lock_ok ck n s1" using assms(2) same_lock_ok by blast
  from next_lock_token_ok [OF this] granted(7)
  have r: "r = Inr (lock_record ck d o' (pad_int 12 (n + 1)) t ttl)"
    and s': "s' = s1\<lparr>ds_lock_counter := Content (PDict [(''value'', PInt (n + 1))]),
      ds_lock := Content (PDict (lock_record ck d o' (pad_int 12 (n + 1)) t ttl)),
      ds_audit := ds_audit s1 @ [lock_event d o' ''acquired'' None None None]\<rparr>"
    by (simp_all add: monad_simps ds_writes Let_def)
  have "0 \<le> n" using assms(2) by (auto simp: lock_ok_def)
  then have "lock_ok ck (n + 1) s'" unfolding lock_ok_def s' by auto
  with same(1) r granted(3,4) show ?thesis by (auto simp: s' same_state_def)
qed

section \<open>Mutations\<close>

lemma require_matching_lock_cases:
  assumes "require_matching_lock lock s = (r, s')"
  obtains (refused) e where "r = Inl e" "same_state s s'" "same_lock s s'"
  | (held) current where "r = Inr ()" "s' = s" "ds_lock s = Content (PDict current)"
      "py_eq (dget current ''owner_id'') (dget lock ''owner_id'')"
      "py_eq (dget current ''token'') (dget lock ''token'')"
proof (cases "require_json (ds_lock s) ''shared-runtime state lock is missing''")
  case (Inl e)
  with assms show thesis by (intro refused [of e]) (auto simp: require_matching_lock_def monad_simps)
next
  case (Inr current)
  then have c: "ds_lock s = Content (PDict current)"
    by (simp add: require_json_def split: json_file.splits pyval.splits)
  show thesis
  proof (cases "py_eq (dget current ''owner_id'') (dget lock ''owner_id'') \<and>
      py_eq (dget current ''token'') (dget lock ''token'')")
    case True
    with assms Inr c show thesis by (intro held [of current]) (auto simp: require_matching_lock_def monad_simps)
  next
    case False
    with assms Inr show thesis
      by (intro refused [of "ds_conflict ''state mutation requires matching lock token''"])
        (auto simp: require_matching_lock_def monad_simps ds_writes same_state_def same_lock_def)
  qed
qed

lemma read_jsonl_append_Inr:
  "read_jsonl lines = Inr es \<Longrightarrow> read_jsonl (lines @ [Some (PDict e)]) = Inr (es @ [e])"
  unfolding read_jsonl_def by (induction lines arbitrary: es) (auto simp: bindE_eq_Inr)

lemma replay_append:
  assumes "replay_journal lines = Inr st"
  shows "replay_journal (lines @ [Some (PDict e)]) = replay_step st e"
proof -
  from assms obtain es where "read_jsonl lines = Inr es" "foldE replay_step (None, None) es = Inr st"
    by (auto simp: replay_journal_def bindE_eq_Inr)
  then show ?thesis
    by (simp add: replay_journal_def read_jsonl_append_Inr foldE_append)
      (cases "replay_step st e"; simp)
qed

lemma replay_apply: "replay_step (a, p) (apply_entry rec x) = Inr (Some rec, a)"
  by (simp add: replay_step_def apply_entry_def)

lemma replay_rollback: "replay_step st (rollback_entry previous active) = Inr (Some previous, Some active)"
  by (cases st) (simp add: replay_step_def rollback_entry_def)

lemma file_is_Some: "file_is f (Some d) \<longleftrightarrow> f = Content (PDict d)"
  by (simp add: file_is_def)

lemma read_json_file_is: "file_is f r \<Longrightarrow> read_json_optional f = Inr r"
  by (cases r) (auto simp: file_is_def read_json_optional_def require_json_def)

lemma read_json_optional_Inr: "read_json_optional f = Inr r \<longleftrightarrow> file_is f r"
  by (cases f; cases r) (auto simp: read_json_optional_def require_json_def file_is_def
      split: pyval.splits)

lemma has_revision_state_record: "has_revision (state_record i st)"
  by (simp add: has_revision_def revision_of_def state_record_def)

text \<open>A mutation that is not refused: what it read, and the store it leaves.\<close>

lemma apply_state_cases:
  assumes "apply_state lock state expected s = (r, s')"
  obtains (refused) e where "r = Inl e" "same_state s s'" "same_lock s s'"
  | (applied) active i where "file_is (ds_active s) active" "revision_optional active = Inr expected"
      "r = Inr (state_record i state)"
      "ds_active s' = Content (PDict (state_record i state))"
      "ds_previous s' = (case active of None \<Rightarrow> ds_previous s | Some a \<Rightarrow> Content (PDict a))"
      "ds_journal s' = ds_journal s @ [Some (PDict (apply_entry (state_record i state) active))]"
      "same_lock s s'" "require_matching_lock lock s = (Inr (), s)"
      "next_revision expected s = (Inr i, s)"
proof -
  obtain r1 s1 where m: "require_matching_lock lock s = (r1, s1)"
    by (cases "require_matching_lock lock s")
  from m show thesis
  proof (cases rule: require_matching_lock_cases)
    case (refused e)
    with assms m that(1) [of e] show thesis by (auto simp: apply_state_def monad_simps)
  next
    case (held current)
    show thesis
    proof (cases "bindE (read_json_optional (ds_active s)) (\<lambda>a. bindE (revision_optional a) (\<lambda>i. Inr (a, i)))")
      case (Inl e)
      with assms m held that(1) [of e] show thesis
        by (auto simp: apply_state_def monad_simps)
    next
      case (Inr ai)
      then obtain a i where a: "read_json_optional (ds_active s) = Inr a" "revision_optional a = Inr i"
        by (auto simp: bindE_eq_Inr)
      show thesis
      proof (cases "i = expected")
        case False
        with assms m held a that(1) [of "ds_conflict ''active revision conflict''"] show thesis
          by (auto simp: apply_state_def monad_simps ds_writes same_state_def same_lock_def)
      next
        case True
        obtain r2 s2 where n: "next_revision i s = (r2, s2)" by (cases "next_revision i s")
        have "s2 = s" using n by (cases i) (auto simp: next_revision_def monad_simps)
        show thesis
        proof (cases r2)
          case (Inl e)
          with assms m held a True n \<open>s2 = s\<close> that(1) [of e] show thesis
            by (auto simp: apply_state_def monad_simps)
        next
          case (Inr k)
          show thesis
          proof (cases a)
            case None
            with assms m held a True n Inr \<open>s2 = s\<close> that(2) [of a k] show thesis
              by (auto simp: apply_state_def monad_simps ds_writes Let_def same_lock_def
                  read_json_optional_Inr)
          next
            case (Some x)
            with assms m held a True n Inr \<open>s2 = s\<close> that(2) [of a k] show thesis
              by (auto simp: apply_state_def monad_simps ds_writes Let_def same_lock_def
                  read_json_optional_Inr)
          qed
        qed
      qed
    qed
  qed
qed

lemma rollback_cases:
  assumes "rollback lock s = (r, s')"
  obtains (refused) e where "r = Inl e" "same_state s s'" "same_lock s s'"
  | (swapped) a p where "ds_active s = Content (PDict a)" "ds_previous s = Content (PDict p)"
      "ds_active s' = Content (PDict p)" "ds_previous s' = Content (PDict a)"
      "ds_journal s' = ds_journal s @ [Some (PDict (rollback_entry p a))]"
      "same_lock s s'" "require_matching_lock lock s = (Inr (), s)"
      "r = bindE (revision_of p) (\<lambda>i. bindE (revision_of a) (\<lambda>j. Inr (i, j)))"
proof -
  obtain r1 s1 where m: "require_matching_lock lock s = (r1, s1)"
    by (cases "require_matching_lock lock s")
  from m show thesis
  proof (cases rule: require_matching_lock_cases)
    case (refused e)
    with assms m that(1) [of e] show thesis by (auto simp: rollback_def monad_simps)
  next
    case (held current)
    show thesis
    proof (cases "require_json (ds_active s) ''active shared-runtime state is missing''")
      case (Inl e)
      with assms m held that(1) [of e] show thesis by (auto simp: rollback_def monad_simps)
    next
      case a: (Inr a)
      show thesis
      proof (cases "require_json (ds_previous s) ''previous shared-runtime state is missing''")
        case (Inl e)
        with assms m held a that(1) [of e] show thesis by (auto simp: rollback_def monad_simps)
      next
        case p: (Inr p)
        have f: "ds_active s = Content (PDict a)" "ds_previous s = Content (PDict p)"
          using a p by (simp_all add: require_json_def split: json_file.splits pyval.splits)
        show thesis
        proof (cases "revision_of p")
          case (Inl e)
          with assms m held a p f that(2) [of a p] show thesis
            by (auto simp: rollback_def monad_simps ds_writes same_lock_def)
        next
          case (Inr i)
          with assms m held a p f that(2) [of a p] show thesis
            by (cases "revision_of a") (auto simp: rollback_def monad_simps ds_writes same_lock_def)
        qed
      qed
    qed
  qed
qed

section \<open>Every operation keeps the invariant\<close>

lemma journal_ok_apply:
  assumes "journal_ok s" and "apply_state lock state expected s = (r, s')"
  shows "journal_ok s'"
  using assms(2)
proof (cases rule: apply_state_cases)
  case (refused e)
  with assms(1) show ?thesis by (simp add: same_journal_ok)
next
  case (applied active i)
  let ?rec = "state_record i state"
  from assms(1) obtain a p where j: "replay_journal (ds_journal s) = Inr (a, p)"
    "file_is (ds_active s) a" "file_is (ds_previous s) p" "a = None \<longrightarrow> p = None"
    "\<forall>r. a = Some r \<or> p = Some r \<longrightarrow> has_revision r"
    by (auto simp: journal_ok_def)
  have a: "active = a"
    using applied(1) j(2) by (auto simp: read_json_optional_Inr [symmetric])
  have "replay_journal (ds_journal s') = Inr (Some ?rec, a)"
    using replay_append [OF j(1)] replay_apply by (simp add: applied(6))
  moreover have "file_is (ds_active s') (Some ?rec)" using applied(4) by (simp add: file_is_def)
  moreover have "file_is (ds_previous s') a"
    using applied(5) j(3,4) by (auto simp: a file_is_def split: option.splits)
  moreover have "\<forall>r. Some ?rec = Some r \<or> a = Some r \<longrightarrow> has_revision r"
    using j(5) has_revision_state_record by auto
  ultimately show ?thesis unfolding journal_ok_def by blast
qed

lemma journal_ok_rollback:
  assumes "journal_ok s" and "rollback lock s = (r, s')"
  shows "journal_ok s'"
  using assms(2)
proof (cases rule: rollback_cases)
  case (refused e)
  with assms(1) show ?thesis by (simp add: same_journal_ok)
next
  case (swapped a p)
  from assms(1) obtain a' p' where j: "replay_journal (ds_journal s) = Inr (a', p')"
    "file_is (ds_active s) a'" "file_is (ds_previous s) p'"
    "\<forall>r. a' = Some r \<or> p' = Some r \<longrightarrow> has_revision r"
    by (auto simp: journal_ok_def)
  have "a' = Some a" "p' = Some p"
    using j(2,3) swapped(1,2) by (auto simp: file_is_def split: option.splits)
  moreover have "replay_journal (ds_journal s') = Inr (Some p, Some a)"
    using replay_append [OF j(1)] replay_rollback by (simp add: swapped(5))
  ultimately show ?thesis
    unfolding journal_ok_def using j(4) swapped(3,4) by (auto simp: file_is_Some)
qed

text \<open>Recovery with the active file present only looks; without it, it writes what the replay gives.\<close>

lemma recover_active:
  assumes "ds_active s = Content (PDict a)" "has_revision a"
  obtains i where "revision_of a = Inr i"
    "recover s = (Inr (i, False, sort (ds_partials s)), s\<lparr>ds_partials := [],
       ds_audit := ds_audit s @ [recovery_event ''checked'' i (sort (ds_partials s))]\<rparr>)"
  using assms
  by (auto simp: recover_def remove_partial_files_def require_json_def has_revision_def monad_simps
      ds_writes)

lemma recover_replays:
  assumes "ds_active s = Absent" "replay_journal (ds_journal s) = Inr (Some a, p)" "has_revision a"
  obtains i where "revision_of a = Inr i"
    "recover s = (Inr (i, True, sort (ds_partials s)), s\<lparr>ds_partials := [],
       ds_active := Content (PDict a),
       ds_previous := (case p of None \<Rightarrow> ds_previous s | Some d \<Rightarrow> Content (PDict d)),
       ds_audit := ds_audit s @ [recovery_event ''replayed'' i (sort (ds_partials s))]\<rparr>)"
  using assms
  by (cases p) (auto simp: recover_def remove_partial_files_def has_revision_def monad_simps ds_writes)

lemma recover_ok:
  assumes "journal_ok s"
  shows "same_state s (snd (recover s)) \<and> same_lock s (snd (recover s))"
proof -
  from assms obtain a p where j: "replay_journal (ds_journal s) = Inr (a, p)" "file_is (ds_active s) a"
    "\<forall>r. a = Some r \<or> p = Some r \<longrightarrow> has_revision r"
    by (auto simp: journal_ok_def)
  show ?thesis
  proof (cases a)
    case None
    with j show ?thesis
      by (simp add: recover_def remove_partial_files_def file_is_def monad_simps same_state_def
          same_lock_def)
  next
    case (Some d)
    with j(2,3) have "ds_active s = Content (PDict d)" "has_revision d" by (auto simp: file_is_def)
    then obtain i where "recover s = (Inr (i, False, sort (ds_partials s)), s\<lparr>ds_partials := [],
       ds_audit := ds_audit s @ [recovery_event ''checked'' i (sort (ds_partials s))]\<rparr>)"
      by (rule recover_active)
    then show ?thesis by (simp add: same_state_def same_lock_def)
  qed
qed

lemma mutation_same_lock:
  "apply_state lock state expected s = (r, s') \<Longrightarrow> same_lock s s'"
  "rollback lock s = (r2, s2) \<Longrightarrow> same_lock s s2"
  by (erule apply_state_cases; simp) (erule rollback_cases; simp)

text \<open>A step never lowers the token, and keeps the lock unless it takes it.\<close>

lemma ds_step_lock:
  assumes "ds_step ck s t" "lock_ok ck n s" "journal_ok s"
  shows "journal_ok t \<and> (lock_ok ck n t \<or> lock_ok ck (n + 1) t)"
  using assms(1)
proof (cases rule: ds_step.cases)
  case (acquire owner ctx now ttl)
  obtain r where "acquire_lock ck owner ctx now ttl s = (r, t)"
    using acquire by (cases "acquire_lock ck owner ctx now ttl s") simp
  from acquire_lock_ok [OF this assms(2)] assms show ?thesis
    using same_journal_ok same_lock_ok by blast
next
  case (mutate lock state expected)
  obtain r where m: "apply_state lock state expected s = (r, t)"
    using mutate by (cases "apply_state lock state expected s") simp
  show ?thesis
    using journal_ok_apply [OF assms(3) m] mutation_same_lock(1) [OF m] assms(2)
    by (simp add: same_lock_ok)
next
  case (rollback lock)
  obtain r where m: "Distributed_State.rollback lock s = (r, t)"
    using rollback by (cases "Distributed_State.rollback lock s") simp
  show ?thesis
    using journal_ok_rollback [OF assms(3) m] mutation_same_lock(2) [OF m] assms(2)
    by (simp add: same_lock_ok)
next
  case recover
  then show ?thesis
    using recover_ok [OF assms(3)] assms by (auto simp: same_lock_ok same_journal_ok)
next
  case (partial p)
  then show ?thesis
    using assms(2,3) by (simp add: lock_ok_def journal_ok_def)
qed

interpretation store: transition_system empty_store "ds_step ck" "store_ok ck" for ck
proof unfold_locales
  fix s assume "empty_store s"
  then have "lock_ok ck 0 s" "replay_journal (ds_journal s) = Inr (None, None)"
    "file_is (ds_active s) None" "file_is (ds_previous s) None"
    by (simp_all add: empty_store_def lock_ok_def replay_journal_def read_jsonl_def file_is_def)
  then show "store_ok ck s" unfolding store_ok_def journal_ok_def by blast
next
  fix s t assume "store_ok ck s" "ds_step ck s t"
  then show "store_ok ck t" unfolding store_ok_def using ds_step_lock by blast
qed

text \<open>Over any number of steps the token stays or grows.\<close>

lemma ds_steps_lock:
  assumes "(ds_step ck)\<^sup>*\<^sup>* s t" "lock_ok ck n s" "journal_ok s"
  shows "journal_ok t \<and> (\<exists>m. n \<le> m \<and> lock_ok ck m t)"
  using assms
proof (induction rule: rtranclp_induct)
  case base
  then show ?case by blast
next
  case (step t u)
  then obtain m where "journal_ok t" "n \<le> m" "lock_ok ck m t" by blast
  with ds_step_lock [OF step.hyps(2)] show ?case by (metis add_increasing2 zero_le_one)
qed

lemma lock_token:
  "dget (lock_record ck d o' token t ttl) ''token'' = PStr token"
  by (simp add: lock_record_def)

lemma matching_token:
  assumes "require_matching_lock lock s = (Inr (), s)" "lock_ok ck m s" "dget lock ''token'' = PStr (pad_int 12 k)"
    "0 \<le> k"
  shows "m = k"
  using assms(1)
proof (cases rule: require_matching_lock_cases)
  case (refused e)
  then show ?thesis by simp
next
  case (held current)
  then have "dget current ''token'' = PStr (pad_int 12 k)" using assms(3) by simp
  moreover have "0 < m" "dget current ''token'' = PStr (pad_int 12 m)"
    using assms(2) held(3) by (auto simp: lock_ok_def lock_token)
  ultimately show ?thesis using assms(4) pad_int_inject [of m k 12] by simp
qed

lemma fenced_mutation:
  assumes "lock_ok ck m s" "dget lock ''token'' = PStr (pad_int 12 k)" "0 \<le> k" "m \<noteq> k"
  shows "\<exists>e s'. apply_state lock state expected s = (Inl e, s') \<and> same_state s s'"
    and "\<exists>e s'. rollback lock s = (Inl e, s') \<and> same_state s s'"
proof -
  have no: "require_matching_lock lock s \<noteq> (Inr (), s)"
    using matching_token [OF _ assms(1,2,3)] assms(4) by blast
  obtain r s' where a: "apply_state lock state expected s = (r, s')"
    by (cases "apply_state lock state expected s")
  then show "\<exists>e s'. apply_state lock state expected s = (Inl e, s') \<and> same_state s s'"
  proof (cases rule: apply_state_cases)
    case (refused e)
    with a show ?thesis by blast
  qed (use no in blast)
  obtain r s' where b: "rollback lock s = (r, s')" by (cases "rollback lock s")
  then show "\<exists>e s'. rollback lock s = (Inl e, s') \<and> same_state s s'"
  proof (cases rule: rollback_cases)
    case (refused e)
    with b show ?thesis by blast
  qed (use no in blast)
qed

text \<open>C35. Fencing: once somebody has taken the lock of the store again, no mutation with the earlier
  lock succeeds, whatever operations happen before, between and after, and the active state, the
  previous state and the journal stay as they are.\<close>

theorem stale_lock_fenced:
  assumes "reachable_from empty_store (ds_step ck) s0"
    and "acquire_lock ck owner ctx now ttl s0 = (Inr lock, s1)"
    and "(ds_step ck)\<^sup>*\<^sup>* s1 s2"
    and "acquire_lock ck owner' ctx' now' ttl' s2 = (Inr lock', s3)"
    and "(ds_step ck)\<^sup>*\<^sup>* s3 s4"
  shows "(\<exists>e s5. apply_state lock state expected s4 = (Inl e, s5) \<and> same_state s4 s5) \<and>
    (\<exists>e s5. rollback lock s4 = (Inl e, s5) \<and> same_state s4 s5)"
proof -
  from store.reachable_inv [OF assms(1)] obtain n where n: "lock_ok ck n s0" "journal_ok s0"
    by (auto simp: store_ok_def)
  then have "0 \<le> n" by (auto simp: lock_ok_def)
  have l1: "dget lock ''token'' = PStr (pad_int 12 (n + 1))" "lock_ok ck (n + 1) s1" "journal_ok s1"
    using acquire_lock_ok [OF assms(2) n(1)] n(2) by (auto simp: lock_token same_journal_ok)
  obtain m where m: "n + 1 \<le> m" "lock_ok ck m s2" "journal_ok s2"
    using ds_steps_lock [OF assms(3) l1(2,3)] by blast
  have l3: "lock_ok ck (m + 1) s3" "journal_ok s3"
    using acquire_lock_ok [OF assms(4) m(2)] m(3) by (auto simp: same_journal_ok)
  obtain k where k: "m + 1 \<le> k" "lock_ok ck k s4"
    using ds_steps_lock [OF assms(5) l3] by blast
  have ne: "k \<noteq> n + 1" and nn: "0 \<le> n + 1" using m(1) k(1) \<open>0 \<le> n\<close> by simp_all
  show ?thesis
    using fenced_mutation(1) [OF k(2) l1(1) nn ne, where state = state and expected = expected]
      fenced_mutation(2) [OF k(2) l1(1) nn ne] by blast
qed

definition fresh_store :: ds_files where
  "fresh_store = \<lparr>ds_lock = Absent, ds_lock_counter = Absent, ds_active = Absent,
     ds_previous = Absent, ds_journal = [], ds_audit = [], ds_partials = []\<rparr>"

text \<open>A valid request gets the lock when it is free or has expired.\<close>

lemma acquire_granted:
  assumes "iso_clock_ok ck" "lock_ok ck n s" "ds_tenant_context ctx = Inr d" "safe_identifier o'" "0 < ttl"
    and "ds_lock s = Absent \<or> (\<exists>d' p tok t0 ttl0. t0 + ttl0 * 1000000 \<le> t \<and>
      ds_lock s = Content (PDict (lock_record ck d' p tok t0 ttl0)))"
  shows "\<exists>lock s'. acquire_lock ck (PStr o') ctx (Aware t) ttl s = (Inr lock, s') \<and>
    lock = lock_record ck d o' (pad_int 12 (n + 1)) t ttl"
proof -
  from assms(6) consider (free) "ds_lock s = Absent"
    | (expired) d' p tok t0 ttl0 where "t0 + ttl0 * 1000000 \<le> t"
        "ds_lock s = Content (PDict (lock_record ck d' p tok t0 ttl0))" by blast
  then obtain ex where ex: "read_json_optional (ds_lock s) = Inr ex"
    "ex = None \<or> (\<exists>d' p tok t0 ttl0. t0 + ttl0 * 1000000 \<le> t \<and> ex = Some (lock_record ck d' p tok t0 ttl0))"
  proof cases
    case free
    then show ?thesis using that [of None] by (simp add: read_json_optional_def)
  next
    case expired
    then show ?thesis using that [of "Some (lock_record ck d' p tok t0 ttl0)"]
      by (simp add: read_json_optional_def require_json_def) blast
  qed
  have "\<exists>s1. inspect_lock ck d o' t ex s = (Inr (), s1) \<and> same_lock s s1"
    using ex(2) iso_clock_okD [OF assms(1)]
    by (auto simp: inspect_lock_def lock_record_def parse_utc_def format_utc_def to_utc_def
        monad_simps ds_writes same_lock_def)
  then obtain s1 where s1: "inspect_lock ck d o' t ex s = (Inr (), s1)" "lock_ok ck n s1"
    using assms(2) same_lock_ok by blast
  have "acquire_lock ck (PStr o') ctx (Aware t) ttl s = bindS next_lock_token (\<lambda>token.
      let lock = lock_record ck d o' token t ttl in
      seqS (write_lock lock)
      (seqS (append_audit (lock_event d o' ''acquired'' None None None))
      (returnS lock))) s1"
    using assms(3,4,5) ex(1) s1(1) ds_id.check_safe [OF assms(4)]
    unfolding acquire_lock_def inspect_lock_def
    by (simp add: utc_datetime_def bindS_apply seqS_apply sem_simps readS_apply)
  then show ?thesis
    using next_lock_token_ok [OF s1(2)] by (simp add: monad_simps ds_writes Let_def)
qed

lemma tenant_example_ok:
  "ds_tenant_context tenant_example = Inr tenant_example"
  by code_simp

lemma ab_safe: "safe_identifier ''a''" "safe_identifier ''b''"
  by code_simp+

lemma fresh_ok:
  "lock_ok ck 0 fresh_store" "reachable_from empty_store (ds_step ck) fresh_store"
  by (simp add: lock_ok_def fresh_store_def)
    (rule reachable_from.start, simp add: empty_store_def fresh_store_def)

lemma stale_lock_fenced_witness:
  "\<exists>lock s1 lock' s3 e s5.
     acquire_lock decimal_clock (PStr ''a'') tenant_example (Aware 0) 10 fresh_store = (Inr lock, s1) \<and>
     acquire_lock decimal_clock (PStr ''b'') tenant_example (Aware 20000000) 10 s1 = (Inr lock', s3) \<and>
     apply_state lock [] None s3 = (Inl e, s5) \<and> same_state s3 s5"
proof -
  obtain lock s1 where a: "acquire_lock decimal_clock (PStr ''a'') tenant_example (Aware 0) 10 fresh_store =
      (Inr lock, s1)"
    using acquire_granted [OF decimal_clock_ok fresh_ok(1) tenant_example_ok ab_safe(1), of 10 0]
    by (auto simp: fresh_store_def)
  from acquire_lock_ok [OF a fresh_ok(1)] have l: "lock_ok decimal_clock 1 s1"
    and "\<exists>d o' tok. ds_lock s1 = Content (PDict (lock_record decimal_clock d o' tok 0 10))"
    by auto
  moreover have "(0::int) + 10 * 1000000 \<le> 20000000" by simp
  ultimately have "ds_lock s1 = Absent \<or> (\<exists>d' p tok t0 ttl0. t0 + ttl0 * 1000000 \<le> 20000000 \<and>
      ds_lock s1 = Content (PDict (lock_record decimal_clock d' p tok t0 ttl0)))" by blast
  then obtain lock' s3 where b: "acquire_lock decimal_clock (PStr ''b'') tenant_example
      (Aware 20000000) 10 s1 = (Inr lock', s3)"
    using acquire_granted [OF decimal_clock_ok l tenant_example_ok ab_safe(2), of 10 20000000] by auto
  from stale_lock_fenced [OF fresh_ok(2) a rtranclp.rtrancl_refl b rtranclp.rtrancl_refl]
  show ?thesis using a b by blast
qed

text \<open>Mutual exclusion: after an acquisition at time \<open>t\<close> for \<open>ttl\<close> seconds, any acquisition at an
  earlier time than the expiry is refused with a conflict and leaves the lock and the state alone.\<close>

theorem lock_exclusive_until_expiry:
  assumes "iso_clock_ok ck" and "reachable_from empty_store (ds_step ck) s"
    and "acquire_lock ck owner ctx (Aware t) ttl s = (Inr lock, s1)"
    and "t' < t + ttl * 1000000"
    and "acquire_lock ck owner' ctx' (Aware t') ttl' s1 = (r, s2)"
  shows "\<exists>e. r = Inl e \<and> ds_lock s2 = Content (PDict lock) \<and> same_state s1 s2 \<and>
    ((\<exists>m. e = ds_error m) \<or> e = ds_conflict ''state lock is held'')"
proof -
  from store.reachable_inv [OF assms(2)] obtain n where n: "lock_ok ck n s" by (auto simp: store_ok_def)
  from acquire_lock_ok [OF assms(3) n] obtain d o'
    where lock: "lock = lock_record ck d o' (pad_int 12 (n + 1)) t ttl" "ds_lock s1 = Content (PDict lock)"
    by auto
  have held: "inspect_lock ck d2 o2 t' (Some lock) s1 = (Inl (ds_conflict ''state lock is held''),
      s1\<lparr>ds_audit := ds_audit s1 @ [lock_event d2 o2 ''denied'' (Some ''lock_conflict'') None None]\<rparr>)"
    for d2 o2
    using assms(4) iso_clock_okD [OF assms(1)]
    by (simp add: inspect_lock_def lock lock_record_def parse_utc_def format_utc_def to_utc_def
        monad_simps ds_writes)
  have ex: "read_json_optional (ds_lock s1) = Inr (Some lock)"
    using lock(2) by (simp add: read_json_optional_def require_json_def)
  show ?thesis
  proof (cases "ds_tenant_context ctx'")
    case (Inl e)
    then have "\<exists>m. e = ds_error m"
      by (auto simp: ds_tenant_context_def map_exn_eq_Inl dest!: validate_tenant_context_Inl)
    moreover have "r = Inl e \<and> s2 = s1" using Inl assms(5) by (simp add: acquire_lock_def monad_simps)
    ultimately show ?thesis using lock(2) by auto
  next
    case ctx: (Inr d2)
    show ?thesis
    proof (cases "ds_required_identifier owner' ''owner_id''")
      case (Inl e)
      then have "\<exists>m. e = ds_error m" by (rule ds_id.check_Inl)
      moreover have "r = Inl e \<and> s2 = s1"
        using Inl ctx assms(5) by (simp add: acquire_lock_def monad_simps)
      ultimately show ?thesis using lock(2) by auto
    next
      case own: (Inr o2)
      show ?thesis
      proof (cases "ttl' \<le> 0")
        case True
        with ctx own assms(5) lock(2) show ?thesis
          by (auto simp: acquire_lock_def utc_datetime_def monad_simps)
      next
        case False
        have "(r, s2) = (Inl (ds_conflict ''state lock is held''), s1\<lparr>ds_audit := ds_audit s1 @
            [lock_event d2 o2 ''denied'' (Some ''lock_conflict'') None None]\<rparr>)"
          using assms(5) ctx own False ex held [of d2 o2]
          unfolding acquire_lock_def inspect_lock_def
          by (simp add: utc_datetime_def bindS_apply seqS_apply sem_simps readS_apply)
        with lock(2) show ?thesis by (simp add: same_state_def)
      qed
    qed
  qed
qed

lemma lock_exclusive_until_expiry_witness:
  "\<exists>lock s1 e s2.
     acquire_lock decimal_clock (PStr ''a'') tenant_example (Aware 0) 10 fresh_store = (Inr lock, s1) \<and>
     acquire_lock decimal_clock (PStr ''b'') tenant_example (Aware 9999999) 10 s1 = (Inl e, s2) \<and>
     ds_lock s2 = Content (PDict lock)"
proof -
  obtain lock s1 where a: "acquire_lock decimal_clock (PStr ''a'') tenant_example (Aware 0) 10 fresh_store =
      (Inr lock, s1)"
    using acquire_granted [OF decimal_clock_ok fresh_ok(1) tenant_example_ok ab_safe(1), of 10 0]
    by (auto simp: fresh_store_def)
  obtain r s2 where b: "acquire_lock decimal_clock (PStr ''b'') tenant_example (Aware 9999999) 10 s1 = (r, s2)"
    by (metis prod.collapse)
  from lock_exclusive_until_expiry [OF decimal_clock_ok fresh_ok(2) a _ b] a b show ?thesis by auto
qed

text \<open>C36. Recovery: when the active and the previous file of a store are lost, recovery replays the
  journal and writes both back exactly as they were, and removes the partial files. The store is one that
  whole operations have made: a crash or an I/O error between two writes of one operation, such as the
  active file and the journal of an apply, is excluded.\<close>

theorem recover_restores:
  assumes "reachable_from empty_store (ds_step ck) s" and "ds_active s \<noteq> Absent"
  shows "\<exists>i s'. recover (s\<lparr>ds_active := Absent, ds_previous := Absent\<rparr>) =
      (Inr (i, True, sort (ds_partials s)), s') \<and>
    ds_active s' = ds_active s \<and> ds_previous s' = ds_previous s \<and> ds_journal s' = ds_journal s \<and>
    ds_partials s' = []"
proof -
  from store.reachable_inv [OF assms(1)] obtain a p
    where j: "replay_journal (ds_journal s) = Inr (a, p)" "file_is (ds_active s) a"
      "file_is (ds_previous s) p" "\<forall>r. a = Some r \<or> p = Some r \<longrightarrow> has_revision r"
    by (auto simp: store_ok_def journal_ok_def)
  with assms(2) obtain d where d: "a = Some d" "ds_active s = Content (PDict d)" "has_revision d"
    by (auto simp: file_is_def split: option.splits)
  let ?s = "s\<lparr>ds_active := Absent, ds_previous := Absent\<rparr>"
  have "ds_active ?s = Absent" "replay_journal (ds_journal ?s) = Inr (Some d, p)" using j d by simp_all
  then obtain i where r: "recover ?s = (Inr (i, True, sort (ds_partials ?s)), ?s\<lparr>ds_partials := [],
       ds_active := Content (PDict d),
       ds_previous := (case p of None \<Rightarrow> ds_previous ?s | Some d \<Rightarrow> Content (PDict d)),
       ds_audit := ds_audit ?s @ [recovery_event ''replayed'' i (sort (ds_partials ?s))]\<rparr>)"
    using d(3) by (rule recover_replays)
  then show ?thesis
    using j(3) d(2) by (cases p) (auto simp: file_is_def)
qed

text \<open>The witness: two applied states under one lock, and a partial file.\<close>

definition lock_a :: pydict where
  "lock_a = lock_record decimal_clock tenant_example ''a'' (pad_int 12 1) 0 10"

definition locked_store :: ds_files where
  "locked_store = snd (acquire_lock decimal_clock (PStr ''a'') tenant_example (Aware 0) 10 fresh_store)"

lemma locked_store_ok:
  "reachable_from empty_store (ds_step ck) locked_store" "ds_lock locked_store = Content (PDict lock_a)"
  "same_state fresh_store locked_store"
  if "ck = decimal_clock"
proof -
  obtain s1 where a: "acquire_lock decimal_clock (PStr ''a'') tenant_example (Aware 0) 10 fresh_store =
      (Inr lock_a, s1)"
    using acquire_granted [OF decimal_clock_ok fresh_ok(1) tenant_example_ok ab_safe(1), of 10 0]
    by (auto simp: fresh_store_def lock_a_def)
  then have s1: "locked_store = s1" by (simp add: locked_store_def)
  show "reachable_from empty_store (ds_step ck) locked_store"
    unfolding locked_store_def that by (rule reachable_from.step [OF fresh_ok(2) ds_step.acquire])
  show "ds_lock locked_store = Content (PDict lock_a)" "same_state fresh_store locked_store"
    using acquire_lock_ok [OF a fresh_ok(1)] s1 by auto
qed

lemma matching_lock_a:
  "ds_lock s = Content (PDict lock_a) \<Longrightarrow> require_matching_lock lock_a s = (Inr (), s)"
  by (simp add: require_matching_lock_def require_json_def monad_simps lock_a_def lock_record_def)

text \<open>The revisions after two states, a rollback and a third state under one lock.\<close>

lemma apply_with_lock_a:
  assumes "ds_lock s = Content (PDict lock_a)" "file_is (ds_active s) active"
    "revision_optional active = Inr expected" "next_revision expected s = (Inr i, s)"
  shows "\<exists>s'. apply_state lock_a state expected s = (Inr (state_record i state), s') \<and>
    ds_lock s' = Content (PDict lock_a) \<and> ds_active s' = Content (PDict (state_record i state)) \<and>
    ds_previous s' = (case active of None \<Rightarrow> ds_previous s | Some a \<Rightarrow> Content (PDict a))"
proof -
  have "read_json_optional (ds_active s) = Inr active" using assms(2) by (simp add: read_json_optional_Inr)
  with assms matching_lock_a [OF assms(1)] show ?thesis
    by (cases active) (simp_all add: apply_state_def monad_simps ds_writes Let_def)
qed

lemma revision_state_record [simp]: "revision_of (state_record i st) = Inr i"
  by (simp add: revision_of_def state_record_def)

lemma two_states:
  "\<exists>s1 s2. apply_state lock_a [] None locked_store = (Inr (state_record 1 []), s1) \<and>
     apply_state lock_a [] (Some 1) s1 = (Inr (state_record 2 []), s2) \<and>
     ds_lock s2 = Content (PDict lock_a) \<and> ds_active s2 = Content (PDict (state_record 2 [])) \<and>
     ds_previous s2 = Content (PDict (state_record 1 []))"
proof -
  have "file_is (ds_active locked_store) None" "next_revision None locked_store = (Inr 1, locked_store)"
    using locked_store_ok(3) [OF refl]
    by (simp_all add: same_state_def fresh_store_def file_is_def next_revision_def monad_simps
        read_jsonl_def)
  with apply_with_lock_a [OF locked_store_ok(2) [OF refl], of None None 1 "[]"] obtain s1 where s1:
    "apply_state lock_a [] None locked_store = (Inr (state_record 1 []), s1)"
    "ds_lock s1 = Content (PDict lock_a)" "ds_active s1 = Content (PDict (state_record 1 []))"
    by (auto simp: revision_optional_def)
  with apply_with_lock_a [OF s1(2), of "Some (state_record 1 [])" "Some 1" 2 "[]"] obtain s2 where
    "apply_state lock_a [] (Some 1) s1 = (Inr (state_record 2 []), s2)"
    "ds_lock s2 = Content (PDict lock_a)" "ds_active s2 = Content (PDict (state_record 2 []))"
    "ds_previous s2 = Content (PDict (state_record 1 []))"
    by (auto simp: revision_optional_def file_is_def next_revision_def monad_simps)
  with s1(1) show ?thesis by blast
qed

lemma recover_restores_witness:
  "\<exists>s i s'. ds_active s = Content (PDict (state_record 2 [])) \<and>
     recover (s\<lparr>ds_active := Absent, ds_previous := Absent\<rparr>) = (Inr (i, True, sort (ds_partials s)), s') \<and>
     ds_active s' = ds_active s \<and> ds_previous s' = Content (PDict (state_record 1 []))"
proof -
  obtain s1 s2 where a: "apply_state lock_a [] None locked_store = (Inr (state_record 1 []), s1)"
    "apply_state lock_a [] (Some 1) s1 = (Inr (state_record 2 []), s2)"
    and s2: "ds_active s2 = Content (PDict (state_record 2 []))"
      "ds_previous s2 = Content (PDict (state_record 1 []))"
    using two_states by blast
  have "ds_step decimal_clock locked_store s1" "ds_step decimal_clock s1 s2"
    using ds_step.mutate [of decimal_clock locked_store lock_a "[]" None]
      ds_step.mutate [of decimal_clock s1 lock_a "[]" "Some 1"] a by simp_all
  with locked_store_ok(1) [OF refl] have "reachable_from empty_store (ds_step decimal_clock) s2"
    by (blast intro: reachable_from.step)
  from recover_restores [OF this] s2 show ?thesis by fastforce
qed

text \<open>
  Revisions are not unique: after a rollback the next state takes the number after the active one,
  which the journal already holds, so an expected revision does not name one state.
\<close>

lemma revision_reused:
  "\<exists>s1 s2 s3 s4 x. apply_state lock_a [] None locked_store = (Inr (state_record 1 []), s1) \<and>
     apply_state lock_a [] (Some 1) s1 = (Inr (state_record 2 []), s2) \<and>
     rollback lock_a s2 = (Inr (1, 2), s3) \<and>
     apply_state lock_a [(''x'', PInt 1)] (Some 1) s3 = (Inr (state_record 2 [(''x'', PInt 1)]), s4)"
proof -
  obtain s1 s2 where a: "apply_state lock_a [] None locked_store = (Inr (state_record 1 []), s1)"
    "apply_state lock_a [] (Some 1) s1 = (Inr (state_record 2 []), s2)"
    and s2: "ds_lock s2 = Content (PDict lock_a)" "ds_active s2 = Content (PDict (state_record 2 []))"
      "ds_previous s2 = Content (PDict (state_record 1 []))"
    using two_states by blast
  obtain s3 where r: "rollback lock_a s2 = (Inr (1, 2), s3)"
    and s3: "ds_lock s3 = Content (PDict lock_a)" "ds_active s3 = Content (PDict (state_record 1 []))"
    using s2 matching_lock_a [OF s2(1)]
    by (simp add: rollback_def require_json_def monad_simps ds_writes)
  with apply_with_lock_a [OF s3(1), of "Some (state_record 1 [])" "Some 1" 2 "[(''x'', PInt 1)]"] obtain s4
    where "apply_state lock_a [(''x'', PInt 1)] (Some 1) s3 = (Inr (state_record 2 [(''x'', PInt 1)]), s4)"
    by (auto simp: revision_optional_def file_is_def next_revision_def monad_simps)
  with a r show ?thesis by blast
qed

end
