(* ===== verification/Upstream_Registry.thy ===== *)
theory Upstream_Registry
  imports Broker_Core Request_Meta
begin

text \<open>
  The daemon's upstream clients (\<^verbatim>\<open>daemon_upstreams.py\<close>, and from \<^verbatim>\<open>daemon.py\<close> and
  \<^verbatim>\<open>daemon_helpers.py\<close> the registries, the repair statistics, shutdown and the idle janitor). The
  clients are behind the interface of \<^verbatim>\<open>upstream_protocols.py\<close>: a handle, and operations on a world
  of their own that may raise. The registries are the state of this theory. A locked block of the
  code is one step; the interleaving of such blocks is the subject of \<open>Registry_Steps\<close>.
\<close>

section \<open>Keys and clients\<close>

text \<open>The key of a shared client is the name of its upstream, of a session's client a pair.\<close>

datatype client_key = SharedKey string | SessionKey string string

type_synonym handle = nat

text \<open>
  What the daemon is given: the two factories, the methods of the clients, the structured log, and
  \<open>uuid.uuid4().hex\<close>. Client methods run in the context of the request's metadata.
\<close>

record 'w upstream_env =
  ue_create_stdio :: "upstream_config \<Rightarrow> (string \<times> string) list \<Rightarrow> string option \<Rightarrow>
    (meta_context \<times> 'w, exn, handle) sem"
  ue_stdio_call :: "handle \<Rightarrow> string \<Rightarrow> pydict \<Rightarrow> int \<Rightarrow> (meta_context \<times> 'w, exn, pydict) sem"
  ue_stdio_list :: "handle \<Rightarrow> int \<Rightarrow> (meta_context \<times> 'w, exn, pydict list) sem"
  ue_stdio_stop :: "handle \<Rightarrow> (meta_context \<times> 'w, exn, int list) sem"
  ue_stdio_status :: "handle \<Rightarrow> 'w \<Rightarrow> string"
  ue_stdio_idle :: "handle \<Rightarrow> rat \<Rightarrow> 'w \<Rightarrow> rat"
  ue_stdio_upstream :: "handle \<Rightarrow> upstream_config"
  ue_stdio_health :: "handle \<Rightarrow> (meta_context \<times> 'w, exn, pydict) sem"
  ue_stdio_ensure_running :: "handle \<Rightarrow> (meta_context \<times> 'w, exn, unit) sem"
  ue_create_http :: "upstream_config \<Rightarrow> (meta_context \<times> 'w, exn, handle) sem"
  ue_http_call :: "handle \<Rightarrow> string \<Rightarrow> pydict \<Rightarrow> int \<Rightarrow> (meta_context \<times> 'w, exn, pydict) sem"
  ue_http_list :: "handle \<Rightarrow> int \<Rightarrow> (meta_context \<times> 'w, exn, pydict list) sem"
  ue_http_health :: "handle \<Rightarrow> (meta_context \<times> 'w, exn, pydict) sem"
  ue_write_log :: "string \<Rightarrow> pydict \<Rightarrow> (meta_context \<times> 'w, exn, unit) sem"
  ue_call_id :: "(meta_context \<times> 'w, exn, string) sem"

record 'w registry =
  rg_stdio :: "(client_key \<times> handle) list"
  rg_per_call :: "(string \<times> (string \<times> handle)) list"
  rg_shutdown :: bool
  rg_http :: "(string \<times> handle) list"
  rg_repair :: "(string \<times> pydict) list"
  rg_world :: 'w

type_synonym 'w daemon_state = "meta_context \<times> 'w registry"

type_synonym ('w, 'a) daemon_sem = "('w daemon_state, exn, 'a) sem"

text \<open>An operation of the environment, a pure reading and a change of the registries.\<close>

definition on_world :: "(meta_context \<times> 'w, exn, 'a) sem \<Rightarrow> ('w, 'a) daemon_sem" where
  "on_world m = (\<lambda>(c, s). case m (c, rg_world s) of (r, (c', w)) \<Rightarrow> (r, (c', s\<lparr>rg_world := w\<rparr>)))"

definition reg_get :: "('w registry \<Rightarrow> 'a) \<Rightarrow> ('w, 'a) daemon_sem" where
  "reg_get f = (\<lambda>(c, s). (Inr (f s), (c, s)))"

definition reg_put :: "('w registry \<Rightarrow> 'w registry) \<Rightarrow> ('w, unit) daemon_sem" where
  "reg_put f = (\<lambda>(c, s). (Inr (), (c, f s)))"

definition stdio_client_key :: "upstream_config \<Rightarrow> string option \<Rightarrow> client_key res" where
  "stdio_client_key u session_id =
     (if up_mode u = ''per_session'' then
        (case session_id of
           Some s \<Rightarrow> if s = [] then Inl (BrokerToolError ''missing_session''
               (''broker_session_id is required for per_session upstream: '' @ up_name u)
               (Some (up_name u)) None)
             else Inr (SessionKey (up_name u) s)
         | None \<Rightarrow> Inl (BrokerToolError ''missing_session''
               (''broker_session_id is required for per_session upstream: '' @ up_name u)
               (Some (up_name u)) None))
      else Inr (SharedKey (up_name u)))"

fun stdio_client_name :: "client_key \<Rightarrow> string" where
  "stdio_client_name (SharedKey n) = n"
| "stdio_client_name (SessionKey n s) = n @ '':'' @ s"

text \<open>\<open>str(key)\<close>, the order in which clients are stopped.\<close>

fun key_str :: "client_key \<Rightarrow> string" where
  "key_str (SharedKey n) = n"
| "key_str (SessionKey n s) = ''('' @ repr_str n @ '', '' @ repr_str s @ '')''"

fun key_session :: "client_key \<Rightarrow> string option" where
  "key_session (SharedKey n) = None"
| "key_session (SessionKey n s) = Some s"

definition config_upstream :: "broker_config \<Rightarrow> string \<Rightarrow> upstream_config res" where
  "config_upstream cfg n = (case map_of (bc_upstreams cfg) n of
     None \<Rightarrow> Inl (Exn KeyError n) | Some u \<Rightarrow> Inr u)"

section \<open>Repair of an expired login\<close>

definition result_content_text :: "pydict \<Rightarrow> string" where
  "result_content_text result =
     (case dget result ''content'' of
        PList items \<Rightarrow> join [CHR 0x0A] (List.map_filter (\<lambda>item. case item of
            PDict d \<Rightarrow> (case dget d ''text'' of PStr t \<Rightarrow> Some t | _ \<Rightarrow> None) | _ \<Rightarrow> None) items)
      | _ \<Rightarrow> '''')"

definition result_matches_auth_repair :: "upstream_config \<Rightarrow> pydict \<Rightarrow> bool" where
  "result_matches_auth_repair u result =
     (case up_auth_repair u of
        None \<Rightarrow> False
      | Some repair \<Rightarrow>
          let text = result_content_text result in
          if text = [] then False
          else if dget result ''isError'' \<noteq> PBool True \<and> \<not> prefix ''Error:'' text then False
          else list_ex (\<lambda>trigger. contains trigger text) (trigger_errors repair))"

definition new_repair_stats :: pydict where
  "new_repair_stats = [(''auth_repair_attempts'', PInt 0), (''auth_repair_successes'', PInt 0),
     (''auth_repair_failures'', PInt 0), (''auth_state'', PStr ''unknown'')]"

definition auth_repair_stats_for :: "'w registry \<Rightarrow> string \<Rightarrow> pydict" where
  "auth_repair_stats_for s n = (case map_of (rg_repair s) n of None \<Rightarrow> new_repair_stats | Some d \<Rightarrow> d)"

definition record_repair :: "string \<Rightarrow> string \<Rightarrow> string \<Rightarrow> ('w, unit) daemon_sem" where
  "record_repair counter auth_state n =
     bindS (reg_get (\<lambda>s. auth_repair_stats_for s n)) (\<lambda>stats.
     bindS (liftS (bindE (dindex stats counter) py_int)) (\<lambda>i.
     reg_put (\<lambda>s. s\<lparr>rg_repair := AList.update n
       (AList.update ''auth_state'' (PStr auth_state) (AList.update counter (PInt (i + 1)) stats))
       (rg_repair s)\<rparr>)))"

definition record_auth_repair_attempt :: "string \<Rightarrow> ('w, unit) daemon_sem" where
  "record_auth_repair_attempt = record_repair ''auth_repair_attempts'' ''unauthenticated''"

definition record_auth_repair_success :: "string \<Rightarrow> ('w, unit) daemon_sem" where
  "record_auth_repair_success = record_repair ''auth_repair_successes'' ''authenticated''"

definition record_auth_repair_failure :: "string \<Rightarrow> ('w, unit) daemon_sem" where
  "record_auth_repair_failure = record_repair ''auth_repair_failures'' ''unauthenticated''"

definition call_stdio_client_or_repair ::
    "'w upstream_env \<Rightarrow> broker_config \<Rightarrow> handle \<Rightarrow> string \<Rightarrow> string \<Rightarrow> pydict \<Rightarrow> int \<Rightarrow>
     ('w, pydict) daemon_sem" where
  "call_stdio_client_or_repair env cfg client upstream_name tool_name arguments timeout_seconds =
     bindS (liftS (config_upstream cfg upstream_name)) (\<lambda>u.
     bindS (on_world (ue_stdio_call env client tool_name arguments timeout_seconds)) (\<lambda>result.
     if \<not> result_matches_auth_repair u result then returnS result
     else case up_auth_repair u of
       None \<Rightarrow> raiseS (Exn AssertionError '''')
     | Some repair \<Rightarrow>
         seqS (record_auth_repair_attempt upstream_name)
         (bindS (catchS
            (bindS (on_world (ue_stdio_call env client (repair_tool repair) (repair_arguments repair)
                (repair_timeout_seconds repair))) (\<lambda>repair_result.
             if \<not> retry_original repair then
               if result_matches_auth_repair u repair_result
               then seqS (record_auth_repair_failure upstream_name) (returnS (repair_result, True))
               else seqS (record_auth_repair_success upstream_name) (returnS (repair_result, True))
             else bindS (on_world (ue_stdio_call env client tool_name arguments timeout_seconds))
               (\<lambda>retry_result. returnS (retry_result, False))))
            (\<lambda>e. seqS (record_auth_repair_failure upstream_name) (raiseS e)))
         (\<lambda>(final_result, recorded).
            if recorded then returnS final_result
            else if result_matches_auth_repair u final_result
            then seqS (record_auth_repair_failure upstream_name) (returnS final_result)
            else seqS (record_auth_repair_success upstream_name) (returnS final_result)))))"

section \<open>Getting a client\<close>

definition write_upstream_event :: "'w upstream_env \<Rightarrow> string \<Rightarrow> string \<Rightarrow> pydict \<Rightarrow> ('w, unit) daemon_sem" where
  "write_upstream_event env event upstream_name details =
     on_world (ue_write_log env event ((''upstream'', PStr upstream_name) # details))"

definition shutting_down :: exn where
  "shutting_down = Exn StdioUpstreamError ''broker upstreams are shutting down''"

definition check_session_env :: "upstream_config \<Rightarrow> (string \<times> string) list \<Rightarrow> unit res" where
  "check_session_env u session_context =
     (if up_session_env u = [] then Inr ()
      else bindE (resolve_session_environment u session_context) (\<lambda>_. Inr ()))"

definition stdio_client ::
    "'w upstream_env \<Rightarrow> broker_config \<Rightarrow> string \<Rightarrow> string option \<Rightarrow> (string \<times> string) list \<Rightarrow>
     ('w, handle) daemon_sem" where
  "stdio_client env cfg upstream_name session_id session_context =
     bindS (liftS (config_upstream cfg upstream_name)) (\<lambda>u.
     seqS (liftS (check_session_env u session_context))
     (bindS (liftS (stdio_client_key u session_id)) (\<lambda>client_key.
      bindS (reg_get rg_shutdown) (\<lambda>shutdown.
      if shutdown then raiseS shutting_down
      else bindS (reg_get (\<lambda>s. map_of (rg_stdio s) client_key)) (\<lambda>found.
        case found of
          Some client \<Rightarrow> returnS client
        | None \<Rightarrow> bindS (on_world (ue_create_stdio env u session_context None)) (\<lambda>client.
            seqS (reg_put (\<lambda>s. s\<lparr>rg_stdio := AList.update client_key client (rg_stdio s)\<rparr>))
              (returnS client)))))))"

definition per_call_stdio_client ::
    "'w upstream_env \<Rightarrow> broker_config \<Rightarrow> string \<Rightarrow> (string \<times> string) list \<Rightarrow>
     ('w, string \<times> handle) daemon_sem" where
  "per_call_stdio_client env cfg upstream_name session_context =
     bindS (liftS (config_upstream cfg upstream_name)) (\<lambda>u.
     seqS (liftS (check_session_env u session_context))
     (bindS (on_world (ue_call_id env)) (\<lambda>call_id.
      bindS (reg_get rg_shutdown) (\<lambda>shutdown.
      if shutdown then raiseS shutting_down
      else bindS (on_world (ue_create_stdio env u session_context
             (Some (up_name u @ ''.call.'' @ call_id)))) (\<lambda>client.
        seqS (reg_put (\<lambda>s. s\<lparr>rg_per_call := AList.update call_id (upstream_name, client) (rg_per_call s)\<rparr>))
          (returnS (call_id, client)))))))"

text \<open>
  \<open>remaining\<close> is \<open>None\<close> when the call is no longer registered. An exception of the cleanup is
  logged, and hidden when another one is already on its way.
\<close>

definition sorted_set :: "int list \<Rightarrow> int list" where
  "sorted_set xs = sort (remdups xs)"

definition stop_per_call_stdio_client ::
    "'w upstream_env \<Rightarrow> string \<Rightarrow> string \<Rightarrow> handle \<Rightarrow> bool \<Rightarrow> ('w, unit) daemon_sem" where
  "stop_per_call_stdio_client env call_id upstream_name client preserve_active_error =
     bindS (catchS
       (bindS (reg_get (\<lambda>s. map_of (rg_per_call s) call_id)) (\<lambda>registered.
        if registered \<noteq> Some (upstream_name, client) then returnS []
        else bindS (on_world (ue_stdio_stop env client)) (\<lambda>remaining.
          seqS (reg_put (\<lambda>s. s\<lparr>rg_per_call := AList.delete call_id (rg_per_call s)\<rparr>))
            (returnS remaining))))
       (\<lambda>e. let cleanup_error = Exn StdioUpstreamError
                  (''upstream cleanup failed: '' @ upstream_name @ '': '' @ exn_str e) in
          seqS (catchS (write_upstream_event env ''upstream.stop_error'' upstream_name
                  [(''error'', PStr (exn_str e))]) (\<lambda>_. returnS ()))
            (if preserve_active_error then returnS [] else raiseS cleanup_error)))
     (\<lambda>remaining_processes.
        if remaining_processes = [] then returnS ()
        else catchS (write_upstream_event env ''upstream.stop_incomplete'' upstream_name
               [(''remaining_broker_processes'', PList (map PInt (sorted_set remaining_processes)))])
             (\<lambda>_. returnS ()))"

text \<open>\<open>try: m; except: stop, then raise; else stop\<close>, the frame of both per-call operations.\<close>

definition with_per_call_client ::
    "'w upstream_env \<Rightarrow> broker_config \<Rightarrow> string \<Rightarrow> (string \<times> string) list \<Rightarrow>
     (handle \<Rightarrow> ('w, 'a) daemon_sem) \<Rightarrow> ('w, 'a) daemon_sem" where
  "with_per_call_client env cfg upstream_name session_context body =
     bindS (per_call_stdio_client env cfg upstream_name session_context) (\<lambda>(call_id, client).
     bindS (catchS (body client) (\<lambda>e.
         seqS (stop_per_call_stdio_client env call_id upstream_name client True) (raiseS e)))
       (\<lambda>result. seqS (stop_per_call_stdio_client env call_id upstream_name client False)
          (returnS result)))"

section \<open>Calls and listings\<close>

definition call_stdio_upstream_or_repair ::
    "'w upstream_env \<Rightarrow> broker_config \<Rightarrow> string \<Rightarrow> string \<Rightarrow> pydict \<Rightarrow> int \<Rightarrow> string option \<Rightarrow>
     (string \<times> string) list \<Rightarrow> ('w, pydict) daemon_sem" where
  "call_stdio_upstream_or_repair env cfg upstream_name tool_name arguments timeout_seconds
       session_id session_context =
     bindS (liftS (config_upstream cfg upstream_name)) (\<lambda>u.
     if up_mode u \<noteq> ''per_call'' then
       bindS (stdio_client env cfg upstream_name session_id session_context) (\<lambda>client.
       call_stdio_client_or_repair env cfg client upstream_name tool_name arguments timeout_seconds)
     else with_per_call_client env cfg upstream_name session_context (\<lambda>client.
       call_stdio_client_or_repair env cfg client upstream_name tool_name arguments timeout_seconds))"

definition broker_timeout :: "string \<Rightarrow> string \<Rightarrow> exn" where
  "broker_timeout upstream_name tool_name = BrokerToolError ''upstream_timeout''
     (''upstream timed out: '' @ upstream_name) (Some upstream_name) (Some tool_name)"

definition broker_error :: "string \<Rightarrow> string \<Rightarrow> string \<Rightarrow> exn" where
  "broker_error upstream_name tool_name message = BrokerToolError ''upstream_error'' message
     (Some upstream_name) (Some tool_name)"

definition translate_stdio_error :: "string \<Rightarrow> string \<Rightarrow> exn \<Rightarrow> exn" where
  "translate_stdio_error upstream_name tool_name e =
     (if is_class StdioUpstreamTimeout e then broker_timeout upstream_name tool_name
      else if is_class StdioUpstreamError e then broker_error upstream_name tool_name (exn_str e)
      else e)"

definition call_stdio_upstream ::
    "'w upstream_env \<Rightarrow> broker_config \<Rightarrow> string \<Rightarrow> string \<Rightarrow> pydict \<Rightarrow> int \<Rightarrow> string option \<Rightarrow>
     (string \<times> string) list \<Rightarrow> ('w, pydict) daemon_sem" where
  "call_stdio_upstream env cfg upstream_name tool_name arguments timeout_seconds session_id session_context =
     catchS (call_stdio_upstream_or_repair env cfg upstream_name tool_name arguments timeout_seconds
         session_id session_context)
       (\<lambda>e. raiseS (translate_stdio_error upstream_name tool_name e))"

definition list_stdio_upstream ::
    "'w upstream_env \<Rightarrow> broker_config \<Rightarrow> string \<Rightarrow> int \<Rightarrow> string option \<Rightarrow>
     (string \<times> string) list \<Rightarrow> ('w, pydict list) daemon_sem" where
  "list_stdio_upstream env cfg upstream_name timeout_seconds session_id session_context =
     bindS (liftS (config_upstream cfg upstream_name)) (\<lambda>u.
     if up_mode u \<noteq> ''per_call'' then
       bindS (stdio_client env cfg upstream_name session_id session_context) (\<lambda>client.
       on_world (ue_stdio_list env client timeout_seconds))
     else with_per_call_client env cfg upstream_name session_context (\<lambda>client.
       on_world (ue_stdio_list env client timeout_seconds)))"

definition http_client :: "'w upstream_env \<Rightarrow> broker_config \<Rightarrow> string \<Rightarrow> ('w, handle) daemon_sem" where
  "http_client env cfg upstream_name =
     bindS (liftS (config_upstream cfg upstream_name)) (\<lambda>u.
     bindS (reg_get (\<lambda>s. map_of (rg_http s) upstream_name)) (\<lambda>found.
     case found of
       Some client \<Rightarrow> returnS client
     | None \<Rightarrow> bindS (on_world (ue_create_http env u)) (\<lambda>client.
         seqS (reg_put (\<lambda>s. s\<lparr>rg_http := AList.update upstream_name client (rg_http s)\<rparr>))
           (returnS client))))"

definition http_call_fields :: "string \<Rightarrow> int \<Rightarrow> pydict" where
  "http_call_fields tool_name timeout_seconds = [(''method'', PStr ''tools/call''),
     (''tool_name'', PStr tool_name), (''timeout_seconds'', PInt timeout_seconds)]"

definition call_http_upstream ::
    "'w upstream_env \<Rightarrow> broker_config \<Rightarrow> string \<Rightarrow> string \<Rightarrow> pydict \<Rightarrow> int \<Rightarrow> ('w, pydict) daemon_sem" where
  "call_http_upstream env cfg upstream_name tool_name arguments timeout_seconds =
     seqS (write_upstream_event env ''upstream.call'' upstream_name
         (http_call_fields tool_name timeout_seconds))
     (catchS (bindS (http_client env cfg upstream_name) (\<lambda>client.
          on_world (ue_http_call env client tool_name arguments timeout_seconds)))
        (\<lambda>e. if is_class HttpUpstreamTimeout e
           then seqS (write_upstream_event env ''upstream.timeout'' upstream_name
                  (http_call_fields tool_name timeout_seconds))
                (raiseS (broker_timeout upstream_name tool_name))
           else if is_class HttpUpstreamError e
           then raiseS (broker_error upstream_name tool_name (exn_str e))
           else raiseS e))"

definition is_http :: "upstream_config \<Rightarrow> bool" where
  "is_http u \<longleftrightarrow> up_transport u \<in> {''http'', ''sse''}"

definition call_upstream ::
    "'w upstream_env \<Rightarrow> broker_config \<Rightarrow> string option \<Rightarrow> (string \<times> string) list \<Rightarrow>
     'w daemon_state tool_caller" where
  "call_upstream env cfg session_id session_context upstream_name tool_name arguments timeout_seconds =
     bindS (bindS (liftS (config_upstream cfg upstream_name)) (\<lambda>u.
       if is_http u
       then call_http_upstream env cfg upstream_name tool_name arguments timeout_seconds
       else call_stdio_upstream env cfg upstream_name tool_name arguments timeout_seconds
              session_id session_context))
     (\<lambda>d. returnS (PDict d))"

definition list_upstream ::
    "'w upstream_env \<Rightarrow> broker_config \<Rightarrow> string option \<Rightarrow> (string \<times> string) list \<Rightarrow>
     string \<Rightarrow> int \<Rightarrow> ('w, pydict list) daemon_sem" where
  "list_upstream env cfg session_id session_context upstream_name timeout_seconds =
     bindS (liftS (config_upstream cfg upstream_name)) (\<lambda>u.
     if is_http u then
       seqS (write_upstream_event env ''upstream.call'' upstream_name
          [(''method'', PStr ''tools/list''), (''timeout_seconds'', PInt timeout_seconds)])
       (bindS (http_client env cfg upstream_name) (\<lambda>client.
          on_world (ue_http_list env client timeout_seconds)))
     else list_stdio_upstream env cfg upstream_name timeout_seconds session_id session_context)"

section \<open>Shutdown and the idle janitor\<close>

fun stop_clients :: "'w upstream_env \<Rightarrow> (string \<times> handle) list \<Rightarrow> ('w, string list \<times> int list) daemon_sem" where
  "stop_clients env [] = returnS ([], [])"
| "stop_clients env ((label, client) # rest) =
     bindS (on_world (ue_stdio_stop env client)) (\<lambda>remaining.
     bindS (stop_clients env rest) (\<lambda>(labels, pids). returnS (label # labels, remaining @ pids)))"

definition shutdown_report :: "string list \<Rightarrow> int list \<Rightarrow> pydict" where
  "shutdown_report labels pids = [(''stopped_upstreams'', PList (map PStr labels)),
     (''remaining_broker_processes'', PList (map PInt (sorted_set pids)))]"

definition shutdown_upstreams :: "'w upstream_env \<Rightarrow> ('w, pydict) daemon_sem" where
  "shutdown_upstreams env =
     bindS (reg_get (\<lambda>s.
       map (\<lambda>(k, c). (stdio_client_name k, c)) (sort_key (\<lambda>(k, c). key_str k) (rg_stdio s)) @
       map (\<lambda>(call_id, n, c). (n @ '':call:'' @ call_id, c)) (sort_key fst (rg_per_call s)))) (\<lambda>clients.
     seqS (reg_put (\<lambda>s. s\<lparr>rg_shutdown := True, rg_stdio := [], rg_per_call := []\<rparr>))
     (bindS (stop_clients env clients) (\<lambda>(labels, pids).
     seqS (reg_put (\<lambda>s. s\<lparr>rg_http := []\<rparr>)) (returnS (shutdown_report labels pids)))))"

definition shutdown_session_upstreams :: "'w upstream_env \<Rightarrow> string \<Rightarrow> ('w, pydict) daemon_sem" where
  "shutdown_session_upstreams env session_id =
     bindS (reg_get (\<lambda>s. sort_key (\<lambda>(k, c). key_str k)
       (filter (\<lambda>(k, c). key_session k = Some session_id) (rg_stdio s)))) (\<lambda>clients.
     seqS (reg_put (\<lambda>s. s\<lparr>rg_stdio :=
         filter (\<lambda>(k, c). key_session k \<noteq> Some session_id) (rg_stdio s)\<rparr>))
     (bindS (stop_clients env (map (\<lambda>(k, c). (stdio_client_name k, c)) clients)) (\<lambda>(labels, pids).
      returnS (shutdown_report labels pids))))"

text \<open>Whether the janitor stops a client: it has exited, or is idle in a session.\<close>

definition reap_reason :: "'w upstream_env \<Rightarrow> rat \<Rightarrow> client_key \<Rightarrow> handle \<Rightarrow> 'w \<Rightarrow> string option" where
  "reap_reason env now key client w =
     (if ue_stdio_status env client w = ''exited'' then Some ''upstream.reaped_exited''
      else case key of
        SharedKey _ \<Rightarrow> None
      | SessionKey _ _ \<Rightarrow>
          let timeout = idle_timeout_seconds (up_resources (ue_stdio_upstream env client)) in
          if timeout \<le> 0 \<or> ue_stdio_idle env client now w < of_int timeout then None
          else Some ''upstream.reaped_idle'')"

text \<open>Only the very client that was stopped is evicted.\<close>

definition evict :: "client_key \<Rightarrow> handle \<Rightarrow> ('w, bool) daemon_sem" where
  "evict key client =
     bindS (reg_get (\<lambda>s. map_of (rg_stdio s) key = Some client)) (\<lambda>same.
     if same then seqS (reg_put (\<lambda>s. s\<lparr>rg_stdio := AList.delete key (rg_stdio s)\<rparr>)) (returnS True)
     else returnS False)"

type_synonym reaped = "client_key \<times> handle \<times> int list \<times> string"

fun reap_clients :: "'w upstream_env \<Rightarrow> rat \<Rightarrow> (client_key \<times> handle) list \<Rightarrow> ('w, reaped list) daemon_sem" where
  "reap_clients env now [] = returnS []"
| "reap_clients env now ((key, client) # rest) =
     bindS (reg_get (\<lambda>s. reap_reason env now key client (rg_world s))) (\<lambda>reason.
     case reason of
       None \<Rightarrow> reap_clients env now rest
     | Some event \<Rightarrow>
         bindS (on_world (ue_stdio_stop env client)) (\<lambda>remaining.
         bindS (evict key client) (\<lambda>evicted.
         bindS (reap_clients env now rest) (\<lambda>reaped.
         returnS (if evicted then (key, client, remaining, event) # reaped else reaped)))))"

fun log_reaped :: "'w upstream_env \<Rightarrow> reaped list \<Rightarrow> ('w, unit) daemon_sem" where
  "log_reaped env [] = returnS ()"
| "log_reaped env ((key, client, remaining, event) # rest) =
     seqS (on_world (ue_write_log env event [(''upstream'', PStr (stdio_client_name key)),
        (''remaining_broker_processes'', PList (map PInt (sorted_set remaining)))]))
     (log_reaped env rest)"

definition reap_idle_upstreams ::
    "'w upstream_env \<Rightarrow> rat \<Rightarrow> ('w, (client_key \<times> handle \<times> int list) list) daemon_sem" where
  "reap_idle_upstreams env now =
     bindS (reg_get rg_stdio) (\<lambda>snapshot.
     bindS (reap_clients env now snapshot) (\<lambda>reaped.
     seqS (log_reaped env reaped)
       (returnS (map (\<lambda>(key, client, remaining, event). (key, client, remaining)) reaped))))"

end
