(* ===== verification/Upstream_Facts.thy ===== *)
theory Upstream_Facts
  imports Upstream_Registry Config_Checks
begin

text \<open>
  The registries of the daemon stay consistent: the repair statistics balance, a shut-down daemon
  holds no client and never creates one again, a session's clients are used and stopped by that
  session only, and the client of a single call does not outlive the call.
\<close>

text \<open>Reading, changing and running the environment below the registries.\<close>

lemma triple_get: "(\<And>c s. P (c, s) \<Longrightarrow> Q (f s) (c, s)) \<Longrightarrow> triple P (reg_get f) Q E"
  by (auto simp: triple_def reg_get_def)

lemma triple_put: "(\<And>c s. P (c, s) \<Longrightarrow> Q () (c, f s)) \<Longrightarrow> triple P (reg_put f) Q E"
  by (auto simp: triple_def reg_put_def)

text \<open>A predicate on the registries that the world and the metadata do not enter.\<close>

definition worldless :: "('w registry \<Rightarrow> bool) \<Rightarrow> bool" where
  "worldless P \<longleftrightarrow> (\<forall>s w. P (s\<lparr>rg_world := w\<rparr>) = P s)"

abbreviation on_reg :: "('w registry \<Rightarrow> bool) \<Rightarrow> 'w daemon_state \<Rightarrow> bool" where
  "on_reg P \<equiv> (\<lambda>(c, s). P s)"

lemma triple_world: "worldless P \<Longrightarrow> triple (on_reg P) (on_world m) (\<lambda>_. on_reg P) (\<lambda>_. on_reg P)"
  by (auto simp: triple_def on_world_def worldless_def split: prod.splits sum.splits)

lemma preserves_world: "worldless P \<Longrightarrow> preserves (on_reg P) (on_world m)"
  by (metis triple_preserves triple_world)

lemma preserves_reg_get [intro!, simp]: "preserves I (reg_get f)"
  by (simp add: preserves_def reg_get_def split_def)

lemma preserves_reg_put: "(\<And>s. P s \<Longrightarrow> P (f s)) \<Longrightarrow> preserves (on_reg P) (reg_put f)"
  by (simp add: preserves_def reg_put_def split_def)

section \<open>The repair statistics balance\<close>

text \<open>\<open>n\<close> attempts of the statistics are still to be counted as a success or a failure.\<close>

definition stats_pending :: "int \<Rightarrow> pydict \<Rightarrow> bool" where
  "stats_pending n d \<longleftrightarrow> (\<exists>b c st. 0 \<le> b \<and> 0 \<le> c \<and>
     d = [(''auth_repair_attempts'', PInt (b + c + n)), (''auth_repair_successes'', PInt b),
          (''auth_repair_failures'', PInt c), (''auth_state'', PStr st)])"

definition repair_inv :: "(string \<Rightarrow> int) \<Rightarrow> 'w registry \<Rightarrow> bool" where
  "repair_inv p s \<longleftrightarrow> (\<forall>n. stats_pending (p n) (auth_repair_stats_for s n))"

lemma stats_for_update: "auth_repair_stats_for (s\<lparr>rg_repair := AList.update n d (rg_repair s)\<rparr>) m =
    (if m = n then d else auth_repair_stats_for s m)"
  by (simp add: auth_repair_stats_for_def)

lemma repair_inv_worldless: "worldless (repair_inv p)"
  by (simp add: worldless_def repair_inv_def auth_repair_stats_for_def)

lemma record_repair_triple:
  assumes "\<And>d. stats_pending (p n) d \<Longrightarrow> \<exists>k. dindex d counter = Inr (PInt k) \<and>
    stats_pending q (AList.update ''auth_state'' (PStr st) (AList.update counter (PInt (k + 1)) d))"
  shows "triple (on_reg (repair_inv p)) (record_repair counter st n)
    (\<lambda>_. on_reg (repair_inv (p(n := q)))) E"
proof (rule tripleI)
  fix s :: "'a daemon_state" and r s'
  assume a: "on_reg (repair_inv p) s" "record_repair counter st n s = (r, s')"
  obtain m t where s: "s = (m, t)" by (cases s)
  let ?d = "auth_repair_stats_for t n"
  from a(1) s have "stats_pending (p n) ?d" by (simp add: repair_inv_def)
  from assms [OF this] obtain k where k: "dindex ?d counter = Inr (PInt k)"
    "stats_pending q (AList.update ''auth_state'' (PStr st) (AList.update counter (PInt (k + 1)) ?d))"
    by blast
  have "record_repair counter st n s = (Inr (), (m, t\<lparr>rg_repair := AList.update n
      (AList.update ''auth_state'' (PStr st) (AList.update counter (PInt (k + 1)) ?d)) (rg_repair t)\<rparr>))"
    using k(1) by (simp add: record_repair_def monad_simps reg_get_def reg_put_def s)
  with a s k(2) show "case r of Inr x \<Rightarrow> on_reg (repair_inv (p(n := q))) s' | Inl e \<Rightarrow> E e s'"
    by (auto simp: repair_inv_def stats_for_update)
qed

lemma stats_attempt: "stats_pending i d \<Longrightarrow> \<exists>k. dindex d ''auth_repair_attempts'' = Inr (PInt k) \<and>
    stats_pending (i + 1) (AList.update ''auth_state'' (PStr st)
      (AList.update ''auth_repair_attempts'' (PInt (k + 1)) d))"
  by (fastforce simp: stats_pending_def dindex_def)

lemma stats_success: "stats_pending i d \<Longrightarrow> \<exists>k. dindex d ''auth_repair_successes'' = Inr (PInt k) \<and>
    stats_pending (i - 1) (AList.update ''auth_state'' (PStr st)
      (AList.update ''auth_repair_successes'' (PInt (k + 1)) d))"
  by (force simp: stats_pending_def dindex_def)

lemma stats_failure: "stats_pending i d \<Longrightarrow> \<exists>k. dindex d ''auth_repair_failures'' = Inr (PInt k) \<and>
    stats_pending (i - 1) (AList.update ''auth_state'' (PStr st)
      (AList.update ''auth_repair_failures'' (PInt (k + 1)) d))"
  by (force simp: stats_pending_def dindex_def)

lemma attempt_triple: "triple (on_reg (repair_inv p)) (record_auth_repair_attempt n)
    (\<lambda>_. on_reg (repair_inv (p(n := p n + 1)))) E"
  unfolding record_auth_repair_attempt_def by (rule record_repair_triple) (rule stats_attempt)

text \<open>A success or a failure settles the attempt.\<close>

lemma settle_triple:
  "triple (on_reg (repair_inv (p(n := p n + 1)))) (record_auth_repair_success n)
     (\<lambda>_. on_reg (repair_inv p)) E"
  "triple (on_reg (repair_inv (p(n := p n + 1)))) (record_auth_repair_failure n)
     (\<lambda>_. on_reg (repair_inv p)) E"
proof -
  have eq: "(p(n := p n + 1))(n := (p(n := p n + 1)) n - 1) = p" by simp
  show "triple (on_reg (repair_inv (p(n := p n + 1)))) (record_auth_repair_success n)
      (\<lambda>_. on_reg (repair_inv p)) E"
    unfolding record_auth_repair_success_def
    using record_repair_triple [OF stats_success, of "p(n := p n + 1)" n] eq by metis
  show "triple (on_reg (repair_inv (p(n := p n + 1)))) (record_auth_repair_failure n)
      (\<lambda>_. on_reg (repair_inv p)) E"
    unfolding record_auth_repair_failure_def
    using record_repair_triple [OF stats_failure, of "p(n := p n + 1)" n] eq by metis
qed

lemma repair_world: "triple (on_reg (repair_inv q)) (on_world m)
    (\<lambda>_. on_reg (repair_inv q)) (\<lambda>_. on_reg (repair_inv q))"
  by (rule triple_world [OF repair_inv_worldless])

lemma repaired_call_balances:
  "triple (on_reg (repair_inv p))
     (call_stdio_client_or_repair env cfg client n tool arguments t)
     (\<lambda>_. on_reg (repair_inv p)) (\<lambda>_. on_reg (repair_inv p))"
proof -
  let ?I = "on_reg (repair_inv p)" and ?J = "on_reg (repair_inv (p(n := p n + 1)))"
  let ?done = "\<lambda>(x :: pydict, settled). if settled then ?I else ?J"
  let ?succeed = "seqS (record_auth_repair_success n)" and ?fail = "seqS (record_auth_repair_failure n)"
  have attempt: "triple ?J (bindS (on_world A) (\<lambda>x.
        if b then if b' x then ?fail (returnS (x, True)) else ?succeed (returnS (x, True))
        else bindS (on_world B) (\<lambda>y. returnS (y, False)))) ?done (\<lambda>_. ?J)" for A B b b'
    by (intro triple_bind [OF repair_world] triple_if triple_seq [OF settle_triple(1)]
        triple_seq [OF settle_triple(2)] triple_return) simp_all
  have caught: "triple ?J (?fail (raiseS e)) ?done (\<lambda>_. ?I)" for e
    by (intro triple_seq [OF settle_triple(2)] triple_raise) simp
  show ?thesis
    unfolding call_stdio_client_or_repair_def
  proof (intro triple_bind [where R = "\<lambda>_. ?I"] triple_lift triple_if triple_return repair_world, goal_cases)
    case (4 u r)
    then show ?case
      by (auto split: option.split intro!: triple_raise triple_seq [OF attempt_triple]
          triple_bind [OF triple_catch [OF attempt caught]] triple_return
          triple_seq [OF settle_triple(1)] triple_seq [OF settle_triple(2)])
  qed simp_all
qed

section \<open>The registries\<close>

definition key_ok :: "broker_config \<Rightarrow> client_key \<Rightarrow> bool" where
  "key_ok cfg k \<longleftrightarrow> (\<exists>n u sid. map_of (bc_upstreams cfg) n = Some u \<and> stdio_client_key u sid = Inr k)"

definition client_inv :: "broker_config \<Rightarrow> 'w registry \<Rightarrow> bool" where
  "client_inv cfg s \<longleftrightarrow> distinct (map fst (rg_stdio s)) \<and> (\<forall>(k, c) \<in> set (rg_stdio s). key_ok cfg k) \<and>
     (rg_shutdown s \<longrightarrow> rg_stdio s = [] \<and> rg_per_call s = [])"

text \<open>What does not touch the clients or the shutdown flag.\<close>

definition clientwise :: "('w registry \<Rightarrow> bool) \<Rightarrow> bool" where
  "clientwise P \<longleftrightarrow> (\<forall>s w h d. P (s\<lparr>rg_world := w\<rparr>) = P s \<and> P (s\<lparr>rg_http := h\<rparr>) = P s \<and>
     P (s\<lparr>rg_repair := d\<rparr>) = P s)"

lemma clientwise_worldless: "clientwise P \<Longrightarrow> worldless P"
  by (simp add: clientwise_def worldless_def)

lemma client_inv_clientwise: "clientwise (client_inv cfg)"
  by (simp add: clientwise_def client_inv_def)

lemmas preserves_intros = preserves_return preserves_raise preserves_lift preserves_reg_get
  preserves_bind preserves_seq preserves_catch preserves_if preserves_option preserves_pair

lemma record_repair_clients:
  "clientwise P \<Longrightarrow> preserves (on_reg P) (record_auth_repair_attempt n)"
  "clientwise P \<Longrightarrow> preserves (on_reg P) (record_auth_repair_success n)"
  "clientwise P \<Longrightarrow> preserves (on_reg P) (record_auth_repair_failure n)"
  unfolding record_auth_repair_attempt_def record_auth_repair_success_def
    record_auth_repair_failure_def record_repair_def
  by (intro preserves_intros preserves_reg_put; simp add: clientwise_def)+

lemma repaired_call_clients:
  "clientwise P \<Longrightarrow> preserves (on_reg P) (call_stdio_client_or_repair env cfg client n tool arguments t)"
  unfolding call_stdio_client_or_repair_def
  by (intro preserves_intros record_repair_clients preserves_world clientwise_worldless)

lemma repaired_call_repair:
  "preserves (on_reg (repair_inv p)) (call_stdio_client_or_repair env cfg client n tool arguments t)"
  using repaired_call_balances triple_preserves by blast

definition reg_inv :: "broker_config \<Rightarrow> 'w registry \<Rightarrow> bool" where
  "reg_inv cfg s \<longleftrightarrow> client_inv cfg s \<and> repair_inv (\<lambda>_. 0) s"

lemma preserves_conj: "preserves (on_reg P) m \<Longrightarrow> preserves (on_reg Q) m \<Longrightarrow>
    preserves (on_reg (\<lambda>s. P s \<and> Q s)) m"
  by (auto simp: preserves_def split_def)

lemma reg_inv_worldless: "worldless (reg_inv cfg)"
  by (simp add: worldless_def reg_inv_def client_inv_def repair_inv_def auth_repair_stats_for_def)

lemma repaired_call_inv:
  "preserves (on_reg (reg_inv cfg)) (call_stdio_client_or_repair env cfg' client n tool arguments t)"
  unfolding reg_inv_def
  by (rule preserves_conj [OF repaired_call_clients [OF client_inv_clientwise] repaired_call_repair])

lemmas reg_world = preserves_world [OF reg_inv_worldless]

lemma repair_inv_clients [simp]:
  "repair_inv p (s\<lparr>rg_stdio := a\<rparr>) = repair_inv p s" "repair_inv p (s\<lparr>rg_per_call := b\<rparr>) = repair_inv p s"
  "repair_inv p (s\<lparr>rg_shutdown := f\<rparr>) = repair_inv p s" "repair_inv p (s\<lparr>rg_http := h\<rparr>) = repair_inv p s"
  by (simp_all add: repair_inv_def auth_repair_stats_for_def)

text \<open>Removing clients keeps the invariant; adding one is only possible before the shutdown.\<close>

lemma reg_inv_filter: "reg_inv cfg s \<Longrightarrow> reg_inv cfg (s\<lparr>rg_stdio := filter P (rg_stdio s)\<rparr>)"
  by (auto simp: reg_inv_def client_inv_def distinct_map_filter)

lemma reg_inv_delete: "reg_inv cfg s \<Longrightarrow> reg_inv cfg (s\<lparr>rg_stdio := AList.delete k (rg_stdio s)\<rparr>)"
  unfolding AList.delete_eq by (rule reg_inv_filter)

lemma reg_inv_add:
  assumes "reg_inv cfg s" "\<not> rg_shutdown s" "key_ok cfg k"
  shows "reg_inv cfg (s\<lparr>rg_stdio := AList.update k c (rg_stdio s)\<rparr>)"
  using assms by (auto simp: reg_inv_def client_inv_def distinct_update dest!: set_update_subset [THEN subsetD])

definition open_inv :: "broker_config \<Rightarrow> 'w registry \<Rightarrow> bool" where
  "open_inv cfg s \<longleftrightarrow> reg_inv cfg s \<and> \<not> rg_shutdown s"

lemma open_inv_worldless: "worldless (open_inv cfg)"
  by (simp add: worldless_def open_inv_def reg_inv_def client_inv_def repair_inv_def auth_repair_stats_for_def)


lemma open_inv_add: "open_inv cfg s \<Longrightarrow> key_ok cfg k \<Longrightarrow>
    reg_inv cfg (s\<lparr>rg_stdio := AList.update k c (rg_stdio s)\<rparr>)"
  "open_inv cfg s \<Longrightarrow> reg_inv cfg (s\<lparr>rg_per_call := AList.update i x (rg_per_call s)\<rparr>)"
  by (simp add: open_inv_def reg_inv_add) (simp add: open_inv_def reg_inv_def client_inv_def)

lemma config_upstream_Inr: "config_upstream cfg n = Inr u \<longleftrightarrow> map_of (bc_upstreams cfg) n = Some u"
  by (simp add: config_upstream_def split: option.splits)

text \<open>The client that is used for a call is the one of the call's upstream and session.\<close>

definition client_of :: "broker_config \<Rightarrow> string \<Rightarrow> string option \<Rightarrow> handle \<Rightarrow> 'w registry \<Rightarrow> bool" where
  "client_of cfg n sid c s \<longleftrightarrow> (\<exists>u k. map_of (bc_upstreams cfg) n = Some u \<and>
     stdio_client_key u sid = Inr k \<and> map_of (rg_stdio s) k = Some c)"

text \<open>Running an operation of the registries on a concrete state.\<close>

lemma reg_simps [monad_simps]:
  "reg_get f (m, s) = (Inr (f s), (m, s))" "reg_put g (m, s) = (Inr (), (m, g s))"
  "on_world w (m, s) = (case w (m, rg_world s) of (r, (m', v)) \<Rightarrow> (r, (m', s\<lparr>rg_world := v\<rparr>)))"
  by (simp_all add: reg_get_def reg_put_def on_world_def)

lemma stdio_client_cases:
  assumes "stdio_client env cfg n sid ctx (m, s) = (r, (m', s'))"
  obtains
    (refused) e where "r = Inl e" "s' = s\<lparr>rg_world := rg_world s'\<rparr>"
  | (found) u k h where "r = Inr h" "map_of (bc_upstreams cfg) n = Some u" "stdio_client_key u sid = Inr k"
      "map_of (rg_stdio s) k = Some h" "\<not> rg_shutdown s" "m' = m" "s' = s"
  | (created) u k h where "r = Inr h" "map_of (bc_upstreams cfg) n = Some u" "stdio_client_key u sid = Inr k"
      "map_of (rg_stdio s) k = None" "\<not> rg_shutdown s"
      "ue_create_stdio env u ctx None (m, rg_world s) = (Inr h, (m', rg_world s'))"
      "s' = s\<lparr>rg_world := rg_world s', rg_stdio := AList.update k h (rg_stdio s)\<rparr>"
proof -
  have same: "s = s\<lparr>rg_world := rg_world s\<rparr>" by simp
  show thesis
  proof (cases "config_upstream cfg n")
    case (Inl e)
    with assms have "r = Inl e" "s' = s" by (auto simp: stdio_client_def monad_simps)
    with same refused show thesis by simp
  next
    case u: (Inr u)
    show thesis
    proof (cases "check_session_env u ctx")
      case (Inl e)
      with assms u have "r = Inl e" "s' = s" by (auto simp: stdio_client_def monad_simps)
      with same refused show thesis by simp
    next
      case env: (Inr _)
      show thesis
      proof (cases "stdio_client_key u sid")
        case (Inl e)
        with assms u env have "r = Inl e" "s' = s" by (auto simp: stdio_client_def monad_simps)
        with same refused show thesis by simp
      next
        case k: (Inr k)
        show thesis
        proof (cases "rg_shutdown s")
          case True
          with assms u env k have "r = Inl shutting_down" "s' = s"
            by (auto simp: stdio_client_def monad_simps)
          with same refused show thesis by simp
        next
          case False
          show thesis
          proof (cases "map_of (rg_stdio s) k")
            case (Some h)
            with assms u env k False have "r = Inr h" "m' = m" "s' = s"
              by (auto simp: stdio_client_def monad_simps)
            with found u k False Some show thesis by (simp add: config_upstream_Inr)
          next
            case None
            obtain r0 m0 w0 where c: "ue_create_stdio env u ctx None (m, rg_world s) = (r0, (m0, w0))"
              by (metis prod.exhaust)
            show thesis
            proof (cases r0)
              case (Inl e)
              with assms u env k False None c have "r = Inl e" "s' = s\<lparr>rg_world := w0\<rparr>"
                by (auto simp: stdio_client_def monad_simps)
              with refused show thesis by simp
            next
              case (Inr h)
              with assms u env k False None c have "r = Inr h" "m' = m0"
                "s' = s\<lparr>rg_world := w0, rg_stdio := AList.update k h (rg_stdio s)\<rparr>"
                by (auto simp: stdio_client_def monad_simps)
              with created u k False None c Inr show thesis by (simp add: config_upstream_Inr)
            qed
          qed
        qed
      qed
    qed
  qed
qed

lemma reg_inv_world [simp]: "reg_inv cfg (s\<lparr>rg_world := w\<rparr>) = reg_inv cfg s"
  by (simp add: reg_inv_def client_inv_def repair_inv_def auth_repair_stats_for_def)

lemma preserves_regI: "(\<And>m s r m' s'. op (m, s) = (r, (m', s')) \<Longrightarrow> P s \<Longrightarrow> P s') \<Longrightarrow> preserves (on_reg P) op"
proof (rule preservesI)
  fix st
  assume step: "\<And>m s r m' s'. op (m, s) = (r, (m', s')) \<Longrightarrow> P s \<Longrightarrow> P s'" and "on_reg P st"
  moreover obtain m s where "st = (m, s)" by (cases st)
  moreover obtain r m' s' where "op st = (r, (m', s'))" by (cases "op st") (cases "snd (op st)", auto)
  ultimately show "on_reg P (snd (op st))" by auto
qed

lemma stdio_client_inv: "preserves (on_reg (reg_inv cfg)) (stdio_client env cfg n sid ctx)"
proof (rule preserves_regI)
  fix m s r m' s'
  assume run: "stdio_client env cfg n sid ctx (m, s) = (r, (m', s'))" and inv: "reg_inv cfg s"
  from run show "reg_inv cfg s'"
  proof (cases rule: stdio_client_cases)
    case (refused e)
    then show ?thesis using inv reg_inv_world [of cfg "rg_world s'" s] by simp
  next
    case (found u k h)
    then show ?thesis using inv by simp
  next
    case (created u k h)
    then have "key_ok cfg k" by (auto simp: key_ok_def)
    with created inv reg_inv_add [of cfg "s\<lparr>rg_world := rg_world s'\<rparr>" k h] show ?thesis by simp
  qed
qed

section \<open>The client of a single call\<close>

lemma stop_per_call_cases:
  assumes "stop_per_call_stdio_client env call_id n h keep_error (m, s) = (r, (m', s'))"
  obtains
    (gone) "map_of (rg_per_call s) call_id \<noteq> Some (n, h)" "r = Inr ()" "s' = s"
  | (stopped) pids st where "map_of (rg_per_call s) call_id = Some (n, h)" "r = Inr ()"
      "ue_stdio_stop env h (m, rg_world s) = (Inr pids, st)"
      "s' = s\<lparr>rg_per_call := AList.delete call_id (rg_per_call s), rg_world := rg_world s'\<rparr>"
  | (failed) e st where "map_of (rg_per_call s) call_id = Some (n, h)"
      "ue_stdio_stop env h (m, rg_world s) = (Inl e, st)" "s' = s\<lparr>rg_world := rg_world s'\<rparr>"
      "r = (if keep_error then Inr () else Inl (Exn StdioUpstreamError
         (''upstream cleanup failed: '' @ n @ '': '' @ exn_str e)))"
proof (cases "map_of (rg_per_call s) call_id = Some (n, h)")
  case False
  with assms have "r = Inr ()" "s' = s" by (simp_all add: stop_per_call_stdio_client_def monad_simps)
  with False gone show thesis by blast
next
  case True
  obtain r0 m0 w0 where st: "ue_stdio_stop env h (m, rg_world s) = (r0, (m0, w0))" by (metis prod.exhaust)
  have ev: "\<exists>m1 w1. catchS (write_upstream_event env event n d) (\<lambda>_. returnS ()) (m2, s2) =
      (Inr (), (m1, s2\<lparr>rg_world := w1\<rparr>))" for event d m2 and s2 :: "'a registry"
  proof -
    obtain r1 m1 w1 where "ue_write_log env event ((''upstream'', PStr n) # d) (m2, rg_world s2) = (r1, (m1, w1))"
      by (metis prod.exhaust)
    then have "catchS (write_upstream_event env event n d) (\<lambda>_. returnS ()) (m2, s2) =
        (Inr (), (m1, s2\<lparr>rg_world := w1\<rparr>))"
      by (cases r1) (simp_all add: write_upstream_event_def monad_simps)
    then show ?thesis by blast
  qed
  show thesis
  proof (cases r0)
    case (Inl e)
    let ?s = "s\<lparr>rg_world := w0\<rparr>"
    from ev [of "''upstream.stop_error''" "[(''error'', PStr (exn_str e))]" m0 ?s] obtain m1 w1 where
      "catchS (write_upstream_event env ''upstream.stop_error'' n [(''error'', PStr (exn_str e))])
         (\<lambda>_. returnS ()) (m0, ?s) = (Inr (), (m1, ?s\<lparr>rg_world := w1\<rparr>))" by blast
    with assms True st Inl have "s' = s\<lparr>rg_world := w1\<rparr>" "r = (if keep_error then Inr () else
        Inl (Exn StdioUpstreamError (''upstream cleanup failed: '' @ n @ '': '' @ exn_str e)))"
      by (auto simp: stop_per_call_stdio_client_def bindS_apply seqS_apply sem_simps reg_simps
          catchS_apply [of "bindS _ _"] Let_def split: if_splits)
    with failed True st Inl show thesis by simp
  next
    case (Inr pids)
    let ?s = "s\<lparr>rg_world := w0, rg_per_call := AList.delete call_id (rg_per_call s)\<rparr>"
    let ?d = "[(''remaining_broker_processes'', PList (map PInt (sorted_set pids)))]"
    from ev [of "''upstream.stop_incomplete''" ?d m0 ?s] obtain m1 w1 where
      "catchS (write_upstream_event env ''upstream.stop_incomplete'' n ?d) (\<lambda>_. returnS ()) (m0, ?s) =
         (Inr (), (m1, ?s\<lparr>rg_world := w1\<rparr>))" by blast
    with assms True st Inr have "r = Inr ()"
      "s' = ?s \<or> s' = ?s\<lparr>rg_world := w1\<rparr>"
      by (auto simp: stop_per_call_stdio_client_def bindS_apply seqS_apply sem_simps reg_simps
          catchS_apply [of "bindS _ _"] Let_def split: if_splits)
    with stopped [OF True _ st [unfolded Inr]] show thesis by fastforce
  qed
qed

lemma per_call_client_cases:
  assumes "per_call_stdio_client env cfg n ctx (m, s) = (r, (m', s'))"
  obtains
    (refused) e where "r = Inl e" "s' = s\<lparr>rg_world := rg_world s'\<rparr>"
  | (created) u call_id h m1 w1 where "r = Inr (call_id, h)" "map_of (bc_upstreams cfg) n = Some u"
      "\<not> rg_shutdown s" "ue_call_id env (m, rg_world s) = (Inr call_id, (m1, w1))"
      "ue_create_stdio env u ctx (Some (up_name u @ ''.call.'' @ call_id)) (m1, w1) = (Inr h, (m', rg_world s'))"
      "s' = s\<lparr>rg_world := rg_world s', rg_per_call := AList.update call_id (n, h) (rg_per_call s)\<rparr>"
proof (cases "config_upstream cfg n")
  case (Inl e)
  with assms have "r = Inl e" "s' = s" by (auto simp: per_call_stdio_client_def monad_simps)
  with refused show thesis by simp
next
  case u: (Inr u)
  show thesis
  proof (cases "check_session_env u ctx")
    case (Inl e)
    with assms u have "r = Inl e" "s' = s" by (auto simp: per_call_stdio_client_def monad_simps)
    with refused show thesis by simp
  next
    case env: (Inr _)
    obtain r0 m0 w0 where c: "ue_call_id env (m, rg_world s) = (r0, (m0, w0))" by (metis prod.exhaust)
    show thesis
    proof (cases r0)
      case (Inl e)
      with assms u env c have "r = Inl e" "s' = s\<lparr>rg_world := w0\<rparr>"
        by (auto simp: per_call_stdio_client_def monad_simps)
      with refused show thesis by simp
    next
      case id: (Inr call_id)
      show thesis
      proof (cases "rg_shutdown s")
        case True
        with assms u env c id have "r = Inl shutting_down" "s' = s\<lparr>rg_world := w0\<rparr>"
          by (auto simp: per_call_stdio_client_def monad_simps)
        with refused show thesis by simp
      next
        case False
        obtain r1 m1 w1 where d: "ue_create_stdio env u ctx (Some (up_name u @ ''.call.'' @ call_id)) (m0, w0) =
            (r1, (m1, w1))" by (metis prod.exhaust)
        show thesis
        proof (cases r1)
          case (Inl e)
          with assms u env c id False d have "r = Inl e" "s' = s\<lparr>rg_world := w1\<rparr>"
            by (auto simp: per_call_stdio_client_def monad_simps)
          with refused show thesis by simp
        next
          case (Inr h)
          with assms u env c id False d have "r = Inr (call_id, h)" "m' = m1"
            "s' = s\<lparr>rg_world := w1, rg_per_call := AList.update call_id (n, h) (rg_per_call s)\<rparr>"
            by (auto simp: per_call_stdio_client_def monad_simps)
          with created u False c id d Inr show thesis by (simp add: config_upstream_Inr)
        qed
      qed
    qed
  qed
qed

text \<open>What a body that runs with a client leaves alone.\<close>

definition same_clients :: "'w registry \<Rightarrow> 'w registry \<Rightarrow> bool" where
  "same_clients s t \<longleftrightarrow> rg_stdio t = rg_stdio s \<and> rg_per_call t = rg_per_call s \<and>
     rg_shutdown t = rg_shutdown s"

lemma same_clients_clientwise: "clientwise (same_clients s)"
  by (simp add: clientwise_def same_clients_def)

lemma repaired_call_same:
  "call_stdio_client_or_repair env cfg h n tool args t (m, s) = (r, (m', s')) \<Longrightarrow> same_clients s s'"
  using preservesD [OF repaired_call_clients [OF same_clients_clientwise [of s]], of "(m, s)" env cfg h n tool args t]
  by (simp add: same_clients_def)

lemma world_same: "on_world f (m, s) = (r, (m', s')) \<Longrightarrow> same_clients s s'"
  by (auto simp: reg_simps same_clients_def split: prod.splits)

lemma delete_fresh: "k \<notin> fst ` set d \<Longrightarrow> AList.delete k (d @ [(k, v)]) = d"
  by (induction d) (auto simp: AList.delete_eq)

lemma with_per_call_client_clients:
  assumes run: "with_per_call_client env cfg n ctx body (m, s) = (r, (m', s'))"
    and body: "\<And>h m s r m' s'. body h (m, s) = (r, (m', s')) \<Longrightarrow> same_clients s s'"
    and fresh: "\<And>call_id st. ue_call_id env (m, rg_world s) = (Inr call_id, st) \<Longrightarrow>
      call_id \<notin> fst ` set (rg_per_call s)"
  shows "rg_stdio s' = rg_stdio s \<and> rg_shutdown s' = rg_shutdown s \<and>
    (rg_per_call s' = rg_per_call s \<or> (\<exists>e call_id h. r = Inl e \<and>
       rg_per_call s' = rg_per_call s @ [(call_id, (n, h))] \<and>
       (\<exists>st e' st'. ue_stdio_stop env h st = (Inl e', st'))))"
proof -
  obtain r1 m1 s1 where c: "per_call_stdio_client env cfg n ctx (m, s) = (r1, (m1, s1))"
    by (metis prod.exhaust)
  from c show ?thesis
  proof (cases rule: per_call_client_cases)
    case (refused e)
    with run c have "s' = s1" by (simp add: with_per_call_client_def monad_simps)
    moreover obtain w where "s1 = s\<lparr>rg_world := w\<rparr>" using refused(2) by blast
    ultimately show ?thesis by simp
  next
    case (created u call_id h m0 w0)
    note fresh = fresh [OF created(4)]
    obtain r2 m2 s2 where b: "body h (m1, s1) = (r2, (m2, s2))" by (metis prod.exhaust)
    obtain r3 m3 s3 where st: "stop_per_call_stdio_client env call_id n h (is_result r2 = False) (m2, s2) =
        (r3, (m3, s3))" by (metis prod.exhaust)
    have s': "s' = s3" "r = (case r2 of Inl e \<Rightarrow> (case r3 of Inl e' \<Rightarrow> Inl e' | Inr _ \<Rightarrow> Inl e)
        | Inr x \<Rightarrow> (case r3 of Inl e' \<Rightarrow> Inl e' | Inr _ \<Rightarrow> Inr x))"
      using run c created(1) b st
      by (auto simp: with_per_call_client_def monad_simps is_result_def split: sum.splits)
    have s1: "rg_per_call s1 = rg_per_call s @ [(call_id, (n, h))]" "rg_stdio s1 = rg_stdio s"
      "rg_shutdown s1 = rg_shutdown s"
      by (subst created(6), simp add: update_new fresh)+
    from body [OF b] have s2: "rg_per_call s2 = rg_per_call s1" "rg_stdio s2 = rg_stdio s1"
      "rg_shutdown s2 = rg_shutdown s1" by (simp_all add: same_clients_def)
    have reg: "map_of (rg_per_call s2) call_id = Some (n, h)"
      using fresh by (simp add: s1 s2 map_of_eq_None_iff [THEN iffD2] map_add_def)
    from st show ?thesis
    proof (cases rule: stop_per_call_cases)
      case gone
      with reg show ?thesis by simp
    next
      case (stopped pids st)
      have "AList.delete call_id (rg_per_call s2) = rg_per_call s"
        using fresh by (simp add: s1 s2 delete_fresh)
      then have "rg_per_call s3 = rg_per_call s" "rg_stdio s3 = rg_stdio s" "rg_shutdown s3 = rg_shutdown s"
        by (subst stopped(4), simp add: s1 s2)+
      with s' show ?thesis by simp
    next
      case (failed e st)
      have "rg_per_call s3 = rg_per_call s @ [(call_id, (n, h))]" "rg_stdio s3 = rg_stdio s"
        "rg_shutdown s3 = rg_shutdown s"
        by (subst failed(3), simp add: s1 s2)+
      moreover have "\<exists>e. r = Inl e"
        using s'(2) failed(4) by (cases r2) (auto simp: is_result_def)
      moreover have "\<exists>st e' st'. ue_stdio_stop env h st = (Inl e', st')" using failed(2) by blast
      ultimately show ?thesis using s'(1) by blast
    qed
  qed
qed

section \<open>The invariant over every operation\<close>

lemma per_call_client_inv: "preserves (on_reg (reg_inv cfg)) (per_call_stdio_client env cfg n ctx)"
proof (rule preserves_regI)
  fix m s r m' s'
  assume "per_call_stdio_client env cfg n ctx (m, s) = (r, (m', s'))" and inv: "reg_inv cfg s"
  then show "reg_inv cfg s'"
  proof (cases rule: per_call_client_cases)
    case (refused e)
    then obtain w where "s' = s\<lparr>rg_world := w\<rparr>" by blast
    then show ?thesis using inv by simp
  next
    case (created u call_id h m1 w1)
    then obtain w where "s' = s\<lparr>rg_world := w, rg_per_call := AList.update call_id (n, h) (rg_per_call s)\<rparr>"
      by blast
    then show ?thesis using inv created(3) by (simp add: reg_inv_def client_inv_def repair_inv_def
      auth_repair_stats_for_def)
  qed
qed

lemma reg_inv_other [simp]:
  "reg_inv cfg (s\<lparr>rg_http := h\<rparr>) = reg_inv cfg s"
  "reg_inv cfg s \<Longrightarrow> reg_inv cfg (s\<lparr>rg_per_call := AList.delete i (rg_per_call s)\<rparr>)"
  "reg_inv cfg s \<Longrightarrow> reg_inv cfg (s\<lparr>rg_shutdown := True, rg_stdio := [], rg_per_call := []\<rparr>)"
  by (auto simp: reg_inv_def client_inv_def)

lemma stop_per_call_inv: "preserves (on_reg (reg_inv cfg)) (stop_per_call_stdio_client env i n h b)"
  unfolding stop_per_call_stdio_client_def write_upstream_event_def Let_def
  by (intro preserves_intros reg_world preserves_reg_put; simp)

lemma with_per_call_client_inv:
  "(\<And>h. preserves (on_reg (reg_inv cfg)) (body h)) \<Longrightarrow>
    preserves (on_reg (reg_inv cfg)) (with_per_call_client env cfg n ctx body)"
  unfolding with_per_call_client_def
  by (intro preserves_intros per_call_client_inv stop_per_call_inv) simp_all

lemma http_client_inv: "preserves (on_reg (reg_inv cfg)) (http_client env cfg' n)"
  unfolding http_client_def by (intro preserves_intros reg_world preserves_reg_put; simp)

lemma call_upstream_inv: "preserves (on_reg (reg_inv cfg)) (call_upstream env cfg sid ctx n tool args t)"
  unfolding call_upstream_def call_http_upstream_def call_stdio_upstream_def
    call_stdio_upstream_or_repair_def write_upstream_event_def
  by (intro preserves_intros with_per_call_client_inv reg_world http_client_inv stdio_client_inv
      repaired_call_inv)

lemma list_upstream_inv: "preserves (on_reg (reg_inv cfg)) (list_upstream env cfg sid ctx n t)"
  unfolding list_upstream_def list_stdio_upstream_def write_upstream_event_def
  by (intro preserves_intros with_per_call_client_inv reg_world http_client_inv stdio_client_inv)

lemma stop_clients_preserves: "worldless P \<Longrightarrow> preserves (on_reg P) (stop_clients env cs)"
  by (induction env cs rule: stop_clients.induct)
    (auto intro!: preserves_bind preserves_world preserves_pair)

lemma shutdown_inv: "preserves (on_reg (reg_inv cfg)) (shutdown_upstreams env)"
  unfolding shutdown_upstreams_def
  by (intro preserves_intros preserves_reg_put stop_clients_preserves reg_inv_worldless) simp_all

lemma shutdown_session_inv: "preserves (on_reg (reg_inv cfg)) (shutdown_session_upstreams env sid)"
  unfolding shutdown_session_upstreams_def
  by (intro preserves_intros preserves_reg_put stop_clients_preserves reg_inv_worldless reg_inv_filter)

lemma reap_clients_inv: "preserves (on_reg (reg_inv cfg)) (reap_clients env now cs)"
  by (induction env now cs rule: reap_clients.induct)
    (auto simp: evict_def intro!: preserves_bind preserves_seq preserves_option preserves_if reg_world
      preserves_reg_put reg_inv_delete)

lemma reap_idle_inv: "preserves (on_reg (reg_inv cfg)) (reap_idle_upstreams env now)"
proof -
  have "preserves (on_reg (reg_inv cfg)) (log_reaped env rs)" for rs :: "reaped list"
    by (induction env rs rule: log_reaped.induct) (auto intro!: preserves_seq reg_world)
  then show ?thesis
    unfolding reap_idle_upstreams_def by (intro preserves_intros reap_clients_inv)
qed

text \<open>Everything that can happen to the registries, one operation after the other.\<close>

inductive registry_step :: "'w upstream_env \<Rightarrow> broker_config \<Rightarrow> 'w daemon_state \<Rightarrow> 'w daemon_state \<Rightarrow> bool"
  for env cfg where
  call: "registry_step env cfg s (snd (call_upstream env cfg sid ctx n tool args t s))"
| listing: "registry_step env cfg s (snd (list_upstream env cfg sid ctx n t s))"
| janitor: "registry_step env cfg s (snd (reap_idle_upstreams env now s))"
| close_session: "registry_step env cfg s (snd (shutdown_session_upstreams env sid s))"
| shutdown: "registry_step env cfg s (snd (shutdown_upstreams env s))"
| environment: "registry_step env cfg (m, s) (m', s\<lparr>rg_world := w\<rparr>)"

definition fresh_daemon :: "'w daemon_state \<Rightarrow> bool" where
  "fresh_daemon = (\<lambda>(m, s). rg_stdio s = [] \<and> rg_per_call s = [] \<and> \<not> rg_shutdown s \<and> rg_http s = [] \<and>
     rg_repair s = [])"

interpretation registries: transition_system fresh_daemon "registry_step env cfg" "on_reg (reg_inv cfg)"
  for env :: "'w upstream_env" and cfg
proof unfold_locales
  fix s t :: "'w daemon_state"
  show "on_reg (reg_inv cfg) s" if "fresh_daemon s"
    using that by (auto simp: fresh_daemon_def reg_inv_def client_inv_def repair_inv_def
        auth_repair_stats_for_def new_repair_stats_def stats_pending_def)
  show "on_reg (reg_inv cfg) t" if "on_reg (reg_inv cfg) s" "registry_step env cfg s t"
    using that(2)
  proof (cases rule: registry_step.cases)
    case (environment m s' m' w)
    then show ?thesis using that(1) by simp
  qed (use that(1) in \<open>auto intro!: preservesD [OF call_upstream_inv] preservesD [OF list_upstream_inv]
      preservesD [OF reap_idle_inv] preservesD [OF shutdown_session_inv] preservesD [OF shutdown_inv]\<close>)
qed


section \<open>Sessions\<close>

text \<open>The clients of one session, in the order of the registry.\<close>

definition session_clients :: "string option \<Rightarrow> 'w registry \<Rightarrow> (client_key \<times> handle) list" where
  "session_clients sid s = filter (\<lambda>(k, c). key_session k = sid) (rg_stdio s)"

lemma filter_update_other: "\<not> P k \<Longrightarrow> filter (\<lambda>(k, c). P k) (AList.update k v d) = filter (\<lambda>(k, c). P k) d"
  by (induction d) auto

lemma stdio_key_session: "stdio_client_key u sid = Inr k \<Longrightarrow> key_session k = None \<or> key_session k = sid"
  by (auto simp: stdio_client_key_def split: if_splits option.splits)

abbreviation session_kept :: "string \<Rightarrow> (client_key \<times> handle) list \<Rightarrow> 'w daemon_state \<Rightarrow> bool" where
  "session_kept sid V \<equiv> on_reg (\<lambda>s. session_clients (Some sid) s = V)"

lemma session_kept_clientwise: "clientwise (\<lambda>s. session_clients sid s = V)"
  by (simp add: clientwise_def session_clients_def)

lemmas session_world = preserves_world [OF clientwise_worldless [OF session_kept_clientwise]]

lemma stdio_client_session:
  assumes "sid \<noteq> Some other"
  shows "preserves (session_kept other V) (stdio_client env cfg n sid ctx)"
proof (rule preserves_regI)
  fix m s r m' s'
  assume "stdio_client env cfg n sid ctx (m, s) = (r, (m', s'))" and kept: "session_clients (Some other) s = V"
  then show "session_clients (Some other) s' = V"
  proof (cases rule: stdio_client_cases)
    case (refused e)
    then obtain w where "s' = s\<lparr>rg_world := w\<rparr>" by blast
    then show ?thesis using kept by (simp add: session_clients_def)
  next
    case (found u k h)
    then show ?thesis using kept by simp
  next
    case (created u k h)
    have "key_session k \<noteq> Some other" using stdio_key_session [OF created(3)] assms by auto
    moreover obtain w where "s' = s\<lparr>rg_world := w, rg_stdio := AList.update k h (rg_stdio s)\<rparr>"
      using created(7) by blast
    ultimately show ?thesis
      using kept by (simp add: session_clients_def filter_update_other [where P = "\<lambda>k. key_session k = Some other"])
  qed
qed

lemma per_call_session: "preserves (session_kept other V) (per_call_stdio_client env cfg n ctx)"
  "preserves (session_kept other V) (stop_per_call_stdio_client env i n h b)"
  unfolding per_call_stdio_client_def stop_per_call_stdio_client_def write_upstream_event_def Let_def
  by (intro preserves_intros session_world preserves_reg_put; simp add: session_clients_def)+

lemma call_upstream_session:
  assumes "sid \<noteq> Some other"
  shows "preserves (session_kept other V) (call_upstream env cfg sid ctx n tool args t)"
  unfolding call_upstream_def call_http_upstream_def call_stdio_upstream_def http_client_def
    call_stdio_upstream_or_repair_def write_upstream_event_def with_per_call_client_def
  by (intro preserves_intros per_call_session session_world stdio_client_session assms
      repaired_call_clients session_kept_clientwise preserves_reg_put) (simp add: session_clients_def)

lemma stop_clients_clients:
  "stop_clients env cs (m, s) = (r, (m', s')) \<Longrightarrow> same_clients s s'"
  using preservesD [OF stop_clients_preserves [OF clientwise_worldless [OF same_clients_clientwise [of s]]], of "(m, s)" env cs]
  by (simp add: same_clients_def)

lemma shutdown_session_clients:
  assumes "shutdown_session_upstreams env sid (m, s) = (r, (m', s'))"
  shows "rg_stdio s' = filter (\<lambda>(k, c). key_session k \<noteq> Some sid) (rg_stdio s)"
proof -
  let ?s = "s\<lparr>rg_stdio := filter (\<lambda>(k, c). key_session k \<noteq> Some sid) (rg_stdio s)\<rparr>"
  let ?cs = "map (\<lambda>(k, c). (stdio_client_name k, c)) (sort_key (\<lambda>(k, c). key_str k)
       (filter (\<lambda>(k, c). key_session k = Some sid) (rg_stdio s)))"
  obtain r1 m1 s1 where st: "stop_clients env ?cs (m, ?s) = (r1, (m1, s1))" by (metis prod.exhaust)
  with assms have "s' = s1"
    by (auto simp: shutdown_session_upstreams_def monad_simps split: sum.splits)
  with stop_clients_clients [OF st] show ?thesis by (simp add: same_clients_def)
qed

text \<open>Sessions are isolated: neither a call of one session nor the end of that session touches the
  clients of another session, and the end of a session leaves no client of it behind.\<close>

theorem sessions_isolated:
  assumes "sid \<noteq> other"
  shows "session_clients (Some other) (snd (snd (call_upstream env cfg (Some sid) ctx n tool args t (m, s)))) =
      session_clients (Some other) s \<and>
    session_clients (Some other) (snd (snd (shutdown_session_upstreams env sid (m, s)))) =
      session_clients (Some other) s \<and>
    session_clients (Some sid) (snd (snd (shutdown_session_upstreams env sid (m, s)))) = []"
proof -
  obtain r m' s' where run: "shutdown_session_upstreams env sid (m, s) = (r, (m', s'))"
    by (metis prod.exhaust)
  from shutdown_session_clients [OF run] assms
  have "session_clients (Some other) s' = session_clients (Some other) s" "session_clients (Some sid) s' = []"
    by (auto simp: session_clients_def filter_empty_conv intro!: filter_cong)
  moreover have "session_clients (Some other) (snd (snd (call_upstream env cfg (Some sid) ctx n tool args t (m, s)))) =
      session_clients (Some other) s"
    using preservesD [OF call_upstream_session [of "Some sid" other "session_clients (Some other) s"], of "(m, s)"]
      assms by (auto simp: split_def)
  ultimately show ?thesis using run by simp
qed

section \<open>The janitor\<close>

lemma evict_apply: "evict k h (m, s) = (if map_of (rg_stdio s) k = Some h
    then (Inr True, (m, s\<lparr>rg_stdio := AList.delete k (rg_stdio s)\<rparr>)) else (Inr False, (m, s)))"
  by (simp add: evict_def monad_simps)

text \<open>
  The pass over a snapshot \<open>cs\<close> of the registry: what was reaped is gone, and everything else was
  found alive or not idle.
\<close>

abbreviation reaped_client :: "client_key \<times> handle \<times> 'b \<Rightarrow> client_key \<times> handle" where
  "reaped_client r \<equiv> (fst r, fst (snd r))"

lemma reap_clients_result:
  assumes "reap_clients env now cs (m, s) = (Inr reaped, (m', s'))"
    and "distinct (map fst cs)" "distinct (map fst (rg_stdio s))" "set cs \<subseteq> set (rg_stdio s)"
  shows "rg_stdio s' = filter (\<lambda>kc. kc \<notin> reaped_client ` set reaped) (rg_stdio s) \<and>
    (\<forall>r \<in> set reaped. reaped_client r \<in> set cs \<and> (\<exists>w. reap_reason env now (fst r) (fst (snd r)) w \<noteq> None)) \<and>
    (\<forall>kc \<in> set cs. (\<exists>w. reap_reason env now (fst kc) (snd kc) w = None) \<or>
       kc \<in> reaped_client ` set reaped)"
  using assms
proof (induction cs arbitrary: m s reaped)
  case Nil
  then show ?case by (simp add: monad_simps)
next
  case (Cons kc cs)
  obtain k c where kc: "kc = (k, c)" by (cases kc)
  show ?case
  proof (cases "reap_reason env now k c (rg_world s)")
    case None
    with Cons.prems(1) have "reap_clients env now cs (m, s) = (Inr reaped, (m', s'))"
      by (simp add: kc monad_simps)
    from Cons.IH [OF this] Cons.prems(2-4) None show ?thesis
      by (fastforce simp: kc)
  next
    case (Some e)
    obtain r1 m1 w1 where st: "ue_stdio_stop env c (m, rg_world s) = (r1, (m1, w1))" by (metis prod.exhaust)
    then obtain pids where r1: "r1 = Inr pids"
      using Cons.prems(1) Some by (cases r1) (auto simp: kc monad_simps)
    have found: "map_of (rg_stdio s) k = Some c"
      using Cons.prems(3,4) kc by (auto intro: map_of_is_SomeI)
    let ?s = "s\<lparr>rg_world := w1, rg_stdio := AList.delete k (rg_stdio s)\<rparr>"
    obtain rest m2 s2 where rest: "reap_clients env now cs (m1, ?s) = (Inr rest, (m2, s2))"
      using Cons.prems(1) Some st r1 found
      by (cases "reap_clients env now cs (m1, ?s)") (auto simp: kc monad_simps evict_apply split: sum.splits)
    with Cons.prems(1) Some st r1 found have out: "reaped = (k, c, pids, e) # rest" "m' = m2" "s' = s2"
      by (auto simp: kc monad_simps evict_apply)
    have del: "rg_stdio ?s = filter (\<lambda>kc. kc \<noteq> (k, c)) (rg_stdio s)"
      using Cons.prems(3,4) kc
      by (auto simp: AList.delete_eq intro!: filter_cong dest: eq_key_imp_eq_value)
    have sub: "set cs \<subseteq> set (rg_stdio ?s)"
      using Cons.prems(2,4) kc unfolding del by (auto simp: image_iff)
    have "distinct (map fst (rg_stdio ?s))" using Cons.prems(3) unfolding del by (simp add: distinct_map_filter)
    from Cons.IH [OF rest [folded out(2,3)] _ this sub] Cons.prems(2)
    have IH: "rg_stdio s' = filter (\<lambda>kc. kc \<notin> reaped_client ` set rest) (rg_stdio ?s)"
      "\<forall>r \<in> set rest. reaped_client r \<in> set cs \<and> (\<exists>w. reap_reason env now (fst r) (fst (snd r)) w \<noteq> None)"
      "\<forall>kc \<in> set cs. (\<exists>w. reap_reason env now (fst kc) (snd kc) w = None) \<or>
         kc \<in> reaped_client ` set rest"
      by (simp_all add: out)
    have "rg_stdio s' = filter (\<lambda>kc. kc \<notin> reaped_client ` set reaped) (rg_stdio s)"
      by (subst IH(1), unfold del filter_filter, intro filter_cong) (auto simp: out(1))
    then show ?thesis
      using IH(2,3) Some kc by (fastforce simp: out)
  qed
qed

text \<open>The idle janitor evicts exactly the clients it found exited or, for a session's client, idle
  for its timeout: each of them was registered and is gone, and every other client stays and was found
  in use.\<close>

theorem janitor_evicts_only_idle:
  assumes "reap_idle_upstreams env now (m, s) = (Inr reaped, (m', s'))" "distinct (map fst (rg_stdio s))"
  shows "rg_stdio s' = filter (\<lambda>kc. kc \<notin> reaped_client ` set reaped) (rg_stdio s) \<and>
    (\<forall>r \<in> set reaped. reaped_client r \<in> set (rg_stdio s) \<and>
      (\<exists>w. reap_reason env now (fst r) (fst (snd r)) w \<noteq> None)) \<and>
    (\<forall>kc \<in> set (rg_stdio s'). \<exists>w. reap_reason env now (fst kc) (snd kc) w = None)"
proof -
  obtain rs m1 s1 where run: "reap_clients env now (rg_stdio s) (m, s) = (Inr rs, (m1, s1))"
    using assms(1) by (cases "reap_clients env now (rg_stdio s) (m, s)")
      (auto simp: reap_idle_upstreams_def monad_simps split: sum.splits)
  obtain r2 m2 s2 where lg: "log_reaped env rs (m1, s1) = (r2, (m2, s2))" by (metis prod.exhaust)
  have out: "reaped = map (\<lambda>(k, c, pids, e). (k, c, pids)) rs" "s' = s2"
    using assms(1) run lg by (auto simp: reap_idle_upstreams_def monad_simps split: sum.splits)
  have "preserves (on_reg (same_clients s1)) (log_reaped env rs)"
    by (induction env rs rule: log_reaped.induct)
      (auto intro!: preserves_seq preserves_world clientwise_worldless same_clients_clientwise)
  from preservesD [OF this, of "(m1, s1)"] lg have "rg_stdio s2 = rg_stdio s1" by (simp add: same_clients_def)
  moreover have "reaped_client ` set reaped = reaped_client ` set rs"
    by (force simp: out image_iff)
  ultimately show ?thesis
    using reap_clients_result [OF run assms(2,2) subset_refl] out by (fastforce simp: out)
qed

section \<open>Examples\<close>

text \<open>An environment whose world counts the handles and call identifiers it has given out.\<close>

definition example_env :: "nat upstream_env" where
  "example_env = \<lparr>ue_create_stdio = (\<lambda>u ctx name (m, w). (Inr w, (m, Suc w))),
     ue_stdio_call = (\<lambda>h tool args t st. (Inr [(''content'', PList [])], st)),
     ue_stdio_list = (\<lambda>h t st. (Inr [], st)), ue_stdio_stop = (\<lambda>h st. (Inr [], st)),
     ue_stdio_status = (\<lambda>h w. ''running''), ue_stdio_idle = (\<lambda>h now w. now),
     ue_stdio_upstream = (\<lambda>h. result_of (upstream_from_mapping os_identity Inr runtime_example ''web'' [(''command'', PStr ''web'')])), ue_stdio_health = (\<lambda>h st. (Inr [], st)),
     ue_stdio_ensure_running = (\<lambda>h st. (Inr (), st)),
     ue_create_http = (\<lambda>u (m, w). (Inr w, (m, Suc w))),
     ue_http_call = (\<lambda>h tool args t st. (Inr [(''content'', PList [])], st)),
     ue_http_list = (\<lambda>h t st. (Inr [], st)), ue_http_health = (\<lambda>h st. (Inr [], st)),
     ue_write_log = (\<lambda>e d st. (Inr (), st)),
     ue_call_id = (\<lambda>(m, w). (Inr (str_nat w), (m, Suc w)))\<rparr>"

definition clients_config :: broker_config where
  "clients_config = config_example
     [(''git'', [(''command'', PStr ''git-mcp'')]),
      (''calc'', [(''command'', PStr ''calc''), (''mode'', PStr ''per_call'')]),
      (''web'', [(''command'', PStr ''web''), (''mode'', PStr ''per_session'')])]"

definition no_meta :: meta_context where
  "no_meta = \<lparr>mc_current = [], mc_broker = []\<rparr>"

definition empty_registry :: "nat registry" where
  "empty_registry = \<lparr>rg_stdio = [], rg_per_call = [], rg_shutdown = False, rg_http = [],
     rg_repair = [], rg_world = 0\<rparr>"

text \<open>After a call of the shared upstream and one of the session \<open>a\<close>.\<close>

definition two_clients :: "nat registry" where
  "two_clients = empty_registry\<lparr>rg_world := 2,
     rg_stdio := [(SharedKey ''git'', 0), (SessionKey ''web'' ''a'', 1)]\<rparr>"

lemma two_clients_run:
  "snd (call_upstream example_env clients_config (Some ''a'') [] ''web'' ''open'' [] 5
     (snd (call_upstream example_env clients_config None [] ''git'' ''log'' [] 5 (no_meta, empty_registry)))) =
   (no_meta, two_clients)"
  by code_simp

lemma reachable_call: "reachable_from fresh_daemon (registry_step env cfg) s \<Longrightarrow>
    reachable_from fresh_daemon (registry_step env cfg) (snd (call_upstream env cfg sid ctx n tool args t s))"
  by (erule reachable_from.step) (rule registry_step.call)

lemma two_clients_reachable:
  "reachable_from fresh_daemon (registry_step example_env clients_config) (no_meta, two_clients)"
  unfolding two_clients_run [symmetric]
  by (intro reachable_call reachable_from.start) (simp add: fresh_daemon_def empty_registry_def)


lemma sessions_isolated_witness:
  "session_clients (Some ''a'') (snd (snd (shutdown_session_upstreams example_env ''b'' (no_meta, two_clients)))) =
     [(SessionKey ''web'' ''a'', 1)]"
  using sessions_isolated [of "''b''" "''a''" example_env clients_config "[]" "''web''" "''open''" "[]" 5
      no_meta two_clients]
  by (simp add: session_clients_def two_clients_def)

lemma janitor_evicts_only_idle_witness:
  "\<exists>reaped m' s'. reap_idle_upstreams example_env 1000 (no_meta, two_clients) = (Inr reaped, (m', s')) \<and>
     rg_stdio s' = filter (\<lambda>kc. kc \<notin> reaped_client ` set reaped)
       [(SharedKey ''git'', 0), (SessionKey ''web'' ''a'', 1)]"
proof -
  have "is_result (fst (reap_idle_upstreams example_env 1000 (no_meta, two_clients)))" by code_simp
  then obtain reaped m' s' where run: "reap_idle_upstreams example_env 1000 (no_meta, two_clients) =
      (Inr reaped, (m', s'))"
    by (cases "reap_idle_upstreams example_env 1000 (no_meta, two_clients)")
      (auto simp: is_result_def split: sum.splits)
  have "distinct (map fst (rg_stdio two_clients))" by (simp add: two_clients_def)
  from janitor_evicts_only_idle [OF run this] run show ?thesis by (auto simp: two_clients_def)
qed

end
