(* ===== verification/Registry_Steps.thy ===== *)
theory Registry_Steps
  imports Upstream_Registry
begin

text \<open>
  The threads of the daemon at work on the registry of stdio clients: connection threads, the idle
  janitor, and whoever handles a shutdown. One step is one block under \<open>_stdio_upstreams_lock\<close>, one
  client method, or the death of a process; the threads interleave freely. A thread holds the
  clients its local variables refer to. A client whose last reference goes away is finalised: its
  \<open>__del__\<close> calls \<open>stop\<close>, and hides what that raises. A \<open>stop\<close> ends the process, or it raises or
  returns with the process left running; a process that a finaliser left so is remembered in
  \<open>rs_unstopped\<close>.
\<close>

type_synonym thread = nat

record run_state =
  rs_registry :: "client_key \<Rightarrow> handle option"
  rs_calls :: "string \<Rightarrow> handle option"
  rs_shutdown :: bool
  rs_next :: handle
  rs_running :: "handle set"
  rs_unstopped :: "handle set"
  rs_held :: "thread \<Rightarrow> handle set"

definition hold :: "thread \<Rightarrow> handle set \<Rightarrow> run_state \<Rightarrow> run_state" where
  "hold t hs s = s\<lparr>rs_held := (rs_held s)(t := rs_held s t \<union> hs)\<rparr>"

text \<open>The locked get-or-create of \<open>_stdio_client\<close>; the constructor starts no process.\<close>

definition get_or_create :: "thread \<Rightarrow> client_key \<Rightarrow> run_state \<Rightarrow> run_state" where
  "get_or_create t k s =
     (case rs_registry s k of
        Some h \<Rightarrow> hold t {h} s
      | None \<Rightarrow> hold t {rs_next s} (s\<lparr>rs_registry := (rs_registry s)(k \<mapsto> rs_next s),
                  rs_next := Suc (rs_next s)\<rparr>))"

definition create_call :: "thread \<Rightarrow> string \<Rightarrow> run_state \<Rightarrow> run_state" where
  "create_call t call_id s = hold t {rs_next s} (s\<lparr>rs_calls := (rs_calls s)(call_id \<mapsto> rs_next s),
     rs_next := Suc (rs_next s)\<rparr>)"

text \<open>The first call starts the process, and so does a call after it has died or was stopped.\<close>

definition spawn :: "handle \<Rightarrow> run_state \<Rightarrow> run_state" where
  "spawn h s = s\<lparr>rs_running := insert h (rs_running s)\<rparr>"

text \<open>A \<open>stop\<close> that does not raise; one that raises leaves the state as it is.\<close>

definition stop_process :: "handle \<Rightarrow> run_state \<Rightarrow> run_state" where
  "stop_process h s = s\<lparr>rs_running := rs_running s - {h}\<rparr>"

text \<open>The end of a call with its own client: stopped and removed in one block.\<close>

definition finish_call :: "string \<Rightarrow> handle \<Rightarrow> run_state \<Rightarrow> run_state" where
  "finish_call call_id h s = stop_process h (s\<lparr>rs_calls := (rs_calls s)(call_id := None)\<rparr>)"

definition janitor_snapshot :: "thread \<Rightarrow> run_state \<Rightarrow> run_state" where
  "janitor_snapshot t s = hold t (ran (rs_registry s)) s"

text \<open>The janitor removes a key only while it still names the client it stopped.\<close>

definition janitor_evict :: "client_key \<Rightarrow> handle \<Rightarrow> run_state \<Rightarrow> run_state" where
  "janitor_evict k h s = (if rs_registry s k = Some h
     then s\<lparr>rs_registry := (rs_registry s)(k := None)\<rparr> else s)"

definition pop_session :: "thread \<Rightarrow> string \<Rightarrow> run_state \<Rightarrow> run_state" where
  "pop_session t sid s = hold t {h. \<exists>k. key_session k = Some sid \<and> rs_registry s k = Some h}
     (s\<lparr>rs_registry := (\<lambda>k. if key_session k = Some sid then None else rs_registry s k)\<rparr>)"

definition pop_all :: "thread \<Rightarrow> run_state \<Rightarrow> run_state" where
  "pop_all t s = hold t (ran (rs_registry s) \<union> ran (rs_calls s))
     (s\<lparr>rs_shutdown := True, rs_registry := Map.empty, rs_calls := Map.empty\<rparr>)"

definition referenced :: "run_state \<Rightarrow> handle set" where
  "referenced s = ran (rs_registry s) \<union> ran (rs_calls s) \<union> (\<Union>t. rs_held s t)"

text \<open>
  The finaliser of a client runs when its last reference goes; its \<open>stop\<close> may raise or leave the process
  running.
\<close>

definition finalise :: "handle \<Rightarrow> bool \<Rightarrow> run_state \<Rightarrow> run_state" where
  "finalise h raises s = (if raises then s\<lparr>rs_unstopped := insert h (rs_unstopped s)\<rparr> else stop_process h s)"

definition drop_reference :: "thread \<Rightarrow> handle \<Rightarrow> bool \<Rightarrow> run_state \<Rightarrow> run_state" where
  "drop_reference t h raises s =
     (let s' = s\<lparr>rs_held := (rs_held s)(t := rs_held s t - {h})\<rparr> in
      if h \<in> referenced s' then s' else finalise h raises s')"

inductive run_step :: "run_state \<Rightarrow> run_state \<Rightarrow> bool" where
  get: "\<not> rs_shutdown s \<Longrightarrow> run_step s (get_or_create t k s)"
| call: "\<not> rs_shutdown s \<Longrightarrow> rs_calls s call_id = None \<Longrightarrow> run_step s (create_call t call_id s)"
| spawn: "h \<in> rs_held s t \<Longrightarrow> run_step s (spawn h s)"
| stop: "h \<in> rs_held s t \<Longrightarrow> run_step s (stop_process h s)"
| stop_raises: "h \<in> rs_held s t \<Longrightarrow> run_step s s"
| dies: "run_step s (stop_process h s)"
| finish: "h \<in> rs_held s t \<Longrightarrow> rs_calls s call_id = Some h \<Longrightarrow> run_step s (finish_call call_id h s)"
| snapshot: "run_step s (janitor_snapshot t s)"
| evict: "h \<in> rs_held s t \<Longrightarrow> run_step s (janitor_evict k h s)"
| close_session: "run_step s (pop_session t sid s)"
| shutdown: "run_step s (pop_all t s)"
| drop: "h \<in> rs_held s t \<Longrightarrow> run_step s (drop_reference t h raises s)"

inductive_cases run_stepE: "run_step s t"

definition run_start :: "run_state \<Rightarrow> bool" where
  "run_start s \<longleftrightarrow> rs_registry s = Map.empty \<and> rs_calls s = Map.empty \<and> \<not> rs_shutdown s \<and>
     rs_running s = {} \<and> rs_unstopped s = {} \<and> (\<forall>t. rs_held s t = {})"

text \<open>
  Every process has an owner, clients are not shared between keys or between a key and a call, and a
  shut-down registry is empty.
\<close>

definition run_inv :: "run_state \<Rightarrow> bool" where
  "run_inv s \<longleftrightarrow> rs_running s \<subseteq> referenced s \<union> rs_unstopped s \<and> (\<forall>h \<in> referenced s. h < rs_next s) \<and>
     inj_on (rs_registry s) (dom (rs_registry s)) \<and> ran (rs_registry s) \<inter> ran (rs_calls s) = {} \<and>
     (rs_shutdown s \<longrightarrow> rs_registry s = Map.empty \<and> rs_calls s = Map.empty)"

lemma referenced_simps [simp]:
  "referenced (s\<lparr>rs_running := r\<rparr>) = referenced s" "referenced (s\<lparr>rs_next := n\<rparr>) = referenced s"
  "referenced (s\<lparr>rs_shutdown := b\<rparr>) = referenced s" "referenced (s\<lparr>rs_unstopped := u\<rparr>) = referenced s"
  by (simp_all add: referenced_def)

lemma referenced_hold: "referenced (hold t hs s) = referenced s \<union> hs"
  by (auto simp: referenced_def hold_def split: if_splits)

lemma hold_simps [simp]:
  "rs_registry (hold t hs s) = rs_registry s" "rs_calls (hold t hs s) = rs_calls s"
  "rs_shutdown (hold t hs s) = rs_shutdown s" "rs_next (hold t hs s) = rs_next s"
  "rs_running (hold t hs s) = rs_running s" "rs_unstopped (hold t hs s) = rs_unstopped s"
  by (simp_all add: hold_def)

lemma ran_upd_None: "ran (m(k := None)) \<subseteq> ran m"
  by (auto simp: ran_def)

lemma held_referenced: "h \<in> rs_held s t \<Longrightarrow> h \<in> referenced s"
  by (auto simp: referenced_def)

lemma run_inv_hold: "run_inv s \<Longrightarrow> hs \<subseteq> referenced s \<Longrightarrow> run_inv (hold t hs s)"
  by (auto simp: run_inv_def referenced_hold)

lemma inv_get_or_create:
  assumes "run_inv s" "\<not> rs_shutdown s"
  shows "run_inv (get_or_create t k s)"
proof (cases "rs_registry s k")
  case (Some h)
  then show ?thesis
    using run_inv_hold [OF assms(1), of "{h}" t]
    by (auto simp: get_or_create_def referenced_def ran_def)
next
  case None
  have fresh: "rs_next s \<notin> referenced s" using assms(1) by (auto simp: run_inv_def)
  let ?s = "s\<lparr>rs_registry := (rs_registry s)(k \<mapsto> rs_next s), rs_next := Suc (rs_next s)\<rparr>"
  have ref: "referenced ?s = insert (rs_next s) (referenced s)"
    using None by (auto simp: referenced_def)
  have "inj_on (rs_registry ?s) (dom (rs_registry ?s))"
    using assms(1) fresh None
    by (auto simp: run_inv_def inj_on_def referenced_def ran_def dom_def)
  then have "run_inv ?s"
    using assms fresh None ref by (auto simp: run_inv_def referenced_def less_Suc_eq)
  then show ?thesis
    using run_inv_hold [of ?s "{rs_next s}" t] None ref by (simp add: get_or_create_def)
qed

lemma inv_create_call:
  assumes "run_inv s" "\<not> rs_shutdown s" "rs_calls s call_id = None"
  shows "run_inv (create_call t call_id s)"
proof -
  let ?s = "s\<lparr>rs_calls := (rs_calls s)(call_id \<mapsto> rs_next s), rs_next := Suc (rs_next s)\<rparr>"
  have fresh: "rs_next s \<notin> referenced s" using assms(1) by (auto simp: run_inv_def)
  have ref: "referenced ?s = insert (rs_next s) (referenced s)"
    using assms(3) by (auto simp: referenced_def)
  then have "run_inv ?s"
    using assms fresh by (auto simp: run_inv_def referenced_def less_Suc_eq)
  then show ?thesis
    using run_inv_hold [of ?s "{rs_next s}" t] ref by (simp add: create_call_def)
qed

lemma inv_stop_process: "run_inv s \<Longrightarrow> run_inv (stop_process h s)"
  by (auto simp: run_inv_def stop_process_def)

text \<open>Taking clients out of the registry into a thread's hands, or out altogether once stopped.\<close>

lemma inv_restrict:
  assumes "run_inv s" "rs_registry s' \<subseteq>\<^sub>m rs_registry s" "rs_calls s' \<subseteq>\<^sub>m rs_calls s"
    and "referenced s' \<subseteq> referenced s" "rs_running s' \<subseteq> referenced s' \<union> rs_unstopped s'" "rs_next s' = rs_next s"
    and "rs_shutdown s' \<longrightarrow> rs_registry s' = Map.empty \<and> rs_calls s' = Map.empty"
  shows "run_inv s'"
proof -
  have "inj_on (rs_registry s') (dom (rs_registry s'))"
    using assms(1,2) by (force simp: run_inv_def inj_on_def map_le_def dom_def)
  moreover have "ran (rs_registry s') \<subseteq> ran (rs_registry s)" "ran (rs_calls s') \<subseteq> ran (rs_calls s)"
    using assms(2,3) by (auto simp: map_le_def ran_def dom_def) (metis option.distinct(1))+
  ultimately show ?thesis using assms by (auto simp: run_inv_def)
qed

lemma ran_upd_held: "m k = Some h \<Longrightarrow> h \<in> H \<Longrightarrow> ran (m(k := None)) \<union> H = ran m \<union> H"
proof -
  assume m: "m k = Some h" and h: "h \<in> H"
  have "x \<in> ran (m(k := None)) \<union> H" if "x \<in> ran m" for x
  proof -
    from that obtain a where "m a = Some x" by (auto simp: ran_def)
    then show ?thesis using m h by (cases "a = k") (auto simp: ran_def)
  qed
  then show ?thesis using ran_upd_None [of m k] by blast
qed

lemma inv_finish_call:
  assumes "run_inv s" "h \<in> rs_held s t" "rs_calls s call_id = Some h"
  shows "run_inv (finish_call call_id h s)"
proof -
  have "h \<in> (\<Union>t. rs_held s t)" using assms(2) by blast
  from ran_upd_held [of "rs_calls s", OF assms(3) this]
  have ref: "referenced (finish_call call_id h s) = referenced s"
    by (simp add: finish_call_def stop_process_def referenced_def Un_assoc)
  show ?thesis
    by (rule inv_restrict [OF assms(1)], unfold ref)
      (use assms in \<open>auto simp: finish_call_def stop_process_def map_le_def run_inv_def\<close>)
qed

lemma inv_evict:
  assumes "run_inv s" "h \<in> rs_held s t"
  shows "run_inv (janitor_evict k h s)"
proof (cases "rs_registry s k = Some h")
  case True
  have "h \<in> ran (rs_calls s) \<union> (\<Union>t. rs_held s t)" using assms(2) by blast
  from ran_upd_held [of "rs_registry s", OF True this] True
  have ref: "referenced (janitor_evict k h s) = referenced s"
    by (simp add: janitor_evict_def referenced_def Un_assoc)
  show ?thesis
    by (rule inv_restrict [OF assms(1)], unfold ref)
      (use assms in \<open>auto simp: janitor_evict_def map_le_def run_inv_def\<close>)
qed (use assms(1) in \<open>simp add: janitor_evict_def\<close>)

lemma inv_pop_session: "run_inv s \<Longrightarrow> run_inv (pop_session t sid s)"
proof -
  assume inv: "run_inv s"
  have ref: "referenced (pop_session t sid s) = referenced s"
    by (auto simp: pop_session_def referenced_hold) (auto simp: referenced_def ran_def split: if_splits)
  show ?thesis
    by (rule inv_restrict [OF inv], unfold ref)
      (use inv in \<open>auto simp: pop_session_def map_le_def run_inv_def fun_eq_iff\<close>)
qed

lemma inv_pop_all: "run_inv s \<Longrightarrow> run_inv (pop_all t s)"
proof -
  assume inv: "run_inv s"
  have ref: "referenced (pop_all t s) = referenced s"
    by (auto simp: pop_all_def referenced_hold) (auto simp: referenced_def)
  show ?thesis
    by (rule inv_restrict [OF inv], unfold ref) (use inv in \<open>auto simp: pop_all_def map_le_def run_inv_def\<close>)
qed

lemma inv_drop: "run_inv s \<Longrightarrow> run_inv (drop_reference t h raises s)"
proof -
  assume inv: "run_inv s"
  let ?s = "s\<lparr>rs_held := (rs_held s)(t := rs_held s t - {h})\<rparr>"
  have ref: "referenced ?s \<subseteq> referenced s" "referenced s - {h} \<subseteq> referenced ?s"
    by (auto simp: referenced_def split: if_splits)
  show ?thesis
    by (rule inv_restrict [OF inv])
      (use inv ref in \<open>auto simp: drop_reference_def Let_def finalise_def stop_process_def run_inv_def\<close>)
qed

interpretation runs: transition_system run_start run_step run_inv
proof unfold_locales
  fix s t
  show "run_inv s" if "run_start s"
    using that by (auto simp: run_start_def run_inv_def referenced_def)
  show "run_inv t" if inv: "run_inv s" and step: "run_step s t"
    using step
  proof (cases rule: run_step.cases)
    case (spawn h t')
    then show ?thesis using inv held_referenced by (auto simp: run_inv_def spawn_def)
  next
    case (snapshot t')
    then show ?thesis using inv run_inv_hold [of s "ran (rs_registry s)"]
      by (auto simp: janitor_snapshot_def referenced_def)
  qed (use inv in \<open>auto intro: inv_get_or_create inv_create_call inv_stop_process inv_finish_call
      inv_evict inv_pop_session inv_pop_all inv_drop\<close>)
qed

text \<open>Whatever the threads do, in any order, every running upstream process belongs to a client that is
  registered, in some thread's hands, or that its finaliser could not stop, and no client is registered
  under two keys. After a shutdown, once every thread has let go of its clients, only processes that could
  not be stopped run.\<close>

lemma no_orphan_process:
  assumes "reachable_from run_start run_step s"
  shows "rs_running s \<subseteq> referenced s \<union> rs_unstopped s \<and>
    (\<forall>k k' h. rs_registry s k = Some h \<and> rs_registry s k' = Some h \<longrightarrow> k = k') \<and>
    (rs_shutdown s \<and> (\<forall>t. rs_held s t = {}) \<longrightarrow> rs_running s \<subseteq> rs_unstopped s)"
proof -
  have inv: "run_inv s" by (rule runs.reachable_inv [OF assms])
  then have "rs_running s \<subseteq> rs_unstopped s" if "rs_shutdown s" "\<forall>t. rs_held s t = {}"
    using that by (auto simp: run_inv_def referenced_def)
  with inv show ?thesis by (auto simp: run_inv_def inj_on_def dom_def)
qed

end
