(* ===== verification/Daemon_Health.thy ===== *)
theory Daemon_Health
  imports Upstream_Registry PyTime
begin

text \<open>
  What the daemon reports: the health of its upstreams with the passive check of their credentials,
  and the log with its redaction (\<^verbatim>\<open>daemon_helpers.py\<close>, and the health part of
  \<^verbatim>\<open>daemon.py\<close>). The environment variables, the secret files, \<open>json.loads\<close> and the clock are
  arguments.
\<close>

section \<open>Redaction\<close>

definition SENSITIVE_LOG_KEY_PARTS :: "string list" where
  "SENSITIVE_LOG_KEY_PARTS = [''access_id'', ''api_key'', ''authorization'', ''credential'', ''env'',
     ''password'', ''secret'', ''token'']"

definition looks_like_filesystem_path :: "string \<Rightarrow> bool" where
  "looks_like_filesystem_path s \<longleftrightarrow> list_ex (\<lambda>p. prefix p s) [''/'', ''~/'', ''$HOME/'', ''${HOME}/''] \<or>
     contains ''/Users/'' s"

definition sensitive_key :: "string \<Rightarrow> bool" where
  "sensitive_key key = (let normalized = replace_char CHR ''-'' CHR ''_'' (lower key) in
     list_ex (\<lambda>part. contains part normalized) SENSITIVE_LOG_KEY_PARTS)"

fun redact_log_value :: "pyval \<Rightarrow> pyval" where
  "redact_log_value (PDict d) = PDict (map (\<lambda>(k, v).
     (k, if sensitive_key k then PStr ''[redacted]'' else redact_log_value v)) d)"
| "redact_log_value (PList xs) = PList (map redact_log_value xs)"
| "redact_log_value (PStr s) = (if contains ''://'' s then PStr ''[redacted:url]''
     else if looks_like_filesystem_path s then PStr ''[redacted:path]'' else PStr s)"
| "redact_log_value v = v"

definition redact_log_field :: "string \<Rightarrow> pyval \<Rightarrow> pyval" where
  "redact_log_field key v = (if sensitive_key key then PStr ''[redacted]'' else redact_log_value v)"

section \<open>Credentials\<close>

record probe_env =
  pe_environ :: "string \<Rightarrow> string option"
  pe_read_text :: "path \<Rightarrow> string option"
  pe_loads :: "string \<Rightarrow> pyval option"
  pe_clock :: iso_clock
  pe_now :: int

text \<open>\<open>datetime.fromtimestamp(seconds, utc)\<close>: rounded to microseconds, half to even.\<close>

definition round_half_even :: "rat \<Rightarrow> int" where
  "round_half_even x = (let f = \<lfloor>x\<rfloor>; d = x - of_int f in
     if d < 1 / 2 then f else if 1 / 2 < d then f + 1 else if even f then f else f + 1)"

definition from_timestamp :: "rat \<Rightarrow> int res" where
  "from_timestamp seconds = (let t = round_half_even (seconds * 1000000) in
     if - 62135596800000000 \<le> t \<and> t < 253402300800000000 then Inr t
     else value_error ''year is out of range'')"

definition parse_oauth_expiry :: "probe_env \<Rightarrow> pyval \<Rightarrow> int option res" where
  "parse_oauth_expiry pe v =
     (case as_num v of
        Some r \<Rightarrow> bindE (from_timestamp r) (\<lambda>t. Inr (Some t))
      | None \<Rightarrow> (case v of
          PStr s \<Rightarrow> if s = [] then Inr None
            else (case ck_fromisoformat (pe_clock pe) s of
              None \<Rightarrow> Inr None | Some (Naive t) \<Rightarrow> Inr (Some t) | Some (Aware t) \<Rightarrow> Inr (Some t))
        | _ \<Rightarrow> Inr None))"

definition has_value :: "string \<Rightarrow> bool" where
  "has_value s = list_ex (\<lambda>c. c \<noteq> CHR 0x0D \<and> c \<noteq> CHR 0x0A) s"

definition secret_file_has_value :: "probe_env \<Rightarrow> path \<Rightarrow> bool" where
  "secret_file_has_value pe q = (case pe_read_text pe q of None \<Rightarrow> False | Some s \<Rightarrow> has_value s)"

definition credentials_missing :: "string \<Rightarrow> pydict" where
  "credentials_missing message = [(''auth_probe'', PStr ''credentials_missing''),
     (''auth_state'', PStr ''unauthenticated''), (''last_error'', PStr message)]"

definition passive_configured_auth_probe :: "probe_env \<Rightarrow> upstream_config \<Rightarrow> auth_probe_policy \<Rightarrow> pydict res" where
  "passive_configured_auth_probe pe u probe =
     (case pe_read_text pe (path_of (token_file probe)) of
        None \<Rightarrow> Inr (credentials_missing (''missing OAuth token file for upstream '' @ up_name u))
      | Some raw \<Rightarrow>
          if \<not> has_value raw
          then Inr (credentials_missing (''missing OAuth token file for upstream '' @ up_name u))
          else case pe_loads pe raw of
            Some (PDict token_data) \<Rightarrow>
              let missing = filter (\<lambda>f. \<not> (is_str (dget token_data f) \<and> truthy (dget token_data f)))
                              (required_fields probe) in
              if missing \<noteq> [] then Inr (credentials_missing
                (''missing OAuth token field for upstream '' @ up_name u @ '': '' @ join '', '' missing))
              else (case refresh_token_expiry_field probe of
                None \<Rightarrow> Inr [(''auth_probe'', PStr ''credentials_present'')]
              | Some f \<Rightarrow>
                  if f = [] then Inr [(''auth_probe'', PStr ''credentials_present'')]
                  else bindE (parse_oauth_expiry pe (dget token_data f)) (\<lambda>expiry.
                    case expiry of
                      None \<Rightarrow> Inr (credentials_missing (''invalid OAuth refresh-token expiry for upstream '' @
                        up_name u @ '': '' @ f))
                    | Some t \<Rightarrow> if t \<le> pe_now pe
                        then Inr [(''auth_probe'', PStr ''oauth_refresh_expired''),
                          (''auth_state'', PStr ''unauthenticated''),
                          (''last_error'', PStr (''expired OAuth refresh token for upstream '' @ up_name u))]
                        else Inr [(''auth_probe'', PStr ''credentials_present'')]))
          | _ \<Rightarrow> Inr (credentials_missing (''invalid OAuth token file for upstream '' @ up_name u)))"

definition missing_auth_sources :: "probe_env \<Rightarrow> upstream_config \<Rightarrow> string list" where
  "missing_auth_sources pe u =
     map (\<lambda>s. ''env:'' @ s) (filter (\<lambda>s. pe_environ pe s \<in> {None, Some []}) (map snd (up_env u))) @
     map (\<lambda>(t, q). ''secret_file:'' @ t) (filter (\<lambda>(t, q). \<not> secret_file_has_value pe q) (up_env_files u))"

definition passive_auth_probe :: "probe_env \<Rightarrow> upstream_config \<Rightarrow> pydict res" where
  "passive_auth_probe pe u =
     (if upstream_disabled u then Inr [(''auth_probe'', PStr ''none'')]
      else case up_auth_probe u of
        Some probe \<Rightarrow> passive_configured_auth_probe pe u probe
      | None \<Rightarrow>
          let missing = missing_auth_sources pe u in
          if missing \<noteq> [] then Inr (credentials_missing
            (''missing auth source for upstream '' @ up_name u @ '': '' @ join '', '' missing))
          else if up_env u \<noteq> [] \<or> up_env_files u \<noteq> [] \<or> up_request_meta u \<noteq> []
          then Inr [(''auth_probe'', PStr ''credentials_present'')]
          else if up_auth_repair u \<noteq> None then Inr [(''auth_probe'', PStr ''auth_repair_configured'')]
          else Inr [(''auth_probe'', PStr ''none'')])"

definition merge_passive_auth_probe :: "pydict \<Rightarrow> pydict \<Rightarrow> pydict" where
  "merge_passive_auth_probe snapshot probe =
     (let merged = AList.update ''auth_probe'' (dget_or probe ''auth_probe'' (PStr ''none'')) snapshot;
          merged = (if dget merged ''last_error'' = PNone \<and> dget probe ''last_error'' \<noteq> PNone
            then AList.update ''last_error'' (dget probe ''last_error'') merged else merged)
      in if dget merged ''auth_state'' \<in> {PNone, PStr ''unknown''} \<and> dget probe ''auth_state'' \<noteq> PNone
         then AList.update ''auth_state'' (dget probe ''auth_state'') merged else merged)"

section \<open>Health\<close>

definition health_profile :: "pydict \<Rightarrow> string" where
  "health_profile request = (case dget request ''params'' of
     PDict params \<Rightarrow> (case dget params ''profile'' of PStr p \<Rightarrow> p | _ \<Rightarrow> ''default'')
   | _ \<Rightarrow> ''default'')"

definition configured_upstream_health :: "upstream_config \<Rightarrow> pydict" where
  "configured_upstream_health u =
     [(''state'', PStr (if upstream_disabled u then ''disabled'' else ''configured'')), (''pid'', PNone),
      (''cpu_percent'', PNone), (''memory_mb'', PNone), (''restarts'', PInt 0), (''last_error'', PNone)]"

definition per_call_health_snapshot :: "upstream_config \<Rightarrow> (string \<times> handle) list \<Rightarrow> pydict" where
  "per_call_health_snapshot u registered_calls =
     (let count = length (filter (\<lambda>(owner, c). owner = up_name u) registered_calls);
          snapshot = AList.update ''active_call_count'' (PInt (int count)) (configured_upstream_health u)
      in if count = 0 then snapshot else AList.update ''state'' (PStr ''running'') snapshot)"

text \<open>The snapshots of the clients of one upstream, of which there is at least one.\<close>

definition per_session_health :: "pydict list \<Rightarrow> pydict res" where
  "per_session_health snapshots =
     (let states = map (\<lambda>d. dget d ''state'') snapshots;
          errors = filter (\<lambda>v. v \<noteq> PNone) (map (\<lambda>d. dget d ''last_error'') snapshots);
          restarts = sum_list (List.map_filter (\<lambda>d. as_int (dget d ''restarts'')) snapshots)
      in if PStr ''running'' \<notin> set states \<and> states = [] then Inl (Exn IndexError ''list index out of range'')
         else Inr [(''state'', PStr (if PStr ''running'' \<in> set states then ''running'' else py_str (hd states))),
           (''pid'', PNone), (''cpu_percent'', PNone), (''memory_mb'', PNone), (''restarts'', PInt restarts),
           (''last_error'', if errors = [] then PNone else hd errors),
           (''sessions'', PInt (int (length snapshots)))])"

fun client_snapshots :: "'w upstream_env \<Rightarrow> handle list \<Rightarrow> ('w, pydict list) daemon_sem" where
  "client_snapshots env [] = returnS []"
| "client_snapshots env (c # cs) = bindS (on_world (ue_stdio_health env c)) (\<lambda>d.
     bindS (client_snapshots env cs) (\<lambda>ds. returnS (d # ds)))"

definition per_session_health_snapshot :: "'w upstream_env \<Rightarrow> handle list \<Rightarrow> ('w, pydict) daemon_sem" where
  "per_session_health_snapshot env clients =
     bindS (client_snapshots env clients) (\<lambda>snapshots. liftS (per_session_health snapshots))"

definition is_stdio_error :: "exn \<Rightarrow> bool" where
  "is_stdio_error e \<longleftrightarrow> is_class StdioUpstreamError e \<or> is_class StdioUpstreamTimeout e"

definition shared_stdio_health_snapshot ::
    "'w upstream_env \<Rightarrow> string \<Rightarrow> handle \<Rightarrow> bool \<Rightarrow> ('w, pydict) daemon_sem" where
  "shared_stdio_health_snapshot env upstream_name client restart_allowed =
     bindS (on_world (ue_stdio_health env client)) (\<lambda>snapshot.
     if dget snapshot ''state'' \<noteq> PStr ''exited'' \<or> \<not> restart_allowed then returnS snapshot
     else bindS (catchS (seqS (on_world (ue_stdio_ensure_running env client)) (returnS None))
            (\<lambda>e. if is_stdio_error e then
               seqS (write_upstream_event env ''upstream.backoff'' upstream_name
                 [(''state'', PStr ''backoff''), (''error'', PStr (exn_str e))]) (returnS (Some (exn_str e)))
             else raiseS e)) (\<lambda>failed.
          case failed of
            Some m \<Rightarrow> returnS (AList.update ''last_error'' (PStr m)
                        (AList.update ''state'' (PStr ''backoff'') snapshot))
          | None \<Rightarrow> on_world (ue_stdio_health env client)))"

definition upstream_health_with_auth ::
    "probe_env \<Rightarrow> broker_config \<Rightarrow> string \<Rightarrow> pydict \<Rightarrow> ('w, pydict) daemon_sem" where
  "upstream_health_with_auth pe cfg upstream_name snapshot =
     bindS (case map_of (bc_upstreams cfg) upstream_name of
        None \<Rightarrow> returnS snapshot
      | Some u \<Rightarrow> bindS (liftS (passive_auth_probe pe u)) (\<lambda>probe.
          returnS (merge_passive_auth_probe snapshot probe))) (\<lambda>snapshot.
     bindS (reg_get (\<lambda>s. map_of (rg_repair s) upstream_name)) (\<lambda>stats.
     case stats of
       None \<Rightarrow> returnS snapshot
     | Some d \<Rightarrow> returnS (fold (\<lambda>(k, v). AList.update k v) d snapshot)))"

definition one_upstream_health ::
    "'w upstream_env \<Rightarrow> string list option \<Rightarrow> (client_key \<times> handle) list \<Rightarrow> (string \<times> handle) list \<Rightarrow>
     string \<Rightarrow> upstream_config \<Rightarrow> ('w, pydict) daemon_sem" where
  "one_upstream_health env restart_upstreams stdio per_call name u =
     (case map_of stdio (SharedKey name) of
        Some client \<Rightarrow> shared_stdio_health_snapshot env name client
          (case restart_upstreams of None \<Rightarrow> True | Some names \<Rightarrow> name \<in> set names)
      | None \<Rightarrow>
          if up_mode u = ''per_call'' then returnS (per_call_health_snapshot u per_call)
          else if up_mode u = ''per_session'' then
            (let clients = List.map_filter (\<lambda>(k, c). case k of
                   SessionKey n sid \<Rightarrow> if n = name then Some c else None | SharedKey _ \<Rightarrow> None) stdio in
             if clients \<noteq> [] then per_session_health_snapshot env clients
             else returnS (configured_upstream_health u))
          else bindS (reg_get (\<lambda>s. map_of (rg_http s) name)) (\<lambda>http.
            case http of
              Some client \<Rightarrow> on_world (ue_http_health env client)
            | None \<Rightarrow> returnS (configured_upstream_health u)))"

fun health_of :: "'w upstream_env \<Rightarrow> probe_env \<Rightarrow> broker_config \<Rightarrow> string list option \<Rightarrow>
    (client_key \<times> handle) list \<Rightarrow> (string \<times> handle) list \<Rightarrow> upstreams \<Rightarrow>
    ('w, (string \<times> pydict) list) daemon_sem" where
  "health_of env pe cfg restart stdio per_call [] = returnS []"
| "health_of env pe cfg restart stdio per_call ((name, u) # ups) =
     bindS (bindS (one_upstream_health env restart stdio per_call name u)
        (upstream_health_with_auth pe cfg name)) (\<lambda>snapshot.
     bindS (health_of env pe cfg restart stdio per_call ups) (\<lambda>rest.
     returnS ((name, snapshot) # rest)))"

definition upstream_health ::
    "'w upstream_env \<Rightarrow> probe_env \<Rightarrow> broker_config option \<Rightarrow> string list option \<Rightarrow>
     ('w, (string \<times> pydict) list) daemon_sem" where
  "upstream_health env pe config restart_upstreams =
     (case config of
        None \<Rightarrow> returnS []
      | Some cfg \<Rightarrow>
          bindS (reg_get rg_stdio) (\<lambda>stdio.
          bindS (reg_get (\<lambda>s. map snd (rg_per_call s))) (\<lambda>per_call.
          health_of env pe cfg restart_upstreams stdio per_call (sort_key fst (bc_upstreams cfg)))))"

definition health_status :: "(string \<times> pydict) list \<Rightarrow> string" where
  "health_status upstreams =
     (if list_ex (\<lambda>(n, d). dget d ''state'' \<in> {PStr ''exited'', PStr ''failed'', PStr ''backoff''} \<or>
          truthy (dget d ''last_error'')) upstreams
      then ''degraded'' else ''ok'')"

section \<open>Correctness\<close>

text \<open>What a log entry must not contain, at any depth: a URL, a path, or the value of a sensitive key.\<close>

fun log_safe :: "pyval \<Rightarrow> bool" where
  "log_safe (PDict d) = list_all (\<lambda>(k, v). (sensitive_key k \<longrightarrow> v = PStr ''[redacted]'') \<and> log_safe v) d"
| "log_safe (PList xs) = list_all log_safe xs"
| "log_safe (PStr s) = (\<not> contains ''://'' s \<and> \<not> looks_like_filesystem_path s)"
| "log_safe v = True"

lemma redaction_marks_safe: "log_safe (PStr ''[redacted]'')" "log_safe (PStr ''[redacted:url]'')"
  "log_safe (PStr ''[redacted:path]'')"
  by code_simp+

lemma redacted_value_safe: "log_safe (redact_log_value v)"
proof (induction v rule: redact_log_value.induct)
  case (1 d)
  then show ?case
    using redaction_marks_safe(1) by (auto simp: list_all_iff simp del: log_safe.simps(3))
next
  case (3 s)
  then show ?case
    using redaction_marks_safe(2,3) by (cases "contains ''://'' s"; cases "looks_like_filesystem_path s") simp_all
qed (auto simp: list_all_iff)

lemma redacted_value_fixed: "log_safe v \<Longrightarrow> redact_log_value v = v"
proof (induction v rule: redact_log_value.induct)
  case (1 d)
  then show ?case by (auto simp: list_all_iff intro!: map_idI split: if_splits)
next
  case (2 xs)
  then show ?case by (auto simp: list_all_iff intro!: map_idI)
qed auto

text \<open>Nothing that is logged contains a URL, a file path or the value of a sensitive key, at any
  depth of the logged value; and what contains none of these is logged unchanged, so redaction is
  idempotent.\<close>

theorem redacted_log_safe:
  "log_safe (redact_log_field key v) \<and>
   redact_log_field key (redact_log_field key v) = redact_log_field key v"
proof (cases "sensitive_key key")
  case True
  then show ?thesis using redaction_marks_safe(1) by (simp add: redact_log_field_def)
next
  case False
  then show ?thesis
    using redacted_value_safe redacted_value_fixed by (simp add: redact_log_field_def)
qed

end
