(* ===== verification/Json_Rpc.thy ===== *)
theory Json_Rpc
  imports PyValue
begin

text \<open>
  JSON-RPC requests and responses (\<^verbatim>\<open>jsonrpc.py\<close>), the handler of the broker's own protocol
  methods (\<^verbatim>\<open>protocol.py\<close>), and the framing of a request on the socket (\<^verbatim>\<open>daemon_socket.py\<close>).
\<close>

section \<open>Requests and responses\<close>

record jsonrpc_request =
  rq_method :: string
  rq_id :: pyval
  rq_params :: pyval
  rq_has_id :: bool

definition request_from_mapping :: "pyval \<Rightarrow> jsonrpc_request res" where
  "request_from_mapping data =
     (case data of
        PList _ \<Rightarrow> value_error ''json-rpc batches are not supported''
      | PDict d \<Rightarrow>
          if dget d ''jsonrpc'' \<noteq> PStr ''2.0'' then value_error ''jsonrpc must be 2.0''
          else (case dget d ''method'' of
              PStr (c # cs) \<Rightarrow>
                (case dget d ''params'' of
                   PNone \<Rightarrow> Inr \<lparr>rq_method = c # cs, rq_id = dget d ''id'', rq_params = PNone, rq_has_id = dhas d ''id''\<rparr>
                 | PDict p \<Rightarrow> Inr \<lparr>rq_method = c # cs, rq_id = dget d ''id'', rq_params = PDict p, rq_has_id = dhas d ''id''\<rparr>
                 | PList p \<Rightarrow> Inr \<lparr>rq_method = c # cs, rq_id = dget d ''id'', rq_params = PList p, rq_has_id = dhas d ''id''\<rparr>
                 | _ \<Rightarrow> value_error ''params must be object or array'')
            | _ \<Rightarrow> value_error ''method is required'')
      | _ \<Rightarrow> value_error ''json-rpc payload must be an object'')"

text \<open>\<open>json.loads\<close> is an argument: \<open>None\<close> is a \<open>JSONDecodeError\<close>.\<close>

definition request_from_json :: "(string \<Rightarrow> pyval option) \<Rightarrow> string \<Rightarrow> jsonrpc_request res" where
  "request_from_json loads payload = (case loads payload of
     None \<Rightarrow> value_error ''invalid json-rpc payload'' | Some data \<Rightarrow> request_from_mapping data)"

definition is_notification :: "jsonrpc_request \<Rightarrow> bool" where
  "is_notification r \<longleftrightarrow> \<not> rq_has_id r"

record jsonrpc_response =
  rs_id :: pyval
  rs_result :: pyval
  rs_error :: "pydict option"

definition rpc_result :: "pyval \<Rightarrow> pyval \<Rightarrow> jsonrpc_response" where
  "rpc_result request_id result = \<lparr>rs_id = request_id, rs_result = result, rs_error = None\<rparr>"

definition rpc_error :: "pyval \<Rightarrow> int \<Rightarrow> string \<Rightarrow> jsonrpc_response" where
  "rpc_error request_id rpc_code message = \<lparr>rs_id = request_id, rs_result = PNone,
     rs_error = Some [(''code'', PInt rpc_code), (''message'', PStr message)]\<rparr>"

definition response_to_mapping :: "jsonrpc_response \<Rightarrow> pydict" where
  "response_to_mapping r = [(''jsonrpc'', PStr ''2.0''), (''id'', rs_id r)] @
     (case rs_error r of None \<Rightarrow> [(''result'', rs_result r)] | Some e \<Rightarrow> [(''error'', PDict e)])"

definition response_to_json :: "jsonrpc_response \<Rightarrow> string" where
  "response_to_json r = dumps_compact (PDict (response_to_mapping r))"

section \<open>The protocol handler\<close>

definition SUPPORTED_PROTOCOL_VERSIONS :: "string list" where
  "SUPPORTED_PROTOCOL_VERSIONS = [''2025-11-25'', ''2025-06-18'', ''2025-03-26'', ''2024-11-05'']"

record protocol_handler =
  ph_server_name :: string
  ph_server_version :: string
  ph_initialized :: bool
  ph_initialize_seen :: bool

definition initialize_result :: "protocol_handler \<Rightarrow> string \<Rightarrow> pydict" where
  "initialize_result h requested_version =
     [(''protocolVersion'', PStr requested_version),
      (''capabilities'', PDict [(''tools'', PDict [(''listChanged'', PBool True)])]),
      (''serverInfo'', PDict [(''name'', PStr (ph_server_name h)), (''version'', PStr (ph_server_version h))])]"

definition handle_initialize ::
    "jsonrpc_request \<Rightarrow> protocol_handler \<Rightarrow> jsonrpc_response \<times> protocol_handler" where
  "handle_initialize request h =
     (case rq_params request of
        PDict params \<Rightarrow>
          (case map_of params ''protocolVersion'' of
             Some v \<Rightarrow>
               if py_str v \<notin> set SUPPORTED_PROTOCOL_VERSIONS
               then (rpc_error (rq_id request) (- 32602) ''Unsupported protocol version'', h)
               else (rpc_result (rq_id request) (PDict (initialize_result h (py_str v))),
                 h\<lparr>ph_initialize_seen := True\<rparr>)
           | None \<Rightarrow> (rpc_error (rq_id request) (- 32602) ''initialize.params.protocolVersion is required'', h))
      | _ \<Rightarrow> (rpc_error (rq_id request) (- 32602) ''initialize.params.protocolVersion is required'', h))"

definition protocol_handle ::
    "jsonrpc_request \<Rightarrow> protocol_handler \<Rightarrow> jsonrpc_response option \<times> protocol_handler" where
  "protocol_handle request h =
     (if rq_method request = ''initialize'' then
        (case handle_initialize request h of (r, h') \<Rightarrow> (Some r, h'))
      else if rq_method request = ''notifications/initialized'' then (None, h\<lparr>ph_initialized := True\<rparr>)
      else if \<not> ph_initialize_seen h then
        (Some (rpc_error (rq_id request) (- 32002) ''Server not initialized''), h)
      else (Some (rpc_error (rq_id request) (- 32601) (''unknown method: '' @ rq_method request)), h))"

section \<open>Framing\<close>

text \<open>
  What \<open>recv\<close> gives on a connection, in order: bytes, or the timeout of the socket. After the last
  one the peer has closed, which reads as no bytes.
\<close>

datatype recv = Chunk string | RecvTimeout

fun read_chunks :: "int \<Rightarrow> string \<Rightarrow> recv list \<Rightarrow> string res" where
  "read_chunks max_bytes raw [] = Inr raw"
| "read_chunks max_bytes raw (RecvTimeout # rest) = Inl (Exn TimeoutError ''timed out'')"
| "read_chunks max_bytes raw (Chunk chunk # rest) =
     (if chunk = [] then Inr raw
      else if max_bytes < int (length (raw @ chunk)) then
        Inl (Exn BrokerRequestTooLarge (''Request exceeds '' @ str_int max_bytes @ '' bytes''))
      else if last chunk = CHR 0x0A then Inr (raw @ chunk)
      else read_chunks max_bytes (raw @ chunk) rest)"

definition read_request :: "int \<Rightarrow> recv list \<Rightarrow> string res" where
  "read_request max_bytes events = read_chunks max_bytes [] events"

section \<open>Facts\<close>

lemma request_from_mapping_Inr:
  "request_from_mapping data = Inr r \<Longrightarrow> \<exists>d. data = PDict d \<and> dget d ''jsonrpc'' = PStr ''2.0'' \<and>
     dget d ''method'' = PStr (rq_method r) \<and> rq_method r \<noteq> [] \<and> rq_id r = dget d ''id'' \<and>
     rq_params r = dget d ''params'' \<and> rq_has_id r = dhas d ''id''"
  by (auto simp: request_from_mapping_def split: pyval.splits list.splits if_splits)

lemma request_from_mapping_Inl:
  "request_from_mapping data = Inl e \<Longrightarrow> is_class ValueError e"
  by (auto simp: request_from_mapping_def split: pyval.splits list.splits if_splits)

text \<open>A response of the JSON-RPC protocol: the version, the id, and exactly one of the two outcomes.\<close>

definition rpc_response :: "pyval \<Rightarrow> pydict \<Rightarrow> bool" where
  "rpc_response request_id d \<longleftrightarrow> dget d ''jsonrpc'' = PStr ''2.0'' \<and> dget d ''id'' = request_id \<and>
     (dhas d ''result'' \<longleftrightarrow> \<not> dhas d ''error'')"

lemma rpc_response_mapping [simp]: "rpc_response i (response_to_mapping r) \<longleftrightarrow> rs_id r = i"
  by (auto simp: rpc_response_def response_to_mapping_def split: option.splits)

lemma rs_id_simps [simp]: "rs_id (rpc_result i v) = i" "rs_id (rpc_error i c m) = i"
  by (simp_all add: rpc_result_def rpc_error_def)

lemma rs_error_simps [simp]: "rs_error (rpc_result i v) = None"
  "rs_error (rpc_error i c m) = Some [(''code'', PInt c), (''message'', PStr m)]"
  by (simp_all add: rpc_result_def rpc_error_def)

lemma protocol_handle_id: "protocol_handle r h = (Some x, h') \<Longrightarrow> rs_id x = rq_id r"
  by (auto simp: protocol_handle_def handle_initialize_def split: if_splits pyval.splits option.splits)

lemma protocol_handle_None: "fst (protocol_handle r h) = None \<longleftrightarrow> rq_method r = ''notifications/initialized''"
  by (auto simp: protocol_handle_def split: prod.splits)

text \<open>The handshake is seen exactly after an \<open>initialize\<close> that was answered with a result.\<close>

lemma protocol_handle_seen:
  "ph_initialize_seen (snd (protocol_handle r h)) \<longleftrightarrow> ph_initialize_seen h \<or>
     (rq_method r = ''initialize'' \<and> (\<exists>x. fst (protocol_handle r h) = Some x \<and> rs_error x = None))"
  by (auto simp: protocol_handle_def handle_initialize_def rpc_error_def rpc_result_def
      split: pyval.splits option.splits)

lemma read_chunks_bound:
  "read_chunks n raw events = Inr s \<Longrightarrow> int (length raw) \<le> n \<Longrightarrow> int (length s) \<le> n"
  by (induction n raw events rule: read_chunks.induct) (auto split: if_splits)

end
