(* ===== verification/Break_Glass.thy ===== *)
theory Break_Glass
  imports Json_Files
begin

text \<open>
  Break-glass records (\<^verbatim>\<open>break_glass.py\<close>): a time-limited record of a bypassed policy, the pointer
  to the active one, and the audit log. The store is its directory (after
  \<open>expanduser\<close>); the record files are kept by their path. The digest of a text (\<open>sha256(...).hexdigest()\<close>) and the clock are arguments.
\<close>

record break_glass_store =
  bg_state_dir :: path
  bg_records :: "path \<Rightarrow> json_file"
  bg_active :: json_file
  bg_audit :: "pydict list"

type_synonym 'a bg_sem = "(break_glass_store, exn, 'a) sem"

definition break_glass_dir :: "break_glass_store \<Rightarrow> path" where
  "break_glass_dir s = path_join (bg_state_dir s) ''break-glass''"

definition records_dir :: "break_glass_store \<Rightarrow> path" where
  "records_dir s = path_join (break_glass_dir s) ''records''"

definition bg_audit_path :: "break_glass_store \<Rightarrow> path" where
  "bg_audit_path s = path_join (break_glass_dir s) ''audit.jsonl''"

definition bg_required_text :: "string \<Rightarrow> string \<Rightarrow> string res" where
  "bg_required_text = required_text BreakGlassError"

definition bg_policy_paths :: "string list \<Rightarrow> string list res" where
  "bg_policy_paths = checked_paths BreakGlassError ''bypassed policy path''"

definition bg_parse_timestamp :: "iso_clock \<Rightarrow> string \<Rightarrow> int res" where
  "bg_parse_timestamp ck value = aware_timestamp ck BreakGlassError value value"

definition bg_require_future_expiration :: "iso_clock \<Rightarrow> string \<Rightarrow> string \<Rightarrow> unit res" where
  "bg_require_future_expiration ck expires_at now =
     bindE (bg_parse_timestamp ck expires_at) (\<lambda>e.
     bindE (bg_parse_timestamp ck now) (\<lambda>n.
     require (n < e) (Exn BreakGlassError ''expires_at must be in the future'')))"

definition is_expired :: "iso_clock \<Rightarrow> int \<Rightarrow> string \<Rightarrow> string option \<Rightarrow> bool res" where
  "is_expired ck host expires_at now =
     bindE (bg_parse_timestamp ck expires_at) (\<lambda>e.
     bindE (bg_parse_timestamp ck (time_or ck host now)) (\<lambda>n. Inr (e \<le> n)))"

definition bg_record_id :: "(string \<Rightarrow> string) \<Rightarrow> pydict \<Rightarrow> string" where
  "bg_record_id digest seed = ''break-glass-'' @ take 16 (digest (dumps_compact (PDict seed)))"

definition bg_read_json :: "json_file \<Rightarrow> string \<Rightarrow> pydict res" where
  "bg_read_json file p =
     (case file of
        Absent \<Rightarrow> Inl (Exn FileNotFoundError p)
      | Corrupt \<Rightarrow> Inl (Exn JSONDecodeError ''Expecting value'')
      | Content (PDict d) \<Rightarrow> Inr d
      | Content _ \<Rightarrow> Inl (Exn BreakGlassError (''expected JSON object: '' @ p)))"

definition bg_append_audit :: "pydict \<Rightarrow> string \<Rightarrow> unit bg_sem" where
  "bg_append_audit entry ts = modifyS (\<lambda>s. s\<lparr>bg_audit := bg_audit s @ [entry @ [(''ts'', PStr ts)]]\<rparr>)"

definition bg_seed :: "string list \<Rightarrow> string \<Rightarrow> string \<Rightarrow> string \<Rightarrow> string \<Rightarrow> pydict" where
  "bg_seed paths created_at expires_at operator reason =
     [(''bypassed_policy_paths'', PList (map PStr paths)), (''created_at'', PStr created_at),
      (''expires_at'', PStr expires_at), (''operator'', PStr operator), (''reason'', PStr reason)]"

definition bg_create ::
    "iso_clock \<Rightarrow> int \<Rightarrow> (string \<Rightarrow> string) \<Rightarrow> string \<Rightarrow> string \<Rightarrow> string \<Rightarrow> string list \<Rightarrow> string option \<Rightarrow>
     pydict bg_sem" where
  "bg_create ck host digest reason operator expires_at bypassed created_at =
     (let created = time_or ck host created_at in
      bindS (liftS (bg_required_text reason ''reason'')) (\<lambda>clean_reason.
      bindS (liftS (bg_required_text operator ''operator'')) (\<lambda>clean_operator.
      bindS (liftS (bg_policy_paths bypassed)) (\<lambda>clean_paths.
      seqS (liftS (bg_require_future_expiration ck expires_at created))
      (bindS getS (\<lambda>s.
       let seed = bg_seed clean_paths created expires_at clean_operator clean_reason;
           record_id = bg_record_id digest seed;
           record_path = path_join (records_dir s) (record_id @ ''.json'');
           rec = seed @ [(''audit_path'', PStr (path_str (bg_audit_path s))),
             (''record_id'', PStr record_id), (''status'', PStr ''active'')]
       in seqS (modifyS (\<lambda>s. s\<lparr>bg_records := (bg_records s)(record_path := Content (PDict rec))\<rparr>))
         (seqS (modifyS (\<lambda>s. s\<lparr>bg_active := Content (PDict
             [(''record_id'', PStr record_id), (''record_path'', PStr (path_str record_path))])\<rparr>))
         (seqS (bg_append_audit [(''event'', PStr ''break_glass.created''), (''record_id'', PStr record_id),
             (''operator'', PStr clean_operator), (''reason'', PStr clean_reason),
             (''bypassed_policy_paths'', PList (map PStr clean_paths)),
             (''expires_at'', PStr expires_at)] created)
         (returnS rec)))))))))"

definition active_record_or_none :: "break_glass_store \<Rightarrow> pydict option res" where
  "active_record_or_none s =
     (if bg_active s = Absent then Inr None
      else bindE (bg_read_json (bg_active s) (path_str (path_join (break_glass_dir s) ''active.json''))) (\<lambda>pointer.
        bindE (dindex pointer ''record_path'') (\<lambda>p.
        bindE (bg_read_json (bg_records s (path_of (py_str p))) (py_str p)) (\<lambda>rec.
        bindE (dindex rec ''record_id'') (\<lambda>r.
        bindE (dindex pointer ''record_id'') (\<lambda>q.
        bindE (require (py_str r = py_str q)
          (Exn BreakGlassError ''break-glass active pointer does not match record'')) (\<lambda>_.
        Inr (Some rec))))))))"

definition inactive_status :: pydict where
  "inactive_status = [(''active_record'', PNone), (''degraded'', PBool False), (''status'', PStr ''inactive'')]"

definition bg_status :: "iso_clock \<Rightarrow> int \<Rightarrow> string option \<Rightarrow> break_glass_store \<Rightarrow> pydict res" where
  "bg_status ck host now s =
     bindE (active_record_or_none s) (\<lambda>active.
     case active of
       None \<Rightarrow> Inr inactive_status
     | Some rec \<Rightarrow>
         bindE (dindex rec ''expires_at'') (\<lambda>e.
         bindE (is_expired ck host (py_str e) now) (\<lambda>expired.
         Inr (if expired then inactive_status
           else [(''active_record'', PDict rec), (''degraded'', PBool True), (''status'', PStr ''active'')]))))"

definition require_active_record :: "iso_clock \<Rightarrow> int \<Rightarrow> string option \<Rightarrow> break_glass_store \<Rightarrow> pydict res" where
  "require_active_record ck host now s =
     bindE (active_record_or_none s) (\<lambda>active.
     case active of
       None \<Rightarrow> Inl (Exn BreakGlassError ''break-glass record is not active'')
     | Some rec \<Rightarrow>
         bindE (dindex rec ''expires_at'') (\<lambda>e.
         bindE (is_expired ck host (py_str e) now) (\<lambda>expired.
         bindE (require (\<not> expired) (Exn BreakGlassError ''break-glass record expired'')) (\<lambda>_.
         Inr rec))))"

section \<open>The life of a record\<close>

lemma record_path_clean: "clean_path (bg_state_dir s) \<Longrightarrow>
    path_of (path_str (path_join (records_dir s) f)) = path_join (records_dir s) f"
  unfolding records_dir_def break_glass_dir_def by (intro path_of_str clean_path_join)

lemma bg_create_result:
  assumes "bg_create ck host digest reason by expires bypassed created_at s = (Inr rec, s')"
  obtains paths e n where
    "bg_parse_timestamp ck expires = Inr e"
    "bg_parse_timestamp ck (time_or ck host created_at) = Inr n" "n < e"
    "rec = bg_seed paths (time_or ck host created_at) expires (strip by) (strip reason) @
       [(''audit_path'', PStr (path_str (bg_audit_path s))),
        (''record_id'', PStr (bg_record_id digest
           (bg_seed paths (time_or ck host created_at) expires (strip by) (strip reason)))),
        (''status'', PStr ''active'')]"
    "bg_state_dir s' = bg_state_dir s"
    "bg_active s' = Content (PDict [(''record_id'', dget rec ''record_id''), (''record_path'',
       PStr (path_str (path_join (records_dir s) (py_str (dget rec ''record_id'') @ ''.json''))))])"
    "bg_records s' = (bg_records s)
       (path_join (records_dir s) (py_str (dget rec ''record_id'') @ ''.json'') := Content (PDict rec))"
    "length (bg_audit s') = Suc (length (bg_audit s))"
    "strip reason \<noteq> []" "strip by \<noteq> []" "paths \<noteq> []" "list_all policy_path_fullmatch paths"
proof -
  define created where "created = time_or ck host created_at"
  have clean: "bg_required_text reason ''reason'' = Inr (strip reason)" "strip reason \<noteq> []"
      "bg_required_text by ''operator'' = Inr (strip by)" "strip by \<noteq> []"
    using assms
    by (auto simp: bg_create_def bg_required_text_def monad_simps required_text_Inr Let_def
        split: sum.splits)
  obtain paths where paths: "bg_policy_paths bypassed = Inr paths" "paths \<noteq> []"
      "list_all policy_path_fullmatch paths"
    using assms clean
    by (cases "bg_policy_paths bypassed")
      (auto simp: bg_create_def monad_simps Let_def bg_policy_paths_def checked_paths_Inr)
  have future: "bg_require_future_expiration ck expires created = Inr ()"
    using assms clean paths
    by (cases "bg_require_future_expiration ck expires created")
      (auto simp: bg_create_def monad_simps Let_def created_def)
  then obtain e n where time: "bg_parse_timestamp ck expires = Inr e"
      "bg_parse_timestamp ck created = Inr n" "n < e"
    by (auto simp: bg_require_future_expiration_def monad_simps)
  show thesis
    by (rule that [of e n paths, OF time(1) time(2) [unfolded created_def] time(3)])
      (use assms clean paths future in \<open>simp_all add: bg_create_def monad_simps Let_def
         bg_append_audit_def bg_seed_def flip: created_def\<close>, auto)
qed


lemma bg_create_error:
  "bg_create ck host digest reason operator expires bypassed created_at s = (Inl e, s') \<Longrightarrow>
     s' = s \<and> is_class BreakGlassError e"
  by (auto simp: bg_create_def monad_simps Let_def bg_required_text_def bg_policy_paths_def
      bg_require_future_expiration_def bg_parse_timestamp_def bg_append_audit_def
      dest: required_text_Inl checked_paths_Inl aware_timestamp_Inl split: sum.splits)

text \<open>A break-glass bypass that \<^verbatim>\<open>create\<close> grants is in force from then on and ends by itself: whatever
  instant the store is read at, \<^verbatim>\<open>status\<close> and \<^verbatim>\<open>require_active_record\<close> return exactly the record that was
  created while that instant is before its expiry, and report no active record from the expiry on; the
  grant is audited by one entry, for a nonempty reason and operator and a nonempty list of policy
  paths, and its expiry lies after its creation. A refused grant changes nothing.
\<close>

theorem break_glass_expires:
  assumes "clean_path (bg_state_dir s)"
  shows "case bg_create ck host digest reason operator expires bypassed created_at s of
      (Inl err, s') \<Rightarrow> s' = s \<and> is_class BreakGlassError err
    | (Inr rec, s') \<Rightarrow> \<exists>e n. bg_parse_timestamp ck expires = Inr e \<and> n < e \<and>
        bg_parse_timestamp ck (time_or ck host created_at) = Inr n \<and>
        length (bg_audit s') = Suc (length (bg_audit s)) \<and>
        dget rec ''reason'' = PStr (strip reason) \<and> strip reason \<noteq> [] \<and>
        dget rec ''operator'' = PStr (strip operator) \<and> strip operator \<noteq> [] \<and>
        (\<exists>paths. dget rec ''bypassed_policy_paths'' = PList (map PStr paths) \<and> paths \<noteq> [] \<and>
           list_all policy_path_fullmatch paths) \<and>
        (\<forall>host' now t. bg_parse_timestamp ck (time_or ck host' now) = Inr t \<longrightarrow>
           bg_status ck host' now s' = Inr (if t < e
             then [(''active_record'', PDict rec), (''degraded'', PBool True), (''status'', PStr ''active'')]
             else inactive_status) \<and>
           require_active_record ck host' now s' =
             (if t < e then Inr rec else Inl (Exn BreakGlassError ''break-glass record expired'')))"
proof (cases "bg_create ck host digest reason operator expires bypassed created_at s")
  case (Pair r s')
  show ?thesis
  proof (cases r)
    case (Inl err)
    with bg_create_error Pair show ?thesis by auto
  next
    case (Inr rec)
    obtain paths e n where c: "bg_parse_timestamp ck expires = Inr e" "n < e"
        "bg_parse_timestamp ck (time_or ck host created_at) = Inr n"
        "length (bg_audit s') = Suc (length (bg_audit s))"
        "strip reason \<noteq> []" "strip operator \<noteq> []" "paths \<noteq> []" "list_all policy_path_fullmatch paths"
      and rec: "rec = bg_seed paths (time_or ck host created_at) expires (strip operator) (strip reason) @
         [(''audit_path'', PStr (path_str (bg_audit_path s))),
          (''record_id'', PStr (bg_record_id digest
             (bg_seed paths (time_or ck host created_at) expires (strip operator) (strip reason)))),
          (''status'', PStr ''active'')]"
      and active: "bg_active s' = Content (PDict [(''record_id'', dget rec ''record_id''), (''record_path'',
         PStr (path_str (path_join (records_dir s) (py_str (dget rec ''record_id'') @ ''.json''))))])"
      and records: "bg_records s' = (bg_records s)
         (path_join (records_dir s) (py_str (dget rec ''record_id'') @ ''.json'') := Content (PDict rec))"
      using bg_create_result [OF Pair [unfolded Inr]] by metis
    have "active_record_or_none s' = Inr (Some rec)"
      using assms by (simp add: active_record_or_none_def active records bg_read_json_def
          record_path_clean) (simp add: rec bg_seed_def)
    moreover have "dindex rec ''expires_at'' = Inr (PStr expires)" by (simp add: rec bg_seed_def)
    moreover have "is_expired ck host' expires now = Inr (e \<le> t)"
      if "bg_parse_timestamp ck (time_or ck host' now) = Inr t" for host' now t
      using c that by (simp add: is_expired_def)
    moreover have "dget rec ''reason'' = PStr (strip reason)" "dget rec ''operator'' = PStr (strip operator)"
        "dget rec ''bypassed_policy_paths'' = PList (map PStr paths)"
      by (simp_all add: rec bg_seed_def)
    ultimately show ?thesis
      using c by (auto simp: Pair Inr bg_status_def require_active_record_def)
  qed
qed

definition break_glass_example :: break_glass_store where
  "break_glass_example = \<lparr>bg_state_dir = Path ''/'' [''var'', ''broker''], bg_records = (\<lambda>_. Absent),
     bg_active = Absent, bg_audit = []\<rparr>"

lemma break_glass_expires_witness:
  "bg_active break_glass_example = Absent \<and>
   (case bg_create decimal_clock 0 (\<lambda>_. ''0123456789abcdef0'') ''fix'' '' ops '' ''200Z'' [''a.b'']
      (Some ''100Z'') break_glass_example of
      (Inl err, s') \<Rightarrow> False
    | (Inr rec, s') \<Rightarrow> dget rec ''operator'' = PStr ''ops'' \<and>
        require_active_record decimal_clock 0 (Some ''150Z'') s' = Inr rec \<and>
        require_active_record decimal_clock 0 (Some ''200Z'') s' =
          Inl (Exn BreakGlassError ''break-glass record expired''))"
proof -
  let ?run = "bg_create decimal_clock 0 (\<lambda>_. ''0123456789abcdef0'') ''fix'' '' ops '' ''200Z'' [''a.b'']
      (Some ''100Z'') break_glass_example"
  have "clean_path (bg_state_dir break_glass_example)" by code_simp
  note law = break_glass_expires [OF this, where ck = decimal_clock and host = 0 and
      digest = "\<lambda>_. ''0123456789abcdef0''" and reason = "''fix''" and operator = "'' ops ''" and
      expires = "''200Z''" and bypassed = "[''a.b'']" and created_at = "Some ''100Z''"]
  have "is_result (fst ?run)" by code_simp
  then obtain rec s' where run: "?run = (Inr rec, s')" by (metis run_result)
  have times: "bg_parse_timestamp decimal_clock ''200Z'' = Inr 200"
      "bg_parse_timestamp decimal_clock (time_or decimal_clock 0 (Some ''150Z'')) = Inr 150"
      "bg_parse_timestamp decimal_clock (time_or decimal_clock 0 (Some ''200Z'')) = Inr 200"
    by code_simp+
  have strip: "strip '' ops '' = ''ops''" by code_simp
  have "bg_active break_glass_example = Absent" by (simp add: break_glass_example_def)
  with law times show ?thesis unfolding run strip by auto
qed

end
