(* ===== verification/Governance_Approval.thy ===== *)
theory Governance_Approval
  imports Json_Files
begin

text \<open>
  Operator approvals of governance mutations (\<^verbatim>\<open>governance_approval.py\<close>): one file per approval, never
  written twice, and an audit log. The store is its directory (after \<open>expanduser\<close>), the record
  files by path, and the log; the digest of a text and the clock are arguments.
\<close>

record approval_store =
  ap_state_dir :: path
  ap_files :: "path \<Rightarrow> json_file"
  ap_audit :: "pydict list"

type_synonym 'a ap_sem = "(approval_store, exn, 'a) sem"

definition REQUEST_TYPES :: "string list" where
  "REQUEST_TYPES = [''rollout'', ''rollback'', ''policy_override'', ''break_glass'']"

definition ap_error :: "string \<Rightarrow> exn" where
  "ap_error m = Exn GovernanceApprovalError m"

definition ap_dir :: "approval_store \<Rightarrow> path" where
  "ap_dir s = path_join (ap_state_dir s) ''governance-approvals''"

definition ap_record_path :: "approval_store \<Rightarrow> string \<Rightarrow> path" where
  "ap_record_path s approval_id = path_join (path_join (ap_dir s) ''records'') (approval_id @ ''.json'')"

definition ap_audit_path :: "approval_store \<Rightarrow> string" where
  "ap_audit_path s = path_str (path_join (ap_dir s) ''audit.jsonl'')"

definition ap_required_text :: "string \<Rightarrow> string \<Rightarrow> string res" where
  "ap_required_text = required_text GovernanceApprovalError"

definition ap_policy_paths :: "string list \<Rightarrow> string list res" where
  "ap_policy_paths = checked_paths GovernanceApprovalError ''policy path''"

definition ap_request_type :: "string \<Rightarrow> string res" where
  "ap_request_type value =
     bindE (require (strip value \<in> set REQUEST_TYPES) (ap_error (''unsupported request_type: '' @ value)))
       (\<lambda>_. Inr (strip value))"

definition ap_safe_id :: "string \<Rightarrow> string \<Rightarrow> string res" where
  "ap_safe_id label value =
     bindE (require (safe_id_fullmatch value) (ap_error (''invalid '' @ label @ '': '' @ value)))
       (\<lambda>_. Inr value)"

definition ap_safe_ids :: "string \<Rightarrow> string list \<Rightarrow> string list res" where
  "ap_safe_ids label values = mapE (ap_safe_id label) (stripped values)"

definition ap_parse_timestamp :: "iso_clock \<Rightarrow> string \<Rightarrow> int res" where
  "ap_parse_timestamp ck value =
     aware_timestamp ck GovernanceApprovalError (replace_sub ''Z'' ''+00:00'' value) value"

definition ap_require_future_expiration :: "iso_clock \<Rightarrow> string \<Rightarrow> string \<Rightarrow> unit res" where
  "ap_require_future_expiration ck expires_at now =
     bindE (ap_parse_timestamp ck expires_at) (\<lambda>e.
     bindE (ap_parse_timestamp ck now) (\<lambda>n.
     require (n < e) (ap_error ''expires_at must be in the future'')))"

definition target_for_request ::
    "string \<Rightarrow> string list \<Rightarrow> string list \<Rightarrow> string option \<Rightarrow> pydict res" where
  "target_for_request request_type action_ids policy_paths break_glass_record_id =
     (if request_type = ''rollout'' \<or> request_type = ''rollback'' then
        bindE (ap_safe_ids ''action id'' action_ids) (\<lambda>ids.
        bindE (require (ids \<noteq> []) (ap_error ''at least one action id is required'')) (\<lambda>_.
        Inr [(''action_ids'', PList (map PStr ids))]))
      else if request_type = ''policy_override'' then
        bindE (ap_policy_paths policy_paths) (\<lambda>paths.
        Inr [(''policy_paths'', PList (map PStr paths))])
      else if request_type = ''break_glass'' then
        bindE (ap_required_text (case break_glass_record_id of None \<Rightarrow> [] | Some r \<Rightarrow> r)
          ''break_glass_record_id'') (\<lambda>r.
        bindE (ap_safe_id ''break_glass_record_id'' r) (\<lambda>r.
        Inr [(''break_glass_record_id'', PStr r)]))
      else Inl (ap_error (''unsupported request_type: '' @ request_type)))"

definition ap_approval_id :: "(string \<Rightarrow> string) \<Rightarrow> pydict \<Rightarrow> string" where
  "ap_approval_id digest seed = ''governance-approval-'' @ take 16 (digest (dumps_compact (PDict seed)))"

definition already_exists :: "path \<Rightarrow> exn" where
  "already_exists p = ap_error (''approval record already exists: '' @ path_str p)"

definition write_json_new :: "path \<Rightarrow> pydict \<Rightarrow> unit ap_sem" where
  "write_json_new p payload =
     bindS getS (\<lambda>s.
       if ap_files s p \<noteq> Absent
       then raiseS (already_exists p)
       else modifyS (\<lambda>s. s\<lparr>ap_files := (ap_files s)(p := Content (PDict payload))\<rparr>))"

definition ap_append_audit :: "pydict \<Rightarrow> unit ap_sem" where
  "ap_append_audit entry = modifyS (\<lambda>s. s\<lparr>ap_audit := ap_audit s @ [entry]\<rparr>)"

record approval_request =
  ar_request_type :: string
  ar_operator :: string
  ar_reason :: string
  ar_expires_at :: string
  ar_action_ids :: "string list"
  ar_policy_paths :: "string list"
  ar_break_glass_record_id :: "string option"

text \<open>The checks before anything is written: the seed of the record, and with it the approval.\<close>

definition approval_seed :: "iso_clock \<Rightarrow> approval_request \<Rightarrow> string \<Rightarrow> pydict res" where
  "approval_seed ck r created =
     bindE (ap_request_type (ar_request_type r)) (\<lambda>request_type.
     bindE (ap_required_text (ar_operator r) ''operator'') (\<lambda>operator.
     bindE (ap_required_text (ar_reason r) ''reason'') (\<lambda>reason.
     bindE (ap_require_future_expiration ck (ar_expires_at r) created) (\<lambda>_.
     bindE (target_for_request request_type (ar_action_ids r) (ar_policy_paths r)
       (ar_break_glass_record_id r)) (\<lambda>target.
     Inr [(''approved'', PBool True), (''created_at'', PStr created),
       (''expires_at'', PStr (ar_expires_at r)), (''operator'', PStr operator), (''reason'', PStr reason),
       (''request_type'', PStr request_type), (''target'', PDict target)])))))"

definition approval_record :: "approval_store \<Rightarrow> string \<Rightarrow> pydict \<Rightarrow> pydict" where
  "approval_record s approval_id seed =
     [(''schema_version'', PInt 1), (''approval_id'', PStr approval_id)] @ seed @
     [(''requires_apply_step'', PBool True), (''changed_runtime_state'', PBool False),
      (''audit_path'', PStr (ap_audit_path s))]"

definition create_approval ::
    "iso_clock \<Rightarrow> int \<Rightarrow> (string \<Rightarrow> string) \<Rightarrow> approval_request \<Rightarrow> string option \<Rightarrow> pydict ap_sem" where
  "create_approval ck host digest r created_at =
     (let created = time_or ck host created_at in
      bindS (liftS (approval_seed ck r created)) (\<lambda>seed.
      bindS getS (\<lambda>s.
        let approval_id = ap_approval_id digest seed;
            record_path = ap_record_path s approval_id
        in seqS (write_json_new record_path (approval_record s approval_id seed))
          (seqS (ap_append_audit [(''approval_id'', PStr approval_id),
             (''event'', PStr ''governance_approval.created''), (''operator'', dget seed ''operator''),
             (''request_type'', dget seed ''request_type''), (''target'', dget seed ''target''),
             (''ts'', PStr created)])
          (returnS [(''schema_version'', PInt 1), (''approval_id'', PStr approval_id),
             (''approved'', PBool True), (''request_type'', dget seed ''request_type''),
             (''record_path'', PStr (path_str record_path)), (''audit_path'', PStr (ap_audit_path s)),
             (''requires_apply_step'', PBool True), (''changed_runtime_state'', PBool False)])))))"

section \<open>What an approval changes\<close>

lemma ap_parse_timestamp_Inl: "ap_parse_timestamp ck v = Inl e \<Longrightarrow> is_class GovernanceApprovalError e"
  unfolding ap_parse_timestamp_def by (rule aware_timestamp_Inl)

lemma target_for_request_Inl:
  "target_for_request t a p b = Inl e \<Longrightarrow> is_class GovernanceApprovalError e"
  by (auto simp: target_for_request_def monad_simps ap_safe_ids_def ap_safe_id_def ap_policy_paths_def
      ap_required_text_def ap_error_def split: if_splits
      dest!: mapE_eq_InlD dest: checked_paths_Inl required_text_Inl)

lemma approval_seed_Inl: "approval_seed ck r c = Inl e \<Longrightarrow> is_class GovernanceApprovalError e"
  by (auto simp: approval_seed_def monad_simps ap_request_type_def ap_required_text_def ap_error_def
      ap_require_future_expiration_def
      dest: required_text_Inl ap_parse_timestamp_Inl target_for_request_Inl)

lemma approval_seed_Inr:
  assumes "approval_seed ck r c = Inr seed"
  obtains e n target where "ap_parse_timestamp ck (ar_expires_at r) = Inr e" "ap_parse_timestamp ck c = Inr n"
    "n < e" "strip (ar_operator r) \<noteq> []" "strip (ar_reason r) \<noteq> []"
    "strip (ar_request_type r) \<in> set REQUEST_TYPES"
    "target_for_request (strip (ar_request_type r)) (ar_action_ids r) (ar_policy_paths r)
       (ar_break_glass_record_id r) = Inr target"
    "seed = [(''approved'', PBool True), (''created_at'', PStr c),
       (''expires_at'', PStr (ar_expires_at r)), (''operator'', PStr (strip (ar_operator r))),
       (''reason'', PStr (strip (ar_reason r))), (''request_type'', PStr (strip (ar_request_type r))),
       (''target'', PDict target)]"
  using assms
  by (auto simp: approval_seed_def monad_simps ap_request_type_def ap_required_text_def ap_error_def
      ap_require_future_expiration_def required_text_Inr)

lemma create_approval_run:
  "create_approval ck host digest r created_at s =
     (case approval_seed ck r (time_or ck host created_at) of
        Inl e \<Rightarrow> (Inl e, s)
      | Inr seed \<Rightarrow>
          let i = ap_approval_id digest seed; p = ap_record_path s i in
          if ap_files s p \<noteq> Absent then (Inl (already_exists p), s)
          else (Inr [(''schema_version'', PInt 1), (''approval_id'', PStr i), (''approved'', PBool True),
              (''request_type'', dget seed ''request_type''), (''record_path'', PStr (path_str p)),
              (''audit_path'', PStr (ap_audit_path s)), (''requires_apply_step'', PBool True),
              (''changed_runtime_state'', PBool False)],
            s\<lparr>ap_files := (ap_files s)(p := Content (PDict (approval_record s i seed))),
              ap_audit := ap_audit s @ [[(''approval_id'', PStr i),
                (''event'', PStr ''governance_approval.created''), (''operator'', dget seed ''operator''),
                (''request_type'', dget seed ''request_type''), (''target'', dget seed ''target''),
                (''ts'', PStr (time_or ck host created_at))]]\<rparr>))"
  by (simp add: create_approval_def monad_simps Let_def write_json_new_def ap_append_audit_def
      split: sum.splits)

text \<open>An approval is recorded exactly once and changes nothing else. A refused request leaves the records
  and the log as they were. A granted one writes one record to a path that held none and appends one
  audit entry with the same approval id; every earlier record stays what it was; the record names the
  operator and the reason, has an expiry after its creation, and says that no runtime state changed;
  and the same request with the same creation time is refused from then on, changing nothing.
\<close>

theorem approval_recorded_once:
  "case create_approval ck host digest r created_at s of
     (Inl err, s') \<Rightarrow> s' = s \<and> is_class GovernanceApprovalError err
   | (Inr report, s') \<Rightarrow> \<exists>p rec entry e n.
       ap_files s p = Absent \<and> ap_files s' = (ap_files s)(p := Content (PDict rec)) \<and>
       ap_audit s' = ap_audit s @ [entry] \<and> ap_state_dir s' = ap_state_dir s \<and>
       dget report ''record_path'' = PStr (path_str p) \<and>
       dget rec ''approval_id'' = dget report ''approval_id'' \<and>
       dget entry ''approval_id'' = dget report ''approval_id'' \<and>
       dget rec ''operator'' = PStr (strip (ar_operator r)) \<and> strip (ar_operator r) \<noteq> [] \<and>
       dget rec ''reason'' = PStr (strip (ar_reason r)) \<and> strip (ar_reason r) \<noteq> [] \<and>
       dget rec ''changed_runtime_state'' = PBool False \<and>
       ap_parse_timestamp ck (ar_expires_at r) = Inr e \<and>
       ap_parse_timestamp ck (time_or ck host created_at) = Inr n \<and> n < e \<and>
       (\<forall>host'. time_or ck host' created_at = time_or ck host created_at \<longrightarrow>
          create_approval ck host' digest r created_at s' =
            (Inl (already_exists p), s'))"
proof (cases "approval_seed ck r (time_or ck host created_at)")
  case (Inl e)
  then show ?thesis by (simp add: create_approval_run approval_seed_Inl)
next
  case seed: (Inr seed)
  define i where "i = ap_approval_id digest seed"
  define p where "p = ap_record_path s i"
  show ?thesis
  proof (cases "ap_files s p = Absent")
    case False
    then show ?thesis by (simp add: create_approval_run seed already_exists_def ap_error_def Let_def flip: i_def p_def)
  next
    case True
    obtain report entry s' where run: "create_approval ck host digest r created_at s = (Inr report, s')"
      and s': "s' = s\<lparr>ap_files := (ap_files s)(p := Content (PDict (approval_record s i seed))),
         ap_audit := ap_audit s @ [entry]\<rparr>"
      and ids: "dget report ''record_path'' = PStr (path_str p)" "dget report ''approval_id'' = PStr i"
        "dget entry ''approval_id'' = PStr i"
      by (simp add: create_approval_run seed Let_def True flip: i_def p_def)
    have dir: "ap_record_path s' i = p" by (simp add: s' p_def ap_record_path_def ap_dir_def)
    have again: "create_approval ck host' digest r created_at s' =
        (Inl (already_exists p), s')"
      if "time_or ck host' created_at = time_or ck host created_at" for host'
      using that seed dir by (simp add: create_approval_run Let_def flip: i_def) (simp add: s')
    show ?thesis
      using seed
    proof (cases rule: approval_seed_Inr)
      case (1 e n target)
      then have "dget (approval_record s i seed) ''operator'' = PStr (strip (ar_operator r))"
          "dget (approval_record s i seed) ''reason'' = PStr (strip (ar_reason r))"
          "dget (approval_record s i seed) ''approval_id'' = PStr i"
          "dget (approval_record s i seed) ''changed_runtime_state'' = PBool False"
        by (simp_all add: approval_record_def)
      note rec = this
      have "ap_files s' = (ap_files s)(p := Content (PDict (approval_record s i seed)))"
          "ap_audit s' = ap_audit s @ [entry]" "ap_state_dir s' = ap_state_dir s"
        by (simp_all add: s')
      with 1 rec True ids again show ?thesis
        unfolding run prod.case sum.case by (intro exI conjI allI impI) (assumption | simp)+
    qed
  qed
qed

definition approval_example :: approval_store where
  "approval_example = \<lparr>ap_state_dir = Path ''/'' [''var''], ap_files = (\<lambda>_. Absent), ap_audit = []\<rparr>"

definition rollout_request :: approval_request where
  "rollout_request = \<lparr>ar_request_type = ''rollout'', ar_operator = ''ops'', ar_reason = ''ship'',
     ar_expires_at = ''200Z'', ar_action_ids = [''a-1''], ar_policy_paths = [],
     ar_break_glass_record_id = None\<rparr>"

text \<open>The decimal clock, reading the text that \<open>replace("Z", "+00:00")\<close> leaves.\<close>

definition offset_clock :: iso_clock where
  "offset_clock = decimal_clock\<lparr>ck_fromisoformat := (\<lambda>s. case split_once ''+'' s of
     None \<Rightarrow> map_option Naive (parse_int s) | Some (a, b) \<Rightarrow> map_option Aware (parse_int a))\<rparr>"

lemma approval_recorded_once_witness:
  "let digest = (\<lambda>_. ''0123456789abcdef0'');
       (result, s') = create_approval offset_clock 0 digest rollout_request (Some ''100Z'') approval_example
   in is_result result \<and>
      fst (create_approval offset_clock 7 digest rollout_request (Some ''100Z'') s') \<noteq> result \<and>
      snd (create_approval offset_clock 7 digest rollout_request (Some ''100Z'') s') = s'"
proof -
  define digest where "digest = (\<lambda>_ :: string. ''0123456789abcdef0'')"
  let ?run = "create_approval offset_clock 0 digest rollout_request (Some ''100Z'') approval_example"
  have "is_result (fst ?run)" unfolding digest_def by code_simp
  then obtain rec s' where run: "?run = (Inr rec, s')" by (metis run_result)
  have "time_or offset_clock 7 (Some ''100Z'') = time_or offset_clock 0 (Some ''100Z'')"
    by (simp add: time_or_def)
  with approval_recorded_once [where ck = offset_clock and host = 0 and digest = digest and
      r = rollout_request and created_at = "Some ''100Z''" and s = approval_example]
  show ?thesis by (auto simp: run is_result_def Let_def simp flip: digest_def)
qed

end
