(* ===== verification/Daemon.thy ===== *)
theory Daemon
  imports Json_Rpc Catalog Hybrid_Router Daemon_Health Break_Glass
begin

text \<open>
  The daemon's requests (\<^verbatim>\<open>daemon.py\<close>, \<^verbatim>\<open>daemon_request_context.py\<close>, \<^verbatim>\<open>daemon_tool_calls.py\<close>,
  \<^verbatim>\<open>daemon_status.py\<close> and \<^verbatim>\<open>daemon_socket.py\<close>): one connection from its bytes to the response that is sent,
  over the catalog facade, the hybrid router and the upstream registry. What surrounds the process (its
  configuration, the clients, the file system, \<open>json.loads\<close>) is the record \<open>daemon_env\<close>; what
  the process changes is the record \<open>daemon\<close>.
\<close>

record 'w daemon_env =
  de_config :: "broker_config option"
  de_upstreams :: "'w upstream_env"
  de_probe :: probe_env
  de_resolve :: resolver
  de_git_at :: "path \<Rightarrow> bool option"
  de_loads :: json_loads
  de_decode :: "string \<Rightarrow> string option"
  de_pid :: int
  de_socket_path :: string

record 'w daemon =
  dm_protocol :: protocol_handler
  dm_stop_requested :: bool
  dm_requests_total :: int
  dm_request_errors_total :: int
  dm_last_request_method :: "string option"
  dm_last_request_status :: "string option"
  dm_started_at :: "string option"
  dm_break_glass :: break_glass_store
  dm_status_snapshot :: "pydict option"
  dm_meta :: meta_context
  dm_held :: "string set"
  dm_registry :: "'w registry"

text \<open>
  The parts of the state that the operations act on: the request's context with the registries
  (\<open>daemon_sem\<close>), these with the call locks, and the whole daemon.
\<close>

type_synonym ('w, 'a) call_sem = "(meta_context \<times> (string set \<times> 'w registry), exn, 'a) sem"

type_synonym ('w, 'a) request_sem = "('w daemon, exn, 'a) sem"

definition locked_call :: "('w daemon_state locked, exn, 'a) sem \<Rightarrow> ('w, 'a) call_sem" where
  "locked_call m = (\<lambda>(c, (h, s)). case m (h, (c, s)) of (r, (h', (c', s'))) \<Rightarrow> (r, (c', (h', s'))))"

definition on_calls :: "('w, 'a) call_sem \<Rightarrow> ('w, 'a) request_sem" where
  "on_calls m = (\<lambda>d. case m (dm_meta d, (dm_held d, dm_registry d)) of
     (r, (c, (h, s))) \<Rightarrow> (r, d\<lparr>dm_meta := c, dm_held := h, dm_registry := s\<rparr>))"

definition on_registry :: "('w, 'a) daemon_sem \<Rightarrow> ('w, 'a) request_sem" where
  "on_registry m = (\<lambda>d. case m (dm_meta d, dm_registry d) of
     (r, (c, s)) \<Rightarrow> (r, d\<lparr>dm_meta := c, dm_registry := s\<rparr>))"

section \<open>The context of a request\<close>

text \<open>\<open>params._meta.mcp_broker.<key>\<close>, where every level is a mapping.\<close>

definition broker_meta :: "pydict \<Rightarrow> string \<Rightarrow> pyval" where
  "broker_meta params k =
     (case dget params ''_meta'' of
        PDict m \<Rightarrow> (case dget m ''mcp_broker'' of PDict b \<Rightarrow> dget b k | _ \<Rightarrow> PNone)
      | _ \<Rightarrow> PNone)"

definition param_or_meta :: "pydict \<Rightarrow> string \<Rightarrow> string \<Rightarrow> pyval" where
  "param_or_meta params k meta_key =
     (case dget params k of PNone \<Rightarrow> broker_meta params meta_key | v \<Rightarrow> v)"

definition session_id_from_params :: "pyval \<Rightarrow> string option res" where
  "session_id_from_params params =
     (case params of
        PDict d \<Rightarrow>
          (case param_or_meta d ''broker_session_id'' ''session_id'' of
             PNone \<Rightarrow> Inr None
           | PStr (c # cs) \<Rightarrow> Inr (Some (c # cs))
           | _ \<Rightarrow> value_error ''broker_session_id must be a non-empty string'')
      | _ \<Rightarrow> Inr None)"

definition session_context_from_params :: "pyval \<Rightarrow> (string \<times> string) list res" where
  "session_context_from_params params =
     (case params of
        PDict d \<Rightarrow>
          (case param_or_meta d ''broker_client_cwd'' ''client_cwd'' of
             PNone \<Rightarrow> Inr []
           | PStr (c # cs) \<Rightarrow>
               if \<not> is_absolute (path_of (c # cs))
               then value_error ''broker_client_cwd must be an absolute path''
               else Inr [(''client_cwd'', c # cs)]
           | _ \<Rightarrow> value_error ''broker_client_cwd must be a non-empty string'')
      | _ \<Rightarrow> Inr [])"

definition profile_from_params :: "broker_config option \<Rightarrow> pyval \<Rightarrow> tool_exposure_profile option res" where
  "profile_from_params config params =
     (case params of
        PDict d \<Rightarrow>
          if dget d ''profile'' = PNone then Inr None
          else (case config of
              None \<Rightarrow> Inr None
            | Some cfg \<Rightarrow>
                (case dget d ''profile'' of
                   PStr n \<Rightarrow> (case map_of (bc_profiles cfg) n of
                       None \<Rightarrow> value_error (''unknown profile: '' @ n) | Some p \<Rightarrow> Inr (Some p))
                 | _ \<Rightarrow> value_error ''profile must be a string''))
      | _ \<Rightarrow> Inr None)"

definition effective_profile ::
    "'w daemon_env \<Rightarrow> pyval \<Rightarrow> (string \<times> string) list \<Rightarrow> tool_exposure_profile option res" where
  "effective_profile de params session_context =
     bindE (profile_from_params (de_config de) params) (\<lambda>requested.
     case de_config de of
       None \<Rightarrow> Inr requested
     | Some cfg \<Rightarrow> select_profile_for_cwd (de_resolve de) (bc_profiles cfg) requested
         (map_of session_context ''client_cwd''))"

definition effective_profile_name :: "'w daemon_env \<Rightarrow> pydict \<Rightarrow> string res" where
  "effective_profile_name de request =
     (case bindE (session_context_from_params (dget request ''params'')) (\<lambda>session_context.
          effective_profile de (dget request ''params'') session_context) of
        Inl e \<Rightarrow> if is_value_error e then Inr (health_profile request) else Inl e
      | Inr (Some p) \<Rightarrow> Inr (pf_name p)
      | Inr None \<Rightarrow> Inr (health_profile request))"

text \<open>The session, its directory and its profile, as both tool methods read them.\<close>

definition request_context ::
    "'w daemon_env \<Rightarrow> pyval \<Rightarrow>
     (string option \<times> (string \<times> string) list \<times> tool_exposure_profile option) res" where
  "request_context de params =
     bindE (session_id_from_params params) (\<lambda>session_id.
     bindE (session_context_from_params params) (\<lambda>session_context.
     bindE (effective_profile de params session_context) (\<lambda>profile.
     Inr (session_id, session_context, profile))))"

section \<open>tools/call\<close>

definition is_tool_or_value_error :: "exn \<Rightarrow> bool" where
  "is_tool_or_value_error e \<longleftrightarrow> (case e of BrokerToolError c m u t \<Rightarrow> True | _ \<Rightarrow> is_value_error e)"

text \<open>\<open>try: result = m; except <caught>: return error(code, str(e))\<close>, then \<open>return result\<close>.\<close>

definition respond ::
    "pyval \<Rightarrow> (exn \<Rightarrow> bool) \<Rightarrow> ('s, exn, pyval) sem \<Rightarrow> ('s, exn, jsonrpc_response) sem" where
  "respond request_id caught m =
     catchS (bindS m (\<lambda>v. returnS (rpc_result request_id v)))
       (\<lambda>e. if caught e then returnS (rpc_error request_id (- 32000) (exn_str e)) else raiseS e)"

definition daemon_facade ::
    "'w daemon_env \<Rightarrow> broker_config \<Rightarrow> tool_exposure_profile option \<Rightarrow> string option \<Rightarrow>
     (string \<times> string) list \<Rightarrow> 'w daemon_state catalog_facade" where
  "daemon_facade de cfg profile session_id session_context =
     \<lparr>cf_config = cfg, cf_profile = profile,
      cf_list_upstream = list_upstream (de_upstreams de) cfg session_id session_context,
      cf_call_upstream = call_upstream (de_upstreams de) cfg session_id session_context,
      cf_status_provider = (\<lambda>names. upstream_health (de_upstreams de) (de_probe de) (de_config de) (Some names)),
      cf_client_cwd = map_of session_context ''client_cwd'', cf_session_id = session_id,
      cf_session_stopper = Some (shutdown_session_upstreams (de_upstreams de)),
      cf_git_at = de_git_at de, cf_loads = de_loads de\<rparr>"

definition handle_broker_catalog_tool_call ::
    "'w daemon_env \<Rightarrow> broker_config \<Rightarrow> pyval \<Rightarrow> string \<Rightarrow> pydict \<Rightarrow> tool_exposure_profile option \<Rightarrow>
     string option \<Rightarrow> (string \<times> string) list \<Rightarrow> ('w, jsonrpc_response) call_sem" where
  "handle_broker_catalog_tool_call de cfg request_id name arguments profile session_id session_context =
     respond request_id is_tool_or_value_error
       (locked_call (facade_call_tool (daemon_facade de cfg profile session_id session_context) name arguments))"

definition daemon_core :: "broker_config \<Rightarrow> tool_exposure_profile option \<Rightarrow> broker_core" where
  "daemon_core cfg profile = \<lparr>bk_settings = bc_broker cfg, bk_upstreams = bc_upstreams cfg, bk_profile = profile\<rparr>"

text \<open>The daemon's shared worker has no tools.\<close>

definition handle_upstream_tool_call ::
    "'w daemon_env \<Rightarrow> broker_config \<Rightarrow> pyval \<Rightarrow> string \<Rightarrow> pydict \<Rightarrow> pydict \<Rightarrow>
     tool_exposure_profile option \<Rightarrow> string option \<Rightarrow> (string \<times> string) list \<Rightarrow>
     ('w, jsonrpc_response) call_sem" where
  "handle_upstream_tool_call de cfg request_id name arguments params profile session_id session_context =
     respond request_id is_tool_or_value_error
       (locked_call (hybrid_call_tool (daemon_core cfg profile) (worker_call_tool []) name
          (inject_cwd_project_arg (de_git_at de) cfg (map_of session_context ''client_cwd'') name arguments)
          (call_upstream (de_upstreams de) cfg session_id session_context)
          (routing_context_from_params params)))"

definition dispatch_tools_call ::
    "'w daemon_env \<Rightarrow> broker_config \<Rightarrow> pyval \<Rightarrow> string \<Rightarrow> pydict \<Rightarrow> pydict \<Rightarrow>
     tool_exposure_profile option \<Rightarrow> string option \<Rightarrow> (string \<times> string) list \<Rightarrow>
     ('w, jsonrpc_response) call_sem" where
  "dispatch_tools_call de cfg request_id name arguments params profile session_id session_context =
     (let canonical_name = (case profile of None \<Rightarrow> name | Some p \<Rightarrow> canonical_broker_tool_name p name) in
      if prefix ''broker.'' canonical_name
      then handle_broker_catalog_tool_call de cfg request_id name arguments profile session_id session_context
      else handle_upstream_tool_call de cfg request_id name arguments params profile session_id session_context)"

definition handle_tools_call_scoped :: "'w daemon_env \<Rightarrow> jsonrpc_request \<Rightarrow> ('w, jsonrpc_response) call_sem" where
  "handle_tools_call_scoped de request =
     (case de_config de of
        None \<Rightarrow> returnS (rpc_error (rq_id request) (- 32000) ''broker config is not loaded'')
      | Some cfg \<Rightarrow>
          (case rq_params request of
             PDict params \<Rightarrow>
               (case (dget params ''name'', dget_or params ''arguments'' (PDict [])) of
                  (PStr name, PDict arguments) \<Rightarrow>
                    (case request_context de (PDict params) of
                       Inl e \<Rightarrow> if is_value_error e
                         then returnS (rpc_error (rq_id request) (- 32602) (exn_str e)) else raiseS e
                     | Inr (session_id, session_context, profile) \<Rightarrow>
                         broker_request_metadata_scope (result_budget_metadata profile)
                           (dispatch_tools_call de cfg (rq_id request) name arguments params profile
                             session_id session_context))
                | _ \<Rightarrow> returnS (rpc_error (rq_id request) (- 32602) ''tools/call name and arguments required''))
           | _ \<Rightarrow> returnS (rpc_error (rq_id request) (- 32602) ''tools/call params must be an object'')))"

definition handle_tools_call :: "'w daemon_env \<Rightarrow> jsonrpc_request \<Rightarrow> ('w, jsonrpc_response) call_sem" where
  "handle_tools_call de request =
     catchS (request_metadata_scope (rq_params request) (handle_tools_call_scoped de request))
       (\<lambda>e. if is_value_error e then returnS (rpc_error (rq_id request) (- 32602) (exn_str e)) else raiseS e)"

section \<open>tools/list\<close>

definition tools_list_error :: "exn \<Rightarrow> bool" where
  "tools_list_error e \<longleftrightarrow> is_tool_or_value_error e \<or> is_stdio_error e \<or>
     is_class HttpUpstreamError e \<or> is_class HttpUpstreamTimeout e"

fun listed_upstreams ::
    "'w upstream_env \<Rightarrow> broker_config \<Rightarrow> tool_exposure_profile option \<Rightarrow> string option \<Rightarrow>
     (string \<times> string) list \<Rightarrow> upstreams \<Rightarrow> ('w, (string \<times> pydict list) list) daemon_sem" where
  "listed_upstreams env cfg profile session_id session_context [] = returnS []"
| "listed_upstreams env cfg profile session_id session_context ((name, u) # ups) =
     (if upstream_disabled u \<or> \<not> profile_allows_upstream profile u
      then listed_upstreams env cfg profile session_id session_context ups
      else if up_mutating u \<and> (case profile of None \<Rightarrow> False | Some p \<Rightarrow> \<not> allows_mutating_upstream p name)
      then raiseS (Exn ValueError (''mutating upstream not allowed for profile: '' @ name))
      else bindS (list_upstream env cfg session_id session_context name (call_timeout_seconds (up_health u)))
        (\<lambda>tools. bindS (listed_upstreams env cfg profile session_id session_context ups)
          (\<lambda>rest. returnS ((name, tools) # rest))))"

definition tools_payload :: "pydict list \<Rightarrow> pyval" where
  "tools_payload tools = PDict [(''tools'', PList (map PDict tools))]"

definition handle_tools_list :: "'w daemon_env \<Rightarrow> jsonrpc_request \<Rightarrow> ('w, jsonrpc_response) daemon_sem" where
  "handle_tools_list de request =
     (case de_config de of
        None \<Rightarrow> returnS (rpc_error (rq_id request) (- 32000) ''broker config is not loaded'')
      | Some cfg \<Rightarrow>
          (case request_context de (rq_params request) of
             Inl e \<Rightarrow> if is_value_error e
               then returnS (rpc_error (rq_id request) (- 32602) (exn_str e)) else raiseS e
           | Inr (session_id, session_context, profile) \<Rightarrow>
               if (case profile of None \<Rightarrow> False | Some p \<Rightarrow> pf_compact_tools_enabled p)
               then bindS (liftS (compact_tools (daemon_core cfg profile)))
                 (\<lambda>tools. returnS (rpc_result (rq_id request) (tools_payload tools)))
               else respond (rq_id request) tools_list_error
                 (bindS (listed_upstreams (de_upstreams de) cfg profile session_id session_context
                    (bc_upstreams cfg)) (\<lambda>upstream_tools.
                  liftS (bindE (list_tools (daemon_core cfg profile) upstream_tools)
                    (\<lambda>tools. Inr (tools_payload tools)))))))"

section \<open>Requests\<close>

definition handle_protocol :: "jsonrpc_request \<Rightarrow> ('w, jsonrpc_response option) request_sem" where
  "handle_protocol request = (\<lambda>d. case protocol_handle request (dm_protocol d) of
     (r, h) \<Rightarrow> (Inr r, d\<lparr>dm_protocol := h\<rparr>))"

definition handle_jsonrpc_request :: "'w daemon_env \<Rightarrow> pydict \<Rightarrow> ('w, pydict option) request_sem" where
  "handle_jsonrpc_request de request =
     (case request_from_mapping (PDict request) of
        Inl e \<Rightarrow> if is_value_error e
          then returnS (Some (response_to_mapping (rpc_error PNone (- 32600) (exn_str e)))) else raiseS e
      | Inr parsed \<Rightarrow>
          if rq_method parsed = ''tools/list'' then
            bindS getS (\<lambda>d.
              if \<not> ph_initialize_seen (dm_protocol d)
              then returnS (Some (response_to_mapping
                (rpc_error (rq_id parsed) (- 32002) ''Server not initialized'')))
              else bindS (on_registry (handle_tools_list de parsed)) (\<lambda>r.
                returnS (Some (response_to_mapping r))))
          else if rq_method parsed = ''tools/call'' then
            bindS (on_calls (handle_tools_call de parsed)) (\<lambda>r. returnS (Some (response_to_mapping r)))
          else bindS (handle_protocol parsed) (\<lambda>response.
            returnS (map_option response_to_mapping response)))"

definition health_result :: "'w daemon_env \<Rightarrow> pydict \<Rightarrow> ('w, pydict) request_sem" where
  "health_result de request =
     bindS (on_registry (upstream_health (de_upstreams de) (de_probe de) (de_config de) None)) (\<lambda>upstreams.
     bindS (liftS (effective_profile_name de request)) (\<lambda>profile.
     returnS [(''pid'', PInt (de_pid de)), (''socket_path'', PStr (de_socket_path de)),
       (''status'', PStr (health_status upstreams)), (''profile'', PStr profile),
       (''upstreams'', PDict (map (\<lambda>(n, u). (n, PDict u)) upstreams))]))"

definition broker_reply :: "pyval \<Rightarrow> pydict \<Rightarrow> pydict" where
  "broker_reply request_id result = [(''id'', request_id), (''result'', PDict result)]"

definition invalid_params_reply :: "pyval \<Rightarrow> string \<Rightarrow> pydict" where
  "invalid_params_reply request_id message = [(''id'', request_id),
     (''error'', PDict [(''code'', PStr ''invalid_params''), (''message'', PStr message)])]"

definition handle_request :: "'w daemon_env \<Rightarrow> pyval \<Rightarrow> ('w, pydict option) request_sem" where
  "handle_request de v =
     (case v of
        PDict request \<Rightarrow>
          (let request_id = dget request ''id''; method = dget request ''method'' in
           if method = PStr ''broker/health'' then
             bindS (health_result de request) (\<lambda>r. returnS (Some (broker_reply request_id r)))
           else if method = PStr ''broker/stop'' then
             seqS (modifyS (\<lambda>d. d\<lparr>dm_stop_requested := True\<rparr>))
             (bindS (on_registry (shutdown_upstreams (de_upstreams de))) (\<lambda>r.
              returnS (Some (broker_reply request_id ((''stopping'', PBool True) # r)))))
           else if method = PStr ''broker/session/stop'' then
             (case session_id_from_params (dget request ''params'') of
                Inl e \<Rightarrow> if is_value_error e
                  then returnS (Some (invalid_params_reply request_id (exn_str e))) else raiseS e
              | Inr None \<Rightarrow> returnS (Some (invalid_params_reply request_id ''broker_session_id is required''))
              | Inr (Some session_id) \<Rightarrow>
                  bindS (on_registry (shutdown_session_upstreams (de_upstreams de) session_id)) (\<lambda>r.
                  returnS (Some (broker_reply request_id r))))
           else if dget request ''jsonrpc'' = PStr ''2.0'' then handle_jsonrpc_request de request
           else returnS (Some [(''id'', request_id), (''error'', PDict [(''code'', PStr ''unknown_method'')])]))
      | _ \<Rightarrow> raiseS (Exn AttributeError
          (CHR 0x27 # type_name v @ CHR 0x27 # '' object has no attribute '' @ repr_str ''get'')))"

section \<open>Log, counters and the status snapshot\<close>

text \<open>The record of one log line, and the entry of a handled request.\<close>

definition log_record :: "'w daemon_env \<Rightarrow> string \<Rightarrow> string option \<Rightarrow> pydict \<Rightarrow> pydict" where
  "log_record de event level details =
     fold (\<lambda>(k, v). AList.update k (redact_log_field k v)) details
       [(''event'', PStr event), (''level'', PStr (case level of None \<Rightarrow> ''info'' | Some l \<Rightarrow> l)),
        (''pid'', PInt (de_pid de)), (''ts'', PStr (iso_z (pe_clock (de_probe de)) (pe_now (de_probe de))))]"

definition write_log :: "'w daemon_env \<Rightarrow> string \<Rightarrow> pydict \<Rightarrow> ('w, unit) request_sem" where
  "write_log de event details = on_registry (on_world (ue_write_log (de_upstreams de) event details))"

definition identity_payload :: "'w daemon_env \<Rightarrow> pydict" where
  "identity_payload de =
     (case de_config de of
        None \<Rightarrow> identity_status_payload \<lparr>id_broker_id = ''mcp-broker-local'', id_environment = ''local'',
            id_bundle_version = ''unbundled''\<rparr> PNone []
      | Some cfg \<Rightarrow> config_identity_status_payload cfg PNone)"

definition opt_str :: "string option \<Rightarrow> pyval" where
  "opt_str v = (case v of None \<Rightarrow> PNone | Some s \<Rightarrow> PStr s)"

definition write_status_snapshot :: "'w daemon_env \<Rightarrow> string \<Rightarrow> ('w, unit) request_sem" where
  "write_status_snapshot de status =
     bindS getS (\<lambda>d.
     bindS (liftS (bg_status (pe_clock (de_probe de)) (pe_now (de_probe de)) None (dm_break_glass d)))
       (\<lambda>break_glass.
     bindS (on_registry (upstream_health (de_upstreams de) (de_probe de) (de_config de) (Some []))) (\<lambda>health.
     modifyS (\<lambda>d. d\<lparr>dm_status_snapshot := Some
       [(''break_glass'', PDict break_glass),
        (''identity'', PDict (identity_payload de)),
        (''last_request_method'', opt_str (dm_last_request_method d)),
        (''last_request_status'', opt_str (dm_last_request_status d)),
        (''pid'', PInt (de_pid de)),
        (''request_errors_total'', PInt (dm_request_errors_total d)),
        (''requests_total'', PInt (dm_requests_total d)),
        (''socket_path'', PStr (de_socket_path de)),
        (''started_at'', opt_str (dm_started_at d)),
        (''status'', PStr (if truthy (dget break_glass ''degraded'') then ''degraded'' else status)),
        (''updated_at'', PStr (iso_z (pe_clock (de_probe de)) (pe_now (de_probe de)))),
        (''upstreams'', PDict (map (\<lambda>(n, u). (n, PDict u)) health))]\<rparr>))))"

definition response_status :: "pydict option \<Rightarrow> string" where
  "response_status response = (case response of
     None \<Rightarrow> ''notification'' | Some r \<Rightarrow> if dhas r ''error'' then ''error'' else ''ok'')"

definition count_request :: "pyval \<Rightarrow> pydict option \<Rightarrow> 'w daemon \<Rightarrow> 'w daemon" where
  "count_request method response d =
     d\<lparr>dm_requests_total := dm_requests_total d + 1,
       dm_request_errors_total := dm_request_errors_total d +
         (if response_status response = ''error'' then 1 else 0),
       dm_last_request_method := (case method of PStr m \<Rightarrow> Some m | _ \<Rightarrow> None),
       dm_last_request_status := Some (response_status response)\<rparr>"

definition write_request_log ::
    "'w daemon_env \<Rightarrow> pyval \<Rightarrow> pyval \<Rightarrow> pydict option \<Rightarrow> ('w, unit) request_sem" where
  "write_request_log de request_id method response =
     seqS (modifyS (count_request method response))
     (seqS (write_log de ''request.handled''
        [(''method'', case method of PStr m \<Rightarrow> PStr m | _ \<Rightarrow> PNone),
         (''request_id'', case request_id of PList _ \<Rightarrow> PNone | PDict _ \<Rightarrow> PNone | v \<Rightarrow> v),
         (''status'', PStr (response_status response))])
      (write_status_snapshot de ''running''))"

definition write_request_log_safely ::
    "'w daemon_env \<Rightarrow> pyval \<Rightarrow> pyval \<Rightarrow> pydict option \<Rightarrow> ('w, unit) request_sem" where
  "write_request_log_safely de request_id method response =
     catchS (write_request_log de request_id method response)
       (\<lambda>e. write_log de ''request.log_failed'' [(''level'', PStr ''error''), (''error'', PStr (exn_str e))])"

section \<open>A connection\<close>

text \<open>The state of a connection: the daemon and what has been sent to the peer.\<close>

type_synonym ('w, 'a) connection_sem = "('w daemon \<times> pydict list, exn, 'a) sem"

definition on_daemon :: "('w, 'a) request_sem \<Rightarrow> ('w, 'a) connection_sem" where
  "on_daemon m = (\<lambda>(d, sent). case m d of (r, d') \<Rightarrow> (r, (d', sent)))"

definition send_response :: "pydict \<Rightarrow> ('w, unit) connection_sem" where
  "send_response response = modifyS (\<lambda>(d, sent). (d, sent @ [response]))"

definition socket_max_request_bytes :: "'w daemon_env \<Rightarrow> int" where
  "socket_max_request_bytes de = (case de_config de of
     None \<Rightarrow> 16777216 | Some cfg \<Rightarrow> bs_socket_max_request_bytes (bc_broker cfg))"

definition refuse :: "'w daemon_env \<Rightarrow> int \<Rightarrow> string \<Rightarrow> ('w, unit) connection_sem" where
  "refuse de rpc_code message =
     (let response = response_to_mapping (rpc_error PNone rpc_code message) in
      seqS (send_response response) (on_daemon (write_request_log_safely de PNone PNone (Some response))))"

definition handle_connection :: "'w daemon_env \<Rightarrow> recv list \<Rightarrow> ('w, unit) connection_sem" where
  "handle_connection de events =
     (case read_request (socket_max_request_bytes de) events of
        Inl e \<Rightarrow> if is_class TimeoutError e then returnS ()
          else if is_class BrokerRequestTooLarge e then refuse de (- 32600) (exn_str e)
          else raiseS e
      | Inr raw \<Rightarrow>
          if raw = [] then returnS ()
          else (case de_decode de raw of
              None \<Rightarrow> raiseS (Exn ValueError ''invalid utf-8'')
            | Some t \<Rightarrow>
                (case de_loads de (strip t) of
                   None \<Rightarrow> refuse de (- 32700) ''Parse error''
                 | Some v \<Rightarrow>
                     bindS (on_daemon (handle_request de v)) (\<lambda>response.
                     seqS (case response of None \<Rightarrow> returnS () | Some r \<Rightarrow> send_response r)
                     (let request = (case v of PDict d \<Rightarrow> d | _ \<Rightarrow> []) in
                      on_daemon (write_request_log_safely de (dget request ''id'') (dget request ''method'')
                        response))))))"

end
