(* ===== verification/Daemon_Facts.thy ===== *)
theory Daemon_Facts
  imports Daemon Upstream_Facts
begin

text \<open>
  What the daemon keeps while it handles requests. The operations of the registries are an interface
  of the requests: the laws below say what each of them keeps, and every request, in whatever order
  and with whatever outcome, then keeps it too. The responses are JSON-RPC, a refused call has no
  effect, and nothing of one request is left for the next.
\<close>

section \<open>The request context and the registries\<close>

text \<open>
  The client methods read the context variables of the request and do not set them.
\<close>

definition keeps_meta :: "(meta_context \<times> 'w, exn, 'a) sem \<Rightarrow> bool" where
  "keeps_meta m \<longleftrightarrow> (\<forall>c w. fst (snd (m (c, w))) = c)"

definition tidy_env :: "'w upstream_env \<Rightarrow> bool" where
  "tidy_env env \<longleftrightarrow>
     (\<forall>u ctx n. keeps_meta (ue_create_stdio env u ctx n)) \<and>
     (\<forall>h tool args t. keeps_meta (ue_stdio_call env h tool args t)) \<and>
     (\<forall>h t. keeps_meta (ue_stdio_list env h t)) \<and> (\<forall>h. keeps_meta (ue_stdio_stop env h)) \<and>
     (\<forall>h. keeps_meta (ue_stdio_health env h)) \<and> (\<forall>h. keeps_meta (ue_stdio_ensure_running env h)) \<and>
     (\<forall>u. keeps_meta (ue_create_http env u)) \<and> (\<forall>h tool args t. keeps_meta (ue_http_call env h tool args t)) \<and>
     (\<forall>h t. keeps_meta (ue_http_list env h t)) \<and> (\<forall>h. keeps_meta (ue_http_health env h)) \<and>
     (\<forall>e d. keeps_meta (ue_write_log env e d)) \<and> keeps_meta (ue_call_id env)"

abbreviation in_meta :: "meta_context \<Rightarrow> 'w daemon_state \<Rightarrow> bool" where
  "in_meta c0 \<equiv> (\<lambda>(c, s). c = c0)"

lemma meta_world: "keeps_meta m \<Longrightarrow> preserves (in_meta c) (on_world m)"
  by (simp add: preserves_def on_world_def keeps_meta_def split_def)

lemma meta_put [simp]: "preserves (in_meta c) (reg_put f)"
  by (simp add: preserves_def reg_put_def split_def)

lemma tidy_envD: "tidy_env env \<Longrightarrow> keeps_meta (ue_create_stdio env u ctx n)"
  "tidy_env env \<Longrightarrow> keeps_meta (ue_stdio_call env h tool args t)"
  "tidy_env env \<Longrightarrow> keeps_meta (ue_stdio_list env h t)"
  "tidy_env env \<Longrightarrow> keeps_meta (ue_stdio_stop env h)"
  "tidy_env env \<Longrightarrow> keeps_meta (ue_stdio_health env h)"
  "tidy_env env \<Longrightarrow> keeps_meta (ue_stdio_ensure_running env h)"
  "tidy_env env \<Longrightarrow> keeps_meta (ue_create_http env u)"
  "tidy_env env \<Longrightarrow> keeps_meta (ue_http_call env h tool args t)"
  "tidy_env env \<Longrightarrow> keeps_meta (ue_http_list env h t)"
  "tidy_env env \<Longrightarrow> keeps_meta (ue_http_health env h)"
  "tidy_env env \<Longrightarrow> keeps_meta (ue_write_log env e d)"
  "tidy_env env \<Longrightarrow> keeps_meta (ue_call_id env)"
  by (simp_all add: tidy_env_def)

lemmas meta_intros = preserves_intros meta_world [OF tidy_envD(1)] meta_world [OF tidy_envD(2)]
  meta_world [OF tidy_envD(3)] meta_world [OF tidy_envD(4)] meta_world [OF tidy_envD(5)]
  meta_world [OF tidy_envD(6)] meta_world [OF tidy_envD(7)] meta_world [OF tidy_envD(8)]
  meta_world [OF tidy_envD(9)] meta_world [OF tidy_envD(10)] meta_world [OF tidy_envD(11)]
  meta_world [OF tidy_envD(12)] meta_put

lemma record_repair_meta:
  "preserves (in_meta c) (record_auth_repair_attempt n)"
  "preserves (in_meta c) (record_auth_repair_success n)"
  "preserves (in_meta c) (record_auth_repair_failure n)"
  unfolding record_auth_repair_attempt_def record_auth_repair_success_def
    record_auth_repair_failure_def record_repair_def
  by (intro preserves_intros meta_put)+

lemma repaired_call_meta:
  "tidy_env env \<Longrightarrow> preserves (in_meta c) (call_stdio_client_or_repair env cfg h n tool args t)"
  unfolding call_stdio_client_or_repair_def by (intro meta_intros record_repair_meta)

lemma clients_meta:
  "tidy_env env \<Longrightarrow> preserves (in_meta c) (stdio_client env cfg n sid ctx)"
  "tidy_env env \<Longrightarrow> preserves (in_meta c) (http_client env cfg n)"
  "tidy_env env \<Longrightarrow> preserves (in_meta c) (write_upstream_event env e n d)"
  unfolding stdio_client_def http_client_def write_upstream_event_def by (intro meta_intros; assumption)+

lemma with_per_call_client_meta:
  assumes "tidy_env env" "\<And>h. preserves (in_meta c) (body h)"
  shows "preserves (in_meta c) (with_per_call_client env cfg n ctx body)"
  unfolding with_per_call_client_def per_call_stdio_client_def stop_per_call_stdio_client_def Let_def
  by (intro meta_intros clients_meta assms)

lemma stop_clients_meta: "tidy_env env \<Longrightarrow> preserves (in_meta c) (stop_clients env cs)"
  by (induction env cs rule: stop_clients.induct) (auto intro!: meta_intros)

lemma operations_meta:
  assumes "tidy_env env"
  shows "preserves (in_meta c) (call_upstream env cfg sid ctx n tool args t)"
    "preserves (in_meta c) (list_upstream env cfg sid ctx n t)"
    "preserves (in_meta c) (shutdown_upstreams env)"
    "preserves (in_meta c) (shutdown_session_upstreams env session)"
  unfolding call_upstream_def call_http_upstream_def call_stdio_upstream_def
    call_stdio_upstream_or_repair_def list_upstream_def list_stdio_upstream_def
    shutdown_upstreams_def shutdown_session_upstreams_def
  by (intro meta_intros clients_meta repaired_call_meta with_per_call_client_meta stop_clients_meta assms)+

lemma per_session_health_triple:
  "(\<And>h. preserves I (on_world (ue_stdio_health env h))) \<Longrightarrow> preserves I (client_snapshots env cs)"
  by (induction env cs rule: client_snapshots.induct) (auto intro!: preserves_intros)

text \<open>The health report runs the clients' own reports, and may restart a shared client.\<close>

lemma upstream_health_preserves:
  assumes "\<And>h. preserves I (on_world (ue_stdio_health env h))"
    and "\<And>h. preserves I (on_world (ue_stdio_ensure_running env h))"
    and "\<And>h. preserves I (on_world (ue_http_health env h))"
    and "\<And>e d. preserves I (on_world (ue_write_log env e d))"
  shows "preserves I (upstream_health env pe config names)"
proof -
  have one: "preserves I (one_upstream_health env names stdio calls n u)" for stdio calls n u
    unfolding one_upstream_health_def shared_stdio_health_snapshot_def per_session_health_snapshot_def
      write_upstream_event_def Let_def
    by (intro preserves_intros per_session_health_triple assms)
  have "preserves I (upstream_health_with_auth pe cfg n d)" for cfg n d
    unfolding upstream_health_with_auth_def by (intro preserves_intros)
  with one have "preserves I (health_of env pe cfg names stdio calls ups)" for cfg stdio calls ups
    by (induction env pe cfg names stdio calls ups rule: health_of.induct) (auto intro!: preserves_intros)
  then show ?thesis unfolding upstream_health_def by (intro preserves_intros)
qed

section \<open>Every request keeps what the registry operations keep\<close>

text \<open>
  The interface: \<open>kept c\<close> holds of the registries, in a context that is \<open>c\<close> if \<open>tidy\<close> holds.
\<close>

definition kept :: "bool \<Rightarrow> ('w registry \<Rightarrow> bool) \<Rightarrow> meta_context \<Rightarrow> 'w daemon_state \<Rightarrow> bool" where
  "kept tidy Q c0 = (\<lambda>(c, s). (tidy \<longrightarrow> c = c0) \<and> Q s)"

definition kept_locked ::
    "bool \<Rightarrow> ('w registry \<Rightarrow> bool) \<Rightarrow> meta_context \<Rightarrow> string set \<Rightarrow> meta_context \<times> (string set \<times> 'w registry) \<Rightarrow> bool" where
  "kept_locked tidy Q c0 h0 = (\<lambda>(c, (h, s)). h = h0 \<and> kept tidy Q c0 (c, s))"

text \<open>For the whole daemon, the predicate on the registries depends on the stop flag.\<close>

definition kept_daemon ::
    "bool \<Rightarrow> (bool \<Rightarrow> 'w registry \<Rightarrow> bool) \<Rightarrow> meta_context \<Rightarrow> string set \<Rightarrow> 'w daemon \<Rightarrow> bool" where
  "kept_daemon tidy Q c h d \<longleftrightarrow>
     kept_locked tidy (Q (dm_stop_requested d)) c h (dm_meta d, (dm_held d, dm_registry d))"

text \<open>No lock is held between requests; a call holds the one of its upstream while it runs.\<close>

abbreviation unlocked :: "('s \<Rightarrow> bool) \<Rightarrow> 's locked \<Rightarrow> bool" where
  "unlocked I \<equiv> (\<lambda>(h, st). h = {} \<and> I st)"

lemma lift_caller_unlocked: "preserves I m \<Longrightarrow> preserves (unlocked I) (lift_caller m)"
  by (force simp: preserves_def lift_caller_def split: prod.splits)

lemma with_lock_unlocked: "preserves I m \<Longrightarrow> preserves (unlocked I) (with_lock n (lift_caller m))"
  by (force simp: preserves_def with_lock_def lift_caller_def split: prod.splits)

lemma call_resolved_tool_preserves:
  "(\<And>n tool args t. preserves I (caller n tool args t)) \<Longrightarrow> preserves I (call_resolved_tool u tool d caller)"
  unfolding call_resolved_tool_def by (intro preserves_intros)

lemma call_tool_unlocked:
  assumes "\<And>n tool args t. preserves I (caller n tool args t)"
  shows "preserves (unlocked I) (call_tool core name arguments caller)"
proof -
  have "preserves (unlocked I) (call_tool core name (PDict d) caller)" for d
    unfolding call_tool_def pyval.case
    by (intro preserves_intros lift_caller_unlocked with_lock_unlocked call_resolved_tool_preserves assms)
  then show ?thesis by (cases arguments) (simp_all add: call_tool_def)
qed

lemma hybrid_call_tool_unlocked:
  assumes "\<And>n tool args t. preserves I (edge n tool args t)"
  shows "preserves (unlocked I) (hybrid_call_tool core worker name arguments edge ctx)"
  unfolding hybrid_call_tool_def by (intro preserves_intros call_tool_unlocked assms)

lemma collect_entries_preserves:
  "(\<And>n t. preserves I (cf_list_upstream f n t)) \<Longrightarrow> preserves I (collect_entries f ups)"
  by (induction f ups rule: collect_entries.induct) (auto intro!: preserves_intros)

text \<open>The facade keeps what its callables keep.\<close>

lemma facade_unlocked:
  assumes "\<And>n t. preserves I (cf_list_upstream f n t)" "\<And>n tool args t. preserves I (cf_call_upstream f n tool args t)"
    "\<And>names. preserves I (cf_status_provider f names)" "\<And>stop sid. cf_session_stopper f = Some stop \<Longrightarrow> preserves I (stop sid)"
  shows "preserves (unlocked I) (facade_call_tool f name arguments)"
proof -
  have entries: "preserves I (catalog_entries f q t)" for q t
    unfolding catalog_entries_def by (intro preserves_intros collect_entries_preserves assms)
  have "preserves I (search_tools f arguments)"
    unfolding search_tools_def Let_def by (intro preserves_intros entries)
  moreover have "preserves I (describe_tool f arguments)"
    unfolding describe_tool_def by (cases "dget arguments ''name''") (auto intro!: preserves_intros entries)
  moreover have "preserves I (facade_status f arguments)"
    unfolding facade_status_def Let_def by (intro preserves_intros assms)
  moreover have "preserves I (close_session f arguments)"
    unfolding close_session_def
    by (cases "cf_session_id f"; cases "cf_session_stopper f") (auto intro!: preserves_bind intro: assms(4))
  moreover have "preserves (unlocked I) (call_managed_tool f arguments)"
  proof -
    note call = call_tool_unlocked [OF assms(2), where core = "facade_core f"]
    have "preserves (unlocked I) (case r of
        PDict response \<Rightarrow> liftS (map_sum id PDict (apply_projection (cf_loads f) response p)) | _ \<Rightarrow> returnS r)" for r p
      by (cases r) auto
    then show ?thesis
      unfolding call_managed_tool_def
      by (cases "dget arguments ''name''"; cases "dget_or arguments ''arguments'' (PDict [])";
          cases "dget arguments ''projection''") (simp_all add: call preserves_bind)
  qed
  ultimately show ?thesis
    unfolding facade_call_tool_def Let_def
    by (intro preserves_intros lift_caller_unlocked)
qed

lemma respond_preserves: "preserves I m \<Longrightarrow> preserves I (respond i caught m)"
  unfolding respond_def by (intro preserves_intros)

lemma kept_scope:
  "kept_locked tidy Q c0 h (c, st) \<Longrightarrow> kept_locked tidy Q (c\<lparr>mc_current := d\<rparr>) h (c\<lparr>mc_current := d\<rparr>, st)"
  "kept_locked tidy Q c0 h (c, st) \<Longrightarrow> kept_locked tidy Q (c\<lparr>mc_broker := d\<rparr>) h (c\<lparr>mc_broker := d\<rparr>, st)"
  by (auto simp: kept_locked_def kept_def)

text \<open>A scope sets a context variable and restores it, so what holds around it is kept.\<close>

lemma request_scope_kept:
  assumes "\<And>c. preserves (kept_locked tidy Q c h) m"
  shows "preserves (kept_locked tidy Q c0 h) (request_metadata_scope params m)"
proof (rule preservesI)
  fix st
  assume I: "kept_locked tidy Q c0 h st"
  obtain c x where st: "st = (c, x)" by (cases st)
  show "kept_locked tidy Q c0 h (snd (request_metadata_scope params m st))"
  proof (cases "case params of PDict d \<Rightarrow> dget_or d ''_meta'' (PDict []) | _ \<Rightarrow> PDict []")
    case (PDict d)
    obtain r c1 x1 where m: "m (c\<lparr>mc_current := d\<rparr>, x) = (r, (c1, x1))" by (metis prod.exhaust)
    have "kept_locked tidy Q (c\<lparr>mc_current := d\<rparr>) h (c1, x1)"
      using preservesD [OF assms kept_scope(1) [OF I [unfolded st]]] m by (metis snd_conv)
    moreover have "request_metadata_scope params m st = (r, (c1\<lparr>mc_current := mc_current c\<rparr>, x1))"
      by (simp add: request_metadata_scope_def PDict st m)
    ultimately show ?thesis
      using I by (auto simp: st kept_locked_def kept_def)
  qed (use I in \<open>simp_all add: request_metadata_scope_def Let_def raiseS_def\<close>)
qed

lemma broker_scope_kept:
  assumes "\<And>c. preserves (kept_locked tidy Q c h) m"
  shows "preserves (kept_locked tidy Q c0 h) (broker_request_metadata_scope d m)"
proof (rule preservesI)
  fix st
  assume I: "kept_locked tidy Q c0 h st"
  obtain c x where st: "st = (c, x)" by (cases st)
  obtain r c1 x1 where m: "m (c\<lparr>mc_broker := d\<rparr>, x) = (r, (c1, x1))" by (metis prod.exhaust)
  have "kept_locked tidy Q (c\<lparr>mc_broker := d\<rparr>) h (c1, x1)"
    using preservesD [OF assms kept_scope(2) [OF I [unfolded st]]] m by (metis snd_conv)
  moreover have "broker_request_metadata_scope d m st = (r, (c1\<lparr>mc_broker := mc_broker c\<rparr>, x1))"
    by (simp add: broker_request_metadata_scope_def st m)
  ultimately show "kept_locked tidy Q c0 h (snd (broker_request_metadata_scope d m st))"
    using I by (auto simp: st kept_locked_def kept_def)
qed

lemma locked_call_kept:
  "preserves (unlocked (kept tidy Q c)) m \<Longrightarrow> preserves (kept_locked tidy Q c {}) (locked_call m)"
  by (force simp: preserves_def locked_call_def kept_locked_def split: prod.splits)

lemma on_calls_kept:
  "(\<And>b. preserves (kept_locked tidy (Q b) c h) m) \<Longrightarrow> preserves (kept_daemon tidy Q c h) (on_calls m)"
  by (force simp: preserves_def on_calls_def kept_daemon_def split: prod.splits)

lemma on_registry_kept:
  "(\<And>b. preserves (kept tidy (Q b) c) m) \<Longrightarrow> preserves (kept_daemon tidy Q c h) (on_registry m)"
  by (force simp: preserves_def on_registry_def kept_daemon_def kept_locked_def split: prod.splits)

locale daemon_registry =
  fixes de :: "'w daemon_env" and tidy :: bool and Q :: "bool \<Rightarrow> 'w registry \<Rightarrow> bool"
  assumes call_keeps: "de_config de = Some cfg \<Longrightarrow>
      preserves (kept tidy (Q b) c) (call_upstream (de_upstreams de) cfg sid ctx n tool args t)"
    and list_keeps: "de_config de = Some cfg \<Longrightarrow>
      preserves (kept tidy (Q b) c) (list_upstream (de_upstreams de) cfg sid ctx n t)"
    and health_keeps: "preserves (kept tidy (Q b) c) (upstream_health (de_upstreams de) (de_probe de) (de_config de) names)"
    and session_keeps: "preserves (kept tidy (Q b) c) (shutdown_session_upstreams (de_upstreams de) session)"
    and stop_keeps: "kept tidy (Q b) c st \<Longrightarrow> kept tidy (Q True) c (snd (shutdown_upstreams (de_upstreams de) st))"
    and log_keeps: "preserves (kept tidy (Q b) c) (on_world (ue_write_log (de_upstreams de) event details))"
begin

lemma tools_call_keeps:
  assumes "de_config de = Some cfg"
  shows "preserves (kept_locked tidy (Q b) c {})
    (dispatch_tools_call de cfg request_id name arguments params profile sid ctx)"
proof -
  have health: "preserves (kept tidy (Q b) c) (upstream_health (de_upstreams de) (de_probe de) (Some cfg) names)" for names
    using health_keeps [of b c names] assms by simp
  have "preserves (kept_locked tidy (Q b) c {})
      (handle_broker_catalog_tool_call de cfg request_id name arguments profile sid ctx)"
    unfolding handle_broker_catalog_tool_call_def
    by (intro respond_preserves locked_call_kept facade_unlocked)
      (auto simp: daemon_facade_def assms intro: call_keeps list_keeps health session_keeps)
  moreover have "preserves (kept_locked tidy (Q b) c {})
      (handle_upstream_tool_call de cfg request_id name arguments params profile sid ctx)"
    unfolding handle_upstream_tool_call_def
    by (intro respond_preserves locked_call_kept hybrid_call_tool_unlocked call_keeps assms)
  ultimately show ?thesis unfolding dispatch_tools_call_def Let_def by (intro preserves_if)
qed

lemma handle_tools_call_keeps: "preserves (kept_locked tidy (Q b) c {}) (handle_tools_call de request)"
proof -
  have "preserves (kept_locked tidy (Q b) c {}) (handle_tools_call_scoped de request)" for c
    unfolding handle_tools_call_scoped_def
    by (auto split: option.split pyval.split sum.split prod.split
        intro!: broker_scope_kept tools_call_keeps)
  then show ?thesis
    unfolding handle_tools_call_def by (intro preserves_intros request_scope_kept)
qed

lemma handle_tools_list_keeps: "preserves (kept tidy (Q b) c) (handle_tools_list de request)"
proof -
  have "preserves (kept tidy (Q b) c) (listed_upstreams (de_upstreams de) cfg profile sid ctx ups)"
    if "de_config de = Some cfg" for cfg profile sid ctx ups
    by (induction ups)
      (auto intro!: preserves_intros list_keeps that)
  then show ?thesis
    unfolding handle_tools_list_def
    by (auto split: option.split sum.split prod.split intro!: preserves_intros respond_preserves)
qed

lemma handle_protocol_keeps: "preserves (kept_daemon tidy Q c h) (handle_protocol request)"
  by (simp add: preserves_def handle_protocol_def kept_daemon_def split_def)

lemma handle_jsonrpc_request_keeps: "preserves (kept_daemon tidy Q c {}) (handle_jsonrpc_request de request)"
  unfolding handle_jsonrpc_request_def
  by (auto split: sum.split intro!: preserves_intros on_registry_kept on_calls_kept handle_tools_list_keeps
      handle_tools_call_keeps handle_protocol_keeps)

lemma broker_stop_keeps:
  "preserves (kept_daemon tidy Q c {}) (seqS (modifyS (\<lambda>d. d\<lparr>dm_stop_requested := True\<rparr>))
     (bindS (on_registry (shutdown_upstreams (de_upstreams de))) f))"
  if "\<And>r. preserves (kept_daemon tidy Q c {}) (f r)"
proof (rule preservesI)
  fix d
  assume I: "kept_daemon tidy Q c {} d"
  let ?d = "d\<lparr>dm_stop_requested := True\<rparr>"
  obtain r m s where run: "shutdown_upstreams (de_upstreams de) (dm_meta d, dm_registry d) = (r, (m, s))"
    by (metis prod.exhaust)
  have "kept_daemon tidy Q c {} (?d\<lparr>dm_meta := m, dm_registry := s\<rparr>)"
    using I stop_keeps [of "dm_stop_requested d" c "(dm_meta d, dm_registry d)"]
    by (simp add: kept_daemon_def kept_locked_def run)
  moreover have "on_registry (shutdown_upstreams (de_upstreams de)) ?d = (r, ?d\<lparr>dm_meta := m, dm_registry := s\<rparr>)"
    by (simp add: on_registry_def run)
  ultimately show "kept_daemon tidy Q c {} (snd (seqS (modifyS (\<lambda>d. d\<lparr>dm_stop_requested := True\<rparr>))
      (bindS (on_registry (shutdown_upstreams (de_upstreams de))) f) d))"
    using preservesD [OF that] by (cases r) (simp_all add: monad_simps)
qed

lemma handle_request_keeps: "preserves (kept_daemon tidy Q c {}) (handle_request de v)"
proof (cases v)
  case (PDict request)
  have "preserves (kept_daemon tidy Q c {}) (health_result de request)"
    unfolding health_result_def by (intro preserves_intros on_registry_kept health_keeps)
  then show ?thesis
    unfolding handle_request_def PDict Let_def pyval.case
    by (auto split: sum.split option.split intro!: preserves_bind preserves_if broker_stop_keeps on_registry_kept
        session_keeps handle_jsonrpc_request_keeps)
qed (simp_all add: handle_request_def)

lemma write_request_log_keeps:
  "preserves (kept_daemon tidy Q c h) (write_request_log_safely de request_id method response)"
proof -
  have log: "preserves (kept_daemon tidy Q c h) (write_log de e details)" for e details
    unfolding write_log_def by (intro on_registry_kept log_keeps)
  have "preserves (kept_daemon tidy Q c h) (modifyS (count_request method response))"
    by (intro preserves_modify) (simp add: count_request_def kept_daemon_def)
  moreover have "preserves (kept_daemon tidy Q c h) (write_status_snapshot de status)" for status
    unfolding write_status_snapshot_def
    by (intro preserves_intros preserves_get preserves_modify on_registry_kept health_keeps)
      (simp add: kept_daemon_def)
  ultimately show ?thesis
    unfolding write_request_log_safely_def write_request_log_def by (intro preserves_intros log)
qed

lemma on_daemon_keeps: "preserves I m \<Longrightarrow> preserves (\<lambda>(d, sent). I d) (on_daemon m)"
  by (force simp: preserves_def on_daemon_def split: prod.splits)

lemma handle_connection_keeps:
  "preserves (\<lambda>(d, sent). kept_daemon tidy Q c {} d) (handle_connection de events)"
proof -
  note log = on_daemon_keeps [OF write_request_log_keeps]
  have send: "preserves (\<lambda>(d, sent). kept_daemon tidy Q c {} d) (send_response r)" for r
    unfolding send_response_def by (intro preserves_modify) auto
  have "preserves (\<lambda>(d, sent). kept_daemon tidy Q c {} d) (refuse de rpc_code message)" for rpc_code message
    unfolding refuse_def Let_def by (intro preserves_seq send log)
  then show ?thesis
    unfolding handle_connection_def Let_def
    by (auto split: sum.split option.split
        intro!: preserves_seq preserves_bind send log on_daemon_keeps [OF handle_request_keeps])
qed

end

section \<open>The registries provide the laws\<close>

lemma kept_meta_reg:
  "(tidy \<Longrightarrow> preserves (in_meta c) m) \<Longrightarrow> preserves (on_reg Q) m \<Longrightarrow> preserves (kept tidy Q c) m"
proof (rule preservesI)
  fix st
  assume keeps: "tidy \<Longrightarrow> preserves (in_meta c) m" "preserves (on_reg Q) m" and I: "kept tidy Q c st"
  obtain c1 s where st: "st = (c1, s)" by (cases st)
  obtain r c2 s2 where run: "m (c1, s) = (r, (c2, s2))" by (metis prod.exhaust)
  have "Q s2" using preservesD [OF keeps(2), of "(c1, s)"] I by (simp add: kept_def st run)
  moreover have "c2 = c" if tidy
    using preservesD [OF keeps(1) [OF that], of "(c1, s)"] I that run by (auto simp: kept_def st)
  ultimately show "kept tidy Q c (snd (m st))" by (simp add: kept_def st run)
qed

lemma preserves_anything: "preserves (on_reg (\<lambda>s. True)) m"
  by (simp add: preserves_def split_def)

lemma rg_shutdown_worldless: "worldless rg_shutdown"
  by (simp add: worldless_def)

lemma rg_shutdown_clientwise: "clientwise rg_shutdown"
  by (simp add: clientwise_def)

lemmas shut_intros = preserves_intros preserves_world [OF rg_shutdown_worldless] preserves_reg_put

text \<open>No operation takes the shutdown back.\<close>

lemma clients_shut:
  "preserves (on_reg rg_shutdown) (stdio_client env cfg n sid ctx)"
  "preserves (on_reg rg_shutdown) (http_client env cfg n)"
  "preserves (on_reg rg_shutdown) (write_upstream_event env e n d)"
  unfolding stdio_client_def http_client_def write_upstream_event_def
  by (intro shut_intros; simp)+

lemma with_per_call_client_shut:
  assumes "\<And>h. preserves (on_reg rg_shutdown) (body h)"
  shows "preserves (on_reg rg_shutdown) (with_per_call_client env cfg n ctx body)"
  unfolding with_per_call_client_def per_call_stdio_client_def stop_per_call_stdio_client_def Let_def
  by (intro shut_intros clients_shut assms; simp)

lemma operations_shut:
  shows "preserves (on_reg rg_shutdown) (call_upstream env cfg sid ctx n tool args t)"
    "preserves (on_reg rg_shutdown) (list_upstream env cfg sid ctx n t)"
    "preserves (on_reg rg_shutdown) (shutdown_session_upstreams env session)"
  unfolding call_upstream_def call_http_upstream_def call_stdio_upstream_def
    call_stdio_upstream_or_repair_def list_upstream_def list_stdio_upstream_def shutdown_session_upstreams_def
  by (intro shut_intros clients_shut repaired_call_clients with_per_call_client_shut
      rg_shutdown_clientwise stop_clients_preserves rg_shutdown_worldless; simp)+

lemma shutdown_shuts: "rg_shutdown (snd (snd (shutdown_upstreams env st)))"
proof -
  have "preserves (on_reg rg_shutdown) (bindS (stop_clients env cs) (\<lambda>(labels, pids).
      seqS (reg_put (\<lambda>s. s\<lparr>rg_http := []\<rparr>)) (returnS (shutdown_report labels pids))))" for cs
    by (intro shut_intros stop_clients_preserves rg_shutdown_worldless) simp
  from preservesD [OF this] show ?thesis
    by (cases st) (simp add: shutdown_upstreams_def monad_simps reg_simps split_def)
qed

text \<open>What the registries satisfy between requests, given the stop flag.\<close>

definition registry_ok :: "broker_config option \<Rightarrow> bool \<Rightarrow> 'w registry \<Rightarrow> bool" where
  "registry_ok config stopped s \<longleftrightarrow> (case config of None \<Rightarrow> True | Some cfg \<Rightarrow> reg_inv cfg s) \<and>
     (stopped \<longrightarrow> rg_shutdown s)"

lemma registry_ok_preserves:
  "(\<And>cfg. config = Some cfg \<Longrightarrow> preserves (on_reg (reg_inv cfg)) m) \<Longrightarrow> preserves (on_reg rg_shutdown) m \<Longrightarrow>
     preserves (on_reg (registry_ok config b)) m"
  by (cases config) (auto simp: preserves_def registry_ok_def split_def)

lemma registry_ok_world: "preserves (on_reg (registry_ok config b)) (on_world m)"
  by (intro registry_ok_preserves reg_world preserves_world [OF rg_shutdown_worldless])

interpretation requests: daemon_registry de "tidy_env (de_upstreams de)" "registry_ok (de_config de)"
  for de :: "'w daemon_env"
proof unfold_locales
  let ?env = "de_upstreams de"
  note intros = kept_meta_reg registry_ok_preserves operations_shut operations_meta
  show "preserves (kept (tidy_env ?env) (registry_ok (de_config de) b) c) (call_upstream ?env cfg sid ctx n tool args t)"
    if "de_config de = Some cfg" for cfg b c sid ctx n tool args t
    by (intro intros) (use that call_upstream_inv in auto)
  show "preserves (kept (tidy_env ?env) (registry_ok (de_config de) b) c) (list_upstream ?env cfg sid ctx n t)"
    if "de_config de = Some cfg" for cfg b c sid ctx n t
    by (intro intros) (use that list_upstream_inv in auto)
  show "preserves (kept (tidy_env ?env) (registry_ok (de_config de) b) c) (shutdown_session_upstreams ?env session)"
    for b c session
    by (intro intros shutdown_session_inv)
  show "preserves (kept (tidy_env ?env) (registry_ok (de_config de) b) c)
      (upstream_health ?env (de_probe de) (de_config de) names)" for b c names
    by (intro kept_meta_reg upstream_health_preserves registry_ok_world meta_world tidy_envD)
  show "preserves (kept (tidy_env ?env) (registry_ok (de_config de) b) c) (on_world (ue_write_log ?env e d))" for b c e d
    by (intro kept_meta_reg registry_ok_world meta_world tidy_envD)
  show "kept (tidy_env ?env) (registry_ok (de_config de) True) c (snd (shutdown_upstreams ?env st))"
    if "kept (tidy_env ?env) (registry_ok (de_config de) b) c st" for b c st
  proof -
    have "preserves (kept (tidy_env ?env) (\<lambda>s. case de_config de of None \<Rightarrow> True | Some cfg \<Rightarrow> reg_inv cfg s) c)
        (shutdown_upstreams ?env)"
      by (intro kept_meta_reg operations_meta, assumption) (cases "de_config de", simp_all add: shutdown_inv preserves_anything)
    moreover have "kept (tidy_env ?env) (\<lambda>s. case de_config de of None \<Rightarrow> True | Some cfg \<Rightarrow> reg_inv cfg s) c st"
      using that by (auto simp: kept_def registry_ok_def)
    ultimately have "kept (tidy_env ?env) (\<lambda>s. case de_config de of None \<Rightarrow> True | Some cfg \<Rightarrow> reg_inv cfg s) c
        (snd (shutdown_upstreams ?env st))" by (rule preservesD)
    with shutdown_shuts [of ?env st] show ?thesis
      by (auto simp: kept_def registry_ok_def split_def)
  qed
qed

section \<open>The daemon from one connection to the next\<close>

definition fresh_protocol :: "protocol_handler \<Rightarrow> bool" where
  "fresh_protocol h \<longleftrightarrow> \<not> ph_initialized h \<and> \<not> ph_initialize_seen h"

definition started_daemon :: "'w daemon \<Rightarrow> bool" where
  "started_daemon d \<longleftrightarrow> fresh_protocol (dm_protocol d) \<and> \<not> dm_stop_requested d \<and>
     dm_requests_total d = 0 \<and> dm_request_errors_total d = 0 \<and> dm_meta d = no_meta \<and> dm_held d = {} \<and>
     fresh_daemon (dm_meta d, dm_registry d)"

inductive daemon_step :: "'w daemon_env \<Rightarrow> 'w daemon \<Rightarrow> 'w daemon \<Rightarrow> bool" for de where
  connection: "daemon_step de d (fst (snd (handle_connection de events (d, []))))"
| janitor: "daemon_step de d (snd (on_registry (reap_idle_upstreams (de_upstreams de) now) d))"
| surroundings: "daemon_step de d
    (d\<lparr>dm_registry := (dm_registry d)\<lparr>rg_world := w\<rparr>, dm_break_glass := b\<rparr>)"

definition counters :: "'w daemon \<Rightarrow> int \<times> int" where
  "counters d = (dm_requests_total d, dm_request_errors_total d)"

lemma counters_on [simp]:
  "preserves (\<lambda>d. P (counters d)) (on_registry m)" "preserves (\<lambda>d. P (counters d)) (on_calls m')"
  "preserves (\<lambda>d. P (counters d)) (handle_protocol r)"
  by (simp_all add: preserves_def on_registry_def on_calls_def handle_protocol_def counters_def split_def)

text \<open>A request does not count itself; the log entry of the connection does, once.\<close>

lemma request_counters: "preserves (\<lambda>d. P (counters d)) (handle_request de v)"
proof (cases v)
  case (PDict request)
  have "preserves (\<lambda>d. P (counters d)) (health_result de request)"
    unfolding health_result_def by (intro preserves_intros counters_on)
  moreover have "preserves (\<lambda>d. P (counters d)) (handle_jsonrpc_request de request)"
    unfolding handle_jsonrpc_request_def
    by (auto split: sum.split intro!: preserves_intros counters_on)
  moreover have "preserves (\<lambda>d. P (counters d)) (modifyS (\<lambda>d. d\<lparr>dm_stop_requested := True\<rparr>))"
    by (intro preserves_modify) (simp add: counters_def)
  ultimately show ?thesis
    unfolding handle_request_def PDict Let_def pyval.case
    by (auto split: sum.split option.split intro!: preserves_bind preserves_seq preserves_if counters_on)
qed (simp_all add: handle_request_def)

lemma log_counters:
  assumes "counters d = (n, e)"
  obtains e' where "counters (snd (write_request_log_safely de i m response d)) = (n + 1, e')"
    "e' = (if response_status response = ''error'' then e + 1 else e)"
proof -
  define P where "P = (\<lambda>c. c = (n + 1, if response_status response = ''error'' then e + 1 else e))"
  have log: "preserves (\<lambda>d. P (counters d)) (write_log de ev details)" for ev details
    unfolding write_log_def by (rule counters_on)
  have "preserves (\<lambda>d. P (counters d)) (write_status_snapshot de status)" for status
    unfolding write_status_snapshot_def
    by (intro preserves_intros preserves_get preserves_modify counters_on) (simp add: counters_def)
  then have "preserves (\<lambda>d. P (counters d)) (seqS (write_log de ev details) (write_status_snapshot de status))"
    for ev details status by (intro preserves_seq log)
  from preservesD [OF this] have "P (counters (snd (write_request_log de i m response d)))"
    using assms by (simp add: write_request_log_def monad_simps counters_def count_request_def P_def)
  moreover obtain r d1 where "write_request_log de i m response d = (r, d1)" by (metis prod.exhaust)
  ultimately have "P (counters (snd (write_request_log_safely de i m response d)))"
    using preservesD [OF log, of d1] by (cases r) (simp_all add: write_request_log_safely_def monad_simps)
  with that show thesis by (simp add: P_def)
qed

definition counters_ok :: "int \<times> int \<Rightarrow> bool" where
  "counters_ok c \<longleftrightarrow> 0 \<le> snd c \<and> snd c \<le> fst c"

lemma connection_counters:
  "preserves (\<lambda>(d, sent). counters_ok (counters d)) (handle_connection de events)"
proof -
  have "preserves (\<lambda>d. counters_ok (counters d)) (write_request_log_safely de i m response)" for i m response
  proof (rule preservesI)
    fix d :: "'a daemon"
    assume ok: "counters_ok (counters d)"
    obtain n e where c: "counters d = (n, e)" by (cases "counters d")
    obtain e' where "counters (snd (write_request_log_safely de i m response d)) = (n + 1, e')"
        "e' = (if response_status response = ''error'' then e + 1 else e)"
      using c by (rule log_counters)
    with ok c show "counters_ok (counters (snd (write_request_log_safely de i m response d)))"
      by (simp add: counters_ok_def)
  qed
  note log = requests.on_daemon_keeps [OF this]
  have send: "preserves (\<lambda>(d, sent). counters_ok (counters d)) (send_response r)" for r
    unfolding send_response_def by (intro preserves_modify) auto
  have "preserves (\<lambda>(d, sent). counters_ok (counters d)) (refuse de rpc_code message)" for rpc_code message
    unfolding refuse_def Let_def by (intro preserves_seq send log)
  then show ?thesis
    unfolding handle_connection_def Let_def
    by (auto split: sum.split option.split
        intro!: preserves_seq preserves_bind send log requests.on_daemon_keeps [OF request_counters])
qed

lemma reap_keeps:
  "preserves (kept (tidy_env (de_upstreams de)) (registry_ok (de_config de) b) c)
     (reap_idle_upstreams (de_upstreams de) now)"
proof -
  have "preserves (in_meta c) (reap_clients env now cs)" if "tidy_env env" for env :: "'a upstream_env" and cs
    by (induction cs) (auto simp: evict_def intro!: preserves_intros meta_world tidy_envD that)
  moreover have "preserves (in_meta c) (log_reaped env cs)" if "tidy_env env" for env :: "'a upstream_env" and cs
    by (induction cs) (auto intro!: preserves_intros meta_world tidy_envD that)
  moreover have "preserves (on_reg rg_shutdown) (reap_clients env now cs)" for env :: "'a upstream_env" and cs
    by (induction cs) (auto simp: evict_def intro!: shut_intros)
  moreover have "preserves (on_reg rg_shutdown) (log_reaped env cs)" for env :: "'a upstream_env" and cs
    by (induction cs) (auto intro!: shut_intros)
  ultimately have "tidy_env env \<Longrightarrow> preserves (in_meta c) (reap_idle_upstreams env now)"
      "preserves (on_reg rg_shutdown) (reap_idle_upstreams env now)" for env :: "'a upstream_env"
    unfolding reap_idle_upstreams_def by (intro preserves_intros; simp)+
  then show ?thesis by (intro kept_meta_reg registry_ok_preserves reap_idle_inv)
qed

lemma reap_counters: "counters_ok (counters d) \<Longrightarrow> counters_ok (counters (snd (on_registry m d)))"
  using counters_on(1) by (rule preservesD)

lemma reap_daemon_keeps:
  "preserves (kept_daemon (tidy_env (de_upstreams de)) (registry_ok (de_config de)) c h)
     (on_registry (reap_idle_upstreams (de_upstreams de) now))"
  by (rule on_registry_kept) (rule reap_keeps)

definition daemon_inv :: "'w daemon_env \<Rightarrow> 'w daemon \<Rightarrow> bool" where
  "daemon_inv de d \<longleftrightarrow> counters_ok (counters d) \<and>
     kept_daemon (tidy_env (de_upstreams de)) (registry_ok (de_config de)) no_meta {} d"

interpretation daemons: transition_system started_daemon "daemon_step de" "daemon_inv de"
  for de :: "'w daemon_env"
proof unfold_locales
  fix d :: "'w daemon"
  assume "started_daemon d"
  moreover have "reg_inv cfg (dm_registry d)" if "fresh_daemon (dm_meta d, dm_registry d)" for cfg
    using registries.inv_start [OF that] by simp
  ultimately show "daemon_inv de d"
    by (auto simp: started_daemon_def daemon_inv_def counters_ok_def counters_def kept_daemon_def
        kept_locked_def kept_def registry_ok_def split: option.split)
next
  fix d d' :: "'w daemon"
  assume inv: "daemon_inv de d" and "daemon_step de d d'"
  from this(2) show "daemon_inv de d'"
  proof cases
    case (connection events)
    then show ?thesis
      using preservesD [OF requests.handle_connection_keeps [of de no_meta events], of "(d, [])"]
        preservesD [OF connection_counters [of de events], of "(d, [])"] inv
      by (simp add: daemon_inv_def split_def)
  next
    case (janitor now)
    from inv show ?thesis
      unfolding janitor daemon_inv_def by (intro conjI reap_counters preservesD [OF reap_daemon_keeps]) auto
  next
    case (surroundings w b)
    then show ?thesis
      using inv by (auto simp: daemon_inv_def counters_def kept_daemon_def kept_locked_def kept_def
          registry_ok_def split: option.splits)
  qed
qed


section \<open>Responses\<close>

text \<open>Every response that a handler returns answers its request.\<close>

definition answers :: "pyval \<Rightarrow> ('s, exn, jsonrpc_response) sem \<Rightarrow> bool" where
  "answers i m \<longleftrightarrow> (\<forall>st r st'. m st = (Inr r, st') \<longrightarrow> rs_id r = i)"

lemma answers_intros:
  "rs_id r = i \<Longrightarrow> answers i (returnS r)" "answers i (raiseS e)" "answers i (respond i caught m')"
  "answers i m \<Longrightarrow> (\<And>e. answers i (h e)) \<Longrightarrow> answers i (catchS m h)"
  "(\<And>x. answers i (f x)) \<Longrightarrow> answers i (bindS n f)"
  "(b \<Longrightarrow> answers i m) \<Longrightarrow> (\<not> b \<Longrightarrow> answers i m2) \<Longrightarrow> answers i (if b then m else m2)"
  by (auto simp: answers_def respond_def monad_simps split: prod.splits sum.splits if_splits)

lemma answersD: "answers i m \<Longrightarrow> m st = (Inr r, st') \<Longrightarrow> rs_id r = i"
  unfolding answers_def by blast

lemma answers_scopes:
  "answers i m \<Longrightarrow> answers i (request_metadata_scope params m)"
  "answers i m \<Longrightarrow> answers i (broker_request_metadata_scope d m)"
proof -
  assume m: "answers i m"
  show "answers i (broker_request_metadata_scope d m)"
    using m by (fastforce simp: answers_def broker_request_metadata_scope_def split: prod.splits)
  show "answers i (request_metadata_scope params m)"
  proof (cases "case params of PDict d \<Rightarrow> dget_or d ''_meta'' (PDict []) | _ \<Rightarrow> PDict []")
    case (PDict d)
    with m show ?thesis
      by (fastforce simp: answers_def request_metadata_scope_def split: prod.splits)
  qed (simp_all add: request_metadata_scope_def answers_intros)
qed

lemma tools_call_answers: "answers (rq_id q) (handle_tools_call de q)"
proof -
  have "answers (rq_id q) (dispatch_tools_call de cfg (rq_id q) name args params profile sid ctx)"
    for cfg name args params profile sid ctx
    by (simp add: dispatch_tools_call_def handle_broker_catalog_tool_call_def handle_upstream_tool_call_def
        answers_intros)
  then have "answers (rq_id q) (handle_tools_call_scoped de q)"
    unfolding handle_tools_call_scoped_def
    by (auto split: option.split pyval.split sum.split prod.split intro: answers_intros answers_scopes)
  then show ?thesis
    unfolding handle_tools_call_def by (intro answers_intros answers_scopes) simp_all
qed

lemma tools_list_answers: "answers (rq_id q) (handle_tools_list de q)"
  unfolding handle_tools_list_def
  by (auto split: option.split sum.split prod.split intro!: answers_intros)

text \<open>Neither tool method touches the protocol handler.\<close>

lemma on_protocol [simp]: "dm_protocol (snd (on_calls m d)) = dm_protocol d"
  "dm_protocol (snd (on_registry m' d)) = dm_protocol d"
  by (simp_all add: on_calls_def on_registry_def split_def)

lemma answered_request:
  assumes "handle_jsonrpc_request de request d = (Inr response, d')"
  shows "case request_from_mapping (PDict request) of
      Inl e \<Rightarrow> d' = d \<and> response = Some (response_to_mapping (rpc_error PNone (- 32600) (exn_str e)))
    | Inr q \<Rightarrow>
        (response = None \<longleftrightarrow> rq_method q = ''notifications/initialized'') \<and>
        (\<forall>r. response = Some r \<longrightarrow> rpc_response (dget request ''id'') r) \<and>
        (rq_method q = ''tools/list'' \<and> \<not> ph_initialize_seen (dm_protocol d) \<longrightarrow> d' = d \<and>
           response = Some (response_to_mapping (rpc_error (rq_id q) (- 32002) ''Server not initialized''))) \<and>
        (ph_initialize_seen (dm_protocol d') \<longleftrightarrow> ph_initialize_seen (dm_protocol d) \<or>
           (rq_method q = ''initialize'' \<and> (\<exists>r. response = Some r \<and> \<not> dhas r ''error'')))"
proof (cases "request_from_mapping (PDict request)")
  case (Inl e)
  with request_from_mapping_Inl [OF Inl] assms show ?thesis
    by (cases e) (auto simp: handle_jsonrpc_request_def monad_simps)
next
  case (Inr q)
  have id: "rq_id q = dget request ''id''" using request_from_mapping_Inr [OF Inr] by auto
  consider (listing) "rq_method q = ''tools/list''" | (call) "rq_method q = ''tools/call''"
    | (protocol) "rq_method q \<noteq> ''tools/list''" "rq_method q \<noteq> ''tools/call''" by blast
  then show ?thesis
  proof cases
    case listing
    show ?thesis
    proof (cases "ph_initialize_seen (dm_protocol d)")
      case False
      with assms Inr listing id show ?thesis by (auto simp: handle_jsonrpc_request_def monad_simps)
    next
      case True
      obtain x d1 where run: "on_registry (handle_tools_list de q) d = (x, d1)" by (metis prod.exhaust)
      have seen: "ph_initialize_seen (dm_protocol d1)"
        using True on_protocol(2) [of "handle_tools_list de q" d] by (simp add: run)
      obtain r where r: "x = Inr r" "response = Some (response_to_mapping r)" "d' = d1"
        using assms Inr listing True run
        by (cases x) (auto simp: handle_jsonrpc_request_def monad_simps)
      have "rs_id r = rq_id q"
        using run r(1) by (auto simp: on_registry_def split: prod.splits dest: answersD [OF tools_list_answers])
      with seen r True listing id show ?thesis by (simp add: Inr)
    qed
  next
    case call
    obtain x d1 where run: "on_calls (handle_tools_call de q) d = (x, d1)" by (metis prod.exhaust)
    have seen: "dm_protocol d1 = dm_protocol d"
      using on_protocol(1) [of "handle_tools_call de q" d] by (simp add: run)
    obtain r where r: "x = Inr r" "response = Some (response_to_mapping r)" "d' = d1"
      using assms Inr call run by (cases x) (auto simp: handle_jsonrpc_request_def monad_simps)
    have "rs_id r = rq_id q"
      using run r(1) by (auto simp: on_calls_def split: prod.splits dest: answersD [OF tools_call_answers])
    with seen r call id show ?thesis by (simp add: Inr)
  next
    case protocol
    obtain x h where run: "protocol_handle q (dm_protocol d) = (x, h)" by (metis prod.exhaust)
    have r: "response = map_option response_to_mapping x" "d' = d\<lparr>dm_protocol := h\<rparr>"
      using assms Inr protocol run by (auto simp: handle_jsonrpc_request_def handle_protocol_def monad_simps)
    have "\<not> dhas (response_to_mapping y) ''error'' \<longleftrightarrow> rs_error y = None" for y
      by (simp add: response_to_mapping_def split: option.split)
    with r protocol id run protocol_handle_seen [of q "dm_protocol d"] protocol_handle_None [of q "dm_protocol d"]
      protocol_handle_id [of q "dm_protocol d"] show ?thesis
      by (cases x) (auto simp: Inr)
  qed
qed

text \<open>Which requests may end in an exception instead.\<close>

lemma unanswered_request:
  assumes "handle_jsonrpc_request de request d = (Inl e, d')"
  obtains q where "request_from_mapping (PDict request) = Inr q"
    "rq_method q = ''tools/call'' \<and> \<not> is_value_error e \<or> rq_method q = ''tools/list'' \<and> ph_initialize_seen (dm_protocol d)"
    "ph_initialize_seen (dm_protocol d') = ph_initialize_seen (dm_protocol d)"
proof (cases "request_from_mapping (PDict request)")
  case (Inl e')
  with request_from_mapping_Inl [OF Inl] assms show ?thesis
    by (cases e') (auto simp: handle_jsonrpc_request_def monad_simps)
next
  case (Inr q)
  consider (listing) "rq_method q = ''tools/list''" | (call) "rq_method q = ''tools/call''"
    | (protocol) "rq_method q \<noteq> ''tools/list''" "rq_method q \<noteq> ''tools/call''" by blast
  then show ?thesis
  proof cases
    case listing
    obtain x d1 where run: "on_registry (handle_tools_list de q) d = (x, d1)" by (metis prod.exhaust)
    have "ph_initialize_seen (dm_protocol d)" "d' = d1"
      using assms Inr listing run
      by (auto simp: handle_jsonrpc_request_def monad_simps split: sum.splits if_splits)
    with on_protocol(2) [of "handle_tools_list de q" d] listing show ?thesis by (intro that [OF Inr]) (simp_all add: run)
  next
    case call
    obtain x d1 where run: "on_calls (handle_tools_call de q) d = (x, d1)" by (metis prod.exhaust)
    have out: "x = Inl e" "d' = d1"
      using assms Inr call run by (auto simp: handle_jsonrpc_request_def monad_simps split: sum.splits)
    have "\<not> is_value_error e"
      using run out(1) by (auto simp: on_calls_def handle_tools_call_def monad_simps split: prod.splits sum.splits if_splits)
    with on_protocol(1) [of "handle_tools_call de q" d] call out(2) show ?thesis
      by (intro that [OF Inr]) (simp_all add: run)
  next
    case protocol
    with assms Inr show ?thesis by (auto simp: handle_jsonrpc_request_def handle_protocol_def monad_simps split: prod.splits)
  qed
qed

text \<open>C3. JSON-RPC requests are answered in the protocol. A payload that is no request is refused with code
  -32600 and changes nothing. Otherwise the response has the version, the id of the request and exactly
  one of \<open>result\<close> and \<open>error\<close>; only \<open>notifications/initialized\<close> has no response. The tool list is
  refused, with nothing changed, until the handshake; and the handshake is made by no other request than
  an \<open>initialize\<close> that is answered with a result. An exception instead of an answer comes from a
  \<open>tools/call\<close>, and then it is no \<open>ValueError\<close>, or from a \<open>tools/list\<close> after the handshake.
\<close>

theorem jsonrpc_requests_answered:
  "case handle_jsonrpc_request de request d of
     (Inl e, d') \<Rightarrow> ph_initialize_seen (dm_protocol d') = ph_initialize_seen (dm_protocol d) \<and>
       (\<exists>q. request_from_mapping (PDict request) = Inr q \<and> (rq_method q = ''tools/call'' \<and> \<not> is_value_error e \<or>
         rq_method q = ''tools/list'' \<and> ph_initialize_seen (dm_protocol d)))
   | (Inr response, d') \<Rightarrow> (case request_from_mapping (PDict request) of
      Inl e \<Rightarrow> d' = d \<and> response = Some (response_to_mapping (rpc_error PNone (- 32600) (exn_str e)))
    | Inr q \<Rightarrow>
        (response = None \<longleftrightarrow> rq_method q = ''notifications/initialized'') \<and>
        (\<forall>r. response = Some r \<longrightarrow> rpc_response (dget request ''id'') r) \<and>
        (rq_method q = ''tools/list'' \<and> \<not> ph_initialize_seen (dm_protocol d) \<longrightarrow> d' = d \<and>
           response = Some (response_to_mapping (rpc_error (rq_id q) (- 32002) ''Server not initialized''))) \<and>
        (ph_initialize_seen (dm_protocol d') \<longleftrightarrow> ph_initialize_seen (dm_protocol d) \<or>
           (rq_method q = ''initialize'' \<and> (\<exists>r. response = Some r \<and> \<not> dhas r ''error''))))"
proof -
  obtain outcome d' where run: "handle_jsonrpc_request de request d = (outcome, d')" by (metis prod.exhaust)
  show ?thesis
  proof (cases outcome)
    case (Inl e)
    from run [unfolded Inl] show ?thesis by (rule unanswered_request) (auto simp: run Inl)
  next
    case (Inr response)
    from answered_request [OF run [unfolded Inr]] show ?thesis by (simp only: run Inr prod.case sum.case)
  qed
qed

section \<open>Calls that are refused\<close>

text \<open>The tool that a \<open>tools/call\<close> asks for, by its own name or through \<open>broker.call_tool\<close>.\<close>

definition called_tool :: "tool_exposure_profile option \<Rightarrow> string \<Rightarrow> pydict \<Rightarrow> string option" where
  "called_tool profile name arguments =
     (let canonical = (case profile of None \<Rightarrow> name | Some p \<Rightarrow> canonical_broker_tool_name p name) in
      if canonical = ''broker.call_tool'' then (case dget arguments ''name'' of PStr t \<Rightarrow> Some t | _ \<Rightarrow> None)
      else if prefix ''broker.'' canonical then None else Some name)"

lemma resolve_refusal_caught:
  assumes "resolve_call_route core name = Inl e"
  shows "is_tool_or_value_error e"
proof (cases "bk_separator core = []")
  case True
  with assms show ?thesis by (auto simp: resolve_call_route_def is_tool_or_value_error_def)
next
  case False
  from resolve_call_route_Inl [OF assms this] show ?thesis
    by (cases e) (simp_all add: route_refusal_def is_tool_or_value_error_def)
qed

text \<open>An operation that raises a caught exception without an effect becomes an error response.\<close>

definition refuses :: "('s, exn, 'a) sem \<Rightarrow> bool" where
  "refuses m \<longleftrightarrow> (\<forall>st. \<exists>e. m st = (Inl e, st) \<and> is_tool_or_value_error e)"

lemma refuses_raise: "is_tool_or_value_error e \<Longrightarrow> refuses (raiseS e)"
  by (simp add: refuses_def raiseS_def)

lemma refuses_bind: "refuses m \<Longrightarrow> refuses (bindS m f)"
  unfolding refuses_def
proof
  fix st
  assume "\<forall>st. \<exists>e. m st = (Inl e, st) \<and> is_tool_or_value_error e"
  then obtain e where "m st = (Inl e, st)" "is_tool_or_value_error e" by blast
  then show "\<exists>e. bindS m f st = (Inl e, st) \<and> is_tool_or_value_error e" by (simp add: bindS_def)
qed

lemma refuses_lift: "m = Inl e \<Longrightarrow> is_tool_or_value_error e \<Longrightarrow> refuses (liftS m)"
  by (simp add: refuses_def liftS_def)

lemma call_tool_refuses:
  assumes "resolve_call_route core name = Inl e"
  shows "refuses (call_tool core name (PDict d) caller)"
  unfolding call_tool_def pyval.case
  by (intro refuses_bind refuses_lift [OF assms] resolve_refusal_caught [OF assms])

lemma hybrid_call_refuses:
  assumes "resolve_call_route core name = Inl e"
  shows "refuses (hybrid_call_tool core worker name d edge ctx)"
  unfolding hybrid_call_tool_def
  by (intro refuses_bind refuses_lift [OF assms] resolve_refusal_caught [OF assms])

lemma facade_call_refuses:
  assumes "resolve_call_route (facade_core f) t = Inl e" "dget arguments ''name'' = PStr t"
  shows "refuses (call_managed_tool f arguments)"
proof (cases "dget_or arguments ''arguments'' (PDict [])")
  case (PDict d)
  have "refuses (raiseS (Exn ValueError m))" for m :: string
    by (rule refuses_raise) (simp add: is_tool_or_value_error_def)
  with PDict assms(2) show ?thesis
    by (cases "dget arguments ''projection''")
      (auto simp: call_managed_tool_def intro: refuses_bind call_tool_refuses [OF assms(1)])
qed (auto simp: call_managed_tool_def assms(2) is_tool_or_value_error_def intro!: refuses_raise)

lemma respond_refused:
  assumes "refuses m"
  shows "\<exists>msg. respond i is_tool_or_value_error (locked_call m) st = (Inr (rpc_error i (- 32000) msg), st)"
proof -
  obtain c h s where st: "st = (c, (h, s))" by (metis prod.exhaust)
  obtain e where "m (h, (c, s)) = (Inl e, (h, (c, s)))" "is_tool_or_value_error e"
    using assms unfolding refuses_def by blast
  then show ?thesis by (simp add: respond_def monad_simps locked_call_def st) blast
qed

lemma dispatch_refused:
  assumes "called_tool profile name arguments = Some tool"
    and "resolve_call_route (daemon_core cfg profile) tool = Inl e"
  shows "\<exists>msg. dispatch_tools_call de cfg i name arguments params profile sid ctx st =
    (Inr (rpc_error i (- 32000) msg), st)"
proof -
  let ?canonical = "case profile of None \<Rightarrow> name | Some p \<Rightarrow> canonical_broker_tool_name p name"
  let ?f = "daemon_facade de cfg profile sid ctx"
  have core: "facade_core ?f = daemon_core cfg profile"
    by (simp add: facade_core_def daemon_facade_def daemon_core_def)
  show ?thesis
  proof (cases "?canonical = ''broker.call_tool''")
    case True
    then have t: "dget arguments ''name'' = PStr tool"
      using assms(1) by (auto simp: called_tool_def split: pyval.splits)
    have "facade_canonical_name ?f name = ''broker.call_tool''"
      using True by (simp add: facade_canonical_name_def daemon_facade_def)
    then have "facade_call_tool ?f name arguments = call_managed_tool ?f arguments"
      by (simp add: facade_call_tool_def)
    then have "refuses (facade_call_tool ?f name arguments)"
      using facade_call_refuses [of ?f tool e] assms(2) core t by simp
    with True show ?thesis
      by (simp add: dispatch_tools_call_def handle_broker_catalog_tool_call_def respond_refused)
  next
    case False
    then have t: "tool = name" "\<not> prefix ''broker.'' ?canonical"
      using assms(1) by (auto simp: called_tool_def Let_def split: if_splits)
    with assms(2) show ?thesis
      by (simp add: dispatch_tools_call_def handle_upstream_tool_call_def)
        (intro respond_refused hybrid_call_refuses)
  qed
qed

text \<open>C1. A tool call that the profile of its request does not permit has no effect at all: whether it names
  the tool itself or goes through \<open>broker.call_tool\<close>, an unknown, disabled, hidden or forbidden upstream
  leaves the clients, the upstreams' world, the locks and the request metadata untouched and is answered
  with an error. So a result means that the tool's upstream is one the profile permits.
\<close>

theorem forbidden_call_has_no_effect:
  assumes "de_config de = Some cfg" and "rq_params q = PDict params"
    and "dget params ''name'' = PStr name" "dget_or params ''arguments'' (PDict []) = PDict arguments"
    and "request_context de (PDict params) = Inr (sid, ctx, profile)"
    and "called_tool profile name arguments = Some tool"
  shows "case resolve_call_route (daemon_core cfg profile) tool of
      Inl e \<Rightarrow> \<exists>err_no msg. handle_tools_call de q st = (Inr (rpc_error (rq_id q) err_no msg), st)
    | Inr (u, t) \<Rightarrow> call_permitted (daemon_core cfg profile) u \<and>
        split_once (bs_tool_namespace_separator (bc_broker cfg)) tool = Some (upstream_prefix u, t)"
proof (cases "resolve_call_route (daemon_core cfg profile) tool")
  case (Inr ut)
  obtain u t where ut: "ut = (u, t)" by (cases ut)
  have "bk_separator (daemon_core cfg profile) = bs_tool_namespace_separator (bc_broker cfg)"
    by (simp add: daemon_core_def)
  with Inr ut show ?thesis
    using resolve_call_route_Inr [of "daemon_core cfg profile" tool u t] by simp
next
  case (Inl e)
  have inner: "\<exists>msg. handle_tools_call_scoped de q st = (Inr (rpc_error (rq_id q) (- 32000) msg), st)" for st
  proof -
    obtain c x where st: "st = (c, x)" by (cases st)
    obtain msg where "dispatch_tools_call de cfg (rq_id q) name arguments params profile sid ctx
        (c\<lparr>mc_broker := result_budget_metadata profile\<rparr>, x) =
        (Inr (rpc_error (rq_id q) (- 32000) msg), (c\<lparr>mc_broker := result_budget_metadata profile\<rparr>, x))"
      using dispatch_refused [OF assms(6) Inl] by metis
    then show ?thesis
      by (simp add: handle_tools_call_scoped_def assms broker_request_metadata_scope_def st) blast
  qed
  obtain c x where st: "st = (c, x)" by (cases st)
  show ?thesis
  proof (cases "dget_or params ''_meta'' (PDict [])")
    case (PDict d)
    obtain msg where "handle_tools_call_scoped de q (c\<lparr>mc_current := d\<rparr>, x) =
        (Inr (rpc_error (rq_id q) (- 32000) msg), (c\<lparr>mc_current := d\<rparr>, x))" using inner by metis
    then show ?thesis
      by (simp add: Inl handle_tools_call_def request_metadata_scope_def assms(2) PDict st monad_simps) blast
  qed (auto simp: Inl handle_tools_call_def request_metadata_scope_def assms(2) st monad_simps)
qed

section \<open>Examples\<close>

text \<open>A daemon over the example clients, which understands two requests.\<close>

definition example_probe :: probe_env where
  "example_probe = \<lparr>pe_environ = (\<lambda>_. None), pe_read_text = (\<lambda>_. None), pe_loads = (\<lambda>_. None),
     pe_clock = decimal_clock, pe_now = 0\<rparr>"

definition stop_request :: pyval where
  "stop_request = PDict [(''id'', PInt 1), (''method'', PStr ''broker/stop'')]"

definition call_request :: pyval where
  "call_request = PDict [(''jsonrpc'', PStr ''2.0''), (''id'', PInt 2), (''method'', PStr ''tools/call''),
     (''params'', PDict [(''name'', PStr ''git.log'')])]"

definition example_daemon_env :: "nat daemon_env" where
  "example_daemon_env = \<lparr>de_config = Some clients_config, de_upstreams = example_env, de_probe = example_probe,
     de_resolve = Inr, de_git_at = (\<lambda>_. None),
     de_loads = (\<lambda>t. if t = ''stop'' then Some stop_request else if t = ''call'' then Some call_request else None),
     de_decode = Some, de_pid = 7, de_socket_path = ''/run/broker.sock''\<rparr>"

definition example_daemon :: "nat daemon" where
  "example_daemon = \<lparr>dm_protocol = \<lparr>ph_server_name = ''mcp-broker'', ph_server_version = ''1'',
       ph_initialized = False, ph_initialize_seen = False\<rparr>,
     dm_stop_requested = False, dm_requests_total = 0, dm_request_errors_total = 0,
     dm_last_request_method = None, dm_last_request_status = None, dm_started_at = None,
     dm_break_glass = break_glass_example, dm_status_snapshot = None, dm_meta = no_meta, dm_held = {},
     dm_registry = empty_registry\<rparr>"

definition served :: "string list \<Rightarrow> nat daemon" where
  "served texts = fold (\<lambda>t d. fst (snd (handle_connection example_daemon_env [Chunk t] (d, [])))) texts example_daemon"

lemma served_reachable: "reachable_from started_daemon (daemon_step example_daemon_env) (served texts)"
proof (induction texts rule: rev_induct)
  case Nil
  have "started_daemon example_daemon"
    by (simp add: started_daemon_def example_daemon_def fresh_protocol_def fresh_daemon_def empty_registry_def)
  then show ?case by (simp add: served_def reachable_from.start)
next
  case (snoc t texts)
  have "served (texts @ [t]) = fst (snd (handle_connection example_daemon_env [Chunk t] (served texts, [])))"
    by (simp add: served_def)
  then have "daemon_step example_daemon_env (served texts) (served (texts @ [t]))"
    by (simp add: daemon_step.connection)
  with snoc show ?case by (rule reachable_from.step)
qed

lemma example_env_tidy: "tidy_env example_env"
  by (simp add: tidy_env_def keeps_meta_def example_env_def)


definition list_request :: pydict where
  "list_request = [(''jsonrpc'', PStr ''2.0''), (''id'', PInt 5), (''method'', PStr ''tools/list'')]"

text \<open>A \<open>null\<close> for the limit of \<open>broker.search_tools\<close> raises a \<open>TypeError\<close>, for which there is no answer.\<close>

definition null_limit_request :: pydict where
  "null_limit_request = [(''jsonrpc'', PStr ''2.0''), (''id'', PInt 6), (''method'', PStr ''tools/call''),
     (''params'', PDict [(''name'', PStr ''broker.search_tools''),
       (''arguments'', PDict [(''query'', PStr ''log''), (''limit'', PNone)])])]"

lemma null_limit_is_not_answered:
  "case fst (handle_jsonrpc_request example_daemon_env null_limit_request example_daemon) of
     Inl (Exn c m) \<Rightarrow> c = TypeError | _ \<Rightarrow> False"
  by code_simp

lemma jsonrpc_requests_answered_witness:
  "case handle_jsonrpc_request example_daemon_env list_request example_daemon of
     (Inr (Some r), d') \<Rightarrow> rpc_response (PInt 5) r \<and> d' = example_daemon
   | _ \<Rightarrow> False"
proof -
  have "is_result (fst (handle_jsonrpc_request example_daemon_env list_request example_daemon))" by code_simp
  then obtain response d' where
    run: "handle_jsonrpc_request example_daemon_env list_request example_daemon = (Inr response, d')"
    by (metis run_result)
  have parsed: "request_from_mapping (PDict list_request) =
      Inr \<lparr>rq_method = ''tools/list'', rq_id = PInt 5, rq_params = PNone, rq_has_id = True\<rparr>"
    by (simp add: request_from_mapping_def list_request_def)
  have "\<not> ph_initialize_seen (dm_protocol example_daemon)" "dget list_request ''id'' = PInt 5"
    by (simp_all add: example_daemon_def list_request_def)
  with jsonrpc_requests_answered [where de = example_daemon_env and request = list_request and d = example_daemon] show ?thesis
    by (auto simp: run parsed)
qed

definition unknown_call :: jsonrpc_request where
  "unknown_call = \<lparr>rq_method = ''tools/call'', rq_id = PInt 2,
     rq_params = PDict [(''name'', PStr ''nope.x'')], rq_has_id = True\<rparr>"

lemma forbidden_call_has_no_effect_witness:
  "\<exists>err_no msg. handle_tools_call example_daemon_env unknown_call (no_meta, ({}, two_clients)) =
     (Inr (rpc_error (PInt 2) err_no msg), (no_meta, ({}, two_clients)))"
proof -
  let ?params = "[(''name'', PStr ''nope.x'')]"
  have parsed: "request_context example_daemon_env (PDict ?params) = Inr (None, [], None)"
    by (simp add: request_context_def session_id_from_params_def session_context_from_params_def
        param_or_meta_def broker_meta_def effective_profile_def profile_from_params_def
        example_daemon_env_def select_profile_for_cwd_def)
  have "\<not> is_result (resolve_call_route (daemon_core clients_config None) ''nope.x'')" by code_simp
  then obtain e where refused: "resolve_call_route (daemon_core clients_config None) ''nope.x'' = Inl e"
    using not_is_result by blast
  have "called_tool None ''nope.x'' [] = Some ''nope.x''" by (simp add: called_tool_def)
  from forbidden_call_has_no_effect [OF _ _ _ _ parsed this, of clients_config unknown_call
      "(no_meta, ({}, two_clients))"] refused
  show ?thesis by (simp add: example_daemon_env_def unknown_call_def)
qed

end
