(* ===== verification/Elicitation.thy ===== *)
theory Elicitation
  imports Json_Rpc
begin

text \<open>
  The relay of an upstream's approval request to the host of the caller (\<^verbatim>\<open>elicitation.py\<close>). A call
  has at most one relay, on the caller's own connection, with the elicitation capabilities the
  caller announced. The connection is behind an environment; what the host sends back is a list of
  events, so that the deadline and the timeouts of the socket are the environment's.
\<close>

section \<open>The relay of a call\<close>

record relay =
  rl_capabilities :: pydict
  rl_max_bytes :: int

definition relay_capabilities :: "pyval \<Rightarrow> pydict" where
  "relay_capabilities capabilities =
     (case capabilities of
        PDict d \<Rightarrow> (case dget d ''elicitation'' of PDict v \<Rightarrow> [(''elicitation'', PDict v)] | _ \<Rightarrow> [])
      | _ \<Rightarrow> [])"

definition elicitation_scope :: "pyval \<Rightarrow> int \<Rightarrow> relay" where
  "elicitation_scope request max_bytes =
     (let params = (case request of PDict d \<Rightarrow> dget_or d ''params'' (PDict []) | _ \<Rightarrow> PDict []);
          capabilities = (case params of
            PDict p \<Rightarrow> dget_or p ''broker_client_capabilities'' (PDict []) | _ \<Rightarrow> PDict [])
      in \<lparr>rl_capabilities = relay_capabilities capabilities, rl_max_bytes = max_bytes\<rparr>)"

definition client_capabilities :: "relay option \<Rightarrow> bool \<Rightarrow> pydict" where
  "client_capabilities relay enabled =
     (case relay of None \<Rightarrow> [] | Some r \<Rightarrow> if enabled then rl_capabilities r else [])"

definition relay_error :: "pyval \<Rightarrow> string \<Rightarrow> pydict" where
  "relay_error request_id message = [(''jsonrpc'', PStr ''2.0''), (''id'', request_id),
     (''error'', PDict [(''code'', PInt (- 32601)), (''message'', PStr message)])]"

text \<open>The host announced no mode at all, which means the form, or the mode that is asked for.\<close>

definition elicitation_supported :: "pydict \<Rightarrow> pydict \<Rightarrow> bool" where
  "elicitation_supported capabilities request =
     (let mode = (case dget_or request ''params'' (PDict []) of
            PDict p \<Rightarrow> dget_or p ''mode'' (PStr ''form'') | _ \<Rightarrow> PNone)
      in case dget capabilities ''elicitation'' of
           PDict capability \<Rightarrow>
             (mode = PStr ''form'' \<and> (capability = [] \<or> is_dict (dget capability ''form''))) \<or>
             (mode = PStr ''url'' \<and> is_dict (dget capability ''url''))
         | _ \<Rightarrow> False)"

section \<open>The exchange with the host\<close>

text \<open>
  What happens on the connection while the reply is awaited: bytes, a time after the deadline when
  the loop looks at the clock, or an \<open>OSError\<close> of \<open>recv\<close>; which of them depends on the deadline. After the last event the host is gone.
\<close>

datatype host_event = HostChunk string | DeadlinePassed | HostFailure string

record 'w host_env =
  he_uuid :: "('w, exn, string) sem"
  he_send :: "string \<Rightarrow> ('w, exn, unit) sem"
  he_events :: "rat \<Rightarrow> ('w, exn, host_event list) sem"
  he_loads :: "string \<Rightarrow> pyval res"

definition relay_failed :: "string \<Rightarrow> exn" where
  "relay_failed m = Exn ElicitationRelayError m"

definition is_os_error :: "exn \<Rightarrow> bool" where
  "is_os_error e \<longleftrightarrow> is_class OSError e \<or> is_class FileNotFoundError e \<or> is_class ProcessLookupError e \<or>
     is_class PermissionError e \<or> is_class TimeoutError e"

fun read_reply :: "int \<Rightarrow> string \<Rightarrow> host_event list \<Rightarrow> string res" where
  "read_reply max_bytes buffer events =
     (if CHR 0x0A \<in> set buffer then Inr buffer
      else case events of
        [] \<Rightarrow> Inl (relay_failed ''Elicitation host disconnected'')
      | DeadlinePassed # rest \<Rightarrow> Inl (relay_failed ''Elicitation host timed out'')
      | HostFailure m # rest \<Rightarrow> Inl (Exn OSError m)
      | HostChunk chunk # rest \<Rightarrow>
          if chunk = [] then Inl (relay_failed ''Elicitation host disconnected'')
          else if max_bytes < int (length (buffer @ chunk))
          then Inl (relay_failed ''Elicitation response exceeds request size limit'')
          else read_reply max_bytes (buffer @ chunk) rest)"

declare read_reply.simps [simp del]

definition valid_reply :: "pyval \<Rightarrow> string \<Rightarrow> bool" where
  "valid_reply response request_id =
     (case response of
        PDict d \<Rightarrow>
          dget d ''jsonrpc'' = PStr ''2.0'' \<and> dget d ''id'' = PStr request_id \<and> \<not> dhas d ''method'' \<and>
          (dhas d ''result'' \<noteq> dhas d ''error'') \<and>
          (if dhas d ''error'' then
             (case dget d ''error'' of
                PDict e \<Rightarrow> (case dget e ''code'' of PInt _ \<Rightarrow> is_str (dget e ''message'') | _ \<Rightarrow> False)
              | _ \<Rightarrow> False)
           else (case dget d ''result'' of
                PDict r \<Rightarrow> dget r ''action'' \<in> {PStr ''accept'', PStr ''decline'', PStr ''cancel''} \<and>
                  (\<not> dhas r ''content'' \<or> is_dict (dget r ''content''))
              | _ \<Rightarrow> False))
      | _ \<Rightarrow> False)"

text \<open>\<open>json.dumps\<close> without \<open>sort_keys\<close>: the keys in insertion order.\<close>

fun json_dumps_plain :: "pyval \<Rightarrow> string" where
  "json_dumps_plain (PList xs) = ''['' @ join '', '' (map json_dumps_plain xs) @ '']''"
| "json_dumps_plain (PDict d) =
     ''{'' @ join '', '' (map (\<lambda>(k, v). json_str k @ '': '' @ json_dumps_plain v) d) @ ''}''"
| "json_dumps_plain v = dumps v"

definition exchange :: "'w host_env \<Rightarrow> relay \<Rightarrow> string \<Rightarrow> rat \<Rightarrow> pydict \<Rightarrow> ('w, exn, pydict) sem" where
  "exchange env relay relay_id deadline request =
     seqS (he_send env (json_dumps_plain (PDict (AList.update ''id'' (PStr relay_id) request)) @ [CHR 0x0A]))
     (bindS (he_events env deadline) (\<lambda>events.
      bindS (liftS (bindE (read_reply (rl_max_bytes relay) [] events) (he_loads env))) (\<lambda>response.
      if \<not> valid_reply response relay_id
      then raiseS (relay_failed ''Invalid elicitation response from host'')
      else case response of
        PDict d \<Rightarrow> bindS (liftS (dindex request ''id'')) (\<lambda>i. returnS (AList.update ''id'' i d))
      | _ \<Rightarrow> raiseS (relay_failed ''Invalid elicitation response from host''))))"

definition host_request :: "'w host_env \<Rightarrow> relay \<Rightarrow> rat \<Rightarrow> pydict \<Rightarrow> ('w, exn, pydict) sem" where
  "host_request env relay deadline request =
     (if \<not> elicitation_supported (rl_capabilities relay) request
      then returnS (relay_error (dget request ''id'') ''Host does not support this elicitation mode'')
      else bindS (he_uuid env) (\<lambda>hex.
        catchS (exchange env relay (''broker-elicitation-'' @ hex) deadline request)
          (\<lambda>e. if is_os_error e \<or> is_value_error e
             then raiseS (relay_failed ''Elicitation host disconnected or timed out'') else raiseS e)))"

definition relay_request :: "'w host_env \<Rightarrow> relay option \<Rightarrow> bool \<Rightarrow> rat \<Rightarrow> pydict \<Rightarrow> ('w, exn, pydict) sem" where
  "relay_request env relay enabled deadline request =
     (case relay of
        None \<Rightarrow> returnS (relay_error (dget request ''id'') ''Client request relay unavailable'')
      | Some r \<Rightarrow>
          if \<not> enabled \<or> dget request ''method'' \<noteq> PStr ''elicitation/create''
          then returnS (relay_error (dget request ''id'') ''Client request relay unavailable'')
          else host_request env r deadline request)"

section \<open>Facts\<close>

text \<open>The reply of the host is bounded, and ends with the first newline that arrives.\<close>

lemma read_reply_bound:
  "read_reply n buffer events = Inr s \<Longrightarrow> int (length buffer) \<le> n \<Longrightarrow>
   int (length s) \<le> n \<and> CHR 0x0A \<in> set s"
proof (induction n buffer events rule: read_reply.induct)
  case (1 n buffer events)
  then show ?case
    by (auto simp: read_reply.simps [of n buffer events] split: if_splits list.splits host_event.splits)
qed

text \<open>What goes back to the upstream is a response to its own request.\<close>

definition reply_to :: "pydict \<Rightarrow> pydict \<Rightarrow> bool" where
  "reply_to request reply \<longleftrightarrow> dget reply ''id'' = dget request ''id'' \<and>
     (dhas reply ''result'' \<noteq> dhas reply ''error'') \<and> \<not> dhas reply ''method''"

lemma reply_to_relay_error [simp]: "reply_to request (relay_error (dget request ''id'') m)"
  by (simp add: reply_to_def relay_error_def)

lemma reply_to_valid:
  "valid_reply (PDict d) i \<Longrightarrow> dindex request ''id'' = Inr v \<Longrightarrow> reply_to request (AList.update ''id'' v d)"
  by (auto simp: reply_to_def valid_reply_def dget_def dget_or_def dhas_def dindex_def split: option.splits)

lemma exchange_reply: "triple P (exchange env relay i deadline request) (\<lambda>reply s. reply_to request reply) (\<lambda>e s. True)"
  unfolding exchange_def
  apply (rule triple_seq [where R = "\<lambda>_. True"], simp add: triple_def split: prod.splits sum.splits)
  apply (rule triple_bind [where R = "\<lambda>_ _. True"], simp add: triple_def split: prod.splits sum.splits)
  apply (rule triple_bind [where R = "\<lambda>_ _. True"], simp add: triple_def split: prod.splits sum.splits)
  apply (auto simp: triple_def monad_simps split: pyval.splits sum.splits intro: reply_to_valid)
  done

lemma host_request_reply:
  "triple P (host_request env relay deadline request) (\<lambda>reply s. reply_to request reply) (\<lambda>e s. True)"
  unfolding host_request_def
  apply (intro triple_if triple_return, simp)
  apply (rule triple_bind [where R = "\<lambda>_ _. True"], simp add: triple_def split: prod.splits sum.splits)
  apply (rule triple_catch [OF exchange_reply])
  apply (simp add: triple_def raiseS_def)
  done

lemma relay_request_reply:
  "relay_request env relay enabled deadline request s = (Inr reply, s') \<Longrightarrow> reply_to request reply"
  using tripleD [OF host_request_reply [where P = "\<lambda>_. True"]]
  by (auto simp: relay_request_def monad_simps split: option.splits if_splits)

lemma relay_request_disabled:
  "\<not> enabled \<Longrightarrow> relay_request env relay enabled deadline request s =
     (Inr (relay_error (dget request ''id'') ''Client request relay unavailable''), s)"
  by (simp add: relay_request_def monad_simps split: option.splits)

end
