(* ===== verification/Runtime_Reaper.thy ===== *)
theory Runtime_Reaper
  imports Json_Files
begin

text \<open>
  What a broker that starts does with the leavings of an earlier one (\<^verbatim>\<open>runtime_reaper.py\<close>): it
  kills the process groups of upstreams whose broker is gone and removes the records and sockets
  of processes that no longer exist. The processes of the host are asked through an environment
  whose answers may depend on the signals sent before; the directories of the runtime root are the
  state. Creating a directory and removing a file do not fail.
\<close>

section \<open>The host's processes\<close>

text \<open>
  \<open>os.kill(pid, 0)\<close>, \<open>os.killpg(pgid, 0)\<close> and \<open>os.killpg(pgid, SIGKILL)\<close> return, or raise the
  exception given. \<open>pv_stat\<close> is the text of \<open>/proc/<pid>/stat\<close>, \<open>pv_lstart\<close> the output of
  \<open>ps -o lstart=\<close>; \<open>None\<close> is a failure to read either.
\<close>

type_synonym signals = "int list"

record proc_env =
  pv_kill :: "signals \<Rightarrow> int \<Rightarrow> exn option"
  pv_killpg :: "signals \<Rightarrow> int \<Rightarrow> exn option"
  pv_sigkill :: "signals \<Rightarrow> int \<Rightarrow> exn option"
  pv_linux :: bool
  pv_stat :: "signals \<Rightarrow> int \<Rightarrow> string option"
  pv_lstart :: "signals \<Rightarrow> int \<Rightarrow> string option"

text \<open>The fields after the last closing parenthesis; the twentieth is the start time.\<close>

definition linux_start_time :: "proc_env \<Rightarrow> signals \<Rightarrow> int \<Rightarrow> string option" where
  "linux_start_time pv h pid =
     (case pv_stat pv h pid of
        None \<Rightarrow> None
      | Some stat \<Rightarrow>
          if CHR '')'' \<notin> set stat then None
          else let after = rev (takeWhile (\<lambda>c. c \<noteq> CHR '')'') (rev stat));
                   fields = split_ws (drop 1 after)
               in if 19 < length fields then Some (fields ! 19) else None)"

definition darwin_start_time :: "proc_env \<Rightarrow> signals \<Rightarrow> int \<Rightarrow> string option" where
  "darwin_start_time pv h pid =
     (case pv_lstart pv h pid of
        None \<Rightarrow> None
      | Some out \<Rightarrow> if strip out = [] then None else Some (strip out))"

definition process_start_time :: "proc_env \<Rightarrow> signals \<Rightarrow> int \<Rightarrow> string option" where
  "process_start_time pv h pid =
     (if pid \<le> 0 then None
      else if pv_linux pv then linux_start_time pv h pid else darwin_start_time pv h pid)"

definition exists_answer :: "exn option \<Rightarrow> bool res" where
  "exists_answer a =
     (case a of
        None \<Rightarrow> Inr True
      | Some e \<Rightarrow> if is_class ProcessLookupError e then Inr False
          else if is_class PermissionError e then Inr True else Inl e)"

definition process_exists :: "proc_env \<Rightarrow> signals \<Rightarrow> int \<Rightarrow> bool res" where
  "process_exists pv h pid = exists_answer (pv_kill pv h pid)"

definition process_group_exists :: "proc_env \<Rightarrow> signals \<Rightarrow> int \<Rightarrow> bool res" where
  "process_group_exists pv h pgid = exists_answer (pv_killpg pv h pgid)"

definition recorded_identity :: "pydict \<Rightarrow> string \<Rightarrow> string option" where
  "recorded_identity metadata key =
     (case dget metadata key of PStr s \<Rightarrow> if s = [] then None else Some s | _ \<Rightarrow> None)"

definition pid_still_owns_metadata :: "proc_env \<Rightarrow> signals \<Rightarrow> int \<Rightarrow> string option \<Rightarrow> bool res" where
  "pid_still_owns_metadata pv h pid recorded =
     bindE (process_exists pv h pid) (\<lambda>alive.
       if \<not> alive then Inr False
       else case recorded of
         None \<Rightarrow> Inr True
       | Some identity \<Rightarrow> (case process_start_time pv h pid of
           None \<Rightarrow> Inr True | Some live \<Rightarrow> Inr (live = identity)))"

section \<open>The runtime root\<close>

definition OWNER :: string where
  "OWNER = ''mcp-broker''"

text \<open>The files of \<open>run/upstreams\<close> and \<open>run/sockets\<close> by name, the sockets, the groups killed.\<close>

record reaper_state =
  rr_upstreams :: "(string \<times> json_file) list"
  rr_owners :: "(string \<times> json_file) list"
  rr_sockets :: "path list"
  rr_kills :: signals

type_synonym 'a reaper_sem = "(reaper_state, exn, 'a) sem"

definition read_metadata :: "(string \<times> json_file) list \<Rightarrow> string \<Rightarrow> pydict res" where
  "read_metadata files name =
     (case map_of files name of
        Some (Content (PDict d)) \<Rightarrow> Inr d
      | Some (Content v) \<Rightarrow> Inl (Exn AttributeError (type_name v @ '' has no attribute get''))
      | Some Corrupt \<Rightarrow> Inl (Exn JSONDecodeError name)
      | _ \<Rightarrow> Inl (Exn FileNotFoundError name))"

definition metadata_names :: "(string \<times> json_file) list \<Rightarrow> string list" where
  "metadata_names files = sort (filter (suffix ''.json'') (map fst files))"

definition process_metadata :: "proc_env \<Rightarrow> signals \<Rightarrow> string \<Rightarrow> int \<Rightarrow> int \<Rightarrow> int \<Rightarrow> pydict" where
  "process_metadata pv h name pid process_group_id broker_pid =
     [(''owner'', PStr OWNER), (''process_group_id'', PInt process_group_id), (''pid'', PInt pid),
      (''name'', PStr name), (''broker_pid'', PInt broker_pid),
      (''start_time'', case process_start_time pv h pid of None \<Rightarrow> PNone | Some t \<Rightarrow> PStr t),
      (''broker_start_time'', case process_start_time pv h broker_pid of None \<Rightarrow> PNone | Some t \<Rightarrow> PStr t)]"

definition socket_metadata :: "proc_env \<Rightarrow> signals \<Rightarrow> string \<Rightarrow> int \<Rightarrow> int \<Rightarrow> pydict" where
  "socket_metadata pv h socket_name pid broker_pid =
     [(''socket_name'', PStr socket_name), (''pid'', PInt pid), (''owner'', PStr OWNER),
      (''broker_pid'', PInt broker_pid),
      (''start_time'', case process_start_time pv h pid of None \<Rightarrow> PNone | Some t \<Rightarrow> PStr t)]"

definition write_process_metadata :: "proc_env \<Rightarrow> string \<Rightarrow> int \<Rightarrow> int \<Rightarrow> int \<Rightarrow> string reaper_sem" where
  "write_process_metadata pv name pid process_group_id broker_pid =
     bindS getS (\<lambda>s. seqS (modifyS (\<lambda>s. s\<lparr>rr_upstreams := AList.update (name @ ''.json'')
         (Content (PDict (process_metadata pv (rr_kills s) name pid process_group_id broker_pid)))
         (rr_upstreams s)\<rparr>))
       (returnS (name @ ''.json'')))"

definition write_socket_metadata :: "proc_env \<Rightarrow> string \<Rightarrow> int \<Rightarrow> int \<Rightarrow> string reaper_sem" where
  "write_socket_metadata pv socket_name pid broker_pid =
     seqS (modifyS (\<lambda>s. s\<lparr>rr_owners := AList.update (socket_name @ ''.json'')
         (Content (PDict (socket_metadata pv (rr_kills s) socket_name pid broker_pid))) (rr_owners s)\<rparr>))
       (returnS (socket_name @ ''.json''))"

section \<open>Reaping\<close>

datatype reap_outcome = Kept | Killed string | Stale string

text \<open>The name, the process, the broker and the group that a record names.\<close>

definition upstream_owner :: "pydict \<Rightarrow> (string \<times> int \<times> int \<times> int) res" where
  "upstream_owner metadata =
     bindE (dindex metadata ''name'') (\<lambda>name.
     bindE (bindE (dindex metadata ''pid'') py_int) (\<lambda>pid.
     bindE (py_int (dget_or metadata ''broker_pid'' (PInt pid))) (\<lambda>broker_pid.
     bindE (py_int (dget_or metadata ''process_group_id'' (PInt pid))) (\<lambda>process_group_id.
     Inr (py_str name, pid, broker_pid, process_group_id)))))"

definition kill_process_group :: "proc_env \<Rightarrow> int \<Rightarrow> unit reaper_sem" where
  "kill_process_group pv pgid =
     bindS getS (\<lambda>s. case pv_sigkill pv (rr_kills s) pgid of
        None \<Rightarrow> modifyS (\<lambda>s. s\<lparr>rr_kills := rr_kills s @ [pgid]\<rparr>)
      | Some e \<Rightarrow> if is_class ProcessLookupError e then returnS () else raiseS e)"

definition unlink_upstream :: "string \<Rightarrow> unit reaper_sem" where
  "unlink_upstream name = modifyS (\<lambda>s. s\<lparr>rr_upstreams := AList.delete name (rr_upstreams s)\<rparr>)"

text \<open>What is to be done about a record, given the processes there are; nothing changes yet.\<close>

datatype verdict = Keep | Orphan string int | Gone string

definition judge_upstream :: "proc_env \<Rightarrow> signals \<Rightarrow> pydict \<Rightarrow> verdict res" where
  "judge_upstream pv h metadata =
     (if dget metadata ''owner'' \<noteq> PStr OWNER then Inr Keep
      else bindE (upstream_owner metadata) (\<lambda>(name, pid, broker_pid, process_group_id).
        bindE (pid_still_owns_metadata pv h broker_pid (recorded_identity metadata ''broker_start_time''))
          (\<lambda>broker_alive.
        bindE (if broker_alive then Inr False else process_group_exists pv h process_group_id) (\<lambda>orphan.
        if orphan then Inr (Orphan name process_group_id)
        else bindE (pid_still_owns_metadata pv h pid (recorded_identity metadata ''start_time'')) (\<lambda>owned.
          Inr (if owned then Keep else Gone name))))))"

definition reap_upstream :: "proc_env \<Rightarrow> string \<Rightarrow> reap_outcome reaper_sem" where
  "reap_upstream pv file =
     bindS getS (\<lambda>s.
     bindS (liftS (bindE (read_metadata (rr_upstreams s) file) (judge_upstream pv (rr_kills s)))) (\<lambda>v.
     case v of
       Keep \<Rightarrow> returnS Kept
     | Orphan name process_group_id \<Rightarrow>
         seqS (kill_process_group pv process_group_id)
           (seqS (unlink_upstream file) (returnS (Killed name)))
     | Gone name \<Rightarrow> seqS (unlink_upstream file) (returnS (Stale name))))"

definition judge_socket :: "proc_env \<Rightarrow> signals \<Rightarrow> pydict \<Rightarrow> verdict res" where
  "judge_socket pv h metadata =
     (if dget metadata ''owner'' \<noteq> PStr OWNER then Inr Keep
      else bindE (dindex metadata ''socket_name'') (\<lambda>socket_name.
        bindE (bindE (dindex metadata ''pid'') py_int) (\<lambda>pid.
        bindE (pid_still_owns_metadata pv h pid (recorded_identity metadata ''start_time'')) (\<lambda>owned.
          Inr (if owned then Keep else Gone (py_str socket_name))))))"

definition reap_socket :: "proc_env \<Rightarrow> path \<Rightarrow> string \<Rightarrow> reap_outcome reaper_sem" where
  "reap_socket pv sockets_dir file =
     bindS getS (\<lambda>s.
     bindS (liftS (bindE (read_metadata (rr_owners s) file) (judge_socket pv (rr_kills s)))) (\<lambda>v.
     case v of
       Gone socket_name \<Rightarrow>
         seqS (modifyS (\<lambda>s. s\<lparr>rr_sockets := filter (\<lambda>p. p \<noteq> path_join sockets_dir socket_name)
             (rr_sockets s), rr_owners := AList.delete file (rr_owners s)\<rparr>))
           (returnS (Stale socket_name))
     | _ \<Rightarrow> returnS Kept))"

fun reap_files :: "(string \<Rightarrow> reap_outcome reaper_sem) \<Rightarrow> string list \<Rightarrow> reap_outcome list reaper_sem" where
  "reap_files f [] = returnS []"
| "reap_files f (x # xs) = bindS (f x) (\<lambda>r. bindS (reap_files f xs) (\<lambda>rs. returnS (r # rs)))"

record reap_report =
  rp_stale_pidfiles :: "string list"
  rp_killed_orphans :: "string list"
  rp_stale_sockets :: "string list"

fun killed_name :: "reap_outcome \<Rightarrow> string option" where
  "killed_name (Killed n) = Some n"
| "killed_name _ = None"

fun stale_name :: "reap_outcome \<Rightarrow> string option" where
  "stale_name (Stale n) = Some n"
| "stale_name _ = None"

definition reap :: "proc_env \<Rightarrow> path \<Rightarrow> reap_report reaper_sem" where
  "reap pv runtime_root =
     bindS (bindS getS (\<lambda>s. reap_files (reap_upstream pv) (metadata_names (rr_upstreams s)))) (\<lambda>ups.
     bindS (bindS getS (\<lambda>s. reap_files (reap_socket pv (path_join runtime_root ''sockets''))
         (metadata_names (rr_owners s)))) (\<lambda>socks.
     returnS \<lparr>rp_stale_pidfiles = List.map_filter stale_name ups,
       rp_killed_orphans = List.map_filter killed_name ups,
       rp_stale_sockets = List.map_filter stale_name socks\<rparr>))"

definition format_report :: "reap_report \<Rightarrow> string list" where
  "format_report r =
     (let lines =
       (if rp_stale_pidfiles r = [] then []
        else [''reaped stale pidfiles: '' @ join '', '' (rp_stale_pidfiles r)]) @
       (if rp_killed_orphans r = [] then []
        else [''killed orphan process groups: '' @ join '', '' (rp_killed_orphans r)]) @
       (if rp_stale_sockets r = [] then []
        else [''removed stale sockets: '' @ join '', '' (rp_stale_sockets r)])
      in if lines = [] then [''runtime reaper found no stale broker-owned resources''] else lines)"

end
