(* ===== verification/Reaper_Facts.thy ===== *)
theory Reaper_Facts
  imports Runtime_Reaper
begin

text \<open>
  What a broker that starts destroys: only process groups whose record says that their broker is
  gone, never the record or the socket of a process that still owns it, and everything there is to
  reap in one pass.
\<close>

section \<open>One record\<close>

text \<open>The record of \<open>files\<close> names the group \<open>g\<close>, whose broker is gone while the group is not.\<close>

definition orphan_record :: "proc_env \<Rightarrow> signals \<Rightarrow> (string \<times> json_file) list \<Rightarrow> int \<Rightarrow> bool" where
  "orphan_record pv h files g \<longleftrightarrow> (\<exists>file d name pid broker_pid.
     map_of files file = Some (Content (PDict d)) \<and> dget d ''owner'' = PStr OWNER \<and>
     upstream_owner d = Inr (name, pid, broker_pid, g) \<and>
     pid_still_owns_metadata pv h broker_pid (recorded_identity d ''broker_start_time'') = Inr False \<and>
     process_group_exists pv h g = Inr True)"

text \<open>The record is one of the broker's, and broker and process are both still the ones it names.\<close>

definition live_record :: "proc_env \<Rightarrow> signals \<Rightarrow> pydict \<Rightarrow> bool" where
  "live_record pv h d \<longleftrightarrow> (\<exists>name pid broker_pid g. upstream_owner d = Inr (name, pid, broker_pid, g) \<and>
     pid_still_owns_metadata pv h broker_pid (recorded_identity d ''broker_start_time'') = Inr True \<and>
     pid_still_owns_metadata pv h pid (recorded_identity d ''start_time'') = Inr True)"

lemma read_metadata_Inr:
  "read_metadata files f = Inr d \<longleftrightarrow> map_of files f = Some (Content (PDict d))"
  by (auto simp: read_metadata_def split: option.splits json_file.splits pyval.splits)

lemma judge_upstream_orphan:
  "judge_upstream pv h d = Inr (Orphan name g) \<Longrightarrow> map_of files f = Some (Content (PDict d)) \<Longrightarrow>
   orphan_record pv h files g"
  unfolding orphan_record_def judge_upstream_def
  by (rule exI [where x = f], rule exI [where x = d]) (auto simp: bindE_eq_Inr split: if_splits)

lemma judge_upstream_live: "live_record pv h d \<Longrightarrow> judge_upstream pv h d = Inr Keep"
  by (auto simp: judge_upstream_def live_record_def bindE_def)

text \<open>The effect of one step of the reaper, whatever its outcome.\<close>

definition unlinked :: "string \<Rightarrow> reaper_state \<Rightarrow> reaper_state" where
  "unlinked f s = s\<lparr>rr_upstreams := AList.delete f (rr_upstreams s)\<rparr>"

definition signalled :: "int \<Rightarrow> reaper_state \<Rightarrow> reaper_state" where
  "signalled g s = s\<lparr>rr_kills := rr_kills s @ [g]\<rparr>"

lemma reap_upstream_cases:
  assumes "reap_upstream pv f s = (r, s')"
  shows "s' = s \<or>
    (\<exists>d. map_of (rr_upstreams s) f = Some (Content (PDict d)) \<and> \<not> live_record pv (rr_kills s) d \<and>
       (s' = unlinked f s \<or>
        (\<exists>g. orphan_record pv (rr_kills s) (rr_upstreams s) g \<and> s' = unlinked f (signalled g s))))"
proof (cases "bindE (read_metadata (rr_upstreams s) f) (judge_upstream pv (rr_kills s))")
  case (Inl e)
  with assms show ?thesis by (simp add: reap_upstream_def monad_simps)
next
  case (Inr v)
  then obtain d where d: "map_of (rr_upstreams s) f = Some (Content (PDict d))"
    and v: "judge_upstream pv (rr_kills s) d = Inr v"
    by (auto simp: bindE_eq_Inr read_metadata_Inr)
  show ?thesis
  proof (cases v)
    case Keep
    with assms Inr show ?thesis by (simp add: reap_upstream_def monad_simps)
  next
    case (Gone name)
    with assms Inr have "s' = unlinked f s"
      by (simp add: reap_upstream_def monad_simps unlink_upstream_def unlinked_def)
    with d v Gone judge_upstream_live show ?thesis by fastforce
  next
    case (Orphan name g)
    have o: "orphan_record pv (rr_kills s) (rr_upstreams s) g"
      using judge_upstream_orphan v Orphan d by blast
    have "s' = s \<or> s' = unlinked f s \<or> s' = unlinked f (signalled g s)"
      using assms Inr Orphan
      by (auto simp: reap_upstream_def monad_simps unlink_upstream_def unlinked_def signalled_def
          kill_process_group_def split: option.splits if_splits)
    moreover have "\<not> live_record pv (rr_kills s) d"
      using v Orphan judge_upstream_live by fastforce
    ultimately show ?thesis using d o by blast
  qed
qed

lemma reap_socket_cases:
  assumes "reap_socket pv dir f s = (r, s')"
  shows "rr_upstreams s' = rr_upstreams s \<and> rr_kills s' = rr_kills s"
  using assms by (auto simp: reap_socket_def monad_simps split: sum.splits verdict.splits)

section \<open>A pass over all records\<close>

lemma reap_files_preserves: "(\<And>f. preserves I (step f)) \<Longrightarrow> preserves I (reap_files step fs)"
  by (induction fs) (auto intro: preserves_bind)

text \<open>Since \<open>s0\<close>, only orphans were killed, in the situation of the moment, and no record was changed.\<close>

definition reaped_from :: "proc_env \<Rightarrow> reaper_state \<Rightarrow> reaper_state \<Rightarrow> bool" where
  "reaped_from pv s0 s \<longleftrightarrow> (\<exists>kills. rr_kills s = rr_kills s0 @ kills \<and>
     (\<forall>i < length kills. orphan_record pv (rr_kills s0 @ take i kills) (rr_upstreams s0) (kills ! i))) \<and>
     (\<forall>f c. map_of (rr_upstreams s) f = Some c \<longrightarrow> map_of (rr_upstreams s0) f = Some c)"

lemma orphan_record_sub:
  "orphan_record pv h files g \<Longrightarrow> (\<And>f c. map_of files f = Some c \<Longrightarrow> map_of files' f = Some c) \<Longrightarrow>
   orphan_record pv h files' g"
  unfolding orphan_record_def by blast

lemma reaped_from_unlinked: "reaped_from pv s0 s \<Longrightarrow> reaped_from pv s0 (unlinked f s)"
  by (auto simp: reaped_from_def unlinked_def delete_conv' split: if_splits)

lemma reaped_from_signalled:
  assumes "reaped_from pv s0 s" and "orphan_record pv (rr_kills s) (rr_upstreams s) g"
  shows "reaped_from pv s0 (signalled g s)"
proof -
  obtain kills where k: "rr_kills s = rr_kills s0 @ kills"
      "\<forall>i < length kills. orphan_record pv (rr_kills s0 @ take i kills) (rr_upstreams s0) (kills ! i)"
    and sub: "\<And>f c. map_of (rr_upstreams s) f = Some c \<Longrightarrow> map_of (rr_upstreams s0) f = Some c"
    using assms(1) by (auto simp: reaped_from_def)
  have "orphan_record pv (rr_kills s) (rr_upstreams s0) g"
    by (rule orphan_record_sub [OF assms(2) sub])
  with k have "\<forall>i < length (kills @ [g]).
      orphan_record pv (rr_kills s0 @ take i (kills @ [g])) (rr_upstreams s0) ((kills @ [g]) ! i)"
    by (auto simp: nth_append less_Suc_eq)
  with k(1) sub show ?thesis
    unfolding reaped_from_def signalled_def by (intro conjI exI [where x = "kills @ [g]"]) simp_all
qed

lemma preserves_reaped_from: "preserves (reaped_from pv s0) (reap_upstream pv f)"
proof (rule preservesI)
  fix s assume s: "reaped_from pv s0 s"
  obtain r s' where run: "reap_upstream pv f s = (r, s')" by (metis prod.exhaust)
  from reap_upstream_cases [OF run] s have "reaped_from pv s0 s'"
    by (auto intro: reaped_from_unlinked reaped_from_signalled)
  with run show "reaped_from pv s0 (snd (reap_upstream pv f s))" by simp
qed

lemma preserves_socket: "preserves (reaped_from pv s0) (reap_socket pv dir f)"
proof (rule preservesI)
  fix s assume s: "reaped_from pv s0 s"
  obtain r s' where run: "reap_socket pv dir f s = (r, s')" by (metis prod.exhaust)
  from reap_socket_cases [OF run] s run show "reaped_from pv s0 (snd (reap_socket pv dir f s))"
    by (simp add: reaped_from_def)
qed

lemma reap_reaped_from: "reaped_from pv s (snd (reap pv runtime_root s))"
proof (rule preservesD)
  show "preserves (reaped_from pv s) (reap pv runtime_root)"
    unfolding reap_def
    by (intro preserves_bind preserves_get preserves_return reap_files_preserves preserves_reaped_from
        preserves_socket)
  show "reaped_from pv s s" by (simp add: reaped_from_def)
qed

text \<open>C17. Whatever the files say and however the reaper ends, it sends \<open>SIGKILL\<close> only to a process group
  that exists and that a record of the runtime root names, at a moment when the broker of that
  record no longer runs.\<close>

theorem reap_kills_only_orphans:
  assumes "reap pv runtime_root s = (r, s')"
  shows "\<exists>kills. rr_kills s' = rr_kills s @ kills \<and> (\<forall>i < length kills.
    orphan_record pv (rr_kills s @ take i kills) (rr_upstreams s) (kills ! i))"
  using reap_reaped_from [of pv s runtime_root] assms by (simp add: reaped_from_def)

lemma live_record_kept:
  assumes "map_of (rr_upstreams s) f = Some (Content (PDict d))" and "\<And>h. live_record pv h d"
    and "reap pv runtime_root s = (r, s')"
  shows "map_of (rr_upstreams s') f = Some (Content (PDict d))"
proof -
  let ?I = "\<lambda>s. map_of (rr_upstreams s) f = Some (Content (PDict d))"
  have "preserves ?I (reap_upstream pv g)" for g
  proof (rule preservesI)
    fix t :: reaper_state assume t: "?I t"
    obtain r t' where run: "reap_upstream pv g t = (r, t')" by (metis prod.exhaust)
    from reap_upstream_cases [OF run] t assms(2) have "?I t'"
      by (cases "g = f") (auto simp: unlinked_def signalled_def delete_conv')
    with run show "?I (snd (reap_upstream pv g t))" by simp
  qed
  moreover have "preserves ?I (reap_socket pv dir g)" for dir g
    by (rule preservesI) (metis prod.collapse reap_socket_cases)
  ultimately have "preserves ?I (reap pv runtime_root)"
    unfolding reap_def by (intro preserves_bind preserves_get preserves_return reap_files_preserves)
  from preservesD [OF this assms(1)] assms(3) show ?thesis by simp
qed

section \<open>One pass is enough\<close>

text \<open>No process starts or ends: the judgement about a record does not depend on the signals sent.\<close>

definition still_host :: "proc_env \<Rightarrow> bool" where
  "still_host pv \<longleftrightarrow> (\<forall>h d. judge_upstream pv h d = judge_upstream pv [] d \<and>
     judge_socket pv h d = judge_socket pv [] d)"

definition settled :: "(pydict \<Rightarrow> verdict res) \<Rightarrow> (string \<times> json_file) list \<Rightarrow> string \<Rightarrow> bool" where
  "settled judge files f \<longleftrightarrow> map_of files f = None \<or> bindE (read_metadata files f) judge = Inr Keep"

lemma settled_delete: "settled judge files f \<Longrightarrow> settled judge (AList.delete g files) f"
  by (auto simp: settled_def delete_conv' read_metadata_def)

lemma settled_deleted: "settled judge (AList.delete f files) f"
  by (simp add: settled_def delete_conv')

lemma reap_files_settles:
  assumes "\<And>f s o' t. step f s = (Inr o', t) \<Longrightarrow> ok t f"
    and "\<And>f g s o' t. step g s = (Inr o', t) \<Longrightarrow> ok s f \<Longrightarrow> ok t f"
  shows "reap_files step fs s = (Inr outs, t) \<Longrightarrow> (\<forall>f \<in> set fs. ok t f) \<and> (\<forall>f. ok s f \<longrightarrow> ok t f)"
proof (induction fs arbitrary: s outs)
  case Nil
  then show ?case by (simp add: monad_simps)
next
  case (Cons f fs)
  then obtain o1 s1 os where s1: "step f s = (Inr o1, s1)" "reap_files step fs s1 = (Inr os, t)"
    by (auto simp: monad_simps split: prod.splits sum.splits)
  with Cons.IH [OF s1(2)] assms(1) [OF s1(1)] assms(2) [OF s1(1)] show ?case by auto
qed

lemma reap_files_idle:
  "(\<And>f. f \<in> set fs \<Longrightarrow> step f s = (Inr Kept, s)) \<Longrightarrow>
   reap_files step fs s = (Inr (replicate (length fs) Kept), s)"
  by (induction fs) (simp_all add: monad_simps)

lemma reap_upstream_settles:
  assumes still: "still_host pv" and run: "reap_upstream pv f s = (Inr o', t)"
  shows "settled (judge_upstream pv []) (rr_upstreams t) f"
proof (cases "t = s")
  case True
  from run obtain v where v: "bindE (read_metadata (rr_upstreams s) f) (judge_upstream pv (rr_kills s)) = Inr v"
    by (cases "bindE (read_metadata (rr_upstreams s) f) (judge_upstream pv (rr_kills s))")
      (simp_all add: reap_upstream_def monad_simps)
  have j: "judge_upstream pv (rr_kills s) = judge_upstream pv []"
    using still by (auto simp: still_host_def)
  have "v = Keep \<or> rr_upstreams t = AList.delete f (rr_upstreams s)"
    using run v by (cases v)
      (auto simp: reap_upstream_def monad_simps unlink_upstream_def kill_process_group_def
        split: option.splits if_splits prod.splits sum.splits)
  then show ?thesis
  proof
    assume "v = Keep"
    with v j True show ?thesis by (simp add: settled_def)
  qed (simp add: settled_deleted)
next
  case False
  with reap_upstream_cases [OF run] show ?thesis
    by (auto simp: unlinked_def signalled_def settled_deleted)
qed

lemma reap_upstream_settled:
  assumes "still_host pv" and "settled (judge_upstream pv []) (rr_upstreams s) f"
    and "map_of (rr_upstreams s) f \<noteq> None"
  shows "reap_upstream pv f s = (Inr Kept, s)"
proof -
  have "judge_upstream pv (rr_kills s) = judge_upstream pv []"
    using assms(1) by (auto simp: still_host_def)
  moreover have "bindE (read_metadata (rr_upstreams s) f) (judge_upstream pv []) = Inr Keep"
    using assms(2,3) unfolding settled_def by blast
  ultimately show ?thesis by (simp add: reap_upstream_def sem_simps bindS_apply)
qed

lemma reap_upstream_keeps_settled:
  "reap_upstream pv g s = (r, t) \<Longrightarrow> settled judge (rr_upstreams s) f \<Longrightarrow> settled judge (rr_upstreams t) f"
  using reap_upstream_cases [of pv g s r t] by (auto simp: unlinked_def signalled_def settled_delete)

lemma reap_socket_settles:
  assumes still: "still_host pv" and run: "reap_socket pv dir f s = (Inr o', t)"
  shows "settled (judge_socket pv []) (rr_owners t) f"
    and "settled judge (rr_owners s) g \<Longrightarrow> settled judge (rr_owners t) g"
proof -
  from run obtain v where v: "bindE (read_metadata (rr_owners s) f) (judge_socket pv (rr_kills s)) = Inr v"
    by (cases "bindE (read_metadata (rr_owners s) f) (judge_socket pv (rr_kills s))")
      (simp_all add: reap_socket_def monad_simps)
  have j: "judge_socket pv (rr_kills s) = judge_socket pv []"
    using still by (auto simp: still_host_def)
  have no: "judge_socket pv h d \<noteq> Inr (Orphan n i)" for h d n i
    by (auto simp: judge_socket_def bindE_eq_Inr split: if_splits)
  with v have "v \<noteq> Orphan n i" for n i by (auto simp: bindE_eq_Inr)
  then have "v = Keep \<and> rr_owners t = rr_owners s \<or> rr_owners t = AList.delete f (rr_owners s)"
    using run v by (cases v) (auto simp: reap_socket_def monad_simps)
  then show "settled (judge_socket pv []) (rr_owners t) f"
  proof
    assume "v = Keep \<and> rr_owners t = rr_owners s"
    with v j show ?thesis by (simp add: settled_def)
  qed (simp add: settled_deleted)
  show "settled judge (rr_owners s) g \<Longrightarrow> settled judge (rr_owners t) g"
    using \<open>v = Keep \<and> _ \<or> _\<close> by (auto simp: settled_delete)
qed

lemma metadata_names_dom: "set (metadata_names files) = {f \<in> dom (map_of files). suffix ''.json'' f}"
  by (auto simp: metadata_names_def dom_map_of_conv_image_fst)

lemma settled_names:
  assumes "\<forall>f \<in> set (metadata_names files). settled judge files' f"
    and "dom (map_of files') \<subseteq> dom (map_of files)"
  shows "\<forall>f \<in> set (metadata_names files'). settled judge files' f"
  using assms unfolding metadata_names_dom by blast

lemma reap_socket_dom: "preserves (\<lambda>s. rr_upstreams s = u \<and> dom (map_of (rr_owners s)) \<subseteq> D) (reap_socket pv dir f)"
  by (rule preservesI)
    (auto simp: reap_socket_def monad_simps delete_conv' split: sum.split verdict.split if_splits)

lemma reap_socket_settled:
  assumes "still_host pv" and "settled (judge_socket pv []) (rr_owners s) f" and "map_of (rr_owners s) f \<noteq> None"
  shows "reap_socket pv dir f s = (Inr Kept, s)"
proof -
  have "judge_socket pv (rr_kills s) = judge_socket pv []"
    using assms(1) by (auto simp: still_host_def)
  moreover have "bindE (read_metadata (rr_owners s) f) (judge_socket pv []) = Inr Keep"
    using assms(2,3) unfolding settled_def by blast
  ultimately show ?thesis by (simp add: reap_socket_def sem_simps bindS_apply)
qed

lemma map_filter_replicate: "g x = None \<Longrightarrow> List.map_filter g (replicate n x) = []"
  by (induction n) (simp_all add: List.map_filter_def)

text \<open>On a host where no process starts or ends, one pass reaps everything: a reaper that ran to its
  end has left records that a second one keeps all of, and that one kills nothing, removes nothing
  and reports nothing.\<close>

theorem reap_twice:
  assumes still: "still_host pv" and run: "reap pv runtime_root s = (Inr report, s')"
  shows "reap pv runtime_root s' =
    (Inr \<lparr>rp_stale_pidfiles = [], rp_killed_orphans = [], rp_stale_sockets = []\<rparr>, s')"
proof -
  let ?dir = "path_join runtime_root ''sockets''"
  let ?J = "judge_upstream pv []" and ?K = "judge_socket pv []"
  from run obtain ups s1 socks where
    up: "reap_files (reap_upstream pv) (metadata_names (rr_upstreams s)) s = (Inr ups, s1)" and
    so: "reap_files (reap_socket pv ?dir) (metadata_names (rr_owners s1)) s1 = (Inr socks, s')"
    by (auto simp: reap_def monad_simps split: prod.splits sum.splits)
  have U1: "\<forall>f \<in> set (metadata_names (rr_upstreams s)). settled ?J (rr_upstreams s1) f"
    using reap_files_settles [where ok = "\<lambda>s. settled ?J (rr_upstreams s)", OF _ _ up]
      reap_upstream_settles [OF still] reap_upstream_keeps_settled by blast
  have "preserves (reaped_from pv s) (reap_files (reap_upstream pv) fs)" for fs
    by (rule reap_files_preserves [OF preserves_reaped_from])
  from preservesD [OF this, of s "metadata_names (rr_upstreams s)"] up
  have "dom (map_of (rr_upstreams s1)) \<subseteq> dom (map_of (rr_upstreams s))"
    by (auto simp: reaped_from_def)
  from settled_names [OF U1 this] have U: "\<forall>f \<in> set (metadata_names (rr_upstreams s1)). settled ?J (rr_upstreams s1) f" .
  have S1: "\<forall>f \<in> set (metadata_names (rr_owners s1)). settled ?K (rr_owners s') f"
    using reap_files_settles [where ok = "\<lambda>s. settled ?K (rr_owners s)", OF _ _ so]
      reap_socket_settles [OF still] by blast
  have "preserves (\<lambda>s. rr_upstreams s = u \<and> dom (map_of (rr_owners s)) \<subseteq> D) (reap_files (reap_socket pv ?dir) fs)"
    for u D fs by (rule reap_files_preserves [OF reap_socket_dom])
  from preservesD [OF this, of s1 "rr_upstreams s1" "dom (map_of (rr_owners s1))" "metadata_names (rr_owners s1)"] so
  have s': "rr_upstreams s' = rr_upstreams s1" "dom (map_of (rr_owners s')) \<subseteq> dom (map_of (rr_owners s1))"
    by simp_all
  from settled_names [OF S1 s'(2)] have S: "\<forall>f \<in> set (metadata_names (rr_owners s')). settled ?K (rr_owners s') f" .
  have "reap_files (reap_upstream pv) (metadata_names (rr_upstreams s')) s' =
      (Inr (replicate (length (metadata_names (rr_upstreams s'))) Kept), s')"
    by (rule reap_files_idle, rule reap_upstream_settled [OF still])
      (use U s'(1) in \<open>auto simp: metadata_names_dom\<close>)
  moreover have "reap_files (reap_socket pv ?dir) (metadata_names (rr_owners s')) s' =
      (Inr (replicate (length (metadata_names (rr_owners s'))) Kept), s')"
    by (rule reap_files_idle, rule reap_socket_settled [OF still]) (use S in \<open>auto simp: metadata_names_dom\<close>)
  ultimately show ?thesis
    by (simp add: reap_def monad_simps map_filter_replicate)
qed

section \<open>Runs\<close>

text \<open>
  A host with the broker 1 and, under the number 20, a process that started at another time than
  the upstream its record was written for. The record's broker 10 is gone.
\<close>

definition stat_line :: "string \<Rightarrow> string" where
  "stat_line t = ''1 (x) S'' @ concat (replicate 18 '' 0'') @ [CHR '' ''] @ t"

definition recycled_host :: proc_env where
  "recycled_host = \<lparr>
     pv_kill = \<lambda>h p. if p = 1 \<or> p = 20 then None else Some (Exn ProcessLookupError ''''),
     pv_killpg = \<lambda>h g. if g = 20 then None else Some (Exn ProcessLookupError ''''),
     pv_sigkill = \<lambda>h g. None, pv_linux = True,
     pv_stat = \<lambda>h p. if p = 20 then Some (stat_line ''900'') else None, pv_lstart = \<lambda>h p. None\<rparr>"

definition old_record :: pydict where
  "old_record = [(''owner'', PStr OWNER), (''process_group_id'', PInt 20), (''pid'', PInt 20),
     (''name'', PStr ''git''), (''broker_pid'', PInt 10), (''start_time'', PStr ''500''),
     (''broker_start_time'', PStr ''400'')]"

definition recycled_state :: reaper_state where
  "recycled_state = \<lparr>rr_upstreams = [(''git.json'', Content (PDict old_record))], rr_owners = [],
     rr_sockets = [], rr_kills = []\<rparr>"

lemma reap_kills_only_orphans_witness:
  "\<exists>r s'. reap recycled_host (path_of ''/r'') recycled_state = (r, s') \<and> rr_kills s' = [20] \<and>
     orphan_record recycled_host [] (rr_upstreams recycled_state) 20"
proof -
  obtain r s' where run: "reap recycled_host (path_of ''/r'') recycled_state = (r, s')" by (metis prod.exhaust)
  have "rr_kills (snd (reap recycled_host (path_of ''/r'') recycled_state)) = [20]" by code_simp
  with run have k: "rr_kills s' = [20]" by simp
  from reap_kills_only_orphans [OF run] k
  have "orphan_record recycled_host [] (rr_upstreams recycled_state) 20"
    by (auto simp: recycled_state_def)
  with run k show ?thesis by blast
qed

text \<open>
  The identity of the leader is compared before its record is removed, but not before the group is
  killed: the group 20 belongs to a process the broker never started.
\<close>

lemma reap_kills_recycled_group:
  "pid_still_owns_metadata recycled_host [] 20 (recorded_identity old_record ''start_time'') = Inr False \<and>
   rr_kills (snd (reap recycled_host (path_of ''/r'') recycled_state)) = [20]"
  by code_simp

lemma reap_twice_witness:
  "reap recycled_host (path_of ''/r'') (snd (reap recycled_host (path_of ''/r'') recycled_state)) =
     (Inr \<lparr>rp_stale_pidfiles = [], rp_killed_orphans = [], rp_stale_sockets = []\<rparr>,
      snd (reap recycled_host (path_of ''/r'') recycled_state))"
proof (rule reap_twice)
  show "still_host recycled_host"
    unfolding still_host_def
  proof (intro allI)
    fix h d
    have env: "pv_kill recycled_host h = pv_kill recycled_host []"
      "pv_killpg recycled_host h = pv_killpg recycled_host []"
      "pv_stat recycled_host h = pv_stat recycled_host []" "pv_lstart recycled_host h = pv_lstart recycled_host []"
      by (simp_all add: recycled_host_def)
    have start: "process_start_time recycled_host h = process_start_time recycled_host []"
      by (intro ext) (simp add: process_start_time_def linux_start_time_def darwin_start_time_def env)
    have owns: "pid_still_owns_metadata recycled_host h = pid_still_owns_metadata recycled_host []"
      by (intro ext) (simp only: pid_still_owns_metadata_def process_exists_def env start)
    show "judge_upstream recycled_host h d = judge_upstream recycled_host [] d \<and>
        judge_socket recycled_host h d = judge_socket recycled_host [] d"
      by (simp only: judge_upstream_def judge_socket_def process_group_exists_def env owns simp_thms)
  qed
  have "is_result (fst (reap recycled_host (path_of ''/r'') recycled_state))" by code_simp
  then show "reap recycled_host (path_of ''/r'') recycled_state =
      (Inr (result_of (fst (reap recycled_host (path_of ''/r'') recycled_state))),
       snd (reap recycled_host (path_of ''/r'') recycled_state))"
    by (rule run_result)
qed

end
