(* ===== verification/Upstream_Stdio.thy ===== *)
theory Upstream_Stdio
  imports Elicitation Request_Meta Runtime_Reaper
begin

text \<open>
  The client of an upstream that speaks JSON-RPC over the pipes of a child process
  (\<^verbatim>\<open>upstream_stdio.py\<close>). Its state is the record \<open>stdio_client\<close>; the operating system is an
  environment of operations on a world of its own. A public method that holds \<open>self._lock\<close> is one
  step. What the child will write is a finite list of any length that comes with the child when it is
  started, so that reading is recursion on that list; the clock is read from the environment each time.
  A child that never stops writing is not modelled: the deadline does not end the loop of the code while
  notifications arrive, so a call that such a child never answers does not return there.
\<close>

section \<open>The process and its client\<close>

text \<open>
  What the child writes: the times at which bytes become readable, and the bytes; no bytes at all
  is the end of the pipe.
\<close>

type_synonym read_events = "(rat \<times> string) list"

record process =
  pc_pid :: int
  pc_stdin :: bool
  pc_stdout :: bool
  pc_stderr :: bool

text \<open>
  \<open>se_alive\<close> is \<open>poll() is None\<close>. A \<open>wait\<close> that times out, a \<open>kill\<close> that raises \<open>OSError\<close> and
  a \<open>write\<close> to a broken pipe are \<open>False\<close>. \<open>se_group_polls\<close> gives the outputs of the \<open>ps\<close> runs
  the clock leaves time for, and of the one after them.
\<close>

record 'w stdio_env =
  se_now :: "('w, exn, rat) sem"
  se_log :: "string \<Rightarrow> string \<Rightarrow> pydict \<Rightarrow> ('w, exn, unit) sem"
  se_mkdir :: "path \<Rightarrow> ('w, exn, unit) sem"
  se_environ :: "(string \<times> string) list"
  se_read_secret :: "path \<Rightarrow> string option"
  se_popen :: "string list \<Rightarrow> path \<Rightarrow> (string \<times> string) list \<Rightarrow> ('w, exn, process \<times> read_events) sem"
  se_alive :: "int \<Rightarrow> 'w \<Rightarrow> bool"
  se_getpgid :: "int \<Rightarrow> 'w \<Rightarrow> int res"
  se_killpg :: "int \<Rightarrow> string \<Rightarrow> ('w, exn, unit) sem"
  se_wait :: "int \<Rightarrow> rat \<Rightarrow> ('w, exn, bool) sem"
  se_kill :: "int \<Rightarrow> ('w, exn, bool) sem"
  se_group_polls :: "int \<Rightarrow> ('w, exn, string list \<times> string) sem"
  se_close :: "int \<Rightarrow> bool \<Rightarrow> ('w, exn, unit) sem"
  se_drain :: "int \<Rightarrow> path \<Rightarrow> ('w, exn, unit) sem"
  se_join :: "('w, exn, unit) sem"
  se_write_file :: "path \<Rightarrow> string \<Rightarrow> ('w, exn, unit) sem"
  se_unlink :: "path \<Rightarrow> ('w, exn, unit) sem"
  se_write :: "int \<Rightarrow> string \<Rightarrow> ('w, exn, bool) sem"
  se_loads :: "string \<Rightarrow> pyval res"
  se_processes :: "'w \<Rightarrow> proc_env"
  se_broker_pid :: int
  se_cpu :: "int \<Rightarrow> 'w \<Rightarrow> pyval"
  se_memory :: "int \<Rightarrow> 'w \<Rightarrow> pyval"
  se_host :: "'w host_env"
  se_version :: string

record 'w stdio_client =
  sc_upstream :: upstream_config
  sc_state_root :: path
  sc_session_context :: "(string \<times> string) list"
  sc_runtime_root :: "path option"
  sc_metadata_name :: string
  sc_process :: "process option"
  sc_output :: "read_events"
  sc_metadata_path :: "path option"
  sc_drainer :: bool
  sc_last_activity :: rat
  sc_next_id :: int
  sc_restart_count :: int
  sc_last_error :: "string option"
  sc_initialized :: bool
  sc_capabilities :: pydict
  sc_buffer :: string
  sc_world :: 'w

type_synonym ('w, 'a) client_sem = "('w stdio_client, exn, 'a) sem"

text \<open>The context variables a call reads: the metadata of its request and its relay.\<close>

record call_scope =
  cl_meta :: meta_context
  cl_relay :: "relay option"

definition new_stdio_client ::
    "upstream_config \<Rightarrow> path \<Rightarrow> (string \<times> string) list \<Rightarrow> path option \<Rightarrow> string option \<Rightarrow> rat \<Rightarrow> 'w \<Rightarrow>
     'w stdio_client" where
  "new_stdio_client u state_root session_context runtime_root metadata_name now w =
     \<lparr>sc_upstream = u, sc_state_root = state_root, sc_session_context = session_context,
      sc_runtime_root = runtime_root,
      sc_metadata_name = (case metadata_name of None \<Rightarrow> up_name u | Some n \<Rightarrow> if n = [] then up_name u else n),
      sc_process = None, sc_output = [], sc_metadata_path = None, sc_drainer = False,
      sc_last_activity = now, sc_next_id = 0, sc_restart_count = 0, sc_last_error = None,
      sc_initialized = False, sc_capabilities = [], sc_buffer = [], sc_world = w\<rparr>"

definition on_env :: "('w, exn, 'a) sem \<Rightarrow> ('w, 'a) client_sem" where
  "on_env m = (\<lambda>s. case m (sc_world s) of (r, w) \<Rightarrow> (r, s\<lparr>sc_world := w\<rparr>))"

definition read_env :: "('w \<Rightarrow> 'a) \<Rightarrow> ('w, 'a) client_sem" where
  "read_env f = (\<lambda>s. (Inr (f (sc_world s)), s))"

definition set_error :: "string option \<Rightarrow> ('w, unit) client_sem" where
  "set_error m = modifyS (\<lambda>s. s\<lparr>sc_last_error := m\<rparr>)"

definition stdio_error :: "string \<Rightarrow> exn" where
  "stdio_error m = Exn StdioUpstreamError m"

definition stdio_timeout :: "string \<Rightarrow> exn" where
  "stdio_timeout m = Exn StdioUpstreamTimeout m"

definition emit_event :: "'w stdio_env \<Rightarrow> string \<Rightarrow> pydict \<Rightarrow> ('w, unit) client_sem" where
  "emit_event env event details =
     bindS getS (\<lambda>s. on_env (se_log env event (up_name (sc_upstream s)) details))"

definition stdio_state_dir :: "'w stdio_client \<Rightarrow> path res" where
  "stdio_state_dir s =
     (let u = sc_upstream s in
      if \<not> truthy (up_state_dir u) then Inr (path_join (sc_state_root s) (''upstreams/'' @ up_name u))
      else case up_state_dir u of
        PStr d \<Rightarrow> Inr (path_join (sc_state_root s) d)
      | v \<Rightarrow> Inl (Exn TypeError (type_name v)))"

definition record_activity :: "'w stdio_env \<Rightarrow> ('w, unit) client_sem" where
  "record_activity env = bindS (on_env (se_now env)) (\<lambda>t. modifyS (\<lambda>s. s\<lparr>sc_last_activity := t\<rparr>))"

definition idle_seconds :: "rat \<Rightarrow> 'w stdio_client \<Rightarrow> rat" where
  "idle_seconds now s = now - sc_last_activity s"

definition stdio_pid :: "'w stdio_env \<Rightarrow> 'w stdio_client \<Rightarrow> int option" where
  "stdio_pid env s = (case sc_process s of
     None \<Rightarrow> None
   | Some p \<Rightarrow> if se_alive env (pc_pid p) (sc_world s) then Some (pc_pid p) else None)"

definition stdio_status :: "'w stdio_env \<Rightarrow> 'w stdio_client \<Rightarrow> string" where
  "stdio_status env s = (case sc_process s of
     None \<Rightarrow> ''configured''
   | Some p \<Rightarrow> if se_alive env (pc_pid p) (sc_world s) then ''running'' else ''exited'')"

definition opt_str :: "string option \<Rightarrow> pyval" where
  "opt_str m = (case m of None \<Rightarrow> PNone | Some t \<Rightarrow> PStr t)"

definition inactive_health :: "string \<Rightarrow> 'w stdio_client \<Rightarrow> pydict" where
  "inactive_health state s = [(''state'', PStr state), (''pid'', PNone), (''cpu_percent'', PNone),
     (''memory_mb'', PNone), (''restarts'', PInt (sc_restart_count s)), (''last_error'', opt_str (sc_last_error s))]"

definition stdio_health_snapshot :: "'w stdio_env \<Rightarrow> 'w stdio_client \<Rightarrow> pydict res" where
  "stdio_health_snapshot env s =
     (case stdio_pid env s of
        None \<Rightarrow> Inr (inactive_health (stdio_status env s) s)
      | Some pid \<Rightarrow> (case se_getpgid env pid (sc_world s) of
          Inl e \<Rightarrow> if is_class ProcessLookupError e then Inr (inactive_health ''exited'' s) else Inl e
        | Inr pgid \<Rightarrow> Inr [(''state'', PStr ''running''), (''pid'', PInt pid),
            (''cpu_percent'', se_cpu env pgid (sc_world s)), (''memory_mb'', se_memory env pgid (sc_world s)),
            (''restarts'', PInt (sc_restart_count s)), (''last_error'', opt_str (sc_last_error s))]))"

section \<open>Stopping\<close>

definition STOP_TIMEOUT_SECONDS :: rat where "STOP_TIMEOUT_SECONDS = 5"
definition KILL_WAIT_SECONDS :: rat where "KILL_WAIT_SECONDS = 1 / 4"

definition process_group_id :: "'w stdio_env \<Rightarrow> int \<Rightarrow> ('w, int option) client_sem" where
  "process_group_id env pid = bindS (read_env (se_getpgid env pid)) (\<lambda>r. case r of
     Inr g \<Rightarrow> returnS (Some g)
   | Inl e \<Rightarrow> if is_class ProcessLookupError e then returnS None else raiseS e)"

definition signal_process_group :: "'w stdio_env \<Rightarrow> int option \<Rightarrow> string \<Rightarrow> ('w, unit) client_sem" where
  "signal_process_group env pgid sig = (case pgid of
     None \<Rightarrow> returnS ()
   | Some g \<Rightarrow> catchS (on_env (se_killpg env g sig)) (\<lambda>e.
       if is_class PermissionError e \<or> is_class ProcessLookupError e then returnS () else raiseS e))"

text \<open>The lines of \<open>str.splitlines\<close>; the empty ones it may add are skipped by \<open>strip\<close>.\<close>

definition line_break :: "char \<Rightarrow> bool" where
  "line_break c \<longleftrightarrow> of_char c \<in> {10, 11, 12, 13, 28, 29, 30, 133 :: nat}"

definition process_group_members :: "string \<Rightarrow> int list res" where
  "process_group_members out =
     mapE (\<lambda>l. py_int (PStr l)) (filter (\<lambda>l. l \<noteq> []) (map strip (split_pred line_break out)))"

fun group_stopped :: "string list \<Rightarrow> string \<Rightarrow> int list res" where
  "group_stopped [] last_output = process_group_members last_output"
| "group_stopped (out # outs) last_output =
     bindE (process_group_members out) (\<lambda>members.
       if members = [] then Inr [] else group_stopped outs last_output)"

definition wait_for_process_group_stop :: "'w stdio_env \<Rightarrow> int option \<Rightarrow> ('w, int list) client_sem" where
  "wait_for_process_group_stop env pgid = (case pgid of
     None \<Rightarrow> returnS []
   | Some g \<Rightarrow> bindS (on_env (se_group_polls env g)) (\<lambda>(outs, last_output). liftS (group_stopped outs last_output)))"

definition metadata_file :: "'w stdio_client \<Rightarrow> path option" where
  "metadata_file s = (case sc_metadata_path s of
     Some p \<Rightarrow> Some p
   | None \<Rightarrow> map_option (\<lambda>base. path_join (path_join base ''run/upstreams'')
       (sc_metadata_name s @ ''.json'')) (sc_runtime_root s))"

definition remove_process_metadata :: "'w stdio_env \<Rightarrow> ('w, unit) client_sem" where
  "remove_process_metadata env =
     bindS getS (\<lambda>s. seqS (case metadata_file s of None \<Rightarrow> returnS () | Some p \<Rightarrow> on_env (se_unlink env p))
       (modifyS (\<lambda>s. s\<lparr>sc_metadata_path := None\<rparr>)))"

definition join_drainer :: "'w stdio_env \<Rightarrow> ('w, unit) client_sem" where
  "join_drainer env = bindS getS (\<lambda>s.
     if sc_drainer s then seqS (on_env (se_join env)) (modifyS (\<lambda>s. s\<lparr>sc_drainer := False\<rparr>))
     else returnS ())"

definition error_about :: "string \<Rightarrow> ('w, unit) client_sem" where
  "error_about m = bindS getS (\<lambda>s. set_error (Some (m @ '': '' @ up_name (sc_upstream s))))"

text \<open>The leader gets \<open>SIGTERM\<close> and five seconds, then \<open>SIGKILL\<close>.\<close>

definition stop_leader :: "'w stdio_env \<Rightarrow> int \<Rightarrow> int option \<Rightarrow> ('w, unit) client_sem" where
  "stop_leader env pid pgid =
     bindS (read_env (se_alive env pid)) (\<lambda>alive.
     if \<not> alive then returnS ()
     else seqS (signal_process_group env pgid ''SIGTERM'')
       (bindS (on_env (se_wait env pid STOP_TIMEOUT_SECONDS)) (\<lambda>exited.
        if exited then returnS ()
        else seqS (emit_event env ''upstream.kill'' [(''signal'', PStr ''SIGKILL''), (''reason'', PStr ''stop_timeout'')])
          (seqS (signal_process_group env pgid ''SIGKILL'')
          (bindS (on_env (se_wait env pid (max STOP_TIMEOUT_SECONDS KILL_WAIT_SECONDS))) (\<lambda>killed.
           if killed then returnS () else error_about ''upstream did not exit after SIGKILL''))))))"

definition kill_leader :: "'w stdio_env \<Rightarrow> int \<Rightarrow> ('w, unit) client_sem" where
  "kill_leader env pid =
     bindS (read_env (se_alive env pid)) (\<lambda>alive.
     if \<not> alive then returnS ()
     else bindS (on_env (se_wait env pid KILL_WAIT_SECONDS)) (\<lambda>exited.
       if exited then returnS ()
       else seqS (error_about ''upstream did not exit after final SIGKILL'')
         (bindS (bindS (on_env (se_kill env pid)) (\<lambda>sent.
             if sent then on_env (se_wait env pid KILL_WAIT_SECONDS) else returnS False)) (\<lambda>killed.
          if killed then returnS () else error_about ''upstream did not exit after direct SIGKILL''))))"

definition stdio_stop :: "'w stdio_env \<Rightarrow> ('w, int list) client_sem" where
  "stdio_stop env =
     bindS getS (\<lambda>s. case sc_process s of
       None \<Rightarrow> returnS []
     | Some p \<Rightarrow>
         bindS (process_group_id env (pc_pid p)) (\<lambda>pgid.
         seqS (stop_leader env (pc_pid p) pgid)
         (seqS (emit_event env ''upstream.kill'' [(''signal'', PStr ''SIGKILL''), (''reason'', PStr ''final_cleanup'')])
         (seqS (signal_process_group env pgid ''SIGKILL'')
         (bindS (wait_for_process_group_stop env pgid) (\<lambda>remaining.
          seqS (kill_leader env (pc_pid p))
         (seqS (on_env (se_close env (pc_pid p) False))
         (seqS (modifyS (\<lambda>s. s\<lparr>sc_process := None\<rparr>))
         (seqS (if remaining = [] then remove_process_metadata env else returnS ())
         (seqS (join_drainer env)
         (seqS (on_env (se_close env (pc_pid p) True))
         (seqS (emit_event env ''upstream.stop'' [(''state'', PStr ''stopped'')])
           (returnS remaining)))))))))))))"

definition reset_after_timeout :: "'w stdio_env \<Rightarrow> ('w, unit) client_sem" where
  "reset_after_timeout env =
     bindS getS (\<lambda>before.
     seqS (stdio_stop env)
     (seqS (modifyS (\<lambda>s. s\<lparr>sc_initialized := False, sc_buffer := [],
         sc_restart_count := sc_restart_count s + 1, sc_last_error := sc_last_error before\<rparr>))
     (bindS getS (\<lambda>s. emit_event env ''upstream.restart''
         [(''restart_count'', PInt (sc_restart_count s)), (''reason'', PStr ''timeout'')]))))"

end
