(* ===== verification/Stdio_Calls.thy ===== *)
theory Stdio_Calls
  imports Upstream_Stdio
begin

text \<open>
  Starting the child process of an upstream, and JSON-RPC requests on its pipes
  (\<^verbatim>\<open>upstream_stdio.py\<close>): a request is written with a fresh id, the lines of the child are read
  until one is neither a notification nor a request of its own, and that line is the response. The loop is
  a recursion because the child writes a finite list of chunks; the code has no bound of its own.
\<close>

section \<open>Starting\<close>

definition write_metadata :: "'w stdio_env \<Rightarrow> process \<Rightarrow> ('w, unit) client_sem" where
  "write_metadata env p =
     bindS getS (\<lambda>s. case sc_runtime_root s of
       None \<Rightarrow> returnS ()
     | Some base \<Rightarrow>
         bindS (bindS (read_env (se_getpgid env (pc_pid p))) liftS) (\<lambda>pgid.
         let file = path_join (path_join base ''run/upstreams'') (sc_metadata_name s @ ''.json'') in
         seqS (on_env (se_write_file env file (dumps (PDict (process_metadata
                 (se_processes env (sc_world s)) [] (sc_metadata_name s) (pc_pid p) pgid
                 (se_broker_pid env))) @ [CHR 0x0A])))
           (modifyS (\<lambda>s. s\<lparr>sc_metadata_path := Some file\<rparr>))))"

text \<open>The environment of the child: each mapping overrides the ones before it.\<close>

definition override :: "(string \<times> string) list \<Rightarrow> (string \<times> string) list \<Rightarrow> (string \<times> string) list" where
  "override d e = fold (\<lambda>(k, v). AList.update k v) e d"

definition child_environment :: "'w stdio_env \<Rightarrow> path \<Rightarrow> 'w stdio_client \<Rightarrow> (string \<times> string) list res" where
  "child_environment env state_dir s =
     (let u = sc_upstream s in
      bindE (resolve_session_environment u (sc_session_context s)) (\<lambda>session_environment.
      bindE (resolve_environment u (map_of (se_environ env)) (se_read_secret env)) (\<lambda>configured.
      Inr (override (override (override (se_environ env) configured) session_environment)
        [(''MCP_BROKER_CLIENT_CWD'',
            case map_of (sc_session_context s) ''client_cwd'' of None \<Rightarrow> [] | Some d \<Rightarrow> d),
         (''MCP_BROKER_UPSTREAM_STATE_DIR'', path_str state_dir)]))))"

text \<open>An exited child is cleaned up first, which counts as a restart.\<close>

definition discard_exited :: "'w stdio_env \<Rightarrow> ('w, unit) client_sem" where
  "discard_exited env =
     bindS getS (\<lambda>s. case sc_process s of
       None \<Rightarrow> returnS ()
     | Some p \<Rightarrow>
         seqS (on_env (se_close env (pc_pid p) True))
         (seqS (remove_process_metadata env)
         (seqS (join_drainer env)
         (seqS (modifyS (\<lambda>s. s\<lparr>sc_restart_count := sc_restart_count s + 1\<rparr>))
         (bindS getS (\<lambda>s. emit_event env ''upstream.restart''
             [(''restart_count'', PInt (sc_restart_count s))]))))))"

definition spawn :: "'w stdio_env \<Rightarrow> path \<Rightarrow> (string \<times> string) list \<Rightarrow> ('w, process) client_sem" where
  "spawn env state_dir child_env =
     bindS getS (\<lambda>s.
     let u = sc_upstream s;
         cwd = (case up_working_dir u of None \<Rightarrow> state_dir | Some d \<Rightarrow> d) in
     bindS (catchS (on_env (se_popen env (up_command u # up_args u) cwd child_env)) (\<lambda>e.
         if is_os_error e then
           seqS (emit_event env ''upstream.backoff'' [(''state'', PStr ''backoff'')])
             (raiseS (stdio_error (''upstream failed to start: '' @ up_name u @ '': '' @ exn_str e)))
         else raiseS e)) (\<lambda>(p, output).
       seqS (modifyS (\<lambda>s. s\<lparr>sc_process := Some p, sc_output := output\<rparr>)) (returnS p)))"

definition stdio_start :: "'w stdio_env \<Rightarrow> ('w, unit) client_sem" where
  "stdio_start env =
     bindS getS (\<lambda>s.
     if stdio_pid env s \<noteq> None then returnS ()
     else seqS (discard_exited env)
       (bindS (liftS (stdio_state_dir s)) (\<lambda>state_dir.
        seqS (on_env (se_mkdir env state_dir))
       (bindS (bindS getS (\<lambda>s. liftS (child_environment env state_dir s))) (\<lambda>child_env.
        seqS (emit_event env ''upstream.start'' [(''state'', PStr ''starting'')])
       (bindS (spawn env state_dir child_env) (\<lambda>p.
        seqS (write_metadata env p)
       (seqS (modifyS (\<lambda>s. s\<lparr>sc_initialized := False, sc_buffer := []\<rparr>))
       (if \<not> pc_stderr p
        then raiseS (stdio_error (''upstream stderr closed: '' @ up_name (sc_upstream s)))
        else seqS (on_env (se_drain env (pc_pid p) (path_join state_dir ''stderr.log'')))
          (seqS (modifyS (\<lambda>s. s\<lparr>sc_drainer := True\<rparr>))
          (bindS getS (\<lambda>s. emit_event env ''upstream.ready'' [(''state'', PStr ''running''),
             (''pid'', case stdio_pid env s of None \<Rightarrow> PNone | Some i \<Rightarrow> PInt i)]))))))))))))"

definition ensure_running :: "'w stdio_env \<Rightarrow> ('w, unit) client_sem" where
  "ensure_running env =
     seqS (catchS (stdio_start env) (\<lambda>e.
         bindS getS (\<lambda>s.
         seqS (set_error (Some (exn_str e)))
         (if is_class StdioUpstreamError e \<or> is_class StdioUpstreamTimeout e then raiseS e
          else raiseS (stdio_error (''upstream failed to restart: '' @ up_name (sc_upstream s) @
            '': '' @ exn_str e))))))
       (set_error None)"

text \<open>What only depends on the client survives an operation of the environment.\<close>

definition world_free :: "('w stdio_client \<Rightarrow> bool) \<Rightarrow> bool" where
  "world_free P \<longleftrightarrow> (\<forall>s w. P s \<longrightarrow> P (s\<lparr>sc_world := w\<rparr>))"

lemma preserves_on_env: "world_free P \<Longrightarrow> preserves P (on_env m)"
  by (auto simp: preserves_def on_env_def world_free_def split: prod.splits)

lemma preserves_read_env: "preserves P (read_env f)"
  by (simp add: preserves_def read_env_def)

lemma preserves_sum: "(\<And>e. r = Inl e \<Longrightarrow> preserves P (f e)) \<Longrightarrow> (\<And>x. r = Inr x \<Longrightarrow> preserves P (g x)) \<Longrightarrow>
    preserves P (case r of Inl e \<Rightarrow> f e | Inr x \<Rightarrow> g x)"
  by (cases r) auto

named_theorems client_intros

lemmas [client_intros] = preserves_on_env preserves_read_env preserves_bind preserves_seq
  preserves_catch preserves_if preserves_return preserves_raise preserves_get preserves_lift
  preserves_option preserves_pair preserves_sum

section \<open>Lines of the child\<close>

definition exited_without_response :: "string \<Rightarrow> exn" where
  "exited_without_response n = stdio_error (''upstream exited without response: '' @ n)"

definition upstream_timed_out :: "string \<Rightarrow> exn" where
  "upstream_timed_out n = stdio_timeout (''upstream timed out: '' @ n)"

definition newline :: char where
  "newline = CHR 0x0A"

definition take_line :: "('w, string) client_sem" where
  "take_line = (\<lambda>s. (Inr (takeWhile (\<lambda>c. c \<noteq> newline) (sc_buffer s)),
     s\<lparr>sc_buffer := tl (dropWhile (\<lambda>c. c \<noteq> newline) (sc_buffer s))\<rparr>))"

text \<open>
  \<open>select\<close> waits for what remains of the time, which is nothing when the deadline has passed: what
  has arrived by then is read even so.
\<close>

function read_stdout_line :: "'w stdio_env \<Rightarrow> rat \<Rightarrow> process \<Rightarrow> ('w, string) client_sem" where
  "read_stdout_line env deadline p s =
     (if newline \<in> set (sc_buffer s) then take_line s
      else case on_env (se_now env) s of
        (Inl e, s1) \<Rightarrow> (Inl e, s1)
      | (Inr now, s1) \<Rightarrow>
          let silent = (Inl (if se_alive env (pc_pid p) (sc_world s1)
                then upstream_timed_out (up_name (sc_upstream s1))
                else exited_without_response (up_name (sc_upstream s1))), s1) in
          (case sc_output s1 of
             [] \<Rightarrow> silent
           | (arrival, chunk) # rest \<Rightarrow>
               if now + max 0 (deadline - now) < arrival then silent
               else if chunk = [] then (Inl (exited_without_response (up_name (sc_upstream s1))), s1)
               else read_stdout_line env deadline p
                 (s1\<lparr>sc_buffer := sc_buffer s1 @ chunk, sc_output := rest\<rparr>)))"
  by pat_completeness auto

lemma on_env_same: "on_env m s = (r, s') \<Longrightarrow> \<exists>w. s' = s\<lparr>sc_world := w\<rparr>"
  by (auto simp: on_env_def split: prod.splits)

termination read_stdout_line
  by (relation "measure (\<lambda>(env, d, p, s). length (sc_output s))") (auto dest!: on_env_same [OF sym])

declare read_stdout_line.simps [simp del]

definition write_request :: "'w stdio_env \<Rightarrow> process \<Rightarrow> pydict \<Rightarrow> ('w, unit) client_sem" where
  "write_request env p payload =
     bindS getS (\<lambda>s.
     if \<not> pc_stdin p then raiseS (stdio_error (''upstream stdin closed: '' @ up_name (sc_upstream s)))
     else bindS (on_env (se_write env (pc_pid p) (dumps (PDict payload) @ [newline]))) (\<lambda>written.
       if written then returnS ()
       else raiseS (stdio_error (''upstream stdin closed: '' @ up_name (sc_upstream s)))))"

definition is_jsonrpc_notification :: "pydict \<Rightarrow> bool" where
  "is_jsonrpc_notification message \<longleftrightarrow> \<not> dhas message ''id'' \<and> is_str (dget message ''method'')"

text \<open>A request of the child is relayed; a relay that fails counts as a timeout.\<close>

definition answer_request ::
    "'w stdio_env \<Rightarrow> call_scope \<Rightarrow> rat \<Rightarrow> process \<Rightarrow> pydict \<Rightarrow> ('w, unit) client_sem" where
  "answer_request env cs deadline p loaded =
     bindS getS (\<lambda>s.
     bindS (catchS (on_env (relay_request (se_host env) (cl_relay cs)
           (up_relay_elicitation (sc_upstream s)) deadline loaded)) (\<lambda>e.
         if is_class ElicitationRelayError e then raiseS (stdio_timeout (exn_str e)) else raiseS e))
       (write_request env p))"

lemma preserves_write_request [client_intros]: "world_free P \<Longrightarrow> preserves P (write_request env p payload)"
  unfolding write_request_def by (intro client_intros)

lemma preserves_answer_request [client_intros]:
  "world_free P \<Longrightarrow> preserves P (answer_request env cs d p loaded)"
  unfolding answer_request_def by (intro client_intros)

text \<open>A line takes something from what the child has written and will write.\<close>

definition pending :: "'w stdio_client \<Rightarrow> nat" where
  "pending s = length (sc_buffer s) + sum_list (map (\<lambda>(t, chunk). Suc (length chunk)) (sc_output s))"

lemma take_line_pending: "newline \<in> set (sc_buffer s) \<Longrightarrow> pending (snd (take_line s)) < pending s"
proof -
  have "newline \<in> set b \<Longrightarrow> length (tl (dropWhile (\<lambda>c. c \<noteq> newline) b)) < length b" for b
    by (induction b) (auto intro: less_SucI)
  then show "newline \<in> set (sc_buffer s) \<Longrightarrow> ?thesis" by (auto simp: take_line_def pending_def)
qed

lemma read_stdout_line_pending: "read_stdout_line env d p s = (Inr raw, s') \<Longrightarrow> pending s' < pending s"
proof (induction env d p s rule: read_stdout_line.induct)
  case (1 env d p s)
  show ?case
  proof (cases "newline \<in> set (sc_buffer s)")
    case True
    with 1 show ?thesis using take_line_pending [of s] by (simp add: read_stdout_line.simps)
  next
    case False
    obtain r s1 where o: "on_env (se_now env) s = (r, s1)" by (metis prod.exhaust)
    with 1(2) False obtain now where r: "r = Inr now"
      by (cases r) (auto simp: read_stdout_line.simps [of env d p s])
    from o have same: "pending s1 = pending s" using on_env_same [OF o] by (auto simp: pending_def)
    from 1(2) False o r obtain t chunk rest where c: "sc_output s1 = (t, chunk) # rest" "chunk \<noteq> []"
        "\<not> now + max 0 (d - now) < t"
        "read_stdout_line env d p (s1\<lparr>sc_buffer := sc_buffer s1 @ chunk, sc_output := rest\<rparr>) = (Inr raw, s')"
      by (auto simp: read_stdout_line.simps [of env d p s] Let_def split: list.splits if_splits prod.splits)
    have "pending s' < pending (s1\<lparr>sc_buffer := sc_buffer s1 @ chunk, sc_output := rest\<rparr>)"
      by (rule 1(1) [OF False o [symmetric, unfolded r] refl refl c(1) refl c(3) c(2) c(4)])
    also have "\<dots> < pending s1" using c(1) by (simp add: pending_def)
    finally show ?thesis using same by simp
  qed
qed

lemma answer_request_pending: "answer_request env cs d p loaded s = (r, s') \<Longrightarrow> pending s' = pending s"
  using preservesD [OF preserves_answer_request [where P = "\<lambda>t. pending t = pending s"], of s env cs d p loaded]
  by (simp add: world_free_def pending_def)

function read_loop ::
    "'w stdio_env \<Rightarrow> call_scope \<Rightarrow> rat \<Rightarrow> process \<Rightarrow> int option \<Rightarrow> ('w, pydict) client_sem" where
  "read_loop env cs deadline p expected_id s =
     (case read_stdout_line env deadline p s of
        (Inl e, s1) \<Rightarrow> (Inl e, s1)
      | (Inr raw, s1) \<Rightarrow>
          (case se_loads env raw of
             Inl e \<Rightarrow> (Inl e, s1)
           | Inr (PDict loaded) \<Rightarrow>
               if expected_id \<noteq> None \<and> is_jsonrpc_notification loaded
               then read_loop env cs deadline p expected_id s1
               else if dhas loaded ''method'' \<and> dhas loaded ''id'' then
                 (case answer_request env cs deadline p loaded s1 of
                    (Inl e, s2) \<Rightarrow> (Inl e, s2)
                  | (Inr _, s2) \<Rightarrow> read_loop env cs deadline p expected_id s2)
               else (Inr loaded, s1)
           | Inr _ \<Rightarrow> (Inl (stdio_error (''upstream response must be an object: '' @
               up_name (sc_upstream s1))), s1)))"
  by pat_completeness auto

termination read_loop
  by (relation "measure (\<lambda>(env, cs, d, p, i, s). pending s)")
    (auto dest!: read_stdout_line_pending [OF sym] answer_request_pending [OF sym])

declare read_loop.simps [simp del]

definition read_response ::
    "'w stdio_env \<Rightarrow> call_scope \<Rightarrow> int \<Rightarrow> process \<Rightarrow> int option \<Rightarrow> ('w, pydict) client_sem" where
  "read_response env cs timeout_seconds p expected_id =
     bindS getS (\<lambda>s.
     if \<not> pc_stdout p then raiseS (stdio_error (''upstream stdout closed: '' @ up_name (sc_upstream s)))
     else bindS (on_env (se_now env)) (\<lambda>now.
       read_loop env cs (now + of_int timeout_seconds) p expected_id))"

section \<open>Requests\<close>

definition jsonrpc_payload :: "string \<Rightarrow> pydict option \<Rightarrow> ('w, int \<times> pydict) client_sem" where
  "jsonrpc_payload rpc_method params =
     bindS getS (\<lambda>s.
     seqS (modifyS (\<lambda>s. s\<lparr>sc_next_id := sc_next_id s + 1\<rparr>))
       (returnS (sc_next_id s, [(''jsonrpc'', PStr ''2.0''), (''id'', PInt (sc_next_id s)),
           (''method'', PStr rpc_method)] @
           (case params of None \<Rightarrow> [] | Some d \<Rightarrow> [(''params'', PDict d)]))))"

definition roundtrip ::
    "'w stdio_env \<Rightarrow> call_scope \<Rightarrow> int \<Rightarrow> process \<Rightarrow> pydict \<Rightarrow> int option \<Rightarrow> ('w, pydict) client_sem" where
  "roundtrip env cs timeout_seconds p payload expected_id =
     seqS (write_request env p payload) (read_response env cs timeout_seconds p expected_id)"

definition response_is_not_initialized :: "pydict \<Rightarrow> bool" where
  "response_is_not_initialized response =
     (case dget response ''error'' of
        PDict error \<Rightarrow>
          if eq_int (dget error ''code'') (- 32602) \<and>
             dget error ''message'' = PStr ''Invalid request parameters'' \<and> dget error ''data'' = PStr []
          then True
          else if eq_int (dget error ''code'') (- 32002) then True
          else (case dget error ''message'' of
             PStr m \<Rightarrow> contains ''not initialized'' (lower m) \<or>
               contains ''before initialization was complete'' (lower m)
           | _ \<Rightarrow> False)
      | _ \<Rightarrow> False)"

definition response_identity :: "pydict \<Rightarrow> string" where
  "response_identity message =
     join '', '' ((''id='' @ py_repr (dget message ''id'')) #
       (case dget message ''method'' of PStr m \<Rightarrow> [''method='' @ repr_str m] | _ \<Rightarrow> []))"

definition format_response_error :: "pydict \<Rightarrow> string" where
  "format_response_error error =
     (let parts =
        (if dget error ''code'' = PNone then [] else [py_str (dget error ''code'')]) @
        (if dget error ''message'' = PNone then [] else [py_str (dget error ''message'')]) @
        (if dget error ''data'' = PNone then [] else [''data='' @ py_repr (dget error ''data'')])
      in if parts = [] then py_repr (PDict error) else join '' '' parts)"

definition id_mismatch :: "string \<Rightarrow> int \<Rightarrow> pydict \<Rightarrow> exn" where
  "id_mismatch n request_id response =
     stdio_error (''upstream response id mismatch: '' @ n @ '': expected '' @ str_int request_id @
       '', received '' @ response_identity response)"

definition result_from_response :: "string \<Rightarrow> pydict \<Rightarrow> int \<Rightarrow> pydict res" where
  "result_from_response n response request_id =
     (if \<not> eq_int (dget response ''id'') request_id then Inl (id_mismatch n request_id response)
      else case dget response ''error'' of
        PDict error \<Rightarrow> Inl (stdio_error (''upstream error from '' @ n @ '': '' @ format_response_error error))
      | _ \<Rightarrow> (case dget response ''result'' of
          PDict d \<Rightarrow> Inr d
        | _ \<Rightarrow> Inl (stdio_error (''upstream response missing result: '' @ n))))"

definition checked_result :: "pydict \<Rightarrow> int \<Rightarrow> ('w, pydict) client_sem" where
  "checked_result response request_id =
     bindS getS (\<lambda>s. liftS (result_from_response (up_name (sc_upstream s)) response request_id))"

definition current_capabilities :: "call_scope \<Rightarrow> 'w stdio_client \<Rightarrow> pydict" where
  "current_capabilities cs s =
     client_capabilities (cl_relay cs) (up_relay_elicitation (sc_upstream s))"

definition initialize_upstream :: "'w stdio_env \<Rightarrow> call_scope \<Rightarrow> int \<Rightarrow> process \<Rightarrow> ('w, unit) client_sem" where
  "initialize_upstream env cs timeout_seconds p =
     bindS getS (\<lambda>s.
     bindS (jsonrpc_payload ''initialize'' (Some
         [(''protocolVersion'', PStr (hd SUPPORTED_PROTOCOL_VERSIONS)),
          (''capabilities'', PDict (current_capabilities cs s)),
          (''clientInfo'', PDict [(''name'', PStr ''mcp-broker''), (''version'', PStr (se_version env))])]))
       (\<lambda>(request_id, payload).
     bindS (roundtrip env cs timeout_seconds p payload (Some request_id)) (\<lambda>response.
     seqS (checked_result response request_id)
     (seqS (write_request env p [(''jsonrpc'', PStr ''2.0''), (''method'', PStr ''notifications/initialized'')])
       (modifyS (\<lambda>s. s\<lparr>sc_initialized := True, sc_capabilities := current_capabilities cs s\<rparr>))))))"

definition request_once ::
    "'w stdio_env \<Rightarrow> call_scope \<Rightarrow> int \<Rightarrow> process \<Rightarrow> string \<Rightarrow> pydict option \<Rightarrow>
     ('w, int \<times> pydict) client_sem" where
  "request_once env cs timeout_seconds p rpc_method params =
     bindS (jsonrpc_payload rpc_method params) (\<lambda>(request_id, payload).
     bindS (roundtrip env cs timeout_seconds p payload (Some request_id)) (\<lambda>response.
       returnS (request_id, response)))"

definition running_process :: "('w, process) client_sem" where
  "running_process = bindS getS (\<lambda>s. case sc_process s of
     None \<Rightarrow> raiseS (Exn AssertionError []) | Some p \<Rightarrow> returnS p)"

text \<open>A child that was initialized with other capabilities is stopped, and so started again.\<close>

definition jsonrpc_request ::
    "'w stdio_env \<Rightarrow> call_scope \<Rightarrow> int \<Rightarrow> string \<Rightarrow> pydict option \<Rightarrow> ('w, pydict) client_sem" where
  "jsonrpc_request env cs timeout_seconds rpc_method params =
     bindS getS (\<lambda>s.
     seqS (if sc_initialized s \<and> \<not> py_eq (PDict (sc_capabilities s)) (PDict (current_capabilities cs s))
        then seqS (stdio_stop env) (returnS ()) else returnS ())
     (seqS (stdio_start env)
     (bindS running_process (\<lambda>p.
      seqS (bindS getS (\<lambda>s.
          if \<not> sc_initialized s \<and> (rpc_method = ''tools/list'' \<or> up_strict_initialization (sc_upstream s))
          then initialize_upstream env cs timeout_seconds p else returnS ()))
     (bindS (request_once env cs timeout_seconds p rpc_method params) (\<lambda>(request_id, response).
      bindS getS (\<lambda>s.
      if response_is_not_initialized response \<and> \<not> sc_initialized s then
        seqS (initialize_upstream env cs timeout_seconds p)
        (bindS (request_once env cs timeout_seconds p rpc_method params) (\<lambda>(request_id, response).
           checked_result response request_id))
      else checked_result response request_id)))))))"

definition call_params :: "'w stdio_env \<Rightarrow> call_scope \<Rightarrow> string \<Rightarrow> pydict \<Rightarrow> 'w stdio_client \<Rightarrow> pydict res" where
  "call_params env cs tool_name arguments s =
     (let u = sc_upstream s in
      bindE (resolve_request_meta u (map_of (se_environ env)) (se_read_secret env)) (\<lambda>configured.
      let request_meta = fold (\<lambda>(k, v). AList.update k (PStr v)) configured
            (outbound_request_metadata (cl_meta cs) (up_forward_request_meta u)) in
      Inr ([(''name'', PStr tool_name), (''arguments'', PDict arguments)] @
        (if request_meta = [] then [] else [(''_meta'', PDict request_meta)]))))"

text \<open>The frame of both calls: a timeout resets the client, any other exception is recorded.\<close>

definition guarded_request ::
    "'w stdio_env \<Rightarrow> pydict \<Rightarrow> ('w, 'a) client_sem \<Rightarrow> ('w, 'a) client_sem" where
  "guarded_request env details body =
     seqS (record_activity env)
     (seqS (emit_event env ''upstream.call'' details)
     (bindS (catchS body (\<lambda>e.
         bindS getS (\<lambda>s.
         if is_class StdioUpstreamTimeout e then
           seqS (set_error (Some (''upstream timed out: '' @ up_name (sc_upstream s))))
           (seqS (emit_event env ''upstream.timeout'' details)
           (seqS (reset_after_timeout env) (raiseS e)))
         else seqS (set_error (Some (exn_str e))) (raiseS e)))) (\<lambda>r.
      seqS (set_error None) (returnS r))))"

definition stdio_call_tool ::
    "'w stdio_env \<Rightarrow> call_scope \<Rightarrow> string \<Rightarrow> pydict \<Rightarrow> int \<Rightarrow> ('w, pydict) client_sem" where
  "stdio_call_tool env cs tool_name arguments timeout_seconds =
     guarded_request env [(''method'', PStr ''tools/call''), (''tool_name'', PStr tool_name),
         (''timeout_seconds'', PInt timeout_seconds)]
       (bindS (bindS getS (\<lambda>s. liftS (call_params env cs tool_name arguments s))) (\<lambda>params.
        jsonrpc_request env cs timeout_seconds ''tools/call'' (Some params)))"

definition dict_items :: "pyval list \<Rightarrow> pydict list option" where
  "dict_items xs = (if list_all is_dict xs
     then Some (List.map_filter (\<lambda>v. case v of PDict d \<Rightarrow> Some d | _ \<Rightarrow> None) xs) else None)"

definition tools_of_result :: "string \<Rightarrow> pydict \<Rightarrow> pydict list res" where
  "tools_of_result n result =
     (case dget result ''tools'' of
        PList tools \<Rightarrow> (case dict_items tools of
           Some ds \<Rightarrow> Inr ds
         | None \<Rightarrow> Inl (stdio_error (''upstream tools/list response invalid: '' @ n)))
      | _ \<Rightarrow> Inl (stdio_error (''upstream tools/list response invalid: '' @ n)))"

definition stdio_list_tools :: "'w stdio_env \<Rightarrow> call_scope \<Rightarrow> int \<Rightarrow> ('w, pydict list) client_sem" where
  "stdio_list_tools env cs timeout_seconds =
     guarded_request env [(''method'', PStr ''tools/list''), (''timeout_seconds'', PInt timeout_seconds)]
       (bindS (jsonrpc_request env cs timeout_seconds ''tools/list'' None) (\<lambda>result.
        bindS getS (\<lambda>s. liftS (tools_of_result (up_name (sc_upstream s)) result))))"

end
