(* ===== verification/Stdio_Facts.thy ===== *)
theory Stdio_Facts
  imports Stdio_Calls
begin

text \<open>
  What the client of a stdio upstream keeps: a result belongs to the request of its own call, a
  timeout leaves nothing of the child behind, and the handshake comes before a listing.
\<close>

section \<open>Operations and predicates on the client\<close>

text \<open>The predicates that do not look at what reading from the child changes.\<close>

definition pipe_free :: "('w stdio_client \<Rightarrow> bool) \<Rightarrow> bool" where
  "pipe_free P \<longleftrightarrow> world_free P \<and> (\<forall>s b. P s \<longrightarrow> P (s\<lparr>sc_buffer := b\<rparr>)) \<and>
     (\<forall>s b ev. P s \<longrightarrow> P (s\<lparr>sc_buffer := b, sc_output := ev\<rparr>))"

lemma pipe_free_world: "pipe_free P \<Longrightarrow> world_free P"
  by (simp add: pipe_free_def)

lemma preserves_read_stdout_line: "pipe_free P \<Longrightarrow> P s \<Longrightarrow> P (snd (read_stdout_line env d p s))"
proof (induction env d p s rule: read_stdout_line.induct)
  case (1 env d p s)
  obtain r s1 where o: "on_env (se_now env) s = (r, s1)" by (metis prod.exhaust)
  have s1: "P s1"
    using preservesD [OF preserves_on_env [OF pipe_free_world [OF 1(2)]] 1(3), of "se_now env"] o by simp
  show ?case
  proof (cases "newline \<in> set (sc_buffer s)")
    case True
    then show ?thesis using 1(2,3) by (simp add: read_stdout_line.simps take_line_def pipe_free_def)
  next
    case False
    show ?thesis
    proof (cases r)
      case (Inl e)
      with False o s1 show ?thesis by (simp add: read_stdout_line.simps [of env d p s])
    next
      case (Inr now)
      have step: "P (snd (read_stdout_line env d p (s1\<lparr>sc_buffer := sc_buffer s1 @ chunk, sc_output := rest\<rparr>)))"
        if "sc_output s1 = (t, chunk) # rest" "\<not> now + max 0 (d - now) < t" "chunk \<noteq> []" for t chunk rest
        by (rule 1(1) [OF False o [symmetric, unfolded Inr] refl refl that(1) refl that(2,3) 1(2)])
          (use 1(2) s1 in \<open>simp add: pipe_free_def\<close>)
      show ?thesis
        using False o Inr s1 step
        by (simp add: read_stdout_line.simps [of env d p s] Let_def split: list.split prod.split)
    qed
  qed
qed

lemma preserves_read_loop: "pipe_free P \<Longrightarrow> P s \<Longrightarrow> P (snd (read_loop env cs d p i s))"
proof (induction env cs d p i s rule: read_loop.induct)
  case (1 env cs d p i s)
  obtain r s1 where o: "read_stdout_line env d p s = (r, s1)" by (metis prod.exhaust)
  have s1: "P s1" using preserves_read_stdout_line [OF 1(3,4), of env d p] o by simp
  show ?case
  proof (cases r)
    case (Inl e)
    with o s1 show ?thesis by (simp add: read_loop.simps [of env cs d p i s])
  next
    case (Inr raw)
    show ?thesis
    proof (cases "\<exists>loaded. se_loads env raw = Inr (PDict loaded)")
      case False
      with o Inr s1 show ?thesis
        by (auto simp: read_loop.simps [of env cs d p i s] split: sum.split pyval.split)
    next
      case True
      then obtain loaded where l: "se_loads env raw = Inr (PDict loaded)" by blast
      obtain r2 s2 where a: "answer_request env cs d p loaded s1 = (r2, s2)" by (metis prod.exhaust)
      have s2: "P s2"
        using preservesD [OF preserves_answer_request [OF pipe_free_world [OF 1(3)]] s1, of env cs d p loaded] a
        by simp
      have skip: "P (snd (read_loop env cs d p i s1))" if "i \<noteq> None \<and> is_jsonrpc_notification loaded"
        by (rule 1(1) [OF o [symmetric, unfolded Inr] refl l refl that 1(3) s1])
      have relayed: "P (snd (read_loop env cs d p i s2))"
        if "\<not> (i \<noteq> None \<and> is_jsonrpc_notification loaded)" "dhas loaded ''method'' \<and> dhas loaded ''id''"
          "r2 = Inr u" for u
        by (rule 1(2) [OF o [symmetric, unfolded Inr] refl l refl that(1,2) a [symmetric, unfolded that(3)] refl 1(3) s2])
      show ?thesis
        using o Inr l a s1 s2 skip relayed
        by (auto simp: read_loop.simps [of env cs d p i s] split: sum.split)
    qed
  qed
qed

lemma preserves_read_response [client_intros]: "pipe_free P \<Longrightarrow> preserves P (read_response env cs t p i)"
  unfolding read_response_def
  by (intro client_intros) (auto simp: pipe_free_world intro: preservesI preserves_read_loop)

text \<open>The response of a loop is an object that one line of the child decodes to.\<close>

definition decoded :: "'w stdio_env \<Rightarrow> pydict \<Rightarrow> bool" where
  "decoded env d \<longleftrightarrow> (\<exists>raw. se_loads env raw = Inr (PDict d))"

lemma read_loop_decoded: "read_loop env cs d p i s = (Inr response, s') \<Longrightarrow> decoded env response"
proof (induction env cs d p i s rule: read_loop.induct)
  case (1 env cs d p i s)
  obtain r s1 where o: "read_stdout_line env d p s = (r, s1)" by (metis prod.exhaust)
  from 1(3) o obtain raw where r: "r = Inr raw"
    by (cases r) (auto simp: read_loop.simps [of env cs d p i s])
  from 1(3) o r obtain loaded where l: "se_loads env raw = Inr (PDict loaded)"
    by (auto simp: read_loop.simps [of env cs d p i s] split: sum.splits pyval.splits)
  obtain r2 s2 where a: "answer_request env cs d p loaded s1 = (r2, s2)" by (metis prod.exhaust)
  have skip: "decoded env response" if "i \<noteq> None \<and> is_jsonrpc_notification loaded"
      "read_loop env cs d p i s1 = (Inr response, s')"
    by (rule 1(1) [OF o [symmetric, unfolded r] refl l refl that])
  have relayed: "decoded env response"
    if "\<not> (i \<noteq> None \<and> is_jsonrpc_notification loaded)" "dhas loaded ''method'' \<and> dhas loaded ''id''"
      "r2 = Inr u" "read_loop env cs d p i s2 = (Inr response, s')" for u
    by (rule 1(2) [OF o [symmetric, unfolded r] refl l refl that(1,2) a [symmetric, unfolded that(3)] refl that(4)])
  show ?case
    using 1(3) o r l a skip relayed
    by (auto simp: read_loop.simps [of env cs d p i s] decoded_def split: if_splits sum.splits)
qed

lemma read_response_decoded:
  "read_response env cs t p i s = (Inr response, s') \<Longrightarrow> decoded env response"
  by (auto simp: read_response_def monad_simps split: if_splits prod.splits sum.splits
      dest: read_loop_decoded)

section \<open>Ids\<close>

text \<open>The counters only grow, and the upstream stays.\<close>

definition later :: "'w stdio_client \<Rightarrow> 'w stdio_client \<Rightarrow> bool" where
  "later s0 s \<longleftrightarrow> sc_next_id s0 \<le> sc_next_id s \<and> sc_restart_count s0 \<le> sc_restart_count s \<and>
     sc_upstream s = sc_upstream s0"

lemma later_refl [simp]: "later s s"
  by (simp add: later_def)

lemma later_free [simp]: "world_free (later s0)" "pipe_free (later s0)"
  by (simp_all add: world_free_def pipe_free_def later_def)

lemma preserves_modify_id [client_intros]:
  "(\<And>s. later s (f s)) \<Longrightarrow> preserves (later s0) (modifyS f)"
  by (rule preserves_modify) (force simp: later_def intro: order_trans)

lemma preserves_id_steps [client_intros]:
  "preserves (later s0) (emit_event env ev d)"
  "preserves (later s0) (set_error err)"
  "preserves (later s0) (error_about m)"
  "preserves (later s0) (record_activity env)"
  "preserves (later s0) (process_group_id env pid)"
  "preserves (later s0) (signal_process_group env g sig)"
  "preserves (later s0) (wait_for_process_group_stop env g)"
  "preserves (later s0) (remove_process_metadata env)"
  "preserves (later s0) (join_drainer env)"
  unfolding emit_event_def set_error_def error_about_def record_activity_def process_group_id_def
    signal_process_group_def wait_for_process_group_stop_def remove_process_metadata_def join_drainer_def
  by (intro client_intros; simp add: later_def)+

lemma preserves_id_stop [client_intros]:
  "preserves (later s0) (stop_leader env pid g)"
  "preserves (later s0) (kill_leader env pid)"
  unfolding stop_leader_def kill_leader_def by (intro client_intros; simp add: later_def)+

lemma preserves_id_stdio_stop [client_intros]: "preserves (later s0) (stdio_stop env)"
  unfolding stdio_stop_def by (intro client_intros; simp add: later_def)

lemma preserves_id_start_steps [client_intros]:
  "preserves (later s0) (reset_after_timeout env)"
  "preserves (later s0) (write_metadata env p)"
  "preserves (later s0) (discard_exited env)"
  "preserves (later s0) (spawn env dir ce)"
  unfolding reset_after_timeout_def write_metadata_def discard_exited_def spawn_def Let_def
  by (intro client_intros; simp add: later_def)+

lemma preserves_id_start [client_intros]: "preserves (later s0) (stdio_start env)"
  unfolding stdio_start_def by (intro client_intros; simp add: later_def)

lemma preserves_id_payload [client_intros]: "preserves (later s0) (jsonrpc_payload m params)"
  unfolding jsonrpc_payload_def by (intro client_intros; simp add: later_def)

lemma preserves_id_requests [client_intros]:
  "preserves (later s0) (roundtrip env cs t p payload i)"
  "preserves (later s0) (checked_result response i2)"
  unfolding roundtrip_def checked_result_def by (intro client_intros; simp add: later_def)+

lemma preserves_id_initialize [client_intros]: "preserves (later s0) (initialize_upstream env cs t p)"
  unfolding initialize_upstream_def by (intro client_intros; simp add: later_def)

text \<open>A request that was answered took one id, and the answer is a decoded line.\<close>

definition own_response :: "'w stdio_env \<Rightarrow> 'w stdio_client \<Rightarrow> int \<times> pydict \<Rightarrow> 'w stdio_client \<Rightarrow> bool" where
  "own_response env s0 ir s \<longleftrightarrow> later s0 s \<and> sc_next_id s0 \<le> fst ir \<and> fst ir < sc_next_id s \<and> decoded env (snd ir)"

lemma request_once_own:
  "triple (later s0) (request_once env cs t p m params) (own_response env s0) (\<lambda>e. later s0)"
proof (rule tripleI)
  fix s r s'
  assume s: "later s0 s" and run: "request_once env cs t p m params s = (r, s')"
  let ?s1 = "s\<lparr>sc_next_id := sc_next_id s + 1\<rparr>"
  obtain payload where p1: "jsonrpc_payload m params s = (Inr (sc_next_id s, payload), ?s1)"
    by (simp add: jsonrpc_payload_def monad_simps)
  obtain r2 s2 where rt: "roundtrip env cs t p payload (Some (sc_next_id s)) ?s1 = (r2, s2)"
    by (metis prod.exhaust)
  have s2: "sc_next_id s + 1 \<le> sc_next_id s2 \<and> later s s2"
    using preservesD [OF preserves_id_requests(1) [where ?s0.0 = ?s1 and i = "Some (sc_next_id s)"
        and env = env and cs = cs and t = t and p = p and payload = payload], of ?s1] rt
    by (simp add: later_def)
  show "case r of Inr x \<Rightarrow> own_response env s0 x s' | Inl e \<Rightarrow> later s0 s'"
  proof (cases r2)
    case (Inl e)
    with run p1 rt s s2 show ?thesis by (auto simp: request_once_def monad_simps later_def)
  next
    case (Inr response)
    with rt have "decoded env response"
      by (auto simp: roundtrip_def monad_simps split: prod.splits sum.splits dest: read_response_decoded)
    with Inr run p1 rt s s2 show ?thesis
      by (auto simp: request_once_def monad_simps later_def own_response_def)
  qed
qed

text \<open>A result is the one of the response, whose id is the one of the request.\<close>

definition answers_request :: "'w stdio_env \<Rightarrow> int \<Rightarrow> pydict \<Rightarrow> 'w stdio_client \<Rightarrow> bool" where
  "answers_request env n result s \<longleftrightarrow> (\<exists>request_id response. n \<le> request_id \<and> request_id < sc_next_id s \<and>
     decoded env response \<and> eq_int (dget response ''id'') request_id \<and>
     dget response ''result'' = PDict result \<and> \<not> is_dict (dget response ''error''))"

lemma result_from_response_Inr:
  "result_from_response m response i = Inr result \<Longrightarrow> eq_int (dget response ''id'') i \<and>
     dget response ''result'' = PDict result \<and> \<not> is_dict (dget response ''error'')"
  by (auto simp: result_from_response_def split: if_splits pyval.splits)

lemma checked_result_answers:
  "triple (own_response env s0 (i, response)) (checked_result response i)
     (answers_request env (sc_next_id s0)) (\<lambda>e s. True)"
  unfolding triple_def
  by (auto simp: checked_result_def monad_simps own_response_def answers_request_def
      split: sum.split dest!: result_from_response_Inr)

lemma triple_keep: "preserves P m \<Longrightarrow> triple P m (\<lambda>_. P) (\<lambda>_ _. True)"
  by (rule triple_weaken [OF triple_preserves [THEN iffD2]]) auto

lemma triple_read_state: "triple (\<lambda>s. P s) getS (\<lambda>x s. P s) E"
  by (simp add: triple_def getS_def)

lemma own_response_id: "own_response env s0 ir s \<Longrightarrow> later s0 s"
  by (simp add: own_response_def)

lemma jsonrpc_request_answers:
  "triple (later s0) (jsonrpc_request env cs t m params) (answers_request env (sc_next_id s0)) (\<lambda>e s. True)"
proof -
  have once: "triple (later s0) (request_once env cs t p m params) (own_response env s0) (\<lambda>_ _. True)" for p
    by (rule triple_weaken [OF request_once_own]) auto
  have retry: "triple (later s0)
      (seqS (initialize_upstream env cs t p) (bindS (request_once env cs t p m params)
        (\<lambda>(request_id, response). checked_result response request_id)))
      (answers_request env (sc_next_id s0)) (\<lambda>e s. True)" for p
    by (rule triple_seq [OF triple_keep triple_bind [OF once]])
      (auto intro: client_intros checked_result_answers)
  show ?thesis
    unfolding jsonrpc_request_def
    apply (rule triple_bind [OF triple_read_state])
    apply (rule triple_seq [OF triple_keep])
     apply (intro client_intros)
    apply (rule triple_seq [OF triple_keep])
     apply (intro client_intros)
    apply (rule triple_bind [OF triple_keep])
     apply (unfold running_process_def, intro client_intros)
    apply (rule triple_seq [OF triple_keep])
     apply (intro client_intros)
    apply (rule triple_bind [OF once])
    apply (clarify, rule triple_bind [OF triple_read_state], rule triple_if)
     apply (rule triple_weaken [OF retry]; auto intro: own_response_id)
    apply (rule checked_result_answers)
    done
qed

lemma guarded_request_result:
  assumes body: "triple (later s0) body (\<lambda>x s. Q x s) (\<lambda>e s. True)"
    and free: "\<And>x s. Q x s \<Longrightarrow> Q x (s\<lparr>sc_last_error := None\<rparr>)"
  shows "triple (later s0) (guarded_request env d body) (\<lambda>x s. Q x s) (\<lambda>e s. True)"
proof -
  have caught: "triple (later s0) (catchS body h) (\<lambda>x s. Q x s) (\<lambda>e s. True)"
    if "\<And>e. triple (\<lambda>_. True) (h e) (\<lambda>_ _. False) (\<lambda>_ _. True)" for h
    by (rule triple_catch [OF body], rule triple_weaken [OF that]) auto
  show ?thesis
    unfolding guarded_request_def
    apply (rule triple_seq [OF triple_keep], rule client_intros)
    apply (rule triple_seq [OF triple_keep], rule client_intros)
    apply (rule triple_bind [OF caught])
     apply (auto simp: triple_def set_error_def monad_simps free split: prod.splits sum.splits)
    done
qed

text \<open>C7. The result of a call of a tool is the \<open>result\<close> of a decoded response whose id is one of those
  that this very call allocated, and that has no error: what an earlier request is still owed, or
  what belongs to another call, is never returned.\<close>

theorem result_belongs_to_call:
  assumes "stdio_call_tool env cs tool_name arguments timeout s = (Inr result, s')"
  shows "answers_request env (sc_next_id s) result s'"
proof -
  have "triple (later s) (stdio_call_tool env cs tool_name arguments timeout)
      (answers_request env (sc_next_id s)) (\<lambda>e s. True)"
    unfolding stdio_call_tool_def
    apply (rule guarded_request_result)
     apply (rule triple_bind [OF triple_keep], intro client_intros)
     apply (rule jsonrpc_request_answers)
    apply (simp add: answers_request_def)
    done
  from tripleD [OF this _ assms] show ?thesis by (simp add: later_def)
qed

section \<open>Timeouts\<close>

definition timed_out :: "exn \<Rightarrow> bool" where
  "timed_out e \<longleftrightarrow> is_class StdioUpstreamTimeout e"

text \<open>The operating system does not raise the exception of this module.\<close>

definition no_timeout :: "('s, exn, 'a) sem \<Rightarrow> bool" where
  "no_timeout m \<longleftrightarrow> (\<forall>s e s'. m s = (Inl e, s') \<longrightarrow> \<not> timed_out e)"

definition os_env :: "'w stdio_env \<Rightarrow> bool" where
  "os_env env \<longleftrightarrow> no_timeout (se_now env) \<and> (\<forall>ev n d. no_timeout (se_log env ev n d)) \<and>
     (\<forall>pid w e. se_getpgid env pid w = Inl e \<longrightarrow> \<not> timed_out e) \<and>
     (\<forall>g sig. no_timeout (se_killpg env g sig)) \<and> (\<forall>pid d. no_timeout (se_wait env pid d)) \<and>
     (\<forall>pid. no_timeout (se_kill env pid)) \<and> (\<forall>g. no_timeout (se_group_polls env g)) \<and>
     (\<forall>pid b. no_timeout (se_close env pid b)) \<and> no_timeout (se_join env) \<and>
     (\<forall>q. no_timeout (se_unlink env q))"

text \<open>What a timeout leaves: no child, nothing of what it wrote, no handshake, one restart more.\<close>

definition reset_client :: "int \<Rightarrow> 'w stdio_client \<Rightarrow> bool" where
  "reset_client n s \<longleftrightarrow> sc_process s = None \<and> sc_buffer s = [] \<and> \<not> sc_initialized s \<and>
     n < sc_restart_count s \<and> sc_last_error s = Some (''upstream timed out: '' @ up_name (sc_upstream s))"

lemma no_timeout_steps:
  "no_timeout m \<Longrightarrow> (\<And>x. no_timeout (f x)) \<Longrightarrow> no_timeout (bindS m f)"
  "no_timeout n \<Longrightarrow> no_timeout k \<Longrightarrow> no_timeout (seqS n k)"
  "no_timeout (returnS x)" "no_timeout getS" "no_timeout (modifyS g)" "no_timeout (read_env h)"
  "(b \<Longrightarrow> no_timeout i) \<Longrightarrow> (\<not> b \<Longrightarrow> no_timeout j) \<Longrightarrow> no_timeout (if b then i else j)"
  "no_timeout q \<Longrightarrow> no_timeout (on_env q)"
  by (auto simp: no_timeout_def bindS_def seqS_def returnS_def getS_def modifyS_def read_env_def on_env_def
      split: prod.splits sum.splits)

lemma no_timeout_liftS: "(\<And>e. r = Inl e \<Longrightarrow> \<not> timed_out e) \<Longrightarrow> no_timeout (liftS r)"
  by (simp add: no_timeout_def liftS_def)

lemma py_int_no_timeout: "py_int v = Inl e \<Longrightarrow> \<not> timed_out e"
  by (cases v) (auto simp: timed_out_def split: option.splits)

lemma process_group_members_no_timeout: "process_group_members out = Inl e \<Longrightarrow> \<not> timed_out e"
  unfolding process_group_members_def by (drule mapE_eq_InlD) (auto simp del: py_int.simps dest: py_int_no_timeout)

lemma group_stopped_no_timeout: "group_stopped outs out = Inl e \<Longrightarrow> \<not> timed_out e"
  by (induction outs out rule: group_stopped.induct)
    (auto simp: bindE_eq_Inl dest: process_group_members_no_timeout split: if_splits)

lemma no_timeout_raise: "\<not> timed_out e \<Longrightarrow> no_timeout (raiseS e)"
  by (simp add: no_timeout_def raiseS_def)

lemma no_timeout_catch:
  "no_timeout m \<Longrightarrow> (\<And>e. \<not> timed_out e \<Longrightarrow> no_timeout (h e)) \<Longrightarrow> no_timeout (catchS m h)"
  by (fastforce simp: no_timeout_def catchS_def split: prod.splits sum.splits)

lemma no_timeout_stop:
  assumes env: "os_env env"
  shows "no_timeout (stdio_stop env)"
proof -
  note rules = no_timeout_steps no_timeout_liftS no_timeout_catch no_timeout_raise
  have ops: "no_timeout (se_log env ev n d)" "no_timeout (se_wait env pid q)" "no_timeout (se_kill env pid)"
    "no_timeout (se_group_polls env g)" "no_timeout (se_close env pid b)" "no_timeout (se_join env)"
    "no_timeout (se_unlink env f)" for ev n d pid q g b f
    using env by (simp_all add: os_env_def)
  have emit: "no_timeout (emit_event env ev d)" for ev d
    unfolding emit_event_def by (intro rules ops)
  have group: "no_timeout (process_group_id env pid)" for pid
    using env unfolding process_group_id_def
    by (auto simp: no_timeout_def os_env_def monad_simps read_env_def split: sum.splits)
  have sig: "no_timeout (signal_process_group env g sig)" for g sig
    using env unfolding signal_process_group_def
    by (cases g) (auto intro!: rules simp: os_env_def)
  have about: "no_timeout (error_about m)" for m
    unfolding error_about_def set_error_def by (intro rules)
  have wait: "no_timeout (wait_for_process_group_stop env g)" for g
    unfolding wait_for_process_group_stop_def
    by (cases g) (auto intro!: rules ops dest: group_stopped_no_timeout split: prod.splits)
  have lead: "no_timeout (stop_leader env pid g)" "no_timeout (kill_leader env pid)" for pid g
    unfolding stop_leader_def kill_leader_def by (intro rules ops emit sig about)+
  have rm: "no_timeout (remove_process_metadata env)" "no_timeout (join_drainer env)"
    unfolding remove_process_metadata_def join_drainer_def
    by (intro rules; (simp split: option.split)?; intro conjI allI impI rules ops)+
  show ?thesis
    unfolding stdio_stop_def
    by (rule rules, rule rules, split option.split, intro conjI allI impI rules ops emit group sig lead wait rm)
qed

lemma stop_drops_process:
  assumes "stdio_stop env s = (Inr pids, s')"
  shows "sc_process s' = None"
proof -
  let ?gone = "\<lambda>s. sc_process s = None"
  have free: "world_free ?gone" by (simp add: world_free_def)
  have mod: "preserves ?gone (modifyS f)" if "\<And>s. sc_process (f s) = sc_process s" for f
    by (rule preserves_modify) (simp add: that)
  have tail: "preserves ?gone (seqS (if b then remove_process_metadata env else returnS ())
      (seqS (join_drainer env) (seqS (on_env (se_close env pid True))
        (seqS (emit_event env ev d) (returnS pids)))))" for b pid ev d and pids :: "int list"
    unfolding remove_process_metadata_def join_drainer_def emit_event_def
    by (intro client_intros mod free; simp)
  have skip: "triple (\<lambda>_. True) m (\<lambda>_ _. True) (\<lambda>_ _. True)" for m :: "('a, 'b) client_sem"
    by (simp add: triple_def split: prod.split sum.split)
  have drop: "triple (\<lambda>_. True) (modifyS (\<lambda>s. s\<lparr>sc_process := None\<rparr>)) (\<lambda>_. ?gone) (\<lambda>_ _. True)"
    by (simp add: triple_def modifyS_def)
  have body: "triple (\<lambda>_. True) (bindS (process_group_id env (pc_pid p)) (\<lambda>pgid.
         seqS (stop_leader env (pc_pid p) pgid)
         (seqS (emit_event env ev d)
         (seqS (signal_process_group env pgid sig)
         (bindS (wait_for_process_group_stop env pgid) (\<lambda>remaining.
          seqS (kill_leader env (pc_pid p))
         (seqS (on_env (se_close env (pc_pid p) False))
         (seqS (modifyS (\<lambda>s. s\<lparr>sc_process := None\<rparr>))
         (seqS (if remaining = [] then remove_process_metadata env else returnS ())
         (seqS (join_drainer env)
         (seqS (on_env (se_close env (pc_pid p) True))
         (seqS (emit_event env ev2 d2) (returnS remaining)))))))))))))
      (\<lambda>_. ?gone) (\<lambda>_ _. True)" for p ev d sig ev2 d2
    by (intro triple_bind [OF skip] triple_seq [OF skip] triple_seq [OF drop] triple_keep [OF tail])
  have opt: "triple (\<lambda>s. x = s) (case sc_process x of None \<Rightarrow> returnS [] | Some p \<Rightarrow> M p) (\<lambda>_. ?gone) (\<lambda>_ _. True)"
    if "\<And>p. triple (\<lambda>_. True) (M p) (\<lambda>_. ?gone) (\<lambda>_ _. True)" for M and x :: "'a stdio_client"
    by (cases "sc_process x") (auto intro: triple_return triple_weaken [OF that])
  have "triple (\<lambda>_. True) (stdio_stop env) (\<lambda>_. ?gone) (\<lambda>_ _. True)"
    unfolding stdio_stop_def
    by (rule triple_bind [OF _ opt [OF body]]) (simp add: triple_def getS_def)
  from tripleD [OF this TrueI assms] show ?thesis .
qed

lemma no_timeoutD: "no_timeout m \<Longrightarrow> m s = (Inl e, s') \<Longrightarrow> \<not> timed_out e"
  by (auto simp: no_timeout_def)

lemma emit_no_timeout: "os_env env \<Longrightarrow> no_timeout (emit_event env ev d)"
  unfolding emit_event_def by (intro no_timeout_steps) (simp add: os_env_def)

lemma reset_after_timeout_resets:
  assumes env: "os_env env" and msg: "sc_last_error s = Some (''upstream timed out: '' @ up_name (sc_upstream s))"
  shows "case reset_after_timeout env s of
    (Inr _, s') \<Rightarrow> reset_client (sc_restart_count s) s' | (Inl e, s') \<Rightarrow> \<not> timed_out e"
proof -
  obtain r1 s1 where stop: "stdio_stop env s = (r1, s1)" by (metis prod.exhaust)
  show ?thesis
  proof (cases r1)
    case (Inl e)
    have "\<not> timed_out e" by (rule no_timeoutD [OF no_timeout_stop [OF env] stop [unfolded Inl]])
    with Inl stop show ?thesis by (simp add: reset_after_timeout_def monad_simps)
  next
    case (Inr pids)
    have gone: "sc_process s1 = None" using stop_drops_process stop Inr by blast
    have l: "later s s1" using preservesD [OF preserves_id_stdio_stop [where env = env] later_refl [of s]] stop by simp
    let ?s2 = "s1\<lparr>sc_initialized := False, sc_buffer := [], sc_restart_count := sc_restart_count s1 + 1,
      sc_last_error := sc_last_error s\<rparr>"
    let ?emit = "emit_event env ''upstream.restart''
      [(''restart_count'', PInt (sc_restart_count ?s2)), (''reason'', PStr ''timeout'')]"
    obtain r3 s3 where em: "?emit ?s2 = (r3, s3)" by (metis prod.exhaust)
    have run: "reset_after_timeout env s = (r3, s3)"
      using stop Inr em by (simp add: reset_after_timeout_def monad_simps)
    have r2: "reset_client (sc_restart_count s) ?s2"
      using gone l msg by (simp add: reset_client_def later_def)
    have "reset_client (sc_restart_count s) s3"
    proof -
      have "preserves (reset_client (sc_restart_count s)) (emit_event env ev d)" for ev d
        unfolding emit_event_def by (intro client_intros) (simp add: world_free_def reset_client_def)
      from preservesD [OF this r2] em show ?thesis by (metis snd_conv)
    qed
    moreover have "\<not> timed_out e" if "r3 = Inl e" for e
      using no_timeoutD [OF emit_no_timeout [OF env] em [unfolded that]] .
    ultimately show ?thesis using run by (cases r3) auto
  qed
qed

lemma reset_client_mono: "reset_client n s \<Longrightarrow> m \<le> n \<Longrightarrow> reset_client m s"
  by (simp add: reset_client_def)

lemma timeout_handler:
  assumes env: "os_env env"
  shows "triple (later s0)
     (seqS (set_error (Some (''upstream timed out: '' @ up_name (sc_upstream s0))))
        (seqS (emit_event env ev d) (seqS (reset_after_timeout env) (raiseS e))))
     (\<lambda>_ _. False) (\<lambda>e s. timed_out e \<longrightarrow> reset_client (sc_restart_count s0) s)"
proof (rule tripleI)
  fix s r s'
  let ?msg = "Some (''upstream timed out: '' @ up_name (sc_upstream s0))"
  assume l: "later s0 s"
    and run: "seqS (set_error ?msg) (seqS (emit_event env ev d) (seqS (reset_after_timeout env) (raiseS e))) s = (r, s')"
  let ?s1 = "s\<lparr>sc_last_error := ?msg\<rparr>"
  have free: "world_free (\<lambda>s. later s0 s \<and> sc_last_error s = ?msg)"
    by (simp add: world_free_def later_def)
  have "preserves (\<lambda>s. later s0 s \<and> sc_last_error s = ?msg) (emit_event env ev d)"
    unfolding emit_event_def by (intro client_intros free)
  from preservesD [OF this, of ?s1] l obtain r2 s2 where em: "emit_event env ev d ?s1 = (r2, s2)"
    and s2: "later s0 s2" "sc_last_error s2 = ?msg"
    by (cases "emit_event env ev d ?s1") (auto simp: later_def)
  show "case r of Inr x \<Rightarrow> False | Inl e \<Rightarrow> timed_out e \<longrightarrow> reset_client (sc_restart_count s0) s'"
  proof (cases r2)
    case (Inl e2)
    have "\<not> timed_out e2" by (rule no_timeoutD [OF emit_no_timeout [OF env] em [unfolded Inl]])
    with run em Inl show ?thesis by (auto simp: set_error_def monad_simps)
  next
    case (Inr u)
    obtain r3 s3 where rs: "reset_after_timeout env s2 = (r3, s3)" by (metis prod.exhaust)
    have "sc_last_error s2 = Some (''upstream timed out: '' @ up_name (sc_upstream s2))"
      using s2 by (simp add: later_def)
    from reset_after_timeout_resets [OF env this] rs s2(1)
    have "case r3 of Inr _ \<Rightarrow> reset_client (sc_restart_count s0) s3 | Inl e \<Rightarrow> \<not> timed_out e"
      by (cases r3) (auto simp: later_def intro: reset_client_mono)
    then show ?thesis
      using run em Inr rs by (cases r3) (auto simp: set_error_def monad_simps)
  qed
qed

lemma preserves_id_request [client_intros]: "preserves (later s0) (jsonrpc_request env cs t m params)"
  unfolding jsonrpc_request_def request_once_def running_process_def
  by (intro client_intros; simp)

lemma guarded_request_timeout:
  assumes env: "os_env env" and body: "preserves (later s0) body"
  shows "triple (later s0) (guarded_request env d body) (\<lambda>_ _. True)
    (\<lambda>e s. timed_out e \<longrightarrow> reset_client (sc_restart_count s0) s)"
proof -
  let ?E = "\<lambda>e s. timed_out e \<longrightarrow> reset_client (sc_restart_count s0) s"
  have quiet: "triple (later s0) m (\<lambda>_. later s0) ?E" if "preserves (later s0) m" "no_timeout m"
    for m :: "('a, 'c) client_sem"
  proof (rule tripleI)
    fix s r s' assume "later s0 s" "m s = (r, s')"
    with preservesD [OF that(1), of s] no_timeoutD [OF that(2), of s] show
      "case r of Inr x \<Rightarrow> later s0 s' | Inl e \<Rightarrow> ?E e s'" by (cases r) auto
  qed
  have handler: "triple (later s0) (bindS getS (\<lambda>s. if timed_out e
        then seqS (set_error (Some (''upstream timed out: '' @ up_name (sc_upstream s))))
           (seqS (emit_event env ev d) (seqS (reset_after_timeout env) (raiseS e)))
        else seqS (set_error (Some (exn_str e))) (raiseS e))) (\<lambda>_. later s0) ?E" for e ev
  proof (rule triple_bind [where R = "\<lambda>x s. x = s \<and> later s0 s"], simp add: triple_def getS_def, rule triple_if)
    fix x :: "'a stdio_client"
    show "triple (\<lambda>s. x = s \<and> later s0 s)
        (seqS (set_error (Some (''upstream timed out: '' @ up_name (sc_upstream x))))
          (seqS (emit_event env ev d) (seqS (reset_after_timeout env) (raiseS e)))) (\<lambda>_. later s0) ?E"
      unfolding triple_def
    proof (intro allI impI)
      fix s assume "x = s \<and> later s0 s"
      with timeout_handler [OF env, of x ev d e] show
        "case seqS (set_error (Some (''upstream timed out: '' @ up_name (sc_upstream x))))
          (seqS (emit_event env ev d) (seqS (reset_after_timeout env) (raiseS e))) s of
         (Inr x, s') \<Rightarrow> later s0 s' | (Inl e, s') \<Rightarrow> ?E e s'"
        by (fastforce simp: triple_def later_def split: prod.splits sum.splits intro: reset_client_mono)
    qed
    show "triple (\<lambda>s. x = s \<and> later s0 s) (seqS (set_error (Some (exn_str e))) (raiseS e)) (\<lambda>_. later s0) ?E"
      if "\<not> timed_out e"
      using that by (simp add: triple_def set_error_def monad_simps)
  qed
  have activity: "no_timeout (record_activity env)"
    unfolding record_activity_def using env by (intro no_timeout_steps) (simp add: os_env_def)
  have caught: "triple (later s0) (catchS body (\<lambda>e. bindS getS (\<lambda>s. if timed_out e
        then seqS (set_error (Some (''upstream timed out: '' @ up_name (sc_upstream s))))
           (seqS (emit_event env ev d) (seqS (reset_after_timeout env) (raiseS e)))
        else seqS (set_error (Some (exn_str e))) (raiseS e)))) (\<lambda>_. later s0) ?E" for ev
    by (rule triple_catch [OF triple_preserves [THEN iffD2, OF body] handler])
  have done_: "triple (later s0) (seqS (set_error None) (returnS x)) (\<lambda>_ _. True) ?E" for x :: 'b
    by (simp add: triple_def set_error_def monad_simps)
  show ?thesis
    unfolding guarded_request_def timed_out_def [symmetric]
    by (intro triple_seq [OF quiet] triple_bind [OF caught] done_ preserves_id_steps activity
        emit_no_timeout env)
qed

text \<open>C14. A call that times out leaves a client without a process, without a byte of what the process had
  written, and not initialized; the restart is counted and the error recorded. Together with
  the ids, the answer to the request that timed out can never reach a later call.\<close>

theorem timeout_resets_client:
  assumes "os_env env"
    and "stdio_call_tool env cs tool_name arguments timeout s = (Inl e, s')" and "timed_out e"
  shows "reset_client (sc_restart_count s) s'"
proof -
  have "preserves (later s) (bindS (bindS getS (\<lambda>s. liftS (call_params env cs tool_name arguments s)))
      (\<lambda>params. jsonrpc_request env cs timeout m (Some params)))" for m
    by (intro client_intros)
  from tripleD_exn [OF guarded_request_timeout [OF assms(1) this] later_refl]
    assms(2,3) show ?thesis by (auto simp: stdio_call_tool_def)
qed

lemma listing_timeout_resets_client:
  assumes "os_env env" and "stdio_list_tools env cs timeout s = (Inl e, s')" and "timed_out e"
  shows "reset_client (sc_restart_count s) s'"
proof -
  have "preserves (later s) (bindS (jsonrpc_request env cs timeout m None) (\<lambda>result.
      bindS getS (\<lambda>s. liftS (tools_of_result (up_name (sc_upstream s)) result))))" for m
    by (intro client_intros)
  from tripleD_exn [OF guarded_request_timeout [OF assms(1) this] later_refl]
    assms(2,3) show ?thesis by (auto simp: stdio_list_tools_def)
qed

section \<open>The handshake\<close>

text \<open>A listing, and with \<open>strict_initialization\<close> every call, is answered by an initialized child.\<close>

lemma skip_triple: "triple P m (\<lambda>_ _. True) (\<lambda>_ _. True)"
  by (simp add: triple_def split: prod.split sum.split)

lemma initialize_upstream_sets:
  "triple P (initialize_upstream env cs t p) (\<lambda>_. sc_initialized) (\<lambda>_ _. True)"
proof -
  have set: "triple P (modifyS (\<lambda>s. s\<lparr>sc_initialized := True, sc_capabilities := f s\<rparr>)) (\<lambda>_. sc_initialized)
      (\<lambda>_ _. True)" for P f
    by (simp add: triple_def modifyS_def)
  show ?thesis
    unfolding initialize_upstream_def
    by (rule triple_bind [OF skip_triple], rule triple_bind [OF skip_triple], clarify,
        rule triple_bind [OF skip_triple], (rule triple_seq [OF skip_triple])+, rule set)
qed

lemma handshake_before_listing:
  assumes run: "jsonrpc_request env cs t m params s = (Inr result, s')"
    and need: "m = ''tools/list'' \<or> up_strict_initialization (sc_upstream s)"
  shows "sc_initialized s'"
proof -
  let ?I = "\<lambda>s. sc_initialized s"
  have free: "pipe_free ?I" "world_free ?I" by (simp_all add: pipe_free_def world_free_def)
  have keep: "preserves ?I (request_once env cs t p m params)" for p
    unfolding request_once_def jsonrpc_payload_def roundtrip_def
    by (intro client_intros free preserves_modify) simp_all
  have check: "preserves ?I (checked_result r i)" for r i
    unfolding checked_result_def by (intro client_intros)
  have init: "triple (later s) (bindS getS (\<lambda>s. if \<not> sc_initialized s \<and>
        (m = ''tools/list'' \<or> up_strict_initialization (sc_upstream s))
      then initialize_upstream env cs t p else returnS ())) (\<lambda>_. ?I) (\<lambda>_ _. True)" for p
  proof (rule triple_bind [where R = "\<lambda>x s'. x = s' \<and> later s s'"], simp add: triple_def getS_def, rule triple_if)
    fix x :: "'a stdio_client"
    assume "\<not> (\<not> sc_initialized x \<and> (m = ''tools/list'' \<or> up_strict_initialization (sc_upstream x)))"
    with need show "triple (\<lambda>s'. x = s' \<and> later s s') (returnS ()) (\<lambda>_. ?I) (\<lambda>_ _. True)"
      by (intro triple_return) (auto simp: later_def)
  qed (rule initialize_upstream_sets)
  have "triple (later s) (jsonrpc_request env cs t m params) (\<lambda>_. ?I) (\<lambda>_ _. True)"
    unfolding jsonrpc_request_def
    apply (rule triple_bind [OF triple_read_state])
    apply (rule triple_seq [OF triple_keep], intro client_intros)
    apply (rule triple_seq [OF triple_keep], intro client_intros)
    apply (rule triple_bind [OF triple_keep], unfold running_process_def, intro client_intros)
    apply (rule triple_seq [OF init])
    apply (rule triple_bind [OF triple_keep [OF keep]], clarify)
    apply (rule triple_bind [OF triple_read_state], rule triple_if)
     apply (rule triple_seq [OF initialize_upstream_sets])
     apply (rule triple_bind [OF triple_keep [OF keep]], clarify)
     apply (rule triple_keep [OF check])+
    done
  from tripleD [OF this later_refl run] show ?thesis .
qed

section \<open>Reading a line\<close>

text \<open>
  The readings of the clock while nothing else happens, and the world after a number of them. Each chunk
  that is read was there by the deadline, or by the reading before it when that is later.
\<close>

fun clock_readings :: "'w stdio_env \<Rightarrow> nat \<Rightarrow> 'w \<Rightarrow> rat res list" where
  "clock_readings env 0 w = []"
| "clock_readings env (Suc n) w = (case se_now env w of (r, w') \<Rightarrow> r # clock_readings env n w')"

fun clock_world :: "'w stdio_env \<Rightarrow> nat \<Rightarrow> 'w \<Rightarrow> 'w" where
  "clock_world env 0 w = w"
| "clock_world env (Suc n) w = clock_world env n (snd (se_now env w))"

definition chunks_in_time :: "'w stdio_env \<Rightarrow> rat \<Rightarrow> 'w \<Rightarrow> read_events \<Rightarrow> bool" where
  "chunks_in_time env deadline w cs \<longleftrightarrow> list_all2 (\<lambda>reading chunk. case reading of
     Inl e \<Rightarrow> False | Inr now \<Rightarrow> fst chunk \<le> max deadline now) (clock_readings env (length cs) w) cs"

text \<open>What waiting for a chunk that is not read ends with: \<open>s\<close> is the client when the line was asked for.\<close>

definition waiting_ends :: "'w stdio_env \<Rightarrow> rat \<Rightarrow> process \<Rightarrow> string \<Rightarrow> 'w \<Rightarrow> read_events \<Rightarrow> exn \<Rightarrow> bool" where
  "waiting_ends env deadline p name w output e = (case se_now env w of
     (Inl e', w') \<Rightarrow> e = e'
   | (Inr now, w') \<Rightarrow>
       if output = [] \<or> max deadline now < fst (hd output)
       then e = (if se_alive env (pc_pid p) w' then upstream_timed_out name else exited_without_response name)
       else snd (hd output) = [] \<and> e = exited_without_response name)"

text \<open>One line or one failure, over the chunks that were read for it.\<close>

definition line_framed :: "'w stdio_env \<Rightarrow> rat \<Rightarrow> process \<Rightarrow> 'w stdio_client \<Rightarrow> read_events \<Rightarrow> (exn + string) \<times> 'w stdio_client \<Rightarrow> bool" where
  "line_framed env deadline p s cs run \<longleftrightarrow>
     sc_output s = cs @ sc_output (snd run) \<and> chunks_in_time env deadline (sc_world s) cs \<and>
     (case run of
        (Inr l, t) \<Rightarrow> sc_buffer s @ concat (map snd cs) = l @ newline # sc_buffer t \<and> newline \<notin> set l
      | (Inl e, t) \<Rightarrow> sc_buffer t = sc_buffer s @ concat (map snd cs) \<and> newline \<notin> set (sc_buffer t) \<and>
          waiting_ends env deadline p (up_name (sc_upstream s)) (clock_world env (length cs) (sc_world s)) (sc_output t) e)"

lemma take_line_framed:
  assumes "newline \<in> set (sc_buffer s)"
  shows "line_framed env d p s [] (take_line s)"
proof -
  obtain rest where rest: "dropWhile (\<lambda>c. c \<noteq> newline) (sc_buffer s) = newline # rest"
    using assms by (cases "dropWhile (\<lambda>c. c \<noteq> newline) (sc_buffer s)") (auto simp: dropWhile_eq_Nil_conv dropWhile_eq_Cons_conv)
  have "sc_buffer s = takeWhile (\<lambda>c. c \<noteq> newline) (sc_buffer s) @ newline # rest"
    using takeWhile_dropWhile_id [of "\<lambda>c. c \<noteq> newline" "sc_buffer s"] by (simp only: rest)
  then show ?thesis
    by (auto simp: line_framed_def take_line_def chunks_in_time_def rest dest: set_takeWhileD)
qed

lemma framed_chunk:
  assumes "se_now env (sc_world s) = (Inr now, w)" and "sc_output s = (a, chunk) # rest" and "a \<le> max deadline now"
    and "line_framed env deadline p (s\<lparr>sc_world := w, sc_buffer := sc_buffer s @ chunk, sc_output := rest\<rparr>) cs run"
  shows "line_framed env deadline p s ((a, chunk) # cs) run"
  using assms by (auto simp: line_framed_def chunks_in_time_def split: prod.splits sum.splits)

lemma read_stdout_line_framed: "\<exists>cs. line_framed env deadline p s cs (read_stdout_line env deadline p s)"
proof (induction env deadline p s rule: read_stdout_line.induct)
  case (1 env d p s)
  show ?case
  proof (cases "newline \<in> set (sc_buffer s)")
    case True
    then have "read_stdout_line env d p s = take_line s" by (simp add: read_stdout_line.simps)
    with take_line_framed [OF True, of env d p] show ?thesis by metis
  next
    case False
    obtain r w where now: "se_now env (sc_world s) = (r, w)" by (metis prod.exhaust)
    show ?thesis
    proof (cases "\<exists>now a chunk rest. r = Inr now \<and> sc_output s = (a, chunk) # rest \<and> a \<le> max d now \<and> chunk \<noteq> []")
      case True
      then obtain n a chunk rest where c: "r = Inr n" "sc_output s = (a, chunk) # rest" "a \<le> max d n" "chunk \<noteq> []" by blast
      let ?s1 = "s\<lparr>sc_world := w\<rparr>"
      let ?t = "?s1\<lparr>sc_buffer := sc_buffer ?s1 @ chunk, sc_output := rest\<rparr>"
      have on: "(Inr n, ?s1) = on_env (se_now env) s" using now c(1) by (simp add: on_env_def)
      have time: "\<not> n + max 0 (d - n) < a" using c(3) by (auto simp: max_def split: if_splits)
      have step: "read_stdout_line env d p s = read_stdout_line env d p ?t"
        using False now c time by (simp add: read_stdout_line.simps [of env d p s] on_env_def)
      obtain cs where "line_framed env d p ?t cs (read_stdout_line env d p ?t)"
        using "1.IH" [OF False on refl refl _ refl time c(4)] c(2) by auto
      then have "line_framed env d p s ((a, chunk) # cs) (read_stdout_line env d p ?t)"
        using framed_chunk [OF now [unfolded c(1)] c(2,3)] by simp
      with step show ?thesis by metis
    next
      case no: False
      note unfold = read_stdout_line.simps [of env d p s] on_env_def line_framed_def chunks_in_time_def waiting_ends_def Let_def
      have wait: "n + max 0 (d - n) = max d n" for n by (auto simp: max_def)
      have "line_framed env d p s [] (read_stdout_line env d p s)"
      proof (cases r)
        case (Inl e)
        with False now show ?thesis by (simp add: unfold)
      next
        case (Inr n)
        show ?thesis
        proof (cases "sc_output s")
          case Nil
          with False now Inr show ?thesis by (simp add: unfold)
        next
          case (Cons c rest)
          obtain a chunk where c: "c = (a, chunk)" by (cases c)
          from no have "max d n < a \<or> chunk = []" using Inr Cons c by auto
          with False now Inr Cons c show ?thesis by (auto simp: unfold wait)
        qed
      qed
      then show ?thesis by blast
    qed
  qed
qed

text \<open>C28. The messages of a child are its lines, whatever the pieces are they arrive in. Asking for a line reads
  chunks that are there by the deadline (or by the look at the clock before it, when that is later) until a
  line is complete: the line is returned without its newline, and what comes after it stays for the next
  one, nothing lost and nothing twice. It fails only while no line is complete, with what was read kept:
  as timed out when no chunk arrives by then from a child that runs, and otherwise as exited without a
  response, when the child is gone or has closed its pipe.\<close>

theorem read_stdout_line_correct:
  "\<exists>cs t. snd (read_stdout_line env deadline p s) = t \<and> sc_output s = cs @ sc_output t \<and>
    chunks_in_time env deadline (sc_world s) cs \<and>
    (case fst (read_stdout_line env deadline p s) of
       Inr l \<Rightarrow> sc_buffer s @ concat (map snd cs) = l @ newline # sc_buffer t \<and> newline \<notin> set l
     | Inl e \<Rightarrow> sc_buffer t = sc_buffer s @ concat (map snd cs) \<and> newline \<notin> set (sc_buffer t) \<and>
         waiting_ends env deadline p (up_name (sc_upstream s)) (clock_world env (length cs) (sc_world s)) (sc_output t) e)"
proof -
  obtain cs where framed: "line_framed env deadline p s cs (read_stdout_line env deadline p s)"
    using read_stdout_line_framed by blast
  obtain r t where run: "read_stdout_line env deadline p s = (r, t)" by (metis prod.exhaust)
  show ?thesis
  proof (cases r)
    case (Inl e)
    show ?thesis using framed unfolding run Inl line_framed_def fst_conv snd_conv prod.case sum.case by blast
  next
    case (Inr l)
    show ?thesis using framed unfolding run Inr line_framed_def fst_conv snd_conv prod.case sum.case by blast
  qed
qed

end
