(* ===== verification/Stdio_Runs.thy ===== *)
theory Stdio_Runs
  imports Stdio_Facts
begin

text \<open>
  The client of a stdio upstream on concrete hosts: the runs that show the hypotheses of its
  properties can hold, and two runs in which it does not do what its callers expect.
\<close>

section \<open>Runs\<close>

text \<open>
  A host on which everything succeeds and every look at the clock takes ten seconds; the child
  writes the given lines. A line with a number is the response to the request of that number, any
  other line but \<open>n\<close> is not JSON, and \<open>n\<close> is a notification.
\<close>

definition demo_loads :: "string \<Rightarrow> pyval res" where
  "demo_loads raw = (case parse_int raw of
     Some i \<Rightarrow> Inr (PDict [(''jsonrpc'', PStr ''2.0''), (''id'', PInt i), (''result'', PDict [(''n'', PInt i)])])
   | None \<Rightarrow> if raw = ''n'' then Inr (PDict [(''jsonrpc'', PStr ''2.0''), (''method'', PStr ''progress'')])
       else Inl (Exn JSONDecodeError raw))"

definition demo_line :: "string \<Rightarrow> string" where
  "demo_line l = l @ [newline]"

definition no_processes :: proc_env where
  "no_processes = \<lparr>pv_kill = \<lambda>h p. None, pv_killpg = \<lambda>h p. None, pv_sigkill = \<lambda>h p. None,
     pv_linux = True, pv_stat = \<lambda>h p. None, pv_lstart = \<lambda>h p. None\<rparr>"

definition demo_host :: "rat host_env" where
  "demo_host = \<lparr>he_uuid = returnS ''u'', he_send = \<lambda>t. returnS (), he_events = \<lambda>d. returnS [],
     he_loads = demo_loads\<rparr>"

definition demo_env :: "read_events \<Rightarrow> rat stdio_env" where
  "demo_env script = \<lparr>se_now = (\<lambda>w. (Inr w, w + 10)), se_log = \<lambda>e n d. returnS (), se_mkdir = \<lambda>q. returnS (),
     se_environ = [], se_read_secret = \<lambda>q. None,
     se_popen = \<lambda>c d e. returnS (\<lparr>pc_pid = 7, pc_stdin = True, pc_stdout = True, pc_stderr = True\<rparr>, script),
     se_alive = \<lambda>p w. True, se_getpgid = \<lambda>p w. Inr p, se_killpg = \<lambda>g t. returnS (),
     se_wait = \<lambda>p t. returnS True, se_kill = \<lambda>p. returnS True, se_group_polls = \<lambda>g. returnS ([], []),
     se_close = \<lambda>p b. returnS (), se_drain = \<lambda>p q. returnS (), se_join = returnS (),
     se_write_file = \<lambda>q t. returnS (), se_unlink = \<lambda>q. returnS (), se_write = \<lambda>p t. returnS True,
     se_loads = demo_loads, se_processes = \<lambda>w. no_processes, se_broker_pid = 1, se_cpu = \<lambda>g w. PNone,
     se_memory = \<lambda>g w. PNone, se_host = demo_host, se_version = ''1''\<rparr>"

lemma demo_env_os: "os_env (demo_env script)"
  by (simp add: os_env_def demo_env_def no_timeout_def returnS_def)

definition demo_client :: "rat stdio_client" where
  "demo_client = new_stdio_client (snd (hd (bc_upstreams slug_config))) (path_of ''/s'') [] None None 0 0"

definition demo_scope :: call_scope where
  "demo_scope = \<lparr>cl_meta = \<lparr>mc_current = [], mc_broker = []\<rparr>, cl_relay = None\<rparr>"

definition demo_call :: "read_events \<Rightarrow> rat stdio_client \<Rightarrow> (pydict res) \<times> rat stdio_client" where
  "demo_call script = stdio_call_tool (demo_env script) demo_scope ''t'' [] 60"

lemma result_belongs_to_call_witness:
  "\<exists>s'. demo_call [(1, demo_line ''n''), (2, demo_line ''0'')] demo_client = (Inr [(''n'', PInt 0)], s') \<and>
     answers_request (demo_env [(1, demo_line ''n''), (2, demo_line ''0'')]) 0 [(''n'', PInt 0)] s'"
proof -
  let ?script = "[(1, demo_line ''n''), (2, demo_line ''0'')]"
  have "fst (demo_call ?script demo_client) = Inr [(''n'', PInt 0)]" by code_simp
  then obtain s' where run: "demo_call ?script demo_client = (Inr [(''n'', PInt 0)], s')"
    by (metis prod.collapse)
  have "sc_next_id demo_client = 0" by (simp add: demo_client_def new_stdio_client_def)
  with result_belongs_to_call [OF run [unfolded demo_call_def]] run show ?thesis by auto
qed

lemma timeout_resets_client_witness:
  "\<exists>e s'. demo_call [] demo_client = (Inl e, s') \<and> reset_client 0 s'"
proof -
  have "\<exists>e. fst (demo_call [] demo_client) = Inl e \<and> timed_out e"
    by (rule exI [where x = "upstream_timed_out ''cbm''"]) code_simp
  then obtain e s' where run: "demo_call [] demo_client = (Inl e, s')" "timed_out e"
    by (metis prod.collapse)
  have "sc_restart_count demo_client = 0" by (simp add: demo_client_def new_stdio_client_def)
  with timeout_resets_client [OF demo_env_os run(1) [unfolded demo_call_def] run(2)] run show ?thesis by auto
qed

text \<open>A line that arrives in two pieces, with the beginning of the next; the deadline is at 30.\<close>

definition demo_chunks :: read_events where
  "demo_chunks = [(5, ''c''), (25, ''d'' @ demo_line [] @ ''e'')]"

definition demo_reading :: "(exn + string) \<times> rat stdio_client" where
  "demo_reading = read_stdout_line (demo_env []) 30 \<lparr>pc_pid = 7, pc_stdin = True, pc_stdout = True, pc_stderr = True\<rparr>
     (demo_client\<lparr>sc_buffer := ''ab'', sc_output := demo_chunks @ [(40, ''f'')]\<rparr>)"

lemma demo_line_read:
  "fst demo_reading = Inr ''abcd''" "sc_buffer (snd demo_reading) = ''e''" "sc_output (snd demo_reading) = [(40, ''f'')]"
  by code_simp+

lemma read_stdout_line_correct_witness:
  "chunks_in_time (demo_env []) 30 (sc_world demo_client) demo_chunks \<and>
   ''ab'' @ concat (map snd demo_chunks) = ''abcd'' @ newline # ''e''"
proof -
  obtain cs where "demo_chunks @ [(40, ''f'')] = cs @ sc_output (snd demo_reading)"
    and "chunks_in_time (demo_env []) 30 (sc_world demo_client) cs"
    and "''ab'' @ concat (map snd cs) = ''abcd'' @ newline # sc_buffer (snd demo_reading)"
    using read_stdout_line_correct [of "demo_env []" 30 "\<lparr>pc_pid = 7, pc_stdin = True, pc_stdout = True, pc_stderr = True\<rparr>"
        "demo_client\<lparr>sc_buffer := ''ab'', sc_output := demo_chunks @ [(40, ''f'')]\<rparr>", folded demo_reading_def]
    by (simp add: demo_line_read(1)) metis
  then show ?thesis by (simp only: demo_line_read append_same_eq)
qed

text \<open>
  The deadline of this call is at 70. The clock is only looked at to wait for more, and what has
  arrived is read all the same: the messages from 75 on arrive after the deadline, the last at 105.
\<close>

lemma deadline_not_enforced:
  "fst (demo_call (map (\<lambda>t. (t, demo_line ''n'')) [15, 25, 35, 45, 55, 65, 75, 85, 95] @
      [(105, demo_line ''0'')]) demo_client) = Inr [(''n'', PInt 0)]"
  by code_simp

text \<open>
  A line that is not JSON fails the call it arrives in, and leaves the response of that call in
  the pipe: every later call then reads the response of the call before it, and fails.
\<close>

definition mismatches :: "pydict res \<Rightarrow> bool" where
  "mismatches r = (case r of Inl e \<Rightarrow> contains ''upstream response id mismatch'' (exn_str e) | Inr _ \<Rightarrow> False)"

lemma stray_line_desynchronises:
  "let script = [(1, demo_line ''starting'' @ demo_line ''0''), (2, demo_line ''1''), (3, demo_line ''2'')];
       (r0, s0) = demo_call script demo_client; (r1, s1) = demo_call script s0; (r2, s2) = demo_call script s1
   in r0 = Inl (Exn JSONDecodeError ''starting'') \<and> mismatches r1 \<and> mismatches r2"
  by code_simp

end
