(* ===== verification/Config_Layers.thy ===== *)
theory Config_Layers
  imports Json_Files "HOL-Library.Multiset"
begin

text \<open>
  Composition of a configuration from layers (\<^verbatim>\<open>config_layers.py\<close>): organisation, team, add-ons and
  user are merged in this order, each value remembers the layer it comes from, and no layer may
  hold a literal secret. Keys are strings, and values are trees: that two places of a YAML document
  share one mapping through an alias, and a merge into one of them is seen at the other, is not modelled.
\<close>

section \<open>Layers\<close>

record layer_document =
  ly_name :: string
  ly_source :: path
  ly_data :: pydict

text \<open>Where a value comes from: the name of the layer and the text of its path.\<close>

record origin =
  og_layer :: string
  og_source :: string

record layer_conflict =
  cf_path :: string
  cf_previous_layer :: string
  cf_new_layer :: string

type_synonym provenance = "(string \<times> origin) list"

record layered_config =
  lc_effective :: pydict
  lc_digest :: string
  lc_layers :: "string list"
  lc_provenance :: provenance
  lc_conflicts :: "layer_conflict list"

definition layer_error :: "string \<Rightarrow> exn" where
  "layer_error m = Exn ConfigLayerError m"

definition dotted :: "string list \<Rightarrow> string" where
  "dotted keys = join ''.'' keys"

definition is_secret_ref :: "pydict \<Rightarrow> bool" where
  "is_secret_ref d \<longleftrightarrow> d \<noteq> [] \<and> list_all (\<lambda>k. k = ''secret_ref'') (map fst d)"

section \<open>Secrets\<close>

definition secret_key_search :: "string \<Rightarrow> bool" where
  "secret_key_search k \<longleftrightarrow>
     list_ex (\<lambda>w. contains w (lower k)) [''secret'', ''token'', ''credential'', ''password'', ''key'']"

definition is_upper :: "char \<Rightarrow> bool" where
  "is_upper c \<longleftrightarrow> 65 \<le> code c \<and> code c \<le> 90"

definition secret_ref_fullmatch :: "string \<Rightarrow> bool" where
  "secret_ref_fullmatch s \<longleftrightarrow> (case s of [] \<Rightarrow> False
     | c # cs \<Rightarrow> is_upper c \<and> list_all (\<lambda>d. is_upper d \<or> is_digit d \<or> d = CHR ''_'') cs)"

definition validate_secret_ref :: "string \<Rightarrow> string list \<Rightarrow> pyval \<Rightarrow> unit res" where
  "validate_secret_ref layer keys v =
     require (case v of PStr s \<Rightarrow> secret_ref_fullmatch s | _ \<Rightarrow> False)
       (layer_error (''secret_ref must name an environment variable in layer '' @ layer @ '' at '' @ dotted keys))"

definition literal_secret :: "string \<Rightarrow> string list \<Rightarrow> exn" where
  "literal_secret layer keys =
     layer_error (''literal secret value is not allowed in layer '' @ layer @ '' at '' @ dotted keys)"

lemma foldE_cong [fundef_cong]:
  "xs = ys \<Longrightarrow> s = t \<Longrightarrow> (\<And>x r. x \<in> set ys \<Longrightarrow> f r x = g r x) \<Longrightarrow> foldE f s xs = foldE g t ys"
proof -
  have "(\<And>x r. x \<in> set ys \<Longrightarrow> f r x = g r x) \<Longrightarrow> foldE f t ys = foldE g t ys"
    by (induction ys arbitrary: t) (auto simp: bindE_def split: sum.split)
  then show "xs = ys \<Longrightarrow> s = t \<Longrightarrow> (\<And>x r. x \<in> set ys \<Longrightarrow> f r x = g r x) \<Longrightarrow> foldE f s xs = foldE g t ys"
    by simp
qed

function validate_secret_references :: "string \<Rightarrow> string list \<Rightarrow> pyval \<Rightarrow> unit res" where
  "validate_secret_references layer keys v =
     (case v of
        PDict d \<Rightarrow>
          if dhas d ''secret_value'' then Inl (literal_secret layer keys)
          else if dhas d ''secret_ref'' then validate_secret_ref layer keys (dget d ''secret_ref'')
          else foldE (\<lambda>_ (k, child).
             if secret_key_search k \<and> is_str child then Inl (literal_secret layer (keys @ [k]))
             else validate_secret_references layer (keys @ [k]) child) () d
      | PList xs \<Rightarrow> foldE (\<lambda>_ (i, child). validate_secret_references layer (keys @ [str_nat i]) child) ()
          (enumerate_from 0 xs)
      | _ \<Rightarrow> Inr ())"
  by pat_completeness auto

lemma enumerate_from_mem: "(i, x) \<in> set (enumerate_from n xs) \<Longrightarrow> x \<in> set xs"
  by (metis map_snd_enumerate_from set_map image_eqI snd_conv)

termination validate_secret_references
  by (relation "measure (\<lambda>(l, ks, v). size v)")
    (auto dest!: size_snd_mem_dict enumerate_from_mem size_mem_list)

declare validate_secret_references.simps [simp del]

definition validate_layer :: "layer_document \<Rightarrow> unit res" where
  "validate_layer layer =
     bindE (require (strip (ly_name layer) \<noteq> []) (layer_error ''config layer name is required'')) (\<lambda>_.
       validate_secret_references (ly_name layer) [] (PDict (ly_data layer)))"

section \<open>Provenance\<close>

definition origin_of :: "layer_document \<Rightarrow> origin" where
  "origin_of layer = \<lparr>og_layer = ly_name layer, og_source = path_str (ly_source layer)\<rparr>"

function record_provenance :: "layer_document \<Rightarrow> string list \<Rightarrow> pyval \<Rightarrow> provenance \<Rightarrow> provenance" where
  "record_provenance layer keys v prov =
     (case v of
        PDict d \<Rightarrow>
          if is_secret_ref d then AList.update (dotted keys) (origin_of layer) prov
          else fold (\<lambda>(k, child). record_provenance layer (keys @ [k]) child) (sort_key fst d) prov
      | _ \<Rightarrow> AList.update (dotted keys) (origin_of layer) prov)"
  by pat_completeness auto

termination record_provenance
  by (relation "measure (\<lambda>(l, ks, v, p). size v)") (auto dest!: size_snd_mem_dict)

declare record_provenance.simps [simp del]

definition below :: "string \<Rightarrow> string \<Rightarrow> bool" where
  "below dotted_path other \<longleftrightarrow> prefix (dotted_path @ ''.'') other"

definition previous_layer_for_path :: "provenance \<Rightarrow> string \<Rightarrow> string res" where
  "previous_layer_for_path prov dotted_path =
     (case map_of prov dotted_path of
        Some entry \<Rightarrow> Inr (og_layer entry)
      | None \<Rightarrow>
          let layers = remdups (map (\<lambda>(p, entry). og_layer entry) (filter (\<lambda>(p, entry). below dotted_path p) prov))
          in (case layers of
                [] \<Rightarrow> Inl (layer_error (''missing provenance for conflict path: '' @ dotted_path))
              | [layer] \<Rightarrow> Inr layer
              | _ \<Rightarrow> Inr ''mixed''))"

definition clear_provenance :: "string \<Rightarrow> provenance \<Rightarrow> provenance" where
  "clear_provenance dotted_path prov =
     filter (\<lambda>(p, entry). p \<noteq> dotted_path \<and> \<not> below dotted_path p) prov"

section \<open>Merging\<close>

type_synonym merge_state = "pydict \<times> provenance \<times> layer_conflict list"

text \<open>A value that differs from the one it replaces is a conflict.\<close>

definition note_conflict ::
    "layer_document \<Rightarrow> string \<Rightarrow> pyval option \<Rightarrow> pyval \<Rightarrow> provenance \<times> layer_conflict list \<Rightarrow>
     (provenance \<times> layer_conflict list) res" where
  "note_conflict layer path current incoming = (\<lambda>(prov, conflicts).
     case current of
       None \<Rightarrow> Inr (prov, conflicts)
     | Some old \<Rightarrow>
         if py_eq old incoming then Inr (prov, conflicts)
         else bindE (previous_layer_for_path prov path) (\<lambda>previous.
           Inr (clear_provenance path prov, conflicts @
             [\<lparr>cf_path = path, cf_previous_layer = previous, cf_new_layer = ly_name layer\<rparr>])))"

definition items_size :: "pydict \<Rightarrow> nat" where
  "items_size d = sum_list (map (\<lambda>(k, v). Suc (size v)) d)"

lemma items_size_dict: "items_size d \<le> size_list (size_prod (\<lambda>x. 0) size) d"
  by (induction d) (auto simp: items_size_def)

lemma items_size_cons: "items_size ((k, v) # d) = Suc (size v) + items_size d"
  by (simp add: items_size_def)

lemma items_size_sort [simp]: "items_size (sort_key fst d) = items_size d"
proof -
  have "mset (map f (sort_key fst d)) = mset (map f d)" for f :: "string \<times> pyval \<Rightarrow> nat"
    by simp
  then show ?thesis unfolding items_size_def by (metis sum_mset_sum_list)
qed

text \<open>The mapping and the incoming one, key by key in sorted order; two mappings are merged.\<close>

definition mergeable :: "pyval option \<Rightarrow> pyval \<Rightarrow> (pydict \<times> pydict) option" where
  "mergeable current incoming =
     (case (current, incoming) of
        (Some (PDict old), PDict new) \<Rightarrow> if is_secret_ref new then None else Some (old, new)
      | _ \<Rightarrow> None)"

function merge_items ::
    "layer_document \<Rightarrow> string list \<Rightarrow> (string \<times> pyval) list \<Rightarrow> merge_state \<Rightarrow> merge_state res" where
  "merge_items layer keys [] st = Inr st"
| "merge_items layer keys ((k, v) # rest) st =
     (case st of (target, prov, conflicts) \<Rightarrow>
        (case mergeable (map_of target k) v of
           Some (old, new) \<Rightarrow>
             (case merge_items layer (keys @ [k]) (sort_key fst new) (old, prov, conflicts) of
                Inl e \<Rightarrow> Inl e
              | Inr (merged, prov', conflicts') \<Rightarrow>
                  merge_items layer keys rest (AList.update k (PDict merged) target, prov', conflicts'))
         | None \<Rightarrow>
             (case note_conflict layer (dotted (keys @ [k])) (map_of target k) v (prov, conflicts) of
                Inl e \<Rightarrow> Inl e
              | Inr (prov', conflicts') \<Rightarrow>
                  merge_items layer keys rest (AList.update k v target,
                    record_provenance layer (keys @ [k]) v prov', conflicts'))))"
  by pat_completeness auto

lemma mergeable_Some:
  "mergeable c v = Some (old, new) \<longleftrightarrow> c = Some (PDict old) \<and> v = PDict new \<and> \<not> is_secret_ref new"
  by (auto simp: mergeable_def split: option.splits pyval.splits)

termination merge_items
  by (relation "measure (\<lambda>(l, ks, items, st). items_size items)")
    (auto simp: mergeable_Some items_size_cons intro!: le_imp_less_Suc le_SucI trans_le_add1 items_size_dict)

definition merge_layer :: "merge_state \<Rightarrow> layer_document \<Rightarrow> merge_state res" where
  "merge_layer st layer =
     bindE (validate_layer layer) (\<lambda>_. merge_items layer [] (sort_key fst (ly_data layer)) st)"

definition layer_stack ::
    "layer_document option \<Rightarrow> layer_document option \<Rightarrow> layer_document list \<Rightarrow> layer_document option \<Rightarrow>
     layer_document list" where
  "layer_stack org team add_ons user =
     List.map_filter id ([org, team] @ map Some add_ons @ [user])"

definition compose_layered_config ::
    "(string \<Rightarrow> string) \<Rightarrow> layer_document option \<Rightarrow> layer_document option \<Rightarrow> layer_document list \<Rightarrow>
     layer_document option \<Rightarrow> layered_config res" where
  "compose_layered_config sha256 org team add_ons user =
     (let layers = layer_stack org team add_ons user in
      if layers = [] then Inl (layer_error ''at least one config layer is required'')
      else bindE (foldE merge_layer ([], [], []) layers) (\<lambda>(effective, prov, conflicts).
        Inr \<lparr>lc_effective = effective, lc_digest = ''sha256:'' @ sha256 (dumps_compact (PDict effective)),
          lc_layers = map ly_name layers, lc_provenance = sort_key fst prov, lc_conflicts = conflicts\<rparr>))"

definition origin_dict :: "origin \<Rightarrow> pyval" where
  "origin_dict og = PDict [(''layer'', PStr (og_layer og)), (''source'', PStr (og_source og))]"

definition conflict_dict :: "layer_conflict \<Rightarrow> pyval" where
  "conflict_dict c = PDict [(''path'', PStr (cf_path c)), (''previous_layer'', PStr (cf_previous_layer c)),
     (''new_layer'', PStr (cf_new_layer c))]"

definition layers_summary :: "layered_config \<Rightarrow> pydict" where
  "layers_summary r = [(''changed_runtime_state'', PBool False), (''effective_config_digest'', PStr (lc_digest r)),
     (''layers'', PList (map PStr (lc_layers r))), (''effective_config'', PDict (lc_effective r)),
     (''provenance'', PDict (map (\<lambda>(p, og). (p, origin_dict og)) (lc_provenance r))),
     (''conflicts'', PList (map conflict_dict (lc_conflicts r)))]"

section \<open>Reading a layer\<close>

text \<open>The decoders give the value or the text of their exception.\<close>

record layer_files =
  lf_expanduser :: "path \<Rightarrow> path"
  lf_exists :: "path \<Rightarrow> bool"
  lf_is_file :: "path \<Rightarrow> bool"
  lf_json :: "path \<Rightarrow> string + pyval"
  lf_yaml :: "path \<Rightarrow> string + pyval"

text \<open>\<open>suffix\<close> and \<open>stem\<close>: the last dot of the name, unless it is its first or last character.\<close>

definition last_dot :: "string \<Rightarrow> nat option" where
  "last_dot n = (let ext = takeWhile (\<lambda>c. c \<noteq> CHR ''.'') (rev n);
       i = length n - length ext in
     if ext = [] \<or> i \<le> 1 then None else Some (i - 1))"

definition path_suffix :: "path \<Rightarrow> string" where
  "path_suffix p = (case last_dot (path_name p) of None \<Rightarrow> [] | Some i \<Rightarrow> drop i (path_name p))"

definition path_stem :: "path \<Rightarrow> string" where
  "path_stem p = (case last_dot (path_name p) of None \<Rightarrow> path_name p | Some i \<Rightarrow> take i (path_name p))"

definition load_layer_document :: "layer_files \<Rightarrow> path \<Rightarrow> string option \<Rightarrow> layer_document res" where
  "load_layer_document fs p name =
     (let resolved = lf_expanduser fs p; shown = path_str resolved in
      if \<not> lf_exists fs resolved then Inl (layer_error (''config layer file not found: '' @ shown))
      else if \<not> lf_is_file fs resolved then Inl (layer_error (''config layer path must be a file: '' @ shown))
      else case (if lower (path_suffix resolved) = ''.json'' then lf_json fs resolved else lf_yaml fs resolved) of
        Inl m \<Rightarrow> Inl (layer_error (''config layer file is invalid: '' @ shown @ '': '' @ m))
      | Inr (PDict d) \<Rightarrow> Inr \<lparr>ly_name = (case name of None \<Rightarrow> path_stem resolved
            | Some n \<Rightarrow> if n = [] then path_stem resolved else n), ly_source = resolved, ly_data = d\<rparr>
      | Inr v \<Rightarrow> Inl (layer_error (''config layer must contain an object: '' @ shown)))"

definition optional_layer :: "layer_files \<Rightarrow> path option \<Rightarrow> string \<Rightarrow> layer_document option res" where
  "optional_layer fs p name =
     (case p of None \<Rightarrow> Inr None | Some q \<Rightarrow> bindE (load_layer_document fs q (Some name)) (\<lambda>l. Inr (Some l)))"

text \<open>The layers of the command line, composed: the add-ons are read first.\<close>

definition compose_layer_files ::
    "(string \<Rightarrow> string) \<Rightarrow> layer_files \<Rightarrow> path option \<Rightarrow> path option \<Rightarrow> path list \<Rightarrow> path option \<Rightarrow>
     layered_config res" where
  "compose_layer_files sha256 fs org team add_ons user =
     bindE (mapE (\<lambda>p. load_layer_document fs p None) add_ons) (\<lambda>layers.
     bindE (optional_layer fs org ''org'') (\<lambda>o'.
     bindE (optional_layer fs team ''team'') (\<lambda>t.
     bindE (optional_layer fs user ''user'') (\<lambda>u.
     compose_layered_config sha256 o' t layers u))))"

end
