(* ===== verification/Layer_Facts.thy ===== *)
theory Layer_Facts
  imports Config_Layers
begin

text \<open>
  What the composition of layers promises: a value of the effective configuration is the one of the
  last layer that speaks about its path, the provenance names that layer, and a literal secret is
  never accepted below mappings without a reference.
\<close>

section \<open>Paths into a document\<close>

text \<open>The value at a path of keys.\<close>

fun value_at :: "pydict \<Rightarrow> string list \<Rightarrow> pyval option" where
  "value_at d [] = Some (PDict d)"
| "value_at d (k # ks) =
     (case map_of d k of
        None \<Rightarrow> None
      | Some v \<Rightarrow> if ks = [] then Some v else (case v of PDict e \<Rightarrow> value_at e ks | _ \<Rightarrow> None))"

text \<open>
  A layer speaks about a path when it has a value at the path, or at a beginning of it one that is
  not merged.
\<close>

fun touches :: "pydict \<Rightarrow> string list \<Rightarrow> bool" where
  "touches d [] = True"
| "touches d (k # ks) =
     (case map_of d k of
        None \<Rightarrow> False
      | Some (PDict e) \<Rightarrow> is_secret_ref e \<or> ks = [] \<or> touches e ks
      | Some v \<Rightarrow> True)"

text \<open>The paths that the provenance of a value has: no mapping but references to secrets.\<close>

fun leaf_at :: "pyval \<Rightarrow> string list \<Rightarrow> bool" where
  "leaf_at (PDict d) [] = is_secret_ref d"
| "leaf_at v [] = True"
| "leaf_at (PDict d) (k # ks) =
     (\<not> is_secret_ref d \<and> (case map_of d k of None \<Rightarrow> False | Some v \<Rightarrow> leaf_at v ks))"
| "leaf_at v (k # ks) = False"

lemma value_at_touches: "value_at d ks = Some v \<Longrightarrow> touches d ks"
  by (induction d ks rule: value_at.induct) (auto split: option.splits pyval.splits if_splits)

lemma value_at_update:
  "value_at (AList.update k v d) (k' # ks) =
     (if k' = k then (if ks = [] then Some v else (case v of PDict e \<Rightarrow> value_at e ks | _ \<Rightarrow> None))
      else value_at d (k' # ks))"
  by simp

lemma map_of_filter_first:
  "map_of d k = (case filter (\<lambda>x. fst x = k) d of [] \<Rightarrow> None | x # _ \<Rightarrow> Some (snd x))"
  by (induction d) auto

lemma map_of_sort_key: "map_of (sort_key fst d) = map_of d"
  by (rule ext) (simp add: map_of_filter_first sort_key_stable)

lemma dict_wf_sort_key [simp]: "dict_wf (sort_key fst d) = dict_wf d"
  by (auto simp: dict_wf_def distinct_map)

lemma value_at_cong: "map_of d = map_of e \<Longrightarrow> ks \<noteq> [] \<Longrightarrow> value_at d ks = value_at e ks"
  by (cases ks) auto

lemma touches_cong: "map_of d = map_of e \<Longrightarrow> touches d ks = touches e ks"
  by (cases ks) auto

lemma wf_val_item: "wf_val (PDict d) \<Longrightarrow> map_of d k = Some v \<Longrightarrow> wf_val v"
  by (auto simp: list_all_iff dest!: map_of_SomeD)

section \<open>One layer\<close>

text \<open>The items of a mapping that is being merged: distinct keys, well-formed values.\<close>

definition items_wf :: "(string \<times> pyval) list \<Rightarrow> bool" where
  "items_wf items \<longleftrightarrow> dict_wf items \<and> list_all (\<lambda>(k, v). wf_val v) items"

lemma items_wf_Cons [simp]:
  "items_wf ((k, v) # items) \<longleftrightarrow> map_of items k = None \<and> wf_val v \<and> items_wf items"
  by (auto simp: items_wf_def dict_wf_def map_of_eq_None_iff)

lemma items_wf_sort: "wf_val (PDict d) \<Longrightarrow> items_wf (sort_key fst d)"
  by (auto simp: items_wf_def list_all_iff)

lemma wf_val_dict: "wf_val (PDict d) \<Longrightarrow> dict_wf d"
  by simp

text \<open>
  The induction rule of a merge that succeeds: two mappings are merged before the rest of the
  items, every other value is put with its provenance.
\<close>

lemma merge_induct [consumes 1, case_names Nil Merge Put]:
  assumes "merge_items layer keys items (t, p, c) = Inr (t', p', c')"
    and Nil: "\<And>keys t p c. P keys [] t p c t p c"
    and Merge: "\<And>keys k rest t p c old new merged p1 c1 t' p' c'.
      map_of t k = Some (PDict old) \<Longrightarrow> \<not> is_secret_ref new \<Longrightarrow>
      merge_items layer (keys @ [k]) (sort_key fst new) (old, p, c) = Inr (merged, p1, c1) \<Longrightarrow>
      merge_items layer keys rest (AList.update k (PDict merged) t, p1, c1) = Inr (t', p', c') \<Longrightarrow>
      P (keys @ [k]) (sort_key fst new) old p c merged p1 c1 \<Longrightarrow>
      P keys rest (AList.update k (PDict merged) t) p1 c1 t' p' c' \<Longrightarrow>
      P keys ((k, PDict new) # rest) t p c t' p' c'"
    and Put: "\<And>keys k v rest t p c p1 c1 t' p' c'.
      mergeable (map_of t k) v = None \<Longrightarrow>
      note_conflict layer (dotted (keys @ [k])) (map_of t k) v (p, c) = Inr (p1, c1) \<Longrightarrow>
      merge_items layer keys rest (AList.update k v t, record_provenance layer (keys @ [k]) v p1, c1) =
        Inr (t', p', c') \<Longrightarrow>
      P keys rest (AList.update k v t) (record_provenance layer (keys @ [k]) v p1) c1 t' p' c' \<Longrightarrow>
      P keys ((k, v) # rest) t p c t' p' c'"
  shows "P keys items t p c t' p' c'"
proof -
  have "merge_items l keys items st = Inr st' \<Longrightarrow> l = layer \<Longrightarrow>
      (case (st, st') of ((t, p, c), (t', p', c')) \<Rightarrow> P keys items t p c t' p' c')" for l keys items st st'
  proof (induction l keys items st arbitrary: st' rule: merge_items.induct)
    case (1 l keys st)
    then show ?case using Nil by (auto split: prod.splits)
  next
    case (2 l keys k v rest st)
    obtain t p c where st: "st = (t, p, c)" by (metis prod.exhaust)
    obtain t' p' c' where st': "st' = (t', p', c')" by (metis prod.exhaust)
    have l: "l = layer" by (rule 2)
    have run: "merge_items l keys ((k, v) # rest) (t, p, c) = Inr (t', p', c')" using 2 st st' by simp
    show ?case
    proof (cases "mergeable (map_of t k) v")
      case None
      then obtain p1 c1 where n: "note_conflict l (dotted (keys @ [k])) (map_of t k) v (p, c) = Inr (p1, c1)"
        and r: "merge_items l keys rest (AList.update k v t, record_provenance layer (keys @ [k]) v p1, c1) =
          Inr (t', p', c')"
        using run l by (auto split: sum.splits)
      have "P keys rest (AList.update k v t) (record_provenance layer (keys @ [k]) v p1) c1 t' p' c'"
        using 2(1) [OF st [symmetric] refl None n refl, of st'] r l st' by simp
      then show ?thesis using Put [OF None] n r l st st' by simp
    next
      case (Some on)
      obtain old new where on: "on = (old, new)" by (cases on)
      have m: "map_of t k = Some (PDict old)" "v = PDict new" "\<not> is_secret_ref new"
        using Some on by (auto simp: mergeable_Some)
      obtain merged p1 c1 where
        inner: "merge_items l (keys @ [k]) (sort_key fst new) (old, p, c) = Inr (merged, p1, c1)"
        and r: "merge_items l keys rest (AList.update k (PDict merged) t, p1, c1) = Inr (t', p', c')"
        using run l Some on by (auto split: sum.splits)
      have "P (keys @ [k]) (sort_key fst new) old p c merged p1 c1"
        using 2(2) [OF st [symmetric] refl Some on [symmetric], of "(merged, p1, c1)"] inner l by simp
      moreover have "P keys rest (AList.update k (PDict merged) t) p1 c1 t' p' c'"
        using 2(3) [OF st [symmetric] refl Some on [symmetric] inner refl refl, of st'] r l st' by simp
      ultimately show ?thesis using Merge [OF m(1,3) inner [unfolded l] r [unfolded l]] m(2) st st' by simp
    qed
  qed
  with assms(1) show ?thesis by fastforce
qed

text \<open>
  The one fact about a merge: at a path with a plain value the result has the value of the incoming
  mapping where that mapping speaks about the path, and keeps the value it had elsewhere.
\<close>

lemma merge_items_value:
  assumes "merge_items layer keys items (t, p, c) = Inr (t', p', c')"
    and "items_wf items" and "\<not> is_dict v" and "ks \<noteq> []"
  shows "value_at t' ks = Some v \<longleftrightarrow>
    (if touches items ks then value_at items ks = Some v else value_at t ks = Some v)"
  using assms
proof (induction arbitrary: ks rule: merge_induct)
  case Nil
  then show ?case by (cases ks) auto
next
  case (Merge keys k rest t p c old new merged p1 c1 t' p' c')
  obtain k' ks' where ks: "ks = k' # ks'" using Merge.prems by (cases ks) auto
  have wf: "wf_val (PDict new)" "map_of rest k = None" "items_wf rest" using Merge.prems by auto
  have IH: "value_at t' ks = Some v \<longleftrightarrow> (if touches rest ks then value_at rest ks = Some v
      else value_at (AList.update k (PDict merged) t) ks = Some v)"
    using Merge.IH(2) wf(3) Merge.prems by blast
  show ?case
  proof (cases "k' = k \<and> ks' \<noteq> []")
    case True
    have "value_at merged ks' = Some v \<longleftrightarrow> (if touches (sort_key fst new) ks'
        then value_at (sort_key fst new) ks' = Some v else value_at old ks' = Some v)"
      using Merge.IH(1) items_wf_sort [OF wf(1)] Merge.prems(2) True by blast
    moreover have "map_of (sort_key fst new) = map_of new"
      by (rule map_of_sort_key)
    ultimately show ?thesis
      using IH ks True wf(2) Merge.hyps value_at_cong [of "sort_key fst new" new ks']
        touches_cong [of "sort_key fst new" new ks'] by simp
  next
    case False
    then show ?thesis using IH ks wf(2) Merge.prems(2) by auto
  qed
next
  case (Put keys k v' rest t p c p1 c1 t' p' c')
  obtain k' ks' where ks: "ks = k' # ks'" using Put.prems by (cases ks) auto
  have k: "map_of rest k = None" "items_wf rest" using Put.prems by auto
  have IH: "value_at t' ks = Some v \<longleftrightarrow> (if touches rest ks then value_at rest ks = Some v
      else value_at (AList.update k v' t) ks = Some v)"
    using Put.IH k(2) Put.prems by blast
  show ?case
  proof (cases "k' = k")
    case True
    have now: "value_at t' ks = Some v \<longleftrightarrow> value_at ((k, v') # rest) ks = Some v"
      using IH k(1) ks True by simp
    show ?thesis
    proof (cases "touches ((k, v') # rest) ks")
      case False
      then obtain e where e: "v' = PDict e" "\<not> is_secret_ref e" "ks' \<noteq> []" "\<not> touches e ks'"
        using ks True by (cases v') auto
      then have "value_at e ks' \<noteq> Some v" using value_at_touches by blast
      moreover have "value_at t ks \<noteq> Some v"
        using Put.hyps(1) e ks True by (auto simp: mergeable_def split: option.splits pyval.splits)
      ultimately show ?thesis using now False e ks True by simp
    qed (use now in simp)
  next
    case False
    then show ?thesis using IH ks by simp
  qed
qed


section \<open>All layers\<close>

text \<open>The last layer that speaks about a path.\<close>

definition last_speaker :: "layer_document list \<Rightarrow> string list \<Rightarrow> layer_document option" where
  "last_speaker layers ks = List.find (\<lambda>l. touches (ly_data l) ks) (rev layers)"

lemma last_speaker_snoc [simp]:
  "last_speaker (ls @ [l]) ks = (if touches (ly_data l) ks then Some l else last_speaker ls ks)"
  by (simp add: last_speaker_def)

lemma last_speaker_Nil [simp]: "last_speaker [] ks = None"
  by (simp add: last_speaker_def)

definition layers_wf :: "layer_document list \<Rightarrow> bool" where
  "layers_wf ls \<longleftrightarrow> list_all (\<lambda>l. wf_val (PDict (ly_data l))) ls"

lemma merge_layer_Inr:
  "merge_layer st l = Inr st' \<longleftrightarrow>
     validate_layer l = Inr () \<and> merge_items l [] (sort_key fst (ly_data l)) st = Inr st'"
  by (auto simp: merge_layer_def bindE_eq_Inr)

lemma merge_layers_snoc:
  "foldE merge_layer st (ls @ [l]) = Inr st' \<longleftrightarrow>
     (\<exists>st1. foldE merge_layer st ls = Inr st1 \<and> merge_layer st1 l = Inr st')"
  by (cases st') (auto simp: foldE_append bindE_eq_Inr)

lemma merge_layers_value:
  assumes "foldE merge_layer ([], [], []) ls = Inr (t, p, c)" and "layers_wf ls"
    and "\<not> is_dict v" and "ks \<noteq> []"
  shows "value_at t ks = Some v \<longleftrightarrow>
    (\<exists>l. last_speaker ls ks = Some l \<and> value_at (ly_data l) ks = Some v)"
  using assms
proof (induction ls arbitrary: t p c rule: rev_induct)
  case Nil
  then show ?case by (cases ks) auto
next
  case (snoc l ls)
  obtain t1 p1 c1 where first: "foldE merge_layer ([], [], []) ls = Inr (t1, p1, c1)"
    and m: "merge_items l [] (sort_key fst (ly_data l)) (t1, p1, c1) = Inr (t, p, c)"
    using snoc.prems(1) by (auto simp: merge_layers_snoc merge_layer_Inr)
  have wf: "wf_val (PDict (ly_data l))" "layers_wf ls" using snoc.prems(2) by (auto simp: layers_wf_def)
  have sorted: "map_of (sort_key fst (ly_data l)) = map_of (ly_data l)"
    by (rule map_of_sort_key)
  have "value_at t ks = Some v \<longleftrightarrow>
      (if touches (ly_data l) ks then value_at (ly_data l) ks = Some v else value_at t1 ks = Some v)"
    using merge_items_value [OF m items_wf_sort [OF wf(1)] snoc.prems(3,4)]
      value_at_cong [OF sorted snoc.prems(4)] touches_cong [OF sorted, of ks] by simp
  then show ?case using snoc.IH [OF first wf(2) snoc.prems(3,4)] by simp
qed

lemma compose_Inr:
  "compose_layered_config h org team add_ons user = Inr r \<Longrightarrow>
     \<exists>p c. foldE merge_layer ([], [], []) (layer_stack org team add_ons user) = Inr (lc_effective r, p, c) \<and>
       lc_provenance r = sort_key fst p \<and> lc_conflicts r = c"
  by (auto simp: compose_layered_config_def Let_def bindE_eq_Inr split: if_splits)

lemma composed_value:
  "compose_layered_config h org team add_ons user = Inr r \<Longrightarrow>
     layers_wf (layer_stack org team add_ons user) \<Longrightarrow> \<not> is_dict v \<Longrightarrow> ks \<noteq> [] \<Longrightarrow>
     value_at (lc_effective r) ks = Some v \<longleftrightarrow>
       (\<exists>l. last_speaker (layer_stack org team add_ons user) ks = Some l \<and> value_at (ly_data l) ks = Some v)"
  using compose_Inr merge_layers_value by blast

text \<open>C13. The layers have a fixed precedence. In a composed configuration a plain value stands at a
  path exactly when the last of organisation, team, add-ons and user that speaks about this path has
  that value there: a layer replaces what it names and leaves everything else as it was.\<close>

theorem last_layer_wins:
  assumes "compose_layered_config h org team add_ons user = Inr r"
    and "layers_wf (layer_stack org team add_ons user)"
    and "\<not> is_dict v" and "ks \<noteq> []"
  shows "value_at (lc_effective r) ks = Some v \<longleftrightarrow>
    (\<exists>l. last_speaker (layer_stack org team add_ons user) ks = Some l \<and> value_at (ly_data l) ks = Some v)"
  using assms by (rule composed_value)

section \<open>Provenance\<close>

text \<open>
  Provenance is kept by the dotted text of a path. The text tells the path again when no key holds
  a dot.
\<close>

definition dot_free_path :: "string list \<Rightarrow> bool" where
  "dot_free_path ks \<longleftrightarrow> list_all (\<lambda>k. CHR ''.'' \<notin> set k) ks"

fun dot_free :: "pyval \<Rightarrow> bool" where
  "dot_free (PDict d) = list_all (\<lambda>(k, v). CHR ''.'' \<notin> set k \<and> dot_free v) d"
| "dot_free v = True"

lemma dot_free_path_simps [simp]:
  "dot_free_path []"
  "dot_free_path (k # ks) \<longleftrightarrow> CHR ''.'' \<notin> set k \<and> dot_free_path ks"
  "dot_free_path (ks @ qs) \<longleftrightarrow> dot_free_path ks \<and> dot_free_path qs"
  by (simp_all add: dot_free_path_def)

lemma split_dotted: "dot_free_path ks \<Longrightarrow> ks \<noteq> [] \<Longrightarrow> split_char CHR ''.'' (dotted ks) = ks"
  unfolding dotted_def dot_free_path_def by (rule split_char_join)

lemma dotted_inj:
  "dotted ks = dotted qs \<Longrightarrow> dot_free_path ks \<Longrightarrow> dot_free_path qs \<Longrightarrow> ks \<noteq> [] \<Longrightarrow> qs \<noteq> [] \<Longrightarrow> ks = qs"
  using split_dotted by metis

lemma split_dotted_append:
  "dot_free_path ks \<Longrightarrow> ks \<noteq> [] \<Longrightarrow>
     split_char CHR ''.'' (dotted ks @ ''.'' @ s) = ks @ split_char CHR ''.'' s"
proof (induction ks rule: induct_list012)
  case (2 w)
  then show ?case unfolding split_char_def by (auto simp: dotted_def join_def intro!: split_pred_append)
next
  case (3 w v ws)
  have "dotted (w # v # ws) @ ''.'' @ s = w @ CHR ''.'' # (dotted (v # ws) @ ''.'' @ s)"
    by (simp add: dotted_def join_def)
  moreover have "split_char CHR ''.'' (w @ CHR ''.'' # (dotted (v # ws) @ ''.'' @ s)) =
      w # split_char CHR ''.'' (dotted (v # ws) @ ''.'' @ s)"
    unfolding split_char_def using 3(3) by (intro split_pred_append) auto
  ultimately show ?case using 3 by simp
qed simp

lemma below_dotted:
  assumes "below (dotted ks) (dotted qs)" and "dot_free_path ks" and "dot_free_path qs" and "ks \<noteq> []" and "qs \<noteq> []"
  shows "prefix ks qs"
proof -
  obtain s where "dotted qs = (dotted ks @ ''.'') @ s"
    using assms(1) by (auto simp: below_def prefix_def)
  then have "split_char CHR ''.'' (dotted qs) = ks @ split_char CHR ''.'' s"
    using split_dotted_append [OF assms(2,4)] by simp
  then show ?thesis using split_dotted [OF assms(3,5)] by simp
qed

lemma leaf_at_dot_free: "leaf_at v ks \<Longrightarrow> dot_free v \<Longrightarrow> dot_free_path ks"
proof (induction ks arbitrary: v)
  case (Cons k ks)
  then show ?case by (cases v) (auto simp: list_all_iff split: option.splits dest!: map_of_SomeD)
qed simp

lemma fold_record:
  assumes "\<And>k v p. (k, v) \<in> set items \<Longrightarrow>
      map_of (f k v p) q = (if Q k v then Some x else map_of p q)"
  shows "map_of (fold (\<lambda>(k, v). f k v) items p) q =
      (if \<exists>(k, v) \<in> set items. Q k v then Some x else map_of p q)"
  using assms
proof (induction items arbitrary: p)
  case (Cons kv items)
  obtain k v where "kv = (k, v)" by (cases kv)
  then show ?case using Cons by auto
qed simp

lemma record_provenance_lookup:
  "wf_val v \<Longrightarrow> map_of (record_provenance layer keys v p) q =
     (if \<exists>ks. leaf_at v ks \<and> q = dotted (keys @ ks) then Some (origin_of layer) else map_of p q)"
proof (induction layer keys v p rule: record_provenance.induct)
  case (1 layer keys v p)
  have scalar: "leaf_at v ks \<longleftrightarrow> ks = []" if "\<not> is_dict v \<or> (\<exists>d. v = PDict d \<and> is_secret_ref d)" for ks
    using that by (cases v; cases ks) auto
  show ?case
  proof (cases "\<exists>d. v = PDict d \<and> \<not> is_secret_ref d")
    case False
    then have "record_provenance layer keys v p = AList.update (dotted keys) (origin_of layer) p"
      by (cases v) (auto simp: record_provenance.simps)
    moreover have "leaf_at v ks \<longleftrightarrow> ks = []" for ks
      using False by (intro scalar) (cases v; auto)
    ultimately show ?thesis by auto
  next
    case True
    then obtain d where d: "v = PDict d" "\<not> is_secret_ref d" by blast
    have each: "map_of (record_provenance layer (keys @ [k]) c p') q =
        (if \<exists>ks. leaf_at c ks \<and> q = dotted (keys @ k # ks) then Some (origin_of layer) else map_of p' q)"
      if "(k, c) \<in> set (sort_key fst d)" for k c p'
    proof -
      have "wf_val c" using that 1(2) d by (auto simp: list_all_iff)
      then show ?thesis using 1(1) [OF d that refl, of p'] by simp
    qed
    have "record_provenance layer keys v p =
        fold (\<lambda>(k, c). record_provenance layer (keys @ [k]) c) (sort_key fst d) p"
      using d by (subst record_provenance.simps) simp
    moreover have "(\<exists>(k, c) \<in> set (sort_key fst d). \<exists>ks. leaf_at c ks \<and> q = dotted (keys @ k # ks)) \<longleftrightarrow>
        (\<exists>ks. leaf_at v ks \<and> q = dotted (keys @ ks))"
    proof -
      have "(k, c) \<in> set d \<longleftrightarrow> map_of d k = Some c" for k c
        using 1(2) d by (simp add: dict_wf_def)
      then have "leaf_at v ks \<longleftrightarrow> (\<exists>k c ks'. ks = k # ks' \<and> (k, c) \<in> set d \<and> leaf_at c ks')" for ks
        using d by (cases ks) (auto split: option.splits)
      then show ?thesis by fastforce
    qed
    moreover have "map_of (fold (\<lambda>(k, c). record_provenance layer (keys @ [k]) c) (sort_key fst d) p) q =
        (if \<exists>(k, c) \<in> set (sort_key fst d). \<exists>ks. leaf_at c ks \<and> q = dotted (keys @ k # ks)
         then Some (origin_of layer) else map_of p q)"
      by (rule fold_record) (rule each)
    ultimately show ?thesis by simp
  qed
qed

lemma note_conflict_keeps:
  "note_conflict layer path cur v (p, c) = Inr (p1, c1) \<Longrightarrow> q \<noteq> path \<Longrightarrow> \<not> below path q \<Longrightarrow> map_of p1 q = map_of p q"
  by (auto simp: note_conflict_def bindE_eq_Inr clear_provenance_def map_of_filter_key
      split: option.splits if_splits)

text \<open>The value at a path of items is a leaf of the provenance.\<close>

fun leaf_in :: "pydict \<Rightarrow> string list \<Rightarrow> bool" where
  "leaf_in d [] = False"
| "leaf_in d (k # ks) = (case map_of d k of None \<Rightarrow> False | Some v \<Rightarrow> leaf_at v ks)"

definition items_dot_free :: "pydict \<Rightarrow> bool" where
  "items_dot_free items \<longleftrightarrow> list_all (\<lambda>(k, v). CHR ''.'' \<notin> set k \<and> dot_free v) items"

lemma items_dot_free_simps [simp]:
  "items_dot_free ((k, v) # items) \<longleftrightarrow> CHR ''.'' \<notin> set k \<and> dot_free v \<and> items_dot_free items"
  "items_dot_free (sort_key fst d) \<longleftrightarrow> dot_free (PDict d)"
  by (auto simp: items_dot_free_def list_all_iff)

lemma leaf_in_touches: "leaf_in d ks \<Longrightarrow> touches d ks"
proof (induction ks arbitrary: d)
  case (Cons k ks)
  show ?case
  proof (cases "map_of d k")
    case (Some v)
    then show ?thesis using Cons by (cases v; cases ks) (auto split: option.splits)
  qed (use Cons in simp)
qed simp

lemma leaf_in_cong: "map_of d = map_of e \<Longrightarrow> leaf_in d ks = leaf_in e ks"
  by (cases ks) auto

text \<open>A value that is put, and a whole merge, change the provenance of no path outside of them.\<close>

lemma put_outside:
  assumes "note_conflict layer (dotted (keys @ [k])) cur v (p, c) = Inr (p1, c1)"
    and "wf_val v" and "dot_free v" and "dot_free_path (keys @ [k])"
    and "dot_free_path q" and "q \<noteq> []" and "\<not> prefix (keys @ [k]) q"
  shows "map_of (record_provenance layer (keys @ [k]) v p1) (dotted q) = map_of p (dotted q)"
proof -
  have "dotted q \<noteq> dotted ((keys @ [k]) @ ks)" if "leaf_at v ks" for ks
  proof
    assume "dotted q = dotted ((keys @ [k]) @ ks)"
    then have "q = (keys @ [k]) @ ks"
      using leaf_at_dot_free [OF that] assms(3-6) by (intro dotted_inj) auto
    then show False using assms(7) by auto
  qed
  then have "map_of (record_provenance layer (keys @ [k]) v p1) (dotted q) = map_of p1 (dotted q)"
    using record_provenance_lookup [OF assms(2), of layer "keys @ [k]" p1] by auto
  also have "\<dots> = map_of p (dotted q)"
  proof (rule note_conflict_keeps [OF assms(1)])
    show "dotted q \<noteq> dotted (keys @ [k])"
      using dotted_inj [OF _ assms(5,4,6)] assms(7) by auto
    show "\<not> below (dotted (keys @ [k])) (dotted q)"
      using below_dotted [OF _ assms(4,5) _ assms(6)] assms(7) by auto
  qed
  finally show ?thesis .
qed

lemma merge_items_outside:
  assumes "merge_items layer keys items (t, p, c) = Inr (t', p', c')"
    and "items_wf items" and "items_dot_free items" and "dot_free_path keys"
    and "dot_free_path q" and "q \<noteq> []" and "\<And>k. k \<in> fst ` set items \<Longrightarrow> \<not> prefix (keys @ [k]) q"
  shows "map_of p' (dotted q) = map_of p (dotted q)"
  using assms
proof (induction rule: merge_induct)
  case Nil
  then show ?case by simp
next
  case (Merge keys k rest t p c old new merged p1 c1 t' p' c')
  have out: "\<not> prefix (keys @ [k]) q" using Merge.prems(6) by simp
  have "map_of p1 (dotted q) = map_of p (dotted q)"
  proof (rule Merge.IH(1))
    fix k2
    show "\<not> prefix ((keys @ [k]) @ [k2]) q" using out append_prefixD by blast
  qed (use Merge.prems(1-5) items_wf_sort in auto)
  moreover have "map_of p' (dotted q) = map_of p1 (dotted q)"
    by (rule Merge.IH(2)) (use Merge.prems in auto)
  ultimately show ?case by simp
next
  case (Put keys k v rest t p c p1 c1 t' p' c')
  have out: "\<not> prefix (keys @ [k]) q" using Put.prems(6) by simp
  have "map_of (record_provenance layer (keys @ [k]) v p1) (dotted q) = map_of p (dotted q)"
    by (rule put_outside [OF Put.hyps(2)]) (use Put.prems out in auto)
  moreover have "map_of p' (dotted q) = map_of (record_provenance layer (keys @ [k]) v p1) (dotted q)"
    by (rule Put.IH) (use Put.prems in auto)
  ultimately show ?case by simp
qed

text \<open>The rest of the items does not speak about a path below the first key.\<close>

lemma rest_outside:
  "items_wf ((k, v) # rest) \<Longrightarrow> k2 \<in> fst ` set rest \<Longrightarrow> \<not> prefix (keys @ [k2]) (keys @ k # ks)"
  by (auto simp: map_of_eq_None_iff)

lemma below_first:
  "items_wf ((k, v) # rest) \<Longrightarrow> map_of rest k = None"
  by simp

lemma merge_items_other:
  "merge_items layer keys items (t, p, c) = Inr (t', p', c') \<Longrightarrow> map_of items k = None \<Longrightarrow> map_of t' k = map_of t k"
proof (induction rule: merge_induct)
  case (Merge keys k' rest t p c old new merged p1 c1 t' p' c')
  then show ?case by (simp split: if_splits)
next
  case (Put keys k' v rest t p c p1 c1 t' p' c')
  then show ?case by (simp split: if_splits)
qed simp

text \<open>A leaf of the incoming items is in the result, and its provenance is the layer.\<close>

lemma merge_items_leaf:
  assumes "merge_items layer keys items (t, p, c) = Inr (t', p', c')"
    and "items_wf items" and "items_dot_free items" and "dot_free_path keys" and "leaf_in items ks"
  shows "value_at t' ks = value_at items ks \<and> map_of p' (dotted (keys @ ks)) = Some (origin_of layer)"
  using assms
proof (induction arbitrary: ks rule: merge_induct)
  case Nil
  then show ?case by (cases ks) auto
next
  case (Merge keys k rest t p c old new merged p1 c1 t' p' c')
  obtain k' ks' where ks: "ks = k' # ks'" using Merge.prems(4) by (cases ks) auto
  have rest: "map_of rest k = None" "items_wf rest" "items_dot_free rest" using Merge.prems(1,2) by auto
  show ?case
  proof (cases "k' = k")
    case True
    have leaf: "leaf_at (PDict new) ks'" using Merge.prems(4) ks True by simp
    with Merge.hyps(2) have below: "ks' \<noteq> []" "leaf_in new ks'" by (cases ks'; auto)+
    have sorted: "map_of (sort_key fst new) = map_of new"
      by (rule map_of_sort_key)
    have inner: "value_at merged ks' = value_at (sort_key fst new) ks' \<and>
        map_of p1 (dotted ((keys @ [k]) @ ks')) = Some (origin_of layer)"
      by (rule Merge.IH(1))
        (use Merge.prems(1-3) below leaf_in_cong [OF sorted] items_wf_sort in auto)
    have "map_of p' (dotted (keys @ ks)) = map_of p1 (dotted (keys @ ks))"
      using rest_outside [OF Merge.prems(1)] leaf_at_dot_free [OF leaf] Merge.prems(2,3) ks True
      by (intro merge_items_outside [OF Merge.hyps(4) rest(2,3) Merge.prems(3)]) auto
    moreover have "map_of t' k = Some (PDict merged)"
      using merge_items_other [OF Merge.hyps(4) rest(1)] by simp
    ultimately show ?thesis
      using inner value_at_cong [OF sorted below(1)] below(1) ks True by simp
  next
    case False
    then have "leaf_in rest ks" "value_at ((k, PDict new) # rest) ks = value_at rest ks"
      using Merge.prems(4) ks by simp_all
    then show ?thesis using Merge.IH(2) [OF rest(2,3) Merge.prems(3)] by metis
  qed
next
  case (Put keys k v rest t p c p1 c1 t' p' c')
  obtain k' ks' where ks: "ks = k' # ks'" using Put.prems(4) by (cases ks) auto
  have rest: "map_of rest k = None" "items_wf rest" "items_dot_free rest" using Put.prems(1,2) by auto
  show ?case
  proof (cases "k' = k")
    case True
    have leaf: "leaf_at v ks'" using Put.prems(4) ks True by simp
    have "map_of p' (dotted (keys @ ks)) = map_of (record_provenance layer (keys @ [k]) v p1) (dotted (keys @ ks))"
      using rest_outside [OF Put.prems(1)] leaf_at_dot_free [OF leaf] Put.prems(2,3) ks True
      by (intro merge_items_outside [OF Put.hyps(3) rest(2,3) Put.prems(3)]) auto
    also have "\<dots> = Some (origin_of layer)"
      using record_provenance_lookup [of v layer "keys @ [k]" p1] Put.prems(1) leaf ks True by auto
    finally show ?thesis
      using merge_items_other [OF Put.hyps(3) rest(1)] ks True by simp
  next
    case False
    then have "leaf_in rest ks" "value_at ((k, v) # rest) ks = value_at rest ks"
      using Put.prems(4) ks by simp_all
    then show ?thesis using Put.IH [OF rest(2,3) Put.prems(3)] by metis
  qed
qed

text \<open>What the incoming items do not speak about keeps its value and its provenance.\<close>

lemma merge_items_untouched:
  assumes "merge_items layer keys items (t, p, c) = Inr (t', p', c')"
    and "items_wf items" and "items_dot_free items" and "dot_free_path keys" and "dot_free_path ks"
    and "\<not> touches items ks" and "value_at t ks = Some v"
  shows "value_at t' ks = Some v \<and> map_of p' (dotted (keys @ ks)) = map_of p (dotted (keys @ ks))"
  using assms
proof (induction arbitrary: ks rule: merge_induct)
  case Nil
  then show ?case by simp
next
  case (Merge keys k rest t p c old new merged p1 c1 t' p' c')
  obtain k' ks' where ks: "ks = k' # ks'" using Merge.prems(5) by (cases ks) auto
  have rest: "map_of rest k = None" "items_wf rest" "items_dot_free rest" using Merge.prems(1,2) by auto
  show ?case
  proof (cases "k' = k")
    case True
    have below: "ks' \<noteq> []" "\<not> touches new ks'" using Merge.prems(5) ks True by auto
    have sorted: "map_of (sort_key fst new) = map_of new"
      by (rule map_of_sort_key)
    have inner: "value_at merged ks' = Some v \<and>
        map_of p1 (dotted ((keys @ [k]) @ ks')) = map_of p (dotted ((keys @ [k]) @ ks'))"
      by (rule Merge.IH(1))
        (use Merge.prems(1-4,6) Merge.hyps(1) ks True below touches_cong [OF sorted] items_wf_sort in auto)
    have "map_of p' (dotted (keys @ ks)) = map_of p1 (dotted (keys @ ks))"
      using rest_outside [OF Merge.prems(1)] Merge.prems(3,4) ks True
      by (intro merge_items_outside [OF Merge.hyps(4) rest(2,3) Merge.prems(3)]) auto
    moreover have "map_of t' k = Some (PDict merged)"
      using merge_items_other [OF Merge.hyps(4) rest(1)] by simp
    ultimately show ?thesis using inner below(1) ks True by simp
  next
    case False
    have "map_of p1 (dotted (keys @ ks)) = map_of p (dotted (keys @ ks))"
    proof (rule merge_items_outside [OF Merge.hyps(3)])
      fix k2
      show "\<not> prefix ((keys @ [k]) @ [k2]) (keys @ ks)" using False ks by simp
    qed (use Merge.prems(1-4) ks items_wf_sort in auto)
    moreover have "\<not> touches rest ks" "value_at (AList.update k (PDict merged) t) ks = Some v"
      using Merge.prems(5,6) ks False by simp_all
    note Merge.IH(2) [OF rest(2,3) Merge.prems(3,4) this]
    ultimately show ?thesis by simp
  qed
next
  case (Put keys k v' rest t p c p1 c1 t' p' c')
  obtain k' ks' where ks: "ks = k' # ks'" using Put.prems(5) by (cases ks) auto
  have rest: "map_of rest k = None" "items_wf rest" "items_dot_free rest" using Put.prems(1,2) by auto
  show ?case
  proof (cases "k' = k")
    case True
    obtain e where e: "v' = PDict e" "\<not> is_secret_ref e" "ks' \<noteq> []"
      using Put.prems(5) ks True by (cases v') auto
    have "value_at t ks = None"
      using Put.hyps(1) e ks True by (auto simp: mergeable_def split: option.splits pyval.splits)
    with Put.prems(6) show ?thesis by simp
  next
    case False
    have "map_of (record_provenance layer (keys @ [k]) v' p1) (dotted (keys @ ks)) = map_of p (dotted (keys @ ks))"
      by (rule put_outside [OF Put.hyps(2)]) (use Put.prems(1-4) ks False in auto)
    moreover have "\<not> touches rest ks" "value_at (AList.update k v' t) ks = Some v"
      using Put.prems(5,6) ks False by simp_all
    note Put.IH [OF rest(2,3) Put.prems(3,4) this]
    ultimately show ?thesis by simp
  qed
qed

definition layers_dot_free :: "layer_document list \<Rightarrow> bool" where
  "layers_dot_free ls \<longleftrightarrow> list_all (\<lambda>l. dot_free (PDict (ly_data l))) ls"

lemma last_speaker_mem: "last_speaker ls ks = Some l \<Longrightarrow> l \<in> set ls"
  unfolding last_speaker_def find_Some_iff by (metis length_rev nth_mem set_rev)

lemma leaf_in_dot_free: "leaf_in d ks \<Longrightarrow> dot_free (PDict d) \<Longrightarrow> dot_free_path ks"
  by (cases ks) (auto simp: list_all_iff split: option.splits dest!: map_of_SomeD intro: leaf_at_dot_free)

lemma leaf_in_value: "leaf_in d ks \<Longrightarrow> \<exists>v. value_at d ks = Some v"
proof (induction ks arbitrary: d)
  case (Cons k ks)
  then obtain v where v: "map_of d k = Some v" "leaf_at v ks" by (auto split: option.splits)
  show ?case
  proof (cases ks)
    case (Cons k2 ks2)
    with v obtain e where "v = PDict e" "leaf_in e ks" by (cases v) auto
    then show ?thesis using Cons.IH v Cons by auto
  qed (use v in simp)
qed simp

lemma merge_layers_provenance:
  assumes "foldE merge_layer ([], [], []) ls = Inr (t, p, c)"
    and "layers_wf ls" and "layers_dot_free ls" and "last_speaker ls ks = Some l" and "leaf_in (ly_data l) ks"
  shows "value_at t ks = value_at (ly_data l) ks \<and> map_of p (dotted ks) = Some (origin_of l)"
  using assms(1-4)
proof (induction ls arbitrary: t p c rule: rev_induct)
  case Nil
  then show ?case by simp
next
  case (snoc l' ls)
  obtain t1 p1 c1 where first: "foldE merge_layer ([], [], []) ls = Inr (t1, p1, c1)"
    and m: "merge_items l' [] (sort_key fst (ly_data l')) (t1, p1, c1) = Inr (t, p, c)"
    using snoc.prems(1) by (auto simp: merge_layers_snoc merge_layer_Inr)
  have wf: "wf_val (PDict (ly_data l'))" "layers_wf ls" and
    df: "dot_free (PDict (ly_data l'))" "layers_dot_free ls"
    using snoc.prems(2,3) by (auto simp: layers_wf_def layers_dot_free_def)
  have items: "items_wf (sort_key fst (ly_data l'))" "items_dot_free (sort_key fst (ly_data l'))"
    using items_wf_sort wf(1) df(1) by auto
  have ks: "ks \<noteq> []" "dot_free_path ks"
    using assms(5) leaf_in_dot_free last_speaker_mem [OF snoc.prems(4)] snoc.prems(3)
    by (auto simp: layers_dot_free_def list_all_iff)
  show ?case
  proof (cases "touches (ly_data l') ks")
    case True
    then have "l = l'" using snoc.prems(4) by simp
    then have "leaf_in (sort_key fst (ly_data l')) ks"
      using assms(5) leaf_in_cong [OF map_of_sort_key] by simp
    from merge_items_leaf [OF m items _ this] show ?thesis
      using \<open>l = l'\<close> value_at_cong [OF map_of_sort_key ks(1)] by simp
  next
    case False
    then have l: "last_speaker ls ks = Some l" using snoc.prems(4) by simp
    obtain v where v: "value_at (ly_data l) ks = Some v" using leaf_in_value [OF assms(5)] by blast
    have IH: "value_at t1 ks = Some v" "map_of p1 (dotted ks) = Some (origin_of l)"
      using snoc.IH [OF first wf(2) df(2) l] v by auto
    have "\<not> touches (sort_key fst (ly_data l')) ks"
      using False touches_cong [OF map_of_sort_key] by simp
    from merge_items_untouched [OF m items _ ks(2) this IH(1)] show ?thesis
      using IH v by simp
  qed
qed

text \<open>The provenance of a composed configuration tells the truth. If the last layer that speaks
  about a path has a leaf there (a value that is not a mapping, or a reference to a secret), then the
  configuration has this value at the path, and the provenance of the path names this layer and its
  file.\<close>

theorem provenance_names_layer:
  assumes "compose_layered_config h org team add_ons user = Inr r"
    and "layers_wf (layer_stack org team add_ons user)"
    and "layers_dot_free (layer_stack org team add_ons user)"
    and "last_speaker (layer_stack org team add_ons user) ks = Some l" and "leaf_in (ly_data l) ks"
  shows "value_at (lc_effective r) ks = value_at (ly_data l) ks \<and>
    map_of (lc_provenance r) (dotted ks) = Some (origin_of l)"
proof -
  obtain p c where run: "foldE merge_layer ([], [], []) (layer_stack org team add_ons user) = Inr (lc_effective r, p, c)"
    and "lc_provenance r = sort_key fst p"
    using compose_Inr [OF assms(1)] by blast
  with merge_layers_provenance [OF run assms(2-5)] show ?thesis by (simp add: map_of_sort_key)
qed

section \<open>Secrets\<close>

lemma validated_secret:
  assumes "validate_secret_references layer keys (PDict d) = Inr ()"
    and "value_at d (ks @ [k]) = Some (PStr s)" and "secret_key_search k"
  shows "\<exists>qs e name. prefix qs ks \<and> value_at d qs = Some (PDict e) \<and>
    map_of e ''secret_ref'' = Some (PStr name) \<and> secret_ref_fullmatch name"
  using assms(1,2)
proof (induction ks arbitrary: d keys)
  have ref: "\<exists>name. map_of d ''secret_ref'' = Some (PStr name) \<and> secret_ref_fullmatch name"
    if "validate_secret_references layer keys (PDict d) = Inr ()" "dhas d ''secret_ref''" for d keys
    using that by (auto simp: validate_secret_references.simps [of _ _ "PDict _"] validate_secret_ref_def dhas_def
      dget_def dget_or_def split: if_splits pyval.splits option.splits)
  have child: "validate_secret_references layer (keys @ [k2]) v = Inr () \<and> \<not> (secret_key_search k2 \<and> is_str v)"
    if "validate_secret_references layer keys (PDict d) = Inr ()" "\<not> dhas d ''secret_ref''" "map_of d k2 = Some v"
    for d keys k2 v
    using that map_of_SomeD [OF that(3)]
    by (auto simp: validate_secret_references.simps [of _ _ "PDict _"] foldE_unit_iff split: if_splits
      dest!: bspec)
  {
    case Nil
    then show ?case
      using ref [OF Nil(1)] child [OF Nil(1)] assms(3) by (cases "map_of d k") (fastforce split: if_splits)+
  next
    case (Cons k2 ks)
    show ?case
    proof (cases "dhas d ''secret_ref''")
      case True
      then obtain name where "map_of d ''secret_ref'' = Some (PStr name)" "secret_ref_fullmatch name"
        using ref [OF Cons.prems(1)] by blast
      then show ?thesis by (intro exI [of _ "[]"] exI [of _ d] exI [of _ name]) simp
    next
      case False
      obtain e where e: "map_of d k2 = Some (PDict e)" "value_at e (ks @ [k]) = Some (PStr s)"
        using Cons.prems(2) by (auto split: option.splits pyval.splits)
      obtain qs e' name where "prefix qs ks" "value_at e qs = Some (PDict e')"
          "map_of e' ''secret_ref'' = Some (PStr name)" "secret_ref_fullmatch name"
        using Cons.IH [OF _ e(2)] child [OF Cons.prems(1) False e(1)] by blast
      then show ?thesis using e(1)
        by (intro exI [of _ "k2 # qs"]) (auto split: option.splits)
    qed
  }
qed

lemma layer_validated:
  "foldE merge_layer st ls = Inr st' \<Longrightarrow> l \<in> set ls \<Longrightarrow> validate_layer l = Inr ()"
  by (induction ls arbitrary: st) (auto simp: bindE_eq_Inr merge_layer_Inr)

text \<open>No literal secret enters a composed configuration on its own. A string that the
  configuration has under a key that reads like a secret comes from a layer in which one of the
  mappings around it names, as its \<^verbatim>\<open>secret_ref\<close>, an environment variable.\<close>

theorem secret_beside_reference:
  assumes "compose_layered_config h org team add_ons user = Inr r"
    and "layers_wf (layer_stack org team add_ons user)"
    and "secret_key_search k" and "value_at (lc_effective r) (ks @ [k]) = Some (PStr s)"
  shows "\<exists>l qs e name. last_speaker (layer_stack org team add_ons user) (ks @ [k]) = Some l \<and>
    prefix qs ks \<and> value_at (ly_data l) qs = Some (PDict e) \<and>
    map_of e ''secret_ref'' = Some (PStr name) \<and> secret_ref_fullmatch name"
proof -
  obtain l where l: "last_speaker (layer_stack org team add_ons user) (ks @ [k]) = Some l"
      "value_at (ly_data l) (ks @ [k]) = Some (PStr s)"
    using composed_value [OF assms(1,2), of "PStr s" "ks @ [k]"] assms(4) by auto
  have "validate_layer l = Inr ()"
    using compose_Inr [OF assms(1)] layer_validated last_speaker_mem [OF l(1)] by metis
  then show ?thesis
    using validated_secret [OF _ l(2) assms(3)] l(1) by (auto simp: validate_layer_def bindE_eq_Inr)
qed

section \<open>At concrete layers\<close>

definition demo_org :: layer_document where
  "demo_org = \<lparr>ly_name = ''org'', ly_source = Path [] [''org.yaml''], ly_data =
     [(''db'', PDict [(''host'', PStr ''a''), (''port'', PInt 1), (''password'', PDict [(''secret_ref'', PStr ''DB'')])]),
      (''debug'', PBool False)]\<rparr>"

definition demo_user :: layer_document where
  "demo_user = \<lparr>ly_name = ''user'', ly_source = Path [] [''user.yaml''], ly_data =
     [(''db'', PDict [(''host'', PStr ''b'')]), (''debug'', PDict [(''level'', PInt 2)])]\<rparr>"

definition demo_composed :: layered_config where
  "demo_composed = result_of (compose_layered_config (\<lambda>s. s) (Some demo_org) None [] (Some demo_user))"

lemma demo_run: "compose_layered_config (\<lambda>s. s) (Some demo_org) None [] (Some demo_user) = Inr demo_composed"
proof -
  have "is_result (compose_layered_config (\<lambda>s. s) (Some demo_org) None [] (Some demo_user))"
    by code_simp
  then show ?thesis unfolding demo_composed_def by (rule is_result_Inr)
qed

lemma demo_layers: "layers_wf (layer_stack (Some demo_org) None [] (Some demo_user))"
    "layers_dot_free (layer_stack (Some demo_org) None [] (Some demo_user))"
  by code_simp+

theorem last_layer_wins_witness:
  "value_at (lc_effective demo_composed) [''db'', ''host''] = Some (PStr ''b'')"
proof -
  have "last_speaker (layer_stack (Some demo_org) None [] (Some demo_user)) [''db'', ''host''] = Some demo_user"
    "value_at (ly_data demo_user) [''db'', ''host''] = Some (PStr ''b'')"
    by code_simp+
  then show ?thesis
    using last_layer_wins [OF demo_run demo_layers(1), of "PStr ''b''" "[''db'', ''host'']"] by simp
qed

theorem provenance_names_layer_witness:
  "map_of (lc_provenance demo_composed) ''db.host'' = Some (origin_of demo_user)"
proof -
  have "last_speaker (layer_stack (Some demo_org) None [] (Some demo_user)) [''db'', ''host''] = Some demo_user"
    "leaf_in (ly_data demo_user) [''db'', ''host'']" "dotted [''db'', ''host''] = ''db.host''"
    by code_simp+
  then show ?thesis using provenance_names_layer [OF demo_run demo_layers] by metis
qed

text \<open>A string beside a reference is accepted, whatever its key: the check stops at the reference.\<close>

definition demo_secret :: layer_document where
  "demo_secret = \<lparr>ly_name = ''org'', ly_source = Path [] [''org.yaml''],
     ly_data = [(''db'', PDict [(''secret_ref'', PStr ''DB''), (''password'', PStr ''hunter2'')])]\<rparr>"

lemma literal_secret_beside_reference:
  "(case compose_layered_config (\<lambda>s. s) (Some demo_secret) None [] None of Inl e \<Rightarrow> False
    | Inr r \<Rightarrow> value_at (lc_effective r) [''db'', ''password''] = Some (PStr ''hunter2''))"
  by code_simp

theorem secret_beside_reference_witness:
  "\<exists>r l qs e name. compose_layered_config (\<lambda>s. s) (Some demo_secret) None [] None = Inr r \<and>
     last_speaker [demo_secret] ([''db''] @ [''password'']) = Some l \<and>
     prefix qs [''db''] \<and> value_at (ly_data l) qs = Some (PDict e) \<and>
     map_of e ''secret_ref'' = Some (PStr name) \<and> secret_ref_fullmatch name"
proof -
  obtain r where r: "compose_layered_config (\<lambda>s. s) (Some demo_secret) None [] None = Inr r"
    "value_at (lc_effective r) ([''db''] @ [''password'']) = Some (PStr ''hunter2'')"
    using literal_secret_beside_reference by (simp split: sum.splits)
  have stack: "layer_stack (Some demo_secret) None [] None = [demo_secret]" "secret_key_search ''password''"
    and wf: "layers_wf (layer_stack (Some demo_secret) None [] None)"
    by code_simp+
  show ?thesis
    using secret_beside_reference [OF r(1) wf stack(2) r(2)] r(1) unfolding stack(1) by blast
qed

text \<open>An empty mapping has no provenance, so a layer that replaces one is refused.\<close>

definition demo_empty :: layer_document where
  "demo_empty = \<lparr>ly_name = ''org'', ly_source = Path [] [''org.yaml''], ly_data = [(''tools'', PDict [])]\<rparr>"

definition demo_list :: layer_document where
  "demo_list = \<lparr>ly_name = ''user'', ly_source = Path [] [''user.yaml''],
     ly_data = [(''tools'', PList [PStr ''a''])]\<rparr>"

lemma empty_mapping_not_replaced:
  "compose_layered_config (\<lambda>s. s) (Some demo_empty) None [] (Some demo_list) =
     Inl (layer_error ''missing provenance for conflict path: tools'')"
  by code_simp

end
