(* ===== verification/Safe_Ids.thy ===== *)
theory Safe_Ids
  imports Json_Files
begin

text \<open>
  The names of files that several stores derive from free text: each run of unsafe characters
  becomes one dash, and dashes at the ends go (\<^verbatim>\<open>re.sub("[^A-Za-z0-9._-]+", "-", raw).strip("-")\<close>).
\<close>

fun dash_unsafe :: "bool \<Rightarrow> string \<Rightarrow> string" where
  "dash_unsafe dashed [] = []"
| "dash_unsafe dashed (c # cs) =
     (if is_safe_char c then c # dash_unsafe False cs
      else if dashed then dash_unsafe True cs else CHR ''-'' # dash_unsafe True cs)"

definition safe_id :: "string \<Rightarrow> string" where
  "safe_id raw = strip_by (\<lambda>c. c = CHR ''-'') (dash_unsafe False raw)"

lemma dash_safe [simp]: "is_safe_char CHR ''-''"
  by (simp add: is_safe_char_def)

lemma set_dash_unsafe: "c \<in> set (dash_unsafe b s) \<Longrightarrow> is_safe_char c"
  by (induction b s rule: dash_unsafe.induct) (auto split: if_splits)

lemma list_all_safe_id: "list_all is_safe_char (safe_id raw)"
  using set_strip_by set_dash_unsafe by (fastforce simp: safe_id_def list_all_iff)

text \<open>A safe id is one component of a path, though it may be a dot or two.\<close>

lemma slash_not_in_safe_id: "slash \<notin> set (safe_id raw)"
proof
  assume "slash \<in> set (safe_id raw)"
  with list_all_safe_id [of raw] have "is_safe_char slash" by (auto simp: list_all_iff)
  then show False by (simp add: is_safe_char_def slash_def is_letter_def is_digit_def)
qed

lemma dash_unsafe_id: "list_all is_safe_char s \<Longrightarrow> dash_unsafe b s = s"
  by (induction s arbitrary: b) auto

end
