(* ===== verification/Deployments.thy ===== *)
theory Deployments
  imports Safe_Ids
begin

text \<open>
  Desired-state bundles and their deployment (\<^verbatim>\<open>bundle_loader.py\<close>, \<^verbatim>\<open>deployments.py\<close>). The
  JSON-schema validator and the digest are arguments. The deployment directory is the state; an
  atomic write of a file is two steps, the temporary file and its renaming, and an operation is the
  list of its steps, so that a crash is an end of the list that is not run.
\<close>

section \<open>Bundles\<close>

definition CONFIG_SCHEMA_VERSION :: int where "CONFIG_SCHEMA_VERSION = 1"
definition BUNDLE_SCHEMA_VERSION :: int where "BUNDLE_SCHEMA_VERSION = 1"

definition ZERO_CHECKSUM :: string where
  "ZERO_CHECKSUM = replicate 64 CHR ''0''"

definition bundle_error :: "string \<Rightarrow> exn" where
  "bundle_error m = Exn BundleValidationError m"

text \<open>\<open>d[k]\<close> where the schema has made sure of an object.\<close>

definition dindex_dict :: "pydict \<Rightarrow> string \<Rightarrow> pydict res" where
  "dindex_dict d k = bindE (dindex d k) (\<lambda>v. case v of PDict e \<Rightarrow> Inr e
     | _ \<Rightarrow> Inl (Exn TypeError (type_name v)))"

definition dindex_str :: "pydict \<Rightarrow> string \<Rightarrow> string res" where
  "dindex_str d k = bindE (dindex d k) (\<lambda>v. case v of PStr s \<Rightarrow> Inr s
     | _ \<Rightarrow> Inl (Exn AttributeError (type_name v)))"

definition dindex_int :: "pydict \<Rightarrow> string \<Rightarrow> int res" where
  "dindex_int d k = bindE (dindex d k) (\<lambda>v. case as_int v of Some i \<Rightarrow> Inr i
     | None \<Rightarrow> Inl (Exn TypeError (type_name v)))"

definition bundle_checksum :: "(string \<Rightarrow> string) \<Rightarrow> pydict \<Rightarrow> string res" where
  "bundle_checksum sha256 bundle =
     bindE (dindex_dict bundle ''checksum'') (\<lambda>checksum.
       Inr (sha256 (dumps_compact (PDict (AList.update ''checksum''
         (PDict (AList.update ''value'' (PStr ZERO_CHECKSUM) checksum)) bundle)))))"

text \<open>\<open>schema_errors\<close> gives the formatted errors of the validator in their sorted order.\<close>

record bundle_env =
  be_schema_errors :: "pydict \<Rightarrow> string list"
  be_sha256 :: "string \<Rightarrow> string"
  be_expanduser :: "path \<Rightarrow> path"

definition validate_schema :: "bundle_env \<Rightarrow> pydict \<Rightarrow> unit res" where
  "validate_schema env bundle =
     (let errors = be_schema_errors env bundle in
      require (errors = []) (bundle_error (''schema validation failed: '' @ join ''; '' errors)))"

definition validate_schema_version :: "pydict \<Rightarrow> unit res" where
  "validate_schema_version bundle =
     bindE (dindex bundle ''schema_version'') (\<lambda>v.
       require (eq_int v BUNDLE_SCHEMA_VERSION) (bundle_error (''unsupported bundle schema version: '' @
         py_str v @ '' (expected '' @ str_int BUNDLE_SCHEMA_VERSION @ '')'')))"

definition validate_checksum :: "bundle_env \<Rightarrow> pydict \<Rightarrow> unit res" where
  "validate_checksum env bundle =
     bindE (dindex_dict bundle ''checksum'') (\<lambda>checksum.
     bindE (dindex_str checksum ''value'') (\<lambda>v.
     bindE (bundle_checksum (be_sha256 env) bundle) (\<lambda>actual.
       require (lower v = actual)
         (bundle_error (''checksum mismatch: expected '' @ lower v @ '', computed '' @ actual)))))"

definition validate_compatibility :: "pydict \<Rightarrow> unit res" where
  "validate_compatibility bundle =
     bindE (dindex_dict bundle ''compatibility'') (\<lambda>compatibility.
     bindE (dindex_int compatibility ''min_config_schema_version'') (\<lambda>minimum.
     bindE (dindex_int compatibility ''max_config_schema_version'') (\<lambda>maximum.
       require (minimum \<le> CONFIG_SCHEMA_VERSION \<and> CONFIG_SCHEMA_VERSION \<le> maximum)
         (bundle_error (''incompatible config schema version: broker uses '' @ str_int CONFIG_SCHEMA_VERSION @
           '', bundle supports '' @ str_int minimum @ ''..'' @ str_int maximum)))))"

record bundle_report =
  br_path :: path
  br_bundle_id :: pyval
  br_version :: pyval
  br_schema_version :: pyval
  br_checksum_algorithm :: pyval

text \<open>A bundle file: absent, a directory, not JSON with the message of the decoder, or a value.\<close>

datatype bundle_file = NoBundle | BundleDir | BundleText string | BundleValue pyval

definition load_json_mapping :: "path \<Rightarrow> bundle_file \<Rightarrow> pydict res" where
  "load_json_mapping p file =
     (case file of
        BundleValue (PDict d) \<Rightarrow> Inr d
      | BundleText m \<Rightarrow> Inl (bundle_error (''bundle file must contain valid JSON: '' @ path_str p @ '': '' @ m))
      | _ \<Rightarrow> Inl (bundle_error (''bundle file must contain a JSON object: '' @ path_str p)))"

definition validate_bundle_file :: "bundle_env \<Rightarrow> path \<Rightarrow> bundle_file \<Rightarrow> bundle_report res" where
  "validate_bundle_file env bundle_path file =
     (let resolved = be_expanduser env bundle_path in
      if file = NoBundle then Inl (bundle_error (''bundle file not found: '' @ path_str resolved))
      else if file = BundleDir then Inl (bundle_error (''bundle path must be a file: '' @ path_str resolved))
      else
        bindE (load_json_mapping resolved file) (\<lambda>bundle.
        bindE (validate_schema env bundle) (\<lambda>_.
        bindE (validate_schema_version bundle) (\<lambda>_.
        bindE (validate_checksum env bundle) (\<lambda>_.
        bindE (validate_compatibility bundle) (\<lambda>_.
        bindE (dindex bundle ''bundle_id'') (\<lambda>bundle_id.
        bindE (dindex bundle ''version'') (\<lambda>version.
        bindE (dindex bundle ''schema_version'') (\<lambda>schema_version.
        bindE (dindex_dict bundle ''checksum'') (\<lambda>checksum.
        bindE (dindex checksum ''algorithm'') (\<lambda>algorithm.
        Inr \<lparr>br_path = resolved, br_bundle_id = bundle_id, br_version = version,
          br_schema_version = schema_version, br_checksum_algorithm = algorithm\<rparr>)))))))))))"

section \<open>The deployment directory\<close>

text \<open>
  The records by file name with their modification times, in the order of the directory; the two
  pointers; the temporary files that are there; the journal.
\<close>

record deployments =
  dp_records :: "(string \<times> (json_file \<times> int)) list"
  dp_active :: json_file
  dp_previous :: json_file
  dp_partial :: "string list"
  dp_journal :: "pydict list"

text \<open>\<open>is_file\<close> of a path outside of the directory of records is the host's.\<close>

record deployment_env =
  de_dir :: path
  de_other_file :: "path \<Rightarrow> bool"

definition deployment_error :: "string \<Rightarrow> exn" where
  "deployment_error m = Exn DeploymentError m"

definition records_dir :: "deployment_env \<Rightarrow> path" where
  "records_dir env = path_join (de_dir env) ''records''"

record pointer =
  pt_id :: string
  pt_record_path :: string

definition pointer_dict :: "pointer \<Rightarrow> pydict" where
  "pointer_dict p = [(''deployment_id'', PStr (pt_id p)), (''record_path'', PStr (pt_record_path p))]"

definition read_object :: "exn \<Rightarrow> json_file \<Rightarrow> pydict res" where
  "read_object not_object file =
     (case file of
        Content (PDict d) \<Rightarrow> Inr d
      | Content v \<Rightarrow> Inl not_object
      | Corrupt \<Rightarrow> Inl (Exn JSONDecodeError ''Expecting value'')
      | Absent \<Rightarrow> Inl (Exn FileNotFoundError ''No such file or directory''))"

definition read_pointer :: "string \<Rightarrow> json_file \<Rightarrow> pointer option res" where
  "read_pointer shown file =
     (if file = Absent then Inr None
      else bindE (read_object (deployment_error (''expected JSON object: '' @ shown)) file) (\<lambda>d.
        bindE (dindex d ''deployment_id'') (\<lambda>i.
        bindE (dindex d ''record_path'') (\<lambda>p.
          Inr (Some \<lparr>pt_id = py_str i, pt_record_path = py_str p\<rparr>)))))"

definition require_pointer :: "string \<Rightarrow> json_file \<Rightarrow> string \<Rightarrow> pointer res" where
  "require_pointer shown file message =
     bindE (read_pointer shown file) (\<lambda>p. case p of None \<Rightarrow> Inl (deployment_error message) | Some q \<Rightarrow> Inr q)"

definition record_is_file :: "deployment_env \<Rightarrow> deployments \<Rightarrow> string \<Rightarrow> bool" where
  "record_is_file env s text =
     (let p = path_of text in
      if path_parts p \<noteq> [] \<and> path_parent p = records_dir env
      then map_of (dp_records s) (path_name p) \<noteq> None else de_other_file env p)"

definition deployment_id :: "string \<Rightarrow> string \<Rightarrow> string \<Rightarrow> string" where
  "deployment_id bundle_id version checksum =
     safe_id (bundle_id @ ''-'' @ version @ ''-'' @ take 12 checksum)"

section \<open>Steps\<close>

text \<open>\<open>_write_json_atomic\<close>: the temporary file, then \<open>os.replace\<close>.\<close>

definition write_partial :: "string \<Rightarrow> deployments \<Rightarrow> deployments" where
  "write_partial n s = s\<lparr>dp_partial := List.insert (n @ ''.tmp'') (dp_partial s)\<rparr>"

definition rename_partial :: "string \<Rightarrow> (deployments \<Rightarrow> deployments) \<Rightarrow> deployments \<Rightarrow> deployments" where
  "rename_partial n put s = put (s\<lparr>dp_partial := removeAll (n @ ''.tmp'') (dp_partial s)\<rparr>)"

definition put_active :: "pydict \<Rightarrow> deployments \<Rightarrow> deployments" where
  "put_active d s = s\<lparr>dp_active := Content (PDict d)\<rparr>"

definition put_previous :: "pydict \<Rightarrow> deployments \<Rightarrow> deployments" where
  "put_previous d s = s\<lparr>dp_previous := Content (PDict d)\<rparr>"

definition put_record :: "string \<Rightarrow> int \<Rightarrow> pydict \<Rightarrow> deployments \<Rightarrow> deployments" where
  "put_record n t d s = s\<lparr>dp_records := AList.update n (Content (PDict d), t) (dp_records s)\<rparr>"

definition append_entry :: "string \<Rightarrow> pydict \<Rightarrow> deployments \<Rightarrow> deployments" where
  "append_entry ts entry s = s\<lparr>dp_journal := dp_journal s @ [AList.update ''ts'' (PStr ts) entry]\<rparr>"

type_synonym step = "deployments \<Rightarrow> deployments"

definition atomic_steps :: "string \<Rightarrow> step \<Rightarrow> step list" where
  "atomic_steps n put = [write_partial n, rename_partial n put]"

definition run_steps :: "step list \<Rightarrow> step" where
  "run_steps steps = fold (\<lambda>f s. f s) steps"

section \<open>Operations\<close>

record activation =
  av_record :: pydict
  av_pointer :: pointer
  av_current :: "pointer option"

definition id_or_none :: "pointer option \<Rightarrow> pyval" where
  "id_or_none p = (case p of None \<Rightarrow> PNone | Some q \<Rightarrow> PStr (pt_id q))"

text \<open>\<open>_load_bundle\<close>\<close>

definition load_bundle :: "bundle_file \<Rightarrow> pydict res" where
  "load_bundle file =
     (case file of
        BundleValue (PDict d) \<Rightarrow> Inr d
      | BundleValue v \<Rightarrow> Inl (deployment_error ''bundle file must contain a JSON object'')
      | BundleText m \<Rightarrow> Inl (Exn JSONDecodeError m)
      | BundleDir \<Rightarrow> Inl (Exn OSError ''Is a directory'')
      | NoBundle \<Rightarrow> Inl (Exn FileNotFoundError ''No such file or directory''))"

text \<open>What a deployment decides before it writes anything.\<close>

definition plan_deployment ::
    "bundle_env \<Rightarrow> deployment_env \<Rightarrow> path \<Rightarrow> bundle_file \<Rightarrow> string \<Rightarrow> deployments \<Rightarrow> activation res" where
  "plan_deployment benv env bundle_path file now s =
     bindE (load_bundle file) (\<lambda>bundle.
     bindE (validate_bundle_file benv bundle_path file) (\<lambda>v.
     bindE (bundle_checksum (be_sha256 benv) bundle) (\<lambda>checksum.
     let i = deployment_id (py_str (br_bundle_id v)) (py_str (br_version v)) checksum in
     bindE (read_pointer (path_str (path_join (de_dir env) ''active.json'')) (dp_active s)) (\<lambda>current.
     Inr \<lparr>av_record = [(''deployment_id'', PStr i), (''bundle_id'', br_bundle_id v),
            (''bundle_version'', br_version v),
            (''bundle_path'', PStr (path_str (be_expanduser benv bundle_path))),
            (''schema_version'', br_schema_version v),
            (''checksum'', PDict [(''algorithm'', br_checksum_algorithm v), (''value'', PStr checksum)]),
            (''status'', PStr ''active''), (''created_at'', PStr now)],
          av_pointer = \<lparr>pt_id = i, pt_record_path = path_str (path_join (records_dir env) (i @ ''.json''))\<rparr>,
          av_current = current\<rparr>))))"

definition record_steps :: "string \<Rightarrow> int \<Rightarrow> activation \<Rightarrow> step list" where
  "record_steps now mtime a =
     (let i = pt_id (av_pointer a) in
      atomic_steps (''records/'' @ i @ ''.json'') (put_record (i @ ''.json'') mtime (av_record a)) @
      atomic_steps ''active.json'' (put_active (pointer_dict (av_pointer a))) @
      (case av_current a of None \<Rightarrow> []
       | Some c \<Rightarrow> atomic_steps ''previous.json'' (put_previous (pointer_dict c))) @
      [append_entry now [(''action'', PStr ''activate''), (''deployment_id'', PStr i),
         (''previous_deployment_id'', id_or_none (av_current a))]])"

type_synonym 'a deployment_sem = "(deployments, exn, 'a) sem"

definition record_deployment ::
    "bundle_env \<Rightarrow> deployment_env \<Rightarrow> path \<Rightarrow> bundle_file \<Rightarrow> string \<Rightarrow> string \<Rightarrow> int \<Rightarrow>
     pydict deployment_sem" where
  "record_deployment benv env bundle_path file now later mtime =
     bindS (bindS getS (\<lambda>s. liftS (plan_deployment benv env bundle_path file now s))) (\<lambda>a.
     seqS (modifyS (run_steps (record_steps later mtime a)))
       (returnS (av_record a @ [(''record_path'', PStr (pt_record_path (av_pointer a)))])))"

definition rollback_pointers :: "deployment_env \<Rightarrow> deployments \<Rightarrow> (pointer \<times> pointer) res" where
  "rollback_pointers env s =
     bindE (require_pointer (path_str (path_join (de_dir env) ''active.json'')) (dp_active s)
       ''active deployment pointer is missing'') (\<lambda>active.
     bindE (require_pointer (path_str (path_join (de_dir env) ''previous.json'')) (dp_previous s)
       ''previous deployment pointer is missing'') (\<lambda>previous.
     bindE (require (record_is_file env s (pt_record_path previous))
       (deployment_error (''deployment record not found: '' @ pt_record_path previous))) (\<lambda>_.
     Inr (active, previous))))"

definition rollback_steps :: "string \<Rightarrow> pointer \<Rightarrow> pointer \<Rightarrow> step list" where
  "rollback_steps now active previous =
     atomic_steps ''active.json'' (put_active (pointer_dict previous)) @
     atomic_steps ''previous.json'' (put_previous (pointer_dict active)) @
     [append_entry now [(''action'', PStr ''rollback''), (''active_deployment_id'', PStr (pt_id previous)),
        (''previous_deployment_id'', PStr (pt_id active))]]"

definition deployment_rollback :: "deployment_env \<Rightarrow> string \<Rightarrow> (string \<times> string) deployment_sem" where
  "deployment_rollback env now =
     bindS (bindS getS (\<lambda>s. liftS (rollback_pointers env s))) (\<lambda>(active, previous).
     seqS (modifyS (run_steps (rollback_steps now active previous)))
       (returnS (pt_id previous, pt_id active)))"

definition latest_record_pointer :: "deployment_env \<Rightarrow> deployments \<Rightarrow> pointer option res" where
  "latest_record_pointer env s =
     (let records = sort_key (\<lambda>(n, c, t). t) (filter (\<lambda>(n, c, t). suffix ''.json'' n) (dp_records s)) in
      if records = [] then Inr None
      else case last records of (n, c, t) \<Rightarrow>
        bindE (read_object (deployment_error (''expected JSON object: '' @
            path_str (path_join (records_dir env) n))) c) (\<lambda>d.
        bindE (dindex d ''deployment_id'') (\<lambda>i.
          Inr (Some \<lparr>pt_id = py_str i, pt_record_path = path_str (path_join (records_dir env) n)\<rparr>))))"

definition remove_partial :: "deployment_env \<Rightarrow> string list deployment_sem" where
  "remove_partial env =
     bindS getS (\<lambda>s. seqS (modifyS (\<lambda>s. s\<lparr>dp_partial := []\<rparr>))
       (returnS (map (\<lambda>n. path_str (path_join (de_dir env) n)) (sort (dp_partial s)))))"

text \<open>The pointer that becomes the active one, if one is needed; \<open>None\<close> when nothing is to be repaired.\<close>

definition recovered_pointer :: "deployment_env \<Rightarrow> deployments \<Rightarrow> (pointer option \<times> pointer option) res" where
  "recovered_pointer env s =
     bindE (read_pointer (path_str (path_join (de_dir env) ''active.json'')) (dp_active s)) (\<lambda>active.
     case active of
       Some a \<Rightarrow>
         if record_is_file env s (pt_record_path a) then Inr (Some a, None)
         else bindE (latest_record_pointer env s) (\<lambda>replacement.
           case replacement of
             None \<Rightarrow> Inl (deployment_error ''active deployment record is missing and no records exist'')
           | Some r \<Rightarrow> Inr (Some r, Some r))
     | None \<Rightarrow> bindE (latest_record_pointer env s) (\<lambda>replacement. Inr (replacement, replacement)))"

definition deployment_recover ::
    "deployment_env \<Rightarrow> string \<Rightarrow> (pyval \<times> bool \<times> string list) deployment_sem" where
  "deployment_recover env now =
     bindS (remove_partial env) (\<lambda>removed.
     bindS (bindS getS (\<lambda>s. liftS (recovered_pointer env s))) (\<lambda>(active, repair).
     seqS (case repair of None \<Rightarrow> returnS ()
         | Some r \<Rightarrow> modifyS (run_steps (atomic_steps ''active.json'' (put_active (pointer_dict r)))))
     (seqS (if repair \<noteq> None \<or> removed \<noteq> [] then
         modifyS (append_entry now [(''action'', PStr ''recover''), (''active_deployment_id'', id_or_none active),
           (''removed_partial_files'', PList (map PStr removed))])
         else returnS ())
       (returnS (id_or_none active, repair \<noteq> None, removed)))))"

definition dry_run_stage :: "bundle_env \<Rightarrow> path \<Rightarrow> bundle_file \<Rightarrow> pydict res" where
  "dry_run_stage benv bundle_path file =
     bindE (validate_bundle_file benv bundle_path file) (\<lambda>v.
     bindE (load_bundle file) (\<lambda>bundle.
     bindE (bundle_checksum (be_sha256 benv) bundle) (\<lambda>checksum.
     Inr [(''bundle_path'', PStr (path_str (be_expanduser benv bundle_path))),
       (''bundle_id'', br_bundle_id v), (''bundle_version'', br_version v),
       (''deployment_id'', PStr (deployment_id (py_str (br_bundle_id v)) (py_str (br_version v)) checksum)),
       (''would_change_runtime_state'', PBool False)])))"

end
