(* ===== verification/Plain_Paths.thy ===== *)
theory Plain_Paths
  imports Json_Files
begin

text \<open>
  Paths below a directory, paths that stay what they are when they are written and read, and the
  elimination of a successful run of the monads into the runs of its steps.
\<close>

section \<open>Paths\<close>

text \<open>\<open>path.with_name(path.name + ".tmp")\<close>\<close>

definition tmp_path :: "path \<Rightarrow> path" where
  "tmp_path p = path_join (path_parent p) (path_name p @ ''.tmp'')"

text \<open>\<open>p.relative_to(q)\<close> succeeds.\<close>

definition relative_to :: "path \<Rightarrow> path \<Rightarrow> bool" where
  "relative_to p q \<longleftrightarrow> path_root p = path_root q \<and> prefix (path_parts q) (path_parts p)"

text \<open>Paths that a host leaves as they are, and that their text names again.\<close>

definition plain :: "path \<Rightarrow> bool" where
  "plain p \<longleftrightarrow> is_absolute p \<and> clean_path p"

lemma plain_text: "plain p \<Longrightarrow> path_of (path_str p) = p"
  by (simp add: plain_def path_of_str)

lemma plain_join: "plain p \<Longrightarrow> plain (path_join p s)"
  unfolding plain_def by (rule conjI) (simp_all add: clean_path_join, simp add: path_join_def Let_def is_absolute_def)

lemma path_of_name:
  assumes "slash \<notin> set n" and "n \<noteq> []" and "n \<noteq> ''.''"
  shows "path_of n = Path [] [n]"
proof -
  have "split_char slash n = [n]"
    unfolding split_char_def by (rule split_pred_None) (use assms(1) in auto)
  moreover obtain c cs where "n = c # cs" "c \<noteq> slash" using assms(1,2) by (cases n) auto
  ultimately show ?thesis using assms(3) by (auto simp: path_of_def Let_def split: list.splits)
qed

lemma path_join_name:
  "slash \<notin> set n \<Longrightarrow> n \<noteq> [] \<Longrightarrow> n \<noteq> ''.'' \<Longrightarrow> path_join p n = Path (path_root p) (path_parts p @ [n])"
  by (simp add: path_join_def path_of_name is_absolute_def)

lemma relative_join: "slash \<notin> set s \<Longrightarrow> relative_to (path_join p s) p"
proof -
  assume "slash \<notin> set s"
  then have "path_root (path_of s) = []"
    by (auto simp: path_of_def Let_def split: list.splits)
  then show ?thesis by (simp add: path_join_def is_absolute_def relative_to_def)
qed

lemma relative_trans: "relative_to p q \<Longrightarrow> relative_to q r \<Longrightarrow> relative_to p r"
  by (auto simp: relative_to_def intro: prefix_order.trans)

lemma safe_no_slash: "safe_id_fullmatch s \<Longrightarrow> slash \<notin> set s"
  by (auto simp: safe_id_fullmatch_def list_all_iff is_safe_char_def slash_def is_letter_def is_digit_def)

section \<open>Successful runs\<close>

lemma bindE_InrE: "bindE m f = Inr y \<Longrightarrow> (\<And>x. m = Inr x \<Longrightarrow> f x = Inr y \<Longrightarrow> thesis) \<Longrightarrow> thesis"
  by (auto simp: bindE_eq_Inr)

lemma bindS_InrE: "bindS m f s = (Inr y, t) \<Longrightarrow> (\<And>x s1. m s = (Inr x, s1) \<Longrightarrow> f x s1 = (Inr y, t) \<Longrightarrow> thesis) \<Longrightarrow> thesis"
  by (cases "m s") (auto simp: bindS_def split: sum.splits)

lemma seqS_InrE: "seqS m n s = (Inr y, t) \<Longrightarrow> (\<And>x s1. m s = (Inr x, s1) \<Longrightarrow> n s1 = (Inr y, t) \<Longrightarrow> thesis) \<Longrightarrow> thesis"
  unfolding seqS_def by (erule bindS_InrE)

lemma liftS_InrE: "liftS r s = (Inr x, t) \<Longrightarrow> (r = Inr x \<Longrightarrow> t = s \<Longrightarrow> thesis) \<Longrightarrow> thesis"
  by (auto simp: liftS_def)

end
