(* ===== verification/Deployment_Facts.thy ===== *)
theory Deployment_Facts
  imports Deployments Plain_Paths
begin

text \<open>
  What the deployment directory keeps when an operation stops in the middle: a pointer that is there
  names a record that is there, so a recovery always works; a rollback undoes a deployment.
\<close>

section \<open>The invariant\<close>

definition active_of :: "deployments \<Rightarrow> pointer option res" where
  "active_of s = read_pointer [] (dp_active s)"

definition previous_of :: "deployments \<Rightarrow> pointer option res" where
  "previous_of s = read_pointer [] (dp_previous s)"

definition pointer_ok :: "deployment_env \<Rightarrow> deployments \<Rightarrow> json_file \<Rightarrow> bool" where
  "pointer_ok env s file \<longleftrightarrow> (case read_pointer [] file of
     Inl e \<Rightarrow> False | Inr None \<Rightarrow> True | Inr (Some q) \<Rightarrow> record_is_file env s (pt_record_path q))"

definition record_name :: "string \<Rightarrow> bool" where
  "record_name n \<longleftrightarrow> slash \<notin> set n \<and> n \<noteq> [] \<and> n \<noteq> ''.'' \<and> suffix ''.json'' n"

definition record_content :: "json_file \<Rightarrow> bool" where
  "record_content c \<longleftrightarrow> (case c of Content (PDict d) \<Rightarrow> dhas d ''deployment_id'' | _ \<Rightarrow> False)"

definition records_ok :: "deployments \<Rightarrow> bool" where
  "records_ok s \<longleftrightarrow> list_all (\<lambda>(n, c, t). record_name n \<and> record_content c) (dp_records s)"

definition deployments_ok :: "deployment_env \<Rightarrow> deployments \<Rightarrow> bool" where
  "deployments_ok env s \<longleftrightarrow>
     pointer_ok env s (dp_active s) \<and> pointer_ok env s (dp_previous s) \<and> records_ok s"

lemma read_pointer_shown: "read_pointer shown file = Inr p \<longleftrightarrow> read_pointer [] file = Inr p"
  by (auto simp: read_pointer_def read_object_def bindE_eq_Inr split: json_file.splits pyval.splits)

lemma read_pointer_dict [simp]: "read_pointer shown (Content (PDict (pointer_dict q))) = Inr (Some q)"
  by (cases q) (simp add: read_pointer_def read_object_def pointer_dict_def)

lemma require_pointer_Inr:
  "require_pointer shown file m = Inr q \<longleftrightarrow> read_pointer [] file = Inr (Some q)"
  by (auto simp: require_pointer_def bindE_eq_Inr read_pointer_shown [of shown] split: option.splits)

text \<open>The text of the path of a record leads back to it.\<close>

lemma record_is_file_name:
  assumes "clean_path (de_dir env)" and "record_name n"
  shows "record_is_file env s (path_str (path_join (records_dir env) n)) \<longleftrightarrow> map_of (dp_records s) n \<noteq> None"
proof -
  have n: "slash \<notin> set n" "n \<noteq> []" "n \<noteq> ''.''" using assms(2) by (auto simp: record_name_def)
  have "path_of (path_str (path_join (records_dir env) n)) = path_join (records_dir env) n"
    using assms(1) by (intro path_of_str clean_path_join) (simp add: records_dir_def clean_path_join)
  then show ?thesis
    by (simp add: record_is_file_def Let_def path_join_name [OF n] path_parent_def)
qed

lemma record_is_file_mono:
  "record_is_file env s q \<Longrightarrow> (\<And>n. map_of (dp_records s) n \<noteq> None \<Longrightarrow> map_of (dp_records s') n \<noteq> None) \<Longrightarrow>
     record_is_file env s' q"
  unfolding record_is_file_def Let_def by metis

lemma record_is_file_records: "dp_records s' = dp_records s \<Longrightarrow> record_is_file env s' q = record_is_file env s q"
  by (simp add: record_is_file_def)

lemma pointer_ok_iff:
  "pointer_ok env s file \<longleftrightarrow>
     (\<exists>p. read_pointer [] file = Inr p \<and> (\<forall>q. p = Some q \<longrightarrow> record_is_file env s (pt_record_path q)))"
  by (auto simp: pointer_ok_def split: sum.splits option.splits)

lemma pointer_ok_mono:
  "pointer_ok env s file \<Longrightarrow> (\<And>n. map_of (dp_records s) n \<noteq> None \<Longrightarrow> map_of (dp_records s') n \<noteq> None) \<Longrightarrow>
     pointer_ok env s' file"
  unfolding pointer_ok_iff using record_is_file_mono by metis

lemma pointer_ok_records: "dp_records s' = dp_records s \<Longrightarrow> pointer_ok env s' file = pointer_ok env s file"
  by (simp add: pointer_ok_iff record_is_file_records [of s' s])

lemma pointer_ok_dict [simp]:
  "pointer_ok env s (Content (PDict (pointer_dict q))) = record_is_file env s (pt_record_path q)"
  by (simp add: pointer_ok_def)

section \<open>Steps that may stop\<close>

text \<open>The steps keep a property wherever they stop.\<close>

definition safe_steps :: "(deployments \<Rightarrow> bool) \<Rightarrow> step list \<Rightarrow> deployments \<Rightarrow> bool" where
  "safe_steps I steps s \<longleftrightarrow> (\<forall>n. I (run_steps (take n steps) s))"

lemma run_steps_simps [simp]:
  "run_steps [] s = s"
  "run_steps (f # fs) s = run_steps fs (f s)"
  "run_steps (fs @ gs) s = run_steps gs (run_steps fs s)"
  by (simp_all add: run_steps_def)

lemma safe_steps_Nil [simp]: "safe_steps I [] s = I s"
  by (simp add: safe_steps_def)

lemma safe_steps_Cons [simp]: "safe_steps I (f # fs) s \<longleftrightarrow> I s \<and> safe_steps I fs (f s)"
proof
  assume "safe_steps I (f # fs) s"
  then have "I (run_steps (take 0 (f # fs)) s)" "I (run_steps (take (Suc n) (f # fs)) s)" for n
    unfolding safe_steps_def by blast+
  then show "I s \<and> safe_steps I fs (f s)" by (simp add: safe_steps_def)
next
  assume "I s \<and> safe_steps I fs (f s)"
  then show "safe_steps I (f # fs) s"
    by (auto simp: safe_steps_def take_Cons')
qed

lemma safe_steps_atomic:
  "safe_steps I (atomic_steps n put @ rest) s \<longleftrightarrow>
     I s \<and> I (write_partial n s) \<and> safe_steps I rest (rename_partial n put (write_partial n s))"
  by (auto simp: atomic_steps_def)

text \<open>What one step changes of the three parts that matter.\<close>

lemma step_simps [simp]:
  "dp_records (write_partial n s) = dp_records s" "dp_active (write_partial n s) = dp_active s"
  "dp_previous (write_partial n s) = dp_previous s"
  "dp_records (append_entry ts e s) = dp_records s" "dp_active (append_entry ts e s) = dp_active s"
  "dp_previous (append_entry ts e s) = dp_previous s" "dp_partial (append_entry ts e s) = dp_partial s"
  "dp_records (rename_partial n (put_active d) s) = dp_records s"
  "dp_active (rename_partial n (put_active d) s) = Content (PDict d)"
  "dp_previous (rename_partial n (put_active d) s) = dp_previous s"
  "dp_records (rename_partial n (put_previous d) s) = dp_records s"
  "dp_active (rename_partial n (put_previous d) s) = dp_active s"
  "dp_previous (rename_partial n (put_previous d) s) = Content (PDict d)"
  "dp_records (rename_partial n (put_record m t d) s) = AList.update m (Content (PDict d), t) (dp_records s)"
  "dp_active (rename_partial n (put_record m t d) s) = dp_active s"
  "dp_previous (rename_partial n (put_record m t d) s) = dp_previous s"
  by (simp_all add: write_partial_def append_entry_def rename_partial_def put_active_def put_previous_def
      put_record_def)

lemma record_is_file_steps [simp]:
  "record_is_file env (write_partial n s) q = record_is_file env s q"
  "record_is_file env (append_entry ts e s) q = record_is_file env s q"
  "record_is_file env (rename_partial n (put_active d) s) q = record_is_file env s q"
  "record_is_file env (rename_partial n (put_previous d) s) q = record_is_file env s q"
  by (simp_all add: record_is_file_def)

lemma records_ok_update:
  "records_ok s \<Longrightarrow> record_name m \<Longrightarrow> dhas d ''deployment_id'' \<Longrightarrow>
     dp_records s' = AList.update m (Content (PDict d), t) (dp_records s) \<Longrightarrow> records_ok s'"
  using set_update_subset [of m "(Content (PDict d), t)" "dp_records s"]
  by (fastforce simp: records_ok_def list_all_iff record_content_def)

lemma deployments_ok_records:
  "dp_records s' = dp_records s \<Longrightarrow> deployments_ok env s' \<longleftrightarrow>
     pointer_ok env s (dp_active s') \<and> pointer_ok env s (dp_previous s') \<and> records_ok s"
  by (simp add: deployments_ok_def records_ok_def pointer_ok_records [of s' s])

lemma deployments_ok_same [simp]:
  "deployments_ok env (write_partial n s) = deployments_ok env s"
  "deployments_ok env (append_entry ts e s) = deployments_ok env s"
  by (subst deployments_ok_records [of _ s]; simp add: deployments_ok_def)+

lemma deployments_ok_put:
  "deployments_ok env s \<Longrightarrow> record_is_file env s (pt_record_path q) \<Longrightarrow>
     deployments_ok env (rename_partial n (put_active (pointer_dict q)) s)"
  "deployments_ok env s \<Longrightarrow> record_is_file env s (pt_record_path q) \<Longrightarrow>
     deployments_ok env (rename_partial n (put_previous (pointer_dict q)) s)"
  by (subst deployments_ok_records [of _ s]; simp add: deployments_ok_def)+

lemma deployments_ok_put_record:
  assumes "deployments_ok env s" and "record_name m" and "dhas d ''deployment_id''"
  shows "deployments_ok env (rename_partial n (put_record m t d) s)"
proof -
  have "records_ok (rename_partial n (put_record m t d) s)"
    by (rule records_ok_update [OF _ assms(2,3)]) (use assms(1) in \<open>auto simp: deployments_ok_def\<close>)
  moreover have "pointer_ok env s f \<Longrightarrow> pointer_ok env (rename_partial n (put_record m t d) s) f" for f
    by (erule pointer_ok_mono) simp
  ultimately show ?thesis using assms(1) by (simp add: deployments_ok_def)
qed

section \<open>The operations keep the invariant wherever they stop\<close>

lemma record_name_safe_id: "record_name (safe_id raw @ ''.json'')"
  using slash_not_in_safe_id [of raw] by (auto simp: record_name_def slash_def suffix_def append_eq_Cons_conv)

lemma plan_deployment_Inr:
  assumes "plan_deployment benv env bundle_path file now s = Inr a"
  shows "read_pointer [] (dp_active s) = Inr (av_current a)" and "dhas (av_record a) ''deployment_id''"
    and "record_name (pt_id (av_pointer a) @ ''.json'')"
    and "pt_record_path (av_pointer a) = path_str (path_join (records_dir env) (pt_id (av_pointer a) @ ''.json''))"
  using assms by (auto simp: plan_deployment_def bindE_eq_Inr Let_def deployment_id_def record_name_safe_id
      read_pointer_shown [of "path_str _"])

lemma record_steps_safe:
  assumes "clean_path (de_dir env)" and "deployments_ok env s"
    and "plan_deployment benv env bundle_path file now s = Inr a"
  shows "safe_steps (deployments_ok env) (record_steps ts mtime a) s"
proof -
  note plan = plan_deployment_Inr [OF assms(3)]
  let ?i = "pt_id (av_pointer a)"
  define s1 where "s1 = rename_partial (''records/'' @ ?i @ ''.json'')
    (put_record (?i @ ''.json'') mtime (av_record a)) (write_partial (''records/'' @ ?i @ ''.json'') s)"
  have 1: "deployments_ok env s1"
    unfolding s1_def by (rule deployments_ok_put_record) (use assms(2) plan in auto)
  have here: "record_is_file env s1 (pt_record_path (av_pointer a))"
    unfolding plan(4) by (subst record_is_file_name [OF assms(1) plan(3)]) (simp add: s1_def)
  have current: "record_is_file env s1 (pt_record_path c)" if "av_current a = Some c" for c
  proof -
    have "record_is_file env s (pt_record_path c)"
      using assms(2) plan(1) that by (auto simp: deployments_ok_def pointer_ok_iff)
    then show ?thesis by (rule record_is_file_mono) (simp add: s1_def)
  qed
  define s2 where "s2 = rename_partial ''active.json'' (put_active (pointer_dict (av_pointer a)))
    (write_partial ''active.json'' s1)"
  have 2: "deployments_ok env s2"
    unfolding s2_def by (rule deployments_ok_put) (use 1 here in auto)
  have 3: "deployments_ok env (rename_partial ''previous.json'' (put_previous (pointer_dict c))
      (write_partial ''previous.json'' s2))" if "av_current a = Some c" for c
    by (rule deployments_ok_put) (use 2 current [OF that] in \<open>simp_all add: s2_def\<close>)
  show ?thesis
    unfolding record_steps_def Let_def safe_steps_atomic
    using assms(2) 1 2 3 by (cases "av_current a") (simp_all add: s1_def s2_def safe_steps_atomic)
qed

lemma rollback_pointers_Inr:
  "rollback_pointers env s = Inr (a, p) \<longleftrightarrow> active_of s = Inr (Some a) \<and> previous_of s = Inr (Some p) \<and>
     record_is_file env s (pt_record_path p)"
  by (auto simp: rollback_pointers_def bindE_eq_Inr require_pointer_Inr active_of_def previous_of_def)

lemma rollback_steps_safe:
  assumes "deployments_ok env s" and "rollback_pointers env s = Inr (a, p)"
  shows "safe_steps (deployments_ok env) (rollback_steps ts a p) s"
proof -
  have files: "record_is_file env s (pt_record_path a)" "record_is_file env s (pt_record_path p)"
    using assms by (auto simp: rollback_pointers_Inr deployments_ok_def pointer_ok_iff active_of_def)
  define s1 where "s1 = rename_partial ''active.json'' (put_active (pointer_dict p)) (write_partial ''active.json'' s)"
  have 1: "deployments_ok env s1"
    unfolding s1_def by (rule deployments_ok_put) (use assms(1) files in auto)
  have 2: "deployments_ok env (rename_partial ''previous.json'' (put_previous (pointer_dict a))
      (write_partial ''previous.json'' s1))"
    by (rule deployments_ok_put) (use 1 files in \<open>simp_all add: s1_def\<close>)
  show ?thesis
    unfolding rollback_steps_def safe_steps_atomic using assms(1) 1 2 by (simp add: s1_def)
qed

section \<open>Recovery\<close>

lemma latest_record_pointer_Inr:
  assumes "clean_path (de_dir env)" and "records_ok s"
  shows "\<exists>p. latest_record_pointer env s = Inr p \<and> (p = None \<longleftrightarrow> dp_records s = []) \<and>
    (\<forall>q. p = Some q \<longrightarrow> record_is_file env s (pt_record_path q))"
proof -
  let ?rs = "sort_key (\<lambda>(n, c, t). t) (filter (\<lambda>(n, c, t). suffix ''.json'' n) (dp_records s))"
  have all: "filter (\<lambda>(n, c, t). suffix ''.json'' n) (dp_records s) = dp_records s"
    using assms(2) by (auto simp: records_ok_def record_name_def list_all_iff filter_id_conv)
  have empty: "?rs = [] \<longleftrightarrow> dp_records s = []"
    unfolding all by (metis length_0_conv length_sort)
  show ?thesis
  proof (cases "dp_records s = []")
    case True
    then show ?thesis using empty by (simp add: latest_record_pointer_def)
  next
    case False
    obtain n c t where l: "last ?rs = (n, c, t)" by (metis prod.exhaust)
    have "(n, c, t) \<in> set ?rs" using l empty False last_in_set by metis
    then have mem: "(n, c, t) \<in> set (dp_records s)" by simp
    then have n: "record_name n" and c: "record_content c" using assms(2) by (auto simp: records_ok_def list_all_iff)
    obtain d where d: "c = Content (PDict d)" "dhas d ''deployment_id''"
      using c by (auto simp: record_content_def split: json_file.splits pyval.splits)
    have here: "record_is_file env s (path_str (path_join (records_dir env) n))"
      using mem record_is_file_name [OF assms(1) n] by (metis map_of_eq_None_iff image_eqI fst_conv)
    obtain v where "dindex d ''deployment_id'' = Inr v" using d(2) by (auto simp: dindex_def dhas_def)
    then have "latest_record_pointer env s = Inr (Some
        \<lparr>pt_id = py_str v, pt_record_path = path_str (path_join (records_dir env) n)\<rparr>)"
      using empty False l d(1) by (simp add: latest_record_pointer_def Let_def read_object_def)
    then show ?thesis using here False by simp
  qed
qed

lemma recovered_pointer_Inr:
  assumes "clean_path (de_dir env)" and "deployments_ok env s"
  shows "\<exists>q r. recovered_pointer env s = Inr (q, r) \<and>
    (\<forall>q'. r = Some q' \<longrightarrow> q = Some q' \<and> record_is_file env s (pt_record_path q')) \<and>
    (r = None \<longrightarrow> active_of s = Inr q) \<and> (q = None \<longrightarrow> dp_records s = [])"
proof -
  obtain p where p: "active_of s = Inr p" "\<And>q. p = Some q \<Longrightarrow> record_is_file env s (pt_record_path q)"
    using assms(2) by (auto simp: deployments_ok_def pointer_ok_iff active_of_def)
  then have shown: "read_pointer shown (dp_active s) = Inr p" for shown
    by (simp add: active_of_def read_pointer_shown [of shown])
  show ?thesis
  proof (cases p)
    case (Some q)
    then show ?thesis using p shown by (simp add: recovered_pointer_def)
  next
    case None
    have "records_ok s" using assms(2) by (simp add: deployments_ok_def)
    from latest_record_pointer_Inr [OF assms(1) this] obtain l where
      "latest_record_pointer env s = Inr l" "l = None \<longleftrightarrow> dp_records s = []"
      "\<forall>q. l = Some q \<longrightarrow> record_is_file env s (pt_record_path q)" by blast
    then show ?thesis using None p(1) shown by (auto simp: recovered_pointer_def)
  qed
qed

lemma recover_result:
  assumes "clean_path (de_dir env)" and "deployments_ok env s"
  shows "\<exists>r s' q. deployment_recover env now s = (Inr r, s') \<and> dp_partial s' = [] \<and> dp_records s' = dp_records s \<and>
    deployments_ok env s' \<and> active_of s' = Inr q \<and> (q = None \<longrightarrow> dp_records s = []) \<and>
    (\<forall>q'. q = Some q' \<longrightarrow> record_is_file env s' (pt_record_path q'))"
proof -
  let ?s = "s\<lparr>dp_partial := []\<rparr>"
  have ok: "deployments_ok env ?s" using assms(2) by (simp add: deployments_ok_records [of ?s s]) (simp add: deployments_ok_def)
  obtain q r where rec: "recovered_pointer env ?s = Inr (q, r)"
    and r: "\<And>q'. r = Some q' \<Longrightarrow> q = Some q' \<and> record_is_file env ?s (pt_record_path q')"
    and a: "r = None \<Longrightarrow> active_of ?s = Inr q" and e: "q = None \<Longrightarrow> dp_records s = []"
    using recovered_pointer_Inr [OF assms(1) ok] by auto
  define s1 where "s1 = (case r of None \<Rightarrow> ?s
    | Some q' \<Rightarrow> run_steps (atomic_steps ''active.json'' (put_active (pointer_dict q'))) ?s)"
  have same: "dp_partial s1 = []" "dp_records s1 = dp_records s" "active_of s1 = Inr q" "deployments_ok env s1"
    "\<And>q'. q = Some q' \<Longrightarrow> record_is_file env s1 (pt_record_path q')"
  proof -
    have "dp_partial s1 = [] \<and> dp_records s1 = dp_records s \<and> active_of s1 = Inr q \<and> deployments_ok env s1"
    proof (cases r)
      case None
      then show ?thesis using a ok by (simp add: s1_def)
    next
      case (Some q')
      have "deployments_ok env s1"
        unfolding s1_def Some using ok r [OF Some] by (simp add: atomic_steps_def deployments_ok_put)
      then show ?thesis
        using r [OF Some] Some
        by (simp add: s1_def atomic_steps_def active_of_def)
          (simp add: rename_partial_def write_partial_def put_active_def)
    qed
    then show "dp_partial s1 = []" "dp_records s1 = dp_records s" "active_of s1 = Inr q" "deployments_ok env s1"
      by blast+
    then show "\<And>q'. q = Some q' \<Longrightarrow> record_is_file env s1 (pt_record_path q')"
      by (auto simp: deployments_ok_def pointer_ok_iff active_of_def)
  qed
  define s2 where "s2 = (if r \<noteq> None \<or> dp_partial s \<noteq> [] then append_entry now
      [(''action'', PStr ''recover''), (''active_deployment_id'', id_or_none q),
       (''removed_partial_files'', PList (map PStr (map (\<lambda>n. path_str (path_join (de_dir env) n)) (sort (dp_partial s)))))] s1
    else s1)"
  have run: "snd (deployment_recover env now s) = s2" "is_result (fst (deployment_recover env now s))"
    unfolding deployment_recover_def remove_partial_def
    using rec by (auto simp: monad_simps s1_def s2_def is_result_def split: option.split)
  have "dp_partial s2 = []" "dp_records s2 = dp_records s" "active_of s2 = Inr q" "deployments_ok env s2"
    "\<And>q'. q = Some q' \<Longrightarrow> record_is_file env s2 (pt_record_path q')"
    using same by (auto simp: s2_def active_of_def)
  then show ?thesis using run e by (metis run_result)
qed

section \<open>Runs with crashes\<close>

text \<open>
  An operation of the store may stop after any number of its steps; a recovery runs to its end (it
  is run again when it does not). A store begins empty.
\<close>

inductive deployment_step :: "deployment_env \<Rightarrow> deployments \<Rightarrow> deployments \<Rightarrow> bool" for env where
  deploy: "plan_deployment benv env bundle_path file now s = Inr a \<Longrightarrow>
    deployment_step env s (run_steps (take n (record_steps ts mtime a)) s)"
| rollback: "rollback_pointers env s = Inr (a, p) \<Longrightarrow>
    deployment_step env s (run_steps (take n (rollback_steps ts a p)) s)"
| recover: "deployment_step env s (snd (deployment_recover env now s))"

definition empty_deployments :: "deployments \<Rightarrow> bool" where
  "empty_deployments s \<longleftrightarrow> dp_records s = [] \<and> dp_active s = Absent \<and> dp_previous s = Absent \<and>
     dp_partial s = [] \<and> dp_journal s = []"

definition deployments_inv :: "deployment_env \<Rightarrow> deployments \<Rightarrow> bool" where
  "deployments_inv env s \<longleftrightarrow> clean_path (de_dir env) \<longrightarrow> deployments_ok env s"

interpretation deploys: transition_system empty_deployments "deployment_step env" "deployments_inv env" for env
proof
  fix s assume "empty_deployments s"
  then show "deployments_inv env s"
    by (simp add: empty_deployments_def deployments_inv_def deployments_ok_def pointer_ok_iff records_ok_def
        read_pointer_def)
next
  fix s t assume inv: "deployments_inv env s" and step: "deployment_step env s t"
  show "deployments_inv env t"
    unfolding deployments_inv_def
  proof
    assume clean: "clean_path (de_dir env)"
    with inv have ok: "deployments_ok env s" by (simp add: deployments_inv_def)
    from step show "deployments_ok env t"
    proof cases
      case (deploy benv bundle_path content now a n ts mtime)
      then show ?thesis using record_steps_safe [OF clean ok] by (simp add: safe_steps_def)
    next
      case (rollback a p n ts)
      then show ?thesis using rollback_steps_safe [OF ok] by (simp add: safe_steps_def)
    next
      case (recover now)
      then show ?thesis using recover_result [OF clean ok, of now] by (metis snd_conv)
    qed
  qed
qed

text \<open>C12. The store of deployments survives crashes. Whatever deployments, rollbacks and recoveries
  have run, each of the first two stopped after any of its file operations, a recovery succeeds: it
  removes every temporary file, keeps every record, and leaves an active pointer to a record that
  exists, unless there is no record at all.\<close>

theorem recover_after_crash:
  assumes "clean_path (de_dir env)" and "reachable_from empty_deployments (deployment_step env) s"
  shows "\<exists>r s' q. deployment_recover env now s = (Inr r, s') \<and> dp_partial s' = [] \<and>
    dp_records s' = dp_records s \<and> active_of s' = Inr q \<and> (q = None \<longrightarrow> dp_records s = []) \<and>
    (\<forall>q'. q = Some q' \<longrightarrow> record_is_file env s' (pt_record_path q'))"
proof -
  have "deployments_ok env s"
    using deploys.reachable_inv [OF assms(2)] assms(1) by (simp add: deployments_inv_def)
  from recover_result [OF assms(1) this] show ?thesis by blast
qed

section \<open>Rollback\<close>

lemma rollback_result:
  assumes "rollback_pointers env s = Inr (a, p)"
  shows "\<exists>s'. deployment_rollback env ts s = (Inr (pt_id p, pt_id a), s') \<and> dp_records s' = dp_records s \<and>
    active_of s' = Inr (Some p) \<and> previous_of s' = Inr (Some a)"
  using assms
  by (auto simp: deployment_rollback_def monad_simps rollback_steps_def atomic_steps_def active_of_def
      previous_of_def)

lemma record_result:
  assumes "plan_deployment benv env bundle_path file now s = Inr a" and "av_current a = Some c"
  shows "\<exists>r s'. record_deployment benv env bundle_path file now ts mtime s = (Inr r, s') \<and>
    active_of s' = Inr (Some (av_pointer a)) \<and> previous_of s' = Inr (Some c) \<and>
    (\<forall>n. map_of (dp_records s) n \<noteq> None \<longrightarrow> map_of (dp_records s') n \<noteq> None)"
  using assms
  by (auto simp: record_deployment_def monad_simps record_steps_def Let_def atomic_steps_def active_of_def
      previous_of_def)

text \<open>A rollback undoes a deployment. In a store that has come about by its operations, a
  deployment that replaces an active one and completes can be rolled back: the rollback succeeds and
  the active pointer is again the one that was active before.\<close>

theorem rollback_undoes_deployment:
  assumes "clean_path (de_dir env)" and "reachable_from empty_deployments (deployment_step env) s"
    and "active_of s = Inr (Some c)"
    and "record_deployment benv env bundle_path file now ts mtime s = (Inr r, s1)"
  shows "\<exists>r' s2. deployment_rollback env ts' s1 = (Inr r', s2) \<and> active_of s2 = Inr (Some c) \<and>
    (\<exists>n. active_of s1 = Inr (Some n) \<and> previous_of s2 = Inr (Some n))"
proof -
  have ok: "deployments_ok env s"
    using deploys.reachable_inv [OF assms(2)] assms(1) by (simp add: deployments_inv_def)
  obtain a where a: "plan_deployment benv env bundle_path file now s = Inr a"
    using assms(4) by (auto simp: record_deployment_def monad_simps split: sum.splits)
  have c: "av_current a = Some c" using plan_deployment_Inr(1) [OF a] assms(3) by (simp add: active_of_def)
  have s1: "active_of s1 = Inr (Some (av_pointer a))" "previous_of s1 = Inr (Some c)"
      "\<And>n. map_of (dp_records s) n \<noteq> None \<Longrightarrow> map_of (dp_records s1) n \<noteq> None"
    using record_result [OF a c, of ts mtime] assms(4) by auto
  have "record_is_file env s (pt_record_path c)"
    using ok assms(3) by (auto simp: deployments_ok_def pointer_ok_iff active_of_def)
  then have "record_is_file env s1 (pt_record_path c)" using s1(3) by (rule record_is_file_mono)
  then have "rollback_pointers env s1 = Inr (av_pointer a, c)" using s1 by (simp add: rollback_pointers_Inr)
  from rollback_result [OF this, of ts'] show ?thesis using s1(1) by blast
qed

section \<open>At a concrete store\<close>

definition demo_benv :: bundle_env where
  "demo_benv = \<lparr>be_schema_errors = \<lambda>d. [], be_sha256 = \<lambda>s. ''abc'', be_expanduser = \<lambda>p. p\<rparr>"

definition demo_denv :: deployment_env where
  "demo_denv = \<lparr>de_dir = Path ''/'' [''state'', ''deployments''], de_other_file = \<lambda>p. False\<rparr>"

definition demo_bundle :: "string \<Rightarrow> bundle_file" where
  "demo_bundle version = BundleValue (PDict [(''bundle_id'', PStr ''base''), (''version'', PStr version),
     (''schema_version'', PInt 1), (''checksum'', PDict [(''algorithm'', PStr ''sha256''), (''value'', PStr ''ABC'')]),
     (''compatibility'', PDict [(''min_config_schema_version'', PInt 1), (''max_config_schema_version'', PInt 2)])])"

definition demo_path :: path where
  "demo_path = Path [] [''b.json'']"

definition demo_store :: deployments where
  "demo_store = \<lparr>dp_records = [], dp_active = Absent, dp_previous = Absent, dp_partial = [], dp_journal = []\<rparr>"

definition demo_deploy :: "string \<Rightarrow> deployments \<Rightarrow> deployments" where
  "demo_deploy version s = snd (record_deployment demo_benv demo_denv demo_path (demo_bundle version)
     ''t'' ''t'' 1 s)"

lemma demo_store_reachable: "reachable_from empty_deployments (deployment_step demo_denv) demo_store"
  by (rule reachable_from.start) (simp add: empty_deployments_def demo_store_def)

lemma demo_clean: "clean_path (de_dir demo_denv)"
  by code_simp

lemma demo_planned:
  "is_result (plan_deployment demo_benv demo_denv demo_path (demo_bundle ''1'') ''t'' demo_store)"
  by code_simp

text \<open>A first deployment that stops before it writes its pointer, and the recovery.\<close>

definition demo_crash :: deployments where
  "demo_crash = run_steps (take 3 (record_steps ''t'' 1
     (result_of (plan_deployment demo_benv demo_denv demo_path (demo_bundle ''1'') ''t'' demo_store)))) demo_store"

lemma demo_crash_reachable: "reachable_from empty_deployments (deployment_step demo_denv) demo_crash"
  unfolding demo_crash_def
  by (rule reachable_from.step [OF demo_store_reachable deployment_step.deploy [OF is_result_Inr [OF demo_planned]]])

theorem recover_after_crash_witness:
  "\<exists>r s' q'. deployment_recover demo_denv ''t'' demo_crash = (Inr r, s') \<and>
     active_of s' = Inr (Some q') \<and> record_is_file demo_denv s' (pt_record_path q')"
proof -
  have "dp_records demo_crash \<noteq> []" by code_simp
  then show ?thesis
    using recover_after_crash [OF demo_clean demo_crash_reachable, of "''t''"] by fastforce
qed

lemma record_deployment_step:
  "deployment_step env s (snd (record_deployment benv env bundle_path f now ts mtime s))
     \<or> snd (record_deployment benv env bundle_path f now ts mtime s) = s"
proof (cases "plan_deployment benv env bundle_path f now s")
  case (Inr a)
  let ?steps = "record_steps ts mtime a"
  have "snd (record_deployment benv env bundle_path f now ts mtime s) = run_steps (take (length ?steps) ?steps) s"
    using Inr by (simp add: record_deployment_def monad_simps)
  then show ?thesis using deployment_step.deploy [OF Inr] by metis
qed (simp add: record_deployment_def monad_simps)

lemma demo_deploy_reachable:
  "reachable_from empty_deployments (deployment_step demo_denv) s \<Longrightarrow>
     reachable_from empty_deployments (deployment_step demo_denv) (demo_deploy v s)"
  unfolding demo_deploy_def using record_deployment_step reachable_from.step by metis

theorem rollback_undoes_deployment_witness:
  "\<exists>c r' s2. active_of (demo_deploy ''1'' demo_store) = Inr (Some c) \<and>
     deployment_rollback demo_denv ''t'' (demo_deploy ''2'' (demo_deploy ''1'' demo_store)) = (Inr r', s2) \<and>
     active_of s2 = Inr (Some c)"
proof -
  have "is_result (active_of (demo_deploy ''1'' demo_store))" "result_of (active_of (demo_deploy ''1'' demo_store)) \<noteq> None"
    by code_simp+
  then obtain c where c: "active_of (demo_deploy ''1'' demo_store) = Inr (Some c)"
    using is_result_Inr by fastforce
  have "is_result (fst (record_deployment demo_benv demo_denv demo_path (demo_bundle ''2'') ''t'' ''t'' 1
      (demo_deploy ''1'' demo_store)))"
    by code_simp
  from run_result [of "record_deployment demo_benv demo_denv demo_path (demo_bundle ''2'') ''t'' ''t'' 1", OF this]
  have run: "\<exists>r. record_deployment demo_benv demo_denv demo_path (demo_bundle ''2'') ''t'' ''t'' 1
      (demo_deploy ''1'' demo_store) = (Inr r, demo_deploy ''2'' (demo_deploy ''1'' demo_store))"
    unfolding demo_deploy_def by blast
  show ?thesis
    using rollback_undoes_deployment [OF demo_clean demo_deploy_reachable [OF demo_store_reachable] c]
      run c by metis
qed

text \<open>A deployment of the active bundle makes it its own predecessor, and the older one is lost to rollback.\<close>

lemma redeployment_forgets_previous:
  "let s = demo_deploy ''2'' (demo_deploy ''2'' (demo_deploy ''1'' demo_store)) in
     previous_of s = active_of s \<and>
     active_of (snd (deployment_rollback demo_denv ''t'' s)) = active_of s"
  by code_simp

end
