(* ===== verification/Rollout.thy ===== *)
theory Rollout
  imports Safe_Ids
begin

text \<open>
  The rollout of a bundle on a fleet: the simulation that decides what each broker would do
  (\<^verbatim>\<open>rollout_simulator.py\<close>), and the controller that turns a simulation into audit records
  (\<^verbatim>\<open>governance_rollout_controller.py\<close>). The directory of records and the audit log are the state.
\<close>

section \<open>Reading documents\<close>

definition as_mapping :: "pyval \<Rightarrow> pydict" where
  "as_mapping v = (case v of PDict d \<Rightarrow> d | _ \<Rightarrow> [])"

definition as_list :: "pyval \<Rightarrow> pyval list" where
  "as_list v = (case v of PList xs \<Rightarrow> xs | _ \<Rightarrow> [])"

text \<open>\<open>isinstance(v, int)\<close> holds for booleans too.\<close>

definition int_or_none :: "pyval \<Rightarrow> pyval option" where
  "int_or_none v = (case v of PInt _ \<Rightarrow> Some v | PBool _ \<Rightarrow> Some v | _ \<Rightarrow> None)"

text \<open>A member of a set of values: unhashable values raise, equal ones are the same.\<close>

definition hashable :: "pyval \<Rightarrow> bool" where
  "hashable v = (case v of PList _ \<Rightarrow> False | PDict _ \<Rightarrow> False | _ \<Rightarrow> True)"

definition set_of :: "pyval list \<Rightarrow> pyval list res" where
  "set_of vs = (case List.find (\<lambda>v. \<not> hashable v) vs of
     Some v \<Rightarrow> Inl (Exn TypeError (''unhashable type: '' @ repr_str (type_name v))) | None \<Rightarrow> Inr vs)"

definition in_set :: "pyval \<Rightarrow> pyval list \<Rightarrow> bool res" where
  "in_set v vs = (if hashable v then Inr (list_ex (\<lambda>w. py_eq w v) vs)
     else Inl (Exn TypeError (''unhashable type: '' @ repr_str (type_name v))))"

definition in_list :: "pyval \<Rightarrow> pyval list \<Rightarrow> bool" where
  "in_list v vs = list_ex (\<lambda>w. py_eq w v) vs"

section \<open>The simulation\<close>

definition LOCAL_SIMULATION_MODE :: string where
  "LOCAL_SIMULATION_MODE = ''local_simulation_only''"

record rollout_decision =
  rd_broker_id :: pyval
  rd_stage :: string
  rd_state :: string

record simulation =
  sm_state :: string
  sm_decisions :: "rollout_decision list"
  sm_reasons :: "string list"

definition sim_policy :: "pydict \<Rightarrow> pydict" where
  "sim_policy bundle = as_mapping (dget bundle ''policy'')"

definition sim_rollout :: "pydict \<Rightarrow> pydict" where
  "sim_rollout bundle = as_mapping (dget bundle ''rollout'')"

definition sim_stages :: "pydict \<Rightarrow> pydict list" where
  "sim_stages bundle = map as_mapping (as_list (dget (sim_rollout bundle) ''stages''))"

definition sim_identity :: "pydict \<Rightarrow> pydict" where
  "sim_identity status = as_mapping (dget status ''identity'')"

definition broker_id_of :: "pydict \<Rightarrow> string" where
  "broker_id_of identity = (case dget identity ''broker_id'' of
     PStr s \<Rightarrow> if s = [] then ''unknown'' else s | _ \<Rightarrow> ''unknown'')"

definition stage_name :: "pydict \<Rightarrow> string" where
  "stage_name stage = py_str (dget_or stage ''name'' (PStr ''staged''))"

definition state_for_stage :: "string \<Rightarrow> string" where
  "state_for_stage n = (if n = ''canary'' then ''canary'' else if n = ''broad'' then ''broad_rollout''
     else ''staged_rollout'')"

definition stage_name_for_broker :: "pydict \<Rightarrow> string \<Rightarrow> string" where
  "stage_name_for_broker bundle broker_id =
     (case List.find (\<lambda>stage. in_list (PStr broker_id) (as_list (dget stage ''broker_ids''))) (sim_stages bundle) of
        Some stage \<Rightarrow> stage_name stage | None \<Rightarrow> ''unassigned'')"

definition num_le :: "pyval \<Rightarrow> pyval \<Rightarrow> bool" where
  "num_le v w = (case (as_int v, as_int w) of (Some a, Some b) \<Rightarrow> a \<le> b | _ \<Rightarrow> False)"

definition in_range :: "pyval \<Rightarrow> pyval option \<Rightarrow> pyval option \<Rightarrow> bool" where
  "in_range v minimum maximum \<longleftrightarrow> (case minimum of None \<Rightarrow> True | Some m \<Rightarrow> num_le m v) \<and>
     (case maximum of None \<Rightarrow> True | Some m \<Rightarrow> num_le v m)"

definition opt_text :: "pyval option \<Rightarrow> string" where
  "opt_text v = (case v of None \<Rightarrow> ''None'' | Some w \<Rightarrow> py_str w)"

text \<open>The reasons against one broker.\<close>

definition compatibility_rejection :: "pydict \<Rightarrow> pyval list \<Rightarrow> pyval list \<Rightarrow> pydict \<Rightarrow> string list res" where
  "compatibility_rejection bundle allowed_environments allowed_brokers status =
     (let compatibility = as_mapping (dget bundle ''compatibility'');
          minimum = int_or_none (dget compatibility ''min_config_schema_version'');
          maximum = int_or_none (dget compatibility ''max_config_schema_version'');
          identity = sim_identity status;
          broker_id = broker_id_of identity;
          environment = dget identity ''environment'';
          version_reasons = (case int_or_none (dget identity ''schema_version'') of
            None \<Rightarrow> []
          | Some v \<Rightarrow> if in_range v minimum maximum then []
              else [broker_id @ '' config schema version '' @ py_str v @ '' outside supported range '' @
                opt_text minimum @ ''..'' @ opt_text maximum])
      in
      bindE (if allowed_environments = [] then Inr True else in_set environment allowed_environments) (\<lambda>env_ok.
      Inr (version_reasons @
        (if env_ok then [] else [broker_id @ '' environment '' @ py_repr environment @ '' is not targeted'']) @
        (if allowed_brokers \<noteq> [] \<and> \<not> in_list (PStr broker_id) allowed_brokers
         then [broker_id @ '' is not targeted''] else []))))"

definition compatibility_rejections :: "pydict \<Rightarrow> pydict list \<Rightarrow> string list res" where
  "compatibility_rejections bundle fleet =
     (let applies_to = as_mapping (dget bundle ''applies_to'') in
      bindE (set_of (as_list (dget applies_to ''environments''))) (\<lambda>allowed_environments.
      bindE (set_of (as_list (dget applies_to ''broker_ids''))) (\<lambda>allowed_brokers.
      bindE (mapE (compatibility_rejection bundle allowed_environments allowed_brokers) fleet) (\<lambda>rs.
      Inr (concat rs)))))"

definition health_status_of :: "pydict \<Rightarrow> string" where
  "health_status_of status = py_str (dget_or (as_mapping (dget status ''health'')) ''status'' (PStr ''unknown''))"

definition triggers_rollback :: "pyval list \<Rightarrow> pydict \<Rightarrow> bool" where
  "triggers_rollback statuses status = in_list (PStr (health_status_of status)) statuses"

definition rollback_decisions :: "pydict \<Rightarrow> pydict list \<Rightarrow> (string list \<times> rollout_decision list) res" where
  "rollback_decisions bundle fleet =
     bindE (set_of (as_list (dget (sim_rollout bundle) ''rollback_on_statuses''))) (\<lambda>statuses.
     let bad = filter (triggers_rollback statuses) fleet in
     Inr (map (\<lambda>status. broker_id_of (sim_identity status) @ '' health status '' @ health_status_of status @
            '' triggers rollback'') bad,
          map (\<lambda>status. \<lparr>rd_broker_id = PStr (broker_id_of (sim_identity status)),
            rd_stage = stage_name_for_broker bundle (broker_id_of (sim_identity status)),
            rd_state = ''rollback''\<rparr>) bad))"

definition stage_decisions :: "string list \<Rightarrow> pydict \<Rightarrow> rollout_decision list res" where
  "stage_decisions brokers stage =
     bindE (mapE (\<lambda>b. bindE (in_set b (map PStr brokers)) (\<lambda>known.
         Inr (if known then [\<lparr>rd_broker_id = b, rd_stage = stage_name stage,
           rd_state = state_for_stage (stage_name stage)\<rparr>] else [])))
       (as_list (dget stage ''broker_ids''))) (\<lambda>ds. Inr (concat ds))"

definition rollout_decisions :: "pydict \<Rightarrow> pydict list \<Rightarrow> rollout_decision list res" where
  "rollout_decisions bundle fleet =
     bindE (mapE (stage_decisions (map (\<lambda>status. broker_id_of (sim_identity status)) fleet))
       (sim_stages bundle)) (\<lambda>ds. Inr (concat ds))"

definition simulate_rollout :: "pydict \<Rightarrow> pydict list \<Rightarrow> bool \<Rightarrow> simulation res" where
  "simulate_rollout bundle fleet approval_granted =
     bindE (compatibility_rejections bundle fleet) (\<lambda>reasons.
     if reasons \<noteq> [] then Inr \<lparr>sm_state = ''compatibility_rejection'', sm_decisions = [], sm_reasons = reasons\<rparr>
     else bindE (rollback_decisions bundle fleet) (\<lambda>(rollback_reasons, rollbacks).
     if rollback_reasons \<noteq> [] then
       Inr \<lparr>sm_state = ''rollback'', sm_decisions = rollbacks, sm_reasons = rollback_reasons\<rparr>
     else if dget (sim_policy bundle) ''approval_required'' = PBool True \<and> \<not> approval_granted then
       Inr \<lparr>sm_state = ''approval_required'', sm_decisions = [],
         sm_reasons = [''policy approval_required is true and approval was not granted'']\<rparr>
     else bindE (rollout_decisions bundle fleet) (\<lambda>decisions.
       Inr \<lparr>sm_state = ''ready'', sm_decisions = decisions, sm_reasons = []\<rparr>)))"

definition decision_dict :: "rollout_decision \<Rightarrow> pyval" where
  "decision_dict d = PDict [(''broker_id'', rd_broker_id d), (''stage'', PStr (rd_stage d)),
     (''state'', PStr (rd_state d))]"

definition simulation_dict :: "simulation \<Rightarrow> pydict" where
  "simulation_dict s = [(''mode'', PStr LOCAL_SIMULATION_MODE), (''state'', PStr (sm_state s)),
     (''decisions'', PList (map decision_dict (sm_decisions s))),
     (''reasons'', PList (map PStr (sm_reasons s)))]"

definition load_fleet_statuses :: "pyval \<Rightarrow> pydict list" where
  "load_fleet_statuses loaded = (case loaded of PList xs \<Rightarrow> map as_mapping xs | v \<Rightarrow> [as_mapping v])"

section \<open>The controller\<close>

definition rollout_error :: "string \<Rightarrow> exn" where
  "rollout_error m = Exn GovernanceRolloutControllerError m"

definition ROLLOUT_SCHEMA_VERSION :: int where "ROLLOUT_SCHEMA_VERSION = 1"

definition required_string :: "pyval \<Rightarrow> string \<Rightarrow> string res" where
  "required_string v field = (case v of
     PStr s \<Rightarrow> if strip s = [] then Inl (rollout_error (field @ '' is required'')) else Inr (strip s)
   | _ \<Rightarrow> Inl (rollout_error (field @ '' is required'')))"

definition validate_simulation :: "pydict \<Rightarrow> unit res" where
  "validate_simulation simulation =
     bindE (require (dget simulation ''mode'' = PStr LOCAL_SIMULATION_MODE)
       (rollout_error ''rollout controller accepts only local simulation results'')) (\<lambda>_.
     bindE (require (strip (py_str (dget_or simulation ''state'' (PStr []))) \<noteq> [])
       (rollout_error ''simulation state is required'')) (\<lambda>_.
     bindE (require (is_list (dget_or simulation ''decisions'' (PList [])))
       (rollout_error ''simulation decisions must be a list'')) (\<lambda>_.
     require (is_list (dget_or simulation ''reasons'' (PList [])))
       (rollout_error ''simulation reasons must be a list''))))"

definition safe_id_part :: "string \<Rightarrow> string res" where
  "safe_id_part value =
     (let sanitized = safe_id value in
      if sanitized = [] then Inl (rollout_error ''empty action id component'') else Inr sanitized)"

definition action_for_decision_state :: "string \<Rightarrow> string res" where
  "action_for_decision_state state =
     (if state = ''canary'' then Inr ''canary''
      else if state = ''staged_rollout'' then Inr ''staged''
      else if state = ''broad_rollout'' then Inr ''broad''
      else if state = ''rollback'' then Inr ''rollback''
      else Inl (rollout_error (''unsupported decision state: '' @ state)))"

definition bundle_metadata :: "pydict \<Rightarrow> pydict res" where
  "bundle_metadata bundle =
     (let digest = as_mapping (dget bundle ''digest'') in
      bindE (required_string (dget bundle ''bundle_id'') ''bundle_id'') (\<lambda>bundle_id.
      bindE (required_string (dget bundle ''version'') ''bundle_version'') (\<lambda>version.
      bindE (required_string (dget bundle ''channel'') ''bundle_channel'') (\<lambda>channel.
      bindE (required_string (dget digest ''algorithm'') ''digest algorithm'') (\<lambda>algorithm.
      bindE (required_string (dget digest ''value'') ''digest value'') (\<lambda>value.
      Inr [(''bundle_id'', PStr bundle_id), (''version'', PStr version), (''channel'', PStr channel),
        (''digest'', PDict [(''algorithm'', PStr algorithm), (''value'', PStr value)])]))))))"

definition parse_digest :: "string \<Rightarrow> pydict res" where
  "parse_digest value =
     (case split_once '':'' value of
        None \<Rightarrow> Inl (rollout_error ''bundle digest must be algorithm:value'')
      | Some (algorithm, digest_value) \<Rightarrow>
          bindE (required_string (PStr algorithm) ''digest algorithm'') (\<lambda>a.
          bindE (required_string (PStr digest_value) ''digest value'') (\<lambda>v.
          Inr [(''algorithm'', PStr a), (''value'', PStr v)])))"

record action_record =
  ar_action_id :: string
  ar_created_at :: string
  ar_operator :: string
  ar_source_state :: string
  ar_bundle :: pydict
  ar_broker_id :: string
  ar_stage :: string
  ar_action :: string
  ar_requires_approval :: bool
  ar_reasons :: "string list"
  ar_decision :: pydict

definition action_dict :: "action_record \<Rightarrow> pydict" where
  "action_dict r = [(''schema_version'', PInt ROLLOUT_SCHEMA_VERSION), (''action_id'', PStr (ar_action_id r)),
     (''created_at'', PStr (ar_created_at r)), (''operator'', PStr (ar_operator r)),
     (''mode'', PStr LOCAL_SIMULATION_MODE), (''source_state'', PStr (ar_source_state r)),
     (''bundle'', PDict (ar_bundle r)), (''broker_id'', PStr (ar_broker_id r)), (''stage'', PStr (ar_stage r)),
     (''action'', PStr (ar_action r)), (''requires_approval'', PBool (ar_requires_approval r)),
     (''changed_runtime_state'', PBool False), (''reasons'', PList (map PStr (ar_reasons r))),
     (''decision'', PDict (ar_decision r))]"

definition make_record ::
    "nat \<Rightarrow> string \<Rightarrow> string \<Rightarrow> string \<Rightarrow> string \<Rightarrow> string \<Rightarrow> pydict \<Rightarrow> string \<Rightarrow> bool \<Rightarrow>
     string list \<Rightarrow> pydict \<Rightarrow> action_record res" where
  "make_record index broker_id stage action source_state op bundle created_at requires_approval reasons decision =
     bindE (safe_id_part broker_id) (\<lambda>b.
     bindE (safe_id_part action) (\<lambda>a.
     Inr \<lparr>ar_action_id = pad_int 4 (int index) @ ''-'' @ b @ ''-'' @ a, ar_created_at = created_at,
       ar_operator = op, ar_source_state = source_state, ar_bundle = bundle,
       ar_broker_id = broker_id, ar_stage = stage, ar_action = action,
       ar_requires_approval = requires_approval, ar_reasons = reasons, ar_decision = decision\<rparr>))"

definition decision_record ::
    "string \<Rightarrow> string \<Rightarrow> pydict \<Rightarrow> string \<Rightarrow> string list \<Rightarrow> nat \<times> pydict \<Rightarrow> action_record res" where
  "decision_record state op bundle created_at reasons = (\<lambda>(index, decision).
     bindE (required_string (dget decision ''broker_id'') ''broker_id'') (\<lambda>broker_id.
     bindE (required_string (dget decision ''stage'') ''stage'') (\<lambda>stage.
     bindE (bindE (required_string (dget decision ''state'') ''decision state'') action_for_decision_state) (\<lambda>action.
     make_record index broker_id stage action state op bundle created_at False reasons decision))))"

definition records_from_simulation ::
    "pydict \<Rightarrow> string \<Rightarrow> pydict \<Rightarrow> string \<Rightarrow> action_record list res" where
  "records_from_simulation simulation op bundle created_at =
     bindE (dindex simulation ''state'') (\<lambda>v.
     let state = py_str v;
         reasons = map py_str (as_list (dget_or simulation ''reasons'' (PList [])));
         decisions = map as_mapping (as_list (dget_or simulation ''decisions'' (PList [])))
     in
     if state = ''approval_required'' \<or> state = ''compatibility_rejection'' then
       bindE (make_record 1 ''fleet'' ''fleet'' ''hold'' state op bundle created_at
         (state = ''approval_required'') reasons []) (\<lambda>r. Inr [r])
     else if decisions = [] then Inl (rollout_error ''simulation decisions are required'')
     else mapE (decision_record state op bundle created_at reasons) (enumerate_from 1 decisions))"

text \<open>The records by file name, and the lines of the audit log.\<close>

record rollout_files =
  rf_actions :: "(string \<times> pydict) list"
  rf_log :: "pydict list"

type_synonym 'a rollout_sem = "(rollout_files, exn, 'a) sem"

definition write_json_new :: "path \<Rightarrow> action_record \<Rightarrow> string rollout_sem" where
  "write_json_new actions_dir r =
     (let name = ar_action_id r @ ''.json''; shown = path_str (path_join actions_dir name) in
      bindS getS (\<lambda>s.
      if map_of (rf_actions s) name \<noteq> None
      then raiseS (rollout_error (''rollout action already exists: '' @ shown))
      else seqS (modifyS (\<lambda>s. s\<lparr>rf_actions := AList.update name (action_dict r) (rf_actions s)\<rparr>))
        (returnS shown)))"

fun write_actions :: "path \<Rightarrow> action_record list \<Rightarrow> string list rollout_sem" where
  "write_actions actions_dir [] = returnS []"
| "write_actions actions_dir (r # rs) =
     bindS (write_json_new actions_dir r) (\<lambda>p.
     bindS (write_actions actions_dir rs) (\<lambda>ps. returnS (p # ps)))"

record rollout_report =
  rr_action_count :: nat
  rr_action_paths :: "string list"
  rr_audit_log_path :: string

definition control_rollout ::
    "pydict \<Rightarrow> path \<Rightarrow> pyval \<Rightarrow> pydict \<Rightarrow> string \<Rightarrow> rollout_report rollout_sem" where
  "control_rollout simulation state_dir op bundle created_at =
     seqS (liftS (validate_simulation simulation))
     (bindS (liftS (bundle_metadata bundle)) (\<lambda>normalized_bundle.
      bindS (liftS (bindE (required_string op ''operator'') (\<lambda>o'.
         records_from_simulation simulation o' normalized_bundle created_at))) (\<lambda>records.
      let rollout_dir = path_join state_dir ''governance-rollout'' in
      bindS (write_actions (path_join rollout_dir ''actions'') records) (\<lambda>paths.
      seqS (modifyS (\<lambda>s. s\<lparr>rf_log := rf_log s @ map action_dict records\<rparr>))
        (returnS \<lparr>rr_action_count = length records, rr_action_paths = paths,
           rr_audit_log_path = path_str (path_join rollout_dir ''action-log.jsonl'')\<rparr>)))))"

end
