(* ===== verification/Rollout_Facts.thy ===== *)
theory Rollout_Facts
  imports Rollout
begin

text \<open>
  What a rollout may decide, and what the controller keeps: decisions are for brokers of the fleet
  that the bundle targets, and the audit records only grow.
\<close>

section \<open>The simulation\<close>

lemma in_set_Inr: "in_set v vs = Inr b \<longleftrightarrow> hashable v \<and> b = list_ex (\<lambda>w. py_eq w v) vs"
  by (auto simp: in_set_def)

lemma set_of_Inr: "set_of vs = Inr ws \<Longrightarrow> ws = vs"
  by (auto simp: set_of_def split: option.splits)

text \<open>The broker of a status is one that the bundle targets, on a schema version that it supports.\<close>

definition targeted :: "pydict \<Rightarrow> pydict \<Rightarrow> bool" where
  "targeted bundle status =
     (let applies_to = as_mapping (dget bundle ''applies_to'');
          environments = as_list (dget applies_to ''environments'');
          brokers = as_list (dget applies_to ''broker_ids'');
          compatibility = as_mapping (dget bundle ''compatibility'')
      in (environments \<noteq> [] \<longrightarrow> in_list (dget (sim_identity status) ''environment'') environments) \<and>
         (brokers \<noteq> [] \<longrightarrow> in_list (PStr (broker_id_of (sim_identity status))) brokers) \<and>
         (\<forall>v. int_or_none (dget (sim_identity status) ''schema_version'') = Some v \<longrightarrow>
            in_range v (int_or_none (dget compatibility ''min_config_schema_version''))
              (int_or_none (dget compatibility ''max_config_schema_version''))))"

lemma compatibility_rejection_Nil:
  "compatibility_rejection bundle (as_list (dget (as_mapping (dget bundle ''applies_to'')) ''environments''))
     (as_list (dget (as_mapping (dget bundle ''applies_to'')) ''broker_ids'')) status = Inr [] \<Longrightarrow>
   targeted bundle status"
  by (auto simp: compatibility_rejection_def targeted_def Let_def bindE_eq_Inr in_set_Inr in_list_def
      split: if_splits option.splits)

lemma no_rejection:
  assumes "compatibility_rejections bundle fleet = Inr []" and "status \<in> set fleet"
  shows "targeted bundle status"
proof -
  let ?es = "as_list (dget (as_mapping (dget bundle ''applies_to'')) ''environments'')"
  let ?bs = "as_list (dget (as_mapping (dget bundle ''applies_to'')) ''broker_ids'')"
  obtain rs where rs: "mapE (compatibility_rejection bundle ?es ?bs) fleet = Inr rs" "concat rs = []"
    using assms(1) by (auto simp: compatibility_rejections_def Let_def bindE_eq_Inr dest!: set_of_Inr)
  obtain i where "i < length fleet" "status = fleet ! i" using assms(2) by (metis in_set_conv_nth)
  then have "compatibility_rejection bundle ?es ?bs status = Inr (rs ! i)" "rs ! i \<in> set rs"
    using rs(1) by (auto simp: mapE_eq_Inr_iff list_all2_conv_all_nth)
  then show ?thesis using rs(2) compatibility_rejection_Nil by auto
qed

lemma rollback_decisions_Nil:
  "rollback_decisions bundle fleet = Inr ([], ds) \<Longrightarrow> status \<in> set fleet \<Longrightarrow>
     \<not> triggers_rollback (as_list (dget (sim_rollout bundle) ''rollback_on_statuses'')) status"
  by (auto simp: rollback_decisions_def Let_def bindE_eq_Inr filter_empty_conv dest!: set_of_Inr)

text \<open>A decision of a stage: the broker is one of the stage and of the fleet.\<close>

definition staged_in :: "pydict \<Rightarrow> string list \<Rightarrow> rollout_decision \<Rightarrow> bool" where
  "staged_in bundle brokers d \<longleftrightarrow> (\<exists>stage \<in> set (sim_stages bundle). \<exists>b \<in> set brokers.
     rd_broker_id d = PStr b \<and> PStr b \<in> set (as_list (dget stage ''broker_ids'')) \<and>
     rd_stage d = stage_name stage \<and> rd_state d = state_for_stage (stage_name stage))"

lemma py_eq_PStr_right: "py_eq (PStr b) v \<longleftrightarrow> v = PStr b"
  by simp

lemma stage_decisions_staged:
  assumes "stage_decisions brokers stage = Inr ds" and "d \<in> set ds" and "stage \<in> set (sim_stages bundle)"
  shows "staged_in bundle brokers d"
proof -
  let ?f = "\<lambda>b. bindE (in_set b (map PStr brokers)) (\<lambda>known.
         Inr (if known then [\<lparr>rd_broker_id = b, rd_stage = stage_name stage,
           rd_state = state_for_stage (stage_name stage)\<rparr>] else []))"
  obtain dss where dss: "mapE ?f (as_list (dget stage ''broker_ids'')) = Inr dss" "ds = concat dss"
    using assms(1) by (auto simp: stage_decisions_def bindE_eq_Inr)
  obtain xs where "xs \<in> set dss" "d \<in> set xs" using assms(2) dss(2) by auto
  then obtain i where i: "i < length dss" "d \<in> set (dss ! i)" by (metis in_set_conv_nth)
  let ?b = "as_list (dget stage ''broker_ids'') ! i"
  have len: "i < length (as_list (dget stage ''broker_ids''))" and f: "?f ?b = Inr (dss ! i)"
    using dss(1) i(1) by (auto simp: mapE_eq_Inr_iff list_all2_conv_all_nth)
  from f i(2) have known: "list_ex (\<lambda>w. py_eq w ?b) (map PStr brokers)"
    and d: "d = \<lparr>rd_broker_id = ?b, rd_stage = stage_name stage, rd_state = state_for_stage (stage_name stage)\<rparr>"
    by (auto simp: bindE_eq_Inr in_set_Inr split: if_splits dest!: sym [of "[_]" "dss ! i"])
  obtain b where "b \<in> set brokers" "?b = PStr b" using known by (auto simp: list_ex_iff)
  with len d assms(3) show ?thesis unfolding staged_in_def by (metis nth_mem rollout_decision.select_convs)
qed

lemma rollout_decisions_staged:
  assumes "rollout_decisions bundle fleet = Inr ds" and "d \<in> set ds"
  shows "staged_in bundle (map (\<lambda>status. broker_id_of (sim_identity status)) fleet) d"
proof -
  obtain dss where dss: "mapE (stage_decisions (map (\<lambda>status. broker_id_of (sim_identity status)) fleet))
      (sim_stages bundle) = Inr dss" "ds = concat dss"
    using assms(1) by (auto simp: rollout_decisions_def bindE_eq_Inr)
  obtain i where i: "i < length dss" "d \<in> set (dss ! i)" using assms(2) dss(2)
    by (metis UN_E in_set_conv_nth set_concat)
  then show ?thesis
    using dss(1) stage_decisions_staged [OF _ i(2)] by (auto simp: mapE_eq_Inr_iff list_all2_conv_all_nth)
qed

text \<open>C27. A rollout that the simulation calls ready is one that may run. Every broker of the fleet is
  targeted by the bundle and supported by it, none has a health status that triggers a rollback, an
  approval that the policy requires was given, and each decision is for a broker of the fleet in a
  stage that lists it, with the state of this stage.\<close>

theorem ready_rollout_is_safe:
  assumes "simulate_rollout bundle fleet approved = Inr sim" and "sm_state sim = ''ready''"
  shows "(\<forall>status \<in> set fleet. targeted bundle status \<and>
      \<not> triggers_rollback (as_list (dget (sim_rollout bundle) ''rollback_on_statuses'')) status) \<and>
    (dget (sim_policy bundle) ''approval_required'' = PBool True \<longrightarrow> approved) \<and>
    (\<forall>d \<in> set (sm_decisions sim).
      staged_in bundle (map (\<lambda>status. broker_id_of (sim_identity status)) fleet) d)"
proof -
  obtain ds rd where "compatibility_rejections bundle fleet = Inr []" "rollback_decisions bundle fleet = Inr ([], rd)"
    "dget (sim_policy bundle) ''approval_required'' = PBool True \<longrightarrow> approved"
    "rollout_decisions bundle fleet = Inr ds" "sm_decisions sim = ds"
    using assms by (auto simp: simulate_rollout_def bindE_eq_Inr split: if_splits)
  then show ?thesis using no_rejection rollback_decisions_Nil rollout_decisions_staged by metis
qed

section \<open>The records\<close>

definition action_file :: "action_record \<Rightarrow> string" where
  "action_file r = ar_action_id r @ ''.json''"

text \<open>Files that are there stay as they are.\<close>

definition keeps_actions :: "rollout_files \<Rightarrow> rollout_files \<Rightarrow> bool" where
  "keeps_actions s s' \<longleftrightarrow> (\<forall>n r. map_of (rf_actions s) n = Some r \<longrightarrow> map_of (rf_actions s') n = Some r)"

lemma keeps_actions_refl [simp]: "keeps_actions s s"
  by (simp add: keeps_actions_def)

lemma keeps_actions_trans: "keeps_actions s t \<Longrightarrow> keeps_actions t u \<Longrightarrow> keeps_actions s u"
  by (simp add: keeps_actions_def)

lemma write_json_new_result:
  assumes "write_json_new dir r s = (res, s')"
  shows "rf_log s' = rf_log s \<and> keeps_actions s s' \<and>
    (is_result res \<longrightarrow> map_of (rf_actions s) (action_file r) = None \<and>
       map_of (rf_actions s') (action_file r) = Some (action_dict r))"
  using assms
  by (auto simp: write_json_new_def Let_def monad_simps action_file_def keeps_actions_def is_result_def
      split: if_splits option.splits)

lemma write_actions_result:
  assumes "write_actions dir rs s = (res, s')"
  shows "rf_log s' = rf_log s \<and> keeps_actions s s' \<and>
    (is_result res \<longrightarrow> (\<forall>r \<in> set rs. map_of (rf_actions s) (action_file r) = None \<and>
       map_of (rf_actions s') (action_file r) = Some (action_dict r)))"
  using assms
proof (induction rs arbitrary: s res s')
  case Nil
  then show ?case by (simp add: monad_simps)
next
  case (Cons r rs)
  obtain res1 s1 where w: "write_json_new dir r s = (res1, s1)" by (cases "write_json_new dir r s")
  note first = write_json_new_result [OF w]
  show ?case
  proof (cases res1)
    case (Inl e)
    then show ?thesis using first Cons.prems w by (auto simp: monad_simps is_result_def)
  next
    case (Inr p)
    obtain res2 s2 where w2: "write_actions dir rs s1 = (res2, s2)" by (cases "write_actions dir rs s1")
    have rest: "s' = s2" "is_result res = is_result res2"
      using Cons.prems w w2 Inr by (auto simp: monad_simps is_result_def split: sum.splits)
    note second = Cons.IH [OF w2]
    have keep: "keeps_actions s s'" using first second rest(1) keeps_actions_trans by blast
    have "map_of (rf_actions s) n = None" if "map_of (rf_actions s1) n = None" for n
      using first that by (cases "map_of (rf_actions s) n") (auto simp: keeps_actions_def)
    moreover have "is_result res1" using Inr by (simp add: is_result_def)
    ultimately show ?thesis using first second rest keep by (auto simp: keeps_actions_def)
  qed
qed

text \<open>The audit trail of rollouts only grows, and a success is logged completely. Whatever the
  controller does, no record file changes and no line of the log goes; if it reports success, every
  record it made is in a new file of its own and at the end of the log, in order; if it fails, the
  log is as it was.\<close>

theorem rollout_audit_grows:
  assumes "control_rollout simulation dir operator_name bundle now s = (res, s')"
  shows "keeps_actions s s' \<and>
    (case res of
       Inl e \<Rightarrow> rf_log s' = rf_log s
     | Inr report \<Rightarrow> \<exists>rs. rf_log s' = rf_log s @ map action_dict rs \<and> length rs = rr_action_count report \<and>
         rs \<noteq> [] \<and> (\<forall>r \<in> set rs. map_of (rf_actions s) (action_file r) = None \<and>
           map_of (rf_actions s') (action_file r) = Some (action_dict r)))"
proof -
  let ?dir = "path_join (path_join dir ''governance-rollout'') ''actions''"
  show ?thesis
  proof (cases "validate_simulation simulation = Inr () \<and> (\<exists>b o' rs. bundle_metadata bundle = Inr b \<and>
      required_string operator_name ''operator'' = Inr o' \<and> records_from_simulation simulation o' b now = Inr rs)")
    case False
    then have "\<exists>e. res = Inl e \<and> s' = s"
      using assms by (auto simp: control_rollout_def monad_simps split: sum.splits)
    then show ?thesis by auto
  next
    case True
    then obtain b o' rs where v: "validate_simulation simulation = Inr ()" "bundle_metadata bundle = Inr b"
      "required_string operator_name ''operator'' = Inr o'" and rs: "records_from_simulation simulation o' b now = Inr rs"
      by blast
    have "rs \<noteq> []"
      using rs by (auto simp: records_from_simulation_def Let_def bindE_eq_Inr mapE_eq_Inr_iff split: if_splits
          dest!: arg_cong [of "enumerate_from _ _" _ length])
    obtain res1 s1 where w: "write_actions ?dir rs s = (res1, s1)" by (cases "write_actions ?dir rs s")
    note written = write_actions_result [OF w]
    show ?thesis
    proof (cases res1)
      case (Inl e)
      then have "res = Inl e" "s' = s1" using assms v rs w by (auto simp: control_rollout_def monad_simps Let_def)
      then show ?thesis using written by simp
    next
      case (Inr ps)
      then have "\<exists>report. res = Inr report \<and> rr_action_count report = length rs"
        and s': "s' = s1\<lparr>rf_log := rf_log s1 @ map action_dict rs\<rparr>"
        using assms v rs w by (auto simp: control_rollout_def monad_simps Let_def)
      moreover have "keeps_actions s s'" using written s' by (simp add: keeps_actions_def)
      moreover have "rf_log s' = rf_log s @ map action_dict rs" "rf_actions s' = rf_actions s1"
        using written s' by simp_all
      moreover have "is_result res1" using Inr by (simp add: is_result_def)
      ultimately show ?thesis using written \<open>rs \<noteq> []\<close> by auto
    qed
  qed
qed

section \<open>At a concrete fleet\<close>

definition demo_rollout :: pydict where
  "demo_rollout = [(''applies_to'', PDict [(''environments'', PList [PStr ''prod''])]),
     (''policy'', PDict [(''approval_required'', PBool True)]),
     (''rollout'', PDict [(''rollback_on_statuses'', PList [PStr ''failed'']),
        (''stages'', PList [PDict [(''name'', PStr ''canary''), (''broker_ids'', PList [PStr ''b1''])],
           PDict [(''name'', PStr ''broad''), (''broker_ids'', PList [PStr ''b2'', PStr ''b3''])]])])]"

definition demo_status :: "string \<Rightarrow> string \<Rightarrow> pydict" where
  "demo_status b h = [(''identity'', PDict [(''broker_id'', PStr b), (''environment'', PStr ''prod'')]),
     (''health'', PDict [(''status'', PStr h)])]"

definition demo_fleet :: "pydict list" where
  "demo_fleet = [demo_status ''b1'' ''ok'', demo_status ''b2'' ''ok'']"

definition demo_sim :: simulation where
  "demo_sim = result_of (simulate_rollout demo_rollout demo_fleet True)"

lemma demo_simulated: "simulate_rollout demo_rollout demo_fleet True = Inr demo_sim"
proof -
  have "is_result (simulate_rollout demo_rollout demo_fleet True)" by code_simp
  then show ?thesis unfolding demo_sim_def by (rule is_result_Inr)
qed

theorem ready_rollout_is_safe_witness:
  "length (sm_decisions demo_sim) = 2 \<and>
     staged_in demo_rollout [''b1'', ''b2''] (hd (sm_decisions demo_sim))"
proof -
  have "sm_state demo_sim = ''ready''" "length (sm_decisions demo_sim) = 2"
    "map (\<lambda>status. broker_id_of (sim_identity status)) demo_fleet = [''b1'', ''b2'']"
    by code_simp+
  moreover from this have "hd (sm_decisions demo_sim) \<in> set (sm_decisions demo_sim)"
    by (metis length_0_conv list.set_sel(1) zero_neq_numeral)
  ultimately show ?thesis using ready_rollout_is_safe [OF demo_simulated] by metis
qed

definition demo_metadata :: "string \<Rightarrow> pydict" where
  "demo_metadata v = [(''bundle_id'', PStr ''base''), (''version'', PStr v), (''channel'', PStr ''stable''),
     (''digest'', PDict [(''algorithm'', PStr ''sha256''), (''value'', PStr ''abc'')])]"

definition no_rollouts :: rollout_files where
  "no_rollouts = \<lparr>rf_actions = [], rf_log = []\<rparr>"

definition demo_control :: "simulation \<Rightarrow> string \<Rightarrow> rollout_report rollout_sem" where
  "demo_control sim v = control_rollout (simulation_dict sim) (Path ''/'' [''state'']) (PStr ''op'') (demo_metadata v) ''t''"

theorem rollout_audit_grows_witness:
  "\<exists>report s'. demo_control demo_sim ''1'' no_rollouts = (Inr report, s') \<and> length (rf_log s') = 2"
proof -
  have ok: "is_result (fst (demo_control demo_sim ''1'' no_rollouts))"
    and count: "rr_action_count (result_of (fst (demo_control demo_sim ''1'' no_rollouts))) = 2"
    by code_simp+
  then obtain report s' where run: "demo_control demo_sim ''1'' no_rollouts = (Inr report, s')"
    and n: "rr_action_count report = 2"
    using run_result [of "demo_control demo_sim ''1''", OF ok] by metis
  from rollout_audit_grows [OF run [unfolded demo_control_def]] n
  have "length (rf_log s') = 2" by (auto simp: no_rollouts_def)
  with run show ?thesis by blast
qed

text \<open>
  The name of a record does not name the rollout: a second rollout that decides the same for its first
  broker is refused, and one that differs there first leaves a record file that no log line has.
\<close>

definition rolled_back :: simulation where
  "rolled_back = \<lparr>sm_state = ''rollback'', sm_decisions =
     [\<lparr>rd_broker_id = PStr ''b1'', rd_stage = ''canary'', rd_state = ''rollback''\<rparr>,
      \<lparr>rd_broker_id = PStr ''b2'', rd_stage = ''broad'', rd_state = ''broad_rollout''\<rparr>], sm_reasons = []\<rparr>"

lemma second_rollout_refused:
  "\<not> is_result (fst (demo_control demo_sim ''2'' (snd (demo_control demo_sim ''1'' no_rollouts))))"
  by code_simp

lemma refused_rollout_leaves_unlogged_record:
  "let s = snd (demo_control demo_sim ''1'' no_rollouts); (res, s') = demo_control rolled_back ''2'' s in
     \<not> is_result res \<and> length (rf_actions s') = 3 \<and> length (rf_log s') = 2"
  by code_simp

end
