(* ===== verification/Supervisor.thy ===== *)
theory Supervisor
  imports Stdio_Calls
begin

text \<open>
  The supervisor of an upstream process (\<^verbatim>\<open>upstream_process.py\<close>, \<^verbatim>\<open>upstream_state.py\<close>): its states
  with their history, start, stop, restarts with a limit and a backoff, the watchdogs, and the
  registry of supervisors. The operating system is an environment on a world of its own.
\<close>

section \<open>States\<close>

datatype upstream_state =
  CONFIGURED | STARTING | RUNNING | DRAINING | STOPPING | STOPPED | FAILED | BACKOFF | DISABLED

fun state_value :: "upstream_state \<Rightarrow> string" where
  "state_value CONFIGURED = ''configured''"
| "state_value STARTING = ''starting''"
| "state_value RUNNING = ''running''"
| "state_value DRAINING = ''draining''"
| "state_value STOPPING = ''stopping''"
| "state_value STOPPED = ''stopped''"
| "state_value FAILED = ''failed''"
| "state_value BACKOFF = ''backoff''"
| "state_value DISABLED = ''disabled''"

text \<open>
  \<open>ue_alive\<close> is \<open>poll() is None\<close>; a \<open>wait\<close> that times out is \<open>False\<close>. \<open>ue_rounds\<close> says for how many
  rounds of a wait for readiness the clock stays before the deadline, given the time and the pause,
  and \<open>ue_group_polls\<close> gives the outputs of the \<open>ps\<close> runs the clock leaves time for, and of the one
  after them. Joining the drainer threads does not raise.
\<close>

record 'w sup_env =
  ue_now :: "('w, exn, rat) sem"
  ue_log :: "(string \<Rightarrow> string \<Rightarrow> pydict \<Rightarrow> ('w, exn, unit) sem) option"
  ue_mkdir :: "path \<Rightarrow> ('w, exn, unit) sem"
  ue_write :: "path \<Rightarrow> string \<Rightarrow> ('w, exn, unit) sem"
  ue_environ :: "(string \<times> string) list"
  ue_read_secret :: "path \<Rightarrow> string option"
  ue_popen :: "string list \<Rightarrow> path \<Rightarrow> (string \<times> string) list \<Rightarrow> ('w, exn, int) sem"
  ue_alive :: "int \<Rightarrow> 'w \<Rightarrow> bool"
  ue_getpgid :: "int \<Rightarrow> 'w \<Rightarrow> int res"
  ue_killpg :: "int \<Rightarrow> string \<Rightarrow> ('w, exn, unit) sem"
  ue_wait :: "int \<Rightarrow> rat \<Rightarrow> ('w, exn, bool) sem"
  ue_group_polls :: "int \<Rightarrow> ('w, exn, string list \<times> string) sem"
  ue_rounds :: "rat \<Rightarrow> rat \<Rightarrow> ('w, exn, nat) sem"
  ue_pause :: "rat \<Rightarrow> ('w, exn, unit) sem"
  ue_drain :: "int \<Rightarrow> path \<Rightarrow> ('w, exn, unit) sem"
  ue_join :: "'w \<Rightarrow> 'w"
  ue_cpu :: "int \<Rightarrow> ('w, exn, rat) sem"
  ue_memory :: "int \<Rightarrow> ('w, exn, rat option) sem"

record 'w supervisor =
  sv_upstream :: upstream_config
  sv_runtime_dir :: path
  sv_restart_count :: int
  sv_process :: "int option"
  sv_state :: upstream_state
  sv_history :: "upstream_state list"
  sv_drainers :: bool
  sv_last_activity :: rat
  sv_last_restart :: "rat option"
  sv_world :: 'w

type_synonym ('w, 'a) sup_sem = "('w supervisor, exn, 'a) sem"

definition on_world :: "('w, exn, 'a) sem \<Rightarrow> ('w, 'a) sup_sem" where
  "on_world m = (\<lambda>s. case m (sv_world s) of (r, w) \<Rightarrow> (r, s\<lparr>sv_world := w\<rparr>))"

definition see_world :: "('w \<Rightarrow> 'a) \<Rightarrow> ('w, 'a) sup_sem" where
  "see_world f = (\<lambda>s. (Inr (f (sv_world s)), s))"

definition sup_state_dir :: "'w supervisor \<Rightarrow> path res" where
  "sup_state_dir s =
     (let u = sv_upstream s in
      if \<not> truthy (up_state_dir u) then Inr (path_join (sv_runtime_dir s) (''upstreams/'' @ up_name u))
      else case up_state_dir u of
        PStr d \<Rightarrow> Inr (path_join (sv_runtime_dir s) d)
      | v \<Rightarrow> Inl (Exn TypeError (type_name v)))"

definition sup_pid :: "'w sup_env \<Rightarrow> 'w supervisor \<Rightarrow> int option" where
  "sup_pid env s = (case sv_process s of
     None \<Rightarrow> None
   | Some pid \<Rightarrow> if ue_alive env pid (sv_world s) then Some pid else None)"

definition snapshot_dict :: "'w sup_env \<Rightarrow> 'w supervisor \<Rightarrow> pydict" where
  "snapshot_dict env s = [(''upstream'', PStr (up_name (sv_upstream s))),
     (''state'', PStr (state_value (sv_state s))),
     (''pid'', case sup_pid env s of None \<Rightarrow> PNone | Some i \<Rightarrow> PInt i),
     (''restart_count'', PInt (sv_restart_count s))]"

definition write_state_snapshot :: "'w sup_env \<Rightarrow> ('w, unit) sup_sem" where
  "write_state_snapshot env =
     bindS (bindS getS (\<lambda>s. liftS (sup_state_dir s))) (\<lambda>dir.
     seqS (on_world (ue_mkdir env dir))
       (bindS getS (\<lambda>s. on_world (ue_write env (path_join dir ''supervisor-state.json'')
          (dumps (PDict (snapshot_dict env s)))))))"

text \<open>A state that is entered again is not added to the history.\<close>

definition entered :: "upstream_state \<Rightarrow> 'w supervisor \<Rightarrow> 'w supervisor" where
  "entered st s = s\<lparr>sv_state := st, sv_history :=
     (if sv_history s \<noteq> [] \<and> last (sv_history s) = st then sv_history s else sv_history s @ [st])\<rparr>"

definition transition :: "'w sup_env \<Rightarrow> upstream_state \<Rightarrow> ('w, unit) sup_sem" where
  "transition env st = seqS (modifyS (entered st)) (write_state_snapshot env)"

definition sup_emit :: "'w sup_env \<Rightarrow> string \<Rightarrow> pydict \<Rightarrow> ('w, unit) sup_sem" where
  "sup_emit env event details =
     (case ue_log env of
        None \<Rightarrow> returnS ()
      | Some logger \<Rightarrow> bindS getS (\<lambda>s. on_world (logger event (up_name (sv_upstream s)) details)))"

definition emit_state :: "'w sup_env \<Rightarrow> string \<Rightarrow> upstream_state \<Rightarrow> ('w, unit) sup_sem" where
  "emit_state env event st = sup_emit env event [(''state'', PStr (state_value st))]"

definition new_supervisor :: "upstream_config \<Rightarrow> path \<Rightarrow> int \<Rightarrow> 'w \<Rightarrow> 'w supervisor" where
  "new_supervisor u dir restart_count w =
     \<lparr>sv_upstream = u, sv_runtime_dir = dir, sv_restart_count = restart_count, sv_process = None,
      sv_state = CONFIGURED, sv_history = [], sv_drainers = False, sv_last_activity = 0,
      sv_last_restart = None, sv_world = w\<rparr>"

definition sup_post_init :: "'w sup_env \<Rightarrow> ('w, unit) sup_sem" where
  "sup_post_init env =
     bindS getS (\<lambda>s.
     if upstream_disabled (sv_upstream s)
     then seqS (transition env DISABLED) (emit_state env ''upstream.disabled'' DISABLED)
     else transition env CONFIGURED)"

definition sup_status :: "'w sup_env \<Rightarrow> ('w, string) sup_sem" where
  "sup_status env =
     bindS getS (\<lambda>s. case sv_process s of
       None \<Rightarrow> returnS (if sv_state s = DISABLED then state_value (sv_state s) else ''stopped'')
     | Some pid \<Rightarrow>
         if ue_alive env pid (sv_world s) then returnS ''running''
         else seqS (transition env FAILED) (returnS ''exited''))"

definition sup_state :: "'w sup_env \<Rightarrow> ('w, upstream_state) sup_sem" where
  "sup_state env =
     bindS getS (\<lambda>s.
     seqS (case sup_pid env s of
         None \<Rightarrow> if sv_process s = None then returnS () else transition env FAILED
       | Some pid \<Rightarrow> returnS ())
       (bindS getS (\<lambda>s. returnS (sv_state s))))"

definition sup_clock :: "'w sup_env \<Rightarrow> rat option \<Rightarrow> ('w, rat) sup_sem" where
  "sup_clock env monotonic_seconds =
     (case monotonic_seconds of Some t \<Rightarrow> returnS t | None \<Rightarrow> on_world (ue_now env))"

definition sup_activity :: "'w sup_env \<Rightarrow> rat option \<Rightarrow> ('w, unit) sup_sem" where
  "sup_activity env monotonic_seconds =
     bindS (sup_clock env monotonic_seconds) (\<lambda>t. modifyS (\<lambda>s. s\<lparr>sv_last_activity := t\<rparr>))"

section \<open>Stopping\<close>

definition sup_signal :: "'w sup_env \<Rightarrow> int \<Rightarrow> string \<Rightarrow> ('w, unit) sup_sem" where
  "sup_signal env pid sig =
     catchS (on_world (ue_killpg env pid sig)) (\<lambda>e.
       if is_class PermissionError e \<or> is_class ProcessLookupError e then returnS () else raiseS e)"

definition sup_group_id :: "'w sup_env \<Rightarrow> int \<Rightarrow> ('w, int option) sup_sem" where
  "sup_group_id env pid = bindS (see_world (ue_getpgid env pid)) (\<lambda>r. case r of
     Inr g \<Rightarrow> returnS (Some g)
   | Inl e \<Rightarrow> if is_class ProcessLookupError e then returnS None else raiseS e)"

definition remaining_members :: "int \<Rightarrow> int list \<Rightarrow> exn" where
  "remaining_members g members = Exn RuntimeError (''process group still has members after stop: '' @
     str_int g @ '': '' @ join '', '' (map str_int members))"

definition verify_group_stopped :: "'w sup_env \<Rightarrow> int option \<Rightarrow> ('w, unit) sup_sem" where
  "verify_group_stopped env pgid = (case pgid of
     None \<Rightarrow> returnS ()
   | Some g \<Rightarrow>
       bindS (on_world (ue_group_polls env g)) (\<lambda>(outs, last_output).
       bindS (liftS (group_stopped outs last_output)) (\<lambda>members.
       if members = [] then returnS ()
       else seqS (transition env FAILED) (raiseS (remaining_members g members)))))"

text \<open>The text of a \<open>TimeoutExpired\<close> is not modelled.\<close>

definition sup_stop_leader :: "'w sup_env \<Rightarrow> rat \<Rightarrow> int \<Rightarrow> ('w, unit) sup_sem" where
  "sup_stop_leader env timeout_seconds pid =
     bindS (see_world (ue_alive env pid)) (\<lambda>alive.
     if \<not> alive then returnS ()
     else seqS (transition env DRAINING)
       (seqS (transition env STOPPING)
       (seqS (sup_signal env pid ''SIGTERM'')
       (bindS (on_world (ue_wait env pid timeout_seconds)) (\<lambda>exited.
        if exited then returnS ()
        else seqS (sup_emit env ''upstream.kill'' [(''signal'', PStr ''SIGKILL''), (''reason'', PStr ''stop_timeout'')])
          (seqS (sup_signal env pid ''SIGKILL'')
          (bindS (on_world (ue_wait env pid (max timeout_seconds KILL_WAIT_SECONDS))) (\<lambda>killed.
           if killed then returnS ()
           else seqS (transition env FAILED) (raiseS (Exn TimeoutExpired []))))))))))"

text \<open>From the moment the process is forgotten only the logger and the snapshot can raise.\<close>

definition forget_process :: "'w sup_env \<Rightarrow> ('w, unit) sup_sem" where
  "forget_process env =
     seqS (modifyS (\<lambda>s. s\<lparr>sv_process := None,
         sv_world := (if sv_drainers s then ue_join env (sv_world s) else sv_world s), sv_drainers := False\<rparr>))
       (transition env STOPPED)"

definition sup_stop :: "'w sup_env \<Rightarrow> rat \<Rightarrow> ('w, unit) sup_sem" where
  "sup_stop env timeout_seconds =
     bindS getS (\<lambda>s. case sv_process s of
       None \<Rightarrow>
         if sv_state s \<noteq> DISABLED
         then seqS (transition env STOPPED) (emit_state env ''upstream.stop'' STOPPED)
         else returnS ()
     | Some pid \<Rightarrow>
         bindS (sup_group_id env pid) (\<lambda>pgid.
         seqS (sup_stop_leader env timeout_seconds pid)
         (seqS (sup_signal env pid ''SIGKILL'')
         (seqS (verify_group_stopped env pgid)
         (seqS (forget_process env)
           (emit_state env ''upstream.stop'' STOPPED))))))"

section \<open>Starting\<close>

definition sup_child_environment :: "'w sup_env \<Rightarrow> path \<Rightarrow> 'w supervisor \<Rightarrow> (string \<times> string) list res" where
  "sup_child_environment env state_dir s =
     bindE (resolve_environment (sv_upstream s) (map_of (ue_environ env)) (ue_read_secret env)) (\<lambda>configured.
     Inr (override (override (ue_environ env) configured)
       [(''MCP_BROKER_UPSTREAM_STATE_DIR'', path_str state_dir)]))"

definition fail_to_backoff :: "'w sup_env \<Rightarrow> exn \<Rightarrow> ('w, 'a) sup_sem" where
  "fail_to_backoff env e =
     seqS (transition env FAILED)
     (seqS (transition env BACKOFF)
     (seqS (emit_state env ''upstream.backoff'' BACKOFF) (raiseS e)))"

definition sup_spawn :: "'w sup_env \<Rightarrow> path \<Rightarrow> (string \<times> string) list \<Rightarrow> ('w, int) sup_sem" where
  "sup_spawn env state_dir child_env =
     bindS getS (\<lambda>s.
     bindS (catchS (on_world (ue_popen env (up_command (sv_upstream s) # up_args (sv_upstream s)) state_dir child_env))
       (\<lambda>e. if is_os_error e then fail_to_backoff env e else raiseS e)) (\<lambda>pid.
     seqS (modifyS (\<lambda>s. s\<lparr>sv_process := Some pid\<rparr>)) (returnS pid)))"

definition start_output_drainers :: "'w sup_env \<Rightarrow> int \<Rightarrow> path \<Rightarrow> ('w, unit) sup_sem" where
  "start_output_drainers env pid state_dir =
     seqS (on_world (ue_drain env pid (path_join state_dir ''stdout.log'')))
     (seqS (on_world (ue_drain env pid (path_join state_dir ''stderr.log'')))
       (modifyS (\<lambda>s. s\<lparr>sv_drainers := True\<rparr>)))"

fun ready_rounds :: "nat \<Rightarrow> 'w sup_env \<Rightarrow> ('w, exn, bool) sem \<Rightarrow> rat \<Rightarrow> ('w, unit) sup_sem" where
  "ready_rounds 0 env check poll_interval =
     bindS getS (\<lambda>s. raiseS (Exn TimeoutError (''upstream startup timed out: '' @ up_name (sv_upstream s))))"
| "ready_rounds (Suc n) env check poll_interval =
     bindS (on_world check) (\<lambda>ready.
     if ready then sup_activity env None
     else bindS (sup_status env) (\<lambda>st.
       if st = ''exited'' then bindS getS (\<lambda>s.
         raiseS (Exn RuntimeError (''upstream exited during startup: '' @ up_name (sv_upstream s))))
       else seqS (on_world (ue_pause env poll_interval)) (ready_rounds n env check poll_interval)))"

definition wait_until_ready :: "'w sup_env \<Rightarrow> ('w, exn, bool) sem \<Rightarrow> rat \<Rightarrow> ('w, unit) sup_sem" where
  "wait_until_ready env check poll_interval =
     bindS getS (\<lambda>s.
     bindS (on_world (ue_rounds env (of_int (up_startup_timeout_seconds (sv_upstream s))) poll_interval)) (\<lambda>n.
       ready_rounds n env check poll_interval))"

definition check_readiness :: "'w sup_env \<Rightarrow> ('w, exn, bool) sem option \<Rightarrow> rat \<Rightarrow> ('w, unit) sup_sem" where
  "check_readiness env ready_check poll_interval =
     (case ready_check of
        None \<Rightarrow> returnS ()
      | Some check \<Rightarrow> catchS (wait_until_ready env check poll_interval) (\<lambda>e.
          if is_class RuntimeError e \<or> is_class TimeoutError e
          then seqS (sup_stop env STOP_TIMEOUT_SECONDS) (fail_to_backoff env e)
          else raiseS e))"

text \<open>What \<open>start\<close> does when no process runs.\<close>

definition launch :: "'w sup_env \<Rightarrow> ('w, exn, bool) sem option \<Rightarrow> rat \<Rightarrow> ('w, unit) sup_sem" where
  "launch env ready_check poll_interval =
     bindS getS (\<lambda>s.
     bindS (liftS (sup_state_dir s)) (\<lambda>state_dir.
     seqS (on_world (ue_mkdir env state_dir))
     (seqS (transition env STARTING)
     (seqS (emit_state env ''upstream.start'' STARTING)
     (bindS (liftS (sup_child_environment env state_dir s)) (\<lambda>child_env.
      bindS (sup_spawn env state_dir child_env) (\<lambda>pid.
      seqS (start_output_drainers env pid state_dir)
     (seqS (sup_activity env None)
     (seqS (transition env RUNNING)
     (seqS (check_readiness env ready_check poll_interval)
       (bindS getS (\<lambda>s. sup_emit env ''upstream.ready'' [(''state'', PStr (state_value RUNNING)),
          (''pid'', case sup_pid env s of None \<Rightarrow> PNone | Some i \<Rightarrow> PInt i)]))))))))))))"

definition sup_start :: "'w sup_env \<Rightarrow> ('w, exn, bool) sem option \<Rightarrow> rat \<Rightarrow> ('w, unit) sup_sem" where
  "sup_start env ready_check poll_interval =
     bindS getS (\<lambda>s.
     if upstream_disabled (sv_upstream s) then
       seqS (transition env DISABLED)
       (seqS (emit_state env ''upstream.disabled'' DISABLED)
         (raiseS (Exn ValueError (''upstream disabled: '' @ up_name (sv_upstream s)))))
     else bindS (sup_status env) (\<lambda>st.
       if st = ''running'' then returnS () else launch env ready_check poll_interval))"

definition POLL_INTERVAL_SECONDS :: rat where "POLL_INTERVAL_SECONDS = 1 / 20"

definition plain_start :: "'w sup_env \<Rightarrow> ('w, unit) sup_sem" where
  "plain_start env = sup_start env None POLL_INTERVAL_SECONDS"

definition plain_stop :: "'w sup_env \<Rightarrow> ('w, unit) sup_sem" where
  "plain_stop env = sup_stop env STOP_TIMEOUT_SECONDS"

section \<open>Restarts\<close>

definition count_restart :: "('w, unit) sup_sem" where
  "count_restart = modifyS (\<lambda>s. s\<lparr>sv_restart_count := sv_restart_count s + 1\<rparr>)"

definition sup_restart :: "'w sup_env \<Rightarrow> ('w, unit) sup_sem" where
  "sup_restart env =
     bindS getS (\<lambda>s.
     seqS (sup_emit env ''upstream.restart'' [(''restart_count'', PInt (sv_restart_count s + 1))])
     (seqS (plain_stop env) (seqS count_restart (plain_start env))))"

definition restart_after_failure :: "'w sup_env \<Rightarrow> rat option \<Rightarrow> ('w, bool) sup_sem" where
  "restart_after_failure env monotonic_seconds =
     bindS (sup_clock env monotonic_seconds) (\<lambda>now.
     bindS getS (\<lambda>s.
     let policy = up_restart (sv_upstream s) in
     if max_attempts policy \<le> sv_restart_count s then
       seqS (transition env FAILED)
         (raiseS (Exn RuntimeError (''restart circuit open: '' @ up_name (sv_upstream s))))
     else if (case sv_last_restart s of None \<Rightarrow> False | Some t \<Rightarrow> now - t < of_int (backoff_seconds policy)) then
       seqS (transition env BACKOFF)
       (seqS (emit_state env ''upstream.backoff'' BACKOFF) (returnS False))
     else
       bindS (sup_status env) (\<lambda>st.
       seqS (if st = ''running'' then plain_stop env else returnS ())
       (seqS (modifyS (\<lambda>s. s\<lparr>sv_restart_count := sv_restart_count s + 1, sv_last_restart := Some now\<rparr>))
       (bindS getS (\<lambda>s.
        seqS (sup_emit env ''upstream.restart'' [(''restart_count'', PInt (sv_restart_count s))])
       (seqS (plain_start env) (returnS True))))))))"

section \<open>Watchdogs\<close>

definition reap_if_idle :: "'w sup_env \<Rightarrow> rat option \<Rightarrow> ('w, bool) sup_sem" where
  "reap_if_idle env monotonic_seconds =
     bindS (sup_status env) (\<lambda>st.
     if st \<noteq> ''running'' then returnS False
     else bindS (sup_clock env monotonic_seconds) (\<lambda>now.
       bindS getS (\<lambda>s.
       if now - sv_last_activity s < of_int (idle_timeout_seconds (up_resources (sv_upstream s))) then returnS False
       else seqS (plain_stop env) (returnS True))))"

definition kill_if_spinning :: "'w sup_env \<Rightarrow> rat \<Rightarrow> rat \<Rightarrow> rat option \<Rightarrow> ('w, bool) sup_sem" where
  "kill_if_spinning env cpu_percent sample_window_seconds monotonic_seconds =
     bindS (sup_status env) (\<lambda>st.
     if st \<noteq> ''running'' then returnS False
     else bindS (sup_clock env monotonic_seconds) (\<lambda>now.
       bindS getS (\<lambda>s.
       let r = up_resources (sv_upstream s) in
       if cpu_percent < of_int (cpu_watchdog_percent r) then returnS False
       else if sample_window_seconds < of_int (cpu_watchdog_seconds r) then returnS False
       else if now - sv_last_activity s < of_int (cpu_watchdog_seconds r) then returnS False
       else seqS (plain_stop env) (seqS (transition env FAILED) (returnS True)))))"

definition kill_if_process_group_spinning :: "'w sup_env \<Rightarrow> rat \<Rightarrow> rat option \<Rightarrow> ('w, bool) sup_sem" where
  "kill_if_process_group_spinning env sample_window_seconds monotonic_seconds =
     bindS getS (\<lambda>s. case sup_pid env s of
       None \<Rightarrow> returnS False
     | Some pid \<Rightarrow>
         bindS (bindS (see_world (ue_getpgid env pid)) liftS) (\<lambda>pgid.
         bindS (on_world (ue_cpu env pgid)) (\<lambda>cpu_percent.
           kill_if_spinning env cpu_percent sample_window_seconds monotonic_seconds)))"

definition kill_if_memory_over_ceiling :: "'w sup_env \<Rightarrow> rat option \<Rightarrow> ('w, bool) sup_sem" where
  "kill_if_memory_over_ceiling env memory_mb =
     bindS (sup_status env) (\<lambda>st.
     if st \<noteq> ''running'' then returnS False
     else bindS getS (\<lambda>s.
       case (memory_ceiling_mb (up_resources (sv_upstream s)), memory_mb) of
         (Some most, Some used) \<Rightarrow>
           if used \<le> of_int most then returnS False
           else seqS (plain_stop env) (seqS (transition env FAILED) (returnS True))
       | _ \<Rightarrow> returnS False))"

definition kill_if_process_group_over_memory :: "'w sup_env \<Rightarrow> ('w, bool) sup_sem" where
  "kill_if_process_group_over_memory env =
     bindS getS (\<lambda>s. case sup_pid env s of
       None \<Rightarrow> returnS False
     | Some pid \<Rightarrow>
         bindS (bindS (see_world (ue_getpgid env pid)) liftS) (\<lambda>pgid.
         bindS (on_world (ue_memory env pgid)) (kill_if_memory_over_ceiling env)))"

section \<open>The registry\<close>

text \<open>The supervisors by upstream and session, in the order they were created; they share the world.\<close>

type_synonym supervisor_key = "string \<times> string option"

record 'w process_registry =
  pr_runtime_dir :: path
  pr_supervisors :: "(supervisor_key \<times> 'w supervisor) list"
  pr_world :: 'w

type_synonym ('w, 'a) process_sem = "('w process_registry, exn, 'a) sem"

definition registry_key :: "upstream_config \<Rightarrow> string option \<Rightarrow> supervisor_key res" where
  "registry_key u session_id =
     (if up_mode u = ''per_session'' then
        (case session_id of
           Some (c # cs) \<Rightarrow> Inr (up_name u, Some (c # cs))
         | _ \<Rightarrow> Inl (Exn ValueError ''session_id is required for per_session upstream''))
      else Inr (up_name u, None))"

text \<open>An operation of one supervisor, in the shared world; what it leaves is kept even if it raises.\<close>

definition with_supervisor :: "supervisor_key \<Rightarrow> ('w, 'a) sup_sem \<Rightarrow> ('w, 'a) process_sem" where
  "with_supervisor key m = (\<lambda>r.
     case map_of (pr_supervisors r) key of
       None \<Rightarrow> (Inl (Exn KeyError (fst key)), r)
     | Some s \<Rightarrow> (case m (s\<lparr>sv_world := pr_world r\<rparr>) of
         (result, s') \<Rightarrow> (result, r\<lparr>pr_supervisors := AList.update key s' (pr_supervisors r), pr_world := sv_world s'\<rparr>)))"

text \<open>A new supervisor whose first transition raises is not registered. The supervisors of the registry have
  no event logger.\<close>

definition unlogged :: "'w sup_env \<Rightarrow> 'w sup_env" where
  "unlogged env = env\<lparr>ue_log := None\<rparr>"

definition create_supervisor :: "'w sup_env \<Rightarrow> upstream_config \<Rightarrow> supervisor_key \<Rightarrow> ('w, unit) process_sem" where
  "create_supervisor env u key = (\<lambda>r.
     case sup_post_init (unlogged env) (new_supervisor u (pr_runtime_dir r) 0 (pr_world r)) of
       (Inl e, s') \<Rightarrow> (Inl e, r\<lparr>pr_world := sv_world s'\<rparr>)
     | (Inr _, s') \<Rightarrow> (Inr (), r\<lparr>pr_supervisors := AList.update key s' (pr_supervisors r), pr_world := sv_world s'\<rparr>))"

definition get_or_start :: "'w sup_env \<Rightarrow> upstream_config \<Rightarrow> string option \<Rightarrow> ('w, supervisor_key) process_sem" where
  "get_or_start env u session_id =
     seqS (liftS (require (up_mode u \<noteq> ''per_call'')
         (Exn ValueError ''per_call upstreams require broker call lifecycle'')))
     (bindS (liftS (registry_key u session_id)) (\<lambda>key.
      seqS (bindS getS (\<lambda>r.
          if map_of (pr_supervisors r) key = None then create_supervisor env u key else returnS ()))
      (seqS (with_supervisor key (plain_start (unlogged env))) (returnS key))))"

definition stop_all :: "'w sup_env \<Rightarrow> ('w, unit) process_sem" where
  "stop_all env = bindS getS (\<lambda>r. forS (\<lambda>key. with_supervisor key (plain_stop (unlogged env))) (map fst (pr_supervisors r)))"

end
