(* ===== verification/Supervisor_Facts.thy ===== *)
theory Supervisor_Facts
  imports Supervisor
begin

text \<open>
  What the supervisor of an upstream process keeps: its history is a path of the life cycle whatever
  is done to it and whatever raises, restarts stop at the limit and keep their distance, and a
  watchdog stops a process only beyond its thresholds.
\<close>

section \<open>The life cycle\<close>

text \<open>
  The abstract automaton: which state may follow which. A running process was being started, a
  stopping one is drained first, and a disabled upstream is never started.
\<close>

definition lifecycle :: "bool \<Rightarrow> upstream_state \<Rightarrow> upstream_state \<Rightarrow> bool" where
  "lifecycle disabled a b \<longleftrightarrow> a \<noteq> b \<and>
     (case b of
        CONFIGURED \<Rightarrow> False
      | STARTING \<Rightarrow> a \<in> {CONFIGURED, STOPPED, FAILED, BACKOFF} \<and> \<not> disabled
      | RUNNING \<Rightarrow> a = STARTING
      | DRAINING \<Rightarrow> a \<in> {STARTING, RUNNING, STOPPING, FAILED, BACKOFF}
      | STOPPING \<Rightarrow> a = DRAINING
      | STOPPED \<Rightarrow> a \<noteq> DISABLED
      | FAILED \<Rightarrow> True
      | BACKOFF \<Rightarrow> True
      | DISABLED \<Rightarrow> disabled)"

definition initial_state :: "bool \<Rightarrow> upstream_state" where
  "initial_state disabled = (if disabled then DISABLED else CONFIGURED)"

text \<open>The states that go with a process, and those that go with none.\<close>

definition state_fits :: "bool \<Rightarrow> int option \<Rightarrow> upstream_state \<Rightarrow> bool" where
  "state_fits disabled p st \<longleftrightarrow>
     (p = None \<longrightarrow> st \<notin> {RUNNING, DRAINING, STOPPING}) \<and>
     (p \<noteq> None \<longrightarrow> \<not> disabled \<and> st \<notin> {CONFIGURED, STOPPED, DISABLED}) \<and>
     (disabled \<longrightarrow> st \<notin> {CONFIGURED, STARTING}) \<and> (\<not> disabled \<longrightarrow> st \<noteq> DISABLED)"

definition sup_disabled :: "'w supervisor \<Rightarrow> bool" where
  "sup_disabled s = upstream_disabled (sv_upstream s)"

definition sup_inv :: "'w supervisor \<Rightarrow> bool" where
  "sup_inv s \<longleftrightarrow> sv_history s \<noteq> [] \<and> hd (sv_history s) = initial_state (sup_disabled s) \<and>
     last (sv_history s) = sv_state s \<and> successively (lifecycle (sup_disabled s)) (sv_history s) \<and>
     state_fits (sup_disabled s) (sv_process s) (sv_state s)"

text \<open>The invariant with the process and the possible states.\<close>

definition sup_at :: "bool \<Rightarrow> int option \<Rightarrow> upstream_state set \<Rightarrow> 'w supervisor \<Rightarrow> bool" where
  "sup_at d p S s \<longleftrightarrow> sup_inv s \<and> sup_disabled s = d \<and> sv_process s = p \<and> sv_state s \<in> S"

lemma entered_sel [simp]:
  "sv_upstream (entered st s) = sv_upstream s" "sv_process (entered st s) = sv_process s"
  "sv_state (entered st s) = st" "sv_restart_count (entered st s) = sv_restart_count s"
  "sv_last_restart (entered st s) = sv_last_restart s" "sup_disabled (entered st s) = sup_disabled s"
  "sv_world (entered st s) = sv_world s"
  by (simp_all add: entered_def sup_disabled_def)

lemma history_entered:
  assumes "sv_history s \<noteq> []" and "hd (sv_history s) = i" and "last (sv_history s) = sv_state s"
    and "successively (lifecycle d) (sv_history s)" and "sv_state s \<noteq> st \<Longrightarrow> lifecycle d (sv_state s) st"
  shows "sv_history (entered st s) \<noteq> []" and "hd (sv_history (entered st s)) = i"
    and "last (sv_history (entered st s)) = st" and "successively (lifecycle d) (sv_history (entered st s))"
  using assms by (auto simp: entered_def successively_append_iff)

lemma sup_at_entered:
  assumes "sup_at d p S s" and "\<And>a. a \<in> S \<Longrightarrow> state_fits d p a \<Longrightarrow> a \<noteq> st \<Longrightarrow> lifecycle d a st"
    and "state_fits d p st"
  shows "sup_at d p {st} (entered st s)"
proof -
  have s: "sv_history s \<noteq> []" "hd (sv_history s) = initial_state d" "last (sv_history s) = sv_state s"
      "successively (lifecycle d) (sv_history s)" "sv_state s \<in> S" "state_fits d p (sv_state s)"
    using assms(1) by (auto simp: sup_at_def sup_inv_def)
  from history_entered [OF s(1-4), of st] assms(2) [OF s(5,6)] show ?thesis
    using assms(1,3) by (simp add: sup_at_def sup_inv_def)
qed

section \<open>Rules\<close>

text \<open>Predicates that do not look at the world.\<close>

definition sup_free :: "('w supervisor \<Rightarrow> bool) \<Rightarrow> bool" where
  "sup_free P \<longleftrightarrow> (\<forall>s w. P s \<longrightarrow> P (s\<lparr>sv_world := w\<rparr>))"

lemma sup_inv_free [simp]:
  "sup_inv (s\<lparr>sv_world := w\<rparr>) = sup_inv s"
  "sup_inv (s\<lparr>sv_last_activity := t\<rparr>) = sup_inv s"
  "sup_inv (s\<lparr>sv_drainers := b\<rparr>) = sup_inv s"
  "sup_inv (s\<lparr>sv_restart_count := n\<rparr>) = sup_inv s"
  "sup_inv (s\<lparr>sv_restart_count := n, sv_last_restart := l\<rparr>) = sup_inv s"
  by (simp_all add: sup_inv_def sup_disabled_def)

lemma sup_at_free [simp]:
  "sup_at d p S (s\<lparr>sv_world := w\<rparr>) = sup_at d p S s"
  "sup_at d p S (s\<lparr>sv_last_activity := t\<rparr>) = sup_at d p S s"
  "sup_at d p S (s\<lparr>sv_drainers := b\<rparr>) = sup_at d p S s"
  by (simp_all add: sup_at_def sup_disabled_def)

lemma preserves_on_world: "sup_free P \<Longrightarrow> preserves P (on_world m)"
  by (auto simp: preserves_def on_world_def sup_free_def split: prod.splits)

lemma preserves_see_world: "preserves P (see_world f)"
  by (simp add: preserves_def see_world_def)

named_theorems sup_intros

lemmas [sup_intros] = preserves_on_world preserves_see_world preserves_bind preserves_seq preserves_catch
  preserves_if preserves_return preserves_raise preserves_get preserves_lift preserves_option
  preserves_pair preserves_sum

lemma preserves_write_snapshot [sup_intros]: "sup_free P \<Longrightarrow> preserves P (write_state_snapshot env)"
  unfolding write_state_snapshot_def by (intro sup_intros)

lemma preserves_sup_emit [sup_intros]: "sup_free P \<Longrightarrow> preserves P (sup_emit env event details)"
  unfolding sup_emit_def by (intro sup_intros)

lemma preserves_emit_state [sup_intros]: "sup_free P \<Longrightarrow> preserves P (emit_state env event st)"
  unfolding emit_state_def by (intro sup_intros)

lemma preserves_transition:
  "sup_free P \<Longrightarrow> (\<And>s. P s \<Longrightarrow> P (entered st s)) \<Longrightarrow> preserves P (transition env st)"
  unfolding transition_def by (intro sup_intros preserves_modify)

lemma preserves_sup_signal [sup_intros]: "sup_free P \<Longrightarrow> preserves P (sup_signal env pid sig)"
  unfolding sup_signal_def by (intro sup_intros)

lemma preserves_sup_group_id [sup_intros]: "sup_free P \<Longrightarrow> preserves P (sup_group_id env pid)"
  unfolding sup_group_id_def by (intro sup_intros)

lemma preserves_sup_clock [sup_intros]: "sup_free P \<Longrightarrow> preserves P (sup_clock env t)"
  unfolding sup_clock_def by (intro sup_intros)

lemma sup_free_inv [simp, sup_intros]: "sup_free sup_inv"
  by (simp add: sup_free_def)

lemma sup_free_at [simp, sup_intros]: "sup_free (sup_at d p S)"
  by (simp add: sup_free_def)

text \<open>An operation that keeps \<open>sup_at\<close> also keeps the invariant when it raises.\<close>

lemma sup_at_inv: "sup_at d p S s \<Longrightarrow> sup_inv s"
  by (simp add: sup_at_def)

lemma sup_keep: "preserves (sup_at d p S) m \<Longrightarrow> triple (sup_at d p S) m (\<lambda>_. sup_at d p S) (\<lambda>_. sup_inv)"
  unfolding triple_preserves [symmetric] by (erule triple_weaken) (auto dest: sup_at_inv)

lemma transition_at:
  assumes "\<And>a. a \<in> S \<Longrightarrow> state_fits d p a \<Longrightarrow> a \<noteq> st \<Longrightarrow> lifecycle d a st" and "state_fits d p st"
  shows "triple (sup_at d p S) (transition env st) (\<lambda>_. sup_at d p {st}) (\<lambda>_. sup_inv)"
  unfolding transition_def
proof (rule triple_seq)
  show "triple (sup_at d p S) (modifyS (entered st)) (\<lambda>_. sup_at d p {st}) (\<lambda>_. sup_inv)"
    using sup_at_entered [OF _ assms] by (auto simp: triple_def modifyS_def)
  show "triple (sup_at d p {st}) (write_state_snapshot env) (\<lambda>_. sup_at d p {st}) (\<lambda>_. sup_inv)"
    by (intro sup_keep sup_intros)
qed

lemma sup_inv_at: "sup_inv s \<Longrightarrow> sup_at (sup_disabled s) (sv_process s) {sv_state s} s"
  by (simp add: sup_at_def)

lemma state_fits_failed: "state_fits d p a \<Longrightarrow> st \<in> {FAILED, BACKOFF} \<Longrightarrow> state_fits d p st"
  by (auto simp: state_fits_def)

lemma inv_entered_failed: "sup_inv s \<Longrightarrow> st \<in> {FAILED, BACKOFF} \<Longrightarrow> sup_inv (entered st s)"
  by (rule sup_at_inv, rule sup_at_entered [OF sup_inv_at])
    (auto simp: lifecycle_def sup_inv_def intro: state_fits_failed)

lemma preserves_failed [sup_intros]: "preserves sup_inv (transition env FAILED)"
  by (rule preserves_transition) (simp_all add: inv_entered_failed)

lemma preserves_backoff [sup_intros]: "preserves sup_inv (transition env BACKOFF)"
  by (rule preserves_transition) (simp_all add: inv_entered_failed)

lemma triple_state:
  "(\<And>s0. P s0 \<Longrightarrow> triple (\<lambda>s. s = s0) (f s0) Q E) \<Longrightarrow> triple P (bindS getS f) Q E"
  by (auto simp: triple_def bindS_def getS_def)

section \<open>Every operation keeps the invariant\<close>

abbreviation keeps :: "('w, 'a) sup_sem \<Rightarrow> bool" where
  "keeps m \<equiv> preserves sup_inv m"

text \<open>From the invariant, an operation may be proved for each process and state on its own.\<close>

lemma triple_any: "triple (sup_at d p UNIV) m (\<lambda>_. sup_inv) (\<lambda>_. sup_inv) \<Longrightarrow> (\<And>s. P s \<Longrightarrow> sup_at d p UNIV s) \<Longrightarrow>
    triple P m (\<lambda>_. sup_inv) (\<lambda>_. sup_inv)"
  by (simp add: triple_def)

lemma keeps_state:
  "(\<And>s0. sup_inv s0 \<Longrightarrow> triple (sup_at (sup_disabled s0) (sv_process s0) {sv_state s0}) (f s0)
      (\<lambda>_. sup_inv) (\<lambda>_. sup_inv)) \<Longrightarrow> keeps (bindS getS f)"
  unfolding triple_preserves [symmetric]
  by (rule triple_state, drule meta_spec, drule (1) meta_mp, erule triple_weaken) (auto dest: sup_inv_at)

lemma keeps_triple: "keeps m \<Longrightarrow> triple (sup_at d p S) m (\<lambda>_. sup_inv) (\<lambda>_. sup_inv)"
  unfolding triple_preserves [symmetric] by (erule triple_weaken) (auto dest: sup_at_inv)

lemma sup_at_weaken: "triple (sup_at d p S') m Q E \<Longrightarrow> S \<subseteq> S' \<Longrightarrow> triple (sup_at d p S) m Q E"
  by (erule triple_weaken) (auto simp: sup_at_def)

lemma sup_at_result: "triple P m (\<lambda>_. sup_at d p S) E \<Longrightarrow> triple P m (\<lambda>_. sup_inv) E"
  by (erule triple_weaken) (auto dest: sup_at_inv)

lemma sup_at_fits: "sup_at d p {a. state_fits d p a} s = sup_at d p UNIV s"
  by (auto simp: sup_at_def sup_inv_def)

lemma sup_skip: "triple (sup_at d p S) (returnS x) (\<lambda>_. sup_at d p S) (\<lambda>_. sup_inv)"
  by (rule triple_return)

text \<open>A live process is drained, then stopped.\<close>

lemma drain_at: "triple (sup_at False (Some pid) UNIV) (transition env DRAINING)
    (\<lambda>_. sup_at False (Some pid) {DRAINING}) (\<lambda>_. sup_inv)"
proof (rule transition_at)
  fix a
  assume "state_fits False (Some pid) a" "a \<noteq> DRAINING"
  then show "lifecycle False a DRAINING" by (cases a) (auto simp: lifecycle_def state_fits_def)
qed (simp add: state_fits_def)

lemma stopping_at: "triple (sup_at False (Some pid) {DRAINING}) (transition env STOPPING)
    (\<lambda>_. sup_at False (Some pid) UNIV) (\<lambda>_. sup_inv)"
  by (rule triple_weaken [OF transition_at [where S = "{DRAINING}" and st = STOPPING]])
    (auto simp: lifecycle_def state_fits_def sup_at_def)

lemma failed_at: "triple (sup_at d p UNIV) (transition env FAILED) (\<lambda>_. sup_at d p {FAILED}) (\<lambda>_. sup_inv)"
proof (cases "state_fits d p FAILED")
  case True
  have "triple (sup_at d p {a. state_fits d p a}) (transition env FAILED) (\<lambda>_. sup_at d p {FAILED}) (\<lambda>_. sup_inv)"
    by (rule transition_at) (use True in \<open>auto simp: lifecycle_def\<close>)
  then show ?thesis unfolding sup_at_fits .
next
  case False
  have "state_fits d p (sv_state s)" if "sup_at d p UNIV s" for s :: "'a supervisor"
    using that unfolding sup_at_def sup_inv_def by blast
  with False have "\<not> sup_at d p UNIV s" for s :: "'a supervisor"
    using state_fits_failed by blast
  then show ?thesis by (simp add: triple_def)
qed

lemma at_stop_leader: "triple (sup_at False (Some pid) UNIV) (sup_stop_leader env t pid)
    (\<lambda>_. sup_at False (Some pid) UNIV) (\<lambda>_. sup_inv)"
  unfolding sup_stop_leader_def
  apply (rule triple_bind [OF sup_keep], intro sup_intros)
  apply (rule triple_if, rule sup_skip)
  apply (rule triple_seq [OF drain_at], rule triple_seq [OF stopping_at])
  apply (rule triple_seq [OF sup_keep], intro sup_intros)
  apply (rule triple_bind [OF sup_keep], intro sup_intros)
  apply (rule triple_if, rule sup_skip)
  apply (rule triple_seq [OF sup_keep], intro sup_intros)
  apply (rule triple_seq [OF sup_keep], intro sup_intros)
  apply (rule triple_bind [OF sup_keep], intro sup_intros)
  apply (rule triple_if, rule sup_skip)
  apply (rule triple_seq [OF failed_at], rule triple_raise)
  apply (erule sup_at_inv)
  done

lemma at_verify: "triple (sup_at d p UNIV) (verify_group_stopped env pgid) (\<lambda>_. sup_at d p UNIV) (\<lambda>_. sup_inv)"
  unfolding verify_group_stopped_def
proof (cases pgid)
  case (Some g)
  show "triple (sup_at d p UNIV) (case pgid of None \<Rightarrow> returnS () | Some g \<Rightarrow>
       bindS (on_world (ue_group_polls env g)) (\<lambda>(outs, last_output).
       bindS (liftS (group_stopped outs last_output)) (\<lambda>members.
       if members = [] then returnS ()
       else seqS (transition env FAILED) (raiseS (remaining_members g members))))) (\<lambda>_. sup_at d p UNIV) (\<lambda>_. sup_inv)"
    unfolding Some option.case
    apply (rule triple_bind [OF sup_keep], intro sup_intros, clarify)
    apply (rule triple_bind [OF sup_keep], intro sup_intros)
    apply (rule triple_if, rule sup_skip)
    apply (rule triple_seq [OF failed_at], rule triple_raise)
    apply (erule sup_at_inv)
    done
qed (simp add: sup_skip)

lemma forget_inv:
  assumes "sup_at False (Some pid) UNIV s" and s1_def: "s1 = s\<lparr>sv_process := None, sv_world := w, sv_drainers := False\<rparr>"
  shows "sup_inv (entered STOPPED s1) \<and> \<not> sup_disabled s1 \<and> sv_process s1 = None"
proof -
  have s: "sv_history s \<noteq> []" "hd (sv_history s) = CONFIGURED" "last (sv_history s) = sv_state s"
    "successively (lifecycle False) (sv_history s)" "sv_state s \<noteq> DISABLED" "\<not> sup_disabled s"
    using assms(1) by (auto simp: sup_at_def sup_inv_def initial_state_def state_fits_def)
  have s1: "sv_history s1 = sv_history s" "sv_state s1 = sv_state s" "sup_disabled s1 = sup_disabled s" "sv_process s1 = None"
    by (simp_all add: s1_def sup_disabled_def)
  have "sv_history (entered STOPPED s1) \<noteq> []" "hd (sv_history (entered STOPPED s1)) = CONFIGURED"
    "last (sv_history (entered STOPPED s1)) = STOPPED" "successively (lifecycle False) (sv_history (entered STOPPED s1))"
    by (rule history_entered; use s s1 in \<open>simp add: lifecycle_def\<close>)+
  then show ?thesis using s1 s(6) by (simp add: sup_inv_def initial_state_def state_fits_def)
qed

lemma at_forget: "triple (sup_at False (Some pid) UNIV) (forget_process env)
    (\<lambda>_. sup_at False None {STOPPED}) (\<lambda>_. sup_inv)"
  unfolding forget_process_def transition_def
proof (rule triple_seq [where R = "\<lambda>s. sup_inv (entered STOPPED s) \<and> \<not> sup_disabled s \<and> sv_process s = None"])
  show "triple (sup_at False (Some pid) UNIV) (modifyS (\<lambda>s. s\<lparr>sv_process := None,
      sv_world := (if sv_drainers s then ue_join env (sv_world s) else sv_world s), sv_drainers := False\<rparr>))
    (\<lambda>_ s. sup_inv (entered STOPPED s) \<and> \<not> sup_disabled s \<and> sv_process s = None) (\<lambda>_. sup_inv)"
    unfolding triple_def modifyS_def prod.case sum.case by (intro allI impI forget_inv [OF _ refl])
  have "triple (\<lambda>s. sup_inv (entered STOPPED s) \<and> \<not> sup_disabled s \<and> sv_process s = None)
      (modifyS (entered STOPPED)) (\<lambda>_. sup_at False None {STOPPED}) (\<lambda>_. sup_inv)"
    by (auto simp: triple_def modifyS_def sup_at_def)
  then show "triple (\<lambda>s. sup_inv (entered STOPPED s) \<and> \<not> sup_disabled s \<and> sv_process s = None)
      (seqS (modifyS (entered STOPPED)) (write_state_snapshot env)) (\<lambda>_. sup_at False None {STOPPED}) (\<lambda>_. sup_inv)"
    by (rule triple_seq) (intro sup_keep sup_intros)
qed

text \<open>A stop that returns leaves no process.\<close>

definition stopped_cleanly :: "'w supervisor \<Rightarrow> bool" where
  "stopped_cleanly s \<longleftrightarrow> sup_inv s \<and> sv_process s = None \<and> sv_state s \<in> {STOPPED, DISABLED}"

lemma stop_triple: "triple sup_inv (sup_stop env t) (\<lambda>_. stopped_cleanly) (\<lambda>_. sup_inv)"
  unfolding sup_stop_def
proof (rule triple_state)
  fix s0 :: "'a supervisor" assume inv: "sup_inv s0"
  show "triple (\<lambda>s. s = s0) (case sv_process s0 of
       None \<Rightarrow>
         if sv_state s0 \<noteq> DISABLED
         then seqS (transition env STOPPED) (emit_state env ''upstream.stop'' STOPPED)
         else returnS ()
     | Some pid \<Rightarrow>
         bindS (sup_group_id env pid) (\<lambda>pgid.
         seqS (sup_stop_leader env t pid)
         (seqS (sup_signal env pid ''SIGKILL'')
         (seqS (verify_group_stopped env pgid)
         (seqS (forget_process env)
           (emit_state env ''upstream.stop'' STOPPED)))))) (\<lambda>_. stopped_cleanly) (\<lambda>_. sup_inv)"
  proof (cases "sv_process s0")
    case None
    let ?d = "sup_disabled s0"
    have fits: "state_fits ?d None (sv_state s0)" using inv None by (simp add: sup_inv_def)
    have at: "sup_at ?d None {sv_state s0} s0" using sup_inv_at [OF inv] None by simp
    have stop: "triple (sup_at ?d None {sv_state s0}) (transition env STOPPED) (\<lambda>_. sup_at ?d None {STOPPED}) (\<lambda>_. sup_inv)"
      if "sv_state s0 \<noteq> DISABLED"
      by (rule transition_at) (use that fits in \<open>auto simp: lifecycle_def state_fits_def\<close>)
    have "triple (sup_at ?d None {sv_state s0})
        (seqS (transition env STOPPED) (emit_state env ''upstream.stop'' STOPPED))
        (\<lambda>_. sup_at ?d None {STOPPED}) (\<lambda>_. sup_inv)" if "sv_state s0 \<noteq> DISABLED"
      by (rule triple_seq [OF stop [OF that]]) (intro sup_keep sup_intros)
    then show ?thesis
      unfolding None option.case
      using at inv None
      by (intro triple_if triple_return)
        (auto intro!: triple_weaken [where P' = "sup_at ?d None {sv_state s0}" and P = "\<lambda>s. s = s0"]
          simp: stopped_cleanly_def sup_at_def)
  next
    case (Some pid)
    have d: "\<not> sup_disabled s0" using inv Some by (simp add: sup_inv_def state_fits_def)
    have "triple (sup_at False (Some pid) UNIV) (bindS (sup_group_id env pid) (\<lambda>pgid.
         seqS (sup_stop_leader env t pid)
         (seqS (sup_signal env pid ''SIGKILL'')
         (seqS (verify_group_stopped env pgid)
         (seqS (forget_process env)
           (emit_state env ''upstream.stop'' STOPPED)))))) (\<lambda>_. sup_at False None {STOPPED}) (\<lambda>_. sup_inv)"
      by (intro triple_bind [OF sup_keep] triple_seq [OF at_stop_leader] triple_seq [OF sup_keep]
          triple_seq [OF at_verify] triple_seq [OF at_forget] sup_keep sup_intros)
    then show ?thesis
      unfolding Some option.case
      by (rule triple_weaken)
        (use inv d Some in \<open>auto simp: stopped_cleanly_def sup_at_def\<close>)
  qed
qed

lemma at_status: "triple (sup_at d p UNIV) (sup_status env) (\<lambda>_. sup_at d p UNIV) (\<lambda>_. sup_inv)"
  unfolding sup_status_def
proof (rule triple_state)
  fix s0 :: "'a supervisor" assume at: "sup_at d p UNIV s0"
  have failed: "triple (sup_at d p UNIV) (seqS (transition env FAILED) (returnS x)) (\<lambda>_. sup_at d p UNIV) (\<lambda>_. sup_inv)" for x :: string
    by (rule triple_seq [OF failed_at], rule triple_return) (auto simp: sup_at_def)
  have "triple (sup_at d p UNIV) (case sv_process s0 of
       None \<Rightarrow> returnS (if sv_state s0 = DISABLED then state_value (sv_state s0) else ''stopped'')
     | Some pid \<Rightarrow>
         if ue_alive env pid (sv_world s0) then returnS ''running''
         else seqS (transition env FAILED) (returnS ''exited'')) (\<lambda>_. sup_at d p UNIV) (\<lambda>_. sup_inv)"
    using failed sup_skip by (cases "sv_process s0") (auto intro: triple_if)
  then show "triple (\<lambda>s. s = s0) (case sv_process s0 of
       None \<Rightarrow> returnS (if sv_state s0 = DISABLED then state_value (sv_state s0) else ''stopped'')
     | Some pid \<Rightarrow>
         if ue_alive env pid (sv_world s0) then returnS ''running''
         else seqS (transition env FAILED) (returnS ''exited'')) (\<lambda>_. sup_at d p UNIV) (\<lambda>_. sup_inv)"
    by (rule triple_weaken) (use at in auto)
qed

text \<open>The invariant with the possible states only.\<close>

definition sup_in :: "bool \<Rightarrow> upstream_state set \<Rightarrow> 'w supervisor \<Rightarrow> bool" where
  "sup_in d S s \<longleftrightarrow> sup_inv s \<and> sup_disabled s = d \<and> sv_state s \<in> S"

lemma sup_free_in [simp, sup_intros]: "sup_free (sup_in d S)"
  by (simp add: sup_free_def sup_in_def sup_disabled_def)

lemma sup_in_inv: "sup_in d S s \<Longrightarrow> sup_inv s"
  by (simp add: sup_in_def)

lemma sup_keep_in: "preserves (sup_in d S) m \<Longrightarrow> triple (sup_in d S) m (\<lambda>_. sup_in d S) (\<lambda>_. sup_inv)"
  unfolding triple_preserves [symmetric] by (erule triple_weaken) (auto dest: sup_in_inv)

definition startable :: "upstream_state set" where
  "startable = {CONFIGURED, STARTING, STOPPED, FAILED, BACKOFF}"

text \<open>After the status a process runs, or a start may begin.\<close>

definition has_process :: "'w supervisor \<Rightarrow> bool" where
  "has_process s \<longleftrightarrow> sup_inv s \<and> sv_process s \<noteq> None"

lemma stopped_startable:
  assumes "sup_inv s" and "\<not> sup_disabled s" and "sv_process s = None"
  shows "sup_in False startable s" and "sv_state s \<noteq> DISABLED"
proof -
  have fits: "state_fits False None (sv_state s)" using assms by (simp add: sup_inv_def)
  show "sv_state s \<noteq> DISABLED" using fits by (auto simp: state_fits_def)
  have "sv_state s \<in> startable" using fits by (cases "sv_state s") (simp_all add: startable_def state_fits_def)
  then show "sup_in False startable s" using assms by (simp add: sup_in_def)
qed

lemma status_running: "triple (\<lambda>s. sup_inv s \<and> \<not> sup_disabled s) (sup_status env)
    (\<lambda>r s. if r = ''running'' then has_process s else sup_in False startable s) (\<lambda>_. sup_inv)"
  unfolding sup_status_def
proof (rule triple_state)
  fix s0 :: "'a supervisor" assume s0: "sup_inv s0 \<and> \<not> sup_disabled s0"
  have at: "sup_at False (sv_process s0) UNIV s0" using s0 by (simp add: sup_at_def)
  have failed: "triple (sup_at False p UNIV) (seqS (transition env FAILED) (returnS ''exited''))
      (\<lambda>r s. if r = ''running'' then has_process s else sup_in False startable s) (\<lambda>_. sup_inv)" for p
    by (rule triple_seq [OF failed_at], rule triple_return) (simp add: sup_at_def sup_in_def startable_def)
  show "triple (\<lambda>s. s = s0) (case sv_process s0 of
       None \<Rightarrow> returnS (if sv_state s0 = DISABLED then state_value (sv_state s0) else ''stopped'')
     | Some pid \<Rightarrow>
         if ue_alive env pid (sv_world s0) then returnS ''running''
         else seqS (transition env FAILED) (returnS ''exited''))
      (\<lambda>r s. if r = ''running'' then has_process s else sup_in False startable s) (\<lambda>_. sup_inv)"
  proof (cases "sv_process s0")
    case None
    show ?thesis
      unfolding None option.case
      by (rule triple_return) (use s0 None stopped_startable [of s0] in simp)
  next
    case (Some pid)
    show ?thesis
      unfolding Some option.case
    proof (rule triple_if)
      show "triple (\<lambda>s. s = s0) (returnS ''running'')
          (\<lambda>r s. if r = ''running'' then has_process s else sup_in False startable s) (\<lambda>_. sup_inv)"
        by (rule triple_return) (use s0 Some in \<open>simp add: has_process_def\<close>)
      show "triple (\<lambda>s. s = s0) (seqS (transition env FAILED) (returnS ''exited''))
          (\<lambda>r s. if r = ''running'' then has_process s else sup_in False startable s) (\<lambda>_. sup_inv)"
        by (rule triple_weaken [OF failed [of "sv_process s0"]]) (use at in simp_all)
    qed
  qed
qed

lemma starting_in: "triple (sup_in False startable) (transition env STARTING) (\<lambda>_. sup_in False {STARTING}) (\<lambda>_. sup_inv)"
proof (rule tripleI)
  fix s :: "'a supervisor" and r s'
  assume s: "sup_in False startable s" and run: "transition env STARTING s = (r, s')"
  have "triple (sup_at False (sv_process s) startable) (transition env STARTING)
      (\<lambda>_. sup_at False (sv_process s) {STARTING}) (\<lambda>_. sup_inv)"
    by (rule transition_at) (auto simp: lifecycle_def startable_def state_fits_def)
  moreover have "sup_at False (sv_process s) startable s" using s by (simp add: sup_at_def sup_in_def)
  ultimately show "case r of Inl e \<Rightarrow> sup_inv s' | Inr x \<Rightarrow> sup_in False {STARTING} s'"
    using run by (fastforce simp: triple_def sup_in_def sup_at_def split: sum.splits)
qed

lemma keeps_fail_to_backoff: "triple sup_inv (fail_to_backoff env e) Q (\<lambda>_. sup_inv)"
  unfolding fail_to_backoff_def
  by (rule triple_seq [OF iffD2 [OF triple_preserves preserves_failed]],
      rule triple_seq [OF iffD2 [OF triple_preserves preserves_backoff]],
      rule triple_seq [OF iffD2 [OF triple_preserves]], intro sup_intros, rule triple_raise)

lemma triple_getS: "(\<And>s0. P s0 \<Longrightarrow> triple P (f s0) Q E) \<Longrightarrow> triple P (bindS getS f) Q E"
  by (simp add: triple_def bindS_def getS_def)

lemma spawn_at: "triple (sup_in False {STARTING}) (sup_spawn env dir child_env)
    (\<lambda>pid. sup_at False (Some pid) {STARTING}) (\<lambda>_. sup_inv)"
proof -
  have put: "triple (sup_in False {STARTING}) (modifyS (\<lambda>s. s\<lparr>sv_process := Some pid\<rparr>))
      (\<lambda>_. sup_at False (Some pid) {STARTING}) (\<lambda>_. sup_inv)" for pid
    by (clarsimp simp: triple_def modifyS_def sup_in_def sup_at_def sup_inv_def sup_disabled_def state_fits_def)
  show ?thesis
    unfolding sup_spawn_def
    apply (rule triple_getS)
    apply (rule triple_bind)
     apply (rule triple_catch [OF iffD2 [OF triple_preserves preserves_on_world [OF sup_free_in]]])
     apply (rule triple_if)
      apply (rule triple_weaken [OF keeps_fail_to_backoff], erule sup_in_inv, assumption, assumption)
     apply (rule triple_raise, erule sup_in_inv)
    apply (rule triple_seq [OF put], rule triple_return, assumption)
    done
qed

lemma at_activity: "triple (sup_at d p S) (sup_activity env t) (\<lambda>_. sup_at d p S) (\<lambda>_. sup_inv)"
  unfolding sup_activity_def by (intro sup_keep sup_intros preserves_modify) simp

lemma at_ready_rounds: "triple (sup_at d p UNIV) (ready_rounds n env check i) (\<lambda>_. sup_at d p UNIV) (\<lambda>_. sup_inv)"
proof (induction n)
  case 0
  show ?case by (simp, rule triple_bind [OF sup_keep], intro sup_intros, rule triple_raise, erule sup_at_inv)
next
  case (Suc n)
  show ?case
    unfolding ready_rounds.simps
    apply (rule triple_bind [OF sup_keep], intro sup_intros)
    apply (rule triple_if, rule at_activity)
    apply (rule triple_bind [OF at_status])
    apply (rule triple_if)
     apply (rule triple_bind [OF sup_keep], intro sup_intros, rule triple_raise, erule sup_at_inv)
    apply (rule triple_seq [OF sup_keep], intro sup_intros, rule Suc)
    done
qed

lemma at_check_readiness: "triple (sup_at d p UNIV) (check_readiness env rc i) (\<lambda>_. sup_at d p UNIV) (\<lambda>_. sup_inv)"
proof (cases rc)
  case None
  then show ?thesis by (simp add: check_readiness_def sup_skip)
next
  case (Some check)
  have "triple (sup_at d p UNIV) (wait_until_ready env check i) (\<lambda>_. sup_at d p UNIV) (\<lambda>_. sup_inv)"
    unfolding wait_until_ready_def
    by (rule triple_bind [OF sup_keep], intro sup_intros, rule triple_bind [OF sup_keep], intro sup_intros,
        rule at_ready_rounds)
  moreover have "triple sup_inv (seqS (sup_stop env t) (fail_to_backoff env e)) Q (\<lambda>_. sup_inv)"
    for t e and Q :: "unit \<Rightarrow> 'a supervisor \<Rightarrow> bool"
    by (rule triple_seq [OF stop_triple], rule triple_weaken [OF keeps_fail_to_backoff])
      (auto simp: stopped_cleanly_def)
  ultimately show ?thesis
    unfolding check_readiness_def Some option.case
    by (intro triple_catch [where F = "\<lambda>_. sup_inv"] triple_if triple_raise) auto
qed

lemma running_at: "triple (sup_at False (Some pid) {STARTING}) (transition env RUNNING)
    (\<lambda>_. sup_at False (Some pid) UNIV) (\<lambda>_. sup_inv)"
  by (rule triple_weaken [OF transition_at [where S = "{STARTING}" and st = RUNNING]])
    (auto simp: lifecycle_def state_fits_def sup_at_def)

lemma launch_triple: "triple (sup_in False startable) (launch env rc i) (\<lambda>_. has_process) (\<lambda>_. sup_inv)"
  unfolding launch_def start_output_drainers_def
  apply (rule triple_getS)
  apply (rule triple_bind [OF sup_keep_in], intro sup_intros)
  apply (rule triple_seq [OF sup_keep_in], intro sup_intros)
  apply (rule triple_seq [OF starting_in])
  apply (rule triple_seq [OF sup_keep_in], intro sup_intros)
  apply (rule triple_bind [OF sup_keep_in], intro sup_intros)
  apply (rule triple_bind [OF spawn_at])
  apply (rule triple_seq [OF sup_keep], intro sup_intros preserves_modify, simp)
  apply (rule triple_seq [OF at_activity])
  apply (rule triple_seq [OF running_at])
  apply (rule triple_seq [OF at_check_readiness])
  apply (rule triple_getS)
  apply (rule triple_weaken [OF sup_keep])
     apply (intro sup_intros)
    apply assumption
   apply (simp add: has_process_def sup_at_def)
  apply assumption
  done

lemma disabled_no_process: "sup_inv s \<Longrightarrow> sup_disabled s \<Longrightarrow> sup_at True None UNIV s"
  by (auto simp: sup_at_def sup_inv_def state_fits_def)

lemma start_triple: "triple sup_inv (sup_start env rc i) (\<lambda>_. has_process) (\<lambda>_. sup_inv)"
  unfolding sup_start_def
proof (rule triple_state)
  fix s0 :: "'a supervisor" assume inv: "sup_inv s0"
  have disable: "triple (sup_at True None UNIV) (transition env DISABLED) (\<lambda>_. sup_at True None {DISABLED}) (\<lambda>_. sup_inv)"
    by (rule transition_at) (simp_all add: lifecycle_def state_fits_def)
  have refused: "triple (sup_at True None UNIV)
      (seqS (transition env DISABLED) (seqS (emit_state env ''upstream.disabled'' DISABLED) (raiseS e)))
      (\<lambda>_. has_process) (\<lambda>_. sup_inv)" for e
    by (rule triple_seq [OF disable], rule triple_seq [OF sup_keep], intro sup_intros, rule triple_raise, erule sup_at_inv)
  have enabled: "triple (\<lambda>s. sup_inv s \<and> \<not> sup_disabled s) (bindS (sup_status env) (\<lambda>st.
       if st = ''running'' then returnS () else launch env rc i)) (\<lambda>_. has_process) (\<lambda>_. sup_inv)"
  proof (rule triple_bind [OF status_running], rule triple_if)
    fix st :: string
    assume "st = ''running''"
    then show "triple (\<lambda>s. if st = ''running'' then has_process s else sup_in False startable s) (returnS ())
        (\<lambda>_. has_process) (\<lambda>_. sup_inv)" by (intro triple_return) simp
  next
    fix st :: string
    assume "st \<noteq> ''running''"
    then show "triple (\<lambda>s. if st = ''running'' then has_process s else sup_in False startable s) (launch env rc i)
        (\<lambda>_. has_process) (\<lambda>_. sup_inv)" by (intro triple_weaken [OF launch_triple]) simp_all
  qed
  show "triple (\<lambda>s. s = s0) (if upstream_disabled (sv_upstream s0) then
       seqS (transition env DISABLED)
       (seqS (emit_state env ''upstream.disabled'' DISABLED)
         (raiseS (Exn ValueError (''upstream disabled: '' @ up_name (sv_upstream s0)))))
     else bindS (sup_status env) (\<lambda>st. if st = ''running'' then returnS () else launch env rc i))
     (\<lambda>_. has_process) (\<lambda>_. sup_inv)"
  proof (rule triple_if)
    assume d: "upstream_disabled (sv_upstream s0)"
    show "triple (\<lambda>s. s = s0) (seqS (transition env DISABLED) (seqS (emit_state env ''upstream.disabled'' DISABLED)
         (raiseS (Exn ValueError (''upstream disabled: '' @ up_name (sv_upstream s0))))))
       (\<lambda>_. has_process) (\<lambda>_. sup_inv)"
      by (rule triple_weaken [OF refused])
        (use d inv disabled_no_process [of s0] in \<open>simp_all add: sup_disabled_def\<close>)
  next
    assume d: "\<not> upstream_disabled (sv_upstream s0)"
    show "triple (\<lambda>s. s = s0) (bindS (sup_status env) (\<lambda>st. if st = ''running'' then returnS () else launch env rc i))
       (\<lambda>_. has_process) (\<lambda>_. sup_inv)"
      by (rule triple_weaken [OF enabled]) (use d inv in \<open>simp_all add: sup_disabled_def\<close>)
  qed
qed

end
