(* ===== verification/Supervisor_Runs.thy ===== *)
theory Supervisor_Runs
  imports Supervisor_Facts
begin

text \<open>
  Sequences of operations on a supervisor, whatever raises in between: the life cycle, the limits of
  its restarts, what the watchdogs need before they stop a process, and stopping a whole registry.
\<close>

section \<open>Operations\<close>

datatype 'w sup_op =
    Start "('w, exn, bool) sem option" rat
  | Stop rat
  | Restart
  | AfterFailure "rat option"
  | Activity "rat option"
  | ReapIdle "rat option"
  | KillSpinning rat rat "rat option"
  | KillGroupSpinning rat "rat option"
  | KillOverCeiling "rat option"
  | KillGroupOverMemory
  | AskStatus
  | AskState

text \<open>The supervisor an operation leaves, whether it returns or raises.\<close>

fun after_op :: "'w sup_env \<Rightarrow> 'w sup_op \<Rightarrow> 'w supervisor \<Rightarrow> 'w supervisor" where
  "after_op env (Start ready_check poll_interval) s = snd (sup_start env ready_check poll_interval s)"
| "after_op env (Stop timeout_seconds) s = snd (sup_stop env timeout_seconds s)"
| "after_op env Restart s = snd (sup_restart env s)"
| "after_op env (AfterFailure t) s = snd (restart_after_failure env t s)"
| "after_op env (Activity t) s = snd (sup_activity env t s)"
| "after_op env (ReapIdle t) s = snd (reap_if_idle env t s)"
| "after_op env (KillSpinning cpu window t) s = snd (kill_if_spinning env cpu window t s)"
| "after_op env (KillGroupSpinning window t) s = snd (kill_if_process_group_spinning env window t s)"
| "after_op env (KillOverCeiling mb) s = snd (kill_if_memory_over_ceiling env mb s)"
| "after_op env KillGroupOverMemory s = snd (kill_if_process_group_over_memory env s)"
| "after_op env AskStatus s = snd (sup_status env s)"
| "after_op env AskState s = snd (sup_state env s)"

definition after_ops :: "'w sup_env \<Rightarrow> 'w sup_op list \<Rightarrow> 'w supervisor \<Rightarrow> 'w supervisor" where
  "after_ops env ops s = fold (after_op env) ops s"

definition created :: "'w sup_env \<Rightarrow> upstream_config \<Rightarrow> path \<Rightarrow> 'w \<Rightarrow> 'w supervisor" where
  "created env u dir w = snd (sup_post_init env (new_supervisor u dir 0 w))"

lemma after_ops_simps [simp]:
  "after_ops env [] s = s"
  "after_ops env (op # ops) s = after_ops env ops (after_op env op s)"
  by (simp_all add: after_ops_def)

section \<open>The life cycle\<close>

lemma keeps_of_triple: "triple sup_inv m Q (\<lambda>_. sup_inv) \<Longrightarrow> (\<And>x s. Q x s \<Longrightarrow> sup_inv s) \<Longrightarrow> preserves sup_inv m"
  unfolding triple_preserves [symmetric] by (erule triple_weaken) simp_all

lemma keeps_stop [sup_intros]: "preserves sup_inv (sup_stop env t)"
  by (rule keeps_of_triple [OF stop_triple]) (simp add: stopped_cleanly_def)

lemma keeps_start [sup_intros]: "preserves sup_inv (sup_start env rc i)"
  by (rule keeps_of_triple [OF start_triple]) (simp add: has_process_def)

lemma keeps_status [sup_intros]: "preserves sup_inv (sup_status env)"
  unfolding sup_status_def by (intro sup_intros)

lemma keeps_ask_state [sup_intros]: "preserves sup_inv (sup_state env)"
  unfolding sup_state_def by (intro sup_intros)

lemma keeps_activity [sup_intros]: "preserves sup_inv (sup_activity env t)"
  unfolding sup_activity_def by (intro sup_intros preserves_modify) simp

lemma keeps_restart [sup_intros]: "preserves sup_inv (sup_restart env)"
  unfolding sup_restart_def plain_start_def plain_stop_def count_restart_def
  by (intro sup_intros preserves_modify) simp

lemma keeps_after_failure [sup_intros]: "preserves sup_inv (restart_after_failure env t)"
  unfolding restart_after_failure_def plain_start_def plain_stop_def Let_def
  by (intro sup_intros preserves_modify) simp

lemma keeps_reap [sup_intros]: "preserves sup_inv (reap_if_idle env t)"
  unfolding reap_if_idle_def plain_stop_def by (intro sup_intros)

lemma keeps_spinning [sup_intros]: "preserves sup_inv (kill_if_spinning env cpu window t)"
  unfolding kill_if_spinning_def plain_stop_def Let_def by (intro sup_intros)

lemma keeps_group_spinning [sup_intros]: "preserves sup_inv (kill_if_process_group_spinning env window t)"
  unfolding kill_if_process_group_spinning_def by (intro sup_intros)

lemma keeps_ceiling [sup_intros]: "preserves sup_inv (kill_if_memory_over_ceiling env mb)"
  unfolding kill_if_memory_over_ceiling_def plain_stop_def prod.case by (intro sup_intros)

lemma keeps_group_memory [sup_intros]: "preserves sup_inv (kill_if_process_group_over_memory env)"
  unfolding kill_if_process_group_over_memory_def by (intro sup_intros)

lemma after_op_inv: "sup_inv s \<Longrightarrow> sup_inv (after_op env op s)"
  by (cases op) (simp_all add: preservesD sup_intros)

section \<open>What an operation never changes\<close>

definition counted :: "upstream_config \<Rightarrow> int \<Rightarrow> rat option \<Rightarrow> 'w supervisor \<Rightarrow> bool" where
  "counted u n l s \<longleftrightarrow> sv_upstream s = u \<and> sv_restart_count s = n \<and> sv_last_restart s = l"

lemma counted_simps [simp]:
  "counted u n l (s\<lparr>sv_world := w\<rparr>) = counted u n l s"
  "counted u n l (s\<lparr>sv_process := p\<rparr>) = counted u n l s"
  "counted u n l (s\<lparr>sv_process := p, sv_world := w, sv_drainers := b\<rparr>) = counted u n l s"
  "counted u n l (s\<lparr>sv_drainers := b\<rparr>) = counted u n l s"
  "counted u n l (s\<lparr>sv_last_activity := t\<rparr>) = counted u n l s"
  "counted u n l (entered st s) = counted u n l s"
  by (simp_all add: counted_def)

lemma counted_free [simp, sup_intros]: "sup_free (counted u n l)"
  by (simp add: sup_free_def)

lemma same_transition [sup_intros]: "preserves (counted u n l) (transition env st)"
  by (rule preserves_transition) simp_all

lemma same_verify [sup_intros]: "preserves (counted u n l) (verify_group_stopped env pgid)"
  unfolding verify_group_stopped_def by (intro sup_intros)

lemma same_leader [sup_intros]: "preserves (counted u n l) (sup_stop_leader env t pid)"
  unfolding sup_stop_leader_def by (intro sup_intros)

lemma same_forget [sup_intros]: "preserves (counted u n l) (forget_process env)"
  unfolding forget_process_def by (intro sup_intros preserves_modify) simp

lemma same_stop [sup_intros]: "preserves (counted u n l) (sup_stop env t)"
  unfolding sup_stop_def by (intro sup_intros)

lemma same_status [sup_intros]: "preserves (counted u n l) (sup_status env)"
  unfolding sup_status_def by (intro sup_intros)

lemma same_ask_state [sup_intros]: "preserves (counted u n l) (sup_state env)"
  unfolding sup_state_def by (intro sup_intros)

lemma same_activity [sup_intros]: "preserves (counted u n l) (sup_activity env t)"
  unfolding sup_activity_def by (intro sup_intros preserves_modify) simp

lemma same_backoff [sup_intros]: "preserves (counted u n l) (fail_to_backoff env e)"
  unfolding fail_to_backoff_def by (intro sup_intros)

lemma same_spawn [sup_intros]: "preserves (counted u n l) (sup_spawn env dir child_env)"
  unfolding sup_spawn_def by (intro sup_intros preserves_modify) simp

lemma same_drainers [sup_intros]: "preserves (counted u n l) (start_output_drainers env pid dir)"
  unfolding start_output_drainers_def by (intro sup_intros preserves_modify) simp

lemma same_rounds [sup_intros]: "preserves (counted u n l) (ready_rounds k env check i)"
  by (induction k) (simp_all, (intro sup_intros; assumption?)+)

lemma same_readiness [sup_intros]: "preserves (counted u n l) (check_readiness env rc i)"
  unfolding check_readiness_def wait_until_ready_def by (intro sup_intros)

lemma same_start [sup_intros]: "preserves (counted u n l) (sup_start env rc i)"
  unfolding sup_start_def launch_def by (intro sup_intros)

lemma same_watchdogs [sup_intros]:
  "preserves (counted u n l) (reap_if_idle env t)"
  "preserves (counted u n l) (kill_if_spinning env cpu window t)"
  "preserves (counted u n l) (kill_if_memory_over_ceiling env mb)"
  unfolding reap_if_idle_def kill_if_spinning_def kill_if_memory_over_ceiling_def plain_stop_def Let_def prod.case
  by (intro sup_intros)+

lemma same_group_watchdogs [sup_intros]:
  "preserves (counted u n l) (kill_if_process_group_spinning env window t)"
  "preserves (counted u n l) (kill_if_process_group_over_memory env)"
  unfolding kill_if_process_group_spinning_def kill_if_process_group_over_memory_def by (intro sup_intros)+

section \<open>Any sequence of operations\<close>

lemma after_seq: "P (snd (m s)) \<Longrightarrow> preserves P n \<Longrightarrow> P (snd (seqS m n s))"
  by (cases "m s") (auto simp: seqS_def bindS_def preserves_def split: sum.splits)

lemma first_transition:
  assumes "sup_inv (entered st s)"
  shows "sup_inv (snd (transition env st s))"
  unfolding transition_def by (rule after_seq [where P = sup_inv]) (use assms in \<open>simp_all add: modifyS_def preserves_write_snapshot\<close>)

lemma created_inv: "sup_inv (created env u dir w)"
proof -
  let ?s = "new_supervisor u dir 0 w" and ?d = "upstream_disabled u"
  have s: "sv_history ?s = []" "sv_process ?s = None" "sup_disabled ?s = ?d" "sv_upstream ?s = u"
    by (simp_all add: sup_disabled_def new_supervisor_def)
  have "sv_history (entered st ?s) = [st]" for st by (simp add: entered_def s)
  then have "sup_inv (entered (initial_state ?d) ?s)"
    by (simp add: sup_inv_def s state_fits_def) (simp add: initial_state_def)
  then have first: "sup_inv (snd (transition env (initial_state ?d) ?s))" by (rule first_transition)
  have run: "sup_post_init env ?s = (if ?d
      then seqS (transition env DISABLED) (emit_state env ''upstream.disabled'' DISABLED) ?s
      else transition env CONFIGURED ?s)"
    by (simp add: sup_post_init_def bindS_def getS_def s)
  show ?thesis
  proof (cases ?d)
    case True
    then have "sup_inv (snd (seqS (transition env DISABLED) (emit_state env ''upstream.disabled'' DISABLED) ?s))"
      using first by (intro after_seq [where P = sup_inv]) (simp_all add: initial_state_def preserves_emit_state)
    with True show ?thesis by (simp add: created_def run)
  next
    case False
    with first show ?thesis by (simp add: created_def run initial_state_def)
  qed
qed

lemma same_upstream:
  assumes "\<And>n l. preserves (counted u n l) m"
  shows "preserves (\<lambda>s. sv_upstream s = u) m"
proof (rule preservesI)
  fix s :: "'a supervisor" assume "sv_upstream s = u"
  then have "counted u (sv_restart_count s) (sv_last_restart s) s" by (simp add: counted_def)
  from preservesD [OF assms this] show "sv_upstream (snd (m s)) = u" by (simp add: counted_def)
qed

lemma of_upstream_free [sup_intros]: "sup_free (\<lambda>s. sv_upstream s = u)"
  by (simp add: sup_free_def)

lemma same_restarts:
  "preserves (\<lambda>s. sv_upstream s = u) (sup_restart env)"
  "preserves (\<lambda>s. sv_upstream s = u) (restart_after_failure env t)"
  unfolding sup_restart_def restart_after_failure_def plain_start_def plain_stop_def count_restart_def Let_def
  by (intro sup_intros same_upstream preserves_modify; simp)+

lemma after_op_upstream: "sv_upstream (after_op env op s) = sv_upstream s"
  by (cases op) (simp_all add: preservesD [where I = "\<lambda>s'. sv_upstream s' = sv_upstream s"]
    same_upstream sup_intros same_restarts)

lemma created_upstream: "sv_upstream (created env u dir w) = u"
proof -
  have "preserves (\<lambda>s. sv_upstream s = u) (sup_post_init env)"
    unfolding sup_post_init_def by (intro sup_intros preserves_transition) simp_all
  then show ?thesis unfolding created_def by (rule preservesD) (simp add: new_supervisor_def)
qed

text \<open>The supervisors of an upstream, stepped by the operations.\<close>

definition created_for :: "'w sup_env \<Rightarrow> upstream_config \<Rightarrow> 'w supervisor \<Rightarrow> bool" where
  "created_for env u s \<longleftrightarrow> (\<exists>dir w. s = created env u dir w)"

definition operated :: "'w sup_env \<Rightarrow> 'w supervisor \<Rightarrow> 'w supervisor \<Rightarrow> bool" where
  "operated env s t \<longleftrightarrow> (\<exists>op. t = after_op env op s)"

definition supervises :: "upstream_config \<Rightarrow> 'w supervisor \<Rightarrow> bool" where
  "supervises u s \<longleftrightarrow> sup_inv s \<and> sv_upstream s = u"

interpretation supervision: transition_system "created_for env u" "operated env" "supervises u"
  for env :: "'w sup_env" and u :: upstream_config
  by unfold_locales
    (auto simp: created_for_def operated_def supervises_def created_inv created_upstream after_op_inv after_op_upstream)

lemma operated_ops: "(operated env)\<^sup>*\<^sup>* s (after_ops env ops s)"
proof (induction ops arbitrary: s)
  case (Cons op ops)
  have "operated env s (after_op env op s)" by (auto simp: operated_def)
  with Cons show ?case by (simp add: converse_rtranclp_into_rtranclp)
qed simp

lemma supervises_after_ops: "supervises u s \<Longrightarrow> supervises u (after_ops env ops s)"
  by (rule supervision.steps_inv [OF operated_ops])

text \<open>C15. The history of a supervisor is a path of the life cycle from its first state to the present
  one, and the present state fits whether it has a process, after any sequence of operations, whatever
  the operating system does and whatever raises on the way. So a process was STARTING before it was
  RUNNING, STOPPING comes after DRAINING, and a disabled upstream never starts.\<close>

theorem supervised_lifecycle:
  "let s = after_ops env ops (created env u dir w); d = upstream_disabled u in
     sv_history s \<noteq> [] \<and> hd (sv_history s) = initial_state d \<and> last (sv_history s) = sv_state s \<and>
     successively (lifecycle d) (sv_history s) \<and> state_fits d (sv_process s) (sv_state s)"
proof -
  have "supervises u (created env u dir w)" by (simp add: supervises_def created_inv created_upstream)
  from supervises_after_ops [OF this, of env ops]
  have inv: "sup_inv (after_ops env ops (created env u dir w))"
    and u: "sup_disabled (after_ops env ops (created env u dir w)) = upstream_disabled u"
    by (simp_all add: supervises_def sup_disabled_def)
  from inv show ?thesis unfolding sup_inv_def u Let_def .
qed

section \<open>Restarts\<close>

text \<open>The times of the restarts after failures that were counted.\<close>

fun restart_times :: "'w sup_env \<Rightarrow> 'w sup_op list \<Rightarrow> 'w supervisor \<Rightarrow> rat list" where
  "restart_times env [] s = []"
| "restart_times env (op # ops) s =
     (let s' = after_op env op s in
      (case op of
         AfterFailure _ \<Rightarrow> if sv_restart_count s' = sv_restart_count s then []
           else (case sv_last_restart s' of None \<Rightarrow> [] | Some t \<Rightarrow> [t])
       | _ \<Rightarrow> []) @ restart_times env ops s')"

text \<open>What one operation may do to the counters of a supervisor.\<close>

definition may_restart :: "upstream_config \<Rightarrow> int \<Rightarrow> rat option \<Rightarrow> 'w supervisor \<Rightarrow> bool" where
  "may_restart u n l s \<longleftrightarrow> counted u n l s \<or>
     n < max_attempts (up_restart u) \<and>
     (\<exists>now. (\<forall>t. l = Some t \<longrightarrow> of_int (backoff_seconds (up_restart u)) \<le> now - t) \<and> counted u (n + 1) (Some now) s)"

lemma after_failure_counts:
  "triple (counted u n l) (restart_after_failure env t) (\<lambda>_. may_restart u n l) (\<lambda>_. may_restart u n l)"
proof -
  have same: "triple (counted u n l) m (\<lambda>_. counted u n l) (\<lambda>_. may_restart u n l)"
    if "preserves (counted u n l) m" for m :: "('a, 'b) sup_sem"
    by (rule triple_weaken [OF iffD2 [OF triple_preserves that]]) (simp_all add: may_restart_def)
  have unchanged: "counted u n l s \<Longrightarrow> may_restart u n l s" for s :: "'a supervisor"
    by (simp add: may_restart_def)
  have restarted: "triple (counted u n l) (seqS (modifyS (\<lambda>s. s\<lparr>sv_restart_count := sv_restart_count s + 1, sv_last_restart := Some now\<rparr>))
       (bindS getS (\<lambda>s. seqS (sup_emit env ''upstream.restart'' [(''restart_count'', PInt (sv_restart_count s))])
         (seqS (plain_start env) (returnS True))))) (\<lambda>_. may_restart u n l) (\<lambda>_. may_restart u n l)"
    if "\<not> max_attempts (up_restart u) \<le> n"
      and "\<not> (case l of None \<Rightarrow> False | Some t \<Rightarrow> now - t < of_int (backoff_seconds (up_restart u)))" for now
  proof (rule triple_seq)
    show "triple (counted u n l) (modifyS (\<lambda>s. s\<lparr>sv_restart_count := sv_restart_count s + 1, sv_last_restart := Some now\<rparr>))
        (\<lambda>_. counted u (n + 1) (Some now)) (\<lambda>_. may_restart u n l)"
      by (simp add: triple_def modifyS_def counted_def)
    have keep: "preserves (counted u (n + 1) (Some now)) (bindS getS (\<lambda>s. seqS (sup_emit env ''upstream.restart''
        [(''restart_count'', PInt (sv_restart_count s))]) (seqS (plain_start env) (returnS True))))"
      unfolding plain_start_def by (intro sup_intros)
    have "counted u (n + 1) (Some now) s \<Longrightarrow> may_restart u n l s" for s :: "'a supervisor"
      unfolding may_restart_def using that by (intro disjI2 conjI exI [of _ now]) (auto split: option.splits)
    then show "triple (counted u (n + 1) (Some now)) (bindS getS (\<lambda>s. seqS (sup_emit env ''upstream.restart''
        [(''restart_count'', PInt (sv_restart_count s))]) (seqS (plain_start env) (returnS True))))
        (\<lambda>_. may_restart u n l) (\<lambda>_. may_restart u n l)"
      by (intro triple_weaken [OF iffD2 [OF triple_preserves keep]])
  qed
  show ?thesis
    unfolding restart_after_failure_def Let_def
  proof (rule triple_bind [OF same], intro sup_intros, rule triple_getS)
    fix now and s0 :: "'a supervisor"
    assume "counted u n l s0"
    then have s0: "sv_upstream s0 = u" "sv_restart_count s0 = n" "sv_last_restart s0 = l" by (simp_all add: counted_def)
    show "triple (counted u n l) (if max_attempts (up_restart (sv_upstream s0)) \<le> sv_restart_count s0 then
         seqS (transition env FAILED)
           (raiseS (Exn RuntimeError (''restart circuit open: '' @ up_name (sv_upstream s0))))
       else if (case sv_last_restart s0 of None \<Rightarrow> False | Some t \<Rightarrow> now - t < of_int (backoff_seconds (up_restart (sv_upstream s0)))) then
         seqS (transition env BACKOFF)
         (seqS (emit_state env ''upstream.backoff'' BACKOFF) (returnS False))
       else
         bindS (sup_status env) (\<lambda>st.
         seqS (if st = ''running'' then plain_stop env else returnS ())
         (seqS (modifyS (\<lambda>s. s\<lparr>sv_restart_count := sv_restart_count s + 1, sv_last_restart := Some now\<rparr>))
         (bindS getS (\<lambda>s. seqS (sup_emit env ''upstream.restart'' [(''restart_count'', PInt (sv_restart_count s))])
           (seqS (plain_start env) (returnS True)))))))
      (\<lambda>_. may_restart u n l) (\<lambda>_. may_restart u n l)"
      unfolding s0 plain_stop_def
      apply (rule triple_if)
       apply (rule triple_seq [OF same], intro sup_intros, rule triple_raise, erule unchanged)
      apply (rule triple_if)
       apply (rule triple_seq [OF same], intro sup_intros)
       apply (rule triple_seq [OF same], intro sup_intros)
       apply (rule triple_return, erule unchanged)
      apply (rule triple_bind [OF same], intro sup_intros)
      apply (rule triple_seq [OF same], intro sup_intros)
      apply (rule restarted, assumption, assumption)
      done
  qed
qed

text \<open>An explicit restart adds one to the counter, or nothing when the stop before it raises.\<close>

definition once_more :: "upstream_config \<Rightarrow> int \<Rightarrow> rat option \<Rightarrow> 'w supervisor \<Rightarrow> bool" where
  "once_more u n l s \<longleftrightarrow> counted u n l s \<or> counted u (n + 1) l s"

lemma restart_counts: "triple (counted u n l) (sup_restart env) (\<lambda>_. once_more u n l) (\<lambda>_. once_more u n l)"
proof -
  have same: "triple (counted u k l) m (\<lambda>_. counted u k l) (\<lambda>_. once_more u n l)"
    if "preserves (counted u k l) m" and "k = n \<or> k = n + 1" for m :: "('a, 'b) sup_sem" and k
    by (rule triple_weaken [OF iffD2 [OF triple_preserves that(1)]]) (use that(2) in \<open>auto simp: once_more_def\<close>)
  have counts: "triple (counted u n l) count_restart (\<lambda>_. counted u (n + 1) l) (\<lambda>_. once_more u n l)"
    by (simp add: triple_def count_restart_def modifyS_def counted_def)
  have start: "triple (counted u (n + 1) l) (plain_start env) (\<lambda>_. once_more u n l) (\<lambda>_. once_more u n l)"
    by (rule triple_weaken [OF same [of "n + 1"]]) (simp_all add: plain_start_def sup_intros once_more_def)
  show ?thesis
    unfolding sup_restart_def
    by (rule triple_bind [OF same [of n]], intro sup_intros, simp, rule triple_seq [OF same [of n]], intro sup_intros, simp,
      rule triple_seq [OF same [of n]], unfold plain_stop_def, intro sup_intros, simp,
      rule triple_seq [OF counts], rule start)
qed

lemma after_op_counts:
  assumes "counted u n l s"
  shows "case op of AfterFailure t \<Rightarrow> may_restart u n l (after_op env op s)
    | Restart \<Rightarrow> once_more u n l (after_op env op s) | _ \<Rightarrow> counted u n l (after_op env op s)"
proof -
  have same: "counted u n l (snd (m s))" if "preserves (counted u n l) m" for m :: "('a, 'b) sup_sem"
    using preservesD [OF that assms] .
  have failure: "may_restart u n l (snd (restart_after_failure env t s))" for t
    using after_failure_counts [of u n l env t] assms unfolding triple_def
    by (cases "restart_after_failure env t s") (auto split: sum.splits)
  have restart: "once_more u n l (snd (sup_restart env s))"
    using restart_counts [of u n l env] assms unfolding triple_def
    by (cases "sup_restart env s") (auto split: sum.splits)
  show ?thesis
    by (cases op) (simp_all add: failure restart same sup_intros)
qed

definition spaced :: "rat \<Rightarrow> rat option \<Rightarrow> rat list \<Rightarrow> bool" where
  "spaced gap before ts \<longleftrightarrow>
     successively (\<lambda>t t'. gap \<le> t' - t) ((case before of None \<Rightarrow> [] | Some t \<Rightarrow> [t]) @ ts)"

lemma spaced_Cons: "spaced gap before (now # ts) \<longleftrightarrow>
    (case before of None \<Rightarrow> True | Some t \<Rightarrow> gap \<le> now - t) \<and> spaced gap (Some now) ts"
  by (cases before) (simp_all add: spaced_def)

lemma spaced_Nil: "spaced gap before []"
  by (cases before) (simp_all add: spaced_def)


section \<open>Watchdogs\<close>

lemma status_watch: "triple (\<lambda>s. s = s0) (sup_status env)
    (\<lambda>r s. sv_process s = sv_process s0 \<and> (if r = ''running'' then s = s0 \<and> sup_pid env s0 \<noteq> None else sup_pid env s0 = None))
    (\<lambda>_ _. True)"
  unfolding sup_status_def
proof (rule triple_state)
  fix s assume s: "s = s0"
  have same: "preserves (\<lambda>s. sv_process s = p) (transition env FAILED)" for p
    by (rule preserves_transition) (simp_all add: sup_free_def)
  have exited: "triple (\<lambda>s. s = s0) (seqS (transition env FAILED) (returnS ''exited''))
      (\<lambda>r s. sv_process s = sv_process s0 \<and> r = ''exited'') (\<lambda>_ _. True)"
    apply (rule triple_seq [where R = "\<lambda>s. sv_process s = sv_process s0"])
     apply (rule triple_weaken [OF iffD2 [OF triple_preserves same [of "sv_process s0"]]], simp, assumption, simp)
    apply (rule triple_return, simp)
    done
  show "triple (\<lambda>t. t = s) (case sv_process s of
       None \<Rightarrow> returnS (if sv_state s = DISABLED then state_value (sv_state s) else ''stopped'')
     | Some pid \<Rightarrow> if ue_alive env pid (sv_world s) then returnS ''running''
         else seqS (transition env FAILED) (returnS ''exited''))
    (\<lambda>r s. sv_process s = sv_process s0 \<and> (if r = ''running'' then s = s0 \<and> sup_pid env s0 \<noteq> None else sup_pid env s0 = None))
    (\<lambda>_ _. True)"
  proof (cases "sv_process s")
    case None
    then show ?thesis using s by (simp add: triple_def returnS_def sup_pid_def)
  next
    case (Some pid)
    show ?thesis
    proof (cases "ue_alive env pid (sv_world s)")
      case True
      then show ?thesis using s Some by (simp add: triple_def returnS_def sup_pid_def)
    next
      case False
      have "triple (\<lambda>t. t = s) (seqS (transition env FAILED) (returnS ''exited''))
        (\<lambda>r s. sv_process s = sv_process s0 \<and> (if r = ''running'' then s = s0 \<and> sup_pid env s0 \<noteq> None else sup_pid env s0 = None))
        (\<lambda>_ _. True)"
        by (rule triple_weaken [OF exited]) (use s Some False in \<open>auto simp: sup_pid_def\<close>)
      then show ?thesis using Some False by simp
    qed
  qed
qed

text \<open>A stop that returns leaves no process, and a transition after it keeps it that way.\<close>

lemma stop_leaves_none: "triple sup_inv (plain_stop env) (\<lambda>_ s. sv_process s = None) (\<lambda>_ _. True)"
  unfolding plain_stop_def by (rule triple_weaken [OF stop_triple]) (simp_all add: stopped_cleanly_def)

lemma fail_after_stop: "triple (\<lambda>s. sv_process s = None) (transition env FAILED)
    (\<lambda>_ s. sv_process s = None \<and> sv_state s = FAILED) (\<lambda>_ _. True)"
proof -
  have "preserves (\<lambda>s. sv_process s = None \<and> sv_state s = FAILED) (write_state_snapshot env)"
    by (rule preserves_write_snapshot) (simp add: sup_free_def)
  then have snapshot: "triple (\<lambda>s. sv_process s = None \<and> sv_state s = FAILED) (write_state_snapshot env)
      (\<lambda>_ s. sv_process s = None \<and> sv_state s = FAILED) (\<lambda>_ _. True)"
    by (intro triple_weaken [OF iffD2 [OF triple_preserves]]) simp_all
  show ?thesis
    unfolding transition_def by (rule triple_seq [OF _ snapshot]) (simp add: triple_def modifyS_def)
qed

text \<open>A watchdog that acts leaves no process; one that does not leaves the process it found.\<close>

definition watched :: "'w sup_env \<Rightarrow> bool \<Rightarrow> 'w supervisor \<Rightarrow> bool \<Rightarrow> 'w supervisor \<Rightarrow> bool" where
  "watched env cause s0 acted s \<longleftrightarrow>
     (if acted then sup_pid env s0 \<noteq> None \<and> cause \<and> sv_process s = None
      else sv_process s = sv_process s0 \<and> (sup_pid env s0 \<noteq> None \<longrightarrow> \<not> cause \<and> s = s0))"

lemma watch_running:
  assumes "triple (\<lambda>s. s = s0 \<and> sup_pid env s0 \<noteq> None) m (\<lambda>r s. watched env cause s0 r s) (\<lambda>_ _. True)"
  shows "triple (\<lambda>s. s = s0) (bindS (sup_status env) (\<lambda>st. if st \<noteq> ''running'' then returnS False else m))
    (\<lambda>r s. watched env cause s0 r s) (\<lambda>_ _. True)"
proof (rule triple_bind [OF status_watch], rule triple_if)
  fix st :: string
  assume st: "st \<noteq> ''running''"
  show "triple (\<lambda>s. sv_process s = sv_process s0 \<and>
      (if st = ''running'' then s = s0 \<and> sup_pid env s0 \<noteq> None else sup_pid env s0 = None))
    (returnS False) (\<lambda>r s. watched env cause s0 r s) (\<lambda>_ _. True)"
    by (rule triple_return) (use st in \<open>simp add: watched_def\<close>)
next
  fix st :: string
  assume st: "\<not> st \<noteq> ''running''"
  show "triple (\<lambda>s. sv_process s = sv_process s0 \<and>
      (if st = ''running'' then s = s0 \<and> sup_pid env s0 \<noteq> None else sup_pid env s0 = None))
    m (\<lambda>r s. watched env cause s0 r s) (\<lambda>_ _. True)"
    by (rule triple_weaken [OF assms]) (use st in simp_all)
qed

lemma watched_keep: "\<not> cause \<Longrightarrow> triple (\<lambda>s. s = s0 \<and> sup_pid env s0 \<noteq> None) (returnS False)
    (\<lambda>r s. watched env cause s0 r s) (\<lambda>_ _. True)"
  by (rule triple_return) (simp add: watched_def)

lemma watched_stop:
  assumes "sup_inv s0" and "cause"
  shows "triple (\<lambda>s. s = s0 \<and> sup_pid env s0 \<noteq> None) (seqS (plain_stop env) (returnS True))
    (\<lambda>r s. watched env cause s0 r s) (\<lambda>_ _. True)"
proof -
  have "triple (\<lambda>s. (sup_pid env s0 \<noteq> None) \<and> s = s0) (seqS (plain_stop env) (returnS True))
      (\<lambda>r s. watched env cause s0 r s) (\<lambda>_ _. True)"
    by (rule triple_pure, rule triple_seq [OF triple_weaken [OF stop_leaves_none]], use assms(1) in simp, assumption, simp)
      (rule triple_return, use assms(2) in \<open>simp add: watched_def\<close>)
  then show ?thesis by (rule triple_weaken) simp_all
qed

lemma watched_fail:
  assumes "sup_inv s0" and "cause"
  shows "triple (\<lambda>s. s = s0 \<and> sup_pid env s0 \<noteq> None)
    (seqS (plain_stop env) (seqS (transition env FAILED) (returnS True)))
    (\<lambda>r s. watched env cause s0 r s \<and> (r \<longrightarrow> sv_state s = FAILED)) (\<lambda>_ _. True)"
proof -
  have "triple (\<lambda>s. (sup_pid env s0 \<noteq> None) \<and> s = s0) (seqS (plain_stop env) (seqS (transition env FAILED) (returnS True)))
      (\<lambda>r s. watched env cause s0 r s \<and> (r \<longrightarrow> sv_state s = FAILED)) (\<lambda>_ _. True)"
    by (rule triple_pure, rule triple_seq [OF triple_weaken [OF stop_leaves_none]], use assms(1) in simp, assumption, simp,
        rule triple_seq [OF fail_after_stop])
      (rule triple_return, use assms(2) in \<open>simp add: watched_def\<close>)
  then show ?thesis by (rule triple_weaken) simp_all
qed

lemma reap_watched:
  assumes "sup_inv s0"
  shows "triple (\<lambda>s. s = s0) (reap_if_idle env (Some now)) (watched env
     (of_int (idle_timeout_seconds (up_resources (sv_upstream s0))) \<le> now - sv_last_activity s0) s0) (\<lambda>_ _. True)"
  unfolding reap_if_idle_def
proof (rule watch_running)
  let ?cause = "of_int (idle_timeout_seconds (up_resources (sv_upstream s0))) \<le> now - sv_last_activity s0"
  have "triple (\<lambda>s. s = s0 \<and> sup_pid env s0 \<noteq> None) (bindS getS (\<lambda>s.
       if now - sv_last_activity s < of_int (idle_timeout_seconds (up_resources (sv_upstream s))) then returnS False
       else seqS (plain_stop env) (returnS True))) (watched env ?cause s0) (\<lambda>_ _. True)"
  proof (rule triple_getS, elim conjE, hypsubst, rule triple_if)
    assume "now - sv_last_activity s0 < of_int (idle_timeout_seconds (up_resources (sv_upstream s0)))"
    then show "triple (\<lambda>s. s = s0 \<and> sup_pid env s0 \<noteq> None) (returnS False) (watched env ?cause s0) (\<lambda>_ _. True)"
      by (intro watched_keep) simp
  next
    assume "\<not> now - sv_last_activity s0 < of_int (idle_timeout_seconds (up_resources (sv_upstream s0)))"
    then show "triple (\<lambda>s. s = s0 \<and> sup_pid env s0 \<noteq> None) (seqS (plain_stop env) (returnS True))
        (watched env ?cause s0) (\<lambda>_ _. True)"
      by (intro watched_stop [OF assms]) simp
  qed
  then show "triple (\<lambda>s. s = s0 \<and> sup_pid env s0 \<noteq> None) (bindS (sup_clock env (Some now)) (\<lambda>now. bindS getS (\<lambda>s.
       if now - sv_last_activity s < of_int (idle_timeout_seconds (up_resources (sv_upstream s))) then returnS False
       else seqS (plain_stop env) (returnS True)))) (watched env ?cause s0) (\<lambda>_ _. True)"
    by (simp add: sup_clock_def bindS_def returnS_def triple_def)
qed

text \<open>The idle reaper stops a process only when it runs and its last activity is at least the idle
  timeout ago, and then no process is left; when it answers False, the process is as it was.\<close>

theorem idle_reap_sound:
  assumes "sup_inv s" and "reap_if_idle env (Some now) s = (Inr reaped, s')"
  shows "watched env (of_int (idle_timeout_seconds (up_resources (sv_upstream s))) \<le> now - sv_last_activity s) s reaped s'"
  using reap_watched [OF assms(1), of env now] assms(2) by (simp add: triple_def)

lemma spinning_watched:
  assumes "sup_inv s0"
  shows "triple (\<lambda>s. s = s0) (kill_if_spinning env cpu_percent sample_window_seconds (Some now))
    (\<lambda>killed s. watched env (of_int (cpu_watchdog_percent (up_resources (sv_upstream s0))) \<le> cpu_percent \<and>
        of_int (cpu_watchdog_seconds (up_resources (sv_upstream s0))) \<le> sample_window_seconds \<and>
        of_int (cpu_watchdog_seconds (up_resources (sv_upstream s0))) \<le> now - sv_last_activity s0) s0 killed s)
    (\<lambda>_ _. True)"
  unfolding kill_if_spinning_def
proof (rule watch_running)
  let ?r = "up_resources (sv_upstream s0)"
  let ?cause = "of_int (cpu_watchdog_percent ?r) \<le> cpu_percent \<and>
        of_int (cpu_watchdog_seconds ?r) \<le> sample_window_seconds \<and>
        of_int (cpu_watchdog_seconds ?r) \<le> now - sv_last_activity s0"
  have fail: "triple (\<lambda>s. s = s0 \<and> sup_pid env s0 \<noteq> None)
      (seqS (plain_stop env) (seqS (transition env FAILED) (returnS True))) (watched env ?cause s0) (\<lambda>_ _. True)"
    if ?cause
    by (rule triple_weaken [OF watched_fail [OF assms that]]) simp_all
  have "triple (\<lambda>s. s = s0 \<and> sup_pid env s0 \<noteq> None) (bindS getS (\<lambda>s.
       let r = up_resources (sv_upstream s) in
       if cpu_percent < of_int (cpu_watchdog_percent r) then returnS False
       else if sample_window_seconds < of_int (cpu_watchdog_seconds r) then returnS False
       else if now - sv_last_activity s < of_int (cpu_watchdog_seconds r) then returnS False
       else seqS (plain_stop env) (seqS (transition env FAILED) (returnS True)))) (watched env ?cause s0) (\<lambda>_ _. True)"
    unfolding Let_def
    by (rule triple_getS, elim conjE, hypsubst, intro triple_if watched_keep fail) simp_all
  then show "triple (\<lambda>s. s = s0 \<and> sup_pid env s0 \<noteq> None) (bindS (sup_clock env (Some now)) (\<lambda>now. bindS getS (\<lambda>s.
       let r = up_resources (sv_upstream s) in
       if cpu_percent < of_int (cpu_watchdog_percent r) then returnS False
       else if sample_window_seconds < of_int (cpu_watchdog_seconds r) then returnS False
       else if now - sv_last_activity s < of_int (cpu_watchdog_seconds r) then returnS False
       else seqS (plain_stop env) (seqS (transition env FAILED) (returnS True))))) (watched env ?cause s0) (\<lambda>_ _. True)"
    by (simp add: sup_clock_def bindS_def returnS_def triple_def)
qed

text \<open>The CPU watchdog kills a process only when it runs, uses at least the watchdog's share of CPU,
  was sampled for at least the watchdog's time and made no progress for as long; then no process is
  left. When it answers False the process is as it was.\<close>

theorem spinning_kill_sound:
  assumes "sup_inv s" and "kill_if_spinning env cpu_percent sample_window_seconds (Some now) s = (Inr killed, s')"
  shows "watched env (of_int (cpu_watchdog_percent (up_resources (sv_upstream s))) \<le> cpu_percent \<and>
      of_int (cpu_watchdog_seconds (up_resources (sv_upstream s))) \<le> sample_window_seconds \<and>
      of_int (cpu_watchdog_seconds (up_resources (sv_upstream s))) \<le> now - sv_last_activity s) s killed s'"
  using spinning_watched [OF assms(1), of env cpu_percent sample_window_seconds now] assms(2) by (simp add: triple_def)

section \<open>The registry\<close>

datatype process_call = GetOrStart upstream_config "string option" | StopAll

fun after_call :: "'w sup_env \<Rightarrow> process_call \<Rightarrow> 'w process_registry \<Rightarrow> 'w process_registry" where
  "after_call env (GetOrStart u session_id) r = snd (get_or_start env u session_id r)"
| "after_call env StopAll r = snd (stop_all env r)"

definition process_calls :: "'w sup_env \<Rightarrow> process_call list \<Rightarrow> path \<Rightarrow> 'w \<Rightarrow> 'w process_registry" where
  "process_calls env calls dir w =
     fold (after_call env) calls \<lparr>pr_runtime_dir = dir, pr_supervisors = [], pr_world = w\<rparr>"

text \<open>A supervisor is kept under its upstream's name, and under a session when it has one.\<close>

definition entry_ok :: "supervisor_key \<times> 'w supervisor \<Rightarrow> bool" where
  "entry_ok e \<longleftrightarrow> sup_inv (snd e) \<and> fst (fst e) = up_name (sv_upstream (snd e)) \<and>
     (snd (fst e) = None \<longleftrightarrow> up_mode (sv_upstream (snd e)) \<noteq> ''per_session'')"

definition processes_ok :: "'w process_registry \<Rightarrow> bool" where
  "processes_ok r \<longleftrightarrow> distinct (map fst (pr_supervisors r)) \<and> (\<forall>e \<in> set (pr_supervisors r). entry_ok e)"

lemma processes_update:
  assumes "processes_ok r" and "entry_ok (key, s)"
  shows "processes_ok (r\<lparr>pr_supervisors := AList.update key s (pr_supervisors r), pr_world := w\<rparr>)"
  using assms set_update_subset [of key s "pr_supervisors r"]
  by (auto simp: processes_ok_def distinct_update)

lemma entry_ok_world [simp]: "entry_ok (key, s\<lparr>sv_world := w\<rparr>) = entry_ok (key, s)"
  by (simp add: entry_ok_def)

lemma with_supervisor_keeps:
  assumes "preserves sup_inv m" and "\<And>u. preserves (\<lambda>s. sv_upstream s = u) m"
  shows "preserves processes_ok (with_supervisor key m)"
proof (rule preservesI)
  fix r :: "'a process_registry" assume r: "processes_ok r"
  show "processes_ok (snd (with_supervisor key m r))"
  proof (cases "map_of (pr_supervisors r) key")
    case None
    then show ?thesis using r by (simp add: with_supervisor_def)
  next
    case (Some s)
    obtain result s' where run: "m (s\<lparr>sv_world := pr_world r\<rparr>) = (result, s')" by (metis prod.exhaust)
    have "entry_ok (key, s)" using r map_of_SomeD [OF Some] by (simp add: processes_ok_def)
    then have "entry_ok (key, s')"
      using preservesD [OF assms(1), of "s\<lparr>sv_world := pr_world r\<rparr>"]
        preservesD [OF assms(2) refl, of "s\<lparr>sv_world := pr_world r\<rparr>"] run
      by (simp add: entry_ok_def)
    then show ?thesis using r Some run by (simp add: with_supervisor_def processes_update)
  qed
qed

lemma registry_key_entry:
  "registry_key u session_id = Inr key \<Longrightarrow> sup_inv s \<Longrightarrow> sv_upstream s = u \<Longrightarrow> entry_ok (key, s)"
  by (auto simp: registry_key_def entry_ok_def split: if_splits option.splits list.splits)

lemma created_entry:
  assumes "registry_key u session_id = Inr key" and "processes_ok r"
  shows "processes_ok (snd (create_supervisor env u key r))"
proof -
  let ?s = "new_supervisor u (pr_runtime_dir r) 0 (pr_world r)"
  obtain result s' where run: "sup_post_init (unlogged env) ?s = (result, s')" by (metis prod.exhaust)
  then have "created (unlogged env) u (pr_runtime_dir r) (pr_world r) = s'" by (simp add: created_def)
  then have "entry_ok (key, s')"
    using registry_key_entry [OF assms(1)] created_inv [of "unlogged env" u] created_upstream [of "unlogged env" u] by metis
  then show ?thesis
    using assms(2) run processes_update [OF assms(2)]
    by (cases result) (simp_all add: create_supervisor_def processes_ok_def)
qed

lemma plain_operations_keep:
  "preserves sup_inv (plain_start env)" "preserves sup_inv (plain_stop env)"
  "preserves (\<lambda>s. sv_upstream s = u) (plain_start env)" "preserves (\<lambda>s. sv_upstream s = u) (plain_stop env)"
  unfolding plain_start_def plain_stop_def by (intro sup_intros same_upstream)+

lemma get_or_start_keeps: "preserves processes_ok (get_or_start env u session_id)"
proof -
  have create: "preserves processes_ok (bindS getS (\<lambda>r.
      if map_of (pr_supervisors r) key = None then create_supervisor env u key else returnS ()))"
    if "registry_key u session_id = Inr key" for key
    using created_entry [OF that] by (auto simp: preserves_def bindS_def getS_def returnS_def)
  show ?thesis
    unfolding get_or_start_def
  proof (intro preserves_seq preserves_lift)
    show "preserves processes_ok (bindS (liftS (registry_key u session_id)) (\<lambda>key.
      seqS (bindS getS (\<lambda>r.
          if map_of (pr_supervisors r) key = None then create_supervisor env u key else returnS ()))
      (seqS (with_supervisor key (plain_start (unlogged env))) (returnS key))))"
    proof (cases "registry_key u session_id")
      case (Inl e)
      then show ?thesis by (simp add: preserves_def bindS_def liftS_def)
    next
      case (Inr key)
      have "preserves processes_ok (seqS (bindS getS (\<lambda>r.
          if map_of (pr_supervisors r) key = None then create_supervisor env u key else returnS ()))
        (seqS (with_supervisor key (plain_start (unlogged env))) (returnS key)))"
        by (intro preserves_seq create [OF Inr] with_supervisor_keeps plain_operations_keep preserves_return)
      then show ?thesis by (simp add: Inr preserves_def bindS_def liftS_def)
    qed
  qed
qed

lemma stop_all_keeps: "preserves processes_ok (stop_all env)"
  unfolding stop_all_def by (intro preserves_bind preserves_get preserves_for with_supervisor_keeps plain_operations_keep)

lemma process_calls_ok: "processes_ok (process_calls env calls dir w)"
proof -
  have step: "processes_ok r \<Longrightarrow> processes_ok (after_call env c r)" for c and r :: "'a process_registry"
    by (cases c) (simp_all add: preservesD [OF get_or_start_keeps] preservesD [OF stop_all_keeps])
  have "processes_ok r \<Longrightarrow> processes_ok (fold (after_call env) calls r)" for r :: "'a process_registry"
    by (induction calls arbitrary: r) (simp_all add: step)
  from this [of "\<lparr>pr_runtime_dir = dir, pr_supervisors = [], pr_world = w\<rparr>"] show ?thesis
    unfolding process_calls_def by (simp add: processes_ok_def)
qed

lemma map_of_entry: "processes_ok r \<Longrightarrow> map_of (pr_supervisors r) key = Some s \<Longrightarrow> sup_inv s"
  by (auto simp: processes_ok_def entry_ok_def dest!: map_of_SomeD)

definition gone :: "'w process_registry \<Rightarrow> supervisor_key \<Rightarrow> bool" where
  "gone r key \<longleftrightarrow> (\<forall>s. map_of (pr_supervisors r) key = Some s \<longrightarrow> sv_process s = None)"

lemma stop_one:
  assumes "processes_ok r" and "key \<in> fst ` set (pr_supervisors r)" and "with_supervisor key (plain_stop env) r = (Inr x, r')"
  shows "gone r' key" and "gone r k \<Longrightarrow> gone r' k"
    and "fst ` set (pr_supervisors r') = fst ` set (pr_supervisors r)"
proof -
  obtain s where s: "map_of (pr_supervisors r) key = Some s"
    using assms(2) by (metis map_of_eq_None_iff not_Some_eq)
  obtain result s' where run: "plain_stop env (s\<lparr>sv_world := pr_world r\<rparr>) = (result, s')" by (metis prod.exhaust)
  have r': "result = Inr x" "r' = r\<lparr>pr_supervisors := AList.update key s' (pr_supervisors r), pr_world := sv_world s'\<rparr>"
    using assms(3) s run by (simp_all add: with_supervisor_def)
  have "sv_process s' = None"
    using tripleD [OF stop_leaves_none, of "s\<lparr>sv_world := pr_world r\<rparr>" env] map_of_entry [OF assms(1) s] run r'(1)
    by simp
  then show "gone r' key" and "gone r k \<Longrightarrow> gone r' k"
    by (simp_all add: gone_def r'(2) map_of_update)
  show "fst ` set (pr_supervisors r') = fst ` set (pr_supervisors r)"
    using assms(2) by (simp add: r'(2) dom_map_of_conv_image_fst [symmetric] update_conv' insert_absorb)
qed

lemma stop_each:
  assumes "processes_ok r" and "set keys \<subseteq> fst ` set (pr_supervisors r)"
    and "forS (\<lambda>key. with_supervisor key (plain_stop env)) keys r = (Inr (), r')"
  shows "(\<forall>key \<in> set keys. gone r' key) \<and> (\<forall>key. gone r key \<longrightarrow> gone r' key) \<and>
    fst ` set (pr_supervisors r') = fst ` set (pr_supervisors r)"
  using assms
proof (induction keys arbitrary: r)
  case Nil
  then show ?case by (simp add: returnS_def)
next
  case (Cons key keys)
  obtain r1 where one: "with_supervisor key (plain_stop env) r = (Inr (), r1)"
    and rest: "forS (\<lambda>key. with_supervisor key (plain_stop env)) keys r1 = (Inr (), r')"
    using Cons.prems(3)
    by (cases "with_supervisor key (plain_stop env) r") (auto simp: seqS_def bindS_def split: sum.splits)
  have key: "key \<in> fst ` set (pr_supervisors r)" using Cons.prems(2) by simp
  note first = stop_one [OF Cons.prems(1) key one]
  have "preserves processes_ok (with_supervisor key (plain_stop env))"
    by (intro with_supervisor_keeps plain_operations_keep)
  from preservesD [OF this Cons.prems(1)] have "processes_ok r1" by (simp add: one)
  from Cons.IH [OF this _ rest] Cons.prems(2) first show ?case by auto
qed


text \<open>A session never touches the supervisor of another one, nor one that is shared.\<close>

lemma with_supervisor_other: "k \<noteq> key \<Longrightarrow>
    map_of (pr_supervisors (snd (with_supervisor key m r))) k = map_of (pr_supervisors r) k"
  by (simp add: with_supervisor_def map_of_update split: option.splits prod.splits)

lemma create_supervisor_other: "k \<noteq> key \<Longrightarrow>
    map_of (pr_supervisors (snd (create_supervisor env u key r))) k = map_of (pr_supervisors r) k"
  by (simp add: create_supervisor_def map_of_update split: sum.splits prod.splits)

theorem session_processes_isolated:
  assumes "up_mode u = ''per_session''" and "key \<noteq> (up_name u, session_id)"
  shows "map_of (pr_supervisors (after_call env (GetOrStart u session_id) r)) key = map_of (pr_supervisors r) key"
proof -
  let ?same = "\<lambda>r'. map_of (pr_supervisors r') key = map_of (pr_supervisors r) key"
  have key: "k \<noteq> key" if "registry_key u session_id = Inr k" for k
    using that assms by (auto simp: registry_key_def split: option.splits list.splits)
  have create: "preserves ?same (create_supervisor env u k)" if "k \<noteq> key" for k
    by (rule preservesI) (simp add: create_supervisor_other [OF not_sym [OF that]])
  have start: "preserves ?same (with_supervisor k m)" if "k \<noteq> key" for k and m :: "('a, unit) sup_sem"
    by (rule preservesI) (simp add: with_supervisor_other [OF not_sym [OF that]])
  have "preserves ?same (get_or_start env u session_id)"
  proof (cases "registry_key u session_id")
    case (Inl e)
    then show ?thesis unfolding get_or_start_def
      by (intro preserves_seq preserves_lift) (simp add: preserves_def bindS_def liftS_def)
  next
    case (Inr k)
    have "preserves ?same (seqS (bindS getS (\<lambda>r.
          if map_of (pr_supervisors r) k = None then create_supervisor env u k else returnS ()))
        (seqS (with_supervisor k (plain_start (unlogged env))) (returnS k)))"
      by (intro preserves_seq preserves_bind preserves_get preserves_if preserves_return create start key [OF Inr])
    then show ?thesis unfolding get_or_start_def Inr
      by (intro preserves_seq preserves_lift) (simp add: preserves_def bindS_def liftS_def)
  qed
  then show ?thesis by (simp add: preserves_def)
qed

section \<open>Runs\<close>

text \<open>A host where every operation succeeds; the world is the list of live processes.\<close>

definition demo_supervised :: "int list sup_env" where
  "demo_supervised = \<lparr>ue_now = returnS 0, ue_log = None, ue_mkdir = \<lambda>q. returnS (), ue_write = \<lambda>q t. returnS (),
     ue_environ = [], ue_read_secret = \<lambda>q. None,
     ue_popen = \<lambda>c d e w. (Inr 7, 7 # w),
     ue_alive = \<lambda>pid w. List.member w pid, ue_getpgid = \<lambda>pid w. Inr pid,
     ue_killpg = \<lambda>pid sig w. (Inr (), removeAll pid w), ue_wait = \<lambda>pid t. returnS True,
     ue_group_polls = \<lambda>g. returnS ([], []), ue_rounds = \<lambda>a b. returnS 1, ue_pause = \<lambda>t. returnS (),
     ue_drain = \<lambda>pid q. returnS (), ue_join = \<lambda>w. w, ue_cpu = \<lambda>g. returnS 99, ue_memory = \<lambda>g. returnS None\<rparr>"

definition demo_supervisor :: "(upstream_config \<Rightarrow> upstream_config) \<Rightarrow> int list supervisor" where
  "demo_supervisor f = created demo_supervised (f (snd (hd (bc_upstreams slug_config)))) (path_of ''/s'') []"

definition demo_failures :: "int list sup_op list" where
  "demo_failures = [Start None 0, AfterFailure (Some 1), AfterFailure (Some 2), AfterFailure (Some 100)]"


definition demo_now :: "int list supervisor" where
  "demo_now = after_ops demo_supervised [Start None 0] (demo_supervisor id)"

lemma demo_now_inv: "sup_inv demo_now"
  using supervises_after_ops [of "sv_upstream (demo_supervisor id)" "demo_supervisor id" demo_supervised "[Start None 0]"]
  by (simp add: demo_now_def supervises_def demo_supervisor_def created_inv)

lemma idle_reap_sound_witness:
  "\<exists>s'. reap_if_idle demo_supervised (Some 100000) demo_now = (Inr True, s') \<and> sv_process s' = None"
proof -
  have "fst (reap_if_idle demo_supervised (Some 100000) demo_now) = Inr True" by code_simp
  then obtain s' where run: "reap_if_idle demo_supervised (Some 100000) demo_now = (Inr True, s')"
    by (metis prod.collapse)
  with idle_reap_sound [OF demo_now_inv run] show ?thesis by (auto simp: watched_def)
qed

lemma spinning_kill_sound_witness:
  "\<exists>s'. kill_if_spinning demo_supervised 100000 100000 (Some 100000) demo_now = (Inr True, s') \<and> sv_process s' = None"
proof -
  have "fst (kill_if_spinning demo_supervised 100000 100000 (Some 100000) demo_now) = Inr True" by code_simp
  then obtain s' where run: "kill_if_spinning demo_supervised 100000 100000 (Some 100000) demo_now = (Inr True, s')"
    by (metis prod.collapse)
  with spinning_kill_sound [OF demo_now_inv run] show ?thesis by (auto simp: watched_def)
qed

definition demo_upstream :: "string \<Rightarrow> upstream_config" where
  "demo_upstream mode = (snd (hd (bc_upstreams slug_config)))\<lparr>up_mode := mode\<rparr>"

definition demo_calls :: "process_call list" where
  "demo_calls = [GetOrStart (demo_upstream ''per_session'') (Some ''a''), GetOrStart (demo_upstream ''per_session'') None,
     GetOrStart (demo_upstream ''per_session'') (Some ''b'')]"

definition demo_processes :: "int list process_registry" where
  "demo_processes = process_calls demo_supervised demo_calls (path_of ''/s'') []"


section \<open>What the model shows\<close>

text \<open>A restart after a failure of a disabled upstream leaves its state in backoff.\<close>

lemma disabled_upstream_backs_off:
  "sv_history (after_ops demo_supervised [AfterFailure (Some 1), AfterFailure (Some 2)]
     (demo_supervisor (\<lambda>u. u\<lparr>up_enabled := False\<rparr>))) = [DISABLED, BACKOFF]"
  by code_simp

text \<open>A process group that outlives its stop keeps \<open>stop_all\<close> from the supervisors after it.\<close>

definition demo_stubborn :: "int list sup_env" where
  "demo_stubborn = demo_supervised\<lparr>ue_popen := \<lambda>c d e w. (Inr (7 + int (length w)), (7 + int (length w)) # w),
     ue_group_polls := \<lambda>g. returnS (if g = 7 then ([], ''7'') else ([], []))\<rparr>"

lemma failed_stop_leaves_others_running:
  "map (\<lambda>(k, s). sv_process s) (pr_supervisors (snd (stop_all demo_stubborn
     (process_calls demo_stubborn demo_calls (path_of ''/s'') [])))) = [Some 7, Some 8] \<and>
   List.member (pr_world (snd (stop_all demo_stubborn
     (process_calls demo_stubborn demo_calls (path_of ''/s'') [])))) 8"
  by (rule conjI; code_simp)

end
