(* ===== verification/Assignment.thy ===== *)
theory Assignment
  imports Config_Layers Deployments Rollout
begin

text \<open>
  Which published bundle a broker is assigned (\<^verbatim>\<open>governance_assignment.py\<close>), and the manifests that
  publish a bundle (\<^verbatim>\<open>governance_publish.py\<close>).
\<close>

section \<open>Private values\<close>

definition ASSIGNMENT_SCHEMA_VERSION :: int where "ASSIGNMENT_SCHEMA_VERSION = 1"

definition assignment_error :: "string \<Rightarrow> exn" where
  "assignment_error m = Exn GovernanceAssignmentError m"

text \<open>\<open>SECRET_FIELD_PATTERN.search\<close>\<close>

definition secret_field_search :: "string \<Rightarrow> bool" where
  "secret_field_search name \<longleftrightarrow>
     list_ex (\<lambda>w. contains w (lower name)) [''secret'', ''token'', ''password'', ''credential'']"

text \<open>\<open>[A-Z ]*PRIVATE KEY-----\<close> at the start of a text.\<close>

fun key_header_end :: "string \<Rightarrow> bool" where
  "key_header_end [] = False"
| "key_header_end (c # cs) =
     (prefix ''PRIVATE KEY-----'' (c # cs) \<or> (is_upper c \<or> c = CHR '' '') \<and> key_header_end cs)"

definition secret_value_search :: "string \<Rightarrow> bool" where
  "secret_value_search v \<longleftrightarrow>
     list_ex (\<lambda>w. contains w v) [''sk-proj-'', ''sk-ant-'', ''ghp_'', ''gho_'', ''ghu_'', ''xoxb-'', ''xoxp-''] \<or>
     list_ex (\<lambda>t. prefix ''-----BEGIN '' t \<and> key_header_end (drop 11 t)) (suffixes v)"

text \<open>\<open>[^@\s]+@[^@\s]+\.[^@\s]+\<close>\<close>

definition email_fullmatch :: "string \<Rightarrow> bool" where
  "email_fullmatch v \<longleftrightarrow>
     (case split_char CHR ''@'' v of
        [user, domain] \<Rightarrow> user \<noteq> [] \<and> list_all (\<lambda>c. \<not> is_space c) (user @ domain) \<and>
          CHR ''.'' \<in> set (butlast (tl domain))
      | _ \<Rightarrow> False)"

definition windows_absolute :: "string \<Rightarrow> bool" where
  "windows_absolute v \<longleftrightarrow>
     (case v of c # d # e # _ \<Rightarrow> is_letter c \<and> d = CHR '':'' \<and> (e = slash \<or> e = CHR 0x5C) | _ \<Rightarrow> False)"

definition is_local_path :: "string \<Rightarrow> bool" where
  "is_local_path v \<longleftrightarrow> prefix ''/'' v \<or> prefix ''~/'' v \<or> windows_absolute v"

definition is_secret_value :: "string \<Rightarrow> string \<Rightarrow> bool" where
  "is_secret_value name v \<longleftrightarrow> secret_value_search v \<or> strip v \<noteq> [] \<and> secret_field_search name"

function reject_private_value :: "pyval \<Rightarrow> string \<Rightarrow> unit res" where
  "reject_private_value v name =
     (case v of
        PDict d \<Rightarrow> foldE (\<lambda>_ (child_name, child). reject_private_value child child_name) () d
      | PList xs \<Rightarrow> foldE (\<lambda>_ child. reject_private_value child name) () xs
      | PStr s \<Rightarrow>
          if is_local_path s then Inl (assignment_error ''local paths are not allowed'')
          else if email_fullmatch s then Inl (assignment_error ''account names are not allowed'')
          else if is_secret_value name s then Inl (assignment_error ''secret values are not allowed'')
          else Inr ()
      | _ \<Rightarrow> Inr ())"
  by pat_completeness auto

termination reject_private_value
  by (relation "measure (\<lambda>(v, n). size v)") (auto dest!: size_snd_mem_dict size_mem_list)

declare reject_private_value.simps [simp del]

definition reject_private_values :: "pydict \<Rightarrow> unit res" where
  "reject_private_values d = foldE (\<lambda>_ (child_name, child). reject_private_value child child_name) () d"

definition validate_assignment_source :: "pydict \<Rightarrow> unit res" where
  "validate_assignment_source source =
     bindE (require (eq_int (dget source ''schema_version'') ASSIGNMENT_SCHEMA_VERSION)
       (assignment_error ''unsupported assignment schema_version'')) (\<lambda>_. reject_private_values source)"

section \<open>Rules and targets\<close>

definition assignment_rule :: "pyval \<Rightarrow> pydict res" where
  "assignment_rule v = (case v of
     PDict d \<Rightarrow>
       bindE (require (strip (py_str (dget_or d ''assignment_id'' (PStr []))) \<noteq> [])
         (assignment_error ''assignment_id is required'')) (\<lambda>_.
       bindE (require (dhas d ''target'') (assignment_error ''assignment target is required'')) (\<lambda>_. Inr d))
   | _ \<Rightarrow> Inl (assignment_error ''assignment entries must be objects''))"

definition assignment_rules :: "pydict \<Rightarrow> pydict list res" where
  "assignment_rules source = (case dget_or source ''assignments'' (PList []) of
     PList xs \<Rightarrow> mapE assignment_rule xs
   | _ \<Rightarrow> Inl (assignment_error ''assignments must be a list''))"

text \<open>Keys are tuples: they are hashed as a whole and compared element by element.\<close>

type_synonym target_key = "pyval \<times> pyval \<times> pyval"

definition target_eq :: "target_key \<Rightarrow> target_key \<Rightarrow> bool" where
  "target_eq k l = (case (k, l) of ((a, b, c), (a', b', c')) \<Rightarrow> py_eq a a' \<and> py_eq b b' \<and> py_eq c c')"

definition hash_target :: "target_key \<Rightarrow> target_key res" where
  "hash_target k = (case k of (a, b, c) \<Rightarrow> bindE (set_of [a, b, c]) (\<lambda>_. Inr k))"

definition published_target :: "pydict \<Rightarrow> (target_key \<times> pydict) res" where
  "published_target manifest =
     bindE (dindex_dict manifest ''bundle'') (\<lambda>bundle.
     bindE (dindex bundle ''bundle_id'') (\<lambda>a.
     bindE (dindex bundle ''version'') (\<lambda>b.
     bindE (dindex bundle ''channel'') (\<lambda>c.
     bindE (hash_target (a, b, c)) (\<lambda>k. Inr (k, manifest))))))"

definition published_targets :: "pydict list \<Rightarrow> (target_key \<times> pydict) list res" where
  "published_targets manifests = mapE published_target manifests"

text \<open>A later manifest of the same target replaces an earlier one.\<close>

definition find_published :: "(target_key \<times> pydict) list \<Rightarrow> target_key \<Rightarrow> pydict option" where
  "find_published published key = map_option snd (List.find (\<lambda>(k, m). target_eq k key) (rev published))"

definition target_field :: "pydict \<Rightarrow> string \<Rightarrow> pyval res" where
  "target_field target k =
     (if dhas target k then Inr (dget target k)
      else Inl (assignment_error (''missing assignment target field: '' @ k)))"

definition target_key_of :: "pyval \<Rightarrow> target_key res" where
  "target_key_of target = (case target of
     PDict d \<Rightarrow>
       bindE (target_field d ''bundle_id'') (\<lambda>a.
       bindE (target_field d ''version'') (\<lambda>b.
       bindE (target_field d ''channel'') (\<lambda>c. Inr (a, b, c))))
   | _ \<Rightarrow> Inl (Exn TypeError (type_name target)))"

definition validate_published_targets :: "pydict list \<Rightarrow> (target_key \<times> pydict) list \<Rightarrow> unit res" where
  "validate_published_targets assignments published =
     foldE (\<lambda>_ a. bindE (dindex a ''target'') (\<lambda>t.
       bindE (target_key_of t) (\<lambda>k. bindE (hash_target k) (\<lambda>k.
       require (find_published published k \<noteq> None) (assignment_error ''unpublished bundle target''))))) () assignments"

section \<open>Matching\<close>

text \<open>\<open>for item in v\<close>\<close>

definition iterate :: "pyval \<Rightarrow> pyval list res" where
  "iterate v = (case v of
     PList xs \<Rightarrow> Inr xs
   | PStr s \<Rightarrow> Inr (map (\<lambda>c. PStr [c]) s)
   | PDict d \<Rightarrow> Inr (map (\<lambda>(k, x). PStr k) d)
   | _ \<Rightarrow> Inl (Exn TypeError (repr_str (type_name v) @ '' object is not iterable'')))"

definition allowed_match_values :: "pydict \<Rightarrow> string \<Rightarrow> pyval list option res" where
  "allowed_match_values m field = (case dget m field of
     PNone \<Rightarrow> Inr None
   | PList xs \<Rightarrow> Inr (Some xs)
   | _ \<Rightarrow> Inl (assignment_error ''assignment match field must be a list''))"

definition matches_scalar :: "pydict \<Rightarrow> string \<Rightarrow> pyval \<Rightarrow> bool res" where
  "matches_scalar m field v =
     bindE (allowed_match_values m field) (\<lambda>allowed. case allowed of
       None \<Rightarrow> Inr True
     | Some xs \<Rightarrow> Inr (py_str v \<in> set (map py_str xs)))"

definition matches_any :: "pydict \<Rightarrow> string \<Rightarrow> pyval \<Rightarrow> bool res" where
  "matches_any m field vs =
     bindE (allowed_match_values m field) (\<lambda>allowed. case allowed of
       None \<Rightarrow> Inr True
     | Some xs \<Rightarrow> bindE (iterate vs) (\<lambda>values.
         Inr (list_ex (\<lambda>v. py_str v \<in> set (map py_str xs)) values)))"

text \<open>\<open>a and b\<close>, where \<open>b\<close> is evaluated only if \<open>a\<close> holds.\<close>

definition and_then :: "bool res \<Rightarrow> bool res \<Rightarrow> bool res" where
  "and_then a b = bindE a (\<lambda>x. if x then b else Inr False)"

definition assignment_matches :: "pyval \<Rightarrow> pydict \<Rightarrow> bool res" where
  "assignment_matches v ctx = (case v of
     PDict m \<Rightarrow>
       and_then (matches_scalar m ''broker_ids'' (dget_or ctx ''broker_id'' (PStr [])))
       (and_then (matches_scalar m ''users'' (dget_or ctx ''user'' (PStr [])))
       (and_then (matches_any m ''teams'' (dget_or ctx ''teams'' (PList [])))
       (and_then (matches_scalar m ''channels'' (dget_or ctx ''channel'' (PStr [])))
         (matches_scalar m ''rings'' (dget_or ctx ''ring'' (PStr []))))))
   | _ \<Rightarrow> Inl (assignment_error ''assignment match must be an object''))"

definition rule_matches :: "pydict \<Rightarrow> pydict \<Rightarrow> bool res" where
  "rule_matches ctx a = assignment_matches (dget_or a ''match'' (PDict [])) ctx"

definition assignment_priority :: "pydict \<Rightarrow> int res" where
  "assignment_priority a = py_int (dget_or a ''priority'' (PInt 0))"

text \<open>A filter whose condition may raise.\<close>

fun filterE :: "('a \<Rightarrow> bool res) \<Rightarrow> 'a list \<Rightarrow> 'a list res" where
  "filterE p [] = Inr []"
| "filterE p (x # xs) = bindE (p x) (\<lambda>b. bindE (filterE p xs) (\<lambda>ys. Inr (if b then x # ys else ys)))"

definition select_assignment :: "pydict list \<Rightarrow> pydict \<Rightarrow> pydict res" where
  "select_assignment assignments ctx =
     bindE (filterE (rule_matches ctx) assignments) (\<lambda>matches.
     bindE (require (matches \<noteq> []) (assignment_error ''no assignment match'')) (\<lambda>_.
     bindE (mapE assignment_priority matches) (\<lambda>priorities.
     bindE (filterE (\<lambda>a. bindE (assignment_priority a) (\<lambda>p. Inr (p = Max (set priorities)))) matches) (\<lambda>best_matches.
       case best_matches of
         [selected] \<Rightarrow> Inr selected
       | _ \<Rightarrow> Inl (assignment_error ''ambiguous assignment matches'')))))"

definition matched_by :: "pydict \<Rightarrow> pydict res" where
  "matched_by ctx =
     bindE (iterate (dget_or ctx ''teams'' (PList []))) (\<lambda>teams.
       Inr [(''broker_id'', dget_or ctx ''broker_id'' (PStr [])), (''user'', dget_or ctx ''user'' (PStr [])),
         (''teams'', PList teams), (''channel'', dget_or ctx ''channel'' (PStr [])),
         (''ring'', dget_or ctx ''ring'' (PStr []))])"

definition evaluate_assignment :: "pydict \<Rightarrow> pydict list \<Rightarrow> pydict \<Rightarrow> pydict res" where
  "evaluate_assignment source manifests ctx =
     bindE (validate_assignment_source source) (\<lambda>_.
     bindE (published_targets manifests) (\<lambda>published.
     bindE (assignment_rules source) (\<lambda>assignments.
     bindE (validate_published_targets assignments published) (\<lambda>_.
     bindE (select_assignment assignments ctx) (\<lambda>selected.
     bindE (dindex selected ''target'') (\<lambda>target.
     bindE (target_key_of target) (\<lambda>key.
     case find_published published key of
       None \<Rightarrow> Inl (Exn KeyError ''target'')
     | Some manifest \<Rightarrow>
         bindE (dindex selected ''assignment_id'') (\<lambda>assignment_id.
         bindE (matched_by ctx) (\<lambda>by_context.
         bindE (dindex_dict manifest ''bundle'') (\<lambda>bundle.
         bindE (dindex bundle ''digest'') (\<lambda>digest.
         Inr [(''schema_version'', PInt ASSIGNMENT_SCHEMA_VERSION), (''assignment_id'', assignment_id),
           (''matched_by'', PDict by_context),
           (''target'', PDict [(''bundle_id'', fst key), (''version'', fst (snd key)), (''channel'', snd (snd key)),
              (''digest'', digest)]),
           (''changed_runtime_state'', PBool False)])))))))))))"

section \<open>Publishing\<close>

definition PUBLISH_SCHEMA_VERSION :: int where "PUBLISH_SCHEMA_VERSION = 1"

definition SUPPORTED_PROMOTION_STATES :: "string list" where
  "SUPPORTED_PROMOTION_STATES = [''candidate'', ''canary'', ''staged'', ''stable'', ''deprecated'']"

definition REQUIRED_PROVENANCE_FIELDS :: "string list" where
  "REQUIRED_PROVENANCE_FIELDS = [''repository'', ''commit'', ''builder'']"

definition publish_error :: "string \<Rightarrow> exn" where
  "publish_error m = Exn GovernancePublishError m"

definition validate_promotion_state :: "string \<Rightarrow> unit res" where
  "validate_promotion_state st =
     require (st \<in> set SUPPORTED_PROMOTION_STATES) (publish_error (''unsupported promotion state: '' @ st))"

definition validate_provenance :: "(string \<times> string) list \<Rightarrow> unit res" where
  "validate_provenance provenance =
     foldE (\<lambda>_ field. require (strip (case map_of provenance field of None \<Rightarrow> [] | Some v \<Rightarrow> v) \<noteq> [])
       (publish_error (''missing publish provenance field: '' @ field))) () REQUIRED_PROVENANCE_FIELDS"

definition safe_manifest_part :: "string \<Rightarrow> pyval \<Rightarrow> string res" where
  "safe_manifest_part field v =
     bindE (require (safe_id_fullmatch (py_str v)) (publish_error (''unsafe publish manifest field: '' @ field)))
       (\<lambda>_. Inr (py_str v))"

definition manifest_name :: "bundle_report \<Rightarrow> string res" where
  "manifest_name v =
     bindE (safe_manifest_part ''bundle_id'' (br_bundle_id v)) (\<lambda>a.
     bindE (safe_manifest_part ''version'' (br_version v)) (\<lambda>b.
     bindE (safe_manifest_part ''checksum_algorithm'' (br_checksum_algorithm v)) (\<lambda>c.
       Inr (a @ ''-'' @ b @ ''-'' @ c @ ''.publish.json''))))"

definition publish_manifest ::
    "pydict \<Rightarrow> string \<Rightarrow> (string \<times> string) list \<Rightarrow> string \<Rightarrow> bool \<Rightarrow> string \<Rightarrow> pydict res" where
  "publish_manifest bundle signature_ref provenance promotion_state revoked reason =
     bindE (dindex_dict bundle ''checksum'') (\<lambda>checksum.
     bindE (dindex_dict bundle ''compatibility'') (\<lambda>compatibility.
     bindE (dindex bundle ''bundle_id'') (\<lambda>a.
     bindE (dindex bundle ''version'') (\<lambda>b.
     bindE (dindex bundle ''channel'') (\<lambda>c.
     bindE (dindex checksum ''algorithm'') (\<lambda>algorithm.
     bindE (dindex checksum ''value'') (\<lambda>digest.
     bindE (dindex compatibility ''min_config_schema_version'') (\<lambda>low.
     bindE (dindex compatibility ''max_config_schema_version'') (\<lambda>high.
     Inr [(''schema_version'', PInt PUBLISH_SCHEMA_VERSION),
       (''bundle'', PDict [(''bundle_id'', a), (''version'', b), (''channel'', c),
          (''digest'', PDict [(''algorithm'', algorithm), (''value'', digest)]),
          (''compatibility'', PDict [(''min_config_schema_version'', low), (''max_config_schema_version'', high),
             (''required_features'', dget_or compatibility ''required_features'' (PList []))])]),
       (''signature'', PDict [(''required'', PBool True), (''signature_ref'', PStr signature_ref)]),
       (''promotion'', PDict [(''state'', PStr promotion_state), (''channel'', c)]),
       (''revocation'', PDict [(''revoked'', PBool revoked), (''reason'', PStr reason)]),
       (''provenance'', PDict (map (\<lambda>(k, v). (k, PStr v)) provenance)),
       (''changed_runtime_state'', PBool False)])))))))))"

text \<open>The name of the manifest's file and its content; the bundle file is read twice and does not change.\<close>

record publish_request =
  pq_signature_ref :: string
  pq_provenance :: "(string \<times> string) list"
  pq_promotion_state :: string
  pq_revoked :: bool
  pq_revocation_reason :: string

definition publish_bundle :: "bundle_env \<Rightarrow> path \<Rightarrow> bundle_file \<Rightarrow> publish_request \<Rightarrow> (string \<times> pydict) res" where
  "publish_bundle env bundle_path file q =
     bindE (require (strip (pq_signature_ref q) \<noteq> []) (publish_error ''signature_ref is required'')) (\<lambda>_.
     bindE (validate_promotion_state (pq_promotion_state q)) (\<lambda>_.
     bindE (validate_provenance (pq_provenance q)) (\<lambda>_.
     bindE (require (\<not> pq_revoked q) (publish_error ''revoked publish candidates cannot be promoted'')) (\<lambda>_.
     bindE (map_exn (\<lambda>e. if is_class BundleValidationError e then publish_error (exn_str e) else e)
       (validate_bundle_file env bundle_path file)) (\<lambda>validation.
     bindE (case file of
         BundleValue (PDict d) \<Rightarrow> Inr d
       | BundleValue v \<Rightarrow> Inl (publish_error ''bundle file must contain a JSON object'')
       | BundleText m \<Rightarrow> Inl (Exn JSONDecodeError m)
       | BundleDir \<Rightarrow> Inl (Exn OSError ''Is a directory'')
       | NoBundle \<Rightarrow> Inl (Exn FileNotFoundError ''No such file or directory'')) (\<lambda>bundle.
     bindE (publish_manifest bundle (pq_signature_ref q) (pq_provenance q) (pq_promotion_state q)
       (pq_revoked q) (pq_revocation_reason q)) (\<lambda>manifest.
     bindE (manifest_name validation) (\<lambda>name. Inr (name, manifest)))))))))"

end
