(* ===== verification/Governance_Pull.thy ===== *)
theory Governance_Pull
  imports Assignment Plain_Paths Elicitation
begin

text \<open>
  Pulling an assigned bundle into the cache, deploying it after an approval, and rolling back
  (\<^verbatim>\<open>governance_pull.py\<close>). The files that the module reads and writes are a map from paths; the
  deployment store is the one of \<open>Deployments\<close>. Every write succeeds. Parsing a URL and fetching
  from one are arguments.
\<close>

definition PULL_SCHEMA_VERSION :: int where "PULL_SCHEMA_VERSION = 1"

definition pull_error :: "string \<Rightarrow> exn" where
  "pull_error m = Exn GovernancePullError m"

definition LOCALHOST_NAMES :: "string list" where
  "LOCALHOST_NAMES = [''localhost'', ''127.0.0.1'', ''::1'']"

text \<open>\<open>urlparse\<close>, with the path already unquoted.\<close>

record parsed_url =
  pu_scheme :: string
  pu_path :: string
  pu_hostname :: "string option"

text \<open>\<open>gv_fetch\<close> is the body that \<open>urlopen\<close> delivers, or its \<open>OSError\<close>; \<open>gv_store\<close> is the
  deployment store of a state directory.\<close>

record pull_env =
  gv_bundle :: bundle_env
  gv_urlparse :: "string \<Rightarrow> parsed_url"
  gv_fetch :: "string \<Rightarrow> bundle_file res"
  gv_store :: "path \<Rightarrow> deployment_env"

record pull_state =
  ps_files :: "path \<Rightarrow> bundle_file"
  ps_deployments :: deployments

type_synonym 'a pull_sem = "(pull_state, exn, 'a) sem"

definition put_file :: "path \<Rightarrow> bundle_file \<Rightarrow> unit pull_sem" where
  "put_file p f = modifyS (\<lambda>s. s\<lparr>ps_files := (ps_files s)(p := f)\<rparr>)"

definition get_file :: "path \<Rightarrow> bundle_file pull_sem" where
  "get_file p = bindS getS (\<lambda>s. returnS (ps_files s p))"

definition is_file :: "bundle_file \<Rightarrow> bool" where
  "is_file f \<longleftrightarrow> f \<noteq> NoBundle \<and> f \<noteq> BundleDir"

definition pull_dir :: "pull_env \<Rightarrow> path \<Rightarrow> path" where
  "pull_dir env state_dir = path_join (be_expanduser (gv_bundle env) state_dir) ''governance-pull''"

definition temp_dir :: "pull_env \<Rightarrow> path \<Rightarrow> path" where
  "temp_dir env state_dir = path_join (pull_dir env state_dir) ''tmp''"

definition write_json_atomic :: "path \<Rightarrow> pydict \<Rightarrow> unit pull_sem" where
  "write_json_atomic p payload =
     seqS (put_file (tmp_path p) (BundleValue (PDict payload)))
     (seqS (put_file (tmp_path p) NoBundle) (put_file p (BundleValue (PDict payload))))"

definition open_error :: "bundle_file \<Rightarrow> exn option" where
  "open_error f = (case f of
     NoBundle \<Rightarrow> Some (Exn FileNotFoundError ''No such file or directory'')
   | BundleDir \<Rightarrow> Some (Exn OSError ''Is a directory'')
   | _ \<Rightarrow> None)"

definition copy_or_replace :: "path \<Rightarrow> path \<Rightarrow> unit pull_sem" where
  "copy_or_replace source dest =
     bindS (get_file source) (\<lambda>f. case open_error f of
       Some e \<Rightarrow> raiseS e
     | None \<Rightarrow> seqS (put_file (tmp_path dest) f) (seqS (put_file (tmp_path dest) NoBundle) (put_file dest f)))"

definition unlink_if_temp :: "pull_env \<Rightarrow> path \<Rightarrow> path \<Rightarrow> unit pull_sem" where
  "unlink_if_temp env p state_dir =
     (if relative_to p (temp_dir env state_dir) then put_file p NoBundle else returnS ())"

text \<open>\<open>_load_json_mapping\<close>\<close>

definition load_pull_mapping :: "pull_env \<Rightarrow> path \<Rightarrow> pydict pull_sem" where
  "load_pull_mapping env p =
     bindS (get_file (be_expanduser (gv_bundle env) p)) (\<lambda>f. liftS (case f of
       BundleValue (PDict d) \<Rightarrow> Inr d
     | BundleValue v \<Rightarrow> Inl (pull_error (''expected JSON object: '' @ path_str p))
     | BundleText m \<Rightarrow> Inl (Exn JSONDecodeError m)
     | BundleDir \<Rightarrow> Inl (Exn OSError ''Is a directory'')
     | NoBundle \<Rightarrow> Inl (Exn FileNotFoundError ''No such file or directory'')))"

section \<open>Checks\<close>

definition require_auth :: "string \<Rightarrow> bool \<Rightarrow> unit res" where
  "require_auth auth_ref auth_present =
     bindE (require (strip auth_ref \<noteq> [] \<and> auth_present) (pull_error ''governance fetch auth is required'')) (\<lambda>_.
       require (prefix ''env:'' auth_ref \<or> prefix ''keychain:'' auth_ref)
         (pull_error ''governance fetch auth_ref must use env: or keychain:''))"

record pull_target =
  tg_bundle_id :: string
  tg_version :: string
  tg_channel :: string
  tg_algorithm :: string
  tg_digest :: string

definition target_dict :: "pull_target \<Rightarrow> pydict" where
  "target_dict t = [(''bundle_id'', PStr (tg_bundle_id t)), (''version'', PStr (tg_version t)),
     (''channel'', PStr (tg_channel t)),
     (''digest'', PDict [(''algorithm'', PStr (tg_algorithm t)), (''value'', PStr (tg_digest t))])]"

definition target_from_assignment :: "pydict \<Rightarrow> pull_target res" where
  "target_from_assignment decision =
     bindE (require (eq_int (dget decision ''schema_version'') PULL_SCHEMA_VERSION)
       (pull_error ''unsupported assignment decision schema_version'')) (\<lambda>_.
     bindE (require (strip (py_str (dget_or decision ''assignment_id'' (PStr []))) \<noteq> [])
       (pull_error ''assignment_id is required'')) (\<lambda>_.
     case dget decision ''target'' of
       PDict target \<Rightarrow>
         (case dget target ''digest'' of
            PDict digest \<Rightarrow>
              bindE (dindex target ''bundle_id'') (\<lambda>a.
              bindE (dindex target ''version'') (\<lambda>b.
              bindE (dindex target ''channel'') (\<lambda>c.
              bindE (dindex digest ''algorithm'') (\<lambda>algorithm.
              bindE (dindex digest ''value'') (\<lambda>v.
              Inr \<lparr>tg_bundle_id = py_str a, tg_version = py_str b, tg_channel = py_str c,
                tg_algorithm = py_str algorithm, tg_digest = lower (py_str v)\<rparr>)))))
          | _ \<Rightarrow> Inl (pull_error ''assignment target digest is required''))
     | _ \<Rightarrow> Inl (pull_error ''assignment target is required'')))"

definition safe_cache_part :: "string \<Rightarrow> string res" where
  "safe_cache_part v = bindE (require (safe_id_fullmatch v) (pull_error ''unsafe governance cache field'')) (\<lambda>_. Inr v)"

definition is_localhost_source :: "parsed_url \<Rightarrow> bool" where
  "is_localhost_source u \<longleftrightarrow> pu_scheme u = ''file'' \<or>
     (case pu_hostname u of None \<Rightarrow> False | Some h \<Rightarrow> h \<in> set LOCALHOST_NAMES)"

definition fetch_localhost_url :: "pull_env \<Rightarrow> string \<Rightarrow> path \<Rightarrow> path pull_sem" where
  "fetch_localhost_url env source_url state_dir =
     (let p = path_join (temp_dir env state_dir) ''fetched-bundle.json.tmp'' in
      case gv_fetch env source_url of
        Inl e \<Rightarrow> raiseS (if is_os_error e then pull_error (''governance fetch failed: '' @ exn_str e) else e)
      | Inr f \<Rightarrow> seqS (put_file p f) (returnS p))"

definition fetch_source_to_temp :: "pull_env \<Rightarrow> string \<Rightarrow> path \<Rightarrow> path pull_sem" where
  "fetch_source_to_temp env source_url state_dir =
     (let u = gv_urlparse env source_url in
      if pu_scheme u = ''file'' then
        bindS (get_file (path_of (pu_path u))) (\<lambda>f.
          if is_file f then returnS (path_of (pu_path u))
          else raiseS (pull_error (''governance bundle source not found: '' @ path_str (path_of (pu_path u)))))
      else if pu_scheme u \<in> {''http'', ''https''} then
        (if case pu_hostname u of None \<Rightarrow> False | Some h \<Rightarrow> h \<in> set LOCALHOST_NAMES
         then fetch_localhost_url env source_url state_dir
         else raiseS (pull_error ''governance fetch supports only file:// or localhost URLs''))
      else raiseS (pull_error ''governance fetch supports only file:// or localhost URLs''))"

definition validate_target_matches_bundle :: "pull_env \<Rightarrow> pull_target \<Rightarrow> bundle_report \<Rightarrow> unit pull_sem" where
  "validate_target_matches_bundle env target v =
     seqS (liftS (require (py_eq (PStr (tg_bundle_id target)) (br_bundle_id v)) (pull_error ''assigned bundle target mismatch'')))
     (seqS (liftS (require (py_eq (PStr (tg_version target)) (br_version v)) (pull_error ''assigned bundle target mismatch'')))
     (seqS (liftS (require (py_eq (PStr (tg_algorithm target)) (br_checksum_algorithm v))
        (pull_error ''assigned bundle digest mismatch'')))
     (bindS (load_pull_mapping env (path_of (path_str (br_path v)))) (\<lambda>bundle.
      liftS (bindE (dindex_dict bundle ''checksum'') (\<lambda>checksum.
        bindE (dindex checksum ''value'') (\<lambda>digest.
        require (tg_digest target = lower (py_str digest)) (pull_error ''assigned bundle digest mismatch''))))))))"

section \<open>Pull\<close>

definition cache_dir :: "pull_env \<Rightarrow> path \<Rightarrow> pull_target \<Rightarrow> path res" where
  "cache_dir env state_dir t =
     bindE (safe_cache_part (tg_bundle_id t)) (\<lambda>a.
     bindE (safe_cache_part (tg_version t)) (\<lambda>b.
     bindE (safe_cache_part (tg_digest t)) (\<lambda>c.
       Inr (path_join (path_join (path_join (path_join (pull_dir env state_dir) ''cache'') a) b) c))))"

definition auth_dict :: "string \<Rightarrow> pydict" where
  "auth_dict auth_ref = [(''required'', PBool True), (''auth_ref'', PStr auth_ref), (''secret_stored'', PBool False)]"

definition pull_record :: "string \<Rightarrow> parsed_url \<Rightarrow> pull_target \<Rightarrow> path \<Rightarrow> string \<Rightarrow> pydict" where
  "pull_record assignment_id u t cached auth_ref =
     [(''schema_version'', PInt PULL_SCHEMA_VERSION), (''assignment_id'', PStr assignment_id),
      (''source'', PDict [(''scheme'', PStr (pu_scheme u)), (''localhost_only'', PBool (is_localhost_source u))]),
      (''target'', PDict (target_dict t)), (''cached_bundle_path'', PStr (path_str cached)),
      (''auth'', PDict (auth_dict auth_ref)), (''changed_runtime_state'', PBool False)]"

definition pull_report :: "string \<Rightarrow> pull_target \<Rightarrow> path \<Rightarrow> path \<Rightarrow> string \<Rightarrow> pydict" where
  "pull_report assignment_id t cached record_path auth_ref =
     [(''schema_version'', PInt PULL_SCHEMA_VERSION), (''action'', PStr ''pull''),
      (''assignment_id'', PStr assignment_id), (''target'', PDict (target_dict t)),
      (''cached_bundle_path'', PStr (path_str cached)), (''cache_record_path'', PStr (path_str record_path)),
      (''auth'', PDict (auth_dict auth_ref)), (''changed_runtime_state'', PBool False)]"

text \<open>A bundle that is not valid is removed if it was fetched; a mismatch leaves it.\<close>

definition validate_fetched :: "pull_env \<Rightarrow> path \<Rightarrow> path \<Rightarrow> bundle_report pull_sem" where
  "validate_fetched env fetched state_dir =
     catchS (bindS (get_file (be_expanduser (gv_bundle env) fetched)) (\<lambda>f.
         liftS (validate_bundle_file (gv_bundle env) fetched f)))
       (\<lambda>e. if is_class BundleValidationError e
            then seqS (unlink_if_temp env fetched state_dir) (raiseS (pull_error (exn_str e))) else raiseS e)"

definition pull_assigned_bundle :: "pull_env \<Rightarrow> string \<Rightarrow> pydict \<Rightarrow> path \<Rightarrow> string \<Rightarrow> bool \<Rightarrow> pydict pull_sem" where
  "pull_assigned_bundle env source_url decision state_dir auth_ref auth_present =
     seqS (liftS (require_auth auth_ref auth_present))
     (bindS (liftS (target_from_assignment decision)) (\<lambda>target.
      bindS (fetch_source_to_temp env source_url state_dir) (\<lambda>fetched.
      bindS (validate_fetched env fetched state_dir) (\<lambda>validation.
      seqS (validate_target_matches_bundle env target validation)
     (bindS (liftS (cache_dir env state_dir target)) (\<lambda>dir.
      let cached = path_join dir ''bundle.json''; record_path = path_join dir ''pull-record.json'' in
      seqS (copy_or_replace fetched cached)
     (seqS (unlink_if_temp env fetched state_dir)
     (bindS (liftS (dindex decision ''assignment_id'')) (\<lambda>assignment_id.
      seqS (write_json_atomic record_path
        (pull_record (py_str assignment_id) (gv_urlparse env source_url) target cached auth_ref))
        (returnS (pull_report (py_str assignment_id) target cached record_path auth_ref)))))))))))"

section \<open>Apply and roll back\<close>

definition validate_approval :: "pydict \<Rightarrow> pydict \<Rightarrow> unit res" where
  "validate_approval record approval =
     bindE (require (eq_int (dget approval ''schema_version'') PULL_SCHEMA_VERSION)
       (pull_error ''unsupported approval schema_version'')) (\<lambda>_.
     bindE (require (dget approval ''approved'' = PBool True) (pull_error ''local approval is required'')) (\<lambda>_.
     bindE (foldE (\<lambda>_ field. require (truthy (dget approval field))
         (pull_error (''approval field is required: '' @ field))) ()
       [''approved_by'', ''reason'', ''assignment_id'', ''target'']) (\<lambda>_.
     bindE (dindex record ''assignment_id'') (\<lambda>assignment_id.
     bindE (require (py_eq (dget approval ''assignment_id'') assignment_id)
       (pull_error ''approval assignment does not match pull record'')) (\<lambda>_.
     bindE (dindex record ''target'') (\<lambda>target.
     require (py_eq (dget approval ''target'') target) (pull_error ''approval target does not match pull record'')))))))"

text \<open>An operation of the deployment store.\<close>

definition on_deployments :: "'a deployment_sem \<Rightarrow> 'a pull_sem" where
  "on_deployments m = (\<lambda>s. case m (ps_deployments s) of (r, d) \<Rightarrow> (r, s\<lparr>ps_deployments := d\<rparr>))"

definition as_pull_error :: "exn \<Rightarrow> exn" where
  "as_pull_error e =
     (if is_class BundleValidationError e \<or> is_class DeploymentError e \<or> is_os_error e \<or> is_class JSONDecodeError e
      then pull_error (exn_str e) else e)"

definition apply_cached_bundle ::
    "pull_env \<Rightarrow> path \<Rightarrow> path \<Rightarrow> pydict \<Rightarrow> string \<Rightarrow> string \<Rightarrow> int \<Rightarrow> pydict pull_sem" where
  "apply_cached_bundle env pull_record_path state_dir approval now later mtime =
     bindS (load_pull_mapping env pull_record_path) (\<lambda>record.
     seqS (liftS (validate_approval record approval))
    (bindS (liftS (dindex record ''cached_bundle_path'')) (\<lambda>v.
     let cached = path_of (py_str v) in
     bindS (get_file cached) (\<lambda>f.
     seqS (liftS (require (is_file f) (pull_error (''cached bundle not found: '' @ path_str cached))))
    (bindS (get_file (be_expanduser (gv_bundle env) cached)) (\<lambda>f.
     bindS (catchS (on_deployments (record_deployment (gv_bundle env) (gv_store env state_dir) cached f now later mtime))
       (\<lambda>e. raiseS (as_pull_error e))) (\<lambda>deployment.
     returnS [(''schema_version'', PInt PULL_SCHEMA_VERSION), (''action'', PStr ''apply''),
       (''deployment_id'', dget deployment ''deployment_id''), (''bundle_id'', dget deployment ''bundle_id''),
       (''bundle_version'', dget deployment ''bundle_version''), (''changed_runtime_state'', PBool True)])))))))"

definition rollback_governance_bundle :: "pull_env \<Rightarrow> path \<Rightarrow> string \<Rightarrow> pydict pull_sem" where
  "rollback_governance_bundle env state_dir now =
     bindS (catchS (on_deployments (deployment_rollback (gv_store env state_dir) now))
       (\<lambda>e. raiseS (if is_class DeploymentError e \<or> is_os_error e \<or> is_class JSONDecodeError e
          then pull_error (exn_str e) else e))) (\<lambda>(active, previous).
     returnS [(''schema_version'', PInt PULL_SCHEMA_VERSION), (''action'', PStr ''rollback''),
       (''active_deployment_id'', PStr active), (''previous_deployment_id'', PStr previous),
       (''changed_runtime_state'', PBool True)])"

end
