(* ===== verification/Governance_Facts.thy ===== *)
theory Governance_Facts
  imports Governance_Pull Deployment_Facts "HOL-Library.Multiset"
begin

text \<open>
  What the governance modules promise together: an assignment selects the one best rule whatever the
  order of the rules, a pull changes no deployment, and what an approval deploys has the digest that
  was published.
\<close>

section \<open>Assignment\<close>

lemma filterE_Inr: "filterE p xs = Inr ys \<longleftrightarrow>
    (\<forall>x \<in> set xs. p x = Inr True \<or> p x = Inr False) \<and> ys = filter (\<lambda>x. p x = Inr True) xs"
proof (induction xs arbitrary: ys)
  case (Cons x xs)
  show ?case
  proof (cases "p x")
    case (Inr b)
    then show ?thesis by (cases b) (auto simp: bindE_eq_Inr Cons.IH)
  qed (auto simp: bindE_eq_Inr)
qed auto

lemma mapE_result: "mapE f xs = Inr ys \<longleftrightarrow> (\<forall>x \<in> set xs. is_result (f x)) \<and> ys = map (\<lambda>x. result_of (f x)) xs"
proof (induction xs arbitrary: ys)
  case (Cons x xs)
  then show ?case by (cases "f x") (auto simp: bindE_eq_Inr is_result_def result_of_def)
qed auto

lemma mapE_mem: "mapE f xs = Inr ys \<Longrightarrow> y \<in> set ys \<Longrightarrow> \<exists>x \<in> set xs. f x = Inr y"
  by (induction xs arbitrary: ys) (auto simp: bindE_eq_Inr)

lemma is_result_bool: "is_result (r :: bool res) \<longleftrightarrow> r = Inr True \<or> r = Inr False"
  by (cases r) (auto simp: is_result_def)

text \<open>The rules that match and have at least a given priority.\<close>

definition matching :: "pydict \<Rightarrow> pydict \<Rightarrow> bool" where
  "matching ctx a \<longleftrightarrow> rule_matches ctx a = Inr True"

definition priority_of :: "pydict \<Rightarrow> int" where
  "priority_of a = result_of (assignment_priority a)"

definition evaluates :: "pydict \<Rightarrow> pydict \<Rightarrow> bool" where
  "evaluates ctx a \<longleftrightarrow> is_result (rule_matches ctx a) \<and> (matching ctx a \<longrightarrow> is_result (assignment_priority a))"

lemma assignment_priority_Inr: "is_result (assignment_priority a) \<Longrightarrow> assignment_priority a = Inr (priority_of a)"
  unfolding priority_of_def by (rule is_result_Inr)

lemma select_assignment_Inr: "select_assignment rules ctx = Inr a \<longleftrightarrow>
    (\<forall>b \<in> set rules. evaluates ctx b) \<and>
    filter (\<lambda>b. matching ctx b \<and> priority_of a \<le> priority_of b) rules = [a]"
  (is "?l \<longleftrightarrow> ?r")
proof -
  define ms where "ms = filter (matching ctx) rules"
  define best where "best = Max (priority_of ` set ms)"
  have evaluated: "(\<exists>m. filterE (rule_matches ctx) rules = Inr m \<and> (\<exists>ps. mapE assignment_priority m = Inr ps)) \<longleftrightarrow>
      (\<forall>b \<in> set rules. evaluates ctx b)"
    by (auto simp: filterE_Inr mapE_result evaluates_def matching_def is_result_bool)
  show ?thesis
  proof (cases "\<forall>b \<in> set rules. evaluates ctx b")
    case True
    then have m: "filterE (rule_matches ctx) rules = Inr ms"
      unfolding filterE_Inr ms_def matching_def evaluates_def is_result_bool by blast
    have prio: "assignment_priority b = Inr (priority_of b)" if "b \<in> set ms" for b
      using that True by (intro assignment_priority_Inr) (auto simp: ms_def evaluates_def)
    then have ps: "mapE assignment_priority ms = Inr (map priority_of ms)" by (rule mapE_Inr_fun)
    have best_matches: "filterE (\<lambda>a. bindE (assignment_priority a) (\<lambda>p. Inr (p = Max (set (map priority_of ms))))) ms =
        Inr (filter (\<lambda>b. priority_of b = best) ms)"
      by (auto simp: filterE_Inr prio best_def intro: filter_cong)
    let ?best = "filter (\<lambda>b. priority_of b = best) ms"
    have run: "select_assignment rules ctx = (if ms = [] then Inl (assignment_error ''no assignment match'')
        else case ?best of [x] \<Rightarrow> Inr x | _ \<Rightarrow> Inl (assignment_error ''ambiguous assignment matches''))"
      by (simp add: select_assignment_def m ps best_matches [unfolded set_map] require_def)
    have l: "?l \<longleftrightarrow> ?best = [a]"
    proof (cases "ms = []")
      case False
      then show ?thesis unfolding run by (auto split: list.splits)
    qed (simp add: run)
    have "filter (\<lambda>b. matching ctx b \<and> priority_of a \<le> priority_of b) rules = filter (\<lambda>b. priority_of a \<le> priority_of b) ms"
      by (simp add: ms_def)
    moreover have "filter (\<lambda>b. priority_of b = best) ms = [a] \<longleftrightarrow> filter (\<lambda>b. priority_of a \<le> priority_of b) ms = [a]"
    proof
      assume *: "filter (\<lambda>b. priority_of b = best) ms = [a]"
      then have "a \<in> set (filter (\<lambda>b. priority_of b = best) ms)" by simp
      then have "priority_of a = best" by simp
      moreover have "priority_of b \<le> best" if "b \<in> set ms" for b
        using that by (simp add: best_def)
      ultimately have "filter (\<lambda>b. priority_of a \<le> priority_of b) ms = filter (\<lambda>b. priority_of b = best) ms"
        by (intro filter_cong) (auto intro: order.antisym)
      with * show "filter (\<lambda>b. priority_of a \<le> priority_of b) ms = [a]" by simp
    next
      assume *: "filter (\<lambda>b. priority_of a \<le> priority_of b) ms = [a]"
      have "a \<in> set (filter (\<lambda>b. priority_of a \<le> priority_of b) ms)" unfolding * by simp
      then have a: "a \<in> set ms" by simp
      have "priority_of b \<le> priority_of a" if "b \<in> set ms" for b
      proof (rule ccontr)
        assume "\<not> priority_of b \<le> priority_of a"
        then have "b \<in> set (filter (\<lambda>b. priority_of a \<le> priority_of b) ms)" using that by simp
        with * have "b = a" by simp
        with \<open>\<not> priority_of b \<le> priority_of a\<close> show False by simp
      qed
      then have best: "best = priority_of a" unfolding best_def using a by (intro Max_eqI) auto
      have "filter (\<lambda>b. priority_of b = best) ms = filter (\<lambda>b. priority_of a \<le> priority_of b) ms"
        using \<open>\<And>b. b \<in> set ms \<Longrightarrow> priority_of b \<le> priority_of a\<close>
        by (intro filter_cong) (auto simp: best intro: order.antisym)
      with * show "filter (\<lambda>b. priority_of b = best) ms = [a]" by simp
    qed
    ultimately show ?thesis using True l by simp
  next
    case False
    then have "\<not> ?l"
      using evaluated by (auto simp: select_assignment_def bindE_eq_Inr)
    with False show ?thesis by blast
  qed
qed

lemma find_published_mem:
  assumes "find_published published key = Some m"
  shows "\<exists>k. (k, m) \<in> set published \<and> target_eq k key"
proof -
  obtain k where "List.find (\<lambda>(k, m). target_eq k key) (rev published) = Some (k, m)"
    using assms by (auto simp: find_published_def)
  from find_eq_Some_first [OF this] have "(k, m) \<in> set published" "target_eq k key" by simp_all
  then show ?thesis by (intro exI [of _ k] conjI)
qed

lemma published_targets_mem:
  assumes "published_targets manifests = Inr published" and "(k, m) \<in> set published"
  shows "m \<in> set manifests" and "published_target m = Inr (k, m)"
proof -
  obtain m' where "m' \<in> set manifests" "published_target m' = Inr (k, m)"
    using mapE_mem [OF assms(1) [unfolded published_targets_def] assms(2)] by blast
  moreover from this have "m' = m" by (auto simp: published_target_def bindE_eq_Inr)
  ultimately show "m \<in> set manifests" and "published_target m = Inr (k, m)" by simp_all
qed

text \<open>What an evaluation that returns has found, step by step.\<close>

lemma dindex_dget: "dindex d k = Inr v \<Longrightarrow> dget d k = v"
  by (simp add: dindex_def dget_def dget_or_def split: option.splits)

lemma evaluate_assignment_Inr:
  assumes "evaluate_assignment source manifests ctx = Inr decision"
  obtains published rules selected key manifest bd digest by_context where
    "validate_assignment_source source = Inr ()" "published_targets manifests = Inr published"
    "assignment_rules source = Inr rules" "validate_published_targets rules published = Inr ()"
    "select_assignment rules ctx = Inr selected" "target_key_of (dget selected ''target'') = Inr key"
    "find_published published key = Some manifest" "matched_by ctx = Inr by_context"
    "dindex_dict manifest ''bundle'' = Inr bd" "dindex bd ''digest'' = Inr digest"
    "decision = [(''schema_version'', PInt ASSIGNMENT_SCHEMA_VERSION),
       (''assignment_id'', dget selected ''assignment_id''), (''matched_by'', PDict by_context),
       (''target'', PDict [(''bundle_id'', fst key), (''version'', fst (snd key)), (''channel'', snd (snd key)),
          (''digest'', digest)]), (''changed_runtime_state'', PBool False)]"
  using assms unfolding evaluate_assignment_def
proof (elim bindE_InrE)
  fix u published rules v selected target key
  assume steps: "validate_assignment_source source = Inr u" "published_targets manifests = Inr published"
    "assignment_rules source = Inr rules" "validate_published_targets rules published = Inr v"
    "select_assignment rules ctx = Inr selected" "dindex selected ''target'' = Inr target"
    "target_key_of target = Inr key"
    and found: "(case find_published published key of
        None \<Rightarrow> Inl (Exn KeyError ''target'')
      | Some manifest \<Rightarrow>
         bindE (dindex selected ''assignment_id'') (\<lambda>assignment_id.
         bindE (matched_by ctx) (\<lambda>by_context.
         bindE (dindex_dict manifest ''bundle'') (\<lambda>bundle.
         bindE (dindex bundle ''digest'') (\<lambda>digest.
         Inr [(''schema_version'', PInt ASSIGNMENT_SCHEMA_VERSION), (''assignment_id'', assignment_id),
           (''matched_by'', PDict by_context),
           (''target'', PDict [(''bundle_id'', fst key), (''version'', fst (snd key)), (''channel'', snd (snd key)),
              (''digest'', digest)]),
           (''changed_runtime_state'', PBool False)]))))) = Inr decision"
  show thesis
  proof (cases "find_published published key")
    case None
    with found show ?thesis by simp
  next
    case (Some manifest)
    from found [unfolded Some option.case] show ?thesis
    proof (elim bindE_InrE)
      fix assignment_id by_context bd digest
      assume "dindex selected ''assignment_id'' = Inr assignment_id" "matched_by ctx = Inr by_context"
        "dindex_dict manifest ''bundle'' = Inr bd" "dindex bd ''digest'' = Inr digest"
        "Inr [(''schema_version'', PInt ASSIGNMENT_SCHEMA_VERSION), (''assignment_id'', assignment_id),
           (''matched_by'', PDict by_context),
           (''target'', PDict [(''bundle_id'', fst key), (''version'', fst (snd key)), (''channel'', snd (snd key)),
              (''digest'', digest)]),
           (''changed_runtime_state'', PBool False)] = (Inr decision :: pydict res)"
      with steps Some dindex_dget [OF steps(6)] show ?thesis
        by (intro that [of published rules selected key manifest by_context bd digest])
          (simp_all add: dindex_dget [of selected "''assignment_id''"])
    qed
  qed
qed

text \<open>C26. An assignment goes to the one rule that matches the broker and has the highest priority: no other
  matching rule has at least its priority. Its target was published, and the digest of the decision is
  the published one.\<close>

theorem assignment_selects_best:
  assumes "evaluate_assignment source manifests ctx = Inr decision"
  shows "\<exists>rules selected key manifest published_key bd.
    assignment_rules source = Inr rules \<and>
    filter (\<lambda>b. matching ctx b \<and> priority_of selected \<le> priority_of b) rules = [selected] \<and>
    dget decision ''assignment_id'' = dget selected ''assignment_id'' \<and>
    target_key_of (dget selected ''target'') = Inr key \<and>
    manifest \<in> set manifests \<and> published_target manifest = Inr (published_key, manifest) \<and> target_eq published_key key \<and>
    dindex_dict manifest ''bundle'' = Inr bd \<and>
    dget decision ''target'' = PDict [(''bundle_id'', fst key), (''version'', fst (snd key)),
      (''channel'', snd (snd key)), (''digest'', dget bd ''digest'')]"
  using assms
proof (rule evaluate_assignment_Inr)
  fix published rules selected key manifest bd digest by_context
  assume steps: "published_targets manifests = Inr published" "assignment_rules source = Inr rules"
    "select_assignment rules ctx = Inr selected" "target_key_of (dget selected ''target'') = Inr key"
    "find_published published key = Some manifest" "dindex_dict manifest ''bundle'' = Inr bd"
    "dindex bd ''digest'' = Inr digest"
    and decision: "decision = [(''schema_version'', PInt ASSIGNMENT_SCHEMA_VERSION),
       (''assignment_id'', dget selected ''assignment_id''), (''matched_by'', PDict by_context),
       (''target'', PDict [(''bundle_id'', fst key), (''version'', fst (snd key)), (''channel'', snd (snd key)),
          (''digest'', digest)]), (''changed_runtime_state'', PBool False)]"
  obtain published_key where "(published_key, manifest) \<in> set published" "target_eq published_key key"
    using find_published_mem [OF steps(5)] by blast
  with steps decision published_targets_mem [OF steps(1)] dindex_dget [OF steps(7)] show ?thesis
    by (intro exI [of _ rules] exI [of _ selected] exI [of _ key] exI [of _ manifest] exI [of _ published_key]
        exI [of _ bd]) (simp add: select_assignment_Inr)
qed

text \<open>The order of the rules does not matter.\<close>

lemma select_order: "mset rules = mset rules' \<Longrightarrow> select_assignment rules ctx = Inr a \<Longrightarrow> select_assignment rules' ctx = Inr a"
proof -
  assume same: "mset rules = mset rules'" and a: "select_assignment rules ctx = Inr a"
  let ?P = "\<lambda>b. matching ctx b \<and> priority_of a \<le> priority_of b"
  have "mset (filter ?P rules') = mset (filter ?P rules)" by (simp add: same)
  with a have "mset (filter ?P rules') = {#a#}" by (simp add: select_assignment_Inr)
  then have "filter ?P rules' = [a]" by (cases "filter ?P rules'") auto
  moreover have "set rules' = set rules" by (metis same set_mset_mset)
  ultimately show ?thesis using a by (simp add: select_assignment_Inr)
qed

lemma rules_order:
  assumes "mset xs = mset ys" and "mapE assignment_rule xs = Inr rules"
  shows "\<exists>rules'. mapE assignment_rule ys = Inr rules' \<and> mset rules = mset rules'"
proof -
  have "set ys = set xs" by (metis assms(1) set_mset_mset)
  then have "mapE assignment_rule ys = Inr (map (\<lambda>x. result_of (assignment_rule x)) ys)"
    using assms(2) by (simp add: mapE_result)
  moreover have "mset rules = mset (map (\<lambda>x. result_of (assignment_rule x)) ys)"
    using assms by (simp add: mapE_result)
  ultimately show ?thesis by blast
qed

lemma private_order:
  assumes "reject_private_values source = Inr ()" and "dget source ''assignments'' = PList xs" and "set xs = set ys"
  shows "reject_private_values (AList.update ''assignments'' (PList ys) source) = Inr ()"
proof -
  have ok: "reject_private_value v k = Inr ()" if "(k, v) \<in> set source" for k v
    using assms(1) that by (auto simp: reject_private_values_def foldE_unit_iff)
  have "map_of source ''assignments'' = Some (PList xs)"
    using assms(2) by (simp add: dget_def dget_or_def split: option.splits)
  then have "reject_private_value (PList xs) ''assignments'' = Inr ()" using ok map_of_SomeD by fastforce
  then have "reject_private_value (PList ys) ''assignments'' = Inr ()"
    using assms(3) by (simp add: reject_private_value.simps foldE_unit_iff)
  with ok set_update_subset [of "''assignments''" "PList ys" source] show ?thesis
    by (auto simp: reject_private_values_def foldE_unit_iff)
qed

text \<open>The decision does not depend on the order in which the assignment source lists its rules.\<close>

theorem assignment_order_irrelevant:
  assumes "evaluate_assignment source manifests ctx = Inr decision"
    and "dget source ''assignments'' = PList xs" and "mset xs = mset ys"
  shows "evaluate_assignment (AList.update ''assignments'' (PList ys) source) manifests ctx = Inr decision"
  using assms(1)
proof (rule evaluate_assignment_Inr)
  fix published rules selected key manifest by_context bd digest
  assume steps: "validate_assignment_source source = Inr ()" "published_targets manifests = Inr published"
    "assignment_rules source = Inr rules" "validate_published_targets rules published = Inr ()"
    "select_assignment rules ctx = Inr selected" "target_key_of (dget selected ''target'') = Inr key"
    "find_published published key = Some manifest" "matched_by ctx = Inr by_context"
    "dindex_dict manifest ''bundle'' = Inr bd" "dindex bd ''digest'' = Inr digest"
    and decision: "decision = [(''schema_version'', PInt ASSIGNMENT_SCHEMA_VERSION),
       (''assignment_id'', dget selected ''assignment_id''), (''matched_by'', PDict by_context),
       (''target'', PDict [(''bundle_id'', fst key), (''version'', fst (snd key)), (''channel'', snd (snd key)),
          (''digest'', digest)]), (''changed_runtime_state'', PBool False)]"
  let ?source = "AList.update ''assignments'' (PList ys) source"
  have sets: "set xs = set ys" by (metis assms(3) set_mset_mset)
  have "dget_or source ''assignments'' (PList []) = PList xs"
    using assms(2) by (simp add: dget_def dget_or_def split: option.splits)
  then have "mapE assignment_rule xs = Inr rules" using steps(3) by (simp add: assignment_rules_def)
  from rules_order [OF assms(3) this] obtain rules' where
    rules': "assignment_rules ?source = Inr rules'" "mset rules = mset rules'"
    by (auto simp: assignment_rules_def dget_or_def map_of_update)
  have set_rules: "set rules' = set rules" by (metis rules'(2) set_mset_mset)
  have source: "validate_assignment_source ?source = Inr ()"
    using steps(1) private_order [OF _ assms(2) sets] by (simp add: validate_assignment_source_def bindE_eq_Inr)
  have targets: "validate_published_targets rules' published = Inr ()"
    using steps(4) set_rules by (simp add: validate_published_targets_def foldE_unit_iff)
  have selected: "select_assignment rules' ctx = Inr selected" by (rule select_order [OF rules'(2) steps(5)])
  have "selected \<in> set rules" using steps(5) by (metis filter_is_subset list.set_intros(1) select_assignment_Inr subsetD)
  then have "assignment_rule (PDict selected) = Inr selected"
    using steps(3) by (auto simp: assignment_rules_def assignment_rule_def bindE_eq_Inr dest!: mapE_mem split: pyval.splits)
  then have fields: "dindex selected ''target'' = Inr (dget selected ''target'')"
    "dindex selected ''assignment_id'' = Inr (dget selected ''assignment_id'')"
    by (auto simp: assignment_rule_def bindE_eq_Inr dhas_def dindex_def dget_def dget_or_def strip_def strip_by_def split: option.splits)
  show ?thesis
    unfolding evaluate_assignment_def
    by (simp add: source steps rules' targets selected fields decision)
qed

section \<open>Pull\<close>

definition plain_host :: "pull_env \<Rightarrow> bool" where
  "plain_host env \<longleftrightarrow> (\<forall>p. is_absolute p \<longrightarrow> be_expanduser (gv_bundle env) p = p)"

lemma plain_expand: "plain_host env \<Longrightarrow> plain p \<Longrightarrow> be_expanduser (gv_bundle env) p = p"
  by (simp add: plain_host_def plain_def)

lemma load_pull_mapping_Inr: "load_pull_mapping env p s = (Inr d, t) \<longleftrightarrow>
    t = s \<and> ps_files s (be_expanduser (gv_bundle env) p) = BundleValue (PDict d)"
  by (auto simp: load_pull_mapping_def get_file_def bindS_def getS_def returnS_def liftS_def
      split: bundle_file.splits pyval.splits)

lemma get_file_run: "get_file p s = (Inr (ps_files s p), s)"
  by (simp add: get_file_def bindS_def getS_def returnS_def)

lemma put_file_run: "put_file p f s = (Inr (), s\<lparr>ps_files := (ps_files s)(p := f)\<rparr>)"
  by (simp add: put_file_def modifyS_def)

lemma validate_bundle_path: "validate_bundle_file benv p f = Inr v \<Longrightarrow> br_path v = be_expanduser benv p"
  by (auto simp: validate_bundle_file_def Let_def bindE_eq_Inr split: if_splits)

lemma temp_dir_plain: "plain_host env \<Longrightarrow> plain dir \<Longrightarrow> plain (temp_dir env dir)"
  by (simp add: temp_dir_def pull_dir_def plain_expand plain_join)

lemma fetch_Inr:
  assumes "fetch_source_to_temp env url dir s = (Inr p, t)" and "plain_host env" and "plain dir"
    and "is_absolute (path_of (pu_path (gv_urlparse env url)))"
  shows "plain p" and "ps_deployments t = ps_deployments s"
proof -
  have source: "plain (path_of (pu_path (gv_urlparse env url)))"
    using assms(4) by (simp add: plain_def clean_path_of)
  have temp: "plain (path_join (temp_dir env dir) ''fetched-bundle.json.tmp'')"
    by (intro plain_join temp_dir_plain assms)
  show "plain p" and "ps_deployments t = ps_deployments s"
    using assms(1) source temp
    by (auto simp: fetch_source_to_temp_def fetch_localhost_url_def Let_def get_file_run put_file_run bindS_def
        seqS_def returnS_def raiseS_def split: if_splits sum.splits option.splits)
qed

lemma validate_fetched_Inr:
  assumes "validate_fetched env p dir s = (Inr v, t)"
  shows "t = s" and "validate_bundle_file (gv_bundle env) p (ps_files s (be_expanduser (gv_bundle env) p)) = Inr v"
  using assms
  by (cases "validate_bundle_file (gv_bundle env) p (ps_files s (be_expanduser (gv_bundle env) p))";
      auto simp: validate_fetched_def catchS_def bindS_def get_file_run liftS_def seqS_def raiseS_def
        split: if_splits prod.splits sum.splits)+

lemma validate_target_Inr:
  assumes "validate_target_matches_bundle env target v s = (Inr x, t)"
  obtains bd cs digest where "t = s"
    "ps_files s (be_expanduser (gv_bundle env) (path_of (path_str (br_path v)))) = BundleValue (PDict bd)"
    "dindex_dict bd ''checksum'' = Inr cs" "dindex cs ''value'' = Inr digest" "tg_digest target = lower (py_str digest)"
  using assms unfolding validate_target_matches_bundle_def
  by (elim seqS_InrE bindS_InrE liftS_InrE bindE_InrE) (auto simp: load_pull_mapping_Inr)

lemma copy_Inr:
  assumes "copy_or_replace source dest s = (Inr x, t)"
  shows "t = s\<lparr>ps_files := (ps_files s)(tmp_path dest := NoBundle, dest := ps_files s source)\<rparr>"
  using assms
  by (auto simp: copy_or_replace_def bindS_def get_file_run put_file_run seqS_def raiseS_def split: option.splits)

lemma write_json_run: "write_json_atomic p d s =
    (Inr (), s\<lparr>ps_files := (ps_files s)(tmp_path p := NoBundle, p := BundleValue (PDict d))\<rparr>)"
  by (simp add: write_json_atomic_def bindS_def put_file_run seqS_def)

text \<open>A cache directory is below the directory of the cache, so it is not below the temporary one.\<close>

lemma cache_dir_Inr:
  assumes "cache_dir env state_dir t = Inr dir" and "plain_host env" and "plain state_dir"
  shows "plain dir" and "slash \<notin> set n \<Longrightarrow> \<not> relative_to (path_join dir n) (temp_dir env state_dir)"
proof -
  let ?P = "pull_dir env state_dir"
  have safe: "safe_id_fullmatch (tg_bundle_id t)" "safe_id_fullmatch (tg_version t)" "safe_id_fullmatch (tg_digest t)"
    and dir: "dir = path_join (path_join (path_join (path_join ?P ''cache'') (tg_bundle_id t)) (tg_version t)) (tg_digest t)"
    using assms(1) by (auto simp: cache_dir_def safe_cache_part_def bindE_eq_Inr)
  show "plain dir"
    unfolding dir pull_dir_def by (intro plain_join) (simp add: plain_expand assms)
  have cache: "path_join ?P ''cache'' = Path (path_root ?P) (path_parts ?P @ [''cache''])"
    "temp_dir env state_dir = Path (path_root ?P) (path_parts ?P @ [''tmp''])"
    unfolding temp_dir_def by (rule path_join_name; simp add: slash_def)+
  assume n: "slash \<notin> set n"
  have "relative_to dir (path_join ?P ''cache'')"
    unfolding dir by (intro relative_trans [OF relative_join] relative_join safe_no_slash safe)
  then have "relative_to (path_join dir n) (path_join ?P ''cache'')"
    by (rule relative_trans [OF relative_join [OF n]])
  then obtain ps where "path_parts (path_join dir n) = path_parts ?P @ ''cache'' # ps"
    by (auto simp: relative_to_def cache prefix_def)
  then show "\<not> relative_to (path_join dir n) (temp_dir env state_dir)"
    by (simp add: relative_to_def cache)
qed

text \<open>What a pull that returns leaves: the bundle of the target in the cache, and no deployment.\<close>

definition pulled :: "pull_env \<Rightarrow> pydict \<Rightarrow> path \<Rightarrow> pull_target \<Rightarrow> path \<Rightarrow> pydict \<Rightarrow> pull_state \<Rightarrow> bool" where
  "pulled env decision state_dir target dir bd t \<longleftrightarrow>
     (\<exists>p v. validate_bundle_file (gv_bundle env) p (BundleValue (PDict bd)) = Inr v) \<and>
     target_from_assignment decision = Inr target \<and> cache_dir env state_dir target = Inr dir \<and>
     ps_files t (path_join dir ''bundle.json'') = BundleValue (PDict bd) \<and>
     (\<exists>cs digest. dindex_dict bd ''checksum'' = Inr cs \<and> dindex cs ''value'' = Inr digest \<and>
        tg_digest target = lower (py_str digest))"

lemma pull_Inr:
  assumes "pull_assigned_bundle env url decision state_dir auth_ref auth_present s = (Inr report, t)"
    and "plain_host env" and "plain state_dir" and "is_absolute (path_of (pu_path (gv_urlparse env url)))"
  obtains target dir bd rcd where "pulled env decision state_dir target dir bd t"
    "ps_deployments t = ps_deployments s"
    "ps_files t (path_join dir ''pull-record.json'') = BundleValue (PDict rcd)"
    "dget report ''cache_record_path'' = PStr (path_str (path_join dir ''pull-record.json''))"
    "dget rcd ''cached_bundle_path'' = PStr (path_str (path_join dir ''bundle.json''))"
    "dget rcd ''target'' = PDict (target_dict target)" "dget report ''target'' = PDict (target_dict target)"
    "dindex rcd ''assignment_id'' = Inr (dget report ''assignment_id'')"
    "dget report ''assignment_id'' = PStr (py_str (dget decision ''assignment_id''))"
  using assms(1) unfolding pull_assigned_bundle_def Let_def
proof (elim seqS_InrE bindS_InrE liftS_InrE)
  fix u1 s1 target s2 fetched s3 v s4 u2 s5 dir s6 u3 s7 u4 s8 assignment_id s9 u5 s10
  assume s1: "s1 = s" and target: "target_from_assignment decision = Inr target" and s2: "s2 = s1"
    and fetch: "fetch_source_to_temp env url state_dir s2 = (Inr fetched, s3)"
    and validate: "validate_fetched env fetched state_dir s3 = (Inr v, s4)"
    and matches: "validate_target_matches_bundle env target v s4 = (Inr u2, s5)"
    and dir: "cache_dir env state_dir target = Inr dir" and s6: "s6 = s5"
    and copy: "copy_or_replace fetched (path_join dir ''bundle.json'') s6 = (Inr u3, s7)"
    and unlink: "unlink_if_temp env fetched state_dir s7 = (Inr u4, s8)"
    and s9: "s9 = s8" and aid: "dindex decision ''assignment_id'' = Inr assignment_id"
    and rcd: "write_json_atomic (path_join dir ''pull-record.json'') (pull_record (py_str assignment_id)
        (gv_urlparse env url) target (path_join dir ''bundle.json'') auth_ref) s9 = (Inr u5, s10)"
    and report: "returnS (pull_report (py_str assignment_id) target (path_join dir ''bundle.json'')
        (path_join dir ''pull-record.json'') auth_ref) s10 = (Inr report, t)"
  let ?cached = "path_join dir ''bundle.json''" and ?rec_path = "path_join dir ''pull-record.json''"
  note fetched = fetch_Inr [OF fetch assms(2,3,4)]
  note v = validate_fetched_Inr [OF validate]
  have path: "br_path v = fetched"
    using validate_bundle_path [OF v(2)] plain_expand [OF assms(2) fetched(1)] by simp
  obtain bd cs digest where bd: "s5 = s4" "ps_files s4 fetched = BundleValue (PDict bd)"
    "dindex_dict bd ''checksum'' = Inr cs" "dindex cs ''value'' = Inr digest" "tg_digest target = lower (py_str digest)"
    using validate_target_Inr [OF matches] plain_text [OF fetched(1)] plain_expand [OF assms(2) fetched(1)]
    unfolding path by metis
  note dir_ok = cache_dir_Inr [OF dir assms(2,3)]
  have names: "?cached = Path (path_root dir) (path_parts dir @ [''bundle.json''])"
    "?rec_path = Path (path_root dir) (path_parts dir @ [''pull-record.json''])"
    by (rule path_join_name; simp add: slash_def)+
  have tmp: "tmp_path ?rec_path = Path (path_root dir) (path_parts dir @ [''pull-record.json.tmp''])"
    unfolding tmp_path_def names path_name_snoc by (simp add: path_parent_def path_join_name slash_def)
  have "\<not> relative_to ?cached (temp_dir env state_dir)" by (rule dir_ok(2)) (simp add: slash_def)
  then have s8: "ps_files s8 ?cached = ps_files s7 ?cached" "ps_deployments s8 = ps_deployments s7"
    using unlink by (auto simp: unlink_if_temp_def put_file_run returnS_def split: if_splits)
  have s7: "ps_files s7 ?cached = BundleValue (PDict bd)" "ps_deployments s7 = ps_deployments s"
    using copy_Inr [OF copy] bd(1,2) v(1) fetched(2) s1 s2 s6 by simp_all
  have t: "t = s8\<lparr>ps_files := (ps_files s8)(tmp_path ?rec_path := NoBundle,
      ?rec_path := BundleValue (PDict (pull_record (py_str assignment_id) (gv_urlparse env url) target ?cached auth_ref)))\<rparr>"
    and report': "report = pull_report (py_str assignment_id) target ?cached ?rec_path auth_ref"
    using rcd report s9 by (simp_all add: write_json_run returnS_def)
  show thesis
  proof (rule that)
    have "?cached \<noteq> tmp_path ?rec_path" "?cached \<noteq> ?rec_path" unfolding tmp by (simp_all add: names)
    then have "ps_files t ?cached = BundleValue (PDict bd)" using s7 s8 by (simp add: t)
    moreover have "validate_bundle_file (gv_bundle env) fetched (BundleValue (PDict bd)) = Inr v"
      using v bd(2) plain_expand [OF assms(2) fetched(1)] by simp
    ultimately show "pulled env decision state_dir target dir bd t"
      unfolding pulled_def using target dir bd by blast
    show "ps_deployments t = ps_deployments s" using s7 s8 by (simp add: t)
    show "ps_files t ?rec_path = BundleValue (PDict (pull_record (py_str assignment_id) (gv_urlparse env url) target ?cached auth_ref))"
      by (simp add: t)
    show "dget report ''cache_record_path'' = PStr (path_str ?rec_path)" by (simp add: report' pull_report_def)
    show "dget (pull_record (py_str assignment_id) (gv_urlparse env url) target ?cached auth_ref) ''cached_bundle_path'' =
        PStr (path_str ?cached)" by (simp add: pull_record_def)
    show "dget (pull_record (py_str assignment_id) (gv_urlparse env url) target ?cached auth_ref) ''target'' =
        PDict (target_dict target)" by (simp add: pull_record_def)
    show "dget report ''target'' = PDict (target_dict target)" by (simp add: report' pull_report_def)
    show "dindex (pull_record (py_str assignment_id) (gv_urlparse env url) target ?cached auth_ref) ''assignment_id'' =
        Inr (dget report ''assignment_id'')" by (simp add: report' pull_record_def pull_report_def)
    show "dget report ''assignment_id'' = PStr (py_str (dget decision ''assignment_id''))"
      by (simp add: report' pull_report_def dindex_dget [OF aid])
  qed
qed

section \<open>Apply\<close>

lemma on_deployments_Inr: "on_deployments m s = (Inr x, t) \<Longrightarrow>
    \<exists>d. m (ps_deployments s) = (Inr x, d) \<and> ps_deployments t = d \<and> ps_files t = ps_files s"
  by (auto simp: on_deployments_def split: prod.splits)

lemma record_deployment_Inr:
  assumes "record_deployment benv env bundle_path f now later mtime s = (Inr r, t)"
  obtains a where "plan_deployment benv env bundle_path f now s = Inr a"
    "active_of t = Inr (Some (av_pointer a))"
    "map_of (dp_records t) (pt_id (av_pointer a) @ ''.json'') = Some (Content (PDict (av_record a)), mtime)"
  using assms
  by (auto simp: record_deployment_def monad_simps record_steps_def Let_def atomic_steps_def active_of_def
      split: sum.splits option.splits)

text \<open>The record of a deployment has the digest that its bundle claims.\<close>

lemma plan_checksum:
  assumes "plan_deployment benv env bundle_path (BundleValue (PDict bd)) now s = Inr a"
    and "dindex_dict bd ''checksum'' = Inr cs" and "dindex cs ''value'' = Inr digest"
  shows "\<exists>algorithm. dget (av_record a) ''checksum'' =
    PDict [(''algorithm'', algorithm), (''value'', PStr (lower (py_str digest)))]"
proof -
  obtain v checksum where v: "validate_bundle_file benv bundle_path (BundleValue (PDict bd)) = Inr v"
    "bundle_checksum (be_sha256 benv) bd = Inr checksum"
    and rcd: "dget (av_record a) ''checksum'' = PDict [(''algorithm'', br_checksum_algorithm v), (''value'', PStr checksum)]"
    using assms(1) by (auto simp: plan_deployment_def load_bundle_def bindE_eq_Inr Let_def)
  have "validate_checksum benv bd = Inr ()"
    using v(1) by (auto simp: validate_bundle_file_def Let_def load_json_mapping_def bindE_eq_Inr split: if_splits)
  then have "checksum = lower (py_str digest)"
    using assms(2,3) v(2) by (auto simp: validate_checksum_def bindE_eq_Inr dindex_str_def split: pyval.splits)
  with rcd show ?thesis by blast
qed

lemma apply_Inr:
  assumes "apply_cached_bundle env record_path state_dir approval now later mtime s = (Inr r, t)"
  obtains rcd v a where
    "ps_files s (be_expanduser (gv_bundle env) record_path) = BundleValue (PDict rcd)"
    "validate_approval rcd approval = Inr ()" "dindex rcd ''cached_bundle_path'' = Inr v"
    "plan_deployment (gv_bundle env) (gv_store env state_dir) (path_of (py_str v))
       (ps_files s (be_expanduser (gv_bundle env) (path_of (py_str v)))) now (ps_deployments s) = Inr a"
    "active_of (ps_deployments t) = Inr (Some (av_pointer a))"
    "map_of (dp_records (ps_deployments t)) (pt_id (av_pointer a) @ ''.json'') = Some (Content (PDict (av_record a)), mtime)"
  using assms unfolding apply_cached_bundle_def Let_def
proof (elim seqS_InrE bindS_InrE liftS_InrE)
  fix rcd s1 u1 s2 v s3 f s4 u2 s5 g s6 deployment s7
  assume load: "load_pull_mapping env record_path s = (Inr rcd, s1)"
    and approved: "validate_approval rcd approval = Inr u1" and s2: "s2 = s1"
    and v: "dindex rcd ''cached_bundle_path'' = Inr v" and s3: "s3 = s2"
    and f: "get_file (path_of (py_str v)) s3 = (Inr f, s4)" and s5: "s5 = s4"
    and g: "get_file (be_expanduser (gv_bundle env) (path_of (py_str v))) s5 = (Inr g, s6)"
    and deploy: "catchS (on_deployments (record_deployment (gv_bundle env) (gv_store env state_dir) (path_of (py_str v))
        g now later mtime)) (\<lambda>e. raiseS (as_pull_error e)) s6 = (Inr deployment, s7)"
    and t: "returnS [(''schema_version'', PInt PULL_SCHEMA_VERSION), (''action'', PStr ''apply''),
       (''deployment_id'', dget deployment ''deployment_id''), (''bundle_id'', dget deployment ''bundle_id''),
       (''bundle_version'', dget deployment ''bundle_version''), (''changed_runtime_state'', PBool True)] s7 = (Inr r, t)"
  have s6: "s6 = s" "g = ps_files s (be_expanduser (gv_bundle env) (path_of (py_str v)))"
    using load f g s2 s3 s5 by (auto simp: load_pull_mapping_Inr get_file_run)
  have "on_deployments (record_deployment (gv_bundle env) (gv_store env state_dir) (path_of (py_str v))
        g now later mtime) s6 = (Inr deployment, t)"
    using deploy t by (auto simp: catchS_def raiseS_def returnS_def split: prod.splits sum.splits)
  from on_deployments_Inr [OF this] obtain d where
    "record_deployment (gv_bundle env) (gv_store env state_dir) (path_of (py_str v)) g now later mtime
       (ps_deployments s6) = (Inr deployment, d)" "ps_deployments t = d" by blast
  with that load approved v s6 show thesis
    by (auto elim!: record_deployment_Inr simp: load_pull_mapping_Inr)
qed

text \<open>An approved apply of a cached bundle that can be deployed succeeds.\<close>

lemma apply_runs:
  assumes "ps_files s (be_expanduser (gv_bundle env) record_path) = BundleValue (PDict rcd)"
    and "validate_approval rcd approval = Inr ()" and "dindex rcd ''cached_bundle_path'' = Inr v"
    and "is_file (ps_files s (path_of (py_str v)))"
    and "plan_deployment (gv_bundle env) (gv_store env state_dir) (path_of (py_str v))
       (ps_files s (be_expanduser (gv_bundle env) (path_of (py_str v)))) now (ps_deployments s) = Inr a"
  shows "is_result (fst (apply_cached_bundle env record_path state_dir approval now later mtime s))"
proof -
  have load: "load_pull_mapping env record_path s = (Inr rcd, s)"
    using assms(1) by (simp add: load_pull_mapping_Inr)
  show ?thesis
    unfolding apply_cached_bundle_def Let_def
    by (simp add: bindS_apply seqS_apply catchS_apply load assms(2-5) sem_simps get_file_run on_deployments_def record_deployment_def is_result_def)
qed

text \<open>A bundle that is valid can be deployed, wherever it lies.\<close>

lemma valid_bundle_planned:
  assumes "validate_bundle_file benv p (BundleValue (PDict bd)) = Inr v"
    and "read_pointer [] (dp_active s) = Inr current"
  shows "is_result (plan_deployment benv denv q (BundleValue (PDict bd)) now s)"
proof -
  have "\<exists>v'. validate_bundle_file benv q (BundleValue (PDict bd)) = Inr v'"
    using assms(1) by (auto simp: validate_bundle_file_def Let_def load_json_mapping_def bindE_eq_Inr)
  moreover have "\<exists>checksum. bundle_checksum (be_sha256 benv) bd = Inr checksum"
    using assms(1) by (auto simp: validate_bundle_file_def Let_def load_json_mapping_def bindE_eq_Inr validate_checksum_def)
  moreover have "read_pointer shown (dp_active s) = Inr current" for shown
    using assms(2) read_pointer_shown by blast
  ultimately show ?thesis
    by (auto simp: plan_deployment_def load_bundle_def Let_def is_result_def)
qed

lemma py_eq_str [simp]: "py_eq (PStr s) (PStr t) = (s = t)"
  by (simp add: py_eq.simps)

lemma py_eq_target: "py_eq (PDict (target_dict t)) (PDict (target_dict t))"
  by (simp add: target_dict_def py_eq.simps [of "PDict _"])

lemma target_dict_not_Nil [simp]: "target_dict t \<noteq> []"
  by (simp add: target_dict_def)

text \<open>An approval of a pull, as an operator writes it.\<close>

definition approves :: "pydict \<Rightarrow> pydict \<Rightarrow> bool" where
  "approves approval report \<longleftrightarrow> eq_int (dget approval ''schema_version'') 1 \<and> dget approval ''approved'' = PBool True \<and>
     truthy (dget approval ''approved_by'') \<and> truthy (dget approval ''reason'') \<and>
     dget approval ''assignment_id'' = dget report ''assignment_id'' \<and> dget approval ''target'' = dget report ''target''"

lemma approved_apply_runs:
  assumes "plain_host env" and "plain state_dir" and "is_absolute (path_of (pu_path (gv_urlparse env url)))"
    and "pull_assigned_bundle env url decision state_dir auth_ref auth_present s = (Inr report, s1)"
    and "approves approval report" and "active_of (ps_deployments s) = Inr current"
  shows "is_result (fst (apply_cached_bundle env (path_of (py_str (dget report ''cache_record_path''))) state_dir approval
    now later mtime s1))"
proof -
  obtain target dir bd rcd where pull: "pulled env decision state_dir target dir bd s1"
    "ps_deployments s1 = ps_deployments s"
    "ps_files s1 (path_join dir ''pull-record.json'') = BundleValue (PDict rcd)"
    "dget report ''cache_record_path'' = PStr (path_str (path_join dir ''pull-record.json''))"
    "dget rcd ''cached_bundle_path'' = PStr (path_str (path_join dir ''bundle.json''))"
    "dget rcd ''target'' = PDict (target_dict target)" "dget report ''target'' = PDict (target_dict target)"
    "dindex rcd ''assignment_id'' = Inr (dget report ''assignment_id'')"
    "dget report ''assignment_id'' = PStr (py_str (dget decision ''assignment_id''))"
    by (rule pull_Inr [OF assms(4,1,2,3)])
  have "plain dir" using pull(1) cache_dir_Inr(1) [OF _ assms(1,2)] unfolding pulled_def by blast
  then have dir: "plain (path_join dir n)" for n by (rule plain_join)
  have "strip (py_str (dget_or decision ''assignment_id'' (PStr []))) \<noteq> []"
    using pull(1) by (auto simp: pulled_def target_from_assignment_def bindE_eq_Inr)
  then have aid: "py_str (dget decision ''assignment_id'') \<noteq> []"
    by (auto simp: dget_def dget_or_def strip_def strip_by_def split: option.splits)
  have index: "dindex rcd k = Inr (dget rcd k)" if "dget rcd k \<noteq> PNone" for k
    using that by (auto simp: dindex_def dget_def dget_or_def split: option.splits)
  have approved: "validate_approval rcd approval = Inr ()"
    using assms(5) aid by (simp add: validate_approval_def approves_def PULL_SCHEMA_VERSION_def pull(6-9) index py_eq_target)
  obtain p v where valid: "validate_bundle_file (gv_bundle env) p (BundleValue (PDict bd)) = Inr v"
    and cached: "ps_files s1 (path_join dir ''bundle.json'') = BundleValue (PDict bd)"
    using pull(1) by (auto simp: pulled_def)
  have "is_result (plan_deployment (gv_bundle env) (gv_store env state_dir) (path_join dir ''bundle.json'')
      (BundleValue (PDict bd)) now (ps_deployments s1))"
    by (rule valid_bundle_planned [OF valid]) (use assms(6) pull(2) in \<open>simp add: active_of_def\<close>)
  then obtain a where a: "plan_deployment (gv_bundle env) (gv_store env state_dir) (path_join dir ''bundle.json'')
      (BundleValue (PDict bd)) now (ps_deployments s1) = Inr a" using is_result_Inr by blast
  show ?thesis
  proof (rule apply_runs)
    show "ps_files s1 (be_expanduser (gv_bundle env) (path_of (py_str (dget report ''cache_record_path'')))) =
        BundleValue (PDict rcd)" by (simp add: pull(3,4) plain_text [OF dir] plain_expand [OF assms(1) dir])
    show "validate_approval rcd approval = Inr ()" by (rule approved)
    show "dindex rcd ''cached_bundle_path'' = Inr (PStr (path_str (path_join dir ''bundle.json'')))"
      by (simp add: index pull(5))
    show "is_file (ps_files s1 (path_of (py_str (PStr (path_str (path_join dir ''bundle.json''))))))"
      by (simp add: plain_text [OF dir] cached is_file_def)
    show "plan_deployment (gv_bundle env) (gv_store env state_dir) (path_of (py_str (PStr (path_str (path_join dir ''bundle.json'')))))
       (ps_files s1 (be_expanduser (gv_bundle env) (path_of (py_str (PStr (path_str (path_join dir ''bundle.json'')))))))
       now (ps_deployments s1) = Inr a"
      by (simp add: plain_text [OF dir] plain_expand [OF assms(1) dir] cached a)
  qed
qed

text \<open>C25. An approved pull can be deployed: if a pull returns, the active pointer can be read, and an operator
  approves its assignment and target with a name and a reason, then applying its record returns.\<close>

theorem approved_pull_deploys:
  assumes "plain_host env" and "plain state_dir" and "is_absolute (path_of (pu_path (gv_urlparse env url)))"
    and "pull_assigned_bundle env url decision state_dir auth_ref auth_present s = (Inr report, s1)"
    and "approves approval report" and "active_of (ps_deployments s) = Inr current"
  shows "\<exists>r s2. apply_cached_bundle env (path_of (py_str (dget report ''cache_record_path''))) state_dir approval
    now later mtime s1 = (Inr r, s2)"
  using approved_apply_runs [OF assms] by (metis is_result_Inr prod.collapse)

section \<open>The chain\<close>

lemma decided_target:
  assumes "evaluate_assignment source manifests ctx = Inr decision"
  obtains key manifest bd where "manifest \<in> set manifests" "dindex_dict manifest ''bundle'' = Inr bd"
    "dget decision ''target'' = PDict [(''bundle_id'', fst key), (''version'', fst (snd key)),
       (''channel'', snd (snd key)), (''digest'', dget bd ''digest'')]"
  using assms
proof (rule evaluate_assignment_Inr)
  fix published rules selected key manifest by_context bd digest
  assume steps: "published_targets manifests = Inr published" "find_published published key = Some manifest"
    "dindex_dict manifest ''bundle'' = Inr bd" "dindex bd ''digest'' = Inr digest"
    and decision: "decision = [(''schema_version'', PInt ASSIGNMENT_SCHEMA_VERSION),
       (''assignment_id'', dget selected ''assignment_id''), (''matched_by'', PDict by_context),
       (''target'', PDict [(''bundle_id'', fst key), (''version'', fst (snd key)), (''channel'', snd (snd key)),
          (''digest'', digest)]), (''changed_runtime_state'', PBool False)]"
  obtain k where "(k, manifest) \<in> set published" using find_published_mem [OF steps(2)] by blast
  then have "manifest \<in> set manifests" by (rule published_targets_mem(1) [OF steps(1)])
  then show thesis by (rule that [of manifest bd key]) (use steps(3) dindex_dget [OF steps(4)] in \<open>simp_all add: decision\<close>)
qed

text \<open>C24. Assignment, pull and apply together deploy what was published. If an assignment selects a target,
  the pull of that decision returns and the approved apply of its record returns, then the pull changed
  no deployment, and the active deployment afterwards has the digest of a published manifest; the
  approval was given for the target that was assigned.\<close>

theorem governed_deployment_was_published:
  assumes "plain_host env" and "plain state_dir" and "is_absolute (path_of (pu_path (gv_urlparse env url)))"
    and "evaluate_assignment source manifests ctx = Inr decision"
    and "pull_assigned_bundle env url decision state_dir auth_ref auth_present s = (Inr report, s1)"
    and "apply_cached_bundle env (path_of (py_str (dget report ''cache_record_path''))) state_dir approval now later mtime s1
      = (Inr r, s2)"
  shows "\<exists>manifest bd digest q rcd algorithm target.
    manifest \<in> set manifests \<and> dindex_dict manifest ''bundle'' = Inr bd \<and> dget bd ''digest'' = PDict digest \<and>
    ps_deployments s1 = ps_deployments s \<and> active_of (ps_deployments s2) = Inr (Some q) \<and>
    map_of (dp_records (ps_deployments s2)) (pt_id q @ ''.json'') = Some (Content (PDict rcd), mtime) \<and>
    dget rcd ''checksum'' =
      PDict [(''algorithm'', algorithm), (''value'', PStr (lower (py_str (dget digest ''value''))))] \<and>
    dget approval ''approved'' = PBool True \<and> target_from_assignment decision = Inr target \<and>
    py_eq (dget approval ''target'') (PDict (target_dict target))"
proof -
  obtain key manifest bd where published: "manifest \<in> set manifests" "dindex_dict manifest ''bundle'' = Inr bd"
    "dget decision ''target'' = PDict [(''bundle_id'', fst key), (''version'', fst (snd key)),
       (''channel'', snd (snd key)), (''digest'', dget bd ''digest'')]"
    by (rule decided_target [OF assms(4)])
  obtain target dir cached rcd where pull: "pulled env decision state_dir target dir cached s1"
    "ps_deployments s1 = ps_deployments s"
    "ps_files s1 (path_join dir ''pull-record.json'') = BundleValue (PDict rcd)"
    "dget report ''cache_record_path'' = PStr (path_str (path_join dir ''pull-record.json''))"
    "dget rcd ''cached_bundle_path'' = PStr (path_str (path_join dir ''bundle.json''))"
    "dget rcd ''target'' = PDict (target_dict target)"
    by (rule pull_Inr [OF assms(5,1,2,3)]) blast
  have "plain dir" using pull(1) cache_dir_Inr(1) [OF _ assms(1,2)] unfolding pulled_def by blast
  then have dir: "plain (path_join dir n)" for n by (rule plain_join)
  have digest: "\<exists>digest. dget bd ''digest'' = PDict digest \<and> tg_digest target = lower (py_str (dget digest ''value''))"
    using pull(1) published(3)
    by (auto simp: pulled_def target_from_assignment_def bindE_eq_Inr dest: dindex_dget split: pyval.splits)
  have record_path: "path_of (py_str (dget report ''cache_record_path'')) = path_join dir ''pull-record.json''"
    by (simp add: pull(4) plain_text [OF dir])
  obtain rcd' v a where applied: "ps_files s1 (path_join dir ''pull-record.json'') = BundleValue (PDict rcd')"
    "validate_approval rcd' approval = Inr ()" "dindex rcd' ''cached_bundle_path'' = Inr v"
    "plan_deployment (gv_bundle env) (gv_store env state_dir) (path_of (py_str v))
       (ps_files s1 (be_expanduser (gv_bundle env) (path_of (py_str v)))) now (ps_deployments s1) = Inr a"
    "active_of (ps_deployments s2) = Inr (Some (av_pointer a))"
    "map_of (dp_records (ps_deployments s2)) (pt_id (av_pointer a) @ ''.json'') = Some (Content (PDict (av_record a)), mtime)"
    using apply_Inr [OF assms(6)] unfolding record_path plain_expand [OF assms(1) dir] by metis
  have same: "rcd' = rcd" using applied(1) pull(3) by simp
  have "v = PStr (path_str (path_join dir ''bundle.json''))"
    using dindex_dget [OF applied(3)] pull(5) unfolding same by simp
  then have v: "path_of (py_str v) = path_join dir ''bundle.json''" by (simp add: plain_text [OF dir])
  obtain cs val where cs: "ps_files s1 (path_join dir ''bundle.json'') = BundleValue (PDict cached)"
    "dindex_dict cached ''checksum'' = Inr cs" "dindex cs ''value'' = Inr val" "tg_digest target = lower (py_str val)"
    using pull(1) by (auto simp: pulled_def)
  have "plan_deployment (gv_bundle env) (gv_store env state_dir) (path_join dir ''bundle.json'')
      (BundleValue (PDict cached)) now (ps_deployments s1) = Inr a"
    using applied(4) by (simp add: v plain_expand [OF assms(1) dir] cs(1))
  from plan_checksum [OF this cs(2,3)] obtain algorithm where
    "dget (av_record a) ''checksum'' = PDict [(''algorithm'', algorithm), (''value'', PStr (tg_digest target))]"
    by (auto simp: cs(4))
  moreover have "dget approval ''approved'' = PBool True" "py_eq (dget approval ''target'') (PDict (target_dict target))"
    using applied(2) pull(6) by (auto simp: validate_approval_def bindE_eq_Inr same dest: dindex_dget)
  moreover have "target_from_assignment decision = Inr target" using pull(1) by (simp add: pulled_def)
  ultimately show ?thesis using published(1,2) digest pull(2) applied(5,6) by metis
qed

section \<open>At concrete values\<close>

definition demo_manifest :: "string \<Rightarrow> pydict" where
  "demo_manifest version = [(''bundle'', PDict [(''bundle_id'', PStr ''base''), (''version'', PStr version),
     (''channel'', PStr ''stable''), (''digest'', PDict [(''algorithm'', PStr ''sha256''), (''value'', PStr ''ABC'')])])]"

definition demo_rule :: "string \<Rightarrow> int \<Rightarrow> string \<Rightarrow> pyval" where
  "demo_rule name priority version = PDict [(''assignment_id'', PStr name), (''priority'', PInt priority),
     (''match'', PDict [(''rings'', PList [PStr ''early''])]),
     (''target'', PDict [(''bundle_id'', PStr ''base''), (''version'', PStr version), (''channel'', PStr ''stable'')])]"

definition demo_source :: "pyval list \<Rightarrow> pydict" where
  "demo_source rules = [(''schema_version'', PInt 1), (''assignments'', PList rules)]"

definition demo_decision :: "pyval list \<Rightarrow> pydict res" where
  "demo_decision rules = evaluate_assignment (demo_source rules) [demo_manifest ''1'', demo_manifest ''2'']
     [(''ring'', PStr ''early'')]"

lemma demo_decided: "is_result (demo_decision [demo_rule ''low'' 1 ''2'', demo_rule ''high'' 2 ''1''])"
  by code_simp

lemma assignment_selects_best_witness:
  "\<exists>decision. demo_decision [demo_rule ''low'' 1 ''2'', demo_rule ''high'' 2 ''1''] = Inr decision \<and>
     (\<exists>rules selected. filter (\<lambda>b. matching [(''ring'', PStr ''early'')] b \<and> priority_of selected \<le> priority_of b) rules = [selected] \<and>
       dget decision ''assignment_id'' = dget selected ''assignment_id'')"
  using assignment_selects_best [OF is_result_Inr [OF demo_decided, unfolded demo_decision_def]]
    is_result_Inr [OF demo_decided] unfolding demo_decision_def by blast

lemma assignment_order_irrelevant_witness:
  "demo_decision [demo_rule ''high'' 2 ''1'', demo_rule ''low'' 1 ''2''] =
   demo_decision [demo_rule ''low'' 1 ''2'', demo_rule ''high'' 2 ''1'']"
proof -
  let ?xs = "[demo_rule ''low'' 1 ''2'', demo_rule ''high'' 2 ''1'']"
    and ?ys = "[demo_rule ''high'' 2 ''1'', demo_rule ''low'' 1 ''2'']"
  have "dget (demo_source ?xs) ''assignments'' = PList ?xs" by (simp add: demo_source_def)
  moreover have "mset ?xs = mset ?ys" by (simp add: add_mset_commute)
  ultimately have "evaluate_assignment (AList.update ''assignments'' (PList ?ys) (demo_source ?xs))
      [demo_manifest ''1'', demo_manifest ''2''] [(''ring'', PStr ''early'')] =
      Inr (result_of (demo_decision ?xs))"
    by (rule assignment_order_irrelevant [OF is_result_Inr [OF demo_decided, unfolded demo_decision_def], folded demo_decision_def])
  moreover have "AList.update ''assignments'' (PList ?ys) (demo_source ?xs) = demo_source ?ys"
    by (simp add: demo_source_def)
  ultimately show ?thesis using is_result_Inr [OF demo_decided] by (simp add: demo_decision_def)
qed

definition demo_pull_env :: pull_env where
  "demo_pull_env = \<lparr>gv_bundle = demo_benv,
     gv_urlparse = \<lambda>u. \<lparr>pu_scheme = ''file'', pu_path = ''/src/b.json'', pu_hostname = None\<rparr>,
     gv_fetch = \<lambda>u. Inl (Exn OSError []), gv_store = \<lambda>p. demo_denv\<rparr>"

definition demo_pull_state :: pull_state where
  "demo_pull_state = \<lparr>ps_files = (\<lambda>p. if p = path_of ''/src/b.json'' then demo_bundle ''1'' else NoBundle),
     ps_deployments = demo_store\<rparr>"

definition demo_rules :: "pyval list" where
  "demo_rules = [demo_rule ''low'' 1 ''2'', demo_rule ''high'' 2 ''1'']"

definition demo_decided_target :: pydict where
  "demo_decided_target = [(''schema_version'', PInt 1), (''assignment_id'', PStr ''high''),
     (''matched_by'', PDict [(''broker_id'', PStr []), (''user'', PStr []), (''teams'', PList []), (''channel'', PStr []),
        (''ring'', PStr ''early'')]),
     (''target'', PDict [(''bundle_id'', PStr ''base''), (''version'', PStr ''1''), (''channel'', PStr ''stable''),
        (''digest'', PDict [(''algorithm'', PStr ''sha256''), (''value'', PStr ''ABC'')])]),
     (''changed_runtime_state'', PBool False)]"

lemma demo_decision_value: "demo_decision demo_rules = Inr demo_decided_target"
  by code_simp

definition demo_pull :: "pydict pull_sem" where
  "demo_pull = pull_assigned_bundle demo_pull_env ''file:///src/b.json'' demo_decided_target
     (path_of ''/state'') ''env:T'' True"

definition demo_approval :: pydict where
  "demo_approval = [(''schema_version'', PInt 1), (''approved'', PBool True), (''approved_by'', PStr ''ops''),
     (''reason'', PStr ''r''), (''assignment_id'', PStr ''high''),
     (''target'', PDict [(''bundle_id'', PStr ''base''), (''version'', PStr ''1''), (''channel'', PStr ''stable''),
        (''digest'', PDict [(''algorithm'', PStr ''sha256''), (''value'', PStr ''abc'')])])]"

lemma demo_plain:
  "plain_host demo_pull_env" "plain (path_of ''/state'')"
  "is_absolute (path_of (pu_path (gv_urlparse demo_pull_env ''file:///src/b.json'')))"
  by (simp add: plain_host_def demo_pull_env_def demo_benv_def) code_simp+

lemma demo_pulled:
  obtains report s1 where "demo_pull demo_pull_state = (Inr report, s1)" "approves demo_approval report"
proof -
  have "is_result (fst (demo_pull demo_pull_state))" by code_simp
  then obtain report s1 where pull: "demo_pull demo_pull_state = (Inr report, s1)"
    by (metis is_result_Inr prod.collapse)
  have "approves demo_approval (result_of (fst (demo_pull demo_pull_state)))" by code_simp
  then have "approves demo_approval report" by (simp add: pull result_of_def)
  with pull show thesis by (rule that)
qed

lemma demo_active: "active_of (ps_deployments demo_pull_state) = Inr None"
  by code_simp

lemma approved_pull_deploys_witness:
  "\<exists>report s1 r s2. demo_pull demo_pull_state = (Inr report, s1) \<and>
     apply_cached_bundle demo_pull_env (path_of (py_str (dget report ''cache_record_path'')))
       (path_of ''/state'') demo_approval ''t'' ''t'' 1 s1 = (Inr r, s2)"
proof -
  obtain report s1 where pull: "demo_pull demo_pull_state = (Inr report, s1)" "approves demo_approval report"
    by (rule demo_pulled)
  from approved_pull_deploys [OF demo_plain pull(1) [unfolded demo_pull_def] pull(2) demo_active] pull(1)
  show ?thesis by blast
qed

lemma governed_deployment_was_published_witness:
  "\<exists>report s1 r s2 q rcd algorithm. demo_pull demo_pull_state = (Inr report, s1) \<and>
     apply_cached_bundle demo_pull_env (path_of (py_str (dget report ''cache_record_path'')))
       (path_of ''/state'') demo_approval ''t'' ''t'' 1 s1 = (Inr r, s2) \<and>
     active_of (ps_deployments s2) = Inr (Some q) \<and>
     map_of (dp_records (ps_deployments s2)) (pt_id q @ ''.json'') = Some (Content (PDict rcd), 1) \<and>
     dget rcd ''checksum'' = PDict [(''algorithm'', algorithm), (''value'', PStr ''abc'')]"
proof -
  have decided: "evaluate_assignment (demo_source demo_rules) [demo_manifest ''1'', demo_manifest ''2'']
      [(''ring'', PStr ''early'')] = Inr demo_decided_target"
    using demo_decision_value by (simp add: demo_decision_def)
  obtain report s1 where pull: "demo_pull demo_pull_state = (Inr report, s1)" "approves demo_approval report"
    by (rule demo_pulled)
  have "is_result (fst (apply_cached_bundle demo_pull_env (path_of (py_str (dget report ''cache_record_path'')))
      (path_of ''/state'') demo_approval ''t'' ''t'' 1 s1))"
    by (rule approved_apply_runs [OF demo_plain pull(1) [unfolded demo_pull_def] pull(2) demo_active])
  then obtain r s2 where run: "apply_cached_bundle demo_pull_env (path_of (py_str (dget report ''cache_record_path'')))
      (path_of ''/state'') demo_approval ''t'' ''t'' 1 s1 = (Inr r, s2)"
    by (metis is_result_Inr prod.collapse)
  have abc: "lower ''ABC'' = ''abc''" by code_simp
  have digests: "dget bd ''digest'' = PDict digest \<Longrightarrow> lower (py_str (dget digest ''value'')) = ''abc''"
    if "manifest \<in> set [demo_manifest ''1'', demo_manifest ''2'']" "dindex_dict manifest ''bundle'' = Inr bd"
    for manifest bd digest
    using that by (auto simp: demo_manifest_def dindex_dict_def abc)
  show ?thesis
    using governed_deployment_was_published [OF demo_plain decided pull(1) [unfolded demo_pull_def] run] digests pull(1) run
    by metis
qed

section \<open>What the model shows\<close>

text \<open>The approval names a version and a digest, but what is deployed is whatever valid bundle the cache
  holds when the approval is applied.\<close>

definition demo_target :: pull_target where
  "demo_target = \<lparr>tg_bundle_id = ''base'', tg_version = ''1'', tg_channel = ''stable'', tg_algorithm = ''sha256'',
     tg_digest = ''abc''\<rparr>"

definition demo_swapped :: pull_state where
  "demo_swapped = \<lparr>ps_files = (\<lambda>p.
       if p = path_of ''/c/pull-record.json'' then BundleValue (PDict (pull_record ''high''
         (gv_urlparse demo_pull_env []) demo_target (path_of ''/c/bundle.json'') ''env:T''))
       else if p = path_of ''/c/bundle.json'' then demo_bundle ''2'' else NoBundle),
     ps_deployments = demo_store\<rparr>"

lemma swapped_bundle_is_deployed:
  "dget demo_approval ''target'' = PDict (target_dict demo_target)"
  "dget (result_of (fst (apply_cached_bundle demo_pull_env (path_of ''/c/pull-record.json'') (path_of ''/state'')
     demo_approval ''t'' ''t'' 1 demo_swapped))) ''bundle_version'' = PStr ''2''"
  by code_simp+

text \<open>Two dots pass the checks of a bundle's id and version, so the directory of the cache can be left.\<close>

fun collapsed :: "string list \<Rightarrow> string list \<Rightarrow> string list" where
  "collapsed acc [] = acc"
| "collapsed acc (q # qs) = collapsed (if q = ''..'' then butlast acc else acc @ [q]) qs"

lemma cache_directory_left:
  "collapsed [] (path_parts (result_of (cache_dir demo_pull_env (path_of ''/state'')
     \<lparr>tg_bundle_id = ''..'', tg_version = ''..'', tg_channel = ''stable'', tg_algorithm = ''sha256'', tg_digest = ''abc''\<rparr>)))
   = [''state'', ''abc'']"
  by code_simp

end
