(* ===== verification/Fleet_Reports.thy ===== *)
theory Fleet_Reports
  imports Daemon_Health
begin

text \<open>
  The status a broker exports to a fleet (\<^verbatim>\<open>fleet_status.py\<close>) and the envelope in which it is
  collected (\<^verbatim>\<open>fleet_collection.py\<close>): the first replaces what may identify a person, a machine or
  a secret, the second refuses a payload in which such a text is left. \<open>urlparse\<close>, \<open>parse_qsl\<close> and
  the arithmetic of dates are arguments.
\<close>

section \<open>Sensitive texts\<close>

definition SENSITIVE_WORDS :: "string list" where
  "SENSITIVE_WORDS = [''secret'', ''token'', ''credential'', ''password'', ''key'']"

definition address_char :: "char \<Rightarrow> bool" where
  "address_char c \<longleftrightarrow> c \<noteq> CHR ''@'' \<and> \<not> is_space c"

text \<open>
  \<^verbatim>\<open>[^@\s]+@[^@\s]+\.[^@\s]+\<close> somewhere in the text; the flag says whether the character before
  the text belongs to the first class.
\<close>

fun email_search :: "bool \<Rightarrow> string \<Rightarrow> bool" where
  "email_search before [] = False"
| "email_search before (c # cs) =
     ((c = CHR ''@'' \<and> before \<and> CHR ''.'' \<in> set (butlast (tl (takeWhile address_char cs)))) \<or>
      email_search (address_char c) cs)"

definition sensitive_status_string :: "string \<Rightarrow> bool" where
  "sensitive_status_string v \<longleftrightarrow> contains ''://'' v \<or> looks_like_filesystem_path v \<or> email_search False v \<or>
     list_ex (\<lambda>word. contains word (lower v)) SENSITIVE_WORDS"

definition REDACTED :: string where "REDACTED = ''[redacted]''"

definition unsafe_status_string :: "string \<Rightarrow> bool" where
  "unsafe_status_string v \<longleftrightarrow> v \<noteq> REDACTED \<and> sensitive_status_string v"

section \<open>Export\<close>

definition IDENTITY_FIELDS :: "string list" where
  "IDENTITY_FIELDS = [''active_profiles'', ''broker_id'', ''bundle_version'', ''environment'', ''schema_version'']"

definition HEALTH_FIELDS :: "string list" where
  "HEALTH_FIELDS = [''last_request_status'', ''started_at'', ''status'', ''updated_at'']"

definition COUNTER_FIELDS :: "string list" where
  "COUNTER_FIELDS = [''request_errors_total'', ''requests_total'']"

definition UPSTREAM_FIELDS :: "string list" where
  "UPSTREAM_FIELDS = [''auth_state'', ''enabled'', ''last_error'', ''mode'', ''mutating'', ''restarts'', ''state'', ''transport'']"

fun redact_status_value :: "pyval \<Rightarrow> pyval" where
  "redact_status_value (PDict d) = PDict (map (\<lambda>(k, v). (k, redact_status_value v)) d)"
| "redact_status_value (PList xs) = PList (map redact_status_value xs)"
| "redact_status_value (PStr s) = PStr (if sensitive_status_string s then REDACTED else s)"
| "redact_status_value v = v"

definition select_fields :: "pydict \<Rightarrow> string list \<Rightarrow> pydict" where
  "select_fields source names = map (\<lambda>k. (k, redact_status_value (dget source k))) (filter (dhas source) names)"

definition status_mapping :: "pyval \<Rightarrow> pydict" where
  "status_mapping v = (case v of PDict d \<Rightarrow> d | _ \<Rightarrow> [])"

definition redacted_upstream :: "pydict \<Rightarrow> pydict" where
  "redacted_upstream status = select_fields status UPSTREAM_FIELDS"

definition export_fleet_status :: "pydict \<Rightarrow> pydict" where
  "export_fleet_status snapshot =
     [(''identity'', PDict (select_fields (status_mapping (dget snapshot ''identity'')) IDENTITY_FIELDS)),
      (''health'', PDict (select_fields snapshot HEALTH_FIELDS)),
      (''request_counters'', PDict (select_fields snapshot COUNTER_FIELDS)),
      (''upstreams'', PDict (map (\<lambda>(name, status). (name, PDict (redacted_upstream (status_mapping status))))
         (sort_key fst (status_mapping (dget snapshot ''upstreams'')))))]"

section \<open>Collection\<close>

definition collection_error :: "string \<Rightarrow> exn" where
  "collection_error m = Exn FleetCollectionError m"

record fleet_url =
  fu_scheme :: string
  fu_netloc :: string
  fu_username :: string
  fu_password :: string
  fu_query :: string

text \<open>
  An absent user name or password is the empty text here. \<open>fc_retention\<close> gives, for a text
  that is a date, the date a number of days later.
\<close>

record fleet_env =
  fc_urlparse :: "string \<Rightarrow> fleet_url res"
  fc_parse_qsl :: "string \<Rightarrow> (string \<times> string) list res"
  fc_retention :: "string \<Rightarrow> (int \<Rightarrow> string res) option"

definition COLLECTION_SCHEMA_VERSION :: int where "COLLECTION_SCHEMA_VERSION = 1"
definition RETRY_MAX_ATTEMPTS :: int where "RETRY_MAX_ATTEMPTS = 3"
definition RETRY_BACKOFF_SECONDS :: int where "RETRY_BACKOFF_SECONDS = 15"
definition RETENTION_MIN_DAYS :: int where "RETENTION_MIN_DAYS = 1"
definition RETENTION_MAX_DAYS :: int where "RETENTION_MAX_DAYS = 365"

definition collection_letter :: "char \<Rightarrow> bool" where
  "collection_letter c \<longleftrightarrow> (65 \<le> code c \<and> code c \<le> 90) \<or> (97 \<le> code c \<and> code c \<le> 122) \<or> is_digit c \<or>
     c \<in> {CHR ''_'', CHR ''.'', CHR ''-''}"

definition safe_collector_id :: "string \<Rightarrow> bool" where
  "safe_collector_id s \<longleftrightarrow> s \<noteq> [] \<and> list_all (\<lambda>c. collection_letter c \<or> c = CHR '':'') s"

definition safe_auth_ref :: "string \<Rightarrow> bool" where
  "safe_auth_ref s \<longleftrightarrow> list_ex (\<lambda>scheme. prefix scheme s \<and> drop (length scheme) s \<noteq> [] \<and>
     list_all collection_letter (drop (length scheme) s)) [''env:'', ''keychain:'']"

definition secret_query :: "string \<times> string \<Rightarrow> bool" where
  "secret_query item = (case item of (k, v) \<Rightarrow>
     lower k \<in> set SENSITIVE_WORDS \<or> list_ex (\<lambda>word. contains word (lower v)) SENSITIVE_WORDS)"

definition validate_target_url :: "fleet_env \<Rightarrow> pyval \<Rightarrow> unit res" where
  "validate_target_url env target =
     (let not_https = collection_error ''collection target must be an https URL'' in
      case target of
        PStr url \<Rightarrow>
          bindE (require (strip url \<noteq> []) not_https) (\<lambda>_.
          bindE (fc_urlparse env url) (\<lambda>parsed.
          bindE (require (fu_scheme parsed = ''https'' \<and> fu_netloc parsed \<noteq> []) not_https) (\<lambda>_.
          bindE (require (fu_username parsed = [] \<and> fu_password parsed = [])
            (collection_error ''collection target URL must not contain secret credentials'')) (\<lambda>_.
          bindE (fc_parse_qsl env (fu_query parsed)) (\<lambda>items.
          require (\<not> list_ex secret_query items)
            (collection_error ''collection target URL must not contain secret query data''))))))
      | _ \<Rightarrow> Inl not_https)"

definition validate_auth_ref :: "pyval \<Rightarrow> unit res" where
  "validate_auth_ref v =
     require (case v of PStr s \<Rightarrow> safe_auth_ref s | _ \<Rightarrow> False)
       (collection_error ''collection auth_ref must be env:NAME or keychain:NAME'')"

definition validate_retention_days :: "pyval \<Rightarrow> unit res" where
  "validate_retention_days v =
     require (case v of PInt n \<Rightarrow> RETENTION_MIN_DAYS \<le> n \<and> n \<le> RETENTION_MAX_DAYS | _ \<Rightarrow> False)
       (collection_error ''collection retention_days must be between 1 and 365'')"

definition validate_collector_id :: "pyval \<Rightarrow> unit res" where
  "validate_collector_id v =
     require (case v of PStr s \<Rightarrow> strip s \<noteq> [] \<and> safe_collector_id s \<and> \<not> unsafe_status_string s | _ \<Rightarrow> False)
       (collection_error ''collection collector_id must be a safe identifier'')"

definition parse_generated_at :: "fleet_env \<Rightarrow> pyval \<Rightarrow> (int \<Rightarrow> string res) res" where
  "parse_generated_at env v =
     (let not_iso = Inl (collection_error ''collection generated_at must be ISO-8601'') in
      case v of PStr s \<Rightarrow> (case fc_retention env s of None \<Rightarrow> not_iso | Some later \<Rightarrow> Inr later) | _ \<Rightarrow> not_iso)"

definition reject_unknown_fields :: "pydict \<Rightarrow> string list \<Rightarrow> string \<Rightarrow> unit res" where
  "reject_unknown_fields d allowed label =
     require (list_all (\<lambda>(k, v). k \<in> set allowed) d)
       (collection_error (''unsafe fleet status payload: '' @ label @ '' contains disallowed fields''))"

lemma mapE_cong [fundef_cong]:
  "xs = ys \<Longrightarrow> (\<And>x. x \<in> set ys \<Longrightarrow> f x = g x) \<Longrightarrow> mapE f xs = mapE g ys"
  by (induction ys arbitrary: xs) auto

function safe_status_value :: "pyval \<Rightarrow> pyval res" where
  "safe_status_value v = (case v of
     PDict d \<Rightarrow> bindE (mapE (\<lambda>(k, x). bindE (safe_status_value x) (\<lambda>y. Inr (k, y))) d) (\<lambda>e. Inr (PDict e))
   | PList xs \<Rightarrow> bindE (mapE safe_status_value xs) (\<lambda>ys. Inr (PList ys))
   | PStr s \<Rightarrow> bindE (require (\<not> unsafe_status_string s)
       (collection_error ''unsafe fleet status payload: redaction required'')) (\<lambda>_. Inr v)
   | _ \<Rightarrow> Inr v)"
  by pat_completeness auto

termination safe_status_value
  by (relation "measure size") (auto dest!: size_snd_mem_dict size_mem_list)

declare safe_status_value.simps [simp del]

definition safe_mapping :: "pyval \<Rightarrow> string list \<Rightarrow> string \<Rightarrow> pydict res" where
  "safe_mapping v allowed label = (case v of
     PNone \<Rightarrow> Inr []
   | PDict d \<Rightarrow> bindE (reject_unknown_fields d allowed label) (\<lambda>_.
       mapE (\<lambda>(k, x). bindE (safe_status_value x) (\<lambda>y. Inr (k, y))) d)
   | _ \<Rightarrow> Inl (collection_error (''unsafe fleet status payload: '' @ label @ '' must be an object'')))"

text \<open>The names of upstreams are replaced by numbers of three digits.\<close>

definition upstream_number :: "nat \<Rightarrow> string" where
  "upstream_number i = ''upstream-'' @ pad_int 3 (int i)"

definition collected_upstreams :: "pyval \<Rightarrow> pydict res" where
  "collected_upstreams v = (case v of
     PNone \<Rightarrow> Inr []
   | PDict d \<Rightarrow> mapE (\<lambda>(i, name, status). bindE (safe_mapping status UPSTREAM_FIELDS ''upstreams'') (\<lambda>e.
       Inr (upstream_number i, PDict e))) (enumerate 1 (sort_key fst d))
   | _ \<Rightarrow> Inl (collection_error ''unsafe fleet status payload: upstreams must be an object''))"

definition collection_payload :: "pydict \<Rightarrow> pydict res" where
  "collection_payload status =
     bindE (reject_unknown_fields status [''identity'', ''health'', ''request_counters'', ''upstreams''] ''root'') (\<lambda>_.
     bindE (safe_mapping (dget status ''identity'') IDENTITY_FIELDS ''identity'') (\<lambda>identity.
     bindE (safe_mapping (dget status ''health'') HEALTH_FIELDS ''health'') (\<lambda>health.
     bindE (safe_mapping (dget status ''request_counters'') COUNTER_FIELDS ''request_counters'') (\<lambda>counters.
     bindE (collected_upstreams (dget status ''upstreams'')) (\<lambda>upstreams.
     Inr [(''identity'', PDict identity), (''health'', PDict health), (''request_counters'', PDict counters),
       (''upstreams'', PDict upstreams)])))))"

definition prepare_collection_envelope ::
    "fleet_env \<Rightarrow> pyval \<Rightarrow> pyval \<Rightarrow> pyval \<Rightarrow> pyval \<Rightarrow> pyval \<Rightarrow> pyval \<Rightarrow> pydict res" where
  "prepare_collection_envelope env status_payload target_url auth_ref retention_days generated_at collector_id =
     (case status_payload of
        PDict status \<Rightarrow>
          bindE (validate_target_url env target_url) (\<lambda>_.
          bindE (validate_auth_ref auth_ref) (\<lambda>_.
          bindE (validate_retention_days retention_days) (\<lambda>_.
          bindE (validate_collector_id collector_id) (\<lambda>_.
          bindE (parse_generated_at env generated_at) (\<lambda>later.
          bindE (collection_payload status) (\<lambda>payload.
          bindE (later (the (as_int retention_days))) (\<lambda>delete_after.
          Inr [(''schema_version'', PInt COLLECTION_SCHEMA_VERSION),
            (''kind'', PStr ''mcp-broker.fleet-status.collection''), (''generated_at'', generated_at),
            (''collector'', PDict [(''id'', collector_id), (''mode'', PStr ''prepare-only'')]),
            (''upload'', PDict [(''target_url'', target_url), (''method'', PStr ''POST''),
               (''attempted'', PBool False), (''auth_ref'', auth_ref)]),
            (''retention'', PDict [(''days'', retention_days), (''delete_after'', PStr delete_after)]),
            (''retry'', PDict [(''max_attempts'', PInt RETRY_MAX_ATTEMPTS),
               (''backoff_seconds'', PInt RETRY_BACKOFF_SECONDS)]),
            (''failure_handling'', PDict [(''on_upload_failure'', PStr ''mark_degraded''), (''local_spool'', PBool False)]),
            (''payload'', PDict payload)])))))))
      | _ \<Rightarrow> Inl (collection_error ''unsafe fleet status payload: root must be an object''))"

end
