(* ===== verification/Fleet_Facts.thy ===== *)
theory Fleet_Facts
  imports Fleet_Reports
begin

text \<open>
  What leaves a broker in a fleet report: an accepted envelope has no sensitive text among its values
  and no name of an upstream, and whatever a broker exports can be collected.
\<close>

fun status_safe :: "pyval \<Rightarrow> bool" where
  "status_safe (PDict d) = list_all (\<lambda>(k, v). status_safe v) d"
| "status_safe (PList xs) = list_all status_safe xs"
| "status_safe (PStr s) = (\<not> unsafe_status_string s)"
| "status_safe v = True"

lemma mapE_same: "mapE f xs = Inr ys \<Longrightarrow> (\<And>x y. x \<in> set xs \<Longrightarrow> f x = Inr y \<Longrightarrow> y = x \<and> P x) \<Longrightarrow> ys = xs \<and> list_all P xs"
  by (induction xs arbitrary: ys) (auto simp: monad_simps)

lemma safe_status_value_Inr: "safe_status_value v = Inr w \<Longrightarrow> w = v \<and> status_safe v"
proof (induction v arbitrary: w rule: status_safe.induct)
  case (1 d)
  from "1.prems" obtain e where e: "mapE (\<lambda>(k, x). bindE (safe_status_value x) (\<lambda>y. Inr (k, y))) d = Inr e" "w = PDict e"
    by (subst (asm) safe_status_value.simps) (auto simp: bindE_eq_Inr)
  have "e = d \<and> list_all (\<lambda>(k, v). status_safe v) d"
  proof (rule mapE_same [OF e(1)])
    fix x y
    assume x: "x \<in> set d" and y: "(case x of (k, x) \<Rightarrow> bindE (safe_status_value x) (\<lambda>y. Inr (k, y))) = Inr y"
    obtain k v where kv: "x = (k, v)" by (cases x)
    with y obtain v' where "safe_status_value v = Inr v'" "y = (k, v')" by (auto simp: bindE_eq_Inr)
    with "1.IH" [OF x kv [symmetric]] kv show "y = x \<and> (case x of (k, v) \<Rightarrow> status_safe v)" by simp
  qed
  with e(2) show ?case by simp
next
  case (2 xs)
  from "2.prems" obtain ys where ys: "mapE safe_status_value xs = Inr ys" "w = PList ys"
    by (subst (asm) safe_status_value.simps) (auto simp: bindE_eq_Inr)
  have "ys = xs \<and> list_all status_safe xs" by (rule mapE_same [OF ys(1)]) (rule "2.IH")
  with ys(2) show ?case by simp
qed (subst (asm) safe_status_value.simps, simp add: monad_simps)+

lemma safe_status_value_runs: "status_safe v \<Longrightarrow> safe_status_value v = Inr v"
proof (induction v rule: status_safe.induct)
  case (1 d)
  have "mapE (\<lambda>(k, x). bindE (safe_status_value x) (\<lambda>y. Inr (k, y))) d = Inr (map (\<lambda>x. x) d)"
    using 1 by (intro mapE_Inr_fun) (fastforce simp: list_all_iff)
  then show ?case by (subst safe_status_value.simps) simp
next
  case (2 xs)
  have "mapE safe_status_value xs = Inr (map (\<lambda>x. x) xs)"
    using 2 by (intro mapE_Inr_fun) (auto simp: list_all_iff)
  then show ?case by (subst safe_status_value.simps) simp
qed (subst safe_status_value.simps, simp)+

lemma redacted_status_safe: "status_safe (redact_status_value v)"
  by (induction v rule: redact_status_value.induct) (auto simp: list_all_iff unsafe_status_string_def)

section \<open>Accepted payloads\<close>

definition safe_fields :: "pydict \<Rightarrow> bool" where
  "safe_fields d \<longleftrightarrow> list_all (\<lambda>(k, v). status_safe v) d"

lemma safe_mapping_Inr:
  assumes "safe_mapping v allowed label = Inr e"
  shows "safe_fields e" and "set (map fst e) \<subseteq> set allowed"
proof -
  have "safe_fields e \<and> set (map fst e) \<subseteq> set allowed"
  proof (cases "v = PNone")
    case True
    with assms show ?thesis by (simp add: safe_mapping_def safe_fields_def)
  next
    case False
    with assms obtain d where d: "v = PDict d" "list_all (\<lambda>(k, v). k \<in> set allowed) d"
        "mapE (\<lambda>(k, x). bindE (safe_status_value x) (\<lambda>y. Inr (k, y))) d = Inr e"
      by (auto simp: safe_mapping_def reject_unknown_fields_def bindE_eq_Inr split: pyval.splits)
    have "e = d \<and> list_all (\<lambda>(k, v). status_safe v) d"
    proof (rule mapE_same [OF d(3)])
      fix x y
      assume "(case x of (k, x) \<Rightarrow> bindE (safe_status_value x) (\<lambda>y. Inr (k, y))) = Inr y"
      then obtain v' where "safe_status_value (snd x) = Inr v'" "y = (fst x, v')"
        by (auto simp: bindE_eq_Inr split: prod.splits)
      with safe_status_value_Inr [of "snd x"] show "y = x \<and> (case x of (k, v) \<Rightarrow> status_safe v)"
        by (auto simp: prod_eq_iff split: prod.splits)
    qed
    with d(2) show ?thesis by (auto simp: safe_fields_def list_all_iff)
  qed
  then show "safe_fields e" "set (map fst e) \<subseteq> set allowed" by simp_all
qed

lemma safe_mapping_runs:
  assumes "safe_fields d" and "set (map fst d) \<subseteq> set allowed"
  shows "safe_mapping (PDict d) allowed label = Inr d"
proof -
  have "mapE (\<lambda>(k, x). bindE (safe_status_value x) (\<lambda>y. Inr (k, y))) d = Inr (map (\<lambda>x. x) d)"
    using assms(1) by (intro mapE_Inr_fun) (fastforce simp: safe_fields_def list_all_iff safe_status_value_runs)
  moreover have "list_all (\<lambda>(k, v). k \<in> set allowed) d" using assms(2) by (auto simp: list_all_iff)
  ultimately show ?thesis by (simp add: safe_mapping_def reject_unknown_fields_def)
qed

lemma collected_upstreams_Inr:
  assumes "collected_upstreams v = Inr us"
  shows "map fst us = map upstream_number [1..<Suc (length us)]" and "safe_fields us"
proof -
  have "map fst us = map upstream_number [1..<Suc (length us)] \<and> safe_fields us"
  proof (cases "v = PNone")
    case True
    with assms show ?thesis by (simp add: collected_upstreams_def safe_fields_def)
  next
    case False
    with assms obtain d :: pydict where run: "mapE (\<lambda>(i, name, status). bindE (safe_mapping status UPSTREAM_FIELDS ''upstreams'') (\<lambda>e.
        Inr (upstream_number i, PDict e))) (enumerate (Suc 0) (sort_key fst d)) = Inr us"
      by (auto simp: collected_upstreams_def split: pyval.splits)
    from run have all: "list_all2 (\<lambda>x u. \<exists>e. u = (upstream_number (fst x), PDict e) \<and> safe_fields e)
        (enumerate (Suc 0) (sort_key fst d)) us"
      unfolding mapE_eq_Inr_iff
    proof (rule list_all2_mono)
      fix x u
      assume "(case x of (i, name, status) \<Rightarrow> bindE (safe_mapping status UPSTREAM_FIELDS ''upstreams'') (\<lambda>e.
        Inr (upstream_number i, PDict e))) = Inr u"
      then obtain e where "safe_mapping (snd (snd x)) UPSTREAM_FIELDS ''upstreams'' = Inr e"
          "u = (upstream_number (fst x), PDict e)"
        by (auto simp: bindE_eq_Inr split: prod.splits)
      with safe_mapping_Inr(1) [of "snd (snd x)"] show "\<exists>e. u = (upstream_number (fst x), PDict e) \<and> safe_fields e" by blast
    qed
    have "map fst us = map (\<lambda>x. upstream_number (fst x)) (enumerate (Suc 0) (sort_key fst d))"
      using all by (intro nth_equalityI) (auto simp: list_all2_conv_all_nth)
    also have "\<dots> = map upstream_number (map fst (enumerate (Suc 0) (sort_key fst d)))" by (simp only: map_map comp_def)
    also have "\<dots> = map upstream_number [1..<Suc (length us)]"
      using list_all2_lengthD [OF all] by (simp only: map_fst_enumerate length_enumerate length_sort add_Suc add_0 One_nat_def)
    finally have "map fst us = map upstream_number [1..<Suc (length us)]" .
    moreover have "safe_fields us"
      using all by (fastforce simp: safe_fields_def list_all_length list_all2_conv_all_nth)
    ultimately show ?thesis by simp
  qed
  then show "map fst us = map upstream_number [1..<Suc (length us)]" "safe_fields us" by simp_all
qed

lemma safe_payload:
  assumes "collection_payload status = Inr payload"
  obtains identity health counters us where
    "payload = [(''identity'', PDict identity), (''health'', PDict health), (''request_counters'', PDict counters),
       (''upstreams'', PDict us)]"
    "safe_fields identity" "safe_fields health" "safe_fields counters" "safe_fields us"
    "map fst us = map upstream_number [1..<Suc (length us)]"
proof -
  from assms obtain identity health counters us where
    "safe_mapping (dget status ''identity'') IDENTITY_FIELDS ''identity'' = Inr identity"
    "safe_mapping (dget status ''health'') HEALTH_FIELDS ''health'' = Inr health"
    "safe_mapping (dget status ''request_counters'') COUNTER_FIELDS ''request_counters'' = Inr counters"
    "collected_upstreams (dget status ''upstreams'') = Inr us"
    "payload = [(''identity'', PDict identity), (''health'', PDict health), (''request_counters'', PDict counters),
       (''upstreams'', PDict us)]"
    unfolding collection_payload_def by (auto simp: bindE_eq_Inr)
  then show thesis by (intro that) (blast intro: safe_mapping_Inr(1) collected_upstreams_Inr)+
qed

lemma envelope_steps:
  assumes "prepare_collection_envelope env v target auth days generated collector = Inr envelope"
  obtains status payload where "v = PDict status" "collection_payload status = Inr payload"
    "dget envelope ''payload'' = PDict payload" "validate_collector_id collector = Inr ()"
    "dget envelope ''upload'' = PDict [(''target_url'', target), (''method'', PStr ''POST''),
       (''attempted'', PBool False), (''auth_ref'', auth)]"
    "validate_target_url env target = Inr ()" "validate_auth_ref auth = Inr ()"
  using assms unfolding prepare_collection_envelope_def
  by (auto simp: bindE_eq_Inr split: pyval.splits)

section \<open>What may leave\<close>

text \<open>
  What a text of a report must not have, said without the functions that look for it: a URL, a path of the
  file system at its beginning or a home directory of a user anywhere, a mail address, or a sensitive
  word in any spelling of its letters. A path that is not at the beginning passes unless it is in
  \<^verbatim>\<open>/Users/\<close>.
\<close>

definition address_text :: "string \<Rightarrow> bool" where
  "address_text s \<longleftrightarrow> s \<noteq> [] \<and> (\<forall>c \<in> set s. c \<noteq> CHR ''@'' \<and> \<not> is_space c)"

definition reportable :: "string \<Rightarrow> bool" where
  "reportable s \<longleftrightarrow>
     (\<nexists>u v. s = u @ ''://'' @ v) \<and>
     (\<nexists>v. s = ''/'' @ v \<or> s = ''~/'' @ v \<or> s = ''$HOME/'' @ v \<or> s = ''${HOME}/'' @ v) \<and>
     (\<nexists>u v. s = u @ ''/Users/'' @ v) \<and>
     (\<nexists>u user host domain v. address_text user \<and> address_text host \<and> address_text domain \<and>
        s = u @ user @ ''@'' @ host @ ''.'' @ domain @ v) \<and>
     (\<nexists>u word v. word \<in> {''secret'', ''token'', ''credential'', ''password'', ''key''} \<and> lower s = u @ word @ v)"

text \<open>The texts among the values of a JSON value, at any depth.\<close>

fun texts_of :: "pyval \<Rightarrow> string list" where
  "texts_of (PDict d) = concat (map (\<lambda>(k, v). texts_of v) d)"
| "texts_of (PList xs) = concat (map texts_of xs)"
| "texts_of (PStr s) = [s]"
| "texts_of v = []"

definition CREDENTIAL_LETTERS :: "char set" where
  "CREDENTIAL_LETTERS = {CHR ''A''..CHR ''Z''} \<union> {CHR ''a''..CHR ''z''} \<union> {CHR ''0''..CHR ''9''} \<union>
     {CHR ''_'', CHR ''.'', CHR ''-''}"

text \<open>A credential is the name of an environment variable or of an entry of the keychain.\<close>

definition credential_name :: "string \<Rightarrow> bool" where
  "credential_name ref \<longleftrightarrow> (\<exists>name. (ref = ''env:'' @ name \<or> ref = ''keychain:'' @ name) \<and> name \<noteq> [] \<and>
     set name \<subseteq> CREDENTIAL_LETTERS)"

lemma email_search_later: "(\<And>b. email_search b cs) \<Longrightarrow> email_search before (u @ cs)"
  by (induction u arbitrary: before) auto

lemma dot_inside: "host \<noteq> [] \<Longrightarrow> domain \<noteq> [] \<Longrightarrow> c \<in> set (butlast (tl (host @ c # domain @ v)))"
  by (cases host) (auto simp: butlast_append)

lemma email_found:
  assumes "address_text user" and "address_text host" and "address_text domain"
  shows "email_search before (u @ user @ ''@'' @ host @ ''.'' @ domain @ v)"
proof -
  have chars: "\<And>c. address_text t \<Longrightarrow> c \<in> set t \<Longrightarrow> address_char c" for t
    by (simp add: address_text_def address_char_def)
  have dot: "address_char CHR ''.''" by code_simp
  have "takeWhile address_char (host @ CHR ''.'' # domain @ v) = host @ CHR ''.'' # domain @ takeWhile address_char v"
    using chars [OF assms(2)] chars [OF assms(3)] dot by (simp add: takeWhile_append2)
  moreover have "host \<noteq> []" "domain \<noteq> []" using assms(2,3) by (simp_all add: address_text_def)
  ultimately have found: "email_search True (CHR ''@'' # host @ CHR ''.'' # domain @ v)"
    using dot_inside [of host domain "CHR ''.''" "takeWhile address_char v"] by simp
  obtain front c where user: "user = front @ [c]" using assms(1) by (metis address_text_def rev_exhaust)
  have "address_char c" by (rule chars [OF assms(1)]) (simp add: user)
  with found have "email_search b (c # CHR ''@'' # host @ CHR ''.'' # domain @ v)" for b
    by (simp del: email_search.simps add: email_search.simps(2) [of b c])
  then show ?thesis
    using email_search_later [of "c # CHR ''@'' # host @ CHR ''.'' # domain @ v" before "u @ front"] by (simp add: user)
qed

lemma insensitive_reportable:
  assumes "\<not> sensitive_status_string s"
  shows "reportable s"
proof -
  have "\<not> sublist ''://'' s" "\<not> sublist ''/Users/'' s"
    using assms by (simp_all add: sensitive_status_string_def looks_like_filesystem_path_def contains_iff)
  then have texts: "\<nexists>u v. s = u @ ''://'' @ v" "\<nexists>u v. s = u @ ''/Users/'' @ v" by (auto simp only: sublist_def)
  have starts: "\<nexists>v. s = ''/'' @ v \<or> s = ''~/'' @ v \<or> s = ''$HOME/'' @ v \<or> s = ''${HOME}/'' @ v"
    using assms by (auto simp: sensitive_status_string_def looks_like_filesystem_path_def)
  have words: "\<nexists>u word v. word \<in> {''secret'', ''token'', ''credential'', ''password'', ''key''} \<and> lower s = u @ word @ v"
    (is "\<nexists>u word v. word \<in> ?W \<and> _")
  proof (intro notI, elim exE conjE)
    fix u word v
    assume "lower s = u @ word @ v" and word: "word \<in> ?W"
    then have "contains word (lower s)" unfolding contains_iff sublist_def by blast
    moreover have "word \<in> set SENSITIVE_WORDS" using word unfolding SENSITIVE_WORDS_def by (simp only: list.set)
    ultimately show False using assms unfolding sensitive_status_string_def list_ex_iff by blast
  qed
  have "\<not> email_search False s" using assms by (simp add: sensitive_status_string_def)
  then have mail: "\<nexists>u user host domain v. address_text user \<and> address_text host \<and> address_text domain \<and>
      s = u @ user @ ''@'' @ host @ ''.'' @ domain @ v"
    using email_found by blast
  show ?thesis unfolding reportable_def using texts starts mail words by (intro conjI)
qed

lemma safe_text_reportable: "\<not> unsafe_status_string s \<Longrightarrow> reportable s"
proof (rule insensitive_reportable)
  assume "\<not> unsafe_status_string s"
  moreover have "\<not> sensitive_status_string REDACTED" by code_simp
  ultimately show "\<not> sensitive_status_string s" by (auto simp: unsafe_status_string_def)
qed

lemma safe_value_texts: "status_safe v \<Longrightarrow> \<forall>s \<in> set (texts_of v). reportable s"
  by (induction v rule: texts_of.induct) (auto simp: list_all_iff safe_text_reportable)

lemma letter_listed: "collection_letter c \<Longrightarrow> c \<in> CREDENTIAL_LETTERS"
  by (auto simp: collection_letter_def CREDENTIAL_LETTERS_def is_digit_def less_eq_char_def)

lemma auth_ref_credential: "safe_auth_ref s \<Longrightarrow> credential_name s"
  by (auto simp: safe_auth_ref_def credential_name_def list_all_iff letter_listed prefix_def subset_iff)

text \<open>C22. What leaves in an envelope is reportable: no text among the values of its payload, at any depth, has a
  URL, begins with a path, has a home directory below \<^verbatim>\<open>/Users/\<close>, a mail address or a sensitive word; the
  upstreams have numbers for names, nothing was uploaded, and the credential is the name of a variable or
  of an entry of the keychain.\<close>

theorem collected_payload_safe:
  assumes "prepare_collection_envelope env v target auth days generated collector = Inr envelope"
  shows "(\<forall>s \<in> set (texts_of (dget envelope ''payload'')). reportable s) \<and>
    (\<exists>payload us. dget envelope ''payload'' = PDict payload \<and> dget payload ''upstreams'' = PDict us \<and>
      map fst us = map upstream_number [1..<Suc (length us)]) \<and>
    (\<exists>upload ref. dget envelope ''upload'' = PDict upload \<and> dget upload ''attempted'' = PBool False \<and>
      dget upload ''auth_ref'' = PStr ref \<and> credential_name ref)"
proof (intro conjI)
  obtain status payload where e: "collection_payload status = Inr payload" "dget envelope ''payload'' = PDict payload"
    "dget envelope ''upload'' = PDict [(''target_url'', target), (''method'', PStr ''POST''),
       (''attempted'', PBool False), (''auth_ref'', auth)]" "validate_auth_ref auth = Inr ()"
    by (rule envelope_steps [OF assms])
  from e(1) have "status_safe (dget envelope ''payload'')"
    unfolding e(2) by (rule safe_payload) (simp add: safe_fields_def)
  then show "\<forall>s \<in> set (texts_of (dget envelope ''payload'')). reportable s" by (rule safe_value_texts)
  from e(1) show "\<exists>payload us. dget envelope ''payload'' = PDict payload \<and> dget payload ''upstreams'' = PDict us \<and>
      map fst us = map upstream_number [1..<Suc (length us)]"
    unfolding e(2) by (rule safe_payload) auto
  from e(4) obtain ref where "auth = PStr ref" "safe_auth_ref ref"
    by (auto simp: validate_auth_ref_def split: pyval.splits)
  with e(3) show "\<exists>upload ref. dget envelope ''upload'' = PDict upload \<and> dget upload ''attempted'' = PBool False \<and>
      dget upload ''auth_ref'' = PStr ref \<and> credential_name ref" by (simp add: auth_ref_credential)
qed

section \<open>Export and collection\<close>

lemma select_fields_safe: "safe_fields (select_fields d names)" "set (map fst (select_fields d names)) \<subseteq> set names"
  using redacted_status_safe by (auto simp: safe_fields_def select_fields_def list_all_iff)

lemma safe_mapping_select: "safe_mapping (PDict (select_fields d names)) names label = Inr (select_fields d names)"
  by (rule safe_mapping_runs) (rule select_fields_safe)+

lemma enumerate_map: "enumerate n (map f xs) = map (\<lambda>(i, x). (i, f x)) (enumerate n xs)"
  by (induction xs arbitrary: n) auto

lemma collected_upstreams_runs:
  assumes "\<And>k v. (k, v) \<in> set us \<Longrightarrow> \<exists>e. v = PDict e \<and> safe_fields e \<and> set (map fst e) \<subseteq> set UPSTREAM_FIELDS"
    and "sorted (map fst us)"
  shows "collected_upstreams (PDict us) = Inr (map (\<lambda>(i, name, v). (upstream_number i, v)) (enumerate (Suc 0) us))"
proof -
  have "mapE (\<lambda>(i, name, status). bindE (safe_mapping status UPSTREAM_FIELDS ''upstreams'') (\<lambda>e.
      Inr (upstream_number i, PDict e))) (enumerate (Suc 0) us) =
    Inr (map (\<lambda>(i, name, v). (upstream_number i, v)) (enumerate (Suc 0) us))"
  proof (rule mapE_Inr_fun)
    fix x
    assume "x \<in> set (enumerate (Suc 0) us)"
    then have "snd x \<in> set us" by (metis map_snd_enumerate in_set_conv_nth length_map list.set_map image_eqI)
    obtain i k v where x: "x = (i, k, v)" by (metis prod.exhaust)
    with \<open>snd x \<in> set us\<close> assms(1) [of k v] obtain e where "v = PDict e" "safe_fields e"
        "set (map fst e) \<subseteq> set UPSTREAM_FIELDS" by auto
    with x show "(case x of (i, name, status) \<Rightarrow> bindE (safe_mapping status UPSTREAM_FIELDS ''upstreams'') (\<lambda>e.
        Inr (upstream_number i, PDict e))) = Inr (case x of (i, name, v) \<Rightarrow> (upstream_number i, v))"
      by (simp add: safe_mapping_runs)
  qed
  moreover have "sort_key fst us = us" using assms(2) by (rule sort_key_id_if_sorted)
  ultimately show ?thesis by (simp add: collected_upstreams_def)
qed

lemma exported_payload_runs:
  "\<exists>us. collection_payload (export_fleet_status snapshot) =
     Inr [(''identity'', dget (export_fleet_status snapshot) ''identity''),
       (''health'', dget (export_fleet_status snapshot) ''health''),
       (''request_counters'', dget (export_fleet_status snapshot) ''request_counters''),
       (''upstreams'', PDict us)] \<and>
     (\<exists>named. dget (export_fleet_status snapshot) ''upstreams'' = PDict named \<and> map snd us = map snd named)"
proof -
  define named where "named = map (\<lambda>(name, status). (name, PDict (redacted_upstream (status_mapping status))))
    (sort_key fst (status_mapping (dget snapshot ''upstreams'')))"
  define us where "us = map (\<lambda>(i, name, v). (upstream_number i, v)) (enumerate (Suc 0) named)"
  have "map fst named = map fst (sort_key fst (status_mapping (dget snapshot ''upstreams'')))"
    by (simp add: named_def case_prod_beta comp_def)
  then have "sorted (map fst named)" by (simp only: sorted_sort_key)
  moreover have "\<exists>e. v = PDict e \<and> safe_fields e \<and> set (map fst e) \<subseteq> set UPSTREAM_FIELDS"
    if "(k, v) \<in> set named" for k v
  proof -
    from that obtain st where "v = PDict (redacted_upstream (status_mapping st))" by (auto simp: named_def)
    then show ?thesis using select_fields_safe [of _ UPSTREAM_FIELDS] by (auto simp: redacted_upstream_def)
  qed
  ultimately have upstreams: "collected_upstreams (PDict named) = Inr us"
    unfolding us_def by (intro collected_upstreams_runs)
  have "map snd us = map snd (map snd (enumerate (Suc 0) named))"
    unfolding map_map us_def by (rule map_cong) (auto simp: comp_def)
  then have names: "map snd us = map snd named" by (simp only: map_snd_enumerate)
  have exported: "export_fleet_status snapshot =
     [(''identity'', PDict (select_fields (status_mapping (dget snapshot ''identity'')) IDENTITY_FIELDS)),
      (''health'', PDict (select_fields snapshot HEALTH_FIELDS)),
      (''request_counters'', PDict (select_fields snapshot COUNTER_FIELDS)), (''upstreams'', PDict named)]"
    by (simp add: export_fleet_status_def named_def)
  show ?thesis unfolding exported
    by (rule exI [of _ us])
      (simp add: names upstreams collection_payload_def reject_unknown_fields_def safe_mapping_select)
qed

text \<open>C23. What a broker exports can be collected: with a permitted target, credential, retention, collector and
  date, the envelope of an exported status is made whatever the status was, and it has the exported values.\<close>

theorem exported_status_collected:
  assumes "validate_target_url env target = Inr ()" and "validate_auth_ref auth = Inr ()"
    and "validate_retention_days (PInt days) = Inr ()" and "validate_collector_id collector = Inr ()"
    and "parse_generated_at env generated = Inr later" and "later days = Inr delete_after"
  shows "\<exists>envelope payload us named.
    prepare_collection_envelope env (PDict (export_fleet_status snapshot)) target auth (PInt days) generated collector
      = Inr envelope \<and>
    dget envelope ''payload'' = PDict payload \<and>
    dget payload ''identity'' = dget (export_fleet_status snapshot) ''identity'' \<and>
    dget payload ''health'' = dget (export_fleet_status snapshot) ''health'' \<and>
    dget payload ''request_counters'' = dget (export_fleet_status snapshot) ''request_counters'' \<and>
    dget payload ''upstreams'' = PDict us \<and>
    dget (export_fleet_status snapshot) ''upstreams'' = PDict named \<and> map snd us = map snd named"
proof -
  obtain us named where payload: "collection_payload (export_fleet_status snapshot) =
     Inr [(''identity'', dget (export_fleet_status snapshot) ''identity''),
       (''health'', dget (export_fleet_status snapshot) ''health''),
       (''request_counters'', dget (export_fleet_status snapshot) ''request_counters''),
       (''upstreams'', PDict us)]"
    and named: "dget (export_fleet_status snapshot) ''upstreams'' = PDict named" "map snd us = map snd named"
    using exported_payload_runs by blast
  from named show ?thesis
    by (simp add: prepare_collection_envelope_def assms payload)
qed

section \<open>Examples\<close>

definition demo_fleet_env :: fleet_env where
  "demo_fleet_env = \<lparr>
     fc_urlparse = (\<lambda>s. Inr \<lparr>fu_scheme = ''https'', fu_netloc = ''fleet.example'', fu_username = [],
       fu_password = [], fu_query = []\<rparr>),
     fc_parse_qsl = (\<lambda>s. Inr []),
     fc_retention = (\<lambda>s. if s = ''2026-01-01'' then Some (\<lambda>n. Inr ''2026-01-31'') else None)\<rparr>"

definition demo_snapshot :: pydict where
  "demo_snapshot = [(''identity'', PDict [(''broker_id'', PStr ''b1''), (''owner'', PStr ''alice'')]),
     (''status'', PStr ''/Users/alice''), (''upstreams'', PDict [(''mail'', PDict [(''state'', PStr ''ready''),
       (''last_error'', PStr ''no token for a@b.c'')])])]"

lemma demo_fleet_parameters:
  "validate_target_url demo_fleet_env (PStr ''https://fleet.example'') = Inr ()"
  "validate_auth_ref (PStr ''env:FLEET'') = Inr ()" "validate_retention_days (PInt 30) = Inr ()"
  "validate_collector_id (PStr ''central'') = Inr ()"
  "is_result (parse_generated_at demo_fleet_env (PStr ''2026-01-01''))"
  "result_of (parse_generated_at demo_fleet_env (PStr ''2026-01-01'')) 30 = Inr ''2026-01-31''"
  by code_simp+

lemma exported_status_collected_witness:
  "is_result (prepare_collection_envelope demo_fleet_env (PDict (export_fleet_status demo_snapshot))
     (PStr ''https://fleet.example'') (PStr ''env:FLEET'') (PInt 30) (PStr ''2026-01-01'') (PStr ''central''))"
  using exported_status_collected [OF demo_fleet_parameters(1-4) is_result_Inr [OF demo_fleet_parameters(5)]
      demo_fleet_parameters(6), of demo_snapshot]
  by (auto simp: is_result_def)

lemma demo_envelope:
  "prepare_collection_envelope demo_fleet_env (PDict (export_fleet_status demo_snapshot))
     (PStr ''https://fleet.example'') (PStr ''env:FLEET'') (PInt 30) (PStr ''2026-01-01'') (PStr ''central'') =
   Inr (result_of (prepare_collection_envelope demo_fleet_env (PDict (export_fleet_status demo_snapshot))
     (PStr ''https://fleet.example'') (PStr ''env:FLEET'') (PInt 30) (PStr ''2026-01-01'') (PStr ''central'')))"
  by (rule is_result_Inr) code_simp

lemma demo_payload_texts:
  "texts_of (dget (result_of (prepare_collection_envelope demo_fleet_env (PDict (export_fleet_status demo_snapshot))
     (PStr ''https://fleet.example'') (PStr ''env:FLEET'') (PInt 30) (PStr ''2026-01-01'') (PStr ''central''))) ''payload'')
   = [''b1'', ''[redacted]'', ''[redacted]'', ''ready'']"
  by code_simp

lemma collected_payload_safe_witness:
  "reportable ''b1'' \<and> reportable ''[redacted]'' \<and> reportable ''ready'' \<and> \<not> reportable ''no token for a@b.c''"
proof -
  have "lower ''no token for a@b.c'' = ''no '' @ ''token'' @ '' for a@b.c''" by code_simp
  then have "\<not> reportable ''no token for a@b.c''" unfolding reportable_def by blast
  then show ?thesis
    using collected_payload_safe [OF demo_envelope, THEN conjunct1, unfolded demo_payload_texts] by simp
qed

text \<open>A path in the middle of a text is neither redacted nor refused.\<close>

lemma path_inside_text_is_not_redacted:
  "redact_status_value (PStr ''error: /home/alice/db'') = PStr ''error: /home/alice/db''"
  "safe_status_value (PStr ''error: /home/alice/db'') = Inr (PStr ''error: /home/alice/db'')"
  by code_simp+

text \<open>
  Only the values are looked at: a sensitive text that is a key of a nested object is neither redacted
  nor refused.
\<close>

lemma nested_key_is_not_redacted:
  "redact_status_value (PDict [(''alice@example.com'', PInt 1)]) = PDict [(''alice@example.com'', PInt 1)]"
  "safe_status_value (PDict [(''alice@example.com'', PInt 1)]) = Inr (PDict [(''alice@example.com'', PInt 1)])"
  "sensitive_status_string ''alice@example.com''"
  by code_simp+

end
