(* ===== verification/Runtime_Files.thy ===== *)
theory Runtime_Files
  imports Safe_Ids Plain_Paths Elicitation
begin

text \<open>
  The files of a host that installs runtimes (\<^verbatim>\<open>runtime_artifact.py\<close>, \<^verbatim>\<open>runtime_install.py\<close>,
  \<^verbatim>\<open>bootstrap_transactions.py\<close>): a tree of directories and files with their modes. Every access
  first resolves its path, so that symbolic links are the host's: none of the modelled operations
  makes or removes one. \<open>open\<close>, \<open>mkdir\<close>, \<open>replace\<close>, \<open>unlink\<close> and \<open>rmtree\<close> raise \<open>OSError\<close> as the
  system does for a missing or unsuitable entry; permissions matter only for \<open>os.access(p, X_OK)\<close>.
\<close>

section \<open>Paths\<close>

text \<open>\<open>posixpath.normpath\<close>: empty and single-dot components go, and two dots take the component before.\<close>

definition norm_step :: "bool \<Rightarrow> string list \<Rightarrow> string \<Rightarrow> string list" where
  "norm_step rooted comps c =
     (if c = [] \<or> c = ''.'' then comps
      else if c \<noteq> ''..'' \<or> (\<not> rooted \<and> comps = []) \<or> (comps \<noteq> [] \<and> last comps = ''..'') then comps @ [c]
      else butlast comps)"

definition normpath :: "string \<Rightarrow> string" where
  "normpath s =
     (if s = [] then ''.''
      else
        let slashes = (if prefix ''//'' s \<and> \<not> prefix ''///'' s then 2 else if prefix ''/'' s then 1 else 0);
          r = replicate slashes slash @ join ''/'' (foldl (norm_step (slashes \<noteq> 0)) [] (split_char slash s))
        in if r = [] then ''.'' else r)"

text \<open>\<open>str.isalpha\<close> on one character.\<close>

definition is_alpha :: "char \<Rightarrow> bool" where
  "is_alpha c \<longleftrightarrow> is_letter c \<or> code c \<in> {170, 181, 186} \<or> (192 \<le> code c \<and> code c \<notin> {215, 247})"

definition hex_text :: "string \<Rightarrow> bool" where
  "hex_text s \<longleftrightarrow> list_all (\<lambda>c. c \<in> set ''0123456789abcdef'') s"

section \<open>The host\<close>

text \<open>A file holds JSON text, given by its value, or any other bytes.\<close>

datatype file_content = JsonText pyval | RawBytes string

datatype fs_node = NoEntry | DirEntry int | FileEntry file_content int

text \<open>The entries by resolved path, and the lines of the journal of the bootstrap.\<close>

record runtime_state =
  rt_nodes :: "path \<Rightarrow> fs_node"
  rt_journal :: "pydict list"

type_synonym 'a rt = "(runtime_state, exn, 'a) sem"

record zip_member =
  zm_filename :: string
  zm_external_attr :: int
  zm_data :: file_content

datatype tar_kind = TarFile | TarDir | TarSymlink | TarHardlink | TarSpecial

record tar_member =
  tm_name :: string
  tm_kind :: tar_kind
  tm_linkname :: string
  tm_mode :: int
  tm_data :: "file_content option"

text \<open>
  What the operating system and the library decide: expansion and resolution of a path, the modes of
  new entries, whether a mode lets the user execute, the SHA-256 of a file and of a text, how an
  archive reads (\<open>None\<close> if the file is not one), and running a program.
\<close>

record runtime_host =
  rh_expanduser :: "path \<Rightarrow> path"
  rh_resolve :: "path \<Rightarrow> path"
  rh_file_mode :: int
  rh_dir_mode :: int
  rh_may_execute :: "int \<Rightarrow> bool"
  rh_file_sha256 :: "file_content \<Rightarrow> string"
  rh_text_sha256 :: "string \<Rightarrow> string"
  rh_zip :: "file_content \<Rightarrow> zip_member list option"
  rh_tar :: "file_content \<Rightarrow> tar_member list option"
  rh_run :: "string list \<Rightarrow> string \<Rightarrow> int rt"

section \<open>Reading\<close>

definition node_at :: "runtime_host \<Rightarrow> runtime_state \<Rightarrow> path \<Rightarrow> fs_node" where
  "node_at host s p = rt_nodes s (rh_resolve host p)"

definition path_exists :: "runtime_host \<Rightarrow> runtime_state \<Rightarrow> path \<Rightarrow> bool" where
  "path_exists host s p \<longleftrightarrow> node_at host s p \<noteq> NoEntry"

definition path_is_file :: "runtime_host \<Rightarrow> runtime_state \<Rightarrow> path \<Rightarrow> bool" where
  "path_is_file host s p \<longleftrightarrow> (case node_at host s p of FileEntry c m \<Rightarrow> True | _ \<Rightarrow> False)"

definition path_is_dir :: "runtime_host \<Rightarrow> runtime_state \<Rightarrow> path \<Rightarrow> bool" where
  "path_is_dir host s p \<longleftrightarrow> (case node_at host s p of DirEntry m \<Rightarrow> True | _ \<Rightarrow> False)"

text \<open>\<open>os.access(p, os.X_OK)\<close>\<close>

definition executable_at :: "runtime_host \<Rightarrow> runtime_state \<Rightarrow> path \<Rightarrow> bool" where
  "executable_at host s p \<longleftrightarrow> (case node_at host s p of
     NoEntry \<Rightarrow> False | DirEntry m \<Rightarrow> rh_may_execute host m | FileEntry c m \<Rightarrow> rh_may_execute host m)"

definition read_bytes :: "runtime_host \<Rightarrow> runtime_state \<Rightarrow> path \<Rightarrow> file_content res" where
  "read_bytes host s p = (case node_at host s p of
     FileEntry c m \<Rightarrow> Inr c
   | DirEntry m \<Rightarrow> Inl (Exn OSError ''Is a directory'')
   | NoEntry \<Rightarrow> Inl (Exn FileNotFoundError ''No such file or directory''))"

text \<open>\<open>json.load\<close>\<close>

definition load_json :: "runtime_host \<Rightarrow> runtime_state \<Rightarrow> path \<Rightarrow> pyval res" where
  "load_json host s p = bindE (read_bytes host s p) (\<lambda>c. case c of
     JsonText v \<Rightarrow> Inr v
   | RawBytes b \<Rightarrow> Inl (Exn JSONDecodeError ''Expecting value''))"

section \<open>Writing\<close>

definition set_nodes :: "((path \<Rightarrow> fs_node) \<Rightarrow> path \<Rightarrow> fs_node) \<Rightarrow> unit rt" where
  "set_nodes f = modifyS (\<lambda>s. s\<lparr>rt_nodes := f (rt_nodes s)\<rparr>)"

text \<open>\<open>p.mkdir(parents=True, exist_ok=True)\<close>\<close>

definition make_dirs :: "runtime_host \<Rightarrow> path \<Rightarrow> unit rt" where
  "make_dirs host p = bindS getS (\<lambda>s.
     let above = path_and_parents (rh_resolve host p) in
     if list_ex (\<lambda>a. case rt_nodes s a of FileEntry c m \<Rightarrow> True | _ \<Rightarrow> False) above
     then raiseS (Exn OSError ''File exists'')
     else set_nodes (\<lambda>nodes a. case nodes a of
         NoEntry \<Rightarrow> if a \<in> set above then DirEntry (rh_dir_mode host) else NoEntry | n \<Rightarrow> n))"

text \<open>\<open>p.open("wb")\<close> and writing: a file that exists keeps its mode.\<close>

definition write_file :: "runtime_host \<Rightarrow> path \<Rightarrow> file_content \<Rightarrow> unit rt" where
  "write_file host p c = bindS getS (\<lambda>s. let q = rh_resolve host p in
     case rt_nodes s q of
       DirEntry m \<Rightarrow> raiseS (Exn OSError ''Is a directory'')
     | FileEntry d m \<Rightarrow> set_nodes (\<lambda>nodes. nodes(q := FileEntry c m))
     | NoEntry \<Rightarrow>
         (case rt_nodes s (path_parent q) of
            DirEntry m \<Rightarrow> set_nodes (\<lambda>nodes. nodes(q := FileEntry c (rh_file_mode host)))
          | FileEntry d m \<Rightarrow> raiseS (Exn OSError ''Not a directory'')
          | NoEntry \<Rightarrow> raiseS (Exn FileNotFoundError ''No such file or directory'')))"

definition change_mode :: "runtime_host \<Rightarrow> path \<Rightarrow> int \<Rightarrow> unit rt" where
  "change_mode host p m = bindS getS (\<lambda>s. let q = rh_resolve host p in
     case rt_nodes s q of
       DirEntry n \<Rightarrow> set_nodes (\<lambda>nodes. nodes(q := DirEntry m))
     | FileEntry c n \<Rightarrow> set_nodes (\<lambda>nodes. nodes(q := FileEntry c m))
     | NoEntry \<Rightarrow> raiseS (Exn FileNotFoundError ''No such file or directory''))"

text \<open>\<open>p.replace(q)\<close> of a file.\<close>

definition replace_file :: "runtime_host \<Rightarrow> path \<Rightarrow> path \<Rightarrow> unit rt" where
  "replace_file host src dst = bindS getS (\<lambda>s. let q = rh_resolve host src; r = rh_resolve host dst in
     case rt_nodes s q of
       FileEntry c m \<Rightarrow>
         (case rt_nodes s r of
            DirEntry n \<Rightarrow> raiseS (Exn OSError ''Is a directory'')
          | _ \<Rightarrow> set_nodes (\<lambda>nodes. nodes(q := NoEntry, r := FileEntry c m)))
     | DirEntry m \<Rightarrow> raiseS (Exn OSError ''Not a directory'')
     | NoEntry \<Rightarrow> raiseS (Exn FileNotFoundError ''No such file or directory''))"

text \<open>\<open>p.replace(q)\<close> of a directory by an empty directory \<open>q\<close>: the tree moves.\<close>

definition moved_tree :: "path \<Rightarrow> path \<Rightarrow> (path \<Rightarrow> fs_node) \<Rightarrow> path \<Rightarrow> fs_node" where
  "moved_tree q r nodes a =
     (if relative_to a r then nodes (Path (path_root q) (path_parts q @ drop (length (path_parts r)) (path_parts a)))
      else if relative_to a q then NoEntry else nodes a)"

definition replace_dir :: "runtime_host \<Rightarrow> path \<Rightarrow> path \<Rightarrow> unit rt" where
  "replace_dir host src dst = bindS getS (\<lambda>s. let q = rh_resolve host src; r = rh_resolve host dst in
     case rt_nodes s q of
       DirEntry m \<Rightarrow>
         (case rt_nodes s r of
            FileEntry c n \<Rightarrow> raiseS (Exn OSError ''Not a directory'')
          | _ \<Rightarrow> set_nodes (moved_tree q r))
     | FileEntry c m \<Rightarrow> raiseS (Exn OSError ''Is a directory'')
     | NoEntry \<Rightarrow> raiseS (Exn FileNotFoundError ''No such file or directory''))"

definition unlink_file :: "runtime_host \<Rightarrow> path \<Rightarrow> unit rt" where
  "unlink_file host p = bindS getS (\<lambda>s. let q = rh_resolve host p in
     case rt_nodes s q of
       FileEntry c m \<Rightarrow> set_nodes (\<lambda>nodes. nodes(q := NoEntry))
     | DirEntry m \<Rightarrow> raiseS (Exn OSError ''Is a directory'')
     | NoEntry \<Rightarrow> raiseS (Exn FileNotFoundError ''No such file or directory''))"

text \<open>\<open>shutil.rmtree(p)\<close>\<close>

definition remove_tree :: "runtime_host \<Rightarrow> path \<Rightarrow> unit rt" where
  "remove_tree host p = bindS getS (\<lambda>s. let q = rh_resolve host p in
     case rt_nodes s q of
       DirEntry m \<Rightarrow> set_nodes (\<lambda>nodes a. if relative_to a q then NoEntry else nodes a)
     | FileEntry c m \<Rightarrow> raiseS (Exn OSError ''Not a directory'')
     | NoEntry \<Rightarrow> raiseS (Exn FileNotFoundError ''No such file or directory''))"

definition write_json :: "runtime_host \<Rightarrow> path \<Rightarrow> pydict \<Rightarrow> unit rt" where
  "write_json host p payload =
     seqS (make_dirs host (path_parent p))
     (seqS (write_file host (tmp_path p) (JsonText (PDict payload))) (replace_file host (tmp_path p) p))"

end
