(* ===== verification/Runtime_Artifact.thy ===== *)
theory Runtime_Artifact
  imports Runtime_Files
begin

unbundle bit_operations_syntax

text \<open>
  The verification of a runtime artifact before it is activated (\<^verbatim>\<open>runtime_artifact.py\<close>): its
  digest, the names and kinds of the members of its archive, and its entry point.
\<close>

definition artifact_error :: "string \<Rightarrow> exn" where
  "artifact_error m = Exn RuntimeArtifactError m"

section \<open>Members of an archive\<close>

definition windows_drive :: "string \<Rightarrow> bool" where
  "windows_drive p = (case hd (split_char slash p) of c # d # _ \<Rightarrow> d = CHR '':'' \<and> is_alpha c | _ \<Rightarrow> False)"

definition path_components :: "string \<Rightarrow> string list" where
  "path_components s = filter (\<lambda>w. w \<noteq> []) (split_char slash s)"

definition require_safe_member :: "string \<Rightarrow> string \<Rightarrow> string res" where
  "require_safe_member field_name member_name =
     (let normalized = normpath member_name in
      if strip member_name = [] \<or> CHR 0x5C \<in> set member_name \<or> windows_drive member_name \<or>
        windows_drive normalized \<or> ''..'' \<in> set (path_components member_name) \<or> prefix ''../'' normalized \<or>
        normalized = ''..'' \<or> normalized = ''.'' \<or> prefix ''/'' member_name \<or>
        ''..'' \<in> set (path_components normalized)
      then Inl (artifact_error (''unsafe '' @ field_name @ '': '' @ member_name))
      else Inr normalized)"

definition zip_is_dir :: "zip_member \<Rightarrow> bool" where
  "zip_is_dir info \<longleftrightarrow> suffix ''/'' (zm_filename info)"

text \<open>\<open>0o170000\<close>, \<open>0o120000\<close>, \<open>0o777\<close> and \<open>0o111\<close> are 61440, 40960, 511 and 73.\<close>

definition zip_info_is_symlink :: "zip_member \<Rightarrow> bool" where
  "zip_info_is_symlink info \<longleftrightarrow> drop_bit 16 (zm_external_attr info) AND 61440 = 40960"

definition zip_info_is_executable :: "zip_member \<Rightarrow> bool" where
  "zip_info_is_executable info \<longleftrightarrow> (drop_bit 16 (zm_external_attr info) AND 511) AND 73 \<noteq> 0"

definition tar_member_is_executable :: "tar_member \<Rightarrow> bool" where
  "tar_member_is_executable m \<longleftrightarrow> tm_mode m AND 73 \<noteq> 0"

definition entrypoint_not_executable :: "string \<Rightarrow> exn" where
  "entrypoint_not_executable entry = artifact_error (''runtime artifact entrypoint is not executable: '' @ entry)"

definition unsafe_member :: "string \<Rightarrow> exn" where
  "unsafe_member name = artifact_error (''unsafe archive member: '' @ name)"

definition check_zip_member :: "string option \<Rightarrow> bool \<Rightarrow> zip_member \<Rightarrow> bool res" where
  "check_zip_member required found info =
     bindE (require_safe_member ''archive member'' (zm_filename info)) (\<lambda>normalized.
     bindE (require (\<not> zip_info_is_symlink info) (unsafe_member (zm_filename info))) (\<lambda>_.
     if required = Some normalized then
       bindE (require (\<not> zip_is_dir info \<and> zip_info_is_executable info) (entrypoint_not_executable normalized))
         (\<lambda>_. Inr True)
     else Inr found))"

definition check_tar_member :: "string option \<Rightarrow> bool \<Rightarrow> tar_member \<Rightarrow> bool res" where
  "check_tar_member required found m =
     bindE (require_safe_member ''archive member'' (tm_name m)) (\<lambda>normalized.
     bindE (require (tm_kind m \<noteq> TarSymlink \<and> tm_kind m \<noteq> TarHardlink) (unsafe_member (tm_name m))) (\<lambda>_.
     bindE (require (tm_kind m = TarFile \<or> tm_kind m = TarDir) (unsafe_member (tm_name m))) (\<lambda>_.
     bindE (if tm_linkname m = [] then Inr [] else require_safe_member ''archive member'' (tm_linkname m)) (\<lambda>_.
     if required = Some normalized then
       bindE (require (tm_kind m = TarFile \<and> tar_member_is_executable m) (entrypoint_not_executable normalized))
         (\<lambda>_. Inr True)
     else Inr found))))"

definition entrypoint_found :: "string option \<Rightarrow> bool \<Rightarrow> unit res" where
  "entrypoint_found required found = (case required of
     None \<Rightarrow> Inr ()
   | Some entry \<Rightarrow> require found (artifact_error (''runtime artifact entrypoint not found: '' @ entry)))"

definition check_zip_members :: "path \<Rightarrow> string option \<Rightarrow> zip_member list \<Rightarrow> nat res" where
  "check_zip_members p required infos =
     bindE (require (infos \<noteq> []) (artifact_error (''empty runtime artifact archive: '' @ path_str p))) (\<lambda>_.
     bindE (foldE (check_zip_member required) (required = None) infos) (\<lambda>found.
     bindE (entrypoint_found required found) (\<lambda>_. Inr (length infos))))"

definition check_tar_members :: "path \<Rightarrow> string option \<Rightarrow> tar_member list \<Rightarrow> nat res" where
  "check_tar_members p required members =
     bindE (require (members \<noteq> []) (artifact_error (''empty runtime artifact archive: '' @ path_str p))) (\<lambda>_.
     bindE (foldE (check_tar_member required) (required = None) members) (\<lambda>found.
     bindE (entrypoint_found required found) (\<lambda>_. Inr (length members))))"

definition check_archive_members :: "runtime_host \<Rightarrow> path \<Rightarrow> file_content \<Rightarrow> string option \<Rightarrow> (string \<times> nat) res" where
  "check_archive_members host p c required_entrypoint =
     bindE (case required_entrypoint of
         None \<Rightarrow> Inr None
       | Some e \<Rightarrow> bindE (require_safe_member ''runtime artifact entrypoint'' e) (\<lambda>n. Inr (Some n))) (\<lambda>required.
     case rh_zip host c of
       Some infos \<Rightarrow> bindE (check_zip_members p required infos) (\<lambda>n. Inr (''zip'', n))
     | None \<Rightarrow>
         (case rh_tar host c of
            Some members \<Rightarrow> bindE (check_tar_members p required members) (\<lambda>n. Inr (''tar'', n))
          | None \<Rightarrow> Inl (artifact_error (''unsupported runtime artifact archive: '' @ path_str p))))"

section \<open>The verifier\<close>

definition parse_digest :: "string \<Rightarrow> (string \<times> string) res" where
  "parse_digest expected = (case split_once '':'' expected of
     None \<Rightarrow> Inl (artifact_error ''runtime artifact digest must use algorithm:value'')
   | Some (algorithm, d) \<Rightarrow>
       bindE (require (length (lower d) = 64 \<and> hex_text (lower d))
         (artifact_error ''runtime artifact digest must be a sha256 hex value'')) (\<lambda>_.
       Inr (lower algorithm, lower d)))"

record artifact_report =
  ar_artifact_path :: path
  ar_archive_format :: string
  ar_members_checked :: nat

definition verify_artifact ::
    "runtime_host \<Rightarrow> runtime_state \<Rightarrow> path \<Rightarrow> string \<Rightarrow> string option \<Rightarrow> artifact_report res" where
  "verify_artifact host s artifact_path expected_digest required_entrypoint =
     (let artifact = rh_expanduser host artifact_path in
      bindE (require (path_is_file host s artifact)
        (artifact_error (''runtime artifact not found: '' @ path_str artifact))) (\<lambda>_.
      bindE (parse_digest expected_digest) (\<lambda>(algorithm, d).
      bindE (require (algorithm = ''sha256'')
        (artifact_error (''unsupported runtime artifact digest: '' @ algorithm))) (\<lambda>_.
      bindE (read_bytes host s artifact) (\<lambda>c.
      bindE (require (rh_file_sha256 host c = d)
        (artifact_error (''digest mismatch: expected '' @ d @ '', computed '' @ rh_file_sha256 host c))) (\<lambda>_.
      bindE (check_archive_members host artifact c required_entrypoint) (\<lambda>(format, n).
      Inr \<lparr>ar_artifact_path = artifact, ar_archive_format = format, ar_members_checked = n\<rparr>)))))))"

definition load_artifact_metadata :: "runtime_host \<Rightarrow> runtime_state \<Rightarrow> path \<Rightarrow> pydict res" where
  "load_artifact_metadata host s p =
     bindE (map_exn (\<lambda>e. if is_class JSONDecodeError e
         then artifact_error (''invalid runtime artifact metadata: '' @ path_str p) else e) (load_json host s p)) (\<lambda>v.
     case v of PDict d \<Rightarrow> Inr d
     | _ \<Rightarrow> Inl (artifact_error (''runtime artifact metadata must be an object: '' @ path_str p)))"

text \<open>\<open>_required_string\<close>, whose copies in the modules differ in their exception only.\<close>

definition required_field :: "(string \<Rightarrow> exn) \<Rightarrow> pydict \<Rightarrow> string \<Rightarrow> path \<Rightarrow> string res" where
  "required_field err d field p = (case dget d field of
     PStr v \<Rightarrow> bindE (require (strip v \<noteq> []) (err (field @ '': '' @ path_str p))) (\<lambda>_. Inr v)
   | _ \<Rightarrow> Inl (err (field @ '': '' @ path_str p)))"

definition artifact_field :: "pydict \<Rightarrow> string \<Rightarrow> path \<Rightarrow> string res" where
  "artifact_field = required_field (\<lambda>m. artifact_error (''runtime artifact metadata missing '' @ m))"

definition metadata_artifact_path :: "runtime_host \<Rightarrow> path \<Rightarrow> string \<Rightarrow> path res" where
  "metadata_artifact_path host metadata_dir artifact_path =
     (let outside = artifact_error ''runtime artifact path must stay inside metadata directory'';
        candidate = path_of artifact_path;
        resolved = rh_resolve host (path_join metadata_dir artifact_path)
      in
      bindE (require (\<not> is_absolute candidate \<and> ''..'' \<notin> set (path_parts candidate)) outside) (\<lambda>_.
      bindE (require (relative_to resolved (rh_resolve host metadata_dir)) outside) (\<lambda>_. Inr resolved)))"

record metadata_report =
  mr_artifact :: artifact_report
  mr_entrypoint :: string
  mr_metadata_path :: path
  mr_version :: string

definition verify_metadata_file :: "runtime_host \<Rightarrow> runtime_state \<Rightarrow> path \<Rightarrow> metadata_report res" where
  "verify_metadata_file host s metadata_path =
     (let metadata_file = rh_expanduser host metadata_path in
      bindE (require (path_is_file host s metadata_file)
        (artifact_error (''runtime artifact metadata not found: '' @ path_str metadata_file))) (\<lambda>_.
      bindE (load_artifact_metadata host s metadata_file) (\<lambda>metadata.
      bindE (artifact_field metadata ''artifact_path'' metadata_file) (\<lambda>text.
      bindE (metadata_artifact_path host (path_parent metadata_file) text) (\<lambda>artifact_path.
      bindE (artifact_field metadata ''entrypoint'' metadata_file) (\<lambda>entrypoint.
      bindE (artifact_field metadata ''artifact_digest'' metadata_file) (\<lambda>expected_digest.
      bindE (verify_artifact host s artifact_path expected_digest (Some entrypoint)) (\<lambda>report.
      bindE (artifact_field metadata ''version'' metadata_file) (\<lambda>version.
      Inr \<lparr>mr_artifact = report, mr_entrypoint = entrypoint, mr_metadata_path = metadata_file,
        mr_version = version\<rparr>)))))))))"

end
