(* ===== verification/Runtime_Install.thy ===== *)
theory Runtime_Install
  imports Runtime_Artifact
begin

text \<open>
  The manifests and pointers of installed runtimes (\<^verbatim>\<open>runtime_install.py\<close>) and the plan of launching
  the active one (\<^verbatim>\<open>runtime_launcher.py\<close>).
\<close>

section \<open>The layout\<close>

definition install_error :: "string \<Rightarrow> exn" where
  "install_error m = Exn RuntimeInstallError m"

definition install_dir :: "runtime_host \<Rightarrow> path \<Rightarrow> path" where
  "install_dir host state_dir = path_join (rh_expanduser host state_dir) ''runtime-install''"

definition versions_dir :: "runtime_host \<Rightarrow> path \<Rightarrow> path" where
  "versions_dir host state_dir = path_join (install_dir host state_dir) ''versions''"

definition active_pointer :: "runtime_host \<Rightarrow> path \<Rightarrow> path" where
  "active_pointer host state_dir = path_join (install_dir host state_dir) ''active-runtime.json''"

definition previous_pointer :: "runtime_host \<Rightarrow> path \<Rightarrow> path" where
  "previous_pointer host state_dir = path_join (install_dir host state_dir) ''previous-runtime.json''"

definition RUNTIME_MANIFEST_NAME :: string where
  "RUNTIME_MANIFEST_NAME = ''runtime-manifest.json''"

record runtime_pointer =
  rp_runtime_id :: string
  rp_manifest_path :: string

definition runtime_pointer_dict :: "runtime_pointer \<Rightarrow> pydict" where
  "runtime_pointer_dict p = [(''runtime_id'', PStr (rp_runtime_id p)), (''manifest_path'', PStr (rp_manifest_path p))]"

record runtime_manifest =
  im_artifact_digest :: string
  im_entrypoint :: string
  im_runtime_id :: string
  im_runtime_path :: string
  im_version :: string

definition manifest_dict :: "runtime_manifest \<Rightarrow> pydict" where
  "manifest_dict m = [(''artifact_digest'', PStr (im_artifact_digest m)), (''entrypoint'', PStr (im_entrypoint m)),
     (''runtime_id'', PStr (im_runtime_id m)), (''runtime_path'', PStr (im_runtime_path m)),
     (''status'', PStr ''installed''), (''version'', PStr (im_version m))]"

section \<open>Installation\<close>

definition require_non_empty :: "string \<Rightarrow> string \<Rightarrow> unit res" where
  "require_non_empty field v = require (strip v \<noteq> []) (install_error (field @ '' is required''))"

definition safe_version_fullmatch :: "string \<Rightarrow> bool" where
  "safe_version_fullmatch v \<longleftrightarrow>
     (case v of [] \<Rightarrow> False | c # cs \<Rightarrow> (is_letter c \<or> is_digit c) \<and> list_all is_safe_char cs)"

definition require_safe_version :: "string \<Rightarrow> unit res" where
  "require_safe_version version =
     bindE (require_non_empty ''version'' version) (\<lambda>_.
       require (version \<notin> {''.'', ''..''} \<and> safe_version_fullmatch version)
         (install_error ''version must be a safe path component''))"

definition runtime_id_of :: "string \<Rightarrow> string \<Rightarrow> string" where
  "runtime_id_of version artifact_digest =
     safe_id (version @ ''-'' @ drop (length artifact_digest - 12) artifact_digest)"

definition manifest_path_for :: "runtime_host \<Rightarrow> path \<Rightarrow> string \<Rightarrow> string \<Rightarrow> path res" where
  "manifest_path_for host state_dir version runtime_id =
     (let p = path_join (path_join (path_join (versions_dir host state_dir) version) runtime_id) RUNTIME_MANIFEST_NAME in
      bindE (require (relative_to (rh_resolve host p) (rh_resolve host (versions_dir host state_dir)))
        (install_error ''version resolves outside runtime versions directory'')) (\<lambda>_. Inr p))"

definition read_install_json :: "runtime_host \<Rightarrow> runtime_state \<Rightarrow> path \<Rightarrow> pydict res" where
  "read_install_json host s p =
     bindE (load_json host s p) (\<lambda>v. case v of PDict d \<Rightarrow> Inr d
       | _ \<Rightarrow> Inl (install_error (''expected JSON object: '' @ path_str p)))"

definition read_install_pointer :: "runtime_host \<Rightarrow> runtime_state \<Rightarrow> path \<Rightarrow> runtime_pointer option res" where
  "read_install_pointer host s p =
     (if \<not> path_exists host s p then Inr None
      else bindE (read_install_json host s p) (\<lambda>d.
        bindE (dindex d ''runtime_id'') (\<lambda>i.
        bindE (dindex d ''manifest_path'') (\<lambda>m.
        Inr (Some \<lparr>rp_runtime_id = py_str i, rp_manifest_path = py_str m\<rparr>)))))"

text \<open>The manifest and the pointers are written in this order; an \<open>OSError\<close> of a write is translated.\<close>

definition write_installation :: "runtime_host \<Rightarrow> path \<Rightarrow> path \<Rightarrow> runtime_manifest \<Rightarrow> runtime_pointer option \<Rightarrow> unit rt" where
  "write_installation host state_dir manifest_path m current_active =
     catchS
       (seqS (write_json host manifest_path (manifest_dict m))
       (seqS (case current_active of
            None \<Rightarrow> returnS ()
          | Some c \<Rightarrow> write_json host (previous_pointer host state_dir) (runtime_pointer_dict c))
         (write_json host (active_pointer host state_dir) (runtime_pointer_dict
           \<lparr>rp_runtime_id = im_runtime_id m, rp_manifest_path = path_str manifest_path\<rparr>))))
       (\<lambda>e. raiseS (if is_os_error e then install_error (exn_str e) else e))"

text \<open>The result is the manifest and the path of its file.\<close>

definition record_installed_runtime ::
    "runtime_host \<Rightarrow> path \<Rightarrow> string \<Rightarrow> path \<Rightarrow> string \<Rightarrow> string \<Rightarrow> (runtime_manifest \<times> path) rt" where
  "record_installed_runtime host state_dir version runtime_path entrypoint artifact_digest =
     seqS (liftS (require_safe_version version))
    (seqS (liftS (require_non_empty ''entrypoint'' entrypoint))
    (seqS (liftS (require_non_empty ''artifact_digest'' artifact_digest))
     (let runtime_id = runtime_id_of version artifact_digest in
      bindS (liftS (manifest_path_for host state_dir version runtime_id)) (\<lambda>manifest_path.
      let m = \<lparr>im_artifact_digest = artifact_digest, im_entrypoint = entrypoint, im_runtime_id = runtime_id,
          im_runtime_path = path_str (rh_expanduser host runtime_path), im_version = version\<rparr>
      in
      bindS (bindS getS (\<lambda>s. liftS (read_install_pointer host s (active_pointer host state_dir)))) (\<lambda>current_active.
      seqS (make_dirs host (path_parent manifest_path))
     (seqS (write_installation host state_dir manifest_path m current_active)
        (returnS (m, manifest_path))))))))"

section \<open>Launching\<close>

definition launcher_error :: "string \<Rightarrow> exn" where
  "launcher_error m = Exn RuntimeLauncherError m"

definition launcher_json :: "runtime_host \<Rightarrow> runtime_state \<Rightarrow> path \<Rightarrow> pydict res" where
  "launcher_json host s p =
     bindE (map_exn (\<lambda>e. if is_class JSONDecodeError e
         then launcher_error (''invalid runtime JSON: '' @ path_str p) else e) (load_json host s p)) (\<lambda>v.
     case v of PDict d \<Rightarrow> Inr d | _ \<Rightarrow> Inl (launcher_error (''expected JSON object: '' @ path_str p)))"

definition launcher_field :: "pydict \<Rightarrow> string \<Rightarrow> path \<Rightarrow> string res" where
  "launcher_field = required_field (\<lambda>m. launcher_error (''active runtime JSON missing '' @ m))"

definition read_active_pointer :: "runtime_host \<Rightarrow> runtime_state \<Rightarrow> path \<Rightarrow> runtime_pointer res" where
  "read_active_pointer host s p =
     bindE (require (path_exists host s p) (launcher_error ''active runtime pointer is missing'')) (\<lambda>_.
     bindE (launcher_json host s p) (\<lambda>d.
     bindE (launcher_field d ''runtime_id'' p) (\<lambda>i.
     bindE (launcher_field d ''manifest_path'' p) (\<lambda>m.
     Inr \<lparr>rp_runtime_id = i, rp_manifest_path = m\<rparr>))))"

definition read_launch_manifest :: "runtime_host \<Rightarrow> runtime_state \<Rightarrow> path \<Rightarrow> (string \<times> string \<times> string) res" where
  "read_launch_manifest host s p =
     bindE (require (path_exists host s p)
       (launcher_error (''active runtime manifest is missing: '' @ path_str p))) (\<lambda>_.
     bindE (launcher_json host s p) (\<lambda>d.
     bindE (launcher_field d ''entrypoint'' p) (\<lambda>entrypoint.
     bindE (launcher_field d ''runtime_id'' p) (\<lambda>runtime_id.
     bindE (launcher_field d ''runtime_path'' p) (\<lambda>runtime_path.
     Inr (entrypoint, runtime_id, runtime_path))))))"

definition require_manifest_in_versions :: "runtime_host \<Rightarrow> path \<Rightarrow> path \<Rightarrow> unit res" where
  "require_manifest_in_versions host p versions_root =
     (let manifest_path = rh_resolve host (rh_expanduser host p) in
      bindE (require (relative_to manifest_path (rh_resolve host (rh_expanduser host versions_root)))
        (launcher_error ''active runtime manifest path is outside runtime install root'')) (\<lambda>_.
      require (path_name manifest_path = RUNTIME_MANIFEST_NAME)
        (launcher_error ''active runtime manifest path must end with runtime-manifest.json'')))"

definition entrypoint_path :: "runtime_host \<Rightarrow> runtime_state \<Rightarrow> path \<Rightarrow> string \<Rightarrow> path res" where
  "entrypoint_path host s runtime_path entrypoint =
     (let inside = launcher_error ''entrypoint must stay inside runtime path'';
        executable = path_join runtime_path entrypoint
      in
      bindE (require (\<not> is_absolute (path_of entrypoint) \<and> ''..'' \<notin> set (path_parts (path_of entrypoint))) inside) (\<lambda>_.
      bindE (require (path_exists host s executable)
        (launcher_error (''active runtime entrypoint is missing: '' @ path_str executable))) (\<lambda>_.
      bindE (require (relative_to (rh_resolve host executable) (rh_resolve host runtime_path)) inside) (\<lambda>_.
      bindE (require (executable_at host s executable)
        (launcher_error (''active runtime entrypoint is not executable: '' @ path_str executable))) (\<lambda>_.
      Inr executable)))))"

record launch_plan =
  lp_argv :: "string list"
  lp_entrypoint :: string
  lp_manifest_path :: path
  lp_runtime_id :: string
  lp_runtime_path :: path

definition plan_launch :: "runtime_host \<Rightarrow> runtime_state \<Rightarrow> path \<Rightarrow> string list \<Rightarrow> launch_plan res" where
  "plan_launch host s state_dir args =
     bindE (read_active_pointer host s (active_pointer host state_dir)) (\<lambda>pointer.
     let manifest_path = path_of (rp_manifest_path pointer) in
     bindE (require_manifest_in_versions host manifest_path (versions_dir host state_dir)) (\<lambda>_.
     bindE (read_launch_manifest host s manifest_path) (\<lambda>(entrypoint, runtime_id, path_text).
     bindE (require (runtime_id = rp_runtime_id pointer)
       (launcher_error ''active runtime pointer does not match manifest'')) (\<lambda>_.
     let runtime_path = rh_expanduser host (path_of path_text) in
     bindE (entrypoint_path host s runtime_path entrypoint) (\<lambda>executable.
     Inr \<lparr>lp_argv = path_str executable # args, lp_entrypoint = entrypoint, lp_manifest_path = manifest_path,
       lp_runtime_id = runtime_id, lp_runtime_path = runtime_path\<rparr>)))))"

end
