(* ===== verification/Bootstrap.thy ===== *)
theory Bootstrap
  imports Runtime_Install
begin

unbundle bit_operations_syntax

text \<open>
  Bootstrap transactions (\<^verbatim>\<open>bootstrap_transactions.py\<close>): a verified artifact is extracted into a
  candidate directory, tried, moved to its place and made the active runtime; every transaction is
  recorded. A smoke check acts on the host as the program it runs does. The identifier of the
  candidate and the two readings of the clock are arguments.
\<close>

definition bootstrap_error :: "string \<Rightarrow> exn" where
  "bootstrap_error m = Exn BootstrapTransactionError m"

section \<open>The layout\<close>

definition bootstrap_dir :: "runtime_host \<Rightarrow> path \<Rightarrow> path" where
  "bootstrap_dir host state_dir = path_join (rh_expanduser host state_dir) ''bootstrap-transactions''"

definition transactions_dir :: "runtime_host \<Rightarrow> path \<Rightarrow> path" where
  "transactions_dir host state_dir = path_join (bootstrap_dir host state_dir) ''records''"

definition latest_pointer :: "runtime_host \<Rightarrow> path \<Rightarrow> path" where
  "latest_pointer host state_dir = path_join (bootstrap_dir host state_dir) ''latest.json''"

definition extracted_runtimes_dir :: "runtime_host \<Rightarrow> path \<Rightarrow> path" where
  "extracted_runtimes_dir host state_dir = path_join (install_dir host state_dir) ''extracted-runtimes''"

section \<open>Reading\<close>

definition bootstrap_json :: "runtime_host \<Rightarrow> runtime_state \<Rightarrow> path \<Rightarrow> pydict res" where
  "bootstrap_json host s p =
     bindE (map_exn (\<lambda>e. if is_class JSONDecodeError e
         then bootstrap_error (''invalid runtime bootstrap JSON: '' @ path_str p) else e) (load_json host s p)) (\<lambda>v.
     case v of PDict d \<Rightarrow> Inr d | _ \<Rightarrow> Inl (bootstrap_error (''expected JSON object: '' @ path_str p)))"

definition json_string :: "pydict \<Rightarrow> string \<Rightarrow> path \<Rightarrow> string res" where
  "json_string = required_field (\<lambda>m. bootstrap_error (''runtime bootstrap JSON missing '' @ m))"

definition metadata_field :: "pydict \<Rightarrow> string \<Rightarrow> path \<Rightarrow> string res" where
  "metadata_field = required_field (\<lambda>m. bootstrap_error (''runtime metadata missing '' @ m))"

definition load_bootstrap_metadata :: "runtime_host \<Rightarrow> runtime_state \<Rightarrow> path \<Rightarrow> pydict res" where
  "load_bootstrap_metadata host s p =
     bindE (load_json host s p) (\<lambda>v. case v of PDict d \<Rightarrow> Inr d
       | _ \<Rightarrow> Inl (bootstrap_error (''runtime metadata must be an object: '' @ path_str p)))"

definition metadata_runtime_path :: "runtime_host \<Rightarrow> runtime_state \<Rightarrow> path \<Rightarrow> string \<Rightarrow> path res" where
  "metadata_runtime_path host s metadata_dir runtime_path =
     (let resolved = rh_resolve host (path_join metadata_dir runtime_path) in
      bindE (require (relative_to resolved (rh_resolve host metadata_dir))
        (bootstrap_error ''runtime path must stay inside metadata directory'')) (\<lambda>_.
      bindE (require (path_is_dir host s resolved)
        (bootstrap_error (''runtime path not found: '' @ path_str resolved))) (\<lambda>_. Inr resolved)))"

definition require_runtime_entrypoint :: "runtime_host \<Rightarrow> runtime_state \<Rightarrow> path \<Rightarrow> string \<Rightarrow> unit res" where
  "require_runtime_entrypoint host s runtime_path entrypoint =
     (let p = rh_resolve host (path_join runtime_path entrypoint) in
      bindE (require (relative_to p (rh_resolve host runtime_path))
        (bootstrap_error ''runtime entrypoint must stay inside runtime path'')) (\<lambda>_.
      require (path_is_file host s p \<and> executable_at host s p)
        (bootstrap_error (''runtime entrypoint is not executable: '' @ entrypoint))))"

definition transaction_id :: "runtime_host \<Rightarrow> pydict \<Rightarrow> string" where
  "transaction_id host payload = take 16 (rh_text_sha256 host (dumps_compact (PDict payload)))"

definition valid_transaction_id :: "string \<Rightarrow> bool" where
  "valid_transaction_id i \<longleftrightarrow> length i = 16 \<and> hex_text i"

definition read_runtime_pointer :: "runtime_host \<Rightarrow> runtime_state \<Rightarrow> path \<Rightarrow> runtime_pointer option res" where
  "read_runtime_pointer host s p =
     (if \<not> path_exists host s p then Inr None
      else bindE (bootstrap_json host s p) (\<lambda>d.
        bindE (json_string d ''manifest_path'' p) (\<lambda>m.
        bindE (json_string d ''runtime_id'' p) (\<lambda>i.
        Inr (Some \<lparr>rp_runtime_id = i, rp_manifest_path = m\<rparr>)))))"

definition require_runtime_pointer :: "runtime_host \<Rightarrow> runtime_state \<Rightarrow> path \<Rightarrow> string \<Rightarrow> runtime_pointer res" where
  "require_runtime_pointer host s p message =
     bindE (read_runtime_pointer host s p) (\<lambda>q. case q of None \<Rightarrow> Inl (bootstrap_error message) | Some r \<Rightarrow> Inr r)"

definition pointer_id :: "runtime_pointer option \<Rightarrow> pyval" where
  "pointer_id p = (case p of None \<Rightarrow> PNone | Some q \<Rightarrow> PStr (rp_runtime_id q))"

text \<open>The path and the identifier of the latest transaction.\<close>

definition read_latest_pointer :: "runtime_host \<Rightarrow> runtime_state \<Rightarrow> path \<Rightarrow> path \<Rightarrow> (path \<times> string) option res" where
  "read_latest_pointer host s p records_dir =
     (if \<not> path_exists host s p then Inr None
      else bindE (bootstrap_json host s p) (\<lambda>d.
        bindE (json_string d ''transaction_id'' p) (\<lambda>i.
        bindE (json_string d ''record_path'' p) (\<lambda>text.
        let record_path = rh_expanduser host (path_of text); resolved = rh_resolve host record_path in
        bindE (require (valid_transaction_id i \<and>
            relative_to resolved (rh_resolve host (rh_expanduser host records_dir)) \<and>
            path_name resolved = i @ ''.json'')
          (bootstrap_error ''latest transaction pointer is invalid'')) (\<lambda>_.
        Inr (Some (record_path, i)))))))"

definition bootstrap_status :: "runtime_host \<Rightarrow> runtime_state \<Rightarrow> path \<Rightarrow> pydict res" where
  "bootstrap_status host s state_dir =
     bindE (read_latest_pointer host s (latest_pointer host state_dir) (transactions_dir host state_dir)) (\<lambda>latest.
     bindE (case latest of
         None \<Rightarrow> Inr PNone
       | Some (record_path, i) \<Rightarrow>
           bindE (bootstrap_json host s (path_of (path_str record_path))) (\<lambda>rcd.
           bindE (json_string rcd ''transaction_id'' (path_of (path_str record_path))) (\<lambda>j.
           bindE (require (j = i) (bootstrap_error ''latest transaction record does not match pointer'')) (\<lambda>_.
           Inr (PDict rcd))))) (\<lambda>latest_transaction.
     bindE (read_runtime_pointer host s (active_pointer host state_dir)) (\<lambda>active.
     Inr [(''active_runtime_id'', pointer_id active), (''latest_transaction'', latest_transaction),
       (''status'', PStr ''ok'')])))"

section \<open>Planning\<close>

record bootstrap_plan =
  bp_artifact_digest :: string
  bp_artifact_path :: string
  bp_entrypoint :: string
  bp_metadata_path :: string
  bp_runtime_path :: string
  bp_version :: string
  bp_transaction_id :: string

definition plan_fields :: "bootstrap_plan \<Rightarrow> pydict" where
  "plan_fields p = [(''artifact_digest'', PStr (bp_artifact_digest p)), (''artifact_path'', PStr (bp_artifact_path p)),
     (''entrypoint'', PStr (bp_entrypoint p)), (''metadata_path'', PStr (bp_metadata_path p)),
     (''runtime_path'', PStr (bp_runtime_path p)), (''version'', PStr (bp_version p))]"

definition plan_dict :: "bootstrap_plan \<Rightarrow> pydict" where
  "plan_dict p = plan_fields p @ [(''transaction_id'', PStr (bp_transaction_id p))]"

definition make_plan :: "runtime_host \<Rightarrow> string \<Rightarrow> metadata_report \<Rightarrow> path \<Rightarrow> path \<Rightarrow> bootstrap_plan" where
  "make_plan host artifact_digest report metadata_file runtime_path =
     (let plan = \<lparr>bp_artifact_digest = artifact_digest,
          bp_artifact_path = path_str (ar_artifact_path (mr_artifact report)),
          bp_entrypoint = mr_entrypoint report, bp_metadata_path = path_str metadata_file,
          bp_runtime_path = path_str runtime_path, bp_version = mr_version report, bp_transaction_id = []\<rparr>
      in plan\<lparr>bp_transaction_id := transaction_id host (plan_fields plan)\<rparr>)"

definition bootstrap_plan_for :: "runtime_host \<Rightarrow> runtime_state \<Rightarrow> path \<Rightarrow> bootstrap_plan res" where
  "bootstrap_plan_for host s metadata_path =
     (let metadata_file = rh_expanduser host metadata_path in
      bindE (require (path_is_file host s metadata_file)
        (bootstrap_error (''runtime artifact metadata not found: '' @ path_str metadata_file))) (\<lambda>_.
      bindE (load_bootstrap_metadata host s metadata_file) (\<lambda>metadata.
      bindE (metadata_field metadata ''version'' metadata_file) (\<lambda>version.
      bindE (metadata_field metadata ''artifact_digest'' metadata_file) (\<lambda>artifact_digest.
      bindE (metadata_field metadata ''artifact_path'' metadata_file) (\<lambda>_.
      bindE (metadata_field metadata ''entrypoint'' metadata_file) (\<lambda>entrypoint_value.
      bindE (metadata_field metadata ''runtime_path'' metadata_file) (\<lambda>runtime_path_value.
      bindE (metadata_runtime_path host s (path_parent metadata_file) runtime_path_value) (\<lambda>runtime_path.
      bindE (require_runtime_entrypoint host s runtime_path entrypoint_value) (\<lambda>_.
      bindE (map_exn (\<lambda>e. if is_class RuntimeArtifactError e then bootstrap_error (exn_str e) else e)
        (verify_metadata_file host s metadata_file)) (\<lambda>report.
      bindE (require_runtime_entrypoint host s runtime_path (mr_entrypoint report)) (\<lambda>_.
      Inr (make_plan host artifact_digest report metadata_file runtime_path)))))))))))))"

definition preflight :: "runtime_host \<Rightarrow> runtime_state \<Rightarrow> path \<Rightarrow> pydict res" where
  "preflight host s metadata_path =
     bindE (bootstrap_plan_for host s metadata_path) (\<lambda>p.
       Inr (plan_dict p @ [(''status'', PStr ''preflight_passed''), (''would_change_runtime_state'', PBool False)]))"

text \<open>\<open>plan\<close>: its result also has \<open>status\<close> and \<open>would_change_runtime_state\<close>, which go into what \<open>apply\<close> records.\<close>

definition planned_dict :: "bootstrap_plan \<Rightarrow> pydict" where
  "planned_dict p = plan_dict p @ [(''status'', PStr ''planned''), (''would_change_runtime_state'', PBool True)]"

section \<open>Extraction\<close>

definition unsafe_archive_member :: "string \<Rightarrow> exn" where
  "unsafe_archive_member name = bootstrap_error (''unsafe archive member: '' @ name)"

definition drive_prefix :: "string \<Rightarrow> bool" where
  "drive_prefix p = (case p of c # d # _ \<Rightarrow> d = CHR '':'' \<and> is_alpha c | _ \<Rightarrow> False)"

definition safe_archive_member :: "string \<Rightarrow> string res" where
  "safe_archive_member member_name =
     (let normalized = normpath member_name in
      if strip member_name = [] \<or> CHR 0x5C \<in> set member_name \<or> drive_prefix member_name \<or>
        ''..'' \<in> set (path_components member_name) \<or> normalized = ''.'' \<or> prefix ''/'' member_name
      then Inl (unsafe_archive_member member_name) else Inr normalized)"

definition archive_target :: "runtime_host \<Rightarrow> path \<Rightarrow> string \<Rightarrow> path res" where
  "archive_target host destination member =
     (let target = rh_resolve host (path_join destination member) in
      bindE (require (relative_to target (rh_resolve host destination)) (unsafe_archive_member member))
        (\<lambda>_. Inr target))"

definition extract_zip_member :: "runtime_host \<Rightarrow> path \<Rightarrow> zip_member \<Rightarrow> unit rt" where
  "extract_zip_member host destination info =
     bindS (liftS (safe_archive_member (zm_filename info))) (\<lambda>member.
     seqS (liftS (require (\<not> zip_info_is_symlink info) (unsafe_archive_member (zm_filename info))))
     (bindS (liftS (archive_target host destination member)) (\<lambda>target.
      if zip_is_dir info then make_dirs host target
      else
        seqS (make_dirs host (path_parent target))
       (seqS (write_file host target (zm_data info))
         (let mode = drop_bit 16 (zm_external_attr info) AND 511 in
          if mode \<noteq> 0 then change_mode host target mode else returnS ())))))"

definition extract_tar_member :: "runtime_host \<Rightarrow> path \<Rightarrow> tar_member \<Rightarrow> unit rt" where
  "extract_tar_member host destination m =
     bindS (liftS (safe_archive_member (tm_name m))) (\<lambda>archive_member.
     seqS (liftS (require (tm_kind m = TarFile \<or> tm_kind m = TarDir) (unsafe_archive_member (tm_name m))))
     (bindS (liftS (archive_target host destination archive_member)) (\<lambda>target.
      if tm_kind m = TarDir then seqS (make_dirs host target) (change_mode host target (tm_mode m AND 511))
      else
        seqS (make_dirs host (path_parent target))
        (case tm_data m of
           None \<Rightarrow> raiseS (bootstrap_error (''runtime archive member unreadable: '' @ tm_name m))
         | Some c \<Rightarrow> seqS (write_file host target c) (change_mode host target (tm_mode m AND 511))))))"

definition prepare_empty_dir :: "runtime_host \<Rightarrow> path \<Rightarrow> path \<Rightarrow> unit rt" where
  "prepare_empty_dir host p allowed_root =
     seqS (liftS (require (relative_to (rh_resolve host p) (rh_resolve host allowed_root))
       (bootstrap_error ''extracted runtime path is outside runtime install root'')))
     (bindS getS (\<lambda>s.
      seqS (if path_exists host s p then remove_tree host p else returnS ()) (make_dirs host p)))"

definition remove_extracted_runtime :: "runtime_host \<Rightarrow> path \<Rightarrow> path \<Rightarrow> unit rt" where
  "remove_extracted_runtime host p allowed_root = bindS getS (\<lambda>s.
     if relative_to (rh_resolve host p) (rh_resolve host allowed_root) \<and> path_exists host s p
     then remove_tree host p else returnS ())"

definition extract_archive :: "runtime_host \<Rightarrow> path \<Rightarrow> path \<Rightarrow> unit rt" where
  "extract_archive host artifact_path destination =
     bindS (bindS getS (\<lambda>s. liftS (read_bytes host s artifact_path))) (\<lambda>c.
     case rh_zip host c of
       Some infos \<Rightarrow> forS (extract_zip_member host destination) infos
     | None \<Rightarrow>
         (case rh_tar host c of
            Some members \<Rightarrow> forS (extract_tar_member host destination) members
          | None \<Rightarrow> raiseS (bootstrap_error (''unsupported runtime artifact archive: '' @ path_str artifact_path))))"

definition check_runtime_entrypoint :: "runtime_host \<Rightarrow> path \<Rightarrow> string \<Rightarrow> unit rt" where
  "check_runtime_entrypoint host p entrypoint =
     bindS getS (\<lambda>s. liftS (require_runtime_entrypoint host s p entrypoint))"

definition candidate_name :: "bootstrap_plan \<Rightarrow> string \<Rightarrow> string" where
  "candidate_name p uuid = bp_transaction_id p @ ''.candidate.'' @ uuid"

definition extract_candidate :: "runtime_host \<Rightarrow> path \<Rightarrow> bootstrap_plan \<Rightarrow> string \<Rightarrow> path rt" where
  "extract_candidate host state_dir p uuid =
     (let root = extracted_runtimes_dir host state_dir;
        destination = path_join root (candidate_name p uuid)
      in
      seqS (prepare_empty_dir host destination root)
     (seqS (extract_archive host (path_of (bp_artifact_path p)) destination)
     (seqS (check_runtime_entrypoint host destination (bp_entrypoint p)) (returnS destination))))"

definition promote_candidate :: "runtime_host \<Rightarrow> path \<Rightarrow> path \<Rightarrow> bootstrap_plan \<Rightarrow> path rt" where
  "promote_candidate host state_dir candidate p =
     (let root = extracted_runtimes_dir host state_dir; destination = path_join root (bp_transaction_id p) in
      seqS (prepare_empty_dir host destination root)
     (seqS (replace_dir host candidate destination)
     (seqS (check_runtime_entrypoint host destination (bp_entrypoint p)) (returnS destination))))"

section \<open>Smoke checks\<close>

definition default_smoke :: "runtime_host \<Rightarrow> pydict \<Rightarrow> bool rt" where
  "default_smoke host plan =
     (let runtime_path = path_of (py_str (dget plan ''runtime_path''));
        executable = path_join runtime_path (py_str (dget plan ''entrypoint''))
      in
      catchS (bindS (rh_run host [path_str executable, ''--help''] (path_str runtime_path)) (\<lambda>rc. returnS (rc = 0)))
        (\<lambda>e. if is_os_error e \<or> is_class TimeoutExpired e then returnS False else raiseS e))"

definition run_smoke :: "runtime_host \<Rightarrow> (pydict \<Rightarrow> bool rt) option \<Rightarrow> pydict \<Rightarrow> bool rt" where
  "run_smoke host smoke plan = (case smoke of Some f \<Rightarrow> f plan | None \<Rightarrow> default_smoke host plan)"

section \<open>Transactions\<close>

definition append_transaction :: "runtime_host \<Rightarrow> path \<Rightarrow> pydict \<Rightarrow> string \<Rightarrow> unit rt" where
  "append_transaction host state_dir entry now =
     seqS (make_dirs host (bootstrap_dir host state_dir))
       (modifyS (\<lambda>s. s\<lparr>rt_journal := rt_journal s @ [entry @ [(''ts'', PStr now)]]\<rparr>))"

definition record_transaction :: "runtime_host \<Rightarrow> path \<Rightarrow> pydict \<Rightarrow> string \<Rightarrow> string \<Rightarrow> string \<Rightarrow> unit rt" where
  "record_transaction host state_dir payload action now later =
     (let i = py_str (dget payload ''transaction_id'');
        record_path = path_join (transactions_dir host state_dir) (i @ ''.json'')
      in
      seqS (write_json host record_path (AList.update ''updated_at'' (PStr now) payload))
     (seqS (write_json host (latest_pointer host state_dir)
        [(''record_path'', PStr (path_str record_path)), (''transaction_id'', PStr i)])
       (append_transaction host state_dir [(''action'', PStr action), (''transaction_id'', PStr i)] later)))"

definition require_bootstrap_approval :: "bool \<Rightarrow> string \<Rightarrow> unit res" where
  "require_bootstrap_approval approved message = require approved (bootstrap_error message)"

text \<open>The plan with the runtime that was extracted, and the results of an application.\<close>

definition prepared_dict :: "bootstrap_plan \<Rightarrow> path \<Rightarrow> pydict" where
  "prepared_dict p runtime = planned_dict (p\<lparr>bp_runtime_path := path_str runtime\<rparr>) @
     [(''extracted_runtime_path'', PStr (path_str runtime))]"

definition failed_dict :: "bootstrap_plan \<Rightarrow> path \<Rightarrow> runtime_pointer option \<Rightarrow> pydict" where
  "failed_dict p runtime active_before = AList.update ''status'' (PStr ''failed'')
     (prepared_dict p runtime @ [(''active_runtime_id'', pointer_id active_before)])"

definition applied_dict :: "bootstrap_plan \<Rightarrow> path \<Rightarrow> runtime_manifest \<Rightarrow> path \<Rightarrow> runtime_pointer option \<Rightarrow> pydict" where
  "applied_dict p runtime m manifest_path active_before = AList.update ''status'' (PStr ''applied'')
     (prepared_dict p runtime @ [(''active_runtime_id'', PStr (im_runtime_id m)),
        (''manifest_path'', PStr (path_str manifest_path)), (''previous_runtime_id'', pointer_id active_before)])"

text \<open>What happens to a candidate that passed its smoke check, and to one that did not.\<close>

definition activate_candidate ::
    "runtime_host \<Rightarrow> path \<Rightarrow> bootstrap_plan \<Rightarrow> path \<Rightarrow> runtime_pointer option \<Rightarrow> string \<Rightarrow> string \<Rightarrow> pydict rt" where
  "activate_candidate host state_dir p candidate active_before now later =
     bindS (promote_candidate host state_dir candidate p) (\<lambda>promoted.
     bindS (record_installed_runtime host state_dir (bp_version p) (path_of (path_str promoted)) (bp_entrypoint p)
       (bp_artifact_digest p)) (\<lambda>(m, manifest_path).
     let applied = applied_dict p promoted m manifest_path active_before in
     seqS (record_transaction host state_dir applied ''apply'' now later) (returnS applied)))"

definition discard_candidate ::
    "runtime_host \<Rightarrow> path \<Rightarrow> bootstrap_plan \<Rightarrow> path \<Rightarrow> runtime_pointer option \<Rightarrow> string \<Rightarrow> string \<Rightarrow> pydict rt" where
  "discard_candidate host state_dir p candidate active_before now later =
     seqS (remove_extracted_runtime host candidate (extracted_runtimes_dir host state_dir))
     (let failed = failed_dict p candidate active_before in
      seqS (record_transaction host state_dir failed ''apply_failed'' now later) (returnS failed))"

definition bootstrap_apply ::
    "runtime_host \<Rightarrow> path \<Rightarrow> path \<Rightarrow> bool \<Rightarrow> (pydict \<Rightarrow> bool rt) option \<Rightarrow> string \<Rightarrow> string \<Rightarrow> string \<Rightarrow> pydict rt" where
  "bootstrap_apply host state_dir metadata_path approved smoke uuid now later =
     seqS (liftS (require_bootstrap_approval approved ''bootstrap apply requires approval''))
     (bindS (bindS getS (\<lambda>s. liftS (bootstrap_plan_for host s metadata_path))) (\<lambda>p.
      bindS (bindS getS (\<lambda>s. liftS (read_runtime_pointer host s (active_pointer host state_dir)))) (\<lambda>active_before.
      bindS (extract_candidate host state_dir p uuid) (\<lambda>candidate.
      bindS (run_smoke host smoke (prepared_dict p candidate)) (\<lambda>passed.
      if passed then activate_candidate host state_dir p candidate active_before now later
      else discard_candidate host state_dir p candidate active_before now later)))))"

definition validate_runtime_pointer ::
    "runtime_host \<Rightarrow> runtime_state \<Rightarrow> path \<Rightarrow> runtime_pointer \<Rightarrow> string \<Rightarrow> unit res" where
  "validate_runtime_pointer host s state_dir pointer label =
     (let manifest_path = rh_expanduser host (path_of (rp_manifest_path pointer));
        resolved_manifest = rh_resolve host manifest_path;
        versions_root = rh_resolve host (rh_expanduser host (versions_dir host state_dir))
      in
      bindE (require (relative_to resolved_manifest versions_root \<and> path_name resolved_manifest = RUNTIME_MANIFEST_NAME)
        (bootstrap_error (label @ '' manifest path is outside runtime install root''))) (\<lambda>_.
      bindE (bootstrap_json host s manifest_path) (\<lambda>manifest.
      bindE (json_string manifest ''runtime_id'' manifest_path) (\<lambda>runtime_id.
      bindE (require (runtime_id = rp_runtime_id pointer)
        (bootstrap_error (label @ '' pointer does not match manifest''))) (\<lambda>_.
      bindE (json_string manifest ''runtime_path'' manifest_path) (\<lambda>text.
      map_exn (\<lambda>e. if is_class BootstrapTransactionError e
          then bootstrap_error (label @ '' is invalid: '' @ exn_str e) else e)
        (bindE (json_string manifest ''entrypoint'' manifest_path) (\<lambda>entrypoint.
         require_runtime_entrypoint host s (rh_expanduser host (path_of text)) entrypoint))))))))"

text \<open>The two pointers a rollback exchanges.\<close>

definition rollback_pair :: "runtime_host \<Rightarrow> runtime_state \<Rightarrow> path \<Rightarrow> (runtime_pointer \<times> runtime_pointer) res" where
  "rollback_pair host s state_dir =
     bindE (require_runtime_pointer host s (active_pointer host state_dir) ''active runtime pointer is missing'') (\<lambda>active.
     bindE (require_runtime_pointer host s (previous_pointer host state_dir) ''previous runtime pointer is missing'') (\<lambda>previous.
     bindE (validate_runtime_pointer host s state_dir previous ''previous runtime'') (\<lambda>_. Inr (active, previous))))"

definition bootstrap_pointer_dict :: "runtime_pointer \<Rightarrow> pydict" where
  "bootstrap_pointer_dict p = [(''manifest_path'', PStr (rp_manifest_path p)), (''runtime_id'', PStr (rp_runtime_id p))]"

definition rollback_result :: "runtime_host \<Rightarrow> runtime_pointer \<Rightarrow> runtime_pointer \<Rightarrow> pydict" where
  "rollback_result host active previous =
     [(''active_runtime_id'', PStr (rp_runtime_id previous)), (''previous_runtime_id'', PStr (rp_runtime_id active)),
      (''status'', PStr ''rolled_back''),
      (''transaction_id'', PStr (transaction_id host ((''action'', PStr ''rollback'') # bootstrap_pointer_dict previous)))]"

definition bootstrap_rollback :: "runtime_host \<Rightarrow> path \<Rightarrow> bool \<Rightarrow> string \<Rightarrow> string \<Rightarrow> pydict rt" where
  "bootstrap_rollback host state_dir approved now later =
     seqS (liftS (require_bootstrap_approval approved ''bootstrap rollback requires approval''))
     (bindS (bindS getS (\<lambda>s. liftS (rollback_pair host s state_dir))) (\<lambda>(active, previous).
      seqS (write_json host (active_pointer host state_dir) (bootstrap_pointer_dict previous))
     (seqS (write_json host (previous_pointer host state_dir) (bootstrap_pointer_dict active))
     (seqS (record_transaction host state_dir (rollback_result host active previous) ''rollback'' now later)
       (returnS (rollback_result host active previous))))))"

definition bootstrap_uninstall :: "runtime_host \<Rightarrow> path \<Rightarrow> bool \<Rightarrow> string \<Rightarrow> string \<Rightarrow> pydict rt" where
  "bootstrap_uninstall host state_dir approved now later =
     seqS (liftS (require_bootstrap_approval approved ''bootstrap uninstall requires approval''))
     (bindS (bindS getS (\<lambda>s. liftS (read_runtime_pointer host s (active_pointer host state_dir)))) (\<lambda>active.
      seqS (bindS getS (\<lambda>s. if path_exists host s (active_pointer host state_dir)
          then unlink_file host (active_pointer host state_dir) else returnS ()))
     (seqS (case active of
          None \<Rightarrow> returnS ()
        | Some a \<Rightarrow> write_json host (previous_pointer host state_dir) (bootstrap_pointer_dict a))
     (let result = [(''previous_runtime_id'', pointer_id active), (''status'', PStr ''uninstalled''),
          (''transaction_id'', PStr (transaction_id host [(''action'', PStr ''uninstall''), (''active'',
             case active of None \<Rightarrow> PNone | Some a \<Rightarrow> PDict (bootstrap_pointer_dict a))]))]
      in seqS (record_transaction host state_dir result ''uninstall'' now later) (returnS result)))))"

end
