(* ===== verification/Runtime_Facts.thy ===== *)
theory Runtime_Facts
  imports Bootstrap
begin

text \<open>
  What the operations on files change: \<open>kept_outside\<close> says that outside of an area nothing
  changed but that directories may have been made; \<open>grown\<close> and \<open>written\<close> describe a successful
  \<open>mkdir\<close> and a successful atomic write. The members an artifact is verified for are the ones
  the extraction accepts.
\<close>

section \<open>Archive members\<close>

lemma split_char_hd: "hd (split_char c s) = takeWhile (\<lambda>d. d \<noteq> c) s"
proof -
  have "hd (split_pred p s) = takeWhile (\<lambda>d. \<not> p d) s" for p :: "char \<Rightarrow> bool"
  proof (induction s)
    case (Cons a s)
    then show ?case by (cases "split_pred p s") (auto simp: split_pred_not_Nil)
  qed simp
  then show ?thesis by (simp add: split_char_def)
qed

lemma windows_drive_prefix: "windows_drive s \<longleftrightarrow> drive_prefix s"
  by (auto simp: windows_drive_def drive_prefix_def split_char_hd slash_def is_alpha_def is_letter_def split: list.splits)

lemma require_safe_member_Inr:
  "require_safe_member label name = Inr n \<Longrightarrow> safe_archive_member name = Inr n"
  by (auto simp: require_safe_member_def safe_archive_member_def Let_def windows_drive_prefix split: if_splits)

lemma safe_member_relative:
  assumes "safe_archive_member name = Inr n"
  shows "n = normpath name" and "\<not> prefix ''/'' name" and "''..'' \<notin> set (path_components name)"
  using assms by (auto simp: safe_archive_member_def Let_def split: if_splits)

text \<open>The normal form of a member has only names for components, and at least one of them.\<close>

definition named :: "string \<Rightarrow> bool" where
  "named w \<longleftrightarrow> w \<noteq> [] \<and> w \<noteq> ''.'' \<and> w \<noteq> ''..'' \<and> slash \<notin> set w"

lemma norm_steps_plain:
  assumes "\<And>w. w \<in> set ws \<Longrightarrow> w \<noteq> ''..''"
  shows "foldl (norm_step rooted) comps ws = comps @ filter (\<lambda>w. w \<noteq> [] \<and> w \<noteq> ''.'') ws"
  using assms by (induction ws arbitrary: comps) (auto simp: norm_step_def)

lemma split_char_parts: "w \<in> set (split_char c s) \<Longrightarrow> c \<notin> set w"
  by (auto simp: split_char_def dest: split_pred_concat)

lemma normpath_member:
  assumes "\<not> prefix ''/'' name" and "''..'' \<notin> set (path_components name)"
  shows "normpath name = (let ws = filter (\<lambda>w. w \<noteq> [] \<and> w \<noteq> ''.'') (split_char slash name) in
    if ws = [] then ''.'' else join ''/'' ws)"
proof -
  define ws where "ws = filter (\<lambda>w. w \<noteq> [] \<and> w \<noteq> ''.'') (split_char slash name)"
  have "w \<noteq> ''..''" if "w \<in> set (split_char slash name)" for w
    using assms(2) that by (auto simp: path_components_def)
  then have fold: "foldl (norm_step False) [] (split_char slash name) = ws"
    unfolding ws_def by (subst norm_steps_plain) simp_all
  have "\<not> prefix ''//'' name" using assms(1) by (auto simp: prefix_def)
  then have slashes: "(if prefix ''//'' name \<and> \<not> prefix ''///'' name then 2 else if prefix ''/'' name then 1 else 0) = (0::nat)"
    using assms(1) by simp
  have "[] \<notin> set ws" by (simp add: ws_def)
  then have "join ''/'' ws = [] \<longleftrightarrow> ws = []" by (cases ws) (auto simp: join_def)
  moreover have "name = [] \<Longrightarrow> ws = []" by (simp add: ws_def split_char_def)
  ultimately show ?thesis
    unfolding normpath_def slashes Let_def ws_def [symmetric] by (cases "ws = []"; cases "name = []") (simp_all add: fold)
qed

lemma member_parts:
  assumes "safe_archive_member name = Inr n"
  shows "path_of n = Path [] (path_parts (path_of name))" and "list_all named (path_parts (path_of n))" and "path_parts (path_of n) \<noteq> []"
proof -
  let ?ws = "filter (\<lambda>w. w \<noteq> [] \<and> w \<noteq> ''.'') (split_char slash name)"
  note m = safe_member_relative [OF assms]
  have n: "n = (if ?ws = [] then ''.'' else join ''/'' ?ws)"
    using normpath_member [OF m(2,3)] m(1) by (simp add: Let_def)
  moreover have "n \<noteq> ''.''" using assms by (auto simp: safe_archive_member_def Let_def split: if_splits)
  ultimately have ws: "?ws \<noteq> []" "n = join ''/'' ?ws" by (auto split: if_splits)
  have named: "list_all named ?ws"
    using m(3) by (auto simp: list_all_iff named_def path_components_def dest: split_char_parts)
  have "path_of (path_str (Path [] ?ws)) = Path [] ?ws"
    using named by (intro path_of_str) (auto simp: clean_path_def list_all_iff named_def)
  moreover have "path_str (Path [] ?ws) = n" using ws by (simp add: path_str_def)
  ultimately have p: "path_of n = Path [] ?ws" by simp
  have "path_parts (path_of name) = ?ws" by (simp add: path_of_def Let_def)
  with p named ws(1) show "path_of n = Path [] (path_parts (path_of name))" "list_all named (path_parts (path_of n))"
    "path_parts (path_of n) \<noteq> []" by simp_all
qed

section \<open>What the operations change\<close>

definition kept_outside :: "(path \<Rightarrow> bool) \<Rightarrow> (path \<Rightarrow> fs_node) \<Rightarrow> runtime_state \<Rightarrow> bool" where
  "kept_outside area nodes s \<longleftrightarrow> (\<forall>a. \<not> area a \<longrightarrow>
     rt_nodes s a = nodes a \<or> nodes a = NoEntry \<and> (\<exists>m. rt_nodes s a = DirEntry m))"

lemma kept_start: "kept_outside area (rt_nodes s) s"
  by (simp add: kept_outside_def)

lemma kept_set_nodes:
  assumes "\<And>nodes a. \<not> area a \<Longrightarrow> f nodes a = nodes a \<or> nodes a = NoEntry \<and> (\<exists>m. f nodes a = DirEntry m)"
  shows "preserves (kept_outside area old) (set_nodes f)"
proof -
  have "f (rt_nodes s) a = old a \<or> old a = NoEntry \<and> (\<exists>m. f (rt_nodes s) a = DirEntry m)"
    if "kept_outside area old s" "\<not> area a" for s a
    using assms [OF that(2), of "rt_nodes s"] that unfolding kept_outside_def by (metis fs_node.distinct(1))
  then show ?thesis
    unfolding set_nodes_def by (intro preserves_modify) (simp add: kept_outside_def)
qed

lemma kept_point:
  "area q \<Longrightarrow> preserves (kept_outside area old) (set_nodes (\<lambda>nodes. nodes(q := x)))"
  by (rule kept_set_nodes) auto

lemma preserves_get_bind: "(\<And>s. preserves I (f s)) \<Longrightarrow> preserves I (bindS getS f)"
  by (rule preserves_bind) simp_all

lemma kept_make_dirs: "preserves (kept_outside area old) (make_dirs host p)"
  unfolding make_dirs_def Let_def
  by (intro preserves_get_bind preserves_if preserves_raise kept_set_nodes) (auto split: fs_node.splits if_splits)

lemma kept_write_file: "area (rh_resolve host p) \<Longrightarrow> preserves (kept_outside area old) (write_file host p c)"
  unfolding write_file_def Let_def
  by (intro preserves_get_bind) (auto split: fs_node.split intro: kept_point)

lemma kept_change_mode: "area (rh_resolve host p) \<Longrightarrow> preserves (kept_outside area old) (change_mode host p m)"
  unfolding change_mode_def Let_def
  by (intro preserves_get_bind) (auto split: fs_node.split intro: kept_point)

lemma kept_unlink: "area (rh_resolve host p) \<Longrightarrow> preserves (kept_outside area old) (unlink_file host p)"
  unfolding unlink_file_def Let_def
  by (intro preserves_get_bind) (auto split: fs_node.split intro: kept_point)

lemma kept_replace_file: "area (rh_resolve host p) \<Longrightarrow> area (rh_resolve host q) \<Longrightarrow>
    preserves (kept_outside area old) (replace_file host p q)"
  unfolding replace_file_def Let_def
  by (intro preserves_get_bind) (auto split: fs_node.split if_splits intro!: kept_set_nodes)

lemma kept_remove_tree: "(\<And>a. relative_to a (rh_resolve host p) \<Longrightarrow> area a) \<Longrightarrow>
    preserves (kept_outside area old) (remove_tree host p)"
  unfolding remove_tree_def Let_def
  by (intro preserves_get_bind) (auto split: fs_node.split if_splits intro!: kept_set_nodes)

lemma kept_replace_dir: "(\<And>a. relative_to a (rh_resolve host p) \<Longrightarrow> area a) \<Longrightarrow>
    (\<And>a. relative_to a (rh_resolve host q) \<Longrightarrow> area a) \<Longrightarrow> preserves (kept_outside area old) (replace_dir host p q)"
  unfolding replace_dir_def Let_def
  by (intro preserves_get_bind) (auto simp: moved_tree_def split: fs_node.split if_splits intro!: kept_set_nodes)

lemma kept_write_json: "area (rh_resolve host p) \<Longrightarrow> area (rh_resolve host (tmp_path p)) \<Longrightarrow>
    preserves (kept_outside area old) (write_json host p d)"
  unfolding write_json_def by (intro preserves_seq kept_make_dirs kept_write_file kept_replace_file)

lemmas kept_intros = preserves_seq preserves_bind preserves_get_bind preserves_if preserves_return preserves_raise
  preserves_lift preserves_get preserves_option kept_make_dirs

text \<open>A check that raises ends the operation, so what follows it may rely on it.\<close>

lemma preserves_check: "(b \<Longrightarrow> preserves I m) \<Longrightarrow> preserves I (seqS (liftS (require b e)) m)"
  by (cases b) (auto simp: seqS_def bindS_def liftS_def preserves_def)

lemma preserves_lifted: "(\<And>x. r = Inr x \<Longrightarrow> preserves I (f x)) \<Longrightarrow> preserves I (bindS (liftS r) f)"
  by (cases r) (auto simp: bindS_def liftS_def preserves_def)

lemma preserves_lifted_seq: "(r = Inr () \<Longrightarrow> preserves I m) \<Longrightarrow> preserves I (seqS (liftS r) m)"
  unfolding seqS_def by (rule preserves_lifted) simp

text \<open>The same with a part that looks at the state.\<close>

lemma preserves_read: "(\<And>s x. r s = Inr x \<Longrightarrow> preserves I (f x)) \<Longrightarrow>
    preserves I (bindS (bindS getS (\<lambda>s. liftS (r s))) f)"
  by (auto simp: preserves_def bindS_def getS_def liftS_def split: sum.splits)

lemma preserves_bind_result:
  "preserves I m \<Longrightarrow> (\<And>s x s'. m s = (Inr x, s') \<Longrightarrow> preserves I (f x)) \<Longrightarrow> preserves I (bindS m f)"
  unfolding preserves_def bindS_def by (metis (mono_tags, lifting) prod.collapse snd_conv split_conv sum.case sumE)

text \<open>A directory stays one while files are written.\<close>

definition dir_at :: "path \<Rightarrow> runtime_state \<Rightarrow> bool" where
  "dir_at d s \<longleftrightarrow> (\<exists>m. rt_nodes s d = DirEntry m)"

lemma dir_set_nodes: "(\<And>nodes m. nodes d = DirEntry m \<Longrightarrow> \<exists>n. f nodes d = DirEntry n) \<Longrightarrow> preserves (dir_at d) (set_nodes f)"
  unfolding set_nodes_def by (intro preserves_modify) (auto simp: dir_at_def)

lemma dir_make_dirs: "preserves (dir_at d) (make_dirs host p)"
  unfolding make_dirs_def Let_def by (intro preserves_get_bind preserves_if preserves_raise dir_set_nodes) (auto split: fs_node.splits if_splits)

lemma dir_write_file: "preserves (dir_at d) (write_file host p c)"
proof (rule preservesI)
  fix s
  assume "dir_at d s"
  then show "dir_at d (snd (write_file host p c s))"
    by (cases "rh_resolve host p = d")
      (auto simp: write_file_def Let_def bindS_def getS_def raiseS_def set_nodes_def modifyS_def dir_at_def split: fs_node.splits)
qed

lemma dir_change_mode: "preserves (dir_at d) (change_mode host p m)"
proof (rule preservesI)
  fix s
  assume "dir_at d s"
  then show "dir_at d (snd (change_mode host p m s))"
    by (cases "rh_resolve host p = d")
      (auto simp: change_mode_def Let_def bindS_def getS_def raiseS_def set_nodes_def modifyS_def dir_at_def split: fs_node.splits)
qed

lemma dir_extract_zip: "preserves (dir_at d) (extract_zip_member host dest info)"
  unfolding extract_zip_member_def Let_def
  by (intro preserves_lifted preserves_check preserves_if preserves_seq dir_make_dirs dir_write_file dir_change_mode preserves_return)

lemma dir_extract_tar: "preserves (dir_at d) (extract_tar_member host dest m)"
  unfolding extract_tar_member_def Let_def
  by (intro preserves_lifted preserves_check preserves_if preserves_seq dir_make_dirs dir_write_file dir_change_mode
      preserves_return preserves_option preserves_raise)

lemma dir_extract_archive: "preserves (dir_at d) (extract_archive host p dest)"
  unfolding extract_archive_def
  by (intro preserves_read preserves_option preserves_raise preserves_for dir_extract_zip dir_extract_tar)

section \<open>Successful writes\<close>

lemma mem_path_and_parents: "p \<in> set (path_and_parents p)"
  by (subst path_and_parents.simps) simp

lemma make_dirs_Inr: "make_dirs host p s = (Inr u, t) \<Longrightarrow> dir_at (rh_resolve host p) t"
  using mem_path_and_parents [of "rh_resolve host p"]
  by (cases "rt_nodes s (rh_resolve host p)")
    (auto simp: make_dirs_def Let_def bindS_def getS_def raiseS_def set_nodes_def modifyS_def dir_at_def list_ex_iff
      split: if_splits)

lemma remove_tree_Inr: "remove_tree host p s = (Inr u, t) \<Longrightarrow> relative_to a (rh_resolve host p) \<Longrightarrow> rt_nodes t a = NoEntry"
  by (auto simp: remove_tree_def Let_def bindS_def getS_def raiseS_def set_nodes_def modifyS_def split: fs_node.splits)

lemma replace_file_Inr: "replace_file host p q s = (Inr u, t) \<Longrightarrow> node_at host s p = FileEntry c m \<Longrightarrow> node_at host t q = FileEntry c m"
  by (auto simp: replace_file_def Let_def bindS_def getS_def raiseS_def set_nodes_def modifyS_def node_at_def split: fs_node.splits)

lemma write_file_Inr: "write_file host p c s = (Inr u, t) \<Longrightarrow> \<exists>m. node_at host t p = FileEntry c m"
  by (auto simp: write_file_def Let_def bindS_def getS_def raiseS_def set_nodes_def modifyS_def node_at_def split: fs_node.splits)

lemma write_json_Inr:
  assumes "write_json host p d s = (Inr u, t)"
  shows "\<exists>m. node_at host t p = FileEntry (JsonText (PDict d)) m"
  using assms unfolding write_json_def
  by (elim seqS_InrE) (metis write_file_Inr replace_file_Inr)

text \<open>What is kept in a state that was reached.\<close>

lemma kept_step:
  assumes "preserves (kept_outside area (rt_nodes s)) m" and "m s = (r, t)"
  shows "kept_outside area (rt_nodes s) t"
  using preservesD [OF assms(1) kept_start] assms(2) by simp

lemma kept_entry:
  "kept_outside area (rt_nodes s) t \<Longrightarrow> \<not> area a \<Longrightarrow> rt_nodes s a \<noteq> NoEntry \<Longrightarrow> rt_nodes t a = rt_nodes s a"
  by (auto simp: kept_outside_def)

end
