(* ===== verification/Bootstrap_Facts.thy ===== *)
theory Bootstrap_Facts
  imports Runtime_Facts
begin

text \<open>
  What bootstrap transactions change and what they leave, for a state directory without symbolic
  links: nothing outside of their two directories, nothing of the installed runtimes when the smoke
  check fails, and after a success a runtime that the launcher starts.
\<close>

section \<open>The host and the layout\<close>

text \<open>
  \<open>expanduser\<close> only changes a path that starts with a tilde, and once; \<open>resolve\<close> gives an absolute normal
  path and resolving that changes nothing; a SHA-256 is 64 hexadecimal digits. Below the state
  directory there is no symbolic link.
\<close>

definition host_ok :: "runtime_host \<Rightarrow> bool" where
  "host_ok host \<longleftrightarrow> (\<forall>p. is_absolute p \<longrightarrow> rh_expanduser host p = p) \<and>
     (\<forall>p. rh_expanduser host (rh_expanduser host p) = rh_expanduser host p) \<and> (\<forall>p. plain (rh_resolve host p)) \<and>
     (\<forall>p. rh_resolve host (rh_resolve host p) = rh_resolve host p) \<and>
     (\<forall>t. length (rh_text_sha256 host t) = 64 \<and> hex_text (rh_text_sha256 host t))"

definition plain_state :: "runtime_host \<Rightarrow> path \<Rightarrow> bool" where
  "plain_state host sd \<longleftrightarrow> plain sd \<and> ''..'' \<notin> set (path_parts sd) \<and>
     (\<forall>p. relative_to p sd \<and> clean_path p \<and> ''..'' \<notin> set (path_parts p) \<longrightarrow> rh_resolve host p = p)"

definition sub :: "path \<Rightarrow> string list \<Rightarrow> path" where
  "sub sd names = Path (path_root sd) (path_parts sd @ names)"

lemma named_clean: "named w \<Longrightarrow> w \<noteq> [] \<and> w \<noteq> ''.'' \<and> slash \<notin> set w"
  by (simp add: named_def)

lemma clean_sub: "plain sd \<Longrightarrow> list_all named names \<Longrightarrow> clean_path (sub sd names)"
  by (auto simp: plain_def clean_path_def sub_def list_all_iff dest: named_clean)

lemma resolve_sub:
  assumes "plain_state host sd" and "list_all named names"
  shows "rh_resolve host (sub sd names) = sub sd names"
proof -
  have "relative_to (sub sd names) sd" by (simp add: relative_to_def sub_def)
  moreover have "''..'' \<notin> set (path_parts (sub sd names))"
    using assms by (auto simp: plain_state_def sub_def list_all_iff named_def)
  moreover have "clean_path (sub sd names)" using assms by (simp add: clean_sub plain_state_def)
  ultimately show ?thesis using assms(1) by (simp add: plain_state_def)
qed

lemma join_sub: "named n \<Longrightarrow> path_join (sub sd ns) n = sub sd (ns @ [n])"
  by (simp add: named_def path_join_name sub_def)

lemma tmp_sub: "slash \<notin> set n \<Longrightarrow> tmp_path (sub sd (ns @ [n])) = sub sd (ns @ [n @ ''.tmp''])"
  unfolding tmp_path_def sub_def append_assoc [symmetric] path_name_snoc
  by (subst path_join_name) (auto simp: slash_def path_parent_def butlast_append)

lemma named_suffix: "slash \<notin> set n \<Longrightarrow> named (n @ ''.tmp'')" "slash \<notin> set n \<Longrightarrow> named (n @ ''.json'')"
  by (auto simp: named_def slash_def append_eq_Cons_conv)

lemma relative_sub [simp]: "relative_to (sub sd (ns @ ms)) (sub sd ns)"
  by (simp add: relative_to_def sub_def)

lemma sub_eq_iff [simp]: "sub sd ns = sub sd ms \<longleftrightarrow> ns = ms"
  by (simp add: sub_def)

lemma relative_sub_iff: "relative_to (sub sd ms) (sub sd ns) \<longleftrightarrow> prefix ns ms"
  by (simp add: relative_to_def sub_def)

lemma layout_names:
  "named ''runtime-install''" "named ''versions''" "named ''active-runtime.json''" "named ''previous-runtime.json''"
  "named ''bootstrap-transactions''" "named ''records''" "named ''latest.json''" "named ''extracted-runtimes''"
  "named RUNTIME_MANIFEST_NAME"
  by code_simp+

lemma state_dirs:
  assumes "host_ok host" and "plain sd"
  shows "install_dir host sd = sub sd [''runtime-install'']"
    and "versions_dir host sd = sub sd [''runtime-install'', ''versions'']"
    and "active_pointer host sd = sub sd [''runtime-install'', ''active-runtime.json'']"
    and "previous_pointer host sd = sub sd [''runtime-install'', ''previous-runtime.json'']"
    and "extracted_runtimes_dir host sd = sub sd [''runtime-install'', ''extracted-runtimes'']"
    and "bootstrap_dir host sd = sub sd [''bootstrap-transactions'']"
    and "transactions_dir host sd = sub sd [''bootstrap-transactions'', ''records'']"
    and "latest_pointer host sd = sub sd [''bootstrap-transactions'', ''latest.json'']"
proof -
  have e: "rh_expanduser host sd = sub sd []"
    using assms by (simp add: host_ok_def plain_def sub_def path.expand)
  show i: "install_dir host sd = sub sd [''runtime-install'']"
    unfolding install_dir_def e by (simp add: join_sub layout_names)
  show b: "bootstrap_dir host sd = sub sd [''bootstrap-transactions'']"
    unfolding bootstrap_dir_def e by (simp add: join_sub layout_names)
  show "versions_dir host sd = sub sd [''runtime-install'', ''versions'']"
    "active_pointer host sd = sub sd [''runtime-install'', ''active-runtime.json'']"
    "previous_pointer host sd = sub sd [''runtime-install'', ''previous-runtime.json'']"
    "extracted_runtimes_dir host sd = sub sd [''runtime-install'', ''extracted-runtimes'']"
    "transactions_dir host sd = sub sd [''bootstrap-transactions'', ''records'']"
    "latest_pointer host sd = sub sd [''bootstrap-transactions'', ''latest.json'']"
    unfolding versions_dir_def active_pointer_def previous_pointer_def extracted_runtimes_dir_def
      transactions_dir_def latest_pointer_def i b
    by (simp_all add: join_sub layout_names)
qed

section \<open>Names that the operations derive\<close>

lemma hex_no_slash: "hex_text s \<Longrightarrow> slash \<notin> set s"
  by (auto simp: hex_text_def list_all_iff slash_def)

lemma valid_id_named: "valid_transaction_id i \<Longrightarrow> named i"
  using hex_no_slash [of i] by (auto simp: valid_transaction_id_def named_def)

lemma hex_take: "hex_text s \<Longrightarrow> hex_text (take n s)"
  unfolding hex_text_def by (metis append_take_drop_id list_all_append)

lemma transaction_id_valid: "host_ok host \<Longrightarrow> valid_transaction_id (transaction_id host d)"
  by (simp add: host_ok_def transaction_id_def valid_transaction_id_def hex_take)

lemma make_plan_sel [simp]:
  "bp_artifact_digest (make_plan host d report f r) = d"
  "bp_artifact_path (make_plan host d report f r) = path_str (ar_artifact_path (mr_artifact report))"
  "bp_entrypoint (make_plan host d report f r) = mr_entrypoint report"
  "bp_version (make_plan host d report f r) = mr_version report"
  "bp_transaction_id (make_plan host d report f r) = transaction_id host (plan_fields (make_plan host d report f r))"
  by (simp_all add: make_plan_def Let_def plan_fields_def)

lemma bootstrap_plan_Inr:
  assumes "bootstrap_plan_for host s m = Inr p"
  obtains metadata digest report runtime where
    "load_bootstrap_metadata host s (rh_expanduser host m) = Inr metadata"
    "metadata_field metadata ''artifact_digest'' (rh_expanduser host m) = Inr digest"
    "verify_metadata_file host s (rh_expanduser host m) = Inr report"
    "p = make_plan host digest report (rh_expanduser host m) runtime"
  using assms unfolding bootstrap_plan_for_def Let_def by (elim bindE_InrE) (simp, blast)

lemma plan_id_valid: "host_ok host \<Longrightarrow> bootstrap_plan_for host s m = Inr p \<Longrightarrow> valid_transaction_id (bp_transaction_id p)"
  by (erule bootstrap_plan_Inr) (simp add: transaction_id_valid)

lemma candidate_named:
  assumes "valid_transaction_id (bp_transaction_id p)" and "slash \<notin> set u"
  shows "named (candidate_name p u)"
proof -
  have "length (candidate_name p u) > 16" using assms(1) by (simp add: candidate_name_def valid_transaction_id_def)
  moreover have "slash \<notin> set (candidate_name p u)"
    using hex_no_slash [of "bp_transaction_id p"] assms by (auto simp: candidate_name_def valid_transaction_id_def slash_def)
  ultimately show ?thesis by (auto simp: named_def)
qed

lemma safe_version_named: "safe_version_fullmatch v \<Longrightarrow> named v"
  by (auto simp: safe_version_fullmatch_def named_def list_all_iff is_safe_char_def is_letter_def is_digit_def slash_def
      split: list.splits)

lemma runtime_id_named:
  assumes "safe_version_fullmatch v"
  shows "named (runtime_id_of v d)" and "strip (runtime_id_of v d) \<noteq> []"
proof -
  let ?alnum = "\<lambda>c. is_letter c \<or> is_digit c"
  obtain c cs where v: "v = c # cs" "?alnum c" using assms by (auto simp: safe_version_fullmatch_def split: list.splits)
  have c: "is_safe_char c" "c \<noteq> CHR ''-''" "\<not> is_space c" "c \<noteq> CHR ''.''"
    using v(2) by (auto simp: is_safe_char_def is_letter_def is_digit_def is_space_def Let_def)
  obtain rest where raw: "dash_unsafe False (v @ ''-'' @ drop (length d - 12) d) = c # rest" using v c by simp
  have "strip_by (\<lambda>x. x = CHR ''-'') (c # rest) = c # rev (dropWhile (\<lambda>x. x = CHR ''-'') (rev rest))"
    using c(2) by (simp add: strip_by_def dropWhile_append1 dropWhile_append)
  then obtain tail where i: "runtime_id_of v d = c # tail" unfolding runtime_id_of_def safe_id_def raw by simp
  have "slash \<notin> set (runtime_id_of v d)" unfolding runtime_id_of_def by (rule slash_not_in_safe_id)
  with i c show "named (runtime_id_of v d)" by (auto simp: named_def)
  show "strip (runtime_id_of v d) \<noteq> []" using i c(3) by (simp add: blank_def)
qed

section \<open>Confinement\<close>

text \<open>The directories of the installed runtimes and of the transactions.\<close>

definition bootstrap_area :: "path \<Rightarrow> path \<Rightarrow> bool" where
  "bootstrap_area sd a \<longleftrightarrow> relative_to a (sub sd [''runtime-install'']) \<or> relative_to a (sub sd [''bootstrap-transactions''])"

lemma area_sub [simp]:
  "bootstrap_area sd (sub sd (''runtime-install'' # ns))" "bootstrap_area sd (sub sd (''bootstrap-transactions'' # ns))"
  by (simp_all add: bootstrap_area_def relative_sub_iff)

lemma kept_json_sub:
  assumes "plain_state host sd" and "list_all named (ns @ [n])" and "area (sub sd (ns @ [n]))" and "area (sub sd (ns @ [n @ ''.tmp'']))"
  shows "preserves (kept_outside area old) (write_json host (sub sd (ns @ [n])) d)"
proof -
  have "slash \<notin> set n" using assms(2) by (simp add: named_def)
  then show ?thesis
    using assms resolve_sub [OF assms(1,2)] resolve_sub [OF assms(1), of "ns @ [n @ ''.tmp'']"]
    by (intro kept_write_json) (simp_all add: tmp_sub named_suffix)
qed

lemma record_path_sub:
  assumes "host_ok host" and "plain_state host sd" and "slash \<notin> set i"
  shows "path_join (transactions_dir host sd) (i @ ''.json'') = sub sd ([''bootstrap-transactions'', ''records''] @ [i @ ''.json''])"
  using assms by (simp add: state_dirs plain_state_def join_sub named_suffix)

lemma kept_record_transaction:
  assumes "host_ok host" and "plain_state host sd" and "slash \<notin> set (py_str (dget payload ''transaction_id''))"
    and "\<And>ns. area (sub sd (''bootstrap-transactions'' # ns))"
  shows "preserves (kept_outside area old) (record_transaction host sd payload action now later)"
proof -
  have latest: "latest_pointer host sd = sub sd ([''bootstrap-transactions''] @ [''latest.json''])"
    using assms(1,2) by (simp add: state_dirs plain_state_def)
  have "preserves (kept_outside area old) (write_json host (sub sd ([''bootstrap-transactions'', ''records''] @
      [py_str (dget payload ''transaction_id'') @ ''.json''])) d)" for d
    using assms layout_names named_suffix(2) [OF assms(3)] by (intro kept_json_sub) simp_all
  moreover have "preserves (kept_outside area old) (write_json host (latest_pointer host sd) d)" for d
    unfolding latest using assms layout_names by (intro kept_json_sub) simp_all
  moreover have "preserves (kept_outside area old) (append_transaction host sd e now)" for e now
    unfolding append_transaction_def
    by (intro preserves_seq kept_make_dirs preserves_modify) (simp add: kept_outside_def)
  ultimately show ?thesis
    unfolding record_transaction_def Let_def record_path_sub [OF assms(1-3)] by (intro preserves_seq)
qed

lemma relative_subE:
  assumes "relative_to a (sub sd ns)"
  obtains ms where "a = sub sd (ns @ ms)"
proof -
  from assms obtain ms where "path_parts a = path_parts sd @ ns @ ms" "path_root a = path_root sd"
    by (auto simp: relative_to_def sub_def prefix_def)
  then have "a = sub sd (ns @ ms)" by (simp add: sub_def path.expand)
  then show thesis by (rule that)
qed

lemma kept_prepare:
  assumes "plain_state host sd" and "list_all named ns" and "\<And>ms. area (sub sd (ns @ ms))"
  shows "preserves (kept_outside area old) (prepare_empty_dir host (sub sd ns) limit)"
proof -
  have "preserves (kept_outside area old) (remove_tree host (sub sd ns))"
    by (rule kept_remove_tree) (use assms(3) in \<open>auto simp: resolve_sub [OF assms(1,2)] elim: relative_subE\<close>)
  then show ?thesis
    unfolding prepare_empty_dir_def
    by (intro preserves_check preserves_get_bind preserves_seq preserves_if kept_make_dirs) simp_all
qed

lemma archive_target_Inr:
  assumes "archive_target host dest m = Inr t" and "host_ok host"
  shows "relative_to (rh_resolve host t) (rh_resolve host dest)"
  using assms by (auto simp: archive_target_def Let_def bindE_eq_Inr host_ok_def)

lemma kept_extract_zip:
  assumes "host_ok host" and "\<And>a. relative_to a (rh_resolve host dest) \<Longrightarrow> area a"
  shows "preserves (kept_outside area old) (extract_zip_member host dest info)"
  unfolding extract_zip_member_def Let_def
  by (intro preserves_lifted preserves_check preserves_if preserves_seq kept_make_dirs kept_write_file
      kept_change_mode preserves_return) (rule assms(2), erule archive_target_Inr, rule assms(1))+

lemma kept_extract_tar:
  assumes "host_ok host" and "\<And>a. relative_to a (rh_resolve host dest) \<Longrightarrow> area a"
  shows "preserves (kept_outside area old) (extract_tar_member host dest m)"
  unfolding extract_tar_member_def Let_def
  by (intro preserves_lifted preserves_check preserves_if preserves_seq kept_make_dirs kept_write_file
      kept_change_mode preserves_return preserves_option preserves_raise)
    (rule assms(2), erule archive_target_Inr, rule assms(1))+

lemma kept_extract_archive:
  assumes "host_ok host" and "\<And>a. relative_to a (rh_resolve host dest) \<Longrightarrow> area a"
  shows "preserves (kept_outside area old) (extract_archive host p dest)"
  unfolding extract_archive_def
  by (intro preserves_read preserves_option preserves_raise preserves_for)
    (rule kept_extract_zip kept_extract_tar, rule assms(1), erule assms(2))+

definition candidate_path :: "path \<Rightarrow> bootstrap_plan \<Rightarrow> string \<Rightarrow> path" where
  "candidate_path sd p uuid = sub sd [''runtime-install'', ''extracted-runtimes'', candidate_name p uuid]"

definition promoted_path :: "path \<Rightarrow> bootstrap_plan \<Rightarrow> path" where
  "promoted_path sd p = sub sd [''runtime-install'', ''extracted-runtimes'', bp_transaction_id p]"

lemma extract_candidate_sub:
  assumes "host_ok host" and "plain_state host sd" and "valid_transaction_id (bp_transaction_id p)" and "slash \<notin> set uuid"
  shows "extract_candidate host sd p uuid =
     seqS (prepare_empty_dir host (candidate_path sd p uuid) (extracted_runtimes_dir host sd))
    (seqS (extract_archive host (path_of (bp_artifact_path p)) (candidate_path sd p uuid))
    (seqS (check_runtime_entrypoint host (candidate_path sd p uuid) (bp_entrypoint p))
      (returnS (candidate_path sd p uuid))))"
proof -
  have "path_join (extracted_runtimes_dir host sd) (candidate_name p uuid) = candidate_path sd p uuid"
    using assms by (simp add: state_dirs plain_state_def candidate_path_def join_sub candidate_named)
  then show ?thesis by (simp add: extract_candidate_def Let_def)
qed

lemma promote_candidate_sub:
  assumes "host_ok host" and "plain_state host sd" and "valid_transaction_id (bp_transaction_id p)"
  shows "promote_candidate host sd c p =
     seqS (prepare_empty_dir host (promoted_path sd p) (extracted_runtimes_dir host sd))
    (seqS (replace_dir host c (promoted_path sd p))
    (seqS (check_runtime_entrypoint host (promoted_path sd p) (bp_entrypoint p)) (returnS (promoted_path sd p))))"
proof -
  have "path_join (extracted_runtimes_dir host sd) (bp_transaction_id p) = promoted_path sd p"
    using assms by (simp add: state_dirs plain_state_def promoted_path_def join_sub valid_id_named)
  then show ?thesis by (simp add: promote_candidate_def Let_def)
qed

lemma candidate_resolved:
  assumes "plain_state host sd" and "valid_transaction_id (bp_transaction_id p)" and "slash \<notin> set uuid"
  shows "rh_resolve host (candidate_path sd p uuid) = candidate_path sd p uuid"
  unfolding candidate_path_def using assms layout_names by (intro resolve_sub) (simp_all add: candidate_named)

lemma promoted_resolved:
  assumes "plain_state host sd" and "valid_transaction_id (bp_transaction_id p)"
  shows "rh_resolve host (promoted_path sd p) = promoted_path sd p"
  unfolding promoted_path_def using assms layout_names by (intro resolve_sub) (simp_all add: valid_id_named)

lemma kept_check_entrypoint: "preserves I (check_runtime_entrypoint host p e)"
  unfolding check_runtime_entrypoint_def by (intro preserves_get_bind preserves_lift)

lemma kept_extract_candidate:
  assumes "host_ok host" and "plain_state host sd" and "valid_transaction_id (bp_transaction_id p)" and "slash \<notin> set uuid"
    and area: "\<And>a. relative_to a (candidate_path sd p uuid) \<Longrightarrow> area a"
  shows "preserves (kept_outside area old) (extract_candidate host sd p uuid)"
  unfolding extract_candidate_sub [OF assms(1-4)]
proof (intro preserves_seq preserves_return kept_check_entrypoint)
  show "preserves (kept_outside area old) (prepare_empty_dir host (candidate_path sd p uuid) (extracted_runtimes_dir host sd))"
    unfolding candidate_path_def using assms(2-4) layout_names area
    by (intro kept_prepare) (simp_all add: candidate_named candidate_path_def relative_sub_iff)
  show "preserves (kept_outside area old) (extract_archive host (path_of (bp_artifact_path p)) (candidate_path sd p uuid))"
    using assms(1) area by (intro kept_extract_archive) (simp_all add: candidate_resolved [OF assms(2-4)])
qed

lemma kept_promote:
  assumes "host_ok host" and "plain_state host sd" and "valid_transaction_id (bp_transaction_id p)" and "slash \<notin> set uuid"
    and area: "\<And>ns. area (sub sd ([''runtime-install'', ''extracted-runtimes''] @ ns))"
  shows "preserves (kept_outside area old) (promote_candidate host sd (candidate_path sd p uuid) p)"
  unfolding promote_candidate_sub [OF assms(1-3)]
proof (intro preserves_seq preserves_return kept_check_entrypoint)
  show "preserves (kept_outside area old) (prepare_empty_dir host (promoted_path sd p) (extracted_runtimes_dir host sd))"
    unfolding promoted_path_def
    using assms layout_names by (intro kept_prepare) (simp_all add: valid_id_named)
  show "preserves (kept_outside area old) (replace_dir host (candidate_path sd p uuid) (promoted_path sd p))"
  proof (rule kept_replace_dir)
    fix a
    assume "relative_to a (rh_resolve host (candidate_path sd p uuid))"
    then have "relative_to a (sub sd [''runtime-install'', ''extracted-runtimes'', candidate_name p uuid])"
      unfolding candidate_resolved [OF assms(2-4)] unfolding candidate_path_def .
    then show "area a" by (elim relative_subE) (simp add: area [simplified])
  next
    fix a
    assume "relative_to a (rh_resolve host (promoted_path sd p))"
    then have "relative_to a (sub sd [''runtime-install'', ''extracted-runtimes'', bp_transaction_id p])"
      unfolding promoted_resolved [OF assms(2,3)] unfolding promoted_path_def .
    then show "area a" by (elim relative_subE) (simp add: area [simplified])
  qed
qed

lemma manifest_path_sub:
  assumes "host_ok host" and "plain_state host sd" and "safe_version_fullmatch v" and "manifest_path_for host sd v (runtime_id_of v d) = Inr p"
  shows "p = sub sd ([''runtime-install'', ''versions'', v, runtime_id_of v d] @ [RUNTIME_MANIFEST_NAME])"
proof -
  have "path_join (path_join (path_join (versions_dir host sd) v) (runtime_id_of v d)) RUNTIME_MANIFEST_NAME =
      sub sd ([''runtime-install'', ''versions'', v, runtime_id_of v d] @ [RUNTIME_MANIFEST_NAME])"
    using assms(1,2) layout_names
    by (simp add: state_dirs plain_state_def join_sub safe_version_named [OF assms(3)] runtime_id_named(1) [OF assms(3)])
  with assms(4) show ?thesis by (auto simp: manifest_path_for_def Let_def bindE_eq_Inr)
qed

lemma kept_install:
  assumes "host_ok host" and "plain_state host sd" and area: "\<And>ns. area (sub sd (''runtime-install'' # ns))"
  shows "preserves (kept_outside area old) (record_installed_runtime host sd v r e d)"
  unfolding record_installed_runtime_def Let_def
proof (intro preserves_lifted_seq preserves_lifted preserves_read preserves_seq kept_make_dirs preserves_return)
  fix p current
  assume v: "require_safe_version v = Inr ()" and p: "manifest_path_for host sd v (runtime_id_of v d) = Inr p"
  have sv: "safe_version_fullmatch v" using v by (auto simp: require_safe_version_def bindE_eq_Inr)
  note dirs = state_dirs [OF assms(1)] assms(2) [unfolded plain_state_def, THEN conjunct1]
  have "preserves (kept_outside area old) (write_json host p m)" for m
    unfolding manifest_path_sub [OF assms(1,2) sv p]
    using assms(2) area layout_names safe_version_named [OF sv] runtime_id_named(1) [OF sv] by (intro kept_json_sub) simp_all
  moreover have "preserves (kept_outside area old) (write_json host (sub sd ([''runtime-install''] @ [''active-runtime.json''])) m)"
      "preserves (kept_outside area old) (write_json host (sub sd ([''runtime-install''] @ [''previous-runtime.json''])) m)" for m
    using assms(2) area layout_names by (intro kept_json_sub; simp)+
  ultimately show "preserves (kept_outside area old) (write_installation host sd p m current)" for m
    unfolding write_installation_def
    by (intro preserves_catch preserves_seq preserves_option preserves_return preserves_raise) (simp_all add: dirs)
qed

lemma result_ids [simp]:
  "dget (applied_dict p r m mp a) ''transaction_id'' = PStr (bp_transaction_id p)"
  "dget (failed_dict p r a) ''transaction_id'' = PStr (bp_transaction_id p)"
  "dget (applied_dict p r m mp a) ''status'' = PStr ''applied''"
  "dget (failed_dict p r a) ''status'' = PStr ''failed''"
  by (simp_all add: applied_dict_def failed_dict_def prepared_dict_def planned_dict_def plan_dict_def plan_fields_def)

lemma kept_activate:
  assumes "host_ok host" and "plain_state host sd" and "valid_transaction_id (bp_transaction_id p)" and "slash \<notin> set uuid"
    and "\<And>ns. area (sub sd (''runtime-install'' # ns))" and "\<And>ns. area (sub sd (''bootstrap-transactions'' # ns))"
  shows "preserves (kept_outside area old) (activate_candidate host sd p (candidate_path sd p uuid) before now later)"
proof -
  have i: "slash \<notin> set (bp_transaction_id p)" using valid_id_named [OF assms(3)] by (simp add: named_def)
  show ?thesis
    unfolding activate_candidate_def Let_def
  proof (intro preserves_bind preserves_pair preserves_seq preserves_return)
    show "preserves (kept_outside area old) (promote_candidate host sd (candidate_path sd p uuid) p)"
      by (rule kept_promote) (use assms in simp_all)
    show "preserves (kept_outside area old) (record_installed_runtime host sd (bp_version p) r (bp_entrypoint p) (bp_artifact_digest p))" for r
      by (rule kept_install) (fact assms)+
    show "preserves (kept_outside area old) (record_transaction host sd (applied_dict p r m mp before) ''apply'' now later)" for r m mp
      by (rule kept_record_transaction) (use assms i in simp_all)
  qed
qed

lemma kept_discard:
  assumes "host_ok host" and "plain_state host sd" and "valid_transaction_id (bp_transaction_id p)" and "slash \<notin> set uuid"
    and "\<And>a. relative_to a (candidate_path sd p uuid) \<Longrightarrow> area a" and "\<And>ns. area (sub sd (''bootstrap-transactions'' # ns))"
  shows "preserves (kept_outside area old) (discard_candidate host sd p (candidate_path sd p uuid) before now later)"
proof -
  have "preserves (kept_outside area old) (remove_tree host (candidate_path sd p uuid))"
    by (rule kept_remove_tree) (simp add: candidate_resolved [OF assms(2-4)] assms(5))
  moreover have "slash \<notin> set (bp_transaction_id p)" using valid_id_named [OF assms(3)] by (simp add: named_def)
  then have "preserves (kept_outside area old) (record_transaction host sd (failed_dict p c before) ''apply_failed'' now later)" for c
    by (intro kept_record_transaction) (use assms in simp_all)
  ultimately show ?thesis
    unfolding discard_candidate_def remove_extracted_runtime_def Let_def
    by (intro preserves_seq preserves_get_bind preserves_if preserves_return)
qed

lemma check_entrypoint_Inr:
  assumes "check_runtime_entrypoint host p e s = (Inr u, t)"
  shows check_entrypoint_same: "t = s" and "require_runtime_entrypoint host s p e = Inr ()"
  using assms unfolding check_runtime_entrypoint_def by (auto simp: bindS_def getS_def liftS_def)

lemma extract_candidate_Inr:
  assumes "extract_candidate host sd p uuid s = (Inr c, t)"
    and "host_ok host" and "plain_state host sd" and "valid_transaction_id (bp_transaction_id p)" and "slash \<notin> set uuid"
  shows "c = candidate_path sd p uuid" and "dir_at (candidate_path sd p uuid) t"
proof -
  note run = assms(1) [unfolded extract_candidate_sub [OF assms(2-5)]]
  from run show "c = candidate_path sd p uuid" by (elim seqS_InrE) (simp add: returnS_def)
  from run show "dir_at (candidate_path sd p uuid) t"
  proof (elim seqS_InrE)
    fix x1 s1 x2 s2 x3 s3
    assume s: "prepare_empty_dir host (candidate_path sd p uuid) (extracted_runtimes_dir host sd) s = (Inr x1, s1)"
      "extract_archive host (path_of (bp_artifact_path p)) (candidate_path sd p uuid) s1 = (Inr x2, s2)"
      "check_runtime_entrypoint host (candidate_path sd p uuid) (bp_entrypoint p) s2 = (Inr x3, s3)"
      "returnS (candidate_path sd p uuid) s3 = (Inr c, t)"
    have "dir_at (rh_resolve host (candidate_path sd p uuid)) s1"
      using s(1) unfolding prepare_empty_dir_def by (elim seqS_InrE bindS_InrE) (rule make_dirs_Inr)
    then have "dir_at (candidate_path sd p uuid) s1" by (simp only: candidate_resolved [OF assms(3-5)])
    from preservesD [OF dir_extract_archive this] have "dir_at (candidate_path sd p uuid) s2"
      using s(2) by (metis snd_conv)
    moreover have "s3 = s2" by (rule check_entrypoint_same [OF s(3)])
    moreover have "t = s3" using s(4) by (simp add: returnS_def)
    ultimately show ?thesis by simp
  qed
qed

lemma kept_apply:
  assumes "host_ok host" and "plain_state host sd" and "slash \<notin> set uuid"
    and "\<And>plan. preserves (kept_outside area old) (run_smoke host smoke plan)"
    and area: "\<And>ns. area (sub sd (''runtime-install'' # ns))" "\<And>ns. area (sub sd (''bootstrap-transactions'' # ns))"
  shows "preserves (kept_outside area old) (bootstrap_apply host sd m approved smoke uuid now later)"
  unfolding bootstrap_apply_def
proof (intro preserves_lifted_seq preserves_read)
  fix s p s' before
  assume "bootstrap_plan_for host s m = Inr p"
  then have i: "valid_transaction_id (bp_transaction_id p)" by (rule plan_id_valid [OF assms(1)])
  have below: "area a" if "relative_to a (candidate_path sd p uuid)" for a
    using that unfolding candidate_path_def by (elim relative_subE) (simp add: area)
  show "preserves (kept_outside area old) (bindS (extract_candidate host sd p uuid) (\<lambda>candidate.
      bindS (run_smoke host smoke (prepared_dict p candidate)) (\<lambda>passed.
      if passed then activate_candidate host sd p candidate before now later
      else discard_candidate host sd p candidate before now later)))"
  proof (rule preserves_bind_result)
    show "preserves (kept_outside area old) (extract_candidate host sd p uuid)"
      using assms(1-3) i below by (intro kept_extract_candidate)
  next
    fix s c t
    assume "extract_candidate host sd p uuid s = (Inr c, t)"
    then have c: "c = candidate_path sd p uuid" by (rule extract_candidate_Inr) (fact assms(1) assms(2) i assms(3))+
    show "preserves (kept_outside area old) (bindS (run_smoke host smoke (prepared_dict p c)) (\<lambda>passed.
        if passed then activate_candidate host sd p c before now later else discard_candidate host sd p c before now later))"
      unfolding c using assms i below by (intro preserves_bind preserves_if kept_activate kept_discard)
  qed
qed

lemma kept_rollback:
  assumes "host_ok host" and "plain_state host sd"
    and area: "\<And>ns. area (sub sd (''runtime-install'' # ns))" "\<And>ns. area (sub sd (''bootstrap-transactions'' # ns))"
  shows "preserves (kept_outside area old) (bootstrap_rollback host sd approved now later)"
    and "preserves (kept_outside area old) (bootstrap_uninstall host sd approved now later)"
proof -
  note dirs = state_dirs [OF assms(1)] assms(2) [unfolded plain_state_def, THEN conjunct1]
  have pointers: "preserves (kept_outside area old) (write_json host (active_pointer host sd) d)"
      "preserves (kept_outside area old) (write_json host (previous_pointer host sd) d)" for d
    using kept_json_sub [OF assms(2), of "[''runtime-install'']" "''active-runtime.json''" area]
      kept_json_sub [OF assms(2), of "[''runtime-install'']" "''previous-runtime.json''" area] layout_names
    by (simp_all add: dirs area)
  have "rh_resolve host (active_pointer host sd) = active_pointer host sd"
    using layout_names by (simp add: dirs resolve_sub [OF assms(2)])
  then have unlink: "preserves (kept_outside area old) (unlink_file host (active_pointer host sd))"
    by (intro kept_unlink) (simp add: dirs area)
  have recorded: "preserves (kept_outside area old) (record_transaction host sd payload action now later)"
    if "\<exists>d. dget payload ''transaction_id'' = PStr (transaction_id host d)" for payload action
    using that valid_id_named [OF transaction_id_valid [OF assms(1)]] assms
    by (intro kept_record_transaction) (auto simp: named_def)
  show "preserves (kept_outside area old) (bootstrap_rollback host sd approved now later)"
    unfolding bootstrap_rollback_def Let_def
    by (intro preserves_lifted_seq preserves_read preserves_pair preserves_seq pointers recorded preserves_return)
      (auto simp: rollback_result_def)
  show "preserves (kept_outside area old) (bootstrap_uninstall host sd approved now later)"
    unfolding bootstrap_uninstall_def Let_def
    by (intro preserves_lifted_seq preserves_read preserves_seq preserves_get_bind preserves_if preserves_option
        pointers unlink recorded preserves_return) auto
qed

text \<open>The files and directories that a smoke check changes in some run: programs of the runtime may write anywhere.\<close>

definition smoke_writes :: "runtime_host \<Rightarrow> (pydict \<Rightarrow> bool rt) option \<Rightarrow> path \<Rightarrow> bool" where
  "smoke_writes host smoke a \<longleftrightarrow> (\<exists>plan t. rt_nodes (snd (run_smoke host smoke plan t)) a \<noteq> rt_nodes t a)"

lemma kept_smoke: "(\<And>a. smoke_writes host smoke a \<Longrightarrow> area a) \<Longrightarrow> preserves (kept_outside area old) (run_smoke host smoke plan)"
  unfolding preserves_def kept_outside_def smoke_writes_def by metis

text \<open>C18. Bootstrap transactions stay in their two directories. In a state directory below which nothing is a
  symbolic link, and whatever an application, a rollback or an uninstallation returns or raises: every file
  and directory outside of the two directories is as before, except that missing directories may have been
  made and that the programs of a smoke check may themselves write elsewhere; archives whose members name
  other places change nothing there. Without an approval nothing changes at all.\<close>

theorem bootstrap_confined:
  assumes "host_ok host" and "plain_state host sd" and "slash \<notin> set uuid"
  shows "kept_outside (\<lambda>a. bootstrap_area sd a \<or> smoke_writes host smoke a) (rt_nodes s)
      (snd (bootstrap_apply host sd m approved smoke uuid now later s)) \<and>
    kept_outside (bootstrap_area sd) (rt_nodes s) (snd (bootstrap_rollback host sd approved now later s)) \<and>
    kept_outside (bootstrap_area sd) (rt_nodes s) (snd (bootstrap_uninstall host sd approved now later s)) \<and>
    (\<not> approved \<longrightarrow> snd (bootstrap_apply host sd m approved smoke uuid now later s) = s \<and>
      snd (bootstrap_rollback host sd approved now later s) = s \<and> snd (bootstrap_uninstall host sd approved now later s) = s)"
proof (intro conjI impI)
  show "kept_outside (\<lambda>a. bootstrap_area sd a \<or> smoke_writes host smoke a) (rt_nodes s)
      (snd (bootstrap_apply host sd m approved smoke uuid now later s))"
    using assms by (intro preservesD [OF kept_apply kept_start]) (simp_all add: kept_smoke)
  show "kept_outside (bootstrap_area sd) (rt_nodes s) (snd (bootstrap_rollback host sd approved now later s))"
    "kept_outside (bootstrap_area sd) (rt_nodes s) (snd (bootstrap_uninstall host sd approved now later s))"
    using assms(1,2) by (intro preservesD [OF kept_rollback(1) kept_start] preservesD [OF kept_rollback(2) kept_start]; simp)+
qed (simp_all add: bootstrap_apply_def bootstrap_rollback_def bootstrap_uninstall_def require_bootstrap_approval_def
    seqS_def bindS_def liftS_def)

end
