(* ===== verification/Bootstrap_Runs.thy ===== *)
theory Bootstrap_Runs
  imports Bootstrap_Facts
begin

text \<open>
  Whole transactions: what a failed application leaves, what the launcher starts after a successful
  one, and what rollbacks do to the pointers.
\<close>

section \<open>Failed applications\<close>

lemma run_smoke_quiet:
  assumes "\<And>plan s. snd (run_smoke host smoke plan s) = s" and "run_smoke host smoke plan s = (r, t)"
  shows "t = s"
  using assms(1) [of plan s] assms(2) by simp

lemma bindS_stateE:
  assumes "bindS (bindS getS (\<lambda>s. liftS (r s))) f s = (Inr y, t)"
  obtains x where "r s = Inr x" "f x s = (Inr y, t)"
  using assms by (auto simp: bindS_def getS_def liftS_def split: sum.splits)

text \<open>The steps of an application that returns.\<close>

lemma bootstrap_apply_Inr:
  assumes "bootstrap_apply host sd m approved smoke uuid now later s = (Inr r, t)"
    and "host_ok host" and "plain_state host sd" and "slash \<notin> set uuid"
    and "\<And>plan s. snd (run_smoke host smoke plan s) = s"
  obtains p before s1 where "bootstrap_plan_for host s m = Inr p" "valid_transaction_id (bp_transaction_id p)"
    "extract_candidate host sd p uuid s = (Inr (candidate_path sd p uuid), s1)"
    "activate_candidate host sd p (candidate_path sd p uuid) before now later s1 = (Inr r, t) \<or>
     discard_candidate host sd p (candidate_path sd p uuid) before now later s1 = (Inr r, t)"
proof -
  from assms(1) obtain s0 where s0: "bindS (bindS getS (\<lambda>s. liftS (bootstrap_plan_for host s m))) (\<lambda>p.
      bindS (bindS getS (\<lambda>s. liftS (read_runtime_pointer host s (active_pointer host sd)))) (\<lambda>active_before.
      bindS (extract_candidate host sd p uuid) (\<lambda>candidate.
      bindS (run_smoke host smoke (prepared_dict p candidate)) (\<lambda>passed.
      if passed then activate_candidate host sd p candidate active_before now later
      else discard_candidate host sd p candidate active_before now later)))) s0 = (Inr r, t)" "s0 = s"
    unfolding bootstrap_apply_def by (elim seqS_InrE liftS_InrE) simp
  then obtain p before where p: "bootstrap_plan_for host s m = Inr p"
    and run: "bindS (extract_candidate host sd p uuid) (\<lambda>candidate.
      bindS (run_smoke host smoke (prepared_dict p candidate)) (\<lambda>passed.
      if passed then activate_candidate host sd p candidate before now later
      else discard_candidate host sd p candidate before now later)) s = (Inr r, t)"
    by (elim bindS_stateE) simp
  note i = plan_id_valid [OF assms(2) p]
  from run obtain c s1 passed s2 where c: "extract_candidate host sd p uuid s = (Inr c, s1)"
    and smoke: "run_smoke host smoke (prepared_dict p c) s1 = (Inr passed, s2)"
    and rest: "(if passed then activate_candidate host sd p c before now later
      else discard_candidate host sd p c before now later) s2 = (Inr r, t)"
    by (elim bindS_InrE) blast
  have "c = candidate_path sd p uuid" by (rule extract_candidate_Inr(1) [OF c assms(2,3) i assms(4)])
  moreover have "s2 = s1" by (rule run_smoke_quiet [OF assms(5) smoke])
  ultimately show thesis
    using that [OF p i, of s1 before] c rest by (cases passed) simp_all
qed

lemma activate_applied:
  "activate_candidate host sd p c before now later s = (Inr r, t) \<Longrightarrow> dget r ''status'' = PStr ''applied''"
  unfolding activate_candidate_def Let_def
  by (elim bindS_InrE) (auto simp: split_beta returnS_def elim!: seqS_InrE)

lemma discard_failed:
  assumes "discard_candidate host sd p c before now later s = (Inr r, t)"
  obtains s1 where "remove_extracted_runtime host c (extracted_runtimes_dir host sd) s = (Inr (), s1)"
    "record_transaction host sd (failed_dict p c before) ''apply_failed'' now later s1 = (Inr (), t)"
    "r = failed_dict p c before"
  using assms unfolding discard_candidate_def Let_def by (elim seqS_InrE) (simp add: returnS_def)

text \<open>C20. A runtime whose smoke check fails is gone and has changed nothing else. With no symbolic link below the
  state directory and a smoke check that only reports (its programs leave the state as it is): outside of
  the directory of transactions, no file of the candidate is left, and everything that is not below the
  candidate, the pointers, the manifests and the other runtimes among it, is as before.\<close>

theorem failed_smoke_keeps_runtimes:
  assumes "host_ok host" and "plain_state host sd" and "slash \<notin> set uuid"
    and "\<And>plan s. snd (run_smoke host smoke plan s) = s"
    and "bootstrap_apply host sd m approved smoke uuid now later s = (Inr r, t)" and "dget r ''status'' = PStr ''failed''"
  shows "\<exists>p. bootstrap_plan_for host s m = Inr p \<and>
    (\<forall>a. \<not> relative_to a (sub sd [''bootstrap-transactions'']) \<longrightarrow>
      (if relative_to a (candidate_path sd p uuid) then \<forall>c k. rt_nodes t a \<noteq> FileEntry c k
       else rt_nodes t a = rt_nodes s a \<or> rt_nodes s a = NoEntry \<and> (\<exists>k. rt_nodes t a = DirEntry k)))"
proof -
  obtain p before s1 where p: "bootstrap_plan_for host s m = Inr p" "valid_transaction_id (bp_transaction_id p)"
    and ex: "extract_candidate host sd p uuid s = (Inr (candidate_path sd p uuid), s1)"
    and rest: "activate_candidate host sd p (candidate_path sd p uuid) before now later s1 = (Inr r, t) \<or>
      discard_candidate host sd p (candidate_path sd p uuid) before now later s1 = (Inr r, t)"
    by (rule bootstrap_apply_Inr [OF assms(5,1-4)])
  let ?c = "candidate_path sd p uuid"
  from rest assms(6) have "discard_candidate host sd p ?c before now later s1 = (Inr r, t)"
    by (auto dest: activate_applied)
  then obtain s2 where removed: "remove_extracted_runtime host ?c (extracted_runtimes_dir host sd) s1 = (Inr (), s2)"
    and recorded: "record_transaction host sd (failed_dict p ?c before) ''apply_failed'' now later s2 = (Inr (), t)"
    by (rule discard_failed)
  have extracted: "kept_outside (\<lambda>a. relative_to a ?c) (rt_nodes s) s1"
    by (rule kept_step [OF kept_extract_candidate ex]) (use assms(1-3) p(2) in simp_all)
  have "dir_at ?c s1" by (rule extract_candidate_Inr(2) [OF ex assms(1,2) p(2) assms(3)])
  then have "path_exists host s1 ?c"
    by (auto simp: path_exists_def node_at_def candidate_resolved [OF assms(2) p(2) assms(3)] dir_at_def)
  moreover have "relative_to (rh_resolve host ?c) (rh_resolve host (extracted_runtimes_dir host sd))"
    unfolding candidate_resolved [OF assms(2) p(2) assms(3)]
    using assms(1,2) layout_names resolve_sub [OF assms(2), of "[''runtime-install'', ''extracted-runtimes'']"]
    by (simp add: state_dirs plain_state_def candidate_path_def relative_sub_iff)
  ultimately have tree: "remove_tree host ?c s1 = (Inr (), s2)"
    using removed by (simp add: remove_extracted_runtime_def bindS_def getS_def)
  have gone: "rt_nodes s2 a = NoEntry" if "relative_to a ?c" for a
    by (rule remove_tree_Inr [OF tree]) (simp add: candidate_resolved [OF assms(2) p(2) assms(3)] that)
  have removal: "kept_outside (\<lambda>a. relative_to a ?c) (rt_nodes s1) s2"
    by (rule kept_step [OF kept_remove_tree tree]) (simp add: candidate_resolved [OF assms(2) p(2) assms(3)])
  have slash: "slash \<notin> set (bp_transaction_id p)" using valid_id_named [OF p(2)] by (simp add: named_def)
  have record_kept: "kept_outside (\<lambda>a. relative_to a (sub sd [''bootstrap-transactions''])) (rt_nodes s2) t"
    by (rule kept_step [OF kept_record_transaction recorded]) (use assms(1,2) slash in \<open>simp_all add: relative_sub_iff\<close>)
  have "if relative_to a ?c then \<forall>c k. rt_nodes t a \<noteq> FileEntry c k
       else rt_nodes t a = rt_nodes s a \<or> rt_nodes s a = NoEntry \<and> (\<exists>k. rt_nodes t a = DirEntry k)"
    if "\<not> relative_to a (sub sd [''bootstrap-transactions''])" for a
    using that gone [of a] extracted removal record_kept unfolding kept_outside_def
    by (cases "relative_to a ?c") (auto, (metis fs_node.distinct)+)
  with p(1) show ?thesis by blast
qed

section \<open>What an installation leaves\<close>

lemma catch_raise_Inr: "catchS m (\<lambda>e. raiseS (g e)) s = (Inr x, t) \<Longrightarrow> m s = (Inr x, t)"
  by (auto simp: catchS_def raiseS_def split: prod.splits sum.splits)

text \<open>A file and its temporary file.\<close>

definition written :: "path \<Rightarrow> string list \<Rightarrow> string \<Rightarrow> path \<Rightarrow> bool" where
  "written sd ns n a \<longleftrightarrow> a = sub sd (ns @ [n]) \<or> a = sub sd (ns @ [n @ ''.tmp''])"

lemma write_json_sub:
  assumes "plain_state host sd" and "list_all named (ns @ [n])" and "write_json host (sub sd (ns @ [n])) d s = (Inr u, t)"
  shows "kept_outside (written sd ns n) (rt_nodes s) t" and "\<exists>k. rt_nodes t (sub sd (ns @ [n])) = FileEntry (JsonText (PDict d)) k"
proof -
  show "kept_outside (written sd ns n) (rt_nodes s) t"
    by (rule kept_step [OF kept_json_sub assms(3)]) (use assms(1,2) in \<open>simp_all add: written_def\<close>)
  show "\<exists>k. rt_nodes t (sub sd (ns @ [n])) = FileEntry (JsonText (PDict d)) k"
    using write_json_Inr [OF assms(3)] by (simp only: node_at_def resolve_sub [OF assms(1,2)])
qed

definition install_area :: "path \<Rightarrow> path \<Rightarrow> bool" where
  "install_area sd a \<longleftrightarrow> relative_to a (sub sd [''runtime-install'', ''versions'']) \<or>
     written sd [''runtime-install''] ''active-runtime.json'' a \<or> written sd [''runtime-install''] ''previous-runtime.json'' a"

lemma kept_trans:
  assumes "kept_outside area (rt_nodes s) t" and "kept_outside area (rt_nodes t) u"
  shows "kept_outside area (rt_nodes s) u"
  using assms unfolding kept_outside_def by (metis fs_node.distinct(1))

lemma kept_mono: "kept_outside area old s \<Longrightarrow> (\<And>a. area a \<Longrightarrow> area' a) \<Longrightarrow> kept_outside area' old s"
  by (auto simp: kept_outside_def)

lemma manifest_written: "written sd [''runtime-install'', ''versions'', v, i] n a \<Longrightarrow> install_area sd a"
  by (auto simp: written_def install_area_def relative_sub_iff)

lemma write_installation_Inr:
  assumes "write_installation host sd (sub sd ([''runtime-install'', ''versions'', v, i] @ [RUNTIME_MANIFEST_NAME])) m current s = (Inr u, t)"
    and "host_ok host" and "plain_state host sd" and "named v" and "named i"
  shows "kept_outside (install_area sd) (rt_nodes s) t"
    and "\<exists>k. rt_nodes t (sub sd ([''runtime-install'', ''versions'', v, i] @ [RUNTIME_MANIFEST_NAME])) =
      FileEntry (JsonText (PDict (manifest_dict m))) k"
    and "\<exists>k. rt_nodes t (sub sd ([''runtime-install''] @ [''active-runtime.json''])) =
      FileEntry (JsonText (PDict (runtime_pointer_dict \<lparr>rp_runtime_id = im_runtime_id m,
        rp_manifest_path = path_str (sub sd ([''runtime-install'', ''versions'', v, i] @ [RUNTIME_MANIFEST_NAME]))\<rparr>))) k"
proof -
  let ?mp = "sub sd ([''runtime-install'', ''versions'', v, i] @ [RUNTIME_MANIFEST_NAME])"
  let ?ap = "sub sd ([''runtime-install''] @ [''active-runtime.json''])" and ?pp = "sub sd ([''runtime-install''] @ [''previous-runtime.json''])"
  let ?pointer = "runtime_pointer_dict \<lparr>rp_runtime_id = im_runtime_id m, rp_manifest_path = path_str ?mp\<rparr>"
  have dirs: "active_pointer host sd = ?ap" "previous_pointer host sd = ?pp"
    using assms(2,3) by (simp_all add: state_dirs plain_state_def)
  note names = layout_names assms(4,5)
  from catch_raise_Inr [OF assms(1) [unfolded write_installation_def]]
  obtain s1 s2 where w1: "write_json host ?mp (manifest_dict m) s = (Inr (), s1)"
    and w2: "(case current of None \<Rightarrow> returnS () | Some c \<Rightarrow> write_json host ?pp (runtime_pointer_dict c)) s1 = (Inr (), s2)"
    and w3: "write_json host ?ap ?pointer s2 = (Inr u, t)"
    unfolding dirs by (elim seqS_InrE) simp
  have k1: "kept_outside (written sd [''runtime-install'', ''versions'', v, i] RUNTIME_MANIFEST_NAME) (rt_nodes s) s1"
      "\<exists>k. rt_nodes s1 ?mp = FileEntry (JsonText (PDict (manifest_dict m))) k"
    by (rule write_json_sub [OF assms(3) _ w1]; simp add: names)+
  have k2: "kept_outside (written sd [''runtime-install''] ''previous-runtime.json'') (rt_nodes s1) s2"
  proof (cases current)
    case None
    with w2 show ?thesis by (simp add: returnS_def kept_start)
  next
    case (Some c)
    with w2 have "write_json host ?pp (runtime_pointer_dict c) s1 = (Inr (), s2)" by simp
    then show ?thesis by (rule write_json_sub(1) [OF assms(3), rotated]) (simp add: names)
  qed
  have k3: "kept_outside (written sd [''runtime-install''] ''active-runtime.json'') (rt_nodes s2) t"
      "\<exists>k. rt_nodes t ?ap = FileEntry (JsonText (PDict ?pointer)) k"
    by (rule write_json_sub [OF assms(3) _ w3]; simp add: names)+
  show "\<exists>k. rt_nodes t ?ap = FileEntry (JsonText (PDict ?pointer)) k" by (rule k3(2))
  have "rt_nodes s2 ?mp = rt_nodes s1 ?mp"
    using k1(2) by (intro kept_entry [OF k2]) (auto simp: written_def)
  moreover have "rt_nodes t ?mp = rt_nodes s2 ?mp"
    using k1(2) calculation by (intro kept_entry [OF k3(1)]) (auto simp: written_def)
  ultimately show "\<exists>k. rt_nodes t ?mp = FileEntry (JsonText (PDict (manifest_dict m))) k" using k1(2) by simp
  show "kept_outside (install_area sd) (rt_nodes s) t"
  proof (rule kept_trans [OF kept_trans])
    show "kept_outside (install_area sd) (rt_nodes s) s1" by (rule kept_mono [OF k1(1) manifest_written])
    show "kept_outside (install_area sd) (rt_nodes s1) s2" by (rule kept_mono [OF k2]) (simp add: install_area_def)
    show "kept_outside (install_area sd) (rt_nodes s2) t" by (rule kept_mono [OF k3(1)]) (simp add: install_area_def)
  qed
qed

lemma install_Inr:
  assumes "record_installed_runtime host sd v r e d s = (Inr (m, mp), t)" and "host_ok host" and "plain_state host sd"
  shows "strip e \<noteq> []" and "safe_version_fullmatch v"
    and "mp = sub sd ([''runtime-install'', ''versions'', v, runtime_id_of v d] @ [RUNTIME_MANIFEST_NAME])"
    and "m = \<lparr>im_artifact_digest = d, im_entrypoint = e, im_runtime_id = runtime_id_of v d,
      im_runtime_path = path_str (rh_expanduser host r), im_version = v\<rparr>"
    and "kept_outside (install_area sd) (rt_nodes s) t"
    and "\<exists>k. rt_nodes t mp = FileEntry (JsonText (PDict (manifest_dict m))) k"
    and "\<exists>k. rt_nodes t (sub sd ([''runtime-install''] @ [''active-runtime.json''])) =
      FileEntry (JsonText (PDict (runtime_pointer_dict \<lparr>rp_runtime_id = im_runtime_id m, rp_manifest_path = path_str mp\<rparr>))) k"
proof -
  let ?m = "\<lparr>im_artifact_digest = d, im_entrypoint = e, im_runtime_id = runtime_id_of v d,
      im_runtime_path = path_str (rh_expanduser host r), im_version = v\<rparr>"
  from assms(1) obtain current s1 where version: "require_safe_version v = Inr ()"
    and entry: "require_non_empty ''entrypoint'' e = Inr ()"
    and path: "manifest_path_for host sd v (runtime_id_of v d) = Inr mp" and m: "m = ?m"
    and made: "make_dirs host (path_parent mp) s = (Inr (), s1)"
    and inst: "write_installation host sd mp ?m current s1 = (Inr (), t)"
    unfolding record_installed_runtime_def Let_def
    by (elim seqS_InrE bindS_InrE liftS_InrE) (auto simp: returnS_def getS_def)
  show "strip e \<noteq> []" using entry by (simp add: require_non_empty_def)
  show v: "safe_version_fullmatch v" using version by (simp add: require_safe_version_def bindE_eq_Inr)
  show mp: "mp = sub sd ([''runtime-install'', ''versions'', v, runtime_id_of v d] @ [RUNTIME_MANIFEST_NAME])"
    by (rule manifest_path_sub [OF assms(2,3) v path])
  show "m = ?m" by (rule m)
  note w = write_installation_Inr [OF inst [unfolded mp] assms(2,3) safe_version_named [OF v] runtime_id_named(1) [OF v]]
  have "kept_outside (install_area sd) (rt_nodes s) s1" by (rule kept_step [OF kept_make_dirs made])
  with w(1) show "kept_outside (install_area sd) (rt_nodes s) t" by (rule kept_trans [rotated])
  show "\<exists>k. rt_nodes t mp = FileEntry (JsonText (PDict (manifest_dict m))) k" using w(2) by (simp only: mp m)
  show "\<exists>k. rt_nodes t (sub sd ([''runtime-install''] @ [''active-runtime.json''])) =
      FileEntry (JsonText (PDict (runtime_pointer_dict \<lparr>rp_runtime_id = im_runtime_id m, rp_manifest_path = path_str mp\<rparr>))) k"
    using w(3) by (simp only: mp m)
qed

section \<open>The verified artifact\<close>

lemma required_field_Inr: "required_field err d k p = Inr v \<longleftrightarrow> dget d k = PStr v \<and> strip v \<noteq> []"
  by (auto simp: required_field_def bindE_eq_Inr split: pyval.splits)

lemma metadata_loaded:
  assumes "load_bootstrap_metadata host s p = Inr d" and "load_artifact_metadata host s p = Inr d'"
  shows "d' = d"
proof -
  obtain v where "load_json host s p = Inr v" using assms(1) by (auto simp: load_bootstrap_metadata_def bindE_eq_Inr)
  with assms show ?thesis by (cases v) (simp_all add: load_bootstrap_metadata_def load_artifact_metadata_def)
qed

lemma verified_entrypoint:
  assumes "check_archive_members host p c (Some e) = Inr x"
  shows "\<not> is_absolute (path_of e)" and "''..'' \<notin> set (path_parts (path_of e))"
proof -
  from assms obtain n where "require_safe_member ''runtime artifact entrypoint'' e = Inr n"
    unfolding check_archive_members_def by (auto simp: bindE_eq_Inr)
  then have "safe_archive_member e = Inr n" by (rule require_safe_member_Inr)
  note safe = safe_member_relative [OF this]
  from safe(2) show "\<not> is_absolute (path_of e)" by (auto simp: is_absolute_path_of slash_def)
  from safe(3) show "''..'' \<notin> set (path_parts (path_of e))"
    by (auto simp: path_of_def Let_def path_components_def)
qed

lemma verify_metadata_Inr:
  assumes "verify_metadata_file host s p = Inr report" and "host_ok host"
  obtains d digest c where "load_artifact_metadata host s (rh_expanduser host p) = Inr d"
    "dget d ''artifact_digest'' = PStr digest" "strip (mr_entrypoint report) \<noteq> []"
    "\<not> is_absolute (path_of (mr_entrypoint report))" "''..'' \<notin> set (path_parts (path_of (mr_entrypoint report)))"
    "plain (ar_artifact_path (mr_artifact report))" "read_bytes host s (ar_artifact_path (mr_artifact report)) = Inr c"
    "parse_digest digest = Inr (''sha256'', rh_file_sha256 host c)"
proof -
  from assms(1) obtain d named_path artifact entry digest artifact_report version where
    d: "load_artifact_metadata host s (rh_expanduser host p) = Inr d"
    and path: "metadata_artifact_path host (path_parent (rh_expanduser host p)) named_path = Inr artifact"
    and entry: "artifact_field d ''entrypoint'' (rh_expanduser host p) = Inr entry"
    and digest: "artifact_field d ''artifact_digest'' (rh_expanduser host p) = Inr digest"
    and verified: "verify_artifact host s artifact digest (Some entry) = Inr artifact_report"
    and report: "mr_artifact report = artifact_report" "mr_entrypoint report = entry"
    unfolding verify_metadata_file_def Let_def by (elim bindE_InrE) (simp, force)
  have "plain artifact" using path assms(2) by (auto simp: metadata_artifact_path_def Let_def bindE_eq_Inr host_ok_def)
  then have art: "rh_expanduser host artifact = artifact" using assms(2) by (simp add: host_ok_def plain_def)
  from verified obtain c algorithm where c: "parse_digest digest = Inr (algorithm, rh_file_sha256 host c)" "algorithm = ''sha256''"
    "read_bytes host s artifact = Inr c" "ar_artifact_path artifact_report = artifact"
    "\<exists>x. check_archive_members host artifact c (Some entry) = Inr x"
    unfolding verify_artifact_def Let_def art by (elim bindE_InrE) (auto simp: bindE_eq_Inr)
  show thesis
    using that [OF d, of digest c] entry digest c verified_entrypoint \<open>plain artifact\<close>
    unfolding artifact_field_def required_field_Inr report by blast
qed

section \<open>Launching\<close>

lemma plain_not_blank: "plain p \<Longrightarrow> strip (path_str p) \<noteq> []"
  by (auto simp: plain_def is_absolute_def clean_path_def path_str_def blank_def is_space_def)

lemma sub_plain: "plain sd \<Longrightarrow> list_all named ns \<Longrightarrow> plain (sub sd ns)"
  using clean_sub [of sd ns] by (simp add: plain_def sub_def is_absolute_def)

lemma launcher_json_at:
  "node_at host s p = FileEntry (JsonText (PDict d)) k \<Longrightarrow> launcher_json host s p = Inr d"
  by (simp add: launcher_json_def load_json_def read_bytes_def)

text \<open>The launcher starts the runtime that the pointer and the manifest on disk describe.\<close>

lemma launch_described:
  assumes "host_ok host" and "plain_state host sd" and "safe_version_fullmatch v"
    and mp: "mp = sub sd ([''runtime-install'', ''versions'', v, i] @ [RUNTIME_MANIFEST_NAME])"
    and i: "i = runtime_id_of v d"
    and pointer: "rt_nodes s (sub sd ([''runtime-install''] @ [''active-runtime.json''])) =
      FileEntry (JsonText (PDict (runtime_pointer_dict \<lparr>rp_runtime_id = i, rp_manifest_path = path_str mp\<rparr>))) k"
    and manifest: "rt_nodes s mp = FileEntry (JsonText (PDict (manifest_dict \<lparr>im_artifact_digest = d, im_entrypoint = e,
      im_runtime_id = i, im_runtime_path = path_str r, im_version = v\<rparr>))) k'"
    and r: "plain r" and e: "strip e \<noteq> []" "\<not> is_absolute (path_of e)" "''..'' \<notin> set (path_parts (path_of e))"
    and runs: "require_runtime_entrypoint host s r e = Inr ()"
  shows "plan_launch host s sd args = Inr \<lparr>lp_argv = path_str (path_join r e) # args, lp_entrypoint = e,
    lp_manifest_path = mp, lp_runtime_id = i, lp_runtime_path = r\<rparr>"
proof -
  have sd: "plain sd" using assms(2) by (simp add: plain_state_def)
  note names = layout_names safe_version_named [OF assms(3)] runtime_id_named [OF assms(3), of d, folded i]
  have pmp: "plain mp" unfolding mp using sd names by (intro sub_plain) simp_all
  have resolved: "rh_resolve host mp = mp" unfolding mp using names by (intro resolve_sub [OF assms(2)]) simp_all
  have ap: "active_pointer host sd = sub sd ([''runtime-install''] @ [''active-runtime.json''])"
    using assms(1) sd by (simp add: state_dirs)
  have "rh_resolve host (active_pointer host sd) = active_pointer host sd"
    unfolding ap using names by (intro resolve_sub [OF assms(2)]) simp_all
  then have at: "node_at host s (active_pointer host sd) =
      FileEntry (JsonText (PDict (runtime_pointer_dict \<lparr>rp_runtime_id = i, rp_manifest_path = path_str mp\<rparr>))) k"
    using pointer by (simp add: node_at_def ap)
  have read: "read_active_pointer host s (active_pointer host sd) = Inr \<lparr>rp_runtime_id = i, rp_manifest_path = path_str mp\<rparr>"
    using at launcher_json_at [OF at] plain_not_blank [OF pmp] names(12)
    by (simp add: read_active_pointer_def path_exists_def launcher_field_def required_field_def runtime_pointer_dict_def)
  have mat: "node_at host s mp = FileEntry (JsonText (PDict (manifest_dict \<lparr>im_artifact_digest = d, im_entrypoint = e,
      im_runtime_id = i, im_runtime_path = path_str r, im_version = v\<rparr>))) k'"
    using manifest resolved by (simp add: node_at_def)
  have manifest': "read_launch_manifest host s mp = Inr (e, i, path_str r)"
    using mat launcher_json_at [OF mat] plain_not_blank [OF r] names(12) e(1)
    by (simp add: read_launch_manifest_def path_exists_def launcher_field_def required_field_def manifest_dict_def)
  have expanded: "rh_expanduser host mp = mp" using assms(1) pmp by (simp add: host_ok_def plain_def)
  have "plain (sub sd [''runtime-install'', ''versions''])" using sub_plain [OF sd] names by simp
  then have "rh_expanduser host (versions_dir host sd) = sub sd [''runtime-install'', ''versions'']"
    unfolding state_dirs(2) [OF assms(1) sd] using assms(1) by (simp add: host_ok_def plain_def)
  then have "rh_resolve host (rh_expanduser host (versions_dir host sd)) = sub sd [''runtime-install'', ''versions'']"
    using resolve_sub [OF assms(2), of "[''runtime-install'', ''versions'']"] names by simp
  moreover have "relative_to mp (sub sd [''runtime-install'', ''versions''])" by (simp add: mp relative_sub_iff)
  moreover have "path_name mp = RUNTIME_MANIFEST_NAME" unfolding mp sub_def append_assoc [symmetric] path_name_snoc ..
  ultimately have versions: "require_manifest_in_versions host mp (versions_dir host sd) = Inr ()"
    by (simp only: require_manifest_in_versions_def Let_def expanded resolved require_simps(1) bindE_simps simp_thms)
  have "entrypoint_path host s r e = Inr (path_join r e)"
    using runs e(2,3) assms(1)
    by (auto simp: entrypoint_path_def require_runtime_entrypoint_def Let_def bindE_eq_Inr path_exists_def path_is_file_def
        executable_at_def node_at_def host_ok_def split: fs_node.splits)
  moreover have "rh_expanduser host r = r" using assms(1) r by (simp add: host_ok_def plain_def)
  ultimately show ?thesis
    by (simp add: plan_launch_def read versions manifest' plain_text pmp r Let_def)
qed

text \<open>The steps of an activation that returns.\<close>

lemma activate_Inr:
  assumes "activate_candidate host sd p c before now later s = (Inr r, t)"
    and "host_ok host" and "plain_state host sd" and "valid_transaction_id (bp_transaction_id p)"
  obtains s1 s2 manifest mp where "promote_candidate host sd c p s = (Inr (promoted_path sd p), s1)"
    "record_installed_runtime host sd (bp_version p) (path_of (path_str (promoted_path sd p))) (bp_entrypoint p)
      (bp_artifact_digest p) s1 = (Inr (manifest, mp), s2)"
    "record_transaction host sd (applied_dict p (promoted_path sd p) manifest mp before) ''apply'' now later s2 = (Inr (), t)"
    "require_runtime_entrypoint host s1 (promoted_path sd p) (bp_entrypoint p) = Inr ()"
proof -
  from assms(1) obtain promoted s1 manifest mp s2 where
    promoted: "promote_candidate host sd c p s = (Inr promoted, s1)"
    and inst: "record_installed_runtime host sd (bp_version p) (path_of (path_str promoted)) (bp_entrypoint p)
      (bp_artifact_digest p) s1 = (Inr (manifest, mp), s2)"
    and recorded: "record_transaction host sd (applied_dict p promoted manifest mp before) ''apply'' now later s2 = (Inr (), t)"
    unfolding activate_candidate_def Let_def by (elim bindS_InrE) (simp add: split_beta, elim seqS_InrE, simp add: returnS_def, metis prod.collapse)
  have "promoted = promoted_path sd p \<and> require_runtime_entrypoint host s1 (promoted_path sd p) (bp_entrypoint p) = Inr ()"
    using promoted unfolding promote_candidate_sub [OF assms(2-4)]
    by (elim seqS_InrE) (auto simp: returnS_def dest: check_entrypoint_same check_entrypoint_Inr(2))
  with promoted inst recorded show thesis by (intro that [of s1 manifest mp s2]) simp_all
qed

text \<open>A runtime still runs when nothing below it changed.\<close>

lemma entrypoint_kept:
  assumes "require_runtime_entrypoint host s r e = Inr ()" and "host_ok host"
    and "kept_outside area (rt_nodes s) t" and "\<And>a. relative_to a (rh_resolve host r) \<Longrightarrow> \<not> area a"
  shows "require_runtime_entrypoint host t r e = Inr ()"
proof -
  let ?p = "rh_resolve host (path_join r e)"
  have idem: "rh_resolve host ?p = ?p" using assms(2) by (simp add: host_ok_def)
  from assms(1) have p: "relative_to ?p (rh_resolve host r)" "path_is_file host s ?p" "executable_at host s ?p"
    by (auto simp: require_runtime_entrypoint_def Let_def bindE_eq_Inr)
  from p(2) have "rt_nodes s ?p \<noteq> NoEntry" by (auto simp: path_is_file_def node_at_def idem)
  then have "rt_nodes t ?p = rt_nodes s ?p" by (rule kept_entry [OF assms(3) assms(4) [OF p(1)]])
  with p show ?thesis
    by (simp add: require_runtime_entrypoint_def Let_def path_is_file_def executable_at_def node_at_def idem)
qed

lemma promoted_apart:
  assumes "relative_to a (promoted_path sd p)"
  shows "\<not> install_area sd a" and "\<not> relative_to a (sub sd [''bootstrap-transactions''])"
  using assms unfolding promoted_path_def
  by (auto simp: install_area_def written_def relative_sub_iff elim!: relative_subE)

text \<open>C19. A runtime that was applied can be launched. With no symbolic link below the state directory and a smoke
  check that only reports (its programs leave the state as it is): when an application returns as applied,
  the launcher starts the entry point of the promoted runtime, an executable file inside of it, and the
  artifact the runtime was extracted from has the digest its metadata claims.\<close>

theorem applied_runtime_launches:
  assumes "host_ok host" and "plain_state host sd" and "slash \<notin> set uuid"
    and "\<And>plan s. snd (run_smoke host smoke plan s) = s"
    and "bootstrap_apply host sd m approved smoke uuid now later s = (Inr r, t)" and "dget r ''status'' = PStr ''applied''"
  shows "\<exists>p c l. bootstrap_plan_for host s m = Inr p \<and>
    read_bytes host s (path_of (bp_artifact_path p)) = Inr c \<and>
    parse_digest (bp_artifact_digest p) = Inr (''sha256'', rh_file_sha256 host c) \<and>
    plan_launch host t sd args = Inr l \<and> lp_runtime_path l = promoted_path sd p \<and>
    lp_argv l = path_str (path_join (promoted_path sd p) (bp_entrypoint p)) # args \<and>
    require_runtime_entrypoint host t (promoted_path sd p) (bp_entrypoint p) = Inr ()"
proof -
  obtain p before s1 where p: "bootstrap_plan_for host s m = Inr p" "valid_transaction_id (bp_transaction_id p)"
    and rest: "activate_candidate host sd p (candidate_path sd p uuid) before now later s1 = (Inr r, t) \<or>
      discard_candidate host sd p (candidate_path sd p uuid) before now later s1 = (Inr r, t)"
    by (rule bootstrap_apply_Inr [OF assms(5,1-4)])
  from rest assms(6) have act: "activate_candidate host sd p (candidate_path sd p uuid) before now later s1 = (Inr r, t)"
    by (auto elim: discard_failed)
  let ?r = "promoted_path sd p"
  obtain s2 s3 manifest mp where promoted: "promote_candidate host sd (candidate_path sd p uuid) p s1 = (Inr ?r, s2)"
    and inst: "record_installed_runtime host sd (bp_version p) (path_of (path_str ?r)) (bp_entrypoint p)
      (bp_artifact_digest p) s2 = (Inr (manifest, mp), s3)"
    and recorded: "record_transaction host sd (applied_dict p ?r manifest mp before) ''apply'' now later s3 = (Inr (), t)"
    and runs2: "require_runtime_entrypoint host s2 ?r (bp_entrypoint p) = Inr ()"
    by (rule activate_Inr [OF act assms(1,2) p(2)])
  obtain metadata digest report runtime where plan: "p = make_plan host digest report (rh_expanduser host m) runtime"
    and loaded: "load_bootstrap_metadata host s (rh_expanduser host m) = Inr metadata"
    and field: "metadata_field metadata ''artifact_digest'' (rh_expanduser host m) = Inr digest"
    and verified: "verify_metadata_file host s (rh_expanduser host m) = Inr report"
    by (rule bootstrap_plan_Inr [OF p(1)])
  obtain d digest' c where artifact: "load_artifact_metadata host s (rh_expanduser host (rh_expanduser host m)) = Inr d"
    "dget d ''artifact_digest'' = PStr digest'" "plain (ar_artifact_path (mr_artifact report))"
    "read_bytes host s (ar_artifact_path (mr_artifact report)) = Inr c" "parse_digest digest' = Inr (''sha256'', rh_file_sha256 host c)"
    and entry: "strip (mr_entrypoint report) \<noteq> []" "\<not> is_absolute (path_of (mr_entrypoint report))"
      "''..'' \<notin> set (path_parts (path_of (mr_entrypoint report)))"
    by (rule verify_metadata_Inr [OF verified assms(1)])
  have "d = metadata"
    using artifact(1) assms(1) by (intro metadata_loaded [OF loaded]) (simp add: host_ok_def)
  with field artifact(2) have digest: "digest' = digest" by (simp add: metadata_field_def required_field_Inr)
  have "plain ?r" unfolding promoted_path_def
    using assms(2) layout_names valid_id_named [OF p(2)] by (intro sub_plain) (simp_all add: plain_state_def)
  then have r: "path_of (path_str ?r) = ?r" "rh_expanduser host ?r = ?r" "plain ?r"
    using assms(1) by (simp_all add: plain_text host_ok_def plain_def)
  note i = install_Inr [OF inst assms(1,2), unfolded r]
  have slash: "slash \<notin> set (bp_transaction_id p)" using valid_id_named [OF p(2)] by (simp add: named_def)
  have kept: "kept_outside (\<lambda>a. relative_to a (sub sd [''bootstrap-transactions''])) (rt_nodes s3) t"
    by (rule kept_step [OF kept_record_transaction recorded]) (use assms(1,2) slash in \<open>simp_all add: relative_sub_iff\<close>)
  have resolved: "rh_resolve host ?r = ?r" by (rule promoted_resolved [OF assms(2) p(2)])
  have runs3: "require_runtime_entrypoint host s3 ?r (bp_entrypoint p) = Inr ()"
    by (rule entrypoint_kept [OF runs2 assms(1) i(5)]) (simp add: resolved promoted_apart(1))
  have runs: "require_runtime_entrypoint host t ?r (bp_entrypoint p) = Inr ()"
    by (rule entrypoint_kept [OF runs3 assms(1) kept]) (simp add: resolved promoted_apart(2))
  from i(6,7) obtain k k' where at3: "rt_nodes s3 mp = FileEntry (JsonText (PDict (manifest_dict manifest))) k'"
    "rt_nodes s3 (sub sd ([''runtime-install''] @ [''active-runtime.json''])) = FileEntry (JsonText (PDict
      (runtime_pointer_dict \<lparr>rp_runtime_id = im_runtime_id manifest, rp_manifest_path = path_str mp\<rparr>))) k" by blast
  have "rt_nodes t mp = rt_nodes s3 mp" using at3(1) by (intro kept_entry [OF kept]) (simp_all add: i(3) relative_sub_iff)
  moreover have "rt_nodes t (sub sd ([''runtime-install''] @ [''active-runtime.json''])) =
      rt_nodes s3 (sub sd ([''runtime-install''] @ [''active-runtime.json'']))"
    using at3(2) by (intro kept_entry [OF kept]) (simp_all add: relative_sub_iff)
  ultimately have "plan_launch host t sd args = Inr \<lparr>lp_argv = path_str (path_join ?r (bp_entrypoint p)) # args,
      lp_entrypoint = bp_entrypoint p, lp_manifest_path = mp, lp_runtime_id = runtime_id_of (bp_version p) (bp_artifact_digest p),
      lp_runtime_path = ?r\<rparr>"
    using at3 entry runs r(3) i(4)
    by (intro launch_described [OF assms(1,2) i(2,3)]) (simp_all add: plan)
  moreover have "path_of (bp_artifact_path p) = ar_artifact_path (mr_artifact report)"
    by (simp add: plan plain_text artifact(3))
  moreover have "bp_artifact_digest p = digest" by (simp add: plan)
  ultimately show ?thesis using p(1) artifact(4,5) digest runs by (intro exI [of _ p] exI [of _ c]) simp
qed

section \<open>Rollbacks\<close>

lemma read_pointer_fields:
  assumes "read_runtime_pointer host s p = Inr (Some q)"
  shows "strip (rp_runtime_id q) \<noteq> []" and "strip (rp_manifest_path q) \<noteq> []"
  using assms by (auto simp: read_runtime_pointer_def json_string_def bindE_eq_Inr required_field_Inr split: if_splits)

lemma read_pointer_at:
  assumes "node_at host s p = FileEntry (JsonText (PDict (bootstrap_pointer_dict q))) k"
    and "strip (rp_runtime_id q) \<noteq> []" and "strip (rp_manifest_path q) \<noteq> []"
  shows "read_runtime_pointer host s p = Inr (Some q)"
  using assms by (simp add: read_runtime_pointer_def path_exists_def bootstrap_json_def load_json_def read_bytes_def
      json_string_def required_field_def bootstrap_pointer_dict_def)

lemma rollback_steps_Inr:
  assumes "bootstrap_rollback host sd approved now later s = (Inr r, t)"
  obtains active previous s1 s2 where "rollback_pair host s sd = Inr (active, previous)"
    "write_json host (active_pointer host sd) (bootstrap_pointer_dict previous) s = (Inr (), s1)"
    "write_json host (previous_pointer host sd) (bootstrap_pointer_dict active) s1 = (Inr (), s2)"
    "record_transaction host sd (rollback_result host active previous) ''rollback'' now later s2 = (Inr (), t)"
    "r = rollback_result host active previous"
proof -
  from assms obtain pair where "rollback_pair host s sd = Inr pair" and
    "(case pair of (active, previous) \<Rightarrow>
      seqS (write_json host (active_pointer host sd) (bootstrap_pointer_dict previous))
     (seqS (write_json host (previous_pointer host sd) (bootstrap_pointer_dict active))
     (seqS (record_transaction host sd (rollback_result host active previous) ''rollback'' now later)
       (returnS (rollback_result host active previous))))) s = (Inr r, t)"
    unfolding bootstrap_rollback_def by (elim seqS_InrE liftS_InrE bindS_stateE) simp
  moreover obtain active previous where "pair = (active, previous)" by (cases pair)
  ultimately have pair: "rollback_pair host s sd = Inr (active, previous)" and
    "seqS (write_json host (active_pointer host sd) (bootstrap_pointer_dict previous))
     (seqS (write_json host (previous_pointer host sd) (bootstrap_pointer_dict active))
     (seqS (record_transaction host sd (rollback_result host active previous) ''rollback'' now later)
       (returnS (rollback_result host active previous)))) s = (Inr r, t)"
    by simp_all
  then show thesis
  proof (elim seqS_InrE)
    fix x1 s1 x2 s2 x3 s3
    assume "write_json host (active_pointer host sd) (bootstrap_pointer_dict previous) s = (Inr x1, s1)"
      "write_json host (previous_pointer host sd) (bootstrap_pointer_dict active) s1 = (Inr x2, s2)"
      "record_transaction host sd (rollback_result host active previous) ''rollback'' now later s2 = (Inr x3, s3)"
      "returnS (rollback_result host active previous) s3 = (Inr r, t)"
    with that [OF pair, of s1 s2] show thesis by (simp add: returnS_def)
  qed
qed

lemma rollback_swaps:
  assumes "bootstrap_rollback host sd approved now later s = (Inr r, t)" and "host_ok host" and "plain_state host sd"
  shows "\<exists>active previous. read_runtime_pointer host s (active_pointer host sd) = Inr (Some active) \<and>
    read_runtime_pointer host s (previous_pointer host sd) = Inr (Some previous) \<and>
    validate_runtime_pointer host s sd previous ''previous runtime'' = Inr () \<and>
    read_runtime_pointer host t (active_pointer host sd) = Inr (Some previous) \<and>
    read_runtime_pointer host t (previous_pointer host sd) = Inr (Some active) \<and>
    dget r ''active_runtime_id'' = PStr (rp_runtime_id previous)"
proof -
  let ?ap = "sub sd ([''runtime-install''] @ [''active-runtime.json''])" and ?pp = "sub sd ([''runtime-install''] @ [''previous-runtime.json''])"
  have dirs: "active_pointer host sd = ?ap" "previous_pointer host sd = ?pp"
    using assms(2,3) by (simp_all add: state_dirs plain_state_def)
  obtain active previous s1 s2 where pair: "rollback_pair host s sd = Inr (active, previous)"
    and w1: "write_json host ?ap (bootstrap_pointer_dict previous) s = (Inr (), s1)"
    and w2: "write_json host ?pp (bootstrap_pointer_dict active) s1 = (Inr (), s2)"
    and recorded: "record_transaction host sd (rollback_result host active previous) ''rollback'' now later s2 = (Inr (), t)"
    and r: "r = rollback_result host active previous"
    by (rule rollback_steps_Inr [OF assms(1), unfolded dirs])
  from pair have read: "read_runtime_pointer host s (active_pointer host sd) = Inr (Some active)"
    "read_runtime_pointer host s (previous_pointer host sd) = Inr (Some previous)"
    "validate_runtime_pointer host s sd previous ''previous runtime'' = Inr ()"
    by (auto simp: rollback_pair_def require_runtime_pointer_def bindE_eq_Inr split: option.splits)
  note names = layout_names
  have k1: "\<exists>k. rt_nodes s1 ?ap = FileEntry (JsonText (PDict (bootstrap_pointer_dict previous))) k"
    by (rule write_json_sub(2) [OF assms(3) _ w1]) (simp add: names)
  have k2: "kept_outside (written sd [''runtime-install''] ''previous-runtime.json'') (rt_nodes s1) s2"
      "\<exists>k. rt_nodes s2 ?pp = FileEntry (JsonText (PDict (bootstrap_pointer_dict active))) k"
    by (rule write_json_sub [OF assms(3) _ w2]; simp add: names)+
  have "slash \<notin> set (py_str (dget (rollback_result host active previous) ''transaction_id''))"
    using valid_id_named [OF transaction_id_valid [OF assms(2)]] by (simp add: rollback_result_def named_def)
  then have kept: "kept_outside (\<lambda>a. relative_to a (sub sd [''bootstrap-transactions''])) (rt_nodes s2) t"
    by (intro kept_step [OF kept_record_transaction recorded]) (use assms(2,3) in \<open>simp_all add: relative_sub_iff\<close>)
  have "rt_nodes s2 ?ap = rt_nodes s1 ?ap" using k1 by (intro kept_entry [OF k2(1)]) (auto simp: written_def)
  moreover have "rt_nodes t ?ap = rt_nodes s2 ?ap"
    using k1 calculation by (intro kept_entry [OF kept]) (auto simp: relative_sub_iff)
  moreover have "rt_nodes t ?pp = rt_nodes s2 ?pp" using k2(2) by (intro kept_entry [OF kept]) (auto simp: relative_sub_iff)
  moreover have "rh_resolve host ?ap = ?ap" "rh_resolve host ?pp = ?pp"
    using names by (intro resolve_sub [OF assms(3)]; simp)+
  ultimately have "\<exists>k. node_at host t ?ap = FileEntry (JsonText (PDict (bootstrap_pointer_dict previous))) k"
    "\<exists>k. node_at host t ?pp = FileEntry (JsonText (PDict (bootstrap_pointer_dict active))) k"
    using k1 k2(2) by (simp_all only: node_at_def)
  then have "read_runtime_pointer host t (active_pointer host sd) = Inr (Some previous)"
    "read_runtime_pointer host t (previous_pointer host sd) = Inr (Some active)"
    unfolding dirs using read_pointer_fields [OF read(1)] read_pointer_fields [OF read(2)]
    by (auto intro: read_pointer_at)
  with read show ?thesis by (simp add: r rollback_result_def)
qed

text \<open>C21. With no symbolic link below the state directory: a rollback that returns has exchanged the two pointers, and a second one gives back the pointers there
  were: what was active is active again.\<close>

theorem rollback_exchanges_pointers:
  assumes "host_ok host" and "plain_state host sd" and "bootstrap_rollback host sd approved now later s = (Inr r, t)"
  shows "(\<exists>active previous. read_runtime_pointer host s (active_pointer host sd) = Inr (Some active) \<and>
      read_runtime_pointer host s (previous_pointer host sd) = Inr (Some previous) \<and>
      validate_runtime_pointer host s sd previous ''previous runtime'' = Inr () \<and>
      read_runtime_pointer host t (active_pointer host sd) = Inr (Some previous) \<and>
      read_runtime_pointer host t (previous_pointer host sd) = Inr (Some active) \<and>
      dget r ''active_runtime_id'' = PStr (rp_runtime_id previous)) \<and>
    (\<forall>approved' now' later' r' u. bootstrap_rollback host sd approved' now' later' t = (Inr r', u) \<longrightarrow>
      read_runtime_pointer host u (active_pointer host sd) = read_runtime_pointer host s (active_pointer host sd) \<and>
      read_runtime_pointer host u (previous_pointer host sd) = read_runtime_pointer host s (previous_pointer host sd))"
proof (intro conjI allI impI)
  note swap = rollback_swaps [OF assms(3,1,2)]
  then show "\<exists>active previous. read_runtime_pointer host s (active_pointer host sd) = Inr (Some active) \<and>
      read_runtime_pointer host s (previous_pointer host sd) = Inr (Some previous) \<and>
      validate_runtime_pointer host s sd previous ''previous runtime'' = Inr () \<and>
      read_runtime_pointer host t (active_pointer host sd) = Inr (Some previous) \<and>
      read_runtime_pointer host t (previous_pointer host sd) = Inr (Some active) \<and>
      dget r ''active_runtime_id'' = PStr (rp_runtime_id previous)" .
  fix approved' now' later' r' u
  assume "bootstrap_rollback host sd approved' now' later' t = (Inr r', u)"
  from swap rollback_swaps [OF this assms(1,2)]
  show "read_runtime_pointer host u (active_pointer host sd) = read_runtime_pointer host s (active_pointer host sd)"
    "read_runtime_pointer host u (previous_pointer host sd) = read_runtime_pointer host s (previous_pointer host sd)" by auto
qed

end
