(* ===== verification/Bootstrap_Demo.thy ===== *)
theory Bootstrap_Demo
  imports Bootstrap_Runs
begin

text \<open>A host without symbolic links on which the transactions run, and what they do there.\<close>

definition demo_digest :: string where "demo_digest = replicate 64 CHR ''0''"

definition demo_resolve :: "path \<Rightarrow> path" where
  "demo_resolve p = (if plain p \<and> ''..'' \<notin> set (path_parts p) then p else Path ''/'' [])"

definition demo_host :: runtime_host where
  "demo_host = \<lparr>rh_expanduser = (\<lambda>p. p), rh_resolve = demo_resolve, rh_file_mode = 420, rh_dir_mode = 493,
     rh_may_execute = (\<lambda>m. m mod 2 = 1), rh_file_sha256 = (\<lambda>c. demo_digest), rh_text_sha256 = (\<lambda>t. demo_digest),
     rh_zip = (\<lambda>c. if c = RawBytes ''zip'' then Some [\<lparr>zm_filename = ''bin/run'', zm_external_attr = 493 * 65536,
       zm_data = RawBytes ''program''\<rparr>] else None),
     rh_tar = (\<lambda>c. None), rh_run = (\<lambda>argv cwd. returnS 0)\<rparr>"

definition demo_metadata :: pyval where
  "demo_metadata = PDict [(''version'', PStr ''1.0''), (''artifact_digest'', PStr (''sha256:'' @ demo_digest)),
     (''artifact_path'', PStr ''rt.zip''), (''entrypoint'', PStr ''bin/run''), (''runtime_path'', PStr ''rt'')]"

definition demo_nodes :: "(path \<times> fs_node) list" where
  "demo_nodes = [(path_of ''/'', DirEntry 493), (path_of ''/m'', DirEntry 493), (path_of ''/m/rt'', DirEntry 493),
     (path_of ''/m/rt/bin'', DirEntry 493), (path_of ''/m/rt/bin/run'', FileEntry (RawBytes ''program'') 493),
     (path_of ''/m/rt.zip'', FileEntry (RawBytes ''zip'') 420), (path_of ''/m/rt.json'', FileEntry (JsonText demo_metadata) 420)]"

definition demo_runtime_state :: runtime_state where
  "demo_runtime_state = \<lparr>rt_nodes = (\<lambda>p. case map_of demo_nodes p of None \<Rightarrow> NoEntry | Some n \<Rightarrow> n), rt_journal = []\<rparr>"

definition demo_apply :: "bool \<Rightarrow> (exn + pydict) \<times> runtime_state" where
  "demo_apply passes = bootstrap_apply demo_host (path_of ''/s'') (path_of ''/m/rt.json'') True (Some (\<lambda>plan. returnS passes))
     ''u1'' ''now'' ''later'' demo_runtime_state"

lemma demo_host_ok: "host_ok demo_host"
proof -
  have "plain (Path ''/'' [])" by (simp add: plain_def is_absolute_def clean_path_def)
  moreover have "hex_text demo_digest" by (simp add: demo_digest_def hex_text_def list_all_iff)
  ultimately show ?thesis
    by (auto simp: host_ok_def demo_host_def demo_resolve_def demo_digest_def)
qed

lemma demo_state_plain: "plain_state demo_host (path_of ''/s'')"
proof -
  have p: "path_of ''/s'' = Path ''/'' [''s'']" by code_simp
  show ?thesis
    by (auto simp: plain_state_def demo_host_def demo_resolve_def p plain_def is_absolute_def relative_to_def clean_path_def slash_def)
qed

lemma demo_smoke_quiet: "snd (run_smoke demo_host (Some (\<lambda>plan. returnS b)) plan s) = s"
  by (simp add: run_smoke_def returnS_def)

text \<open>The transactions with the state as an argument, for the evaluation of an example.\<close>

lemma write_json_code [code]: "write_json host p payload s =
    (case make_dirs host (path_parent p) s of (Inl e, t) \<Rightarrow> (Inl e, t) | (Inr x, t) \<Rightarrow>
    (case write_file host (tmp_path p) (JsonText (PDict payload)) t of (Inl e, t) \<Rightarrow> (Inl e, t) | (Inr x, t) \<Rightarrow>
      replace_file host (tmp_path p) p t))"
  by (simp add: write_json_def seqS_def bindS_def split: prod.split sum.split)

lemma extract_candidate_code [code]: "extract_candidate host sd p uuid s =
    (let root = extracted_runtimes_dir host sd; d = path_join root (candidate_name p uuid) in
     case prepare_empty_dir host d root s of (Inl e, t) \<Rightarrow> (Inl e, t) | (Inr x, t) \<Rightarrow>
    (case extract_archive host (path_of (bp_artifact_path p)) d t of (Inl e, t) \<Rightarrow> (Inl e, t) | (Inr x, t) \<Rightarrow>
    (case check_runtime_entrypoint host d (bp_entrypoint p) t of (Inl e, t) \<Rightarrow> (Inl e, t) | (Inr x, t) \<Rightarrow> (Inr d, t))))"
  by (simp add: extract_candidate_def seqS_def bindS_def returnS_def Let_def split: prod.split sum.split)

lemma promote_candidate_code [code]: "promote_candidate host sd c p s =
    (let root = extracted_runtimes_dir host sd; d = path_join root (bp_transaction_id p) in
     case prepare_empty_dir host d root s of (Inl e, t) \<Rightarrow> (Inl e, t) | (Inr x, t) \<Rightarrow>
    (case replace_dir host c d t of (Inl e, t) \<Rightarrow> (Inl e, t) | (Inr x, t) \<Rightarrow>
    (case check_runtime_entrypoint host d (bp_entrypoint p) t of (Inl e, t) \<Rightarrow> (Inl e, t) | (Inr x, t) \<Rightarrow> (Inr d, t))))"
  by (simp add: promote_candidate_def seqS_def bindS_def returnS_def Let_def split: prod.split sum.split)

lemma record_transaction_code [code]: "record_transaction host sd payload action now later s =
    (let i = py_str (dget payload ''transaction_id''); r = path_join (transactions_dir host sd) (i @ ''.json'') in
     case write_json host r (AList.update ''updated_at'' (PStr now) payload) s of (Inl e, t) \<Rightarrow> (Inl e, t) | (Inr x, t) \<Rightarrow>
    (case write_json host (latest_pointer host sd) [(''record_path'', PStr (path_str r)), (''transaction_id'', PStr i)] t
     of (Inl e, t) \<Rightarrow> (Inl e, t) | (Inr x, t) \<Rightarrow>
      append_transaction host sd [(''action'', PStr action), (''transaction_id'', PStr i)] later t))"
  by (simp add: record_transaction_def seqS_def bindS_def Let_def split: prod.split sum.split)

lemma write_installation_code [code]: "write_installation host sd mp m before s =
    (case write_json host mp (manifest_dict m) s of
       (Inl e, t) \<Rightarrow> (Inl (if is_os_error e then install_error (exn_str e) else e), t)
     | (Inr x, t) \<Rightarrow>
    (case (case before of None \<Rightarrow> (Inr (), t) | Some c \<Rightarrow> write_json host (previous_pointer host sd) (runtime_pointer_dict c) t) of
       (Inl e, t) \<Rightarrow> (Inl (if is_os_error e then install_error (exn_str e) else e), t)
     | (Inr x, t) \<Rightarrow>
    (case write_json host (active_pointer host sd) (runtime_pointer_dict
        \<lparr>rp_runtime_id = im_runtime_id m, rp_manifest_path = path_str mp\<rparr>) t of
       (Inl e, t) \<Rightarrow> (Inl (if is_os_error e then install_error (exn_str e) else e), t)
     | (Inr x, t) \<Rightarrow> (Inr x, t))))"
  by (simp add: write_installation_def catchS_def seqS_def bindS_def returnS_def raiseS_def split: prod.split sum.split option.split)

lemma record_installed_runtime_code [code]: "record_installed_runtime host sd version r entrypoint digest s =
    (case require_safe_version version of Inl e \<Rightarrow> (Inl e, s) | Inr x \<Rightarrow>
    (case require_non_empty ''entrypoint'' entrypoint of Inl e \<Rightarrow> (Inl e, s) | Inr x \<Rightarrow>
    (case require_non_empty ''artifact_digest'' digest of Inl e \<Rightarrow> (Inl e, s) | Inr x \<Rightarrow>
    (case manifest_path_for host sd version (runtime_id_of version digest) of Inl e \<Rightarrow> (Inl e, s) | Inr mp \<Rightarrow>
     let m = \<lparr>im_artifact_digest = digest, im_entrypoint = entrypoint, im_runtime_id = runtime_id_of version digest,
       im_runtime_path = path_str (rh_expanduser host r), im_version = version\<rparr> in
    (case read_install_pointer host s (active_pointer host sd) of Inl e \<Rightarrow> (Inl e, s) | Inr before \<Rightarrow>
    (case make_dirs host (path_parent mp) s of (Inl e, t) \<Rightarrow> (Inl e, t) | (Inr x, t) \<Rightarrow>
    (case write_installation host sd mp m before t of (Inl e, t) \<Rightarrow> (Inl e, t) | (Inr x, t) \<Rightarrow> (Inr (m, mp), t))))))))"
  by (simp add: record_installed_runtime_def seqS_def bindS_def liftS_def getS_def returnS_def Let_def
      split: prod.split sum.split)

lemma activate_candidate_code [code]: "activate_candidate host sd p c before now later s =
    (case promote_candidate host sd c p s of (Inl e, t) \<Rightarrow> (Inl e, t) | (Inr r, t) \<Rightarrow>
    (case record_installed_runtime host sd (bp_version p) (path_of (path_str r)) (bp_entrypoint p) (bp_artifact_digest p) t
     of (Inl e, t) \<Rightarrow> (Inl e, t) | (Inr (m, mp), t) \<Rightarrow>
     let applied = applied_dict p r m mp before in
    (case record_transaction host sd applied ''apply'' now later t of (Inl e, t) \<Rightarrow> (Inl e, t) | (Inr x, t) \<Rightarrow> (Inr applied, t))))"
  by (simp add: activate_candidate_def seqS_def bindS_def returnS_def Let_def split: prod.split sum.split)

lemma discard_candidate_code [code]: "discard_candidate host sd p c before now later s =
    (case remove_extracted_runtime host c (extracted_runtimes_dir host sd) s of (Inl e, t) \<Rightarrow> (Inl e, t) | (Inr x, t) \<Rightarrow>
     let failed = failed_dict p c before in
    (case record_transaction host sd failed ''apply_failed'' now later t of (Inl e, t) \<Rightarrow> (Inl e, t) | (Inr x, t) \<Rightarrow> (Inr failed, t)))"
  by (simp add: discard_candidate_def seqS_def bindS_def returnS_def Let_def split: prod.split sum.split)

lemma bootstrap_apply_code [code]: "bootstrap_apply host sd mpath approved smoke uuid now later s =
    (case require_bootstrap_approval approved ''bootstrap apply requires approval'' of Inl e \<Rightarrow> (Inl e, s) | Inr x \<Rightarrow>
    (case bootstrap_plan_for host s mpath of Inl e \<Rightarrow> (Inl e, s) | Inr p \<Rightarrow>
    (case read_runtime_pointer host s (active_pointer host sd) of Inl e \<Rightarrow> (Inl e, s) | Inr before \<Rightarrow>
    (case extract_candidate host sd p uuid s of (Inl e, t) \<Rightarrow> (Inl e, t) | (Inr c, t) \<Rightarrow>
    (case run_smoke host smoke (prepared_dict p c) t of (Inl e, t) \<Rightarrow> (Inl e, t) | (Inr passed, t) \<Rightarrow>
     if passed then activate_candidate host sd p c before now later t
     else discard_candidate host sd p c before now later t)))))"
  by (simp add: bootstrap_apply_def seqS_def bindS_def liftS_def getS_def split: prod.split sum.split)

lemma bootstrap_rollback_code [code]: "bootstrap_rollback host sd approved now later s =
    (case require_bootstrap_approval approved ''bootstrap rollback requires approval'' of Inl e \<Rightarrow> (Inl e, s) | Inr x \<Rightarrow>
    (case rollback_pair host s sd of Inl e \<Rightarrow> (Inl e, s) | Inr (active, previous) \<Rightarrow>
    (case write_json host (active_pointer host sd) (bootstrap_pointer_dict previous) s of (Inl e, t) \<Rightarrow> (Inl e, t) | (Inr x, t) \<Rightarrow>
    (case write_json host (previous_pointer host sd) (bootstrap_pointer_dict active) t of (Inl e, t) \<Rightarrow> (Inl e, t) | (Inr x, t) \<Rightarrow>
     let r = rollback_result host active previous in
    (case record_transaction host sd r ''rollback'' now later t of (Inl e, t) \<Rightarrow> (Inl e, t) | (Inr x, t) \<Rightarrow> (Inr r, t))))))"
  by (simp add: bootstrap_rollback_def seqS_def bindS_def liftS_def getS_def returnS_def Let_def split: prod.split sum.split)

section \<open>Two installed runtimes\<close>

definition demo_pointer :: "string \<Rightarrow> pydict" where
  "demo_pointer v = [(''runtime_id'', PStr v), (''manifest_path'', PStr (''/s/runtime-install/versions/'' @ v @ ''/runtime-manifest.json''))]"

definition demo_manifest :: "string \<Rightarrow> pydict" where
  "demo_manifest v = [(''entrypoint'', PStr ''run''), (''runtime_id'', PStr v), (''runtime_path'', PStr (''/r/'' @ v))]"

definition demo_runtime :: "string \<Rightarrow> (path \<times> fs_node) list" where
  "demo_runtime v = [(path_of (''/s/runtime-install/versions/'' @ v @ ''/runtime-manifest.json''),
       FileEntry (JsonText (PDict (demo_manifest v))) 420),
     (path_of (''/r/'' @ v), DirEntry 493), (path_of (''/r/'' @ v @ ''/run''), FileEntry (RawBytes ''program'') 493)]"

definition demo_installed :: runtime_state where
  "demo_installed = \<lparr>rt_nodes = (\<lambda>p. case map_of (demo_runtime ''new'' @ demo_runtime ''old'' @
       [(path_of ''/s/runtime-install/active-runtime.json'', FileEntry (JsonText (PDict (demo_pointer ''new''))) 420),
        (path_of ''/s/runtime-install/previous-runtime.json'', FileEntry (JsonText (PDict (demo_pointer ''old''))) 420)]) p of
       None \<Rightarrow> NoEntry | Some n \<Rightarrow> n), rt_journal = []\<rparr>"

definition demo_rollback :: "runtime_state \<Rightarrow> (exn + pydict) \<times> runtime_state" where
  "demo_rollback = bootstrap_rollback demo_host (path_of ''/s'') True ''now'' ''later''"

lemma demo_rolled_back: "is_result (fst (demo_rollback demo_installed))"
  by code_simp

lemma demo_rolled_back_twice: "is_result (fst (demo_rollback (snd (demo_rollback demo_installed))))"
  by code_simp

section \<open>The properties at these hosts\<close>

text \<open>The status of an application that returned.\<close>

definition demo_status :: "(exn + pydict) \<times> runtime_state \<Rightarrow> pyval" where
  "demo_status out = (case fst out of Inl e \<Rightarrow> PNone | Inr r \<Rightarrow> dget r ''status'')"

lemma demo_status_Inr:
  assumes "demo_status out = PStr v"
  obtains r t where "out = (Inr r, t)" and "dget r ''status'' = PStr v"
  using assms that by (cases out) (auto simp: demo_status_def split: sum.splits)

lemma demo_failed: "demo_status (demo_apply False) = PStr ''failed''"
  by code_simp

lemma demo_applied: "demo_status (demo_apply True) = PStr ''applied''"
  by code_simp

lemma returned_run: "is_result (fst out) \<Longrightarrow> \<exists>r t. out = (Inr r, t)"
  by (cases out; cases "fst out") (auto simp: is_result_def)

theorem bootstrap_confined_witness:
  "kept_outside (bootstrap_area (path_of ''/s'')) (rt_nodes demo_runtime_state) (snd (demo_apply True)) \<and>
   snd (bootstrap_uninstall demo_host (path_of ''/s'') False ''now'' ''later'' demo_installed) = demo_installed"
proof -
  have uuid: "slash \<notin> set ''u1''" by (simp add: slash_def)
  have quiet: "\<not> smoke_writes demo_host (Some (\<lambda>plan. returnS True)) a" for a by (simp add: smoke_writes_def demo_smoke_quiet)
  note confined = bootstrap_confined [OF demo_host_ok demo_state_plain uuid, of "Some (\<lambda>plan. returnS True)"]
  show ?thesis
    using confined [of demo_runtime_state "path_of ''/m/rt.json''" True "''now''" "''later''"]
      confined [of demo_installed _ False "''now''" "''later''"]
    unfolding demo_apply_def by (simp add: quiet)
qed

theorem failed_smoke_keeps_runtimes_witness:
  "\<exists>p. bootstrap_plan_for demo_host demo_runtime_state (path_of ''/m/rt.json'') = Inr p \<and>
    (\<forall>c k. rt_nodes (snd (demo_apply False)) (candidate_path (path_of ''/s'') p ''u1'') \<noteq> FileEntry c k)"
proof -
  obtain r t where run: "demo_apply False = (Inr r, t)" "dget r ''status'' = PStr ''failed''"
    by (rule demo_status_Inr [OF demo_failed])
  have uuid: "slash \<notin> set ''u1''" by (simp add: slash_def)
  from failed_smoke_keeps_runtimes [OF demo_host_ok demo_state_plain uuid demo_smoke_quiet run(1) [unfolded demo_apply_def] run(2)]
  obtain p where p: "bootstrap_plan_for demo_host demo_runtime_state (path_of ''/m/rt.json'') = Inr p"
    and gone: "\<And>a. \<not> relative_to a (sub (path_of ''/s'') [''bootstrap-transactions'']) \<Longrightarrow>
      relative_to a (candidate_path (path_of ''/s'') p ''u1'') \<Longrightarrow> \<forall>c k. rt_nodes t a \<noteq> FileEntry c k" by metis
  have "\<forall>c k. rt_nodes t (candidate_path (path_of ''/s'') p ''u1'') \<noteq> FileEntry c k"
    by (rule gone) (simp add: candidate_path_def relative_sub_iff, simp add: relative_to_def)
  with p run(1) show ?thesis by simp
qed

theorem applied_runtime_launches_witness:
  "\<exists>p l. bootstrap_plan_for demo_host demo_runtime_state (path_of ''/m/rt.json'') = Inr p \<and>
    plan_launch demo_host (snd (demo_apply True)) (path_of ''/s'') [''serve''] = Inr l \<and>
    lp_argv l = [path_str (path_join (promoted_path (path_of ''/s'') p) (bp_entrypoint p)), ''serve'']"
proof -
  obtain r t where run: "demo_apply True = (Inr r, t)" "dget r ''status'' = PStr ''applied''"
    by (rule demo_status_Inr [OF demo_applied])
  have uuid: "slash \<notin> set ''u1''" by (simp add: slash_def)
  from applied_runtime_launches [OF demo_host_ok demo_state_plain uuid demo_smoke_quiet run(1) [unfolded demo_apply_def] run(2),
      of "[''serve'']"] run(1)
  show ?thesis by auto
qed

theorem rollback_exchanges_pointers_witness:
  "\<exists>active. read_runtime_pointer demo_host demo_installed (active_pointer demo_host (path_of ''/s'')) = Inr (Some active) \<and>
    read_runtime_pointer demo_host (snd (demo_rollback (snd (demo_rollback demo_installed))))
      (active_pointer demo_host (path_of ''/s'')) = Inr (Some active)"
proof -
  obtain r t where one: "demo_rollback demo_installed = (Inr r, t)" using returned_run [OF demo_rolled_back] by blast
  obtain q u where two: "demo_rollback t = (Inr q, u)" using returned_run [OF demo_rolled_back_twice] by (auto simp: one)
  note pointers = rollback_exchanges_pointers [OF demo_host_ok demo_state_plain one [unfolded demo_rollback_def]]
  with two [unfolded demo_rollback_def] show ?thesis by (fastforce simp: one two)
qed

end
