(* ===== verification/Upstream_Http.thy ===== *)
theory Upstream_Http
  imports Stdio_Calls
begin

text \<open>
  The client of an upstream that speaks JSON-RPC over HTTP (\<^verbatim>\<open>upstream_http.py\<close>). What the server
  answers to a request may depend on every request it has received: the server is a function of the
  list of the requests, the latest first, which the state of the client carries. A body is the list of
  its bytes; \<open>bytes.decode\<close> and \<open>json.loads\<close> are arguments.
\<close>

section \<open>Requests and answers\<close>

record http_request =
  hq_url :: string
  hq_headers :: "(string \<times> string) list"
  hq_payload :: pydict
  hq_timeout :: int

definition request_body :: "http_request \<Rightarrow> string" where
  "request_body r = dumps (PDict (hq_payload r))"

record http_reply =
  hp_status :: int
  hp_content_type :: string
  hp_body :: string

text \<open>
  What \<open>urlopen\<close> does: a reply with the session identifier among its headers, a status outside of the
  200s, a timeout (also as the reason of a \<open>URLError\<close>), another \<open>URLError\<close> with its reason, or any
  other exception.
\<close>

datatype http_outcome =
  Reply http_reply "string option"
| StatusFailure int
| ReplyTimeout
| Unreachable string
| TransportError exn

record http_env =
  he_server :: "http_request list \<Rightarrow> http_outcome"
  he_environ :: "string \<Rightarrow> string option"
  he_read_secret :: "path \<Rightarrow> string option"
  he_decode :: "string \<Rightarrow> string res"
  he_loads :: "string \<Rightarrow> pyval res"
  he_version :: string

record http_upstream_client =
  hc_upstream :: upstream_config
  hc_next_id :: int
  hc_initialized :: bool
  hc_session_id :: "string option"
  hc_last_error :: "string option"
  hc_requests :: "http_request list"
  hc_waits :: "int list"

type_synonym 'a http_sem = "(http_upstream_client, exn, 'a) sem"

definition new_http_client :: "upstream_config \<Rightarrow> http_upstream_client" where
  "new_http_client u = \<lparr>hc_upstream = u, hc_next_id = 0, hc_initialized = False, hc_session_id = None,
     hc_last_error = None, hc_requests = [], hc_waits = []\<rparr>"

definition http_error :: "string \<Rightarrow> exn" where
  "http_error m = Exn HttpUpstreamError m"

definition http_name :: "http_upstream_client \<Rightarrow> string" where
  "http_name s = up_name (hc_upstream s)"

section \<open>Bodies\<close>

text \<open>\<open>str.splitlines\<close>; the flag says that the character before the text was a carriage return.\<close>

fun split_lines :: "string \<Rightarrow> bool \<Rightarrow> string \<Rightarrow> string list" where
  "split_lines line returned [] = (if line = [] then [] else [line])"
| "split_lines line returned (c # cs) =
     (if c = newline \<and> returned then split_lines [] False cs
      else if line_break c then line # split_lines [] (c = CHR 0x0D) cs
      else split_lines (line @ [c]) False cs)"

definition DATA_FIELD :: string where "DATA_FIELD = ''data:''"

definition missing_sse_data :: "string \<Rightarrow> exn" where
  "missing_sse_data n = http_error (''upstream SSE response missing data: '' @ n)"

definition not_an_object :: "string \<Rightarrow> exn" where
  "not_an_object n = http_error (''upstream response must be an object: '' @ n)"

fun sse_scan :: "http_env \<Rightarrow> string \<Rightarrow> string list \<Rightarrow> string list \<Rightarrow> pydict res" where
  "sse_scan env n data_lines [] =
     (if data_lines = [] then Inl (missing_sse_data n)
      else bindE (he_loads env (join [newline] data_lines)) (\<lambda>v.
        case v of PDict d \<Rightarrow> Inr d | _ \<Rightarrow> Inl (missing_sse_data n)))"
| "sse_scan env n data_lines (line # rest) =
     (let found = (if prefix DATA_FIELD line then data_lines @ [strip (drop (length DATA_FIELD) line)] else data_lines) in
      if line = [] \<and> found \<noteq> []
      then bindE (he_loads env (join [newline] found)) (\<lambda>v. case v of PDict d \<Rightarrow> Inr d | _ \<Rightarrow> Inl (not_an_object n))
      else sse_scan env n found rest)"

definition parse_sse_response :: "http_env \<Rightarrow> string \<Rightarrow> string \<Rightarrow> pydict res" where
  "parse_sse_response env body n =
     bindE (he_decode env body) (\<lambda>t. sse_scan env n [] (split_lines [] False t))"

definition parse_http_response_body :: "http_env \<Rightarrow> http_reply \<Rightarrow> string \<Rightarrow> pydict res" where
  "parse_http_response_body env reply n =
     (if hp_status reply = 202 \<and> hp_body reply = []
      then Inl (http_error (''upstream response missing result: '' @ n))
      else if hp_body reply = [] then Inl (http_error (''upstream response missing body: '' @ n))
      else if prefix ''text/event-stream'' (lower (hp_content_type reply))
      then parse_sse_response env (hp_body reply) n
      else bindE (he_decode env (hp_body reply)) (\<lambda>t.
        bindE (he_loads env t) (\<lambda>v. case v of PDict d \<Rightarrow> Inr d | _ \<Rightarrow> Inl (not_an_object n))))"

section \<open>Posting\<close>

definition bearer_token :: "http_env \<Rightarrow> upstream_config \<Rightarrow> string option res" where
  "bearer_token env u =
     bindE (resolve_environment u (he_environ env) (he_read_secret env)) (\<lambda>resolved.
     case map_of resolved ''AUTHORIZATION'' of
       Some v \<Rightarrow> Inr (Some (if prefix ''Bearer '' v then drop 7 v else v))
     | None \<Rightarrow> (case map snd (filter (\<lambda>(target, v). suffix ''_TOKEN'' target) resolved) of
         [] \<Rightarrow> Inr None
       | [token] \<Rightarrow> Inr (Some token)
       | _ \<Rightarrow> Inl (http_error (''multiple bearer token env values configured for upstream '' @ up_name u))))"

definition SESSION_ID_HEADER :: string where "SESSION_ID_HEADER = ''Mcp-Session-Id''"

definition http_headers :: "http_env \<Rightarrow> http_upstream_client \<Rightarrow> (string \<times> string) list res" where
  "http_headers env s =
     bindE (bearer_token env (hc_upstream s)) (\<lambda>token. Inr (
       [(''Accept'', ''application/json, text/event-stream''), (''Content-Type'', ''application/json''),
        (''MCP-Protocol-Version'', hd SUPPORTED_PROTOCOL_VERSIONS)] @
       (case token of None \<Rightarrow> [] | Some t \<Rightarrow> [(''Authorization'', ''Bearer '' @ t)]) @
       (case hc_session_id s of None \<Rightarrow> [] | Some i \<Rightarrow> [(SESSION_ID_HEADER, i)])))"

definition keep_session :: "string option \<Rightarrow> unit http_sem" where
  "keep_session session = (case session of
     None \<Rightarrow> returnS ()
   | Some i \<Rightarrow> if i = [] then returnS () else modifyS (\<lambda>s. s\<lparr>hc_session_id := Some i\<rparr>))"

definition http_failed :: "string \<Rightarrow> string \<Rightarrow> exn" where
  "http_failed n reason = http_error (''upstream HTTP request failed: '' @ n @ '': '' @ reason)"

definition send_request :: "http_env \<Rightarrow> http_request \<Rightarrow> http_outcome http_sem" where
  "send_request env request =
     (\<lambda>s. (Inr (he_server env (request # hc_requests s)), s\<lparr>hc_requests := request # hc_requests s\<rparr>))"

definition http_post_once :: "http_env \<Rightarrow> pydict \<Rightarrow> int \<Rightarrow> http_reply http_sem" where
  "http_post_once env payload timeout_seconds =
     bindS getS (\<lambda>s.
     bindS (liftS (http_headers env s)) (\<lambda>headers.
     bindS (send_request env \<lparr>hq_url = up_command (hc_upstream s), hq_headers = headers, hq_payload = payload,
         hq_timeout = timeout_seconds\<rparr>) (\<lambda>outcome. case outcome of
       Reply reply session \<Rightarrow> seqS (keep_session session) (returnS reply)
     | StatusFailure status \<Rightarrow> raiseS (http_failed (http_name s) (''status '' @ str_int status))
     | ReplyTimeout \<Rightarrow> raiseS (Exn HttpUpstreamTimeout (''upstream timed out: '' @ http_name s))
     | Unreachable reason \<Rightarrow> raiseS (http_failed (http_name s) reason)
     | TransportError e \<Rightarrow> raiseS e)))"

definition RETRYABLE_HTTP_STATUS_CODES :: "int list" where
  "RETRYABLE_HTTP_STATUS_CODES = [429, 500, 502, 503, 504]"

definition is_http_error :: "exn \<Rightarrow> bool" where
  "is_http_error e \<longleftrightarrow> is_class HttpUpstreamError e \<or> is_class HttpUpstreamTimeout e"

definition is_retryable_http_error :: "exn \<Rightarrow> bool" where
  "is_retryable_http_error e \<longleftrightarrow>
     list_ex (\<lambda>status. contains (''status '' @ str_int status) (exn_str e)) RETRYABLE_HTTP_STATUS_CODES"

definition retry_wait :: "int \<Rightarrow> unit http_sem" where
  "retry_wait delay = modifyS (\<lambda>s. s\<lparr>hc_waits := delay # hc_waits s\<rparr>)"

text \<open>The loop of the attempts, by the number of those that remain.\<close>

fun post_attempts :: "http_env \<Rightarrow> pydict \<Rightarrow> int \<Rightarrow> int \<Rightarrow> nat \<Rightarrow> http_reply http_sem" where
  "post_attempts env payload timeout_seconds backoff 0 = http_post_once env payload timeout_seconds"
| "post_attempts env payload timeout_seconds backoff (Suc n) =
     catchS (http_post_once env payload timeout_seconds) (\<lambda>e.
       if \<not> (is_http_error e \<and> is_retryable_http_error e) then raiseS e
       else seqS (if backoff \<noteq> 0 then retry_wait backoff else returnS ())
         (post_attempts env payload timeout_seconds backoff n))"

definition http_post :: "http_env \<Rightarrow> pydict \<Rightarrow> int \<Rightarrow> http_reply http_sem" where
  "http_post env payload timeout_seconds = bindS getS (\<lambda>s.
     let health = up_health (hc_upstream s) in
     post_attempts env payload timeout_seconds (http_retry_backoff_seconds health) (nat (http_retry_attempts health)))"

section \<open>JSON-RPC\<close>

definition http_jsonrpc_payload :: "string \<Rightarrow> pydict option \<Rightarrow> (int \<times> pydict) http_sem" where
  "http_jsonrpc_payload rpc_method params =
     bindS getS (\<lambda>s.
     seqS (modifyS (\<lambda>s. s\<lparr>hc_next_id := hc_next_id s + 1\<rparr>))
       (returnS (hc_next_id s, [(''jsonrpc'', PStr ''2.0''), (''id'', PInt (hc_next_id s)), (''method'', PStr rpc_method)] @
           (case params of None \<Rightarrow> [] | Some d \<Rightarrow> [(''params'', PDict d)]))))"

definition post_notification :: "http_env \<Rightarrow> pydict \<Rightarrow> int \<Rightarrow> unit http_sem" where
  "post_notification env payload timeout_seconds =
     bindS (http_post env payload timeout_seconds) (\<lambda>reply.
     if hp_body reply = [] then returnS ()
     else bindS getS (\<lambda>s.
       bindS (liftS (parse_http_response_body env reply (http_name s))) (\<lambda>parsed.
       case dget parsed ''error'' of
         PDict error \<Rightarrow> raiseS (http_error (''upstream notification failed: '' @ http_name s @ '': '' @
           py_str (dget error ''message'')))
       | _ \<Rightarrow> returnS ())))"

definition http_id_mismatch :: "string \<Rightarrow> int \<Rightarrow> pydict \<Rightarrow> exn" where
  "http_id_mismatch n expected_id response =
     http_error (''upstream response id mismatch: '' @ n @ '': expected '' @ str_int expected_id @
       '', received '' @ response_identity response)"

definition post_jsonrpc :: "http_env \<Rightarrow> pydict \<Rightarrow> int \<Rightarrow> int \<Rightarrow> pydict http_sem" where
  "post_jsonrpc env payload timeout_seconds expected_id =
     bindS (http_post env payload timeout_seconds) (\<lambda>reply.
     bindS getS (\<lambda>s.
     bindS (liftS (parse_http_response_body env reply (http_name s))) (\<lambda>parsed.
     if is_jsonrpc_notification parsed
     then raiseS (http_error (''upstream returned notification only: '' @ http_name s))
     else if \<not> eq_int (dget parsed ''id'') expected_id
     then raiseS (http_id_mismatch (http_name s) expected_id parsed)
     else returnS parsed)))"

definition http_result_from_response :: "string \<Rightarrow> pydict \<Rightarrow> int \<Rightarrow> pydict res" where
  "http_result_from_response n response request_id =
     (case dget response ''error'' of
        PDict error \<Rightarrow> Inl (http_error (''upstream returned error: '' @ n @ '': '' @ py_str (dget error ''message'')))
      | _ \<Rightarrow> (case dget response ''result'' of
          PDict result \<Rightarrow>
            if \<not> eq_int (dget response ''id'') request_id then Inl (http_id_mismatch n request_id response)
            else Inr result
        | _ \<Rightarrow> Inl (http_error (''upstream response missing result: '' @ n))))"

definition http_result :: "pydict \<Rightarrow> int \<Rightarrow> pydict http_sem" where
  "http_result response request_id =
     bindS getS (\<lambda>s. liftS (http_result_from_response (http_name s) response request_id))"

definition INITIALIZED_NOTIFICATION :: pydict where
  "INITIALIZED_NOTIFICATION = [(''jsonrpc'', PStr ''2.0''), (''method'', PStr ''notifications/initialized'')]"

definition http_initialize :: "http_env \<Rightarrow> int \<Rightarrow> unit http_sem" where
  "http_initialize env timeout_seconds =
     bindS (http_jsonrpc_payload ''initialize'' (Some
         [(''protocolVersion'', PStr (hd SUPPORTED_PROTOCOL_VERSIONS)), (''capabilities'', PDict []),
          (''clientInfo'', PDict [(''name'', PStr ''mcp-broker''), (''version'', PStr (he_version env))])]))
       (\<lambda>(request_id, payload).
     bindS (post_jsonrpc env payload timeout_seconds request_id) (\<lambda>response.
     seqS (http_result response request_id)
     (seqS (post_notification env INITIALIZED_NOTIFICATION timeout_seconds)
       (modifyS (\<lambda>s. s\<lparr>hc_initialized := True\<rparr>)))))"

definition http_jsonrpc_request :: "http_env \<Rightarrow> string \<Rightarrow> pydict option \<Rightarrow> int \<Rightarrow> pydict http_sem" where
  "http_jsonrpc_request env rpc_method params timeout_seconds =
     seqS (bindS getS (\<lambda>s. if hc_initialized s then returnS () else http_initialize env timeout_seconds))
     (bindS (http_jsonrpc_payload rpc_method params) (\<lambda>(request_id, payload).
      bindS (post_jsonrpc env payload timeout_seconds request_id) (\<lambda>response. http_result response request_id)))"

section \<open>The operations\<close>

text \<open>Every exception of the body is recorded and raised again; a result clears the record.\<close>

definition recording_error :: "'a http_sem \<Rightarrow> 'a http_sem" where
  "recording_error body =
     bindS (catchS body (\<lambda>e. seqS (modifyS (\<lambda>s. s\<lparr>hc_last_error := Some (exn_str e)\<rparr>)) (raiseS e))) (\<lambda>r.
     seqS (modifyS (\<lambda>s. s\<lparr>hc_last_error := None\<rparr>)) (returnS r))"

definition http_tools_of_result :: "string \<Rightarrow> pydict \<Rightarrow> pydict list res" where
  "http_tools_of_result n result =
     (case dget result ''tools'' of
        PList tools \<Rightarrow> (case dict_items tools of
           Some ds \<Rightarrow> Inr ds
         | None \<Rightarrow> Inl (http_error (''upstream tools/list response invalid: '' @ n)))
      | _ \<Rightarrow> Inl (http_error (''upstream tools/list response invalid: '' @ n)))"

definition http_list_tools :: "http_env \<Rightarrow> int \<Rightarrow> pydict list http_sem" where
  "http_list_tools env timeout_seconds = recording_error
     (bindS (http_jsonrpc_request env ''tools/list'' None timeout_seconds) (\<lambda>result.
      bindS getS (\<lambda>s. liftS (http_tools_of_result (http_name s) result))))"

definition http_call_params :: "meta_context \<Rightarrow> string \<Rightarrow> pydict \<Rightarrow> pydict" where
  "http_call_params c tool_name arguments =
     [(''name'', PStr tool_name), (''arguments'', PDict arguments)] @
     (if broker_request_metadata c = [] then [] else [(''_meta'', PDict (broker_request_metadata c))])"

definition http_call_tool :: "http_env \<Rightarrow> meta_context \<Rightarrow> string \<Rightarrow> pydict \<Rightarrow> int \<Rightarrow> pydict http_sem" where
  "http_call_tool env c tool_name arguments timeout_seconds = recording_error
     (http_jsonrpc_request env ''tools/call'' (Some (http_call_params c tool_name arguments)) timeout_seconds)"

definition http_health_snapshot :: "http_upstream_client \<Rightarrow> pydict" where
  "http_health_snapshot s =
     [(''state'', PStr (if hc_initialized s then ''reachable'' else ''configured'')), (''pid'', PNone),
      (''cpu_percent'', PNone), (''memory_mb'', PNone), (''restarts'', PInt 0),
      (''last_error'', opt_str (hc_last_error s))]"

end
