(* ===== verification/Http_Facts.thy ===== *)
theory Http_Facts
  imports Upstream_Http
begin

text \<open>
  What the client of an HTTP upstream keeps: the order of the handshake, the session, one payload per
  identifier, and the number of requests of a call.
\<close>

section \<open>The requests of a client\<close>

definition rpc_name :: "http_request \<Rightarrow> pyval" where
  "rpc_name r = dget (hq_payload r) ''method''"

definition is_handshake :: "pydict \<Rightarrow> bool" where
  "is_handshake p \<longleftrightarrow> dget p ''method'' \<in> {PStr ''initialize'', PStr ''notifications/initialized''}"

text \<open>The session the server has given last, and the requests that carry the session of their time.\<close>

primrec last_session :: "http_env \<Rightarrow> http_request list \<Rightarrow> string option" where
  "last_session env [] = None"
| "last_session env (r # rs) = (case he_server env (r # rs) of
     Reply reply (Some i) \<Rightarrow> if i = [] then last_session env rs else Some i
   | _ \<Rightarrow> last_session env rs)"

primrec session_kept :: "http_env \<Rightarrow> http_request list \<Rightarrow> bool" where
  "session_kept env [] = True"
| "session_kept env (r # rs) \<longleftrightarrow>
     map_of (hq_headers r) SESSION_ID_HEADER = last_session env rs \<and> session_kept env rs"

text \<open>
  The handshake comes first: no request before the notification that ends it, no notification before
  an \<open>initialize\<close>, and no handshake after a request.
\<close>

definition announced :: "http_request list \<Rightarrow> bool" where
  "announced rs \<longleftrightarrow> (\<exists>r \<in> set rs. rpc_name r = PStr ''notifications/initialized'')"

definition greeted :: "http_request list \<Rightarrow> bool" where
  "greeted rs \<longleftrightarrow> (\<exists>r \<in> set rs. rpc_name r = PStr ''initialize'')"

primrec handshake_first :: "http_request list \<Rightarrow> bool" where
  "handshake_first [] = True"
| "handshake_first (r # rs) \<longleftrightarrow> handshake_first rs \<and>
     (if is_handshake (hq_payload r)
      then (\<forall>q \<in> set rs. is_handshake (hq_payload q)) \<and> (rpc_name r = PStr ''notifications/initialized'' \<longrightarrow> greeted rs)
      else announced rs)"

definition has_id :: "http_request \<Rightarrow> int \<Rightarrow> bool" where
  "has_id r i \<longleftrightarrow> dget (hq_payload r) ''id'' = PInt i"

definition ids_used_once :: "http_request list \<Rightarrow> bool" where
  "ids_used_once rs \<longleftrightarrow> (\<forall>q \<in> set rs. \<forall>r \<in> set rs. \<forall>i. has_id q i \<longrightarrow> has_id r i \<longrightarrow> hq_payload q = hq_payload r)"

definition http_ok :: "http_env \<Rightarrow> http_upstream_client \<Rightarrow> bool" where
  "http_ok env s \<longleftrightarrow>
     session_kept env (hc_requests s) \<and> hc_session_id s = last_session env (hc_requests s) \<and>
     handshake_first (hc_requests s) \<and> ids_used_once (hc_requests s) \<and>
     (\<forall>r \<in> set (hc_requests s). \<forall>i. has_id r i \<longrightarrow> i < hc_next_id s) \<and>
     (if hc_initialized s then announced (hc_requests s) else \<forall>r \<in> set (hc_requests s). is_handshake (hq_payload r))"

text \<open>A payload the client may send now, and again.\<close>

definition may_send :: "pydict \<Rightarrow> http_upstream_client \<Rightarrow> bool" where
  "may_send p s \<longleftrightarrow>
     (if is_handshake p
      then \<not> hc_initialized s \<and> (dget p ''method'' = PStr ''notifications/initialized'' \<longrightarrow> greeted (hc_requests s))
      else hc_initialized s) \<and>
     (\<forall>i. dget p ''id'' = PInt i \<longrightarrow> i < hc_next_id s \<and> (\<forall>r \<in> set (hc_requests s). has_id r i \<longrightarrow> hq_payload r = p))"

definition sendable :: "http_env \<Rightarrow> pydict \<Rightarrow> http_upstream_client \<Rightarrow> bool" where
  "sendable env p s \<longleftrightarrow> http_ok env s \<and> may_send p s"

lemma headers_session:
  assumes "http_headers env s = Inr hs"
  shows "map_of hs SESSION_ID_HEADER = hc_session_id s"
proof -
  from assms obtain token where "hs = [(''Accept'', ''application/json, text/event-stream''), (''Content-Type'', ''application/json''),
        (''MCP-Protocol-Version'', hd SUPPORTED_PROTOCOL_VERSIONS)] @
       (case token of None \<Rightarrow> [] | Some t \<Rightarrow> [(''Authorization'', ''Bearer '' @ t)]) @
       (case hc_session_id s of None \<Rightarrow> [] | Some i \<Rightarrow> [(SESSION_ID_HEADER, i)])"
    unfolding http_headers_def bindE_eq_Inr by blast
  then show ?thesis
    by (cases token; cases "hc_session_id s") (simp_all add: SESSION_ID_HEADER_def)
qed

text \<open>Sending, with what the reply says about the session.\<close>

definition after_reply :: "http_outcome \<Rightarrow> string option \<Rightarrow> string option" where
  "after_reply outcome session = (case outcome of
     Reply reply (Some i) \<Rightarrow> if i = [] then session else Some i | _ \<Rightarrow> session)"

definition sent_state :: "http_env \<Rightarrow> http_request \<Rightarrow> http_upstream_client \<Rightarrow> http_upstream_client" where
  "sent_state env r s = s\<lparr>hc_requests := r # hc_requests s,
     hc_session_id := after_reply (he_server env (r # hc_requests s)) (hc_session_id s)\<rparr>"

lemma last_session_after: "last_session env (r # rs) = after_reply (he_server env (r # rs)) (last_session env rs)"
  by (simp add: after_reply_def split: http_outcome.splits option.splits)

lemma sent_ok:
  assumes "sendable env p s" and "hq_payload r = p" and "map_of (hq_headers r) SESSION_ID_HEADER = hc_session_id s"
  shows "sendable env p (sent_state env r s)"
proof -
  let ?rs = "hc_requests s"
  from assms(1) have ok: "session_kept env ?rs" "hc_session_id s = last_session env ?rs" "handshake_first ?rs"
      "ids_used_once ?rs" "\<forall>q \<in> set ?rs. \<forall>i. has_id q i \<longrightarrow> i < hc_next_id s"
      "if hc_initialized s then announced ?rs else \<forall>q \<in> set ?rs. is_handshake (hq_payload q)"
    and may: "if is_handshake p
        then \<not> hc_initialized s \<and> (dget p ''method'' = PStr ''notifications/initialized'' \<longrightarrow> greeted ?rs)
        else hc_initialized s"
      "\<forall>i. dget p ''id'' = PInt i \<longrightarrow> i < hc_next_id s \<and> (\<forall>q \<in> set ?rs. has_id q i \<longrightarrow> hq_payload q = p)"
    unfolding sendable_def http_ok_def may_send_def by blast+
  have "handshake_first (r # ?rs)"
    using ok(3,6) may(1) by (simp add: assms(2) rpc_name_def split: if_splits)
  moreover have "session_kept env (r # ?rs)" using ok(1,2) assms(3) by simp
  moreover have "last_session env (r # ?rs) = after_reply (he_server env (r # ?rs)) (hc_session_id s)"
    unfolding last_session_after ok(2) by (rule refl)
  moreover have "ids_used_once (r # ?rs)"
    using ok(4) may(2) assms(2) unfolding ids_used_once_def has_id_def by fastforce
  moreover have "\<forall>q \<in> set (r # ?rs). \<forall>i. has_id q i \<longrightarrow> i < hc_next_id s"
    using ok(5) may(2) assms(2) unfolding has_id_def by auto
  moreover have "if hc_initialized s then announced (r # ?rs) else \<forall>q \<in> set (r # ?rs). is_handshake (hq_payload q)"
    using ok(6) may(1) assms(2) by (auto simp: announced_def split: if_splits)
  ultimately have "http_ok env (sent_state env r s)"
    unfolding http_ok_def sent_state_def by (simp del: last_session.simps(2))
  moreover have "may_send p (sent_state env r s)"
    using may assms(2) unfolding may_send_def sent_state_def by (auto simp: greeted_def has_id_def split: if_splits)
  ultimately show ?thesis by (simp add: sendable_def)
qed

definition outcome_result :: "string \<Rightarrow> http_outcome \<Rightarrow> http_reply res" where
  "outcome_result n outcome = (case outcome of
     Reply reply session \<Rightarrow> Inr reply
   | StatusFailure status \<Rightarrow> Inl (http_failed n (''status '' @ str_int status))
   | ReplyTimeout \<Rightarrow> Inl (Exn HttpUpstreamTimeout (''upstream timed out: '' @ n))
   | Unreachable reason \<Rightarrow> Inl (http_failed n reason)
   | TransportError e \<Rightarrow> Inl e)"

lemma post_once_outcome:
  "http_post_once env p timeout s = (case http_headers env s of
     Inl e \<Rightarrow> (Inl e, s)
   | Inr hs \<Rightarrow>
       let r = \<lparr>hq_url = up_command (hc_upstream s), hq_headers = hs, hq_payload = p, hq_timeout = timeout\<rparr> in
       (outcome_result (http_name s) (he_server env (r # hc_requests s)), sent_state env r s))"
proof (cases "http_headers env s")
  case (Inl e)
  then show ?thesis by (simp add: http_post_once_def monad_simps)
next
  case (Inr hs)
  let ?r = "\<lparr>hq_url = up_command (hc_upstream s), hq_headers = hs, hq_payload = p, hq_timeout = timeout\<rparr>"
  show ?thesis
  proof (cases "he_server env (?r # hc_requests s)")
    case (Reply reply session)
    then show ?thesis
      by (cases session)
        (simp_all add: http_post_once_def send_request_def Inr monad_simps outcome_result_def sent_state_def after_reply_def keep_session_def)
  qed (simp_all add: http_post_once_def send_request_def Inr monad_simps outcome_result_def sent_state_def after_reply_def)
qed

text \<open>A reply answers the latest request.\<close>

definition replied :: "http_env \<Rightarrow> pydict \<Rightarrow> http_reply \<Rightarrow> http_upstream_client \<Rightarrow> bool" where
  "replied env p reply s \<longleftrightarrow> (\<exists>r rs session. hc_requests s = r # rs \<and> hq_payload r = p \<and>
     he_server env (r # rs) = Reply reply session)"

lemma post_once_triple:
  "triple (sendable env p) (http_post_once env p timeout) (\<lambda>reply s. sendable env p s \<and> replied env p reply s)
     (\<lambda>_. sendable env p)"
proof (rule tripleI)
  fix s r t
  assume s: "sendable env p s" and run: "http_post_once env p timeout s = (r, t)"
  show "case r of Inr x \<Rightarrow> sendable env p t \<and> replied env p x t | Inl e \<Rightarrow> sendable env p t"
  proof (cases "http_headers env s")
    case (Inl e)
    with s run show ?thesis by (auto simp: post_once_outcome)
  next
    case (Inr hs)
    let ?r = "\<lparr>hq_url = up_command (hc_upstream s), hq_headers = hs, hq_payload = p, hq_timeout = timeout\<rparr>"
    have "sendable env p (sent_state env ?r s)"
      by (rule sent_ok [OF s]) (simp_all add: headers_session [OF Inr])
    with run show ?thesis
      by (cases "he_server env (?r # hc_requests s)")
        (auto simp: post_once_outcome Inr Let_def replied_def sent_state_def outcome_result_def)
  qed
qed

lemma retry_wait_sendable: "preserves (sendable env p) (if b then retry_wait k else returnS ())"
  by (auto simp: retry_wait_def sendable_def http_ok_def may_send_def intro!: preserves_if preserves_modify)

lemma post_attempts_triple:
  "triple (sendable env p) (post_attempts env p timeout backoff n) (\<lambda>reply s. sendable env p s \<and> replied env p reply s)
     (\<lambda>_. sendable env p)"
proof (induction n)
  case 0
  show ?case by (simp add: post_once_triple)
next
  case (Suc n)
  have wait: "triple (sendable env p) (if backoff \<noteq> 0 then retry_wait backoff else returnS ()) (\<lambda>_. sendable env p)
      (\<lambda>_. sendable env p)"
    using retry_wait_sendable by (simp add: triple_preserves)
  show ?case
    unfolding post_attempts.simps
    by (rule triple_catch [OF post_once_triple]) (intro triple_if triple_raise triple_seq [OF wait Suc]; simp)
qed

lemma triple_get_bind: "(\<And>s. triple P (f s) Q E) \<Longrightarrow> triple P (bindS getS f) Q E"
  by (auto simp: triple_def bindS_def getS_def)

lemma http_post_triple:
  "triple (sendable env p) (http_post env p timeout) (\<lambda>reply s. sendable env p s \<and> replied env p reply s)
     (\<lambda>_. sendable env p)"
  unfolding http_post_def Let_def by (intro triple_get_bind post_attempts_triple)

section \<open>A request and its answer\<close>

definition answered :: "http_env \<Rightarrow> pydict \<Rightarrow> int \<Rightarrow> pydict \<Rightarrow> http_upstream_client \<Rightarrow> bool" where
  "answered env p i response s \<longleftrightarrow> (\<exists>reply. replied env p reply s \<and>
     parse_http_response_body env reply (http_name s) = Inr response \<and> eq_int (dget response ''id'') i)"

lemma post_jsonrpc_triple:
  "triple (sendable env p) (post_jsonrpc env p timeout i) (\<lambda>response s. sendable env p s \<and> answered env p i response s)
     (\<lambda>_. sendable env p)"
  unfolding post_jsonrpc_def
  by (rule triple_bind [OF http_post_triple]) (auto simp: triple_def monad_simps answered_def split: sum.split)

lemma post_notification_triple:
  "triple (sendable env p) (post_notification env p timeout) (\<lambda>_ s. sendable env p s \<and> (\<exists>reply. replied env p reply s))
     (\<lambda>_. sendable env p)"
  unfolding post_notification_def
  by (rule triple_bind [OF http_post_triple]) (auto simp: triple_def monad_simps split: sum.split pyval.split)

definition request_payload :: "int \<Rightarrow> string \<Rightarrow> pydict option \<Rightarrow> pydict" where
  "request_payload i m params = [(''jsonrpc'', PStr ''2.0''), (''id'', PInt i), (''method'', PStr m)] @
     (case params of None \<Rightarrow> [] | Some d \<Rightarrow> [(''params'', PDict d)])"

lemma request_payload_sel [simp]:
  "dget (request_payload i m params) ''method'' = PStr m" "dget (request_payload i m params) ''id'' = PInt i"
  by (simp_all add: request_payload_def)

lemma http_jsonrpc_payload_eq:
  "http_jsonrpc_payload m params s =
     (Inr (hc_next_id s, request_payload (hc_next_id s) m params), s\<lparr>hc_next_id := hc_next_id s + 1\<rparr>)"
  by (simp add: http_jsonrpc_payload_def request_payload_def monad_simps)

lemma numbered_ok: "http_ok env s \<Longrightarrow> http_ok env (s\<lparr>hc_next_id := hc_next_id s + 1\<rparr>)"
  by (fastforce simp: http_ok_def)

lemma new_payload_sendable:
  assumes "http_ok env s" and "is_handshake (request_payload (hc_next_id s) m params) \<longleftrightarrow> \<not> hc_initialized s"
    and "m \<noteq> ''notifications/initialized''"
  shows "sendable env (request_payload (hc_next_id s) m params) (s\<lparr>hc_next_id := hc_next_id s + 1\<rparr>)"
  using assms numbered_ok [OF assms(1)] by (fastforce simp: sendable_def may_send_def http_ok_def)

lemma payload_triple:
  assumes "\<And>i. is_handshake (request_payload i m params) \<longleftrightarrow> \<not> b" and "m \<noteq> ''notifications/initialized''"
  shows "triple (\<lambda>s. http_ok env s \<and> hc_initialized s = b \<and> k \<le> hc_next_id s) (http_jsonrpc_payload m params)
    (\<lambda>(i, p) s. sendable env p s \<and> p = request_payload i m params \<and> k \<le> i) E"
  using new_payload_sendable [of env _ m params] assms by (auto simp: triple_def http_jsonrpc_payload_eq)

section \<open>The handshake\<close>

lemma replied_greeted: "replied env p reply s \<Longrightarrow> dget p ''method'' = PStr ''initialize'' \<Longrightarrow> greeted (hc_requests s)"
  by (auto simp: replied_def greeted_def rpc_name_def)

lemma replied_announced:
  "replied env p reply s \<Longrightarrow> dget p ''method'' = PStr ''notifications/initialized'' \<Longrightarrow> announced (hc_requests s)"
  by (auto simp: replied_def announced_def rpc_name_def)

lemma notification_sendable:
  "http_ok env s \<Longrightarrow> \<not> hc_initialized s \<Longrightarrow> greeted (hc_requests s) \<Longrightarrow> sendable env INITIALIZED_NOTIFICATION s"
  by (simp add: sendable_def may_send_def INITIALIZED_NOTIFICATION_def is_handshake_def)

lemma sendable_ok: "sendable env p s \<Longrightarrow> http_ok env s"
  by (simp add: sendable_def)

lemma initialized_method: "dget INITIALIZED_NOTIFICATION ''method'' = PStr ''notifications/initialized''"
  by (simp add: INITIALIZED_NOTIFICATION_def)

lemma http_result_triple: "triple R (http_result response i)
    (\<lambda>d s. R s \<and> http_result_from_response (http_name s) response i = Inr d) (\<lambda>_. R)"
  by (auto simp: triple_def http_result_def monad_simps split: sum.split)

lemma announced_initialized:
  "http_ok env s \<Longrightarrow> announced (hc_requests s) \<Longrightarrow> http_ok env (s\<lparr>hc_initialized := True\<rparr>)"
  by (simp add: http_ok_def)

lemma initialize_handshake: "is_handshake (request_payload i ''initialize'' params)"
  by (simp add: is_handshake_def)

lemma http_initialize_triple:
  "triple (\<lambda>s. http_ok env s \<and> hc_initialized s = False \<and> k \<le> hc_next_id s) (http_initialize env timeout)
     (\<lambda>_ s. http_ok env s \<and> hc_initialized s) (\<lambda>_. http_ok env)"
proof -
  let ?greeted = "\<lambda>s. http_ok env s \<and> \<not> hc_initialized s \<and> greeted (hc_requests s)"
  have rest: "triple (\<lambda>s. sendable env p s \<and> p = request_payload i ''initialize'' params \<and> k \<le> i)
      (bindS (post_jsonrpc env p timeout i) (\<lambda>response.
       seqS (http_result response i)
       (seqS (post_notification env INITIALIZED_NOTIFICATION timeout) (modifyS (\<lambda>s. s\<lparr>hc_initialized := True\<rparr>)))))
      (\<lambda>_ s. http_ok env s \<and> hc_initialized s) (\<lambda>_. http_ok env)" for p i params
  proof (rule triple_bind)
    show "triple (\<lambda>s. sendable env p s \<and> p = request_payload i ''initialize'' params \<and> k \<le> i)
        (post_jsonrpc env p timeout i) (\<lambda>response. ?greeted) (\<lambda>_. http_ok env)"
    proof (cases "p = request_payload i ''initialize'' params")
      case True
      show ?thesis
        by (rule triple_weaken [OF post_jsonrpc_triple])
          (auto simp: True sendable_def may_send_def initialize_handshake answered_def intro: replied_greeted)
    next
      case False
      then show ?thesis by (simp add: triple_def)
    qed
    fix response
    have notify: "triple ?greeted (post_notification env INITIALIZED_NOTIFICATION timeout)
        (\<lambda>_ s. http_ok env s \<and> announced (hc_requests s)) (\<lambda>_. http_ok env)"
      by (rule triple_weaken [OF post_notification_triple])
        (auto simp: notification_sendable intro: replied_announced sendable_ok initialized_method)
    have "triple ?greeted (http_result response i) (\<lambda>_. ?greeted) (\<lambda>_. http_ok env)"
      by (rule triple_weaken [OF http_result_triple [where R = ?greeted]]) auto
    then show "triple ?greeted (seqS (http_result response i) (seqS (post_notification env INITIALIZED_NOTIFICATION timeout)
        (modifyS (\<lambda>s. s\<lparr>hc_initialized := True\<rparr>)))) (\<lambda>_ s. http_ok env s \<and> hc_initialized s) (\<lambda>_. http_ok env)"
      by (rule triple_seq, intro triple_seq [OF notify])
        (simp add: triple_def modifyS_def announced_initialized)
  qed
  show ?thesis
    unfolding http_initialize_def
    by (rule triple_bind [OF payload_triple]) (auto simp: initialize_handshake split: prod.split intro: rest)
qed

section \<open>Calls\<close>

definition call_answered :: "http_env \<Rightarrow> int \<Rightarrow> string \<Rightarrow> pydict option \<Rightarrow> pydict \<Rightarrow> http_upstream_client \<Rightarrow> bool" where
  "call_answered env k m params d s \<longleftrightarrow> (\<exists>i response. k \<le> i \<and> answered env (request_payload i m params) i response s \<and>
     http_result_from_response (http_name s) response i = Inr d)"

text \<open>What does not depend on the requests, the session and the waits, survives a post.\<close>

definition request_free :: "(http_upstream_client \<Rightarrow> bool) \<Rightarrow> bool" where
  "request_free I \<longleftrightarrow> (\<forall>s rs i ws. I s \<longrightarrow> I (s\<lparr>hc_requests := rs, hc_session_id := i, hc_waits := ws\<rparr>))"

lemma request_free_sent: "request_free I \<Longrightarrow> I s \<Longrightarrow> I (sent_state env r s)"
proof -
  assume I: "request_free I" "I s"
  have "sent_state env r s = s\<lparr>hc_requests := r # hc_requests s,
      hc_session_id := after_reply (he_server env (r # hc_requests s)) (hc_session_id s), hc_waits := hc_waits s\<rparr>"
    by (simp add: sent_state_def)
  then show "I (sent_state env r s)" using I unfolding request_free_def by metis
qed

lemma preserves_post_once: "request_free I \<Longrightarrow> preserves I (http_post_once env p timeout)"
  by (rule preservesI) (auto simp: post_once_outcome Let_def request_free_sent split: sum.split)

lemma preserves_post:
  assumes "\<And>p timeout. preserves I (http_post_once env p timeout)" and "\<And>s ws. I s \<Longrightarrow> I (s\<lparr>hc_waits := ws\<rparr>)"
  shows "preserves I (http_post env p timeout)"
proof -
  have "preserves I (retry_wait backoff)" for backoff
    unfolding retry_wait_def by (intro preserves_modify assms(2))
  then have "preserves I (post_attempts env p timeout backoff n)" for backoff n
    by (induction n) (auto intro!: assms(1) preserves_catch preserves_if preserves_seq)
  then show ?thesis unfolding http_post_def Let_def by (intro preserves_bind preserves_get)
qed

lemma request_free_post: "request_free I \<Longrightarrow> preserves I (http_post env p timeout)"
proof (rule preserves_post)
  assume I: "request_free I"
  show "preserves I (http_post_once env p timeout)" for p timeout by (rule preserves_post_once [OF I])
  fix s ws
  assume "I s"
  with I have "I (s\<lparr>hc_requests := hc_requests s, hc_session_id := hc_session_id s, hc_waits := ws\<rparr>)"
    unfolding request_free_def by blast
  then show "I (s\<lparr>hc_waits := ws\<rparr>)" by simp
qed

lemma preserves_pyval_dict: "(\<And>d. preserves I (f d)) \<Longrightarrow> preserves I m \<Longrightarrow>
    preserves I (case v of PDict d \<Rightarrow> f d | _ \<Rightarrow> m)"
  by (cases v) simp_all

lemma preserves_jsonrpc:
  assumes "\<And>p timeout. preserves I (http_post env p timeout)"
  shows "preserves I (post_jsonrpc env p timeout i)" and "preserves I (post_notification env p timeout)"
    and "preserves I (http_result response i)"
  unfolding post_jsonrpc_def post_notification_def http_result_def
  by (intro preserves_bind assms preserves_if preserves_pyval_dict preserves_get preserves_lift preserves_raise
      preserves_return)+

lemma preserves_initialize:
  assumes "request_free I" and "\<And>s. I s \<Longrightarrow> I (s\<lparr>hc_next_id := hc_next_id s + 1\<rparr>)" and "\<And>s. I s \<Longrightarrow> I (s\<lparr>hc_initialized := True\<rparr>)"
  shows "preserves I (http_initialize env timeout)"
proof -
  have "preserves I (http_jsonrpc_payload m params)" for m params
    using assms(2) by (auto simp: preserves_def http_jsonrpc_payload_eq)
  then show ?thesis unfolding http_initialize_def
    by (intro preserves_bind preserves_pair preserves_seq preserves_jsonrpc request_free_post preserves_modify assms)
qed

lemma triple_conj: "triple P m Q E \<Longrightarrow> preserves I m \<Longrightarrow>
    triple (\<lambda>s. P s \<and> I s) m (\<lambda>x s. Q x s \<and> I s) (\<lambda>e s. E e s \<and> I s)"
  by (fastforce simp: triple_def preserves_def split: prod.splits sum.splits)

lemma triple_get_at: "(\<And>s. P s \<Longrightarrow> triple (\<lambda>t. t = s) (f s) Q E) \<Longrightarrow> triple P (bindS getS f) Q E"
  by (simp add: triple_def bindS_def getS_def)

lemma ensure_initialized:
  "triple (\<lambda>s. http_ok env s \<and> k \<le> hc_next_id s)
     (bindS getS (\<lambda>s. if hc_initialized s then returnS () else http_initialize env timeout))
     (\<lambda>_ s. http_ok env s \<and> hc_initialized s = True \<and> k \<le> hc_next_id s) (\<lambda>_. http_ok env)"
proof (rule triple_get_at)
  fix s
  assume s: "http_ok env s \<and> k \<le> hc_next_id s"
  have init: "triple (\<lambda>s. (http_ok env s \<and> hc_initialized s = False \<and> k \<le> hc_next_id s) \<and> k \<le> hc_next_id s)
      (http_initialize env timeout) (\<lambda>_ s. (http_ok env s \<and> hc_initialized s) \<and> k \<le> hc_next_id s)
      (\<lambda>_ s. http_ok env s \<and> k \<le> hc_next_id s)"
    by (rule triple_conj [OF http_initialize_triple preserves_initialize]) (auto simp: request_free_def)
  show "triple (\<lambda>t. t = s) (if hc_initialized s then returnS () else http_initialize env timeout)
      (\<lambda>_ s. http_ok env s \<and> hc_initialized s = True \<and> k \<le> hc_next_id s) (\<lambda>_. http_ok env)"
    using s by (intro triple_if triple_return triple_weaken [OF init]) auto
qed

lemma request_triple:
  assumes "m \<notin> {''initialize'', ''notifications/initialized''}"
  shows "triple (\<lambda>s. http_ok env s \<and> k \<le> hc_next_id s) (http_jsonrpc_request env m params timeout)
    (\<lambda>d s. http_ok env s \<and> call_answered env k m params d s) (\<lambda>_. http_ok env)"
  unfolding http_jsonrpc_request_def
proof (rule triple_seq [OF ensure_initialized triple_bind [OF payload_triple]])
  show "is_handshake (request_payload i m params) \<longleftrightarrow> \<not> True" for i using assms by (simp add: is_handshake_def)
  show "m \<noteq> ''notifications/initialized''" using assms by simp
  fix ip :: "int \<times> pydict"
  obtain i p where ip: "ip = (i, p)" by (cases ip)
  have "triple (\<lambda>s. sendable env p s \<and> p = request_payload i m params \<and> k \<le> i)
      (bindS (post_jsonrpc env p timeout i) (\<lambda>response. http_result response i))
      (\<lambda>d s. http_ok env s \<and> call_answered env k m params d s) (\<lambda>_. http_ok env)"
  proof (cases "p = request_payload i m params \<and> k \<le> i")
    case True
    have "triple (\<lambda>s. sendable env p s \<and> answered env p i response s) (http_result response i)
        (\<lambda>d s. http_ok env s \<and> call_answered env k m params d s) (\<lambda>_. http_ok env)" for response
      by (rule triple_weaken [OF http_result_triple [where R = "\<lambda>s. sendable env p s \<and> answered env p i response s"]])
        (use True in \<open>auto simp: sendable_def call_answered_def\<close>)
    moreover have "triple (sendable env p) (post_jsonrpc env p timeout i)
        (\<lambda>response s. sendable env p s \<and> answered env p i response s) (\<lambda>_. http_ok env)"
      by (rule triple_weaken [OF post_jsonrpc_triple]) (auto intro: sendable_ok)
    ultimately have "triple (sendable env p) (bindS (post_jsonrpc env p timeout i) (\<lambda>response. http_result response i))
        (\<lambda>d s. http_ok env s \<and> call_answered env k m params d s) (\<lambda>_. http_ok env)"
      by (rule triple_bind [rotated])
    then show ?thesis by (rule triple_weaken) auto
  next
    case False
    then show ?thesis by (auto simp: triple_def)
  qed
  then show "triple (case ip of (i, p) \<Rightarrow> \<lambda>s. sendable env p s \<and> p = request_payload i m params \<and> k \<le> i)
      (case ip of (i, p) \<Rightarrow> bindS (post_jsonrpc env p timeout i) (\<lambda>response. http_result response i))
      (\<lambda>d s. http_ok env s \<and> call_answered env k m params d s) (\<lambda>_. http_ok env)"
    by (simp add: ip)
qed

lemma recording_triple:
  assumes "triple P m Q (\<lambda>_. R)" and "\<And>s e. R s \<Longrightarrow> R (s\<lparr>hc_last_error := e\<rparr>)"
    and "\<And>x s e. Q x s \<Longrightarrow> Q x (s\<lparr>hc_last_error := e\<rparr>)"
  shows "triple P (recording_error m) (\<lambda>x s. Q x s \<and> hc_last_error s = None)
    (\<lambda>e s. R s \<and> hc_last_error s = Some (exn_str e))"
proof -
  have "triple P (catchS m (\<lambda>e. seqS (modifyS (\<lambda>s. s\<lparr>hc_last_error := Some (exn_str e)\<rparr>)) (raiseS e))) Q
      (\<lambda>e s. R s \<and> hc_last_error s = Some (exn_str e))"
    by (rule triple_catch [OF assms(1)]) (simp add: triple_def monad_simps assms(2))
  then show ?thesis unfolding recording_error_def
    by (rule triple_bind) (simp add: triple_def monad_simps assms(3))
qed

lemma error_free:
  "http_ok env (s\<lparr>hc_last_error := e\<rparr>) = http_ok env s"
  "call_answered env k m params d (s\<lparr>hc_last_error := e\<rparr>) = call_answered env k m params d s"
  by (simp_all add: http_ok_def call_answered_def answered_def replied_def http_name_def)

lemma call_triple:
  "triple (\<lambda>s. http_ok env s \<and> k \<le> hc_next_id s) (http_call_tool env c tool arguments timeout)
     (\<lambda>d s. (http_ok env s \<and> call_answered env k ''tools/call'' (Some (http_call_params c tool arguments)) d s) \<and>
        hc_last_error s = None)
     (\<lambda>e s. http_ok env s \<and> hc_last_error s = Some (exn_str e))"
  unfolding http_call_tool_def
  by (rule recording_triple [OF request_triple]) (simp_all add: error_free)

lemma list_triple:
  "triple (http_ok env) (http_list_tools env timeout) (\<lambda>d s. http_ok env s \<and> hc_last_error s = None)
     (\<lambda>e s. http_ok env s \<and> hc_last_error s = Some (exn_str e))"
  unfolding http_list_tools_def
proof (rule triple_weaken [OF recording_triple])
  show "triple (http_ok env) (bindS (http_jsonrpc_request env ''tools/list'' None timeout) (\<lambda>result.
      bindS getS (\<lambda>s. liftS (http_tools_of_result (http_name s) result)))) (\<lambda>_. http_ok env) (\<lambda>_. http_ok env)"
  proof (rule triple_bind)
    show "triple (http_ok env) (http_jsonrpc_request env ''tools/list'' None timeout) (\<lambda>_. http_ok env) (\<lambda>_. http_ok env)"
    proof (rule tripleI)
      fix s r t
      assume run: "http_ok env s" "http_jsonrpc_request env ''tools/list'' None timeout s = (r, t)"
      show "case r of Inr x \<Rightarrow> http_ok env t | Inl e \<Rightarrow> http_ok env t"
        using tripleD [OF request_triple, of "''tools/list''" env s "hc_next_id s"]
          tripleD_exn [OF request_triple, of "''tools/list''" env s "hc_next_id s"] run
        by (cases r) auto
    qed
    show "triple (http_ok env) (bindS getS (\<lambda>s. liftS (http_tools_of_result (http_name s) result))) (\<lambda>_. http_ok env)
        (\<lambda>_. http_ok env)" for result
      by (auto simp: triple_def monad_simps split: sum.split)
  qed
qed (simp_all add: error_free)

section \<open>Any sequence of operations\<close>

text \<open>
  One call after another. The client has no lock, so the calls of two threads may also overlap; the steps
  leave that out, and \<open>Http_Runs\<close> shows what is lost by it.
\<close>

inductive http_step :: "http_env \<Rightarrow> http_upstream_client \<Rightarrow> http_upstream_client \<Rightarrow> bool" for env where
  list_step: "http_list_tools env timeout s = (r, t) \<Longrightarrow> http_step env s t"
| call_step: "http_call_tool env c tool arguments timeout s = (r, t) \<Longrightarrow> http_step env s t"

lemma http_ok_step:
  assumes "http_step env s t" and "http_ok env s"
  shows "http_ok env t"
  using assms(1)
proof cases
  case (list_step timeout r)
  with tripleD [OF list_triple, of env s] tripleD_exn [OF list_triple, of env s] assms(2) show ?thesis
    by (cases r) auto
next
  case (call_step c tool arguments timeout r)
  with tripleD [OF call_triple, of env s "hc_next_id s"] tripleD_exn [OF call_triple, of env s "hc_next_id s"] assms(2)
  show ?thesis by (cases r) auto
qed

lemma new_client_ok: "http_ok env (new_http_client u)"
  by (simp add: http_ok_def new_http_client_def ids_used_once_def)

interpretation http_clients: transition_system "\<lambda>s. s = new_http_client u" "http_step env" "http_ok env" for u env
proof unfold_locales
  show "http_ok env s" if "s = new_http_client u" for s
    unfolding that by (rule new_client_ok)
  show "http_ok env t" if "http_ok env s" "http_step env s t" for s t using that(2,1) by (rule http_ok_step)
qed

text \<open>C9. Calls of a client made one after another keep the protocol, whatever the server answers and whichever
  of them raise: no request is sent before a handshake has been, and no handshake after a request (one
  that fails is made again before), every request carries the session the server gave last, and an
  identifier is used for one payload only.\<close>

theorem http_protocol_order:
  assumes "reachable_from (\<lambda>s. s = new_http_client u) (http_step env) s"
  shows "handshake_first (hc_requests s) \<and> session_kept env (hc_requests s) \<and> ids_used_once (hc_requests s) \<and>
    (hc_initialized s \<longrightarrow> announced (hc_requests s))"
  using http_clients.reachable_inv [OF assms] by (auto simp: http_ok_def)


end
