(* ===== verification/Http_Runs.thy ===== *)
theory Http_Runs
  imports Http_Facts
begin

text \<open>
  How many requests a call may send, how an event stream is read, and a client at work on a concrete
  server.
\<close>

section \<open>The number of requests\<close>

definition attempts_allowed :: "upstream_config \<Rightarrow> nat" where
  "attempts_allowed u = Suc (nat (http_retry_attempts (up_health u)))"

text \<open>At most \<open>k\<close> posts with their attempts, and a wait of the configured length between two attempts only.\<close>

definition costs :: "nat \<Rightarrow> 'a http_sem \<Rightarrow> bool" where
  "costs k m \<longleftrightarrow> (\<forall>s. let u = hc_upstream s; t = snd (m s) in
     hc_upstream t = u \<and> length (hc_requests t) \<le> length (hc_requests s) + k * attempts_allowed u \<and>
     length (hc_waits t) \<le> length (hc_waits s) + k * nat (http_retry_attempts (up_health u)) \<and>
     (\<forall>w \<in> set (hc_waits t). w \<in> set (hc_waits s) \<or> w = http_retry_backoff_seconds (up_health u)))"

lemma costs_free:
  "costs 0 (returnS x)" "costs 0 (raiseS e)" "costs 0 (liftS r)" "costs 0 getS" "costs 0 (http_result response i)"
  "costs 0 (http_jsonrpc_payload m params)" "costs 0 (modifyS (\<lambda>s. s\<lparr>hc_initialized := b\<rparr>))"
  "costs 0 (modifyS (\<lambda>s. s\<lparr>hc_last_error := msg\<rparr>))"
  by (simp_all add: costs_def monad_simps http_result_def http_jsonrpc_payload_eq)

lemma costs_bind:
  assumes "costs j m" and "\<And>x. costs k (f x)"
  shows "costs (j + k) (bindS m f)"
  unfolding costs_def Let_def
proof (intro allI)
  fix s
  obtain r s1 where m: "m s = (r, s1)" by (cases "m s")
  show "hc_upstream (snd (bindS m f s)) = hc_upstream s \<and>
      length (hc_requests (snd (bindS m f s))) \<le> length (hc_requests s) + (j + k) * attempts_allowed (hc_upstream s) \<and>
      length (hc_waits (snd (bindS m f s))) \<le> length (hc_waits s) + (j + k) * nat (http_retry_attempts (up_health (hc_upstream s))) \<and>
      (\<forall>w \<in> set (hc_waits (snd (bindS m f s))). w \<in> set (hc_waits s) \<or>
        w = http_retry_backoff_seconds (up_health (hc_upstream s)))"
    using assms(1) [unfolded costs_def Let_def, rule_format, of s]
  proof (cases r)
    case (Inr x)
    from assms(1) [unfolded costs_def Let_def, rule_format, of s] assms(2) [of x, unfolded costs_def Let_def, rule_format, of s1]
    show ?thesis by (auto simp: bindS_def m Inr add_mult_distrib)
  qed (auto simp: bindS_def m add_mult_distrib)
qed

lemma costs_seq: "costs j m \<Longrightarrow> costs k n \<Longrightarrow> costs (j + k) (seqS m n)"
  unfolding seqS_def by (rule costs_bind)

lemma costs_mono: "costs j m \<Longrightarrow> j \<le> k \<Longrightarrow> costs k m"
  unfolding costs_def Let_def by (meson add_left_mono le_trans mult_le_mono1)

lemma costs_if: "costs k m \<Longrightarrow> costs k n \<Longrightarrow> costs k (if b then m else n)"
  by simp

lemma costs_pyval: "(\<And>d. costs k (f d)) \<Longrightarrow> costs k m \<Longrightarrow> costs k (case v of PDict d \<Rightarrow> f d | _ \<Rightarrow> m)"
  by (cases v) simp_all

lemma post_once_cost:
  "http_post_once env p timeout s = (r, t) \<Longrightarrow> hc_upstream t = hc_upstream s \<and> hc_waits t = hc_waits s \<and>
     length (hc_requests t) \<le> Suc (length (hc_requests s))"
  by (auto simp: post_once_outcome Let_def sent_state_def split: sum.splits)

lemma post_attempts_cost:
  "post_attempts env p timeout backoff n s = (r, t) \<Longrightarrow> hc_upstream t = hc_upstream s \<and>
     length (hc_requests t) \<le> length (hc_requests s) + Suc n \<and> length (hc_waits t) \<le> length (hc_waits s) + n \<and>
     (\<forall>w \<in> set (hc_waits t). w \<in> set (hc_waits s) \<or> w = backoff)"
proof (induction n arbitrary: s)
  case 0
  then show ?case using post_once_cost [of env p timeout s r t] by auto
next
  case (Suc n)
  obtain r1 s1 where once: "http_post_once env p timeout s = (r1, s1)" by (cases "http_post_once env p timeout s")
  note first = post_once_cost [OF once]
  let ?wait = "if backoff \<noteq> 0 then s1\<lparr>hc_waits := backoff # hc_waits s1\<rparr> else s1"
  have "(r, t) = (r1, s1) \<or> post_attempts env p timeout backoff n ?wait = (r, t)"
    using Suc.prems by (auto simp: once monad_simps retry_wait_def split: sum.splits if_splits)
  then show ?case
  proof
    assume "(r, t) = (r1, s1)"
    then show ?thesis using first by auto
  next
    assume again: "post_attempts env p timeout backoff n ?wait = (r, t)"
    show ?thesis using Suc.IH [OF again] first by (auto split: if_splits)
  qed
qed

lemma http_post_cost: "costs 1 (http_post env p timeout)"
  unfolding costs_def Let_def
proof (intro allI)
  fix s :: http_upstream_client
  let ?h = "up_health (hc_upstream s)"
  obtain r t where run: "post_attempts env p timeout (http_retry_backoff_seconds ?h) (nat (http_retry_attempts ?h)) s = (r, t)"
    by (cases "post_attempts env p timeout (http_retry_backoff_seconds ?h) (nat (http_retry_attempts ?h)) s")
  then have t: "snd (http_post env p timeout s) = t" by (simp add: http_post_def Let_def monad_simps)
  show "hc_upstream (snd (http_post env p timeout s)) = hc_upstream s \<and>
      length (hc_requests (snd (http_post env p timeout s))) \<le> length (hc_requests s) + 1 * attempts_allowed (hc_upstream s) \<and>
      length (hc_waits (snd (http_post env p timeout s))) \<le> length (hc_waits s) + 1 * nat (http_retry_attempts ?h) \<and>
      (\<forall>w \<in> set (hc_waits (snd (http_post env p timeout s))). w \<in> set (hc_waits s) \<or> w = http_retry_backoff_seconds ?h)"
    using post_attempts_cost [OF run] by (simp add: t attempts_allowed_def)
qed

lemma post_costs: "costs 1 (post_jsonrpc env p timeout i)" "costs 1 (post_notification env p timeout)"
proof -
  have "costs (1 + (0 + (0 + 0))) (post_jsonrpc env p timeout i)"
    unfolding post_jsonrpc_def by (intro costs_bind http_post_cost costs_if costs_free)
  then show "costs 1 (post_jsonrpc env p timeout i)" by simp
  have "costs (1 + 0) (post_notification env p timeout)"
    unfolding post_notification_def
  proof (intro costs_bind [OF http_post_cost] costs_if costs_free)
    fix reply
    have "costs (0 + (0 + 0)) (bindS getS (\<lambda>s. bindS (liftS (parse_http_response_body env reply (http_name s))) (\<lambda>parsed.
        case dget parsed ''error'' of
          PDict error \<Rightarrow> raiseS (http_error (''upstream notification failed: '' @ http_name s @ '': '' @ py_str (dget error ''message'')))
        | _ \<Rightarrow> returnS ())))"
      by (intro costs_bind costs_free costs_pyval)
    then show "costs 0 (bindS getS (\<lambda>s. bindS (liftS (parse_http_response_body env reply (http_name s))) (\<lambda>parsed.
        case dget parsed ''error'' of
          PDict error \<Rightarrow> raiseS (http_error (''upstream notification failed: '' @ http_name s @ '': '' @ py_str (dget error ''message'')))
        | _ \<Rightarrow> returnS ())))" by simp
  qed
  then show "costs 1 (post_notification env p timeout)" by simp
qed

lemma costs_pair: "(\<And>a b. costs k (f a b)) \<Longrightarrow> costs k (case x of (a, b) \<Rightarrow> f a b)"
  by (cases x) simp

lemma initialize_costs: "costs 2 (http_initialize env timeout)"
proof -
  have "costs (0 + (1 + (0 + (1 + 0)))) (http_initialize env timeout)"
    unfolding http_initialize_def by (intro costs_bind costs_seq costs_pair costs_free post_costs)
  then show ?thesis by (simp add: numeral_2_eq_2)
qed

lemma costs_step:
  assumes "costs k m" and "m s = (r, t)" and "hc_upstream s = u"
  shows "hc_upstream t = u" and "length (hc_requests t) \<le> length (hc_requests s) + k * attempts_allowed u"
    and "length (hc_waits t) \<le> length (hc_waits s) + k * nat (http_retry_attempts (up_health u))"
    and "\<forall>w \<in> set (hc_waits t). w \<in> set (hc_waits s) \<or> w = http_retry_backoff_seconds (up_health u)"
  using assms(1) [unfolded costs_def Let_def, rule_format, of s] by (simp_all add: assms(2,3))

lemma ensure_costs: "costs 2 (bindS getS (\<lambda>s. if hc_initialized s then returnS () else http_initialize env timeout))"
proof -
  have "costs (0 + 2) (bindS getS (\<lambda>s. if hc_initialized s then returnS () else http_initialize env timeout))"
    by (intro costs_bind costs_if costs_free initialize_costs costs_mono [OF costs_free(1)]) simp
  then show ?thesis by (simp add: numeral_2_eq_2)
qed

text \<open>The request itself, in a client that is initialized.\<close>

definition posted_request :: "http_env \<Rightarrow> string \<Rightarrow> pydict option \<Rightarrow> int \<Rightarrow> pydict http_sem" where
  "posted_request env m params timeout =
     bindS (http_jsonrpc_payload m params) (\<lambda>(request_id, payload).
     bindS (post_jsonrpc env payload timeout request_id) (\<lambda>response. http_result response request_id))"

lemma posted_costs: "costs 1 (posted_request env m params timeout)"
proof -
  have "costs (0 + (1 + 0)) (posted_request env m params timeout)"
    unfolding posted_request_def by (intro costs_bind costs_pair post_costs costs_free)
  then show ?thesis by simp
qed

lemma request_posted:
  "http_jsonrpc_request env m params timeout =
     seqS (bindS getS (\<lambda>s. if hc_initialized s then returnS () else http_initialize env timeout)) (posted_request env m params timeout)"
  by (simp add: http_jsonrpc_request_def posted_request_def)

lemma request_posted_initialized:
  "hc_initialized s \<Longrightarrow> http_jsonrpc_request env m params timeout s = posted_request env m params timeout s"
  by (simp add: request_posted monad_simps)

lemma recording_costs: "costs k m \<Longrightarrow> costs k (recording_error m)"
proof -
  assume m: "costs k m"
  let ?m = "catchS m (\<lambda>e. seqS (modifyS (\<lambda>s. s\<lparr>hc_last_error := Some (exn_str e)\<rparr>)) (raiseS e))"
  have "costs k ?m"
    unfolding costs_def Let_def
  proof (intro allI)
    fix s
    show "hc_upstream (snd (?m s)) = hc_upstream s \<and>
        length (hc_requests (snd (?m s))) \<le> length (hc_requests s) + k * attempts_allowed (hc_upstream s) \<and>
        length (hc_waits (snd (?m s))) \<le> length (hc_waits s) + k * nat (http_retry_attempts (up_health (hc_upstream s))) \<and>
        (\<forall>w \<in> set (hc_waits (snd (?m s))). w \<in> set (hc_waits s) \<or> w = http_retry_backoff_seconds (up_health (hc_upstream s)))"
      using m [unfolded costs_def Let_def, rule_format, of s]
      by (cases "m s"; cases "fst (m s)") (simp_all add: monad_simps)
  qed
  then have "costs (k + (0 + 0)) (recording_error m)"
    unfolding recording_error_def by (intro costs_bind costs_seq costs_free)
  then show ?thesis by simp
qed

lemma recording_at: "m s = m' s \<Longrightarrow> recording_error m s = recording_error m' s"
  by (simp add: recording_error_def monad_simps)

text \<open>C10. Retries are limited: a call of an initialized client sends at most one request and the configured
  number of retries of it, one that starts with the handshake at most three such; waits have the configured
  length and stand between two attempts only. So a call always ends when its server answers.\<close>

theorem http_retries_limited:
  assumes "http_call_tool env c tool arguments timeout s = (outcome, t)" and "hc_upstream s = u"
    and "posts = (if hc_initialized s then 1 else 3)"
  shows "length (hc_requests t) \<le> length (hc_requests s) + posts * Suc (nat (http_retry_attempts (up_health u))) \<and>
    length (hc_waits t) \<le> length (hc_waits s) + posts * nat (http_retry_attempts (up_health u)) \<and>
    (\<forall>w \<in> set (hc_waits t). w \<in> set (hc_waits s) \<or> w = http_retry_backoff_seconds (up_health u))"
proof -
  let ?params = "Some (http_call_params c tool arguments)"
  have three: "costs 3 (http_call_tool env c tool arguments timeout)"
  proof -
    have "costs (2 + 1) (http_jsonrpc_request env ''tools/call'' ?params timeout)"
      unfolding request_posted by (intro costs_seq ensure_costs posted_costs)
    then show ?thesis unfolding http_call_tool_def by (intro recording_costs) simp
  qed
  show ?thesis
  proof (cases "hc_initialized s")
    case True
    then have "http_call_tool env c tool arguments timeout s = recording_error (posted_request env ''tools/call'' ?params timeout) s"
      unfolding http_call_tool_def by (intro recording_at request_posted_initialized)
    with assms(1) have "recording_error (posted_request env ''tools/call'' ?params timeout) s = (outcome, t)" by simp
    from costs_step [OF recording_costs [OF posted_costs] this assms(2)] True assms(3)
    show ?thesis by (simp add: attempts_allowed_def)
  next
    case False
    with costs_step [OF three assms(1,2)] assms(3) show ?thesis by (simp add: attempts_allowed_def)
  qed
qed

section \<open>Event streams\<close>

lemma split_lines_line:
  assumes "\<And>c. c \<in> set l \<Longrightarrow> \<not> line_break c"
  shows "split_lines acc False (l @ newline # cs) = (acc @ l) # split_lines [] False cs"
  using assms
proof (induction l arbitrary: acc)
  case Nil
  then show ?case by (simp add: newline_def line_break_def)
next
  case (Cons c l)
  then have "split_lines (acc @ [c]) False (l @ newline # cs) = ((acc @ [c]) @ l) # split_lines [] False cs" by simp
  with Cons.prems [of c] show ?case by simp
qed

lemma split_lines_stream:
  assumes "\<And>l c. l \<in> set ls \<Longrightarrow> c \<in> set l \<Longrightarrow> \<not> line_break c"
  shows "split_lines [] False (concat (map (\<lambda>l. l @ [newline]) ls) @ cs) = ls @ split_lines [] False cs"
  using assms
proof (induction ls)
  case (Cons l ls)
  have "split_lines [] False (l @ newline # (concat (map (\<lambda>l. l @ [newline]) ls) @ cs)) =
      l # split_lines [] False (concat (map (\<lambda>l. l @ [newline]) ls) @ cs)"
    using Cons.prems by (subst split_lines_line) auto
  moreover have "split_lines [] False (concat (map (\<lambda>l. l @ [newline]) ls) @ cs) = ls @ split_lines [] False cs"
    using Cons.prems by (intro Cons.IH) auto
  ultimately show ?case by simp
qed simp

definition data_line :: "string \<Rightarrow> string" where
  "data_line t = DATA_FIELD @ '' '' @ t"

text \<open>An event as a server writes it: other fields, the lines of the data, and an empty line.\<close>

definition event_stream :: "string list \<Rightarrow> string list \<Rightarrow> string" where
  "event_stream other data = concat (map (\<lambda>l. l @ [newline]) (other @ map data_line data @ [[]]))"

lemma sse_skips: "(\<And>l. l \<in> set ls \<Longrightarrow> l \<noteq> [] \<and> \<not> prefix DATA_FIELD l) \<Longrightarrow>
    sse_scan env n acc (ls @ rest) = sse_scan env n acc rest"
  by (induction ls arbitrary: acc) auto

lemma data_line_read: "strip t = t \<Longrightarrow> strip (drop (length DATA_FIELD) (data_line t)) = t"
  by (simp add: data_line_def strip_def strip_by_def is_space_def)

lemma sse_collects:
  "(\<And>t. t \<in> set data \<Longrightarrow> strip t = t) \<Longrightarrow>
    sse_scan env n acc (map data_line data @ rest) = sse_scan env n (acc @ data) rest"
proof (induction data arbitrary: acc)
  case (Cons t data)
  have "data_line t \<noteq> []" "prefix DATA_FIELD (data_line t)" by (simp_all add: data_line_def DATA_FIELD_def)
  with Cons show ?case by (simp add: data_line_read)
qed simp

lemma data_line_unbroken: "(\<And>c. c \<in> set t \<Longrightarrow> \<not> line_break c) \<Longrightarrow> c \<in> set (data_line t) \<Longrightarrow> \<not> line_break c"
  by (auto simp: data_line_def DATA_FIELD_def line_break_def)

text \<open>C11. Reading an event stream gives back what was written: the lines of data of the first event, joined by
  line ends, whatever follows the event. The fields before the data are other ones and not empty, the
  lines of data begin and end with no blank, and no line has a character that ends lines for
  \<open>str.splitlines\<close>.\<close>

theorem event_read_back:
  assumes "data \<noteq> []" and "\<And>t c. t \<in> set (other @ data) \<Longrightarrow> c \<in> set t \<Longrightarrow> \<not> line_break c"
    and "\<And>t. t \<in> set data \<Longrightarrow> strip t = t" and "\<And>l. l \<in> set other \<Longrightarrow> l \<noteq> [] \<and> \<not> prefix DATA_FIELD l"
    and "he_decode env body = Inr (event_stream other data @ rest)" and "he_loads env (join [newline] data) = Inr (PDict d)"
    and "body \<noteq> []"
  shows "parse_http_response_body env \<lparr>hp_status = status, hp_content_type = ''text/event-stream'', hp_body = body\<rparr> n = Inr d"
proof -
  have data: "t \<in> set data \<Longrightarrow> c \<in> set (data_line t) \<Longrightarrow> \<not> line_break c" for t c
    by (rule data_line_unbroken [OF assms(2)]) auto
  have "l \<in> set (other @ map data_line data @ [[]]) \<Longrightarrow> c \<in> set l \<Longrightarrow> \<not> line_break c" for l c
    using assms(2) [of l c] data [of _ c] by auto
  then have "split_lines [] False (concat (map (\<lambda>l. l @ [newline]) (other @ map data_line data @ [[]])) @ rest) =
      (other @ map data_line data @ [[]]) @ split_lines [] False rest"
    by (rule split_lines_stream)
  then have lines: "split_lines [] False (event_stream other data @ rest) = other @ map data_line data @ [[]] @ split_lines [] False rest"
    unfolding event_stream_def by (simp only: append_assoc)
  have "sse_scan env n [] (other @ map data_line data @ [[]] @ split_lines [] False rest) = Inr d"
    using assms(1,6) by (simp add: sse_skips [OF assms(4)] sse_collects [OF assms(3)] DATA_FIELD_def)
  moreover have "prefix ''text/event-stream'' (lower ''text/event-stream'')" by code_simp
  ultimately show ?thesis
    using assms(5,7) by (simp add: parse_http_response_body_def parse_sse_response_def lines)
qed

section \<open>A client at work\<close>

text \<open>
  A server that wants a session, sends its answers as events, and is unavailable once before it answers a
  call. The bodies are read by a decoder for the identifiers they hold.
\<close>

definition demo_http_upstream :: upstream_config where
  "demo_http_upstream = result_of (upstream_from_mapping os_identity Inr runtime_example ''remote''
     [(''command'', PStr ''https://remote''), (''transport'', PStr ''http''),
      (''health'', PDict [(''http_retry_attempts'', PInt 2), (''http_retry_backoff_seconds'', PInt 1)])])"

definition demo_http_server :: "http_request list \<Rightarrow> http_outcome" where
  "demo_http_server rs = (case rs of
     [] \<Rightarrow> ReplyTimeout
   | r # earlier \<Rightarrow>
       if rpc_name r = PStr ''initialize''
       then Reply \<lparr>hp_status = 200, hp_content_type = ''text/event-stream'', hp_body = ''greeting''\<rparr> (Some ''s1'')
       else if rpc_name r = PStr ''notifications/initialized''
       then Reply \<lparr>hp_status = 202, hp_content_type = [], hp_body = []\<rparr> None
       else if length earlier = 2 then StatusFailure 503
       else Reply \<lparr>hp_status = 200, hp_content_type = ''application/json'', hp_body = ''result''\<rparr> None)"

definition demo_http_env :: http_env where
  "demo_http_env = \<lparr>he_server = demo_http_server, he_environ = (\<lambda>n. None), he_read_secret = (\<lambda>p. None),
     he_decode = (\<lambda>b. Inr (if b = ''greeting'' then event_stream [''event: message''] [''0''] else ''1'')),
     he_loads = (\<lambda>t. if t = ''0'' then Inr (PDict [(''id'', PInt 0), (''result'', PDict [])])
       else if t = ''1'' then Inr (PDict [(''id'', PInt 1), (''result'', PDict [(''ok'', PBool True)])])
       else Inl (Exn JSONDecodeError ''Expecting value'')), he_version = ''1.0''\<rparr>"

definition demo_http_call :: "(exn + pydict) \<times> http_upstream_client" where
  "demo_http_call = http_call_tool demo_http_env \<lparr>mc_current = [], mc_broker = []\<rparr> ''search'' [(''q'', PInt 1)] 5
     (new_http_client demo_http_upstream)"

lemma demo_http_answered: "fst demo_http_call = Inr [(''ok'', PBool True)]"
  by code_simp

definition demo_http_start :: http_upstream_client where
  "demo_http_start = new_http_client demo_http_upstream"

lemma demo_http_run:
  "http_call_tool demo_http_env \<lparr>mc_current = [], mc_broker = []\<rparr> ''search'' [(''q'', PInt 1)] 5 demo_http_start =
     (Inr [(''ok'', PBool True)], snd demo_http_call)"
  using demo_http_answered by (simp add: demo_http_call_def demo_http_start_def prod_eq_iff)

lemma demo_http_reached:
  "reachable_from (\<lambda>s. s = new_http_client demo_http_upstream) (http_step demo_http_env) demo_http_start"
  "reachable_from (\<lambda>s. s = new_http_client demo_http_upstream) (http_step demo_http_env) (snd demo_http_call)"
proof -
  show start: "reachable_from (\<lambda>s. s = new_http_client demo_http_upstream) (http_step demo_http_env) demo_http_start"
    by (rule reachable_from.start) (simp add: demo_http_start_def)
  show "reachable_from (\<lambda>s. s = new_http_client demo_http_upstream) (http_step demo_http_env) (snd demo_http_call)"
    by (rule reachable_from.step [OF start call_step [OF demo_http_run]])
qed

theorem http_protocol_order_witness:
  "handshake_first (hc_requests (snd demo_http_call)) \<and> session_kept demo_http_env (hc_requests (snd demo_http_call))"
  using http_protocol_order [OF demo_http_reached(2)] by blast


theorem http_retries_limited_witness:
  "length (hc_requests (snd demo_http_call)) \<le> 9"
proof -
  have "http_retry_attempts (up_health demo_http_upstream) = 2" by code_simp
  moreover have "hc_requests demo_http_start = []" "hc_initialized demo_http_start = False"
      "hc_upstream demo_http_start = demo_http_upstream" by (simp_all add: demo_http_start_def new_http_client_def)
  ultimately show ?thesis using http_retries_limited [OF demo_http_run refl refl] by simp
qed

theorem event_read_back_witness:
  "parse_http_response_body demo_http_env
     \<lparr>hp_status = 200, hp_content_type = ''text/event-stream'', hp_body = ''greeting''\<rparr> ''remote'' =
   Inr [(''id'', PInt 0), (''result'', PDict [])]"
proof (rule event_read_back [where other = "[''event: message'']" and data = "[''0'']" and rest = "[]"])
  show "\<not> line_break c" if "t \<in> set ([''event: message''] @ [''0''])" "c \<in> set t" for t c
    using that by (auto simp: line_break_def)
  show "strip t = t" if "t \<in> set [''0'']" for t using that by (simp, code_simp)
qed (simp_all add: demo_http_env_def DATA_FIELD_def join_def)

section \<open>What the client does not do\<close>

text \<open>A session that has expired is not renewed: the client stays initialized and sends the same session again.\<close>

lemma expired_session_not_renewed:
  assumes "hc_initialized s" and "\<And>rs. he_server env rs = StatusFailure 404"
    and "http_call_tool env c tool arguments timeout s = (outcome, t)"
  shows "hc_initialized t \<and> hc_session_id t = hc_session_id s"
proof -
  let ?I = "\<lambda>t. hc_initialized t \<and> hc_session_id t = hc_session_id s"
  have "preserves ?I (http_post_once env p timeout)" for p timeout
    by (rule preservesI) (auto simp: post_once_outcome Let_def sent_state_def after_reply_def assms(2) split: sum.split)
  then have "preserves ?I (http_post env p timeout)" for p timeout by (rule preserves_post) simp
  then have post: "preserves ?I (post_jsonrpc env p timeout i)" "preserves ?I (http_result response i)" for p timeout i response
    by (rule preserves_jsonrpc)+
  have "preserves ?I (http_jsonrpc_payload m params)" for m params by (simp add: preserves_def http_jsonrpc_payload_eq)
  then have request: "preserves ?I (posted_request env m params timeout)" for m params
    unfolding posted_request_def by (intro preserves_bind preserves_pair post)
  have "preserves ?I (recording_error (posted_request env m params timeout))" for m params
    unfolding recording_error_def
    by (intro preserves_bind preserves_catch preserves_seq preserves_modify preserves_return preserves_raise request) simp_all
  then have "?I (snd (recording_error (posted_request env ''tools/call'' (Some (http_call_params c tool arguments)) timeout) s))"
    by (rule preservesD) (simp add: assms(1))
  moreover have "http_call_tool env c tool arguments timeout s =
      recording_error (posted_request env ''tools/call'' (Some (http_call_params c tool arguments)) timeout) s"
    unfolding http_call_tool_def by (intro recording_at request_posted_initialized assms(1))
  ultimately show ?thesis unfolding assms(3) by (metis snd_conv)
qed

text \<open>
  A server may send notifications before its response in the same stream. The client takes the first
  event for the response, so the call fails although it was answered.
\<close>

definition notifying_env :: http_env where
  "notifying_env = demo_http_env\<lparr>
     he_server := (\<lambda>rs. Reply \<lparr>hp_status = 200, hp_content_type = ''text/event-stream'', hp_body = ''stream''\<rparr> None),
     he_decode := (\<lambda>b. Inr (event_stream [] [''progress''] @ event_stream [] [''1''])),
     he_loads := (\<lambda>t. if t = ''progress'' then Inr (PDict [(''method'', PStr ''notifications/progress'')]) else he_loads demo_http_env t)\<rparr>"

lemma notification_hides_response:
  "fst (http_call_tool notifying_env \<lparr>mc_current = [], mc_broker = []\<rparr> ''search'' [] 5
     (demo_http_start\<lparr>hc_initialized := True, hc_next_id := 1\<rparr>)) =
   Inl (http_error ''upstream returned notification only: remote'')"
  by code_simp

text \<open>
  The lines of a stream are those of \<open>str.splitlines\<close>, for which a next-line character, that JSON text may
  have inside of a string, ends a line: what follows it is lost.
\<close>

lemma next_line_cuts_data:
  "split_lines [] False (data_line [CHR 0x22, CHR 0x85, CHR 0x22] @ [newline, newline]) = [data_line [CHR 0x22], [CHR 0x22], []]"
  by code_simp

text \<open>
  The daemon gives one client to all its connection threads, without a lock. A thread that has found the
  client not initialized makes a handshake even when the call of another one has made it since, so a
  handshake follows a request; and an identifier that is read by two threads before either has counted
  it names two payloads.
\<close>

definition overtaken_client :: http_upstream_client where
  "overtaken_client = snd (http_initialize demo_http_env 5 (snd demo_http_call))"

lemma overtaken_handshake_repeated: "\<not> handshake_first (hc_requests overtaken_client)"
  by code_simp

definition overlapping_payloads :: "(int \<times> pydict) list" where
  "overlapping_payloads = (let s = new_http_client demo_http_upstream in
     [result_of (fst (http_jsonrpc_payload ''tools/call'' (Some [(''name'', PStr ''a'')]) s)),
      result_of (fst (http_jsonrpc_payload ''tools/call'' (Some [(''name'', PStr ''b'')]) s))])"

lemma overlapping_ids_equal:
  "map fst overlapping_payloads = [0, 0] \<and> distinct (map snd overlapping_payloads)"
  by (rule conjI; code_simp)

end
