(* ===== verification/Client_Release.thy ===== *)
theory Client_Release
  imports Upstream_Facts
begin

text \<open>
  No client is lost: what the daemon takes out of its registries it has stopped. The environment is
  observed: beside each operation of it runs a log of the clients its factory made and the daemon
  stopped.
\<close>

section \<open>Observing the clients\<close>

text \<open>
  The clients made, those stopped since they were made, whether a stop raised, the identifiers drawn
  for calls, and whether one of them was drawn twice.
\<close>

record client_log =
  lg_made :: "handle set"
  lg_stopped :: "handle set"
  lg_stop_raised :: bool
  lg_ids :: "string set"
  lg_id_repeated :: bool

type_synonym 'w observed = "'w \<times> client_log"

definition watched :: "('a res \<Rightarrow> client_log \<Rightarrow> client_log) \<Rightarrow> (meta_context \<times> 'w, exn, 'a) sem \<Rightarrow>
    (meta_context \<times> 'w observed, exn, 'a) sem" where
  "watched note_outcome m = (\<lambda>(c, (w, l)). case m (c, w) of (r, (c', w')) \<Rightarrow> (r, (c', (w', note_outcome r l))))"

definition unwatched :: "(meta_context \<times> 'w, exn, 'a) sem \<Rightarrow> (meta_context \<times> 'w observed, exn, 'a) sem" where
  "unwatched = watched (\<lambda>r l. l)"

definition note_made :: "handle res \<Rightarrow> client_log \<Rightarrow> client_log" where
  "note_made r l = (case r of Inr h \<Rightarrow> l\<lparr>lg_made := insert h (lg_made l), lg_stopped := lg_stopped l - {h}\<rparr>
     | Inl e \<Rightarrow> l)"

definition note_stopped :: "handle \<Rightarrow> int list res \<Rightarrow> client_log \<Rightarrow> client_log" where
  "note_stopped h r l = (case r of Inr pids \<Rightarrow> l\<lparr>lg_stopped := insert h (lg_stopped l)\<rparr>
     | Inl e \<Rightarrow> l\<lparr>lg_stop_raised := True\<rparr>)"

definition note_id :: "string res \<Rightarrow> client_log \<Rightarrow> client_log" where
  "note_id r l = (case r of Inr i \<Rightarrow> l\<lparr>lg_ids := insert i (lg_ids l),
       lg_id_repeated := lg_id_repeated l \<or> i \<in> lg_ids l\<rparr> | Inl e \<Rightarrow> l)"

definition observed :: "'w upstream_env \<Rightarrow> 'w observed upstream_env" where
  "observed env = \<lparr>ue_create_stdio = (\<lambda>u ctx name. watched note_made (ue_create_stdio env u ctx name)),
     ue_stdio_call = (\<lambda>h tool args t. unwatched (ue_stdio_call env h tool args t)),
     ue_stdio_list = (\<lambda>h t. unwatched (ue_stdio_list env h t)),
     ue_stdio_stop = (\<lambda>h. watched (note_stopped h) (ue_stdio_stop env h)),
     ue_stdio_status = (\<lambda>h w. ue_stdio_status env h (fst w)),
     ue_stdio_idle = (\<lambda>h now w. ue_stdio_idle env h now (fst w)), ue_stdio_upstream = ue_stdio_upstream env,
     ue_stdio_health = (\<lambda>h. unwatched (ue_stdio_health env h)),
     ue_stdio_ensure_running = (\<lambda>h. unwatched (ue_stdio_ensure_running env h)),
     ue_create_http = (\<lambda>u. unwatched (ue_create_http env u)),
     ue_http_call = (\<lambda>h tool args t. unwatched (ue_http_call env h tool args t)),
     ue_http_list = (\<lambda>h t. unwatched (ue_http_list env h t)),
     ue_http_health = (\<lambda>h. unwatched (ue_http_health env h)),
     ue_write_log = (\<lambda>e d. unwatched (ue_write_log env e d)),
     ue_call_id = watched note_id (ue_call_id env)\<rparr>"

lemma observed_simps [simp]:
  "ue_create_stdio (observed env) u ctx name = watched note_made (ue_create_stdio env u ctx name)"
  "ue_stdio_call (observed env) h tool args t = unwatched (ue_stdio_call env h tool args t)"
  "ue_stdio_list (observed env) h t = unwatched (ue_stdio_list env h t)"
  "ue_stdio_stop (observed env) h = watched (note_stopped h) (ue_stdio_stop env h)"
  "ue_create_http (observed env) u = unwatched (ue_create_http env u)"
  "ue_http_call (observed env) h tool args t = unwatched (ue_http_call env h tool args t)"
  "ue_http_list (observed env) h t = unwatched (ue_http_list env h t)"
  "ue_write_log (observed env) e d = unwatched (ue_write_log env e d)"
  "ue_call_id (observed env) = watched note_id (ue_call_id env)"
  by (simp_all add: observed_def)

abbreviation log_of :: "'w observed registry \<Rightarrow> client_log" where
  "log_of s \<equiv> snd (rg_world s)"

text \<open>A predicate on the clients and the log that nothing else of the registries enters.\<close>

definition logged :: "('w observed registry \<Rightarrow> bool) \<Rightarrow> bool" where
  "logged P \<longleftrightarrow> (\<forall>s w h d. P (s\<lparr>rg_world := (w, log_of s)\<rparr>) = P s \<and> P (s\<lparr>rg_http := h\<rparr>) = P s \<and>
     P (s\<lparr>rg_repair := d\<rparr>) = P s)"

lemma triple_watched:
  assumes "\<And>c s x w. P s \<Longrightarrow> Q x (c, s\<lparr>rg_world := (w, note_outcome (Inr x) (log_of s))\<rparr>)"
    and "\<And>c s e w. P s \<Longrightarrow> E e (c, s\<lparr>rg_world := (w, note_outcome (Inl e) (log_of s))\<rparr>)"
  shows "triple (on_reg P) (on_world (watched note_outcome m)) Q E"
proof (rule tripleI)
  fix d r d'
  assume P: "on_reg P d" and run: "on_world (watched note_outcome m) d = (r, d')"
  obtain c s w l where d: "d = (c, s)" "rg_world s = (w, l)" by (cases d) (metis prod.exhaust)
  obtain x c' w' where m: "m (c, w) = (x, (c', w'))" by (metis prod.exhaust)
  from run have "r = x" "d' = (c', s\<lparr>rg_world := (w', note_outcome x (log_of s))\<rparr>)"
    by (auto simp: d m on_world_def watched_def)
  with P d(1) assms [of s] d(2) [THEN arg_cong [where f = snd]] show "case r of Inr x \<Rightarrow> Q x d' | Inl e \<Rightarrow> E e d'" by (cases x) auto
qed

lemma preserves_unwatched: "logged P \<Longrightarrow> preserves (on_reg P) (on_world (unwatched m))"
  unfolding unwatched_def triple_preserves [symmetric] by (rule triple_watched) (auto simp: logged_def)

section \<open>The log and the registries\<close>

definition registered :: "'w registry \<Rightarrow> handle set" where
  "registered s = snd ` set (rg_stdio s) \<union> snd ` snd ` set (rg_per_call s)"

text \<open>\<open>H\<close> are clients in the hands of an operation that is about to stop them.\<close>

definition kept_with :: "handle set \<Rightarrow> 'w observed registry \<Rightarrow> bool" where
  "kept_with H s \<longleftrightarrow> lg_stop_raised (log_of s) \<or> lg_id_repeated (log_of s) \<or>
     (lg_made (log_of s) \<subseteq> registered s \<union> lg_stopped (log_of s) \<union> H \<and>
      distinct (map fst (rg_stdio s)) \<and> distinct (map fst (rg_per_call s)) \<and>
      fst ` set (rg_per_call s) \<subseteq> lg_ids (log_of s))"

abbreviation none_lost :: "'w observed registry \<Rightarrow> bool" where
  "none_lost \<equiv> kept_with {}"

lemma kept_with_logged: "logged (kept_with H)"
  by (simp add: logged_def kept_with_def registered_def)

lemma registered_world [simp]: "registered (s\<lparr>rg_world := w\<rparr>) = registered s"
  by (simp add: registered_def)

lemma kept_with_mono: "kept_with H s \<Longrightarrow> H \<subseteq> H' \<Longrightarrow> kept_with H' s"
  by (auto simp: kept_with_def)

lemma kept_stop:
  "triple (on_reg (kept_with (insert h H))) (on_world (ue_stdio_stop (observed env) h))
     (\<lambda>_. on_reg (\<lambda>s. kept_with H s \<and> (lg_stop_raised (log_of s) \<or> h \<in> lg_stopped (log_of s)))) (\<lambda>_. on_reg none_lost)"
  unfolding observed_simps
  by (rule triple_watched) (auto simp: kept_with_def note_stopped_def)

lemma kept_stop_clients:
  "triple (on_reg (kept_with (snd ` set cs))) (stop_clients (observed env) cs) (\<lambda>_. on_reg none_lost) (\<lambda>_. on_reg none_lost)"
proof (induction cs)
  case Nil
  then show ?case by (auto intro: triple_return)
next
  case (Cons c cs)
  obtain l h where c: "c = (l, h)" by (cases c)
  have "triple (on_reg (kept_with (insert h (snd ` set cs)))) (on_world (ue_stdio_stop (observed env) h))
      (\<lambda>_. on_reg (kept_with (snd ` set cs))) (\<lambda>_. on_reg none_lost)"
    by (rule triple_weaken [OF kept_stop]) (auto simp: split_def)
  then have "triple (on_reg (kept_with (snd ` set ((l, h) # cs)))) (stop_clients (observed env) ((l, h) # cs))
      (\<lambda>_. on_reg none_lost) (\<lambda>_. on_reg none_lost)"
    unfolding stop_clients.simps
    by (intro triple_bind [OF _ triple_bind [OF Cons.IH]]) (auto intro: triple_return split: prod.splits)
  then show ?case unfolding c .
qed

text \<open>Taking clients out of the registries that are stopped, or about to be.\<close>

lemma kept_removed:
  assumes "none_lost s" and "rg_world s' = rg_world s" and "set (rg_per_call s') \<subseteq> set (rg_per_call s)"
    and "distinct (map fst (rg_stdio s)) \<Longrightarrow> distinct (map fst (rg_stdio s'))"
    and "distinct (map fst (rg_per_call s)) \<Longrightarrow> distinct (map fst (rg_per_call s'))"
    and "distinct (map fst (rg_stdio s)) \<Longrightarrow> distinct (map fst (rg_per_call s)) \<Longrightarrow>
      lg_stop_raised (log_of s) \<or> registered s \<subseteq> registered s' \<union> lg_stopped (log_of s) \<union> H"
  shows "kept_with H s'"
  using assms by (fastforce simp: kept_with_def)

section \<open>Every operation\<close>

lemma preserves_reading:
  "(\<And>x. triple (on_reg (\<lambda>s. P s \<and> f s = x)) (F x) (\<lambda>_. on_reg P) (\<lambda>_. on_reg P)) \<Longrightarrow>
     preserves (on_reg P) (bindS (reg_get f) F)"
  unfolding triple_preserves [symmetric] by (fastforce simp: triple_def reg_get_def bindS_def split: prod.splits)

lemmas kept_intros = preserves_intros preserves_unwatched [OF kept_with_logged]

lemma logged_repair:
  "logged P \<Longrightarrow> preserves (on_reg P) (record_auth_repair_attempt n)"
  "logged P \<Longrightarrow> preserves (on_reg P) (record_auth_repair_success n)"
  "logged P \<Longrightarrow> preserves (on_reg P) (record_auth_repair_failure n)"
  unfolding record_auth_repair_attempt_def record_auth_repair_success_def record_auth_repair_failure_def record_repair_def
  by (intro preserves_intros preserves_reg_put; simp add: logged_def)+

lemma logged_repaired_call:
  "logged P \<Longrightarrow> preserves (on_reg P) (call_stdio_client_or_repair (observed env) cfg client n tool arguments t)"
  unfolding call_stdio_client_or_repair_def observed_simps
  by (intro preserves_intros preserves_unwatched logged_repair)

lemmas none_lost_repaired_call = logged_repaired_call [OF kept_with_logged]

lemma none_lost_event: "preserves (on_reg none_lost) (write_upstream_event (observed env) e n d)"
  unfolding write_upstream_event_def observed_simps by (intro kept_intros)

lemma none_lost_stdio_client: "preserves (on_reg none_lost) (stdio_client (observed env) cfg n sid ctx)"
proof -
  have made: "triple (on_reg (\<lambda>s. none_lost s \<and> map_of (rg_stdio s) k = None))
      (on_world (ue_create_stdio (observed env) u ctx None))
      (\<lambda>h. on_reg (\<lambda>s. none_lost (s\<lparr>rg_stdio := AList.update k h (rg_stdio s)\<rparr>))) (\<lambda>_. on_reg none_lost)" for u k
    unfolding observed_simps
    by (rule triple_watched)
      (auto simp: kept_with_def note_made_def registered_def update_new map_of_eq_None_iff)
  have create: "triple (on_reg (\<lambda>s. none_lost s \<and> map_of (rg_stdio s) k = x)) (case x of Some client \<Rightarrow> returnS client
      | None \<Rightarrow> bindS (on_world (ue_create_stdio (observed env) u ctx None)) (\<lambda>client.
          seqS (reg_put (\<lambda>s. s\<lparr>rg_stdio := AList.update k client (rg_stdio s)\<rparr>)) (returnS client)))
      (\<lambda>_. on_reg none_lost) (\<lambda>_. on_reg none_lost)" for x u k
  proof (cases x)
    case None
    show ?thesis
      unfolding None option.case
      by (rule triple_bind [OF made]) (intro triple_seq [where R = "on_reg none_lost"] triple_put triple_return; simp)
  qed (auto intro: triple_return)
  show ?thesis
    unfolding stdio_client_def
    by (intro kept_intros preserves_reading [OF create] preserves_raise)
qed

lemma none_lost_per_call_client: "preserves (on_reg none_lost) (per_call_stdio_client (observed env) cfg n ctx)"
proof -
  let ?fresh = "\<lambda>i s. none_lost s \<and> (lg_id_repeated (log_of s) \<or> lg_stop_raised (log_of s) \<or>
    i \<notin> fst ` set (rg_per_call s) \<and> i \<in> lg_ids (log_of s))"
  have drawn: "triple (on_reg none_lost) (on_world (ue_call_id (observed env))) (\<lambda>i. on_reg (?fresh i)) (\<lambda>_. on_reg none_lost)"
    unfolding observed_simps by (rule triple_watched) (auto simp: kept_with_def note_id_def)
  have made: "triple (on_reg (?fresh i)) (on_world (ue_create_stdio (observed env) u ctx name))
      (\<lambda>h. on_reg (\<lambda>s. none_lost (s\<lparr>rg_per_call := AList.update i (n, h) (rg_per_call s)\<rparr>))) (\<lambda>_. on_reg none_lost)"
    for i u name
    unfolding observed_simps
    by (rule triple_watched)
      (auto simp: kept_with_def note_made_def registered_def update_new image_Un, force+)
  have create: "triple (on_reg (?fresh i)) (bindS (reg_get rg_shutdown) (\<lambda>shutdown.
        if shutdown then raiseS shutting_down
        else bindS (on_world (ue_create_stdio (observed env) u ctx (Some (up_name u @ ''.call.'' @ i)))) (\<lambda>client.
          seqS (reg_put (\<lambda>s. s\<lparr>rg_per_call := AList.update i (n, client) (rg_per_call s)\<rparr>)) (returnS (i, client)))))
      (\<lambda>_. on_reg none_lost) (\<lambda>_. on_reg none_lost)" for i u
    by (rule triple_bind [where R = "\<lambda>_. on_reg (?fresh i)", OF triple_get], simp,
        intro triple_if triple_raise triple_bind [OF made] triple_seq [where R = "on_reg none_lost"] triple_put triple_return;
        auto)
  have main: "preserves (on_reg none_lost) (bindS (on_world (ue_call_id (observed env))) (\<lambda>i. bindS (reg_get rg_shutdown) (\<lambda>shutdown.
        if shutdown then raiseS shutting_down
        else bindS (on_world (ue_create_stdio (observed env) u ctx (Some (up_name u @ ''.call.'' @ i)))) (\<lambda>client.
          seqS (reg_put (\<lambda>s. s\<lparr>rg_per_call := AList.update i (n, client) (rg_per_call s)\<rparr>)) (returnS (i, client))))))" for u
    unfolding triple_preserves [symmetric] by (rule triple_bind [OF drawn create])
  show ?thesis
    unfolding per_call_stdio_client_def
    by (rule preserves_bind [OF preserves_lift], rule preserves_seq [OF preserves_lift], rule main)
qed

lemma none_lost_stop_per_call: "preserves (on_reg none_lost) (stop_per_call_stdio_client (observed env) i n h keep)"
proof -
  let ?found = "\<lambda>s. none_lost s \<and> map_of (rg_per_call s) i = Some (n, h)"
  have gone: "none_lost (s\<lparr>rg_per_call := AList.delete i (rg_per_call s)\<rparr>)"
    if found: "?found s" and stopped: "lg_stop_raised (log_of s) \<or> h \<in> lg_stopped (log_of s)" for s :: "'a observed registry"
  proof (rule kept_removed [of s])
    assume distinct: "distinct (map fst (rg_per_call s))"
    have "a \<noteq> i" if "(a, b, c) \<in> set (rg_per_call s)" "c \<noteq> h" for a b c
      using that(2) found map_of_is_SomeI [OF distinct that(1)] by (metis option.inject prod.inject)
    then have "snd ` snd ` set (rg_per_call s) \<subseteq> insert h (snd ` snd ` set (AList.delete i (rg_per_call s)))"
      by (force simp: AList.delete_eq)
    with stopped show "lg_stop_raised (log_of s) \<or> registered s \<subseteq>
        registered (s\<lparr>rg_per_call := AList.delete i (rg_per_call s)\<rparr>) \<union> lg_stopped (log_of s) \<union> {}"
      by (auto simp: registered_def)
  qed (use found in \<open>auto simp: AList.delete_eq distinct_map_filter\<close>)
  have stop: "triple (on_reg ?found) (on_world (ue_stdio_stop (observed env) h))
      (\<lambda>_. on_reg (\<lambda>s. none_lost (s\<lparr>rg_per_call := AList.delete i (rg_per_call s)\<rparr>))) (\<lambda>_. on_reg none_lost)"
    unfolding observed_simps
  proof (rule triple_watched)
    fix c :: meta_context and s :: "'a observed registry" and x w
    let ?s = "s\<lparr>rg_world := (w, note_stopped h (Inr x) (log_of s))\<rparr>"
    assume "?found s"
    then have "?found ?s" "lg_stop_raised (log_of ?s) \<or> h \<in> lg_stopped (log_of ?s)"
      by (auto simp: kept_with_def note_stopped_def)
    from gone [OF this] show "on_reg (\<lambda>s. none_lost (s\<lparr>rg_per_call := AList.delete i (rg_per_call s)\<rparr>)) (c, ?s)" by simp
  qed (auto simp: kept_with_def note_stopped_def)
  have body: "preserves (on_reg none_lost) (bindS (reg_get (\<lambda>s. map_of (rg_per_call s) i)) (\<lambda>registered.
      if registered \<noteq> Some (n, h) then returnS []
      else bindS (on_world (ue_stdio_stop (observed env) h)) (\<lambda>remaining.
        seqS (reg_put (\<lambda>s. s\<lparr>rg_per_call := AList.delete i (rg_per_call s)\<rparr>)) (returnS remaining))))"
  proof (rule preserves_reading, rule triple_if)
    fix x
    assume "\<not> x \<noteq> Some (n, h)"
    then have x: "x = Some (n, h)" by simp
    show "triple (on_reg (\<lambda>s. none_lost s \<and> map_of (rg_per_call s) i = x)) (bindS (on_world (ue_stdio_stop (observed env) h))
        (\<lambda>remaining. seqS (reg_put (\<lambda>s. s\<lparr>rg_per_call := AList.delete i (rg_per_call s)\<rparr>)) (returnS remaining)))
        (\<lambda>_. on_reg none_lost) (\<lambda>_. on_reg none_lost)"
      unfolding x
      by (rule triple_bind [OF stop]) (intro triple_seq [where R = "on_reg none_lost"] triple_put triple_return; simp)
  qed (auto intro: triple_return)
  show ?thesis
    unfolding stop_per_call_stdio_client_def Let_def by (intro kept_intros none_lost_event body)
qed

lemma none_lost_with_client:
  "(\<And>h. preserves (on_reg none_lost) (body h)) \<Longrightarrow>
    preserves (on_reg none_lost) (with_per_call_client (observed env) cfg n ctx body)"
  unfolding with_per_call_client_def
  by (intro preserves_intros none_lost_per_call_client none_lost_stop_per_call) simp_all

lemma none_lost_http: "preserves (on_reg none_lost) (http_client (observed env) cfg n)"
  unfolding http_client_def observed_simps
  by (intro kept_intros preserves_reg_put; simp add: kept_with_def registered_def)

lemma none_lost_call: "preserves (on_reg none_lost) (call_upstream (observed env) cfg sid ctx n tool args t)"
  unfolding call_upstream_def call_http_upstream_def call_stdio_upstream_def call_stdio_upstream_or_repair_def observed_simps
  by (intro kept_intros none_lost_event none_lost_with_client none_lost_http none_lost_stdio_client none_lost_repaired_call)

lemma none_lost_list: "preserves (on_reg none_lost) (list_upstream (observed env) cfg sid ctx n t)"
  unfolding list_upstream_def list_stdio_upstream_def observed_simps
  by (intro kept_intros none_lost_event none_lost_with_client none_lost_http none_lost_stdio_client)

section \<open>Shutdown, the end of a session and the janitor\<close>

lemma set_sort_pairs: "snd ` set (map (\<lambda>(k, c). (f k, c)) (sort_key g d)) = snd ` set d"
  by (force simp: image_iff)

lemma kept_http: "kept_with H (s\<lparr>rg_http := d\<rparr>) = kept_with H s"
  by (simp add: kept_with_def registered_def)

lemma kept_stop_then:
  "triple (on_reg (kept_with (snd ` set cs)))
     (bindS (stop_clients (observed env) cs) (\<lambda>(labels, pids). seqS (reg_put (\<lambda>s. s\<lparr>rg_http := d s\<rparr>)) (returnS (f labels pids))))
     (\<lambda>_. on_reg none_lost) (\<lambda>_. on_reg none_lost)"
  by (rule triple_bind [OF kept_stop_clients])
    (auto intro!: triple_seq [where R = "on_reg none_lost"] triple_put triple_return simp: kept_http split: prod.splits)

lemma kept_shutdown:
  assumes "none_lost s" and "map (\<lambda>(k, c). (stdio_client_name k, c)) (sort_key f (rg_stdio s)) @
      map (\<lambda>(i, n, c). (n @ '':call:'' @ i, c)) (sort_key g (rg_per_call s)) = cs"
  shows "kept_with (snd ` set cs) (s\<lparr>rg_shutdown := True, rg_stdio := [], rg_per_call := []\<rparr>)"
proof -
  have "registered s \<subseteq> snd ` set cs" unfolding assms(2) [symmetric] by (force simp: registered_def image_iff)
  then show ?thesis by (intro kept_removed [OF assms(1)]) auto
qed

lemma kept_session:
  assumes "none_lost s" and "sort_key f (filter (\<lambda>(k, c). key_session k = Some sid) (rg_stdio s)) = cs"
  shows "kept_with (snd ` set cs) (s\<lparr>rg_stdio := filter (\<lambda>(k, c). key_session k \<noteq> Some sid) (rg_stdio s)\<rparr>)"
proof -
  let ?s = "s\<lparr>rg_stdio := filter (\<lambda>(k, c). key_session k \<noteq> Some sid) (rg_stdio s)\<rparr>"
  have "registered s \<subseteq> registered ?s \<union> snd ` set cs"
    unfolding assms(2) [symmetric] by (force simp: registered_def image_iff)
  then show ?thesis by (intro kept_removed [OF assms(1)]) (auto simp: distinct_map_filter)
qed

lemma none_lost_shutdown: "preserves (on_reg none_lost) (shutdown_upstreams (observed env))"
  unfolding shutdown_upstreams_def
proof (rule preserves_reading, rule triple_seq)
  fix x
  let ?clients = "\<lambda>s. map (\<lambda>(k, c). (stdio_client_name k, c)) (sort_key (\<lambda>(k, c). key_str k) (rg_stdio s)) @
    map (\<lambda>(i, n, c). (n @ '':call:'' @ i, c)) (sort_key fst (rg_per_call s))"
  show "triple (on_reg (\<lambda>s. none_lost s \<and> ?clients s = x)) (reg_put (\<lambda>s. s\<lparr>rg_shutdown := True, rg_stdio := [], rg_per_call := []\<rparr>))
      (\<lambda>_. on_reg (kept_with (snd ` set x))) (\<lambda>_. on_reg none_lost)"
    by (rule triple_put, simp only: split_conv, elim conjE, rule kept_shutdown)
  show "triple (on_reg (kept_with (snd ` set x))) (bindS (stop_clients (observed env) x) (\<lambda>(labels, pids).
      seqS (reg_put (\<lambda>s. s\<lparr>rg_http := []\<rparr>)) (returnS (shutdown_report labels pids))))
      (\<lambda>_. on_reg none_lost) (\<lambda>_. on_reg none_lost)"
    by (rule kept_stop_then)
qed

lemma none_lost_session: "preserves (on_reg none_lost) (shutdown_session_upstreams (observed env) sid)"
  unfolding shutdown_session_upstreams_def
proof (rule preserves_reading, rule triple_seq)
  fix x :: "(client_key \<times> handle) list"
  let ?of = "filter (\<lambda>(k, c). key_session k = Some sid)" and ?others = "filter (\<lambda>(k, c). key_session k \<noteq> Some sid)"
  show "triple (on_reg (\<lambda>s. none_lost s \<and> sort_key (\<lambda>(k, c). key_str k) (?of (rg_stdio s)) = x))
      (reg_put (\<lambda>s. s\<lparr>rg_stdio := ?others (rg_stdio s)\<rparr>)) (\<lambda>_. on_reg (kept_with (snd ` set x))) (\<lambda>_. on_reg none_lost)"
    by (rule triple_put, simp only: split_conv, elim conjE, rule kept_session)
  have "triple (on_reg (kept_with (snd ` set (map (\<lambda>(k, c). (stdio_client_name k, c)) x))))
      (bindS (stop_clients (observed env) (map (\<lambda>(k, c). (stdio_client_name k, c)) x)) (\<lambda>(labels, pids). returnS (shutdown_report labels pids)))
      (\<lambda>_. on_reg none_lost) (\<lambda>_. on_reg none_lost)"
    by (rule triple_bind [OF kept_stop_clients]) (auto intro: triple_return split: prod.splits)
  moreover have "snd ` set (map (\<lambda>(k, c). (stdio_client_name k, c)) x) = snd ` set x" by (force simp: image_iff)
  ultimately show "triple (on_reg (kept_with (snd ` set x)))
      (bindS (stop_clients (observed env) (map (\<lambda>(k, c). (stdio_client_name k, c)) x)) (\<lambda>(labels, pids). returnS (shutdown_report labels pids)))
      (\<lambda>_. on_reg none_lost) (\<lambda>_. on_reg none_lost)" by simp
qed

abbreviation stopped_client :: "handle \<Rightarrow> 'w observed registry \<Rightarrow> bool" where
  "stopped_client h s \<equiv> none_lost s \<and> (lg_stop_raised (log_of s) \<or> h \<in> lg_stopped (log_of s))"

lemma none_lost_evict: "triple (on_reg (stopped_client h)) (evict k h) (\<lambda>_. on_reg none_lost) (\<lambda>_. on_reg none_lost)"
proof (rule tripleI)
  fix d r d'
  assume "on_reg (stopped_client h) (d :: 'a observed daemon_state)" and run: "evict k h d = (r, d')"
  then obtain c s where d: "d = (c, s)" and s: "stopped_client h s" by (cases d) auto
  have "none_lost (s\<lparr>rg_stdio := AList.delete k (rg_stdio s)\<rparr>)" if found: "map_of (rg_stdio s) k = Some h"
  proof (rule kept_removed [of s])
    assume distinct: "distinct (map fst (rg_stdio s))"
    have "a \<noteq> k" if "(a, b) \<in> set (rg_stdio s)" "b \<noteq> h" for a b
      using that(2) found map_of_is_SomeI [OF distinct that(1)] by (metis option.inject)
    then have "snd ` set (rg_stdio s) \<subseteq> insert h (snd ` set (AList.delete k (rg_stdio s)))"
      by (force simp: AList.delete_eq)
    with s show "lg_stop_raised (log_of s) \<or> registered s \<subseteq>
        registered (s\<lparr>rg_stdio := AList.delete k (rg_stdio s)\<rparr>) \<union> lg_stopped (log_of s) \<union> {}"
      by (auto simp: registered_def)
  qed (use s in \<open>auto simp: AList.delete_eq distinct_map_filter\<close>)
  with run s show "case r of Inr x \<Rightarrow> on_reg none_lost d' | Inl e \<Rightarrow> on_reg none_lost d'"
    by (auto simp: d evict_apply split: if_splits)
qed

lemma none_lost_reap_clients: "preserves (on_reg none_lost) (reap_clients (observed env) now cs)"
proof (induction cs)
  case (Cons kc cs)
  obtain k h where kc: "kc = (k, h)" by (cases kc)
  have stop: "triple (on_reg none_lost) (on_world (ue_stdio_stop (observed env) h)) (\<lambda>_. on_reg (stopped_client h)) (\<lambda>_. on_reg none_lost)"
    by (rule triple_weaken [OF kept_stop [of h "{}"]]) (auto intro: kept_with_mono)
  have "preserves (on_reg none_lost) (bindS (on_world (ue_stdio_stop (observed env) h)) (\<lambda>remaining.
      bindS (evict k h) (\<lambda>evicted. bindS (reap_clients (observed env) now cs) (\<lambda>reaped.
        returnS (if evicted then (k, h, remaining, event) # reaped else reaped)))))" for event
    unfolding triple_preserves [symmetric]
    by (rule triple_bind [OF stop], rule triple_bind [OF none_lost_evict], unfold triple_preserves)
      (intro preserves_bind Cons.IH preserves_return)
  then show ?case
    unfolding kc reap_clients.simps
    by (intro preserves_bind [OF preserves_reg_get] preserves_option Cons.IH)
qed simp

lemma none_lost_janitor: "preserves (on_reg none_lost) (reap_idle_upstreams (observed env) now)"
proof -
  have "preserves (on_reg none_lost) (log_reaped (observed env) rs)" for rs :: "reaped list"
    by (induction rs) (auto intro!: preserves_seq preserves_unwatched [OF kept_with_logged])
  then show ?thesis
    unfolding reap_idle_upstreams_def by (intro kept_intros none_lost_reap_clients)
qed

section \<open>No client is lost\<close>

text \<open>Everything that can happen to the registries; the environment changes its world, not the log.\<close>

inductive observed_step :: "'w upstream_env \<Rightarrow> broker_config \<Rightarrow> 'w observed daemon_state \<Rightarrow> 'w observed daemon_state \<Rightarrow> bool"
  for env cfg where
  call: "observed_step env cfg s (snd (call_upstream (observed env) cfg sid ctx n tool args t s))"
| listing: "observed_step env cfg s (snd (list_upstream (observed env) cfg sid ctx n t s))"
| janitor: "observed_step env cfg s (snd (reap_idle_upstreams (observed env) now s))"
| close_session: "observed_step env cfg s (snd (shutdown_session_upstreams (observed env) sid s))"
| shutdown: "observed_step env cfg s (snd (shutdown_upstreams (observed env) s))"
| environment: "observed_step env cfg (m, s) (m', s\<lparr>rg_world := (w, log_of s)\<rparr>)"

definition no_log :: client_log where
  "no_log = \<lparr>lg_made = {}, lg_stopped = {}, lg_stop_raised = False, lg_ids = {}, lg_id_repeated = False\<rparr>"

definition observed_start :: "'w observed daemon_state \<Rightarrow> bool" where
  "observed_start = (\<lambda>(m, s). fresh_daemon (m, s) \<and> log_of s = no_log)"

interpretation releases: transition_system observed_start "observed_step env cfg" "on_reg none_lost"
  for env :: "'w upstream_env" and cfg
proof unfold_locales
  fix s t :: "'w observed daemon_state"
  show "on_reg none_lost s" if "observed_start s"
    using that by (auto simp: observed_start_def fresh_daemon_def no_log_def kept_with_def)
  show "on_reg none_lost t" if "on_reg none_lost s" "observed_step env cfg s t"
    using that(2)
  proof (cases rule: observed_step.cases)
    case (environment m s' m' w)
    then show ?thesis using that(1) kept_with_logged [of "{}"] by (auto simp: logged_def)
  qed (use that(1) in \<open>auto intro!: preservesD [OF none_lost_call] preservesD [OF none_lost_list]
      preservesD [OF none_lost_janitor] preservesD [OF none_lost_session] preservesD [OF none_lost_shutdown]\<close>)
qed

text \<open>C5. No client is lost: whatever operations the daemon has run, one after the other, and whatever its
  environment answers, each client that its factory made is registered, or has been stopped since. This
  holds until a stop raises, which may end a shutdown halfway, or an identifier of a call comes twice.
\<close>

theorem no_client_lost:
  assumes "reachable_from observed_start (observed_step env cfg) (m, s)"
  shows "lg_stop_raised (log_of s) \<or> lg_id_repeated (log_of s) \<or>
    (\<forall>h \<in> lg_made (log_of s). h \<in> lg_stopped (log_of s) \<or> (\<exists>k. map_of (rg_stdio s) k = Some h) \<or>
       (\<exists>i n. map_of (rg_per_call s) i = Some (n, h)))"
proof -
  have kept: "none_lost s" using releases.reachable_inv [OF assms] by simp
  show ?thesis
  proof (cases "lg_stop_raised (log_of s) \<or> lg_id_repeated (log_of s)")
    case False
    with kept have made: "lg_made (log_of s) \<subseteq> registered s \<union> lg_stopped (log_of s)"
      and distinct: "distinct (map fst (rg_stdio s))" "distinct (map fst (rg_per_call s))"
      by (auto simp: kept_with_def)
    have "(\<exists>k. map_of (rg_stdio s) k = Some h) \<or> (\<exists>i n. map_of (rg_per_call s) i = Some (n, h))"
      if "h \<in> registered s" for h
      using that map_of_is_SomeI [OF distinct(1)] map_of_is_SomeI [OF distinct(2)]
      by (auto simp: registered_def; blast)
    with made show ?thesis by blast
  qed auto
qed

section \<open>The client of a single call\<close>

lemma triple_unwatched: "logged P \<Longrightarrow> triple (on_reg P) (on_world (unwatched m)) (\<lambda>_. on_reg P) (\<lambda>_. on_reg P)"
  unfolding triple_preserves by (rule preserves_unwatched)

abbreviation all_stopped :: "'w observed registry \<Rightarrow> bool" where
  "all_stopped s \<equiv> lg_made (log_of s) \<subseteq> lg_stopped (log_of s)"

abbreviation in_use :: "string \<Rightarrow> string \<Rightarrow> handle \<Rightarrow> 'w observed registry \<Rightarrow> bool" where
  "in_use i n h s \<equiv> map_of (rg_per_call s) i = Some (n, h) \<and> lg_made (log_of s) \<subseteq> {h} \<and> \<not> lg_stop_raised (log_of s)"

abbreviation untouched :: "'w observed registry \<Rightarrow> bool" where
  "untouched s \<equiv> lg_made (log_of s) = {} \<and> \<not> lg_stop_raised (log_of s)"

lemma per_call_client_in_use:
  "triple (on_reg untouched) (per_call_stdio_client (observed env) cfg n ctx)
     (\<lambda>(i, h). on_reg (in_use i n h)) (\<lambda>_. on_reg all_stopped)"
proof -
  have drawn: "triple (on_reg untouched) (on_world (ue_call_id (observed env))) (\<lambda>_. on_reg untouched) (\<lambda>_. on_reg all_stopped)"
    unfolding observed_simps by (rule triple_watched) (auto simp: note_id_def)
  have made: "triple (on_reg untouched) (on_world (ue_create_stdio (observed env) u ctx name))
      (\<lambda>h. on_reg (\<lambda>s. lg_made (log_of s) \<subseteq> {h} \<and> \<not> lg_stop_raised (log_of s))) (\<lambda>_. on_reg all_stopped)" for u name
    unfolding observed_simps by (rule triple_watched) (auto simp: note_made_def)
  show ?thesis
    unfolding per_call_stdio_client_def
    by (intro triple_bind [where R = "\<lambda>_. on_reg untouched"] triple_seq [where R = "on_reg untouched"] triple_lift
        triple_bind [OF drawn] triple_get triple_if triple_raise triple_bind [OF made]
        triple_seq [where R = "on_reg (in_use _ n _)"] triple_put triple_return) auto
qed

definition settled :: "bool \<Rightarrow> 'w observed registry \<Rightarrow> bool" where
  "settled surely s \<longleftrightarrow> (if surely then all_stopped s \<and> \<not> lg_stop_raised (log_of s)
     else all_stopped s \<or> lg_stop_raised (log_of s))"

lemma settled_logged: "logged (settled b)"
  by (simp add: logged_def settled_def)

lemma settled_weak: "settled b s \<Longrightarrow> settled False s"
  by (cases b) (simp_all add: settled_def)

lemma stop_per_call_stops:
  "triple (on_reg (in_use i n h)) (stop_per_call_stdio_client (observed env) i n h keep)
     (\<lambda>_. on_reg (settled (\<not> keep))) (\<lambda>_. on_reg (settled False))"
proof -
  have stop: "triple (on_reg (in_use i n h)) (on_world (ue_stdio_stop (observed env) h))
      (\<lambda>_. on_reg (settled True)) (\<lambda>_. on_reg (settled False))"
    unfolding observed_simps by (rule triple_watched) (auto simp: settled_def note_stopped_def)
  have body: "triple (on_reg (in_use i n h)) (bindS (reg_get (\<lambda>s. map_of (rg_per_call s) i)) (\<lambda>registered.
      if registered \<noteq> Some (n, h) then returnS []
      else bindS (on_world (ue_stdio_stop (observed env) h)) (\<lambda>remaining.
        seqS (reg_put (\<lambda>s. s\<lparr>rg_per_call := AList.delete i (rg_per_call s)\<rparr>)) (returnS remaining))))
      (\<lambda>_. on_reg (settled (\<not> keep))) (\<lambda>_. on_reg (settled False))"
  proof (rule triple_bind [where R = "\<lambda>x. on_reg (\<lambda>s. in_use i n h s \<and> x = Some (n, h))"])
    fix x
    have "triple (on_reg (settled True)) (seqS (reg_put (\<lambda>s. s\<lparr>rg_per_call := AList.delete i (rg_per_call s)\<rparr>)) (returnS rest))
        (\<lambda>_. on_reg (settled (\<not> keep))) (\<lambda>_. on_reg (settled False))" for rest :: "int list"
      by (intro triple_seq [where R = "on_reg (settled True)"] triple_put triple_return) (auto simp: settled_def)
    moreover have "triple (on_reg (\<lambda>s. in_use i n h s \<and> x = Some (n, h))) (on_world (ue_stdio_stop (observed env) h))
        (\<lambda>_. on_reg (settled True)) (\<lambda>_. on_reg (settled False))"
      by (rule triple_weaken [OF stop]) auto
    ultimately show "triple (on_reg (\<lambda>s. in_use i n h s \<and> x = Some (n, h))) (if x \<noteq> Some (n, h) then returnS []
        else bindS (on_world (ue_stdio_stop (observed env) h)) (\<lambda>remaining.
          seqS (reg_put (\<lambda>s. s\<lparr>rg_per_call := AList.delete i (rg_per_call s)\<rparr>)) (returnS remaining)))
        (\<lambda>_. on_reg (settled (\<not> keep))) (\<lambda>_. on_reg (settled False))"
      by (intro triple_if triple_bind triple_return) auto
  qed (auto intro: triple_get)
  have event: "triple (on_reg (settled b)) (catchS (write_upstream_event (observed env) e n d) (\<lambda>_. returnS ()))
      (\<lambda>_. on_reg (settled b)) (\<lambda>_. on_reg (settled False))" for b e d
    unfolding write_upstream_event_def observed_simps
    by (intro triple_catch [OF triple_unwatched [OF settled_logged]] triple_return) simp
  have caught: "triple (on_reg (settled False)) (seqS (catchS (write_upstream_event (observed env) e n d) (\<lambda>_. returnS ()))
      (if keep then returnS [] else raiseS x)) (\<lambda>_. on_reg (settled (\<not> keep))) (\<lambda>_. on_reg (settled False))" for e d x
    by (rule triple_seq [OF event]) (intro triple_if triple_return triple_raise; simp)
  show ?thesis
    unfolding stop_per_call_stdio_client_def Let_def
    by (rule triple_bind [OF triple_catch [OF body caught]]) (intro triple_if triple_return event; simp)
qed

lemma with_client_settles:
  assumes "\<And>h P. logged P \<Longrightarrow> preserves (on_reg P) (body h)"
  shows "triple (on_reg untouched) (with_per_call_client (observed env) cfg n ctx body)
    (\<lambda>_. on_reg (settled True)) (\<lambda>_. on_reg (settled False))"
proof -
  have ran: "triple (on_reg (in_use i n h)) (catchS (body h)
      (\<lambda>e. seqS (stop_per_call_stdio_client (observed env) i n h True) (raiseS e)))
      (\<lambda>_. on_reg (in_use i n h)) (\<lambda>_. on_reg (settled False))" for i h
  proof (rule triple_catch)
    show "triple (on_reg (in_use i n h)) (body h) (\<lambda>_. on_reg (in_use i n h)) (\<lambda>_. on_reg (in_use i n h))"
      unfolding triple_preserves by (rule assms) (simp add: logged_def)
    show "triple (on_reg (in_use i n h)) (seqS (stop_per_call_stdio_client (observed env) i n h True) (raiseS e))
        (\<lambda>_. on_reg (in_use i n h)) (\<lambda>_. on_reg (settled False))" for e
      by (rule triple_seq [OF stop_per_call_stops]) (intro triple_raise; auto dest: settled_weak)
  qed
  have used: "triple (on_reg (in_use i n h)) (bindS (catchS (body h)
      (\<lambda>e. seqS (stop_per_call_stdio_client (observed env) i n h True) (raiseS e)))
      (\<lambda>result. seqS (stop_per_call_stdio_client (observed env) i n h False) (returnS result)))
      (\<lambda>_. on_reg (settled True)) (\<lambda>_. on_reg (settled False))" for i h
    by (rule triple_bind [OF ran], rule triple_seq [OF stop_per_call_stops]) (intro triple_return; simp)
  have made: "triple (on_reg untouched) (per_call_stdio_client (observed env) cfg n ctx)
      (\<lambda>(i, h). on_reg (in_use i n h)) (\<lambda>_. on_reg (settled False))"
    by (rule triple_weaken [OF per_call_client_in_use]) (auto simp: settled_def)
  show ?thesis
    unfolding with_per_call_client_def
    by (rule triple_bind [OF made]) (auto intro: used split: prod.splits)
qed

text \<open>C6. A call of an upstream with one client per call leaves the registries as they were, and every client
  made for it has been stopped, whatever the call does; the shared and session clients are not
  touched. The one exception is a client whose stop raises: it stays registered, so that the shutdown
  stops it again, and the caller is told.
\<close>

theorem per_call_client_released:
  assumes "map_of (bc_upstreams cfg) n = Some u" "up_mode u = ''per_call''"
    and "call_stdio_upstream_or_repair (observed env) cfg n tool args t sid ctx (m, s) = (r, (m', s'))"
    and "\<And>call_id st. ue_call_id (observed env) (m, rg_world s) = (Inr call_id, st) \<Longrightarrow>
      call_id \<notin> fst ` set (rg_per_call s)"
    and "log_of s = no_log"
  shows "rg_stdio s' = rg_stdio s \<and> rg_shutdown s' = rg_shutdown s \<and>
    (rg_per_call s' = rg_per_call s \<or> (\<exists>e call_id h. r = Inl e \<and>
       rg_per_call s' = rg_per_call s @ [(call_id, (n, h))] \<and>
       (\<exists>st e' st'. ue_stdio_stop (observed env) h st = (Inl e', st')))) \<and>
    (lg_made (log_of s') \<subseteq> lg_stopped (log_of s') \<or> ((\<exists>e. r = Inl e) \<and> lg_stop_raised (log_of s')))"
proof -
  have "config_upstream cfg n = Inr u" using assms(1) by (simp add: config_upstream_Inr)
  then have run: "with_per_call_client (observed env) cfg n ctx
      (\<lambda>client. call_stdio_client_or_repair (observed env) cfg client n tool args t) (m, s) = (r, (m', s'))"
    using assms(2,3) by (simp add: call_stdio_upstream_or_repair_def monad_simps)
  have start: "on_reg untouched (m, s)" using assms(5) by (simp add: no_log_def)
  have settle: "triple (on_reg untouched) (with_per_call_client (observed env) cfg n ctx
      (\<lambda>client. call_stdio_client_or_repair (observed env) cfg client n tool args t))
      (\<lambda>_. on_reg (settled True)) (\<lambda>_. on_reg (settled False))"
    by (rule with_client_settles) (rule logged_repaired_call)
  have "lg_made (log_of s') \<subseteq> lg_stopped (log_of s') \<or> ((\<exists>e. r = Inl e) \<and> lg_stop_raised (log_of s'))"
  proof (cases r)
    case (Inl e)
    with tripleD_exn [OF settle start] run show ?thesis by (auto simp: settled_def)
  next
    case (Inr x)
    with tripleD [OF settle start] run show ?thesis by (auto simp: settled_def)
  qed
  moreover from run repaired_call_same assms(4) have "rg_stdio s' = rg_stdio s \<and> rg_shutdown s' = rg_shutdown s \<and>
    (rg_per_call s' = rg_per_call s \<or> (\<exists>e call_id h. r = Inl e \<and>
       rg_per_call s' = rg_per_call s @ [(call_id, (n, h))] \<and>
       (\<exists>st e' st'. ue_stdio_stop (observed env) h st = (Inl e', st'))))"
    by (rule with_per_call_client_clients)
  ultimately show ?thesis by (elim conjE) (intro conjI, assumption+)
qed

section \<open>Examples\<close>

text \<open>The example registries of two clients, reached and observed.\<close>

definition observed_registry :: "nat observed registry" where
  "observed_registry = \<lparr>rg_stdio = [], rg_per_call = [], rg_shutdown = False, rg_http = [],
     rg_repair = [], rg_world = (0, no_log)\<rparr>"

definition closed_session :: "nat observed daemon_state" where
  "closed_session = snd (shutdown_session_upstreams (observed example_env) ''a''
     (snd (call_upstream (observed example_env) clients_config (Some ''a'') [] ''web'' ''open'' [] 5
       (snd (call_upstream (observed example_env) clients_config None [] ''git'' ''log'' [] 5 (no_meta, observed_registry))))))"

lemma closed_session_eq: "closed_session = (no_meta, observed_registry\<lparr>rg_stdio := [(SharedKey ''git'', 0)],
     rg_world := (2, no_log\<lparr>lg_made := {1, 0}, lg_stopped := {1}\<rparr>)\<rparr>)"
  by code_simp

lemma reachable_observed:
  assumes "reachable_from observed_start (observed_step env cfg) s"
  shows "reachable_from observed_start (observed_step env cfg) (snd (call_upstream (observed env) cfg sid ctx n tool args t s))"
    "reachable_from observed_start (observed_step env cfg) (snd (shutdown_session_upstreams (observed env) other s))"
  by (rule reachable_from.step [OF assms], rule observed_step.intros)+

lemma no_client_lost_witness:
  "\<exists>m s. closed_session = (m, s) \<and> lg_made (log_of s) = {1, 0} \<and>
     (\<forall>h \<in> {1, 0}. h \<in> lg_stopped (log_of s) \<or> (\<exists>k. map_of (rg_stdio s) k = Some h))"
proof -
  have "reachable_from observed_start (observed_step example_env clients_config) closed_session"
    unfolding closed_session_def
    by (intro reachable_observed reachable_from.start)
      (simp add: observed_start_def fresh_daemon_def observed_registry_def)
  note lost = no_client_lost [OF this [unfolded closed_session_eq]]
  then show ?thesis unfolding closed_session_eq by (simp add: no_log_def observed_registry_def)
qed

lemma per_call_client_released_witness:
  "rg_stdio (snd (snd (call_stdio_upstream_or_repair (observed example_env) clients_config ''calc'' ''add'' [] 5 None []
     (no_meta, observed_registry)))) = []"
proof -
  have "case map_of (bc_upstreams clients_config) ''calc'' of None \<Rightarrow> False | Some u \<Rightarrow> up_mode u = ''per_call''"
    by code_simp
  then obtain u where u: "map_of (bc_upstreams clients_config) ''calc'' = Some u" "up_mode u = ''per_call''"
    by (auto split: option.splits)
  obtain r m' s' where run: "call_stdio_upstream_or_repair (observed example_env) clients_config ''calc'' ''add'' [] 5 None []
      (no_meta, observed_registry) = (r, (m', s'))" by (metis prod.exhaust)
  from per_call_client_released [OF u run] run show ?thesis
    by (simp add: observed_registry_def)
qed

text \<open>
  The loop of a shutdown has no handler: when the stop of one client raises, those after it are neither
  registered any more nor stopped.
\<close>

definition failing_stop_env :: "nat upstream_env" where
  "failing_stop_env = example_env\<lparr>ue_stdio_stop := (\<lambda>h st. if h = 0 then (Inl (Exn OSError ''stop failed''), st) else (Inr [], st))\<rparr>"

lemma shutdown_stops_halfway:
  "case shutdown_upstreams (observed failing_stop_env) (no_meta, observed_registry\<lparr>
       rg_stdio := [(SharedKey ''git'', 0), (SharedKey ''web'', 1)], rg_world := (2, no_log\<lparr>lg_made := {0, 1}\<rparr>)\<rparr>) of
     (r, (m, s)) \<Rightarrow> r = Inl (Exn OSError ''stop failed'') \<and> rg_stdio s = [] \<and> 1 \<notin> lg_stopped (log_of s)"
  by code_simp

end
