(* ===== verification/Client_Models.thy ===== *)
theory Client_Models
  imports Daemon_Facts Upstream_Http
begin

text \<open>
  The daemon over the modelled clients: the environment of \<open>Upstream_Registry\<close> built from the stdio client
  and the HTTP client, each handle with its own client. The context variables of a request go into the
  clients' methods and come back as they were.
\<close>

record 'w client_world =
  cw_stdio :: "handle \<Rightarrow> 'w stdio_client"
  cw_http :: "handle \<Rightarrow> http_upstream_client"
  cw_next :: handle

definition on_stdio :: "handle \<Rightarrow> (meta_context \<Rightarrow> ('w, 'a) client_sem) \<Rightarrow> (meta_context \<times> 'w client_world, exn, 'a) sem" where
  "on_stdio h m = (\<lambda>(c, w). case m c (cw_stdio w h) of (r, s) \<Rightarrow> (r, (c, w\<lparr>cw_stdio := (cw_stdio w)(h := s)\<rparr>)))"

definition on_http :: "handle \<Rightarrow> (meta_context \<Rightarrow> 'a http_sem) \<Rightarrow> (meta_context \<times> 'w client_world, exn, 'a) sem" where
  "on_http h m = (\<lambda>(c, w). case m c (cw_http w h) of (r, s) \<Rightarrow> (r, (c, w\<lparr>cw_http := (cw_http w)(h := s)\<rparr>)))"

text \<open>\<open>StdioUpstreamProcess(...)\<close> and \<open>HttpUpstreamClient(upstream)\<close>, under a fresh handle\<close>

definition create_stdio_upstream_process :: "path \<Rightarrow> path option \<Rightarrow> rat \<Rightarrow> 'w \<Rightarrow> upstream_config \<Rightarrow>
    (string \<times> string) list \<Rightarrow> string option \<Rightarrow> (meta_context \<times> 'w client_world, exn, handle) sem" where
  "create_stdio_upstream_process state_dir runtime_root now v u session_context metadata_name = (\<lambda>(c, w).
     (Inr (cw_next w), (c, w\<lparr>cw_stdio := (cw_stdio w)(cw_next w :=
        new_stdio_client u state_dir session_context runtime_root metadata_name now v), cw_next := Suc (cw_next w)\<rparr>)))"

definition create_http_upstream_client :: "upstream_config \<Rightarrow> (meta_context \<times> 'w client_world, exn, handle) sem" where
  "create_http_upstream_client u = (\<lambda>(c, w).
     (Inr (cw_next w), (c, w\<lparr>cw_http := (cw_http w)(cw_next w := new_http_client u), cw_next := Suc (cw_next w)\<rparr>)))"

text \<open>
  \<open>relay\<close> is the relay of the request's context, \<open>upstream_of\<close> the upstream a handle was made for, \<open>ids\<close>
  the identifiers of calls and \<open>logs\<close> what writing an event raises.
\<close>

definition modelled_clients ::
    "'w stdio_env \<Rightarrow> http_env \<Rightarrow> relay option \<Rightarrow> path \<Rightarrow> path option \<Rightarrow> rat \<Rightarrow> 'w \<Rightarrow> (handle \<Rightarrow> upstream_config) \<Rightarrow>
     (nat \<Rightarrow> string) \<Rightarrow> (string \<Rightarrow> pydict \<Rightarrow> unit res) \<Rightarrow> 'w client_world upstream_env" where
  "modelled_clients se he relay state_dir runtime_root now v upstream_of ids logs =
     \<lparr>ue_create_stdio = create_stdio_upstream_process state_dir runtime_root now v,
      ue_stdio_call = (\<lambda>h tool args t. on_stdio h (\<lambda>c. stdio_call_tool se \<lparr>cl_meta = c, cl_relay = relay\<rparr> tool args t)),
      ue_stdio_list = (\<lambda>h t. on_stdio h (\<lambda>c. stdio_list_tools se \<lparr>cl_meta = c, cl_relay = relay\<rparr> t)),
      ue_stdio_stop = (\<lambda>h. on_stdio h (\<lambda>c. stdio_stop se)),
      ue_stdio_status = (\<lambda>h w. stdio_status se (cw_stdio w h)),
      ue_stdio_idle = (\<lambda>h t w. idle_seconds t (cw_stdio w h)),
      ue_stdio_upstream = upstream_of,
      ue_stdio_health = (\<lambda>h. on_stdio h (\<lambda>c. bindS getS (\<lambda>s. liftS (stdio_health_snapshot se s)))),
      ue_stdio_ensure_running = (\<lambda>h. on_stdio h (\<lambda>c. ensure_running se)),
      ue_create_http = create_http_upstream_client,
      ue_http_call = (\<lambda>h tool args t. on_http h (\<lambda>c. http_call_tool he c tool args t)),
      ue_http_list = (\<lambda>h t. on_http h (\<lambda>c. http_list_tools he t)),
      ue_http_health = (\<lambda>h. on_http h (\<lambda>c. bindS getS (\<lambda>s. returnS (http_health_snapshot s)))),
      ue_write_log = (\<lambda>e d. liftS (logs e d)),
      ue_call_id = (\<lambda>(c, w). (Inr (ids (cw_next w)), (c, w\<lparr>cw_next := Suc (cw_next w)\<rparr>)))\<rparr>"

lemma keeps_meta_clients: "keeps_meta (on_stdio h m)" "keeps_meta (on_http h m')" "keeps_meta (liftS r)"
  by (simp_all add: keeps_meta_def on_stdio_def on_http_def liftS_def split_def)

lemma modelled_clients_tidy:
  "tidy_env (modelled_clients se he relay state_dir runtime_root now v upstream_of ids logs)"
  by (simp add: tidy_env_def modelled_clients_def keeps_meta_clients)
    (simp add: keeps_meta_def create_stdio_upstream_process_def create_http_upstream_client_def)

text \<open>Over the modelled clients no metadata of a request is left between connections, whatever is sent.\<close>

lemma modelled_daemon_forgets:
  assumes "reachable_from started_daemon (daemon_step de) d"
    and "de_upstreams de = modelled_clients se he relay state_dir runtime_root now v upstream_of ids logs"
  shows "dm_meta d = no_meta"
  using daemons.reachable_inv [OF assms(1)]
  by (auto simp: daemon_inv_def kept_daemon_def kept_locked_def kept_def assms(2) modelled_clients_tidy)

end
