(* ===== verification/Client_Config.thy ===== *)
theory Client_Config
  imports Config_Model
begin

text \<open>
  The configuration of the clients the broker writes files for (\<^verbatim>\<open>client_config.py\<close>), and the whole
  configuration as it is read from a file (\<^verbatim>\<open>BrokerConfig.from_file\<close> in \<^verbatim>\<open>config.py\<close>).
\<close>

section \<open>Clients\<close>

definition CLIENT_KEYS :: "string list" where
  "CLIENT_KEYS = [''format'', ''config_path'', ''entry_name'', ''command'', ''args'', ''backup_paths'',
     ''codex_apps_policy'', ''mcp_allowed_servers'', ''tool_output_token_limits'']"

definition CODEX_APPS_POLICY_KEYS :: "string list" where
  "CODEX_APPS_POLICY_KEYS = [''enabled'', ''app_directory_globs'', ''tools_cache_globs'', ''disable_connectors'']"

definition CONNECTOR_SELECTOR_KEYS :: "string list" where
  "CONNECTOR_SELECTOR_KEYS = [''id'', ''name'', ''reason'']"

definition SUPPORTED_CLIENT_FORMATS :: "string list" where
  "SUPPORTED_CLIENT_FORMATS = [''claude-json'', ''codex-toml'', ''mcp-settings-json'']"

record connector_selector =
  se_id :: "string option"
  se_name :: "string option"
  se_reason :: string

record connector_policy =
  po_enabled :: bool
  po_app_directory_globs :: "string list"
  po_tools_cache_globs :: "string list"
  po_disable_connectors :: "connector_selector list"

record client_render_config =
  cl_name :: string
  cl_format :: string
  cl_config_path :: path
  cl_entry_name :: string
  cl_command :: string
  cl_args :: "string list"
  cl_backup_paths :: "path list"
  cl_mcp_allowed_servers :: "string list"
  cl_codex_apps_policy :: "connector_policy option"
  cl_tool_output_token_limits :: "(string \<times> int) list"

text \<open>
  What checking the keys of a value that is no mapping raises: a text is iterated by its characters, a
  list by its elements, and anything else cannot be iterated. \<open>late\<close> is what the first access raises
  when all elements of a list are allowed and required keys.
\<close>

definition not_a_mapping :: "string \<Rightarrow> string list \<Rightarrow> string list \<Rightarrow> exn \<Rightarrow> pyval \<Rightarrow> exn" where
  "not_a_mapping p allowed_keys required_keys late v =
     (let unknown = (\<lambda>k. Exn ValueError (''unknown config key: '' @ p @ ''.'' @ k));
        missing = (\<lambda>k. Exn ValueError (''missing required config key: '' @ p @ ''.'' @ k))
      in case v of
        PStr s \<Rightarrow> (case s of [] \<Rightarrow> missing (hd required_keys) | c # cs \<Rightarrow> unknown [c])
      | PList xs \<Rightarrow>
          (case List.find (\<lambda>x. \<not> (is_str x \<and> py_str x \<in> set allowed_keys)) xs of
             Some x \<Rightarrow> if is_list x \<or> is_dict x then Exn TypeError ''unhashable type'' else unknown (py_str x)
           | None \<Rightarrow> (case List.find (\<lambda>k. PStr k \<notin> set xs) required_keys of
               Some k \<Rightarrow> missing k | None \<Rightarrow> late))
      | _ \<Rightarrow> Exn TypeError (type_name v))"

definition parse_list :: "string \<Rightarrow> pyval \<Rightarrow> pyval list res" where
  "parse_list p v = (case v of PList xs \<Rightarrow> Inr xs | _ \<Rightarrow> value_error (p @ '' must be a list''))"

definition client_optional_string :: "string \<Rightarrow> pyval \<Rightarrow> string option res" where
  "client_optional_string p v = (case v of
     PNone \<Rightarrow> Inr None
   | PStr s \<Rightarrow> if s = [] then value_error (p @ '' must be a non-empty string'') else Inr (Some s)
   | _ \<Rightarrow> value_error (p @ '' must be a non-empty string''))"

definition parse_config_strings :: "os_text \<Rightarrow> runtime_config \<Rightarrow> string \<Rightarrow> pyval \<Rightarrow> string list res" where
  "parse_config_strings os rt p v =
     bindE (parse_list p v) (\<lambda>xs. Inr (map (\<lambda>x. expand_config_text os rt (py_str x)) xs))"

definition parse_connector_selector :: "string \<Rightarrow> pyval \<Rightarrow> connector_selector res" where
  "parse_connector_selector p v = (case v of
     PDict d \<Rightarrow>
       bindE (config_validate_keys p d CONNECTOR_SELECTOR_KEYS) (\<lambda>_.
       bindE (client_optional_string (p @ ''.id'') (dget d ''id'')) (\<lambda>i.
       bindE (client_optional_string (p @ ''.name'') (dget d ''name'')) (\<lambda>n.
       bindE (require (i \<noteq> None \<or> n \<noteq> None) (Exn ValueError (p @ '' must define id or name''))) (\<lambda>_.
       case dget_or d ''reason'' (PStr []) of
         PStr r \<Rightarrow> Inr \<lparr>se_id = i, se_name = n, se_reason = r\<rparr>
       | _ \<Rightarrow> value_error (p @ ''.reason must be a string'')))))
   | _ \<Rightarrow> value_error (p @ '' must be a mapping''))"

definition parse_codex_apps_policy ::
    "os_text \<Rightarrow> runtime_config \<Rightarrow> string \<Rightarrow> pyval \<Rightarrow> connector_policy option res" where
  "parse_codex_apps_policy os rt p v = (case v of
     PNone \<Rightarrow> Inr None
   | PDict d \<Rightarrow>
       bindE (config_validate_keys p d CODEX_APPS_POLICY_KEYS) (\<lambda>_.
       bindE (parse_list (p @ ''.disable_connectors'') (dget_or d ''disable_connectors'' (PList []))) (\<lambda>connectors.
       bindE (mapE (\<lambda>(i, selector). parse_connector_selector
           (p @ ''.disable_connectors['' @ str_nat i @ '']'') selector) (enumerate 0 connectors)) (\<lambda>selectors.
       bindE (parse_bool (p @ ''.enabled'') (dget_or d ''enabled'' (PBool False))) (\<lambda>enabled.
       bindE (require (\<not> (enabled \<and> selectors = []))
         (Exn ValueError (p @ ''.disable_connectors must contain at least one connector''))) (\<lambda>_.
       bindE (parse_config_strings os rt (p @ ''.app_directory_globs'') (dget_or d ''app_directory_globs'' (PList []))) (\<lambda>apps.
       bindE (parse_config_strings os rt (p @ ''.tools_cache_globs'') (dget_or d ''tools_cache_globs'' (PList []))) (\<lambda>tools.
       Inr (Some \<lparr>po_enabled = enabled, po_app_directory_globs = apps, po_tools_cache_globs = tools,
         po_disable_connectors = selectors\<rparr>))))))))
   | _ \<Rightarrow> value_error (p @ '' must be a mapping''))"

definition parse_tool_output_token_limits :: "string \<Rightarrow> pyval \<Rightarrow> string \<Rightarrow> (string \<times> int) list res" where
  "parse_tool_output_token_limits p v config_format =
     (if v = PNone then Inr []
      else if config_format \<noteq> ''codex-toml'' then value_error (p @ '' applies only to a codex-toml client'')
      else case v of
        PDict d \<Rightarrow> bindE (mapE (\<lambda>(tool_name, tokens).
          bindE (require (tool_name \<noteq> []) (Exn ValueError (p @ '': tool name must be a non-empty string''))) (\<lambda>_.
          case tokens of
            PInt n \<Rightarrow> if n \<le> 0 then value_error (p @ ''.'' @ tool_name @ '' must be a positive integer'')
                      else Inr (tool_name, n)
          | _ \<Rightarrow> value_error (p @ ''.'' @ tool_name @ '' must be a positive integer''))) d) (\<lambda>limits.
          Inr (sort_key fst limits))
      | _ \<Rightarrow> value_error (p @ '' must be a mapping''))"

definition require_client_keys :: "string \<Rightarrow> pydict \<Rightarrow> unit res" where
  "require_client_keys name d =
     bindE (require (dhas d ''format'')
       (Exn ValueError (''missing required config key: clients.'' @ name @ ''.format''))) (\<lambda>_.
     require (dhas d ''config_path'')
       (Exn ValueError (''missing required config key: clients.'' @ name @ ''.config_path'')))"

definition parse_client_format :: "string \<Rightarrow> pyval \<Rightarrow> string res" where
  "parse_client_format name v =
     bindE (require (py_str v \<in> set SUPPORTED_CLIENT_FORMATS)
       (Exn ValueError (''clients.'' @ name @ ''.format must be one of: '' @ join '', '' SUPPORTED_CLIENT_FORMATS))) (\<lambda>_.
     Inr (py_str v))"

definition client_from_mapping ::
    "os_text \<Rightarrow> path_expander \<Rightarrow> runtime_config \<Rightarrow> string \<Rightarrow> pydict \<Rightarrow> client_render_config res" where
  "client_from_mapping os eu rt name d =
     (let key = (\<lambda>k. ''clients.'' @ name @ ''.'' @ k) in
      bindE (config_validate_keys (''clients.'' @ name) d CLIENT_KEYS) (\<lambda>_.
      bindE (require_client_keys name d) (\<lambda>_.
      bindE (parse_client_format name (dget d ''format'')) (\<lambda>config_format.
      bindE (parse_list (key ''args'') (dget_or d ''args'' (PList []))) (\<lambda>args.
      bindE (parse_list (key ''backup_paths'') (dget_or d ''backup_paths'' (PList []))) (\<lambda>backup_paths.
      bindE (parse_path os eu (key ''config_path'') (dget d ''config_path'')) (\<lambda>config_path.
      bindE (mapE (parse_path os eu (key ''backup_paths'')) backup_paths) (\<lambda>backups.
      bindE (parse_config_strings os rt (key ''mcp_allowed_servers'') (dget_or d ''mcp_allowed_servers'' (PList []))) (\<lambda>servers.
      bindE (parse_codex_apps_policy os rt (key ''codex_apps_policy'') (dget d ''codex_apps_policy'')) (\<lambda>policy.
      bindE (parse_tool_output_token_limits (key ''tool_output_token_limits'') (dget d ''tool_output_token_limits'')
        config_format) (\<lambda>limits.
      Inr \<lparr>cl_name = name, cl_format = config_format, cl_config_path = config_path,
        cl_entry_name = py_str (dget_or d ''entry_name'' (PStr ''mcp-broker'')),
        cl_command = expand_config_text os rt (py_str (dget_or d ''command'' (PStr ''mcp-broker-client''))),
        cl_args = map (\<lambda>a. expand_config_text os rt (py_str a)) args, cl_backup_paths = backups,
        cl_mcp_allowed_servers = servers, cl_codex_apps_policy = policy,
        cl_tool_output_token_limits = limits\<rparr>)))))))))))"

section \<open>The file\<close>

definition TOP_LEVEL_KEYS :: "string list" where
  "TOP_LEVEL_KEYS = [''schema_version'', ''runtime'', ''broker'', ''profiles'', ''clients'', ''upstreams'']"

definition validate_schema_version :: "pyval \<Rightarrow> unit res" where
  "validate_schema_version v = require (v = PNone \<or> eq_int v 1) (Exn ValueError ''schema_version must be 1'')"

definition config_section :: "pydict \<Rightarrow> string \<Rightarrow> pydict res" where
  "config_section raw name = (case dget_or raw name (PDict []) of
     PDict d \<Rightarrow> Inr d | _ \<Rightarrow> value_error (name @ '' must be a mapping''))"

definition parse_config_profile :: "os_text \<Rightarrow> string \<Rightarrow> pyval \<Rightarrow> tool_exposure_profile res" where
  "parse_config_profile os name v = (case v of
     PDict d \<Rightarrow> bindE (config_validate_keys (''profiles.'' @ name) d PROFILE_KEYS) (\<lambda>_. profile_from_mapping os name d)
   | _ \<Rightarrow> value_error (''profiles.'' @ name @ '' must be a mapping''))"

definition parse_config_upstream ::
    "os_text \<Rightarrow> path_expander \<Rightarrow> runtime_config \<Rightarrow> string \<Rightarrow> pyval \<Rightarrow> upstream_config res" where
  "parse_config_upstream os eu rt name v = (case v of
     PDict d \<Rightarrow> upstream_from_mapping os eu rt name d
   | _ \<Rightarrow> Inl (not_a_mapping (''upstreams.'' @ name) UPSTREAM_KEYS [''command''] (Exn AttributeError ''get'') v))"

definition parse_config_client ::
    "os_text \<Rightarrow> path_expander \<Rightarrow> runtime_config \<Rightarrow> string \<Rightarrow> pyval \<Rightarrow> client_render_config res" where
  "parse_config_client os eu rt name v = (case v of
     PDict d \<Rightarrow> client_from_mapping os eu rt name d
   | _ \<Rightarrow> Inl (not_a_mapping (''clients.'' @ name) CLIENT_KEYS [''format'', ''config_path''] (Exn TypeError ''list indices'') v))"

text \<open>\<open>{name: parse(name, value) for name, value in d.items()}\<close>\<close>

definition parse_section :: "(string \<Rightarrow> pyval \<Rightarrow> 'a res) \<Rightarrow> pydict \<Rightarrow> (string \<times> 'a) list res" where
  "parse_section parse d = mapE (\<lambda>(name, v). bindE (parse name v) (\<lambda>x. Inr (name, x))) d"

text \<open>\<open>load\<close> opens the file and decodes its YAML. The result is the configuration and its clients.\<close>

definition config_from_file ::
    "os_text \<Rightarrow> path_expander \<Rightarrow> pyval res \<Rightarrow> (broker_config \<times> (string \<times> client_render_config) list) res" where
  "config_from_file os eu load =
     bindE load (\<lambda>loaded.
     bindE (case loaded of PNone \<Rightarrow> Inr [] | PDict d \<Rightarrow> Inr d
       | _ \<Rightarrow> value_error ''broker config must be a mapping'') (\<lambda>raw.
     bindE (config_validate_keys [] raw TOP_LEVEL_KEYS) (\<lambda>_.
     bindE (validate_schema_version (dget raw ''schema_version'')) (\<lambda>_.
     bindE (config_section raw ''runtime'') (\<lambda>runtime_raw.
     bindE (config_section raw ''broker'') (\<lambda>broker_raw.
     bindE (config_section raw ''profiles'') (\<lambda>profiles_raw.
     bindE (config_section raw ''upstreams'') (\<lambda>upstreams_raw.
     bindE (config_section raw ''clients'') (\<lambda>clients_raw.
     bindE (runtime_from_mapping os eu runtime_raw) (\<lambda>rt.
     bindE (broker_settings_from_mapping os eu rt broker_raw) (\<lambda>broker.
     bindE (parse_section (parse_config_profile os) profiles_raw) (\<lambda>profiles.
     bindE (parse_section (parse_config_upstream os eu rt) upstreams_raw) (\<lambda>upstreams.
     bindE (parse_section (parse_config_client os eu rt) clients_raw) (\<lambda>clients.
     bindE (broker_config_post_init \<lparr>bc_runtime = rt, bc_broker = broker, bc_upstreams = upstreams,
       bc_profiles = profiles\<rparr>) (\<lambda>cfg.
     Inr (cfg, clients))))))))))))))))"

end
