(* ===== verification/Client_Text.thy ===== *)
theory Client_Text
  imports Client_Config Upstream_Http Plain_Paths
begin

text \<open>
  The texts the broker writes into the configuration of a client (\<^verbatim>\<open>config_render.py\<close>): the entry of
  the broker in a TOML or a JSON file, with the rest of the file kept.
\<close>

section \<open>Texts\<close>

text \<open>\<open>s.rstrip()\<close>\<close>

definition rstrip :: "string \<Rightarrow> string" where
  "rstrip s = rev (dropWhile is_space (rev s))"

text \<open>\<open>s.replace(c, t)\<close> for one character \<open>c\<close>\<close>

definition replace_by :: "char \<Rightarrow> string \<Rightarrow> string \<Rightarrow> string" where
  "replace_by c t s = concat (map (\<lambda>d. if d = c then t else [d]) s)"

text \<open>\<open>s.splitlines()\<close>\<close>

definition text_lines :: "string \<Rightarrow> string list" where
  "text_lines s = split_lines [] False s"

section \<open>TOML\<close>

definition escape_toml_string :: "string \<Rightarrow> string" where
  "escape_toml_string s =
     replace_by (CHR 0x22) [CHR 0x5C, CHR 0x22] (replace_by (CHR 0x5C) [CHR 0x5C, CHR 0x5C] s)"

definition quote_toml :: "string \<Rightarrow> string" where
  "quote_toml s = CHR 0x22 # escape_toml_string s @ [CHR 0x22]"

text \<open>\<open>_TOML_BARE_KEY.fullmatch(value)\<close>\<close>

definition toml_bare_key :: "string \<Rightarrow> bool" where
  "toml_bare_key s \<longleftrightarrow> s \<noteq> [] \<and>
     list_all (\<lambda>c. is_letter c \<or> is_digit c \<or> c = CHR ''_'' \<or> c = CHR ''-'') s"

definition toml_key :: "string \<Rightarrow> string" where
  "toml_key s = (if toml_bare_key s then s else quote_toml s)"

definition SEPARATOR_COMMENT :: string where
  "SEPARATOR_COMMENT = ''# '' @ replicate 77 (CHR ''-'')"

definition LEGACY_CODEX_MCP_COMMENT_MARKERS :: "string list" where
  "LEGACY_CODEX_MCP_COMMENT_MARKERS =
     [''# === MCP servers (synced from ~/mcp/servers.json + project .mcp.json files) ==='',
      ''#   GLOBAL SERVERS (all projects)'']"

definition is_table_header :: "string \<Rightarrow> bool" where
  "is_table_header line \<longleftrightarrow> prefix ''['' line \<and> suffix '']'' line"

definition remove_prefix :: "string \<Rightarrow> string \<Rightarrow> string" where
  "remove_prefix p s = (if prefix p s then drop (length p) s else s)"

definition remove_suffix :: "string \<Rightarrow> string \<Rightarrow> string" where
  "remove_suffix p s = (if suffix p s then take (length s - length p) s else s)"

definition MCP_TABLE :: string where "MCP_TABLE = ''mcp_servers''"

definition is_codex_mcp_table :: "string \<Rightarrow> bool" where
  "is_codex_mcp_table header =
     (let table_name = strip (remove_suffix '']'' (remove_prefix ''['' header))
      in table_name = MCP_TABLE \<or> prefix (MCP_TABLE @ ''.'') table_name)"

text \<open>The variables of the loop of \<open>_strip_codex_mcp_tables\<close>.\<close>

record strip_state =
  ss_kept_lines :: "string list"
  ss_skipped_table_header :: "string option"
  ss_legacy_comment_marker :: "string option"
  ss_pending_separator_lines :: "string list"

definition strip_start :: strip_state where
  "strip_start = \<lparr>ss_kept_lines = [], ss_skipped_table_header = None, ss_legacy_comment_marker = None,
     ss_pending_separator_lines = []\<rparr>"

definition flush_pending :: "strip_state \<Rightarrow> strip_state" where
  "flush_pending st = st\<lparr>ss_kept_lines := ss_kept_lines st @ ss_pending_separator_lines st,
     ss_pending_separator_lines := []\<rparr>"

text \<open>The end of the loop's body: a line that is neither a separator nor a legacy marker.\<close>

definition keep_line :: "string \<Rightarrow> string \<Rightarrow> strip_state \<Rightarrow> strip_state" where
  "keep_line line stripped_line st =
     (let st = (if is_table_header stripped_line
        then st\<lparr>ss_skipped_table_header := if is_codex_mcp_table stripped_line then Some stripped_line else None\<rparr>
        else st)
      in if ss_skipped_table_header st = None \<and> ss_legacy_comment_marker st = None
         then st\<lparr>ss_kept_lines := ss_kept_lines st @ [line]\<rparr> else st)"

definition strip_line :: "strip_state \<Rightarrow> string \<Rightarrow> strip_state" where
  "strip_line st line =
     (let stripped_line = strip line in
      if ss_legacy_comment_marker st \<noteq> None \<and> \<not> is_table_header stripped_line then st
      else let st = st\<lparr>ss_legacy_comment_marker := None\<rparr> in
        if stripped_line = SEPARATOR_COMMENT then st\<lparr>ss_pending_separator_lines := [line]\<rparr>
        else if ss_pending_separator_lines st \<noteq> [] \<and> stripped_line = []
          then st\<lparr>ss_pending_separator_lines := ss_pending_separator_lines st @ [line]\<rparr>
        else if stripped_line \<in> set LEGACY_CODEX_MCP_COMMENT_MARKERS
          then st\<lparr>ss_pending_separator_lines := [], ss_legacy_comment_marker := Some stripped_line\<rparr>
        else keep_line line stripped_line (flush_pending st))"

text \<open>\<open>"\n".join(lines).rstrip() + "\n" if lines else ""\<close>\<close>

definition lines_text :: "string list \<Rightarrow> string" where
  "lines_text ls = (if ls = [] then [] else rstrip (join [newline] ls) @ [newline])"

definition strip_codex_mcp_tables :: "string \<Rightarrow> string" where
  "strip_codex_mcp_tables existing_text =
     lines_text (ss_kept_lines (flush_pending (foldl strip_line strip_start (text_lines existing_text))))"

text \<open>The loops of \<open>_strip_trailing_separator_comments\<close> on the lines from the last one.\<close>

definition drop_blank_lines :: "string list \<Rightarrow> string list" where
  "drop_blank_lines ls = dropWhile (\<lambda>l. strip l = []) ls"

function drop_separators :: "string list \<Rightarrow> string list" where
  "drop_separators [] = []"
| "drop_separators (l # ls) =
     (if strip l = SEPARATOR_COMMENT then drop_separators (drop_blank_lines ls) else l # ls)"
  by pat_completeness auto
termination
  by (relation "measure length") (auto simp: drop_blank_lines_def le_imp_less_Suc length_dropWhile_le)

definition strip_trailing_separator_comments :: "string \<Rightarrow> string" where
  "strip_trailing_separator_comments t =
     lines_text (rev (drop_separators (drop_blank_lines (rev (text_lines t)))))"

definition server_table :: "string \<Rightarrow> string" where
  "server_table entry_name = MCP_TABLE @ ''.'' @ quote_toml entry_name"

definition token_limit_table :: "string \<Rightarrow> string \<times> int \<Rightarrow> string" where
  "token_limit_table entry_name limit = (case limit of (tool_name, tokens) \<Rightarrow>
     [newline] @ ''['' @ server_table entry_name @ ''.tools.'' @ toml_key tool_name @ '']'' @ [newline] @
     ''output_token_limit = '' @ str_int tokens @ [newline])"

definition broker_entry :: "string \<Rightarrow> string \<Rightarrow> string list \<Rightarrow> (string \<times> int) list \<Rightarrow> string" where
  "broker_entry entry_name command args limits =
     ''['' @ server_table entry_name @ '']'' @ [newline] @
     ''command = '' @ quote_toml command @ [newline] @
     ''args = ['' @ join '', '' (map quote_toml args) @ '']'' @ [newline] @
     concat (map (token_limit_table entry_name) limits)"

definition render_codex_toml ::
    "string \<Rightarrow> string \<Rightarrow> string list \<Rightarrow> string \<Rightarrow> (string \<times> int) list \<Rightarrow> string" where
  "render_codex_toml entry_name command args existing_text limits =
     (let entry = broker_entry entry_name command args limits;
          preserved = strip_trailing_separator_comments (strip_codex_mcp_tables existing_text)
      in if strip preserved = [] then entry else rstrip preserved @ [newline, newline] @ entry)"

section \<open>JSON\<close>

definition indent_line :: "nat \<Rightarrow> string" where
  "indent_line n = newline # replicate (2 * n) (CHR '' '')"

text \<open>\<open>json.dumps(v, indent=2, sort_keys=True)\<close>; \<open>n\<close> is the depth of the value.\<close>

fun json_indented :: "nat \<Rightarrow> pyval \<Rightarrow> string" where
  "json_indented n PNone = ''null''"
| "json_indented n (PBool b) = (if b then ''true'' else ''false'')"
| "json_indented n (PInt i) = str_int i"
| "json_indented n (PFloat r t) = t"
| "json_indented n (PStr s) = json_str s"
| "json_indented n (PList xs) =
     (if xs = [] then ''[]''
      else ''['' @ indent_line (Suc n) @ join ('','' @ indent_line (Suc n)) (map (json_indented (Suc n)) xs) @
        indent_line n @ '']'')"
| "json_indented n (PDict d) =
     (if d = [] then ''{}''
      else ''{'' @ indent_line (Suc n) @ join ('','' @ indent_line (Suc n)) (map (\<lambda>(k, t). json_str k @ '': '' @ t)
        (sort_key fst (map (\<lambda>(k, v). (k, json_indented (Suc n) v)) d))) @ indent_line n @ ''}'')"

definition preserved_mapping :: "(string \<Rightarrow> pyval res) \<Rightarrow> string \<Rightarrow> pydict res" where
  "preserved_mapping loads existing_text =
     bindE (if strip existing_text = [] then Inr (PDict []) else loads existing_text) (\<lambda>v.
     Inr (case v of PDict d \<Rightarrow> d | _ \<Rightarrow> []))"

definition set_broker_entry :: "string \<Rightarrow> string \<Rightarrow> string list \<Rightarrow> pydict \<Rightarrow> pydict" where
  "set_broker_entry entry_name command args d =
     AList.update ''mcpServers'' (PDict [(entry_name,
       PDict [(''command'', PStr command), (''args'', PList (map PStr args))])]) d"

definition set_allowed_servers :: "string list \<Rightarrow> pydict \<Rightarrow> pydict" where
  "set_allowed_servers servers d =
     (if servers = [] then d
      else AList.update ''mcp'' (PDict (AList.update ''allowed'' (PList (map PStr servers))
        (case dget d ''mcp'' of PDict m \<Rightarrow> m | _ \<Rightarrow> []))) d)"

definition render_claude_json ::
    "(string \<Rightarrow> pyval res) \<Rightarrow> string \<Rightarrow> string \<Rightarrow> string list \<Rightarrow> string \<Rightarrow> string res" where
  "render_claude_json loads entry_name command args existing_text =
     bindE (preserved_mapping loads existing_text) (\<lambda>d.
     Inr (json_indented 0 (PDict (set_broker_entry entry_name command args d)) @ [newline]))"

definition render_mcp_settings_json ::
    "(string \<Rightarrow> pyval res) \<Rightarrow> string \<Rightarrow> string \<Rightarrow> string list \<Rightarrow> string \<Rightarrow> client_render_config \<Rightarrow> string res" where
  "render_mcp_settings_json loads entry_name command args existing_text client =
     bindE (preserved_mapping loads existing_text) (\<lambda>d.
     Inr (json_indented 0 (PDict (set_broker_entry entry_name command args
       (set_allowed_servers (cl_mcp_allowed_servers client) d))) @ [newline]))"

end
