(* ===== verification/Config_Render.thy ===== *)
theory Config_Render
  imports Client_Text
begin

text \<open>
  Writing the configuration of a client, backing it up and rolling it back (\<^verbatim>\<open>config_render.py\<close>), and
  hiding duplicate connectors of an application (\<^verbatim>\<open>codex_app_policy.py\<close>), over the files of the
  machine. Files are kept by their path, with their text; making the directories of a path and opening it
  to write is one step that may raise.
\<close>

section \<open>Files\<close>

record client_files =
  cf_files :: "(path \<times> string) list"
  cf_clock :: nat

type_synonym 'a cf = "(client_files, exn, 'a) sem"

text \<open>
  The machine: the home directory (\<open>os.path.expanduser("~")\<close>), \<open>json.loads\<close>, which patterns of
  \<open>glob.glob\<close> match a path, which paths are directories, what making the parents of a path and opening it
  raises, and the time labels, one for each reading of the clock.
\<close>

record client_host =
  ch_home :: path
  ch_loads :: "string \<Rightarrow> pyval res"
  ch_globs :: "string \<Rightarrow> path \<Rightarrow> bool"
  ch_is_dir :: "path \<Rightarrow> bool"
  ch_write_error :: "path \<Rightarrow> exn option"
  ch_label :: "nat \<Rightarrow> string"

definition file_text :: "client_files \<Rightarrow> path \<Rightarrow> string option" where
  "file_text s p = map_of (cf_files s) p"

definition client_path_exists :: "client_host \<Rightarrow> client_files \<Rightarrow> path \<Rightarrow> bool" where
  "client_path_exists h s p \<longleftrightarrow> file_text s p \<noteq> None \<or> ch_is_dir h p"

definition read_file_text :: "client_host \<Rightarrow> path \<Rightarrow> string cf" where
  "read_file_text h p = bindS getS (\<lambda>s. case file_text s p of
     Some t \<Rightarrow> returnS t
   | None \<Rightarrow> raiseS (if ch_is_dir h p then Exn OSError ''Is a directory''
       else Exn FileNotFoundError ''No such file or directory''))"

definition write_file_text :: "client_host \<Rightarrow> path \<Rightarrow> string \<Rightarrow> unit cf" where
  "write_file_text h p t = (case ch_write_error h p of
     Some e \<Rightarrow> raiseS e
   | None \<Rightarrow> modifyS (\<lambda>s. s\<lparr>cf_files := AList.update p t (cf_files s)\<rparr>))"

text \<open>\<open>shutil.copyfile(source, target)\<close>\<close>

definition copy_file :: "client_host \<Rightarrow> path \<Rightarrow> path \<Rightarrow> unit cf" where
  "copy_file h source target = bindS (read_file_text h source) (\<lambda>t. write_file_text h target t)"

text \<open>\<open>Path.read_text\<close> translates newlines; the flag says that the character before the text was a
  carriage return.\<close>

fun universal_newlines :: "bool \<Rightarrow> string \<Rightarrow> string" where
  "universal_newlines returned [] = []"
| "universal_newlines returned (c # cs) =
     (if c = CHR 0x0D then newline # universal_newlines True cs
      else if c = newline \<and> returned then universal_newlines False cs
      else c # universal_newlines False cs)"

definition timestamp_label :: "client_host \<Rightarrow> string cf" where
  "timestamp_label h = bindS getS (\<lambda>s. seqS (modifyS (\<lambda>s. s\<lparr>cf_clock := Suc (cf_clock s)\<rparr>))
     (returnS (ch_label h (cf_clock s))))"

text \<open>\<open>backup_label or _timestamp_label()\<close>\<close>

definition label_or_now :: "client_host \<Rightarrow> string option \<Rightarrow> string cf" where
  "label_or_now h label = (case label of Some (c # cs) \<Rightarrow> returnS (c # cs) | _ \<Rightarrow> timestamp_label h)"

text \<open>Paths compare as the lists of their components.\<close>

definition path_key :: "path \<Rightarrow> string list" where
  "path_key p = split_char slash (path_str p)"

text \<open>A character class of \<open>fnmatch\<close>, without its brackets and its negation.\<close>

fun in_char_class :: "string \<Rightarrow> char \<Rightarrow> bool" where
  "in_char_class (a # m # b # cs) c =
     (if m = CHR ''-'' then (a \<le> c \<and> c \<le> b) \<or> in_char_class cs c else a = c \<or> in_char_class (m # b # cs) c)"
| "in_char_class (a # cs) c \<longleftrightarrow> a = c \<or> in_char_class cs c"
| "in_char_class [] c = False"

text \<open>The class that opens a pattern, with what follows it; a bracket that is not closed is a character.\<close>

definition split_char_class :: "string \<Rightarrow> (bool \<times> string \<times> string) option" where
  "split_char_class p =
     (let negated = prefix ''!'' p; body = (if negated then tl p else p) in
      case body of [] \<Rightarrow> None
      | c # cs \<Rightarrow> (case dropWhile (\<lambda>d. d \<noteq> CHR '']'') cs of
          [] \<Rightarrow> None
        | _ # rest \<Rightarrow> Some (negated, c # takeWhile (\<lambda>d. d \<noteq> CHR '']'') cs, rest)))"

lemma split_char_class_length [termination_simp]:
  "split_char_class p = Some (n, cls, rest) \<Longrightarrow> length rest < length p"
proof -
  assume some: "split_char_class p = Some (n, cls, rest)"
  define body where "body = (if prefix ''!'' p then tl p else p)"
  from some obtain c cs d where body: "body = c # cs" and rest: "dropWhile (\<lambda>d. d \<noteq> CHR '']'') cs = d # rest"
    by (auto simp: split_char_class_def Let_def body_def split: list.splits)
  have "length (d # rest) \<le> length cs" unfolding rest [symmetric] by (rule length_dropWhile_le)
  moreover have "length body \<le> length p" by (simp add: body_def)
  ultimately show "length rest < length p" by (simp add: body)
qed

text \<open>\<open>fnmatch.fnmatchcase(name, pattern)\<close>\<close>

function glob_match :: "string \<Rightarrow> string \<Rightarrow> bool" where
  "glob_match [] s \<longleftrightarrow> s = []"
| "glob_match (p # ps) s =
     (if p = CHR ''*'' then glob_match ps s \<or> (case s of [] \<Rightarrow> False | c # cs \<Rightarrow> glob_match (p # ps) cs)
      else case s of [] \<Rightarrow> False
      | c # cs \<Rightarrow>
          if p = CHR ''?'' then glob_match ps cs
          else case (if p = CHR ''['' then split_char_class ps else None) of
            Some (negated, cls, rest) \<Rightarrow> in_char_class cls c \<noteq> negated \<and> glob_match rest cs
          | None \<Rightarrow> p = c \<and> glob_match ps cs)"
  by pat_completeness auto
termination
  by (relation "measures [\<lambda>(p, s). length p, \<lambda>(p, s). length s]")
    (auto dest: split_char_class_length split: if_splits)

section \<open>Connectors of an application\<close>

record app_policy_result =
  ar_matched_app_directory_files :: "path list"
  ar_matched_tools_cache_files :: "path list"
  ar_changed_files :: "path list"
  ar_disabled_connectors :: int
  ar_removed_tools :: int
  ar_backups :: "path list"
  ar_dry_run :: bool
  ar_warnings :: "string list"

definition unchanged_result :: "bool \<Rightarrow> app_policy_result" where
  "unchanged_result dry_run = \<lparr>ar_matched_app_directory_files = [], ar_matched_tools_cache_files = [],
     ar_changed_files = [], ar_disabled_connectors = 0, ar_removed_tools = 0, ar_backups = [],
     ar_dry_run = dry_run, ar_warnings = []\<rparr>"

definition glob_paths :: "client_host \<Rightarrow> client_files \<Rightarrow> string \<Rightarrow> path list" where
  "glob_paths h s pattern = filter (ch_globs h pattern) (map fst (cf_files s))"

definition match_paths :: "client_host \<Rightarrow> client_files \<Rightarrow> string list \<Rightarrow> path list" where
  "match_paths h s patterns = sort_key path_key (remdups (concat (map (glob_paths h s) patterns)))"

definition missing_glob_warnings :: "client_host \<Rightarrow> client_files \<Rightarrow> string \<Rightarrow> string list \<Rightarrow> string list" where
  "missing_glob_warnings h s label patterns =
     map (\<lambda>p. label @ '' matched no files: '' @ p) (filter (\<lambda>p. glob_paths h s p = []) patterns)"

definition read_json_mapping :: "client_host \<Rightarrow> path \<Rightarrow> pydict cf" where
  "read_json_mapping h p =
     bindS (read_file_text h p) (\<lambda>t. bindS (liftS (ch_loads h t)) (\<lambda>v. case v of
       PDict d \<Rightarrow> returnS d
     | _ \<Rightarrow> raiseS (Exn ValueError (''Codex app cache must be a JSON object: '' @ path_str p))))"

definition string_or_none :: "pyval \<Rightarrow> string option" where
  "string_or_none v = (case v of PStr (c # cs) \<Rightarrow> Some (c # cs) | _ \<Rightarrow> None)"

definition matches_values :: "string option \<Rightarrow> string option \<Rightarrow> connector_selector list \<Rightarrow> bool" where
  "matches_values connector_id connector_name selectors \<longleftrightarrow>
     list_ex (\<lambda>se. (se_id se \<noteq> None \<and> se_id se \<noteq> Some [] \<and> se_id se = connector_id) \<or>
       (se_name se \<noteq> None \<and> se_name se \<noteq> Some [] \<and> se_name se = connector_name)) selectors"

definition matches_connector :: "pydict \<Rightarrow> connector_selector list \<Rightarrow> bool" where
  "matches_connector connector selectors =
     matches_values (string_or_none (dget connector ''id'')) (string_or_none (dget connector ''name'')) selectors"

text \<open>\<open>a or b\<close>\<close>

definition or_else :: "'a option \<Rightarrow> 'a option \<Rightarrow> 'a option" where
  "or_else a b = (case a of None \<Rightarrow> b | Some x \<Rightarrow> Some x)"

definition matches_tool :: "pydict \<Rightarrow> connector_selector list \<Rightarrow> bool" where
  "matches_tool tool selectors =
     (let meta = (case dget tool ''tool'' of
        PDict payload \<Rightarrow> (case dget payload ''_meta'' of PDict m \<Rightarrow> m | _ \<Rightarrow> []) | _ \<Rightarrow> []);
          value_of = (\<lambda>k. or_else (string_or_none (dget tool k)) (string_or_none (dget meta k)))
      in matches_values (value_of ''connector_id'') (value_of ''connector_name'') selectors)"

definition disable_connector :: "connector_selector list \<Rightarrow> pyval \<Rightarrow> (pyval \<times> bool) res" where
  "disable_connector selectors v = (case v of
     PDict connector \<Rightarrow>
       (if matches_connector connector selectors \<and> dget connector ''isEnabled'' \<noteq> PBool False
        then Inr (PDict (AList.update ''isEnabled'' (PBool False) connector), True)
        else Inr (PDict connector, False))
   | _ \<Rightarrow> value_error ''Codex app directory connectors must be objects'')"

text \<open>The payload after the call, whether it changed, and the number of connectors it disabled.\<close>

definition disable_connectors :: "connector_selector list \<Rightarrow> pydict \<Rightarrow> (pydict \<times> bool \<times> int) res" where
  "disable_connectors selectors payload = (case dget payload ''connectors'' of
     PList connectors \<Rightarrow>
       bindE (mapE (disable_connector selectors) connectors) (\<lambda>done.
       let disabled = length (filter snd done) in
       Inr (AList.update ''connectors'' (PList (map fst done)) payload, 0 < disabled, int disabled))
   | _ \<Rightarrow> value_error ''Codex app directory cache must contain a connectors list'')"

definition classify_tool :: "connector_selector list \<Rightarrow> pyval \<Rightarrow> (pyval \<times> bool) res" where
  "classify_tool selectors v = (case v of
     PDict tool \<Rightarrow> Inr (PDict tool, matches_tool tool selectors)
   | _ \<Rightarrow> value_error ''Codex app tool records must be objects'')"

definition remove_connector_tools :: "connector_selector list \<Rightarrow> pydict \<Rightarrow> (pydict \<times> bool \<times> int) res" where
  "remove_connector_tools selectors payload = (case dget payload ''tools'' of
     PList tools \<Rightarrow>
       bindE (mapE (classify_tool selectors) tools) (\<lambda>classified.
       let removed = length (filter snd classified);
           kept = map fst (filter (\<lambda>(t, matched). \<not> matched) classified) in
       Inr (if 0 < removed then AList.update ''tools'' (PList kept) payload else payload, 0 < removed, int removed))
   | _ \<Rightarrow> value_error ''Codex app tools cache must contain a tools list'')"

definition app_backup_path :: "path \<Rightarrow> string \<Rightarrow> path \<Rightarrow> path" where
  "app_backup_path backup_dir label p = path_join backup_dir (label @ ''.'' @ path_name p)"

definition app_backup :: "client_host \<Rightarrow> path \<Rightarrow> string \<Rightarrow> path \<Rightarrow> path cf" where
  "app_backup h backup_dir label p =
     seqS (copy_file h p (app_backup_path backup_dir label p)) (returnS (app_backup_path backup_dir label p))"

definition write_app_json :: "client_host \<Rightarrow> path \<Rightarrow> pydict \<Rightarrow> unit cf" where
  "write_app_json h p payload = write_file_text h p (json_indented 0 (PDict payload) @ [newline])"

text \<open>
  The body of the two loops of \<open>_apply_policy_to_files\<close>: the change of a payload, the files it was
  made to, their backups and the count so far.
\<close>

definition apply_policy_to_file ::
    "client_host \<Rightarrow> (pydict \<Rightarrow> (pydict \<times> bool \<times> int) res) \<Rightarrow> path \<Rightarrow> string \<Rightarrow> bool \<Rightarrow> path \<Rightarrow>
     path list \<times> path list \<times> int \<Rightarrow> (path list \<times> path list \<times> int) cf" where
  "apply_policy_to_file h change backup_dir label dry_run p acc = (case acc of (changed_files, backups, n) \<Rightarrow>
     bindS (read_json_mapping h p) (\<lambda>payload.
     bindS (liftS (change payload)) (\<lambda>(payload', changed, k).
     if \<not> changed then returnS (changed_files, backups, n + k)
     else if dry_run then returnS (changed_files @ [p], backups, n + k)
     else bindS (app_backup h backup_dir label p) (\<lambda>b.
       seqS (write_app_json h p payload') (returnS (changed_files @ [p], backups @ [b], n + k))))))"

fun apply_policy_loop ::
    "client_host \<Rightarrow> (pydict \<Rightarrow> (pydict \<times> bool \<times> int) res) \<Rightarrow> path \<Rightarrow> string \<Rightarrow> bool \<Rightarrow> path list \<Rightarrow>
     path list \<times> path list \<times> int \<Rightarrow> (path list \<times> path list \<times> int) cf" where
  "apply_policy_loop h change backup_dir label dry_run [] acc = returnS acc"
| "apply_policy_loop h change backup_dir label dry_run (p # ps) acc =
     bindS (apply_policy_to_file h change backup_dir label dry_run p acc)
       (apply_policy_loop h change backup_dir label dry_run ps)"

definition apply_policy_to_files ::
    "client_host \<Rightarrow> connector_policy \<Rightarrow> path list \<Rightarrow> path list \<Rightarrow> path \<Rightarrow> string \<Rightarrow> bool \<Rightarrow> app_policy_result cf" where
  "apply_policy_to_files h policy app_files tools_files backup_dir label dry_run =
     bindS (apply_policy_loop h (disable_connectors (po_disable_connectors policy)) backup_dir label dry_run
       app_files ([], [], 0)) (\<lambda>(changed_files, backups, disabled).
     bindS (apply_policy_loop h (remove_connector_tools (po_disable_connectors policy)) backup_dir label dry_run
       tools_files (changed_files, backups, 0)) (\<lambda>(changed_files, backups, removed).
     returnS ((unchanged_result dry_run)\<lparr>ar_changed_files := changed_files, ar_disabled_connectors := disabled,
       ar_removed_tools := removed, ar_backups := backups\<rparr>)))"

definition apply_codex_app_policy ::
    "client_host \<Rightarrow> connector_policy \<Rightarrow> path \<Rightarrow> string \<Rightarrow> bool \<Rightarrow> app_policy_result cf" where
  "apply_codex_app_policy h policy backup_dir label dry_run =
     (if \<not> po_enabled policy then returnS (unchanged_result dry_run)
      else bindS getS (\<lambda>s.
        let app_files = match_paths h s (po_app_directory_globs policy);
            tools_files = match_paths h s (po_tools_cache_globs policy);
            warnings = missing_glob_warnings h s ''app_directory_globs'' (po_app_directory_globs policy) @
              missing_glob_warnings h s ''tools_cache_globs'' (po_tools_cache_globs policy)
        in bindS (apply_policy_to_files h policy app_files tools_files backup_dir label dry_run) (\<lambda>res.
           returnS (res\<lparr>ar_matched_app_directory_files := app_files, ar_matched_tools_cache_files := tools_files,
             ar_warnings := warnings\<rparr>))))"

section \<open>The files of a client\<close>

type_synonym full_config = "broker_config \<times> (string \<times> client_render_config) list"

record render_result =
  rr_client_name :: string
  rr_target_path :: path
  rr_rendered_path :: path
  rr_backup_path :: "path option"
  rr_dry_run :: bool
  rr_codex_apps_policy_result :: "app_policy_result option"

record rollback_result =
  rb_client_name :: string
  rb_target_path :: path
  rb_restored_path :: path

record backup_result =
  br_client_name :: string
  br_backup_paths :: "path list"

record app_policy_apply_result =
  aa_client_name :: string
  aa_codex_apps_policy_result :: "app_policy_result option"

definition config_root :: "full_config \<Rightarrow> path" where
  "config_root cfg = rt_root (bc_runtime (fst cfg))"

definition client_named :: "full_config \<Rightarrow> string \<Rightarrow> client_render_config res" where
  "client_named cfg client_name = (case map_of (snd cfg) client_name of
     Some client \<Rightarrow> Inr client | None \<Rightarrow> value_error (''unknown client config: '' @ client_name))"

definition rendered_path :: "full_config \<Rightarrow> client_render_config \<Rightarrow> path" where
  "rendered_path cfg client =
     path_join (path_join (config_root cfg) ''renders'')
       (cl_name client @ ''.config'' @ (if cl_format client = ''codex-toml'' then ''.toml'' else ''.json''))"

definition client_backup_dir :: "full_config \<Rightarrow> string \<Rightarrow> path" where
  "client_backup_dir cfg client_name = path_join (path_join (config_root cfg) ''backups'') client_name"

definition portable_client_arg :: "client_host \<Rightarrow> string \<Rightarrow> string" where
  "portable_client_arg h arg =
     (let home = ch_home h; p = path_of arg in
      if \<not> is_absolute home \<or> path_str home = ''/'' \<or> \<not> relative_to p home then arg
      else let relative = Path [] (drop (length (path_parts home)) (path_parts p))
        in if path_str relative = ''.'' then ''$HOME'' else ''$HOME/'' @ path_str relative)"

definition client_args :: "client_host \<Rightarrow> full_config \<Rightarrow> client_render_config \<Rightarrow> string list" where
  "client_args h cfg client = map (portable_client_arg h)
     (if cl_args client = [] then [''--socket-path'', path_str (rt_socket_path (bc_runtime (fst cfg)))]
      else cl_args client)"

text \<open>The text of a client's file, made from the text the file has.\<close>

definition render_existing_text ::
    "client_host \<Rightarrow> full_config \<Rightarrow> client_render_config \<Rightarrow> string \<Rightarrow> string res" where
  "render_existing_text h cfg client existing_text =
     (let args = client_args h cfg client; entry_name = cl_entry_name client; command = cl_command client in
      if cl_format client = ''codex-toml'' then
        Inr (render_codex_toml entry_name command args existing_text (cl_tool_output_token_limits client))
      else if cl_format client = ''claude-json'' then
        render_claude_json (ch_loads h) entry_name command args existing_text
      else if cl_format client = ''mcp-settings-json'' then
        render_mcp_settings_json (ch_loads h) entry_name command args existing_text client
      else value_error (''unsupported client config format: '' @ cl_format client))"

definition render_text :: "client_host \<Rightarrow> full_config \<Rightarrow> client_render_config \<Rightarrow> path \<Rightarrow> string cf" where
  "render_text h cfg client source_path =
     bindS getS (\<lambda>s.
     bindS (if client_path_exists h s source_path then read_file_text h source_path else returnS []) (\<lambda>t.
     liftS (render_existing_text h cfg client (universal_newlines False t))))"

definition client_backup_path :: "full_config \<Rightarrow> string \<Rightarrow> string \<Rightarrow> path \<Rightarrow> path" where
  "client_backup_path cfg client_name label p =
     path_join (client_backup_dir cfg client_name) (label @ ''.'' @ path_name p)"

definition backup_file :: "client_host \<Rightarrow> full_config \<Rightarrow> string \<Rightarrow> string option \<Rightarrow> path \<Rightarrow> path cf" where
  "backup_file h cfg client_name backup_label source_path =
     bindS (label_or_now h backup_label) (\<lambda>label.
     bindS getS (\<lambda>s.
     let backup_path = client_backup_path cfg client_name label source_path in
     seqS (if client_path_exists h s source_path then copy_file h source_path backup_path
           else write_file_text h backup_path [])
       (returnS backup_path)))"

definition apply_codex_apps_policy ::
    "client_host \<Rightarrow> full_config \<Rightarrow> client_render_config \<Rightarrow> string option \<Rightarrow> bool \<Rightarrow> app_policy_result option cf" where
  "apply_codex_apps_policy h cfg client backup_label dry_run = (case cl_codex_apps_policy client of
     None \<Rightarrow> returnS None
   | Some policy \<Rightarrow>
       bindS (label_or_now h backup_label) (\<lambda>label.
       bindS (apply_codex_app_policy h policy (path_join (client_backup_dir cfg (cl_name client)) ''codex-apps'')
         label dry_run) (\<lambda>res. returnS (Some res))))"

definition render_client_config ::
    "client_host \<Rightarrow> full_config \<Rightarrow> string \<Rightarrow> bool \<Rightarrow> string option \<Rightarrow> path option \<Rightarrow> render_result cf" where
  "render_client_config h cfg client_name dry_run backup_label target_path =
     bindS (liftS (client_named cfg client_name)) (\<lambda>client.
     let rendered = rendered_path cfg client;
         write_path = (case target_path of Some p \<Rightarrow> p | None \<Rightarrow> cl_config_path client) in
     bindS (render_text h cfg client write_path) (\<lambda>rendered_text.
     seqS (write_file_text h rendered rendered_text)
     (bindS (if dry_run then returnS None
         else bindS (backup_file h cfg (cl_name client) backup_label write_path) (\<lambda>b.
           seqS (write_file_text h write_path rendered_text) (returnS (Some b)))) (\<lambda>backup_path.
      bindS (apply_codex_apps_policy h cfg client backup_label dry_run) (\<lambda>policy_result.
      returnS \<lparr>rr_client_name = client_name, rr_target_path = write_path, rr_rendered_path = rendered,
        rr_backup_path = backup_path, rr_dry_run = dry_run, rr_codex_apps_policy_result = policy_result\<rparr>)))))"

fun backup_files :: "client_host \<Rightarrow> full_config \<Rightarrow> string \<Rightarrow> string option \<Rightarrow> path list \<Rightarrow> path list cf" where
  "backup_files h cfg client_name label [] = returnS []"
| "backup_files h cfg client_name label (p # ps) =
     bindS (backup_file h cfg client_name label p) (\<lambda>b.
     bindS (backup_files h cfg client_name label ps) (\<lambda>bs. returnS (b # bs)))"

definition backup_client_config :: "client_host \<Rightarrow> full_config \<Rightarrow> string \<Rightarrow> string option \<Rightarrow> backup_result cf" where
  "backup_client_config h cfg client_name label =
     bindS (liftS (client_named cfg client_name)) (\<lambda>client.
     bindS (backup_files h cfg (cl_name client) label (cl_config_path client # cl_backup_paths client)) (\<lambda>bs.
     returnS \<lparr>br_client_name = client_name, br_backup_paths = bs\<rparr>))"

text \<open>\<open>sorted(backup_dir.glob(f"*.{name}"))\<close>\<close>

definition client_backups :: "client_files \<Rightarrow> full_config \<Rightarrow> client_render_config \<Rightarrow> path list" where
  "client_backups s cfg client =
     sort_key path_key (filter (\<lambda>p. path_parts p \<noteq> [] \<and> path_parent p = client_backup_dir cfg (cl_name client) \<and>
       glob_match (''*.'' @ path_name (cl_config_path client)) (path_name p)) (map fst (cf_files s)))"

definition latest_backup :: "client_files \<Rightarrow> full_config \<Rightarrow> client_render_config \<Rightarrow> path res" where
  "latest_backup s cfg client = (case client_backups s cfg client of
     [] \<Rightarrow> value_error (''no backups found for client: '' @ cl_name client)
   | bs \<Rightarrow> Inr (last bs))"

definition rollback_client_config :: "client_host \<Rightarrow> full_config \<Rightarrow> string \<Rightarrow> rollback_result cf" where
  "rollback_client_config h cfg client_name =
     bindS (liftS (client_named cfg client_name)) (\<lambda>client.
     bindS getS (\<lambda>s.
     bindS (liftS (latest_backup s cfg client)) (\<lambda>backup_path.
     seqS (copy_file h backup_path (cl_config_path client))
     (returnS \<lparr>rb_client_name = client_name, rb_target_path = cl_config_path client,
       rb_restored_path = backup_path\<rparr>))))"

definition apply_client_app_policy ::
    "client_host \<Rightarrow> full_config \<Rightarrow> string \<Rightarrow> bool \<Rightarrow> string option \<Rightarrow> app_policy_apply_result cf" where
  "apply_client_app_policy h cfg client_name dry_run backup_label =
     bindS (liftS (client_named cfg client_name)) (\<lambda>client.
     bindS (apply_codex_apps_policy h cfg client backup_label dry_run) (\<lambda>res.
     returnS \<lparr>aa_client_name = client_name, aa_codex_apps_policy_result = res\<rparr>))"

section \<open>Commands\<close>

text \<open>The commands the parser of the arguments accepts, with their options.\<close>

datatype render_command =
  BackupCommand string "string option"
| RenderCommand string bool "string option"
| AppPolicyCommand string bool "string option"
| RollbackCommand string

datatype command_result =
  Backed backup_result | Rendered render_result | PolicyApplied app_policy_apply_result | RolledBack rollback_result

definition run_render_command :: "client_host \<Rightarrow> full_config \<Rightarrow> render_command \<Rightarrow> command_result cf" where
  "run_render_command h cfg command = (case command of
     BackupCommand client label \<Rightarrow>
       bindS (backup_client_config h cfg client label) (\<lambda>r. returnS (Backed r))
   | RenderCommand client appl target \<Rightarrow>
       bindS (render_client_config h cfg client (\<not> appl) None
         (case target of Some (c # cs) \<Rightarrow> Some (path_of (c # cs)) | _ \<Rightarrow> None)) (\<lambda>r. returnS (Rendered r))
   | AppPolicyCommand client appl label \<Rightarrow>
       bindS (apply_client_app_policy h cfg client (\<not> appl) label) (\<lambda>r. returnS (PolicyApplied r))
   | RollbackCommand client \<Rightarrow>
       bindS (rollback_client_config h cfg client) (\<lambda>r. returnS (RolledBack r)))"

end
