(* ===== verification/Render_Facts.thy ===== *)
theory Render_Facts
  imports Config_Render Http_Runs
begin

text \<open>
  What rendering the TOML configuration of a client does to the file it is made from: the tables of the
  user stay, line by line, and rendering the result again changes nothing.
\<close>

section \<open>Blanks\<close>

lemma rstrip_append: "rstrip (a @ b) = (if blank b then rstrip a else a @ rstrip b)"
proof (cases "blank b")
  case True
  then show ?thesis by (auto simp: rstrip_def blank_def list_all_iff intro!: dropWhile_append2)
next
  case False
  then obtain c where "c \<in> set (rev b)" "\<not> is_space c" by (auto simp: blank_def list_all_iff)
  then show ?thesis using False by (simp add: rstrip_def dropWhile_append1)
qed

lemma rstrip_Nil [simp]: "rstrip s = [] \<longleftrightarrow> blank s"
  by (auto simp: rstrip_def blank_def list_all_iff)

lemma blank_simps [simp]: "blank []" "blank (c # s) \<longleftrightarrow> is_space c \<and> blank s" "blank (a @ b) \<longleftrightarrow> blank a \<and> blank b"
  by (auto simp: blank_def)

lemma rstrip_Cons: "rstrip (c # s) = (if blank s then (if is_space c then [] else [c]) else c # rstrip s)"
  using rstrip_append [of "[c]" s] by (auto simp: rstrip_def)

lemma rstrip_last: "\<not> is_space c \<Longrightarrow> rstrip (s @ [c]) = s @ [c]"
  by (simp add: rstrip_def)

lemma rstrip_idem [simp]: "rstrip (rstrip s) = rstrip s"
  by (simp add: rstrip_def dropWhile_idem')

lemma set_rstrip: "set (rstrip s) \<subseteq> set s"
  by (auto simp: rstrip_def dest: set_dropWhileD)

lemma blank_rstrip [simp]: "blank (rstrip s) \<longleftrightarrow> blank s"
  by (metis rstrip_Nil rstrip_idem)

lemma strip_Cons: "\<not> is_space c \<Longrightarrow> strip (c # s) = rstrip (c # s)"
  by (simp add: strip_def strip_by_def rstrip_def)

lemma dropWhile_blank: "blank s \<Longrightarrow> dropWhile is_space s = []"
  by (simp add: blank_def list_all_iff)

lemma rstrip_blank: "blank s \<Longrightarrow> rstrip s = []"
  by simp

lemma strip_rstrip [simp]: "strip (rstrip s) = strip s"
proof -
  have "dropWhile is_space (rstrip s) = rstrip (dropWhile is_space s)"
  proof (induction s)
    case (Cons c s)
    then show ?case by (cases "blank s") (auto simp: rstrip_Cons rstrip_blank dropWhile_blank)
  qed (simp add: rstrip_def)
  moreover have "strip t = rstrip (dropWhile is_space t)" for t by (simp add: strip_def strip_by_def rstrip_def)
  ultimately show ?thesis by simp
qed

section \<open>Lines\<close>

definition unbroken :: "string \<Rightarrow> bool" where
  "unbroken l \<longleftrightarrow> (\<forall>c \<in> set l. \<not> line_break c)"

lemma unbroken_simps [simp]:
  "unbroken []" "unbroken (c # l) \<longleftrightarrow> \<not> line_break c \<and> unbroken l" "unbroken (a @ b) \<longleftrightarrow> unbroken a \<and> unbroken b"
  by (auto simp: unbroken_def)

lemma unbroken_rstrip: "unbroken l \<Longrightarrow> unbroken (rstrip l)"
  using set_rstrip by (auto simp: unbroken_def)

lemma newline_space [simp]: "is_space newline" "line_break newline"
  by (simp_all add: is_space_def newline_def line_break_def Let_def)

lemma split_lines_unbroken: "unbroken acc \<Longrightarrow> \<forall>l \<in> set (split_lines acc returned s). unbroken l"
  by (induction acc returned s rule: split_lines.induct) auto

lemma text_lines_unbroken: "l \<in> set (text_lines t) \<Longrightarrow> unbroken l"
  unfolding text_lines_def using split_lines_unbroken [of "[]" False t] by simp

definition newline_ended :: "string list \<Rightarrow> string" where
  "newline_ended ls = concat (map (\<lambda>l. l @ [newline]) ls)"

lemma newline_ended_simps [simp]:
  "newline_ended [] = []" "newline_ended (l # ls) = l @ newline # newline_ended ls"
  "newline_ended (xs @ ys) = newline_ended xs @ newline_ended ys"
  by (simp_all add: newline_ended_def)

lemma text_lines_ended: "\<forall>l \<in> set ls. unbroken l \<Longrightarrow> text_lines (newline_ended ls) = ls"
  using split_lines_stream [of ls "[]"] by (simp add: text_lines_def newline_ended_def unbroken_def)

lemma join_Nil [simp]: "join sep [] = []"
  by (simp add: join_def)

lemma join_Cons: "join sep (w # ws) = (if ws = [] then w else w @ sep @ join sep ws)"
  by (simp add: join_def split: list.splits)

lemma join_ended: "ls \<noteq> [] \<Longrightarrow> join [newline] ls @ [newline] = newline_ended ls"
  by (induction ls) (auto simp: join_Cons)

lemma join_snoc: "join sep (ws @ [w]) = (if ws = [] then w else join sep ws @ sep @ w)"
  by (induction ws) (auto simp: join_Cons)

section \<open>The end of a text\<close>

text \<open>The lines of a text that ends with its last line that is not blank.\<close>

fun trimmed_from_last :: "string list \<Rightarrow> string list" where
  "trimmed_from_last [] = []"
| "trimmed_from_last (l # ls) = (if blank l then trimmed_from_last ls else rstrip l # ls)"

definition trimmed :: "string list \<Rightarrow> string list" where
  "trimmed ls = rev (trimmed_from_last (rev ls))"

lemma trimmed_snoc: "trimmed (ls @ [l]) = (if blank l then trimmed ls else ls @ [rstrip l])"
  by (simp add: trimmed_def)

lemma trimmed_Nil [simp]: "trimmed [] = []"
  by (simp add: trimmed_def)

lemma trimmed_cases: obtains "trimmed ls = []" | xs l where "trimmed ls = xs @ [rstrip l]" "\<not> blank l"
proof (induction ls rule: rev_induct)
  case (snoc l ls)
  then show ?case by (cases "blank l") (auto simp: trimmed_snoc)
qed simp

lemma trimmed_idem [simp]: "trimmed (trimmed ls) = trimmed ls"
  by (cases rule: trimmed_cases [of ls]) (simp_all add: trimmed_snoc)

lemma trimmed_lines: "l \<in> set (trimmed ls) \<Longrightarrow> \<exists>l' \<in> set ls. l = l' \<or> l = rstrip l'"
proof (induction ls rule: rev_induct)
  case (snoc l' ls)
  then show ?case by (cases "blank l'") (auto simp: trimmed_snoc)
qed simp

lemma rstrip_join: "rstrip (join [newline] ls) = join [newline] (trimmed ls)"
proof (induction ls rule: rev_induct)
  case (snoc l ls)
  have "blank ([newline] @ l) = blank l" by simp
  moreover have "rstrip ([newline] @ l) = [newline] @ rstrip l" if "\<not> blank l"
    using that by (subst rstrip_append) simp
  ultimately show ?case
    using snoc by (cases "blank l") (auto simp: trimmed_snoc join_snoc rstrip_append rstrip_blank simp del: blank_simps rstrip_Nil)
qed (simp add: rstrip_blank)

lemma lines_text_trimmed: "trimmed ls \<noteq> [] \<Longrightarrow> lines_text ls = newline_ended (trimmed ls)"
  by (auto simp: lines_text_def rstrip_join join_ended)

lemma lines_text_blank: "trimmed ls = [] \<Longrightarrow> lines_text ls = (if ls = [] then [] else [newline])"
  by (auto simp: lines_text_def rstrip_join simp del: rstrip_Nil)

section \<open>The tables that stay\<close>

text \<open>Without separator comments a line is dropped from an MCP table or a legacy marker on, up to the next table.\<close>

fun drops :: "bool \<Rightarrow> string \<Rightarrow> bool" where
  "drops dropping line =
     (if is_table_header (strip line) then is_codex_mcp_table (strip line)
      else dropping \<or> strip line \<in> set LEGACY_CODEX_MCP_COMMENT_MARKERS)"

declare drops.simps [simp del]

fun other_lines :: "bool \<Rightarrow> string list \<Rightarrow> string list" where
  "other_lines dropping [] = []"
| "other_lines dropping (l # ls) = (if drops dropping l then other_lines True ls else l # other_lines False ls)"

definition no_separators :: "string list \<Rightarrow> bool" where
  "no_separators ls \<longleftrightarrow> (\<forall>l \<in> set ls. strip l \<noteq> SEPARATOR_COMMENT)"

lemma marker_no_header: "m \<in> set LEGACY_CODEX_MCP_COMMENT_MARKERS \<Longrightarrow> \<not> is_table_header m"
  by (auto simp: LEGACY_CODEX_MCP_COMMENT_MARKERS_def is_table_header_def)

definition stripping :: "strip_state \<Rightarrow> bool" where
  "stripping st \<longleftrightarrow> ss_skipped_table_header st \<noteq> None \<or> ss_legacy_comment_marker st \<noteq> None"

lemma strip_line_plain:
  assumes "ss_pending_separator_lines st = []" and "strip l \<noteq> SEPARATOR_COMMENT"
  shows "ss_pending_separator_lines (strip_line st l) = []"
    and "stripping (strip_line st l) = drops (stripping st) l"
    and "ss_kept_lines (strip_line st l) = ss_kept_lines st @ (if drops (stripping st) l then [] else [l])"
  using assms marker_no_header [of "strip l"]
  by (auto simp: strip_line_def keep_line_def flush_pending_def stripping_def Let_def drops.simps)

lemma strip_scan:
  "ss_pending_separator_lines st = [] \<Longrightarrow> no_separators ls \<Longrightarrow>
     ss_pending_separator_lines (foldl strip_line st ls) = [] \<and>
     ss_kept_lines (foldl strip_line st ls) = ss_kept_lines st @ other_lines (stripping st) ls"
proof (induction ls arbitrary: st)
  case (Cons l ls)
  then have "strip l \<noteq> SEPARATOR_COMMENT" "no_separators ls" by (simp_all add: no_separators_def)
  note step = strip_line_plain [OF Cons.prems(1) this(1)]
  from Cons.IH [OF step(1) \<open>no_separators ls\<close>] show ?case by (simp add: step(2,3))
qed simp

lemma strip_is_reference:
  "no_separators (text_lines t) \<Longrightarrow> strip_codex_mcp_tables t = lines_text (other_lines False (text_lines t))"
  using strip_scan [of strip_start "text_lines t"]
  by (simp add: strip_codex_mcp_tables_def flush_pending_def strip_start_def stripping_def)

section \<open>Lines that stay\<close>

definition stays :: "string \<Rightarrow> bool" where
  "stays l \<longleftrightarrow> \<not> drops False l"

lemma drops_False: "\<not> drops d l \<Longrightarrow> stays l"
  by (auto simp: stays_def drops.simps split: if_splits)

lemma other_lines_stay: "l \<in> set (other_lines d ls) \<Longrightarrow> stays l \<and> l \<in> set ls"
  by (induction d ls rule: other_lines.induct) (auto split: if_splits dest: drops_False)

lemma other_lines_all: "\<forall>l \<in> set ls. stays l \<Longrightarrow> other_lines False (ls @ ks) = ls @ other_lines False ks"
  by (induction ls) (auto simp: stays_def)

lemma stays_rstrip [simp]: "stays (rstrip l) \<longleftrightarrow> stays l"
  by (simp add: stays_def drops.simps)

lemma stays_Nil: "stays []"
  by (simp add: stays_def drops.simps is_table_header_def LEGACY_CODEX_MCP_COMMENT_MARKERS_def strip_def strip_by_def)

lemma other_lines_dropped: "\<forall>l \<in> set ls. drops True l \<Longrightarrow> other_lines True ls = []"
  by (induction ls) auto

section \<open>The entry of the broker\<close>

definition limit_lines :: "string \<Rightarrow> string \<times> int \<Rightarrow> string list" where
  "limit_lines entry_name limit =
     [[], ''['' @ server_table entry_name @ ''.tools.'' @ toml_key (fst limit) @ '']'',
      ''output_token_limit = '' @ str_int (snd limit)]"

definition entry_lines :: "string \<Rightarrow> string \<Rightarrow> string list \<Rightarrow> (string \<times> int) list \<Rightarrow> string list" where
  "entry_lines entry_name command args limits =
     (''['' @ server_table entry_name @ '']'') # (''command = '' @ quote_toml command) #
     (''args = ['' @ join '', '' (map quote_toml args) @ '']'') # concat (map (limit_lines entry_name) limits)"

lemma entry_ended: "broker_entry entry_name command args limits = newline_ended (entry_lines entry_name command args limits)"
proof -
  have "concat (map (token_limit_table entry_name) limits) = newline_ended (concat (map (limit_lines entry_name) limits))"
    by (induction limits) (auto simp: token_limit_table_def limit_lines_def)
  then show ?thesis by (simp add: broker_entry_def entry_lines_def)
qed

definition one_line :: "string \<Rightarrow> string list \<Rightarrow> (string \<times> int) list \<Rightarrow> string \<Rightarrow> bool" where
  "one_line command args limits entry_name \<longleftrightarrow>
     unbroken entry_name \<and> unbroken command \<and> list_all unbroken args \<and> list_all (\<lambda>(tool_name, n). unbroken tool_name) limits"

lemma unbroken_quote: "unbroken s \<Longrightarrow> unbroken (quote_toml s)"
  by (auto simp: unbroken_def quote_toml_def escape_toml_string_def replace_by_def line_break_def split: if_splits)

lemma unbroken_key: "unbroken s \<Longrightarrow> unbroken (toml_key s)"
  by (simp add: toml_key_def unbroken_quote)

lemma unbroken_join: "unbroken sep \<Longrightarrow> \<forall>w \<in> set ws. unbroken w \<Longrightarrow> unbroken (join sep ws)"
  by (induction ws) (auto simp: join_Cons)

lemma unbroken_int: "unbroken (str_int i)"
  by (auto simp: unbroken_def line_break_def dest!: str_int_chars)

lemma unbroken_table: "unbroken s \<Longrightarrow> unbroken (server_table s)"
  by (simp add: server_table_def unbroken_quote MCP_TABLE_def line_break_def)

lemma limit_unbroken:
  "unbroken n \<Longrightarrow> unbroken (fst limit) \<Longrightarrow> l \<in> set (limit_lines n limit) \<Longrightarrow> unbroken l"
  by (auto simp: limit_lines_def line_break_def intro: unbroken_table unbroken_int unbroken_key)

lemma entry_unbroken:
  assumes "one_line command args limits n" and "l \<in> set (entry_lines n command args limits)"
  shows "unbroken l"
proof -
  from assms(1) have parts: "unbroken n" "unbroken command" "\<forall>a \<in> set args. unbroken a"
    "\<forall>limit \<in> set limits. unbroken (fst limit)"
    by (auto simp: one_line_def list_all_iff)
  from parts(3) have "unbroken (join '', '' (map quote_toml args))"
    by (intro unbroken_join) (auto simp: line_break_def intro: unbroken_quote)
  moreover note unbroken_quote [OF parts(2)] unbroken_table [OF parts(1)]
  ultimately have heads: "unbroken (''['' @ server_table n @ '']'')" "unbroken (''command = '' @ quote_toml command)"
    "unbroken (''args = ['' @ join '', '' (map quote_toml args) @ '']'')"
    by (simp_all add: line_break_def)
  from assms(2) have "l \<in> {''['' @ server_table n @ '']'', ''command = '' @ quote_toml command,
      ''args = ['' @ join '', '' (map quote_toml args) @ '']''} \<or> (\<exists>limit \<in> set limits. l \<in> set (limit_lines n limit))"
    unfolding entry_lines_def by (simp only: list.set(2) set_concat set_map insert_iff UN_iff image_iff) blast
  then show ?thesis using heads parts(1,4) limit_unbroken by (elim disjE insertE) (blast | simp only:)+
qed

lemma strip_bracketed: "strip (''['' @ s @ '']'') = ''['' @ s @ '']''"
proof -
  have "\<not> is_space (CHR ''['')" "\<not> is_space (CHR '']'')" by (simp_all add: is_space_def)
  then show ?thesis using strip_Cons [of "CHR ''[''" "s @ '']''"] rstrip_last [of "CHR '']''" "CHR ''['' # s"] by simp
qed

lemma server_header: "is_codex_mcp_table (''['' @ server_table n @ s @ '']'')"
proof -
  have inner: "remove_suffix '']'' (remove_prefix ''['' (''['' @ server_table n @ s @ '']'')) = server_table n @ s"
    by (simp add: remove_suffix_def remove_prefix_def suffix_def)
  have quoted: "\<not> blank (quote_toml n @ s)" by (simp add: quote_toml_def is_space_def)
  have start: "server_table n @ s = CHR ''m'' # (''cp_servers.'' @ quote_toml n @ s)"
    by (simp add: server_table_def MCP_TABLE_def)
  have "strip (server_table n @ s) = rstrip (server_table n @ s)"
    unfolding start by (rule strip_Cons) (simp add: is_space_def)
  also have "\<dots> = (MCP_TABLE @ ''.'') @ rstrip (quote_toml n @ s)"
    using quoted rstrip_append [of "MCP_TABLE @ ''.''" "quote_toml n @ s"] unfolding server_table_def
    by (simp only: append_assoc if_False)
  finally have "strip (server_table n @ s) = (MCP_TABLE @ ''.'') @ rstrip (quote_toml n @ s)" .
  then show ?thesis unfolding is_codex_mcp_table_def Let_def inner by simp
qed

lemma drops_header: "drops d (''['' @ server_table n @ s @ '']'')"
proof -
  have "is_table_header (''['' @ server_table n @ s @ '']'')" by (simp add: is_table_header_def suffix_def)
  moreover have "strip (''['' @ server_table n @ s @ '']'') = ''['' @ server_table n @ s @ '']''"
    using strip_bracketed [of "server_table n @ s"] by simp
  ultimately show ?thesis using server_header [of n s] by (simp only: drops.simps simp_thms if_True)
qed

lemma drops_more: "\<not> is_table_header (strip l) \<Longrightarrow> drops True l"
  by (simp add: drops.simps)

lemma strip_plain_start: "\<not> is_space c \<Longrightarrow> \<exists>r. strip (c # s) = c # r"
  by (simp add: strip_Cons rstrip_Cons)

lemma not_header_start: "\<not> is_space c \<Longrightarrow> c \<noteq> CHR ''['' \<Longrightarrow> \<not> is_table_header (strip (c # s))"
  using strip_plain_start [of c s] by (auto simp: is_table_header_def)

lemma drops_limit: "l \<in> set (limit_lines n limit) \<Longrightarrow> drops True l"
proof -
  assume "l \<in> set (limit_lines n limit)"
  then consider "l = []" | "l = ''['' @ server_table n @ (''.tools.'' @ toml_key (fst limit)) @ '']''"
    | "l = CHR ''o'' # (''utput_token_limit = '' @ str_int (snd limit))"
    by (auto simp: limit_lines_def)
  then show ?thesis
  proof cases
    case 1
    then show ?thesis by (simp add: drops.simps is_table_header_def strip_def strip_by_def)
  next
    case 2
    then show ?thesis by (simp only: drops_header)
  next
    case 3
    have "\<not> is_table_header (strip l)" unfolding 3 by (rule not_header_start) (simp_all add: is_space_def)
    then show ?thesis by (rule drops_more)
  qed
qed

lemma entry_dropped: "other_lines False (entry_lines n command args limits) = []"
proof -
  have plain: "drops True (CHR ''c'' # s)" "drops True (CHR ''a'' # s)" for s
    by (intro drops_more not_header_start, simp_all add: is_space_def)+
  have "\<forall>l \<in> set (concat (map (limit_lines n) limits)). drops True l"
    using drops_limit by auto
  then have "other_lines True ((''command = '' @ quote_toml command) #
      (''args = ['' @ join '', '' (map quote_toml args) @ '']'') # concat (map (limit_lines n) limits)) = []"
    using plain by (intro other_lines_dropped) simp
  with drops_header [of False n "[]"] show ?thesis by (simp add: entry_lines_def)
qed


lemma limit_start: "l \<in> set (limit_lines n limit) \<Longrightarrow> l = [] \<or> (\<exists>c r. l = c # r \<and> c \<in> set ''[cao'')"
  by (auto simp: limit_lines_def)

lemma entry_start:
  assumes "l \<in> set (entry_lines n command args limits)"
  shows "l = [] \<or> (\<exists>c r. l = c # r \<and> c \<in> set ''[cao'')"
proof -
  from assms consider "\<exists>r. l = CHR ''['' # r" | "\<exists>r. l = CHR ''c'' # r" | "\<exists>r. l = CHR ''a'' # r"
    | "l \<in> set (concat (map (limit_lines n) limits))"
    by (auto simp: entry_lines_def simp del: set_concat)
  then show ?thesis
  proof cases
    case 4
    then obtain limit where "l \<in> set (limit_lines n limit)" by auto
    then show ?thesis by (rule limit_start)
  qed auto
qed

lemma entry_no_separators: "no_separators (entry_lines n command args limits)"
  unfolding no_separators_def
proof
  fix l
  assume "l \<in> set (entry_lines n command args limits)"
  then consider "l = []" | c r where "l = c # r" "c \<in> set ''[cao''" using entry_start by blast
  then show "strip l \<noteq> SEPARATOR_COMMENT"
  proof cases
    case 1
    then show ?thesis by (simp add: SEPARATOR_COMMENT_def strip_def strip_by_def)
  next
    case 2
    then have "\<not> is_space c" by (auto simp: is_space_def)
    with 2 strip_plain_start [of c r] show ?thesis by (auto simp: SEPARATOR_COMMENT_def)
  qed
qed

section \<open>The rendered text\<close>

definition user_lines :: "string \<Rightarrow> string list" where
  "user_lines t = trimmed (other_lines False (text_lines t))"

definition above_entry :: "string list \<Rightarrow> string list" where
  "above_entry ls = (if ls = [] then [] else ls @ [[]])"

lemma user_line:
  assumes "l \<in> set (user_lines t)"
  shows "unbroken l" and "stays l" and "no_separators (text_lines t) \<Longrightarrow> strip l \<noteq> SEPARATOR_COMMENT"
proof -
  from assms obtain l' where l': "l' \<in> set (other_lines False (text_lines t))" "l = l' \<or> l = rstrip l'"
    unfolding user_lines_def by (metis trimmed_lines)
  then have stay: "stays l'" "l' \<in> set (text_lines t)" using other_lines_stay by blast+
  with l'(2) show "stays l" by auto
  show "unbroken l" using l'(2) text_lines_unbroken [OF stay(2)] unbroken_rstrip by auto
  show "strip l \<noteq> SEPARATOR_COMMENT" if "no_separators (text_lines t)"
    using that l'(2) stay(2) by (auto simp: no_separators_def)
qed

lemma trailing_comments_kept:
  assumes "xs = trimmed ls" "xs \<noteq> []" "\<forall>l \<in> set xs. unbroken l \<and> strip l \<noteq> SEPARATOR_COMMENT"
  shows "strip_trailing_separator_comments (lines_text ls) = newline_ended xs"
proof -
  from assms(1,2) have ls: "text_lines (lines_text ls) = xs"
    using assms(3) by (simp add: lines_text_trimmed text_lines_ended)
  from assms(1,2) obtain ys l where xs: "xs = ys @ [rstrip l]" "\<not> blank l" by (cases rule: trimmed_cases [of ls]) auto
  with assms(3) have "drop_separators (drop_blank_lines (rev xs)) = rev xs"
    by (simp add: drop_blank_lines_def)
  then have "strip_trailing_separator_comments (lines_text ls) = lines_text xs"
    by (simp add: strip_trailing_separator_comments_def ls)
  also have "\<dots> = newline_ended xs" using assms(1,2) by (simp add: lines_text_trimmed)
  finally show ?thesis .
qed

lemma blank_lines_dropped:
  assumes "trimmed ls = []"
  shows "strip_trailing_separator_comments (lines_text ls) = []"
proof -
  have "text_lines [newline] = [[]]" "text_lines [] = []" using text_lines_ended [of "[[]]"] text_lines_ended [of "[]"] by simp_all
  then have "drop_blank_lines (rev (text_lines (lines_text ls))) = []"
    by (simp add: lines_text_blank [OF assms] drop_blank_lines_def)
  then show ?thesis by (simp add: strip_trailing_separator_comments_def lines_text_def)
qed

lemma rendered_lines:
  assumes "no_separators (text_lines t)"
  shows "render_codex_toml n command args t limits =
    newline_ended (above_entry (user_lines t) @ entry_lines n command args limits)"
proof (cases "user_lines t = []")
  case True
  then have "strip_trailing_separator_comments (strip_codex_mcp_tables t) = []"
    unfolding strip_is_reference [OF assms] by (intro blank_lines_dropped) (simp add: user_lines_def)
  then show ?thesis using True by (simp add: render_codex_toml_def above_entry_def entry_ended)
next
  case False
  let ?ls = "user_lines t"
  have preserved: "strip_trailing_separator_comments (strip_codex_mcp_tables t) = newline_ended ?ls"
    unfolding strip_is_reference [OF assms] using False user_line [of _ t] assms
    by (intro trailing_comments_kept) (auto simp: user_lines_def)
  obtain ys l where ls: "?ls = ys @ [rstrip l]" "\<not> blank l"
    using False unfolding user_lines_def by (cases rule: trimmed_cases [of "other_lines False (text_lines t)"]) auto
  then have "\<not> blank (newline_ended ?ls)" by simp
  moreover have "rstrip (newline_ended ?ls) @ [newline] = newline_ended ?ls"
  proof -
    have "rstrip (newline_ended ?ls) = rstrip (join [newline] ?ls)"
      using False by (simp add: join_ended [symmetric] rstrip_append)
    also have "\<dots> = join [newline] ?ls" unfolding rstrip_join by (simp add: user_lines_def)
    finally show ?thesis using False by (simp add: join_ended)
  qed
  ultimately show ?thesis using False
    by (simp add: render_codex_toml_def preserved above_entry_def entry_ended)
qed

lemma above_line: "l \<in> set (above_entry ls) \<Longrightarrow> l = [] \<or> l \<in> set ls"
  by (auto simp: above_entry_def split: if_splits)

lemma text_lines_rendered:
  assumes "no_separators (text_lines t)" and "one_line command args limits n"
  shows "text_lines (render_codex_toml n command args t limits) = above_entry (user_lines t) @ entry_lines n command args limits"
proof -
  have "\<forall>l \<in> set (above_entry (user_lines t) @ entry_lines n command args limits). unbroken l"
    using above_line user_line(1) entry_unbroken [OF assms(2)] unbroken_simps(1) by (metis Un_iff set_append)
  then show ?thesis unfolding rendered_lines [OF assms(1)] by (rule text_lines_ended)
qed

lemma user_lines_rendered:
  assumes "no_separators (text_lines t)" and "one_line command args limits n"
  shows "user_lines (render_codex_toml n command args t limits) = user_lines t"
    and "no_separators (text_lines (render_codex_toml n command args t limits))"
proof -
  let ?above = "above_entry (user_lines t)" and ?entry = "entry_lines n command args limits"
  note split = text_lines_rendered [OF assms]
  have "\<forall>l \<in> set ?above. stays l" using above_line user_line(2) stays_Nil by metis
  then have "other_lines False (?above @ ?entry) = ?above"
    by (simp add: other_lines_all entry_dropped)
  then show "user_lines (render_codex_toml n command args t limits) = user_lines t"
    by (simp add: user_lines_def split above_entry_def trimmed_snoc)
  show "no_separators (text_lines (render_codex_toml n command args t limits))"
    unfolding split no_separators_def
  proof
    fix l
    assume "l \<in> set (?above @ ?entry)"
    then consider "l = []" | "l \<in> set (user_lines t)" | "l \<in> set ?entry" using above_line by auto
    then show "strip l \<noteq> SEPARATOR_COMMENT"
    proof cases
      case 1
      then show ?thesis by (simp add: SEPARATOR_COMMENT_def strip_def strip_by_def)
    next
      case 2
      then show ?thesis by (rule user_line(3) [OF _ assms(1)])
    next
      case 3
      then show ?thesis using entry_no_separators by (auto simp: no_separators_def)
    qed
  qed
qed

text \<open>
  The file of a TOML client after rendering: above the entry of the broker it has the lines of the old file
  that are in no MCP table and under no legacy marker, in their order. Rendering the result again gives
  the same text.
\<close>

theorem rendering_is_stable:
  assumes "no_separators (text_lines t)" and "one_line command args limits n"
  shows "user_lines (render_codex_toml n command args t limits) = user_lines t \<and>
    text_lines (render_codex_toml n command args t limits) = above_entry (user_lines t) @ entry_lines n command args limits \<and>
    render_codex_toml n command args (render_codex_toml n command args t limits) limits =
      render_codex_toml n command args t limits"
proof (intro conjI)
  note again = user_lines_rendered [OF assms]
  show "user_lines (render_codex_toml n command args t limits) = user_lines t" by (rule again(1))
  show "text_lines (render_codex_toml n command args t limits) = above_entry (user_lines t) @ entry_lines n command args limits"
    by (rule text_lines_rendered [OF assms])
  show "render_codex_toml n command args (render_codex_toml n command args t limits) limits = render_codex_toml n command args t limits"
  proof -
    have "render_codex_toml n command args (render_codex_toml n command args t limits) limits =
        newline_ended (above_entry (user_lines (render_codex_toml n command args t limits)) @ entry_lines n command args limits)"
      by (rule rendered_lines [OF again(2)])
    also have "\<dots> = render_codex_toml n command args t limits"
      unfolding again(1) by (rule rendered_lines [OF assms(1), symmetric])
    finally show ?thesis .
  qed
qed

section \<open>What rendering and rolling back do not intend\<close>

text \<open>
  The header of a table is only seen without a comment behind it: a table of the user that follows an entry
  of an MCP server and has one is lost with that entry.
\<close>

lemma commented_header_is_lost:
  "strip_codex_mcp_tables (''[mcp_servers.a]'' @ [newline] @ ''[profile] # mine'' @ [newline] @ ''x = 1'' @ [newline]) = []"
  by code_simp

text \<open>
  A backup is named by the last part of the path: of two files with the same name in one backup the second
  overwrites the first, and the backup of another file may be taken for that of the configuration.
\<close>

lemma same_name_same_backup:
  "path_name p = path_name q \<Longrightarrow> client_backup_path cfg client label p = client_backup_path cfg client label q"
  by (simp add: client_backup_path_def)

lemma other_backup_matches: "glob_match (''*.'' @ ''settings.json'') (''20260101T000000Z.'' @ ''mcp.settings.json'')"
  by code_simp

end
