(* ===== verification/Spec2Isabelle.thy ===== *)
theory Spec2Isabelle
  imports Prelude PyText PyValue PyPath PyTime Shared_Policy Quota_Policy Shared_Worker Profiles
    Config_Schema Config_Model Config_Checks Tool_Definitions Tool_Namespace Broker_Core Call_Locks
    Hybrid_Router Request_Meta Projection Catalog Catalog_Facts Json_Files Distributed_State
    Distributed_Facts Upstream_Registry Upstream_Facts Registry_Steps Daemon_Health Json_Rpc Break_Glass
    Governance_Approval Daemon Daemon_Facts Elicitation Runtime_Reaper Reaper_Facts Upstream_Stdio
    Stdio_Calls Stdio_Facts Stdio_Runs Config_Layers Layer_Facts Safe_Ids Deployments Deployment_Facts
    Rollout Rollout_Facts Supervisor Supervisor_Facts Supervisor_Runs Assignment Governance_Pull
    Governance_Facts Plain_Paths Fleet_Reports Fleet_Facts Runtime_Files Runtime_Artifact Runtime_Install
    Bootstrap Runtime_Facts Bootstrap_Facts Bootstrap_Runs Bootstrap_Demo
    Upstream_Http Http_Facts Http_Runs Client_Release Client_Models
    Client_Config Client_Text Config_Render Render_Facts
begin

text \<open>
  A verification development of mcp-broker, the local broker that stands between MCP clients and a
  set of MCP servers (the upstreams). The program under \<^verbatim>\<open>src/mcp_broker/\<close> reads a configuration,
  offers a client the tools of the upstreams that the client's profile exposes, routes each call to
  the upstream its prefix names, and keeps the state of deployments in a locked, journalled store.

  \<^bold>\<open>The parts, their theories and their sources.\<close>

  \<^item> \<open>Prelude\<close>: results (\<open>'a res\<close> is \<open>exn + 'a\<close>), the state monad \<open>sem\<close> of code that changes state
    and may raise (the state of a raise is kept), loops that stop at the first exception (\<open>foldE\<close>,
    \<open>mapE\<close>), reachability and the locale \<open>transition_system\<close> for invariants of step relations.
  \<^item> \<open>PyText\<close>, \<open>PyValue\<close>, \<open>PyPath\<close>, \<open>PyTime\<close>: what the code uses of Python itself: \<open>str\<close> methods,
    decoded JSON or YAML values with \<open>==\<close>, truth and \<open>int()\<close>, pure paths, aware and naive times.
  \<^item> \<open>Profiles\<close> (\<^verbatim>\<open>profiles.py\<close>), \<open>Config_Schema\<close> (\<^verbatim>\<open>schema.py\<close>, \<^verbatim>\<open>config_modes.py\<close>), \<open>Config_Model\<close>
    (\<^verbatim>\<open>config.py\<close>, \<^verbatim>\<open>config_keys.py\<close>, \<^verbatim>\<open>config_identity.py\<close>): the configuration, one record per data
    class and one function per parser; \<open>Config_Checks\<close> proves what the parsers and the cross-field
    checks accept.
  \<^item> \<open>Tool_Definitions\<close>, \<open>Tool_Namespace\<close> (\<^verbatim>\<open>tool_namespace.py\<close>): advertised names and their
    resolution. The locale \<open>namespacing\<close> states what joining and splitting a name promise each
    other.
  \<^item> \<open>Broker_Core\<close> and \<open>Call_Locks\<close> (\<^verbatim>\<open>broker.py\<close>): listing, routing and calling, first as one
    sequential call, then as a step relation of concurrent calls with the locks of serialised
    upstreams.
  \<^item> \<open>Request_Meta\<close> (\<^verbatim>\<open>project_slug.py\<close>, \<^verbatim>\<open>request_metadata.py\<close>), \<open>Catalog\<close>, \<open>Catalog_Facts\<close> and
    \<open>Projection\<close> (\<^verbatim>\<open>catalog.py\<close>): the arguments the broker adds to a call, and the broker's own
    tools.
  \<^item> \<open>Shared_Policy\<close> (\<^verbatim>\<open>shared_runtime_policy.py\<close>, \<^verbatim>\<open>session_affinity.py\<close>), \<open>Quota_Policy\<close>
    (\<^verbatim>\<open>quota_policy.py\<close>), \<open>Shared_Worker\<close> (\<^verbatim>\<open>shared_worker.py\<close>), \<open>Hybrid_Router\<close>
    (\<^verbatim>\<open>hybrid_router.py\<close>): which calls may leave the machine, under which quota. The identifier
    checks of these modules are copies of each other and share the locale \<open>identifier_check\<close>.
  \<^item> \<open>Distributed_State\<close> and \<open>Distributed_Facts\<close> (\<^verbatim>\<open>distributed_state.py\<close>): the store as the record
    of its files, its operations in the state monad, and a step relation of all of them.

  \<^item> \<open>Json_Files\<close>: files that hold one JSON value, the texts and timestamps the stores check, and the
    path that a written path reads back as. \<open>Break_Glass\<close> (\<^verbatim>\<open>break_glass.py\<close>) and
    \<open>Governance_Approval\<close> (\<^verbatim>\<open>governance_approval.py\<close>): the operator's stores over it.
  \<^item> \<open>Upstream_Registry\<close> (\<^verbatim>\<open>daemon_upstreams.py\<close>, and the shutdown, the janitor and the repair
    statistics of \<^verbatim>\<open>daemon.py\<close>): the registries of upstream clients, one operation at a time, over the
    client interface of \<^verbatim>\<open>upstream_protocols.py\<close>; \<open>Upstream_Facts\<close> proves its invariant,
    \<open>Client_Release\<close> watches the factory and the stops of the clients and shows that none is lost, and
    \<open>Registry_Steps\<close> interleaves the locked blocks between threads, with the finalisers of clients.
  \<^item> \<open>Daemon_Health\<close> (\<^verbatim>\<open>daemon_helpers.py\<close>): health reports and the redaction of log fields.
    \<open>Json_Rpc\<close> (\<^verbatim>\<open>jsonrpc.py\<close>, \<^verbatim>\<open>protocol.py\<close>, \<^verbatim>\<open>daemon_socket.py\<close>): messages, handshake, framing.
  \<^item> \<open>Daemon\<close> (\<^verbatim>\<open>daemon.py\<close>, \<^verbatim>\<open>daemon_request_context.py\<close>, \<^verbatim>\<open>daemon_tool_calls.py\<close>,
    \<^verbatim>\<open>daemon_status.py\<close>): one connection, from its bytes to its response, over the catalog facade, the
    hybrid router, the registries and the break-glass store. \<open>Daemon_Facts\<close>: the locale
    \<open>daemon_registry\<close> states what the requests rely on the registries to keep, and its interpretation
    \<open>requests\<close> takes it from \<open>Upstream_Facts\<close>.

  \<^item> \<open>Upstream_Stdio\<close>, \<open>Stdio_Calls\<close> (\<^verbatim>\<open>upstream_stdio.py\<close>) and \<open>Elicitation\<close> (\<^verbatim>\<open>elicitation.py\<close>): the
    client of an upstream on the pipes of a child process, from the start of the child over the
    handshake to the response, and the relay of the child's own questions to the host. \<open>Stdio_Facts\<close>
    shows whose result a call returns, what a timeout leaves and how lines are read; \<open>Stdio_Runs\<close> runs
    the client on concrete children. What a child writes is a finite list of chunks of any length.
  \<^item> \<open>Upstream_Http\<close> (\<^verbatim>\<open>upstream_http.py\<close>): the client of an upstream behind a URL. \<open>Http_Facts\<close> shows the
    order of its requests and whose result a call returns; \<open>Http_Runs\<close> bounds the retries, reads event
    streams, and runs the client on a server. A call is one step, although the client has no lock: the
    order of requests is shown for calls one after another, and two lemmas show what overlapping ones do.
  \<^item> \<open>Client_Models\<close> (\<^verbatim>\<open>daemon.py\<close>): the daemon over the modelled stdio and HTTP clients.
  \<^item> \<open>Client_Config\<close> (\<^verbatim>\<open>client_config.py\<close>, \<^verbatim>\<open>BrokerConfig.from_file\<close>): the clients section and the whole
    file. \<open>Client_Text\<close>, \<open>Config_Render\<close> (\<^verbatim>\<open>config_render.py\<close>, \<^verbatim>\<open>codex_app_policy.py\<close>): the entry of the
    broker in the configuration of a client, backup, rollback and the policy for application connectors.
    \<open>Render_Facts\<close>: rendering keeps the lines of the user, and rendering again changes nothing.
  \<^item> \<open>Supervisor\<close> (\<^verbatim>\<open>upstream_process.py\<close>, \<^verbatim>\<open>upstream_state.py\<close>): the supervisor of a standalone
    upstream. \<open>Supervisor_Facts\<close> has its life cycle as an abstract automaton and shows that starting
    and stopping follow it; \<open>Supervisor_Runs\<close> has any sequence of operations, the limits of restarts,
    the watchdogs and the registry.
  \<^item> \<open>Runtime_Reaper\<close>, \<open>Reaper_Facts\<close> (\<^verbatim>\<open>runtime_reaper.py\<close>): the records of processes and sockets of a
    runtime root, and what a start of the broker kills and removes.
  \<^item> \<open>Config_Layers\<close>, \<open>Layer_Facts\<close> (\<^verbatim>\<open>config_layers.py\<close>): the composition of a configuration from
    layers, with provenance and conflicts. Values are trees; sharing through YAML aliases is left out.
  \<^item> \<open>Deployments\<close>, \<open>Deployment_Facts\<close> (\<^verbatim>\<open>bundle_loader.py\<close>, \<^verbatim>\<open>deployments.py\<close>): bundles, and the store of
    deployments as lists of file operations that may stop anywhere. \<open>Rollout\<close>, \<open>Rollout_Facts\<close>
    (\<^verbatim>\<open>rollout_simulator.py\<close>, \<^verbatim>\<open>governance_rollout_controller.py\<close>): what a rollout may decide and its
    audit records. \<open>Safe_Ids\<close>: the file names these stores derive from free text.
  \<^item> \<open>Assignment\<close> (\<^verbatim>\<open>governance_assignment.py\<close>, \<^verbatim>\<open>governance_publish.py\<close>): which published bundle a
    broker is assigned. \<open>Governance_Pull\<close> (\<^verbatim>\<open>governance_pull.py\<close>): fetching it into the cache, and
    applying it to the deployment store. \<open>Governance_Facts\<close> follows a bundle through all three.
  \<^item> \<open>Fleet_Reports\<close>, \<open>Fleet_Facts\<close> (\<^verbatim>\<open>fleet_status.py\<close>, \<^verbatim>\<open>fleet_collection.py\<close>): what a broker
    reports to a fleet, with its redaction, and the envelope the report is collected in.
  \<^item> \<open>Runtime_Files\<close>: a tree of files with modes, and \<open>Plain_Paths\<close>: the paths that are their own normal
    form. \<open>Runtime_Artifact\<close> (\<^verbatim>\<open>runtime_artifact.py\<close>): which artifacts are accepted. \<open>Runtime_Install\<close>
    (\<^verbatim>\<open>runtime_install.py\<close>, \<^verbatim>\<open>runtime_launcher.py\<close>): manifests, pointers and the launch plan.
    \<open>Bootstrap\<close> (\<^verbatim>\<open>bootstrap_transactions.py\<close>): the transactions that extract, try, activate, roll back
    and uninstall a runtime. \<open>Runtime_Facts\<close> and \<open>Bootstrap_Facts\<close> show where they write,
    \<open>Bootstrap_Runs\<close> what they leave, and \<open>Bootstrap_Demo\<close> runs them on a concrete host.

  \<^bold>\<open>Correspondence.\<close> A data class is a record with a prefix per class, an exception a constructor of
  the class type with its message, a dict an association list without duplicate keys (the order is
  the insertion order where the code depends on it), a loop with an early exit \<open>foldE\<close>. Functions
  keep their names; where two modules define the same name, or a name clashes with one of the
  library, the module is named in front (\<open>quota_tenant_context\<close>).

  \<^bold>\<open>Parameters.\<close> What is not in the repository is an argument: the texts and paths of the operating
  system (expanding a home directory, resolving a path, \<open>.git\<close> at a directory), \<open>json.loads\<close>, the
  clients of the upstreams (\<open>upstream_env\<close>: their operations act on a world of their own and may
  raise), the environment variables and secret files (\<open>probe_env\<close>), \<open>sha256\<close>, the bytes a socket
  delivers, the readers of archives, the resolution of links and the programs a smoke check runs
  (\<open>runtime_host\<close>), and the conversion of times to ISO text (\<open>iso_clock\<close>, whose only law
  is that reading a written time gives it back; \<open>decimal_clock\<close> is an instance).

  \<^bold>\<open>Bounds.\<close> The search for a git directory walks at most \<open>MAX_WALK\<close> = 64 directories, as the code
  does; the expansion of a text makes the five rounds of the code. No other definition has fuel: every
  loop is structural.

  \<^bold>\<open>What the lemmas show.\<close> Parsers: what an accepted value satisfies, and which exception is raised
  otherwise. Routing: a call that is let through is permitted by the profile, an advertised name
  resolves to its tool, and the two resolvers agree when prefixes are distinct. Concurrency: mutual
  exclusion and absence of deadlock of serialised calls. Shared routing: a call leaves the local edge
  only for an eligible upstream and with an allowing quota. Store: fencing, mutual exclusion until
  the expiry, and recovery. Registries: clients are registered once per upstream and session, sessions
  do not touch each other, every client that was made is registered or stopped (until a stop raises),
  the client of a call is stopped with it.
  Daemon: a forbidden call has no effect, responses are JSON-RPC, and between connections nothing of a
  request is left (over clients that leave its context variables alone, as the modelled ones do). Operator stores: a bypass ends at its expiry, an approval is written once. Stdio
  client: a result belongs to its own call, a timeout leaves nothing of the child. HTTP client: the
  handshake comes first, retries are limited. Supervisor: its
  history follows the life cycle whatever raises, restarts are limited and spaced. Reaper: only
  orphans are killed, and one pass is enough. Layers: the last layer that speaks about a path
  decides it and is named as its origin. Deployments: recovery after a crash at any file operation,
  and rollback. Rollouts: only safe ones are ready, and the audit trail grows. Governance: the
  assigned rule is the best one whatever the order, and what is deployed was published and approved.
  Fleet reports: an export is always accepted by the collection, and no URL, leading path, mail
  address or sensitive word is left in a value. Bootstrap, for a state directory without symbolic links below it: transactions stay in their
  directories whatever the archive is and but for what the tried program itself writes; with a trial
  that only reports, a failed one changes nothing and an applied runtime launches; a rollback is its own
  inverse. Clients' files: rendering keeps what is the user's.

  \<^bold>\<open>Not modelled.\<close> The threads and the flock of the daemon's life cycle, the command line, the relay of
  a client's pipes, service templates and validation reports,
  acceptance checks, repository scripts, the parsing of mutation reports, the reference control plane
  of the governance, the copying of secret files and the watchdog timer. Of the file system below the
  stores: a write either happens or does not, and a crash is the end of a list of writes or a left-over
  partial file (in the distributed store only the latter: its operations are whole steps, and a crash or
  an I/O error between two of their writes is excluded); permissions other than that to execute, and the making of symbolic links, are left out.
\<close>

end
